(* ===== verification/SDM_Prelude.thy ===== *)
theory SDM_Prelude
  imports Main "HOL-Library.Word" "HOL-Library.Monad_Syntax"
begin

text \<open>
  Shared foundation of the development.

  \<^item> Bytes and C buffers: a \<^verbatim>\<open>char*\<close> buffer or a \<^verbatim>\<open>char[n]\<close> member is a list of 8-bit words whose
    length is the number of bytes that may be accessed. An access outside of it is undefined
    behaviour in C; every primitive returns \<^term>\<open>None\<close> there, so a definition that yields
    \<^term>\<open>Some\<close> performed only accesses inside its arrays.
  \<^item> The memory primitives of the C library the sources call: \<^verbatim>\<open>memcpy\<close>, \<^verbatim>\<open>strlen\<close>, \<^verbatim>\<open>strcpy\<close>,
    \<^verbatim>\<open>strncpy\<close>, single stores and loads.
  \<^item> Little-endian encodings of words, with their round trips.
  \<^item> \<open>overlay\<close>: the shape of a buffer after a run of consecutive stores; the marshalling proofs
    are rewriting with its lemmas.
\<close>

unbundle bit_operations_syntax

type_synonym byte = "8 word"
type_synonym buffer = "byte list"

named_theorems buf_simps \<open>evaluation of consecutive buffer accesses\<close>
named_theorems get_at \<open>loads from a buffer whose contents at the position are known\<close>
named_theorems enc_length \<open>lengths of encodings\<close>

lemma bind_head_cong: "x = y \<Longrightarrow> Option.bind x f = Option.bind y f"
  by simp

section \<open>Words as byte strings\<close>

definition word_bytes :: "nat \<Rightarrow> 'a::len word \<Rightarrow> byte list" where
  "word_bytes n w = map (\<lambda>i. ucast (drop_bit (8 * i) w)) [0..<n]"

fun bytes_word :: "byte list \<Rightarrow> 'a::len word" where
  "bytes_word [] = 0"
| "bytes_word (b # bs) = ucast b OR push_bit 8 (bytes_word bs)"

lemma length_word_bytes [simp, enc_length]: "length (word_bytes n w) = n"
  by (simp add: word_bytes_def)

lemma nth_word_bytes: "i < n \<Longrightarrow> word_bytes n w ! i = ucast (drop_bit (8 * i) w)"
  by (simp add: word_bytes_def)

lemma bit_bytes_word:
  "bit (bytes_word bs :: 'a::len word) k \<longleftrightarrow>
     k < LENGTH('a) \<and> k < 8 * length bs \<and> bit (bs ! (k div 8)) (k mod 8)"
proof (induction bs arbitrary: k)
  case Nil
  then show ?case by simp
next
  case (Cons b bs)
  show ?case
  proof (cases "k < 8")
    case True
    then show ?thesis
      by (auto simp: bit_or_iff bit_push_bit_iff bit_ucast_iff dest: bit_imp_le_length)
  next
    case False
    then obtain j where j: "k = j + 8" by (metis add.commute le_Suc_ex not_less)
    have "\<not> bit b (j + 8)" by (auto dest: bit_imp_le_length)
    moreover have "(j + 8) div 8 = Suc (j div 8)" by simp
    ultimately show ?thesis
      using j by (auto simp: bit_or_iff bit_push_bit_iff bit_ucast_iff Cons.IH dest: bit_imp_le_length)
  qed
qed

lemma bytes_word_word_bytes:
  assumes "LENGTH('a) \<le> 8 * n"
  shows "bytes_word (word_bytes n (w :: 'a::len word)) = w"
proof (rule bit_word_eqI)
  fix k assume k: "k < LENGTH('a)"
  then have "k < 8 * n" "k div 8 < n" using assms by auto
  with k show "bit (bytes_word (word_bytes n w) :: 'a word) k = bit w k"
    by (simp add: bit_bytes_word nth_word_bytes bit_ucast_iff bit_drop_bit_eq)
qed

lemma word_bytes_bytes_word:
  assumes "length bs = n" "8 * n \<le> LENGTH('a)"
  shows "word_bytes n (bytes_word bs :: 'a::len word) = bs"
proof (rule nth_equalityI)
  show "length (word_bytes n (bytes_word bs :: 'a word)) = length bs" using assms by simp
next
  fix i assume i: "i < length (word_bytes n (bytes_word bs :: 'a word))"
  show "word_bytes n (bytes_word bs :: 'a word) ! i = bs ! i"
  proof (rule bit_word_eqI)
    fix k assume k: "k < LENGTH(8)"
    then have "(8 * i + k) div 8 = i" "(8 * i + k) mod 8 = k" by auto
    moreover have "8 * i + k < 8 * n" using i k by simp
    ultimately show "bit (word_bytes n (bytes_word bs :: 'a word) ! i) k = bit (bs ! i) k"
      using i k assms by (simp add: nth_word_bytes bit_ucast_iff bit_drop_bit_eq bit_bytes_word)
  qed
qed

lemma bytes_word_16 [simp]: "bytes_word (word_bytes 2 (w :: 16 word)) = w"
  by (rule bytes_word_word_bytes) simp

lemma bytes_word_32 [simp]: "bytes_word (word_bytes 4 (w :: 32 word)) = w"
  by (rule bytes_word_word_bytes) simp

lemma bytes_word_64 [simp]: "bytes_word (word_bytes 8 (w :: 64 word)) = w"
  by (rule bytes_word_word_bytes) simp

section \<open>Buffer accesses\<close>

definition put_bytes :: "buffer \<Rightarrow> nat \<Rightarrow> byte list \<Rightarrow> buffer option" where
  "put_bytes buf pos bs =
     (if pos + length bs \<le> length buf
      then Some (take pos buf @ bs @ drop (pos + length bs) buf) else None)"

definition get_bytes :: "buffer \<Rightarrow> nat \<Rightarrow> nat \<Rightarrow> byte list option" where
  "get_bytes buf pos n = (if pos + n \<le> length buf then Some (take n (drop pos buf)) else None)"

text \<open>\<open>buf[pos] = b\<close> and \<open>buf[pos]\<close>.\<close>

definition put_byte :: "buffer \<Rightarrow> nat \<Rightarrow> byte \<Rightarrow> buffer option" where
  "put_byte buf pos b = put_bytes buf pos [b]"

definition get_byte :: "buffer \<Rightarrow> nat \<Rightarrow> byte option" where
  "get_byte buf pos = (if pos < length buf then Some (buf ! pos) else None)"

text \<open>\<open>strlen(buf + pos)\<close>: no terminator inside the buffer means that the scan leaves it.\<close>

definition strlen :: "buffer \<Rightarrow> nat \<Rightarrow> nat option" where
  "strlen buf pos =
     (if 0 \<in> set (drop pos buf) then Some (length (takeWhile (\<lambda>b. b \<noteq> 0) (drop pos buf))) else None)"

text \<open>\<open>memcpy(dst + dpos, src + spos, n)\<close>.\<close>

definition memcpy :: "buffer \<Rightarrow> nat \<Rightarrow> buffer \<Rightarrow> nat \<Rightarrow> nat \<Rightarrow> buffer option" where
  "memcpy dst dpos src spos n = do { bs \<leftarrow> get_bytes src spos n; put_bytes dst dpos bs }"

text \<open>\<open>strcpy(dst + dpos, src + spos)\<close> copies up to and including the terminator.\<close>

definition strcpy :: "buffer \<Rightarrow> nat \<Rightarrow> buffer \<Rightarrow> nat \<Rightarrow> buffer option" where
  "strcpy dst dpos src spos = do { n \<leftarrow> strlen src spos; memcpy dst dpos src spos (n + 1) }"

text \<open>
  \<open>strncpy(dst + dpos, src + spos, n)\<close> reads at most \<open>n\<close> bytes of the source, stops at the
  terminator and pads with zeros up to \<open>n\<close> bytes.
\<close>

definition strncpy :: "buffer \<Rightarrow> nat \<Rightarrow> buffer \<Rightarrow> nat \<Rightarrow> nat \<Rightarrow> buffer option" where
  "strncpy dst dpos src spos n =
     (let s = takeWhile (\<lambda>b. b \<noteq> 0) (take n (drop spos src)) in
      if 0 \<in> set (take n (drop spos src)) \<or> spos + n \<le> length src
      then put_bytes dst dpos (s @ replicate (n - length s) 0) else None)"

text \<open>The C string held in an array: its bytes up to the terminator.\<close>

definition cstr :: "buffer \<Rightarrow> byte list" where
  "cstr a = takeWhile (\<lambda>b. b \<noteq> 0) a"

definition is_cstr :: "nat \<Rightarrow> buffer \<Rightarrow> bool" where
  "is_cstr n a \<longleftrightarrow> length a = n \<and> 0 \<in> set a"

section \<open>Consecutive stores\<close>

definition overlay :: "nat \<Rightarrow> byte list \<Rightarrow> buffer \<Rightarrow> buffer" where
  "overlay k s buf = take k buf @ s @ drop (k + length s) buf"

lemma overlay_Nil: "overlay k [] buf = buf"
  by (simp add: overlay_def)

lemma length_overlay: "k + length s \<le> length buf \<Longrightarrow> length (overlay k s buf) = length buf"
  by (simp add: overlay_def)

lemma put_bytes_overlay [buf_simps]:
  assumes "n = k + length s" "n + length bs \<le> length buf"
  shows "put_bytes (overlay k s buf) n bs = Some (overlay k (s @ bs) buf)"
proof -
  have "length (overlay k s buf) = length buf" by (rule length_overlay) (use assms in simp)
  moreover have "min (length buf) k = k" using assms by simp
  ultimately show ?thesis using assms by (simp add: put_bytes_def overlay_def ac_simps)
qed

lemma put_bytes_None: "length buf < pos + length bs \<Longrightarrow> put_bytes buf pos bs = None"
  by (simp add: put_bytes_def)

lemma put_byte_overlay [buf_simps]:
  assumes "n = k + length s" "n < length buf"
  shows "put_byte (overlay k s buf) n b = Some (overlay k (s @ [b]) buf)"
  unfolding put_byte_def by (rule put_bytes_overlay) (use assms in simp_all)

lemma drop_overlay: "k \<le> length buf \<Longrightarrow> drop k (overlay k s buf) = s @ drop (k + length s) buf"
  by (simp add: overlay_def)

lemma put_bytes_length: "put_bytes buf pos bs = Some buf' \<Longrightarrow> length buf' = length buf"
  by (auto simp: put_bytes_def split: if_splits)

lemma put_bytes_0: "length bs \<le> length buf \<Longrightarrow> put_bytes buf 0 bs = Some (bs @ drop (length bs) buf)"
  by (simp add: put_bytes_def)

lemma put_bytes_append:
  assumes "length p = n" "length bs \<le> length q"
  shows "put_bytes (p @ q) n bs = Some (p @ bs @ drop (length bs) q)"
  using assms by (simp add: put_bytes_def)

section \<open>Consecutive loads\<close>

lemma get_bytes_drop:
  assumes "drop pos buf = bs @ rest" "length bs = n" "pos \<le> length buf"
  shows "get_bytes buf pos n = Some bs"
proof -
  have "length buf - pos = n + length rest"
    using assms(1,2) by (metis length_append length_drop)
  with assms show ?thesis by (simp add: get_bytes_def)
qed

lemma get_bytes_prefix [buf_simps]:
  assumes "length p = pos" "length bs = n"
  shows "get_bytes (p @ bs @ rest) pos n = Some bs"
  using assms by (simp add: get_bytes_def)

lemma get_byte_prefix [buf_simps]:
  assumes "length p = pos"
  shows "get_byte (p @ b # rest) pos = Some b"
  using assms by (auto simp: get_byte_def)

lemma strlen_prefix [buf_simps]:
  assumes "length p = pos" "0 \<notin> set s"
  shows "strlen (p @ s @ 0 # rest) pos = Some (length s)"
proof -
  have "takeWhile (\<lambda>b. b \<noteq> 0) (s @ 0 # rest) = s"
    using assms(2) by (auto simp: takeWhile_append2 takeWhile_tail)
  with assms show ?thesis by (simp add: strlen_def)
qed

lemma cstr_no_null [simp]: "0 \<notin> set (cstr a)"
  by (auto simp: cstr_def dest: set_takeWhileD)

lemma is_cstr_split:
  assumes "is_cstr n a"
  obtains r where "a = cstr a @ 0 # r" "n = length (cstr a) + 1 + length r"
proof -
  from assms have "0 \<in> set a" by (simp add: is_cstr_def)
  then have "dropWhile (\<lambda>b. b \<noteq> 0) a \<noteq> []" by (auto simp: dropWhile_eq_Nil_conv)
  then obtain b r where br: "dropWhile (\<lambda>b. b \<noteq> 0) a = b # r" by (cases "dropWhile (\<lambda>b. b \<noteq> 0) a") auto
  then have "b = 0" using hd_dropWhile[of "\<lambda>b. b \<noteq> 0" a] by auto
  with br have eq: "a = cstr a @ 0 # r" unfolding cstr_def by (metis takeWhile_dropWhile_id)
  then have "n = length (cstr a) + 1 + length r"
    using assms unfolding is_cstr_def by (metis One_nat_def Suc_eq_plus1_left add.assoc length_Cons length_append)
  with eq show thesis by (rule that)
qed

lemma is_cstr_length: "is_cstr n a \<Longrightarrow> length a = n"
  by (simp add: is_cstr_def)

lemma is_cstr_len: "is_cstr n a \<Longrightarrow> length (cstr a) < n"
  by (erule is_cstr_split) linarith

lemma cstr_append_null [simp]: "0 \<notin> set s \<Longrightarrow> cstr (s @ 0 # r) = s"
  by (auto simp: cstr_def takeWhile_append2 takeWhile_tail)

lemma drop_nonempty_le: "drop n buf = b # rest \<Longrightarrow> n < length buf"
  by (metis drop_all list.distinct(1) not_less)

lemma get_byte_at [get_at]: "drop n buf = b # rest \<Longrightarrow> get_byte buf n = Some b"
  using drop_nonempty_le [of n buf b rest] by (simp add: get_byte_def) (metis nth_via_drop)

lemma get_bytes_at [get_at]:
  assumes "drop n buf = bs @ rest" "length bs = k" "0 < k"
  shows "get_bytes buf n k = Some bs"
proof -
  have "length buf - n = k + length rest" using assms(1,2) by (metis length_append length_drop)
  with assms show ?thesis by (simp add: get_bytes_def)
qed

lemma strlen_at [get_at]:
  assumes "drop n buf = s @ 0 # rest" "0 \<notin> set s"
  shows "strlen buf n = Some (length s)"
  using assms cstr_append_null [of s rest] by (simp add: strlen_def cstr_def)

text \<open>A \<^verbatim>\<open>char[n]\<close> member that receives a terminated string with the bounded-copy idiom of the message
  classes: \<open>strncpy\<close> of the whole member, then a terminator in its last byte if the source was too long.\<close>

definition copy_bounded :: "buffer \<Rightarrow> buffer \<Rightarrow> nat \<Rightarrow> (buffer \<times> nat) option" where
  "copy_bounded fld buf cur = do {
     uiCurLength \<leftarrow> strlen buf cur;
     fld \<leftarrow> strncpy fld 0 buf cur (length fld);
     fld \<leftarrow> (if uiCurLength > length fld - 1 then put_byte fld (length fld - 1) 0 else Some fld);
     Some (fld, uiCurLength) }"

lemma copy_bounded_at [get_at]:
  assumes "drop n buf = s @ 0 # rest" "0 \<notin> set s" "length s < length fld"
  shows "copy_bounded fld buf n = Some (s @ replicate (length fld - length s) 0, length s)"
proof -
  have t: "take (length fld) (s @ 0 # rest) = s @ 0 # take (length fld - Suc (length s)) rest"
    using assms(3) by (simp add: take_Cons')
  have "takeWhile (\<lambda>b. b \<noteq> 0) (s @ 0 # take (length fld - Suc (length s)) rest) = s"
    using assms(2) by (metis cstr_append_null cstr_def)
  then have "strncpy fld 0 buf n (length fld) = Some (s @ replicate (length fld - length s) 0)"
    using assms(1,3) t by (simp add: strncpy_def Let_def put_bytes_def)
  with assms show ?thesis by (simp add: copy_bounded_def strlen_at) linarith
qed

lemma cstr_padded: "0 \<notin> set s \<Longrightarrow> 0 < k \<Longrightarrow> cstr (s @ replicate k 0) = s"
  by (cases k) simp_all

lemma is_cstr_padded: "length s < n \<Longrightarrow> is_cstr n (s @ replicate (n - length s) 0)"
  by (simp add: is_cstr_def)

lemma strlen_0: "is_cstr n a \<Longrightarrow> strlen a 0 = Some (length (cstr a))"
  by (simp add: strlen_def is_cstr_def cstr_def)

lemma get_bytes_cstr:
  assumes "is_cstr n a"
  shows "get_bytes a 0 (length (cstr a)) = Some (cstr a)"
    and "get_bytes a 0 (Suc (length (cstr a))) = Some (cstr a @ [0])"
proof -
  from assms obtain r where "a = cstr a @ 0 # r" by (rule is_cstr_split)
  then have "take (length (cstr a)) a = cstr a" "take (Suc (length (cstr a))) a = cstr a @ [0]"
      "Suc (length (cstr a)) \<le> length a"
    by (metis append_eq_conv_conj, metis append_eq_conv_conj append_Cons append_Nil append_assoc length_append_singleton,
        metis add_Suc_right le_add1 length_Cons length_append add_Suc)
  then show "get_bytes a 0 (length (cstr a)) = Some (cstr a)"
    "get_bytes a 0 (Suc (length (cstr a))) = Some (cstr a @ [0])"
    by (simp_all add: get_bytes_def)
qed

lemma memcpy_overlay [buf_simps]:
  assumes "get_bytes src spos c = Some bs" "n = k + length s" "n + length bs \<le> length buf"
  shows "memcpy (overlay k s buf) n src spos c = Some (overlay k (s @ bs) buf)"
  using assms by (simp add: memcpy_def put_bytes_overlay)

lemma strcpy_overlay [buf_simps]:
  assumes "is_cstr m a" "n = k + length s" "n + length (cstr a) + 1 \<le> length buf"
  shows "strcpy (overlay k s buf) n a 0 = Some (overlay k (s @ cstr a @ [0]) buf)"
  using assms by (simp add: strcpy_def strlen_0 memcpy_overlay get_bytes_cstr)

lemma strncpy_overlay [buf_simps]:
  assumes "is_cstr m a" "n = k + length s" "n + length (cstr a) + 1 \<le> length buf"
  shows "strncpy (overlay k s buf) n a 0 (Suc (length (cstr a))) = Some (overlay k (s @ cstr a @ [0]) buf)"
proof -
  from assms(1) have t: "take (Suc (length (cstr a))) a = cstr a @ [0]"
    using get_bytes_cstr(2) [of m a] by (simp add: get_bytes_def split: if_splits)
  have "takeWhile (\<lambda>b. b \<noteq> 0) (cstr a @ [0]) = cstr a"
    using cstr_append_null [OF cstr_no_null, of a "[]"] unfolding cstr_def .
  with t assms(2,3) show ?thesis
    by (simp add: strncpy_def Let_def put_bytes_overlay)
qed

text \<open>\<open>memcpy\<close> with a count computed in a signed type: a negative count is an enormous \<^verbatim>\<open>size_t\<close>.\<close>

definition memcpy_int :: "buffer \<Rightarrow> nat \<Rightarrow> buffer \<Rightarrow> nat \<Rightarrow> int \<Rightarrow> buffer option" where
  "memcpy_int dst dpos src spos n = (if n < 0 then None else memcpy dst dpos src spos (nat n))"

lemma memcpy_int_nat [buf_simps, get_at]: "memcpy_int dst dpos src spos (int n) = memcpy dst dpos src spos n"
  by (simp add: memcpy_int_def)

lemma strcpy_at [get_at]:
  assumes "drop n buf = s @ 0 # rest" "0 \<notin> set s" "length s < length fld"
  shows "strcpy fld 0 buf n = Some (s @ 0 # drop (Suc (length s)) fld)"
proof -
  have "get_bytes buf n (Suc (length s)) = Some (s @ [0])"
    by (rule get_bytes_at [where rest = rest]) (use assms(1) in simp_all)
  with assms show ?thesis by (simp add: strcpy_def strlen_at memcpy_def put_bytes_def)
qed

lemma is_cstr_overwrite: "length s < length fld \<Longrightarrow> length fld = n \<Longrightarrow> is_cstr n (s @ 0 # drop (Suc (length s)) fld)"
  by (simp add: is_cstr_def)

lemma memcpy_at [get_at]:
  assumes "drop n buf = bs @ rest" "length bs = k" "k \<le> length fld" "n \<le> length buf"
  shows "memcpy fld 0 buf n k = Some (bs @ drop k fld)"
  using assms get_bytes_drop [OF assms(1,2,4)] by (simp add: memcpy_def put_bytes_def)

text \<open>The bytes of a string literal, without its terminator.\<close>

definition chars :: "string \<Rightarrow> byte list" where
  "chars s = map of_char s"

section \<open>Searching an array\<close>

text \<open>The loops over an array that stop at the first element with a property.\<close>

primrec first_index :: "('a \<Rightarrow> bool) \<Rightarrow> 'a list \<Rightarrow> nat option" where
  "first_index p [] = None"
| "first_index p (x # xs) = (if p x then Some 0 else map_option Suc (first_index p xs))"

lemma first_index_Some:
  "first_index p xs = Some n \<Longrightarrow> n < length xs \<and> p (xs ! n) \<and> (\<forall>i<n. \<not> p (xs ! i))"
proof (induction xs arbitrary: n)
  case (Cons x xs)
  show ?case
  proof (cases "p x")
    case False
    then obtain m where "first_index p xs = Some m" "n = Suc m" using Cons.prems by auto
    with Cons.IH False show ?thesis by (auto simp: nth_Cons split: nat.splits)
  qed (use Cons.prems in simp)
qed simp

lemma first_index_None: "first_index p xs = None \<longleftrightarrow> (\<forall>x\<in>set xs. \<not> p x)"
  by (induction xs) auto

lemma first_index_eq:
  "n < length xs \<Longrightarrow> p (xs ! n) \<Longrightarrow> (\<And>i. i < n \<Longrightarrow> \<not> p (xs ! i)) \<Longrightarrow> first_index p xs = Some n"
proof (induction xs arbitrary: n)
  case (Cons x xs)
  show ?case
  proof (cases n)
    case (Suc m)
    have "first_index p xs = Some m"
      by (rule Cons.IH) (use Cons.prems Suc in \<open>auto, metis Suc_less_eq nth_Cons_Suc\<close>)
    moreover have "\<not> p x" using Cons.prems(3) [of 0] Suc by simp
    ultimately show ?thesis using Suc by simp
  qed (use Cons.prems in simp)
qed simp

end
