(* ===== verification/Marshall.thy ===== *)
theory Marshall
  imports SDM_Prelude
begin

text \<open>
  \<^verbatim>\<open>sdm/common/marshall.h\<close> and \<^verbatim>\<open>sdm/common/marshall.c\<close>: the byte order of SDM messages.

  SDM's network order is little endian. The header has two implementations of the \<^verbatim>\<open>GET_*\<close> and
  \<^verbatim>\<open>PUT_*\<close> macros: casts to a wider pointer with a conditional byte swap (\<open>PUT_TYPE2\<close>, ...), used on
  hosts of either byte order, and calls into \<^verbatim>\<open>marshall.c\<close> (\<open>marshall_put16\<close>, ...), which swap the bytes
  of the object representation one by one and serve the big-endian targets. Both are modelled over
  an explicit host byte order; the lemmas show that the macros on both orders and \<^verbatim>\<open>marshall.c\<close> on a big-endian
  host store and load the same little-endian byte strings, so the message classes use the little-endian host's macros.

  The \<open>long\<close> of the sources is 32 bits wide (the macros say so: ``these assume a 32-bit
  architecture''). A \<^verbatim>\<open>float\<close> or \<^verbatim>\<open>double\<close> is its 32 or 64 bit representation: the code only moves bytes.
\<close>

section \<open>Host byte order\<close>

datatype endian = Little | Big

definition native_bytes :: "endian \<Rightarrow> nat \<Rightarrow> 'a::len word \<Rightarrow> byte list" where
  "native_bytes e n w = (case e of Little \<Rightarrow> word_bytes n w | Big \<Rightarrow> rev (word_bytes n w))"

definition native_word :: "endian \<Rightarrow> byte list \<Rightarrow> 'a::len word" where
  "native_word e bs = (case e of Little \<Rightarrow> bytes_word bs | Big \<Rightarrow> bytes_word (rev bs))"

section \<open>Byte swaps (marshall.h)\<close>

definition bswap_16 :: "16 word \<Rightarrow> 16 word" where
  "bswap_16 x = (drop_bit 8 x AND 0xff) OR push_bit 8 (x AND 0xff)"

definition bswap_32 :: "32 word \<Rightarrow> 32 word" where
  "bswap_32 x =
     push_bit 24 (0x000000FF AND x) OR push_bit 8 (0x0000FF00 AND x)
     OR drop_bit 8 (0x00FF0000 AND x) OR drop_bit 24 (0xFF000000 AND x)"

definition bswap_64 :: "64 word \<Rightarrow> 64 word" where
  "bswap_64 x =
     drop_bit 56 (x AND 0xff00000000000000) OR drop_bit 40 (x AND 0x00ff000000000000)
     OR drop_bit 24 (x AND 0x0000ff0000000000) OR drop_bit 8 (x AND 0x000000ff00000000)
     OR push_bit 8 (x AND 0x00000000ff000000) OR push_bit 24 (x AND 0x0000000000ff0000)
     OR push_bit 40 (x AND 0x000000000000ff00) OR push_bit 56 (x AND 0x00000000000000ff)"

definition SDM_htons :: "endian \<Rightarrow> 16 word \<Rightarrow> 16 word" where
  "SDM_htons e x = (case e of Little \<Rightarrow> x | Big \<Rightarrow> bswap_16 x)"

definition SDM_htonl :: "endian \<Rightarrow> 32 word \<Rightarrow> 32 word" where
  "SDM_htonl e x = (case e of Little \<Rightarrow> x | Big \<Rightarrow> bswap_32 x)"

definition SDM_htonll :: "endian \<Rightarrow> 64 word \<Rightarrow> 64 word" where
  "SDM_htonll e x = (case e of Little \<Rightarrow> x | Big \<Rightarrow> bswap_64 x)"

section \<open>The pointer-cast macros (marshall.h)\<close>

definition GET_TYPE1 :: "buffer \<Rightarrow> nat \<Rightarrow> byte option" where
  "GET_TYPE1 buf pos = get_byte buf pos"

definition GET_TYPE2 :: "endian \<Rightarrow> buffer \<Rightarrow> nat \<Rightarrow> 16 word option" where
  "GET_TYPE2 e buf pos = do { bs \<leftarrow> get_bytes buf pos 2; Some (SDM_htons e (native_word e bs)) }"

definition GET_TYPE4 :: "endian \<Rightarrow> buffer \<Rightarrow> nat \<Rightarrow> 32 word option" where
  "GET_TYPE4 e buf pos = do { bs \<leftarrow> get_bytes buf pos 4; Some (SDM_htonl e (native_word e bs)) }"

definition GET_TYPE8 :: "endian \<Rightarrow> buffer \<Rightarrow> nat \<Rightarrow> 64 word option" where
  "GET_TYPE8 e buf pos = do { bs \<leftarrow> get_bytes buf pos 8; Some (SDM_htonll e (native_word e bs)) }"

definition PUT_TYPE1 :: "buffer \<Rightarrow> nat \<Rightarrow> byte \<Rightarrow> buffer option" where
  "PUT_TYPE1 buf pos v = put_byte buf pos v"

definition PUT_TYPE2 :: "endian \<Rightarrow> buffer \<Rightarrow> nat \<Rightarrow> 16 word \<Rightarrow> buffer option" where
  "PUT_TYPE2 e buf pos v = put_bytes buf pos (native_bytes e 2 (SDM_htons e v))"

definition PUT_TYPE4 :: "endian \<Rightarrow> buffer \<Rightarrow> nat \<Rightarrow> 32 word \<Rightarrow> buffer option" where
  "PUT_TYPE4 e buf pos v = put_bytes buf pos (native_bytes e 4 (SDM_htonl e v))"

definition PUT_TYPE8 :: "endian \<Rightarrow> buffer \<Rightarrow> nat \<Rightarrow> 64 word \<Rightarrow> buffer option" where
  "PUT_TYPE8 e buf pos v = put_bytes buf pos (native_bytes e 8 (SDM_htonll e v))"

section \<open>The byte-by-byte routines (marshall.c)\<close>

definition BSWAP_2 :: "byte list \<Rightarrow> byte list" where
  "BSWAP_2 s = [s ! 1, s ! 0]"

definition BSWAP_4 :: "byte list \<Rightarrow> byte list" where
  "BSWAP_4 s = [s ! 3, s ! 2, s ! 1, s ! 0]"

definition BSWAP_8 :: "byte list \<Rightarrow> byte list" where
  "BSWAP_8 s = [s ! 7, s ! 6, s ! 5, s ! 4, s ! 3, s ! 2, s ! 1, s ! 0]"

definition marshall_get64 :: "endian \<Rightarrow> buffer \<Rightarrow> nat \<Rightarrow> 64 word option" where
  "marshall_get64 e buf pos = do { bs \<leftarrow> get_bytes buf pos 8; Some (native_word e (BSWAP_8 bs)) }"

definition marshall_getdouble :: "endian \<Rightarrow> buffer \<Rightarrow> nat \<Rightarrow> 64 word option" where
  "marshall_getdouble e buf pos = do { bs \<leftarrow> get_bytes buf pos 8; Some (native_word e (BSWAP_8 bs)) }"

definition marshall_get32 :: "endian \<Rightarrow> buffer \<Rightarrow> nat \<Rightarrow> 32 word option" where
  "marshall_get32 e buf pos = do { bs \<leftarrow> get_bytes buf pos 4; Some (native_word e (BSWAP_4 bs)) }"

definition marshall_getfloat :: "endian \<Rightarrow> buffer \<Rightarrow> nat \<Rightarrow> 32 word option" where
  "marshall_getfloat e buf pos = do { bs \<leftarrow> get_bytes buf pos 4; Some (native_word e (BSWAP_4 bs)) }"

definition marshall_get16 :: "endian \<Rightarrow> buffer \<Rightarrow> nat \<Rightarrow> 16 word option" where
  "marshall_get16 e buf pos = do { bs \<leftarrow> get_bytes buf pos 2; Some (native_word e (BSWAP_2 bs)) }"

definition marshall_get8 :: "buffer \<Rightarrow> nat \<Rightarrow> byte option" where
  "marshall_get8 buf pos = get_byte buf pos"

definition marshall_put64 :: "endian \<Rightarrow> buffer \<Rightarrow> nat \<Rightarrow> 64 word \<Rightarrow> buffer option" where
  "marshall_put64 e buf pos v = put_bytes buf pos (BSWAP_8 (native_bytes e 8 v))"

definition marshall_putdouble :: "endian \<Rightarrow> buffer \<Rightarrow> nat \<Rightarrow> 64 word \<Rightarrow> buffer option" where
  "marshall_putdouble e buf pos v = put_bytes buf pos (BSWAP_8 (native_bytes e 8 v))"

definition marshall_put32 :: "endian \<Rightarrow> buffer \<Rightarrow> nat \<Rightarrow> 32 word \<Rightarrow> buffer option" where
  "marshall_put32 e buf pos v = put_bytes buf pos (BSWAP_4 (native_bytes e 4 v))"

definition marshall_putfloat :: "endian \<Rightarrow> buffer \<Rightarrow> nat \<Rightarrow> 32 word \<Rightarrow> buffer option" where
  "marshall_putfloat e buf pos v = put_bytes buf pos (BSWAP_4 (native_bytes e 4 v))"

definition marshall_put16 :: "endian \<Rightarrow> buffer \<Rightarrow> nat \<Rightarrow> 16 word \<Rightarrow> buffer option" where
  "marshall_put16 e buf pos v = put_bytes buf pos (BSWAP_2 (native_bytes e 2 v))"

definition marshall_put8 :: "buffer \<Rightarrow> nat \<Rightarrow> byte \<Rightarrow> buffer option" where
  "marshall_put8 buf pos v = put_byte buf pos v"

section \<open>The macros the message classes use\<close>

abbreviation PUT_CHAR :: "buffer \<Rightarrow> nat \<Rightarrow> byte \<Rightarrow> buffer option" where "PUT_CHAR \<equiv> PUT_TYPE1"
abbreviation PUT_UCHAR :: "buffer \<Rightarrow> nat \<Rightarrow> byte \<Rightarrow> buffer option" where "PUT_UCHAR \<equiv> PUT_TYPE1"
abbreviation PUT_SHORT :: "buffer \<Rightarrow> nat \<Rightarrow> 16 word \<Rightarrow> buffer option" where "PUT_SHORT \<equiv> PUT_TYPE2 Little"
abbreviation PUT_USHORT :: "buffer \<Rightarrow> nat \<Rightarrow> 16 word \<Rightarrow> buffer option" where "PUT_USHORT \<equiv> PUT_TYPE2 Little"
abbreviation PUT_INT :: "buffer \<Rightarrow> nat \<Rightarrow> 32 word \<Rightarrow> buffer option" where "PUT_INT \<equiv> PUT_TYPE4 Little"
abbreviation PUT_UINT :: "buffer \<Rightarrow> nat \<Rightarrow> 32 word \<Rightarrow> buffer option" where "PUT_UINT \<equiv> PUT_TYPE4 Little"
abbreviation PUT_LONG :: "buffer \<Rightarrow> nat \<Rightarrow> 32 word \<Rightarrow> buffer option" where "PUT_LONG \<equiv> PUT_TYPE4 Little"
abbreviation PUT_ULONG :: "buffer \<Rightarrow> nat \<Rightarrow> 32 word \<Rightarrow> buffer option" where "PUT_ULONG \<equiv> PUT_TYPE4 Little"
abbreviation GET_CHAR :: "buffer \<Rightarrow> nat \<Rightarrow> byte option" where "GET_CHAR \<equiv> GET_TYPE1"
abbreviation GET_UCHAR :: "buffer \<Rightarrow> nat \<Rightarrow> byte option" where "GET_UCHAR \<equiv> GET_TYPE1"
abbreviation GET_SHORT :: "buffer \<Rightarrow> nat \<Rightarrow> 16 word option" where "GET_SHORT \<equiv> GET_TYPE2 Little"
abbreviation GET_USHORT :: "buffer \<Rightarrow> nat \<Rightarrow> 16 word option" where "GET_USHORT \<equiv> GET_TYPE2 Little"
abbreviation GET_INT :: "buffer \<Rightarrow> nat \<Rightarrow> 32 word option" where "GET_INT \<equiv> GET_TYPE4 Little"
abbreviation GET_UINT :: "buffer \<Rightarrow> nat \<Rightarrow> 32 word option" where "GET_UINT \<equiv> GET_TYPE4 Little"
abbreviation GET_LONG :: "buffer \<Rightarrow> nat \<Rightarrow> 32 word option" where "GET_LONG \<equiv> GET_TYPE4 Little"
abbreviation GET_ULONG :: "buffer \<Rightarrow> nat \<Rightarrow> 32 word option" where "GET_ULONG \<equiv> GET_TYPE4 Little"

section \<open>Lemmas\<close>

lemma upt_2: "[0..<2] = [0, Suc 0]"
  by (simp add: upt_rec numeral_2_eq_2)

lemma upt_4: "[0..<4] = [0, 1, 2, 3]"
  by (simp add: upt_rec)

lemma upt_8: "[0..<8] = [0, 1, 2, 3, 4, 5, 6, 7]"
  by (simp add: upt_rec)

lemma BSWAP_2_rev: "length s = 2 \<Longrightarrow> BSWAP_2 s = rev s"
  by (auto simp: BSWAP_2_def numeral_eq_Suc length_Suc_conv)

lemma BSWAP_4_rev: "length s = 4 \<Longrightarrow> BSWAP_4 s = rev s"
  by (auto simp: BSWAP_4_def numeral_eq_Suc length_Suc_conv)

lemma BSWAP_8_rev: "length s = 8 \<Longrightarrow> BSWAP_8 s = rev s"
  by (auto simp: BSWAP_8_def numeral_eq_Suc length_Suc_conv)

lemma masks_32:
  "(0x000000FF :: 32 word) = mask 8" "(0x0000FF00 :: 32 word) = push_bit 8 (mask 8)"
  "(0x00FF0000 :: 32 word) = push_bit 16 (mask 8)" "(0xFF000000 :: 32 word) = push_bit 24 (mask 8)"
  by (simp_all add: mask_eq_exp_minus_1 push_bit_eq_mult)

lemma masks_64:
  "(0x00000000000000ff :: 64 word) = mask 8" "(0x000000000000ff00 :: 64 word) = push_bit 8 (mask 8)"
  "(0x0000000000ff0000 :: 64 word) = push_bit 16 (mask 8)" "(0x00000000ff000000 :: 64 word) = push_bit 24 (mask 8)"
  "(0x000000ff00000000 :: 64 word) = push_bit 32 (mask 8)" "(0x0000ff0000000000 :: 64 word) = push_bit 40 (mask 8)"
  "(0x00ff000000000000 :: 64 word) = push_bit 48 (mask 8)" "(0xff00000000000000 :: 64 word) = push_bit 56 (mask 8)"
  by (simp_all add: mask_eq_exp_minus_1 push_bit_eq_mult)

lemmas bswap_bits = bit_or_iff bit_and_iff bit_push_bit_iff bit_drop_bit_eq bit_mask_iff bit_ucast_iff

lemma word_bytes_bswap_16: "word_bytes 2 (bswap_16 x) = rev (word_bytes 2 x)"
proof -
  have m: "(0xff :: 16 word) = mask 8" by (simp add: mask_eq_exp_minus_1)
  show ?thesis unfolding word_bytes_def bswap_16_def m upt_2
    by (auto simp: bswap_bits intro!: bit_word_eqI)
qed

lemma word_bytes_bswap_32: "word_bytes 4 (bswap_32 x) = rev (word_bytes 4 x)"
  unfolding word_bytes_def bswap_32_def masks_32 upt_4
  by (auto simp: bswap_bits intro!: bit_word_eqI)

lemma word_bytes_bswap_64: "word_bytes 8 (bswap_64 x) = rev (word_bytes 8 x)"
  unfolding word_bytes_def bswap_64_def masks_64 upt_8
  by (auto simp: bswap_bits intro!: bit_word_eqI)

text \<open>Every store puts the little-endian bytes, whatever the host and the implementation.\<close>

lemma PUT_TYPE2_bytes: "PUT_TYPE2 e buf pos v = put_bytes buf pos (word_bytes 2 v)"
  by (cases e) (simp_all add: PUT_TYPE2_def native_bytes_def SDM_htons_def word_bytes_bswap_16)

lemma PUT_TYPE4_bytes: "PUT_TYPE4 e buf pos v = put_bytes buf pos (word_bytes 4 v)"
  by (cases e) (simp_all add: PUT_TYPE4_def native_bytes_def SDM_htonl_def word_bytes_bswap_32)

lemma PUT_TYPE8_bytes: "PUT_TYPE8 e buf pos v = put_bytes buf pos (word_bytes 8 v)"
  by (cases e) (simp_all add: PUT_TYPE8_def native_bytes_def SDM_htonll_def word_bytes_bswap_64)

lemma marshall_put_bytes:
  "marshall_put16 Big buf pos v2 = put_bytes buf pos (word_bytes 2 v2)"
  "marshall_put32 Big buf pos v4 = put_bytes buf pos (word_bytes 4 v4)"
  "marshall_put64 Big buf pos v8 = put_bytes buf pos (word_bytes 8 v8)"
  by (simp_all add: marshall_put16_def marshall_put32_def marshall_put64_def native_bytes_def
        BSWAP_2_rev BSWAP_4_rev BSWAP_8_rev)

lemma get_bytes_length: "get_bytes buf pos n = Some bs \<Longrightarrow> length bs = n"
  by (auto simp: get_bytes_def split: if_splits)

lemma bswap_bytes_word_16: "length bs = 2 \<Longrightarrow> bswap_16 (bytes_word (rev bs)) = bytes_word bs"
  using bytes_word_16 [of "bswap_16 (bytes_word (rev bs))"]
  by (simp add: word_bytes_bswap_16 word_bytes_bytes_word)

lemma bswap_bytes_word_32: "length bs = 4 \<Longrightarrow> bswap_32 (bytes_word (rev bs)) = bytes_word bs"
  using bytes_word_32 [of "bswap_32 (bytes_word (rev bs))"]
  by (simp add: word_bytes_bswap_32 word_bytes_bytes_word)

lemma bswap_bytes_word_64: "length bs = 8 \<Longrightarrow> bswap_64 (bytes_word (rev bs)) = bytes_word bs"
  using bytes_word_64 [of "bswap_64 (bytes_word (rev bs))"]
  by (simp add: word_bytes_bswap_64 word_bytes_bytes_word)

lemma bswap_32_involutive [simp]: "bswap_32 (bswap_32 x) = x"
  using bytes_word_32 [of "bswap_32 (bswap_32 x)"] by (simp add: word_bytes_bswap_32)

text \<open>Every load reads little-endian bytes.\<close>

lemma GET_TYPE2_bytes: "GET_TYPE2 e buf pos = map_option bytes_word (get_bytes buf pos 2)"
  by (cases e; cases "get_bytes buf pos 2")
    (auto simp: GET_TYPE2_def native_word_def SDM_htons_def bswap_bytes_word_16 dest: get_bytes_length)

lemma GET_TYPE4_bytes: "GET_TYPE4 e buf pos = map_option bytes_word (get_bytes buf pos 4)"
  by (cases e; cases "get_bytes buf pos 4")
    (auto simp: GET_TYPE4_def native_word_def SDM_htonl_def bswap_bytes_word_32 dest: get_bytes_length)

lemma GET_TYPE8_bytes: "GET_TYPE8 e buf pos = map_option bytes_word (get_bytes buf pos 8)"
  by (cases e; cases "get_bytes buf pos 8")
    (auto simp: GET_TYPE8_def native_word_def SDM_htonll_def bswap_bytes_word_64 dest: get_bytes_length)

lemma marshall_get_bytes:
  "marshall_get16 Big buf pos = map_option bytes_word (get_bytes buf pos 2)"
  "marshall_get32 Big buf pos = map_option bytes_word (get_bytes buf pos 4)"
  "marshall_get64 Big buf pos = map_option bytes_word (get_bytes buf pos 8)"
  by (cases "get_bytes buf pos 2", auto simp: marshall_get16_def native_word_def BSWAP_2_rev dest: get_bytes_length)
    (cases "get_bytes buf pos 4", auto simp: marshall_get32_def native_word_def BSWAP_4_rev dest: get_bytes_length,
     cases "get_bytes buf pos 8", auto simp: marshall_get64_def native_word_def BSWAP_8_rev dest: get_bytes_length)

lemmas put_simps = PUT_TYPE1_def PUT_TYPE2_bytes PUT_TYPE4_bytes PUT_TYPE8_bytes
lemmas get_simps = GET_TYPE1_def GET_TYPE2_bytes GET_TYPE4_bytes GET_TYPE8_bytes

text \<open>On a little-endian host the swaps of \<^verbatim>\<open>marshall.c\<close> turn the bytes around.\<close>

lemma marshall_put_little:
  "marshall_put16 Little buf pos v2 = put_bytes buf pos (rev (word_bytes 2 v2))"
  "marshall_put32 Little buf pos v4 = put_bytes buf pos (rev (word_bytes 4 v4))"
  "marshall_put64 Little buf pos v8 = put_bytes buf pos (rev (word_bytes 8 v8))"
  by (simp_all add: marshall_put16_def marshall_put32_def marshall_put64_def native_bytes_def
        BSWAP_2_rev BSWAP_4_rev BSWAP_8_rev)

lemma marshall_get_little:
  "marshall_get16 Little buf pos = map_option (\<lambda>bs. bytes_word (rev bs)) (get_bytes buf pos 2)"
  "marshall_get32 Little buf pos = map_option (\<lambda>bs. bytes_word (rev bs)) (get_bytes buf pos 4)"
  "marshall_get64 Little buf pos = map_option (\<lambda>bs. bytes_word (rev bs)) (get_bytes buf pos 8)"
  by (cases "get_bytes buf pos 2", auto simp: marshall_get16_def native_word_def BSWAP_2_rev dest: get_bytes_length)
    (cases "get_bytes buf pos 4", auto simp: marshall_get32_def native_word_def BSWAP_4_rev dest: get_bytes_length,
     cases "get_bytes buf pos 8", auto simp: marshall_get64_def native_word_def BSWAP_8_rev dest: get_bytes_length)

text \<open>
  C24. Host and implementation independence of the wire format. The pointer-cast macros on a
  little- and on a big-endian host and the routines of \<^verbatim>\<open>marshall.c\<close> on a big-endian host store the same
  bytes at every position of every buffer, and load the same values, for 16, 32 and 64 bits; a store
  or load outside of the buffer is an error in all of them. The routines of \<^verbatim>\<open>marshall.c\<close> are for
  big-endian hosts only: on a little-endian one they store and load the reverse of the bytes that the macros do.
\<close>

theorem marshall_host_independent:
  "PUT_TYPE2 e buf pos v2 = marshall_put16 Big buf pos v2
   \<and> PUT_TYPE4 e buf pos v4 = marshall_put32 Big buf pos v4
   \<and> PUT_TYPE8 e buf pos v8 = marshall_put64 Big buf pos v8
   \<and> GET_TYPE2 e buf pos = marshall_get16 Big buf pos
   \<and> GET_TYPE4 e buf pos = marshall_get32 Big buf pos
   \<and> GET_TYPE8 e buf pos = marshall_get64 Big buf pos
   \<and> PUT_TYPE2 e buf pos v2 = put_bytes buf pos (word_bytes 2 v2)
   \<and> PUT_TYPE4 e buf pos v4 = put_bytes buf pos (word_bytes 4 v4)
   \<and> PUT_TYPE8 e buf pos v8 = put_bytes buf pos (word_bytes 8 v8)
   \<and> marshall_put16 Little buf pos v2 = put_bytes buf pos (rev (word_bytes 2 v2))
   \<and> marshall_put32 Little buf pos v4 = put_bytes buf pos (rev (word_bytes 4 v4))
   \<and> marshall_put64 Little buf pos v8 = put_bytes buf pos (rev (word_bytes 8 v8))
   \<and> marshall_get16 Little buf pos = map_option (\<lambda>bs. bytes_word (rev bs)) (get_bytes buf pos 2)
   \<and> marshall_get32 Little buf pos = map_option (\<lambda>bs. bytes_word (rev bs)) (get_bytes buf pos 4)
   \<and> marshall_get64 Little buf pos = map_option (\<lambda>bs. bytes_word (rev bs)) (get_bytes buf pos 8)"
  by (simp add: put_simps get_simps marshall_put_bytes marshall_get_bytes marshall_put_little marshall_get_little)

lemma get_put_bytes: "put_bytes buf pos bs = Some buf' \<Longrightarrow> get_bytes buf' pos (length bs) = Some bs"
  by (auto simp: put_bytes_def get_bytes_def split: if_splits)

text \<open>
  Round trip between hosts: what a host of either byte order stores with the pointer-cast
  macros, a big-endian target loads unchanged through \<^verbatim>\<open>marshall.c\<close>, and the store touches no
  other byte of the buffer.
\<close>

theorem marshall_cross_host_roundtrip:
  assumes "PUT_TYPE4 e buf pos v = Some buf'"
  shows "marshall_get32 Big buf' pos = Some v \<and> GET_TYPE4 e' buf' pos = Some v
    \<and> take pos buf' = take pos buf \<and> drop (pos + 4) buf' = drop (pos + 4) buf"
proof -
  from assms have put: "put_bytes buf pos (word_bytes 4 v) = Some buf'" by (simp add: put_simps)
  then have "get_bytes buf' pos 4 = Some (word_bytes 4 v)" using get_put_bytes by fastforce
  then have "marshall_get32 Big buf' pos = Some v" "GET_TYPE4 e' buf' pos = Some v"
    by (simp_all add: marshall_get_bytes get_simps)
  moreover from put have "take pos buf' = take pos buf" "drop (pos + 4) buf' = drop (pos + 4) buf"
    by (auto simp: put_bytes_def split: if_splits)
  ultimately show ?thesis by simp
qed

theorem marshall_cross_host_roundtrip_witness:
  "marshall_get32 Big [0, 0x78, 0x56, 0x34, 0x12, 9] 1 = Some 0x12345678"
proof -
  have "PUT_TYPE4 Big [0, 0, 0, 0, 0, 9] 1 0x12345678 = Some [0, 0x78, 0x56, 0x34, 0x12, 9]"
    by (simp add: put_simps put_bytes_def word_bytes_def upt_4)
  from marshall_cross_host_roundtrip [OF this] show ?thesis by simp
qed

section \<open>Stores and loads at a cursor\<close>

lemma PUT_overlay [buf_simps]:
  "n = k + length s \<Longrightarrow> n < length buf \<Longrightarrow> PUT_TYPE1 (overlay k s buf) n b = Some (overlay k (s @ [b]) buf)"
  "n = k + length s \<Longrightarrow> n + 2 \<le> length buf \<Longrightarrow>
     PUT_TYPE2 e (overlay k s buf) n v2 = Some (overlay k (s @ word_bytes 2 v2) buf)"
  "n = k + length s \<Longrightarrow> n + 4 \<le> length buf \<Longrightarrow>
     PUT_TYPE4 e (overlay k s buf) n v4 = Some (overlay k (s @ word_bytes 4 v4) buf)"
  by (simp_all add: put_simps buf_simps)

lemma GET_at [get_at]:
  "drop n buf = b # rest \<Longrightarrow> GET_TYPE1 buf n = Some b"
  "drop n buf = word_bytes 2 (v2 :: 16 word) @ rest \<Longrightarrow> GET_TYPE2 e buf n = Some v2"
  "drop n buf = word_bytes 4 (v4 :: 32 word) @ rest \<Longrightarrow> GET_TYPE4 e buf n = Some v4"
  by (simp_all add: get_simps get_at)

end
