(* ===== verification/Message_IDs.thy ===== *)
theory Message_IDs
  imports Marshall
begin

text \<open>
  \<^verbatim>\<open>sdm/common/message/SDMComponent_ID.cpp\<close> and \<^verbatim>\<open>SDMMessage_ID.cpp\<close>: the two identifiers every
  message carries. A component id is an IP address (kept in network byte order in memory), a port
  and a sensor id; a message id is an interface number and a message number. \<open>id_bytes\<close> and
  \<open>mid_bytes\<close> are their encodings, the abstract specification of the two \<open>Marshal\<close> methods.
\<close>

section \<open>SDMComponent\_ID\<close>

record SDMComponent_ID =
  m_ulSensorId :: "32 word"
  m_ulAddress :: "32 word"
  m_usPort :: "16 word"

definition SDMComponent_ID_new :: SDMComponent_ID where
  "SDMComponent_ID_new = \<lparr>m_ulSensorId = 0, m_ulAddress = 0, m_usPort = 0\<rparr>"

definition SDMComponent_ID_assign :: "SDMComponent_ID \<Rightarrow> SDMComponent_ID \<Rightarrow> SDMComponent_ID" where
  "SDMComponent_ID_assign a b =
     a\<lparr>m_ulSensorId := m_ulSensorId b, m_ulAddress := m_ulAddress b, m_usPort := m_usPort b\<rparr>"

definition SDMComponent_ID_eq :: "SDMComponent_ID \<Rightarrow> SDMComponent_ID \<Rightarrow> bool" where
  "SDMComponent_ID_eq a b =
     (if m_ulSensorId a = m_ulSensorId b then
        if m_ulAddress a = m_ulAddress b then
          if m_usPort a = m_usPort b then True else False
        else False
      else False)"

definition SDMComponent_ID_Marshal ::
  "endian \<Rightarrow> SDMComponent_ID \<Rightarrow> buffer \<Rightarrow> nat \<Rightarrow> (buffer \<times> nat) option" where
  "SDMComponent_ID_Marshal e c buf start = do {
     let cur = 0;
     let ulSwappedAddr = bswap_32 (m_ulAddress c);
     buf \<leftarrow> put_bytes buf start (native_bytes e 4 ulSwappedAddr);
     let cur = cur + 4;
     buf \<leftarrow> PUT_TYPE2 e buf (start + cur) (m_usPort c);
     let cur = cur + 2;
     buf \<leftarrow> PUT_TYPE4 e buf (start + cur) (m_ulSensorId c);
     let cur = cur + 4;
     Some (buf, cur) }"

definition SDMComponent_ID_Unmarshal ::
  "endian \<Rightarrow> SDMComponent_ID \<Rightarrow> buffer \<Rightarrow> nat \<Rightarrow> (SDMComponent_ID \<times> nat) option" where
  "SDMComponent_ID_Unmarshal e c buf start = do {
     let cur = 0;
     bs \<leftarrow> get_bytes buf start 4;
     let ulSwappedAddr = native_word e bs;
     let c = c\<lparr>m_ulAddress := bswap_32 ulSwappedAddr\<rparr>;
     let cur = cur + 4;
     port \<leftarrow> GET_TYPE2 e buf (start + cur);
     let c = c\<lparr>m_usPort := port\<rparr>;
     let cur = cur + 2;
     sid \<leftarrow> GET_TYPE4 e buf (start + cur);
     let c = c\<lparr>m_ulSensorId := sid\<rparr>;
     let cur = cur + 4;
     Some (c, cur) }"

definition SDMComponent_ID_isEmpty :: "SDMComponent_ID \<Rightarrow> bool" where
  "SDMComponent_ID_isEmpty c =
     (if m_ulSensorId c = 0 then if m_ulAddress c = 0 then if m_usPort c = 0 then True else False
      else False else False)"

section \<open>SDMMessage\_ID\<close>

record SDMMessage_ID =
  mid_interface :: byte
  mid_message :: byte

definition SDMMessage_ID_new :: "byte \<Rightarrow> byte \<Rightarrow> SDMMessage_ID" where
  "SDMMessage_ID_new i m = \<lparr>mid_interface = i, mid_message = m\<rparr>"

text \<open>The overloads that take an \<^verbatim>\<open>int\<close> keep its lowest byte.\<close>

definition SDMMessage_ID_setInterface :: "SDMMessage_ID \<Rightarrow> 32 word \<Rightarrow> SDMMessage_ID" where
  "SDMMessage_ID_setInterface d n = d\<lparr>mid_interface := ucast (n AND 0xFF)\<rparr>"

definition SDMMessage_ID_setMessage :: "SDMMessage_ID \<Rightarrow> 32 word \<Rightarrow> SDMMessage_ID" where
  "SDMMessage_ID_setMessage d n = d\<lparr>mid_message := ucast (n AND 0xFF)\<rparr>"

definition SDMMessage_ID_new_int :: "32 word \<Rightarrow> 32 word \<Rightarrow> SDMMessage_ID" where
  "SDMMessage_ID_new_int i m =
     SDMMessage_ID_setMessage (SDMMessage_ID_setInterface \<lparr>mid_interface = 0, mid_message = 0\<rparr> i) m"

definition SDMMessage_ID_getInterfaceMessagePair :: "SDMMessage_ID \<Rightarrow> 16 word" where
  "SDMMessage_ID_getInterfaceMessagePair d =
     ucast ((ucast (mid_message d) :: 32 word) + push_bit 8 (ucast (mid_interface d)))"

definition SDMMessage_ID_eq :: "SDMMessage_ID \<Rightarrow> SDMMessage_ID \<Rightarrow> bool" where
  "SDMMessage_ID_eq a b =
     (if mid_message a = mid_message b then if mid_interface a = mid_interface b then True else False
      else False)"

text \<open>
  Comparison with a \<^verbatim>\<open>short\<close>: the operands are promoted to \<^verbatim>\<open>int\<close>, so \<open>other >> 8\<close> is an arithmetic
  shift of a sign-extended value.
\<close>

definition SDMMessage_ID_eq_short :: "SDMMessage_ID \<Rightarrow> 16 word \<Rightarrow> bool" where
  "SDMMessage_ID_eq_short d other =
     (if (ucast (mid_interface d) :: 32 word) = signed_drop_bit 8 (scast other) then
        if (ucast (mid_message d) :: 32 word) = scast other AND 0x00FF then True else False
      else False)"

definition SDMMessage_ID_assign_int :: "SDMMessage_ID \<Rightarrow> 32 word \<Rightarrow> SDMMessage_ID" where
  "SDMMessage_ID_assign_int d v =
     d\<lparr>mid_interface := ucast (drop_bit 8 (0x0000ff00 AND v)), mid_message := ucast (0x000000ff AND v)\<rparr>"

definition SDMMessage_ID_Marshal :: "SDMMessage_ID \<Rightarrow> buffer \<Rightarrow> nat \<Rightarrow> (buffer \<times> nat) option" where
  "SDMMessage_ID_Marshal d buf start = do {
     let cur = 0;
     buf \<leftarrow> PUT_UCHAR buf start (mid_interface d);
     buf \<leftarrow> PUT_UCHAR buf (start + 1) (mid_message d);
     let cur = cur + 2;
     Some (buf, cur) }"

definition SDMMessage_ID_Unmarshal :: "SDMMessage_ID \<Rightarrow> buffer \<Rightarrow> nat \<Rightarrow> (SDMMessage_ID \<times> nat) option" where
  "SDMMessage_ID_Unmarshal d buf start = do {
     let cur = 0;
     i \<leftarrow> GET_UCHAR buf start;
     let d = d\<lparr>mid_interface := i\<rparr>;
     m \<leftarrow> GET_UCHAR buf (start + 1);
     let d = d\<lparr>mid_message := m\<rparr>;
     let cur = cur + 2;
     Some (d, cur) }"

section \<open>Encodings\<close>

definition id_bytes :: "SDMComponent_ID \<Rightarrow> byte list" where
  "id_bytes c = word_bytes 4 (bswap_32 (m_ulAddress c)) @ word_bytes 2 (m_usPort c) @ word_bytes 4 (m_ulSensorId c)"

definition mid_bytes :: "SDMMessage_ID \<Rightarrow> byte list" where
  "mid_bytes d = [mid_interface d, mid_message d]"

lemma length_id_bytes [simp, enc_length]: "length (id_bytes c) = 10"
  by (simp add: id_bytes_def)

lemma length_mid_bytes [simp, enc_length]: "length (mid_bytes d) = 2"
  by (simp add: mid_bytes_def)

abbreviation id_Marshal :: "SDMComponent_ID \<Rightarrow> buffer \<Rightarrow> nat \<Rightarrow> (buffer \<times> nat) option" where
  "id_Marshal \<equiv> SDMComponent_ID_Marshal Little"

abbreviation id_Unmarshal :: "SDMComponent_ID \<Rightarrow> buffer \<Rightarrow> nat \<Rightarrow> (SDMComponent_ID \<times> nat) option" where
  "id_Unmarshal \<equiv> SDMComponent_ID_Unmarshal Little"

lemma id_Marshal_overlay [buf_simps]:
  assumes "n = k + length s" "n + 10 \<le> length buf"
  shows "id_Marshal c (overlay k s buf) n = Some (overlay k (s @ id_bytes c) buf, 10)"
  using assms by (simp add: SDMComponent_ID_Marshal_def native_bytes_def buf_simps id_bytes_def)

lemma mid_Marshal_overlay [buf_simps]:
  assumes "n = k + length s" "n + 2 \<le> length buf"
  shows "SDMMessage_ID_Marshal d (overlay k s buf) n = Some (overlay k (s @ mid_bytes d) buf, 2)"
  using assms by (simp add: SDMMessage_ID_Marshal_def buf_simps mid_bytes_def)

lemma id_Unmarshal_eq:
  "id_Unmarshal c0 buf n =
     (if n + 10 \<le> length buf
      then Some (\<lparr>m_ulSensorId = bytes_word (take 4 (drop (n + 6) buf)),
                  m_ulAddress = bswap_32 (bytes_word (take 4 (drop n buf))),
                  m_usPort = bytes_word (take 2 (drop (n + 4) buf))\<rparr>, 10)
      else None)"
  by (cases c0) (auto simp: SDMComponent_ID_Unmarshal_def get_simps get_bytes_def native_word_def)

lemma mid_Unmarshal_eq:
  "SDMMessage_ID_Unmarshal d0 buf n =
     (if n + 2 \<le> length buf then Some (\<lparr>mid_interface = buf ! n, mid_message = buf ! (n + 1)\<rparr>, 2) else None)"
  by (cases d0) (auto simp: SDMMessage_ID_Unmarshal_def get_simps get_byte_def)

lemma id_Unmarshal_at [get_at]:
  assumes "drop n buf = id_bytes c @ rest"
  shows "id_Unmarshal c0 buf n = Some (c, 10)"
proof -
  have len: "length (drop n buf) = 10 + length rest" using assms by simp
  have d: "drop (n + k) buf = drop k (id_bytes c @ rest)" for k
    using assms by (metis add.commute drop_drop)
  have "take 4 (drop n buf) = word_bytes 4 (bswap_32 (m_ulAddress c))"
    "take 2 (drop (n + 4) buf) = word_bytes 2 (m_usPort c)"
    "take 4 (drop (n + 6) buf) = word_bytes 4 (m_ulSensorId c)"
    unfolding d using assms by (simp_all add: id_bytes_def)
  then show ?thesis using len by (simp add: id_Unmarshal_eq)
qed

lemma mid_Unmarshal_at [get_at]:
  assumes "drop n buf = mid_bytes d @ rest"
  shows "SDMMessage_ID_Unmarshal d0 buf n = Some (d, 2)"
proof -
  have len: "length (drop n buf) = 2 + length rest" using assms by simp
  then have "buf ! n = drop n buf ! 0" "buf ! (n + 1) = drop n buf ! 1" "n + 2 \<le> length buf" by auto
  then show ?thesis using assms by (simp add: mid_Unmarshal_eq mid_bytes_def)
qed

section \<open>Properties\<close>

lemma native_bytes_bswap_32: "native_bytes e 4 (bswap_32 a) = rev (native_bytes e 4 a)"
  by (cases e) (simp_all add: native_bytes_def word_bytes_bswap_32)

lemma id_Marshal_bytes:
  "SDMComponent_ID_Marshal e c buf n =
     (if n + 10 \<le> length buf
      then Some (overlay n (rev (native_bytes e 4 (m_ulAddress c)) @ word_bytes 2 (m_usPort c)
                            @ word_bytes 4 (m_ulSensorId c)) buf, 10) else None)"
proof (cases "n + 10 \<le> length buf")
  case True
  have "length (native_bytes e 4 (m_ulAddress c)) = 4" by (cases e) (simp_all add: native_bytes_def)
  with True show ?thesis
    by (subst (1) overlay_Nil [symmetric, of _ n])
      (simp add: SDMComponent_ID_Marshal_def native_bytes_bswap_32 buf_simps)
next
  case False
  have "length (native_bytes e 4 x) = 4" for x :: "32 word" by (cases e) (simp_all add: native_bytes_def)
  with False show ?thesis
    by (simp add: SDMComponent_ID_Marshal_def put_simps put_bytes_def Let_def Option.bind_eq_None_conv) linarith
qed

text \<open>
  Component ids survive a transfer between hosts of different byte order. A host of byte order
  \<open>e\<close> marshals an id, a host of byte order \<open>e'\<close> unmarshals it at the same place: port and sensor id
  have the same values and the IP address has the same bytes in memory, that is the same network
  byte order address, so the sockets layer of both hosts addresses the same node.
\<close>

theorem SDMComponent_ID_cross_host:
  assumes "SDMComponent_ID_Marshal e c buf start = Some (buf', n)"
  shows "\<exists>c'. SDMComponent_ID_Unmarshal e' c0 buf' start = Some (c', n)
    \<and> m_usPort c' = m_usPort c \<and> m_ulSensorId c' = m_ulSensorId c
    \<and> native_bytes e' 4 (m_ulAddress c') = native_bytes e 4 (m_ulAddress c)"
proof -
  let ?a = "rev (native_bytes e 4 (m_ulAddress c))"
  let ?s = "?a @ word_bytes 2 (m_usPort c) @ word_bytes 4 (m_ulSensorId c)"
  from assms have fits: "start + 10 \<le> length buf" and buf': "buf' = overlay start ?s buf" and n: "n = 10"
    by (auto simp: id_Marshal_bytes split: if_splits)
  have la: "length ?a = 4" by (cases e) (simp_all add: native_bytes_def)
  have d: "drop start buf' = ?s @ drop (start + 10) buf"
    using fits la by (simp add: buf' drop_overlay)
  have d4: "drop (start + k) buf' = drop k (?s @ drop (start + 10) buf)" for k
    using d by (metis add.commute drop_drop)
  have "GET_TYPE2 e' buf' (start + 4) = Some (m_usPort c)" "GET_TYPE4 e' buf' (6 + start) = Some (m_ulSensorId c)"
    using la by (simp_all add: GET_at d4 add.commute [of 6])
  moreover have "get_bytes buf' start 4 = Some ?a" using la by (simp add: get_bytes_at d)
  moreover have "native_bytes e' 4 (bswap_32 (native_word e' ?a)) = native_bytes e 4 (m_ulAddress c)"
    unfolding native_bytes_bswap_32 using la
    by (cases e') (simp_all add: native_bytes_def native_word_def word_bytes_bytes_word)
  ultimately show ?thesis using n by (simp add: SDMComponent_ID_Unmarshal_def)
qed

theorem SDMComponent_ID_cross_host_witness:
  "\<exists>c'. SDMComponent_ID_Unmarshal Big SDMComponent_ID_new
        (overlay 1 [1, 0, 0, 127, 0xA4, 0x0D, 9, 0, 0, 0] (replicate 12 0)) 1 = Some (c', 10)
    \<and> m_usPort c' = 3492 \<and> m_ulSensorId c' = 9 \<and> native_bytes Big 4 (m_ulAddress c') = [127, 0, 0, 1]"
proof -
  have m: "SDMComponent_ID_Marshal Little \<lparr>m_ulSensorId = 9, m_ulAddress = 0x0100007f, m_usPort = 3492\<rparr> (replicate 12 0) 1
      = Some (overlay 1 [1, 0, 0, 127, 0xA4, 0x0D, 9, 0, 0, 0] (replicate 12 0), 10)"
    by code_simp
  have net: "native_bytes Little 4 (0x0100007f :: 32 word) = [127, 0, 0, 1]" by code_simp
  from SDMComponent_ID_cross_host [OF m, of Big SDMComponent_ID_new] show ?thesis
    using net by (simp only: SDMComponent_ID.simps)
qed

lemma component_assign [simp]: "SDMComponent_ID_assign a b = b"
  by (cases a; cases b) (simp add: SDMComponent_ID_assign_def)

lemma SDMComponent_ID_eq_iff: "SDMComponent_ID_eq a b \<longleftrightarrow> a = b"
  by (cases a; cases b) (auto simp: SDMComponent_ID_eq_def)

lemma SDMMessage_ID_eq_iff: "SDMMessage_ID_eq a b \<longleftrightarrow> a = b"
  by (cases a; cases b) (auto simp: SDMMessage_ID_eq_def)

lemma bit_message_pair:
  "bit (SDMMessage_ID_getInterfaceMessagePair d) k \<longleftrightarrow>
     k < 16 \<and> (if k < 8 then bit (mid_message d) k else bit (mid_interface d) (k - 8))"
proof -
  have "(ucast (mid_message d) :: 32 word) + push_bit 8 (ucast (mid_interface d)) =
      ucast (mid_message d) OR push_bit 8 (ucast (mid_interface d))"
    by (rule disjunctive_add) (auto simp: bit_simps dest: bit_imp_le_length)
  then show ?thesis
    by (auto simp: SDMMessage_ID_getInterfaceMessagePair_def bit_simps dest: bit_imp_le_length)
qed

text \<open>
  The 16-bit form of a message id identifies it (it is injective), but the comparison of an id
  with a \<^verbatim>\<open>short\<close> recognises the id's own 16-bit form only for interface numbers below 128: from 128
  on the promoted \<^verbatim>\<open>short\<close> is negative and \<open>other >> 8\<close> never equals the interface number.
\<close>

theorem SDMMessage_ID_pair_identifies:
  "(SDMMessage_ID_getInterfaceMessagePair a = SDMMessage_ID_getInterfaceMessagePair b \<longleftrightarrow> a = b)
   \<and> (SDMMessage_ID_eq_short a (SDMMessage_ID_getInterfaceMessagePair a) \<longleftrightarrow> uint (mid_interface a) < 128)"
proof
  show "SDMMessage_ID_getInterfaceMessagePair a = SDMMessage_ID_getInterfaceMessagePair b \<longleftrightarrow> a = b"
  proof
    assume eq: "SDMMessage_ID_getInterfaceMessagePair a = SDMMessage_ID_getInterfaceMessagePair b"
    have "bit (mid_message a) k = bit (mid_message b) k \<and> bit (mid_interface a) k = bit (mid_interface b) k"
      if "k < 8" for k
      using that bit_message_pair [of a k] bit_message_pair [of b k]
        bit_message_pair [of a "k + 8"] bit_message_pair [of b "k + 8"] eq by simp
    then have "mid_message a = mid_message b" "mid_interface a = mid_interface b"
      by (auto intro!: bit_word_eqI)
    then show "a = b" by (cases a; cases b) simp
  qed simp
next
  let ?p = "SDMMessage_ID_getInterfaceMessagePair a"
  have msg: "(ucast (mid_message a) :: 32 word) = scast ?p AND 0x00FF"
    by (rule bit_word_eqI) (auto simp: bit_simps masks_32(1) bit_message_pair dest: bit_imp_le_length)
  have hi: "bit (signed_drop_bit 8 (scast ?p :: 32 word)) k \<longleftrightarrow>
      k < 32 \<and> (if k < 8 then bit (mid_interface a) k else bit (mid_interface a) 7)" for k
    by (cases "k = 7") (auto simp: bit_signed_drop_bit_iff bit_signed_iff bit_message_pair min_def)
  have top: "bit (mid_interface a) 7 \<longleftrightarrow> \<not> uint (mid_interface a) < 128"
  proof -
    have "uint (mid_interface a) < 256" using uint_lt2p [of "mid_interface a"] by simp
    moreover have "bit (mid_interface a) 7 \<longleftrightarrow> odd (uint (mid_interface a) div 128)"
      using bit_uint_iff [of "mid_interface a" 7] by (simp add: bit_iff_odd [of "uint (mid_interface a)"])
    moreover have "odd (u div 128) \<longleftrightarrow> \<not> u < 128" if "0 \<le> u" "u < 256" for u :: int
    proof -
      have "u div 128 = 0 \<or> u div 128 = 1" using that by linarith
      moreover have "u div 128 = 0 \<longleftrightarrow> u < 128" using that by linarith
      ultimately show ?thesis by auto
    qed
    ultimately show ?thesis by simp
  qed
  show "SDMMessage_ID_eq_short a ?p \<longleftrightarrow> uint (mid_interface a) < 128"
  proof (cases "bit (mid_interface a) 7")
    case True
    then have "bit (signed_drop_bit 8 (scast ?p :: 32 word)) 8 \<noteq> bit (ucast (mid_interface a) :: 32 word) 8"
      by (auto simp: hi bit_ucast_iff dest: bit_imp_le_length)
    then show ?thesis using True top by (auto simp: SDMMessage_ID_eq_short_def)
  next
    case False
    then have "(ucast (mid_interface a) :: 32 word) = signed_drop_bit 8 (scast ?p)"
      using bit_imp_le_length [of "mid_interface a"]
      by (auto simp: hi bit_ucast_iff split: if_splits intro!: bit_word_eqI)
    then show ?thesis using False top msg by (simp add: SDMMessage_ID_eq_short_def)
  qed
qed

end
