(* ===== verification/Message_Base.thy ===== *)
theory Message_Base
  imports Message_IDs
begin

text \<open>
  \<^verbatim>\<open>sdm/common/message/SDMmessage.cpp\<close>, \<^verbatim>\<open>SDMmessage.h\<close>, \<^verbatim>\<open>sdm/common/message_defs.h\<close>: the base class of all
  messages, its header, and the transport methods that every class inherits.

  The C++ class hierarchy is a hierarchy of extensible records: a derived class extends
  \<open>SDMmessage\<close>, and the base-class methods are polymorphic in the extension. The virtual methods
  \<open>Marshal\<close> and \<open>Unmarshal\<close> are arguments of the transport functions, and their contract is the
  locale \<open>sdm_class\<close>; the derived classes interpret it. The sockets layer is an environment of type
  \<open>net\<close>: what each connect, send and receive of the run returns. Uninitialised stack memory
  (the buffers of the send methods) is an explicit argument.
\<close>

section \<open>Constants (message\_defs.h, SDMmessage.h)\<close>

abbreviation (input) SDM_RegPM :: byte where "SDM_RegPM \<equiv> 0x61"
abbreviation (input) SDM_Task :: byte where "SDM_Task \<equiv> 0x62"
abbreviation (input) SDM_ReqCode :: byte where "SDM_ReqCode \<equiv> 0x63"
abbreviation (input) SDM_Code :: byte where "SDM_Code \<equiv> 0x64"
abbreviation (input) SDM_Kill :: byte where "SDM_Kill \<equiv> 0x65"
abbreviation (input) SDM_Heartbeat :: byte where "SDM_Heartbeat \<equiv> 0x68"
abbreviation (input) SDM_PostTask :: byte where "SDM_PostTask \<equiv> 0x69"
abbreviation (input) SDM_Consume :: byte where "SDM_Consume \<equiv> 0x6c"
abbreviation (input) SDM_Cancel :: byte where "SDM_Cancel \<equiv> 0x6d"
abbreviation (input) SDM_ReqReg :: byte where "SDM_ReqReg \<equiv> 0x6e"
abbreviation (input) SDM_RegInfo :: byte where "SDM_RegInfo \<equiv> 0x6f"
abbreviation (input) SDM_xTEDS :: byte where "SDM_xTEDS \<equiv> 0x71"
abbreviation (input) SDM_CancelxTEDS :: byte where "SDM_CancelxTEDS \<equiv> 0x72"
abbreviation (input) SDM_Data :: byte where "SDM_Data \<equiv> 0x74"
abbreviation (input) SDM_Subreqst :: byte where "SDM_Subreqst \<equiv> 0x75"
abbreviation (input) SDM_Deletesub :: byte where "SDM_Deletesub \<equiv> 0x76"
abbreviation (input) SDM_Service :: byte where "SDM_Service \<equiv> 0x78"
abbreviation (input) SDM_Serreqst :: byte where "SDM_Serreqst \<equiv> 0x79"
abbreviation (input) SDM_Command :: byte where "SDM_Command \<equiv> 0x7a"
abbreviation (input) SDM_ReqxTEDS :: byte where "SDM_ReqxTEDS \<equiv> 0x41"
abbreviation (input) SDM_xTEDSInfo :: byte where "SDM_xTEDSInfo \<equiv> 0x42"
abbreviation (input) SDM_Error :: byte where "SDM_Error \<equiv> 0x43"
abbreviation (input) SDM_Ready :: byte where "SDM_Ready \<equiv> 0x44"
abbreviation (input) SDM_TaskFinished :: byte where "SDM_TaskFinished \<equiv> 0x45"
abbreviation (input) SDM_ReqPort :: byte where "SDM_ReqPort \<equiv> 0x46"
abbreviation (input) SDM_ACK :: byte where "SDM_ACK \<equiv> 0x47"
abbreviation (input) SDM_Tat :: byte where "SDM_Tat \<equiv> 0x48"
abbreviation (input) SDM_Search :: byte where "SDM_Search \<equiv> 0x49"
abbreviation (input) SDM_SearchReply :: byte where "SDM_SearchReply \<equiv> 0x4a"
abbreviation (input) SDM_DMLeader :: byte where "SDM_DMLeader \<equiv> 0x4b"
abbreviation (input) SDM_Election :: byte where "SDM_Election \<equiv> 0x4c"
abbreviation (input) SDM_VarReq :: byte where "SDM_VarReq \<equiv> 0x4e"
abbreviation (input) SDM_VarInfo :: byte where "SDM_VarInfo \<equiv> 0x4f"
abbreviation (input) SDM_Hello :: byte where "SDM_Hello \<equiv> 0x50"
abbreviation (input) SDM_Register :: byte where "SDM_Register \<equiv> 0x51"
abbreviation (input) SDM_ID :: byte where "SDM_ID \<equiv> 0x52"
abbreviation (input) SDM_TaskError :: byte where "SDM_TaskError \<equiv> 0x54"

abbreviation (input) SDM_MESSAGE_SEND_ERROR :: int where "SDM_MESSAGE_SEND_ERROR \<equiv> - 1"
abbreviation (input) SDM_MESSAGE_RECV_ERROR :: int where "SDM_MESSAGE_RECV_ERROR \<equiv> - 2"
abbreviation (input) SDM_INVALID_MESSAGE :: int where "SDM_INVALID_MESSAGE \<equiv> - 3"
abbreviation (input) SDM_NO_FURTHER_DATA_PROVIDER :: int where "SDM_NO_FURTHER_DATA_PROVIDER \<equiv> - 4"
abbreviation (input) SDM_NO_FURTHER_XTEDS :: int where "SDM_NO_FURTHER_XTEDS \<equiv> - 6"
abbreviation (input) SDM_INVALID_SELECT :: int where "SDM_INVALID_SELECT \<equiv> - 8"
abbreviation (input) SDM_UNABLE_TO_REGISTER :: int where "SDM_UNABLE_TO_REGISTER \<equiv> - 9"
abbreviation (input) SDM_PM_NOT_AVAILABLE :: int where "SDM_PM_NOT_AVAILABLE \<equiv> - 15"

abbreviation (input) HEADER_SIZE :: nat where "HEADER_SIZE \<equiv> 11"
abbreviation (input) BUFSIZE :: nat where "BUFSIZE \<equiv> 24288"
abbreviation (input) LARGE_MSG_BUFSIZE :: nat where "LARGE_MSG_BUFSIZE \<equiv> 24288"
abbreviation (input) NUMRETRIES :: nat where "NUMRETRIES \<equiv> 5"
abbreviation (input) IP_SOCK_INVALID :: int where "IP_SOCK_INVALID \<equiv> - 1"
abbreviation (input) PORT_TM :: "16 word" where "PORT_TM \<equiv> 3510"
abbreviation (input) PORT_DM :: "16 word" where "PORT_DM \<equiv> 3504"
abbreviation (input) PORT_DM_ELECTION :: "16 word" where "PORT_DM_ELECTION \<equiv> 3505"
abbreviation (input) PORT_PM :: "16 word" where "PORT_PM \<equiv> 3508"
abbreviation (input) PORT_APP_START :: int where "PORT_APP_START \<equiv> 4000"
abbreviation (input) MAX_FILENAME_SIZE :: nat where "MAX_FILENAME_SIZE \<equiv> 128"
abbreviation (input) XTEDS_MAX_ITEM_NAME_SIZE :: nat where "XTEDS_MAX_ITEM_NAME_SIZE \<equiv> 33"
abbreviation (input) MSG_DEF_SIZE :: nat where "MSG_DEF_SIZE \<equiv> (BUFSIZE - 27) div 2"

section \<open>The base class and its header\<close>

record SDMmessage =
  MsgName :: byte
  sec :: "32 word"
  subsec :: "32 word"
  msg_length :: "16 word"
  total_length :: "16 word"
  bound :: int

type_synonym timeval = "32 word \<times> 32 word"

text \<open>\<open>now\<close> is what \<open>gettimeofday\<close> returns.\<close>

definition MarshalHeader ::
  "timeval \<Rightarrow> 'a SDMmessage_scheme \<Rightarrow> buffer \<Rightarrow> ('a SDMmessage_scheme \<times> buffer \<times> nat) option" where
  "MarshalHeader now m buf = do {
     let m = m\<lparr>sec := fst now\<rparr>;
     let m = m\<lparr>subsec := snd now\<rparr>;
     buf \<leftarrow> put_byte buf 0 (MsgName m);
     buf \<leftarrow> PUT_LONG buf 1 (sec m);
     buf \<leftarrow> PUT_LONG buf 5 (subsec m);
     buf \<leftarrow> PUT_USHORT buf 9 (msg_length m);
     Some (m, buf, HEADER_SIZE) }"

definition MarshalHeaderOldTimeStamp :: "'a SDMmessage_scheme \<Rightarrow> buffer \<Rightarrow> (buffer \<times> nat) option" where
  "MarshalHeaderOldTimeStamp m buf = do {
     buf \<leftarrow> put_byte buf 0 (MsgName m);
     buf \<leftarrow> PUT_LONG buf 1 (sec m);
     buf \<leftarrow> PUT_LONG buf 5 (subsec m);
     buf \<leftarrow> PUT_USHORT buf 9 (msg_length m);
     Some (buf, HEADER_SIZE) }"

definition UnmarshalHeader ::
  "'a SDMmessage_scheme \<Rightarrow> buffer \<Rightarrow> ('a SDMmessage_scheme \<times> int) option" where
  "UnmarshalHeader m buf = do {
     b0 \<leftarrow> get_byte buf 0;
     if b0 \<noteq> MsgName m then Some (m, SDM_INVALID_MESSAGE)
     else do {
       s \<leftarrow> GET_LONG buf 1;
       let m = m\<lparr>sec := s\<rparr>;
       u \<leftarrow> GET_LONG buf 5;
       let m = m\<lparr>subsec := u\<rparr>;
       l \<leftarrow> GET_USHORT buf 9;
       let m = m\<lparr>msg_length := l\<rparr>;
       Some (m, int HEADER_SIZE) } }"

definition new_message :: "byte \<Rightarrow> 16 word \<Rightarrow> SDMmessage" where
  "new_message name tlen =
     \<lparr>MsgName = name, sec = 0, subsec = 0, msg_length = 0, total_length = tlen, bound = IP_SOCK_INVALID\<rparr>"

text \<open>\<open>msg_length = cur - HEADER_SIZE\<close>: an \<^verbatim>\<open>int\<close> stored into a \<^verbatim>\<open>short\<close>.\<close>

definition set_length :: "nat \<Rightarrow> 'a SDMmessage_scheme \<Rightarrow> 'a SDMmessage_scheme" where
  "set_length cur m = m\<lparr>msg_length := of_int (int cur - int HEADER_SIZE)\<rparr>"

section \<open>Transport\<close>

record net =
  net_connect :: "32 word \<Rightarrow> 16 word \<Rightarrow> int"
  net_send :: "nat \<Rightarrow> byte list \<Rightarrow> int"
  net_recv :: "nat \<Rightarrow> byte list option"
  net_passive :: "32 word \<Rightarrow> int"

text \<open>A receive of at most \<open>n\<close> bytes into a buffer; on a timeout or an error it is left unchanged.\<close>

definition recv_into :: "nat \<Rightarrow> byte list option \<Rightarrow> buffer \<Rightarrow> buffer" where
  "recv_into n d buf = (case d of None \<Rightarrow> buf | Some bs \<Rightarrow> take n bs @ drop (length (take n bs)) buf)"

type_synonym 'm marshal = "timeval \<Rightarrow> 'm \<Rightarrow> buffer \<Rightarrow> ('m \<times> buffer \<times> int) option"
type_synonym 'm unmarshal = "'m \<Rightarrow> buffer \<Rightarrow> ('m \<times> int) option"

text \<open>The retransmission loop; the first argument is \<open>NUMRETRIES - count\<close>.\<close>

primrec SendTo_retry ::
  "nat \<Rightarrow> net \<Rightarrow> byte list \<Rightarrow> nat \<Rightarrow> buffer \<Rightarrow> int \<Rightarrow> byte list list \<Rightarrow> nat \<times> buffer \<times> int \<times> byte list list" where
  "SendTo_retry 0 net data count ack result sent = (count, ack, result, sent)"
| "SendTo_retry (Suc n) net data count ack result sent =
     (if ack ! 0 \<noteq> SDM_ACK
      then SendTo_retry n net data (count + 1)
             (recv_into 13 (net_recv net (count + 1)) ack) (net_send net (count + 1) data) (sent @ [data])
      else (count, ack, result, sent))"

text \<open>
  The result is the message, the datagrams given to \<open>UDPsend\<close> and the returned value: \<^term>\<open>None\<close>
  as the returned value is the uninitialised \<open>result\<close> when \<open>UDPconnect\<close> fails. \<open>stk\<close> and \<open>ack\<close> are
  the uninitialised stack buffers.
\<close>

definition SendTo ::
  "('a SDMmessage_scheme) marshal \<Rightarrow> net \<Rightarrow> buffer \<Rightarrow> buffer \<Rightarrow> timeval \<Rightarrow> 'a SDMmessage_scheme \<Rightarrow> SDMComponent_ID
     \<Rightarrow> ('a SDMmessage_scheme \<times> byte list list \<times> int option) option" where
  "SendTo Marshal net stk ack now m destination = do {
     (m, buf, i) \<leftarrow> Marshal now m stk;
     if i < 0 then Some (m, [], Some SDM_MESSAGE_SEND_ERROR)
     else if net_connect net (m_ulAddress destination) (m_usPort destination) = IP_SOCK_INVALID
     then Some (m, [], None)
     else do {
       data \<leftarrow> get_bytes buf 0 (nat i);
       b0 \<leftarrow> get_byte buf 0;
       let result = net_send net 0 data;
       if b0 = SDM_xTEDS \<or> b0 = SDM_CancelxTEDS then do {
         let ack = recv_into 13 (net_recv net 0) ack;
         let (count, ack, result, sent) = SendTo_retry NUMRETRIES net data 0 ack result [data];
         if count = NUMRETRIES \<and> ack ! 0 \<noteq> SDM_ACK
         then Some (m, sent, Some SDM_UNABLE_TO_REGISTER)
         else do {
           error \<leftarrow> GET_SHORT ack 11;
           Some (m, sent, Some (if sint error < 0 then sint error else result)) } }
       else Some (m, [data], Some result) } }"

definition Forward ::
  "('a SDMmessage_scheme) marshal \<Rightarrow> net \<Rightarrow> buffer \<Rightarrow> timeval \<Rightarrow> 'a SDMmessage_scheme \<Rightarrow> SDMComponent_ID
     \<Rightarrow> ('a SDMmessage_scheme \<times> byte list list \<times> int) option" where
  "Forward Marshal net stk now m destination =
     (if MsgName m = SDM_xTEDS then Some (m, [], - 1)
      else do {
        let OldSeconds = sec m;
        let OldSubSeconds = subsec m;
        (m, buf, MessageLength) \<leftarrow> Marshal now m stk;
        if MessageLength < 0 then Some (m, [], MessageLength)
        else do {
          let m = m\<lparr>sec := OldSeconds\<rparr>;
          let m = m\<lparr>subsec := OldSubSeconds\<rparr>;
          (buf, _) \<leftarrow> MarshalHeaderOldTimeStamp m buf;
          let sock = net_connect net (m_ulAddress destination) (m_usPort destination);
          if sock < 0 then Some (m, [], - 1)
          else do {
            data \<leftarrow> get_bytes buf 0 (nat MessageLength);
            Some (m, [data], net_send net 0 data) } } })"

definition SendTCP ::
  "('a SDMmessage_scheme) marshal \<Rightarrow> net \<Rightarrow> buffer \<Rightarrow> buffer \<Rightarrow> timeval \<Rightarrow> 'a SDMmessage_scheme \<Rightarrow> 32 word \<Rightarrow> 16 word
     \<Rightarrow> ('a SDMmessage_scheme \<times> byte list list \<times> int option) option" where
  "SendTCP Marshal net stk ack now m ip_addr port = do {
     (m, buf, i) \<leftarrow> Marshal now m stk;
     if i < 0 then Some (m, [], Some SDM_MESSAGE_SEND_ERROR)
     else if net_connect net ip_addr port = IP_SOCK_INVALID then Some (m, [], None)
     else do {
       data \<leftarrow> get_bytes buf 0 (nat i);
       b0 \<leftarrow> get_byte buf 0;
       let result = net_send net 0 data;
       if b0 = SDM_xTEDS \<or> b0 = SDM_CancelxTEDS then do {
         let ack = recv_into 13 (net_recv net 0) ack;
         error \<leftarrow> GET_SHORT ack HEADER_SIZE;
         Some (m, [data], Some (if sint error < 0 then sint error else result)) }
       else Some (m, [data], Some result) } }"

text \<open>The broadcast address: the last octet of a network-order address on a little-endian host.\<close>

definition SendBroadcast ::
  "('a SDMmessage_scheme) marshal \<Rightarrow> (32 word \<Rightarrow> 16 word \<Rightarrow> byte list \<Rightarrow> int) \<Rightarrow> SDMComponent_ID \<Rightarrow> buffer \<Rightarrow> timeval
     \<Rightarrow> 'a SDMmessage_scheme \<Rightarrow> 32 word \<Rightarrow> 16 word \<Rightarrow> ('a SDMmessage_scheme \<times> (32 word \<times> byte list) list \<times> int) option" where
  "SendBroadcast Marshal UDPsend_broadcast DataManager stk now m address dest_port = do {
     let b_cast_address = (if address = 0 then m_ulAddress DataManager else address);
     let b_cast_address = b_cast_address OR 0xFF000000;
     (m, buf, i) \<leftarrow> Marshal now m stk;
     if i < 0 then Some (m, [], SDM_MESSAGE_SEND_ERROR)
     else do {
       data \<leftarrow> get_bytes buf 0 (nat i);
       if UDPsend_broadcast b_cast_address dest_port data < 0
       then Some (m, [(b_cast_address, data)], SDM_MESSAGE_SEND_ERROR)
       else Some (m, [(b_cast_address, data)], i) } }"

definition SendReplyTo ::
  "('a SDMmessage_scheme) marshal \<Rightarrow> (byte list \<Rightarrow> int) \<Rightarrow> (byte list \<Rightarrow> int) \<Rightarrow> buffer \<Rightarrow> timeval
     \<Rightarrow> 'a SDMmessage_scheme \<Rightarrow> int \<Rightarrow> bool \<Rightarrow> ('a SDMmessage_scheme \<times> byte list list \<times> int) option" where
  "SendReplyTo Marshal TCPserv_replyto UDPserv_replyto stk now m socket tcp =
     (if socket = IP_SOCK_INVALID then Some (m, [], 0)
      else do {
        (m, buf, i) \<leftarrow> Marshal now m stk;
        if i < 0 then Some (m, [], SDM_MESSAGE_SEND_ERROR)
        else do {
          data \<leftarrow> get_bytes buf 0 (nat i);
          let result = (if tcp then TCPserv_replyto data else UDPserv_replyto data);
          if result < 0 then Some (m, [data], SDM_MESSAGE_SEND_ERROR) else Some (m, [data], i) } })"

text \<open>\<open>result\<close> of the receive is the number of bytes delivered; a failed receive delivers nothing.\<close>

definition RecvFrom ::
  "('a SDMmessage_scheme) unmarshal \<Rightarrow> net \<Rightarrow> 'a SDMmessage_scheme \<Rightarrow> 32 word \<Rightarrow> ('a SDMmessage_scheme \<times> int) option" where
  "RecvFrom Unmarshal net m port = (
     let buf = replicate BUFSIZE 0;
         m = (if bound m = IP_SOCK_INVALID then m\<lparr>bound := net_passive net port\<rparr> else m)
     in if bound m = IP_SOCK_INVALID then Some (m, bound m)
        else case net_recv net 0 of
          None \<Rightarrow> Some (m, - 1)
        | Some d \<Rightarrow>
            let result = int (length (take BUFSIZE d)); buf = recv_into BUFSIZE (Some d) buf
            in if result \<le> 0 then Some (m, result)
               else do {
                 (m, unmarshal_result) \<leftarrow> Unmarshal m buf;
                 Some (m, if result < unmarshal_result then result else unmarshal_result) })"

text \<open>\<open>getPort\<close>: asks the process manager for a port; the reply's first byte is ignored.\<close>

definition getPort :: "net \<Rightarrow> int" where
  "getPort net = (
     let value = (if net_connect net 0x0100007f PORT_PM = IP_SOCK_INVALID then - 1
                  else case net_recv net 0 of
                    None \<Rightarrow> - 1
                  | Some d \<Rightarrow>
                      if length (take 5 d) = 5
                      then (case GET_LONG (take 5 d) 1 of Some v \<Rightarrow> sint v | None \<Rightarrow> - 1) else - 1)
     in if value < PORT_APP_START \<or> value > 65535 then SDM_PM_NOT_AVAILABLE else value)"

section \<open>Globals, communication handles and the inherited send methods\<close>

record globals =
  TaskManager :: SDMComponent_ID
  DataManager :: SDMComponent_ID
  PID :: "32 word"

text \<open>
  \<open>SDMInit(argc, argv)\<close>: \<open>inet_addr\<close> and \<open>atoi\<close> are the C library's. With more than one but fewer
  than four arguments the code reads past the end of \<open>argv\<close>.
\<close>

definition SDMInit :: "(string \<Rightarrow> 32 word) \<Rightarrow> (string \<Rightarrow> 32 word) \<Rightarrow> globals \<Rightarrow> string list \<Rightarrow> globals option" where
  "SDMInit inet_addr atoi g argv = (
     let g = g\<lparr>TaskManager := (TaskManager g)\<lparr>m_usPort := PORT_TM\<rparr>\<rparr>;
         g = g\<lparr>DataManager := (DataManager g)\<lparr>m_usPort := PORT_DM\<rparr>\<rparr>
     in if length argv = 1
        then Some (g\<lparr>TaskManager := (TaskManager g)\<lparr>m_ulAddress := inet_addr ''127.0.0.1''\<rparr>,
                     DataManager := (DataManager g)\<lparr>m_ulAddress := inet_addr ''127.0.0.1''\<rparr>, PID := 0\<rparr>)
        else if length argv < 4 then None
        else
          let addr = (\<lambda>a. if a = ''local'' then inet_addr ''127.0.0.1'' else inet_addr a);
              g = g\<lparr>TaskManager := (TaskManager g)\<lparr>m_ulAddress := addr (argv ! 1)\<rparr>\<rparr>;
              g = g\<lparr>DataManager := (DataManager g)\<lparr>m_ulAddress := addr (argv ! 2)\<rparr>\<rparr>
          in Some (g\<lparr>PID := atoi (argv ! 3)\<rparr>))"

record env = globals +
  env_net :: net
  env_stk :: buffer
  env_ack :: buffer
  env_now :: timeval

type_synonym 'm sender = "env \<Rightarrow> 'm \<Rightarrow> ('m \<times> byte list list \<times> int option) option"
type_synonym 'm sender_to = "env \<Rightarrow> 'm \<Rightarrow> SDMComponent_ID \<Rightarrow> ('m \<times> byte list list \<times> int option) option"

definition SendDM :: "('a SDMmessage_scheme) marshal \<Rightarrow> ('a SDMmessage_scheme) sender" where
  "SendDM Marshal env m = SendTo Marshal (env_net env) (env_stk env) (env_ack env) (env_now env) m (DataManager env)"

definition SendTM :: "('a SDMmessage_scheme) marshal \<Rightarrow> ('a SDMmessage_scheme) sender" where
  "SendTM Marshal env m = SendTo Marshal (env_net env) (env_stk env) (env_ack env) (env_now env) m (TaskManager env)"

text \<open>The idiom of the classes' own \<open>Send\<close> and \<open>Recv\<close>: a result that is not positive becomes an error code.\<close>

definition SendTo_checked ::
  "('a SDMmessage_scheme) marshal \<Rightarrow> net \<Rightarrow> buffer \<Rightarrow> buffer \<Rightarrow> timeval \<Rightarrow> 'a SDMmessage_scheme \<Rightarrow> SDMComponent_ID
     \<Rightarrow> ('a SDMmessage_scheme \<times> byte list list \<times> int option) option" where
  "SendTo_checked Marshal net stk ack now m destination = do {
     (m, sent, result) \<leftarrow> SendTo Marshal net stk ack now m destination;
     Some (m, sent, map_option (\<lambda>r. if r \<le> 0 then SDM_MESSAGE_SEND_ERROR else r) result) }"

definition Recv_checked ::
  "('a SDMmessage_scheme) unmarshal \<Rightarrow> net \<Rightarrow> 'a SDMmessage_scheme \<Rightarrow> 32 word \<Rightarrow> ('a SDMmessage_scheme \<times> int) option" where
  "Recv_checked Unmarshal net m port = do {
     (m, result) \<leftarrow> RecvFrom Unmarshal net m port;
     Some (m, if result \<le> 0 then SDM_MESSAGE_RECV_ERROR else result) }"

text \<open>\<^verbatim>\<open>sdm/common/SDMComHandle.cpp\<close>; the socket address is its family, port and address.\<close>

record sockaddr_in =
  sin_family :: "16 word"
  sin_port :: "16 word"
  sin_addr :: "32 word"

definition sockaddr_zero :: sockaddr_in where
  "sockaddr_zero = \<lparr>sin_family = 0, sin_port = 0, sin_addr = 0\<rparr>"

record SDMComHandle =
  m_iSock :: int
  m_bIsTcp :: bool
  m_sinAddress :: sockaddr_in

definition CopySockAddrIn :: "sockaddr_in option \<Rightarrow> sockaddr_in" where
  "CopySockAddrIn Source = (
     let Target = sockaddr_zero
     in case Source of
          None \<Rightarrow> Target
        | Some s \<Rightarrow> Target\<lparr>sin_family := sin_family s, sin_port := sin_port s, sin_addr := sin_addr s\<rparr>)"

definition SDMComHandle_new :: SDMComHandle where
  "SDMComHandle_new = \<lparr>m_iSock = IP_SOCK_INVALID, m_bIsTcp = False, m_sinAddress = sockaddr_zero\<rparr>"

definition SDMComHandle_Set :: "SDMComHandle \<Rightarrow> int \<Rightarrow> bool \<Rightarrow> sockaddr_in option \<Rightarrow> SDMComHandle" where
  "SDMComHandle_Set h Sock Tcp Address =
     h\<lparr>m_iSock := Sock, m_bIsTcp := Tcp, m_sinAddress := CopySockAddrIn Address\<rparr>"

definition SDMComHandle_assign :: "SDMComHandle \<Rightarrow> SDMComHandle \<Rightarrow> SDMComHandle" where
  "SDMComHandle_assign h right =
     h\<lparr>m_iSock := m_iSock right, m_bIsTcp := m_bIsTcp right,
       m_sinAddress := CopySockAddrIn (Some (m_sinAddress right))\<rparr>"

definition SDMComHandle_IsValidHandle :: "SDMComHandle \<Rightarrow> bool" where
  "SDMComHandle_IsValidHandle h \<longleftrightarrow> m_iSock h \<noteq> IP_SOCK_INVALID"

text \<open>The closed sockets are part of the result.\<close>

definition SDMComHandle_DoCleanup :: "SDMComHandle \<Rightarrow> SDMComHandle \<times> int list" where
  "SDMComHandle_DoCleanup h =
     (if m_bIsTcp h \<and> m_iSock h \<noteq> IP_SOCK_INVALID
      then (h\<lparr>m_iSock := IP_SOCK_INVALID, m_bIsTcp := False\<rparr>, [m_iSock h]) else (h, []))"

section \<open>The header's encoding\<close>

definition header_bytes :: "'a SDMmessage_scheme \<Rightarrow> byte list" where
  "header_bytes m = MsgName m # word_bytes 4 (sec m) @ word_bytes 4 (subsec m) @ word_bytes 2 (msg_length m)"

lemma length_header_bytes [simp, enc_length]: "length (header_bytes m) = 11"
  by (simp add: header_bytes_def)

definition stamp :: "timeval \<Rightarrow> 'a SDMmessage_scheme \<Rightarrow> 'a SDMmessage_scheme" where
  "stamp now m = m\<lparr>sec := fst now, subsec := snd now\<rparr>"

lemma put_header:
  assumes "11 \<le> length buf"
  shows "do { buf \<leftarrow> put_byte buf 0 n; buf \<leftarrow> PUT_LONG buf (Suc 0) s; buf \<leftarrow> PUT_LONG buf 5 u;
              buf \<leftarrow> PUT_USHORT buf 9 l; f buf }
       = f ((n # word_bytes 4 s @ word_bytes 4 u @ word_bytes 2 l) @ drop 11 buf)"
proof -
  have "buf \<noteq> []" using assms by auto
  then have "put_byte buf 0 n = Some (overlay 0 [n] buf)"
    using put_byte_overlay [of 0 0 "[]" buf n] by (simp add: overlay_Nil)
  with assms show ?thesis by (simp add: buf_simps) (simp add: overlay_def)
qed

lemma MarshalHeader_eq [buf_simps]:
  "11 \<le> length buf \<Longrightarrow> MarshalHeader now m buf = Some (stamp now m, header_bytes (stamp now m) @ drop 11 buf, 11)"
  by (simp add: MarshalHeader_def put_header header_bytes_def stamp_def)

lemma MarshalHeader_overlay [buf_simps]:
  assumes "11 + length s \<le> length buf"
  shows "MarshalHeader now m (overlay 11 s buf) =
    Some (stamp now m, header_bytes (stamp now m) @ s @ drop (11 + length s) buf, 11)"
  using assms length_overlay [of 11 s buf] drop_overlay [of 11 buf s] by (simp add: MarshalHeader_eq)

lemma MarshalHeaderOldTimeStamp_eq:
  "11 \<le> length buf \<Longrightarrow> MarshalHeaderOldTimeStamp m buf = Some (header_bytes m @ drop 11 buf, 11)"
  by (simp add: MarshalHeaderOldTimeStamp_def put_header header_bytes_def)

definition load_header :: "'b SDMmessage_scheme \<Rightarrow> 'a SDMmessage_scheme \<Rightarrow> 'a SDMmessage_scheme" where
  "load_header h m = m\<lparr>sec := sec h, subsec := subsec h, msg_length := msg_length h\<rparr>"

lemma UnmarshalHeader_eq [get_at]:
  "MsgName h = MsgName m \<Longrightarrow> UnmarshalHeader m (header_bytes h @ rest) = Some (load_header h m, 11)"
  by (simp add: UnmarshalHeader_def header_bytes_def get_at load_header_def)

lemma UnmarshalHeader_wrong_name:
  "buf \<noteq> [] \<Longrightarrow> hd buf \<noteq> MsgName m \<Longrightarrow> UnmarshalHeader m buf = Some (m, SDM_INVALID_MESSAGE)"
  by (cases buf) (simp_all add: UnmarshalHeader_def get_byte_def)

lemma load_header_simps [simp]:
  "sec (load_header h m) = sec h" "subsec (load_header h m) = subsec h"
  "msg_length (load_header h m) = msg_length h" "MsgName (load_header h m) = MsgName m"
  "total_length (load_header h m) = total_length m" "bound (load_header h m) = bound m"
  by (simp_all add: load_header_def)

lemma stamp_simps [simp]:
  "sec (stamp now m) = fst now" "subsec (stamp now m) = snd now"
  "msg_length (stamp now m) = msg_length m" "MsgName (stamp now m) = MsgName m"
  "total_length (stamp now m) = total_length m" "bound (stamp now m) = bound m"
  by (simp_all add: stamp_def)

lemma set_length_simps [simp]:
  "sec (set_length n m) = sec m" "subsec (set_length n m) = subsec m" "MsgName (set_length n m) = MsgName m"
  "total_length (set_length n m) = total_length m" "bound (set_length n m) = bound m"
  by (simp_all add: set_length_def)

lemma msg_length_set_length [simp]: "msg_length (set_length (11 + k) m) = of_nat k"
  by (simp add: set_length_def)

lemma header_bytes_set_stamp: "header_bytes (stamp now (set_length n m)) = header_bytes (set_length n (stamp now m))"
  by (simp add: header_bytes_def set_length_def)

lemma header_bytes_cong:
  "MsgName a = MsgName b \<Longrightarrow> sec a = sec b \<Longrightarrow> subsec a = subsec b \<Longrightarrow> msg_length a = msg_length b \<Longrightarrow>
   header_bytes a = header_bytes b"
  by (simp add: header_bytes_def)

lemma sint_of_nat_16: "n < 32768 \<Longrightarrow> sint (of_nat n :: 16 word) = int n"
  by (simp add: signed_of_nat signed_take_bit_int_eq_self)

lemma unat_of_nat_16: "n < 65536 \<Longrightarrow> unat (of_nat n :: 16 word) = n"
  by (simp add: unat_of_nat)

text \<open>The first store of a body, right behind the header.\<close>

lemma first_put [buf_simps]:
  "11 < length buf \<Longrightarrow> PUT_TYPE1 buf 11 v1 = Some (overlay 11 [v1] buf)"
  "13 \<le> length buf \<Longrightarrow> PUT_TYPE2 e buf 11 v2 = Some (overlay 11 (word_bytes 2 v2) buf)"
  "15 \<le> length buf \<Longrightarrow> PUT_TYPE4 e buf 11 v4 = Some (overlay 11 (word_bytes 4 v4) buf)"
  "21 \<le> length buf \<Longrightarrow> id_Marshal c buf 11 = Some (overlay 11 (id_bytes c) buf, 10)"
  using PUT_overlay [of 11 11 "[]" buf] id_Marshal_overlay [of 11 11 "[]" buf]
  by (simp_all add: overlay_Nil)

lemmas class_laws = buf_simps get_at set_length_def stamp_def
  UnmarshalHeader_wrong_name sint_of_nat_16

text \<open>The result of a \<open>Marshal\<close> that writes \<open>body\<close> behind the header and then the header.\<close>

definition marshalled ::
  "timeval \<Rightarrow> 'a SDMmessage_scheme \<Rightarrow> byte list \<Rightarrow> buffer \<Rightarrow> 'a SDMmessage_scheme \<times> buffer \<times> int" where
  "marshalled now m body buf =
     (stamp now (set_length (11 + length body) m),
      header_bytes (stamp now (set_length (11 + length body) m)) @ body @ drop (11 + length body) buf,
      int (11 + length body))"

lemma marshalled_ok:
  assumes "M now m buf = Some (marshalled now m (enc (view m)) buf)"
    and "\<And>k. ok (stamp now (set_length k m))" "\<And>k. view (stamp now (set_length k m)) = view m"
  shows "\<exists>m'. M now m buf =
             Some (m', header_bytes m' @ enc (view m) @ drop (11 + length (enc (view m))) buf,
                   int (11 + length (enc (view m))))
         \<and> ok m' \<and> view m' = view m \<and> sec m' = fst now \<and> subsec m' = snd now
         \<and> msg_length m' = of_nat (length (enc (view m)))"
  using assms by (simp add: marshalled_def)

lemma body_nonempty: "sint (w :: 16 word) = int n \<Longrightarrow> n \<noteq> 0 \<Longrightarrow> w \<noteq> 0"
  by auto

lemma sint_set_length: "11 \<le> n \<Longrightarrow> n < 32779 \<Longrightarrow> sint (msg_length (set_length n m)) = int n - 11"
  using sint_of_nat_16 [of "n - 11"] msg_length_set_length [of "n - 11" m] by simp

lemma set_length_msg_length [simp]: "set_length n (m\<lparr>msg_length := l\<rparr>) = set_length n m"
  by (simp add: set_length_def)

lemma nat_numeral_add: "nat (numeral k + int n) = numeral k + n"
  by (simp add: nat_add_distrib)

lemma drop_Cons_pos: "0 < n \<Longrightarrow> drop n (x # xs) = drop (n - 1) xs"
  by (cases n) simp_all

lemmas put_laws = buf_simps strlen_0 get_bytes_cstr sint_of_nat_16 sint_set_length nat_numeral_add marshalled_def Let_def

lemmas string_laws = get_at sint_of_nat_16 drop_Cons_pos Let_def

lemmas string_views = cstr_padded is_cstr_padded is_cstr_overwrite

text \<open>A datagram: the header of a message with this type, time and body length, then the body.\<close>

definition datagram_bytes :: "byte \<Rightarrow> timeval \<Rightarrow> byte list \<Rightarrow> byte list" where
  "datagram_bytes n now body =
     header_bytes \<lparr>MsgName = n, sec = fst now, subsec = snd now,
       msg_length = of_nat (length body), total_length = 0, bound = 0\<rparr> @ body"

section \<open>What the classes are checked for\<close>

text \<open>
  \<open>roundtrips\<close>: a marshalled object of the class is read back, by any object of the class and whatever
  follows in the receive buffer, with the same value, the sender's time and the same byte count.
  \<open>rejects\<close>: a buffer of another message type is refused and leaves the object as it was.
  \<open>rejects_length\<close>: so is a header whose length is not an allowed one (only the header fields change).
\<close>

definition roundtrips ::
  "('a SDMmessage_scheme) marshal \<Rightarrow> ('a SDMmessage_scheme) unmarshal \<Rightarrow> ('a SDMmessage_scheme \<Rightarrow> 'v)
     \<Rightarrow> ('a SDMmessage_scheme \<Rightarrow> bool) \<Rightarrow> ('a SDMmessage_scheme \<Rightarrow> bool) \<Rightarrow> bool" where
  "roundtrips M U val ok rdy \<longleftrightarrow>
     (\<forall>now m m0 stk. ok m \<and> rdy m \<and> ok m0 \<and> length stk = BUFSIZE \<longrightarrow>
        (\<exists>m1 buf n. M now m stk = Some (m1, buf, n) \<and> 0 \<le> n \<and> val m1 = val m \<and> length buf = BUFSIZE \<and>
           (\<forall>rest. \<exists>m2. U m0 (take (nat n) buf @ rest) = Some (m2, n) \<and> ok m2 \<and> val m2 = val m
              \<and> sec m2 = fst now \<and> subsec m2 = snd now)))"

definition rejects :: "('a SDMmessage_scheme) unmarshal \<Rightarrow> ('a SDMmessage_scheme \<Rightarrow> bool) \<Rightarrow> byte \<Rightarrow> bool" where
  "rejects U ok n \<longleftrightarrow> (\<forall>m buf. ok m \<and> buf \<noteq> [] \<and> hd buf \<noteq> n \<longrightarrow> U m buf = Some (m, SDM_INVALID_MESSAGE))"

definition rejects_length ::
  "('a SDMmessage_scheme) unmarshal \<Rightarrow> ('a SDMmessage_scheme \<Rightarrow> bool) \<Rightarrow> byte \<Rightarrow> 16 word set \<Rightarrow> bool" where
  "rejects_length U ok n L \<longleftrightarrow>
     (\<forall>m h rest. ok m \<and> MsgName h = n \<and> msg_length h \<notin> L \<longrightarrow>
        U m (header_bytes (h :: SDMmessage) @ rest) = Some (load_header h m, SDM_INVALID_MESSAGE))"

text \<open>A reply that starts with the acknowledgement's type byte.\<close>

definition acked :: "byte list option \<Rightarrow> bool" where
  "acked d \<longleftrightarrow> (case d of Some (b # _) \<Rightarrow> b = SDM_ACK | _ \<Rightarrow> False)"

lemma recv_into_first: "13 \<le> length ack \<Longrightarrow> ack ! 0 \<noteq> SDM_ACK \<Longrightarrow> recv_into 13 d ack ! 0 = SDM_ACK \<longleftrightarrow> acked d"
  by (auto simp: recv_into_def acked_def split: option.split list.split)

lemma length_recv_into: "n \<le> length ack \<Longrightarrow> length (recv_into n d ack) = length ack"
  by (auto simp: recv_into_def split: option.split)

lemma SendTo_retry_acked:
  assumes "13 \<le> length ack" "ack ! 0 \<noteq> SDM_ACK" "c < k" "k \<le> c + n"
    and "\<And>i. c < i \<Longrightarrow> i < k \<Longrightarrow> \<not> acked (net_recv net i)" "net_recv net k = Some a" "acked (Some a)" "13 \<le> length a"
  shows "\<exists>t. SendTo_retry n net data c ack r sent = (k, take 13 a @ t, net_send net k data, sent @ replicate (k - c) data)
    \<and> length (take 13 a @ t) = length ack"
  using assms
proof (induction n arbitrary: c ack r sent)
  case 0
  then show ?case by simp
next
  case (Suc n)
  let ?a = "recv_into 13 (net_recv net (c + 1)) ack"
  have la: "length ?a = length ack" using Suc.prems(1) by (rule length_recv_into)
  have step: "SendTo_retry (Suc n) net data c ack r sent =
      SendTo_retry n net data (c + 1) ?a (net_send net (c + 1) data) (sent @ [data])"
    using Suc.prems(2) by simp
  show ?case
  proof (cases "k = c + 1")
    case True
    have "?a = take 13 a @ drop 13 ack" using True Suc.prems(6,8) by (simp add: recv_into_def)
    moreover have "?a ! 0 = SDM_ACK" using True Suc.prems recv_into_first [of ack] by simp
    then have "SendTo_retry n net data (c + 1) ?a (net_send net (c + 1) data) (sent @ [data]) =
        (c + 1, ?a, net_send net (c + 1) data, sent @ [data])"
      by (cases n) simp_all
    ultimately show ?thesis using True step la by (intro exI [of _ "drop 13 ack"]) simp
  next
    case False
    have "?a ! 0 \<noteq> SDM_ACK" using False Suc.prems recv_into_first [of ack] by simp
    moreover have "k - c = Suc (k - (c + 1))" using Suc.prems(3) by simp
    ultimately show ?thesis
      using Suc.IH [of ?a "c + 1" "net_send net (c + 1) data" "sent @ [data]"] Suc.prems False la step by simp
  qed
qed

lemma SendTo_retry_silent:
  assumes "13 \<le> length ack" "ack ! 0 \<noteq> SDM_ACK" "\<And>i. c < i \<Longrightarrow> i \<le> c + n \<Longrightarrow> \<not> acked (net_recv net i)"
  shows "\<exists>a r'. SendTo_retry n net data c ack r sent = (c + n, a, r', sent @ replicate n data) \<and> a ! 0 \<noteq> SDM_ACK"
  using assms
proof (induction n arbitrary: c ack r sent)
  case 0
  then show ?case by simp
next
  case (Suc n)
  let ?a = "recv_into 13 (net_recv net (c + 1)) ack"
  have "?a ! 0 \<noteq> SDM_ACK" "length ?a = length ack" using Suc.prems recv_into_first [of ack] by (simp_all add: length_recv_into)
  then show ?case using Suc.IH [of ?a "c + 1" "net_send net (c + 1) data" "sent @ [data]"] Suc.prems by simp
qed

text \<open>An environment in which every destination can be connected to. The send buffer is the array of
  \<^verbatim>\<open>BUFSIZE\<close> bytes on the stack of \<^verbatim>\<open>SendTo\<close>.\<close>

definition reachable_env :: "env \<Rightarrow> bool" where
  "reachable_env e = (length (env_stk e) = BUFSIZE \<and> (\<forall>a p. net_connect (env_net e) a p \<noteq> IP_SOCK_INVALID))"

section \<open>The contract of a message class\<close>

text \<open>
  What the transport methods rely on. \<open>view\<close> maps a message object to the value it carries (a
  string member to its C string), \<open>enc\<close> is the encoding of that value behind the header, \<open>wf\<close>
  says that the object's members have their declared sizes and are terminated, \<open>ready\<close> restricts the
  objects that may be marshalled. Marshalling writes the header, with the given time and the
  length of the body, and the body, and leaves the rest of the buffer alone; unmarshalling reads a
  header and body back into any object of the class.
\<close>

locale sdm_class =
  fixes Marshal :: "timeval \<Rightarrow> 'a SDMmessage_scheme \<Rightarrow> buffer \<Rightarrow> ('a SDMmessage_scheme \<times> buffer \<times> int) option"
    and Unmarshal :: "'a SDMmessage_scheme \<Rightarrow> buffer \<Rightarrow> ('a SDMmessage_scheme \<times> int) option"
    and view :: "'a SDMmessage_scheme \<Rightarrow> 'v"
    and enc :: "'v \<Rightarrow> byte list"
    and wf :: "'a SDMmessage_scheme \<Rightarrow> bool"
    and ready :: "'a SDMmessage_scheme \<Rightarrow> bool"
    and name :: byte
  assumes wf_name: "wf m \<Longrightarrow> MsgName m = name"
    and wf_stamp: "wf m \<Longrightarrow> wf (m\<lparr>sec := s, subsec := u\<rparr>)"
    and view_stamp: "view (m\<lparr>sec := s, subsec := u\<rparr>) = view m"
    and enc_fits: "wf m \<Longrightarrow> ready m \<Longrightarrow> 11 + length (enc (view m)) \<le> BUFSIZE"
    and Marshal_ok: "wf m \<Longrightarrow> ready m \<Longrightarrow> 11 + length (enc (view m)) \<le> length buf \<Longrightarrow>
      \<exists>m'. Marshal now m buf =
             Some (m', header_bytes m' @ enc (view m) @ drop (11 + length (enc (view m))) buf,
                   int (11 + length (enc (view m))))
         \<and> wf m' \<and> view m' = view m \<and> sec m' = fst now \<and> subsec m' = snd now
         \<and> msg_length m' = of_nat (length (enc (view m)))"
    and Unmarshal_ok: "wf m \<Longrightarrow> ready m \<Longrightarrow> wf m0 \<Longrightarrow> MsgName h = name \<Longrightarrow>
      msg_length h = of_nat (length (enc (view m))) \<Longrightarrow>
      \<exists>m'. Unmarshal m0 (header_bytes (h :: SDMmessage) @ enc (view m) @ rest)
             = Some (m', int (11 + length (enc (view m))))
         \<and> wf m' \<and> view m' = view m \<and> sec m' = sec h \<and> subsec m' = subsec h \<and> msg_length m' = msg_length h"
    and Unmarshal_reject: "wf m0 \<Longrightarrow> buf \<noteq> [] \<Longrightarrow> hd buf \<noteq> name \<Longrightarrow> Unmarshal m0 buf = Some (m0, SDM_INVALID_MESSAGE)"
begin

text \<open>The datagram of a message: what every transport method puts on the wire.\<close>

definition datagram :: "timeval \<Rightarrow> 'a SDMmessage_scheme \<Rightarrow> byte list" where
  "datagram now m = datagram_bytes name now (enc (view m))"

lemma length_datagram: "length (datagram now m) = 11 + length (enc (view m))"
  by (simp add: datagram_def datagram_bytes_def)

lemma Marshal_datagram:
  assumes "wf m" "ready m" "length stk = BUFSIZE"
  obtains m' where "Marshal now m stk = Some (m', datagram now m @ drop (length (datagram now m)) stk, int (length (datagram now m)))"
    "wf m'" "view m' = view m" "sec m' = fst now" "subsec m' = snd now"
    "msg_length m' = of_nat (length (enc (view m)))"
proof -
  have "11 + length (enc (view m)) \<le> length stk" using enc_fits [OF assms(1,2)] assms(3) by simp
  then obtain m' where m': "Marshal now m stk =
      Some (m', header_bytes m' @ enc (view m) @ drop (11 + length (enc (view m))) stk,
            int (11 + length (enc (view m))))"
      "wf m'" "view m' = view m" "sec m' = fst now" "subsec m' = snd now"
      "msg_length m' = of_nat (length (enc (view m)))"
    using Marshal_ok [OF assms(1,2)] by blast
  have "header_bytes m' @ enc (view m) = datagram now m"
    unfolding datagram_def datagram_bytes_def using m' wf_name by (simp add: header_bytes_def)
  then have "Marshal now m stk = Some (m', datagram now m @ drop (length (datagram now m)) stk, int (length (datagram now m)))"
    using m'(1) unfolding length_datagram by (metis append_assoc)
  then show thesis using m' that by blast
qed

lemma datagram_fits: "wf m \<Longrightarrow> ready m \<Longrightarrow> length (datagram now m) \<le> BUFSIZE"
  using enc_fits [of m] by (simp add: length_datagram)

lemma datagram_first: "datagram now m = name # drop 1 (datagram now m)"
  by (simp add: datagram_def datagram_bytes_def header_bytes_def)

lemma get_datagram: "get_bytes (datagram now m @ r) 0 (length (datagram now m)) = Some (datagram now m)"
  using get_bytes_prefix [of "[]" 0 "datagram now m" _ r] by simp

lemma get_name: "get_byte (datagram now m @ r) 0 = Some name"
  by (simp add: datagram_def datagram_bytes_def header_bytes_def get_byte_def)

lemma Unmarshal_datagram:
  assumes "wf m" "ready m" "wf m0"
  obtains m' where "Unmarshal m0 (datagram now m @ rest) = Some (m', int (length (datagram now m)))"
    "wf m'" "view m' = view m" "sec m' = fst now" "subsec m' = snd now" "msg_length m' = of_nat (length (enc (view m)))"
  using Unmarshal_ok [OF assms, of "\<lparr>MsgName = name, sec = fst now, subsec = snd now,
       msg_length = of_nat (length (enc (view m))), total_length = 0, bound = 0\<rparr>" rest]
  by (auto simp: datagram_def datagram_bytes_def)

text \<open>A message that needs no acknowledgement is sent as exactly one datagram.\<close>

lemma SendTo_once:
  assumes "wf m" "ready m" "length stk = BUFSIZE" "name \<noteq> SDM_xTEDS" "name \<noteq> SDM_CancelxTEDS"
    and "net_connect net (m_ulAddress d) (m_usPort d) \<noteq> IP_SOCK_INVALID"
  shows "\<exists>m'. SendTo Marshal net stk ack now m d = Some (m', [datagram now m], Some (net_send net 0 (datagram now m)))
           \<and> wf m' \<and> view m' = view m"
proof -
  from assms(1-3) obtain m' where "Marshal now m stk =
      Some (m', datagram now m @ drop (length (datagram now m)) stk, int (length (datagram now m)))"
      "wf m'" "view m' = view m"
    by (rule Marshal_datagram)
  then show ?thesis using assms by (simp add: SendTo_def get_datagram get_name)
qed

text \<open>Registration messages are repeated until acknowledged, at most \<open>NUMRETRIES\<close> times.\<close>

lemma SendTo_retry_sent:
  "SendTo_retry n net data c ack r sent = (c', ack', r', sent') \<Longrightarrow>
   c' \<le> c + n \<and> sent' = sent @ replicate (c' - c) data \<and> c \<le> c' \<and> length ack' = length ack
   \<and> (c' = c + n \<or> ack' ! 0 = SDM_ACK)" if "13 \<le> length ack"
  using that
proof (induction n arbitrary: c ack r sent)
  case 0
  then show ?case by simp
next
  case (Suc n)
  show ?case
  proof (cases "ack ! 0 = SDM_ACK")
    case True
    with Suc.prems show ?thesis by simp
  next
    case False
    let ?a = "recv_into 13 (net_recv net (c + 1)) ack"
    have la: "length ?a = length ack" using Suc.prems(2) by (auto simp: recv_into_def split: option.split)
    with False Suc.prems Suc.IH [of "c + 1" ?a "net_send net (c + 1) data" "sent @ [data]"]
    have "c' \<le> c + 1 + n \<and> sent' = (sent @ [data]) @ replicate (c' - (c + 1)) data \<and> c + 1 \<le> c'
       \<and> length ack' = length ack \<and> (c' = c + 1 + n \<or> ack' ! 0 = SDM_ACK)"
      by simp
    moreover from this have "c' - c = Suc (c' - (c + 1))" by linarith
    ultimately show ?thesis by simp
  qed
qed

lemma SendTo_registration:
  assumes "wf m" "ready m" "length stk = BUFSIZE" "name = SDM_xTEDS \<or> name = SDM_CancelxTEDS" "length ack = 16"
    and "net_connect net (m_ulAddress d) (m_usPort d) \<noteq> IP_SOCK_INVALID"
  shows "\<exists>m' k r. SendTo Marshal net stk ack now m d = Some (m', replicate (Suc k) (datagram now m), Some r)
           \<and> k \<le> NUMRETRIES \<and> view m' = view m"
proof -
  from assms(1-3) obtain m' where M: "Marshal now m stk =
      Some (m', datagram now m @ drop (length (datagram now m)) stk, int (length (datagram now m)))"
      "wf m'" "view m' = view m"
    by (rule Marshal_datagram)
  let ?D = "datagram now m"
  let ?a = "recv_into 13 (net_recv net 0) ack"
  have la: "length ?a = 16" using assms(5) by (auto simp: recv_into_def split: option.split)
  obtain c a r sent where R: "SendTo_retry NUMRETRIES net ?D 0 ?a (net_send net 0 ?D) [?D] = (c, a, r, sent)"
    by (cases "SendTo_retry NUMRETRIES net ?D 0 ?a (net_send net 0 ?D) [?D]") auto
  have S: "c \<le> NUMRETRIES" "sent = replicate (Suc c) ?D" "length a = 16"
    using SendTo_retry_sent [OF _ R] la by simp_all
  then obtain e where "GET_SHORT a 11 = Some e" by (simp add: get_simps get_bytes_def)
  then show ?thesis
    using M assms(4,6) R S by (auto simp: SendTo_def get_datagram get_name)
qed

text \<open>Forwarding a received message re-sends the datagram it arrived in, byte for byte.\<close>

lemma Forward_transparent:
  assumes "wf m" "ready m" "wf m0" "length stk = BUFSIZE" "name \<noteq> SDM_xTEDS"
    and "Unmarshal m0 (datagram t m @ rest) = Some (m1, n)" "ready m1"
    and "0 \<le> net_connect net (m_ulAddress d) (m_usPort d)"
  shows "\<exists>m2. Forward Marshal net stk now m1 d = Some (m2, [datagram t m], net_send net 0 (datagram t m))"
proof -
  obtain m1' where "Unmarshal m0 (datagram t m @ rest) = Some (m1', int (length (datagram t m)))"
    "wf m1'" "view m1' = view m" "sec m1' = fst t" "subsec m1' = snd t"
    using Unmarshal_datagram [OF assms(1-3)] by blast
  then have m1: "wf m1" "view m1 = view m" "sec m1 = fst t" "subsec m1 = snd t" using assms(6) by simp_all
  from m1(1) assms(7,4) obtain m' where M: "Marshal now m1 stk =
      Some (m', datagram now m1 @ drop (length (datagram now m1)) stk, int (length (datagram now m1)))"
      "wf m'" "view m' = view m1" "msg_length m' = of_nat (length (enc (view m1)))"
    by (rule Marshal_datagram)
  let ?m2 = "m'\<lparr>sec := sec m1, subsec := subsec m1\<rparr>"
  let ?r = "drop (length (datagram now m1)) stk"
  have len: "length (datagram now m1) = length (datagram t m)" by (simp add: length_datagram m1)
  have "11 \<le> length (datagram now m1 @ ?r)" by (simp add: length_datagram)
  then have H: "MarshalHeaderOldTimeStamp ?m2 (datagram now m1 @ ?r) = Some (header_bytes ?m2 @ drop 11 (datagram now m1 @ ?r), 11)"
    by (rule MarshalHeaderOldTimeStamp_eq)
  have "header_bytes ?m2 @ drop 11 (datagram now m1 @ ?r) = datagram t m @ ?r"
    using M m1 wf_name by (simp add: datagram_def datagram_bytes_def header_bytes_def)
  with H M assms(5,8) wf_name [OF m1(1)] show ?thesis
    using get_datagram [of t m ?r] by (simp add: Forward_def len)
qed

text \<open>A receiver obtains the value the sender sent.\<close>

lemma RecvFrom_datagram:
  assumes "wf m" "ready m" "wf (m0\<lparr>bound := net_passive net port\<rparr>)" "bound m0 = IP_SOCK_INVALID"
    and "net_passive net port \<noteq> IP_SOCK_INVALID" "net_recv net 0 = Some (datagram now m)"
  shows "\<exists>m'. RecvFrom Unmarshal net m0 port = Some (m', int (length (datagram now m)))
           \<and> view m' = view m \<and> sec m' = fst now \<and> subsec m' = snd now"
proof -
  let ?r = "drop (length (datagram now m)) (replicate BUFSIZE (0 :: byte))"
  have fits: "length (datagram now m) \<le> BUFSIZE" using assms(1,2) by (rule datagram_fits)
  then have into: "recv_into BUFSIZE (Some (datagram now m)) (replicate BUFSIZE 0) = datagram now m @ ?r"
    by (simp add: recv_into_def)
  obtain m' where "Unmarshal (m0\<lparr>bound := net_passive net port\<rparr>) (datagram now m @ ?r) = Some (m', int (length (datagram now m)))"
    "view m' = view m" "sec m' = fst now" "subsec m' = snd now"
    using Unmarshal_datagram [OF assms(1-3)] by blast
  moreover have "datagram now m \<noteq> []" by (simp add: datagram_def datagram_bytes_def header_bytes_def)
  ultimately show ?thesis
    using assms(4-6) fits into by (simp add: RecvFrom_def Let_def del: drop_replicate)
qed

text \<open>The class passes the checks above.\<close>

lemma class_roundtrips: "roundtrips Marshal Unmarshal view wf ready"
  unfolding roundtrips_def
proof (intro allI impI, elim conjE)
  fix now m m0 stk
  assume m: "wf m" "ready m" and m0: "wf m0" and stk: "length (stk :: buffer) = BUFSIZE"
  obtain m1 where m1: "Marshal now m stk = Some (m1, datagram now m @ drop (length (datagram now m)) stk, int (length (datagram now m)))"
    "view m1 = view m"
    using Marshal_datagram [OF m stk] by metis
  have "length (datagram now m) \<le> BUFSIZE" using m by (rule datagram_fits)
  moreover have "\<exists>m2. Unmarshal m0 (datagram now m @ rest) = Some (m2, int (length (datagram now m))) \<and> wf m2 \<and> view m2 = view m
      \<and> sec m2 = fst now \<and> subsec m2 = snd now" for rest
    using Unmarshal_datagram [OF m m0, of now rest] by metis
  ultimately show "\<exists>m1 buf n. Marshal now m stk = Some (m1, buf, n) \<and> 0 \<le> n \<and> view m1 = view m \<and> length buf = BUFSIZE \<and>
     (\<forall>rest. \<exists>m2. Unmarshal m0 (take (nat n) buf @ rest) = Some (m2, n) \<and> wf m2 \<and> view m2 = view m
        \<and> sec m2 = fst now \<and> subsec m2 = snd now)"
    using m1 stk by simp
qed

lemma class_rejects: "rejects Unmarshal wf name"
  by (simp add: rejects_def Unmarshal_reject)

lemma SendTo_registration_acked:
  assumes "wf m" "ready m" "length stk = BUFSIZE" "name = SDM_xTEDS \<or> name = SDM_CancelxTEDS"
    and "length ack = 16" "ack ! 0 \<noteq> SDM_ACK"
    and "net_connect net (m_ulAddress d) (m_usPort d) \<noteq> IP_SOCK_INVALID"
    and "k \<le> NUMRETRIES" "\<And>i. i < k \<Longrightarrow> \<not> acked (net_recv net i)" "net_recv net k = Some (SDM_ACK # a)" "length a = 12"
  shows "\<exists>m' e. SendTo Marshal net stk ack now m d = Some (m', replicate (k + 1) (datagram now m),
            Some (if sint e < 0 then sint e else net_send net k (datagram now m)))
          \<and> GET_SHORT a 10 = Some e \<and> view m' = view m"
proof -
  from assms(1-3) obtain m' where M: "Marshal now m stk =
      Some (m', datagram now m @ drop (length (datagram now m)) stk, int (length (datagram now m)))" "view m' = view m"
    by (rule Marshal_datagram)
  let ?D = "datagram now m" and ?a = "recv_into 13 (net_recv net 0) ack"
  have la: "length ?a = 16" using assms(5) by (simp add: length_recv_into)
  have f: "?a ! 0 = SDM_ACK \<longleftrightarrow> acked (net_recv net 0)" using assms(5,6) by (simp add: recv_into_first)
  have "\<exists>t. SendTo_retry NUMRETRIES net ?D 0 ?a (net_send net 0 ?D) [?D] =
      (k, (SDM_ACK # a) @ t, net_send net k ?D, [?D] @ replicate k ?D) \<and> length t = 3"
  proof (cases "k = 0")
    case True
    then have "?a = (SDM_ACK # a) @ drop 13 ack" using assms(10,11) by (simp add: recv_into_def)
    then show ?thesis using True assms(5) by (simp add: numeral_eq_Suc)
  next
    case False
    then have "?a ! 0 \<noteq> SDM_ACK" using assms(9) f by simp
    with False assms(8-11) la SendTo_retry_acked [of ?a 0 k 5 net "SDM_ACK # a" ?D "net_send net 0 ?D" "[?D]"]
    show ?thesis by (auto simp: acked_def)
  qed
  then obtain t where R: "SendTo_retry NUMRETRIES net ?D 0 ?a (net_send net 0 ?D) [?D] =
      (k, (SDM_ACK # a) @ t, net_send net k ?D, [?D] @ replicate k ?D)" "length t = 3" by blast
  obtain e where e: "GET_SHORT a 10 = Some e" using assms(11) by (simp add: get_simps get_bytes_def)
  then have "GET_SHORT ((SDM_ACK # a) @ t) 11 = Some e" using assms(11) by (simp add: get_simps get_bytes_def split: if_splits)
  then show ?thesis using M assms(4,7) R e by (auto simp: SendTo_def get_datagram get_name)
qed

lemma SendTo_registration_silent:
  assumes "wf m" "ready m" "length stk = BUFSIZE" "name = SDM_xTEDS \<or> name = SDM_CancelxTEDS"
    and "length ack = 16" "ack ! 0 \<noteq> SDM_ACK"
    and "net_connect net (m_ulAddress d) (m_usPort d) \<noteq> IP_SOCK_INVALID"
    and "\<And>i. i \<le> NUMRETRIES \<Longrightarrow> \<not> acked (net_recv net i)"
  shows "\<exists>m'. SendTo Marshal net stk ack now m d =
    Some (m', replicate 6 (datagram now m), Some SDM_UNABLE_TO_REGISTER) \<and> view m' = view m"
proof -
  from assms(1-3) obtain m' where M: "Marshal now m stk =
      Some (m', datagram now m @ drop (length (datagram now m)) stk, int (length (datagram now m)))" "view m' = view m"
    by (rule Marshal_datagram)
  let ?D = "datagram now m" and ?a = "recv_into 13 (net_recv net 0) ack"
  have "length ?a = 16" "?a ! 0 \<noteq> SDM_ACK" using assms(5,6,8) by (simp_all add: length_recv_into recv_into_first)
  then obtain a r where "SendTo_retry NUMRETRIES net ?D 0 ?a (net_send net 0 ?D) [?D] = (5, a, r, [?D] @ replicate 5 ?D)" "a ! 0 \<noteq> SDM_ACK"
    using SendTo_retry_silent [of ?a 0 5 net ?D "net_send net 0 ?D" "[?D]"] assms(8) by auto
  then show ?thesis using M assms(4,7) by (auto simp: SendTo_def get_datagram get_name eval_nat_numeral)
qed

end

end
