(* ===== verification/Messages_Fixed.thy ===== *)
theory Messages_Fixed
  imports Message_Base
begin

text \<open>
  The message classes of fixed length (\<^verbatim>\<open>sdm/common/message/SDM*.cpp\<close>). Each class has its record
  (extending \<open>SDMmessage\<close>), its constructor, \<open>Marshal\<close>, \<open>Unmarshal\<close> and send and receive methods as in
  the source, the value it carries (\<open>view\<close>) with its encoding (\<open>enc\<close>), and an interpretation of
  \<open>sdm_class\<close>, which gives its round trip and the transport facts.
\<close>

section \<open>SDMAck\<close>

record SDMAck = SDMmessage +
  SDMAck_error :: "16 word"

definition SDMAck_new :: SDMAck where
  "SDMAck_new = SDMmessage.extend (new_message SDM_ACK 2)
     \<lparr>SDMAck_error = 0\<rparr>"

definition SDMAck_Marshal :: "SDMAck marshal" where
  "SDMAck_Marshal now m buf = do {
     let cur = HEADER_SIZE;
     buf \<leftarrow> PUT_SHORT buf cur (SDMAck_error m);
     let cur = cur + 2;
     let m = set_length cur m;
     (m, buf, _) \<leftarrow> MarshalHeader now m buf;
     Some (m, buf, int cur) }"

definition SDMAck_Unmarshal :: "SDMAck unmarshal" where
  "SDMAck_Unmarshal m buf = do {
     (m, cur) \<leftarrow> UnmarshalHeader m buf;
     if cur = SDM_INVALID_MESSAGE \<or> total_length m \<noteq> msg_length m then Some (m, SDM_INVALID_MESSAGE)
     else do {
       let cur = nat cur;
       v \<leftarrow> GET_SHORT buf cur;
       let m = m\<lparr>SDMAck_error := v\<rparr>;
       let cur = cur + 2;
       Some (m, int cur) } }"

definition SDMAck_Send :: "SDMAck sender" where
  "SDMAck_Send = SendDM SDMAck_Marshal"

definition SDMAck_Send_handle :: "(byte list \<Rightarrow> int) \<Rightarrow> (byte list \<Rightarrow> int) \<Rightarrow> buffer \<Rightarrow> timeval \<Rightarrow> SDMAck \<Rightarrow> SDMComHandle
    \<Rightarrow> (SDMAck \<times> byte list list \<times> int) option" where
  "SDMAck_Send_handle tcp udp stk now m Handle =
     (if SDMComHandle_IsValidHandle Handle
      then SendReplyTo SDMAck_Marshal tcp udp stk now m (m_iSock Handle) (m_bIsTcp Handle)
      else Some (m, [], - 1))"

definition SDMAck_view :: "SDMAck \<Rightarrow> 16 word" where
  "SDMAck_view m = SDMAck_error m"

definition SDMAck_enc :: "16 word \<Rightarrow> byte list" where
  "SDMAck_enc = (\<lambda>a. word_bytes 2 a)"

definition SDMAck_wf :: "SDMAck \<Rightarrow> bool" where
  "SDMAck_wf m \<longleftrightarrow> MsgName m = SDM_ACK \<and> total_length m = 2"

lemmas SDMAck_class = SDMAck_Marshal_def SDMAck_Unmarshal_def SDMAck_view_def SDMAck_enc_def SDMAck_wf_def

interpretation ack: sdm_class SDMAck_Marshal SDMAck_Unmarshal SDMAck_view SDMAck_enc SDMAck_wf "\<lambda>_. True" SDM_ACK
  by unfold_locales (simp_all add: SDMAck_class class_laws)

section \<open>SDMCancel\<close>

record SDMCancel = SDMmessage +
  SDMCancel_source :: SDMComponent_ID
  SDMCancel_destination :: SDMComponent_ID
  SDMCancel_msg_id :: SDMMessage_ID

definition SDMCancel_new :: SDMCancel where
  "SDMCancel_new = SDMmessage.extend (new_message SDM_Cancel 22)
     \<lparr>SDMCancel_source = SDMComponent_ID_new, SDMCancel_destination = SDMComponent_ID_new, SDMCancel_msg_id = SDMMessage_ID_new 0 0\<rparr>"

definition SDMCancel_Marshal :: "SDMCancel marshal" where
  "SDMCancel_Marshal now m buf = do {
     let cur = HEADER_SIZE;
     (buf, n) \<leftarrow> id_Marshal (SDMCancel_source m) buf cur;
     let cur = cur + n;
     (buf, n) \<leftarrow> id_Marshal (SDMCancel_destination m) buf cur;
     let cur = cur + n;
     (buf, n) \<leftarrow> SDMMessage_ID_Marshal (SDMCancel_msg_id m) buf cur;
     let cur = cur + n;
     let m = set_length cur m;
     (m, buf, _) \<leftarrow> MarshalHeader now m buf;
     Some (m, buf, int cur) }"

definition SDMCancel_Unmarshal :: "SDMCancel unmarshal" where
  "SDMCancel_Unmarshal m buf = do {
     (m, cur) \<leftarrow> UnmarshalHeader m buf;
     if cur = SDM_INVALID_MESSAGE then Some (m, SDM_INVALID_MESSAGE)
     else if total_length m \<noteq> msg_length m then Some (m, SDM_INVALID_MESSAGE)
     else do {
       let cur = nat cur;
       (c, n) \<leftarrow> id_Unmarshal (SDMCancel_source m) buf cur;
       let m = m\<lparr>SDMCancel_source := c\<rparr>;
       let cur = cur + n;
       (c, n) \<leftarrow> id_Unmarshal (SDMCancel_destination m) buf cur;
       let m = m\<lparr>SDMCancel_destination := c\<rparr>;
       let cur = cur + n;
       (d, n) \<leftarrow> SDMMessage_ID_Unmarshal (SDMCancel_msg_id m) buf cur;
       let m = m\<lparr>SDMCancel_msg_id := d\<rparr>;
       let cur = cur + n;
       Some (m, int cur) } }"

definition SDMCancel_Send :: "SDMCancel sender" where
  "SDMCancel_Send = SendDM SDMCancel_Marshal"

definition SDMCancel_view :: "SDMCancel \<Rightarrow> SDMComponent_ID \<times> SDMComponent_ID \<times> SDMMessage_ID" where
  "SDMCancel_view m = (SDMCancel_source m, SDMCancel_destination m, SDMCancel_msg_id m)"

definition SDMCancel_enc :: "SDMComponent_ID \<times> SDMComponent_ID \<times> SDMMessage_ID \<Rightarrow> byte list" where
  "SDMCancel_enc = (\<lambda>(a, b, c). id_bytes a @ id_bytes b @ mid_bytes c)"

definition SDMCancel_wf :: "SDMCancel \<Rightarrow> bool" where
  "SDMCancel_wf m \<longleftrightarrow> MsgName m = SDM_Cancel \<and> total_length m = 22"

lemmas SDMCancel_class = SDMCancel_Marshal_def SDMCancel_Unmarshal_def SDMCancel_view_def SDMCancel_enc_def SDMCancel_wf_def

interpretation cancel: sdm_class SDMCancel_Marshal SDMCancel_Unmarshal SDMCancel_view SDMCancel_enc SDMCancel_wf "\<lambda>_. True" SDM_Cancel
  by unfold_locales (simp_all add: SDMCancel_class class_laws)

section \<open>SDMConsume\<close>

record SDMConsume = SDMmessage +
  SDMConsume_source :: SDMComponent_ID
  SDMConsume_destination :: SDMComponent_ID
  SDMConsume_msg_id :: SDMMessage_ID

definition SDMConsume_new :: SDMConsume where
  "SDMConsume_new = SDMmessage.extend (new_message SDM_Consume 22)
     \<lparr>SDMConsume_source = SDMComponent_ID_new, SDMConsume_destination = SDMComponent_ID_new, SDMConsume_msg_id = SDMMessage_ID_new 0 0\<rparr>"

definition SDMConsume_Marshal :: "SDMConsume marshal" where
  "SDMConsume_Marshal now m buf = do {
     let cur = HEADER_SIZE;
     (buf, n) \<leftarrow> id_Marshal (SDMConsume_source m) buf cur;
     let cur = cur + n;
     (buf, n) \<leftarrow> id_Marshal (SDMConsume_destination m) buf cur;
     let cur = cur + n;
     (buf, n) \<leftarrow> SDMMessage_ID_Marshal (SDMConsume_msg_id m) buf cur;
     let cur = cur + n;
     let m = set_length cur m;
     (m, buf, _) \<leftarrow> MarshalHeader now m buf;
     Some (m, buf, int cur) }"

definition SDMConsume_Unmarshal :: "SDMConsume unmarshal" where
  "SDMConsume_Unmarshal m buf = do {
     (m, cur) \<leftarrow> UnmarshalHeader m buf;
     if cur = SDM_INVALID_MESSAGE then Some (m, SDM_INVALID_MESSAGE)
     else if total_length m \<noteq> msg_length m then Some (m, SDM_INVALID_MESSAGE)
     else do {
       let cur = nat cur;
       (c, n) \<leftarrow> id_Unmarshal (SDMConsume_source m) buf cur;
       let m = m\<lparr>SDMConsume_source := c\<rparr>;
       let cur = cur + n;
       (c, n) \<leftarrow> id_Unmarshal (SDMConsume_destination m) buf cur;
       let m = m\<lparr>SDMConsume_destination := c\<rparr>;
       let cur = cur + n;
       (d, n) \<leftarrow> SDMMessage_ID_Unmarshal (SDMConsume_msg_id m) buf cur;
       let m = m\<lparr>SDMConsume_msg_id := d\<rparr>;
       let cur = cur + n;
       Some (m, int HEADER_SIZE + sint (msg_length m)) } }"

definition SDMConsume_Send :: "SDMConsume sender" where
  "SDMConsume_Send = SendDM SDMConsume_Marshal"

definition SDMConsume_view :: "SDMConsume \<Rightarrow> SDMComponent_ID \<times> SDMComponent_ID \<times> SDMMessage_ID" where
  "SDMConsume_view m = (SDMConsume_source m, SDMConsume_destination m, SDMConsume_msg_id m)"

definition SDMConsume_enc :: "SDMComponent_ID \<times> SDMComponent_ID \<times> SDMMessage_ID \<Rightarrow> byte list" where
  "SDMConsume_enc = (\<lambda>(a, b, c). id_bytes a @ id_bytes b @ mid_bytes c)"

definition SDMConsume_wf :: "SDMConsume \<Rightarrow> bool" where
  "SDMConsume_wf m \<longleftrightarrow> MsgName m = SDM_Consume \<and> total_length m = 22"

lemmas SDMConsume_class = SDMConsume_Marshal_def SDMConsume_Unmarshal_def SDMConsume_view_def SDMConsume_enc_def SDMConsume_wf_def

interpretation consume: sdm_class SDMConsume_Marshal SDMConsume_Unmarshal SDMConsume_view SDMConsume_enc SDMConsume_wf "\<lambda>_. True" SDM_Consume
  by unfold_locales (simp_all add: SDMConsume_class class_laws)

section \<open>SDMDeletesub\<close>

record SDMDeletesub = SDMmessage +
  SDMDeletesub_source :: SDMComponent_ID
  SDMDeletesub_destination :: SDMComponent_ID
  SDMDeletesub_msg_id :: SDMMessage_ID

definition SDMDeletesub_new :: SDMDeletesub where
  "SDMDeletesub_new = SDMmessage.extend (new_message SDM_Deletesub 22)
     \<lparr>SDMDeletesub_source = SDMComponent_ID_new, SDMDeletesub_destination = SDMComponent_ID_new, SDMDeletesub_msg_id = SDMMessage_ID_new 0 0\<rparr>"

definition SDMDeletesub_Marshal :: "SDMDeletesub marshal" where
  "SDMDeletesub_Marshal now m buf = do {
     let cur = HEADER_SIZE;
     (buf, n) \<leftarrow> id_Marshal (SDMDeletesub_source m) buf cur;
     let cur = cur + n;
     (buf, n) \<leftarrow> id_Marshal (SDMDeletesub_destination m) buf cur;
     let cur = cur + n;
     (buf, n) \<leftarrow> SDMMessage_ID_Marshal (SDMDeletesub_msg_id m) buf cur;
     let cur = cur + n;
     let m = set_length cur m;
     (m, buf, _) \<leftarrow> MarshalHeader now m buf;
     Some (m, buf, int cur) }"

definition SDMDeletesub_Unmarshal :: "SDMDeletesub unmarshal" where
  "SDMDeletesub_Unmarshal m buf = do {
     (m, cur) \<leftarrow> UnmarshalHeader m buf;
     if cur = SDM_INVALID_MESSAGE then Some (m, SDM_INVALID_MESSAGE)
     else if total_length m \<noteq> msg_length m then Some (m, SDM_INVALID_MESSAGE)
     else do {
       let cur = nat cur;
       (c, n) \<leftarrow> id_Unmarshal (SDMDeletesub_source m) buf cur;
       let m = m\<lparr>SDMDeletesub_source := c\<rparr>;
       let cur = cur + n;
       (c, n) \<leftarrow> id_Unmarshal (SDMDeletesub_destination m) buf cur;
       let m = m\<lparr>SDMDeletesub_destination := c\<rparr>;
       let cur = cur + n;
       (d, n) \<leftarrow> SDMMessage_ID_Unmarshal (SDMDeletesub_msg_id m) buf cur;
       let m = m\<lparr>SDMDeletesub_msg_id := d\<rparr>;
       let cur = cur + n;
       Some (m, int HEADER_SIZE + sint (msg_length m)) } }"

definition SDMDeletesub_Send :: "SDMDeletesub sender" where
  "SDMDeletesub_Send env m =
     SendTo_checked SDMDeletesub_Marshal (env_net env) (env_stk env) (env_ack env) (env_now env) m (SDMDeletesub_source m)"

definition SDMDeletesub_Recv :: "net \<Rightarrow> SDMDeletesub \<Rightarrow> 32 word \<Rightarrow> (SDMDeletesub \<times> int) option" where
  "SDMDeletesub_Recv = Recv_checked SDMDeletesub_Unmarshal"

definition SDMDeletesub_view :: "SDMDeletesub \<Rightarrow> SDMComponent_ID \<times> SDMComponent_ID \<times> SDMMessage_ID" where
  "SDMDeletesub_view m = (SDMDeletesub_source m, SDMDeletesub_destination m, SDMDeletesub_msg_id m)"

definition SDMDeletesub_enc :: "SDMComponent_ID \<times> SDMComponent_ID \<times> SDMMessage_ID \<Rightarrow> byte list" where
  "SDMDeletesub_enc = (\<lambda>(a, b, c). id_bytes a @ id_bytes b @ mid_bytes c)"

definition SDMDeletesub_wf :: "SDMDeletesub \<Rightarrow> bool" where
  "SDMDeletesub_wf m \<longleftrightarrow> MsgName m = SDM_Deletesub \<and> total_length m = 22"

lemmas SDMDeletesub_class = SDMDeletesub_Marshal_def SDMDeletesub_Unmarshal_def SDMDeletesub_view_def SDMDeletesub_enc_def SDMDeletesub_wf_def

interpretation deletesub: sdm_class SDMDeletesub_Marshal SDMDeletesub_Unmarshal SDMDeletesub_view SDMDeletesub_enc SDMDeletesub_wf "\<lambda>_. True" SDM_Deletesub
  by unfold_locales (simp_all add: SDMDeletesub_class class_laws)

section \<open>SDMDMLeader\<close>

record SDMDMLeader = SDMmessage +
  SDMDMLeader_source :: SDMComponent_ID
  SDMDMLeader_running_flag :: byte

definition SDMDMLeader_new :: SDMDMLeader where
  "SDMDMLeader_new = SDMmessage.extend (new_message SDM_DMLeader 11)
     \<lparr>SDMDMLeader_source = SDMComponent_ID_new, SDMDMLeader_running_flag = 0\<rparr>"

definition SDMDMLeader_Marshal :: "SDMDMLeader marshal" where
  "SDMDMLeader_Marshal now m buf = do {
     let cur = HEADER_SIZE;
     (buf, n) \<leftarrow> id_Marshal (SDMDMLeader_source m) buf cur;
     let cur = cur + n;
     buf \<leftarrow> PUT_CHAR buf cur (SDMDMLeader_running_flag m);
     let cur = cur + 1;
     let m = set_length cur m;
     (m, buf, _) \<leftarrow> MarshalHeader now m buf;
     Some (m, buf, int cur) }"

definition SDMDMLeader_Unmarshal :: "SDMDMLeader unmarshal" where
  "SDMDMLeader_Unmarshal m buf = do {
     (m, cur) \<leftarrow> UnmarshalHeader m buf;
     if cur = SDM_INVALID_MESSAGE then Some (m, SDM_INVALID_MESSAGE)
     else if total_length m \<noteq> msg_length m then Some (m, SDM_INVALID_MESSAGE)
     else do {
       let cur = nat cur;
       (c, n) \<leftarrow> id_Unmarshal (SDMDMLeader_source m) buf cur;
       let m = m\<lparr>SDMDMLeader_source := c\<rparr>;
       let cur = cur + n;
       v \<leftarrow> GET_CHAR buf cur;
       let m = m\<lparr>SDMDMLeader_running_flag := v\<rparr>;
       let cur = cur + 1;
       Some (m, int cur) } }"

definition SDMDMLeader_Send :: "(32 word \<Rightarrow> 16 word \<Rightarrow> byte list \<Rightarrow> int) \<Rightarrow> env \<Rightarrow> SDMDMLeader
    \<Rightarrow> (SDMDMLeader \<times> (32 word \<times> byte list) list \<times> int) option" where
  "SDMDMLeader_Send bcast env m =
     SendBroadcast SDMDMLeader_Marshal bcast (DataManager env) (env_stk env) (env_now env) m 0 PORT_DM_ELECTION"

definition SDMDMLeader_view :: "SDMDMLeader \<Rightarrow> SDMComponent_ID \<times> byte" where
  "SDMDMLeader_view m = (SDMDMLeader_source m, SDMDMLeader_running_flag m)"

definition SDMDMLeader_enc :: "SDMComponent_ID \<times> byte \<Rightarrow> byte list" where
  "SDMDMLeader_enc = (\<lambda>(a, b). id_bytes a @ [b])"

definition SDMDMLeader_wf :: "SDMDMLeader \<Rightarrow> bool" where
  "SDMDMLeader_wf m \<longleftrightarrow> MsgName m = SDM_DMLeader \<and> total_length m = 11"

lemmas SDMDMLeader_class = SDMDMLeader_Marshal_def SDMDMLeader_Unmarshal_def SDMDMLeader_view_def SDMDMLeader_enc_def SDMDMLeader_wf_def

interpretation dmleader: sdm_class SDMDMLeader_Marshal SDMDMLeader_Unmarshal SDMDMLeader_view SDMDMLeader_enc SDMDMLeader_wf "\<lambda>_. True" SDM_DMLeader
  by unfold_locales (simp_all add: SDMDMLeader_class class_laws)

section \<open>SDMHeartbeat\<close>

record SDMHeartbeat = SDMmessage +
  SDMHeartbeat_source :: SDMComponent_ID

definition SDMHeartbeat_new :: SDMHeartbeat where
  "SDMHeartbeat_new = SDMmessage.extend (new_message SDM_Heartbeat 10)
     \<lparr>SDMHeartbeat_source = SDMComponent_ID_new\<rparr>"

definition SDMHeartbeat_Marshal :: "SDMHeartbeat marshal" where
  "SDMHeartbeat_Marshal now m buf = do {
     let cur = HEADER_SIZE;
     (buf, n) \<leftarrow> id_Marshal (SDMHeartbeat_source m) buf cur;
     let cur = cur + n;
     let m = set_length cur m;
     (m, buf, _) \<leftarrow> MarshalHeader now m buf;
     Some (m, buf, int cur) }"

definition SDMHeartbeat_Unmarshal :: "SDMHeartbeat unmarshal" where
  "SDMHeartbeat_Unmarshal m buf = do {
     (m, cur) \<leftarrow> UnmarshalHeader m buf;
     if cur = SDM_INVALID_MESSAGE then Some (m, SDM_INVALID_MESSAGE)
     else if total_length m \<noteq> msg_length m then Some (m, SDM_INVALID_MESSAGE)
     else do {
       let cur = nat cur;
       (c, n) \<leftarrow> id_Unmarshal (SDMHeartbeat_source m) buf cur;
       let m = m\<lparr>SDMHeartbeat_source := c\<rparr>;
       let cur = cur + n;
       Some (m, int cur) } }"

definition SDMHeartbeat_view :: "SDMHeartbeat \<Rightarrow> SDMComponent_ID" where
  "SDMHeartbeat_view m = SDMHeartbeat_source m"

definition SDMHeartbeat_enc :: "SDMComponent_ID \<Rightarrow> byte list" where
  "SDMHeartbeat_enc = (\<lambda>a. id_bytes a)"

definition SDMHeartbeat_wf :: "SDMHeartbeat \<Rightarrow> bool" where
  "SDMHeartbeat_wf m \<longleftrightarrow> MsgName m = SDM_Heartbeat \<and> total_length m = 10"

lemmas SDMHeartbeat_class = SDMHeartbeat_Marshal_def SDMHeartbeat_Unmarshal_def SDMHeartbeat_view_def SDMHeartbeat_enc_def SDMHeartbeat_wf_def

interpretation heartbeat: sdm_class SDMHeartbeat_Marshal SDMHeartbeat_Unmarshal SDMHeartbeat_view SDMHeartbeat_enc SDMHeartbeat_wf "\<lambda>_. True" SDM_Heartbeat
  by unfold_locales (simp_all add: SDMHeartbeat_class class_laws)

section \<open>SDMHello\<close>

record SDMHello = SDMmessage +
  SDMHello_source :: SDMComponent_ID
  SDMHello_type :: byte

definition SDMHello_new :: SDMHello where
  "SDMHello_new = SDMmessage.extend (new_message SDM_Hello 11)
     \<lparr>SDMHello_source = SDMComponent_ID_new, SDMHello_type = 0x44\<rparr>"

definition SDMHello_Marshal :: "SDMHello marshal" where
  "SDMHello_Marshal now m buf = do {
     let cur = HEADER_SIZE;
     (buf, n) \<leftarrow> id_Marshal (SDMHello_source m) buf cur;
     let cur = cur + n;
     buf \<leftarrow> PUT_CHAR buf cur (SDMHello_type m);
     let cur = cur + 1;
     let m = set_length cur m;
     (m, buf, _) \<leftarrow> MarshalHeader now m buf;
     Some (m, buf, int cur) }"

definition SDMHello_Unmarshal :: "SDMHello unmarshal" where
  "SDMHello_Unmarshal m buf = do {
     (m, cur) \<leftarrow> UnmarshalHeader m buf;
     if cur = SDM_INVALID_MESSAGE \<or> total_length m \<noteq> msg_length m then Some (m, SDM_INVALID_MESSAGE)
     else do {
       let cur = nat cur;
       (c, n) \<leftarrow> id_Unmarshal (SDMHello_source m) buf cur;
       let m = m\<lparr>SDMHello_source := c\<rparr>;
       let cur = cur + n;
       v \<leftarrow> GET_CHAR buf cur;
       let m = m\<lparr>SDMHello_type := v\<rparr>;
       let cur = cur + 1;
       Some (m, int cur) } }"

definition SDMHello_Send :: "SDMHello sender" where
  "SDMHello_Send = SendDM SDMHello_Marshal"

definition SDMHello_view :: "SDMHello \<Rightarrow> SDMComponent_ID \<times> byte" where
  "SDMHello_view m = (SDMHello_source m, SDMHello_type m)"

definition SDMHello_enc :: "SDMComponent_ID \<times> byte \<Rightarrow> byte list" where
  "SDMHello_enc = (\<lambda>(a, b). id_bytes a @ [b])"

definition SDMHello_wf :: "SDMHello \<Rightarrow> bool" where
  "SDMHello_wf m \<longleftrightarrow> MsgName m = SDM_Hello \<and> total_length m = 11"

lemmas SDMHello_class = SDMHello_Marshal_def SDMHello_Unmarshal_def SDMHello_view_def SDMHello_enc_def SDMHello_wf_def

interpretation hello: sdm_class SDMHello_Marshal SDMHello_Unmarshal SDMHello_view SDMHello_enc SDMHello_wf "\<lambda>_. True" SDM_Hello
  by unfold_locales (simp_all add: SDMHello_class class_laws)

section \<open>SDMID\<close>

record SDMID = SDMmessage +
  SDMID_destination :: SDMComponent_ID

definition SDMID_new :: SDMID where
  "SDMID_new = SDMmessage.extend (new_message SDM_ID 10)
     \<lparr>SDMID_destination = SDMComponent_ID_new\<rparr>"

definition SDMID_Marshal :: "SDMID marshal" where
  "SDMID_Marshal now m buf = do {
     let cur = HEADER_SIZE;
     (buf, n) \<leftarrow> id_Marshal (SDMID_destination m) buf cur;
     let cur = cur + n;
     let m = set_length cur m;
     (m, buf, _) \<leftarrow> MarshalHeader now m buf;
     Some (m, buf, int cur) }"

definition SDMID_Unmarshal :: "SDMID unmarshal" where
  "SDMID_Unmarshal m buf = do {
     (m, cur) \<leftarrow> UnmarshalHeader m buf;
     if cur = SDM_INVALID_MESSAGE then Some (m, SDM_INVALID_MESSAGE)
     else if total_length m \<noteq> msg_length m then Some (m, SDM_INVALID_MESSAGE)
     else do {
       let cur = nat cur;
       (c, n) \<leftarrow> id_Unmarshal (SDMID_destination m) buf cur;
       let m = m\<lparr>SDMID_destination := c\<rparr>;
       let cur = cur + n;
       Some (m, int cur) } }"

definition SDMID_view :: "SDMID \<Rightarrow> SDMComponent_ID" where
  "SDMID_view m = SDMID_destination m"

definition SDMID_enc :: "SDMComponent_ID \<Rightarrow> byte list" where
  "SDMID_enc = (\<lambda>a. id_bytes a)"

definition SDMID_wf :: "SDMID \<Rightarrow> bool" where
  "SDMID_wf m \<longleftrightarrow> MsgName m = SDM_ID \<and> total_length m = 10"

lemmas SDMID_class = SDMID_Marshal_def SDMID_Unmarshal_def SDMID_view_def SDMID_enc_def SDMID_wf_def

interpretation sdmid: sdm_class SDMID_Marshal SDMID_Unmarshal SDMID_view SDMID_enc SDMID_wf "\<lambda>_. True" SDM_ID
  by unfold_locales (simp_all add: SDMID_class class_laws)

section \<open>SDMReady\<close>

record SDMReady = SDMmessage +
  SDMReady_destination :: SDMComponent_ID
  SDMReady_source :: SDMComponent_ID

definition SDMReady_new :: SDMReady where
  "SDMReady_new = SDMmessage.extend (new_message SDM_Ready 20)
     \<lparr>SDMReady_destination = SDMComponent_ID_new, SDMReady_source = SDMComponent_ID_new\<rparr>"

definition SDMReady_Marshal :: "SDMReady marshal" where
  "SDMReady_Marshal now m buf = do {
     let cur = HEADER_SIZE;
     (buf, n) \<leftarrow> id_Marshal (SDMReady_source m) buf cur;
     let cur = cur + n;
     (buf, n) \<leftarrow> id_Marshal (SDMReady_destination m) buf cur;
     let cur = cur + n;
     let m = set_length cur m;
     (m, buf, _) \<leftarrow> MarshalHeader now m buf;
     Some (m, buf, int cur) }"

definition SDMReady_Unmarshal :: "SDMReady unmarshal" where
  "SDMReady_Unmarshal m buf = do {
     (m, cur) \<leftarrow> UnmarshalHeader m buf;
     if cur = SDM_INVALID_MESSAGE then Some (m, SDM_INVALID_MESSAGE)
     else if total_length m \<noteq> msg_length m then Some (m, SDM_INVALID_MESSAGE)
     else do {
       let cur = nat cur;
       (c, n) \<leftarrow> id_Unmarshal (SDMReady_source m) buf cur;
       let m = m\<lparr>SDMReady_source := c\<rparr>;
       let cur = cur + n;
       (c, n) \<leftarrow> id_Unmarshal (SDMReady_destination m) buf cur;
       let m = m\<lparr>SDMReady_destination := c\<rparr>;
       let cur = cur + n;
       Some (m, int HEADER_SIZE + sint (msg_length m)) } }"

definition SDMReady_Send :: "SDMReady sender" where
  "SDMReady_Send env m =
     (if m_usPort (SDMReady_destination m) = PORT_PM then SendTM SDMReady_Marshal env m
      else SendDM SDMReady_Marshal env m)"

definition SDMReady_Send_to :: "SDMReady sender_to" where
  "SDMReady_Send_to env = SendTo SDMReady_Marshal (env_net env) (env_stk env) (env_ack env) (env_now env)"

definition SDMReady_view :: "SDMReady \<Rightarrow> SDMComponent_ID \<times> SDMComponent_ID" where
  "SDMReady_view m = (SDMReady_source m, SDMReady_destination m)"

definition SDMReady_enc :: "SDMComponent_ID \<times> SDMComponent_ID \<Rightarrow> byte list" where
  "SDMReady_enc = (\<lambda>(a, b). id_bytes a @ id_bytes b)"

definition SDMReady_wf :: "SDMReady \<Rightarrow> bool" where
  "SDMReady_wf m \<longleftrightarrow> MsgName m = SDM_Ready \<and> total_length m = 20"

lemmas SDMReady_class = SDMReady_Marshal_def SDMReady_Unmarshal_def SDMReady_view_def SDMReady_enc_def SDMReady_wf_def

interpretation ready_msg: sdm_class SDMReady_Marshal SDMReady_Unmarshal SDMReady_view SDMReady_enc SDMReady_wf "\<lambda>_. True" SDM_Ready
  by unfold_locales (simp_all add: SDMReady_class class_laws)

section \<open>SDMRegPM\<close>

record SDMRegPM = SDMmessage +
  SDMRegPM_source :: SDMComponent_ID
  SDMRegPM_resources :: "16 word"

definition SDMRegPM_new :: SDMRegPM where
  "SDMRegPM_new = SDMmessage.extend (new_message SDM_RegPM 12)
     \<lparr>SDMRegPM_source = SDMComponent_ID_new, SDMRegPM_resources = 0\<rparr>"

definition SDMRegPM_Marshal :: "SDMRegPM marshal" where
  "SDMRegPM_Marshal now m buf = do {
     let cur = HEADER_SIZE;
     (buf, n) \<leftarrow> id_Marshal (SDMRegPM_source m) buf cur;
     let cur = cur + n;
     buf \<leftarrow> PUT_USHORT buf cur (SDMRegPM_resources m);
     let cur = cur + 2;
     let m = set_length cur m;
     (m, buf, _) \<leftarrow> MarshalHeader now m buf;
     Some (m, buf, int cur) }"

definition SDMRegPM_Unmarshal :: "SDMRegPM unmarshal" where
  "SDMRegPM_Unmarshal m buf = do {
     (m, cur) \<leftarrow> UnmarshalHeader m buf;
     if cur = SDM_INVALID_MESSAGE then Some (m, SDM_INVALID_MESSAGE)
     else if total_length m \<noteq> msg_length m then Some (m, SDM_INVALID_MESSAGE)
     else do {
       let cur = nat cur;
       (c, n) \<leftarrow> id_Unmarshal (SDMRegPM_source m) buf cur;
       let m = m\<lparr>SDMRegPM_source := c\<rparr>;
       let cur = cur + n;
       v \<leftarrow> GET_USHORT buf cur;
       let m = m\<lparr>SDMRegPM_resources := v\<rparr>;
       let cur = cur + 2;
       Some (m, int cur) } }"

definition SDMRegPM_Send :: "SDMRegPM sender" where
  "SDMRegPM_Send = SendTM SDMRegPM_Marshal"

definition SDMRegPM_Send_to :: "SDMRegPM sender_to" where
  "SDMRegPM_Send_to env = SendTo SDMRegPM_Marshal (env_net env) (env_stk env) (env_ack env) (env_now env)"

definition SDMRegPM_view :: "SDMRegPM \<Rightarrow> SDMComponent_ID \<times> 16 word" where
  "SDMRegPM_view m = (SDMRegPM_source m, SDMRegPM_resources m)"

definition SDMRegPM_enc :: "SDMComponent_ID \<times> 16 word \<Rightarrow> byte list" where
  "SDMRegPM_enc = (\<lambda>(a, b). id_bytes a @ word_bytes 2 b)"

definition SDMRegPM_wf :: "SDMRegPM \<Rightarrow> bool" where
  "SDMRegPM_wf m \<longleftrightarrow> MsgName m = SDM_RegPM \<and> total_length m = 12"

lemmas SDMRegPM_class = SDMRegPM_Marshal_def SDMRegPM_Unmarshal_def SDMRegPM_view_def SDMRegPM_enc_def SDMRegPM_wf_def

interpretation regpm: sdm_class SDMRegPM_Marshal SDMRegPM_Unmarshal SDMRegPM_view SDMRegPM_enc SDMRegPM_wf "\<lambda>_. True" SDM_RegPM
  by unfold_locales (simp_all add: SDMRegPM_class class_laws)

section \<open>SDMRegister\<close>

record SDMRegister = SDMmessage +
  SDMRegister_sensorIndex :: "16 word"

definition SDMRegister_new :: SDMRegister where
  "SDMRegister_new = SDMmessage.extend (new_message SDM_Register 2)
     \<lparr>SDMRegister_sensorIndex = - 1\<rparr>"

definition SDMRegister_Marshal :: "SDMRegister marshal" where
  "SDMRegister_Marshal now m buf = do {
     let cur = HEADER_SIZE;
     buf \<leftarrow> PUT_SHORT buf cur (SDMRegister_sensorIndex m);
     let cur = cur + 2;
     let m = set_length cur m;
     (m, buf, _) \<leftarrow> MarshalHeader now m buf;
     Some (m, buf, int cur) }"

definition SDMRegister_Unmarshal :: "SDMRegister unmarshal" where
  "SDMRegister_Unmarshal m buf = do {
     (m, cur) \<leftarrow> UnmarshalHeader m buf;
     if cur = SDM_INVALID_MESSAGE \<or> total_length m \<noteq> msg_length m then Some (m, SDM_INVALID_MESSAGE)
     else do {
       let cur = nat cur;
       v \<leftarrow> GET_SHORT buf cur;
       let m = m\<lparr>SDMRegister_sensorIndex := v\<rparr>;
       let cur = cur + 2;
       Some (m, int cur) } }"

definition SDMRegister_view :: "SDMRegister \<Rightarrow> 16 word" where
  "SDMRegister_view m = SDMRegister_sensorIndex m"

definition SDMRegister_enc :: "16 word \<Rightarrow> byte list" where
  "SDMRegister_enc = (\<lambda>a. word_bytes 2 a)"

definition SDMRegister_wf :: "SDMRegister \<Rightarrow> bool" where
  "SDMRegister_wf m \<longleftrightarrow> MsgName m = SDM_Register \<and> total_length m = 2"

lemmas SDMRegister_class = SDMRegister_Marshal_def SDMRegister_Unmarshal_def SDMRegister_view_def SDMRegister_enc_def SDMRegister_wf_def

interpretation register: sdm_class SDMRegister_Marshal SDMRegister_Unmarshal SDMRegister_view SDMRegister_enc SDMRegister_wf "\<lambda>_. True" SDM_Register
  by unfold_locales (simp_all add: SDMRegister_class class_laws)

section \<open>SDMSubreqst\<close>

record SDMSubreqst = SDMmessage +
  SDMSubreqst_source :: SDMComponent_ID
  SDMSubreqst_destination :: SDMComponent_ID
  SDMSubreqst_msg_id :: SDMMessage_ID
  SDMSubreqst_fault_id :: SDMMessage_ID

definition SDMSubreqst_new :: SDMSubreqst where
  "SDMSubreqst_new = SDMmessage.extend (new_message SDM_Subreqst 24)
     \<lparr>SDMSubreqst_source = SDMComponent_ID_new, SDMSubreqst_destination = SDMComponent_ID_new, SDMSubreqst_msg_id = SDMMessage_ID_new 0 0, SDMSubreqst_fault_id = SDMMessage_ID_new 0 0\<rparr>"

definition SDMSubreqst_Marshal :: "SDMSubreqst marshal" where
  "SDMSubreqst_Marshal now m buf = do {
     let cur = HEADER_SIZE;
     (buf, n) \<leftarrow> id_Marshal (SDMSubreqst_source m) buf cur;
     let cur = cur + n;
     (buf, n) \<leftarrow> id_Marshal (SDMSubreqst_destination m) buf cur;
     let cur = cur + n;
     (buf, n) \<leftarrow> SDMMessage_ID_Marshal (SDMSubreqst_msg_id m) buf cur;
     let cur = cur + n;
     (buf, n) \<leftarrow> SDMMessage_ID_Marshal (SDMSubreqst_fault_id m) buf cur;
     let cur = cur + n;
     let m = set_length cur m;
     (m, buf, _) \<leftarrow> MarshalHeader now m buf;
     Some (m, buf, int cur) }"

definition SDMSubreqst_Unmarshal :: "SDMSubreqst unmarshal" where
  "SDMSubreqst_Unmarshal m buf = do {
     (m, cur) \<leftarrow> UnmarshalHeader m buf;
     if cur = SDM_INVALID_MESSAGE then Some (m, SDM_INVALID_MESSAGE)
     else if total_length m \<noteq> msg_length m then Some (m, SDM_INVALID_MESSAGE)
     else do {
       let cur = nat cur;
       (c, n) \<leftarrow> id_Unmarshal (SDMSubreqst_source m) buf cur;
       let m = m\<lparr>SDMSubreqst_source := c\<rparr>;
       let cur = cur + n;
       (c, n) \<leftarrow> id_Unmarshal (SDMSubreqst_destination m) buf cur;
       let m = m\<lparr>SDMSubreqst_destination := c\<rparr>;
       let cur = cur + n;
       (d, n) \<leftarrow> SDMMessage_ID_Unmarshal (SDMSubreqst_msg_id m) buf cur;
       let m = m\<lparr>SDMSubreqst_msg_id := d\<rparr>;
       let cur = cur + n;
       (d, n) \<leftarrow> SDMMessage_ID_Unmarshal (SDMSubreqst_fault_id m) buf cur;
       let m = m\<lparr>SDMSubreqst_fault_id := d\<rparr>;
       let cur = cur + n;
       Some (m, int cur) } }"

definition SDMSubreqst_Send :: "SDMSubreqst sender" where
  "SDMSubreqst_Send env m =
     SendTo_checked SDMSubreqst_Marshal (env_net env) (env_stk env) (env_ack env) (env_now env) m (SDMSubreqst_source m)"

definition SDMSubreqst_Recv :: "net \<Rightarrow> SDMSubreqst \<Rightarrow> 32 word \<Rightarrow> (SDMSubreqst \<times> int) option" where
  "SDMSubreqst_Recv = Recv_checked SDMSubreqst_Unmarshal"

definition SDMSubreqst_view :: "SDMSubreqst \<Rightarrow> SDMComponent_ID \<times> SDMComponent_ID \<times> SDMMessage_ID \<times> SDMMessage_ID" where
  "SDMSubreqst_view m = (SDMSubreqst_source m, SDMSubreqst_destination m, SDMSubreqst_msg_id m, SDMSubreqst_fault_id m)"

definition SDMSubreqst_enc :: "SDMComponent_ID \<times> SDMComponent_ID \<times> SDMMessage_ID \<times> SDMMessage_ID \<Rightarrow> byte list" where
  "SDMSubreqst_enc = (\<lambda>(a, b, c, d). id_bytes a @ id_bytes b @ mid_bytes c @ mid_bytes d)"

definition SDMSubreqst_wf :: "SDMSubreqst \<Rightarrow> bool" where
  "SDMSubreqst_wf m \<longleftrightarrow> MsgName m = SDM_Subreqst \<and> total_length m = 24"

lemmas SDMSubreqst_class = SDMSubreqst_Marshal_def SDMSubreqst_Unmarshal_def SDMSubreqst_view_def SDMSubreqst_enc_def SDMSubreqst_wf_def

interpretation subreqst: sdm_class SDMSubreqst_Marshal SDMSubreqst_Unmarshal SDMSubreqst_view SDMSubreqst_enc SDMSubreqst_wf "\<lambda>_. True" SDM_Subreqst
  by unfold_locales (simp_all add: SDMSubreqst_class class_laws)

section \<open>SDMTat\<close>

record SDMTat = SDMmessage +
  SDMTat_destination :: SDMComponent_ID
  SDMTat_seconds :: "32 word"
  SDMTat_useconds :: "32 word"

definition SDMTat_new :: SDMTat where
  "SDMTat_new = SDMmessage.extend (new_message SDM_Tat 18)
     \<lparr>SDMTat_destination = SDMComponent_ID_new, SDMTat_seconds = 0, SDMTat_useconds = 0\<rparr>"

definition SDMTat_Marshal :: "SDMTat marshal" where
  "SDMTat_Marshal now m buf = do {
     let cur = HEADER_SIZE;
     (buf, n) \<leftarrow> id_Marshal (SDMTat_destination m) buf cur;
     let cur = cur + n;
     buf \<leftarrow> PUT_ULONG buf cur (SDMTat_seconds m);
     let cur = cur + 4;
     buf \<leftarrow> PUT_ULONG buf cur (SDMTat_useconds m);
     let cur = cur + 4;
     let m = set_length cur m;
     (m, buf, _) \<leftarrow> MarshalHeader now m buf;
     Some (m, buf, int cur) }"

definition SDMTat_Unmarshal :: "SDMTat unmarshal" where
  "SDMTat_Unmarshal m buf = do {
     (m, cur) \<leftarrow> UnmarshalHeader m buf;
     if cur = SDM_INVALID_MESSAGE then Some (m, SDM_INVALID_MESSAGE)
     else if total_length m \<noteq> msg_length m then Some (m, SDM_INVALID_MESSAGE)
     else do {
       let cur = nat cur;
       (c, n) \<leftarrow> id_Unmarshal (SDMTat_destination m) buf cur;
       let m = m\<lparr>SDMTat_destination := c\<rparr>;
       let cur = cur + n;
       v \<leftarrow> GET_ULONG buf cur;
       let m = m\<lparr>SDMTat_seconds := v\<rparr>;
       let cur = cur + 4;
       v \<leftarrow> GET_ULONG buf cur;
       let m = m\<lparr>SDMTat_useconds := v\<rparr>;
       let cur = cur + 4;
       Some (m, int cur) } }"

definition SDMTat_Send :: "SDMTat sender" where
  "SDMTat_Send = SendDM SDMTat_Marshal"

definition SDMTat_Recv :: "net \<Rightarrow> SDMTat \<Rightarrow> 32 word \<Rightarrow> (SDMTat \<times> int) option" where
  "SDMTat_Recv = Recv_checked SDMTat_Unmarshal"

definition SDMTat_Send_to :: "SDMTat sender_to" where
  "SDMTat_Send_to env = SendTo_checked SDMTat_Marshal (env_net env) (env_stk env) (env_ack env) (env_now env)"

definition SDMTat_view :: "SDMTat \<Rightarrow> SDMComponent_ID \<times> 32 word \<times> 32 word" where
  "SDMTat_view m = (SDMTat_destination m, SDMTat_seconds m, SDMTat_useconds m)"

definition SDMTat_enc :: "SDMComponent_ID \<times> 32 word \<times> 32 word \<Rightarrow> byte list" where
  "SDMTat_enc = (\<lambda>(a, b, c). id_bytes a @ word_bytes 4 b @ word_bytes 4 c)"

definition SDMTat_wf :: "SDMTat \<Rightarrow> bool" where
  "SDMTat_wf m \<longleftrightarrow> MsgName m = SDM_Tat \<and> total_length m = 18"

lemmas SDMTat_class = SDMTat_Marshal_def SDMTat_Unmarshal_def SDMTat_view_def SDMTat_enc_def SDMTat_wf_def

interpretation tat: sdm_class SDMTat_Marshal SDMTat_Unmarshal SDMTat_view SDMTat_enc SDMTat_wf "\<lambda>_. True" SDM_Tat
  by unfold_locales (simp_all add: SDMTat_class class_laws)

section \<open>SDMKill\<close>

record SDMKill = SDMmessage +
  SDMKill_PID :: "32 word"
  SDMKill_killLevel :: byte

definition SDMKill_new :: SDMKill where
  "SDMKill_new = SDMmessage.extend (new_message SDM_Kill 5) \<lparr>SDMKill_PID = 0, SDMKill_killLevel = 0\<rparr>"

definition SDMKill_Marshal :: "SDMKill marshal" where
  "SDMKill_Marshal now m buf = do {
     let cur = HEADER_SIZE;
     buf \<leftarrow> PUT_ULONG buf cur (SDMKill_PID m);
     let cur = cur + 4;
     buf \<leftarrow> PUT_UCHAR buf cur (SDMKill_killLevel m);
     let cur = cur + 1;
     let m = set_length cur m;
     (m, buf, _) \<leftarrow> MarshalHeader now m buf;
     Some (m, buf, int cur) }"

definition SDMKill_Unmarshal :: "SDMKill unmarshal" where
  "SDMKill_Unmarshal m buf = do {
     (m, cur) \<leftarrow> UnmarshalHeader m buf;
     if cur = SDM_INVALID_MESSAGE then Some (m, SDM_INVALID_MESSAGE)
     else if msg_length m = 4 then do {
       let cur = nat cur;
       v \<leftarrow> GET_ULONG buf cur;
       let m = m\<lparr>SDMKill_PID := v\<rparr>;
       let m = m\<lparr>SDMKill_killLevel := 0\<rparr>;
       Some (m, int HEADER_SIZE + sint (msg_length m)) }
     else if total_length m \<noteq> msg_length m then Some (m, SDM_INVALID_MESSAGE)
     else do {
       let cur = nat cur;
       v \<leftarrow> GET_ULONG buf cur;
       let m = m\<lparr>SDMKill_PID := v\<rparr>;
       let cur = cur + 4;
       v \<leftarrow> GET_UCHAR buf cur;
       let m = m\<lparr>SDMKill_killLevel := v\<rparr>;
       let cur = cur + 1;
       Some (m, int HEADER_SIZE + sint (msg_length m)) } }"

definition SDMKill_Send_to :: "SDMKill sender_to" where
  "SDMKill_Send_to env = SendTo SDMKill_Marshal (env_net env) (env_stk env) (env_ack env) (env_now env)"

definition SDMKill_Send :: "SDMKill sender" where
  "SDMKill_Send env m = SDMKill_Send_to env m (TaskManager env)"

definition SDMKill_view :: "SDMKill \<Rightarrow> 32 word \<times> byte" where
  "SDMKill_view m = (SDMKill_PID m, SDMKill_killLevel m)"

definition SDMKill_enc :: "32 word \<times> byte \<Rightarrow> byte list" where
  "SDMKill_enc = (\<lambda>(a, b). word_bytes 4 a @ [b])"

definition SDMKill_wf :: "SDMKill \<Rightarrow> bool" where
  "SDMKill_wf m \<longleftrightarrow> MsgName m = SDM_Kill \<and> total_length m = 5"

lemmas SDMKill_class = SDMKill_Marshal_def SDMKill_Unmarshal_def SDMKill_view_def SDMKill_enc_def SDMKill_wf_def

interpretation kill: sdm_class SDMKill_Marshal SDMKill_Unmarshal SDMKill_view SDMKill_enc SDMKill_wf "\<lambda>_. True" SDM_Kill
  by unfold_locales (simp_all add: SDMKill_class class_laws)

section \<open>SDMCancelxTEDS\<close>

record SDMCancelxTEDS = SDMmessage +
  SDMCancelxTEDS_source :: SDMComponent_ID
  SDMCancelxTEDS_fullCancel :: byte

definition SDMCancelxTEDS_new :: SDMCancelxTEDS where
  "SDMCancelxTEDS_new = SDMmessage.extend (new_message SDM_CancelxTEDS 11)
     \<lparr>SDMCancelxTEDS_source = SDMComponent_ID_new, SDMCancelxTEDS_fullCancel = 0\<rparr>"

text \<open>Here the header is marshalled first, with the length the object already has.\<close>

definition SDMCancelxTEDS_Marshal :: "SDMCancelxTEDS marshal" where
  "SDMCancelxTEDS_Marshal now m buf = do {
     let cur = HEADER_SIZE;
     (m, buf, _) \<leftarrow> MarshalHeader now m buf;
     (buf, n) \<leftarrow> id_Marshal (SDMCancelxTEDS_source m) buf cur;
     let cur = cur + n;
     buf \<leftarrow> put_byte buf cur (SDMCancelxTEDS_fullCancel m);
     let cur = cur + 1;
     let m = set_length cur m;
     Some (m, buf, int cur) }"

definition SDMCancelxTEDS_Unmarshal :: "SDMCancelxTEDS unmarshal" where
  "SDMCancelxTEDS_Unmarshal m buf = do {
     (m, cur) \<leftarrow> UnmarshalHeader m buf;
     if cur = SDM_INVALID_MESSAGE then Some (m, SDM_INVALID_MESSAGE)
     else if msg_length m = 10 then do {
       let cur = nat cur;
       (c, n) \<leftarrow> id_Unmarshal (SDMCancelxTEDS_source m) buf cur;
       let m = m\<lparr>SDMCancelxTEDS_source := c\<rparr>;
       let cur = cur + n;
       let m = m\<lparr>SDMCancelxTEDS_fullCancel := 0\<rparr>;
       Some (m, int cur) }
     else if total_length m \<noteq> msg_length m then Some (m, SDM_INVALID_MESSAGE)
     else do {
       let cur = nat cur;
       (c, n) \<leftarrow> id_Unmarshal (SDMCancelxTEDS_source m) buf cur;
       let m = m\<lparr>SDMCancelxTEDS_source := c\<rparr>;
       let cur = cur + n;
       v \<leftarrow> get_byte buf cur;
       let m = m\<lparr>SDMCancelxTEDS_fullCancel := v\<rparr>;
       let cur = cur + 1;
       Some (m, int cur) } }"

definition SDMCancelxTEDS_Send :: "SDMCancelxTEDS sender" where
  "SDMCancelxTEDS_Send env m = SendDM SDMCancelxTEDS_Marshal env (m\<lparr>msg_length := 11\<rparr>)"

definition SDMCancelxTEDS_view :: "SDMCancelxTEDS \<Rightarrow> SDMComponent_ID \<times> byte" where
  "SDMCancelxTEDS_view m = (SDMCancelxTEDS_source m, SDMCancelxTEDS_fullCancel m)"

definition SDMCancelxTEDS_enc :: "SDMComponent_ID \<times> byte \<Rightarrow> byte list" where
  "SDMCancelxTEDS_enc = (\<lambda>(a, b). id_bytes a @ [b])"

definition SDMCancelxTEDS_wf :: "SDMCancelxTEDS \<Rightarrow> bool" where
  "SDMCancelxTEDS_wf m \<longleftrightarrow> MsgName m = SDM_CancelxTEDS \<and> total_length m = 11"

definition SDMCancelxTEDS_ready :: "SDMCancelxTEDS \<Rightarrow> bool" where
  "SDMCancelxTEDS_ready m \<longleftrightarrow> msg_length m = 11"

lemmas SDMCancelxTEDS_class = SDMCancelxTEDS_Marshal_def SDMCancelxTEDS_Unmarshal_def SDMCancelxTEDS_view_def
  SDMCancelxTEDS_enc_def SDMCancelxTEDS_wf_def SDMCancelxTEDS_ready_def

lemma overlay_behind: "length p = k \<Longrightarrow> overlay k s (p @ q) = p @ s @ drop (length s) q"
  by (simp add: overlay_def)

lemma SDMCancelxTEDS_stamp [simp]:
  "SDMCancelxTEDS_source (stamp now m) = SDMCancelxTEDS_source m"
  "SDMCancelxTEDS_fullCancel (stamp now m) = SDMCancelxTEDS_fullCancel m"
  by (simp_all add: stamp_def)

lemma SDMCancelxTEDS_Marshal_eq:
  assumes "22 \<le> length buf"
  shows "SDMCancelxTEDS_Marshal now m buf =
    Some (set_length 22 (stamp now m),
          header_bytes (stamp now m) @ SDMCancelxTEDS_enc (SDMCancelxTEDS_view m) @ drop 22 buf, 22)"
proof -
  have "SDMCancelxTEDS_Marshal now m buf =
    Some (set_length 22 (stamp now m),
      overlay 11 (SDMCancelxTEDS_enc (SDMCancelxTEDS_view m)) (header_bytes (stamp now m) @ drop 11 buf), 22)"
    using assms by (simp add: SDMCancelxTEDS_class buf_simps)
  then show ?thesis
    using overlay_behind [of "header_bytes (stamp now m)" 11]
    by (simp add: SDMCancelxTEDS_enc_def SDMCancelxTEDS_view_def add.commute)
qed

lemmas SDMCancelxTEDS_members = SDMCancelxTEDS_view_def SDMCancelxTEDS_enc_def SDMCancelxTEDS_wf_def SDMCancelxTEDS_ready_def

interpretation cancelxteds: sdm_class SDMCancelxTEDS_Marshal SDMCancelxTEDS_Unmarshal SDMCancelxTEDS_view
  SDMCancelxTEDS_enc SDMCancelxTEDS_wf SDMCancelxTEDS_ready SDM_CancelxTEDS
proof (unfold_locales, goal_cases)
  case (5 m buf now)
  then have len: "length (SDMCancelxTEDS_enc (SDMCancelxTEDS_view m)) = 11" "msg_length m = 11" "22 \<le> length buf"
    by (simp_all add: SDMCancelxTEDS_members)
  have "header_bytes (stamp now m) = header_bytes (set_length 22 (stamp now m))"
    using len(2) by (intro header_bytes_cong) (simp_all add: set_length_def)
  with len have "SDMCancelxTEDS_Marshal now m buf = Some (set_length 22 (stamp now m),
      header_bytes (set_length 22 (stamp now m)) @ SDMCancelxTEDS_enc (SDMCancelxTEDS_view m) @ drop 22 buf, 22)"
    by (simp add: SDMCancelxTEDS_Marshal_eq)
  with len 5(1) show ?case
    by (simp add: SDMCancelxTEDS_wf_def SDMCancelxTEDS_view_def set_length_def)
qed (simp_all add: SDMCancelxTEDS_class class_laws)

section \<open>SDMElection\<close>

type_synonym SDMElection = SDMmessage

definition SDMElection_new :: SDMElection where
  "SDMElection_new = new_message SDM_Election 0"

definition SDMElection_Marshal :: "SDMElection marshal" where
  "SDMElection_Marshal now m buf = do {
     let cur = HEADER_SIZE;
     (m, buf, _) \<leftarrow> MarshalHeader now m buf;
     Some (m, buf, int cur) }"

definition SDMElection_Unmarshal :: "SDMElection unmarshal" where
  "SDMElection_Unmarshal m buf = do {
     (m, cur) \<leftarrow> UnmarshalHeader m buf;
     if cur = SDM_INVALID_MESSAGE then Some (m, SDM_INVALID_MESSAGE) else Some (m, cur) }"

definition SDMElection_Send :: "(32 word \<Rightarrow> 16 word \<Rightarrow> byte list \<Rightarrow> int) \<Rightarrow> env \<Rightarrow> SDMElection
    \<Rightarrow> (SDMElection \<times> (32 word \<times> byte list) list \<times> int) option" where
  "SDMElection_Send bcast env m =
     SendBroadcast SDMElection_Marshal bcast (DataManager env) (env_stk env) (env_now env) m 0 PORT_DM_ELECTION"

definition SDMElection_wf :: "SDMElection \<Rightarrow> bool" where
  "SDMElection_wf m \<longleftrightarrow> MsgName m = SDM_Election \<and> total_length m = 0"

definition SDMElection_ready :: "SDMElection \<Rightarrow> bool" where
  "SDMElection_ready m \<longleftrightarrow> msg_length m = 0"

lemmas SDMElection_class = SDMElection_Marshal_def SDMElection_Unmarshal_def SDMElection_wf_def SDMElection_ready_def

interpretation election: sdm_class SDMElection_Marshal SDMElection_Unmarshal "\<lambda>_. ()" "\<lambda>_. []"
  SDMElection_wf SDMElection_ready SDM_Election
  by unfold_locales (simp_all add: SDMElection_class class_laws)

section \<open>SendHeartbeat\<close>

text \<open>
  The function-static \<open>uiLastSendTime\<close> is passed in and out; the difference of the two unsigned
  times wraps. The \<open>SendTo\<close> result is ignored.
\<close>

definition SendHeartbeat :: "env \<Rightarrow> 32 word \<Rightarrow> 32 word \<Rightarrow> (32 word \<times> byte list list) option" where
  "SendHeartbeat env uiCurSeconds uiLastSendTime =
     (if uiCurSeconds - uiLastSendTime < 20 \<and> uiLastSendTime \<noteq> 0 then Some (uiLastSendTime, [])
      else do {
        let msgHeartbeat = SDMHeartbeat_new;
        let msgHeartbeat = msgHeartbeat\<lparr>SDMHeartbeat_source := (SDMHeartbeat_source msgHeartbeat)\<lparr>m_ulSensorId := PID env\<rparr>\<rparr>;
        let PmId = SDMComponent_ID_new\<lparr>m_ulAddress := 0x0100007f, m_usPort := PORT_PM\<rparr>;
        (_, sent, _) \<leftarrow> SendTo SDMHeartbeat_Marshal (env_net env) (env_stk env) (env_ack env) (env_now env) msgHeartbeat PmId;
        Some (uiCurSeconds, sent) })"

end
