(* ===== verification/Messages_String.thy ===== *)
theory Messages_String
  imports Message_Base
begin

text \<open>
  The message classes with string members (\<^verbatim>\<open>sdm/common/message/SDM*.cpp\<close>). A \<^verbatim>\<open>char[n]\<close> member is a
  buffer of \<open>n\<close> bytes; the constructors take the uninitialised contents of the members as arguments
  and terminate them. \<open>wf\<close> says that every string member has its size and is terminated, and \<open>view\<close>
  is the value carried: the C strings, not the bytes behind their terminators. The copies into
  and out of the members are those of each source file: \<open>memcpy\<close>, \<open>strcpy\<close>, \<open>strncpy\<close> with a forced terminator.
\<close>

section \<open>SDMError\<close>

record SDMError = SDMmessage +
  SDMError_source :: SDMComponent_ID
  SDMError_error :: byte
  SDMError_msg_id :: SDMMessage_ID
  SDMError_error_msg :: buffer

definition SDMError_new :: "SDMError" where
  "SDMError_new  = SDMmessage.extend (new_message SDM_Error 13)
     \<lparr>SDMError_source = SDMComponent_ID_new, SDMError_error = 0, SDMError_msg_id = SDMMessage_ID_new 0 0, SDMError_error_msg = (replicate 256 0)[0 := 0]\<rparr>"

definition SDMError_Marshal :: "SDMError marshal" where
  "SDMError_Marshal now m buf = do {
     let cur = HEADER_SIZE;
     (buf, n) \<leftarrow> id_Marshal (SDMError_source m) buf cur;
     let cur = cur + n;
     (buf, n) \<leftarrow> SDMMessage_ID_Marshal (SDMError_msg_id m) buf cur;
     let cur = cur + n;
     buf \<leftarrow> PUT_UCHAR buf cur (SDMError_error m);
     let cur = cur + 1;
     n \<leftarrow> strlen (SDMError_error_msg m) 0;
     buf \<leftarrow> strncpy buf cur (SDMError_error_msg m) 0 (n + 1);
     let cur = cur + n + 1;
     let m = set_length cur m;
     (m, buf, _) \<leftarrow> MarshalHeader now m buf;
     Some (m, buf, int HEADER_SIZE + sint (msg_length m)) }"

definition SDMError_Unmarshal :: "SDMError unmarshal" where
  "SDMError_Unmarshal m buf = do {
     (m, cur) \<leftarrow> UnmarshalHeader m buf;
     if cur = SDM_INVALID_MESSAGE then Some (m, SDM_INVALID_MESSAGE)
     else if sint (total_length m) > sint (msg_length m) then Some (m, SDM_INVALID_MESSAGE)
     else do {
       let cur = nat cur;
       (c, n) \<leftarrow> id_Unmarshal (SDMError_source m) buf cur;
       let m = m\<lparr>SDMError_source := c\<rparr>;
       let cur = cur + n;
       (d, n) \<leftarrow> SDMMessage_ID_Unmarshal (SDMError_msg_id m) buf cur;
       let m = m\<lparr>SDMError_msg_id := d\<rparr>;
       let cur = cur + n;
       v \<leftarrow> GET_UCHAR buf cur;
       let m = m\<lparr>SDMError_error := v\<rparr>;
       let cur = cur + 1;
       (s, n) \<leftarrow> copy_bounded (SDMError_error_msg m) buf cur;
       let m = m\<lparr>SDMError_error_msg := s\<rparr>;
       Some (m, int HEADER_SIZE + sint (msg_length m)) } }"

definition SDMError_Send :: "SDMError sender" where
  "SDMError_Send = SendDM SDMError_Marshal"

definition SDMError_Send_to :: "SDMError sender_to" where
  "SDMError_Send_to env = SendTo SDMError_Marshal (env_net env) (env_stk env) (env_ack env) (env_now env)"

definition SDMError_Recv :: "net \<Rightarrow> SDMError \<Rightarrow> 32 word \<Rightarrow> (SDMError \<times> int) option" where
  "SDMError_Recv = Recv_checked SDMError_Unmarshal"

definition SDMError_view :: "SDMError \<Rightarrow> SDMComponent_ID \<times> SDMMessage_ID \<times> byte \<times> byte list" where
  "SDMError_view m = (SDMError_source m, SDMError_msg_id m, SDMError_error m, cstr (SDMError_error_msg m))"

definition SDMError_enc :: "SDMComponent_ID \<times> SDMMessage_ID \<times> byte \<times> byte list \<Rightarrow> byte list" where
  "SDMError_enc = (\<lambda>(a, b, c, d). id_bytes a @ mid_bytes b @ [c] @ d @ [0])"

definition SDMError_wf :: "SDMError \<Rightarrow> bool" where
  "SDMError_wf m \<longleftrightarrow> MsgName m = SDM_Error \<and> total_length m = 13 \<and> is_cstr 256 (SDMError_error_msg m)"

lemmas SDMError_class = SDMError_Marshal_def SDMError_Unmarshal_def SDMError_view_def SDMError_enc_def SDMError_wf_def

lemma SDMError_bounds:
  assumes "SDMError_wf m"
  shows "is_cstr 256 (SDMError_error_msg m)" "length (SDMError_error_msg m) = 256" "length (cstr (SDMError_error_msg m)) < 256"
  using assms by (simp_all add: SDMError_wf_def is_cstr_len is_cstr_length)

lemma SDMError_fits: "SDMError_wf m \<Longrightarrow> 11 + length (SDMError_enc (SDMError_view m)) \<le> BUFSIZE"
  using SDMError_bounds [of m] by (simp add: SDMError_view_def SDMError_enc_def)

lemma SDMError_Marshal_eq:
  assumes "SDMError_wf m" "11 + length (SDMError_enc (SDMError_view m)) \<le> length buf"
  shows "SDMError_Marshal now m buf = Some (marshalled now m (SDMError_enc (SDMError_view m)) buf)"
  using SDMError_bounds [OF assms(1)] assms(2-)
  by (simp add: SDMError_Marshal_def SDMError_view_def SDMError_enc_def put_laws cong: bind_head_cong)

lemma SDMError_Unmarshal_eq:
  assumes "SDMError_wf m0" "MsgName hdr = SDM_Error" "sint (msg_length hdr) = int (length (SDMError_enc (a, b, c, d)))"
    and "0 \<notin> set d" "length d < 256"
  shows "SDMError_Unmarshal m0 (header_bytes (hdr :: SDMmessage) @ SDMError_enc (a, b, c, d) @ rest) =
    Some ((load_header hdr m0)\<lparr>SDMError_source := a, SDMError_msg_id := b, SDMError_error := c, SDMError_error_msg := d @ replicate (256 - length d) 0\<rparr>,
      int (11 + length (SDMError_enc (a, b, c, d))))"
  using SDMError_bounds [OF assms(1)] assms 
  by (simp add: SDMError_Unmarshal_def SDMError_enc_def SDMError_wf_def string_laws load_header_def cong: bind_head_cong)

interpretation error_msg: sdm_class SDMError_Marshal SDMError_Unmarshal SDMError_view SDMError_enc SDMError_wf
  "\<lambda>_. True" SDM_Error
proof (unfold_locales, goal_cases)
  case (4 m)
  then show ?case by (simp add: SDMError_fits)
next
  case (5 m buf now)
  then have "SDMError_Marshal now m buf = Some (marshalled now m (SDMError_enc (SDMError_view m)) buf)"
    by (simp add: SDMError_Marshal_eq)
  then show ?case
    by (rule marshalled_ok) (use 5(1) in \<open>simp_all add: SDMError_wf_def SDMError_view_def stamp_def set_length_def\<close>)
next
  case (6 m m0 h rest)
  have "sint (msg_length h) = int (length (SDMError_enc (SDMError_view m)))"
    using 6(5) SDMError_fits [OF 6(1)] by (simp add: sint_of_nat_16)
  note eq = SDMError_Unmarshal_eq [OF 6(3,4) this [unfolded SDMError_view_def] cstr_no_null SDMError_bounds(3) [OF 6(1)], of rest]
  show ?case using 6(1,3) SDMError_bounds [OF 6(1)] SDMError_bounds [OF 6(3)]
    by (simp only: SDMError_view_def eq) (simp add: SDMError_wf_def string_views load_header_def)
qed (simp_all add: SDMError_wf_def SDMError_view_def SDMError_Unmarshal_def UnmarshalHeader_wrong_name)

section \<open>SDMPostTask\<close>

record SDMPostTask = SDMmessage +
  SDMPostTask_resources :: "16 word"
  SDMPostTask_priority :: byte
  SDMPostTask_sched_interval :: "32 word"
  SDMPostTask_mode :: "32 word"
  SDMPostTask_version :: "32 word"
  SDMPostTask_filename :: buffer

definition SDMPostTask_new :: "buffer \<Rightarrow> SDMPostTask" where
  "SDMPostTask_new filename = SDMmessage.extend (new_message SDM_PostTask 16)
     \<lparr>SDMPostTask_resources = 0, SDMPostTask_priority = 0, SDMPostTask_sched_interval = 0, SDMPostTask_mode = 0, SDMPostTask_version = 0, SDMPostTask_filename = filename[0 := 0]\<rparr>"

definition SDMPostTask_Marshal :: "SDMPostTask marshal" where
  "SDMPostTask_Marshal now m buf = do {
     let cur = HEADER_SIZE;
     buf \<leftarrow> PUT_USHORT buf cur (SDMPostTask_resources m);
     let cur = cur + 2;
     buf \<leftarrow> PUT_CHAR buf cur (SDMPostTask_priority m);
     let cur = cur + 1;
     buf \<leftarrow> PUT_INT buf cur (SDMPostTask_sched_interval m);
     let cur = cur + 4;
     buf \<leftarrow> PUT_INT buf cur (SDMPostTask_mode m);
     let cur = cur + 4;
     buf \<leftarrow> PUT_INT buf cur (SDMPostTask_version m);
     let cur = cur + 4;
     n \<leftarrow> strlen (SDMPostTask_filename m) 0;
     let m = m\<lparr>msg_length := of_nat n\<rparr>;
     buf \<leftarrow> memcpy_int buf cur (SDMPostTask_filename m) 0 (sint (msg_length m));
     let cur = nat (int cur + sint (msg_length m));
     buf \<leftarrow> put_byte buf cur 0;
     let cur = cur + 1;
     let m = set_length cur m;
     (m, buf, _) \<leftarrow> MarshalHeader now m buf;
     Some (m, buf, int HEADER_SIZE + sint (msg_length m)) }"

definition SDMPostTask_Unmarshal :: "SDMPostTask unmarshal" where
  "SDMPostTask_Unmarshal m buf = do {
     (m, cur) \<leftarrow> UnmarshalHeader m buf;
     if cur = SDM_INVALID_MESSAGE then Some (m, SDM_INVALID_MESSAGE)
     else if sint (total_length m) > sint (msg_length m) then Some (m, SDM_INVALID_MESSAGE)
     else do {
       let cur = nat cur;
       v \<leftarrow> GET_USHORT buf cur;
       let m = m\<lparr>SDMPostTask_resources := v\<rparr>;
       let cur = cur + 2;
       v \<leftarrow> GET_CHAR buf cur;
       let m = m\<lparr>SDMPostTask_priority := v\<rparr>;
       let cur = cur + 1;
       v \<leftarrow> GET_INT buf cur;
       let m = m\<lparr>SDMPostTask_sched_interval := v\<rparr>;
       let cur = cur + 4;
       v \<leftarrow> GET_INT buf cur;
       let m = m\<lparr>SDMPostTask_mode := v\<rparr>;
       let cur = cur + 4;
       v \<leftarrow> GET_INT buf cur;
       let m = m\<lparr>SDMPostTask_version := v\<rparr>;
       let cur = cur + 4;
       (s, n) \<leftarrow> copy_bounded (SDMPostTask_filename m) buf cur;
       let m = m\<lparr>SDMPostTask_filename := s\<rparr>;
       Some (m, int HEADER_SIZE + sint (msg_length m)) } }"

definition SDMPostTask_Send :: "SDMPostTask sender" where
  "SDMPostTask_Send = SendTM SDMPostTask_Marshal"

definition SDMPostTask_view :: "SDMPostTask \<Rightarrow> 16 word \<times> byte \<times> 32 word \<times> 32 word \<times> 32 word \<times> byte list" where
  "SDMPostTask_view m = (SDMPostTask_resources m, SDMPostTask_priority m, SDMPostTask_sched_interval m, SDMPostTask_mode m, SDMPostTask_version m, cstr (SDMPostTask_filename m))"

definition SDMPostTask_enc :: "16 word \<times> byte \<times> 32 word \<times> 32 word \<times> 32 word \<times> byte list \<Rightarrow> byte list" where
  "SDMPostTask_enc = (\<lambda>(a, b, c, d, e, f). word_bytes 2 a @ [b] @ word_bytes 4 c @ word_bytes 4 d @ word_bytes 4 e @ f @ [0])"

definition SDMPostTask_wf :: "SDMPostTask \<Rightarrow> bool" where
  "SDMPostTask_wf m \<longleftrightarrow> MsgName m = SDM_PostTask \<and> total_length m = 16 \<and> is_cstr 128 (SDMPostTask_filename m)"

lemmas SDMPostTask_class = SDMPostTask_Marshal_def SDMPostTask_Unmarshal_def SDMPostTask_view_def SDMPostTask_enc_def SDMPostTask_wf_def

lemma SDMPostTask_bounds:
  assumes "SDMPostTask_wf m"
  shows "is_cstr 128 (SDMPostTask_filename m)" "length (SDMPostTask_filename m) = 128" "length (cstr (SDMPostTask_filename m)) < 128"
  using assms by (simp_all add: SDMPostTask_wf_def is_cstr_len is_cstr_length)

lemma SDMPostTask_fits: "SDMPostTask_wf m \<Longrightarrow> 11 + length (SDMPostTask_enc (SDMPostTask_view m)) \<le> BUFSIZE"
  using SDMPostTask_bounds [of m] by (simp add: SDMPostTask_view_def SDMPostTask_enc_def)

lemma SDMPostTask_Marshal_eq:
  assumes "SDMPostTask_wf m" "11 + length (SDMPostTask_enc (SDMPostTask_view m)) \<le> length buf"
  shows "SDMPostTask_Marshal now m buf = Some (marshalled now m (SDMPostTask_enc (SDMPostTask_view m)) buf)"
  using SDMPostTask_bounds [OF assms(1)] assms(2-)
  by (simp add: SDMPostTask_Marshal_def SDMPostTask_view_def SDMPostTask_enc_def put_laws cong: bind_head_cong)

lemma SDMPostTask_Unmarshal_eq:
  assumes "SDMPostTask_wf m0" "MsgName hdr = SDM_PostTask" "sint (msg_length hdr) = int (length (SDMPostTask_enc (a, b, c, d, e, f)))"
    and "0 \<notin> set f" "length f < 128"
  shows "SDMPostTask_Unmarshal m0 (header_bytes (hdr :: SDMmessage) @ SDMPostTask_enc (a, b, c, d, e, f) @ rest) =
    Some ((load_header hdr m0)\<lparr>SDMPostTask_resources := a, SDMPostTask_priority := b, SDMPostTask_sched_interval := c, SDMPostTask_mode := d, SDMPostTask_version := e, SDMPostTask_filename := f @ replicate (128 - length f) 0\<rparr>,
      int (11 + length (SDMPostTask_enc (a, b, c, d, e, f))))"
  using SDMPostTask_bounds [OF assms(1)] assms 
  by (simp add: SDMPostTask_Unmarshal_def SDMPostTask_enc_def SDMPostTask_wf_def string_laws load_header_def cong: bind_head_cong)

interpretation posttask: sdm_class SDMPostTask_Marshal SDMPostTask_Unmarshal SDMPostTask_view SDMPostTask_enc SDMPostTask_wf
  "\<lambda>_. True" SDM_PostTask
proof (unfold_locales, goal_cases)
  case (4 m)
  then show ?case by (simp add: SDMPostTask_fits)
next
  case (5 m buf now)
  then have "SDMPostTask_Marshal now m buf = Some (marshalled now m (SDMPostTask_enc (SDMPostTask_view m)) buf)"
    by (simp add: SDMPostTask_Marshal_eq)
  then show ?case
    by (rule marshalled_ok) (use 5(1) in \<open>simp_all add: SDMPostTask_wf_def SDMPostTask_view_def stamp_def set_length_def\<close>)
next
  case (6 m m0 h rest)
  have "sint (msg_length h) = int (length (SDMPostTask_enc (SDMPostTask_view m)))"
    using 6(5) SDMPostTask_fits [OF 6(1)] by (simp add: sint_of_nat_16)
  note eq = SDMPostTask_Unmarshal_eq [OF 6(3,4) this [unfolded SDMPostTask_view_def] cstr_no_null SDMPostTask_bounds(3) [OF 6(1)], of rest]
  show ?case using 6(1,3) SDMPostTask_bounds [OF 6(1)] SDMPostTask_bounds [OF 6(3)]
    by (simp only: SDMPostTask_view_def eq) (simp add: SDMPostTask_wf_def string_views load_header_def)
qed (simp_all add: SDMPostTask_wf_def SDMPostTask_view_def SDMPostTask_Unmarshal_def UnmarshalHeader_wrong_name)

section \<open>SDMReqCode\<close>

record SDMReqCode = SDMmessage +
  SDMReqCode_filename :: buffer
  SDMReqCode_source :: SDMComponent_ID
  SDMReqCode_seq_num :: "16 word"
  SDMReqCode_version :: "32 word"

definition SDMReqCode_new :: "buffer \<Rightarrow> SDMReqCode" where
  "SDMReqCode_new filename = SDMmessage.extend (new_message SDM_ReqCode 17)
     \<lparr>SDMReqCode_filename = filename[0 := 0], SDMReqCode_source = SDMComponent_ID_new, SDMReqCode_seq_num = 0, SDMReqCode_version = 0\<rparr>"

definition SDMReqCode_Marshal :: "SDMReqCode marshal" where
  "SDMReqCode_Marshal now m buf = do {
     let cur = HEADER_SIZE;
     (buf, n) \<leftarrow> id_Marshal (SDMReqCode_source m) buf cur;
     let cur = cur + n;
     buf \<leftarrow> PUT_USHORT buf cur (SDMReqCode_seq_num m);
     let cur = cur + 2;
     buf \<leftarrow> PUT_INT buf cur (SDMReqCode_version m);
     let cur = cur + 4;
     n \<leftarrow> strlen (SDMReqCode_filename m) 0;
     let n = n + 1;
     buf \<leftarrow> memcpy buf cur (SDMReqCode_filename m) 0 n;
     let cur = cur + n;
     let m = set_length cur m;
     (m, buf, _) \<leftarrow> MarshalHeader now m buf;
     Some (m, buf, int cur) }"

definition SDMReqCode_Unmarshal :: "SDMReqCode unmarshal" where
  "SDMReqCode_Unmarshal m buf = do {
     (m, cur) \<leftarrow> UnmarshalHeader m buf;
     if cur = SDM_INVALID_MESSAGE then Some (m, SDM_INVALID_MESSAGE)
     else if sint (total_length m) > sint (msg_length m) then Some (m, SDM_INVALID_MESSAGE)
     else do {
       let cur = nat cur;
       (c, n) \<leftarrow> id_Unmarshal (SDMReqCode_source m) buf cur;
       let m = m\<lparr>SDMReqCode_source := c\<rparr>;
       let cur = cur + n;
       v \<leftarrow> GET_USHORT buf cur;
       let m = m\<lparr>SDMReqCode_seq_num := v\<rparr>;
       let cur = cur + 2;
       v \<leftarrow> GET_INT buf cur;
       let m = m\<lparr>SDMReqCode_version := v\<rparr>;
       let cur = cur + 4;
       (s, n) \<leftarrow> copy_bounded (SDMReqCode_filename m) buf cur;
       let m = m\<lparr>SDMReqCode_filename := s\<rparr>;
       let cur = cur + n + 1;
       Some (m, int cur) } }"

definition SDMReqCode_Send :: "SDMReqCode sender" where
  "SDMReqCode_Send = SendTM SDMReqCode_Marshal"

definition SDMReqCode_Recv :: "net \<Rightarrow> SDMReqCode \<Rightarrow> 32 word \<Rightarrow> (SDMReqCode \<times> int) option" where
  "SDMReqCode_Recv = Recv_checked SDMReqCode_Unmarshal"

definition SDMReqCode_view :: "SDMReqCode \<Rightarrow> SDMComponent_ID \<times> 16 word \<times> 32 word \<times> byte list" where
  "SDMReqCode_view m = (SDMReqCode_source m, SDMReqCode_seq_num m, SDMReqCode_version m, cstr (SDMReqCode_filename m))"

definition SDMReqCode_enc :: "SDMComponent_ID \<times> 16 word \<times> 32 word \<times> byte list \<Rightarrow> byte list" where
  "SDMReqCode_enc = (\<lambda>(a, b, c, d). id_bytes a @ word_bytes 2 b @ word_bytes 4 c @ d @ [0])"

definition SDMReqCode_wf :: "SDMReqCode \<Rightarrow> bool" where
  "SDMReqCode_wf m \<longleftrightarrow> MsgName m = SDM_ReqCode \<and> total_length m = 17 \<and> is_cstr 128 (SDMReqCode_filename m)"

lemmas SDMReqCode_class = SDMReqCode_Marshal_def SDMReqCode_Unmarshal_def SDMReqCode_view_def SDMReqCode_enc_def SDMReqCode_wf_def

lemma SDMReqCode_bounds:
  assumes "SDMReqCode_wf m"
  shows "is_cstr 128 (SDMReqCode_filename m)" "length (SDMReqCode_filename m) = 128" "length (cstr (SDMReqCode_filename m)) < 128"
  using assms by (simp_all add: SDMReqCode_wf_def is_cstr_len is_cstr_length)

lemma SDMReqCode_fits: "SDMReqCode_wf m \<Longrightarrow> 11 + length (SDMReqCode_enc (SDMReqCode_view m)) \<le> BUFSIZE"
  using SDMReqCode_bounds [of m] by (simp add: SDMReqCode_view_def SDMReqCode_enc_def)

lemma SDMReqCode_Marshal_eq:
  assumes "SDMReqCode_wf m" "11 + length (SDMReqCode_enc (SDMReqCode_view m)) \<le> length buf"
  shows "SDMReqCode_Marshal now m buf = Some (marshalled now m (SDMReqCode_enc (SDMReqCode_view m)) buf)"
  using SDMReqCode_bounds [OF assms(1)] assms(2-)
  by (simp add: SDMReqCode_Marshal_def SDMReqCode_view_def SDMReqCode_enc_def put_laws cong: bind_head_cong)

lemma SDMReqCode_Unmarshal_eq:
  assumes "SDMReqCode_wf m0" "MsgName hdr = SDM_ReqCode" "sint (msg_length hdr) = int (length (SDMReqCode_enc (a, b, c, d)))"
    and "0 \<notin> set d" "length d < 128"
  shows "SDMReqCode_Unmarshal m0 (header_bytes (hdr :: SDMmessage) @ SDMReqCode_enc (a, b, c, d) @ rest) =
    Some ((load_header hdr m0)\<lparr>SDMReqCode_source := a, SDMReqCode_seq_num := b, SDMReqCode_version := c, SDMReqCode_filename := d @ replicate (128 - length d) 0\<rparr>,
      int (11 + length (SDMReqCode_enc (a, b, c, d))))"
  using SDMReqCode_bounds [OF assms(1)] assms 
  by (simp add: SDMReqCode_Unmarshal_def SDMReqCode_enc_def SDMReqCode_wf_def string_laws load_header_def cong: bind_head_cong)

interpretation reqcode: sdm_class SDMReqCode_Marshal SDMReqCode_Unmarshal SDMReqCode_view SDMReqCode_enc SDMReqCode_wf
  "\<lambda>_. True" SDM_ReqCode
proof (unfold_locales, goal_cases)
  case (4 m)
  then show ?case by (simp add: SDMReqCode_fits)
next
  case (5 m buf now)
  then have "SDMReqCode_Marshal now m buf = Some (marshalled now m (SDMReqCode_enc (SDMReqCode_view m)) buf)"
    by (simp add: SDMReqCode_Marshal_eq)
  then show ?case
    by (rule marshalled_ok) (use 5(1) in \<open>simp_all add: SDMReqCode_wf_def SDMReqCode_view_def stamp_def set_length_def\<close>)
next
  case (6 m m0 h rest)
  have "sint (msg_length h) = int (length (SDMReqCode_enc (SDMReqCode_view m)))"
    using 6(5) SDMReqCode_fits [OF 6(1)] by (simp add: sint_of_nat_16)
  note eq = SDMReqCode_Unmarshal_eq [OF 6(3,4) this [unfolded SDMReqCode_view_def] cstr_no_null SDMReqCode_bounds(3) [OF 6(1)], of rest]
  show ?case using 6(1,3) SDMReqCode_bounds [OF 6(1)] SDMReqCode_bounds [OF 6(3)]
    by (simp only: SDMReqCode_view_def eq) (simp add: SDMReqCode_wf_def string_views load_header_def)
qed (simp_all add: SDMReqCode_wf_def SDMReqCode_view_def SDMReqCode_Unmarshal_def UnmarshalHeader_wrong_name)

section \<open>SDMReqReg\<close>

record SDMReqReg = SDMmessage +
  SDMReqReg_source :: SDMComponent_ID
  SDMReqReg_destination :: SDMComponent_ID
  SDMReqReg_reply :: byte
  SDMReqReg_id :: "16 word"
  SDMReqReg_device :: buffer
  SDMReqReg_interface :: buffer
  SDMReqReg_item_name :: buffer
  SDMReqReg_quallist :: buffer

definition SDMReqReg_new :: "buffer \<Rightarrow> buffer \<Rightarrow> buffer \<Rightarrow> buffer \<Rightarrow> SDMReqReg" where
  "SDMReqReg_new device interface item_name quallist = SDMmessage.extend (new_message SDM_ReqReg 27)
     \<lparr>SDMReqReg_source = SDMComponent_ID_new, SDMReqReg_destination = SDMComponent_ID_new, SDMReqReg_reply = 0, SDMReqReg_id = 0, SDMReqReg_device = device[0 := 0], SDMReqReg_interface = interface[0 := 0], SDMReqReg_item_name = item_name[0 := 0], SDMReqReg_quallist = quallist[0 := 0]\<rparr>"

definition SDMReqReg_Marshal :: "SDMReqReg marshal" where
  "SDMReqReg_Marshal now m buf = do {
     let cur = HEADER_SIZE;
     (buf, n) \<leftarrow> id_Marshal (SDMReqReg_source m) buf cur;
     let cur = cur + n;
     (buf, n) \<leftarrow> id_Marshal (SDMReqReg_destination m) buf cur;
     let cur = cur + n;
     buf \<leftarrow> PUT_UCHAR buf cur (SDMReqReg_reply m);
     let cur = cur + 1;
     buf \<leftarrow> PUT_USHORT buf cur (SDMReqReg_id m);
     let cur = cur + 2;
     n \<leftarrow> strlen (SDMReqReg_device m) 0;
     buf \<leftarrow> memcpy buf cur (SDMReqReg_device m) 0 n;
     let cur = cur + n;
     buf \<leftarrow> put_byte buf cur 0;
     let cur = cur + 1;
     n \<leftarrow> strlen (SDMReqReg_interface m) 0;
     buf \<leftarrow> memcpy buf cur (SDMReqReg_interface m) 0 n;
     let cur = cur + n;
     buf \<leftarrow> put_byte buf cur 0;
     let cur = cur + 1;
     n \<leftarrow> strlen (SDMReqReg_item_name m) 0;
     buf \<leftarrow> memcpy buf cur (SDMReqReg_item_name m) 0 n;
     let cur = cur + n;
     buf \<leftarrow> put_byte buf cur 0;
     let cur = cur + 1;
     n \<leftarrow> strlen (SDMReqReg_quallist m) 0;
     buf \<leftarrow> memcpy buf cur (SDMReqReg_quallist m) 0 n;
     let cur = cur + n;
     buf \<leftarrow> put_byte buf cur 0;
     let cur = cur + 1;
     let m = set_length cur m;
     (m, buf, _) \<leftarrow> MarshalHeader now m buf;
     Some (m, buf, int cur) }"

definition SDMReqReg_Unmarshal :: "SDMReqReg unmarshal" where
  "SDMReqReg_Unmarshal m buf = do {
     (m, cur) \<leftarrow> UnmarshalHeader m buf;
     if cur = SDM_INVALID_MESSAGE then Some (m, SDM_INVALID_MESSAGE)
     else if sint (total_length m) > sint (msg_length m) then Some (m, SDM_INVALID_MESSAGE)
     else do {
       let cur = nat cur;
       (c, n) \<leftarrow> id_Unmarshal (SDMReqReg_source m) buf cur;
       let m = m\<lparr>SDMReqReg_source := c\<rparr>;
       let cur = cur + n;
       (c, n) \<leftarrow> id_Unmarshal (SDMReqReg_destination m) buf cur;
       let m = m\<lparr>SDMReqReg_destination := c\<rparr>;
       let cur = cur + n;
       v \<leftarrow> GET_UCHAR buf cur;
       let m = m\<lparr>SDMReqReg_reply := v\<rparr>;
       let cur = cur + 1;
       v \<leftarrow> GET_USHORT buf cur;
       let m = m\<lparr>SDMReqReg_id := v\<rparr>;
       let cur = cur + 2;
       (s, n) \<leftarrow> copy_bounded (SDMReqReg_device m) buf cur;
       let m = m\<lparr>SDMReqReg_device := s\<rparr>;
       let cur = cur + n + 1;
       (s, n) \<leftarrow> copy_bounded (SDMReqReg_interface m) buf cur;
       let m = m\<lparr>SDMReqReg_interface := s\<rparr>;
       let cur = cur + n + 1;
       (s, n) \<leftarrow> copy_bounded (SDMReqReg_item_name m) buf cur;
       let m = m\<lparr>SDMReqReg_item_name := s\<rparr>;
       let cur = cur + n + 1;
       (s, n) \<leftarrow> copy_bounded (SDMReqReg_quallist m) buf cur;
       let m = m\<lparr>SDMReqReg_quallist := s\<rparr>;
       let cur = cur + n + 1;
       Some (m, int cur) } }"

definition SDMReqReg_Send :: "SDMReqReg sender" where
  "SDMReqReg_Send = SendDM SDMReqReg_Marshal"

definition SDMReqReg_Recv :: "net \<Rightarrow> SDMReqReg \<Rightarrow> 32 word \<Rightarrow> (SDMReqReg \<times> int) option" where
  "SDMReqReg_Recv = Recv_checked SDMReqReg_Unmarshal"

definition SDMReqReg_view :: "SDMReqReg \<Rightarrow> SDMComponent_ID \<times> SDMComponent_ID \<times> byte \<times> 16 word \<times> byte list \<times> byte list \<times> byte list \<times> byte list" where
  "SDMReqReg_view m = (SDMReqReg_source m, SDMReqReg_destination m, SDMReqReg_reply m, SDMReqReg_id m, cstr (SDMReqReg_device m), cstr (SDMReqReg_interface m), cstr (SDMReqReg_item_name m), cstr (SDMReqReg_quallist m))"

definition SDMReqReg_enc :: "SDMComponent_ID \<times> SDMComponent_ID \<times> byte \<times> 16 word \<times> byte list \<times> byte list \<times> byte list \<times> byte list \<Rightarrow> byte list" where
  "SDMReqReg_enc = (\<lambda>(a, b, c, d, e, f, g, h). id_bytes a @ id_bytes b @ [c] @ word_bytes 2 d @ e @ [0] @ f @ [0] @ g @ [0] @ h @ [0])"

definition SDMReqReg_wf :: "SDMReqReg \<Rightarrow> bool" where
  "SDMReqReg_wf m \<longleftrightarrow> MsgName m = SDM_ReqReg \<and> total_length m = 27 \<and> is_cstr 33 (SDMReqReg_device m) \<and> is_cstr 33 (SDMReqReg_interface m) \<and> is_cstr 33 (SDMReqReg_item_name m) \<and> is_cstr 1024 (SDMReqReg_quallist m)"

lemmas SDMReqReg_class = SDMReqReg_Marshal_def SDMReqReg_Unmarshal_def SDMReqReg_view_def SDMReqReg_enc_def SDMReqReg_wf_def

lemma SDMReqReg_bounds:
  assumes "SDMReqReg_wf m"
  shows "is_cstr 33 (SDMReqReg_device m)" "length (SDMReqReg_device m) = 33" "length (cstr (SDMReqReg_device m)) < 33"
    and "is_cstr 33 (SDMReqReg_interface m)" "length (SDMReqReg_interface m) = 33" "length (cstr (SDMReqReg_interface m)) < 33"
    and "is_cstr 33 (SDMReqReg_item_name m)" "length (SDMReqReg_item_name m) = 33" "length (cstr (SDMReqReg_item_name m)) < 33"
    and "is_cstr 1024 (SDMReqReg_quallist m)" "length (SDMReqReg_quallist m) = 1024" "length (cstr (SDMReqReg_quallist m)) < 1024"
  using assms by (simp_all add: SDMReqReg_wf_def is_cstr_len is_cstr_length)

lemma SDMReqReg_fits: "SDMReqReg_wf m \<Longrightarrow> 11 + length (SDMReqReg_enc (SDMReqReg_view m)) \<le> BUFSIZE"
  using SDMReqReg_bounds [of m] by (simp add: SDMReqReg_view_def SDMReqReg_enc_def)

lemma SDMReqReg_Marshal_eq:
  assumes "SDMReqReg_wf m" "11 + length (SDMReqReg_enc (SDMReqReg_view m)) \<le> length buf"
  shows "SDMReqReg_Marshal now m buf = Some (marshalled now m (SDMReqReg_enc (SDMReqReg_view m)) buf)"
  using SDMReqReg_bounds [OF assms(1)] assms(2-)
  by (simp add: SDMReqReg_Marshal_def SDMReqReg_view_def SDMReqReg_enc_def put_laws cong: bind_head_cong)

lemma SDMReqReg_Unmarshal_eq:
  assumes "SDMReqReg_wf m0" "MsgName hdr = SDM_ReqReg" "sint (msg_length hdr) = int (length (SDMReqReg_enc (a, b, c, d, e, f, g, h)))"
    and "0 \<notin> set e" "length e < 33" "0 \<notin> set f" "length f < 33" "0 \<notin> set g" "length g < 33" "0 \<notin> set h" "length h < 1024"
  shows "SDMReqReg_Unmarshal m0 (header_bytes (hdr :: SDMmessage) @ SDMReqReg_enc (a, b, c, d, e, f, g, h) @ rest) =
    Some ((load_header hdr m0)\<lparr>SDMReqReg_source := a, SDMReqReg_destination := b, SDMReqReg_reply := c, SDMReqReg_id := d, SDMReqReg_device := e @ replicate (33 - length e) 0, SDMReqReg_interface := f @ replicate (33 - length f) 0, SDMReqReg_item_name := g @ replicate (33 - length g) 0, SDMReqReg_quallist := h @ replicate (1024 - length h) 0\<rparr>,
      int (11 + length (SDMReqReg_enc (a, b, c, d, e, f, g, h))))"
  using SDMReqReg_bounds [OF assms(1)] assms 
  by (simp add: SDMReqReg_Unmarshal_def SDMReqReg_enc_def SDMReqReg_wf_def string_laws load_header_def cong: bind_head_cong)

interpretation reqreg: sdm_class SDMReqReg_Marshal SDMReqReg_Unmarshal SDMReqReg_view SDMReqReg_enc SDMReqReg_wf
  "\<lambda>_. True" SDM_ReqReg
proof (unfold_locales, goal_cases)
  case (4 m)
  then show ?case by (simp add: SDMReqReg_fits)
next
  case (5 m buf now)
  then have "SDMReqReg_Marshal now m buf = Some (marshalled now m (SDMReqReg_enc (SDMReqReg_view m)) buf)"
    by (simp add: SDMReqReg_Marshal_eq)
  then show ?case
    by (rule marshalled_ok) (use 5(1) in \<open>simp_all add: SDMReqReg_wf_def SDMReqReg_view_def stamp_def set_length_def\<close>)
next
  case (6 m m0 h rest)
  have "sint (msg_length h) = int (length (SDMReqReg_enc (SDMReqReg_view m)))"
    using 6(5) SDMReqReg_fits [OF 6(1)] by (simp add: sint_of_nat_16)
  note eq = SDMReqReg_Unmarshal_eq [OF 6(3,4) this [unfolded SDMReqReg_view_def] cstr_no_null SDMReqReg_bounds(3) [OF 6(1)] cstr_no_null SDMReqReg_bounds(6) [OF 6(1)] cstr_no_null SDMReqReg_bounds(9) [OF 6(1)] cstr_no_null SDMReqReg_bounds(12) [OF 6(1)], of rest]
  show ?case using 6(1,3) SDMReqReg_bounds [OF 6(1)] SDMReqReg_bounds [OF 6(3)]
    by (simp only: SDMReqReg_view_def eq) (simp add: SDMReqReg_wf_def string_views load_header_def)
qed (simp_all add: SDMReqReg_wf_def SDMReqReg_view_def SDMReqReg_Unmarshal_def UnmarshalHeader_wrong_name)

section \<open>SDMTask\<close>

record SDMTask = SDMmessage +
  SDMTask_source :: SDMComponent_ID
  SDMTask_priority :: byte
  SDMTask_filename :: buffer
  SDMTask_pid :: "32 word"
  SDMTask_version :: "32 word"

definition SDMTask_new :: "buffer \<Rightarrow> SDMTask" where
  "SDMTask_new filename = SDMmessage.extend (new_message SDM_Task 10)
     \<lparr>SDMTask_source = SDMComponent_ID_new, SDMTask_priority = 0, SDMTask_filename = filename[0 := 0], SDMTask_pid = 0, SDMTask_version = 0\<rparr>"

definition SDMTask_Marshal :: "SDMTask marshal" where
  "SDMTask_Marshal now m buf = do {
     let cur = HEADER_SIZE;
     (buf, n) \<leftarrow> id_Marshal (SDMTask_source m) buf cur;
     let cur = cur + n;
     buf \<leftarrow> PUT_CHAR buf cur (SDMTask_priority m);
     let cur = cur + 1;
     buf \<leftarrow> PUT_LONG buf cur (SDMTask_pid m);
     let cur = cur + 4;
     buf \<leftarrow> PUT_INT buf cur (SDMTask_version m);
     let cur = cur + 4;
     n \<leftarrow> strlen (SDMTask_filename m) 0;
     buf \<leftarrow> memcpy buf cur (SDMTask_filename m) 0 n;
     let cur = cur + n;
     buf \<leftarrow> put_byte buf cur 0;
     let cur = cur + 1;
     let m = set_length cur m;
     (m, buf, _) \<leftarrow> MarshalHeader now m buf;
     Some (m, buf, int cur) }"

definition SDMTask_Unmarshal :: "SDMTask unmarshal" where
  "SDMTask_Unmarshal m buf = do {
     (m, cur) \<leftarrow> UnmarshalHeader m buf;
     if cur = SDM_INVALID_MESSAGE then Some (m, SDM_INVALID_MESSAGE)
     else if sint (total_length m) > sint (msg_length m) then Some (m, SDM_INVALID_MESSAGE)
     else do {
       let cur = nat cur;
       (c, n) \<leftarrow> id_Unmarshal (SDMTask_source m) buf cur;
       let m = m\<lparr>SDMTask_source := c\<rparr>;
       let cur = cur + n;
       v \<leftarrow> GET_CHAR buf cur;
       let m = m\<lparr>SDMTask_priority := v\<rparr>;
       let cur = cur + 1;
       v \<leftarrow> GET_LONG buf cur;
       let m = m\<lparr>SDMTask_pid := v\<rparr>;
       let cur = cur + 4;
       v \<leftarrow> GET_INT buf cur;
       let m = m\<lparr>SDMTask_version := v\<rparr>;
       let cur = cur + 4;
       (s, n) \<leftarrow> copy_bounded (SDMTask_filename m) buf cur;
       let m = m\<lparr>SDMTask_filename := s\<rparr>;
       let cur = cur + n + 1;
       Some (m, int cur) } }"

definition SDMTask_Send_to :: "SDMTask sender_to" where
  "SDMTask_Send_to env = SendTo SDMTask_Marshal (env_net env) (env_stk env) (env_ack env) (env_now env)"

definition SDMTask_view :: "SDMTask \<Rightarrow> SDMComponent_ID \<times> byte \<times> 32 word \<times> 32 word \<times> byte list" where
  "SDMTask_view m = (SDMTask_source m, SDMTask_priority m, SDMTask_pid m, SDMTask_version m, cstr (SDMTask_filename m))"

definition SDMTask_enc :: "SDMComponent_ID \<times> byte \<times> 32 word \<times> 32 word \<times> byte list \<Rightarrow> byte list" where
  "SDMTask_enc = (\<lambda>(a, b, c, d, e). id_bytes a @ [b] @ word_bytes 4 c @ word_bytes 4 d @ e @ [0])"

definition SDMTask_wf :: "SDMTask \<Rightarrow> bool" where
  "SDMTask_wf m \<longleftrightarrow> MsgName m = SDM_Task \<and> total_length m = 10 \<and> is_cstr 128 (SDMTask_filename m)"

lemmas SDMTask_class = SDMTask_Marshal_def SDMTask_Unmarshal_def SDMTask_view_def SDMTask_enc_def SDMTask_wf_def

lemma SDMTask_bounds:
  assumes "SDMTask_wf m"
  shows "is_cstr 128 (SDMTask_filename m)" "length (SDMTask_filename m) = 128" "length (cstr (SDMTask_filename m)) < 128"
  using assms by (simp_all add: SDMTask_wf_def is_cstr_len is_cstr_length)

lemma SDMTask_fits: "SDMTask_wf m \<Longrightarrow> 11 + length (SDMTask_enc (SDMTask_view m)) \<le> BUFSIZE"
  using SDMTask_bounds [of m] by (simp add: SDMTask_view_def SDMTask_enc_def)

lemma SDMTask_Marshal_eq:
  assumes "SDMTask_wf m" "11 + length (SDMTask_enc (SDMTask_view m)) \<le> length buf"
  shows "SDMTask_Marshal now m buf = Some (marshalled now m (SDMTask_enc (SDMTask_view m)) buf)"
  using SDMTask_bounds [OF assms(1)] assms(2-)
  by (simp add: SDMTask_Marshal_def SDMTask_view_def SDMTask_enc_def put_laws cong: bind_head_cong)

lemma SDMTask_Unmarshal_eq:
  assumes "SDMTask_wf m0" "MsgName hdr = SDM_Task" "sint (msg_length hdr) = int (length (SDMTask_enc (a, b, c, d, e)))"
    and "0 \<notin> set e" "length e < 128"
  shows "SDMTask_Unmarshal m0 (header_bytes (hdr :: SDMmessage) @ SDMTask_enc (a, b, c, d, e) @ rest) =
    Some ((load_header hdr m0)\<lparr>SDMTask_source := a, SDMTask_priority := b, SDMTask_pid := c, SDMTask_version := d, SDMTask_filename := e @ replicate (128 - length e) 0\<rparr>,
      int (11 + length (SDMTask_enc (a, b, c, d, e))))"
  using SDMTask_bounds [OF assms(1)] assms 
  by (simp add: SDMTask_Unmarshal_def SDMTask_enc_def SDMTask_wf_def string_laws load_header_def cong: bind_head_cong)

interpretation task_msg: sdm_class SDMTask_Marshal SDMTask_Unmarshal SDMTask_view SDMTask_enc SDMTask_wf
  "\<lambda>_. True" SDM_Task
proof (unfold_locales, goal_cases)
  case (4 m)
  then show ?case by (simp add: SDMTask_fits)
next
  case (5 m buf now)
  then have "SDMTask_Marshal now m buf = Some (marshalled now m (SDMTask_enc (SDMTask_view m)) buf)"
    by (simp add: SDMTask_Marshal_eq)
  then show ?case
    by (rule marshalled_ok) (use 5(1) in \<open>simp_all add: SDMTask_wf_def SDMTask_view_def stamp_def set_length_def\<close>)
next
  case (6 m m0 h rest)
  have "sint (msg_length h) = int (length (SDMTask_enc (SDMTask_view m)))"
    using 6(5) SDMTask_fits [OF 6(1)] by (simp add: sint_of_nat_16)
  note eq = SDMTask_Unmarshal_eq [OF 6(3,4) this [unfolded SDMTask_view_def] cstr_no_null SDMTask_bounds(3) [OF 6(1)], of rest]
  show ?case using 6(1,3) SDMTask_bounds [OF 6(1)] SDMTask_bounds [OF 6(3)]
    by (simp only: SDMTask_view_def eq) (simp add: SDMTask_wf_def string_views load_header_def)
qed (simp_all add: SDMTask_wf_def SDMTask_view_def SDMTask_Unmarshal_def UnmarshalHeader_wrong_name)

section \<open>SDMTaskError\<close>

record SDMTaskError = SDMmessage +
  SDMTaskError_source :: SDMComponent_ID
  SDMTaskError_status :: "32 word"
  SDMTaskError_filename :: buffer
  SDMTaskError_pid :: "32 word"

definition SDMTaskError_new :: "buffer \<Rightarrow> SDMTaskError" where
  "SDMTaskError_new filename = SDMmessage.extend (new_message SDM_TaskError 19)
     \<lparr>SDMTaskError_source = SDMComponent_ID_new, SDMTaskError_status = 0, SDMTaskError_filename = filename[0 := 0], SDMTaskError_pid = 0\<rparr>"

definition SDMTaskError_Marshal :: "SDMTaskError marshal" where
  "SDMTaskError_Marshal now m buf = do {
     let cur = HEADER_SIZE;
     (buf, n) \<leftarrow> id_Marshal (SDMTaskError_source m) buf cur;
     let cur = cur + n;
     buf \<leftarrow> PUT_INT buf cur (SDMTaskError_status m);
     let cur = cur + 4;
     buf \<leftarrow> PUT_UINT buf cur (SDMTaskError_pid m);
     let cur = cur + 4;
     n \<leftarrow> strlen (SDMTaskError_filename m) 0;
     buf \<leftarrow> memcpy buf cur (SDMTaskError_filename m) 0 n;
     let cur = cur + n;
     buf \<leftarrow> put_byte buf cur 0;
     let cur = cur + 1;
     let m = set_length cur m;
     (m, buf, _) \<leftarrow> MarshalHeader now m buf;
     Some (m, buf, int cur) }"

definition SDMTaskError_Unmarshal :: "SDMTaskError unmarshal" where
  "SDMTaskError_Unmarshal m buf = do {
     (m, cur) \<leftarrow> UnmarshalHeader m buf;
     if cur = SDM_INVALID_MESSAGE then Some (m, SDM_INVALID_MESSAGE)
     else if sint (total_length m) > sint (msg_length m) then Some (m, SDM_INVALID_MESSAGE)
     else do {
       let cur = nat cur;
       (c, n) \<leftarrow> id_Unmarshal (SDMTaskError_source m) buf cur;
       let m = m\<lparr>SDMTaskError_source := c\<rparr>;
       let cur = cur + n;
       v \<leftarrow> GET_INT buf cur;
       let m = m\<lparr>SDMTaskError_status := v\<rparr>;
       let cur = cur + 4;
       v \<leftarrow> GET_UINT buf cur;
       let m = m\<lparr>SDMTaskError_pid := v\<rparr>;
       let cur = cur + 4;
       (s, n) \<leftarrow> copy_bounded (SDMTaskError_filename m) buf cur;
       let m = m\<lparr>SDMTaskError_filename := s\<rparr>;
       let cur = cur + n + 1;
       Some (m, int cur) } }"

definition SDMTaskError_Send :: "SDMTaskError sender" where
  "SDMTaskError_Send = SendDM SDMTaskError_Marshal"

definition SDMTaskError_view :: "SDMTaskError \<Rightarrow> SDMComponent_ID \<times> 32 word \<times> 32 word \<times> byte list" where
  "SDMTaskError_view m = (SDMTaskError_source m, SDMTaskError_status m, SDMTaskError_pid m, cstr (SDMTaskError_filename m))"

definition SDMTaskError_enc :: "SDMComponent_ID \<times> 32 word \<times> 32 word \<times> byte list \<Rightarrow> byte list" where
  "SDMTaskError_enc = (\<lambda>(a, b, c, d). id_bytes a @ word_bytes 4 b @ word_bytes 4 c @ d @ [0])"

definition SDMTaskError_wf :: "SDMTaskError \<Rightarrow> bool" where
  "SDMTaskError_wf m \<longleftrightarrow> MsgName m = SDM_TaskError \<and> total_length m = 19 \<and> is_cstr 128 (SDMTaskError_filename m)"

lemmas SDMTaskError_class = SDMTaskError_Marshal_def SDMTaskError_Unmarshal_def SDMTaskError_view_def SDMTaskError_enc_def SDMTaskError_wf_def

lemma SDMTaskError_bounds:
  assumes "SDMTaskError_wf m"
  shows "is_cstr 128 (SDMTaskError_filename m)" "length (SDMTaskError_filename m) = 128" "length (cstr (SDMTaskError_filename m)) < 128"
  using assms by (simp_all add: SDMTaskError_wf_def is_cstr_len is_cstr_length)

lemma SDMTaskError_fits: "SDMTaskError_wf m \<Longrightarrow> 11 + length (SDMTaskError_enc (SDMTaskError_view m)) \<le> BUFSIZE"
  using SDMTaskError_bounds [of m] by (simp add: SDMTaskError_view_def SDMTaskError_enc_def)

lemma SDMTaskError_Marshal_eq:
  assumes "SDMTaskError_wf m" "11 + length (SDMTaskError_enc (SDMTaskError_view m)) \<le> length buf"
  shows "SDMTaskError_Marshal now m buf = Some (marshalled now m (SDMTaskError_enc (SDMTaskError_view m)) buf)"
  using SDMTaskError_bounds [OF assms(1)] assms(2-)
  by (simp add: SDMTaskError_Marshal_def SDMTaskError_view_def SDMTaskError_enc_def put_laws cong: bind_head_cong)

lemma SDMTaskError_Unmarshal_eq:
  assumes "SDMTaskError_wf m0" "MsgName hdr = SDM_TaskError" "sint (msg_length hdr) = int (length (SDMTaskError_enc (a, b, c, d)))"
    and "0 \<notin> set d" "length d < 128"
  shows "SDMTaskError_Unmarshal m0 (header_bytes (hdr :: SDMmessage) @ SDMTaskError_enc (a, b, c, d) @ rest) =
    Some ((load_header hdr m0)\<lparr>SDMTaskError_source := a, SDMTaskError_status := b, SDMTaskError_pid := c, SDMTaskError_filename := d @ replicate (128 - length d) 0\<rparr>,
      int (11 + length (SDMTaskError_enc (a, b, c, d))))"
  using SDMTaskError_bounds [OF assms(1)] assms 
  by (simp add: SDMTaskError_Unmarshal_def SDMTaskError_enc_def SDMTaskError_wf_def string_laws load_header_def cong: bind_head_cong)

interpretation taskerror: sdm_class SDMTaskError_Marshal SDMTaskError_Unmarshal SDMTaskError_view SDMTaskError_enc SDMTaskError_wf
  "\<lambda>_. True" SDM_TaskError
proof (unfold_locales, goal_cases)
  case (4 m)
  then show ?case by (simp add: SDMTaskError_fits)
next
  case (5 m buf now)
  then have "SDMTaskError_Marshal now m buf = Some (marshalled now m (SDMTaskError_enc (SDMTaskError_view m)) buf)"
    by (simp add: SDMTaskError_Marshal_eq)
  then show ?case
    by (rule marshalled_ok) (use 5(1) in \<open>simp_all add: SDMTaskError_wf_def SDMTaskError_view_def stamp_def set_length_def\<close>)
next
  case (6 m m0 h rest)
  have "sint (msg_length h) = int (length (SDMTaskError_enc (SDMTaskError_view m)))"
    using 6(5) SDMTaskError_fits [OF 6(1)] by (simp add: sint_of_nat_16)
  note eq = SDMTaskError_Unmarshal_eq [OF 6(3,4) this [unfolded SDMTaskError_view_def] cstr_no_null SDMTaskError_bounds(3) [OF 6(1)], of rest]
  show ?case using 6(1,3) SDMTaskError_bounds [OF 6(1)] SDMTaskError_bounds [OF 6(3)]
    by (simp only: SDMTaskError_view_def eq) (simp add: SDMTaskError_wf_def string_views load_header_def)
qed (simp_all add: SDMTaskError_wf_def SDMTaskError_view_def SDMTaskError_Unmarshal_def UnmarshalHeader_wrong_name)

section \<open>SDMTaskFinished\<close>

record SDMTaskFinished = SDMmessage +
  SDMTaskFinished_source :: SDMComponent_ID
  SDMTaskFinished_result :: "32 word"
  SDMTaskFinished_filename :: buffer
  SDMTaskFinished_pid :: "32 word"

definition SDMTaskFinished_new :: "buffer \<Rightarrow> SDMTaskFinished" where
  "SDMTaskFinished_new filename = SDMmessage.extend (new_message SDM_TaskFinished 19)
     \<lparr>SDMTaskFinished_source = SDMComponent_ID_new, SDMTaskFinished_result = 0, SDMTaskFinished_filename = filename[0 := 0], SDMTaskFinished_pid = 0\<rparr>"

definition SDMTaskFinished_Marshal :: "SDMTaskFinished marshal" where
  "SDMTaskFinished_Marshal now m buf = do {
     let cur = HEADER_SIZE;
     (buf, n) \<leftarrow> id_Marshal (SDMTaskFinished_source m) buf cur;
     let cur = cur + n;
     buf \<leftarrow> PUT_INT buf cur (SDMTaskFinished_result m);
     let cur = cur + 4;
     buf \<leftarrow> PUT_INT buf cur (SDMTaskFinished_pid m);
     let cur = cur + 4;
     n \<leftarrow> strlen (SDMTaskFinished_filename m) 0;
     buf \<leftarrow> memcpy buf cur (SDMTaskFinished_filename m) 0 n;
     let cur = cur + n;
     buf \<leftarrow> put_byte buf cur 0;
     let cur = cur + 1;
     let m = set_length cur m;
     (m, buf, _) \<leftarrow> MarshalHeader now m buf;
     Some (m, buf, int cur) }"

definition SDMTaskFinished_Unmarshal :: "SDMTaskFinished unmarshal" where
  "SDMTaskFinished_Unmarshal m buf = do {
     (m, cur) \<leftarrow> UnmarshalHeader m buf;
     if cur = SDM_INVALID_MESSAGE then Some (m, SDM_INVALID_MESSAGE)
     else if sint (total_length m) > sint (msg_length m) then Some (m, SDM_INVALID_MESSAGE)
     else do {
       let cur = nat cur;
       (c, n) \<leftarrow> id_Unmarshal (SDMTaskFinished_source m) buf cur;
       let m = m\<lparr>SDMTaskFinished_source := c\<rparr>;
       let cur = cur + n;
       v \<leftarrow> GET_INT buf cur;
       let m = m\<lparr>SDMTaskFinished_result := v\<rparr>;
       let cur = cur + 4;
       v \<leftarrow> GET_INT buf cur;
       let m = m\<lparr>SDMTaskFinished_pid := v\<rparr>;
       let cur = cur + 4;
       (s, n) \<leftarrow> copy_bounded (SDMTaskFinished_filename m) buf cur;
       let m = m\<lparr>SDMTaskFinished_filename := s\<rparr>;
       let cur = cur + n + 1;
       Some (m, int cur) } }"

definition SDMTaskFinished_Send :: "SDMTaskFinished sender" where
  "SDMTaskFinished_Send = SendTM SDMTaskFinished_Marshal"

definition SDMTaskFinished_view :: "SDMTaskFinished \<Rightarrow> SDMComponent_ID \<times> 32 word \<times> 32 word \<times> byte list" where
  "SDMTaskFinished_view m = (SDMTaskFinished_source m, SDMTaskFinished_result m, SDMTaskFinished_pid m, cstr (SDMTaskFinished_filename m))"

definition SDMTaskFinished_enc :: "SDMComponent_ID \<times> 32 word \<times> 32 word \<times> byte list \<Rightarrow> byte list" where
  "SDMTaskFinished_enc = (\<lambda>(a, b, c, d). id_bytes a @ word_bytes 4 b @ word_bytes 4 c @ d @ [0])"

definition SDMTaskFinished_wf :: "SDMTaskFinished \<Rightarrow> bool" where
  "SDMTaskFinished_wf m \<longleftrightarrow> MsgName m = SDM_TaskFinished \<and> total_length m = 19 \<and> is_cstr 128 (SDMTaskFinished_filename m)"

lemmas SDMTaskFinished_class = SDMTaskFinished_Marshal_def SDMTaskFinished_Unmarshal_def SDMTaskFinished_view_def SDMTaskFinished_enc_def SDMTaskFinished_wf_def

lemma SDMTaskFinished_bounds:
  assumes "SDMTaskFinished_wf m"
  shows "is_cstr 128 (SDMTaskFinished_filename m)" "length (SDMTaskFinished_filename m) = 128" "length (cstr (SDMTaskFinished_filename m)) < 128"
  using assms by (simp_all add: SDMTaskFinished_wf_def is_cstr_len is_cstr_length)

lemma SDMTaskFinished_fits: "SDMTaskFinished_wf m \<Longrightarrow> 11 + length (SDMTaskFinished_enc (SDMTaskFinished_view m)) \<le> BUFSIZE"
  using SDMTaskFinished_bounds [of m] by (simp add: SDMTaskFinished_view_def SDMTaskFinished_enc_def)

lemma SDMTaskFinished_Marshal_eq:
  assumes "SDMTaskFinished_wf m" "11 + length (SDMTaskFinished_enc (SDMTaskFinished_view m)) \<le> length buf"
  shows "SDMTaskFinished_Marshal now m buf = Some (marshalled now m (SDMTaskFinished_enc (SDMTaskFinished_view m)) buf)"
  using SDMTaskFinished_bounds [OF assms(1)] assms(2-)
  by (simp add: SDMTaskFinished_Marshal_def SDMTaskFinished_view_def SDMTaskFinished_enc_def put_laws cong: bind_head_cong)

lemma SDMTaskFinished_Unmarshal_eq:
  assumes "SDMTaskFinished_wf m0" "MsgName hdr = SDM_TaskFinished" "sint (msg_length hdr) = int (length (SDMTaskFinished_enc (a, b, c, d)))"
    and "0 \<notin> set d" "length d < 128"
  shows "SDMTaskFinished_Unmarshal m0 (header_bytes (hdr :: SDMmessage) @ SDMTaskFinished_enc (a, b, c, d) @ rest) =
    Some ((load_header hdr m0)\<lparr>SDMTaskFinished_source := a, SDMTaskFinished_result := b, SDMTaskFinished_pid := c, SDMTaskFinished_filename := d @ replicate (128 - length d) 0\<rparr>,
      int (11 + length (SDMTaskFinished_enc (a, b, c, d))))"
  using SDMTaskFinished_bounds [OF assms(1)] assms 
  by (simp add: SDMTaskFinished_Unmarshal_def SDMTaskFinished_enc_def SDMTaskFinished_wf_def string_laws load_header_def cong: bind_head_cong)

interpretation taskfinished: sdm_class SDMTaskFinished_Marshal SDMTaskFinished_Unmarshal SDMTaskFinished_view SDMTaskFinished_enc SDMTaskFinished_wf
  "\<lambda>_. True" SDM_TaskFinished
proof (unfold_locales, goal_cases)
  case (4 m)
  then show ?case by (simp add: SDMTaskFinished_fits)
next
  case (5 m buf now)
  then have "SDMTaskFinished_Marshal now m buf = Some (marshalled now m (SDMTaskFinished_enc (SDMTaskFinished_view m)) buf)"
    by (simp add: SDMTaskFinished_Marshal_eq)
  then show ?case
    by (rule marshalled_ok) (use 5(1) in \<open>simp_all add: SDMTaskFinished_wf_def SDMTaskFinished_view_def stamp_def set_length_def\<close>)
next
  case (6 m m0 h rest)
  have "sint (msg_length h) = int (length (SDMTaskFinished_enc (SDMTaskFinished_view m)))"
    using 6(5) SDMTaskFinished_fits [OF 6(1)] by (simp add: sint_of_nat_16)
  note eq = SDMTaskFinished_Unmarshal_eq [OF 6(3,4) this [unfolded SDMTaskFinished_view_def] cstr_no_null SDMTaskFinished_bounds(3) [OF 6(1)], of rest]
  show ?case using 6(1,3) SDMTaskFinished_bounds [OF 6(1)] SDMTaskFinished_bounds [OF 6(3)]
    by (simp only: SDMTaskFinished_view_def eq) (simp add: SDMTaskFinished_wf_def string_views load_header_def)
qed (simp_all add: SDMTaskFinished_wf_def SDMTaskFinished_view_def SDMTaskFinished_Unmarshal_def UnmarshalHeader_wrong_name)

section \<open>SDMVarReq\<close>

record SDMVarReq = SDMmessage +
  SDMVarReq_source :: SDMComponent_ID
  SDMVarReq_destination :: SDMComponent_ID
  SDMVarReq_reply :: byte
  SDMVarReq_msg_id :: SDMMessage_ID
  SDMVarReq_id :: "16 word"
  SDMVarReq_variable :: buffer

definition SDMVarReq_new :: "buffer \<Rightarrow> SDMVarReq" where
  "SDMVarReq_new variable = SDMmessage.extend (new_message SDM_VarReq 25)
     \<lparr>SDMVarReq_source = SDMComponent_ID_new, SDMVarReq_destination = SDMComponent_ID_new, SDMVarReq_reply = 0, SDMVarReq_msg_id = SDMMessage_ID_new 0 0, SDMVarReq_id = 0, SDMVarReq_variable = variable[0 := 0]\<rparr>"

definition SDMVarReq_Marshal :: "SDMVarReq marshal" where
  "SDMVarReq_Marshal now m buf = do {
     let cur = HEADER_SIZE;
     (buf, n) \<leftarrow> id_Marshal (SDMVarReq_source m) buf cur;
     let cur = cur + n;
     (buf, n) \<leftarrow> id_Marshal (SDMVarReq_destination m) buf cur;
     let cur = cur + n;
     buf \<leftarrow> PUT_UCHAR buf cur (SDMVarReq_reply m);
     let cur = cur + 1;
     (buf, n) \<leftarrow> SDMMessage_ID_Marshal (SDMVarReq_msg_id m) buf cur;
     let cur = cur + n;
     buf \<leftarrow> PUT_USHORT buf cur (SDMVarReq_id m);
     let cur = cur + 2;
     buf \<leftarrow> strcpy buf cur (SDMVarReq_variable m) 0;
     n \<leftarrow> strlen (SDMVarReq_variable m) 0;
     let cur = cur + n + 1;
     let m = set_length cur m;
     (m, buf, _) \<leftarrow> MarshalHeader now m buf;
     Some (m, buf, int cur) }"

definition SDMVarReq_Unmarshal :: "SDMVarReq unmarshal" where
  "SDMVarReq_Unmarshal m buf = do {
     (m, cur) \<leftarrow> UnmarshalHeader m buf;
     if cur = SDM_INVALID_MESSAGE \<or> sint (total_length m) > sint (msg_length m) then Some (m, SDM_INVALID_MESSAGE)
     else do {
       let cur = nat cur;
       (c, n) \<leftarrow> id_Unmarshal (SDMVarReq_source m) buf cur;
       let m = m\<lparr>SDMVarReq_source := c\<rparr>;
       let cur = cur + n;
       (c, n) \<leftarrow> id_Unmarshal (SDMVarReq_destination m) buf cur;
       let m = m\<lparr>SDMVarReq_destination := c\<rparr>;
       let cur = cur + n;
       v \<leftarrow> GET_UCHAR buf cur;
       let m = m\<lparr>SDMVarReq_reply := v\<rparr>;
       let cur = cur + 1;
       (d, n) \<leftarrow> SDMMessage_ID_Unmarshal (SDMVarReq_msg_id m) buf cur;
       let m = m\<lparr>SDMVarReq_msg_id := d\<rparr>;
       let cur = cur + n;
       v \<leftarrow> GET_USHORT buf cur;
       let m = m\<lparr>SDMVarReq_id := v\<rparr>;
       let cur = cur + 2;
       s \<leftarrow> strcpy (SDMVarReq_variable m) 0 buf cur;
       let m = m\<lparr>SDMVarReq_variable := s\<rparr>;
       n \<leftarrow> strlen (SDMVarReq_variable m) 0;
       let cur = cur + n + 1;
       Some (m, int cur) } }"

definition SDMVarReq_Send :: "SDMVarReq sender" where
  "SDMVarReq_Send = SendDM SDMVarReq_Marshal"

definition SDMVarReq_view :: "SDMVarReq \<Rightarrow> SDMComponent_ID \<times> SDMComponent_ID \<times> byte \<times> SDMMessage_ID \<times> 16 word \<times> byte list" where
  "SDMVarReq_view m = (SDMVarReq_source m, SDMVarReq_destination m, SDMVarReq_reply m, SDMVarReq_msg_id m, SDMVarReq_id m, cstr (SDMVarReq_variable m))"

definition SDMVarReq_enc :: "SDMComponent_ID \<times> SDMComponent_ID \<times> byte \<times> SDMMessage_ID \<times> 16 word \<times> byte list \<Rightarrow> byte list" where
  "SDMVarReq_enc = (\<lambda>(a, b, c, d, e, f). id_bytes a @ id_bytes b @ [c] @ mid_bytes d @ word_bytes 2 e @ f @ [0])"

definition SDMVarReq_wf :: "SDMVarReq \<Rightarrow> bool" where
  "SDMVarReq_wf m \<longleftrightarrow> MsgName m = SDM_VarReq \<and> total_length m = 25 \<and> is_cstr 33 (SDMVarReq_variable m)"

lemmas SDMVarReq_class = SDMVarReq_Marshal_def SDMVarReq_Unmarshal_def SDMVarReq_view_def SDMVarReq_enc_def SDMVarReq_wf_def

lemma SDMVarReq_bounds:
  assumes "SDMVarReq_wf m"
  shows "is_cstr 33 (SDMVarReq_variable m)" "length (SDMVarReq_variable m) = 33" "length (cstr (SDMVarReq_variable m)) < 33"
  using assms by (simp_all add: SDMVarReq_wf_def is_cstr_len is_cstr_length)

lemma SDMVarReq_fits: "SDMVarReq_wf m \<Longrightarrow> 11 + length (SDMVarReq_enc (SDMVarReq_view m)) \<le> BUFSIZE"
  using SDMVarReq_bounds [of m] by (simp add: SDMVarReq_view_def SDMVarReq_enc_def)

lemma SDMVarReq_Marshal_eq:
  assumes "SDMVarReq_wf m" "11 + length (SDMVarReq_enc (SDMVarReq_view m)) \<le> length buf"
  shows "SDMVarReq_Marshal now m buf = Some (marshalled now m (SDMVarReq_enc (SDMVarReq_view m)) buf)"
  using SDMVarReq_bounds [OF assms(1)] assms(2-)
  by (simp add: SDMVarReq_Marshal_def SDMVarReq_view_def SDMVarReq_enc_def put_laws cong: bind_head_cong)

lemma SDMVarReq_Unmarshal_eq:
  assumes "SDMVarReq_wf m0" "MsgName hdr = SDM_VarReq" "sint (msg_length hdr) = int (length (SDMVarReq_enc (a, b, c, d, e, f)))"
    and "0 \<notin> set f" "length f < 33"
  shows "SDMVarReq_Unmarshal m0 (header_bytes (hdr :: SDMmessage) @ SDMVarReq_enc (a, b, c, d, e, f) @ rest) =
    Some ((load_header hdr m0)\<lparr>SDMVarReq_source := a, SDMVarReq_destination := b, SDMVarReq_reply := c, SDMVarReq_msg_id := d, SDMVarReq_id := e, SDMVarReq_variable := f @ 0 # drop (Suc (length f)) (SDMVarReq_variable m0)\<rparr>,
      int (11 + length (SDMVarReq_enc (a, b, c, d, e, f))))"
  using SDMVarReq_bounds [OF assms(1)] assms 
  by (simp add: SDMVarReq_Unmarshal_def SDMVarReq_enc_def SDMVarReq_wf_def string_laws load_header_def cong: bind_head_cong)

interpretation varreq: sdm_class SDMVarReq_Marshal SDMVarReq_Unmarshal SDMVarReq_view SDMVarReq_enc SDMVarReq_wf
  "\<lambda>_. True" SDM_VarReq
proof (unfold_locales, goal_cases)
  case (4 m)
  then show ?case by (simp add: SDMVarReq_fits)
next
  case (5 m buf now)
  then have "SDMVarReq_Marshal now m buf = Some (marshalled now m (SDMVarReq_enc (SDMVarReq_view m)) buf)"
    by (simp add: SDMVarReq_Marshal_eq)
  then show ?case
    by (rule marshalled_ok) (use 5(1) in \<open>simp_all add: SDMVarReq_wf_def SDMVarReq_view_def stamp_def set_length_def\<close>)
next
  case (6 m m0 h rest)
  have "sint (msg_length h) = int (length (SDMVarReq_enc (SDMVarReq_view m)))"
    using 6(5) SDMVarReq_fits [OF 6(1)] by (simp add: sint_of_nat_16)
  note eq = SDMVarReq_Unmarshal_eq [OF 6(3,4) this [unfolded SDMVarReq_view_def] cstr_no_null SDMVarReq_bounds(3) [OF 6(1)], of rest]
  show ?case using 6(1,3) SDMVarReq_bounds [OF 6(1)] SDMVarReq_bounds [OF 6(3)]
    by (simp only: SDMVarReq_view_def eq) (simp add: SDMVarReq_wf_def string_views load_header_def)
qed (simp_all add: SDMVarReq_wf_def SDMVarReq_view_def SDMVarReq_Unmarshal_def UnmarshalHeader_wrong_name)

section \<open>SDMSearch\<close>

record SDMSearch = SDMmessage +
  SDMSearch_source :: SDMComponent_ID
  SDMSearch_destination :: SDMComponent_ID
  SDMSearch_reply :: byte
  SDMSearch_id :: "16 word"
  SDMSearch_reg_expr :: buffer

definition SDMSearch_new :: "buffer \<Rightarrow> SDMSearch" where
  "SDMSearch_new reg_expr = SDMmessage.extend (new_message SDM_Search 24)
     \<lparr>SDMSearch_source = SDMComponent_ID_new, SDMSearch_destination = SDMComponent_ID_new, SDMSearch_reply = 0, SDMSearch_id = 0, SDMSearch_reg_expr = reg_expr[0 := 0]\<rparr>"

definition SDMSearch_Marshal :: "SDMSearch marshal" where
  "SDMSearch_Marshal now m buf = do {
     let cur = HEADER_SIZE;
     (buf, n) \<leftarrow> id_Marshal (SDMSearch_source m) buf cur;
     let cur = cur + n;
     (buf, n) \<leftarrow> id_Marshal (SDMSearch_destination m) buf cur;
     let cur = cur + n;
     buf \<leftarrow> PUT_UCHAR buf cur (SDMSearch_reply m);
     let cur = cur + 1;
     buf \<leftarrow> PUT_USHORT buf cur (SDMSearch_id m);
     let cur = cur + 2;
     n \<leftarrow> strlen (SDMSearch_reg_expr m) 0;
     buf \<leftarrow> memcpy buf cur (SDMSearch_reg_expr m) 0 n;
     let cur = cur + n;
     buf \<leftarrow> put_byte buf cur 0;
     let cur = cur + 1;
     let m = set_length cur m;
     (m, buf, _) \<leftarrow> MarshalHeader now m buf;
     Some (m, buf, int cur) }"

definition SDMSearch_Unmarshal :: "SDMSearch unmarshal" where
  "SDMSearch_Unmarshal m buf = do {
     (m, cur) \<leftarrow> UnmarshalHeader m buf;
     if cur = SDM_INVALID_MESSAGE then Some (m, SDM_INVALID_MESSAGE)
     else if sint (total_length m) > sint (msg_length m) then Some (m, SDM_INVALID_MESSAGE)
     else do {
       let cur = nat cur;
       (c, n) \<leftarrow> id_Unmarshal (SDMSearch_source m) buf cur;
       let m = m\<lparr>SDMSearch_source := c\<rparr>;
       let cur = cur + n;
       (c, n) \<leftarrow> id_Unmarshal (SDMSearch_destination m) buf cur;
       let m = m\<lparr>SDMSearch_destination := c\<rparr>;
       let cur = cur + n;
       v \<leftarrow> GET_UCHAR buf cur;
       let m = m\<lparr>SDMSearch_reply := v\<rparr>;
       let cur = cur + 1;
       v \<leftarrow> GET_USHORT buf cur;
       let m = m\<lparr>SDMSearch_id := v\<rparr>;
       let cur = cur + 2;
       (s, n) \<leftarrow> copy_bounded (SDMSearch_reg_expr m) buf cur;
       let m = m\<lparr>SDMSearch_reg_expr := s\<rparr>;
       let cur = cur + n + 1;
       Some (m, int cur) } }"

definition SDMSearch_Send :: "SDMSearch sender" where
  "SDMSearch_Send = SendDM SDMSearch_Marshal"

definition SDMSearch_Recv :: "net \<Rightarrow> SDMSearch \<Rightarrow> 32 word \<Rightarrow> (SDMSearch \<times> int) option" where
  "SDMSearch_Recv = Recv_checked SDMSearch_Unmarshal"

definition SDMSearch_view :: "SDMSearch \<Rightarrow> SDMComponent_ID \<times> SDMComponent_ID \<times> byte \<times> 16 word \<times> byte list" where
  "SDMSearch_view m = (SDMSearch_source m, SDMSearch_destination m, SDMSearch_reply m, SDMSearch_id m, cstr (SDMSearch_reg_expr m))"

definition SDMSearch_enc :: "SDMComponent_ID \<times> SDMComponent_ID \<times> byte \<times> 16 word \<times> byte list \<Rightarrow> byte list" where
  "SDMSearch_enc = (\<lambda>(a, b, c, d, e). id_bytes a @ id_bytes b @ [c] @ word_bytes 2 d @ e @ [0])"

definition SDMSearch_wf :: "SDMSearch \<Rightarrow> bool" where
  "SDMSearch_wf m \<longleftrightarrow> MsgName m = SDM_Search \<and> total_length m = 24 \<and> is_cstr 24255 (SDMSearch_reg_expr m)"

lemmas SDMSearch_class = SDMSearch_Marshal_def SDMSearch_Unmarshal_def SDMSearch_view_def SDMSearch_enc_def SDMSearch_wf_def

lemma SDMSearch_bounds:
  assumes "SDMSearch_wf m"
  shows "is_cstr 24255 (SDMSearch_reg_expr m)" "length (SDMSearch_reg_expr m) = 24255" "length (cstr (SDMSearch_reg_expr m)) < 24255"
  using assms by (simp_all add: SDMSearch_wf_def is_cstr_len is_cstr_length)

lemma SDMSearch_fits: "SDMSearch_wf m \<Longrightarrow> length (cstr (SDMSearch_reg_expr m)) \<le> 24253 \<Longrightarrow> 11 + length (SDMSearch_enc (SDMSearch_view m)) \<le> BUFSIZE"
  using SDMSearch_bounds [of m] by (simp add: SDMSearch_view_def SDMSearch_enc_def)

lemma SDMSearch_Marshal_eq:
  assumes "SDMSearch_wf m" "length (cstr (SDMSearch_reg_expr m)) \<le> 24253" "11 + length (SDMSearch_enc (SDMSearch_view m)) \<le> length buf"
  shows "SDMSearch_Marshal now m buf = Some (marshalled now m (SDMSearch_enc (SDMSearch_view m)) buf)"
  using SDMSearch_bounds [OF assms(1)] assms(2-)
  by (simp add: SDMSearch_Marshal_def SDMSearch_view_def SDMSearch_enc_def put_laws cong: bind_head_cong)

lemma SDMSearch_Unmarshal_eq:
  assumes "SDMSearch_wf m0" "MsgName hdr = SDM_Search" "sint (msg_length hdr) = int (length (SDMSearch_enc (a, b, c, d, e)))"
    and "0 \<notin> set e" "length e < 24255"
  shows "SDMSearch_Unmarshal m0 (header_bytes (hdr :: SDMmessage) @ SDMSearch_enc (a, b, c, d, e) @ rest) =
    Some ((load_header hdr m0)\<lparr>SDMSearch_source := a, SDMSearch_destination := b, SDMSearch_reply := c, SDMSearch_id := d, SDMSearch_reg_expr := e @ replicate (24255 - length e) 0\<rparr>,
      int (11 + length (SDMSearch_enc (a, b, c, d, e))))"
  using SDMSearch_bounds [OF assms(1)] assms 
  by (simp add: SDMSearch_Unmarshal_def SDMSearch_enc_def SDMSearch_wf_def string_laws load_header_def cong: bind_head_cong)

interpretation search: sdm_class SDMSearch_Marshal SDMSearch_Unmarshal SDMSearch_view SDMSearch_enc SDMSearch_wf
  "\<lambda>m. length (cstr (SDMSearch_reg_expr m)) \<le> 24253" SDM_Search
proof (unfold_locales, goal_cases)
  case (4 m)
  then show ?case by (simp add: SDMSearch_fits)
next
  case (5 m buf now)
  then have "SDMSearch_Marshal now m buf = Some (marshalled now m (SDMSearch_enc (SDMSearch_view m)) buf)"
    by (simp add: SDMSearch_Marshal_eq)
  then show ?case
    by (rule marshalled_ok) (use 5(1) in \<open>simp_all add: SDMSearch_wf_def SDMSearch_view_def stamp_def set_length_def\<close>)
next
  case (6 m m0 h rest)
  have "sint (msg_length h) = int (length (SDMSearch_enc (SDMSearch_view m)))"
    using 6(5) SDMSearch_fits [OF 6(1,2)] by (simp add: sint_of_nat_16)
  note eq = SDMSearch_Unmarshal_eq [OF 6(3,4) this [unfolded SDMSearch_view_def] cstr_no_null SDMSearch_bounds(3) [OF 6(1)], of rest]
  show ?case using 6(1,3) SDMSearch_bounds [OF 6(1)] SDMSearch_bounds [OF 6(3)]
    by (simp only: SDMSearch_view_def eq) (simp add: SDMSearch_wf_def string_views load_header_def)
qed (simp_all add: SDMSearch_wf_def SDMSearch_view_def SDMSearch_Unmarshal_def UnmarshalHeader_wrong_name)

section \<open>SDMRegInfo\<close>

record SDMRegInfo = SDMmessage +
  SDMRegInfo_id :: "16 word"
  SDMRegInfo_type :: byte
  SDMRegInfo_source :: SDMComponent_ID
  SDMRegInfo_msg_id :: SDMMessage_ID
  SDMRegInfo_msg_def :: buffer
  SDMRegInfo_xTEDS_section :: buffer
  SDMRegInfo_emptyflag :: bool

definition SDMRegInfo_new :: "buffer \<Rightarrow> buffer \<Rightarrow> SDMRegInfo" where
  "SDMRegInfo_new msg_def xTEDS_section = SDMmessage.extend (new_message SDM_RegInfo 16)
     \<lparr>SDMRegInfo_id = 0, SDMRegInfo_type = 0, SDMRegInfo_source = SDMComponent_ID_new, SDMRegInfo_msg_id = SDMMessage_ID_new 0 0, SDMRegInfo_msg_def = msg_def[0 := 0], SDMRegInfo_xTEDS_section = xTEDS_section[0 := 0], SDMRegInfo_emptyflag = False\<rparr>"

definition SDMRegInfo_MarshalEmpty :: "SDMRegInfo marshal" where
  "SDMRegInfo_MarshalEmpty now m buf = do {
     let m = m\<lparr>msg_length := 0\<rparr>;
     (m, buf, cur) \<leftarrow> MarshalHeader now m buf;
     Some (m, buf, int cur) }"

definition SDMRegInfo_Marshal :: "SDMRegInfo marshal" where
  "SDMRegInfo_Marshal now m buf =
     (if SDMRegInfo_emptyflag m then SDMRegInfo_MarshalEmpty now m buf
      else do {
        let cur = HEADER_SIZE;
        (buf, n) \<leftarrow> id_Marshal (SDMRegInfo_source m) buf cur;
        let cur = cur + n;
        (buf, n) \<leftarrow> SDMMessage_ID_Marshal (SDMRegInfo_msg_id m) buf cur;
        let cur = cur + n;
        buf \<leftarrow> PUT_USHORT buf cur (SDMRegInfo_id m);
        let cur = cur + 2;
        buf \<leftarrow> PUT_UCHAR buf cur (SDMRegInfo_type m);
        let cur = cur + 1;
        buf \<leftarrow> strcpy buf cur (SDMRegInfo_msg_def m) 0;
        n \<leftarrow> strlen (SDMRegInfo_msg_def m) 0;
        let cur = cur + n + 1;
        buf \<leftarrow> strcpy buf cur (SDMRegInfo_xTEDS_section m) 0;
        n \<leftarrow> strlen (SDMRegInfo_xTEDS_section m) 0;
        let cur = cur + n + 1;
        let m = set_length cur m;
        (m, buf, _) \<leftarrow> MarshalHeader now m buf;
        Some (m, buf, int cur) })"

definition SDMRegInfo_Unmarshal :: "SDMRegInfo unmarshal" where
  "SDMRegInfo_Unmarshal m buf = do {
     (m, cur) \<leftarrow> UnmarshalHeader m buf;
     if cur = SDM_INVALID_MESSAGE then Some (m, SDM_INVALID_MESSAGE)
     else if msg_length m = 0 then Some (m, SDM_NO_FURTHER_DATA_PROVIDER)
     else if sint (total_length m) > sint (msg_length m) then Some (m, SDM_INVALID_MESSAGE)
     else do {
       let cur = nat cur;
       (c, n) \<leftarrow> id_Unmarshal (SDMRegInfo_source m) buf cur;
       let m = m\<lparr>SDMRegInfo_source := c\<rparr>;
       let cur = cur + n;
       (d, n) \<leftarrow> SDMMessage_ID_Unmarshal (SDMRegInfo_msg_id m) buf cur;
       let m = m\<lparr>SDMRegInfo_msg_id := d\<rparr>;
       let cur = cur + n;
       v \<leftarrow> GET_USHORT buf cur;
       let m = m\<lparr>SDMRegInfo_id := v\<rparr>;
       let cur = cur + 2;
       v \<leftarrow> GET_UCHAR buf cur;
       let m = m\<lparr>SDMRegInfo_type := v\<rparr>;
       let cur = cur + 1;
       s \<leftarrow> strcpy (SDMRegInfo_msg_def m) 0 buf cur;
       let m = m\<lparr>SDMRegInfo_msg_def := s\<rparr>;
       n \<leftarrow> strlen (SDMRegInfo_msg_def m) 0;
       let cur = cur + n + 1;
       s \<leftarrow> strcpy (SDMRegInfo_xTEDS_section m) 0 buf cur;
       let m = m\<lparr>SDMRegInfo_xTEDS_section := s\<rparr>;
       n \<leftarrow> strlen (SDMRegInfo_xTEDS_section m) 0;
       let cur = cur + n + 1;
       Some (m, int cur) } }"

definition SDMRegInfo_Send_to :: "SDMRegInfo sender_to" where
  "SDMRegInfo_Send_to env m = SendTo_checked SDMRegInfo_Marshal (env_net env) (env_stk env) (env_ack env) (env_now env) (m\<lparr>SDMRegInfo_emptyflag := False\<rparr>)"

definition SDMRegInfo_SendEmpty :: "SDMRegInfo sender_to" where
  "SDMRegInfo_SendEmpty env m = SendTo_checked SDMRegInfo_Marshal (env_net env) (env_stk env) (env_ack env) (env_now env) (m\<lparr>SDMRegInfo_emptyflag := True\<rparr>)"

definition SDMRegInfo_Recv :: "net \<Rightarrow> SDMRegInfo \<Rightarrow> 32 word \<Rightarrow> (SDMRegInfo \<times> int) option" where
  "SDMRegInfo_Recv net m port = do {
     (m, result) \<leftarrow> RecvFrom SDMRegInfo_Unmarshal net m port;
     if result \<le> 0 then Some (m, SDM_MESSAGE_RECV_ERROR)
     else if result = 1 then Some (m, SDM_NO_FURTHER_DATA_PROVIDER)
     else Some (m, result) }"

definition SDMRegInfo_view :: "SDMRegInfo \<Rightarrow> SDMComponent_ID \<times> SDMMessage_ID \<times> 16 word \<times> byte \<times> byte list \<times> byte list" where
  "SDMRegInfo_view m = (SDMRegInfo_source m, SDMRegInfo_msg_id m, SDMRegInfo_id m, SDMRegInfo_type m, cstr (SDMRegInfo_msg_def m), cstr (SDMRegInfo_xTEDS_section m))"

definition SDMRegInfo_enc :: "SDMComponent_ID \<times> SDMMessage_ID \<times> 16 word \<times> byte \<times> byte list \<times> byte list \<Rightarrow> byte list" where
  "SDMRegInfo_enc = (\<lambda>(a, b, c, d, e, f). id_bytes a @ mid_bytes b @ word_bytes 2 c @ [d] @ e @ [0] @ f @ [0])"

definition SDMRegInfo_wf :: "SDMRegInfo \<Rightarrow> bool" where
  "SDMRegInfo_wf m \<longleftrightarrow> MsgName m = SDM_RegInfo \<and> total_length m = 16 \<and> is_cstr 12130 (SDMRegInfo_msg_def m) \<and> is_cstr 12130 (SDMRegInfo_xTEDS_section m)"

lemmas SDMRegInfo_class = SDMRegInfo_Marshal_def SDMRegInfo_Unmarshal_def SDMRegInfo_view_def SDMRegInfo_enc_def SDMRegInfo_wf_def

lemma SDMRegInfo_bounds:
  assumes "SDMRegInfo_wf m"
  shows "is_cstr 12130 (SDMRegInfo_msg_def m)" "length (SDMRegInfo_msg_def m) = 12130" "length (cstr (SDMRegInfo_msg_def m)) < 12130"
    and "is_cstr 12130 (SDMRegInfo_xTEDS_section m)" "length (SDMRegInfo_xTEDS_section m) = 12130" "length (cstr (SDMRegInfo_xTEDS_section m)) < 12130"
  using assms by (simp_all add: SDMRegInfo_wf_def is_cstr_len is_cstr_length)

lemma SDMRegInfo_fits: "SDMRegInfo_wf m \<Longrightarrow> 11 + length (SDMRegInfo_enc (SDMRegInfo_view m)) \<le> BUFSIZE"
  using SDMRegInfo_bounds [of m] by (simp add: SDMRegInfo_view_def SDMRegInfo_enc_def)

lemma SDMRegInfo_Marshal_eq:
  assumes "SDMRegInfo_wf m" "\<not> SDMRegInfo_emptyflag m" "11 + length (SDMRegInfo_enc (SDMRegInfo_view m)) \<le> length buf"
  shows "SDMRegInfo_Marshal now m buf = Some (marshalled now m (SDMRegInfo_enc (SDMRegInfo_view m)) buf)"
  using SDMRegInfo_bounds [OF assms(1)] assms(2-)
  by (simp add: SDMRegInfo_Marshal_def SDMRegInfo_view_def SDMRegInfo_enc_def put_laws cong: bind_head_cong)

lemma SDMRegInfo_Unmarshal_eq:
  assumes "SDMRegInfo_wf m0" "MsgName hdr = SDM_RegInfo" "sint (msg_length hdr) = int (length (SDMRegInfo_enc (a, b, c, d, e, f)))"
    and "0 \<notin> set e" "length e < 12130" "0 \<notin> set f" "length f < 12130"
  shows "SDMRegInfo_Unmarshal m0 (header_bytes (hdr :: SDMmessage) @ SDMRegInfo_enc (a, b, c, d, e, f) @ rest) =
    Some ((load_header hdr m0)\<lparr>SDMRegInfo_source := a, SDMRegInfo_msg_id := b, SDMRegInfo_id := c, SDMRegInfo_type := d, SDMRegInfo_msg_def := e @ 0 # drop (Suc (length e)) (SDMRegInfo_msg_def m0), SDMRegInfo_xTEDS_section := f @ 0 # drop (Suc (length f)) (SDMRegInfo_xTEDS_section m0)\<rparr>,
      int (11 + length (SDMRegInfo_enc (a, b, c, d, e, f))))"
  using SDMRegInfo_bounds [OF assms(1)] assms body_nonempty [OF assms(3)]
  by (simp add: SDMRegInfo_Unmarshal_def SDMRegInfo_enc_def SDMRegInfo_wf_def string_laws load_header_def cong: bind_head_cong)

interpretation reginfo: sdm_class SDMRegInfo_Marshal SDMRegInfo_Unmarshal SDMRegInfo_view SDMRegInfo_enc SDMRegInfo_wf
  "\<lambda>m. \<not> SDMRegInfo_emptyflag m" SDM_RegInfo
proof (unfold_locales, goal_cases)
  case (4 m)
  then show ?case by (simp add: SDMRegInfo_fits)
next
  case (5 m buf now)
  then have "SDMRegInfo_Marshal now m buf = Some (marshalled now m (SDMRegInfo_enc (SDMRegInfo_view m)) buf)"
    by (simp add: SDMRegInfo_Marshal_eq)
  then show ?case
    by (rule marshalled_ok) (use 5(1) in \<open>simp_all add: SDMRegInfo_wf_def SDMRegInfo_view_def stamp_def set_length_def\<close>)
next
  case (6 m m0 h rest)
  have "sint (msg_length h) = int (length (SDMRegInfo_enc (SDMRegInfo_view m)))"
    using 6(5) SDMRegInfo_fits [OF 6(1)] by (simp add: sint_of_nat_16)
  note eq = SDMRegInfo_Unmarshal_eq [OF 6(3,4) this [unfolded SDMRegInfo_view_def] cstr_no_null SDMRegInfo_bounds(3) [OF 6(1)] cstr_no_null SDMRegInfo_bounds(6) [OF 6(1)], of rest]
  show ?case using 6(1,3) SDMRegInfo_bounds [OF 6(1)] SDMRegInfo_bounds [OF 6(3)]
    by (simp only: SDMRegInfo_view_def eq) (simp add: SDMRegInfo_wf_def string_views load_header_def)
qed (simp_all add: SDMRegInfo_wf_def SDMRegInfo_view_def SDMRegInfo_Unmarshal_def UnmarshalHeader_wrong_name)

section \<open>SDMVarInfo\<close>

record SDMVarInfo = SDMmessage +
  SDMVarInfo_source :: SDMComponent_ID
  SDMVarInfo_id :: "16 word"
  SDMVarInfo_interface :: buffer
  SDMVarInfo_var_xTEDS :: buffer
  SDMVarInfo_emptyflag :: bool

definition SDMVarInfo_new :: "buffer \<Rightarrow> buffer \<Rightarrow> SDMVarInfo" where
  "SDMVarInfo_new interface var_xTEDS = SDMmessage.extend (new_message SDM_VarInfo 14)
     \<lparr>SDMVarInfo_source = SDMComponent_ID_new, SDMVarInfo_id = 0, SDMVarInfo_interface = interface[0 := 0], SDMVarInfo_var_xTEDS = var_xTEDS[0 := 0], SDMVarInfo_emptyflag = False\<rparr>"

definition SDMVarInfo_MarshalEmpty :: "SDMVarInfo marshal" where
  "SDMVarInfo_MarshalEmpty now m buf = do {
     let m = m\<lparr>msg_length := 0\<rparr>;
     (m, buf, cur) \<leftarrow> MarshalHeader now m buf;
     Some (m, buf, int cur) }"

definition SDMVarInfo_Marshal :: "SDMVarInfo marshal" where
  "SDMVarInfo_Marshal now m buf =
     (if SDMVarInfo_emptyflag m then SDMVarInfo_MarshalEmpty now m buf
      else do {
        let cur = HEADER_SIZE;
        (buf, n) \<leftarrow> id_Marshal (SDMVarInfo_source m) buf cur;
        let cur = cur + n;
        buf \<leftarrow> PUT_USHORT buf cur (SDMVarInfo_id m);
        let cur = cur + 2;
        buf \<leftarrow> strcpy buf cur (SDMVarInfo_interface m) 0;
        n \<leftarrow> strlen (SDMVarInfo_interface m) 0;
        let cur = cur + n + 1;
        buf \<leftarrow> strcpy buf cur (SDMVarInfo_var_xTEDS m) 0;
        n \<leftarrow> strlen (SDMVarInfo_var_xTEDS m) 0;
        let cur = cur + n + 1;
        let m = set_length cur m;
        (m, buf, _) \<leftarrow> MarshalHeader now m buf;
        Some (m, buf, int cur) })"

definition SDMVarInfo_Unmarshal :: "SDMVarInfo unmarshal" where
  "SDMVarInfo_Unmarshal m buf = do {
     (m, cur) \<leftarrow> UnmarshalHeader m buf;
     if cur = SDM_INVALID_MESSAGE then Some (m, SDM_INVALID_MESSAGE)
     else if msg_length m = 0 then Some (m, SDM_NO_FURTHER_DATA_PROVIDER)
     else if sint (total_length m) > sint (msg_length m) then Some (m, SDM_INVALID_MESSAGE)
     else do {
       let cur = nat cur;
       (c, n) \<leftarrow> id_Unmarshal (SDMVarInfo_source m) buf cur;
       let m = m\<lparr>SDMVarInfo_source := c\<rparr>;
       let cur = cur + n;
       v \<leftarrow> GET_USHORT buf cur;
       let m = m\<lparr>SDMVarInfo_id := v\<rparr>;
       let cur = cur + 2;
       s \<leftarrow> strcpy (SDMVarInfo_interface m) 0 buf cur;
       let m = m\<lparr>SDMVarInfo_interface := s\<rparr>;
       n \<leftarrow> strlen (SDMVarInfo_interface m) 0;
       let cur = cur + n + 1;
       s \<leftarrow> strcpy (SDMVarInfo_var_xTEDS m) 0 buf cur;
       let m = m\<lparr>SDMVarInfo_var_xTEDS := s\<rparr>;
       n \<leftarrow> strlen (SDMVarInfo_var_xTEDS m) 0;
       let cur = cur + n + 1;
       Some (m, int cur) } }"

definition SDMVarInfo_Send_to :: "SDMVarInfo sender_to" where
  "SDMVarInfo_Send_to env m = SendTo_checked SDMVarInfo_Marshal (env_net env) (env_stk env) (env_ack env) (env_now env) (m\<lparr>SDMVarInfo_emptyflag := False\<rparr>)"

definition SDMVarInfo_SendEmpty :: "SDMVarInfo sender_to" where
  "SDMVarInfo_SendEmpty env m = SendTo_checked SDMVarInfo_Marshal (env_net env) (env_stk env) (env_ack env) (env_now env) (m\<lparr>SDMVarInfo_emptyflag := True\<rparr>)"

definition SDMVarInfo_Recv :: "net \<Rightarrow> SDMVarInfo \<Rightarrow> 32 word \<Rightarrow> (SDMVarInfo \<times> int) option" where
  "SDMVarInfo_Recv net m port = do {
     (m, result) \<leftarrow> RecvFrom SDMVarInfo_Unmarshal net m port;
     if result \<le> 0 then Some (m, SDM_MESSAGE_RECV_ERROR)
     else if result = 1 then Some (m, SDM_NO_FURTHER_DATA_PROVIDER)
     else Some (m, result) }"

definition SDMVarInfo_view :: "SDMVarInfo \<Rightarrow> SDMComponent_ID \<times> 16 word \<times> byte list \<times> byte list" where
  "SDMVarInfo_view m = (SDMVarInfo_source m, SDMVarInfo_id m, cstr (SDMVarInfo_interface m), cstr (SDMVarInfo_var_xTEDS m))"

definition SDMVarInfo_enc :: "SDMComponent_ID \<times> 16 word \<times> byte list \<times> byte list \<Rightarrow> byte list" where
  "SDMVarInfo_enc = (\<lambda>(a, b, c, d). id_bytes a @ word_bytes 2 b @ c @ [0] @ d @ [0])"

definition SDMVarInfo_wf :: "SDMVarInfo \<Rightarrow> bool" where
  "SDMVarInfo_wf m \<longleftrightarrow> MsgName m = SDM_VarInfo \<and> total_length m = 14 \<and> is_cstr 33 (SDMVarInfo_interface m) \<and> is_cstr 24210 (SDMVarInfo_var_xTEDS m)"

lemmas SDMVarInfo_class = SDMVarInfo_Marshal_def SDMVarInfo_Unmarshal_def SDMVarInfo_view_def SDMVarInfo_enc_def SDMVarInfo_wf_def

lemma SDMVarInfo_bounds:
  assumes "SDMVarInfo_wf m"
  shows "is_cstr 33 (SDMVarInfo_interface m)" "length (SDMVarInfo_interface m) = 33" "length (cstr (SDMVarInfo_interface m)) < 33"
    and "is_cstr 24210 (SDMVarInfo_var_xTEDS m)" "length (SDMVarInfo_var_xTEDS m) = 24210" "length (cstr (SDMVarInfo_var_xTEDS m)) < 24210"
  using assms by (simp_all add: SDMVarInfo_wf_def is_cstr_len is_cstr_length)

lemma SDMVarInfo_fits: "SDMVarInfo_wf m \<Longrightarrow> 11 + length (SDMVarInfo_enc (SDMVarInfo_view m)) \<le> BUFSIZE"
  using SDMVarInfo_bounds [of m] by (simp add: SDMVarInfo_view_def SDMVarInfo_enc_def)

lemma SDMVarInfo_Marshal_eq:
  assumes "SDMVarInfo_wf m" "\<not> SDMVarInfo_emptyflag m" "11 + length (SDMVarInfo_enc (SDMVarInfo_view m)) \<le> length buf"
  shows "SDMVarInfo_Marshal now m buf = Some (marshalled now m (SDMVarInfo_enc (SDMVarInfo_view m)) buf)"
  using SDMVarInfo_bounds [OF assms(1)] assms(2-)
  by (simp add: SDMVarInfo_Marshal_def SDMVarInfo_view_def SDMVarInfo_enc_def put_laws cong: bind_head_cong)

lemma SDMVarInfo_Unmarshal_eq:
  assumes "SDMVarInfo_wf m0" "MsgName hdr = SDM_VarInfo" "sint (msg_length hdr) = int (length (SDMVarInfo_enc (a, b, c, d)))"
    and "0 \<notin> set c" "length c < 33" "0 \<notin> set d" "length d < 24210"
  shows "SDMVarInfo_Unmarshal m0 (header_bytes (hdr :: SDMmessage) @ SDMVarInfo_enc (a, b, c, d) @ rest) =
    Some ((load_header hdr m0)\<lparr>SDMVarInfo_source := a, SDMVarInfo_id := b, SDMVarInfo_interface := c @ 0 # drop (Suc (length c)) (SDMVarInfo_interface m0), SDMVarInfo_var_xTEDS := d @ 0 # drop (Suc (length d)) (SDMVarInfo_var_xTEDS m0)\<rparr>,
      int (11 + length (SDMVarInfo_enc (a, b, c, d))))"
  using SDMVarInfo_bounds [OF assms(1)] assms body_nonempty [OF assms(3)]
  by (simp add: SDMVarInfo_Unmarshal_def SDMVarInfo_enc_def SDMVarInfo_wf_def string_laws load_header_def cong: bind_head_cong)

interpretation varinfo: sdm_class SDMVarInfo_Marshal SDMVarInfo_Unmarshal SDMVarInfo_view SDMVarInfo_enc SDMVarInfo_wf
  "\<lambda>m. \<not> SDMVarInfo_emptyflag m" SDM_VarInfo
proof (unfold_locales, goal_cases)
  case (4 m)
  then show ?case by (simp add: SDMVarInfo_fits)
next
  case (5 m buf now)
  then have "SDMVarInfo_Marshal now m buf = Some (marshalled now m (SDMVarInfo_enc (SDMVarInfo_view m)) buf)"
    by (simp add: SDMVarInfo_Marshal_eq)
  then show ?case
    by (rule marshalled_ok) (use 5(1) in \<open>simp_all add: SDMVarInfo_wf_def SDMVarInfo_view_def stamp_def set_length_def\<close>)
next
  case (6 m m0 h rest)
  have "sint (msg_length h) = int (length (SDMVarInfo_enc (SDMVarInfo_view m)))"
    using 6(5) SDMVarInfo_fits [OF 6(1)] by (simp add: sint_of_nat_16)
  note eq = SDMVarInfo_Unmarshal_eq [OF 6(3,4) this [unfolded SDMVarInfo_view_def] cstr_no_null SDMVarInfo_bounds(3) [OF 6(1)] cstr_no_null SDMVarInfo_bounds(6) [OF 6(1)], of rest]
  show ?case using 6(1,3) SDMVarInfo_bounds [OF 6(1)] SDMVarInfo_bounds [OF 6(3)]
    by (simp only: SDMVarInfo_view_def eq) (simp add: SDMVarInfo_wf_def string_views load_header_def)
qed (simp_all add: SDMVarInfo_wf_def SDMVarInfo_view_def SDMVarInfo_Unmarshal_def UnmarshalHeader_wrong_name)

section \<open>SDMxTEDSInfo\<close>

record SDMxTEDSInfo = SDMmessage +
  SDMxTEDSInfo_source :: SDMComponent_ID
  SDMxTEDSInfo_xTEDS :: buffer
  SDMxTEDSInfo_emptyflag :: bool

definition SDMxTEDSInfo_new :: "buffer \<Rightarrow> SDMxTEDSInfo" where
  "SDMxTEDSInfo_new xTEDS = SDMmessage.extend (new_message SDM_xTEDSInfo 11)
     \<lparr>SDMxTEDSInfo_source = SDMComponent_ID_new, SDMxTEDSInfo_xTEDS = xTEDS[0 := 0], SDMxTEDSInfo_emptyflag = False\<rparr>"

definition SDMxTEDSInfo_MarshalEmpty :: "SDMxTEDSInfo marshal" where
  "SDMxTEDSInfo_MarshalEmpty now m buf = do {
     let m = m\<lparr>msg_length := 0\<rparr>;
     (m, buf, cur) \<leftarrow> MarshalHeader now m buf;
     Some (m, buf, int cur) }"

definition SDMxTEDSInfo_Marshal :: "SDMxTEDSInfo marshal" where
  "SDMxTEDSInfo_Marshal now m buf =
     (if SDMxTEDSInfo_emptyflag m then SDMxTEDSInfo_MarshalEmpty now m buf
      else do {
        let cur = HEADER_SIZE;
        (buf, n) \<leftarrow> id_Marshal (SDMxTEDSInfo_source m) buf cur;
        let cur = cur + n;
        n \<leftarrow> strlen (SDMxTEDSInfo_xTEDS m) 0;
        let n = n + 1;
        buf \<leftarrow> memcpy buf cur (SDMxTEDSInfo_xTEDS m) 0 n;
        let cur = cur + n;
        let m = set_length cur m;
        (m, buf, _) \<leftarrow> MarshalHeader now m buf;
        Some (m, buf, int cur) })"

definition SDMxTEDSInfo_Unmarshal :: "SDMxTEDSInfo unmarshal" where
  "SDMxTEDSInfo_Unmarshal m buf = do {
     (m, cur) \<leftarrow> UnmarshalHeader m buf;
     if cur = SDM_INVALID_MESSAGE then Some (m, SDM_INVALID_MESSAGE)
     else if msg_length m = 0 then Some (m, SDM_NO_FURTHER_XTEDS)
     else if sint (total_length m) > sint (msg_length m) then Some (m, SDM_INVALID_MESSAGE)
     else do {
       let cur = nat cur;
       (c, n) \<leftarrow> id_Unmarshal (SDMxTEDSInfo_source m) buf cur;
       let m = m\<lparr>SDMxTEDSInfo_source := c\<rparr>;
       let cur = cur + n;
       (s, n) \<leftarrow> copy_bounded (SDMxTEDSInfo_xTEDS m) buf cur;
       let m = m\<lparr>SDMxTEDSInfo_xTEDS := s\<rparr>;
       Some (m, int HEADER_SIZE + sint (msg_length m)) } }"

definition SDMxTEDSInfo_Send :: "SDMxTEDSInfo sender" where
  "SDMxTEDSInfo_Send = SendDM SDMxTEDSInfo_Marshal"

definition SDMxTEDSInfo_Send_to :: "SDMxTEDSInfo sender_to" where
  "SDMxTEDSInfo_Send_to env m = SendTo_checked SDMxTEDSInfo_Marshal (env_net env) (env_stk env) (env_ack env) (env_now env) (m\<lparr>SDMxTEDSInfo_emptyflag := False\<rparr>)"

definition SDMxTEDSInfo_SendEmpty :: "SDMxTEDSInfo sender_to" where
  "SDMxTEDSInfo_SendEmpty env m = SendTo_checked SDMxTEDSInfo_Marshal (env_net env) (env_stk env) (env_ack env) (env_now env) (m\<lparr>SDMxTEDSInfo_emptyflag := True\<rparr>)"

definition SDMxTEDSInfo_Recv :: "net \<Rightarrow> SDMxTEDSInfo \<Rightarrow> 32 word \<Rightarrow> (SDMxTEDSInfo \<times> int) option" where
  "SDMxTEDSInfo_Recv = Recv_checked SDMxTEDSInfo_Unmarshal"

definition SDMxTEDSInfo_view :: "SDMxTEDSInfo \<Rightarrow> SDMComponent_ID \<times> byte list" where
  "SDMxTEDSInfo_view m = (SDMxTEDSInfo_source m, cstr (SDMxTEDSInfo_xTEDS m))"

definition SDMxTEDSInfo_enc :: "SDMComponent_ID \<times> byte list \<Rightarrow> byte list" where
  "SDMxTEDSInfo_enc = (\<lambda>(a, b). id_bytes a @ b @ [0])"

definition SDMxTEDSInfo_wf :: "SDMxTEDSInfo \<Rightarrow> bool" where
  "SDMxTEDSInfo_wf m \<longleftrightarrow> MsgName m = SDM_xTEDSInfo \<and> total_length m = 11 \<and> is_cstr 24267 (SDMxTEDSInfo_xTEDS m)"

lemmas SDMxTEDSInfo_class = SDMxTEDSInfo_Marshal_def SDMxTEDSInfo_Unmarshal_def SDMxTEDSInfo_view_def SDMxTEDSInfo_enc_def SDMxTEDSInfo_wf_def

lemma SDMxTEDSInfo_bounds:
  assumes "SDMxTEDSInfo_wf m"
  shows "is_cstr 24267 (SDMxTEDSInfo_xTEDS m)" "length (SDMxTEDSInfo_xTEDS m) = 24267" "length (cstr (SDMxTEDSInfo_xTEDS m)) < 24267"
  using assms by (simp_all add: SDMxTEDSInfo_wf_def is_cstr_len is_cstr_length)

lemma SDMxTEDSInfo_fits: "SDMxTEDSInfo_wf m \<Longrightarrow> 11 + length (SDMxTEDSInfo_enc (SDMxTEDSInfo_view m)) \<le> BUFSIZE"
  using SDMxTEDSInfo_bounds [of m] by (simp add: SDMxTEDSInfo_view_def SDMxTEDSInfo_enc_def)

lemma SDMxTEDSInfo_Marshal_eq:
  assumes "SDMxTEDSInfo_wf m" "\<not> SDMxTEDSInfo_emptyflag m" "11 + length (SDMxTEDSInfo_enc (SDMxTEDSInfo_view m)) \<le> length buf"
  shows "SDMxTEDSInfo_Marshal now m buf = Some (marshalled now m (SDMxTEDSInfo_enc (SDMxTEDSInfo_view m)) buf)"
  using SDMxTEDSInfo_bounds [OF assms(1)] assms(2-)
  by (simp add: SDMxTEDSInfo_Marshal_def SDMxTEDSInfo_view_def SDMxTEDSInfo_enc_def put_laws cong: bind_head_cong)

lemma SDMxTEDSInfo_Unmarshal_eq:
  assumes "SDMxTEDSInfo_wf m0" "MsgName hdr = SDM_xTEDSInfo" "sint (msg_length hdr) = int (length (SDMxTEDSInfo_enc (a, b)))"
    and "0 \<notin> set b" "length b < 24267"
  shows "SDMxTEDSInfo_Unmarshal m0 (header_bytes (hdr :: SDMmessage) @ SDMxTEDSInfo_enc (a, b) @ rest) =
    Some ((load_header hdr m0)\<lparr>SDMxTEDSInfo_source := a, SDMxTEDSInfo_xTEDS := b @ replicate (24267 - length b) 0\<rparr>,
      int (11 + length (SDMxTEDSInfo_enc (a, b))))"
  using SDMxTEDSInfo_bounds [OF assms(1)] assms body_nonempty [OF assms(3)]
  by (simp add: SDMxTEDSInfo_Unmarshal_def SDMxTEDSInfo_enc_def SDMxTEDSInfo_wf_def string_laws load_header_def cong: bind_head_cong)

interpretation xtedsinfo: sdm_class SDMxTEDSInfo_Marshal SDMxTEDSInfo_Unmarshal SDMxTEDSInfo_view SDMxTEDSInfo_enc SDMxTEDSInfo_wf
  "\<lambda>m. \<not> SDMxTEDSInfo_emptyflag m" SDM_xTEDSInfo
proof (unfold_locales, goal_cases)
  case (4 m)
  then show ?case by (simp add: SDMxTEDSInfo_fits)
next
  case (5 m buf now)
  then have "SDMxTEDSInfo_Marshal now m buf = Some (marshalled now m (SDMxTEDSInfo_enc (SDMxTEDSInfo_view m)) buf)"
    by (simp add: SDMxTEDSInfo_Marshal_eq)
  then show ?case
    by (rule marshalled_ok) (use 5(1) in \<open>simp_all add: SDMxTEDSInfo_wf_def SDMxTEDSInfo_view_def stamp_def set_length_def\<close>)
next
  case (6 m m0 h rest)
  have "sint (msg_length h) = int (length (SDMxTEDSInfo_enc (SDMxTEDSInfo_view m)))"
    using 6(5) SDMxTEDSInfo_fits [OF 6(1)] by (simp add: sint_of_nat_16)
  note eq = SDMxTEDSInfo_Unmarshal_eq [OF 6(3,4) this [unfolded SDMxTEDSInfo_view_def] cstr_no_null SDMxTEDSInfo_bounds(3) [OF 6(1)], of rest]
  show ?case using 6(1,3) SDMxTEDSInfo_bounds [OF 6(1)] SDMxTEDSInfo_bounds [OF 6(3)]
    by (simp only: SDMxTEDSInfo_view_def eq) (simp add: SDMxTEDSInfo_wf_def string_views load_header_def)
qed (simp_all add: SDMxTEDSInfo_wf_def SDMxTEDSInfo_view_def SDMxTEDSInfo_Unmarshal_def UnmarshalHeader_wrong_name)

section \<open>SDMReqxTEDS\<close>

record SDMReqxTEDS = SDMmessage +
  SDMReqxTEDS_select :: byte
  SDMReqxTEDS_destination :: SDMComponent_ID
  SDMReqxTEDS_source :: SDMComponent_ID
  SDMReqxTEDS_device_name :: buffer

definition SDMReqxTEDS_new :: "buffer \<Rightarrow> SDMReqxTEDS" where
  "SDMReqxTEDS_new device_name = SDMmessage.extend (new_message SDM_ReqxTEDS 12)
     \<lparr>SDMReqxTEDS_select = - 1, SDMReqxTEDS_destination = SDMComponent_ID_new,
      SDMReqxTEDS_source = SDMComponent_ID_new, SDMReqxTEDS_device_name = device_name[0 := 0]\<rparr>"

definition SDMReqxTEDS_Marshal :: "SDMReqxTEDS marshal" where
  "SDMReqxTEDS_Marshal now m buf = do {
     let cur = HEADER_SIZE;
     (buf, n) \<leftarrow> id_Marshal (SDMReqxTEDS_destination m) buf cur;
     let cur = cur + n;
     buf \<leftarrow> PUT_CHAR buf cur (SDMReqxTEDS_select m);
     let cur = cur + 1;
     if SDMReqxTEDS_select m = 0 \<or> SDMReqxTEDS_select m = 2 then do {
       (buf, n) \<leftarrow> id_Marshal (SDMReqxTEDS_source m) buf cur;
       let cur = cur + n;
       let m = set_length cur m;
       (m, buf, _) \<leftarrow> MarshalHeader now m buf;
       Some (m, buf, sint (msg_length m) + int HEADER_SIZE) }
     else if SDMReqxTEDS_select m = 1 \<or> SDMReqxTEDS_select m = 3 then do {
       n \<leftarrow> strlen (SDMReqxTEDS_device_name m) 0;
       let m = m\<lparr>msg_length := of_nat n\<rparr>;
       buf \<leftarrow> memcpy_int buf cur (SDMReqxTEDS_device_name m) 0 (sint (msg_length m));
       let cur = nat (int cur + sint (msg_length m));
       buf \<leftarrow> put_byte buf cur 0;
       let cur = cur + 1;
       let m = set_length cur m;
       (m, buf, _) \<leftarrow> MarshalHeader now m buf;
       Some (m, buf, sint (msg_length m) + int HEADER_SIZE) }
     else Some (m, buf, SDM_INVALID_SELECT) }"

definition SDMReqxTEDS_Unmarshal :: "SDMReqxTEDS unmarshal" where
  "SDMReqxTEDS_Unmarshal m buf = do {
     (m, cur) \<leftarrow> UnmarshalHeader m buf;
     if cur = SDM_INVALID_MESSAGE then Some (m, SDM_INVALID_MESSAGE)
     else if sint (total_length m) > sint (msg_length m) then Some (m, SDM_INVALID_MESSAGE)
     else do {
       let cur = nat cur;
       (c, n) \<leftarrow> id_Unmarshal (SDMReqxTEDS_destination m) buf cur;
       let m = m\<lparr>SDMReqxTEDS_destination := c\<rparr>;
       let cur = cur + n;
       v \<leftarrow> GET_CHAR buf cur;
       let m = m\<lparr>SDMReqxTEDS_select := v\<rparr>;
       let cur = cur + 1;
       if v = 0 \<or> v = 2 then do {
         (c, n) \<leftarrow> id_Unmarshal (SDMReqxTEDS_source m) buf cur;
         let m = m\<lparr>SDMReqxTEDS_source := c\<rparr>;
         let cur = cur + n;
         Some (m, int cur) }
       else if v = 1 \<or> v = 3 then do {
         device_name_msg_length \<leftarrow> strlen buf cur;
         let d = replicate (length (SDMReqxTEDS_device_name m)) 0;
         d \<leftarrow> memcpy d 0 buf cur device_name_msg_length;
         let m = m\<lparr>SDMReqxTEDS_device_name := d\<rparr>;
         let cur = cur + device_name_msg_length + 1;
         Some (m, int cur) }
       else Some (m, SDM_INVALID_SELECT) } }"

definition SDMReqxTEDS_Send :: "SDMReqxTEDS sender" where
  "SDMReqxTEDS_Send = SendDM SDMReqxTEDS_Marshal"

definition SDMReqxTEDS_Recv :: "net \<Rightarrow> SDMReqxTEDS \<Rightarrow> 32 word \<Rightarrow> (SDMReqxTEDS \<times> int) option" where
  "SDMReqxTEDS_Recv = Recv_checked SDMReqxTEDS_Unmarshal"

text \<open>The value carried: the selector decides whether it names the provider by id or by device name.\<close>

definition SDMReqxTEDS_view :: "SDMReqxTEDS \<Rightarrow> SDMComponent_ID \<times> byte \<times> (SDMComponent_ID + byte list)" where
  "SDMReqxTEDS_view m = (SDMReqxTEDS_destination m, SDMReqxTEDS_select m,
     if SDMReqxTEDS_select m \<in> {0, 2} then Inl (SDMReqxTEDS_source m) else Inr (cstr (SDMReqxTEDS_device_name m)))"

definition SDMReqxTEDS_enc :: "SDMComponent_ID \<times> byte \<times> (SDMComponent_ID + byte list) \<Rightarrow> byte list" where
  "SDMReqxTEDS_enc = (\<lambda>(a, b, c). id_bytes a @ [b] @ (case c of Inl i \<Rightarrow> id_bytes i | Inr s \<Rightarrow> s @ [0]))"

definition SDMReqxTEDS_wf :: "SDMReqxTEDS \<Rightarrow> bool" where
  "SDMReqxTEDS_wf m \<longleftrightarrow> MsgName m = SDM_ReqxTEDS \<and> total_length m = 12 \<and> is_cstr 33 (SDMReqxTEDS_device_name m)"

definition SDMReqxTEDS_ready :: "SDMReqxTEDS \<Rightarrow> bool" where
  "SDMReqxTEDS_ready m \<longleftrightarrow> SDMReqxTEDS_select m \<in> {0, 1, 2, 3}"

lemma SDMReqxTEDS_bounds:
  assumes "SDMReqxTEDS_wf m"
  shows "is_cstr 33 (SDMReqxTEDS_device_name m)" "length (SDMReqxTEDS_device_name m) = 33"
    "length (cstr (SDMReqxTEDS_device_name m)) < 33"
  using assms by (simp_all add: SDMReqxTEDS_wf_def is_cstr_len is_cstr_length)

lemma SDMReqxTEDS_fits: "SDMReqxTEDS_wf m \<Longrightarrow> 11 + length (SDMReqxTEDS_enc (SDMReqxTEDS_view m)) \<le> BUFSIZE"
  using SDMReqxTEDS_bounds [of m] by (simp add: SDMReqxTEDS_view_def SDMReqxTEDS_enc_def)

lemma SDMReqxTEDS_Marshal_eq:
  assumes "SDMReqxTEDS_wf m" "SDMReqxTEDS_ready m" "11 + length (SDMReqxTEDS_enc (SDMReqxTEDS_view m)) \<le> length buf"
  shows "SDMReqxTEDS_Marshal now m buf = Some (marshalled now m (SDMReqxTEDS_enc (SDMReqxTEDS_view m)) buf)"
proof (cases "SDMReqxTEDS_select m \<in> {0, 2}")
  case True
  then show ?thesis using assms(3)
    by (auto simp: SDMReqxTEDS_Marshal_def SDMReqxTEDS_view_def SDMReqxTEDS_enc_def put_laws cong: bind_head_cong)
next
  case False
  then have "SDMReqxTEDS_select m = 1 \<or> SDMReqxTEDS_select m = 3" using assms(2) by (auto simp: SDMReqxTEDS_ready_def)
  then show ?thesis using SDMReqxTEDS_bounds [OF assms(1)] assms(3)
    by (auto simp: SDMReqxTEDS_Marshal_def SDMReqxTEDS_view_def SDMReqxTEDS_enc_def put_laws cong: bind_head_cong)
qed

lemma SDMReqxTEDS_Unmarshal_eq:
  assumes "SDMReqxTEDS_wf m0" "MsgName hdr = SDM_ReqxTEDS"
    and "sint (msg_length hdr) = int (length (SDMReqxTEDS_enc (a, b, c)))"
  shows "b \<in> {0, 2} \<Longrightarrow> c = Inl i \<Longrightarrow> SDMReqxTEDS_Unmarshal m0 (header_bytes (hdr :: SDMmessage) @ SDMReqxTEDS_enc (a, b, c) @ rest) =
      Some ((load_header hdr m0)\<lparr>SDMReqxTEDS_select := b, SDMReqxTEDS_destination := a, SDMReqxTEDS_source := i\<rparr>,
        int (11 + length (SDMReqxTEDS_enc (a, b, c))))"
    and "b \<in> {1, 3} \<Longrightarrow> c = Inr s \<Longrightarrow> 0 \<notin> set s \<Longrightarrow> length s < 33 \<Longrightarrow>
      SDMReqxTEDS_Unmarshal m0 (header_bytes (hdr :: SDMmessage) @ SDMReqxTEDS_enc (a, b, c) @ rest) =
      Some ((load_header hdr m0)\<lparr>SDMReqxTEDS_select := b, SDMReqxTEDS_destination := a,
          SDMReqxTEDS_device_name := s @ replicate (33 - length s) 0\<rparr>,
        int (11 + length (SDMReqxTEDS_enc (a, b, c))))"
  using SDMReqxTEDS_bounds [OF assms(1)] assms
  by (auto simp: SDMReqxTEDS_Unmarshal_def SDMReqxTEDS_enc_def SDMReqxTEDS_wf_def string_laws load_header_def cong: bind_head_cong)

interpretation reqxteds: sdm_class SDMReqxTEDS_Marshal SDMReqxTEDS_Unmarshal SDMReqxTEDS_view SDMReqxTEDS_enc SDMReqxTEDS_wf
  SDMReqxTEDS_ready SDM_ReqxTEDS
proof (unfold_locales, goal_cases)
  case (4 m)
  then show ?case by (simp add: SDMReqxTEDS_fits)
next
  case (5 m buf now)
  then have "SDMReqxTEDS_Marshal now m buf = Some (marshalled now m (SDMReqxTEDS_enc (SDMReqxTEDS_view m)) buf)"
    by (simp add: SDMReqxTEDS_Marshal_eq)
  then show ?case
    by (rule marshalled_ok) (use 5(1) in \<open>simp_all add: SDMReqxTEDS_wf_def SDMReqxTEDS_view_def stamp_def set_length_def\<close>)
next
  case (6 m m0 h rest)
  have l: "sint (msg_length h) = int (length (SDMReqxTEDS_enc (SDMReqxTEDS_view m)))"
    using 6(5) SDMReqxTEDS_fits [OF 6(1)] by (simp add: sint_of_nat_16)
  note eq = SDMReqxTEDS_Unmarshal_eq [OF 6(3,4) l [unfolded SDMReqxTEDS_view_def], of _ rest]
  show ?case
  proof (cases "SDMReqxTEDS_select m \<in> {0, 2}")
    case True
    with 6(3) eq(1) [OF True, of "SDMReqxTEDS_source m"] show ?thesis
      by (simp add: SDMReqxTEDS_view_def SDMReqxTEDS_wf_def load_header_def)
  next
    case False
    then have s: "SDMReqxTEDS_select m \<in> {1, 3}" using 6(2) by (auto simp: SDMReqxTEDS_ready_def)
    from False 6(3) eq(2) [OF s, of "cstr (SDMReqxTEDS_device_name m)"] SDMReqxTEDS_bounds [OF 6(1)] show ?thesis
      by (simp add: SDMReqxTEDS_view_def SDMReqxTEDS_wf_def load_header_def string_views)
  qed
qed (simp_all add: SDMReqxTEDS_wf_def SDMReqxTEDS_view_def SDMReqxTEDS_Unmarshal_def UnmarshalHeader_wrong_name)

section \<open>SDMSearchReply\<close>

record SDMSearchReply = SDMmessage +
  SDMSearchReply_source :: SDMComponent_ID
  SDMSearchReply_id :: "16 word"
  SDMSearchReply_captured_matches :: buffer
  SDMSearchReply_emptyflag :: bool

definition SDMSearchReply_new :: "buffer \<Rightarrow> SDMSearchReply" where
  "SDMSearchReply_new captured_matches = SDMmessage.extend (new_message SDM_SearchReply 13)
     \<lparr>SDMSearchReply_source = SDMComponent_ID_new, SDMSearchReply_id = 0,
      SDMSearchReply_captured_matches = captured_matches[0 := 0], SDMSearchReply_emptyflag = False\<rparr>"

text \<open>The member holds terminated strings one after the other, up to an empty one. The two loops:\<close>

function SDMSearchReply_put_matches :: "buffer \<Rightarrow> nat \<Rightarrow> buffer \<Rightarrow> nat \<Rightarrow> (buffer \<times> nat) option" where
  "SDMSearchReply_put_matches captured bufmarker buf cur = do {
     c \<leftarrow> get_byte captured bufmarker;
     if c = 0 then Some (buf, cur)
     else do {
       n \<leftarrow> strlen captured bufmarker;
       buf \<leftarrow> memcpy buf cur captured bufmarker n;
       let cur = cur + n;
       buf \<leftarrow> put_byte buf cur 0;
       let cur = cur + 1;
       SDMSearchReply_put_matches captured (bufmarker + n + 1) buf cur } }"
  by pat_completeness auto
termination
  by (relation "measure (\<lambda>(captured, bufmarker, buf, cur). length captured - bufmarker)")
    (auto simp: get_byte_def split: if_splits)

function SDMSearchReply_get_matches :: "buffer \<Rightarrow> nat \<Rightarrow> buffer \<Rightarrow> nat \<Rightarrow> (buffer \<times> nat \<times> nat) option" where
  "SDMSearchReply_get_matches buf cur captured bufmarker = do {
     c \<leftarrow> get_byte buf cur;
     if c = 0 then Some (captured, bufmarker, cur)
     else do {
       n \<leftarrow> strlen buf cur;
       let n = n + 1;
       captured \<leftarrow> memcpy captured bufmarker buf cur n;
       SDMSearchReply_get_matches buf (cur + n) captured (bufmarker + n) } }"
  by pat_completeness auto
termination
  by (relation "measure (\<lambda>(buf, cur, captured, bufmarker). length buf - cur)")
    (auto simp: get_byte_def split: if_splits)

declare SDMSearchReply_put_matches.simps [simp del] SDMSearchReply_get_matches.simps [simp del]

definition SDMSearchReply_MarshalEmpty :: "SDMSearchReply marshal" where
  "SDMSearchReply_MarshalEmpty now m buf = do {
     let m = m\<lparr>msg_length := 0\<rparr>;
     (m, buf, cur) \<leftarrow> MarshalHeader now m buf;
     Some (m, buf, int cur) }"

definition SDMSearchReply_Marshal :: "SDMSearchReply marshal" where
  "SDMSearchReply_Marshal now m buf =
     (if SDMSearchReply_emptyflag m then SDMSearchReply_MarshalEmpty now m buf
      else do {
        let cur = HEADER_SIZE;
        (buf, n) \<leftarrow> id_Marshal (SDMSearchReply_source m) buf cur;
        let cur = cur + n;
        buf \<leftarrow> PUT_USHORT buf cur (SDMSearchReply_id m);
        let cur = cur + 2;
        (buf, cur) \<leftarrow> SDMSearchReply_put_matches (SDMSearchReply_captured_matches m) 0 buf cur;
        buf \<leftarrow> put_byte buf cur 0;
        let cur = cur + 1;
        let m = set_length cur m;
        (m, buf, _) \<leftarrow> MarshalHeader now m buf;
        Some (m, buf, int cur) })"

definition SDMSearchReply_Unmarshal :: "SDMSearchReply unmarshal" where
  "SDMSearchReply_Unmarshal m buf = do {
     (m, cur) \<leftarrow> UnmarshalHeader m buf;
     if cur = SDM_INVALID_MESSAGE then Some (m, SDM_INVALID_MESSAGE)
     else if msg_length m = 0 then Some (m, SDM_NO_FURTHER_DATA_PROVIDER)
     else if sint (total_length m) > sint (msg_length m) then Some (m, SDM_INVALID_MESSAGE)
     else do {
       let cur = nat cur;
       (c, n) \<leftarrow> id_Unmarshal (SDMSearchReply_source m) buf cur;
       let m = m\<lparr>SDMSearchReply_source := c\<rparr>;
       let cur = cur + n;
       v \<leftarrow> GET_USHORT buf cur;
       let m = m\<lparr>SDMSearchReply_id := v\<rparr>;
       let cur = cur + 2;
       (captured, bufmarker, cur) \<leftarrow> SDMSearchReply_get_matches buf cur (SDMSearchReply_captured_matches m) 0;
       captured \<leftarrow> put_byte captured bufmarker 0;
       let m = m\<lparr>SDMSearchReply_captured_matches := captured\<rparr>;
       let cur = cur + 1;
       Some (m, int cur) } }"

definition SDMSearchReply_Send_to :: "SDMSearchReply sender_to" where
  "SDMSearchReply_Send_to env m =
     SendTo_checked SDMSearchReply_Marshal (env_net env) (env_stk env) (env_ack env) (env_now env) (m\<lparr>SDMSearchReply_emptyflag := False\<rparr>)"

definition SDMSearchReply_SendEmpty :: "SDMSearchReply sender_to" where
  "SDMSearchReply_SendEmpty env m =
     SendTo_checked SDMSearchReply_Marshal (env_net env) (env_stk env) (env_ack env) (env_now env) (m\<lparr>SDMSearchReply_emptyflag := True\<rparr>)"

definition SDMSearchReply_Recv :: "net \<Rightarrow> SDMSearchReply \<Rightarrow> 32 word \<Rightarrow> (SDMSearchReply \<times> int) option" where
  "SDMSearchReply_Recv net m port = do {
     (m, result) \<leftarrow> RecvFrom SDMSearchReply_Unmarshal net m port;
     if result \<le> 0 then Some (m, SDM_MESSAGE_RECV_ERROR)
     else if result = 1 then Some (m, SDM_NO_FURTHER_DATA_PROVIDER)
     else Some (m, result) }"

text \<open>The value carried is the list of the strings; \<open>is_matches\<close>: the list ends inside the array.\<close>

function matches_of :: "buffer \<Rightarrow> byte list list" where
  "matches_of a = (if a = [] \<or> hd a = 0 then [] else cstr a # matches_of (drop (length (cstr a) + 1) a))"
  by pat_completeness auto
termination by (relation "measure length") auto

function is_matches :: "buffer \<Rightarrow> bool" where
  "is_matches a =
     (if a = [] then False else if hd a = 0 then True
      else 0 \<in> set a \<and> is_matches (drop (length (cstr a) + 1) a))"
  by pat_completeness auto
termination by (relation "measure length") auto

declare matches_of.simps [simp del] is_matches.simps [simp del]

definition match_bytes :: "byte list list \<Rightarrow> byte list" where
  "match_bytes ss = concat (map (\<lambda>s. s @ [0]) ss)"

definition match_ok :: "byte list list \<Rightarrow> bool" where
  "match_ok ss \<longleftrightarrow> (\<forall>s\<in>set ss. s \<noteq> [] \<and> 0 \<notin> set s)"

lemma match_simps [simp]:
  "match_bytes [] = []" "match_bytes (s # ss) = s @ 0 # match_bytes ss"
  "match_ok []" "match_ok (s # ss) \<longleftrightarrow> s \<noteq> [] \<and> 0 \<notin> set s \<and> match_ok ss"
  by (auto simp: match_bytes_def match_ok_def)

lemma matches_of_bytes: "match_ok ss \<Longrightarrow> matches_of (match_bytes ss @ 0 # r) = ss"
proof (induction ss)
  case Nil
  then show ?case by (subst matches_of.simps) simp
next
  case (Cons s ss)
  then obtain b t where s: "s = b # t" "b \<noteq> 0" by (cases s) auto
  have "cstr (s @ 0 # match_bytes ss @ 0 # r) = s" using Cons.prems by simp
  with Cons s show ?case by (subst matches_of.simps) simp
qed

lemma is_matches_bytes: "match_ok ss \<Longrightarrow> is_matches (match_bytes ss @ 0 # r)"
proof (induction ss)
  case Nil
  then show ?case by (subst is_matches.simps) simp
next
  case (Cons s ss)
  have "cstr (s @ 0 # match_bytes ss @ 0 # r) = s" using Cons.prems by simp
  with Cons show ?case by (subst is_matches.simps) simp
qed

lemma is_matches_split:
  "is_matches a \<Longrightarrow> match_ok (matches_of a) \<and> (\<exists>r. a = match_bytes (matches_of a) @ 0 # r)"
proof (induction a rule: matches_of.induct)
  case (1 a)
  show ?case
  proof (cases "hd a = 0")
    case True
    with 1(2) have "a \<noteq> []" "matches_of a = []" by (auto simp: is_matches.simps [of a] matches_of.simps [of a])
    with True show ?thesis by (cases a) simp_all
  next
    case False
    let ?d = "drop (length (cstr a) + 1) a"
    from False 1(2) have a: "a \<noteq> []" "0 \<in> set a" "is_matches ?d" by (auto simp: is_matches.simps [of a] split: if_splits)
    then obtain r where r: "a = cstr a @ 0 # r" using is_cstr_split [of "length a" a] by (auto simp: is_cstr_def)
    then have d: "?d = r" by (metis append_eq_conv_conj append_Cons append_Nil append_assoc length_append_singleton Suc_eq_plus1)
    have "cstr a \<noteq> []" using a False by (cases a) (auto simp: cstr_def)
    moreover have "matches_of a = cstr a # matches_of r" using a False d by (simp add: matches_of.simps [of a])
    moreover obtain r' where "match_ok (matches_of r)" "r = match_bytes (matches_of r) @ 0 # r'"
      using 1(1) [of] a False d by auto
    ultimately show ?thesis using r by (metis match_simps(2,4) append_Cons append_assoc cstr_no_null)
  qed
qed

lemma put_matches_eq:
  assumes "match_ok ss" "cur = k + length s" "cur + length (match_bytes ss) \<le> length buf"
    and "drop pos captured = match_bytes ss @ 0 # r"
  shows "SDMSearchReply_put_matches captured pos (overlay k s buf) cur =
    Some (overlay k (s @ match_bytes ss) buf, cur + length (match_bytes ss))"
  using assms
proof (induction ss arbitrary: pos cur s)
  case Nil
  then show ?case by (subst SDMSearchReply_put_matches.simps) (simp add: get_byte_at)
next
  case (Cons t ss)
  then obtain b u where t: "t = b # u" "b \<noteq> 0" by (cases t) auto
  have g: "get_byte captured pos = Some b" by (rule get_byte_at) (use Cons.prems t in simp)
  have l: "strlen captured pos = Some (length t)" by (rule strlen_at) (use Cons.prems in simp_all)
  have "get_bytes captured pos (length t) = Some t" by (rule get_bytes_at) (use Cons.prems t in simp_all)
  then have c: "memcpy (overlay k s buf) cur captured pos (length t) = Some (overlay k (s @ t) buf)"
    by (rule memcpy_overlay) (use Cons.prems in simp_all)
  have "drop (pos + length t + 1) captured = drop (length t + 1) (drop pos captured)" by (simp add: add.commute)
  also have "\<dots> = match_bytes ss @ 0 # r" using Cons.prems by simp
  finally have d: "drop (pos + length t + 1) captured = match_bytes ss @ 0 # r" .
  have "SDMSearchReply_put_matches captured pos (overlay k s buf) cur =
      SDMSearchReply_put_matches captured (pos + length t + 1) (overlay k (s @ t @ [0]) buf) (cur + length t + 1)"
    using Cons.prems g l c t(2) by (subst SDMSearchReply_put_matches.simps) (simp add: put_byte_overlay)
  also have "\<dots> = Some (overlay k ((s @ t @ [0]) @ match_bytes ss) buf, cur + length t + 1 + length (match_bytes ss))"
    by (rule Cons.IH) (use Cons.prems d in simp_all)
  finally show ?case by simp
qed

lemma get_matches_eq:
  assumes "match_ok ss" "pos = length s" "pos + length (match_bytes ss) \<le> length captured"
    and "drop cur buf = match_bytes ss @ 0 # r"
  shows "SDMSearchReply_get_matches buf cur (overlay 0 s captured) pos =
    Some (overlay 0 (s @ match_bytes ss) captured, pos + length (match_bytes ss), cur + length (match_bytes ss))"
  using assms
proof (induction ss arbitrary: pos cur s)
  case Nil
  then show ?case by (subst SDMSearchReply_get_matches.simps) (simp add: get_byte_at)
next
  case (Cons t ss)
  then obtain b u where t: "t = b # u" "b \<noteq> 0" by (cases t) auto
  have g: "get_byte buf cur = Some b" by (rule get_byte_at) (use Cons.prems t in simp)
  have l: "strlen buf cur = Some (length t)" by (rule strlen_at) (use Cons.prems in simp_all)
  have "get_bytes buf cur (length t + 1) = Some (t @ [0])" by (rule get_bytes_at) (use Cons.prems t in simp_all)
  then have c: "memcpy (overlay 0 s captured) pos buf cur (length t + 1) = Some (overlay 0 (s @ t @ [0]) captured)"
    by (rule memcpy_overlay) (use Cons.prems in simp_all)
  have "drop (cur + (length t + 1)) buf = drop (length t + 1) (drop cur buf)" by (simp add: add.commute)
  also have "\<dots> = match_bytes ss @ 0 # r" using Cons.prems by simp
  finally have d: "drop (cur + (length t + 1)) buf = match_bytes ss @ 0 # r" .
  have "SDMSearchReply_get_matches buf cur (overlay 0 s captured) pos =
      SDMSearchReply_get_matches buf (cur + (length t + 1)) (overlay 0 (s @ t @ [0]) captured) (pos + (length t + 1))"
    using Cons.prems g l c t(2) by (subst SDMSearchReply_get_matches.simps) simp
  also have "\<dots> = Some (overlay 0 ((s @ t @ [0]) @ match_bytes ss) captured, pos + (length t + 1) + length (match_bytes ss),
      cur + (length t + 1) + length (match_bytes ss))"
    by (rule Cons.IH) (use Cons.prems d in simp_all)
  finally show ?case by simp
qed

definition SDMSearchReply_view :: "SDMSearchReply \<Rightarrow> SDMComponent_ID \<times> 16 word \<times> byte list list" where
  "SDMSearchReply_view m = (SDMSearchReply_source m, SDMSearchReply_id m, matches_of (SDMSearchReply_captured_matches m))"

definition SDMSearchReply_enc :: "SDMComponent_ID \<times> 16 word \<times> byte list list \<Rightarrow> byte list" where
  "SDMSearchReply_enc = (\<lambda>(a, b, c). id_bytes a @ word_bytes 2 b @ match_bytes c @ [0])"

definition SDMSearchReply_wf :: "SDMSearchReply \<Rightarrow> bool" where
  "SDMSearchReply_wf m \<longleftrightarrow> MsgName m = SDM_SearchReply \<and> total_length m = 13
     \<and> length (SDMSearchReply_captured_matches m) = 24265 \<and> is_matches (SDMSearchReply_captured_matches m)"

lemma SDMSearchReply_bounds:
  assumes "SDMSearchReply_wf m"
  obtains r where "match_ok (matches_of (SDMSearchReply_captured_matches m))"
    "SDMSearchReply_captured_matches m = match_bytes (matches_of (SDMSearchReply_captured_matches m)) @ 0 # r"
    "length (match_bytes (matches_of (SDMSearchReply_captured_matches m))) < 24265"
proof -
  from assms obtain r where r: "match_ok (matches_of (SDMSearchReply_captured_matches m))"
    "SDMSearchReply_captured_matches m = match_bytes (matches_of (SDMSearchReply_captured_matches m)) @ 0 # r"
    using is_matches_split by (auto simp: SDMSearchReply_wf_def)
  then have "length (match_bytes (matches_of (SDMSearchReply_captured_matches m))) < length (SDMSearchReply_captured_matches m)"
    by (metis length_append length_Cons less_add_Suc1 add_Suc_right)
  with r assms that show thesis by (simp add: SDMSearchReply_wf_def)
qed

lemma SDMSearchReply_fits: "SDMSearchReply_wf m \<Longrightarrow> 11 + length (SDMSearchReply_enc (SDMSearchReply_view m)) \<le> BUFSIZE"
  by (erule SDMSearchReply_bounds) (simp add: SDMSearchReply_view_def SDMSearchReply_enc_def)

lemma SDMSearchReply_Marshal_eq:
  assumes "SDMSearchReply_wf m" "\<not> SDMSearchReply_emptyflag m"
    and "11 + length (SDMSearchReply_enc (SDMSearchReply_view m)) \<le> length buf"
  shows "SDMSearchReply_Marshal now m buf = Some (marshalled now m (SDMSearchReply_enc (SDMSearchReply_view m)) buf)"
proof -
  let ?c = "SDMSearchReply_captured_matches m" and ?s = "id_bytes (SDMSearchReply_source m) @ word_bytes 2 (SDMSearchReply_id m)"
  obtain r where r: "match_ok (matches_of ?c)" "?c = match_bytes (matches_of ?c) @ 0 # r"
    using assms(1) by (rule SDMSearchReply_bounds)
  have len: "24 + length (match_bytes (matches_of ?c)) \<le> length buf"
    using assms(3) by (simp add: SDMSearchReply_view_def SDMSearchReply_enc_def)
  have "SDMSearchReply_put_matches ?c 0 (overlay 11 ?s buf) 23 =
      Some (overlay 11 (?s @ match_bytes (matches_of ?c)) buf, 23 + length (match_bytes (matches_of ?c)))"
    by (rule put_matches_eq [where r = r]) (use r(1) len in \<open>simp_all flip: r(2)\<close>)
  then show ?thesis using assms(2) len
    by (simp add: SDMSearchReply_Marshal_def SDMSearchReply_view_def SDMSearchReply_enc_def put_laws cong: bind_head_cong)
qed

lemma SDMSearchReply_Unmarshal_eq:
  assumes "SDMSearchReply_wf m0" "MsgName hdr = SDM_SearchReply" "match_ok c" "length (match_bytes c) < 24265"
    and "sint (msg_length hdr) = int (length (SDMSearchReply_enc (a, b, c)))"
  shows "SDMSearchReply_Unmarshal m0 (header_bytes (hdr :: SDMmessage) @ SDMSearchReply_enc (a, b, c) @ rest) =
    Some ((load_header hdr m0)\<lparr>SDMSearchReply_source := a, SDMSearchReply_id := b,
        SDMSearchReply_captured_matches := overlay 0 (match_bytes c @ [0]) (SDMSearchReply_captured_matches m0)\<rparr>,
      int (11 + length (SDMSearchReply_enc (a, b, c))))"
proof -
  let ?c = "SDMSearchReply_captured_matches m0" and ?b = "header_bytes hdr @ id_bytes a @ word_bytes 2 b @ match_bytes c @ 0 # rest"
  have l: "length ?c = 24265" using assms(1) by (simp add: SDMSearchReply_wf_def)
  have "SDMSearchReply_get_matches ?b 23 (overlay 0 [] ?c) 0 =
      Some (overlay 0 ([] @ match_bytes c) ?c, 0 + length (match_bytes c), 23 + length (match_bytes c))"
    by (rule get_matches_eq [where r = rest]) (use assms l in simp_all)
  then have "SDMSearchReply_get_matches ?b 23 ?c 0 =
      Some (overlay 0 (match_bytes c) ?c, length (match_bytes c), 23 + length (match_bytes c))"
    by (simp add: overlay_Nil)
  then show ?thesis
    using assms l body_nonempty [OF assms(5)]
    by (simp add: SDMSearchReply_Unmarshal_def SDMSearchReply_enc_def SDMSearchReply_wf_def string_laws
        put_byte_overlay load_header_def cong: bind_head_cong)
qed

lemma captured_overlay:
  assumes "match_ok c" "length (match_bytes c) < length a"
  shows "matches_of (overlay 0 (match_bytes c @ [0]) a) = c" "is_matches (overlay 0 (match_bytes c @ [0]) a)"
    "length (overlay 0 (match_bytes c @ [0]) a) = length a"
  using assms by (simp_all add: overlay_def matches_of_bytes is_matches_bytes)

interpretation searchreply: sdm_class SDMSearchReply_Marshal SDMSearchReply_Unmarshal SDMSearchReply_view SDMSearchReply_enc
  SDMSearchReply_wf "\<lambda>m. \<not> SDMSearchReply_emptyflag m" SDM_SearchReply
proof (unfold_locales, goal_cases)
  case (4 m)
  then show ?case by (simp add: SDMSearchReply_fits)
next
  case (5 m buf now)
  then have "SDMSearchReply_Marshal now m buf = Some (marshalled now m (SDMSearchReply_enc (SDMSearchReply_view m)) buf)"
    by (simp add: SDMSearchReply_Marshal_eq)
  then show ?case
    by (rule marshalled_ok) (use 5(1) in \<open>simp_all add: SDMSearchReply_wf_def SDMSearchReply_view_def stamp_def set_length_def\<close>)
next
  case (6 m m0 h rest)
  have l: "sint (msg_length h) = int (length (SDMSearchReply_enc (SDMSearchReply_view m)))"
    using 6(5) SDMSearchReply_fits [OF 6(1)] by (simp add: sint_of_nat_16)
  obtain r where r: "match_ok (matches_of (SDMSearchReply_captured_matches m))"
    "length (match_bytes (matches_of (SDMSearchReply_captured_matches m))) < 24265"
    using 6(1) by (rule SDMSearchReply_bounds)
  note eq = SDMSearchReply_Unmarshal_eq [OF 6(3,4) r l [unfolded SDMSearchReply_view_def], of rest]
  have "length (SDMSearchReply_captured_matches m0) = 24265" using 6(3) by (simp add: SDMSearchReply_wf_def)
  with 6(3) r show ?case
    by (simp only: SDMSearchReply_view_def eq)
      (simp add: SDMSearchReply_wf_def load_header_def captured_overlay)
qed (simp_all add: SDMSearchReply_wf_def SDMSearchReply_view_def SDMSearchReply_Unmarshal_def UnmarshalHeader_wrong_name)

end
