(* ===== verification/Checksum.thy ===== *)
theory Checksum
  imports Marshall
begin

text \<open>
  \<^verbatim>\<open>sdm/common/checksum/\<close>: the Rocksoft model CRC (\<^verbatim>\<open>crcmodel.c\<close>) and the message checksum built on it
  (\<^verbatim>\<open>checksum.c\<close>). \<open>ulong\<close> is 32 bits wide, as on the targets. The lemmas characterise \<open>reflect\<close> by its
  bits, show that the register step is linear and injective, and conclude that the byte loop
  agrees with the table-driven algorithm over \<open>cm_tab\<close>, that a message with its checksum appended
  is accepted by \<open>valid\<close>, and that every change confined to four consecutive bytes is detected.
\<close>

section \<open>crcmodel.c\<close>

record cm_t =
  cm_width :: nat
  cm_poly :: "32 word"
  cm_init :: "32 word"
  cm_refin :: bool
  cm_refot :: bool
  cm_xorot :: "32 word"
  cm_reg :: "32 word"

definition BITMASK :: "nat \<Rightarrow> 32 word" where
  "BITMASK x = push_bit x 1"

fun reflect_loop :: "nat \<Rightarrow> nat \<Rightarrow> nat \<Rightarrow> 32 word \<Rightarrow> 32 word \<Rightarrow> 32 word" where
  "reflect_loop 0 i b v t = v"
| "reflect_loop (Suc n) i b v t =
     reflect_loop n (Suc i) b
       (if t AND 1 \<noteq> 0 then v OR BITMASK ((b - 1) - i) else v AND NOT (BITMASK ((b - 1) - i)))
       (drop_bit 1 t)"

text \<open>The loop of \<open>reflect\<close> runs for \<open>i = 0, ..., b - 1\<close>; the first argument counts the rounds left.\<close>

definition reflect :: "32 word \<Rightarrow> nat \<Rightarrow> 32 word" where
  "reflect v b = reflect_loop b 0 b v v"

definition widmask :: "cm_t \<Rightarrow> 32 word" where
  "widmask p = push_bit 1 (push_bit (cm_width p - 1) 1 - 1) OR 1"

definition cm_ini :: "cm_t \<Rightarrow> cm_t" where
  "cm_ini p = p\<lparr>cm_reg := cm_init p\<rparr>"

fun cm_nxt_loop :: "nat \<Rightarrow> 32 word \<Rightarrow> cm_t \<Rightarrow> cm_t" where
  "cm_nxt_loop 0 topbit p = p"
| "cm_nxt_loop (Suc n) topbit p =
     (let p1 = (if cm_reg p AND topbit \<noteq> 0 then p\<lparr>cm_reg := push_bit 1 (cm_reg p) XOR cm_poly p\<rparr>
                else p\<lparr>cm_reg := push_bit 1 (cm_reg p)\<rparr>)
      in cm_nxt_loop n topbit (p1\<lparr>cm_reg := cm_reg p1 AND widmask p1\<rparr>))"

definition cm_nxt :: "cm_t \<Rightarrow> 32 word \<Rightarrow> cm_t" where
  "cm_nxt p ch =
     (let uch = (if cm_refin p then reflect ch 8 else ch);
          topbit = BITMASK (cm_width p - 1)
      in cm_nxt_loop 8 topbit (p\<lparr>cm_reg := cm_reg p XOR push_bit (cm_width p - 8) uch\<rparr>))"

fun cm_blk :: "cm_t \<Rightarrow> byte list \<Rightarrow> cm_t" where
  "cm_blk p [] = p"
| "cm_blk p (b # bs) = cm_blk (cm_nxt p (ucast b)) bs"

definition cm_crc :: "cm_t \<Rightarrow> 32 word" where
  "cm_crc p = (if cm_refot p then cm_xorot p XOR reflect (cm_reg p) (cm_width p)
               else cm_xorot p XOR cm_reg p)"

fun cm_tab_loop :: "nat \<Rightarrow> 32 word \<Rightarrow> 32 word \<Rightarrow> 32 word \<Rightarrow> 32 word" where
  "cm_tab_loop 0 topbit poly r = r"
| "cm_tab_loop (Suc n) topbit poly r =
     cm_tab_loop n topbit poly (if r AND topbit \<noteq> 0 then push_bit 1 r XOR poly else push_bit 1 r)"

definition cm_tab :: "cm_t \<Rightarrow> 32 word \<Rightarrow> 32 word" where
  "cm_tab p index =
     (let topbit = BITMASK (cm_width p - 1);
          inbyte = (if cm_refin p then reflect index 8 else index);
          r = cm_tab_loop 8 topbit (cm_poly p) (push_bit (cm_width p - 8) inbyte);
          r' = (if cm_refin p then reflect r (cm_width p) else r)
      in r' AND widmask p)"

section \<open>checksum.c\<close>

definition crc32_model :: cm_t where
  "crc32_model = \<lparr>cm_width = 32, cm_poly = 0x04C11DB7, cm_init = 0xFFFFFFFF, cm_refin = True,
     cm_refot = True, cm_xorot = 0xFFFFFFFF, cm_reg = 0\<rparr>"

text \<open>\<open>msg[i]\<close> is a plain \<^verbatim>\<open>char\<close>: it is sign extended when it is passed to \<open>cm_nxt\<close>.\<close>

fun checksum_loop :: "cm_t \<Rightarrow> byte list \<Rightarrow> cm_t" where
  "checksum_loop p [] = p"
| "checksum_loop p (b # bs) = checksum_loop (cm_nxt p (scast b)) bs"

definition checksum :: "buffer \<Rightarrow> nat \<Rightarrow> 32 word option" where
  "checksum msg len = do {
     bs \<leftarrow> get_bytes msg 0 len;
     Some (cm_crc (checksum_loop (cm_ini crc32_model) bs)) }"

text \<open>A message shorter than its checksum field makes \<open>len - 4\<close> negative: the loop of \<open>checksum\<close> does
  nothing and the field is read in front of the buffer, which is out of bounds.\<close>

definition valid :: "buffer \<Rightarrow> nat \<Rightarrow> bool option" where
  "valid msg len =
     (if len < 4 then None
      else do {
        c_sum \<leftarrow> checksum msg (len - 4);
        given \<leftarrow> get_bytes msg (len - 4) 4;
        Some (c_sum = native_word Little given) })"

section \<open>Bits of \<open>reflect\<close>\<close>

lemma bit_BITMASK: "bit (BITMASK x) k \<longleftrightarrow> k = x \<and> k < 32"
  by (auto simp: BITMASK_def bit_simps simp del: push_bit_of_1)

lemma and_1_neq_0: "(t :: 32 word) AND 1 \<noteq> 0 \<longleftrightarrow> bit t 0"
  by (simp add: bit_0 and_one_eq odd_iff_mod_2_eq_one)

lemma bit_reflect_loop:
  assumes "i + n = b" "b \<le> 32"
  shows "bit (reflect_loop n i b v t) k \<longleftrightarrow>
    (if k < n then bit t (b - 1 - i - k) else bit v k)"
  using assms
proof (induction n arbitrary: i v t)
  case 0
  then show ?case by simp
next
  case (Suc n)
  then have IH: "bit (reflect_loop n (Suc i) b v' t') k \<longleftrightarrow>
      (if k < n then bit t' (b - 1 - Suc i - k) else bit v' k)" for v' t'
    by simp
  show ?case
  proof (cases "k < n")
    case True
    with Suc.prems have "Suc (b - 1 - Suc i - k) = b - 1 - i - k" by linarith
    then show ?thesis using True by (simp add: IH bit_drop_bit_eq)
  next
    case False
    have "b - Suc i = n" using Suc.prems by simp
    then show ?thesis using False Suc.prems
      by (auto simp: IH bit_or_iff bit_and_iff bit_not_iff bit_BITMASK and_1_neq_0 dest: bit_imp_le_length)
  qed
qed

lemma bit_reflect:
  "b \<le> 32 \<Longrightarrow> bit (reflect v b) k \<longleftrightarrow> (if k < b then bit v (b - 1 - k) else bit v k)"
  unfolding reflect_def by (simp add: bit_reflect_loop)

lemma reflect_reflect: "b \<le> 32 \<Longrightarrow> reflect (reflect v b) b = v"
  by (rule bit_word_eqI) (auto simp: bit_reflect)

section \<open>The register step\<close>

definition crc_step :: "32 word \<Rightarrow> 32 word \<Rightarrow> 32 word" where
  "crc_step poly r = (if bit r 31 then push_bit 1 r XOR poly else push_bit 1 r)"

lemma and_topbit: "(r :: 32 word) AND BITMASK 31 \<noteq> 0 \<longleftrightarrow> bit r 31"
proof
  assume "r AND BITMASK 31 \<noteq> 0"
  then obtain k where "bit (r AND BITMASK 31) k" by (metis bit_0_eq bit_eqI bot_apply bot_bool_def)
  then show "bit r 31" by (auto simp: bit_and_iff bit_BITMASK)
next
  assume "bit r 31"
  then have "bit (r AND BITMASK 31) 31" by (simp add: bit_and_iff bit_BITMASK)
  then show "r AND BITMASK 31 \<noteq> 0" by auto
qed

lemma widmask_32: "cm_width p = 32 \<Longrightarrow> widmask p = - 1"
  by (simp add: widmask_def)

lemma cm_tab_loop_step: "cm_tab_loop n (BITMASK 31) poly r = (crc_step poly ^^ n) r"
  by (induction n arbitrary: r) (simp_all add: and_topbit crc_step_def funpow_swap1)

lemma cm_nxt_loop_step:
  "cm_width p = 32 \<Longrightarrow>
   cm_nxt_loop n (BITMASK 31) p = p\<lparr>cm_reg := (crc_step (cm_poly p) ^^ n) (cm_reg p)\<rparr>"
  by (induction n arbitrary: p) (simp_all add: and_topbit crc_step_def funpow_swap1 widmask_32 Let_def)

lemma word_xor_eq_0: "(a :: 32 word) XOR b = 0 \<longleftrightarrow> a = b"
  by (metis xor.right_neutral xor.left_commute xor_self_eq)

lemma crc_step_linear: "crc_step poly (a XOR b) = crc_step poly a XOR crc_step poly b"
  by (auto simp: crc_step_def bit_xor_iff bit_push_bit_iff simp del: push_bit_Suc push_bit_of_1 intro!: bit_word_eqI)

lemma crc_steps_linear: "(crc_step poly ^^ n) (a XOR b) = (crc_step poly ^^ n) a XOR (crc_step poly ^^ n) b"
  by (induction n) (simp_all add: crc_step_linear)

lemma crc_step_eq_0:
  assumes "bit poly 0" "crc_step poly r = 0"
  shows "r = 0"
proof -
  have "\<not> bit r 31"
  proof
    assume "bit r 31"
    with assms(2) have "push_bit 1 r = poly" by (simp add: crc_step_def word_xor_eq_0)
    then have "bit (push_bit 1 r) 0" using assms(1) by simp
    then show False by (simp add: bit_0)
  qed
  with assms(2) have z: "push_bit 1 r = 0" by (simp add: crc_step_def)
  show "r = 0"
  proof (rule bit_word_eqI)
    fix k assume k: "k < LENGTH(32)"
    show "bit r k = bit 0 k"
    proof (cases "k = 31")
      case True
      with \<open>\<not> bit r 31\<close> show ?thesis by simp
    next
      case False
      with k have "bit (push_bit 1 r) (Suc k) = bit r k"
        using bit_push_bit_iff [of 1 r "Suc k"] by simp
      with z show ?thesis by simp
    qed
  qed
qed

lemma inj_crc_step:
  assumes "bit poly 0"
  shows "inj (crc_step poly)"
proof (rule injI)
  fix a b assume "crc_step poly a = crc_step poly b"
  then have "crc_step poly (a XOR b) = 0" by (simp add: crc_step_linear)
  with assms have "a XOR b = 0" by (rule crc_step_eq_0)
  then show "a = b" by (simp add: word_xor_eq_0)
qed

lemma inj_crc_steps: "bit poly 0 \<Longrightarrow> inj (crc_step poly ^^ n)"
  by (rule inj_fn) (rule inj_crc_step)

lemma crc_steps_shift:
  assumes "\<And>k. 32 - n \<le> k \<Longrightarrow> \<not> bit z k" "n \<le> 32"
  shows "(crc_step poly ^^ n) z = push_bit n z"
  using assms
proof (induction n)
  case 0
  then show ?case by simp
next
  case (Suc n)
  have "(crc_step poly ^^ n) z = push_bit n z" by (rule Suc.IH) (use Suc.prems in auto)
  moreover have "crc_step poly r = push_bit 1 r" if "\<not> bit r 31" for r
    using that by (simp add: crc_step_def)
  moreover have "\<not> bit (push_bit n z) 31"
    using Suc.prems by (auto simp: bit_push_bit_iff)
  ultimately show ?case by (simp add: push_bit_push_bit del: push_bit_of_1 push_bit_Suc)
qed

section \<open>One message byte\<close>

lemma cm_nxt_32:
  assumes "cm_width p = 32" "cm_refin p"
  shows "cm_nxt p ch = p\<lparr>cm_reg := (crc_step (cm_poly p) ^^ 8) (cm_reg p XOR push_bit 24 (reflect ch 8))\<rparr>"
  using assms by (simp add: cm_nxt_def cm_nxt_loop_step Let_def)

lemma push_24_reflect:
  "bit (push_bit 24 (reflect ch 8)) k \<longleftrightarrow> 24 \<le> k \<and> k < 32 \<and> bit ch (31 - k)"
  by (auto simp: bit_push_bit_iff bit_reflect)

lemma push_24_reflect_cong:
  "(\<And>k. k < 8 \<Longrightarrow> bit a k = bit b k) \<Longrightarrow> push_bit 24 (reflect a 8) = push_bit 24 (reflect b 8)"
  by (rule bit_word_eqI) (auto simp: push_24_reflect simp del: push_bit_eq_mult)

lemma cm_nxt_sign:
  assumes "cm_width p = 32" "cm_refin p"
  shows "cm_nxt p (scast (b :: byte)) = cm_nxt p (ucast b)"
proof -
  have "push_bit 24 (reflect (scast b) 8) = push_bit 24 (reflect (ucast b) 8)"
    by (rule push_24_reflect_cong) (auto simp: bit_signed_iff bit_ucast_iff)
  then show ?thesis using assms by (simp add: cm_nxt_32)
qed

lemma cm_nxt_params:
  "cm_width p = 32 \<Longrightarrow> cm_refin p \<Longrightarrow> cm_width (cm_nxt p ch) = 32 \<and> cm_refin (cm_nxt p ch)"
  by (simp add: cm_nxt_32)

lemma checksum_loop_blk:
  "cm_width p = 32 \<Longrightarrow> cm_refin p \<Longrightarrow> checksum_loop p bs = cm_blk p bs"
  by (induction bs arbitrary: p) (simp_all add: cm_nxt_sign cm_nxt_params)

lemma cm_blk_append: "cm_blk p (xs @ ys) = cm_blk (cm_blk p xs) ys"
  by (induction xs arbitrary: p) simp_all

lemma cm_blk_params:
  assumes "cm_width p = 32" "cm_refin p"
  shows "cm_width (cm_blk p bs) = 32 \<and> cm_refin (cm_blk p bs) \<and> cm_refot (cm_blk p bs) = cm_refot p
    \<and> cm_poly (cm_blk p bs) = cm_poly p \<and> cm_xorot (cm_blk p bs) = cm_xorot p"
  using assms by (induction bs arbitrary: p) (simp_all add: cm_nxt_32)

lemma bit_reflect_32: "bit (reflect v 32) k \<longleftrightarrow> k < 32 \<and> bit v (31 - k)"
  by (auto simp: bit_reflect dest: bit_imp_le_length)

lemma reflect_xor: "b \<le> 32 \<Longrightarrow> reflect (x XOR y) b = reflect x b XOR reflect y b"
  by (rule bit_word_eqI) (auto simp: bit_reflect bit_xor_iff)

text \<open>The register splits into its top byte and the part that is only shifted out of the way.\<close>

lemma crc_steps_split:
  "(crc_step poly ^^ 8) r = (crc_step poly ^^ 8) (push_bit 24 (drop_bit 24 r)) XOR push_bit 8 r"
proof -
  have "r = push_bit 24 (drop_bit 24 r) XOR (r AND mask 24)"
    by (rule bit_word_eqI) (auto simp: bit_xor_iff bit_push_bit_iff bit_drop_bit_eq bit_and_iff bit_mask_iff)
  then have "(crc_step poly ^^ 8) r =
      (crc_step poly ^^ 8) (push_bit 24 (drop_bit 24 r)) XOR (crc_step poly ^^ 8) (r AND mask 24)"
    by (metis crc_steps_linear)
  moreover have "(crc_step poly ^^ 8) (r AND mask 24) = push_bit 8 (r AND mask 24)"
    by (rule crc_steps_shift) (auto simp: bit_and_iff bit_mask_iff)
  moreover have "push_bit 8 (r AND mask 24) = push_bit 8 r"
    by (rule bit_word_eqI) (auto simp: bit_push_bit_iff bit_and_iff bit_mask_iff)
  ultimately show ?thesis by simp
qed

section \<open>Table-driven equivalence\<close>

lemma reflect_tab_arg:
  "push_bit 24 (drop_bit 24 r XOR reflect (ch AND 0xff) 8) =
   push_bit 24 (reflect ((reflect r 32 XOR ch) AND 0xff) 8)"
proof (rule bit_word_eqI)
  fix k assume k: "k < LENGTH(32)"
  show "bit (push_bit 24 (drop_bit 24 r XOR reflect (ch AND 0xff) 8)) k =
        bit (push_bit 24 (reflect ((reflect r 32 XOR ch) AND 0xff) 8)) k"
    unfolding masks_32(1) using k
    by (auto simp: bit_push_bit_iff bit_xor_iff bit_drop_bit_eq bit_reflect bit_and_iff bit_mask_iff bit_reflect_32)
qed

lemma reflect_push_8: "reflect (push_bit 8 r) 32 = drop_bit 8 (reflect r 32)"
  by (rule bit_word_eqI) (auto simp: bit_reflect_32 bit_push_bit_iff bit_drop_bit_eq)

lemma cm_tab_32:
  assumes "cm_width p = 32" "cm_refin p"
  shows "cm_tab p i = reflect ((crc_step (cm_poly p) ^^ 8) (push_bit 24 (reflect i 8))) 32"
  using assms by (simp add: cm_tab_def cm_tab_loop_step widmask_32 Let_def)

text \<open>
  C25. The reference implementation is the table-driven CRC. For every 32-bit reflected model,
  feeding one byte with \<open>cm_nxt\<close> and looking at the register in reflected form is one step of the
  classical algorithm that shifts the register by a byte and xors the entry of the generated table
  (\<open>cm_tab\<close>) indexed by the low byte of register xor input: a table printed by \<^verbatim>\<open>crctable.c\<close> and the
  bitwise code compute the same checksums.
\<close>

theorem cm_nxt_table_driven:
  assumes "cm_width p = 32" "cm_refin p"
  shows "reflect (cm_reg (cm_nxt p ch)) 32 =
     drop_bit 8 (reflect (cm_reg p) 32) XOR cm_tab p ((reflect (cm_reg p) 32 XOR ch) AND 0xff)"
proof -
  let ?r = "cm_reg p" and ?L = "crc_step (cm_poly p) ^^ 8"
  have ch: "push_bit 24 (reflect ch 8) = push_bit 24 (reflect (ch AND 0xff) 8)"
    by (rule push_24_reflect_cong) (simp add: masks_32(1) bit_and_iff bit_mask_iff)
  have top: "push_bit 24 (drop_bit 24 (?r XOR push_bit 24 (reflect (ch AND 0xff) 8))) =
      push_bit 24 (drop_bit 24 ?r XOR reflect (ch AND 0xff) 8)"
    by (rule bit_word_eqI) (auto simp: bit_push_bit_iff bit_drop_bit_eq bit_xor_iff)
  have low: "push_bit 8 (?r XOR push_bit 24 (reflect (ch AND 0xff) 8)) = push_bit 8 ?r"
    by (rule bit_word_eqI) (auto simp: bit_push_bit_iff bit_xor_iff)
  have "?L (?r XOR push_bit 24 (reflect ch 8)) =
      ?L (push_bit 24 (reflect ((reflect ?r 32 XOR ch) AND 0xff) 8)) XOR push_bit 8 ?r"
    unfolding ch using crc_steps_split [of "cm_poly p" "?r XOR push_bit 24 (reflect (ch AND 0xff) 8)"]
    by (simp only: top low reflect_tab_arg)
  then show ?thesis
    using assms by (simp add: cm_nxt_32 cm_tab_32 reflect_xor reflect_push_8 xor.commute)
qed

theorem cm_nxt_table_driven_witness:
  "reflect (cm_reg (cm_nxt (cm_ini crc32_model) 0x31)) 32 =
     drop_bit 8 (reflect 0xFFFFFFFF 32) XOR cm_tab crc32_model ((reflect 0xFFFFFFFF 32 XOR 0x31) AND 0xff)"
  using cm_nxt_table_driven [of "cm_ini crc32_model" "0x31"]
  by (simp add: cm_ini_def crc32_model_def cm_tab_def widmask_def)

section \<open>Messages with an appended checksum\<close>

lemma crc32_model_simps [simp]:
  "cm_width (cm_ini crc32_model) = 32" "cm_refin (cm_ini crc32_model)"
  "cm_poly (cm_ini crc32_model) = 0x04C11DB7"
  by (simp_all add: cm_ini_def crc32_model_def)

lemma checksum_bytes:
  "n \<le> length msg \<Longrightarrow> checksum msg n = Some (cm_crc (cm_blk (cm_ini crc32_model) (take n msg)))"
  by (simp add: checksum_def get_bytes_def checksum_loop_blk)

lemma checksum_take: "n \<le> length msg \<Longrightarrow> checksum (take n msg @ rest) n = checksum msg n"
  by (simp add: checksum_bytes)

lemma checksum_Some_len: "checksum msg n = Some c \<Longrightarrow> n \<le> length msg"
  by (auto simp: checksum_def get_bytes_def split: if_splits)

text \<open>
  Round trip of the checksum: appending the four little-endian bytes of \<open>checksum(msg, n)\<close> to
  the first \<open>n\<close> bytes of a message makes \<open>valid\<close> accept it, whatever follows in the buffer.
\<close>

theorem checksum_append_valid:
  assumes "checksum msg n = Some c"
  shows "valid (take n msg @ native_bytes Little 4 c @ rest) (n + 4) = Some True"
proof -
  have n: "n \<le> length msg" using assms by (rule checksum_Some_len)
  then have "checksum (take n msg @ native_bytes Little 4 c @ rest) n = Some c"
    using assms by (simp add: checksum_take)
  moreover have "get_bytes (take n msg @ native_bytes Little 4 c @ rest) n 4 = Some (word_bytes 4 c)"
    using n by (simp add: native_bytes_def buf_simps)
  ultimately show ?thesis by (simp add: valid_def native_word_def)
qed

theorem checksum_append_valid_witness:
  "valid ([0x31, 0x32, 0x33, 0x34, 0x35, 0x36, 0x37, 0x38, 0x39] @ native_bytes Little 4 (0xCBF43926 :: 32 word) @ [7]) 13
     = Some True"
proof -
  have "checksum [0x31, 0x32, 0x33, 0x34, 0x35, 0x36, 0x37, 0x38, 0x39] 9 = Some 0xCBF43926"
    by code_simp
  from checksum_append_valid [OF this, of "[7]"] show ?thesis by simp
qed

section \<open>Detected errors\<close>

fun crc_pack :: "byte list \<Rightarrow> 32 word" where
  "crc_pack [] = 0"
| "crc_pack (b # bs) = push_bit 24 (reflect (ucast b) 8) XOR drop_bit 8 (crc_pack bs)"

lemma bit_crc_pack_Cons:
  "bit (crc_pack (b # bs)) k \<longleftrightarrow>
     (if 24 \<le> k then k < 32 \<and> bit b (31 - k) else bit (crc_pack bs) (k + 8))"
  by (auto simp: bit_xor_iff push_24_reflect bit_drop_bit_eq bit_ucast_iff add.commute
        dest: bit_imp_le_length simp del: push_bit_eq_mult)

declare crc_pack.simps(2) [simp del]

lemma crc_pack_low: "length bs \<le> 4 \<Longrightarrow> k < 32 - 8 * length bs \<Longrightarrow> \<not> bit (crc_pack bs) k"
  by (induction bs arbitrary: k) (auto simp: bit_crc_pack_Cons)

lemma crc_pack_inj:
  "length xs = length ys \<Longrightarrow> length xs \<le> 4 \<Longrightarrow> crc_pack xs = crc_pack ys \<Longrightarrow> xs = ys"
proof (induction xs ys rule: list_induct2)
  case Nil
  then show ?case by simp
next
  case (Cons x xs y ys)
  have eq: "bit (crc_pack (x # xs)) k = bit (crc_pack (y # ys)) k" for k using Cons.prems by simp
  have "x = y"
  proof (rule bit_word_eqI)
    fix k assume "k < LENGTH(8)"
    then have "24 \<le> 31 - k" "31 - (31 - k) = k" "31 - k < 32" by auto
    then show "bit x k = bit y k" using eq [of "31 - k"] by (simp add: bit_crc_pack_Cons)
  qed
  moreover have "crc_pack xs = crc_pack ys"
  proof (rule bit_word_eqI)
    fix k assume k: "k < LENGTH(32)"
    show "bit (crc_pack xs) k = bit (crc_pack ys) k"
    proof (cases "8 \<le> k")
      case True
      then have "\<not> 24 \<le> k - 8" "k - 8 + 8 = k" using k by auto
      then show ?thesis using eq [of "k - 8"] by (simp add: bit_crc_pack_Cons)
    next
      case False
      then show ?thesis using Cons.prems Cons.hyps by (simp add: crc_pack_low)
    qed
  qed
  ultimately show ?case using Cons by simp
qed

lemma crc_pack_shift:
  assumes "length bs \<le> 3"
  shows "(crc_step poly ^^ 8) (drop_bit 8 (crc_pack bs)) = crc_pack bs"
proof -
  have "(crc_step poly ^^ 8) (drop_bit 8 (crc_pack bs)) = push_bit 8 (drop_bit 8 (crc_pack bs))"
    by (rule crc_steps_shift) (auto simp: bit_drop_bit_eq dest: bit_imp_le_length)
  also have "\<dots> = crc_pack bs"
  proof (rule bit_word_eqI)
    fix n assume n: "n < LENGTH(32)"
    have "\<not> bit (crc_pack bs) n" if "n < 8" using assms that by (simp add: crc_pack_low)
    with n show "bit (push_bit 8 (drop_bit 8 (crc_pack bs))) n = bit (crc_pack bs) n"
      by (cases "n < 8") (simp_all add: bit_push_bit_iff bit_drop_bit_eq)
  qed
  finally show ?thesis .
qed

lemma cm_reg_blk_pack:
  "cm_width p = 32 \<Longrightarrow> cm_refin p \<Longrightarrow> length bs \<le> 4 \<Longrightarrow>
   cm_reg (cm_blk p bs) = (crc_step (cm_poly p) ^^ (8 * length bs)) (cm_reg p XOR crc_pack bs)"
proof (induction bs arbitrary: p)
  case Nil
  then show ?case by simp
next
  case (Cons b bs)
  let ?L = "crc_step (cm_poly p)" and ?B = "push_bit 24 (reflect (ucast b) 8)"
  have "cm_reg (cm_blk p (b # bs)) = (?L ^^ (8 * length bs)) ((?L ^^ 8) (cm_reg p XOR ?B) XOR crc_pack bs)"
    using Cons by (simp add: cm_nxt_32)
  also have "(?L ^^ 8) (cm_reg p XOR ?B) XOR crc_pack bs =
      (?L ^^ 8) (cm_reg p XOR ?B) XOR (?L ^^ 8) (drop_bit 8 (crc_pack bs))"
    using Cons.prems by (simp add: crc_pack_shift)
  also have "\<dots> = (?L ^^ 8) (cm_reg p XOR crc_pack (b # bs))"
    by (simp add: crc_pack.simps(2) xor.assoc flip: crc_steps_linear)
  finally show ?case using funpow_add [of "8 * length bs" 8 ?L] by (simp add: add.commute)
qed

lemma cm_reg_blk_inj:
  assumes "cm_width p = 32" "cm_refin p" "cm_width p' = 32" "cm_refin p'"
    and "cm_poly p' = cm_poly p" "bit (cm_poly p) 0"
    and "cm_reg (cm_blk p q) = cm_reg (cm_blk p' q)"
  shows "cm_reg p = cm_reg p'"
  using assms
proof (induction q arbitrary: p p')
  case Nil
  then show ?case by simp
next
  case (Cons c q)
  let ?c = "push_bit 24 (reflect (ucast c) 8)"
  have "cm_reg (cm_nxt p (ucast c)) = cm_reg (cm_nxt p' (ucast c))"
    by (rule Cons.IH) (use Cons.prems in \<open>simp_all add: cm_nxt_32\<close>)
  then have "cm_reg p XOR ?c = cm_reg p' XOR ?c"
    using Cons.prems inj_crc_steps [of "cm_poly p" 8] by (simp add: cm_nxt_32 inj_eq)
  then have "(cm_reg p XOR ?c) XOR ?c = (cm_reg p' XOR ?c) XOR ?c" by simp
  then show ?case by (simp only: xor.assoc xor_self_eq xor.right_neutral)
qed

lemma cm_crc_eq:
  assumes "cm_crc p = cm_crc p'" "cm_width p = 32" "cm_width p' = 32" "cm_refot p" "cm_refot p'" "cm_xorot p = cm_xorot p'"
  shows "cm_reg p = cm_reg p'"
proof -
  from assms have "cm_xorot p XOR (cm_xorot p XOR reflect (cm_reg p) 32) =
      cm_xorot p XOR (cm_xorot p XOR reflect (cm_reg p') 32)"
    by (simp add: cm_crc_def)
  then have "reflect (cm_reg p) 32 = reflect (cm_reg p') 32" by (simp flip: xor.assoc)
  then show ?thesis by (metis order_refl reflect_reflect)
qed

lemma checksum_burst:
  assumes "length x = length y" "length x \<le> 4" "x \<noteq> y"
  shows "checksum (p @ x @ q) (length (p @ x @ q)) \<noteq> checksum (p @ y @ q) (length (p @ y @ q))"
proof
  let ?m = "cm_ini crc32_model"
  let ?P = "cm_blk ?m p"
  assume "checksum (p @ x @ q) (length (p @ x @ q)) = checksum (p @ y @ q) (length (p @ y @ q))"
  then have crc: "cm_crc (cm_blk ?m (p @ x @ q)) = cm_crc (cm_blk ?m (p @ y @ q))"
    by (simp add: checksum_bytes)
  have ot: "cm_refot ?m" by (simp add: cm_ini_def crc32_model_def)
  have odd: "bit (0x04C11DB7 :: 32 word) 0" by (simp add: bit_0)
  have P: "cm_width ?P = 32" "cm_refin ?P" "cm_poly ?P = 0x04C11DB7"
    using cm_blk_params [of ?m p] by simp_all
  from crc have "cm_reg (cm_blk ?m (p @ x @ q)) = cm_reg (cm_blk ?m (p @ y @ q))"
    by (rule cm_crc_eq) (use cm_blk_params [of ?m] ot in simp_all)
  then have "cm_reg (cm_blk (cm_blk ?P x) q) = cm_reg (cm_blk (cm_blk ?P y) q)"
    by (simp add: cm_blk_append)
  then have "cm_reg (cm_blk ?P x) = cm_reg (cm_blk ?P y)"
    by (rule cm_reg_blk_inj [rotated 6]) (use cm_blk_params [OF P(1,2)] P odd in simp_all)
  then have "cm_reg ?P XOR crc_pack x = cm_reg ?P XOR crc_pack y"
    using cm_reg_blk_pack [OF P(1,2)] assms(1,2) inj_crc_steps [OF odd] P(3)
    by (simp add: inj_eq)
  then have "cm_reg ?P XOR (cm_reg ?P XOR crc_pack x) = cm_reg ?P XOR (cm_reg ?P XOR crc_pack y)" by simp
  then have "crc_pack x = crc_pack y" by (simp flip: xor.assoc)
  with assms show False using crc_pack_inj by blast
qed

text \<open>
  C26. Error detection: two messages of the same length that differ only inside a window of at most
  four consecutive bytes have different checksums, so such corruption of a code segment or a
  message is always noticed by \<open>valid\<close> and \<open>isCorrupt\<close>.
\<close>

theorem checksum_detects_burst:
  assumes "length x = length y" "length x \<le> 4" "x \<noteq> y"
  shows "checksum (p @ x @ q) (length (p @ x @ q)) \<noteq> checksum (p @ y @ q) (length (p @ y @ q))"
  using assms by (rule checksum_burst)

theorem checksum_detects_burst_witness:
  "checksum ([1, 2] @ [3, 4, 5, 6] @ [7]) (length ([1, 2] @ [3, 4, 5, 6] @ [7 :: byte])) \<noteq>
   checksum ([1, 2] @ [3, 9, 8, 6] @ [7]) (length ([1, 2] @ [3, 9, 8, 6] @ [7 :: byte]))"
  by (rule checksum_detects_burst) simp_all

end
