(* ===== verification/Messages_Data.thy ===== *)
theory Messages_Data
  imports Messages_String Checksum
begin

text \<open>
  The message classes that carry raw data: published data, services, commands, code segments and
  xTEDS registrations (\<^verbatim>\<open>sdm/common/message/SDM*.cpp\<close>). The payload member has a fixed capacity and a
  length member of type \<^verbatim>\<open>short\<close>; \<open>payload\<close> says that the length is inside the member. The copies
  out of a datagram take their length from its header: with a hostile header the model yields
  \<^term>\<open>None\<close>, the out-of-bounds access of the code.
\<close>

definition payload :: "nat \<Rightarrow> buffer \<Rightarrow> 16 word \<Rightarrow> bool" where
  "payload n a l \<longleftrightarrow> length a = n \<and> 0 \<le> sint l \<and> sint l \<le> int n"

lemma payload_taken:
  assumes "payload n a l"
  shows "\<exists>p. take (nat (sint l)) a = p \<and> sint l = int (length p) \<and> get_bytes a 0 (length p) = Some p"
proof -
  from assms obtain k where "sint l = int k" "k \<le> length a"
    by (metis nonneg_int_cases of_nat_le_iff payload_def)
  then show ?thesis by (simp add: get_bytes_def)
qed

lemma short_diff:
  assumes "sint (w :: 16 word) = int (k + n)"
  shows "w - of_nat k = of_nat n"
proof -
  have "w = of_int (sint w)" by simp
  with assms show ?thesis by (simp del: of_int_sint)
qed

section \<open>SDMData\<close>

record SDMData = SDMmessage +
  SDMData_source :: SDMComponent_ID
  SDMData_msg_id :: SDMMessage_ID
  SDMData_msg :: buffer
  SDMData_length :: "16 word"
  SDMData_seq_num :: "16 word"
  SDMData_pid :: "32 word"

definition SDMData_new :: "globals \<Rightarrow> buffer \<Rightarrow> SDMData" where
  "SDMData_new g msg = SDMmessage.extend (new_message SDM_Data 18)
     \<lparr>SDMData_source = SDMComponent_ID_new, SDMData_msg_id = SDMMessage_ID_new 0 0, SDMData_msg = msg[0 := 0],
      SDMData_length = 0, SDMData_seq_num = 0, SDMData_pid = PID g\<rparr>"

definition SDMData_Marshal_length :: "timeval \<Rightarrow> SDMData \<Rightarrow> buffer \<Rightarrow> int \<Rightarrow> (SDMData \<times> buffer \<times> int) option" where
  "SDMData_Marshal_length now m buf data_length = do {
     let cur = HEADER_SIZE;
     (buf, n) \<leftarrow> id_Marshal (SDMData_source m) buf cur;
     let cur = cur + n;
     (buf, n) \<leftarrow> SDMMessage_ID_Marshal (SDMData_msg_id m) buf cur;
     let cur = cur + n;
     buf \<leftarrow> PUT_LONG buf cur (SDMData_pid m);
     let cur = cur + 4;
     buf \<leftarrow> PUT_SHORT buf cur (SDMData_seq_num m);
     let cur = cur + 2;
     buf \<leftarrow> memcpy_int buf cur (SDMData_msg m) 0 data_length;
     let cur = nat (int cur + data_length);
     let m = set_length cur m;
     (m, buf, _) \<leftarrow> MarshalHeader now m buf;
     Some (m, buf, int cur) }"

definition SDMData_Marshal :: "SDMData marshal" where
  "SDMData_Marshal now m buf = SDMData_Marshal_length now m buf (sint (SDMData_length m))"

definition SDMData_Unmarshal :: "SDMData unmarshal" where
  "SDMData_Unmarshal m buf = do {
     (m, cur) \<leftarrow> UnmarshalHeader m buf;
     if cur = SDM_INVALID_MESSAGE then Some (m, SDM_INVALID_MESSAGE)
     else if sint (total_length m) > sint (msg_length m) then Some (m, SDM_INVALID_MESSAGE)
     else do {
       let cur = nat cur;
       (c, n) \<leftarrow> id_Unmarshal (SDMData_source m) buf cur;
       let m = m\<lparr>SDMData_source := c\<rparr>;
       let cur = cur + n;
       (d, n) \<leftarrow> SDMMessage_ID_Unmarshal (SDMData_msg_id m) buf cur;
       let m = m\<lparr>SDMData_msg_id := d\<rparr>;
       let cur = cur + n;
       v \<leftarrow> GET_LONG buf cur;
       let m = m\<lparr>SDMData_pid := v\<rparr>;
       let cur = cur + 4;
       v \<leftarrow> GET_SHORT buf cur;
       let m = m\<lparr>SDMData_seq_num := v\<rparr>;
       let cur = cur + 2;
       dat \<leftarrow> memcpy_int (SDMData_msg m) 0 buf cur (sint (msg_length m) - int cur + int HEADER_SIZE);
       let m = m\<lparr>SDMData_msg := dat\<rparr>;
       let m = m\<lparr>SDMData_length := of_int (sint (msg_length m) - int cur + int HEADER_SIZE)\<rparr>;
       Some (m, sint (msg_length m) + int HEADER_SIZE) } }"

definition SDMData_Send_length :: "env \<Rightarrow> SDMData \<Rightarrow> SDMComponent_ID \<Rightarrow> int \<Rightarrow> (SDMData \<times> byte list list \<times> int option) option" where
  "SDMData_Send_length env m destination data_length =
     SendTo_checked SDMData_Marshal (env_net env) (env_stk env) (env_ack env) (env_now env)
       (m\<lparr>SDMData_length := of_int data_length\<rparr>) destination"

definition SDMData_Send_to :: "SDMData sender_to" where
  "SDMData_Send_to env = SendTo_checked SDMData_Marshal (env_net env) (env_stk env) (env_ack env) (env_now env)"

text \<open>\<open>Recv\<close> has its own receive; the buffer is not cleared first.\<close>

definition SDMData_Recv :: "net \<Rightarrow> buffer \<Rightarrow> SDMData \<Rightarrow> 32 word \<Rightarrow> (SDMData \<times> int) option" where
  "SDMData_Recv net stk m port = (
     let m = (if bound m = IP_SOCK_INVALID then m\<lparr>bound := net_passive net port\<rparr> else m)
     in if bound m > 0
        then (case net_recv net 0 of
                None \<Rightarrow> Some (m, SDM_MESSAGE_RECV_ERROR)
              | Some d \<Rightarrow>
                  if take BUFSIZE d = [] then Some (m, SDM_MESSAGE_RECV_ERROR)
                  else SDMData_Unmarshal m (recv_into BUFSIZE (Some d) stk))
        else Some (m, SDM_MESSAGE_RECV_ERROR))"

definition SDMData_view :: "SDMData \<Rightarrow> SDMComponent_ID \<times> SDMMessage_ID \<times> 32 word \<times> 16 word \<times> byte list" where
  "SDMData_view m = (SDMData_source m, SDMData_msg_id m, SDMData_pid m, SDMData_seq_num m, take (nat (sint (SDMData_length m))) (SDMData_msg m))"

definition SDMData_enc :: "SDMComponent_ID \<times> SDMMessage_ID \<times> 32 word \<times> 16 word \<times> byte list \<Rightarrow> byte list" where
  "SDMData_enc = (\<lambda>(a, b, c, d, e). id_bytes a @ mid_bytes b @ word_bytes 4 c @ word_bytes 2 d @ e)"

definition SDMData_wf :: "SDMData \<Rightarrow> bool" where
  "SDMData_wf m \<longleftrightarrow> MsgName m = SDM_Data \<and> total_length m = 18 \<and> payload 24259 (SDMData_msg m) (SDMData_length m)"

lemma SDMData_bounds:
  assumes "SDMData_wf m"
  shows "length (SDMData_msg m) = 24259" "length (take (nat (sint (SDMData_length m))) (SDMData_msg m)) \<le> 24259"
    "sint (SDMData_length m) = int (length (take (nat (sint (SDMData_length m))) (SDMData_msg m)))"
  using assms by (auto simp: SDMData_wf_def payload_def)

lemma SDMData_fits: "SDMData_wf m \<Longrightarrow> 11 + length (SDMData_enc (SDMData_view m)) \<le> BUFSIZE"
  using SDMData_bounds(2) [of m] by (simp add: SDMData_view_def SDMData_enc_def del: length_take)

lemma SDMData_Marshal_eq:
  assumes "SDMData_wf m" "11 + length (SDMData_enc (SDMData_view m)) \<le> length buf"
  shows "SDMData_Marshal now m buf = Some (marshalled now m (SDMData_enc (SDMData_view m)) buf)"
proof -
  obtain p where p: "take (nat (sint (SDMData_length m))) (SDMData_msg m) = p" "sint (SDMData_length m) = int (length p)"
    "get_bytes (SDMData_msg m) 0 (length p) = Some p"
    using assms(1) payload_taken unfolding SDMData_wf_def by blast
  then show ?thesis using assms(2)
    by (simp add: SDMData_Marshal_def SDMData_Marshal_length_def SDMData_view_def SDMData_enc_def put_laws cong: bind_head_cong)
qed

lemma SDMData_Unmarshal_eq:
  assumes "SDMData_wf m0" "MsgName hdr = SDM_Data" "sint (msg_length hdr) = int (length (SDMData_enc (a, b, c, d, e)))" "length e \<le> 24259"
  shows "SDMData_Unmarshal m0 (header_bytes (hdr :: SDMmessage) @ SDMData_enc (a, b, c, d, e) @ rest) =
    Some ((load_header hdr m0)\<lparr>SDMData_source := a, SDMData_msg_id := b, SDMData_pid := c, SDMData_seq_num := d, SDMData_msg := e @ drop (length e) (SDMData_msg m0), SDMData_length := of_nat (length e)\<rparr>,
      int (11 + length (SDMData_enc (a, b, c, d, e))))"
proof -
  have "msg_length hdr - 18 = of_nat (length e)"
    using short_diff [of "msg_length hdr" 18 "length e"] assms(3) by (simp add: SDMData_enc_def)
  with SDMData_bounds(1) [OF assms(1)] assms show ?thesis
    by (simp add: SDMData_Unmarshal_def SDMData_enc_def SDMData_wf_def string_laws load_header_def cong: bind_head_cong)
qed

interpretation data_msg: sdm_class SDMData_Marshal SDMData_Unmarshal SDMData_view SDMData_enc SDMData_wf "\<lambda>_. True" SDM_Data
proof (unfold_locales, goal_cases)
  case (4 m)
  then show ?case by (simp add: SDMData_fits)
next
  case (5 m buf now)
  then have "SDMData_Marshal now m buf = Some (marshalled now m (SDMData_enc (SDMData_view m)) buf)"
    by (simp add: SDMData_Marshal_eq)
  then show ?case
    by (rule marshalled_ok) (use 5(1) in \<open>simp_all add: SDMData_wf_def SDMData_view_def stamp_def set_length_def\<close>)
next
  case (6 m m0 h rest)
  have l: "sint (msg_length h) = int (length (SDMData_enc (SDMData_view m)))"
    using 6(5) SDMData_fits [OF 6(1)] by (simp add: sint_of_nat_16)
  note eq = SDMData_Unmarshal_eq [OF 6(3,4) l [unfolded SDMData_view_def] SDMData_bounds(2) [OF 6(1)], of rest]
  show ?case using 6(3) SDMData_bounds [OF 6(1)] SDMData_bounds(1) [OF 6(3)]
    by (simp only: SDMData_view_def eq) (simp add: SDMData_wf_def load_header_def payload_def sint_of_nat_16)
qed (simp_all add: SDMData_wf_def SDMData_view_def SDMData_Unmarshal_def UnmarshalHeader_wrong_name)

section \<open>SDMService\<close>

record SDMService = SDMmessage +
  SDMService_source :: SDMComponent_ID
  SDMService_destination :: SDMComponent_ID
  SDMService_command_id :: SDMMessage_ID
  SDMService_length :: "16 word"
  SDMService_seq_num :: "16 word"
  SDMService_data :: buffer

definition SDMService_new :: "buffer \<Rightarrow> SDMService" where
  "SDMService_new data = SDMmessage.extend (new_message SDM_Service 24)
     \<lparr>SDMService_source = SDMComponent_ID_new, SDMService_destination = SDMComponent_ID_new,
      SDMService_command_id = SDMMessage_ID_new 0 0, SDMService_length = 0, SDMService_seq_num = 0,
      SDMService_data = data[0 := 0]\<rparr>"

definition SDMService_Marshal :: "SDMService marshal" where
  "SDMService_Marshal now m buf = do {
     let cur = HEADER_SIZE;
     (buf, n) \<leftarrow> id_Marshal (SDMService_source m) buf cur;
     let cur = cur + n;
     (buf, n) \<leftarrow> id_Marshal (SDMService_destination m) buf cur;
     let cur = cur + n;
     (buf, n) \<leftarrow> SDMMessage_ID_Marshal (SDMService_command_id m) buf cur;
     let cur = cur + n;
     buf \<leftarrow> PUT_SHORT buf cur (SDMService_seq_num m);
     let cur = cur + 2;
     buf \<leftarrow> memcpy_int buf cur (SDMService_data m) 0 (sint (SDMService_length m));
     let cur = nat (int cur + sint (SDMService_length m));
     let m = set_length cur m;
     (m, buf, _) \<leftarrow> MarshalHeader now m buf;
     Some (m, buf, int cur) }"

definition SDMService_Unmarshal :: "SDMService unmarshal" where
  "SDMService_Unmarshal m buf = do {
     (m, cur) \<leftarrow> UnmarshalHeader m buf;
     if cur = SDM_INVALID_MESSAGE then Some (m, SDM_INVALID_MESSAGE)
     else if sint (total_length m) > sint (msg_length m) then Some (m, SDM_INVALID_MESSAGE)
     else do {
       let cur = nat cur;
       (c, n) \<leftarrow> id_Unmarshal (SDMService_source m) buf cur;
       let m = m\<lparr>SDMService_source := c\<rparr>;
       let cur = cur + n;
       (c, n) \<leftarrow> id_Unmarshal (SDMService_destination m) buf cur;
       let m = m\<lparr>SDMService_destination := c\<rparr>;
       let cur = cur + n;
       (d, n) \<leftarrow> SDMMessage_ID_Unmarshal (SDMService_command_id m) buf cur;
       let m = m\<lparr>SDMService_command_id := d\<rparr>;
       let cur = cur + n;
       v \<leftarrow> GET_SHORT buf cur;
       let m = m\<lparr>SDMService_seq_num := v\<rparr>;
       let cur = cur + 2;
       let m = m\<lparr>SDMService_length := of_int (sint (msg_length m) + int HEADER_SIZE - int cur)\<rparr>;
       dat \<leftarrow> memcpy_int (SDMService_data m) 0 buf cur (sint (SDMService_length m));
       let m = m\<lparr>SDMService_data := dat\<rparr>;
       Some (m, sint (msg_length m) + int HEADER_SIZE) } }"

definition SDMService_Send :: "SDMService sender" where
  "SDMService_Send = SendDM SDMService_Marshal"

definition SDMService_Recv :: "net \<Rightarrow> SDMService \<Rightarrow> 32 word \<Rightarrow> (SDMService \<times> int) option" where
  "SDMService_Recv = Recv_checked SDMService_Unmarshal"

definition SDMService_view :: "SDMService \<Rightarrow> SDMComponent_ID \<times> SDMComponent_ID \<times> SDMMessage_ID \<times> 16 word \<times> byte list" where
  "SDMService_view m = (SDMService_source m, SDMService_destination m, SDMService_command_id m, SDMService_seq_num m, take (nat (sint (SDMService_length m))) (SDMService_data m))"

definition SDMService_enc :: "SDMComponent_ID \<times> SDMComponent_ID \<times> SDMMessage_ID \<times> 16 word \<times> byte list \<Rightarrow> byte list" where
  "SDMService_enc = (\<lambda>(a, b, c, d, e). id_bytes a @ id_bytes b @ mid_bytes c @ word_bytes 2 d @ e)"

definition SDMService_wf :: "SDMService \<Rightarrow> bool" where
  "SDMService_wf m \<longleftrightarrow> MsgName m = SDM_Service \<and> total_length m = 24 \<and> payload 24253 (SDMService_data m) (SDMService_length m)"

lemma SDMService_bounds:
  assumes "SDMService_wf m"
  shows "length (SDMService_data m) = 24253" "length (take (nat (sint (SDMService_length m))) (SDMService_data m)) \<le> 24253"
    "sint (SDMService_length m) = int (length (take (nat (sint (SDMService_length m))) (SDMService_data m)))"
  using assms by (auto simp: SDMService_wf_def payload_def)

lemma SDMService_fits: "SDMService_wf m \<Longrightarrow> 11 + length (SDMService_enc (SDMService_view m)) \<le> BUFSIZE"
  using SDMService_bounds(2) [of m] by (simp add: SDMService_view_def SDMService_enc_def del: length_take)

lemma SDMService_Marshal_eq:
  assumes "SDMService_wf m" "11 + length (SDMService_enc (SDMService_view m)) \<le> length buf"
  shows "SDMService_Marshal now m buf = Some (marshalled now m (SDMService_enc (SDMService_view m)) buf)"
proof -
  obtain p where p: "take (nat (sint (SDMService_length m))) (SDMService_data m) = p" "sint (SDMService_length m) = int (length p)"
    "get_bytes (SDMService_data m) 0 (length p) = Some p"
    using assms(1) payload_taken unfolding SDMService_wf_def by blast
  then show ?thesis using assms(2)
    by (simp add: SDMService_Marshal_def SDMService_view_def SDMService_enc_def put_laws cong: bind_head_cong)
qed

lemma SDMService_Unmarshal_eq:
  assumes "SDMService_wf m0" "MsgName hdr = SDM_Service" "sint (msg_length hdr) = int (length (SDMService_enc (a, b, c, d, e)))" "length e \<le> 24253"
  shows "SDMService_Unmarshal m0 (header_bytes (hdr :: SDMmessage) @ SDMService_enc (a, b, c, d, e) @ rest) =
    Some ((load_header hdr m0)\<lparr>SDMService_source := a, SDMService_destination := b, SDMService_command_id := c, SDMService_seq_num := d, SDMService_data := e @ drop (length e) (SDMService_data m0), SDMService_length := of_nat (length e)\<rparr>,
      int (11 + length (SDMService_enc (a, b, c, d, e))))"
proof -
  have "msg_length hdr - 24 = of_nat (length e)"
    using short_diff [of "msg_length hdr" 24 "length e"] assms(3) by (simp add: SDMService_enc_def)
  with SDMService_bounds(1) [OF assms(1)] assms show ?thesis
    by (simp add: SDMService_Unmarshal_def SDMService_enc_def SDMService_wf_def string_laws load_header_def cong: bind_head_cong)
qed

interpretation service: sdm_class SDMService_Marshal SDMService_Unmarshal SDMService_view SDMService_enc SDMService_wf "\<lambda>_. True" SDM_Service
proof (unfold_locales, goal_cases)
  case (4 m)
  then show ?case by (simp add: SDMService_fits)
next
  case (5 m buf now)
  then have "SDMService_Marshal now m buf = Some (marshalled now m (SDMService_enc (SDMService_view m)) buf)"
    by (simp add: SDMService_Marshal_eq)
  then show ?case
    by (rule marshalled_ok) (use 5(1) in \<open>simp_all add: SDMService_wf_def SDMService_view_def stamp_def set_length_def\<close>)
next
  case (6 m m0 h rest)
  have l: "sint (msg_length h) = int (length (SDMService_enc (SDMService_view m)))"
    using 6(5) SDMService_fits [OF 6(1)] by (simp add: sint_of_nat_16)
  note eq = SDMService_Unmarshal_eq [OF 6(3,4) l [unfolded SDMService_view_def] SDMService_bounds(2) [OF 6(1)], of rest]
  show ?case using 6(3) SDMService_bounds [OF 6(1)] SDMService_bounds(1) [OF 6(3)]
    by (simp only: SDMService_view_def eq) (simp add: SDMService_wf_def load_header_def payload_def sint_of_nat_16)
qed (simp_all add: SDMService_wf_def SDMService_view_def SDMService_Unmarshal_def UnmarshalHeader_wrong_name)

section \<open>SDMCommand\<close>

text \<open>A command is a service with a fault id in place of the sequence number on the wire.\<close>

record SDMCommand = SDMService +
  SDMCommand_fault_id :: SDMMessage_ID

definition SDMCommand_new :: "buffer \<Rightarrow> SDMCommand" where
  "SDMCommand_new data = SDMService.extend ((SDMService_new data)\<lparr>MsgName := SDM_Command, total_length := 24\<rparr>)
     \<lparr>SDMCommand_fault_id = SDMMessage_ID_new 0 0\<rparr>"

definition SDMCommand_Marshal :: "SDMCommand marshal" where
  "SDMCommand_Marshal now m buf = do {
     let cur = HEADER_SIZE;
     (buf, n) \<leftarrow> id_Marshal (SDMService_source m) buf cur;
     let cur = cur + n;
     (buf, n) \<leftarrow> id_Marshal (SDMService_destination m) buf cur;
     let cur = cur + n;
     (buf, n) \<leftarrow> SDMMessage_ID_Marshal (SDMService_command_id m) buf cur;
     let cur = cur + n;
     (buf, n) \<leftarrow> SDMMessage_ID_Marshal (SDMCommand_fault_id m) buf cur;
     let cur = cur + n;
     buf \<leftarrow> memcpy_int buf cur (SDMService_data m) 0 (sint (SDMService_length m));
     let cur = nat (int cur + sint (SDMService_length m));
     let m = set_length cur m;
     (m, buf, _) \<leftarrow> MarshalHeader now m buf;
     Some (m, buf, int cur) }"

definition SDMCommand_Unmarshal :: "SDMCommand unmarshal" where
  "SDMCommand_Unmarshal m buf = do {
     (m, cur) \<leftarrow> UnmarshalHeader m buf;
     if cur = SDM_INVALID_MESSAGE then Some (m, SDM_INVALID_MESSAGE)
     else if sint (total_length m) > sint (msg_length m) then Some (m, SDM_INVALID_MESSAGE)
     else do {
       let cur = nat cur;
       (c, n) \<leftarrow> id_Unmarshal (SDMService_source m) buf cur;
       let m = m\<lparr>SDMService_source := c\<rparr>;
       let cur = cur + n;
       (c, n) \<leftarrow> id_Unmarshal (SDMService_destination m) buf cur;
       let m = m\<lparr>SDMService_destination := c\<rparr>;
       let cur = cur + n;
       (d, n) \<leftarrow> SDMMessage_ID_Unmarshal (SDMService_command_id m) buf cur;
       let m = m\<lparr>SDMService_command_id := d\<rparr>;
       let cur = cur + n;
       (d, n) \<leftarrow> SDMMessage_ID_Unmarshal (SDMCommand_fault_id m) buf cur;
       let m = m\<lparr>SDMCommand_fault_id := d\<rparr>;
       let cur = cur + n;
       let m = m\<lparr>SDMService_length := of_int (sint (msg_length m) - int cur + int HEADER_SIZE)\<rparr>;
       dat \<leftarrow> memcpy_int (SDMService_data m) 0 buf cur (sint (SDMService_length m));
       let m = m\<lparr>SDMService_data := dat\<rparr>;
       Some (m, sint (msg_length m) + int HEADER_SIZE) } }"

definition SDMCommand_Send :: "SDMCommand sender" where
  "SDMCommand_Send = SendDM SDMCommand_Marshal"

definition SDMCommand_Send_to :: "SDMCommand sender_to" where
  "SDMCommand_Send_to env = SendTo SDMCommand_Marshal (env_net env) (env_stk env) (env_ack env) (env_now env)"

definition SDMCommand_Recv :: "net \<Rightarrow> SDMCommand \<Rightarrow> 32 word \<Rightarrow> (SDMCommand \<times> int) option" where
  "SDMCommand_Recv = Recv_checked SDMCommand_Unmarshal"

definition SDMCommand_view :: "SDMCommand \<Rightarrow> SDMComponent_ID \<times> SDMComponent_ID \<times> SDMMessage_ID \<times> SDMMessage_ID \<times> byte list" where
  "SDMCommand_view m = (SDMService_source m, SDMService_destination m, SDMService_command_id m, SDMCommand_fault_id m, take (nat (sint (SDMService_length m))) (SDMService_data m))"

definition SDMCommand_enc :: "SDMComponent_ID \<times> SDMComponent_ID \<times> SDMMessage_ID \<times> SDMMessage_ID \<times> byte list \<Rightarrow> byte list" where
  "SDMCommand_enc = (\<lambda>(a, b, c, d, e). id_bytes a @ id_bytes b @ mid_bytes c @ mid_bytes d @ e)"

definition SDMCommand_wf :: "SDMCommand \<Rightarrow> bool" where
  "SDMCommand_wf m \<longleftrightarrow> MsgName m = SDM_Command \<and> total_length m = 24 \<and> payload 24253 (SDMService_data m) (SDMService_length m)"

lemma SDMCommand_bounds:
  assumes "SDMCommand_wf m"
  shows "length (SDMService_data m) = 24253" "length (take (nat (sint (SDMService_length m))) (SDMService_data m)) \<le> 24253"
    "sint (SDMService_length m) = int (length (take (nat (sint (SDMService_length m))) (SDMService_data m)))"
  using assms by (auto simp: SDMCommand_wf_def payload_def)

lemma SDMCommand_fits: "SDMCommand_wf m \<Longrightarrow> 11 + length (SDMCommand_enc (SDMCommand_view m)) \<le> BUFSIZE"
  using SDMCommand_bounds(2) [of m] by (simp add: SDMCommand_view_def SDMCommand_enc_def del: length_take)

lemma SDMCommand_Marshal_eq:
  assumes "SDMCommand_wf m" "11 + length (SDMCommand_enc (SDMCommand_view m)) \<le> length buf"
  shows "SDMCommand_Marshal now m buf = Some (marshalled now m (SDMCommand_enc (SDMCommand_view m)) buf)"
proof -
  obtain p where p: "take (nat (sint (SDMService_length m))) (SDMService_data m) = p" "sint (SDMService_length m) = int (length p)"
    "get_bytes (SDMService_data m) 0 (length p) = Some p"
    using assms(1) payload_taken unfolding SDMCommand_wf_def by blast
  then show ?thesis using assms(2)
    by (simp add: SDMCommand_Marshal_def SDMCommand_view_def SDMCommand_enc_def put_laws cong: bind_head_cong)
qed

lemma SDMCommand_Unmarshal_eq:
  assumes "SDMCommand_wf m0" "MsgName hdr = SDM_Command" "sint (msg_length hdr) = int (length (SDMCommand_enc (a, b, c, d, e)))" "length e \<le> 24253"
  shows "SDMCommand_Unmarshal m0 (header_bytes (hdr :: SDMmessage) @ SDMCommand_enc (a, b, c, d, e) @ rest) =
    Some ((load_header hdr m0)\<lparr>SDMService_source := a, SDMService_destination := b, SDMService_command_id := c, SDMCommand_fault_id := d, SDMService_data := e @ drop (length e) (SDMService_data m0), SDMService_length := of_nat (length e)\<rparr>,
      int (11 + length (SDMCommand_enc (a, b, c, d, e))))"
proof -
  have "msg_length hdr - 24 = of_nat (length e)"
    using short_diff [of "msg_length hdr" 24 "length e"] assms(3) by (simp add: SDMCommand_enc_def)
  with SDMCommand_bounds(1) [OF assms(1)] assms show ?thesis
    by (simp add: SDMCommand_Unmarshal_def SDMCommand_enc_def SDMCommand_wf_def string_laws load_header_def cong: bind_head_cong)
qed

interpretation command: sdm_class SDMCommand_Marshal SDMCommand_Unmarshal SDMCommand_view SDMCommand_enc SDMCommand_wf "\<lambda>_. True" SDM_Command
proof (unfold_locales, goal_cases)
  case (4 m)
  then show ?case by (simp add: SDMCommand_fits)
next
  case (5 m buf now)
  then have "SDMCommand_Marshal now m buf = Some (marshalled now m (SDMCommand_enc (SDMCommand_view m)) buf)"
    by (simp add: SDMCommand_Marshal_eq)
  then show ?case
    by (rule marshalled_ok) (use 5(1) in \<open>simp_all add: SDMCommand_wf_def SDMCommand_view_def stamp_def set_length_def\<close>)
next
  case (6 m m0 h rest)
  have l: "sint (msg_length h) = int (length (SDMCommand_enc (SDMCommand_view m)))"
    using 6(5) SDMCommand_fits [OF 6(1)] by (simp add: sint_of_nat_16)
  note eq = SDMCommand_Unmarshal_eq [OF 6(3,4) l [unfolded SDMCommand_view_def] SDMCommand_bounds(2) [OF 6(1)], of rest]
  show ?case using 6(3) SDMCommand_bounds [OF 6(1)] SDMCommand_bounds(1) [OF 6(3)]
    by (simp only: SDMCommand_view_def eq) (simp add: SDMCommand_wf_def load_header_def payload_def sint_of_nat_16)
qed (simp_all add: SDMCommand_wf_def SDMCommand_view_def SDMCommand_Unmarshal_def UnmarshalHeader_wrong_name)

section \<open>SDMSerreqst\<close>

record SDMSerreqst = SDMmessage +
  SDMSerreqst_source :: SDMComponent_ID
  SDMSerreqst_destination :: SDMComponent_ID
  SDMSerreqst_command_id :: SDMMessage_ID
  SDMSerreqst_reply_id :: SDMMessage_ID
  SDMSerreqst_fault_id :: SDMMessage_ID
  SDMSerreqst_length :: "16 word"
  SDMSerreqst_seq_num :: "16 word"
  SDMSerreqst_data :: buffer

definition SDMSerreqst_new :: "buffer \<Rightarrow> SDMSerreqst" where
  "SDMSerreqst_new data = SDMmessage.extend (new_message SDM_Serreqst 28)
     \<lparr>SDMSerreqst_source = SDMComponent_ID_new, SDMSerreqst_destination = SDMComponent_ID_new,
      SDMSerreqst_command_id = SDMMessage_ID_new 0 0, SDMSerreqst_reply_id = SDMMessage_ID_new 0 0,
      SDMSerreqst_fault_id = SDMMessage_ID_new 0 0, SDMSerreqst_length = 0, SDMSerreqst_seq_num = 0,
      SDMSerreqst_data = data[0 := 0]\<rparr>"

definition SDMSerreqst_Marshal :: "SDMSerreqst marshal" where
  "SDMSerreqst_Marshal now m buf = do {
     let cur = HEADER_SIZE;
     (buf, n) \<leftarrow> id_Marshal (SDMSerreqst_source m) buf cur;
     let cur = cur + n;
     (buf, n) \<leftarrow> id_Marshal (SDMSerreqst_destination m) buf cur;
     let cur = cur + n;
     (buf, n) \<leftarrow> SDMMessage_ID_Marshal (SDMSerreqst_command_id m) buf cur;
     let cur = cur + n;
     (buf, n) \<leftarrow> SDMMessage_ID_Marshal (SDMSerreqst_reply_id m) buf cur;
     let cur = cur + n;
     (buf, n) \<leftarrow> SDMMessage_ID_Marshal (SDMSerreqst_fault_id m) buf cur;
     let cur = cur + n;
     buf \<leftarrow> PUT_SHORT buf cur (SDMSerreqst_seq_num m);
     let cur = cur + 2;
     buf \<leftarrow> memcpy_int buf cur (SDMSerreqst_data m) 0 (sint (SDMSerreqst_length m));
     let cur = nat (int cur + sint (SDMSerreqst_length m));
     let m = set_length cur m;
     (m, buf, _) \<leftarrow> MarshalHeader now m buf;
     Some (m, buf, int cur) }"

definition SDMSerreqst_Unmarshal :: "SDMSerreqst unmarshal" where
  "SDMSerreqst_Unmarshal m buf = do {
     (m, cur) \<leftarrow> UnmarshalHeader m buf;
     if cur = SDM_INVALID_MESSAGE then Some (m, SDM_INVALID_MESSAGE)
     else if sint (total_length m) > sint (msg_length m) then Some (m, SDM_INVALID_MESSAGE)
     else do {
       let cur = nat cur;
       (c, n) \<leftarrow> id_Unmarshal (SDMSerreqst_source m) buf cur;
       let m = m\<lparr>SDMSerreqst_source := c\<rparr>;
       let cur = cur + n;
       (c, n) \<leftarrow> id_Unmarshal (SDMSerreqst_destination m) buf cur;
       let m = m\<lparr>SDMSerreqst_destination := c\<rparr>;
       let cur = cur + n;
       (d, n) \<leftarrow> SDMMessage_ID_Unmarshal (SDMSerreqst_command_id m) buf cur;
       let m = m\<lparr>SDMSerreqst_command_id := d\<rparr>;
       let cur = cur + n;
       (d, n) \<leftarrow> SDMMessage_ID_Unmarshal (SDMSerreqst_reply_id m) buf cur;
       let m = m\<lparr>SDMSerreqst_reply_id := d\<rparr>;
       let cur = cur + n;
       (d, n) \<leftarrow> SDMMessage_ID_Unmarshal (SDMSerreqst_fault_id m) buf cur;
       let m = m\<lparr>SDMSerreqst_fault_id := d\<rparr>;
       let cur = cur + n;
       v \<leftarrow> GET_SHORT buf cur;
       let m = m\<lparr>SDMSerreqst_seq_num := v\<rparr>;
       let cur = cur + 2;
       let m = m\<lparr>SDMSerreqst_length := of_int (sint (msg_length m) - int cur + int HEADER_SIZE)\<rparr>;
       dat \<leftarrow> memcpy_int (SDMSerreqst_data m) 0 buf cur (sint (SDMSerreqst_length m));
       let m = m\<lparr>SDMSerreqst_data := dat\<rparr>;
       let cur = nat (int cur + sint (SDMSerreqst_length m));
       Some (m, int cur) } }"

definition SDMSerreqst_Send :: "SDMSerreqst sender_to" where
  "SDMSerreqst_Send env = SendTo_checked SDMSerreqst_Marshal (env_net env) (env_stk env) (env_ack env) (env_now env)"

definition SDMSerreqst_Recv :: "net \<Rightarrow> SDMSerreqst \<Rightarrow> 32 word \<Rightarrow> (SDMSerreqst \<times> int) option" where
  "SDMSerreqst_Recv = Recv_checked SDMSerreqst_Unmarshal"

definition SDMSerreqst_view :: "SDMSerreqst \<Rightarrow> SDMComponent_ID \<times> SDMComponent_ID \<times> SDMMessage_ID \<times> SDMMessage_ID \<times> SDMMessage_ID \<times> 16 word \<times> byte list" where
  "SDMSerreqst_view m = (SDMSerreqst_source m, SDMSerreqst_destination m, SDMSerreqst_command_id m, SDMSerreqst_reply_id m, SDMSerreqst_fault_id m, SDMSerreqst_seq_num m, take (nat (sint (SDMSerreqst_length m))) (SDMSerreqst_data m))"

definition SDMSerreqst_enc :: "SDMComponent_ID \<times> SDMComponent_ID \<times> SDMMessage_ID \<times> SDMMessage_ID \<times> SDMMessage_ID \<times> 16 word \<times> byte list \<Rightarrow> byte list" where
  "SDMSerreqst_enc = (\<lambda>(a, b, c, d, e, f, g). id_bytes a @ id_bytes b @ mid_bytes c @ mid_bytes d @ mid_bytes e @ word_bytes 2 f @ g)"

definition SDMSerreqst_wf :: "SDMSerreqst \<Rightarrow> bool" where
  "SDMSerreqst_wf m \<longleftrightarrow> MsgName m = SDM_Serreqst \<and> total_length m = 28 \<and> payload 24249 (SDMSerreqst_data m) (SDMSerreqst_length m)"

lemma SDMSerreqst_bounds:
  assumes "SDMSerreqst_wf m"
  shows "length (SDMSerreqst_data m) = 24249" "length (take (nat (sint (SDMSerreqst_length m))) (SDMSerreqst_data m)) \<le> 24249"
    "sint (SDMSerreqst_length m) = int (length (take (nat (sint (SDMSerreqst_length m))) (SDMSerreqst_data m)))"
  using assms by (auto simp: SDMSerreqst_wf_def payload_def)

lemma SDMSerreqst_fits: "SDMSerreqst_wf m \<Longrightarrow> 11 + length (SDMSerreqst_enc (SDMSerreqst_view m)) \<le> BUFSIZE"
  using SDMSerreqst_bounds(2) [of m] by (simp add: SDMSerreqst_view_def SDMSerreqst_enc_def del: length_take)

lemma SDMSerreqst_Marshal_eq:
  assumes "SDMSerreqst_wf m" "11 + length (SDMSerreqst_enc (SDMSerreqst_view m)) \<le> length buf"
  shows "SDMSerreqst_Marshal now m buf = Some (marshalled now m (SDMSerreqst_enc (SDMSerreqst_view m)) buf)"
proof -
  obtain p where p: "take (nat (sint (SDMSerreqst_length m))) (SDMSerreqst_data m) = p" "sint (SDMSerreqst_length m) = int (length p)"
    "get_bytes (SDMSerreqst_data m) 0 (length p) = Some p"
    using assms(1) payload_taken unfolding SDMSerreqst_wf_def by blast
  then show ?thesis using assms(2)
    by (simp add: SDMSerreqst_Marshal_def SDMSerreqst_view_def SDMSerreqst_enc_def put_laws cong: bind_head_cong)
qed

lemma SDMSerreqst_Unmarshal_eq:
  assumes "SDMSerreqst_wf m0" "MsgName hdr = SDM_Serreqst" "sint (msg_length hdr) = int (length (SDMSerreqst_enc (a, b, c, d, e, f, g)))" "length g \<le> 24249"
  shows "SDMSerreqst_Unmarshal m0 (header_bytes (hdr :: SDMmessage) @ SDMSerreqst_enc (a, b, c, d, e, f, g) @ rest) =
    Some ((load_header hdr m0)\<lparr>SDMSerreqst_source := a, SDMSerreqst_destination := b, SDMSerreqst_command_id := c, SDMSerreqst_reply_id := d, SDMSerreqst_fault_id := e, SDMSerreqst_seq_num := f, SDMSerreqst_data := g @ drop (length g) (SDMSerreqst_data m0), SDMSerreqst_length := of_nat (length g)\<rparr>,
      int (11 + length (SDMSerreqst_enc (a, b, c, d, e, f, g))))"
proof -
  have "msg_length hdr - 28 = of_nat (length g)"
    using short_diff [of "msg_length hdr" 28 "length g"] assms(3) by (simp add: SDMSerreqst_enc_def)
  with SDMSerreqst_bounds(1) [OF assms(1)] assms show ?thesis
    by (simp add: SDMSerreqst_Unmarshal_def SDMSerreqst_enc_def SDMSerreqst_wf_def string_laws load_header_def cong: bind_head_cong)
qed

interpretation serreqst: sdm_class SDMSerreqst_Marshal SDMSerreqst_Unmarshal SDMSerreqst_view SDMSerreqst_enc SDMSerreqst_wf "\<lambda>_. True" SDM_Serreqst
proof (unfold_locales, goal_cases)
  case (4 m)
  then show ?case by (simp add: SDMSerreqst_fits)
next
  case (5 m buf now)
  then have "SDMSerreqst_Marshal now m buf = Some (marshalled now m (SDMSerreqst_enc (SDMSerreqst_view m)) buf)"
    by (simp add: SDMSerreqst_Marshal_eq)
  then show ?case
    by (rule marshalled_ok) (use 5(1) in \<open>simp_all add: SDMSerreqst_wf_def SDMSerreqst_view_def stamp_def set_length_def\<close>)
next
  case (6 m m0 h rest)
  have l: "sint (msg_length h) = int (length (SDMSerreqst_enc (SDMSerreqst_view m)))"
    using 6(5) SDMSerreqst_fits [OF 6(1)] by (simp add: sint_of_nat_16)
  note eq = SDMSerreqst_Unmarshal_eq [OF 6(3,4) l [unfolded SDMSerreqst_view_def] SDMSerreqst_bounds(2) [OF 6(1)], of rest]
  show ?case using 6(3) SDMSerreqst_bounds [OF 6(1)] SDMSerreqst_bounds(1) [OF 6(3)]
    by (simp only: SDMSerreqst_view_def eq) (simp add: SDMSerreqst_wf_def load_header_def payload_def sint_of_nat_16)
qed (simp_all add: SDMSerreqst_wf_def SDMSerreqst_view_def SDMSerreqst_Unmarshal_def UnmarshalHeader_wrong_name)

section \<open>SDMCode\<close>

record SDMCode = SDMmessage +
  SDMCode_seq_num :: "16 word"
  SDMCode_num_segments :: "16 word"
  SDMCode_filename :: buffer
  SDMCode_code_length :: "16 word"
  SDMCode_c_sum :: "32 word"
  SDMCode_code :: buffer

definition SDMCode_new :: "buffer \<Rightarrow> buffer \<Rightarrow> SDMCode" where
  "SDMCode_new filename code = SDMmessage.extend (new_message SDM_Code 9)
     \<lparr>SDMCode_seq_num = 0, SDMCode_num_segments = 0, SDMCode_filename = filename[0 := 0],
      SDMCode_code_length = 0, SDMCode_c_sum = 0, SDMCode_code = code\<rparr>"

definition SDMCode_Marshal :: "SDMCode marshal" where
  "SDMCode_Marshal now m buf = do {
     let cur = HEADER_SIZE;
     buf \<leftarrow> PUT_USHORT buf cur (SDMCode_seq_num m);
     let cur = cur + 2;
     buf \<leftarrow> PUT_USHORT buf cur (SDMCode_num_segments m);
     let cur = cur + 2;
     uiCurLength \<leftarrow> strlen (SDMCode_filename m) 0;
     buf \<leftarrow> strcpy buf cur (SDMCode_filename m) 0;
     let cur = cur + uiCurLength + 1;
     buf \<leftarrow> memcpy buf cur (SDMCode_code m) 0 (unat (SDMCode_code_length m));
     let cur = cur + unat (SDMCode_code_length m);
     c \<leftarrow> checksum (SDMCode_code m) (unat (SDMCode_code_length m));
     let m = m\<lparr>SDMCode_c_sum := c\<rparr>;
     buf \<leftarrow> PUT_INT buf cur (SDMCode_c_sum m);
     let cur = cur + 4;
     let m = set_length cur m;
     (m, buf, _) \<leftarrow> MarshalHeader now m buf;
     Some (m, buf, int cur) }"

text \<open>The code's length follows from the lengths of the message and of the file name that was stored.\<close>

definition SDMCode_Unmarshal :: "SDMCode unmarshal" where
  "SDMCode_Unmarshal m buf = do {
     (m, cur) \<leftarrow> UnmarshalHeader m buf;
     if cur = SDM_INVALID_MESSAGE then Some (m, SDM_INVALID_MESSAGE)
     else if sint (total_length m) > sint (msg_length m) then Some (m, SDM_INVALID_MESSAGE)
     else do {
       let cur = nat cur;
       v \<leftarrow> GET_USHORT buf cur;
       let m = m\<lparr>SDMCode_seq_num := v\<rparr>;
       let cur = cur + 2;
       v \<leftarrow> GET_USHORT buf cur;
       let m = m\<lparr>SDMCode_num_segments := v\<rparr>;
       let cur = cur + 2;
       (s, uiCurLength) \<leftarrow> copy_bounded (SDMCode_filename m) buf cur;
       let m = m\<lparr>SDMCode_filename := s\<rparr>;
       let cur = cur + uiCurLength + 1;
       k \<leftarrow> strlen (SDMCode_filename m) 0;
       let rest = sint (msg_length m) - (int k + 1) - 8;
       code \<leftarrow> memcpy_int (SDMCode_code m) 0 buf cur rest;
       let m = m\<lparr>SDMCode_code := code\<rparr>;
       let cur = nat (int cur + rest);
       let m = m\<lparr>SDMCode_code_length := of_int rest\<rparr>;
       c \<leftarrow> GET_INT buf cur;
       let m = m\<lparr>SDMCode_c_sum := c\<rparr>;
       let cur = cur + 4;
       Some (m, int cur) } }"

definition SDMCode_isCorrupt :: "SDMCode \<Rightarrow> bool option" where
  "SDMCode_isCorrupt m = do {
     let curr_csum = SDMCode_c_sum m;
     msg_csum \<leftarrow> checksum (SDMCode_code m) (unat (SDMCode_code_length m));
     Some (if curr_csum = msg_csum then False else True) }"

definition code_checksum :: "byte list \<Rightarrow> 32 word" where
  "code_checksum bs = cm_crc (checksum_loop (cm_ini crc32_model) bs)"

definition SDMCode_view :: "SDMCode \<Rightarrow> 16 word \<times> 16 word \<times> byte list \<times> byte list" where
  "SDMCode_view m = (SDMCode_seq_num m, SDMCode_num_segments m, cstr (SDMCode_filename m),
     take (unat (SDMCode_code_length m)) (SDMCode_code m))"

definition SDMCode_enc :: "16 word \<times> 16 word \<times> byte list \<times> byte list \<Rightarrow> byte list" where
  "SDMCode_enc = (\<lambda>(a, b, c, d). word_bytes 2 a @ word_bytes 2 b @ c @ [0] @ d @ word_bytes 4 (code_checksum d))"

definition SDMCode_wf :: "SDMCode \<Rightarrow> bool" where
  "SDMCode_wf m \<longleftrightarrow> MsgName m = SDM_Code \<and> total_length m = 9 \<and> is_cstr 128 (SDMCode_filename m)
     \<and> length (SDMCode_code m) = 24139 \<and> unat (SDMCode_code_length m) \<le> 24139"

lemma checksum_prefix: "n \<le> length msg \<Longrightarrow> checksum msg n = Some (code_checksum (take n msg))"
  by (simp add: checksum_def code_checksum_def get_bytes_def)

lemma SDMCode_bounds:
  assumes "SDMCode_wf m"
  shows "is_cstr 128 (SDMCode_filename m)" "length (SDMCode_filename m) = 128" "length (cstr (SDMCode_filename m)) < 128"
    "length (SDMCode_code m) = 24139" "length (take (unat (SDMCode_code_length m)) (SDMCode_code m)) \<le> 24139"
  using assms by (simp_all add: SDMCode_wf_def is_cstr_len is_cstr_length)

lemma SDMCode_fits: "SDMCode_wf m \<Longrightarrow> 11 + length (SDMCode_enc (SDMCode_view m)) \<le> BUFSIZE"
  using SDMCode_bounds [of m] by (simp add: SDMCode_view_def SDMCode_enc_def del: length_take)

lemma SDMCode_taken:
  assumes "SDMCode_wf m"
  shows "\<exists>p. take (unat (SDMCode_code_length m)) (SDMCode_code m) = p \<and> unat (SDMCode_code_length m) = length p
    \<and> get_bytes (SDMCode_code m) 0 (length p) = Some p \<and> checksum (SDMCode_code m) (length p) = Some (code_checksum p)"
  using assms by (simp add: SDMCode_wf_def get_bytes_def checksum_prefix)

lemma SDMCode_Marshal_eq:
  assumes "SDMCode_wf m" "11 + length (SDMCode_enc (SDMCode_view m)) \<le> length buf"
  shows "SDMCode_Marshal now m buf = Some (marshalled now
    (m\<lparr>SDMCode_c_sum := code_checksum (take (unat (SDMCode_code_length m)) (SDMCode_code m))\<rparr>)
    (SDMCode_enc (SDMCode_view m)) buf)"
proof -
  obtain p where p: "take (unat (SDMCode_code_length m)) (SDMCode_code m) = p" "unat (SDMCode_code_length m) = length p"
    "get_bytes (SDMCode_code m) 0 (length p) = Some p" "checksum (SDMCode_code m) (length p) = Some (code_checksum p)"
    using SDMCode_taken [OF assms(1)] by blast
  then have "take (length p) (SDMCode_code m) = p" "uint (SDMCode_code_length m) = int (length p)"
    by (simp_all flip: unat_eq_nat_uint) (metis p(2) int_nat_eq uint_nat)
  with SDMCode_bounds [OF assms(1)] assms(2) p(2-4) show ?thesis
    by (simp add: SDMCode_Marshal_def SDMCode_view_def SDMCode_enc_def put_laws cong: bind_head_cong)
qed

lemma SDMCode_Unmarshal_eq:
  assumes "SDMCode_wf m0" "MsgName hdr = SDM_Code" "0 \<notin> set c" "length c < 128" "length d + 4 = length e" "length d \<le> 24139"
    and "sint (msg_length hdr) = int (5 + length c + length e)" "e = d @ word_bytes 4 s"
  shows "SDMCode_Unmarshal m0 (header_bytes (hdr :: SDMmessage) @ (word_bytes 2 a @ word_bytes 2 b @ c @ [0] @ e) @ rest) =
    Some ((load_header hdr m0)\<lparr>SDMCode_seq_num := a, SDMCode_num_segments := b,
        SDMCode_filename := c @ replicate (128 - length c) 0,
        SDMCode_code_length := of_nat (length d), SDMCode_c_sum := s,
        SDMCode_code := d @ drop (length d) (SDMCode_code m0)\<rparr>,
      int (16 + length c + length e))"
proof -
  have f: "strlen (c @ replicate (128 - length c) 0) 0 = Some (length c)"
    using strlen_0 [OF is_cstr_padded [OF assms(4)]] assms(3,4) by (simp add: cstr_padded)
  have "nat (16 + int (length c) + int (length d)) = 16 + length c + length d" by simp
  with SDMCode_bounds [OF assms(1)] assms f show ?thesis
    by (simp add: SDMCode_Unmarshal_def SDMCode_wf_def string_laws load_header_def cong: bind_head_cong)
qed

lemma SDMCode_enc_eq: "SDMCode_enc (a, b, c, d) = word_bytes 2 a @ word_bytes 2 b @ c @ [0] @ (d @ word_bytes 4 (code_checksum d))"
  by (simp add: SDMCode_enc_def)

interpretation code: sdm_class SDMCode_Marshal SDMCode_Unmarshal SDMCode_view SDMCode_enc SDMCode_wf "\<lambda>_. True" SDM_Code
proof (unfold_locales, goal_cases)
  case (4 m)
  then show ?case by (simp add: SDMCode_fits)
next
  case (5 m buf now)
  then show ?case
    by (simp add: SDMCode_Marshal_eq marshalled_def) (simp add: SDMCode_wf_def SDMCode_view_def stamp_def set_length_def)
next
  case (6 m m0 h rest)
  let ?d = "take (unat (SDMCode_code_length m)) (SDMCode_code m)"
  let ?e = "?d @ word_bytes 4 (code_checksum ?d)"
  have l: "sint (msg_length h) = int (5 + length (cstr (SDMCode_filename m)) + length ?e)"
    using 6(5) SDMCode_fits [OF 6(1)] sint_of_nat_16 [of "length (SDMCode_enc (SDMCode_view m))"]
    by (simp add: SDMCode_view_def SDMCode_enc_def)
  have "length ?d + 4 = length ?e" by simp
  note eq = SDMCode_Unmarshal_eq [OF 6(3,4) cstr_no_null SDMCode_bounds(3) [OF 6(1)] this SDMCode_bounds(5) [OF 6(1)] l refl,
      of "SDMCode_seq_num m" "SDMCode_num_segments m" rest]
  have "unat (SDMCode_code_length m) \<le> 24139" using 6(1) by (simp add: SDMCode_wf_def)
  with 6(3) SDMCode_bounds [OF 6(1)] SDMCode_bounds [OF 6(3)] show ?case
    by (simp only: SDMCode_view_def SDMCode_enc_eq eq)
      (simp add: SDMCode_wf_def load_header_def string_views unat_of_nat_16)
qed (simp_all add: SDMCode_wf_def SDMCode_view_def SDMCode_Unmarshal_def UnmarshalHeader_wrong_name)

section \<open>SDMxTEDS\<close>

record SDMxTEDS = SDMmessage +
  SDMxTEDS_source :: SDMComponent_ID
  SDMxTEDS_active :: byte
  SDMxTEDS_xTEDS :: buffer
  SDMxTEDS_SPA_node :: buffer
  SDMxTEDS_pid :: "32 word"

definition SDMxTEDS_new :: "globals \<Rightarrow> buffer \<Rightarrow> buffer \<Rightarrow> SDMxTEDS" where
  "SDMxTEDS_new g xTEDS SPA_node = SDMmessage.extend (new_message SDM_xTEDS 17)
     \<lparr>SDMxTEDS_source = SDMComponent_ID_new, SDMxTEDS_active = 1, SDMxTEDS_xTEDS = xTEDS[0 := 0],
      SDMxTEDS_SPA_node = SPA_node[0 := 0], SDMxTEDS_pid = PID g\<rparr>"

text \<open>\<open>for (; i < sizeof(a); i++) if (a[i] == 0) break;\<close>\<close>

function scan_null :: "buffer \<Rightarrow> nat \<Rightarrow> nat" where
  "scan_null a i = (if i < length a then if a ! i = 0 then i else scan_null a (i + 1) else i)"
  by pat_completeness auto
termination by (relation "measure (\<lambda>(a, i). length a - i)") auto

declare scan_null.simps [simp del]

definition SDMxTEDS_Marshal :: "SDMxTEDS marshal" where
  "SDMxTEDS_Marshal now m buf = do {
     let cur = HEADER_SIZE;
     (buf, n) \<leftarrow> id_Marshal (SDMxTEDS_source m) buf cur;
     let cur = cur + n;
     buf \<leftarrow> PUT_CHAR buf cur (SDMxTEDS_active m);
     let cur = cur + 1;
     buf \<leftarrow> PUT_LONG buf cur (SDMxTEDS_pid m);
     let cur = cur + 4;
     let i = scan_null (SDMxTEDS_xTEDS m) 2;
     let i = (if i \<ge> length (SDMxTEDS_xTEDS m) - 1 then length (SDMxTEDS_xTEDS m) - 2 else i);
     buf \<leftarrow> memcpy buf cur (SDMxTEDS_xTEDS m) 0 (i + 1);
     let cur = cur + (i + 1);
     let j = scan_null (SDMxTEDS_SPA_node m) 0;
     let j = (if j < length (SDMxTEDS_SPA_node m) - 1 then j + 1 else j);
     buf \<leftarrow> memcpy buf cur (SDMxTEDS_SPA_node m) 0 j;
     let cur = cur + j;
     let m = set_length cur m;
     (m, buf, _) \<leftarrow> MarshalHeader now m buf;
     Some (m, buf, int cur) }"

text \<open>
  \<open>copy_or_cut\<close>: both strings are copied with their terminator if they fit and are cut and terminated otherwise.
  The sequence numbers of a segment are compared as signed \<^verbatim>\<open>char\<close>s.
\<close>

definition copy_or_cut :: "buffer \<Rightarrow> buffer \<Rightarrow> nat \<Rightarrow> nat \<Rightarrow> buffer option" where
  "copy_or_cut fld buf cur len =
     (if len \<ge> length fld - 1 then do {
        fld \<leftarrow> strncpy fld 0 buf cur (length fld);
        put_byte fld (length fld - 1) 0 }
      else memcpy fld 0 buf cur (len + 1))"

definition SDMxTEDS_IsSegmented :: "buffer \<Rightarrow> nat \<Rightarrow> bool option" where
  "SDMxTEDS_IsSegmented buf cur = do {
     b0 \<leftarrow> get_byte buf cur;
     if sint b0 \<le> 15 then do {
       b1 \<leftarrow> get_byte buf (cur + 1);
       if sint b1 \<le> 16 then do {
         b2 \<leftarrow> get_byte buf (cur + 2);
         Some (sint b2 > 15) }
       else Some False }
     else Some False }"

definition SDMxTEDS_xteds_length :: "buffer \<Rightarrow> nat \<Rightarrow> nat option" where
  "SDMxTEDS_xteds_length buf cur = do {
     IsSegmented \<leftarrow> SDMxTEDS_IsSegmented buf cur;
     if IsSegmented then do { k \<leftarrow> strlen buf (cur + 2); Some (k + 2) } else strlen buf cur }"

definition SDMxTEDS_Unmarshal :: "SDMxTEDS unmarshal" where
  "SDMxTEDS_Unmarshal m buf = do {
     (m, cur) \<leftarrow> UnmarshalHeader m buf;
     if cur = SDM_INVALID_MESSAGE then Some (m, SDM_INVALID_MESSAGE)
     else if sint (total_length m) > sint (msg_length m) then Some (m, SDM_INVALID_MESSAGE)
     else do {
       let cur = nat cur;
       (c, n) \<leftarrow> id_Unmarshal (SDMxTEDS_source m) buf cur;
       let m = m\<lparr>SDMxTEDS_source := c\<rparr>;
       let cur = cur + n;
       v \<leftarrow> GET_CHAR buf cur;
       let m = m\<lparr>SDMxTEDS_active := v\<rparr>;
       let cur = cur + 1;
       v \<leftarrow> GET_LONG buf cur;
       let m = m\<lparr>SDMxTEDS_pid := v\<rparr>;
       let cur = cur + 4;
       xteds_length \<leftarrow> SDMxTEDS_xteds_length buf cur;
       x \<leftarrow> copy_or_cut (SDMxTEDS_xTEDS m) buf cur xteds_length;
       let m = m\<lparr>SDMxTEDS_xTEDS := x\<rparr>;
       let cur = cur + (xteds_length + 1);
       usb_length \<leftarrow> strlen buf cur;
       u \<leftarrow> copy_or_cut (SDMxTEDS_SPA_node m) buf cur usb_length;
       let m = m\<lparr>SDMxTEDS_SPA_node := u\<rparr>;
       let cur = cur + (usb_length + 1);
       Some (m, int cur) } }"

definition SDMxTEDS_Send :: "SDMxTEDS sender" where
  "SDMxTEDS_Send = SendDM SDMxTEDS_Marshal"

definition SDMxTEDS_Recv :: "net \<Rightarrow> SDMxTEDS \<Rightarrow> 32 word \<Rightarrow> (SDMxTEDS \<times> int) option" where
  "SDMxTEDS_Recv = Recv_checked SDMxTEDS_Unmarshal"

definition SDMxTEDS_setPID :: "globals \<Rightarrow> SDMxTEDS \<Rightarrow> SDMxTEDS" where
  "SDMxTEDS_setPID g m = m\<lparr>SDMxTEDS_pid := PID g\<rparr>"

text \<open>
  The text of an xTEDS or of one of its segments: a segment starts with two sequence bytes, which may
  be zero; the text of a whole xTEDS has no zero in its first two bytes.
\<close>

definition xteds_text :: "byte list \<Rightarrow> bool" where
  "xteds_text s \<longleftrightarrow> 2 \<le> length s \<and> 0 \<notin> set (drop 2 s) \<and>
     (sint (s ! 0) \<le> 15 \<and> sint (s ! 1) \<le> 16 \<and> 2 < length s \<and> sint (s ! 2) > 15 \<or> s ! 0 \<noteq> 0 \<and> s ! 1 \<noteq> 0)"

definition SDMxTEDS_view :: "SDMxTEDS \<Rightarrow> SDMComponent_ID \<times> byte \<times> 32 word \<times> byte list \<times> byte list" where
  "SDMxTEDS_view m = (SDMxTEDS_source m, SDMxTEDS_active m, SDMxTEDS_pid m,
     take (scan_null (SDMxTEDS_xTEDS m) 2) (SDMxTEDS_xTEDS m), cstr (SDMxTEDS_SPA_node m))"

definition SDMxTEDS_enc :: "SDMComponent_ID \<times> byte \<times> 32 word \<times> byte list \<times> byte list \<Rightarrow> byte list" where
  "SDMxTEDS_enc = (\<lambda>(a, b, c, d, e). id_bytes a @ [b] @ word_bytes 4 c @ d @ [0] @ e @ [0])"

definition SDMxTEDS_wf :: "SDMxTEDS \<Rightarrow> bool" where
  "SDMxTEDS_wf m \<longleftrightarrow> MsgName m = SDM_xTEDS \<and> total_length m = 17
     \<and> length (SDMxTEDS_xTEDS m) = 24183 \<and> length (SDMxTEDS_SPA_node m) = 80"

definition SDMxTEDS_ready :: "SDMxTEDS \<Rightarrow> bool" where
  "SDMxTEDS_ready m \<longleftrightarrow> scan_null (SDMxTEDS_xTEDS m) 2 < 24182
     \<and> xteds_text (take (scan_null (SDMxTEDS_xTEDS m) 2) (SDMxTEDS_xTEDS m))
     \<and> is_cstr 80 (SDMxTEDS_SPA_node m) \<and> length (cstr (SDMxTEDS_SPA_node m)) < 79"

lemma scan_null_eq: "i \<le> length a \<Longrightarrow> scan_null a i = i + length (takeWhile (\<lambda>b. b \<noteq> 0) (drop i a))"
proof (induction a i rule: scan_null.induct)
  case (1 a i)
  show ?case
  proof (cases "i < length a")
    case True
    then have "drop i a = a ! i # drop (Suc i) a" by (simp add: Cons_nth_drop_Suc)
    with 1 True show ?thesis by (simp add: scan_null.simps [of a i])
  next
    case False
    with 1(2) show ?thesis by (simp add: scan_null.simps [of a "length a"])
  qed
qed

lemma scan_null_text:
  assumes "2 \<le> length s" "0 \<notin> set (drop 2 s)"
  shows "scan_null (s @ 0 # r) 2 = length s"
proof -
  have "takeWhile (\<lambda>b. b \<noteq> 0) (drop 2 s @ 0 # r) = drop 2 s"
    using assms(2) cstr_append_null [of "drop 2 s" r] by (simp add: cstr_def)
  with assms(1) show ?thesis by (simp add: scan_null_eq)
qed

lemma scan_null_0: "scan_null a 0 = length (cstr a)"
  by (simp add: scan_null_eq cstr_def)

lemma scan_null_get:
  assumes "i \<le> length a" "scan_null a i < length a"
  shows "get_bytes a 0 (Suc (scan_null a i)) = Some (take (scan_null a i) a @ [0])"
proof -
  let ?t = "takeWhile (\<lambda>b. b \<noteq> 0) (drop i a)"
  have "length ?t < length (drop i a)" using assms by (simp add: scan_null_eq)
  then have "\<not> (drop i a ! length ?t \<noteq> 0)" by (rule nth_length_takeWhile)
  then have "a ! scan_null a i = 0" using assms by (simp add: scan_null_eq)
  with assms(2) show ?thesis by (simp add: get_bytes_def take_Suc_conv_app_nth)
qed

lemma SDMxTEDS_bounds:
  assumes "SDMxTEDS_wf m" "SDMxTEDS_ready m"
  shows "scan_null (SDMxTEDS_xTEDS m) 2 = length (take (scan_null (SDMxTEDS_xTEDS m) 2) (SDMxTEDS_xTEDS m))"
    "length (take (scan_null (SDMxTEDS_xTEDS m) 2) (SDMxTEDS_xTEDS m)) < 24182" "length (cstr (SDMxTEDS_SPA_node m)) < 79"
    "xteds_text (take (scan_null (SDMxTEDS_xTEDS m) 2) (SDMxTEDS_xTEDS m))"
  using assms by (simp_all add: SDMxTEDS_wf_def SDMxTEDS_ready_def)

lemma SDMxTEDS_fits: "SDMxTEDS_wf m \<Longrightarrow> SDMxTEDS_ready m \<Longrightarrow> 11 + length (SDMxTEDS_enc (SDMxTEDS_view m)) \<le> BUFSIZE"
  using SDMxTEDS_bounds(2,3) [of m] by (simp add: SDMxTEDS_view_def SDMxTEDS_enc_def del: length_take)

lemma SDMxTEDS_Marshal_eq:
  assumes "SDMxTEDS_wf m" "SDMxTEDS_ready m" "11 + length (SDMxTEDS_enc (SDMxTEDS_view m)) \<le> length buf"
  shows "SDMxTEDS_Marshal now m buf = Some (marshalled now m (SDMxTEDS_enc (SDMxTEDS_view m)) buf)"
proof -
  let ?x = "SDMxTEDS_xTEDS m"
  have "get_bytes ?x 0 (Suc (scan_null ?x 2)) = Some (take (scan_null ?x 2) ?x @ [0])"
    by (rule scan_null_get) (use assms in \<open>simp_all add: SDMxTEDS_wf_def SDMxTEDS_ready_def\<close>)
  then obtain p where p: "take (scan_null ?x 2) ?x = p" "scan_null ?x 2 = length p" "get_bytes ?x 0 (Suc (length p)) = Some (p @ [0])"
    using SDMxTEDS_bounds(1) [OF assms(1,2)] by (metis (no_types))
  moreover from p(1,2) have "take (length p) ?x = p" by simp
  moreover have "is_cstr 80 (SDMxTEDS_SPA_node m)" "length (cstr (SDMxTEDS_SPA_node m)) < 79" "length p < 24182"
    "length (SDMxTEDS_xTEDS m) = 24183" "length (SDMxTEDS_SPA_node m) = 80"
    using assms p(2) by (simp_all add: SDMxTEDS_ready_def SDMxTEDS_wf_def)
  ultimately show ?thesis using assms(3)
    by (simp add: SDMxTEDS_Marshal_def SDMxTEDS_view_def SDMxTEDS_enc_def scan_null_0 put_laws cong: bind_head_cong)
qed

lemma copy_or_cut_at [get_at]:
  assumes "drop n buf = s @ 0 # rest" "length s + 1 < length fld" "k = length s"
  shows "copy_or_cut fld buf n k = Some (s @ 0 # drop (Suc (length s)) fld)"
proof -
  have "memcpy fld 0 buf n (Suc (length s)) = Some ((s @ [0]) @ drop (Suc (length s)) fld)"
  proof (rule memcpy_at [where rest = rest])
    show "n \<le> length buf" using assms(1) by (metis append_is_Nil_conv drop_all list.distinct(1) nle_le)
  qed (use assms in simp_all)
  moreover have "\<not> length fld - 1 \<le> length s" using assms(2) by linarith
  ultimately show ?thesis using assms by (simp add: copy_or_cut_def)
qed

lemma drop_further: "drop n buf = x @ y \<Longrightarrow> length x = k \<Longrightarrow> drop (n + k) buf = y"
  by (metis add.commute append_eq_conv_conj drop_drop)

lemma IsSegmented_at:
  assumes "drop n buf = s @ 0 # rest" "xteds_text s"
  obtains b where "SDMxTEDS_IsSegmented buf n = Some b" "\<not> b \<Longrightarrow> s ! 0 \<noteq> 0 \<and> s ! 1 \<noteq> 0"
proof -
  obtain x y t where s: "s = x # y # t" using assms(2) by (auto simp: xteds_text_def numeral_2_eq_2 Suc_le_length_iff)
  have d: "drop (n + 1) buf = y # t @ 0 # rest" "drop (n + 2) buf = t @ 0 # rest"
    using drop_further [of n buf "[x]" "y # t @ 0 # rest"] drop_further [of n buf "[x, y]" "t @ 0 # rest"] assms(1) s
    by simp_all
  then have "get_byte buf n = Some x" "get_byte buf (n + 1) = Some y" "get_byte buf (n + 2) = Some (hd (t @ [0]))"
    using assms(1) s get_byte_at [of n] get_byte_at [of "n + 1"] get_byte_at [of "n + 2"] by (simp, simp, cases t) simp_all
  then have seg: "SDMxTEDS_IsSegmented buf n = Some (sint x \<le> 15 \<and> sint y \<le> 16 \<and> 15 < sint (hd (t @ [0])))"
    by (simp add: SDMxTEDS_IsSegmented_def)
  have "t \<noteq> [] \<Longrightarrow> hd (t @ [0]) = s ! 2" using s by (cases t) simp_all
  then show thesis using assms(2) s by (intro that [OF seg]) (auto simp: xteds_text_def)
qed

lemma xteds_length_at [get_at]:
  assumes "drop n buf = s @ 0 # rest" "xteds_text s"
  shows "SDMxTEDS_xteds_length buf n = Some (length s)"
proof -
  obtain b where b: "SDMxTEDS_IsSegmented buf n = Some b" "\<not> b \<Longrightarrow> s ! 0 \<noteq> 0 \<and> s ! 1 \<noteq> 0"
    using IsSegmented_at [OF assms] by blast
  have l: "2 \<le> length s" "0 \<notin> set (drop 2 s)" using assms(2) by (simp_all add: xteds_text_def)
  have "drop (n + 2) buf = drop 2 s @ 0 # rest"
    by (rule drop_further [where x = "take 2 s"]) (use assms(1) l in \<open>simp_all flip: append_assoc\<close>)
  then have "strlen buf (n + 2) = Some (length s - 2)" using strlen_at l(2) by fastforce
  moreover have "strlen buf n = Some (length s)" if "\<not> b"
  proof -
    obtain x y t where "s = x # y # t" using l by (auto simp: numeral_2_eq_2 Suc_le_length_iff)
    with b(2) [OF that] l have "0 \<notin> set s" by auto
    with assms(1) show ?thesis by (rule strlen_at)
  qed
  ultimately show ?thesis using b(1) l by (cases b) (simp_all add: SDMxTEDS_xteds_length_def)
qed

lemma SDMxTEDS_Unmarshal_eq:
  assumes "SDMxTEDS_wf m0" "MsgName hdr = SDM_xTEDS" "sint (msg_length hdr) = int (length (SDMxTEDS_enc (a, b, c, d, e)))"
    and "xteds_text d" "length d < 24182" "0 \<notin> set e" "length e < 79"
  shows "SDMxTEDS_Unmarshal m0 (header_bytes (hdr :: SDMmessage) @ SDMxTEDS_enc (a, b, c, d, e) @ rest) =
    Some ((load_header hdr m0)\<lparr>SDMxTEDS_source := a, SDMxTEDS_active := b, SDMxTEDS_pid := c,
        SDMxTEDS_xTEDS := d @ 0 # drop (Suc (length d)) (SDMxTEDS_xTEDS m0),
        SDMxTEDS_SPA_node := e @ 0 # drop (Suc (length e)) (SDMxTEDS_SPA_node m0)\<rparr>,
      int (11 + length (SDMxTEDS_enc (a, b, c, d, e))))"
proof -
  have "2 \<le> length d" using assms(4) by (simp add: xteds_text_def)
  with assms show ?thesis
    by (simp add: SDMxTEDS_Unmarshal_def SDMxTEDS_enc_def SDMxTEDS_wf_def string_laws copy_or_cut_at xteds_length_at load_header_def cong: bind_head_cong)
qed

interpretation xteds: sdm_class SDMxTEDS_Marshal SDMxTEDS_Unmarshal SDMxTEDS_view SDMxTEDS_enc SDMxTEDS_wf SDMxTEDS_ready SDM_xTEDS
proof (unfold_locales, goal_cases)
  case (4 m)
  then show ?case by (simp add: SDMxTEDS_fits)
next
  case (5 m buf now)
  then have "SDMxTEDS_Marshal now m buf = Some (marshalled now m (SDMxTEDS_enc (SDMxTEDS_view m)) buf)"
    by (simp add: SDMxTEDS_Marshal_eq)
  then show ?case
    by (rule marshalled_ok) (use 5(1) in \<open>simp_all add: SDMxTEDS_wf_def SDMxTEDS_view_def stamp_def set_length_def\<close>)
next
  case (6 m m0 h rest)
  have l: "sint (msg_length h) = int (length (SDMxTEDS_enc (SDMxTEDS_view m)))"
    using 6(5) SDMxTEDS_fits [OF 6(1,2)] by (simp add: sint_of_nat_16)
  note B = SDMxTEDS_bounds [OF 6(1,2)]
  note eq = SDMxTEDS_Unmarshal_eq [OF 6(3,4) l [unfolded SDMxTEDS_view_def] B(4,2) cstr_no_null B(3), of rest]
  let ?d = "take (scan_null (SDMxTEDS_xTEDS m) 2) (SDMxTEDS_xTEDS m)"
  have "scan_null (?d @ 0 # r) 2 = length ?d" for r
    using B(4) by (intro scan_null_text) (simp_all add: xteds_text_def)
  with 6(3) B(2,3) show ?case
    by (simp only: SDMxTEDS_view_def eq) (simp add: SDMxTEDS_wf_def load_header_def min_def)
qed (simp_all add: SDMxTEDS_wf_def SDMxTEDS_view_def SDMxTEDS_Unmarshal_def UnmarshalHeader_wrong_name)

end
