(* ===== verification/Message_Properties.thy ===== *)
theory Message_Properties
  imports Messages_Fixed Messages_Data
begin

text \<open>
  The properties of the message layer that the 36 classes and the transport methods give together.
  Each follows from the interpretations of \<open>sdm_class\<close>.
\<close>

section \<open>Round trips and rejection\<close>

lemma is_cstr_ctor: "length a = n \<Longrightarrow> 0 < n \<Longrightarrow> is_cstr n (a[0 := 0])"
  by (cases a) (simp_all add: is_cstr_def)

lemma is_matches_ctor: "0 < length a \<Longrightarrow> is_matches (a[0 := 0])"
  by (cases a) (simp_all add: is_matches.simps)

lemmas ctor_simps = new_message_def SDMmessage.defs is_cstr_ctor is_matches_ctor payload_def

text \<open>An object whose datagram, whole as it is, every object of its class refuses.\<close>

definition refused ::
    "('a SDMmessage_scheme) marshal \<Rightarrow> ('a SDMmessage_scheme) unmarshal \<Rightarrow> ('a SDMmessage_scheme \<Rightarrow> bool) \<Rightarrow> 'a SDMmessage_scheme \<Rightarrow> bool" where
  "refused Marshal Unmarshal wf_object m = (\<forall>now buf m0. wf_object m0 \<and> length buf = BUFSIZE \<longrightarrow>
     (\<exists>m1 buf' n m2. Marshal now m buf = Some (m1, buf', int n) \<and> Unmarshal m0 (take n buf') = Some (m2, SDM_INVALID_MESSAGE)))"

text \<open>
  \<open>SDMCancelxTEDS::Marshal\<close> writes the header before it sets the length. An object that did not have
  the length already (a fresh one has length 0; only \<open>Send\<close> sets it) is marshalled into a datagram
  of the right 22 bytes that every receiver refuses.
\<close>

theorem CancelxTEDS_Marshal_stale_length:
  assumes "SDMCancelxTEDS_wf m" "msg_length m \<notin> {10, 11}" "SDMCancelxTEDS_wf m0" "22 \<le> length buf"
  shows "\<exists>m1 buf' m2. SDMCancelxTEDS_Marshal now m buf = Some (m1, buf', 22) \<and>
    SDMCancelxTEDS_Unmarshal m0 (take 22 buf') = Some (m2, SDM_INVALID_MESSAGE)"
proof -
  let ?h = "\<lparr>MsgName = SDM_CancelxTEDS, sec = fst now, subsec = snd now, msg_length = msg_length m, total_length = 0, bound = 0\<rparr>"
  have "header_bytes (stamp now m) = header_bytes ?h"
    by (rule header_bytes_cong) (use assms(1) in \<open>simp_all add: SDMCancelxTEDS_wf_def\<close>)
  moreover have "length (SDMCancelxTEDS_enc (SDMCancelxTEDS_view m)) = 11" by (simp add: SDMCancelxTEDS_members)
  moreover have "rejects_length SDMCancelxTEDS_Unmarshal SDMCancelxTEDS_wf SDM_CancelxTEDS {10, 11}"
    unfolding rejects_length_def by (simp add: SDMCancelxTEDS_Unmarshal_def SDMCancelxTEDS_wf_def UnmarshalHeader_eq)
  then have "SDMCancelxTEDS_Unmarshal m0 (header_bytes ?h @ r) = Some (load_header ?h m0, SDM_INVALID_MESSAGE)" for r
    unfolding rejects_length_def using assms(2,3) by (metis SDMmessage.select_convs(1,4))
  ultimately show ?thesis using assms(4) by (simp add: SDMCancelxTEDS_Marshal_eq)
qed

theorem CancelxTEDS_Marshal_stale_length_witness:
  "\<exists>m1 buf' m2. SDMCancelxTEDS_Marshal (3, 4) SDMCancelxTEDS_new (replicate 24288 0) = Some (m1, buf', 22) \<and>
    SDMCancelxTEDS_Unmarshal SDMCancelxTEDS_new (take 22 buf') = Some (m2, SDM_INVALID_MESSAGE)"
  by (rule CancelxTEDS_Marshal_stale_length)
    (simp_all add: SDMCancelxTEDS_wf_def SDMCancelxTEDS_new_def new_message_def SDMmessage.defs)

lemma cancelxteds_fresh_refused: "refused SDMCancelxTEDS_Marshal SDMCancelxTEDS_Unmarshal SDMCancelxTEDS_wf SDMCancelxTEDS_new"
  unfolding refused_def
proof (intro allI impI)
  fix now buf m0 assume h: "SDMCancelxTEDS_wf m0 \<and> length (buf :: buffer) = BUFSIZE"
  have "SDMCancelxTEDS_wf SDMCancelxTEDS_new" "msg_length SDMCancelxTEDS_new \<notin> {10, 11}"
    by (simp_all add: SDMCancelxTEDS_wf_def SDMCancelxTEDS_new_def new_message_def SDMmessage.defs)
  from CancelxTEDS_Marshal_stale_length [OF this, of m0 buf now] h
  obtain m1 buf' m2 where "SDMCancelxTEDS_Marshal now SDMCancelxTEDS_new buf = Some (m1, buf', int 22)"
    "SDMCancelxTEDS_Unmarshal m0 (take 22 buf') = Some (m2, SDM_INVALID_MESSAGE)" by auto
  then show "\<exists>m1 buf' n m2. SDMCancelxTEDS_Marshal now SDMCancelxTEDS_new buf = Some (m1, buf', int n)
      \<and> SDMCancelxTEDS_Unmarshal m0 (take n buf') = Some (m2, SDM_INVALID_MESSAGE)"
    by blast
qed

text \<open>
  C12. The message classes of fixed length round-trip, except that a fresh cancellation of an xTEDS does not: what any
  object of the class marshals, any object of the class unmarshals to the same value, time stamp and byte count,
  whatever follows in the buffer, and freshly constructed objects satisfy the class invariant. An SDMElection has to
  have length 0, as a fresh one has. An SDMCancelxTEDS has to have length 11 before it is marshalled, because its header
  is written first; \<open>Send\<close> sets it, but a fresh object does not have it, and what \<open>Marshal\<close> makes of that is
  refused by every SDMCancelxTEDS.
\<close>

theorem fixed_classes_roundtrip:
  "SDMAck_wf SDMAck_new \<and> roundtrips SDMAck_Marshal SDMAck_Unmarshal SDMAck_view SDMAck_wf (\<lambda>_. True)
   \<and> SDMCancel_wf SDMCancel_new \<and> roundtrips SDMCancel_Marshal SDMCancel_Unmarshal SDMCancel_view SDMCancel_wf (\<lambda>_. True)
   \<and> SDMConsume_wf SDMConsume_new \<and> roundtrips SDMConsume_Marshal SDMConsume_Unmarshal SDMConsume_view SDMConsume_wf (\<lambda>_. True)
   \<and> SDMDeletesub_wf SDMDeletesub_new \<and> roundtrips SDMDeletesub_Marshal SDMDeletesub_Unmarshal SDMDeletesub_view SDMDeletesub_wf (\<lambda>_. True)
   \<and> SDMDMLeader_wf SDMDMLeader_new \<and> roundtrips SDMDMLeader_Marshal SDMDMLeader_Unmarshal SDMDMLeader_view SDMDMLeader_wf (\<lambda>_. True)
   \<and> SDMHeartbeat_wf SDMHeartbeat_new \<and> roundtrips SDMHeartbeat_Marshal SDMHeartbeat_Unmarshal SDMHeartbeat_view SDMHeartbeat_wf (\<lambda>_. True)
   \<and> SDMHello_wf SDMHello_new \<and> roundtrips SDMHello_Marshal SDMHello_Unmarshal SDMHello_view SDMHello_wf (\<lambda>_. True)
   \<and> SDMID_wf SDMID_new \<and> roundtrips SDMID_Marshal SDMID_Unmarshal SDMID_view SDMID_wf (\<lambda>_. True)
   \<and> SDMReady_wf SDMReady_new \<and> roundtrips SDMReady_Marshal SDMReady_Unmarshal SDMReady_view SDMReady_wf (\<lambda>_. True)
   \<and> SDMRegPM_wf SDMRegPM_new \<and> roundtrips SDMRegPM_Marshal SDMRegPM_Unmarshal SDMRegPM_view SDMRegPM_wf (\<lambda>_. True)
   \<and> SDMRegister_wf SDMRegister_new \<and> roundtrips SDMRegister_Marshal SDMRegister_Unmarshal SDMRegister_view SDMRegister_wf (\<lambda>_. True)
   \<and> SDMSubreqst_wf SDMSubreqst_new \<and> roundtrips SDMSubreqst_Marshal SDMSubreqst_Unmarshal SDMSubreqst_view SDMSubreqst_wf (\<lambda>_. True)
   \<and> SDMTat_wf SDMTat_new \<and> roundtrips SDMTat_Marshal SDMTat_Unmarshal SDMTat_view SDMTat_wf (\<lambda>_. True)
   \<and> SDMKill_wf SDMKill_new \<and> roundtrips SDMKill_Marshal SDMKill_Unmarshal SDMKill_view SDMKill_wf (\<lambda>_. True)
   \<and> SDMCancelxTEDS_wf SDMCancelxTEDS_new \<and> roundtrips SDMCancelxTEDS_Marshal SDMCancelxTEDS_Unmarshal SDMCancelxTEDS_view SDMCancelxTEDS_wf SDMCancelxTEDS_ready
   \<and> SDMElection_wf SDMElection_new \<and> roundtrips SDMElection_Marshal SDMElection_Unmarshal (\<lambda>_. ()) SDMElection_wf SDMElection_ready
   \<and> SDMElection_ready SDMElection_new \<and> \<not> SDMCancelxTEDS_ready SDMCancelxTEDS_new
   \<and> refused SDMCancelxTEDS_Marshal SDMCancelxTEDS_Unmarshal SDMCancelxTEDS_wf SDMCancelxTEDS_new"
  by (intro conjI; (rule ack.class_roundtrips cancel.class_roundtrips consume.class_roundtrips deletesub.class_roundtrips dmleader.class_roundtrips heartbeat.class_roundtrips hello.class_roundtrips sdmid.class_roundtrips ready_msg.class_roundtrips regpm.class_roundtrips register.class_roundtrips subreqst.class_roundtrips tat.class_roundtrips kill.class_roundtrips cancelxteds.class_roundtrips election.class_roundtrips cancelxteds_fresh_refused)?)
    (simp_all add: SDMAck_new_def SDMCancel_new_def SDMConsume_new_def SDMDeletesub_new_def SDMDMLeader_new_def SDMHeartbeat_new_def SDMHello_new_def SDMID_new_def SDMReady_new_def SDMRegPM_new_def SDMRegister_new_def SDMSubreqst_new_def SDMTat_new_def SDMKill_new_def SDMCancelxTEDS_new_def SDMElection_new_def SDMAck_wf_def SDMCancel_wf_def SDMConsume_wf_def SDMDeletesub_wf_def SDMDMLeader_wf_def SDMHeartbeat_wf_def SDMHello_wf_def SDMID_wf_def SDMReady_wf_def SDMRegPM_wf_def SDMRegister_wf_def SDMSubreqst_wf_def SDMTat_wf_def SDMKill_wf_def SDMCancelxTEDS_wf_def SDMElection_wf_def SDMElection_ready_def SDMCancelxTEDS_ready_def ctor_simps)

text \<open>
  C13. Every message class with string members round-trips, up to the largest strings its members hold
  (a search expression has to be one byte shorter than its member): the strings arrive as they were sent.
\<close>

theorem string_classes_roundtrip:
  "SDMError_wf SDMError_new \<and> roundtrips SDMError_Marshal SDMError_Unmarshal SDMError_view SDMError_wf (\<lambda>_. True)
   \<and> SDMPostTask_wf (SDMPostTask_new (replicate 128 255)) \<and> roundtrips SDMPostTask_Marshal SDMPostTask_Unmarshal SDMPostTask_view SDMPostTask_wf (\<lambda>_. True)
   \<and> SDMReqCode_wf (SDMReqCode_new (replicate 128 255)) \<and> roundtrips SDMReqCode_Marshal SDMReqCode_Unmarshal SDMReqCode_view SDMReqCode_wf (\<lambda>_. True)
   \<and> SDMReqReg_wf (SDMReqReg_new (replicate 33 255) (replicate 33 255) (replicate 33 255) (replicate 1024 255)) \<and> roundtrips SDMReqReg_Marshal SDMReqReg_Unmarshal SDMReqReg_view SDMReqReg_wf (\<lambda>_. True)
   \<and> SDMTask_wf (SDMTask_new (replicate 128 255)) \<and> roundtrips SDMTask_Marshal SDMTask_Unmarshal SDMTask_view SDMTask_wf (\<lambda>_. True)
   \<and> SDMTaskError_wf (SDMTaskError_new (replicate 128 255)) \<and> roundtrips SDMTaskError_Marshal SDMTaskError_Unmarshal SDMTaskError_view SDMTaskError_wf (\<lambda>_. True)
   \<and> SDMTaskFinished_wf (SDMTaskFinished_new (replicate 128 255)) \<and> roundtrips SDMTaskFinished_Marshal SDMTaskFinished_Unmarshal SDMTaskFinished_view SDMTaskFinished_wf (\<lambda>_. True)
   \<and> SDMVarReq_wf (SDMVarReq_new (replicate 33 255)) \<and> roundtrips SDMVarReq_Marshal SDMVarReq_Unmarshal SDMVarReq_view SDMVarReq_wf (\<lambda>_. True)
   \<and> SDMSearch_wf (SDMSearch_new (replicate 24255 255)) \<and> roundtrips SDMSearch_Marshal SDMSearch_Unmarshal SDMSearch_view SDMSearch_wf (\<lambda>m. length (cstr (SDMSearch_reg_expr m)) \<le> 24253)
   \<and> SDMRegInfo_wf (SDMRegInfo_new (replicate 12130 255) (replicate 12130 255)) \<and> roundtrips SDMRegInfo_Marshal SDMRegInfo_Unmarshal SDMRegInfo_view SDMRegInfo_wf (\<lambda>m. \<not> SDMRegInfo_emptyflag m)
   \<and> SDMVarInfo_wf (SDMVarInfo_new (replicate 33 255) (replicate 24210 255)) \<and> roundtrips SDMVarInfo_Marshal SDMVarInfo_Unmarshal SDMVarInfo_view SDMVarInfo_wf (\<lambda>m. \<not> SDMVarInfo_emptyflag m)
   \<and> SDMxTEDSInfo_wf (SDMxTEDSInfo_new (replicate 24267 255)) \<and> roundtrips SDMxTEDSInfo_Marshal SDMxTEDSInfo_Unmarshal SDMxTEDSInfo_view SDMxTEDSInfo_wf (\<lambda>m. \<not> SDMxTEDSInfo_emptyflag m)
   \<and> SDMReqxTEDS_wf (SDMReqxTEDS_new (replicate 33 255)) \<and> roundtrips SDMReqxTEDS_Marshal SDMReqxTEDS_Unmarshal SDMReqxTEDS_view SDMReqxTEDS_wf SDMReqxTEDS_ready
   \<and> SDMSearchReply_wf (SDMSearchReply_new (replicate 24265 255)) \<and> roundtrips SDMSearchReply_Marshal SDMSearchReply_Unmarshal SDMSearchReply_view SDMSearchReply_wf (\<lambda>m. \<not> SDMSearchReply_emptyflag m)"
  by (intro conjI; (rule error_msg.class_roundtrips posttask.class_roundtrips reqcode.class_roundtrips reqreg.class_roundtrips task_msg.class_roundtrips taskerror.class_roundtrips taskfinished.class_roundtrips varreq.class_roundtrips search.class_roundtrips reginfo.class_roundtrips varinfo.class_roundtrips xtedsinfo.class_roundtrips reqxteds.class_roundtrips searchreply.class_roundtrips)?)
    (simp_all add: SDMError_new_def SDMPostTask_new_def SDMReqCode_new_def SDMReqReg_new_def SDMTask_new_def SDMTaskError_new_def SDMTaskFinished_new_def SDMVarReq_new_def SDMSearch_new_def SDMRegInfo_new_def SDMVarInfo_new_def SDMxTEDSInfo_new_def SDMReqxTEDS_new_def SDMSearchReply_new_def SDMError_wf_def SDMPostTask_wf_def SDMReqCode_wf_def SDMReqReg_wf_def SDMTask_wf_def SDMTaskError_wf_def SDMTaskFinished_wf_def SDMVarReq_wf_def SDMSearch_wf_def SDMRegInfo_wf_def SDMVarInfo_wf_def SDMxTEDSInfo_wf_def SDMReqxTEDS_wf_def SDMSearchReply_wf_def ctor_simps)

text \<open>
  C14. The message classes that carry raw data round-trip for every length up to the capacity of their
  payload, code segments with their checksum and xTEDS both whole and segmented.
\<close>

theorem data_classes_roundtrip:
  "SDMData_wf (SDMData_new g (replicate 24259 255)) \<and> roundtrips SDMData_Marshal SDMData_Unmarshal SDMData_view SDMData_wf (\<lambda>_. True)
   \<and> SDMService_wf (SDMService_new (replicate 24253 255)) \<and> roundtrips SDMService_Marshal SDMService_Unmarshal SDMService_view SDMService_wf (\<lambda>_. True)
   \<and> SDMCommand_wf (SDMCommand_new (replicate 24253 255)) \<and> roundtrips SDMCommand_Marshal SDMCommand_Unmarshal SDMCommand_view SDMCommand_wf (\<lambda>_. True)
   \<and> SDMSerreqst_wf (SDMSerreqst_new (replicate 24249 255)) \<and> roundtrips SDMSerreqst_Marshal SDMSerreqst_Unmarshal SDMSerreqst_view SDMSerreqst_wf (\<lambda>_. True)
   \<and> SDMCode_wf (SDMCode_new (replicate 128 255) (replicate 24139 255)) \<and> roundtrips SDMCode_Marshal SDMCode_Unmarshal SDMCode_view SDMCode_wf (\<lambda>_. True)
   \<and> SDMxTEDS_wf (SDMxTEDS_new g (replicate 24183 255) (replicate 80 255)) \<and> roundtrips SDMxTEDS_Marshal SDMxTEDS_Unmarshal SDMxTEDS_view SDMxTEDS_wf SDMxTEDS_ready"
  by (intro conjI; (rule data_msg.class_roundtrips service.class_roundtrips command.class_roundtrips serreqst.class_roundtrips code.class_roundtrips xteds.class_roundtrips)?)
    (simp_all add: SDMData_new_def SDMService_new_def SDMCommand_new_def SDMSerreqst_new_def SDMCode_new_def SDMxTEDS_new_def SDMData_wf_def SDMService_wf_def SDMCommand_wf_def SDMSerreqst_wf_def SDMCode_wf_def SDMxTEDS_wf_def ctor_simps SDMService.defs)

text \<open>
  No type confusion: the type bytes of the 36 classes are pairwise different, and every class
  refuses a datagram that starts with another byte and leaves the object unchanged.
\<close>

theorem classes_reject_other_types:
  "distinct [SDM_ACK, SDM_Cancel, SDM_Consume, SDM_Deletesub, SDM_DMLeader, SDM_Heartbeat, SDM_Hello, SDM_ID, SDM_Ready, SDM_RegPM, SDM_Register, SDM_Subreqst, SDM_Tat, SDM_Kill, SDM_CancelxTEDS, SDM_Election, SDM_Error, SDM_PostTask, SDM_ReqCode, SDM_ReqReg, SDM_Task, SDM_TaskError, SDM_TaskFinished, SDM_VarReq, SDM_Search, SDM_RegInfo, SDM_VarInfo, SDM_xTEDSInfo, SDM_ReqxTEDS, SDM_SearchReply, SDM_Data, SDM_Service, SDM_Command, SDM_Serreqst, SDM_Code, SDM_xTEDS]
   \<and> rejects SDMAck_Unmarshal SDMAck_wf SDM_ACK
   \<and> rejects SDMCancel_Unmarshal SDMCancel_wf SDM_Cancel
   \<and> rejects SDMConsume_Unmarshal SDMConsume_wf SDM_Consume
   \<and> rejects SDMDeletesub_Unmarshal SDMDeletesub_wf SDM_Deletesub
   \<and> rejects SDMDMLeader_Unmarshal SDMDMLeader_wf SDM_DMLeader
   \<and> rejects SDMHeartbeat_Unmarshal SDMHeartbeat_wf SDM_Heartbeat
   \<and> rejects SDMHello_Unmarshal SDMHello_wf SDM_Hello
   \<and> rejects SDMID_Unmarshal SDMID_wf SDM_ID
   \<and> rejects SDMReady_Unmarshal SDMReady_wf SDM_Ready
   \<and> rejects SDMRegPM_Unmarshal SDMRegPM_wf SDM_RegPM
   \<and> rejects SDMRegister_Unmarshal SDMRegister_wf SDM_Register
   \<and> rejects SDMSubreqst_Unmarshal SDMSubreqst_wf SDM_Subreqst
   \<and> rejects SDMTat_Unmarshal SDMTat_wf SDM_Tat
   \<and> rejects SDMKill_Unmarshal SDMKill_wf SDM_Kill
   \<and> rejects SDMCancelxTEDS_Unmarshal SDMCancelxTEDS_wf SDM_CancelxTEDS
   \<and> rejects SDMElection_Unmarshal SDMElection_wf SDM_Election
   \<and> rejects SDMError_Unmarshal SDMError_wf SDM_Error
   \<and> rejects SDMPostTask_Unmarshal SDMPostTask_wf SDM_PostTask
   \<and> rejects SDMReqCode_Unmarshal SDMReqCode_wf SDM_ReqCode
   \<and> rejects SDMReqReg_Unmarshal SDMReqReg_wf SDM_ReqReg
   \<and> rejects SDMTask_Unmarshal SDMTask_wf SDM_Task
   \<and> rejects SDMTaskError_Unmarshal SDMTaskError_wf SDM_TaskError
   \<and> rejects SDMTaskFinished_Unmarshal SDMTaskFinished_wf SDM_TaskFinished
   \<and> rejects SDMVarReq_Unmarshal SDMVarReq_wf SDM_VarReq
   \<and> rejects SDMSearch_Unmarshal SDMSearch_wf SDM_Search
   \<and> rejects SDMRegInfo_Unmarshal SDMRegInfo_wf SDM_RegInfo
   \<and> rejects SDMVarInfo_Unmarshal SDMVarInfo_wf SDM_VarInfo
   \<and> rejects SDMxTEDSInfo_Unmarshal SDMxTEDSInfo_wf SDM_xTEDSInfo
   \<and> rejects SDMReqxTEDS_Unmarshal SDMReqxTEDS_wf SDM_ReqxTEDS
   \<and> rejects SDMSearchReply_Unmarshal SDMSearchReply_wf SDM_SearchReply
   \<and> rejects SDMData_Unmarshal SDMData_wf SDM_Data
   \<and> rejects SDMService_Unmarshal SDMService_wf SDM_Service
   \<and> rejects SDMCommand_Unmarshal SDMCommand_wf SDM_Command
   \<and> rejects SDMSerreqst_Unmarshal SDMSerreqst_wf SDM_Serreqst
   \<and> rejects SDMCode_Unmarshal SDMCode_wf SDM_Code
   \<and> rejects SDMxTEDS_Unmarshal SDMxTEDS_wf SDM_xTEDS"
  by (intro conjI; (rule ack.class_rejects cancel.class_rejects consume.class_rejects deletesub.class_rejects dmleader.class_rejects heartbeat.class_rejects hello.class_rejects sdmid.class_rejects ready_msg.class_rejects regpm.class_rejects register.class_rejects subreqst.class_rejects tat.class_rejects kill.class_rejects cancelxteds.class_rejects election.class_rejects error_msg.class_rejects posttask.class_rejects reqcode.class_rejects reqreg.class_rejects task_msg.class_rejects taskerror.class_rejects taskfinished.class_rejects varreq.class_rejects search.class_rejects reginfo.class_rejects varinfo.class_rejects xtedsinfo.class_rejects reqxteds.class_rejects searchreply.class_rejects data_msg.class_rejects service.class_rejects command.class_rejects serreqst.class_rejects code.class_rejects xteds.class_rejects)?) simp

text \<open>
  Every class of fixed length refuses a datagram of its type whose header gives another length than
  the class has; a kill message may also have four bytes and an xTEDS cancellation ten (the old formats).
\<close>

theorem fixed_classes_reject_lengths:
  "rejects_length SDMAck_Unmarshal SDMAck_wf SDM_ACK {2}
   \<and> rejects_length SDMCancel_Unmarshal SDMCancel_wf SDM_Cancel {22}
   \<and> rejects_length SDMConsume_Unmarshal SDMConsume_wf SDM_Consume {22}
   \<and> rejects_length SDMDeletesub_Unmarshal SDMDeletesub_wf SDM_Deletesub {22}
   \<and> rejects_length SDMDMLeader_Unmarshal SDMDMLeader_wf SDM_DMLeader {11}
   \<and> rejects_length SDMHeartbeat_Unmarshal SDMHeartbeat_wf SDM_Heartbeat {10}
   \<and> rejects_length SDMHello_Unmarshal SDMHello_wf SDM_Hello {11}
   \<and> rejects_length SDMID_Unmarshal SDMID_wf SDM_ID {10}
   \<and> rejects_length SDMReady_Unmarshal SDMReady_wf SDM_Ready {20}
   \<and> rejects_length SDMRegPM_Unmarshal SDMRegPM_wf SDM_RegPM {12}
   \<and> rejects_length SDMRegister_Unmarshal SDMRegister_wf SDM_Register {2}
   \<and> rejects_length SDMSubreqst_Unmarshal SDMSubreqst_wf SDM_Subreqst {24}
   \<and> rejects_length SDMTat_Unmarshal SDMTat_wf SDM_Tat {18}
   \<and> rejects_length SDMKill_Unmarshal SDMKill_wf SDM_Kill {4, 5}
   \<and> rejects_length SDMCancelxTEDS_Unmarshal SDMCancelxTEDS_wf SDM_CancelxTEDS {10, 11}"
  unfolding rejects_length_def
  by (intro conjI allI impI)
    (simp_all add: SDMAck_Unmarshal_def SDMAck_wf_def SDMCancel_Unmarshal_def SDMCancel_wf_def SDMConsume_Unmarshal_def SDMConsume_wf_def SDMDeletesub_Unmarshal_def SDMDeletesub_wf_def SDMDMLeader_Unmarshal_def SDMDMLeader_wf_def SDMHeartbeat_Unmarshal_def SDMHeartbeat_wf_def SDMHello_Unmarshal_def SDMHello_wf_def SDMID_Unmarshal_def SDMID_wf_def SDMReady_Unmarshal_def SDMReady_wf_def SDMRegPM_Unmarshal_def SDMRegPM_wf_def SDMRegister_Unmarshal_def SDMRegister_wf_def SDMSubreqst_Unmarshal_def SDMSubreqst_wf_def SDMTat_Unmarshal_def SDMTat_wf_def SDMKill_Unmarshal_def SDMKill_wf_def SDMCancelxTEDS_Unmarshal_def SDMCancelxTEDS_wf_def UnmarshalHeader_eq)

section \<open>Code segments\<close>

lemma isCorrupt_loaded:
  assumes "length d \<le> 24139" "SDMCode_code_length m = of_nat (length d)" "SDMCode_code m = d @ r"
  shows "SDMCode_isCorrupt m = Some (SDMCode_c_sum m \<noteq> code_checksum d)"
  using assms by (simp add: SDMCode_isCorrupt_def checksum_prefix unat_of_nat_16)

lemma code_checksum_burst:
  assumes "length x = length y" "length x \<le> 4"
  shows "code_checksum (p @ x @ q) = code_checksum (p @ y @ q) \<longleftrightarrow> x = y"
  using checksum_burst [of x y p q] assms by (auto simp: checksum_prefix)

lemma SDMCode_Marshal_buffer:
  assumes "SDMCode_wf m" "length stk = BUFSIZE" "SDMCode_Marshal now m stk = Some (m1, buf, n)"
  defines "d \<equiv> take (unat (SDMCode_code_length m)) (SDMCode_code m)" and "f \<equiv> cstr (SDMCode_filename m)"
  shows "buf = header_bytes m1 @ (word_bytes 2 (SDMCode_seq_num m) @ word_bytes 2 (SDMCode_num_segments m) @ f @ [0]
      @ d @ word_bytes 4 (code_checksum d)) @ drop (20 + length f + length d) stk"
    "n = int (20 + length f + length d)" "MsgName m1 = SDM_Code" "sint (msg_length m1) = int (9 + length f + length d)"
proof -
  have enc: "SDMCode_enc (SDMCode_view m) = word_bytes 2 (SDMCode_seq_num m) @ word_bytes 2 (SDMCode_num_segments m) @ f @ [0]
      @ d @ word_bytes 4 (code_checksum d)"
    by (simp add: SDMCode_view_def SDMCode_enc_def d_def f_def)
  then have len: "length (SDMCode_enc (SDMCode_view m)) = 9 + length f + length d" by simp
  have b: "9 + length f + length d < 32768"
    using SDMCode_fits [OF assms(1)] len by simp
  have "11 + length (SDMCode_enc (SDMCode_view m)) \<le> length stk"
    using SDMCode_fits [OF assms(1)] assms(2) by simp
  then obtain m' where M: "SDMCode_Marshal now m stk = Some (m', header_bytes m' @ SDMCode_enc (SDMCode_view m)
      @ drop (11 + (9 + length f + length d)) stk, int (11 + (9 + length f + length d)))"
    "SDMCode_wf m'" "msg_length m' = of_nat (9 + length f + length d)"
    using code.Marshal_ok [OF assms(1) TrueI, of stk now] unfolding len by metis
  then have m1: "m1 = m'" "buf = header_bytes m1 @ SDMCode_enc (SDMCode_view m) @ drop (11 + (9 + length f + length d)) stk"
    "n = int (11 + (9 + length f + length d))"
    using assms(3) by simp_all
  show "buf = header_bytes m1 @ (word_bytes 2 (SDMCode_seq_num m) @ word_bytes 2 (SDMCode_num_segments m) @ f @ [0]
      @ d @ word_bytes 4 (code_checksum d)) @ drop (20 + length f + length d) stk"
    using m1(2) unfolding enc by (simp add: add.assoc)
  show "n = int (20 + length f + length d)" using m1(3) by simp
  show "MsgName m1 = SDM_Code" using M(2) m1(1) by (simp add: SDMCode_wf_def)
  show "sint (msg_length m1) = int (9 + length f + length d)"
    unfolding m1(1) M(3) by (rule sint_of_nat_16 [OF b])
qed

text \<open>
  C27. Code transfer detects corruption. A code segment is marshalled and a window of at most four
  consecutive bytes of its code is overwritten in transit, with anything. The receiver still unmarshals it
  completely, and \<open>isCorrupt\<close> answers true exactly when the bytes really changed.
\<close>

theorem code_corruption_detected:
  assumes "SDMCode_wf m" "SDMCode_wf m0" "length stk = BUFSIZE" "SDMCode_Marshal now m stk = Some (m1, buf, n)"
    and "length y \<le> 4" "16 + length (cstr (SDMCode_filename m)) \<le> k" "int (k + length y) \<le> n - 4"
  defines "buf' \<equiv> take k buf @ y @ drop (k + length y) buf"
  shows "\<exists>m2. SDMCode_Unmarshal m0 buf' = Some (m2, n) \<and> SDMCode_isCorrupt m2 = Some (buf' \<noteq> buf)"
proof -
  define d f where "d = take (unat (SDMCode_code_length m)) (SDMCode_code m)" and "f = cstr (SDMCode_filename m)"
  note B = SDMCode_Marshal_buffer [OF assms(1,3,4), folded d_def f_def]
  define j where "j = k - (16 + length f)"
  have k: "k = 16 + length f + j" "j + length y \<le> length d"
    using assms(6,7) B(2) by (simp_all add: j_def f_def)
  define p x q where "p = take j d" and "x = take (length y) (drop j d)" and "q = drop (j + length y) d"
  have d: "d = p @ x @ q" "length x = length y" "length p = j"
    using k(2) by (simp_all add: p_def x_def q_def) (metis append_take_drop_id drop_drop add.commute)
  define pre rest where "pre = word_bytes 2 (SDMCode_seq_num m) @ word_bytes 2 (SDMCode_num_segments m) @ f @ [0]"
    and "rest = drop (20 + length f + length d) stk"
  have buf: "buf = (header_bytes m1 @ pre @ p) @ x @ q @ word_bytes 4 (code_checksum d) @ rest"
    using B(1) d(1) by (simp add: pre_def rest_def)
  have "length (header_bytes m1 @ pre @ p) = k" using k d(3) by (simp add: pre_def)
  then have buf': "buf' = (header_bytes m1 @ pre @ p) @ y @ q @ word_bytes 4 (code_checksum d) @ rest"
    using buf d(2) by (simp add: buf'_def)
  have ne: "buf' \<noteq> buf \<longleftrightarrow> x \<noteq> y" using buf buf' d(2) by auto
  let ?h = "\<lparr>MsgName = MsgName m1, sec = sec m1, subsec = subsec m1, msg_length = msg_length m1, total_length = 0, bound = 0\<rparr>"
  define D where "D = p @ y @ q"
  have h: "header_bytes m1 = header_bytes ?h" by (rule header_bytes_cong) simp_all
  have len: "length D = length d" "length d \<le> 24139" "length f < 128"
    using SDMCode_bounds(3,5) [OF assms(1)] d(1,2) by (simp add: D_def, simp only: d_def, simp only: f_def)
  have "SDMCode_Unmarshal m0 (header_bytes ?h @ (word_bytes 2 (SDMCode_seq_num m) @ word_bytes 2 (SDMCode_num_segments m) @ f @ [0]
      @ (D @ word_bytes 4 (code_checksum d))) @ rest) =
    Some ((load_header ?h m0)\<lparr>SDMCode_seq_num := SDMCode_seq_num m, SDMCode_num_segments := SDMCode_num_segments m,
        SDMCode_filename := f @ replicate (128 - length f) 0,
        SDMCode_code_length := of_nat (length D), SDMCode_c_sum := code_checksum d,
        SDMCode_code := D @ drop (length D) (SDMCode_code m0)\<rparr>,
      int (16 + length f + length (D @ word_bytes 4 (code_checksum d))))" (is "_ = Some (?m2, _)")
    by (rule SDMCode_Unmarshal_eq) (use assms(2) B(3,4) len in \<open>simp_all add: f_def\<close>)
  moreover have "buf' = header_bytes ?h @ (word_bytes 2 (SDMCode_seq_num m) @ word_bytes 2 (SDMCode_num_segments m) @ f @ [0]
      @ (D @ word_bytes 4 (code_checksum d))) @ rest"
    by (simp add: buf' h pre_def D_def)
  ultimately have U: "SDMCode_Unmarshal m0 buf' = Some (?m2, n)" using B(2) len(1) by simp
  have "SDMCode_isCorrupt ?m2 = Some (code_checksum d \<noteq> code_checksum D)"
    using isCorrupt_loaded [of D ?m2 "drop (length D) (SDMCode_code m0)"] len by simp
  moreover have "code_checksum d \<noteq> code_checksum D \<longleftrightarrow> buf' \<noteq> buf"
    using code_checksum_burst [of x y p q] d(1,2) assms(5) ne by (simp add: D_def)
  ultimately show ?thesis using U by auto
qed

definition sample_code :: SDMCode where
  "sample_code = (SDMCode_new (replicate 128 0) (replicate 24139 7))\<lparr>SDMCode_filename := 0 # replicate 127 0, SDMCode_code_length := 3\<rparr>"

lemma sample_code_ok:
  "SDMCode_wf sample_code" "cstr (SDMCode_filename sample_code) = []"
  "SDMCode_view sample_code = (0, 0, [], replicate 3 7)"
  by (simp_all add: sample_code_def SDMCode_wf_def SDMCode_view_def SDMCode_new_def new_message_def SDMmessage.defs
      is_cstr_def cstr_def)

theorem code_corruption_detected_witness:
  "\<exists>m1 buf n m2. SDMCode_Marshal (0, 0) sample_code (replicate 24288 0) = Some (m1, buf, n) \<and>
     SDMCode_Unmarshal sample_code (take 17 buf @ [9] @ drop (17 + length [9 :: byte]) buf) = Some (m2, n) \<and>
     SDMCode_isCorrupt m2 = Some (take 17 buf @ [9] @ drop (17 + length [9 :: byte]) buf \<noteq> buf)"
proof -
  obtain m1 buf where "SDMCode_Marshal (0, 0) sample_code (replicate 24288 0) = Some (m1, buf, 23)"
    using SDMCode_Marshal_eq [OF sample_code_ok(1), of "replicate 24288 0" "(0, 0)"]
    by (simp add: sample_code_ok SDMCode_enc_def marshalled_def)
  moreover from this have "\<exists>m2. SDMCode_Unmarshal sample_code (take 17 buf @ [9] @ drop (17 + length [9 :: byte]) buf) = Some (m2, 23) \<and>
     SDMCode_isCorrupt m2 = Some (take 17 buf @ [9] @ drop (17 + length [9 :: byte]) buf \<noteq> buf)"
    by (intro code_corruption_detected [OF sample_code_ok(1) sample_code_ok(1) _ ]) (simp_all add: sample_code_ok)
  ultimately show ?thesis by blast
qed

section \<open>Registration with acknowledgement\<close>

text \<open>
  Registration of an xTEDS ends as soon as it is acknowledged. If the first \<open>k\<close> receives bring no
  acknowledgement (a timeout, or another message) and the next one does, exactly \<open>k + 1\<close> identical
  datagrams with the xTEDS were sent; the result is the data manager's error code if it sent a
  negative one and the result of the last send otherwise.
\<close>

theorem xTEDS_registration_acknowledged:
  assumes "SDMxTEDS_wf m" "SDMxTEDS_ready m" "length (env_stk e) = BUFSIZE" "length (env_ack e) = 16" "env_ack e ! 0 \<noteq> SDM_ACK"
    and "net_connect (env_net e) (m_ulAddress (DataManager e)) (m_usPort (DataManager e)) \<noteq> IP_SOCK_INVALID"
    and "k \<le> 5" "\<And>i. i < k \<Longrightarrow> \<not> acked (net_recv (env_net e) i)"
    and "net_recv (env_net e) k = Some (SDM_ACK # a)" "length a = 12"
  shows "\<exists>m' err. let d = datagram_bytes SDM_xTEDS (env_now e) (SDMxTEDS_enc (SDMxTEDS_view m)) in
    SDMxTEDS_Send e m = Some (m', replicate (k + 1) d, Some (if sint err < 0 then sint err else net_send (env_net e) k d))
    \<and> GET_SHORT a 10 = Some err \<and> SDMxTEDS_view m' = SDMxTEDS_view m"
  using xteds.SendTo_registration_acked [OF assms(1-3) disjI1 [OF refl] assms(4-10), of "env_now e"]
  unfolding SDMxTEDS_Send_def SendDM_def xteds.datagram_def Let_def .

definition sample_net :: "nat \<Rightarrow> net" where
  "sample_net k = \<lparr>net_connect = (\<lambda>_ _. 3), net_send = (\<lambda>i d. int (length d)),
     net_recv = (\<lambda>i. if i = k then Some (SDM_ACK # replicate 12 0) else None), net_passive = (\<lambda>_. 4)\<rparr>"

definition sample_env :: "nat \<Rightarrow> env" where
  "sample_env k = \<lparr>TaskManager = SDMComponent_ID_new, DataManager = SDMComponent_ID_new, PID = 7,
     env_net = sample_net k, env_stk = replicate 24288 0, env_ack = replicate 16 0, env_now = (1, 2)\<rparr>"

definition sample_xTEDS :: SDMxTEDS where
  "sample_xTEDS = (SDMxTEDS_new (globals.truncate (sample_env 0)) (replicate 24183 0) (replicate 80 0))
     \<lparr>SDMxTEDS_xTEDS := [0x3c, 0x78] @ 0 # replicate 24180 0, SDMxTEDS_SPA_node := 0 # replicate 79 0\<rparr>"

lemma sample_xTEDS_ok: "SDMxTEDS_wf sample_xTEDS" "SDMxTEDS_ready sample_xTEDS"
proof -
  have "scan_null ([0x3c, 0x78] @ 0 # replicate 24180 0) 2 = length [0x3c, 0x78 :: byte]" by (rule scan_null_text) simp_all
  then show "SDMxTEDS_wf sample_xTEDS" "SDMxTEDS_ready sample_xTEDS"
    by (simp_all add: sample_xTEDS_def SDMxTEDS_wf_def SDMxTEDS_ready_def SDMxTEDS_new_def new_message_def SDMmessage.defs
        xteds_text_def is_cstr_def cstr_def)
qed

lemma sample_env_ok: "length (env_stk (sample_env k)) = 24288" "length (env_ack (sample_env k)) = 16" "env_ack (sample_env k) ! 0 \<noteq> SDM_ACK"
  "net_connect (env_net (sample_env k)) a b \<noteq> - 1" "net_recv (env_net (sample_env k)) k = Some (SDM_ACK # replicate 12 0)"
  "i \<noteq> k \<Longrightarrow> \<not> acked (net_recv (env_net (sample_env k)) i)"
  by (simp_all add: sample_env_def sample_net_def acked_def)

theorem xTEDS_registration_acknowledged_witness:
  "\<exists>m' err. let d = datagram_bytes SDM_xTEDS (env_now (sample_env 2)) (SDMxTEDS_enc (SDMxTEDS_view sample_xTEDS)) in
    SDMxTEDS_Send (sample_env 2) sample_xTEDS =
      Some (m', replicate (2 + 1) d, Some (if sint err < 0 then sint err else net_send (env_net (sample_env 2)) 2 d))
    \<and> GET_SHORT (replicate 12 0) 10 = Some err \<and> SDMxTEDS_view m' = SDMxTEDS_view sample_xTEDS"
  by (rule xTEDS_registration_acknowledged [OF sample_xTEDS_ok sample_env_ok(1-4) _ _ sample_env_ok(5)])
    (simp_all add: sample_env_ok)

lemma registration_silent:
  assumes "length (env_stk e) = BUFSIZE" "length (env_ack e) = 16" "env_ack e ! 0 \<noteq> SDM_ACK"
    and "net_connect (env_net e) (m_ulAddress (DataManager e)) (m_usPort (DataManager e)) \<noteq> IP_SOCK_INVALID"
    and "\<And>i. i \<le> 5 \<Longrightarrow> \<not> acked (net_recv (env_net e) i)"
    and "SDMxTEDS_wf m" "SDMxTEDS_ready m" "SDMCancelxTEDS_wf c"
  shows "\<exists>m'. SDMxTEDS_Send e m =
      Some (m', replicate 6 (datagram_bytes SDM_xTEDS (env_now e) (SDMxTEDS_enc (SDMxTEDS_view m))), Some SDM_UNABLE_TO_REGISTER)"
    and "\<exists>c'. SDMCancelxTEDS_Send e c =
      Some (c', replicate 6 (datagram_bytes SDM_CancelxTEDS (env_now e) (SDMCancelxTEDS_enc (SDMCancelxTEDS_view c))), Some SDM_UNABLE_TO_REGISTER)"
proof -
  show "\<exists>m'. SDMxTEDS_Send e m =
      Some (m', replicate 6 (datagram_bytes SDM_xTEDS (env_now e) (SDMxTEDS_enc (SDMxTEDS_view m))), Some SDM_UNABLE_TO_REGISTER)"
    using xteds.SendTo_registration_silent [OF assms(6,7,1) _ assms(2-5), of "env_now e"]
    by (auto simp: SDMxTEDS_Send_def SendDM_def xteds.datagram_def)
  let ?c = "c\<lparr>msg_length := 11\<rparr>"
  have "SDMCancelxTEDS_wf ?c" "SDMCancelxTEDS_ready ?c" "SDMCancelxTEDS_view ?c = SDMCancelxTEDS_view c"
    using assms(8) by (simp_all add: SDMCancelxTEDS_members)
  then show "\<exists>c'. SDMCancelxTEDS_Send e c =
      Some (c', replicate 6 (datagram_bytes SDM_CancelxTEDS (env_now e) (SDMCancelxTEDS_enc (SDMCancelxTEDS_view c))), Some SDM_UNABLE_TO_REGISTER)"
    using cancelxteds.SendTo_registration_silent [of ?c "env_stk e" "env_ack e" "env_net e" "DataManager e" "env_now e"] assms(1-5)
    by (auto simp: SDMCancelxTEDS_Send_def SendDM_def cancelxteds.datagram_def)
qed

text \<open>
  Registration without any acknowledgement gives up: exactly six datagrams are sent, the first and
  \<open>NUMRETRIES\<close> repetitions, and the result is \<open>SDM_UNABLE_TO_REGISTER\<close>; the same holds for the cancellation
  of an xTEDS, whose \<open>Send\<close> sets the length that \<open>Marshal\<close> writes.
\<close>

theorem registration_unanswered:
  assumes "length (env_stk e) = BUFSIZE" "length (env_ack e) = 16" "env_ack e ! 0 \<noteq> SDM_ACK"
    and "net_connect (env_net e) (m_ulAddress (DataManager e)) (m_usPort (DataManager e)) \<noteq> IP_SOCK_INVALID"
    and "\<And>i. i \<le> 5 \<Longrightarrow> \<not> acked (net_recv (env_net e) i)"
    and "SDMxTEDS_wf m" "SDMxTEDS_ready m" "SDMCancelxTEDS_wf c"
  shows "(\<exists>m'. SDMxTEDS_Send e m =
      Some (m', replicate 6 (datagram_bytes SDM_xTEDS (env_now e) (SDMxTEDS_enc (SDMxTEDS_view m))), Some SDM_UNABLE_TO_REGISTER))
    \<and> (\<exists>c'. SDMCancelxTEDS_Send e c =
      Some (c', replicate 6 (datagram_bytes SDM_CancelxTEDS (env_now e) (SDMCancelxTEDS_enc (SDMCancelxTEDS_view c))), Some SDM_UNABLE_TO_REGISTER))"
  using registration_silent [OF assms] by blast

theorem registration_unanswered_witness:
  "(\<exists>m'. SDMxTEDS_Send (sample_env 9) sample_xTEDS =
      Some (m', replicate 6 (datagram_bytes SDM_xTEDS (env_now (sample_env 9)) (SDMxTEDS_enc (SDMxTEDS_view sample_xTEDS))), Some SDM_UNABLE_TO_REGISTER))
   \<and> (\<exists>c'. SDMCancelxTEDS_Send (sample_env 9) SDMCancelxTEDS_new =
      Some (c', replicate 6 (datagram_bytes SDM_CancelxTEDS (env_now (sample_env 9)) (SDMCancelxTEDS_enc (SDMCancelxTEDS_view SDMCancelxTEDS_new))),
        Some SDM_UNABLE_TO_REGISTER))"
proof -
  have "SDMCancelxTEDS_wf SDMCancelxTEDS_new" by (simp add: SDMCancelxTEDS_wf_def SDMCancelxTEDS_new_def new_message_def SDMmessage.defs)
  moreover have "\<not> acked (net_recv (env_net (sample_env 9)) i)" if "i \<le> 5" for i using that by (simp add: sample_env_ok)
  ultimately show ?thesis
    using registration_unanswered [OF sample_env_ok(1-4) _ sample_xTEDS_ok] by blast
qed

section \<open>Delivery and forwarding\<close>

text \<open>
  A subscription request is delivered: when \<open>Send\<close> reaches the network it gives it exactly one
  datagram, and a provider that receives this datagram with \<open>Recv\<close> obtains the request the
  subscriber sent, with its time stamp, and the number of bytes received.
\<close>

theorem subscription_request_delivered:
  assumes "SDMSubreqst_wf m" "length (env_stk e) = BUFSIZE"
    and "net_connect (env_net e) (m_ulAddress (SDMSubreqst_source m)) (m_usPort (SDMSubreqst_source m)) \<noteq> IP_SOCK_INVALID"
    and "d = datagram_bytes SDM_Subreqst (env_now e) (SDMSubreqst_enc (SDMSubreqst_view m))"
    and "SDMSubreqst_wf m0" "bound m0 = IP_SOCK_INVALID" "net_passive net port \<noteq> IP_SOCK_INVALID" "net_recv net 0 = Some d"
  shows "(\<exists>m'. SDMSubreqst_Send e m =
      Some (m', [d], Some (if net_send (env_net e) 0 d \<le> 0 then SDM_MESSAGE_SEND_ERROR else net_send (env_net e) 0 d)))
    \<and> (\<exists>m2. SDMSubreqst_Recv net m0 port = Some (m2, int (length d)) \<and> SDMSubreqst_view m2 = SDMSubreqst_view m
         \<and> sec m2 = fst (env_now e) \<and> subsec m2 = snd (env_now e))"
proof -
  have d: "d = subreqst.datagram (env_now e) m" by (simp add: assms(4) subreqst.datagram_def)
  have "\<exists>m'. SDMSubreqst_Send e m =
      Some (m', [d], Some (if net_send (env_net e) 0 d \<le> 0 then SDM_MESSAGE_SEND_ERROR else net_send (env_net e) 0 d))"
    using subreqst.SendTo_once [OF assms(1) TrueI assms(2) _ _ assms(3), of "env_ack e" "env_now e"]
    by (auto simp: SDMSubreqst_Send_def SendTo_checked_def d)
  moreover have "SDMSubreqst_wf (m0\<lparr>bound := net_passive net port\<rparr>)" using assms(5) by (simp add: SDMSubreqst_wf_def)
  from subreqst.RecvFrom_datagram [OF assms(1) TrueI this assms(6,7) assms(8) [unfolded d]]
  have "\<exists>m2. SDMSubreqst_Recv net m0 port = Some (m2, int (length d)) \<and> SDMSubreqst_view m2 = SDMSubreqst_view m
      \<and> sec m2 = fst (env_now e) \<and> subsec m2 = snd (env_now e)"
    by (auto simp: SDMSubreqst_Recv_def Recv_checked_def d subreqst.length_datagram)
  ultimately show ?thesis ..
qed

definition sample_datagram :: "byte list" where
  "sample_datagram = datagram_bytes SDM_Subreqst (env_now (sample_env 0)) (SDMSubreqst_enc (SDMSubreqst_view SDMSubreqst_new))"

theorem subscription_request_delivered_witness:
  "(\<exists>m'. SDMSubreqst_Send (sample_env 0) SDMSubreqst_new =
      Some (m', [sample_datagram], Some (if net_send (env_net (sample_env 0)) 0 sample_datagram \<le> 0 then SDM_MESSAGE_SEND_ERROR
        else net_send (env_net (sample_env 0)) 0 sample_datagram)))
   \<and> (\<exists>m2. SDMSubreqst_Recv ((sample_net 0)\<lparr>net_recv := \<lambda>_. Some sample_datagram\<rparr>) SDMSubreqst_new 4100 = Some (m2, int (length sample_datagram))
         \<and> SDMSubreqst_view m2 = SDMSubreqst_view SDMSubreqst_new
         \<and> sec m2 = fst (env_now (sample_env 0)) \<and> subsec m2 = snd (env_now (sample_env 0)))"
proof -
  have "SDMSubreqst_wf SDMSubreqst_new" "bound SDMSubreqst_new = - 1"
    by (simp_all add: SDMSubreqst_wf_def SDMSubreqst_new_def new_message_def SDMmessage.defs)
  then show ?thesis
    using subscription_request_delivered [OF _ sample_env_ok(1,4) sample_datagram_def, of SDMSubreqst_new
        "(sample_net 0)\<lparr>net_recv := \<lambda>_. Some sample_datagram\<rparr>" 4100]
    by (simp add: sample_net_def)
qed

text \<open>
  Forwarding is transparent: a service request that was received from a datagram is forwarded as
  exactly that datagram, byte for byte, with the original time stamp and not the time of forwarding.
\<close>

theorem service_request_forwarded:
  assumes "SDMSerreqst_wf m" "SDMSerreqst_wf m0" "length stk = BUFSIZE"
    and "SDMSerreqst_Unmarshal m0 (datagram_bytes SDM_Serreqst t (SDMSerreqst_enc (SDMSerreqst_view m)) @ rest) = Some (m1, n)"
    and "0 \<le> net_connect net (m_ulAddress d) (m_usPort d)"
  shows "\<exists>m2. Forward SDMSerreqst_Marshal net stk now m1 d =
    Some (m2, [datagram_bytes SDM_Serreqst t (SDMSerreqst_enc (SDMSerreqst_view m))],
      net_send net 0 (datagram_bytes SDM_Serreqst t (SDMSerreqst_enc (SDMSerreqst_view m))))"
  using serreqst.Forward_transparent [OF assms(1) TrueI assms(2,3) _ assms(4) [folded serreqst.datagram_def] TrueI assms(5), of now]
  unfolding serreqst.datagram_def by simp

theorem service_request_forwarded_witness:
  "\<exists>m1 n m2. SDMSerreqst_Unmarshal (SDMSerreqst_new (replicate 24249 0))
      (datagram_bytes SDM_Serreqst (5, 6) (SDMSerreqst_enc (SDMSerreqst_view (SDMSerreqst_new (replicate 24249 0)))) @ [1, 2]) = Some (m1, n) \<and>
    Forward SDMSerreqst_Marshal (sample_net 0) (replicate 24288 0) (8, 9) m1 SDMComponent_ID_new =
      Some (m2, [datagram_bytes SDM_Serreqst (5, 6) (SDMSerreqst_enc (SDMSerreqst_view (SDMSerreqst_new (replicate 24249 0))))],
        net_send (sample_net 0) 0 (datagram_bytes SDM_Serreqst (5, 6) (SDMSerreqst_enc (SDMSerreqst_view (SDMSerreqst_new (replicate 24249 0))))))"
proof -
  let ?m = "SDMSerreqst_new (replicate 24249 0)"
  have w: "SDMSerreqst_wf ?m" by (simp add: SDMSerreqst_wf_def SDMSerreqst_new_def ctor_simps)
  obtain m1 where "SDMSerreqst_Unmarshal ?m (serreqst.datagram (5, 6) ?m @ [1, 2]) = Some (m1, int (length (serreqst.datagram (5, 6) ?m)))"
    using serreqst.Unmarshal_datagram [OF w TrueI w] by metis
  then have u: "SDMSerreqst_Unmarshal ?m (datagram_bytes SDM_Serreqst (5, 6) (SDMSerreqst_enc (SDMSerreqst_view ?m)) @ [1, 2]) =
      Some (m1, int (length (serreqst.datagram (5, 6) ?m)))"
    unfolding serreqst.datagram_def .
  have "length (replicate 24288 (0 :: byte)) = 24288" by simp
  moreover have "0 \<le> net_connect (sample_net 0) (m_ulAddress SDMComponent_ID_new) (m_usPort SDMComponent_ID_new)" by (simp add: sample_net_def)
  ultimately show ?thesis using service_request_forwarded [OF w w _ u] u by blast
qed

section \<open>Old formats and lengths\<close>

text \<open>
  The old formats are understood: a kill message of four bytes carries the pid and means kill level 0, an
  xTEDS cancellation of ten bytes carries the source and means that it is not a full cancellation.
\<close>

theorem old_formats_accepted:
  "(\<exists>m'. SDMKill_Unmarshal (m :: SDMKill) (header_bytes \<lparr>MsgName = MsgName m, sec = s, subsec = u, msg_length = 4, total_length = 0, bound = 0\<rparr>
      @ word_bytes 4 pid @ rest) = Some (m', 15) \<and> SDMKill_view m' = (pid, 0))
   \<and> (\<exists>c'. SDMCancelxTEDS_Unmarshal (c :: SDMCancelxTEDS) (header_bytes \<lparr>MsgName = MsgName c, sec = s, subsec = u, msg_length = 10, total_length = 0, bound = 0\<rparr>
      @ id_bytes src @ rest) = Some (c', 21) \<and> SDMCancelxTEDS_view c' = (src, 0))"
  by (simp add: SDMKill_Unmarshal_def SDMKill_view_def SDMCancelxTEDS_Unmarshal_def SDMCancelxTEDS_view_def get_at)

section \<open>End-of-list replies\<close>

text \<open>
  The three reply classes whose \<open>SendEmpty\<close> ends a list of replies; \<open>empty_reply\<close> collects what happens
  to such a datagram: it is the bare header, \<open>Unmarshal\<close> answers \<open>SDM_NO_FURTHER_DATA_PROVIDER\<close>, and \<open>Recv\<close>
  answers \<open>SDM_MESSAGE_RECV_ERROR\<close>.
\<close>

definition empty_reply ::
  "('a SDMmessage_scheme) sender_to \<Rightarrow> ('a SDMmessage_scheme) unmarshal
     \<Rightarrow> (net \<Rightarrow> 'a SDMmessage_scheme \<Rightarrow> 32 word \<Rightarrow> ('a SDMmessage_scheme \<times> int) option)
     \<Rightarrow> byte \<Rightarrow> env \<Rightarrow> 'a SDMmessage_scheme \<Rightarrow> SDMComponent_ID \<Rightarrow> net \<Rightarrow> 32 word \<Rightarrow> bool" where
  "empty_reply SendEmpty Unmarshal Recv name e m dest net port \<longleftrightarrow>
     (let d = datagram_bytes name (env_now e) [] in
      (\<exists>m' r. SendEmpty e m dest = Some (m', [d], r))
      \<and> (\<forall>rest. \<exists>m2. Unmarshal m (d @ rest) = Some (m2, SDM_NO_FURTHER_DATA_PROVIDER))
      \<and> (net_passive net port \<noteq> IP_SOCK_INVALID \<longrightarrow> (\<exists>m2. Recv (net\<lparr>net_recv := \<lambda>_. Some d\<rparr>) m port = Some (m2, SDM_MESSAGE_RECV_ERROR))))"

lemma empty_replyI:
  assumes "MsgName m = name" "bound m = IP_SOCK_INVALID" "name \<noteq> SDM_xTEDS" "name \<noteq> SDM_CancelxTEDS" "length (env_stk e) = BUFSIZE"
    and "net_connect (env_net e) (m_ulAddress dest) (m_usPort dest) \<noteq> IP_SOCK_INVALID"
    and "\<And>e m dest. SendEmpty e m dest = SendTo_checked M (env_net e) (env_stk e) (env_ack e) (env_now e) (flag m) dest"
    and "\<And>now buf. M now (flag m) buf = do { (m, buf, cur) \<leftarrow> MarshalHeader now ((flag m)\<lparr>msg_length := 0\<rparr>) buf; Some (m, buf, int cur) }"
    and "MsgName (flag m) = name"
    and "\<And>m' h rest. MsgName m' = name \<Longrightarrow> MsgName h = name \<Longrightarrow> msg_length h = 0 \<Longrightarrow>
           U m' (header_bytes (h :: SDMmessage) @ rest) = Some (load_header h m', SDM_NO_FURTHER_DATA_PROVIDER)"
    and "\<And>net m port m' r. RecvFrom U net m port = Some (m', r) \<Longrightarrow> r \<le> 0 \<Longrightarrow> R net m port = Some (m', SDM_MESSAGE_RECV_ERROR)"
  shows "empty_reply SendEmpty U R name e m dest net port"
proof -
  let ?h = "\<lparr>MsgName = name, sec = fst (env_now e), subsec = snd (env_now e), msg_length = 0, total_length = 0, bound = 0\<rparr>"
  let ?m = "stamp (env_now e) ((flag m)\<lparr>msg_length := 0\<rparr>)"
  have d: "datagram_bytes name (env_now e) [] = header_bytes ?h" by (simp add: datagram_bytes_def)
  have hm: "header_bytes ?m = header_bytes ?h" by (rule header_bytes_cong) (simp_all add: assms(9))
  have "M (env_now e) (flag m) (env_stk e) = Some (?m, header_bytes ?h @ drop 11 (env_stk e), 11)"
    using assms(5) hm by (simp add: assms(8) MarshalHeader_eq)
  moreover have "get_bytes (header_bytes ?h @ drop 11 (env_stk e)) 0 11 = Some (header_bytes ?h)"
    using get_bytes_prefix [of "[]" 0 "header_bytes ?h" 11 "drop 11 (env_stk e)"] by simp
  moreover have "get_byte (header_bytes ?h @ drop 11 (env_stk e)) 0 = Some name" by (simp add: header_bytes_def get_byte_def)
  ultimately have S: "\<exists>m' r. SendEmpty e m dest = Some (m', [header_bytes ?h], r)"
    using assms(3,4,6) by (simp add: assms(7) SendTo_checked_def SendTo_def)
  have U: "\<exists>m2. U m' (header_bytes ?h @ rest) = Some (m2, SDM_NO_FURTHER_DATA_PROVIDER)" if "MsgName m' = name" for m' rest
    using that by (simp add: assms(10))
  have "\<exists>m2. R (net\<lparr>net_recv := \<lambda>_. Some (header_bytes ?h)\<rparr>) m port = Some (m2, SDM_MESSAGE_RECV_ERROR)"
    if p: "net_passive net port \<noteq> IP_SOCK_INVALID"
  proof -
    obtain m2 where "U (m\<lparr>bound := net_passive net port\<rparr>) (header_bytes ?h @ replicate 24277 0) = Some (m2, SDM_NO_FURTHER_DATA_PROVIDER)"
      using U [of "m\<lparr>bound := net_passive net port\<rparr>"] assms(1) by auto
    moreover have "recv_into BUFSIZE (Some (header_bytes ?h)) (replicate BUFSIZE 0) = header_bytes ?h @ replicate 24277 0"
      by (simp add: recv_into_def)
    ultimately have "RecvFrom U (net\<lparr>net_recv := \<lambda>_. Some (header_bytes ?h)\<rparr>) m port = Some (m2, SDM_NO_FURTHER_DATA_PROVIDER)"
      using p assms(2) by (simp add: RecvFrom_def Let_def)
    from assms(11) [OF this] show ?thesis by simp
  qed
  with S U [OF assms(1)] show ?thesis by (simp add: empty_reply_def d)
qed

lemma empty_reply_all:
  assumes "length (env_stk e) = BUFSIZE" "net_connect (env_net e) (m_ulAddress dest) (m_usPort dest) \<noteq> IP_SOCK_INVALID"
  shows "empty_reply SDMRegInfo_SendEmpty SDMRegInfo_Unmarshal SDMRegInfo_Recv SDM_RegInfo e (SDMRegInfo_new a b) dest net port"
    "empty_reply SDMVarInfo_SendEmpty SDMVarInfo_Unmarshal SDMVarInfo_Recv SDM_VarInfo e (SDMVarInfo_new a b) dest net port"
    "empty_reply SDMSearchReply_SendEmpty SDMSearchReply_Unmarshal SDMSearchReply_Recv SDM_SearchReply e (SDMSearchReply_new a) dest net port"
proof -
  show "empty_reply SDMRegInfo_SendEmpty SDMRegInfo_Unmarshal SDMRegInfo_Recv SDM_RegInfo e (SDMRegInfo_new a b) dest net port"
    by (rule empty_replyI [OF _ _ _ _ assms, where flag = "\<lambda>m. m\<lparr>SDMRegInfo_emptyflag := True\<rparr>" and M = SDMRegInfo_Marshal])
      (simp_all add: SDMRegInfo_new_def new_message_def SDMmessage.defs SDMRegInfo_SendEmpty_def SDMRegInfo_Marshal_def
        SDMRegInfo_MarshalEmpty_def SDMRegInfo_Unmarshal_def UnmarshalHeader_eq SDMRegInfo_Recv_def)
  show "empty_reply SDMVarInfo_SendEmpty SDMVarInfo_Unmarshal SDMVarInfo_Recv SDM_VarInfo e (SDMVarInfo_new a b) dest net port"
    by (rule empty_replyI [OF _ _ _ _ assms, where flag = "\<lambda>m. m\<lparr>SDMVarInfo_emptyflag := True\<rparr>" and M = SDMVarInfo_Marshal])
      (simp_all add: SDMVarInfo_new_def new_message_def SDMmessage.defs SDMVarInfo_SendEmpty_def SDMVarInfo_Marshal_def
        SDMVarInfo_MarshalEmpty_def SDMVarInfo_Unmarshal_def UnmarshalHeader_eq SDMVarInfo_Recv_def)
  show "empty_reply SDMSearchReply_SendEmpty SDMSearchReply_Unmarshal SDMSearchReply_Recv SDM_SearchReply e (SDMSearchReply_new a) dest net port"
    by (rule empty_replyI [OF _ _ _ _ assms, where flag = "\<lambda>m. m\<lparr>SDMSearchReply_emptyflag := True\<rparr>" and M = SDMSearchReply_Marshal])
      (simp_all add: SDMSearchReply_new_def new_message_def SDMmessage.defs SDMSearchReply_SendEmpty_def SDMSearchReply_Marshal_def
        SDMSearchReply_MarshalEmpty_def SDMSearchReply_Unmarshal_def UnmarshalHeader_eq SDMSearchReply_Recv_def)
qed

text \<open>
  The end of a list of replies is not reported by \<open>Recv\<close>. For registration, search and variable
  replies, \<open>SendEmpty\<close> sends a bare header, which \<open>Unmarshal\<close> recognises and turns into
  \<open>SDM_NO_FURTHER_DATA_PROVIDER\<close>; but \<open>Recv\<close> maps every result that is not positive to
  \<open>SDM_MESSAGE_RECV_ERROR\<close>, and its test for a result of 1 never succeeds, so its caller sees an error.
\<close>

theorem empty_replies:
  assumes "length (env_stk e) = BUFSIZE" "net_connect (env_net e) (m_ulAddress dest) (m_usPort dest) \<noteq> IP_SOCK_INVALID"
  shows "empty_reply SDMRegInfo_SendEmpty SDMRegInfo_Unmarshal SDMRegInfo_Recv SDM_RegInfo e (SDMRegInfo_new a b) dest net port
    \<and> empty_reply SDMVarInfo_SendEmpty SDMVarInfo_Unmarshal SDMVarInfo_Recv SDM_VarInfo e (SDMVarInfo_new a b) dest net port
    \<and> empty_reply SDMSearchReply_SendEmpty SDMSearchReply_Unmarshal SDMSearchReply_Recv SDM_SearchReply e (SDMSearchReply_new a) dest net port"
  using empty_reply_all [OF assms] by blast

theorem empty_replies_witness:
  "empty_reply SDMRegInfo_SendEmpty SDMRegInfo_Unmarshal SDMRegInfo_Recv SDM_RegInfo (sample_env 0)
     (SDMRegInfo_new (replicate 12130 0) (replicate 12130 0)) SDMComponent_ID_new (sample_net 0) 4100
   \<and> net_passive (sample_net 0) 4100 \<noteq> IP_SOCK_INVALID"
  using empty_replies [OF sample_env_ok(1,4)] by (simp add: sample_net_def)

section \<open>Lengths the code does not check\<close>

text \<open>
  The member for a search expression is one byte too large: an expression that fills it makes
  \<open>Marshal\<close> write one byte past the end of the buffer of \<open>SendTo\<close>, and every shorter one is marshalled inside it.
\<close>

theorem Search_expression_bound:
  assumes "SDMSearch_wf m" "length stk = BUFSIZE"
  shows "SDMSearch_Marshal now m stk = None \<longleftrightarrow> length (cstr (SDMSearch_reg_expr m)) = 24254"
proof (cases "length (cstr (SDMSearch_reg_expr m)) \<le> 24253")
  case True
  have "11 + length (SDMSearch_enc (SDMSearch_view m)) \<le> length stk"
    using SDMSearch_fits [OF assms(1) True] assms(2) by simp
  with True show ?thesis using SDMSearch_Marshal_eq [OF assms(1) True] by simp
next
  case False
  with SDMSearch_bounds [OF assms(1)] have l: "length (cstr (SDMSearch_reg_expr m)) = 24254" by simp
  have "SDMSearch_Marshal now m stk = None"
    using SDMSearch_bounds [OF assms(1)] l assms(2) get_bytes_cstr [of 24255 "SDMSearch_reg_expr m"]
    by (simp add: SDMSearch_Marshal_def buf_simps strlen_0 put_byte_def put_bytes_None length_overlay cong: bind_head_cong)
  with l show ?thesis by simp
qed

theorem Search_expression_bound_witness:
  "SDMSearch_Marshal (0, 0) ((SDMSearch_new [])\<lparr>SDMSearch_reg_expr := replicate 24254 1 @ [0]\<rparr>) (replicate 24288 0) = None"
proof -
  have "cstr (replicate 24254 1 @ [0]) = replicate 24254 1" using cstr_append_null [of "replicate 24254 1" "[]"] by simp
  then show ?thesis
    by (subst Search_expression_bound)
      (simp_all add: SDMSearch_wf_def SDMSearch_new_def new_message_def SDMmessage.defs is_cstr_def)
qed

lemma memcpy_None: "length fld < k \<Longrightarrow> memcpy fld 0 buf n k = None"
  by (auto simp: memcpy_def get_bytes_def put_bytes_def)

lemma memcpy_int_None: "int (length fld) < k \<Longrightarrow> memcpy_int fld 0 buf n k = None"
  by (simp add: memcpy_int_def memcpy_None)

lemma short_sub:
  assumes "int k \<le> sint (w :: 16 word)"
  shows "sint (w - of_nat k) = sint w - int k"
proof -
  obtain n where n: "sint w = int (k + n)" using assms by (metis zero_le_imp_eq_int diff_ge_0_iff_ge of_nat_add add_diff_cancel_left' diff_add_cancel add.commute)
  moreover have "sint w < 32768" using sint_less [of w] by simp
  ultimately show ?thesis using short_diff [OF n] by (simp add: sint_of_nat_16)
qed

lemmas get_whole = UnmarshalHeader_eq id_Unmarshal_eq mid_Unmarshal_eq get_simps get_bytes_def get_byte_def Let_def memcpy_int_None

lemma length_unchecked:
  assumes "length body = BUFSIZE - HEADER_SIZE"
  shows "SDMData_wf a \<Longrightarrow> MsgName h = SDM_Data \<Longrightarrow> sint (msg_length h) > 18 + 24259 \<Longrightarrow>
      SDMData_Unmarshal a (header_bytes (h :: SDMmessage) @ body) = None"
    "SDMService_wf b \<Longrightarrow> MsgName h = SDM_Service \<Longrightarrow> sint (msg_length h) > 24 + 24253 \<Longrightarrow>
      SDMService_Unmarshal b (header_bytes (h :: SDMmessage) @ body) = None"
    "SDMCommand_wf c \<Longrightarrow> MsgName h = SDM_Command \<Longrightarrow> sint (msg_length h) > 24 + 24253 \<Longrightarrow>
      SDMCommand_Unmarshal c (header_bytes (h :: SDMmessage) @ body) = None"
    "SDMSerreqst_wf d \<Longrightarrow> MsgName h = SDM_Serreqst \<Longrightarrow> sint (msg_length h) > 28 + 24249 \<Longrightarrow>
      SDMSerreqst_Unmarshal d (header_bytes (h :: SDMmessage) @ body) = None"
    "SDMReqxTEDS_wf e \<Longrightarrow> MsgName h = SDM_ReqxTEDS \<Longrightarrow> sint (msg_length h) \<ge> 12 \<Longrightarrow> body ! 10 = 1 \<Longrightarrow>
      strlen (header_bytes h @ body) 22 = Some k \<Longrightarrow> 33 < k \<Longrightarrow>
      SDMReqxTEDS_Unmarshal e (header_bytes (h :: SDMmessage) @ body) = None"
proof goal_cases
  case 1
  then show ?case using assms SDMData_bounds(1) [OF 1(1)]
    by (simp add: SDMData_Unmarshal_def SDMData_wf_def load_header_def get_whole cong: bind_head_cong)
next
  case 2
  then show ?case using assms SDMService_bounds(1) [OF 2(1)] short_sub [of 24 "msg_length h"]
    by (simp add: SDMService_Unmarshal_def SDMService_wf_def load_header_def get_whole cong: bind_head_cong)
next
  case 3
  then show ?case using assms SDMCommand_bounds(1) [OF 3(1)] short_sub [of 24 "msg_length h"]
    by (simp add: SDMCommand_Unmarshal_def SDMCommand_wf_def load_header_def get_whole cong: bind_head_cong)
next
  case 4
  then show ?case using assms SDMSerreqst_bounds(1) [OF 4(1)] short_sub [of 28 "msg_length h"]
    by (simp add: SDMSerreqst_Unmarshal_def SDMSerreqst_wf_def load_header_def get_whole cong: bind_head_cong)
next
  case 5
  then show ?case using assms SDMReqxTEDS_bounds(2) [OF 5(1)]
    by (simp add: SDMReqxTEDS_Unmarshal_def SDMReqxTEDS_wf_def load_header_def get_whole memcpy_None nth_append cong: bind_head_cong)
qed

text \<open>
  Received lengths are trusted. A data, service, command or service request datagram whose header claims
  more than the payload member holds, and an xTEDS request whose device name is longer than its member, make
  \<open>Unmarshal\<close> copy out of bounds (the model has no result), for every content of the receive buffer.
\<close>

theorem received_lengths_unchecked:
  assumes "length body = BUFSIZE - HEADER_SIZE"
  shows "(SDMData_wf a \<longrightarrow> MsgName h = SDM_Data \<longrightarrow> sint (msg_length h) > 18 + 24259 \<longrightarrow>
      SDMData_Unmarshal a (header_bytes (h :: SDMmessage) @ body) = None)
    \<and> (SDMService_wf b \<longrightarrow> MsgName h = SDM_Service \<longrightarrow> sint (msg_length h) > 24 + 24253 \<longrightarrow>
      SDMService_Unmarshal b (header_bytes (h :: SDMmessage) @ body) = None)
    \<and> (SDMCommand_wf c \<longrightarrow> MsgName h = SDM_Command \<longrightarrow> sint (msg_length h) > 24 + 24253 \<longrightarrow>
      SDMCommand_Unmarshal c (header_bytes (h :: SDMmessage) @ body) = None)
    \<and> (SDMSerreqst_wf d \<longrightarrow> MsgName h = SDM_Serreqst \<longrightarrow> sint (msg_length h) > 28 + 24249 \<longrightarrow>
      SDMSerreqst_Unmarshal d (header_bytes (h :: SDMmessage) @ body) = None)
    \<and> (SDMReqxTEDS_wf e \<longrightarrow> MsgName h = SDM_ReqxTEDS \<longrightarrow> sint (msg_length h) \<ge> 12 \<longrightarrow> body ! 10 = 1 \<longrightarrow>
      strlen (header_bytes h @ body) 22 = Some k \<longrightarrow> 33 < k \<longrightarrow>
      SDMReqxTEDS_Unmarshal e (header_bytes (h :: SDMmessage) @ body) = None)"
  using length_unchecked [OF assms] by blast

theorem received_lengths_unchecked_witness:
  "SDMData_Unmarshal (SDMData_new (globals.truncate (sample_env 0)) (replicate 24259 0))
     (header_bytes \<lparr>MsgName = SDM_Data, sec = 0, subsec = 0, msg_length = 0x7fff, total_length = 0, bound = 0\<rparr> @ replicate 24277 0) = None"
proof -
  have "SDMData_wf (SDMData_new (globals.truncate (sample_env 0)) (replicate 24259 0))"
    by (simp add: SDMData_wf_def SDMData_new_def payload_def new_message_def SDMmessage.defs)
  then show ?thesis
    using received_lengths_unchecked [of "replicate 24277 0" _ "\<lparr>MsgName = SDM_Data, sec = 0, subsec = 0, msg_length = 0x7fff, total_length = 0, bound = 0\<rparr>"]
    by simp
qed

section \<open>Heartbeats and ports\<close>

text \<open>A run of \<open>SendHeartbeat\<close> at the given times; the times at which a datagram was sent.\<close>

fun heartbeat_run :: "env \<Rightarrow> 32 word \<Rightarrow> 32 word list \<Rightarrow> 32 word list option" where
  "heartbeat_run e prev [] = Some []"
| "heartbeat_run e prev (t # ts) = do {
     (prev, sent) \<leftarrow> SendHeartbeat e t prev;
     r \<leftarrow> heartbeat_run e prev ts;
     Some (if sent = [] then r else t # r) }"

lemma SendHeartbeat_cases:
  assumes "length (env_stk e) = BUFSIZE"
  obtains "t - prev < 20" "prev \<noteq> 0" "SendHeartbeat e t prev = Some (prev, [])"
  | sent where "\<not> (t - prev < 20 \<and> prev \<noteq> 0)" "SendHeartbeat e t prev = Some (t, sent)" "length sent \<le> 1"
proof (cases "t - prev < 20 \<and> prev \<noteq> 0")
  case True
  then show thesis using that(1) by (simp add: SendHeartbeat_def)
next
  case False
  let ?m = "SDMHeartbeat_new\<lparr>SDMHeartbeat_source := (SDMHeartbeat_source SDMHeartbeat_new)\<lparr>m_ulSensorId := PID e\<rparr>\<rparr>"
  let ?d = "SDMComponent_ID_new\<lparr>m_ulAddress := 0x0100007f, m_usPort := PORT_PM\<rparr>"
  have w: "SDMHeartbeat_wf ?m" by (simp add: SDMHeartbeat_wf_def SDMHeartbeat_new_def new_message_def SDMmessage.defs)
  have "\<exists>m' sent r. SendTo SDMHeartbeat_Marshal (env_net e) (env_stk e) (env_ack e) (env_now e) ?m ?d = Some (m', sent, r) \<and> length sent \<le> 1"
  proof (cases "net_connect (env_net e) (m_ulAddress ?d) (m_usPort ?d) = IP_SOCK_INVALID")
    case True
    obtain m' where "SDMHeartbeat_Marshal (env_now e) ?m (env_stk e) = Some (m', heartbeat.datagram (env_now e) ?m
        @ drop (length (heartbeat.datagram (env_now e) ?m)) (env_stk e), int (length (heartbeat.datagram (env_now e) ?m)))"
      using heartbeat.Marshal_datagram [OF w TrueI assms] by metis
    with True show ?thesis by (simp add: SendTo_def)
  next
    case False
    from heartbeat.SendTo_once [OF w TrueI assms _ _ this, of "env_ack e" "env_now e"] show ?thesis by force
  qed
  then obtain sent where "SendHeartbeat e t prev = Some (t, sent)" "length sent \<le> 1"
    using False by (auto simp: SendHeartbeat_def Let_def)
  with False that(2) show thesis by blast
qed

lemma heartbeat_gap: "prev \<le> t \<Longrightarrow> \<not> t - prev < (20 :: 32 word) \<Longrightarrow> unat prev + 20 \<le> unat t"
  by (simp add: word_less_nat_alt word_le_nat_alt unat_sub)

lemma heartbeat_run_spaced:
  assumes "length (env_stk e) = BUFSIZE" "sorted ts" "\<forall>t\<in>set ts. prev \<le> t \<and> t \<noteq> 0"
  shows "\<exists>r. heartbeat_run e prev ts = Some r \<and> set r \<subseteq> set ts \<and> (prev \<noteq> 0 \<longrightarrow> (\<forall>t\<in>set r. unat prev + 20 \<le> unat t))
    \<and> successively (\<lambda>a b. unat a + 20 \<le> unat b) r"
  using assms(2,3)
proof (induction ts arbitrary: prev)
  case Nil
  then show ?case by simp
next
  case (Cons t ts)
  have t: "prev \<le> t" "t \<noteq> 0" "sorted ts" "\<forall>u\<in>set ts. t \<le> u \<and> u \<noteq> 0" using Cons.prems by auto
  show ?case
  proof (rule SendHeartbeat_cases [OF assms(1), of t prev])
    assume a: "t - prev < 20" "prev \<noteq> 0" "SendHeartbeat e t prev = Some (prev, [])"
    have "\<forall>u\<in>set ts. prev \<le> u \<and> u \<noteq> 0" using t by auto
    from Cons.IH [OF t(3) this] a show ?thesis by auto
  next
    fix sent assume a: "\<not> (t - prev < 20 \<and> prev \<noteq> 0)" "SendHeartbeat e t prev = Some (t, sent)"
    from Cons.IH [OF t(3,4)] t(2) obtain r where r: "heartbeat_run e t ts = Some r" "set r \<subseteq> set ts"
        "\<forall>u\<in>set r. unat t + 20 \<le> unat u" "successively (\<lambda>a b. unat a + 20 \<le> unat b) r" by blast
    have g: "prev \<noteq> 0 \<longrightarrow> unat prev + 20 \<le> unat t" using a(1) heartbeat_gap [OF t(1)] by blast
    moreover have "successively (\<lambda>a b. unat a + 20 \<le> unat b) (t # r)" using r(3,4) by (cases r) simp_all
    moreover have "\<forall>u\<in>set (t # r). unat prev + 20 \<le> unat u" if "prev \<noteq> 0"
    proof
      fix u assume "u \<in> set (t # r)"
      then have "u = t \<or> unat t + 20 \<le> unat u" using r(3) by auto
      with g that show "unat prev + 20 \<le> unat u" by auto
    qed
    ultimately show ?thesis using a(2) r by (cases "sent = []") (auto simp: subset_insertI2)
  qed
qed

text \<open>
  Heartbeats are rate limited: whatever the times of the calls (in order, and after the epoch) and
  whatever the network does, two heartbeats that reach the network are at least 20 seconds apart.
\<close>

theorem heartbeats_spaced:
  assumes "length (env_stk e) = BUFSIZE" "sorted ts" "0 \<notin> set ts"
  shows "\<exists>r. heartbeat_run e 0 ts = Some r \<and> successively (\<lambda>a b. unat a + 20 \<le> unat b) r"
  using heartbeat_run_spaced [of e ts 0] assms by fastforce

theorem heartbeats_spaced_witness:
  "\<exists>r. heartbeat_run (sample_env 0) 0 [100, 105, 121, 140] = Some r \<and> successively (\<lambda>a b. unat a + 20 \<le> unat b) r"
  by (rule heartbeats_spaced) (simp_all add: sample_env_ok)

lemma GET_LONG_reply: "GET_LONG (b # word_bytes 4 p) (Suc 0) = Some p"
  by (simp add: get_simps get_bytes_def)

text \<open>
  \<open>getPort\<close> yields a port an application may use: it is between 4000 and 65535, or the call
  reports that the process manager is not available; a reply of five bytes with such a number is returned.
\<close>

theorem getPort_range:
  "(getPort net = SDM_PM_NOT_AVAILABLE \<or> (4000 \<le> getPort net \<and> getPort net \<le> 65535))
   \<and> (net_connect net 0x0100007f PORT_PM \<noteq> IP_SOCK_INVALID \<and> net_recv net 0 = Some (b # word_bytes 4 (p :: 32 word))
        \<and> 4000 \<le> sint p \<and> sint p \<le> 65535 \<longrightarrow> getPort net = sint p)"
  using GET_LONG_reply [of b p] by (auto simp: getPort_def Let_def)

theorem getPort_range_witness:
  "getPort ((sample_net 0)\<lparr>net_recv := \<lambda>_. Some (0x46 # word_bytes 4 (4711 :: 32 word))\<rparr>) = 4711"
  using getPort_range [where net = "(sample_net 0)\<lparr>net_recv := \<lambda>_. Some (0x46 # word_bytes 4 (4711 :: 32 word))\<rparr>" and p = 4711 and b = 70]
  by (simp add: sample_net_def)

end
