(* ===== verification/XTEDS_Tree.thy ===== *)
theory XTEDS_Tree
  imports Main "HOL-Library.Multiset"
begin

text \<open>
  The xTEDS tree of \<^verbatim>\<open>common/xTEDS/xTEDSParser.c\<close>: the structures the grammar builds, the
  constructors \<^verbatim>\<open>new_*\<close>, the list operations \<^verbatim>\<open>link_*\<close>, the setters \<^verbatim>\<open>*_add_*\<close> and the
  destructors \<^verbatim>\<open>delete_*\<close>.

  The tree is a heap structure whose nodes and strings are all separately allocated. The model
  keeps the address of every allocation: a node carries its own block, a string pointer is NULL
  or a block with its text. A structure with a \<^verbatim>\<open>next\<close> pointer is a list (NULL the empty one), any
  other pointer an option. \<^verbatim>\<open>malloc\<close> takes the next fresh address from the heap counter; \<^verbatim>\<open>free\<close> is
  recorded in the list of freed blocks an operation returns, in the order of the calls, and
  \<^verbatim>\<open>free(NULL)\<close> records nothing. A use after free or a double free would show as a block that is
  freed while owned, or freed twice.
\<close>

type_synonym blk = nat
type_synonym heap = nat
type_synonym str = "(blk \<times> string) option"

definition str_blocks :: "str \<Rightarrow> blk list" where
  "str_blocks s = (case s of None \<Rightarrow> [] | Some (b, _) \<Rightarrow> [b])"

lemma str_blocks_simps [simp]: "str_blocks None = []" "str_blocks (Some (b, t)) = [b]"
  by (simp_all add: str_blocks_def)

text \<open>The loop of every \<^verbatim>\<open>link_*\<close>: walk to the last node of the first list, hang the second there.\<close>

fun link_last :: "'a list \<Rightarrow> 'a list \<Rightarrow> 'a list" where
  "link_last [] b = b"
| "link_last [cur] b = cur # b"
| "link_last (cur # next # rest) b = cur # link_last (next # rest) b"

definition link_nodes :: "'a list \<Rightarrow> 'a list \<Rightarrow> 'a list" where
  "link_nodes a b = (if a = [] then b else if b = [] then a else link_last a b)"

lemma link_last_append: "link_last a b = a @ b"
  by (induction a b rule: link_last.induct) simp_all

lemma link_nodes_append: "link_nodes a b = a @ b"
  by (simp add: link_nodes_def link_last_append)

section \<open>The structures\<close>

record qualifier_type =
  q_blk :: blk
  q_name :: str
  q_value :: str
  q_units :: str

record coef =
  co_blk :: blk
  co_exponent :: str
  co_value :: str
  co_description :: str

record curve =
  cu_blk :: blk
  cu_name :: str
  cu_description :: str
  cu_coefs :: "coef list"

record curveoption =
  op_blk :: blk
  op_name :: str
  op_value :: str
  op_description :: str
  op_alarm :: str

record drange =
  dr_blk :: blk
  dr_name :: str
  dr_description :: str
  dr_options :: "curveoption list"

record location =
  lo_blk :: blk
  lo_x_value :: str
  lo_y_value :: str
  lo_z_value :: str
  lo_units :: str

record orientation =
  ori_blk :: blk
  ori_axis_value :: str
  ori_angle_value :: str
  ori_units_value :: str

record variable =
  v_blk :: blk
  v_length :: str
  v_kind :: str
  v_name :: str
  v_qualifier :: str
  v_id :: str
  v_range_min :: str
  v_range_max :: str
  v_default_value :: str
  v_precision :: str
  v_units :: str
  v_accuracy :: str
  v_scale_factor :: str
  v_scale_units :: str
  v_format :: str
  v_description :: str
  v_interface_name :: str
  v_interface_id :: str
  v_r_low :: str
  v_r_high :: str
  v_y_low :: str
  v_y_high :: str
  v_invalid_value :: str
  v_qualifiers :: "qualifier_type list"
  v_curves :: "curve option"
  v_dranges :: "drange option"
  v_location_data :: "location option"
  v_orientation_data :: "orientation list"

record var_ref =
  vr_blk :: blk
  vr_name :: str

record fault_msg =
  fm_blk :: blk
  fm_name :: str
  fm_id :: str
  fm_description :: str
  fm_interface_name :: str
  fm_interface_id :: str
  fm_variables :: "var_ref list"
  fm_qualifiers :: "qualifier_type list"

record data_msg =
  dm_blk :: blk
  dm_name :: str
  dm_id :: str
  dm_msg_arrival :: str
  dm_description :: str
  dm_msg_rate :: str
  dm_interface_name :: str
  dm_interface_id :: str
  dm_variables :: "var_ref list"
  dm_qualifiers :: "qualifier_type list"

record cmd_msg =
  cmd_blk :: blk
  cmd_name :: str
  cmd_id :: str
  cmd_description :: str
  cmd_interface_name :: str
  cmd_interface_id :: str
  cmd_variables :: "var_ref list"
  cmd_qualifiers :: "qualifier_type list"

record command =
  c_blk :: blk
  c_interface_name :: str
  c_interface_id :: str
  c_command_message :: "cmd_msg list"
  c_fault_message :: "fault_msg option"

record notification =
  n_blk :: blk
  n_interface_name :: str
  n_interface_id :: str
  n_data_message :: "data_msg list"
  n_fault_message :: "fault_msg option"

record request =
  r_blk :: blk
  r_interface_name :: str
  r_interface_id :: str
  r_command_message :: "cmd_msg list"
  r_data_message :: "data_msg list"
  r_fault_message :: "fault_msg option"

record message =
  m_blk :: blk
  m_commands :: "command list"
  m_notifications :: "notification list"
  m_requests :: "request list"

record interface =
  i_blk :: blk
  i_name :: str
  i_extends :: str
  i_id :: str
  i_description :: str
  i_qualifiers :: "qualifier_type list"
  i_variables :: "variable list"
  i_commands :: "command list"
  i_notifications :: "notification list"
  i_requests :: "request list"

record app_dev_attr =
  ad_blk :: blk
  ad_name :: str
  ad_kind :: str
  ad_id :: str
  ad_qualifier :: str
  ad_description :: str
  ad_manufacturer_id :: str
  ad_componentKey :: str
  ad_model_id :: str
  ad_version_letter :: str
  ad_version :: str
  ad_serial_number :: str
  ad_calibration_date :: str
  ad_sensitivity_at_reference :: str
  ad_reference_frequency :: str
  ad_reference_temperature :: str
  ad_measurement_range :: str
  ad_electrical_output :: str
  ad_quality_factor :: str
  ad_temperature_coefficient :: str
  ad_direction_xyz :: str
  ad_cal_due_date :: str
  ad_power_requirements :: str
  ad_spa_u_hub :: str
  ad_spa_u_port :: str
  ad_memory_minimum :: str
  ad_operating_system :: str
  ad_path_for_assembly :: str
  ad_path_on_spacecraft :: str
  ad_qualifiers :: "qualifier_type list"

record xteds =
  x_blk :: blk
  x_name :: str
  x_version :: str
  x_description :: str
  x_xmlns :: str
  x_xmlns_xsi :: str
  x_schema_location :: str
  x_header :: "app_dev_attr option"
  x_interfaces :: "interface list"

section \<open>Constructors\<close>

definition new_qualifier :: "heap \<Rightarrow> qualifier_type list \<times> heap" where
  "new_qualifier h =
     ([\<lparr>q_blk = h, q_name = None, q_value = None, q_units = None\<rparr>], h + 1)"

definition new_coef :: "heap \<Rightarrow> coef list \<times> heap" where
  "new_coef h =
     ([\<lparr>co_blk = h, co_exponent = None, co_value = None, co_description = None\<rparr>], h + 1)"

definition new_curve :: "heap \<Rightarrow> curve option \<times> heap" where
  "new_curve h =
     (Some \<lparr>cu_blk = h, cu_name = None, cu_description = None, cu_coefs = []\<rparr>, h + 1)"

definition new_option :: "heap \<Rightarrow> curveoption list \<times> heap" where
  "new_option h =
     ([\<lparr>op_blk = h, op_name = None, op_value = None, op_description = None,
       op_alarm = None\<rparr>], h + 1)"

definition new_drange :: "heap \<Rightarrow> drange option \<times> heap" where
  "new_drange h =
     (Some \<lparr>dr_blk = h, dr_name = None, dr_description = None, dr_options = []\<rparr>, h + 1)"

definition new_location :: "heap \<Rightarrow> location option \<times> heap" where
  "new_location h =
     (Some \<lparr>lo_blk = h, lo_x_value = None, lo_y_value = None, lo_z_value = None,
       lo_units = None\<rparr>, h + 1)"

definition new_orientation :: "heap \<Rightarrow> orientation list \<times> heap" where
  "new_orientation h =
     ([\<lparr>ori_blk = h, ori_axis_value = None, ori_angle_value = None, ori_units_value = None\<rparr>], h + 1)"

definition new_variable :: "heap \<Rightarrow> variable list \<times> heap" where
  "new_variable h =
     ([\<lparr>v_blk = h, v_length = None, v_kind = None, v_name = None,
       v_qualifier = None, v_id = None, v_range_min = None, v_range_max = None,
       v_default_value = None, v_precision = None, v_units = None, v_accuracy = None,
       v_scale_factor = None, v_scale_units = None, v_format = None, v_description = None,
       v_interface_name = None, v_interface_id = None, v_r_low = None, v_r_high = None,
       v_y_low = None, v_y_high = None, v_invalid_value = None, v_qualifiers = [],
       v_curves = None, v_dranges = None, v_location_data = None, v_orientation_data = []\<rparr>], h + 1)"

definition new_variable_ref :: "heap \<Rightarrow> str \<Rightarrow> var_ref list \<times> heap" where
  "new_variable_ref h name =
     ([\<lparr>vr_blk = h, vr_name = name\<rparr>], h + 1)"

definition new_fault_msg :: "heap \<Rightarrow> fault_msg option \<times> heap" where
  "new_fault_msg h =
     (Some \<lparr>fm_blk = h, fm_name = None, fm_id = None, fm_description = None,
       fm_interface_name = None, fm_interface_id = None, fm_variables = [], fm_qualifiers = []\<rparr>, h + 1)"

definition new_data_msg :: "heap \<Rightarrow> data_msg list \<times> heap" where
  "new_data_msg h =
     ([\<lparr>dm_blk = h, dm_name = None, dm_id = None, dm_msg_arrival = None,
       dm_description = None, dm_msg_rate = None, dm_interface_name = None, dm_interface_id = None,
       dm_variables = [], dm_qualifiers = []\<rparr>], h + 1)"

definition new_cmd_msg :: "heap \<Rightarrow> cmd_msg list \<times> heap" where
  "new_cmd_msg h =
     ([\<lparr>cmd_blk = h, cmd_name = None, cmd_id = None, cmd_description = None,
       cmd_interface_name = None, cmd_interface_id = None, cmd_variables = [], cmd_qualifiers = []\<rparr>], h + 1)"

definition new_command :: "heap \<Rightarrow> command list \<times> heap" where
  "new_command h =
     ([\<lparr>c_blk = h, c_interface_name = None, c_interface_id = None, c_command_message = [],
       c_fault_message = None\<rparr>], h + 1)"

definition new_notification :: "heap \<Rightarrow> notification list \<times> heap" where
  "new_notification h =
     ([\<lparr>n_blk = h, n_interface_name = None, n_interface_id = None, n_data_message = [],
       n_fault_message = None\<rparr>], h + 1)"

definition new_request :: "heap \<Rightarrow> request list \<times> heap" where
  "new_request h =
     ([\<lparr>r_blk = h, r_interface_name = None, r_interface_id = None, r_command_message = [],
       r_data_message = [], r_fault_message = None\<rparr>], h + 1)"

definition new_message_node :: "heap \<Rightarrow> message option \<times> heap" where
  "new_message_node h =
     (Some \<lparr>m_blk = h, m_commands = [], m_notifications = [], m_requests = []\<rparr>, h + 1)"

definition new_interface :: "heap \<Rightarrow> interface list \<times> heap" where
  "new_interface h =
     ([\<lparr>i_blk = h, i_name = None, i_extends = None, i_id = None,
       i_description = None, i_qualifiers = [], i_variables = [], i_commands = [],
       i_notifications = [], i_requests = []\<rparr>], h + 1)"

definition new_app_dev_attr :: "heap \<Rightarrow> app_dev_attr option \<times> heap" where
  "new_app_dev_attr h =
     (Some \<lparr>ad_blk = h, ad_name = None, ad_kind = None, ad_id = None,
       ad_qualifier = None, ad_description = None, ad_manufacturer_id = None, ad_componentKey = None,
       ad_model_id = None, ad_version_letter = None, ad_version = None, ad_serial_number = None,
       ad_calibration_date = None, ad_sensitivity_at_reference = None, ad_reference_frequency = None, ad_reference_temperature = None,
       ad_measurement_range = None, ad_electrical_output = None, ad_quality_factor = None, ad_temperature_coefficient = None,
       ad_direction_xyz = None, ad_cal_due_date = None, ad_power_requirements = None, ad_spa_u_hub = None,
       ad_spa_u_port = None, ad_memory_minimum = None, ad_operating_system = None, ad_path_for_assembly = None,
       ad_path_on_spacecraft = None, ad_qualifiers = []\<rparr>, h + 1)"

definition new_xteds :: "heap \<Rightarrow> app_dev_attr option \<Rightarrow> xteds option \<times> heap" where
  "new_xteds h header =
     (Some \<lparr>x_blk = h, x_name = None, x_version = None, x_description = None,
       x_xmlns = None, x_xmlns_xsi = None, x_schema_location = None, x_header = header,
       x_interfaces = []\<rparr>, h + 1)"

section \<open>Linking\<close>

definition link_qualifiers :: "qualifier_type list \<Rightarrow> qualifier_type list \<Rightarrow> qualifier_type list" where
  "link_qualifiers a b = link_nodes a b"

definition link_coefs :: "coef list \<Rightarrow> coef list \<Rightarrow> coef list" where
  "link_coefs a b = link_nodes a b"

definition link_options :: "curveoption list \<Rightarrow> curveoption list \<Rightarrow> curveoption list" where
  "link_options a b = link_nodes a b"

definition link_orientations :: "orientation list \<Rightarrow> orientation list \<Rightarrow> orientation list" where
  "link_orientations a b = link_nodes a b"

definition link_variables :: "variable list \<Rightarrow> variable list \<Rightarrow> variable list" where
  "link_variables a b = link_nodes a b"

definition link_variable_ref :: "var_ref list \<Rightarrow> var_ref list \<Rightarrow> var_ref list" where
  "link_variable_ref a b = link_nodes a b"

definition link_data_msg :: "data_msg list \<Rightarrow> data_msg list \<Rightarrow> data_msg list" where
  "link_data_msg a b = link_nodes a b"

definition link_cmd_msg :: "cmd_msg list \<Rightarrow> cmd_msg list \<Rightarrow> cmd_msg list" where
  "link_cmd_msg a b = link_nodes a b"

definition link_command :: "command list \<Rightarrow> command list \<Rightarrow> command list" where
  "link_command a b = link_nodes a b"

definition link_notification :: "notification list \<Rightarrow> notification list \<Rightarrow> notification list" where
  "link_notification a b = link_nodes a b"

definition link_request :: "request list \<Rightarrow> request list \<Rightarrow> request list" where
  "link_request a b = link_nodes a b"

definition link_interface :: "interface list \<Rightarrow> interface list \<Rightarrow> interface list" where
  "link_interface a b = link_nodes a b"

definition curve_add_coefs :: "curve option \<Rightarrow> coef list \<Rightarrow> curve option" where
  "curve_add_coefs a b = (case a of None \<Rightarrow> a | Some x \<Rightarrow> Some (x\<lparr>cu_coefs := b\<rparr>))"

definition drange_add_options :: "drange option \<Rightarrow> curveoption list \<Rightarrow> drange option" where
  "drange_add_options a b = (case a of None \<Rightarrow> a | Some x \<Rightarrow> Some (x\<lparr>dr_options := b\<rparr>))"

definition fault_add_var_refs :: "fault_msg option \<Rightarrow> var_ref list \<Rightarrow> fault_msg option" where
  "fault_add_var_refs a b = (case a of None \<Rightarrow> a | Some x \<Rightarrow> Some (x\<lparr>fm_variables := b\<rparr>))"

definition data_add_var_refs :: "data_msg list \<Rightarrow> var_ref list \<Rightarrow> data_msg list" where
  "data_add_var_refs a b = (case a of [] \<Rightarrow> a | x # xs \<Rightarrow> x\<lparr>dm_variables := b\<rparr> # xs)"

definition cmd_add_var_refs :: "cmd_msg list \<Rightarrow> var_ref list \<Rightarrow> cmd_msg list" where
  "cmd_add_var_refs a b = (case a of [] \<Rightarrow> a | x # xs \<Rightarrow> x\<lparr>cmd_variables := b\<rparr> # xs)"

definition command_add_cmd_msg :: "command list \<Rightarrow> cmd_msg list \<Rightarrow> command list" where
  "command_add_cmd_msg a b = (case a of [] \<Rightarrow> a | x # xs \<Rightarrow> x\<lparr>c_command_message := b\<rparr> # xs)"

definition command_add_fault_msg :: "command list \<Rightarrow> fault_msg option \<Rightarrow> command list" where
  "command_add_fault_msg a b = (case a of [] \<Rightarrow> a | x # xs \<Rightarrow> x\<lparr>c_fault_message := b\<rparr> # xs)"

definition notification_add_data_msg :: "notification list \<Rightarrow> data_msg list \<Rightarrow> notification list" where
  "notification_add_data_msg a b = (case a of [] \<Rightarrow> a | x # xs \<Rightarrow> x\<lparr>n_data_message := b\<rparr> # xs)"

definition notification_add_fault_msg :: "notification list \<Rightarrow> fault_msg option \<Rightarrow> notification list" where
  "notification_add_fault_msg a b = (case a of [] \<Rightarrow> a | x # xs \<Rightarrow> x\<lparr>n_fault_message := b\<rparr> # xs)"

definition request_add_cmd_msg :: "request list \<Rightarrow> cmd_msg list \<Rightarrow> request list" where
  "request_add_cmd_msg a b = (case a of [] \<Rightarrow> a | x # xs \<Rightarrow> x\<lparr>r_command_message := b\<rparr> # xs)"

definition request_add_data_msg :: "request list \<Rightarrow> data_msg list \<Rightarrow> request list" where
  "request_add_data_msg a b = (case a of [] \<Rightarrow> a | x # xs \<Rightarrow> x\<lparr>r_data_message := b\<rparr> # xs)"

definition request_add_fault_msg :: "request list \<Rightarrow> fault_msg option \<Rightarrow> request list" where
  "request_add_fault_msg a b = (case a of [] \<Rightarrow> a | x # xs \<Rightarrow> x\<lparr>r_fault_message := b\<rparr> # xs)"

definition message_link_command :: "message option \<Rightarrow> command list \<Rightarrow> message option" where
  "message_link_command msg n = (case msg of None \<Rightarrow> None | Some x \<Rightarrow>
     Some (x\<lparr>m_commands := link_command (m_commands x) n\<rparr>))"

definition message_link_notification :: "message option \<Rightarrow> notification list \<Rightarrow> message option" where
  "message_link_notification msg n = (case msg of None \<Rightarrow> None | Some x \<Rightarrow>
     Some (x\<lparr>m_notifications := link_notification (m_notifications x) n\<rparr>))"

definition message_link_request :: "message option \<Rightarrow> request list \<Rightarrow> message option" where
  "message_link_request msg n = (case msg of None \<Rightarrow> None | Some x \<Rightarrow>
     Some (x\<lparr>m_requests := link_request (m_requests x) n\<rparr>))"

text \<open>\<^verbatim>\<open>add_references\<close> dereferences its first argument without a test: NULL is \<^term>\<open>None\<close>.\<close>

definition add_references :: "xteds option \<Rightarrow> app_dev_attr option \<Rightarrow> interface list \<Rightarrow> xteds option option" where
  "add_references xTEDS attr face = (case xTEDS of None \<Rightarrow> None | Some x \<Rightarrow>
     Some (Some (x\<lparr>x_header := attr, x_interfaces := face\<rparr>)))"

section \<open>Destructors\<close>

text \<open>Each returns the code of the C function, 0 for NULL and 1 otherwise, and the blocks freed.\<close>

primrec delete_qualifier :: "qualifier_type list \<Rightarrow> int \<times> blk list" where
  "delete_qualifier [] = (0, [])"
| "delete_qualifier (p # next) = (1, snd (delete_qualifier next)
      @ str_blocks (q_name p) @ str_blocks (q_value p) @ str_blocks (q_units p) @ [q_blk p])"

primrec delete_coef :: "coef list \<Rightarrow> int \<times> blk list" where
  "delete_coef [] = (0, [])"
| "delete_coef (p # next) = (1, snd (delete_coef next)
      @ str_blocks (co_exponent p) @ str_blocks (co_value p) @ str_blocks (co_description p) @ [co_blk p])"

definition delete_curve :: "curve option \<Rightarrow> int \<times> blk list" where
  "delete_curve q = (case q of None \<Rightarrow> (0, []) | Some p \<Rightarrow> (1,
      snd (delete_coef (cu_coefs p)) @ str_blocks (cu_name p) @ str_blocks (cu_description p) @ [cu_blk p]))"

primrec delete_option :: "curveoption list \<Rightarrow> int \<times> blk list" where
  "delete_option [] = (0, [])"
| "delete_option (p # next) = (1, snd (delete_option next)
      @ str_blocks (op_name p) @ str_blocks (op_value p) @ str_blocks (op_description p) @ str_blocks (op_alarm p)
      @ [op_blk p])"

definition delete_drange :: "drange option \<Rightarrow> int \<times> blk list" where
  "delete_drange q = (case q of None \<Rightarrow> (0, []) | Some p \<Rightarrow> (1,
      snd (delete_option (dr_options p)) @ str_blocks (dr_name p) @ str_blocks (dr_description p) @ [dr_blk p]))"

definition delete_location :: "location option \<Rightarrow> int \<times> blk list" where
  "delete_location q = (case q of None \<Rightarrow> (0, []) | Some p \<Rightarrow> (1,
      str_blocks (lo_x_value p) @ str_blocks (lo_y_value p) @ str_blocks (lo_z_value p) @ str_blocks (lo_units p)
      @ [lo_blk p]))"

primrec delete_orientation :: "orientation list \<Rightarrow> int \<times> blk list" where
  "delete_orientation [] = (0, [])"
| "delete_orientation (p # next) = (1, snd (delete_orientation next)
      @ str_blocks (ori_axis_value p) @ str_blocks (ori_angle_value p) @ str_blocks (ori_units_value p) @ [ori_blk p])"

primrec delete_variable :: "variable list \<Rightarrow> int \<times> blk list" where
  "delete_variable [] = (0, [])"
| "delete_variable (p # next) = (1, snd (delete_variable next)
      @ snd (delete_qualifier (v_qualifiers p)) @ snd (delete_curve (v_curves p)) @ snd (delete_drange (v_dranges p)) @ snd (delete_location (v_location_data p))
      @ snd (delete_orientation (v_orientation_data p)) @ str_blocks (v_length p) @ str_blocks (v_kind p) @ str_blocks (v_name p)
      @ str_blocks (v_qualifier p) @ str_blocks (v_id p) @ str_blocks (v_range_min p) @ str_blocks (v_range_max p)
      @ str_blocks (v_default_value p) @ str_blocks (v_precision p) @ str_blocks (v_units p) @ str_blocks (v_accuracy p)
      @ str_blocks (v_scale_factor p) @ str_blocks (v_scale_units p) @ str_blocks (v_format p) @ str_blocks (v_description p)
      @ str_blocks (v_interface_name p) @ str_blocks (v_interface_id p) @ str_blocks (v_r_low p) @ str_blocks (v_r_high p)
      @ str_blocks (v_y_low p) @ str_blocks (v_y_high p) @ str_blocks (v_invalid_value p) @ [v_blk p])"

primrec delete_var_ref :: "var_ref list \<Rightarrow> int \<times> blk list" where
  "delete_var_ref [] = (0, [])"
| "delete_var_ref (p # next) = (1, snd (delete_var_ref next)
      @ str_blocks (vr_name p) @ [vr_blk p])"

definition delete_fault_msg :: "fault_msg option \<Rightarrow> int \<times> blk list" where
  "delete_fault_msg q = (case q of None \<Rightarrow> (0, []) | Some p \<Rightarrow> (1,
      snd (delete_var_ref (fm_variables p)) @ snd (delete_qualifier (fm_qualifiers p)) @ str_blocks (fm_name p) @ str_blocks (fm_id p)
      @ str_blocks (fm_description p) @ str_blocks (fm_interface_name p) @ str_blocks (fm_interface_id p) @ [fm_blk p]))"

primrec delete_data_msg :: "data_msg list \<Rightarrow> int \<times> blk list" where
  "delete_data_msg [] = (0, [])"
| "delete_data_msg (p # next) = (1, snd (delete_data_msg next)
      @ snd (delete_var_ref (dm_variables p)) @ snd (delete_qualifier (dm_qualifiers p)) @ str_blocks (dm_name p) @ str_blocks (dm_id p)
      @ str_blocks (dm_msg_arrival p) @ str_blocks (dm_description p) @ str_blocks (dm_msg_rate p) @ str_blocks (dm_interface_name p)
      @ str_blocks (dm_interface_id p) @ [dm_blk p])"

primrec delete_cmd_msg :: "cmd_msg list \<Rightarrow> int \<times> blk list" where
  "delete_cmd_msg [] = (0, [])"
| "delete_cmd_msg (p # next) = (1, snd (delete_cmd_msg next)
      @ snd (delete_var_ref (cmd_variables p)) @ snd (delete_qualifier (cmd_qualifiers p)) @ str_blocks (cmd_name p) @ str_blocks (cmd_id p)
      @ str_blocks (cmd_description p) @ str_blocks (cmd_interface_name p) @ str_blocks (cmd_interface_id p) @ [cmd_blk p])"

primrec delete_command :: "command list \<Rightarrow> int \<times> blk list" where
  "delete_command [] = (0, [])"
| "delete_command (p # next) = (1, snd (delete_command next)
      @ snd (delete_cmd_msg (c_command_message p)) @ snd (delete_fault_msg (c_fault_message p)) @ str_blocks (c_interface_name p) @ str_blocks (c_interface_id p)
      @ [c_blk p])"

primrec delete_notification :: "notification list \<Rightarrow> int \<times> blk list" where
  "delete_notification [] = (0, [])"
| "delete_notification (p # next) = (1, snd (delete_notification next)
      @ snd (delete_data_msg (n_data_message p)) @ snd (delete_fault_msg (n_fault_message p)) @ str_blocks (n_interface_name p) @ str_blocks (n_interface_id p)
      @ [n_blk p])"

primrec delete_request :: "request list \<Rightarrow> int \<times> blk list" where
  "delete_request [] = (0, [])"
| "delete_request (p # next) = (1, snd (delete_request next)
      @ snd (delete_cmd_msg (r_command_message p)) @ snd (delete_data_msg (r_data_message p)) @ snd (delete_fault_msg (r_fault_message p)) @ str_blocks (r_interface_name p)
      @ str_blocks (r_interface_id p) @ [r_blk p])"

definition delete_message :: "message option \<Rightarrow> int \<times> blk list" where
  "delete_message q = (case q of None \<Rightarrow> (0, []) | Some p \<Rightarrow> (1,
      snd (delete_command (m_commands p)) @ snd (delete_notification (m_notifications p)) @ snd (delete_request (m_requests p)) @ [m_blk p]))"

primrec delete_interface :: "interface list \<Rightarrow> int \<times> blk list" where
  "delete_interface [] = (0, [])"
| "delete_interface (p # next) = (1, snd (delete_interface next)
      @ snd (delete_qualifier (i_qualifiers p)) @ snd (delete_variable (i_variables p)) @ snd (delete_command (i_commands p)) @ snd (delete_notification (i_notifications p))
      @ snd (delete_request (i_requests p)) @ str_blocks (i_name p) @ str_blocks (i_extends p) @ str_blocks (i_id p)
      @ str_blocks (i_description p) @ [i_blk p])"

definition delete_app_dev_attr :: "app_dev_attr option \<Rightarrow> int \<times> blk list" where
  "delete_app_dev_attr q = (case q of None \<Rightarrow> (0, []) | Some p \<Rightarrow> (1,
      snd (delete_qualifier (ad_qualifiers p)) @ str_blocks (ad_name p) @ str_blocks (ad_kind p) @ str_blocks (ad_id p)
      @ str_blocks (ad_qualifier p) @ str_blocks (ad_description p) @ str_blocks (ad_manufacturer_id p) @ str_blocks (ad_componentKey p)
      @ str_blocks (ad_model_id p) @ str_blocks (ad_version_letter p) @ str_blocks (ad_version p) @ str_blocks (ad_serial_number p)
      @ str_blocks (ad_calibration_date p) @ str_blocks (ad_sensitivity_at_reference p) @ str_blocks (ad_reference_frequency p) @ str_blocks (ad_reference_temperature p)
      @ str_blocks (ad_measurement_range p) @ str_blocks (ad_electrical_output p) @ str_blocks (ad_quality_factor p) @ str_blocks (ad_temperature_coefficient p)
      @ str_blocks (ad_direction_xyz p) @ str_blocks (ad_cal_due_date p) @ str_blocks (ad_power_requirements p) @ str_blocks (ad_spa_u_hub p)
      @ str_blocks (ad_spa_u_port p) @ str_blocks (ad_memory_minimum p) @ str_blocks (ad_operating_system p) @ str_blocks (ad_path_for_assembly p)
      @ str_blocks (ad_path_on_spacecraft p) @ [ad_blk p]))"

definition delete_xteds :: "xteds option \<Rightarrow> int \<times> blk list" where
  "delete_xteds q = (case q of None \<Rightarrow> (0, []) | Some p \<Rightarrow> (1,
      snd (delete_app_dev_attr (x_header p)) @ snd (delete_interface (x_interfaces p)) @ str_blocks (x_name p) @ str_blocks (x_version p)
      @ str_blocks (x_description p) @ str_blocks (x_xmlns p) @ str_blocks (x_xmlns_xsi p) @ str_blocks (x_schema_location p)
      @ [x_blk p]))"

section \<open>The blocks a pointer owns\<close>

text \<open>The allocations reachable from a pointer, in the order of the structure declarations. Every
  destructor frees exactly these.\<close>

definition qualifier_type_blocks :: "qualifier_type \<Rightarrow> blk list" where
  "qualifier_type_blocks x = [q_blk x] @ str_blocks (q_name x) @ str_blocks (q_value x) @ str_blocks (q_units x)"

definition qualifier_type_ptr_blocks :: "qualifier_type list \<Rightarrow> blk list" where
  "qualifier_type_ptr_blocks p = concat (map qualifier_type_blocks p)"

definition coef_blocks :: "coef \<Rightarrow> blk list" where
  "coef_blocks x = [co_blk x] @ str_blocks (co_exponent x) @ str_blocks (co_value x) @ str_blocks (co_description x)"

definition coef_ptr_blocks :: "coef list \<Rightarrow> blk list" where
  "coef_ptr_blocks p = concat (map coef_blocks p)"

definition curve_blocks :: "curve \<Rightarrow> blk list" where
  "curve_blocks x = [cu_blk x] @ str_blocks (cu_name x) @ str_blocks (cu_description x) @ coef_ptr_blocks (cu_coefs x)"

definition curve_ptr_blocks :: "curve option \<Rightarrow> blk list" where
  "curve_ptr_blocks p = (case p of None \<Rightarrow> [] | Some x \<Rightarrow> curve_blocks x)"

definition curveoption_blocks :: "curveoption \<Rightarrow> blk list" where
  "curveoption_blocks x = [op_blk x] @ str_blocks (op_name x) @ str_blocks (op_value x) @ str_blocks (op_description x)
     @ str_blocks (op_alarm x)"

definition curveoption_ptr_blocks :: "curveoption list \<Rightarrow> blk list" where
  "curveoption_ptr_blocks p = concat (map curveoption_blocks p)"

definition drange_blocks :: "drange \<Rightarrow> blk list" where
  "drange_blocks x = [dr_blk x] @ str_blocks (dr_name x) @ str_blocks (dr_description x) @ curveoption_ptr_blocks (dr_options x)"

definition drange_ptr_blocks :: "drange option \<Rightarrow> blk list" where
  "drange_ptr_blocks p = (case p of None \<Rightarrow> [] | Some x \<Rightarrow> drange_blocks x)"

definition location_blocks :: "location \<Rightarrow> blk list" where
  "location_blocks x = [lo_blk x] @ str_blocks (lo_x_value x) @ str_blocks (lo_y_value x) @ str_blocks (lo_z_value x)
     @ str_blocks (lo_units x)"

definition location_ptr_blocks :: "location option \<Rightarrow> blk list" where
  "location_ptr_blocks p = (case p of None \<Rightarrow> [] | Some x \<Rightarrow> location_blocks x)"

definition orientation_blocks :: "orientation \<Rightarrow> blk list" where
  "orientation_blocks x = [ori_blk x] @ str_blocks (ori_axis_value x) @ str_blocks (ori_angle_value x) @ str_blocks (ori_units_value x)"

definition orientation_ptr_blocks :: "orientation list \<Rightarrow> blk list" where
  "orientation_ptr_blocks p = concat (map orientation_blocks p)"

definition variable_blocks :: "variable \<Rightarrow> blk list" where
  "variable_blocks x = [v_blk x] @ str_blocks (v_length x) @ str_blocks (v_kind x) @ str_blocks (v_name x)
     @ str_blocks (v_qualifier x) @ str_blocks (v_id x) @ str_blocks (v_range_min x) @ str_blocks (v_range_max x)
     @ str_blocks (v_default_value x) @ str_blocks (v_precision x) @ str_blocks (v_units x) @ str_blocks (v_accuracy x)
     @ str_blocks (v_scale_factor x) @ str_blocks (v_scale_units x) @ str_blocks (v_format x) @ str_blocks (v_description x)
     @ str_blocks (v_interface_name x) @ str_blocks (v_interface_id x) @ str_blocks (v_r_low x) @ str_blocks (v_r_high x)
     @ str_blocks (v_y_low x) @ str_blocks (v_y_high x) @ str_blocks (v_invalid_value x) @ qualifier_type_ptr_blocks (v_qualifiers x)
     @ curve_ptr_blocks (v_curves x) @ drange_ptr_blocks (v_dranges x) @ location_ptr_blocks (v_location_data x) @ orientation_ptr_blocks (v_orientation_data x)"

definition variable_ptr_blocks :: "variable list \<Rightarrow> blk list" where
  "variable_ptr_blocks p = concat (map variable_blocks p)"

definition var_ref_blocks :: "var_ref \<Rightarrow> blk list" where
  "var_ref_blocks x = [vr_blk x] @ str_blocks (vr_name x)"

definition var_ref_ptr_blocks :: "var_ref list \<Rightarrow> blk list" where
  "var_ref_ptr_blocks p = concat (map var_ref_blocks p)"

definition fault_msg_blocks :: "fault_msg \<Rightarrow> blk list" where
  "fault_msg_blocks x = [fm_blk x] @ str_blocks (fm_name x) @ str_blocks (fm_id x) @ str_blocks (fm_description x)
     @ str_blocks (fm_interface_name x) @ str_blocks (fm_interface_id x) @ var_ref_ptr_blocks (fm_variables x) @ qualifier_type_ptr_blocks (fm_qualifiers x)"

definition fault_msg_ptr_blocks :: "fault_msg option \<Rightarrow> blk list" where
  "fault_msg_ptr_blocks p = (case p of None \<Rightarrow> [] | Some x \<Rightarrow> fault_msg_blocks x)"

definition data_msg_blocks :: "data_msg \<Rightarrow> blk list" where
  "data_msg_blocks x = [dm_blk x] @ str_blocks (dm_name x) @ str_blocks (dm_id x) @ str_blocks (dm_msg_arrival x)
     @ str_blocks (dm_description x) @ str_blocks (dm_msg_rate x) @ str_blocks (dm_interface_name x) @ str_blocks (dm_interface_id x)
     @ var_ref_ptr_blocks (dm_variables x) @ qualifier_type_ptr_blocks (dm_qualifiers x)"

definition data_msg_ptr_blocks :: "data_msg list \<Rightarrow> blk list" where
  "data_msg_ptr_blocks p = concat (map data_msg_blocks p)"

definition cmd_msg_blocks :: "cmd_msg \<Rightarrow> blk list" where
  "cmd_msg_blocks x = [cmd_blk x] @ str_blocks (cmd_name x) @ str_blocks (cmd_id x) @ str_blocks (cmd_description x)
     @ str_blocks (cmd_interface_name x) @ str_blocks (cmd_interface_id x) @ var_ref_ptr_blocks (cmd_variables x) @ qualifier_type_ptr_blocks (cmd_qualifiers x)"

definition cmd_msg_ptr_blocks :: "cmd_msg list \<Rightarrow> blk list" where
  "cmd_msg_ptr_blocks p = concat (map cmd_msg_blocks p)"

definition command_blocks :: "command \<Rightarrow> blk list" where
  "command_blocks x = [c_blk x] @ str_blocks (c_interface_name x) @ str_blocks (c_interface_id x) @ cmd_msg_ptr_blocks (c_command_message x)
     @ fault_msg_ptr_blocks (c_fault_message x)"

definition command_ptr_blocks :: "command list \<Rightarrow> blk list" where
  "command_ptr_blocks p = concat (map command_blocks p)"

definition notification_blocks :: "notification \<Rightarrow> blk list" where
  "notification_blocks x = [n_blk x] @ str_blocks (n_interface_name x) @ str_blocks (n_interface_id x) @ data_msg_ptr_blocks (n_data_message x)
     @ fault_msg_ptr_blocks (n_fault_message x)"

definition notification_ptr_blocks :: "notification list \<Rightarrow> blk list" where
  "notification_ptr_blocks p = concat (map notification_blocks p)"

definition request_blocks :: "request \<Rightarrow> blk list" where
  "request_blocks x = [r_blk x] @ str_blocks (r_interface_name x) @ str_blocks (r_interface_id x) @ cmd_msg_ptr_blocks (r_command_message x)
     @ data_msg_ptr_blocks (r_data_message x) @ fault_msg_ptr_blocks (r_fault_message x)"

definition request_ptr_blocks :: "request list \<Rightarrow> blk list" where
  "request_ptr_blocks p = concat (map request_blocks p)"

definition message_blocks :: "message \<Rightarrow> blk list" where
  "message_blocks x = [m_blk x] @ command_ptr_blocks (m_commands x) @ notification_ptr_blocks (m_notifications x) @ request_ptr_blocks (m_requests x)"

definition message_ptr_blocks :: "message option \<Rightarrow> blk list" where
  "message_ptr_blocks p = (case p of None \<Rightarrow> [] | Some x \<Rightarrow> message_blocks x)"

definition interface_blocks :: "interface \<Rightarrow> blk list" where
  "interface_blocks x = [i_blk x] @ str_blocks (i_name x) @ str_blocks (i_extends x) @ str_blocks (i_id x)
     @ str_blocks (i_description x) @ qualifier_type_ptr_blocks (i_qualifiers x) @ variable_ptr_blocks (i_variables x) @ command_ptr_blocks (i_commands x)
     @ notification_ptr_blocks (i_notifications x) @ request_ptr_blocks (i_requests x)"

definition interface_ptr_blocks :: "interface list \<Rightarrow> blk list" where
  "interface_ptr_blocks p = concat (map interface_blocks p)"

definition app_dev_attr_blocks :: "app_dev_attr \<Rightarrow> blk list" where
  "app_dev_attr_blocks x = [ad_blk x] @ str_blocks (ad_name x) @ str_blocks (ad_kind x) @ str_blocks (ad_id x)
     @ str_blocks (ad_qualifier x) @ str_blocks (ad_description x) @ str_blocks (ad_manufacturer_id x) @ str_blocks (ad_componentKey x)
     @ str_blocks (ad_model_id x) @ str_blocks (ad_version_letter x) @ str_blocks (ad_version x) @ str_blocks (ad_serial_number x)
     @ str_blocks (ad_calibration_date x) @ str_blocks (ad_sensitivity_at_reference x) @ str_blocks (ad_reference_frequency x) @ str_blocks (ad_reference_temperature x)
     @ str_blocks (ad_measurement_range x) @ str_blocks (ad_electrical_output x) @ str_blocks (ad_quality_factor x) @ str_blocks (ad_temperature_coefficient x)
     @ str_blocks (ad_direction_xyz x) @ str_blocks (ad_cal_due_date x) @ str_blocks (ad_power_requirements x) @ str_blocks (ad_spa_u_hub x)
     @ str_blocks (ad_spa_u_port x) @ str_blocks (ad_memory_minimum x) @ str_blocks (ad_operating_system x) @ str_blocks (ad_path_for_assembly x)
     @ str_blocks (ad_path_on_spacecraft x) @ qualifier_type_ptr_blocks (ad_qualifiers x)"

definition app_dev_attr_ptr_blocks :: "app_dev_attr option \<Rightarrow> blk list" where
  "app_dev_attr_ptr_blocks p = (case p of None \<Rightarrow> [] | Some x \<Rightarrow> app_dev_attr_blocks x)"

definition xteds_blocks :: "xteds \<Rightarrow> blk list" where
  "xteds_blocks x = [x_blk x] @ str_blocks (x_name x) @ str_blocks (x_version x) @ str_blocks (x_description x)
     @ str_blocks (x_xmlns x) @ str_blocks (x_xmlns_xsi x) @ str_blocks (x_schema_location x) @ app_dev_attr_ptr_blocks (x_header x)
     @ interface_ptr_blocks (x_interfaces x)"

definition xteds_ptr_blocks :: "xteds option \<Rightarrow> blk list" where
  "xteds_ptr_blocks p = (case p of None \<Rightarrow> [] | Some x \<Rightarrow> xteds_blocks x)"

lemma qualifier_type_ptr_blocks_null [simp]: "qualifier_type_ptr_blocks [] = []"
  by (simp add: qualifier_type_ptr_blocks_def)

lemma qualifier_type_ptr_blocks_append [simp]: "qualifier_type_ptr_blocks (a @ b) = qualifier_type_ptr_blocks a @ qualifier_type_ptr_blocks b"
  by (simp add: qualifier_type_ptr_blocks_def)

lemma coef_ptr_blocks_null [simp]: "coef_ptr_blocks [] = []"
  by (simp add: coef_ptr_blocks_def)

lemma coef_ptr_blocks_append [simp]: "coef_ptr_blocks (a @ b) = coef_ptr_blocks a @ coef_ptr_blocks b"
  by (simp add: coef_ptr_blocks_def)

lemma curve_ptr_blocks_null [simp]: "curve_ptr_blocks None = []"
  by (simp add: curve_ptr_blocks_def)

lemma curveoption_ptr_blocks_null [simp]: "curveoption_ptr_blocks [] = []"
  by (simp add: curveoption_ptr_blocks_def)

lemma curveoption_ptr_blocks_append [simp]: "curveoption_ptr_blocks (a @ b) = curveoption_ptr_blocks a @ curveoption_ptr_blocks b"
  by (simp add: curveoption_ptr_blocks_def)

lemma drange_ptr_blocks_null [simp]: "drange_ptr_blocks None = []"
  by (simp add: drange_ptr_blocks_def)

lemma location_ptr_blocks_null [simp]: "location_ptr_blocks None = []"
  by (simp add: location_ptr_blocks_def)

lemma orientation_ptr_blocks_null [simp]: "orientation_ptr_blocks [] = []"
  by (simp add: orientation_ptr_blocks_def)

lemma orientation_ptr_blocks_append [simp]: "orientation_ptr_blocks (a @ b) = orientation_ptr_blocks a @ orientation_ptr_blocks b"
  by (simp add: orientation_ptr_blocks_def)

lemma variable_ptr_blocks_null [simp]: "variable_ptr_blocks [] = []"
  by (simp add: variable_ptr_blocks_def)

lemma variable_ptr_blocks_append [simp]: "variable_ptr_blocks (a @ b) = variable_ptr_blocks a @ variable_ptr_blocks b"
  by (simp add: variable_ptr_blocks_def)

lemma var_ref_ptr_blocks_null [simp]: "var_ref_ptr_blocks [] = []"
  by (simp add: var_ref_ptr_blocks_def)

lemma var_ref_ptr_blocks_append [simp]: "var_ref_ptr_blocks (a @ b) = var_ref_ptr_blocks a @ var_ref_ptr_blocks b"
  by (simp add: var_ref_ptr_blocks_def)

lemma fault_msg_ptr_blocks_null [simp]: "fault_msg_ptr_blocks None = []"
  by (simp add: fault_msg_ptr_blocks_def)

lemma data_msg_ptr_blocks_null [simp]: "data_msg_ptr_blocks [] = []"
  by (simp add: data_msg_ptr_blocks_def)

lemma data_msg_ptr_blocks_append [simp]: "data_msg_ptr_blocks (a @ b) = data_msg_ptr_blocks a @ data_msg_ptr_blocks b"
  by (simp add: data_msg_ptr_blocks_def)

lemma cmd_msg_ptr_blocks_null [simp]: "cmd_msg_ptr_blocks [] = []"
  by (simp add: cmd_msg_ptr_blocks_def)

lemma cmd_msg_ptr_blocks_append [simp]: "cmd_msg_ptr_blocks (a @ b) = cmd_msg_ptr_blocks a @ cmd_msg_ptr_blocks b"
  by (simp add: cmd_msg_ptr_blocks_def)

lemma command_ptr_blocks_null [simp]: "command_ptr_blocks [] = []"
  by (simp add: command_ptr_blocks_def)

lemma command_ptr_blocks_append [simp]: "command_ptr_blocks (a @ b) = command_ptr_blocks a @ command_ptr_blocks b"
  by (simp add: command_ptr_blocks_def)

lemma notification_ptr_blocks_null [simp]: "notification_ptr_blocks [] = []"
  by (simp add: notification_ptr_blocks_def)

lemma notification_ptr_blocks_append [simp]: "notification_ptr_blocks (a @ b) = notification_ptr_blocks a @ notification_ptr_blocks b"
  by (simp add: notification_ptr_blocks_def)

lemma request_ptr_blocks_null [simp]: "request_ptr_blocks [] = []"
  by (simp add: request_ptr_blocks_def)

lemma request_ptr_blocks_append [simp]: "request_ptr_blocks (a @ b) = request_ptr_blocks a @ request_ptr_blocks b"
  by (simp add: request_ptr_blocks_def)

lemma message_ptr_blocks_null [simp]: "message_ptr_blocks None = []"
  by (simp add: message_ptr_blocks_def)

lemma interface_ptr_blocks_null [simp]: "interface_ptr_blocks [] = []"
  by (simp add: interface_ptr_blocks_def)

lemma interface_ptr_blocks_append [simp]: "interface_ptr_blocks (a @ b) = interface_ptr_blocks a @ interface_ptr_blocks b"
  by (simp add: interface_ptr_blocks_def)

lemma app_dev_attr_ptr_blocks_null [simp]: "app_dev_attr_ptr_blocks None = []"
  by (simp add: app_dev_attr_ptr_blocks_def)

lemma xteds_ptr_blocks_null [simp]: "xteds_ptr_blocks None = []"
  by (simp add: xteds_ptr_blocks_def)

lemma delete_qualifier_frees: "mset (snd (delete_qualifier p)) = mset (qualifier_type_ptr_blocks p)"
  by (induction p) (simp_all add: qualifier_type_ptr_blocks_def qualifier_type_blocks_def  ac_simps)

lemma delete_coef_frees: "mset (snd (delete_coef p)) = mset (coef_ptr_blocks p)"
  by (induction p) (simp_all add: coef_ptr_blocks_def coef_blocks_def  ac_simps)

lemma delete_curve_frees: "mset (snd (delete_curve p)) = mset (curve_ptr_blocks p)"
  by (cases p) (simp_all add: delete_curve_def curve_ptr_blocks_def curve_blocks_def delete_coef_frees ac_simps)

lemma delete_option_frees: "mset (snd (delete_option p)) = mset (curveoption_ptr_blocks p)"
  by (induction p) (simp_all add: curveoption_ptr_blocks_def curveoption_blocks_def  ac_simps)

lemma delete_drange_frees: "mset (snd (delete_drange p)) = mset (drange_ptr_blocks p)"
  by (cases p) (simp_all add: delete_drange_def drange_ptr_blocks_def drange_blocks_def delete_option_frees ac_simps)

lemma delete_location_frees: "mset (snd (delete_location p)) = mset (location_ptr_blocks p)"
  by (cases p) (simp_all add: delete_location_def location_ptr_blocks_def location_blocks_def  ac_simps)

lemma delete_orientation_frees: "mset (snd (delete_orientation p)) = mset (orientation_ptr_blocks p)"
  by (induction p) (simp_all add: orientation_ptr_blocks_def orientation_blocks_def  ac_simps)

lemma delete_variable_frees: "mset (snd (delete_variable p)) = mset (variable_ptr_blocks p)"
  by (induction p) (simp_all add: variable_ptr_blocks_def variable_blocks_def delete_curve_frees delete_drange_frees delete_location_frees delete_orientation_frees delete_qualifier_frees ac_simps)

lemma delete_var_ref_frees: "mset (snd (delete_var_ref p)) = mset (var_ref_ptr_blocks p)"
  by (induction p) (simp_all add: var_ref_ptr_blocks_def var_ref_blocks_def  ac_simps)

lemma delete_fault_msg_frees: "mset (snd (delete_fault_msg p)) = mset (fault_msg_ptr_blocks p)"
  by (cases p) (simp_all add: delete_fault_msg_def fault_msg_ptr_blocks_def fault_msg_blocks_def delete_qualifier_frees delete_var_ref_frees ac_simps)

lemma delete_data_msg_frees: "mset (snd (delete_data_msg p)) = mset (data_msg_ptr_blocks p)"
  by (induction p) (simp_all add: data_msg_ptr_blocks_def data_msg_blocks_def delete_qualifier_frees delete_var_ref_frees ac_simps)

lemma delete_cmd_msg_frees: "mset (snd (delete_cmd_msg p)) = mset (cmd_msg_ptr_blocks p)"
  by (induction p) (simp_all add: cmd_msg_ptr_blocks_def cmd_msg_blocks_def delete_qualifier_frees delete_var_ref_frees ac_simps)

lemma delete_command_frees: "mset (snd (delete_command p)) = mset (command_ptr_blocks p)"
  by (induction p) (simp_all add: command_ptr_blocks_def command_blocks_def delete_cmd_msg_frees delete_fault_msg_frees ac_simps)

lemma delete_notification_frees: "mset (snd (delete_notification p)) = mset (notification_ptr_blocks p)"
  by (induction p) (simp_all add: notification_ptr_blocks_def notification_blocks_def delete_data_msg_frees delete_fault_msg_frees ac_simps)

lemma delete_request_frees: "mset (snd (delete_request p)) = mset (request_ptr_blocks p)"
  by (induction p) (simp_all add: request_ptr_blocks_def request_blocks_def delete_cmd_msg_frees delete_data_msg_frees delete_fault_msg_frees ac_simps)

lemma delete_message_frees: "mset (snd (delete_message p)) = mset (message_ptr_blocks p)"
  by (cases p) (simp_all add: delete_message_def message_ptr_blocks_def message_blocks_def delete_command_frees delete_notification_frees delete_request_frees ac_simps)

lemma delete_interface_frees: "mset (snd (delete_interface p)) = mset (interface_ptr_blocks p)"
  by (induction p) (simp_all add: interface_ptr_blocks_def interface_blocks_def delete_command_frees delete_notification_frees delete_qualifier_frees delete_request_frees delete_variable_frees ac_simps)

lemma delete_app_dev_attr_frees: "mset (snd (delete_app_dev_attr p)) = mset (app_dev_attr_ptr_blocks p)"
  by (cases p) (simp_all add: delete_app_dev_attr_def app_dev_attr_ptr_blocks_def app_dev_attr_blocks_def delete_qualifier_frees ac_simps)

lemma delete_xteds_frees: "mset (snd (delete_xteds p)) = mset (xteds_ptr_blocks p)"
  by (cases p) (simp_all add: delete_xteds_def xteds_ptr_blocks_def xteds_blocks_def delete_app_dev_attr_frees delete_interface_frees ac_simps)

lemmas link_appends =
  link_qualifiers_def [unfolded link_nodes_append]
  link_coefs_def [unfolded link_nodes_append]
  link_options_def [unfolded link_nodes_append]
  link_orientations_def [unfolded link_nodes_append]
  link_variables_def [unfolded link_nodes_append]
  link_variable_ref_def [unfolded link_nodes_append]
  link_data_msg_def [unfolded link_nodes_append]
  link_cmd_msg_def [unfolded link_nodes_append]
  link_command_def [unfolded link_nodes_append]
  link_notification_def [unfolded link_nodes_append]
  link_request_def [unfolded link_nodes_append]
  link_interface_def [unfolded link_nodes_append]

end
