(* ===== verification/XTEDS_Merge.thy ===== *)
theory XTEDS_Merge
  imports XTEDS_Tree
begin

text \<open>
  The \<^verbatim>\<open>merge_*\<close> operations of \<^verbatim>\<open>common/xTEDS/xTEDSParser.c\<close>. The grammar makes one node per
  attribute and merges the nodes of an element from the left; where both have a value the first
  one stays. A merge returns the merged pointer and the blocks it freed.

  The contract of a merge is that it loses no memory: the blocks of the two operands are those of
  the result and those freed. The locale \<open>attribute_merge\<close> states it for the operands the grammar
  passes and derives what an element built from a whole attribute list owns, and that its
  destructor returns everything. It is interpreted on the thirteen merges that meet it.
  \<^verbatim>\<open>merge_xteds\<close> and \<^verbatim>\<open>merge_app_dev_attr\<close> do not: they drop the second string.
\<close>

text \<open>\<^verbatim>\<open>if (a->f == NULL) a->f = b->f; else if (b->f != NULL) free(b->f);\<close>: the value kept and the
  blocks freed.\<close>

definition first_ptr :: "'a option \<Rightarrow> 'a option \<Rightarrow> 'a option" where
  "first_ptr a b = (case a of None \<Rightarrow> b | Some _ \<Rightarrow> a)"

definition first_list :: "'a list \<Rightarrow> 'a list \<Rightarrow> 'a list" where
  "first_list a b = (if a = [] then b else a)"

definition spare_str :: "str \<Rightarrow> str \<Rightarrow> blk list" where
  "spare_str a b = (case a of None \<Rightarrow> [] | Some _ \<Rightarrow> str_blocks b)"

text \<open>The same for a member that is a node: the spare one goes to its destructor.\<close>

definition spare_ptr :: "('a option \<Rightarrow> int \<times> blk list) \<Rightarrow> 'a option \<Rightarrow> 'a option \<Rightarrow> blk list" where
  "spare_ptr delete a b = (case a of None \<Rightarrow> [] | Some _ \<Rightarrow> snd (delete b))"

definition spare_list :: "('a list \<Rightarrow> int \<times> blk list) \<Rightarrow> 'a list \<Rightarrow> 'a list \<Rightarrow> blk list" where
  "spare_list delete a b = (if a = [] then [] else snd (delete b))"

lemma first_ptr_simps [simp]: "first_ptr None b = b" "first_ptr (Some x) b = Some x" "first_ptr a None = a"
  by (simp_all add: first_ptr_def split: option.split)

lemma spare_str_count:
  "count (mset (str_blocks (first_ptr a b))) z + count (mset (spare_str a b)) z
     = count (mset (str_blocks a)) z + count (mset (str_blocks b)) z"
  by (cases a) (simp_all add: spare_str_def)

lemma spare_ptr_count:
  assumes "\<And>b. mset (snd (delete b)) = mset (blocks b)" "blocks None = []"
  shows "count (mset (blocks (first_ptr a b))) z + count (mset (spare_ptr delete a b)) z
     = count (mset (blocks a)) z + count (mset (blocks b)) z"
  using assms by (cases a) (simp_all add: spare_ptr_def)

lemma spare_list_count:
  assumes "\<And>b. mset (snd (delete b)) = mset (blocks b)" "blocks [] = []"
  shows "count (mset (blocks (first_list a b))) z + count (mset (spare_list delete a b)) z
     = count (mset (blocks a)) z + count (mset (blocks b)) z"
  using assms by (simp add: spare_list_def first_list_def)

lemma first_list_simps [simp]: "first_list [] b = b" "first_list a [] = a"
  by (simp_all add: first_list_def)

section \<open>The operations\<close>

definition merge_qualifiers :: "qualifier_type list \<Rightarrow> qualifier_type list \<Rightarrow> qualifier_type list \<times> blk list" where
  "merge_qualifiers a b = (case a of [] \<Rightarrow> (b, []) | x # xs \<Rightarrow> (case b of [] \<Rightarrow> (a, []) | y # _ \<Rightarrow>
      (x\<lparr>q_name := first_ptr (q_name x) (q_name y), q_value := first_ptr (q_value x) (q_value y),
          q_units := first_ptr (q_units x) (q_units y)\<rparr> # xs,
       spare_str (q_name x) (q_name y) @ spare_str (q_value x) (q_value y)
        @ spare_str (q_units x) (q_units y) @ [q_blk y])))"

definition merge_coefs :: "coef list \<Rightarrow> coef list \<Rightarrow> coef list \<times> blk list" where
  "merge_coefs a b = (case a of [] \<Rightarrow> (b, []) | x # xs \<Rightarrow> (case b of [] \<Rightarrow> (a, []) | y # _ \<Rightarrow>
      (x\<lparr>co_exponent := first_ptr (co_exponent x) (co_exponent y), co_value := first_ptr (co_value x) (co_value y),
          co_description := first_ptr (co_description x) (co_description y)\<rparr> # xs,
       spare_str (co_exponent x) (co_exponent y) @ spare_str (co_value x) (co_value y)
        @ spare_str (co_description x) (co_description y) @ [co_blk y])))"

definition merge_curves :: "curve option \<Rightarrow> curve option \<Rightarrow> curve option \<times> blk list" where
  "merge_curves a b = (case a of None \<Rightarrow> (b, []) | Some x \<Rightarrow> (case b of None \<Rightarrow> (a, []) | Some y \<Rightarrow>
      (Some (x\<lparr>cu_name := first_ptr (cu_name x) (cu_name y), cu_description := first_ptr (cu_description x) (cu_description y),
          cu_coefs := first_list (cu_coefs x) (cu_coefs y)\<rparr>),
       spare_str (cu_name x) (cu_name y) @ spare_str (cu_description x) (cu_description y)
        @ spare_list delete_coef (cu_coefs x) (cu_coefs y) @ [cu_blk y])))"

definition merge_options :: "curveoption list \<Rightarrow> curveoption list \<Rightarrow> curveoption list \<times> blk list" where
  "merge_options a b = (case a of [] \<Rightarrow> (b, []) | x # xs \<Rightarrow> (case b of [] \<Rightarrow> (a, []) | y # _ \<Rightarrow>
      (x\<lparr>op_name := first_ptr (op_name x) (op_name y), op_value := first_ptr (op_value x) (op_value y),
          op_description := first_ptr (op_description x) (op_description y), op_alarm := first_ptr (op_alarm x) (op_alarm y)\<rparr> # xs,
       spare_str (op_name x) (op_name y) @ spare_str (op_value x) (op_value y)
        @ spare_str (op_description x) (op_description y) @ spare_str (op_alarm x) (op_alarm y)
        @ [op_blk y])))"

definition merge_dranges :: "drange option \<Rightarrow> drange option \<Rightarrow> drange option \<times> blk list" where
  "merge_dranges a b = (case a of None \<Rightarrow> (b, []) | Some x \<Rightarrow> (case b of None \<Rightarrow> (a, []) | Some y \<Rightarrow>
      (Some (x\<lparr>dr_name := first_ptr (dr_name x) (dr_name y), dr_description := first_ptr (dr_description x) (dr_description y),
          dr_options := first_list (dr_options x) (dr_options y)\<rparr>),
       spare_str (dr_name x) (dr_name y) @ spare_str (dr_description x) (dr_description y)
        @ spare_list delete_option (dr_options x) (dr_options y) @ [dr_blk y])))"

definition merge_locations :: "location option \<Rightarrow> location option \<Rightarrow> location option \<times> blk list" where
  "merge_locations a b = (case a of None \<Rightarrow> (b, []) | Some x \<Rightarrow> (case b of None \<Rightarrow> (a, []) | Some y \<Rightarrow>
      (Some (x\<lparr>lo_x_value := first_ptr (lo_x_value x) (lo_x_value y), lo_y_value := first_ptr (lo_y_value x) (lo_y_value y),
          lo_z_value := first_ptr (lo_z_value x) (lo_z_value y), lo_units := first_ptr (lo_units x) (lo_units y)\<rparr>),
       spare_str (lo_x_value x) (lo_x_value y) @ spare_str (lo_y_value x) (lo_y_value y)
        @ spare_str (lo_z_value x) (lo_z_value y) @ spare_str (lo_units x) (lo_units y)
        @ [lo_blk y])))"

definition merge_orientations :: "orientation list \<Rightarrow> orientation list \<Rightarrow> orientation list \<times> blk list" where
  "merge_orientations a b = (case a of [] \<Rightarrow> (b, []) | x # xs \<Rightarrow> (case b of [] \<Rightarrow> (a, []) | y # _ \<Rightarrow>
      (x\<lparr>ori_axis_value := first_ptr (ori_axis_value x) (ori_axis_value y), ori_angle_value := first_ptr (ori_angle_value x) (ori_angle_value y),
          ori_units_value := first_ptr (ori_units_value x) (ori_units_value y)\<rparr> # xs,
       spare_str (ori_axis_value x) (ori_axis_value y) @ spare_str (ori_angle_value x) (ori_angle_value y)
        @ spare_str (ori_units_value x) (ori_units_value y) @ [ori_blk y])))"

definition merge_variables_nodes :: "variable list \<Rightarrow> variable list \<Rightarrow> variable list \<times> blk list" where
  "merge_variables_nodes a b = (case a of [] \<Rightarrow> (b, []) | x # xs \<Rightarrow> (case b of [] \<Rightarrow> (a, []) | y # _ \<Rightarrow>
      (x\<lparr>v_length := first_ptr (v_length x) (v_length y), v_kind := first_ptr (v_kind x) (v_kind y),
          v_name := first_ptr (v_name x) (v_name y), v_qualifier := first_ptr (v_qualifier x) (v_qualifier y),
          v_id := first_ptr (v_id x) (v_id y), v_range_min := first_ptr (v_range_min x) (v_range_min y),
          v_range_max := first_ptr (v_range_max x) (v_range_max y), v_default_value := first_ptr (v_default_value x) (v_default_value y),
          v_precision := first_ptr (v_precision x) (v_precision y), v_units := first_ptr (v_units x) (v_units y),
          v_accuracy := first_ptr (v_accuracy x) (v_accuracy y), v_scale_factor := first_ptr (v_scale_factor x) (v_scale_factor y),
          v_scale_units := first_ptr (v_scale_units x) (v_scale_units y), v_format := first_ptr (v_format x) (v_format y),
          v_description := first_ptr (v_description x) (v_description y), v_qualifiers := first_list (v_qualifiers x) (v_qualifiers y),
          v_curves := first_ptr (v_curves x) (v_curves y), v_dranges := first_ptr (v_dranges x) (v_dranges y),
          v_location_data := first_ptr (v_location_data x) (v_location_data y), v_r_low := first_ptr (v_r_low x) (v_r_low y),
          v_r_high := first_ptr (v_r_high x) (v_r_high y), v_y_low := first_ptr (v_y_low x) (v_y_low y),
          v_y_high := first_ptr (v_y_high x) (v_y_high y), v_invalid_value := first_ptr (v_invalid_value x) (v_invalid_value y),
          v_orientation_data := link_orientations (v_orientation_data x) (v_orientation_data y)\<rparr> # xs,
       spare_str (v_length x) (v_length y) @ spare_str (v_kind x) (v_kind y)
        @ spare_str (v_name x) (v_name y) @ spare_str (v_qualifier x) (v_qualifier y)
        @ spare_str (v_id x) (v_id y) @ spare_str (v_range_min x) (v_range_min y)
        @ spare_str (v_range_max x) (v_range_max y) @ spare_str (v_default_value x) (v_default_value y)
        @ spare_str (v_precision x) (v_precision y) @ spare_str (v_units x) (v_units y)
        @ spare_str (v_accuracy x) (v_accuracy y) @ spare_str (v_scale_factor x) (v_scale_factor y)
        @ spare_str (v_scale_units x) (v_scale_units y) @ spare_str (v_format x) (v_format y)
        @ spare_str (v_description x) (v_description y) @ (if v_qualifiers x = [] then [] else map q_blk (take 1 (v_qualifiers y)))
        @ spare_ptr delete_curve (v_curves x) (v_curves y) @ spare_ptr delete_drange (v_dranges x) (v_dranges y)
        @ spare_ptr delete_location (v_location_data x) (v_location_data y) @ spare_str (v_r_low x) (v_r_low y)
        @ spare_str (v_r_high x) (v_r_high y) @ spare_str (v_y_low x) (v_y_low y)
        @ spare_str (v_y_high x) (v_y_high y) @ spare_str (v_invalid_value x) (v_invalid_value y)
        @ [v_blk y])))"

definition merge_fault_msg :: "fault_msg option \<Rightarrow> fault_msg option \<Rightarrow> fault_msg option \<times> blk list" where
  "merge_fault_msg a b = (case a of None \<Rightarrow> (b, []) | Some x \<Rightarrow> (case b of None \<Rightarrow> (a, []) | Some y \<Rightarrow>
      (Some (x\<lparr>fm_name := first_ptr (fm_name x) (fm_name y), fm_id := first_ptr (fm_id x) (fm_id y),
          fm_description := first_ptr (fm_description x) (fm_description y), fm_variables := first_list (fm_variables x) (fm_variables y),
          fm_qualifiers := first_list (fm_qualifiers x) (fm_qualifiers y)\<rparr>),
       spare_str (fm_name x) (fm_name y) @ spare_str (fm_id x) (fm_id y)
        @ spare_str (fm_description x) (fm_description y) @ [fm_blk y])))"

definition merge_data_msg :: "data_msg list \<Rightarrow> data_msg list \<Rightarrow> data_msg list \<times> blk list" where
  "merge_data_msg a b = (case a of [] \<Rightarrow> (b, []) | x # xs \<Rightarrow> (case b of [] \<Rightarrow> (a, []) | y # _ \<Rightarrow>
      (x\<lparr>dm_name := first_ptr (dm_name x) (dm_name y), dm_id := first_ptr (dm_id x) (dm_id y),
          dm_description := first_ptr (dm_description x) (dm_description y), dm_msg_arrival := first_ptr (dm_msg_arrival x) (dm_msg_arrival y),
          dm_msg_rate := first_ptr (dm_msg_rate x) (dm_msg_rate y), dm_qualifiers := first_list (dm_qualifiers x) (dm_qualifiers y),
          dm_variables := first_list (dm_variables x) (dm_variables y)\<rparr> # xs,
       spare_str (dm_name x) (dm_name y) @ spare_str (dm_id x) (dm_id y)
        @ spare_str (dm_description x) (dm_description y) @ spare_str (dm_msg_arrival x) (dm_msg_arrival y)
        @ spare_str (dm_msg_rate x) (dm_msg_rate y) @ [dm_blk y])))"

definition merge_cmd_msg :: "cmd_msg list \<Rightarrow> cmd_msg list \<Rightarrow> cmd_msg list \<times> blk list" where
  "merge_cmd_msg a b = (case a of [] \<Rightarrow> (b, []) | x # xs \<Rightarrow> (case b of [] \<Rightarrow> (a, []) | y # _ \<Rightarrow>
      (x\<lparr>cmd_name := first_ptr (cmd_name x) (cmd_name y), cmd_id := first_ptr (cmd_id x) (cmd_id y),
          cmd_description := first_ptr (cmd_description x) (cmd_description y), cmd_qualifiers := first_list (cmd_qualifiers x) (cmd_qualifiers y),
          cmd_variables := first_list (cmd_variables x) (cmd_variables y)\<rparr> # xs,
       spare_str (cmd_name x) (cmd_name y) @ spare_str (cmd_id x) (cmd_id y)
        @ spare_str (cmd_description x) (cmd_description y) @ [cmd_blk y])))"

definition merge_message :: "message option \<Rightarrow> message option \<Rightarrow> message option \<times> blk list" where
  "merge_message a b = (case a of None \<Rightarrow> (b, []) | Some x \<Rightarrow> (case b of None \<Rightarrow> (a, []) | Some y \<Rightarrow>
      (Some (x\<lparr>m_commands := (if m_commands x = [] then m_commands y else link_command (m_commands x) (m_commands y)), m_notifications := (if m_notifications x = [] then m_notifications y else link_notification (m_notifications x) (m_notifications y)),
          m_requests := (if m_requests x = [] then m_requests y else link_request (m_requests x) (m_requests y))\<rparr>),
       [m_blk y])))"

definition merge_interface :: "interface list \<Rightarrow> interface list \<Rightarrow> interface list \<times> blk list" where
  "merge_interface a b = (case a of [] \<Rightarrow> (b, []) | x # xs \<Rightarrow> (case b of [] \<Rightarrow> (a, []) | y # _ \<Rightarrow>
      (x\<lparr>i_name := first_ptr (i_name x) (i_name y), i_extends := first_ptr (i_extends x) (i_extends y),
          i_id := first_ptr (i_id x) (i_id y), i_description := first_ptr (i_description x) (i_description y),
          i_qualifiers := first_list (i_qualifiers x) (i_qualifiers y), i_variables := first_list (i_variables x) (i_variables y),
          i_commands := first_list (i_commands x) (i_commands y), i_notifications := first_list (i_notifications x) (i_notifications y),
          i_requests := first_list (i_requests x) (i_requests y)\<rparr> # xs,
       spare_str (i_name x) (i_name y) @ spare_str (i_extends x) (i_extends y)
        @ spare_str (i_id x) (i_id y) @ spare_str (i_description x) (i_description y)
        @ [i_blk y])))"

text \<open>\<^verbatim>\<open>merge_variables\<close> also leaves the merged node in the global \<^verbatim>\<open>var_result\<close>, here its address, for
  \<^verbatim>\<open>getParsedVariable\<close>; the early returns leave the global alone.\<close>

definition merge_variables ::
    "blk option \<Rightarrow> variable list \<Rightarrow> variable list \<Rightarrow> (variable list \<times> blk list) \<times> blk option" where
  "merge_variables var_result a b =
     (merge_variables_nodes a b, if a = [] \<or> b = [] then var_result else Some (v_blk (hd a)))"

definition getParsedVariable :: "blk option \<Rightarrow> blk option" where
  "getParsedVariable var_result = var_result"

definition merge_xteds :: "xteds option \<Rightarrow> xteds option \<Rightarrow> xteds option \<times> blk list" where
  "merge_xteds a b = (case a of None \<Rightarrow> (b, []) | Some x \<Rightarrow> (case b of None \<Rightarrow> (a, []) | Some y \<Rightarrow>
      (Some (x\<lparr>x_name := first_ptr (x_name x) (x_name y), x_version := first_ptr (x_version x) (x_version y),
          x_description := first_ptr (x_description x) (x_description y), x_xmlns := first_ptr (x_xmlns x) (x_xmlns y),
          x_xmlns_xsi := first_ptr (x_xmlns_xsi x) (x_xmlns_xsi y), x_schema_location := first_ptr (x_schema_location x) (x_schema_location y)\<rparr>),
       [x_blk y])))"

definition merge_app_dev_attr :: "app_dev_attr option \<Rightarrow> app_dev_attr option \<Rightarrow> app_dev_attr option \<times> blk list" where
  "merge_app_dev_attr a b = (case a of None \<Rightarrow> (b, []) | Some x \<Rightarrow> (case b of None \<Rightarrow> (a, []) | Some y \<Rightarrow>
      (Some (x\<lparr>ad_name := first_ptr (ad_name x) (ad_name y), ad_kind := first_ptr (ad_kind x) (ad_kind y),
          ad_id := first_ptr (ad_id x) (ad_id y), ad_qualifier := first_ptr (ad_qualifier x) (ad_qualifier y),
          ad_description := first_ptr (ad_description x) (ad_description y), ad_manufacturer_id := first_ptr (ad_manufacturer_id x) (ad_manufacturer_id y),
          ad_componentKey := first_ptr (ad_componentKey x) (ad_componentKey y), ad_model_id := first_ptr (ad_model_id x) (ad_model_id y),
          ad_version_letter := first_ptr (ad_version_letter x) (ad_version_letter y), ad_version := first_ptr (ad_version x) (ad_version y),
          ad_serial_number := first_ptr (ad_serial_number x) (ad_serial_number y), ad_calibration_date := first_ptr (ad_calibration_date x) (ad_calibration_date y),
          ad_sensitivity_at_reference := first_ptr (ad_sensitivity_at_reference x) (ad_sensitivity_at_reference y), ad_reference_frequency := first_ptr (ad_reference_frequency x) (ad_reference_frequency y),
          ad_reference_temperature := first_ptr (ad_reference_temperature x) (ad_reference_temperature y), ad_measurement_range := first_ptr (ad_measurement_range x) (ad_measurement_range y),
          ad_electrical_output := first_ptr (ad_electrical_output x) (ad_electrical_output y), ad_quality_factor := first_ptr (ad_quality_factor x) (ad_quality_factor y),
          ad_temperature_coefficient := first_ptr (ad_temperature_coefficient x) (ad_temperature_coefficient y), ad_direction_xyz := first_ptr (ad_direction_xyz x) (ad_direction_xyz y),
          ad_cal_due_date := first_ptr (ad_cal_due_date x) (ad_cal_due_date y), ad_power_requirements := first_ptr (ad_power_requirements x) (ad_power_requirements y),
          ad_spa_u_hub := first_ptr (ad_spa_u_hub x) (ad_spa_u_hub y), ad_spa_u_port := first_ptr (ad_spa_u_port x) (ad_spa_u_port y),
          ad_qualifiers := link_qualifiers (ad_qualifiers x) (ad_qualifiers y), ad_memory_minimum := first_ptr (ad_memory_minimum x) (ad_memory_minimum y),
          ad_operating_system := first_ptr (ad_operating_system x) (ad_operating_system y), ad_path_for_assembly := first_ptr (ad_path_for_assembly x) (ad_path_for_assembly y),
          ad_path_on_spacecraft := first_ptr (ad_path_on_spacecraft x) (ad_path_on_spacecraft y)\<rparr>),
       [ad_blk y])))"

section \<open>What an operand must look like\<close>

text \<open>The operands a merge disposes of completely: a single node, without the members the merge
  neither takes over nor deletes.\<close>

definition qualifier_type_attribute :: "qualifier_type list \<Rightarrow> bool" where
  "qualifier_type_attribute b = (case b of [] \<Rightarrow> True | y # ys \<Rightarrow> ys = [])"

definition coef_attribute :: "coef list \<Rightarrow> bool" where
  "coef_attribute b = (case b of [] \<Rightarrow> True | y # ys \<Rightarrow> ys = [])"

definition curve_attribute :: "curve option \<Rightarrow> bool" where
  "curve_attribute b = (case b of None \<Rightarrow> True | Some y \<Rightarrow> True)"

definition curveoption_attribute :: "curveoption list \<Rightarrow> bool" where
  "curveoption_attribute b = (case b of [] \<Rightarrow> True | y # ys \<Rightarrow> ys = [])"

definition drange_attribute :: "drange option \<Rightarrow> bool" where
  "drange_attribute b = (case b of None \<Rightarrow> True | Some y \<Rightarrow> True)"

definition location_attribute :: "location option \<Rightarrow> bool" where
  "location_attribute b = (case b of None \<Rightarrow> True | Some y \<Rightarrow> True)"

definition orientation_attribute :: "orientation list \<Rightarrow> bool" where
  "orientation_attribute b = (case b of [] \<Rightarrow> True | y # ys \<Rightarrow> ys = [])"

definition variable_attribute :: "variable list \<Rightarrow> bool" where
  "variable_attribute b = (case b of [] \<Rightarrow> True | y # ys \<Rightarrow> ys = [] \<and> v_interface_name y = None \<and> v_interface_id y = None \<and> v_qualifiers y = [])"

definition fault_msg_attribute :: "fault_msg option \<Rightarrow> bool" where
  "fault_msg_attribute b = (case b of None \<Rightarrow> True | Some y \<Rightarrow> fm_interface_name y = None \<and> fm_interface_id y = None \<and> fm_variables y = [] \<and> fm_qualifiers y = [])"

definition data_msg_attribute :: "data_msg list \<Rightarrow> bool" where
  "data_msg_attribute b = (case b of [] \<Rightarrow> True | y # ys \<Rightarrow> ys = [] \<and> dm_interface_name y = None \<and> dm_interface_id y = None \<and> dm_variables y = [] \<and> dm_qualifiers y = [])"

definition cmd_msg_attribute :: "cmd_msg list \<Rightarrow> bool" where
  "cmd_msg_attribute b = (case b of [] \<Rightarrow> True | y # ys \<Rightarrow> ys = [] \<and> cmd_interface_name y = None \<and> cmd_interface_id y = None \<and> cmd_variables y = [] \<and> cmd_qualifiers y = [])"

definition message_attribute :: "message option \<Rightarrow> bool" where
  "message_attribute b = (case b of None \<Rightarrow> True | Some y \<Rightarrow> True)"

definition interface_attribute :: "interface list \<Rightarrow> bool" where
  "interface_attribute b = (case b of [] \<Rightarrow> True | y # ys \<Rightarrow> ys = [] \<and> i_qualifiers y = [] \<and> i_variables y = [] \<and> i_commands y = [] \<and> i_notifications y = [] \<and> i_requests y = [])"

section \<open>The contract of a merge\<close>

locale owned =
  fixes null :: 'p
    and blocks :: "'p \<Rightarrow> blk list"
    and delete :: "'p \<Rightarrow> int \<times> blk list"
  assumes delete_null: "delete null = (0, [])"
    and delete_code: "p \<noteq> null \<Longrightarrow> fst (delete p) = 1"
    and delete_frees: "mset (snd (delete p)) = mset (blocks p)"
begin

lemma delete_set: "set (snd (delete p)) = set (blocks p)"
  using delete_frees mset_eq_setD by blast

lemma delete_once: "distinct (blocks p) \<Longrightarrow> distinct (snd (delete p))"
  using delete_frees mset_eq_imp_distinct_iff by blast

end

definition merge_all :: "('p \<Rightarrow> 'p \<Rightarrow> 'p \<times> blk list) \<Rightarrow> 'p \<Rightarrow> 'p list \<Rightarrow> 'p \<times> blk list" where
  "merge_all merge a bs = fold (\<lambda>b (a, f). (fst (merge a b), f @ snd (merge a b))) bs (a, [])"

lemma merge_all_snoc:
  "merge_all merge a (bs @ [b]) =
     (fst (merge (fst (merge_all merge a bs)) b),
      snd (merge_all merge a bs) @ snd (merge (fst (merge_all merge a bs)) b))"
  by (simp add: merge_all_def split: prod.split)

locale attribute_merge = owned null blocks delete
  for null :: 'p and blocks :: "'p \<Rightarrow> blk list" and delete :: "'p \<Rightarrow> int \<times> blk list" +
  fixes merge :: "'p \<Rightarrow> 'p \<Rightarrow> 'p \<times> blk list"
    and attribute :: "'p \<Rightarrow> bool"
  assumes merge_null_left: "merge null b = (b, [])"
    and merge_null_right: "merge a null = (a, [])"
    and merge_conserves: "attribute b \<Longrightarrow>
      mset (blocks (fst (merge a b))) + mset (snd (merge a b)) = mset (blocks a) + mset (blocks b)"
begin

lemma merge_all_conserves:
  assumes "\<forall>b\<in>set bs. attribute b"
  shows "mset (blocks (fst (merge_all merge a bs))) + mset (snd (merge_all merge a bs))
     = mset (blocks a) + mset (concat (map blocks bs))"
  using assms
proof (induction bs rule: rev_induct)
  case Nil
  show ?case by (simp add: merge_all_def)
next
  case (snoc b bs)
  have "mset (blocks (fst (merge (fst (merge_all merge a bs)) b)))
      + mset (snd (merge (fst (merge_all merge a bs)) b))
      = mset (blocks (fst (merge_all merge a bs))) + mset (blocks b)"
    using snoc.prems by (intro merge_conserves) simp
  with snoc show ?case by (simp add: merge_all_snoc ac_simps)
qed

lemma build_delete_returns_all:
  assumes "\<forall>b\<in>set bs. attribute b"
  shows "mset (snd (merge_all merge a bs) @ snd (delete (fst (merge_all merge a bs))))
     = mset (blocks a @ concat (map blocks bs))"
  using merge_all_conserves [OF assms, of a] by (simp add: delete_frees add.commute)

lemma build_delete_once:
  assumes "\<forall>b\<in>set bs. attribute b" "distinct (blocks a @ concat (map blocks bs))"
  shows "distinct (snd (merge_all merge a bs) @ snd (delete (fst (merge_all merge a bs))))"
  using build_delete_returns_all [OF assms(1), of a] assms(2) mset_eq_imp_distinct_iff by blast

end

section \<open>The merges meet the contract\<close>

lemma merge_qualifiers_step:
  assumes "qualifier_type_attribute ([y])"
  shows "count (mset (qualifier_type_ptr_blocks (fst (merge_qualifiers (x # xs) ([y]))))) z
      + count (mset (snd (merge_qualifiers (x # xs) ([y])))) z
      = count (mset (qualifier_type_ptr_blocks (x # xs))) z + count (mset (qualifier_type_ptr_blocks ([y]))) z"
  using assms spare_str_count [of "q_name x" "q_name y" z] spare_str_count [of "q_value x" "q_value y" z]
      spare_str_count [of "q_units x" "q_units y" z]
  by (simp add: merge_qualifiers_def qualifier_type_attribute_def qualifier_type_ptr_blocks_def qualifier_type_blocks_def
        split: if_splits)

lemma merge_qualifiers_conserves:
  assumes "qualifier_type_attribute b"
  shows "mset (qualifier_type_ptr_blocks (fst (merge_qualifiers a b))) + mset (snd (merge_qualifiers a b))
      = mset (qualifier_type_ptr_blocks a) + mset (qualifier_type_ptr_blocks b)"
proof (cases "a = [] \<or> b = []")
  case True
  then show ?thesis by (cases a; cases b) (auto simp: merge_qualifiers_def qualifier_type_ptr_blocks_def)
next
  case False
  then obtain x xs y where ab: "a = x # xs" "b = [y]"
    using assms by (cases a; cases b) (auto simp: qualifier_type_attribute_def)
  show ?thesis using merge_qualifiers_step [of y x xs] assms by (intro multiset_eqI) (simp add: ab)
qed

lemma merge_coefs_step:
  assumes "coef_attribute ([y])"
  shows "count (mset (coef_ptr_blocks (fst (merge_coefs (x # xs) ([y]))))) z
      + count (mset (snd (merge_coefs (x # xs) ([y])))) z
      = count (mset (coef_ptr_blocks (x # xs))) z + count (mset (coef_ptr_blocks ([y]))) z"
  using assms spare_str_count [of "co_exponent x" "co_exponent y" z] spare_str_count [of "co_value x" "co_value y" z]
      spare_str_count [of "co_description x" "co_description y" z]
  by (simp add: merge_coefs_def coef_attribute_def coef_ptr_blocks_def coef_blocks_def
        split: if_splits)

lemma merge_coefs_conserves:
  assumes "coef_attribute b"
  shows "mset (coef_ptr_blocks (fst (merge_coefs a b))) + mset (snd (merge_coefs a b))
      = mset (coef_ptr_blocks a) + mset (coef_ptr_blocks b)"
proof (cases "a = [] \<or> b = []")
  case True
  then show ?thesis by (cases a; cases b) (auto simp: merge_coefs_def coef_ptr_blocks_def)
next
  case False
  then obtain x xs y where ab: "a = x # xs" "b = [y]"
    using assms by (cases a; cases b) (auto simp: coef_attribute_def)
  show ?thesis using merge_coefs_step [of y x xs] assms by (intro multiset_eqI) (simp add: ab)
qed

lemma merge_curves_step:
  assumes "curve_attribute (Some y)"
  shows "count (mset (curve_ptr_blocks (fst (merge_curves (Some x) (Some y))))) z
      + count (mset (snd (merge_curves (Some x) (Some y)))) z
      = count (mset (curve_ptr_blocks (Some x))) z + count (mset (curve_ptr_blocks (Some y))) z"
  using assms spare_str_count [of "cu_name x" "cu_name y" z] spare_str_count [of "cu_description x" "cu_description y" z]
      spare_list_count [of delete_coef coef_ptr_blocks "cu_coefs x" "cu_coefs y" z,
        OF delete_coef_frees coef_ptr_blocks_null]
  by (simp add: merge_curves_def curve_attribute_def curve_ptr_blocks_def curve_blocks_def
      coef_ptr_blocks_null  split: if_splits)

lemma merge_curves_conserves:
  assumes "curve_attribute b"
  shows "mset (curve_ptr_blocks (fst (merge_curves a b))) + mset (snd (merge_curves a b))
      = mset (curve_ptr_blocks a) + mset (curve_ptr_blocks b)"
proof (cases "a = None \<or> b = None")
  case True
  then show ?thesis by (cases a; cases b) (auto simp: merge_curves_def curve_ptr_blocks_def)
next
  case False
  then obtain x y where ab: "a = Some x" "b = Some y" by auto
  show ?thesis using merge_curves_step [of y x] assms by (intro multiset_eqI) (simp add: ab)
qed

lemma merge_options_step:
  assumes "curveoption_attribute ([y])"
  shows "count (mset (curveoption_ptr_blocks (fst (merge_options (x # xs) ([y]))))) z
      + count (mset (snd (merge_options (x # xs) ([y])))) z
      = count (mset (curveoption_ptr_blocks (x # xs))) z + count (mset (curveoption_ptr_blocks ([y]))) z"
  using assms spare_str_count [of "op_name x" "op_name y" z] spare_str_count [of "op_value x" "op_value y" z]
      spare_str_count [of "op_description x" "op_description y" z] spare_str_count [of "op_alarm x" "op_alarm y" z]
  by (simp add: merge_options_def curveoption_attribute_def curveoption_ptr_blocks_def curveoption_blocks_def
        split: if_splits)

lemma merge_options_conserves:
  assumes "curveoption_attribute b"
  shows "mset (curveoption_ptr_blocks (fst (merge_options a b))) + mset (snd (merge_options a b))
      = mset (curveoption_ptr_blocks a) + mset (curveoption_ptr_blocks b)"
proof (cases "a = [] \<or> b = []")
  case True
  then show ?thesis by (cases a; cases b) (auto simp: merge_options_def curveoption_ptr_blocks_def)
next
  case False
  then obtain x xs y where ab: "a = x # xs" "b = [y]"
    using assms by (cases a; cases b) (auto simp: curveoption_attribute_def)
  show ?thesis using merge_options_step [of y x xs] assms by (intro multiset_eqI) (simp add: ab)
qed

lemma merge_dranges_step:
  assumes "drange_attribute (Some y)"
  shows "count (mset (drange_ptr_blocks (fst (merge_dranges (Some x) (Some y))))) z
      + count (mset (snd (merge_dranges (Some x) (Some y)))) z
      = count (mset (drange_ptr_blocks (Some x))) z + count (mset (drange_ptr_blocks (Some y))) z"
  using assms spare_str_count [of "dr_name x" "dr_name y" z] spare_str_count [of "dr_description x" "dr_description y" z]
      spare_list_count [of delete_option curveoption_ptr_blocks "dr_options x" "dr_options y" z,
        OF delete_option_frees curveoption_ptr_blocks_null]
  by (simp add: merge_dranges_def drange_attribute_def drange_ptr_blocks_def drange_blocks_def
      curveoption_ptr_blocks_null  split: if_splits)

lemma merge_dranges_conserves:
  assumes "drange_attribute b"
  shows "mset (drange_ptr_blocks (fst (merge_dranges a b))) + mset (snd (merge_dranges a b))
      = mset (drange_ptr_blocks a) + mset (drange_ptr_blocks b)"
proof (cases "a = None \<or> b = None")
  case True
  then show ?thesis by (cases a; cases b) (auto simp: merge_dranges_def drange_ptr_blocks_def)
next
  case False
  then obtain x y where ab: "a = Some x" "b = Some y" by auto
  show ?thesis using merge_dranges_step [of y x] assms by (intro multiset_eqI) (simp add: ab)
qed

lemma merge_locations_step:
  assumes "location_attribute (Some y)"
  shows "count (mset (location_ptr_blocks (fst (merge_locations (Some x) (Some y))))) z
      + count (mset (snd (merge_locations (Some x) (Some y)))) z
      = count (mset (location_ptr_blocks (Some x))) z + count (mset (location_ptr_blocks (Some y))) z"
  using assms spare_str_count [of "lo_x_value x" "lo_x_value y" z] spare_str_count [of "lo_y_value x" "lo_y_value y" z]
      spare_str_count [of "lo_z_value x" "lo_z_value y" z] spare_str_count [of "lo_units x" "lo_units y" z]
  by (simp add: merge_locations_def location_attribute_def location_ptr_blocks_def location_blocks_def
        split: if_splits)

lemma merge_locations_conserves:
  assumes "location_attribute b"
  shows "mset (location_ptr_blocks (fst (merge_locations a b))) + mset (snd (merge_locations a b))
      = mset (location_ptr_blocks a) + mset (location_ptr_blocks b)"
proof (cases "a = None \<or> b = None")
  case True
  then show ?thesis by (cases a; cases b) (auto simp: merge_locations_def location_ptr_blocks_def)
next
  case False
  then obtain x y where ab: "a = Some x" "b = Some y" by auto
  show ?thesis using merge_locations_step [of y x] assms by (intro multiset_eqI) (simp add: ab)
qed

lemma merge_orientations_step:
  assumes "orientation_attribute ([y])"
  shows "count (mset (orientation_ptr_blocks (fst (merge_orientations (x # xs) ([y]))))) z
      + count (mset (snd (merge_orientations (x # xs) ([y])))) z
      = count (mset (orientation_ptr_blocks (x # xs))) z + count (mset (orientation_ptr_blocks ([y]))) z"
  using assms spare_str_count [of "ori_axis_value x" "ori_axis_value y" z] spare_str_count [of "ori_angle_value x" "ori_angle_value y" z]
      spare_str_count [of "ori_units_value x" "ori_units_value y" z]
  by (simp add: merge_orientations_def orientation_attribute_def orientation_ptr_blocks_def orientation_blocks_def
        split: if_splits)

lemma merge_orientations_conserves:
  assumes "orientation_attribute b"
  shows "mset (orientation_ptr_blocks (fst (merge_orientations a b))) + mset (snd (merge_orientations a b))
      = mset (orientation_ptr_blocks a) + mset (orientation_ptr_blocks b)"
proof (cases "a = [] \<or> b = []")
  case True
  then show ?thesis by (cases a; cases b) (auto simp: merge_orientations_def orientation_ptr_blocks_def)
next
  case False
  then obtain x xs y where ab: "a = x # xs" "b = [y]"
    using assms by (cases a; cases b) (auto simp: orientation_attribute_def)
  show ?thesis using merge_orientations_step [of y x xs] assms by (intro multiset_eqI) (simp add: ab)
qed

lemma merge_variables_nodes_step:
  assumes "variable_attribute ([y])"
  shows "count (mset (variable_ptr_blocks (fst (merge_variables_nodes (x # xs) ([y]))))) z
      + count (mset (snd (merge_variables_nodes (x # xs) ([y])))) z
      = count (mset (variable_ptr_blocks (x # xs))) z + count (mset (variable_ptr_blocks ([y]))) z"
  using assms spare_str_count [of "v_length x" "v_length y" z] spare_str_count [of "v_kind x" "v_kind y" z]
      spare_str_count [of "v_name x" "v_name y" z] spare_str_count [of "v_qualifier x" "v_qualifier y" z]
      spare_str_count [of "v_id x" "v_id y" z] spare_str_count [of "v_range_min x" "v_range_min y" z]
      spare_str_count [of "v_range_max x" "v_range_max y" z] spare_str_count [of "v_default_value x" "v_default_value y" z]
      spare_str_count [of "v_precision x" "v_precision y" z] spare_str_count [of "v_units x" "v_units y" z]
      spare_str_count [of "v_accuracy x" "v_accuracy y" z] spare_str_count [of "v_scale_factor x" "v_scale_factor y" z]
      spare_str_count [of "v_scale_units x" "v_scale_units y" z] spare_str_count [of "v_format x" "v_format y" z]
      spare_str_count [of "v_description x" "v_description y" z] spare_ptr_count [of delete_curve curve_ptr_blocks "v_curves x" "v_curves y" z,
        OF delete_curve_frees curve_ptr_blocks_null]
      spare_ptr_count [of delete_drange drange_ptr_blocks "v_dranges x" "v_dranges y" z,
        OF delete_drange_frees drange_ptr_blocks_null] spare_ptr_count [of delete_location location_ptr_blocks "v_location_data x" "v_location_data y" z,
        OF delete_location_frees location_ptr_blocks_null]
      spare_str_count [of "v_r_low x" "v_r_low y" z] spare_str_count [of "v_r_high x" "v_r_high y" z]
      spare_str_count [of "v_y_low x" "v_y_low y" z] spare_str_count [of "v_y_high x" "v_y_high y" z]
      spare_str_count [of "v_invalid_value x" "v_invalid_value y" z]
  by (simp add: merge_variables_nodes_def variable_attribute_def variable_ptr_blocks_def variable_blocks_def
      curve_ptr_blocks_null drange_ptr_blocks_null location_ptr_blocks_null orientation_ptr_blocks_null qualifier_type_ptr_blocks_null link_appends orientation_ptr_blocks_append split: if_splits)

lemma merge_variables_nodes_conserves:
  assumes "variable_attribute b"
  shows "mset (variable_ptr_blocks (fst (merge_variables_nodes a b))) + mset (snd (merge_variables_nodes a b))
      = mset (variable_ptr_blocks a) + mset (variable_ptr_blocks b)"
proof (cases "a = [] \<or> b = []")
  case True
  then show ?thesis by (cases a; cases b) (auto simp: merge_variables_nodes_def variable_ptr_blocks_def)
next
  case False
  then obtain x xs y where ab: "a = x # xs" "b = [y]"
    using assms by (cases a; cases b) (auto simp: variable_attribute_def)
  show ?thesis using merge_variables_nodes_step [of y x xs] assms by (intro multiset_eqI) (simp add: ab)
qed

lemma merge_fault_msg_step:
  assumes "fault_msg_attribute (Some y)"
  shows "count (mset (fault_msg_ptr_blocks (fst (merge_fault_msg (Some x) (Some y))))) z
      + count (mset (snd (merge_fault_msg (Some x) (Some y)))) z
      = count (mset (fault_msg_ptr_blocks (Some x))) z + count (mset (fault_msg_ptr_blocks (Some y))) z"
  using assms spare_str_count [of "fm_name x" "fm_name y" z] spare_str_count [of "fm_id x" "fm_id y" z]
      spare_str_count [of "fm_description x" "fm_description y" z]
  by (simp add: merge_fault_msg_def fault_msg_attribute_def fault_msg_ptr_blocks_def fault_msg_blocks_def
      qualifier_type_ptr_blocks_null var_ref_ptr_blocks_null  split: if_splits)

lemma merge_fault_msg_conserves:
  assumes "fault_msg_attribute b"
  shows "mset (fault_msg_ptr_blocks (fst (merge_fault_msg a b))) + mset (snd (merge_fault_msg a b))
      = mset (fault_msg_ptr_blocks a) + mset (fault_msg_ptr_blocks b)"
proof (cases "a = None \<or> b = None")
  case True
  then show ?thesis by (cases a; cases b) (auto simp: merge_fault_msg_def fault_msg_ptr_blocks_def)
next
  case False
  then obtain x y where ab: "a = Some x" "b = Some y" by auto
  show ?thesis using merge_fault_msg_step [of y x] assms by (intro multiset_eqI) (simp add: ab)
qed

lemma merge_data_msg_step:
  assumes "data_msg_attribute ([y])"
  shows "count (mset (data_msg_ptr_blocks (fst (merge_data_msg (x # xs) ([y]))))) z
      + count (mset (snd (merge_data_msg (x # xs) ([y])))) z
      = count (mset (data_msg_ptr_blocks (x # xs))) z + count (mset (data_msg_ptr_blocks ([y]))) z"
  using assms spare_str_count [of "dm_name x" "dm_name y" z] spare_str_count [of "dm_id x" "dm_id y" z]
      spare_str_count [of "dm_description x" "dm_description y" z] spare_str_count [of "dm_msg_arrival x" "dm_msg_arrival y" z]
      spare_str_count [of "dm_msg_rate x" "dm_msg_rate y" z]
  by (simp add: merge_data_msg_def data_msg_attribute_def data_msg_ptr_blocks_def data_msg_blocks_def
      qualifier_type_ptr_blocks_null var_ref_ptr_blocks_null  split: if_splits)

lemma merge_data_msg_conserves:
  assumes "data_msg_attribute b"
  shows "mset (data_msg_ptr_blocks (fst (merge_data_msg a b))) + mset (snd (merge_data_msg a b))
      = mset (data_msg_ptr_blocks a) + mset (data_msg_ptr_blocks b)"
proof (cases "a = [] \<or> b = []")
  case True
  then show ?thesis by (cases a; cases b) (auto simp: merge_data_msg_def data_msg_ptr_blocks_def)
next
  case False
  then obtain x xs y where ab: "a = x # xs" "b = [y]"
    using assms by (cases a; cases b) (auto simp: data_msg_attribute_def)
  show ?thesis using merge_data_msg_step [of y x xs] assms by (intro multiset_eqI) (simp add: ab)
qed

lemma merge_cmd_msg_step:
  assumes "cmd_msg_attribute ([y])"
  shows "count (mset (cmd_msg_ptr_blocks (fst (merge_cmd_msg (x # xs) ([y]))))) z
      + count (mset (snd (merge_cmd_msg (x # xs) ([y])))) z
      = count (mset (cmd_msg_ptr_blocks (x # xs))) z + count (mset (cmd_msg_ptr_blocks ([y]))) z"
  using assms spare_str_count [of "cmd_name x" "cmd_name y" z] spare_str_count [of "cmd_id x" "cmd_id y" z]
      spare_str_count [of "cmd_description x" "cmd_description y" z]
  by (simp add: merge_cmd_msg_def cmd_msg_attribute_def cmd_msg_ptr_blocks_def cmd_msg_blocks_def
      qualifier_type_ptr_blocks_null var_ref_ptr_blocks_null  split: if_splits)

lemma merge_cmd_msg_conserves:
  assumes "cmd_msg_attribute b"
  shows "mset (cmd_msg_ptr_blocks (fst (merge_cmd_msg a b))) + mset (snd (merge_cmd_msg a b))
      = mset (cmd_msg_ptr_blocks a) + mset (cmd_msg_ptr_blocks b)"
proof (cases "a = [] \<or> b = []")
  case True
  then show ?thesis by (cases a; cases b) (auto simp: merge_cmd_msg_def cmd_msg_ptr_blocks_def)
next
  case False
  then obtain x xs y where ab: "a = x # xs" "b = [y]"
    using assms by (cases a; cases b) (auto simp: cmd_msg_attribute_def)
  show ?thesis using merge_cmd_msg_step [of y x xs] assms by (intro multiset_eqI) (simp add: ab)
qed

lemma merge_message_step:
  assumes "message_attribute (Some y)"
  shows "count (mset (message_ptr_blocks (fst (merge_message (Some x) (Some y))))) z
      + count (mset (snd (merge_message (Some x) (Some y)))) z
      = count (mset (message_ptr_blocks (Some x))) z + count (mset (message_ptr_blocks (Some y))) z"
  using assms 
  by (simp add: merge_message_def message_attribute_def message_ptr_blocks_def message_blocks_def
      command_ptr_blocks_null notification_ptr_blocks_null request_ptr_blocks_null command_ptr_blocks_append link_appends notification_ptr_blocks_append request_ptr_blocks_append split: if_splits)

lemma merge_message_conserves:
  assumes "message_attribute b"
  shows "mset (message_ptr_blocks (fst (merge_message a b))) + mset (snd (merge_message a b))
      = mset (message_ptr_blocks a) + mset (message_ptr_blocks b)"
proof (cases "a = None \<or> b = None")
  case True
  then show ?thesis by (cases a; cases b) (auto simp: merge_message_def message_ptr_blocks_def)
next
  case False
  then obtain x y where ab: "a = Some x" "b = Some y" by auto
  show ?thesis using merge_message_step [of y x] assms by (intro multiset_eqI) (simp add: ab)
qed

lemma merge_interface_step:
  assumes "interface_attribute ([y])"
  shows "count (mset (interface_ptr_blocks (fst (merge_interface (x # xs) ([y]))))) z
      + count (mset (snd (merge_interface (x # xs) ([y])))) z
      = count (mset (interface_ptr_blocks (x # xs))) z + count (mset (interface_ptr_blocks ([y]))) z"
  using assms spare_str_count [of "i_name x" "i_name y" z] spare_str_count [of "i_extends x" "i_extends y" z]
      spare_str_count [of "i_id x" "i_id y" z] spare_str_count [of "i_description x" "i_description y" z]
  by (simp add: merge_interface_def interface_attribute_def interface_ptr_blocks_def interface_blocks_def
      command_ptr_blocks_null notification_ptr_blocks_null qualifier_type_ptr_blocks_null request_ptr_blocks_null variable_ptr_blocks_null  split: if_splits)

lemma merge_interface_conserves:
  assumes "interface_attribute b"
  shows "mset (interface_ptr_blocks (fst (merge_interface a b))) + mset (snd (merge_interface a b))
      = mset (interface_ptr_blocks a) + mset (interface_ptr_blocks b)"
proof (cases "a = [] \<or> b = []")
  case True
  then show ?thesis by (cases a; cases b) (auto simp: merge_interface_def interface_ptr_blocks_def)
next
  case False
  then obtain x xs y where ab: "a = x # xs" "b = [y]"
    using assms by (cases a; cases b) (auto simp: interface_attribute_def)
  show ?thesis using merge_interface_step [of y x xs] assms by (intro multiset_eqI) (simp add: ab)
qed

lemma delete_qualifier_code: "fst (delete_qualifier p) = (if p = [] then 0 else 1)" "delete_qualifier [] = (0, [])"
  by (cases p; simp) (simp)

lemma delete_coef_code: "fst (delete_coef p) = (if p = [] then 0 else 1)" "delete_coef [] = (0, [])"
  by (cases p; simp) (simp)

lemma delete_curve_code: "fst (delete_curve p) = (if p = None then 0 else 1)" "delete_curve None = (0, [])"
  by (cases p; simp add: delete_curve_def) (simp add: delete_curve_def)

lemma delete_option_code: "fst (delete_option p) = (if p = [] then 0 else 1)" "delete_option [] = (0, [])"
  by (cases p; simp) (simp)

lemma delete_drange_code: "fst (delete_drange p) = (if p = None then 0 else 1)" "delete_drange None = (0, [])"
  by (cases p; simp add: delete_drange_def) (simp add: delete_drange_def)

lemma delete_location_code: "fst (delete_location p) = (if p = None then 0 else 1)" "delete_location None = (0, [])"
  by (cases p; simp add: delete_location_def) (simp add: delete_location_def)

lemma delete_orientation_code: "fst (delete_orientation p) = (if p = [] then 0 else 1)" "delete_orientation [] = (0, [])"
  by (cases p; simp) (simp)

lemma delete_variable_code: "fst (delete_variable p) = (if p = [] then 0 else 1)" "delete_variable [] = (0, [])"
  by (cases p; simp) (simp)

lemma delete_var_ref_code: "fst (delete_var_ref p) = (if p = [] then 0 else 1)" "delete_var_ref [] = (0, [])"
  by (cases p; simp) (simp)

lemma delete_fault_msg_code: "fst (delete_fault_msg p) = (if p = None then 0 else 1)" "delete_fault_msg None = (0, [])"
  by (cases p; simp add: delete_fault_msg_def) (simp add: delete_fault_msg_def)

lemma delete_data_msg_code: "fst (delete_data_msg p) = (if p = [] then 0 else 1)" "delete_data_msg [] = (0, [])"
  by (cases p; simp) (simp)

lemma delete_cmd_msg_code: "fst (delete_cmd_msg p) = (if p = [] then 0 else 1)" "delete_cmd_msg [] = (0, [])"
  by (cases p; simp) (simp)

lemma delete_command_code: "fst (delete_command p) = (if p = [] then 0 else 1)" "delete_command [] = (0, [])"
  by (cases p; simp) (simp)

lemma delete_notification_code: "fst (delete_notification p) = (if p = [] then 0 else 1)" "delete_notification [] = (0, [])"
  by (cases p; simp) (simp)

lemma delete_request_code: "fst (delete_request p) = (if p = [] then 0 else 1)" "delete_request [] = (0, [])"
  by (cases p; simp) (simp)

lemma delete_message_code: "fst (delete_message p) = (if p = None then 0 else 1)" "delete_message None = (0, [])"
  by (cases p; simp add: delete_message_def) (simp add: delete_message_def)

lemma delete_interface_code: "fst (delete_interface p) = (if p = [] then 0 else 1)" "delete_interface [] = (0, [])"
  by (cases p; simp) (simp)

lemma delete_app_dev_attr_code: "fst (delete_app_dev_attr p) = (if p = None then 0 else 1)" "delete_app_dev_attr None = (0, [])"
  by (cases p; simp add: delete_app_dev_attr_def) (simp add: delete_app_dev_attr_def)

lemma delete_xteds_code: "fst (delete_xteds p) = (if p = None then 0 else 1)" "delete_xteds None = (0, [])"
  by (cases p; simp add: delete_xteds_def) (simp add: delete_xteds_def)

lemma merge_qualifiers_null: "merge_qualifiers [] b = (b, [])" "merge_qualifiers a [] = (a, [])"
  by (simp_all add: merge_qualifiers_def split: list.split)

interpretation qm: attribute_merge "[]" qualifier_type_ptr_blocks delete_qualifier merge_qualifiers qualifier_type_attribute
  by unfold_locales (rule delete_qualifier_code(2) delete_qualifier_frees merge_qualifiers_null merge_qualifiers_conserves
    | simp only: delete_qualifier_code(1) if_False)+

lemma merge_coefs_null: "merge_coefs [] b = (b, [])" "merge_coefs a [] = (a, [])"
  by (simp_all add: merge_coefs_def split: list.split)

interpretation com: attribute_merge "[]" coef_ptr_blocks delete_coef merge_coefs coef_attribute
  by unfold_locales (rule delete_coef_code(2) delete_coef_frees merge_coefs_null merge_coefs_conserves
    | simp only: delete_coef_code(1) if_False)+

lemma merge_curves_null: "merge_curves None b = (b, [])" "merge_curves a None = (a, [])"
  by (simp_all add: merge_curves_def split: option.split)

interpretation cum: attribute_merge "None" curve_ptr_blocks delete_curve merge_curves curve_attribute
  by unfold_locales (rule delete_curve_code(2) delete_curve_frees merge_curves_null merge_curves_conserves
    | simp only: delete_curve_code(1) if_False)+

lemma merge_options_null: "merge_options [] b = (b, [])" "merge_options a [] = (a, [])"
  by (simp_all add: merge_options_def split: list.split)

interpretation opm: attribute_merge "[]" curveoption_ptr_blocks delete_option merge_options curveoption_attribute
  by unfold_locales (rule delete_option_code(2) delete_option_frees merge_options_null merge_options_conserves
    | simp only: delete_option_code(1) if_False)+

lemma merge_dranges_null: "merge_dranges None b = (b, [])" "merge_dranges a None = (a, [])"
  by (simp_all add: merge_dranges_def split: option.split)

interpretation drm: attribute_merge "None" drange_ptr_blocks delete_drange merge_dranges drange_attribute
  by unfold_locales (rule delete_drange_code(2) delete_drange_frees merge_dranges_null merge_dranges_conserves
    | simp only: delete_drange_code(1) if_False)+

lemma merge_locations_null: "merge_locations None b = (b, [])" "merge_locations a None = (a, [])"
  by (simp_all add: merge_locations_def split: option.split)

interpretation lom: attribute_merge "None" location_ptr_blocks delete_location merge_locations location_attribute
  by unfold_locales (rule delete_location_code(2) delete_location_frees merge_locations_null merge_locations_conserves
    | simp only: delete_location_code(1) if_False)+

lemma merge_orientations_null: "merge_orientations [] b = (b, [])" "merge_orientations a [] = (a, [])"
  by (simp_all add: merge_orientations_def split: list.split)

interpretation orim: attribute_merge "[]" orientation_ptr_blocks delete_orientation merge_orientations orientation_attribute
  by unfold_locales (rule delete_orientation_code(2) delete_orientation_frees merge_orientations_null merge_orientations_conserves
    | simp only: delete_orientation_code(1) if_False)+

lemma merge_variables_nodes_null: "merge_variables_nodes [] b = (b, [])" "merge_variables_nodes a [] = (a, [])"
  by (simp_all add: merge_variables_nodes_def split: list.split)

interpretation vm: attribute_merge "[]" variable_ptr_blocks delete_variable merge_variables_nodes variable_attribute
  by unfold_locales (rule delete_variable_code(2) delete_variable_frees merge_variables_nodes_null merge_variables_nodes_conserves
    | simp only: delete_variable_code(1) if_False)+

lemma merge_fault_msg_null: "merge_fault_msg None b = (b, [])" "merge_fault_msg a None = (a, [])"
  by (simp_all add: merge_fault_msg_def split: option.split)

interpretation fmm: attribute_merge "None" fault_msg_ptr_blocks delete_fault_msg merge_fault_msg fault_msg_attribute
  by unfold_locales (rule delete_fault_msg_code(2) delete_fault_msg_frees merge_fault_msg_null merge_fault_msg_conserves
    | simp only: delete_fault_msg_code(1) if_False)+

lemma merge_data_msg_null: "merge_data_msg [] b = (b, [])" "merge_data_msg a [] = (a, [])"
  by (simp_all add: merge_data_msg_def split: list.split)

interpretation dmm: attribute_merge "[]" data_msg_ptr_blocks delete_data_msg merge_data_msg data_msg_attribute
  by unfold_locales (rule delete_data_msg_code(2) delete_data_msg_frees merge_data_msg_null merge_data_msg_conserves
    | simp only: delete_data_msg_code(1) if_False)+

lemma merge_cmd_msg_null: "merge_cmd_msg [] b = (b, [])" "merge_cmd_msg a [] = (a, [])"
  by (simp_all add: merge_cmd_msg_def split: list.split)

interpretation cmdm: attribute_merge "[]" cmd_msg_ptr_blocks delete_cmd_msg merge_cmd_msg cmd_msg_attribute
  by unfold_locales (rule delete_cmd_msg_code(2) delete_cmd_msg_frees merge_cmd_msg_null merge_cmd_msg_conserves
    | simp only: delete_cmd_msg_code(1) if_False)+

lemma merge_message_null: "merge_message None b = (b, [])" "merge_message a None = (a, [])"
  by (simp_all add: merge_message_def split: option.split)

interpretation mm: attribute_merge "None" message_ptr_blocks delete_message merge_message message_attribute
  by unfold_locales (rule delete_message_code(2) delete_message_frees merge_message_null merge_message_conserves
    | simp only: delete_message_code(1) if_False)+

lemma merge_interface_null: "merge_interface [] b = (b, [])" "merge_interface a [] = (a, [])"
  by (simp_all add: merge_interface_def split: list.split)

interpretation im: attribute_merge "[]" interface_ptr_blocks delete_interface merge_interface interface_attribute
  by unfold_locales (rule delete_interface_code(2) delete_interface_frees merge_interface_null merge_interface_conserves
    | simp only: delete_interface_code(1) if_False)+

interpretation vro: owned "[]" var_ref_ptr_blocks delete_var_ref
  by unfold_locales (rule delete_var_ref_code(2) delete_var_ref_frees | simp only: delete_var_ref_code(1) if_False)+

interpretation co: owned "[]" command_ptr_blocks delete_command
  by unfold_locales (rule delete_command_code(2) delete_command_frees | simp only: delete_command_code(1) if_False)+

interpretation no: owned "[]" notification_ptr_blocks delete_notification
  by unfold_locales (rule delete_notification_code(2) delete_notification_frees | simp only: delete_notification_code(1) if_False)+

interpretation ro: owned "[]" request_ptr_blocks delete_request
  by unfold_locales (rule delete_request_code(2) delete_request_frees | simp only: delete_request_code(1) if_False)+

interpretation xo: owned "None" xteds_ptr_blocks delete_xteds
  by unfold_locales (rule delete_xteds_code(2) delete_xteds_frees | simp only: delete_xteds_code(1) if_False)+

interpretation ado: owned "None" app_dev_attr_ptr_blocks delete_app_dev_attr
  by unfold_locales (rule delete_app_dev_attr_code(2) delete_app_dev_attr_frees | simp only: delete_app_dev_attr_code(1) if_False)+

end
