(* ===== verification/XTEDS_References.thy ===== *)
theory XTEDS_References
  imports XTEDS_Merge
begin

text \<open>
  \<^verbatim>\<open>interface_add_references\<close> of \<^verbatim>\<open>common/xTEDS/xTEDSParser.c\<close>: the interface takes over its qualifiers,
  variables and messages, and every one of them gets its own copy of the name and the id of the
  interface. \<^verbatim>\<open>parsexTEDS\<close>, the entry point of the parser, runs the generated parser, which is an
  argument.

  Copies come from \<^verbatim>\<open>strdup\<close>, whose argument must not be NULL. The operations return \<^term>\<open>None\<close> where
  the code passes NULL, otherwise the new pointer, the heap counter and what \<^verbatim>\<open>printf\<close> wrote.
\<close>

section \<open>Copies of the interface's name and id\<close>

definition strdup :: "heap \<Rightarrow> str \<Rightarrow> (str \<times> heap) option" where
  "strdup h s = (case s of None \<Rightarrow> None | Some (_, t) \<Rightarrow> Some (Some (h, t), h + 1))"

text \<open>\<^verbatim>\<open>if (src != NULL) field = strdup(src);\<close>: the field keeps its value otherwise.\<close>

definition dup_if :: "heap \<Rightarrow> str \<Rightarrow> str \<Rightarrow> str \<times> heap" where
  "dup_if h src field = (case strdup h src of None \<Rightarrow> (field, h) | Some r \<Rightarrow> r)"

primrec refer_variables :: "heap \<Rightarrow> str \<Rightarrow> str \<Rightarrow> variable list \<Rightarrow> variable list \<times> heap" where
  "refer_variables h name ident [] = ([], h)"
| "refer_variables h name ident (cur_var # next) =
     (let (nm, h1) = dup_if h name (v_interface_name cur_var);
          (i, h2) = dup_if h1 ident (v_interface_id cur_var);
          (rest, h3) = refer_variables h2 name ident next
      in (cur_var\<lparr>v_interface_name := nm, v_interface_id := i\<rparr> # rest, h3))"

text \<open>A command message pointer is the head of a list; only the head gets the copies.\<close>

definition refer_cmd_msg :: "heap \<Rightarrow> str \<Rightarrow> str \<Rightarrow> cmd_msg list \<Rightarrow> cmd_msg list \<times> heap" where
  "refer_cmd_msg h name ident msg = (case msg of [] \<Rightarrow> ([], h) | x # xs \<Rightarrow>
     (let (nm, h1) = dup_if h name (cmd_interface_name x);
          (i, h2) = dup_if h1 ident (cmd_interface_id x)
      in (x\<lparr>cmd_interface_name := nm, cmd_interface_id := i\<rparr> # xs, h2)))"

definition refer_data_msg :: "heap \<Rightarrow> str \<Rightarrow> str \<Rightarrow> data_msg list \<Rightarrow> data_msg list \<times> heap" where
  "refer_data_msg h name ident msg = (case msg of [] \<Rightarrow> ([], h) | x # xs \<Rightarrow>
     (let (nm, h1) = dup_if h name (dm_interface_name x);
          (i, h2) = dup_if h1 ident (dm_interface_id x)
      in (x\<lparr>dm_interface_name := nm, dm_interface_id := i\<rparr> # xs, h2)))"

text \<open>A fault message is given its copies without the tests.\<close>

definition refer_fault_msg ::
    "heap \<Rightarrow> str \<Rightarrow> str \<Rightarrow> fault_msg option \<Rightarrow> (fault_msg option \<times> heap) option" where
  "refer_fault_msg h name ident msg = (case msg of None \<Rightarrow> Some (None, h) | Some x \<Rightarrow>
     (case strdup h name of None \<Rightarrow> None | Some (nm, h1) \<Rightarrow>
     (case strdup h1 ident of None \<Rightarrow> None | Some (i, h2) \<Rightarrow>
       Some (Some (x\<lparr>fm_interface_name := nm, fm_interface_id := i\<rparr>), h2))))"

definition no_cmd :: "string \<Rightarrow> string list" where
  "no_cmd wrapper = [''Error:  <'' @ wrapper @ ''> wrapper is missing a command message definition.'' @ [CHR 10]]"

definition no_data :: "string \<Rightarrow> string list" where
  "no_data wrapper = [''Error:  <'' @ wrapper @ ''> wrapper is missing a data message definition.'' @ [CHR 10]]"

primrec refer_commands ::
    "heap \<Rightarrow> str \<Rightarrow> str \<Rightarrow> command list \<Rightarrow> (command list \<times> heap \<times> string list) option" where
  "refer_commands h name ident [] = Some ([], h, [])"
| "refer_commands h name ident (cur # next) =
     (let (nm, h1) = dup_if h name (c_interface_name cur);
          (i, h2) = dup_if h1 ident (c_interface_id cur);
          (cmd, h3) = refer_cmd_msg h2 name ident (c_command_message cur)
      in case refer_fault_msg h3 name ident (c_fault_message cur) of None \<Rightarrow> None | Some (fault, h4) \<Rightarrow>
        (case refer_commands h4 name ident next of None \<Rightarrow> None | Some (rest, h5, out) \<Rightarrow>
          Some (cur\<lparr>c_interface_name := nm, c_interface_id := i,
                    c_command_message := cmd, c_fault_message := fault\<rparr> # rest, h5,
                (if c_command_message cur = [] then no_cmd ''Command'' else []) @ out)))"

primrec refer_notifications ::
    "heap \<Rightarrow> str \<Rightarrow> str \<Rightarrow> notification list \<Rightarrow> (notification list \<times> heap \<times> string list) option" where
  "refer_notifications h name ident [] = Some ([], h, [])"
| "refer_notifications h name ident (cur # next) =
     (let (nm, h1) = dup_if h name (n_interface_name cur);
          (i, h2) = dup_if h1 ident (n_interface_id cur);
          (dat, h3) = refer_data_msg h2 name ident (n_data_message cur)
      in case refer_fault_msg h3 name ident (n_fault_message cur) of None \<Rightarrow> None | Some (fault, h4) \<Rightarrow>
        (case refer_notifications h4 name ident next of None \<Rightarrow> None | Some (rest, h5, out) \<Rightarrow>
          Some (cur\<lparr>n_interface_name := nm, n_interface_id := i,
                    n_data_message := dat, n_fault_message := fault\<rparr> # rest, h5,
                (if n_data_message cur = [] then no_data ''Notification'' else []) @ out)))"

primrec refer_requests ::
    "heap \<Rightarrow> str \<Rightarrow> str \<Rightarrow> request list \<Rightarrow> (request list \<times> heap \<times> string list) option" where
  "refer_requests h name ident [] = Some ([], h, [])"
| "refer_requests h name ident (cur # next) =
     (let (nm, h1) = dup_if h name (r_interface_name cur);
          (i, h2) = dup_if h1 ident (r_interface_id cur);
          (cmd, h3) = refer_cmd_msg h2 name ident (r_command_message cur);
          (dat, h4) = refer_data_msg h3 name ident (r_data_message cur)
      in case refer_fault_msg h4 name ident (r_fault_message cur) of None \<Rightarrow> None | Some (fault, h5) \<Rightarrow>
        (case refer_requests h5 name ident next of None \<Rightarrow> None | Some (rest, h6, out) \<Rightarrow>
          Some (cur\<lparr>r_interface_name := nm, r_interface_id := i, r_command_message := cmd,
                    r_data_message := dat, r_fault_message := fault\<rparr> # rest, h6,
                (if r_command_message cur = [] then no_cmd ''Request'' else [])
                @ (if r_data_message cur = [] then no_data ''Request'' else []) @ out)))"

section \<open>The operation\<close>

definition missing_id :: string where
  "missing_id = ''Error: Interface is missing the id field!!'' @ [CHR 10]"

definition default_id :: "heap \<Rightarrow> str \<Rightarrow> str \<times> heap \<times> string list" where
  "default_id h ident = (case ident of None \<Rightarrow> (Some (h, ''0''), h + 1, [missing_id]) | Some _ \<Rightarrow> (ident, h, []))"

record refs_result =
  rr_interface :: "interface list"
  rr_heap :: heap
  rr_freed :: "blk list"
  rr_out :: "string list"

definition interface_add_references ::
    "heap \<Rightarrow> interface list \<Rightarrow> qualifier_type list \<Rightarrow> variable list \<Rightarrow> message option \<Rightarrow> refs_result option" where
  "interface_add_references h a q v m = (case a of
     [] \<Rightarrow> Some \<lparr>rr_interface = [], rr_heap = h, rr_freed = [], rr_out = []\<rparr>
   | x # xs \<Rightarrow>
     (let name = i_name x;
          (ident, h1, o1) = default_id h (i_id x);
          (vs, h2) = refer_variables h1 name ident v;
          x1 = x\<lparr>i_qualifiers := q, i_variables := vs, i_id := ident\<rparr>
      in case m of
        None \<Rightarrow> Some \<lparr>rr_interface = x1 # xs, rr_heap = h2, rr_freed = [], rr_out = o1\<rparr>
      | Some msg \<Rightarrow>
        (case refer_commands h2 name ident (m_commands msg) of None \<Rightarrow> None | Some (cs, h3, o2) \<Rightarrow>
        (case refer_notifications h3 name ident (m_notifications msg) of None \<Rightarrow> None | Some (ns, h4, o3) \<Rightarrow>
        (case refer_requests h4 name ident (m_requests msg) of None \<Rightarrow> None | Some (rs, h5, o4) \<Rightarrow>
          Some \<lparr>rr_interface = x1\<lparr>i_commands := cs, i_notifications := ns, i_requests := rs\<rparr> # xs,
                rr_heap = h5, rr_freed = [m_blk msg], rr_out = o1 @ o2 @ o3 @ o4\<rparr>)))))"

text \<open>\<^verbatim>\<open>parsexTEDS\<close> returns the tree the generated parser left in the global \<^verbatim>\<open>result\<close>, if it accepted
  the text. The parser is a function of the text and of the old value of \<^verbatim>\<open>result\<close>.\<close>

definition parsexTEDS ::
    "(string \<Rightarrow> xteds option \<Rightarrow> int \<times> xteds option) \<Rightarrow> xteds option \<Rightarrow> string \<Rightarrow> xteds option \<times> xteds option" where
  "parsexTEDS xTEDSparse result text =
     (let (parse_result, result') = xTEDSparse text result
      in (if parse_result = 0 then result' else None, result'))"

section \<open>Memory of the references\<close>

definition allocated :: "heap \<Rightarrow> heap \<Rightarrow> blk multiset \<Rightarrow> bool" where
  "allocated h h' M \<longleftrightarrow> h \<le> h' \<and> M = mset [h..<h']"

lemma allocated_none: "allocated h h {#}"
  by (simp add: allocated_def)

lemma allocated_add: "allocated h h1 M \<Longrightarrow> allocated h1 h2 N \<Longrightarrow> allocated h h2 (M + N)"
  unfolding allocated_def
  by (metis le_add_diff_inverse le_trans mset_append upt_add_eq_append)

lemma strdup_alloc: "strdup h src = Some (s, h') \<Longrightarrow> allocated h h' (mset (str_blocks s))"
  by (auto simp: strdup_def allocated_def split: option.splits)

lemma dup_if_alloc: "dup_if h src None = (s, h') \<Longrightarrow> allocated h h' (mset (str_blocks s))"
  by (auto simp: dup_if_def allocated_none dest: strdup_alloc split: option.splits)

text \<open>The nodes as the grammar builds them, before they are given to an interface.\<close>

definition fresh_cmd :: "cmd_msg list \<Rightarrow> bool" where
  "fresh_cmd m = (case m of [] \<Rightarrow> True | x # _ \<Rightarrow> cmd_interface_name x = None \<and> cmd_interface_id x = None)"

definition fresh_data :: "data_msg list \<Rightarrow> bool" where
  "fresh_data m = (case m of [] \<Rightarrow> True | x # _ \<Rightarrow> dm_interface_name x = None \<and> dm_interface_id x = None)"

definition fresh_fault :: "fault_msg option \<Rightarrow> bool" where
  "fresh_fault m = (case m of None \<Rightarrow> True | Some x \<Rightarrow> fm_interface_name x = None \<and> fm_interface_id x = None)"

definition fresh_variable :: "variable \<Rightarrow> bool" where
  "fresh_variable v = (v_interface_name v = None \<and> v_interface_id v = None)"

definition fresh_command :: "command \<Rightarrow> bool" where
  "fresh_command c = (c_interface_name c = None \<and> c_interface_id c = None
     \<and> fresh_cmd (c_command_message c) \<and> fresh_fault (c_fault_message c))"

definition fresh_notification :: "notification \<Rightarrow> bool" where
  "fresh_notification n = (n_interface_name n = None \<and> n_interface_id n = None
     \<and> fresh_data (n_data_message n) \<and> fresh_fault (n_fault_message n))"

definition fresh_request :: "request \<Rightarrow> bool" where
  "fresh_request r = (r_interface_name r = None \<and> r_interface_id r = None
     \<and> fresh_cmd (r_command_message r) \<and> fresh_data (r_data_message r) \<and> fresh_fault (r_fault_message r))"

definition fresh_message :: "message option \<Rightarrow> bool" where
  "fresh_message m = (case m of None \<Rightarrow> True | Some x \<Rightarrow>
     list_all fresh_command (m_commands x) \<and> list_all fresh_notification (m_notifications x)
     \<and> list_all fresh_request (m_requests x))"

lemma refer_variables_alloc:
  assumes "refer_variables h name ident v = (v', h')" "list_all fresh_variable v"
  shows "\<exists>M. allocated h h' M \<and> mset (variable_ptr_blocks v') = mset (variable_ptr_blocks v) + M"
  using assms
proof (induction v arbitrary: h v' h')
  case Nil
  then show ?case by (auto intro: allocated_none)
next
  case (Cons x v)
  obtain nm h1 i h2 r where d: "dup_if h name None = (nm, h1)" "dup_if h1 ident None = (i, h2)"
      "refer_variables h2 name ident v = (r, h')"
      "v' = x\<lparr>v_interface_name := nm, v_interface_id := i\<rparr> # r"
    using Cons.prems by (auto simp: fresh_variable_def split: prod.splits)
  obtain M where M: "allocated h2 h' M" "mset (variable_ptr_blocks r) = mset (variable_ptr_blocks v) + M"
    using Cons.IH [OF d(3)] Cons.prems(2) by auto
  show ?case
    using allocated_add [OF allocated_add [OF dup_if_alloc [OF d(1)] dup_if_alloc [OF d(2)]] M(1)]
      Cons.prems(2) M(2)
    by (intro exI [of _ "mset (str_blocks nm) + mset (str_blocks i) + M"])
       (simp add: d(4) variable_ptr_blocks_def variable_blocks_def fresh_variable_def)
qed

lemma refer_cmd_msg_alloc:
  assumes "refer_cmd_msg h name ident m = (m', h')" "fresh_cmd m"
  shows "\<exists>M. allocated h h' M \<and> mset (cmd_msg_ptr_blocks m') = mset (cmd_msg_ptr_blocks m) + M"
proof (cases m)
  case Nil
  with assms show ?thesis by (auto simp: refer_cmd_msg_def intro: allocated_none)
next
  case (Cons x xs)
  obtain nm h1 i where d: "dup_if h name None = (nm, h1)" "dup_if h1 ident None = (i, h')"
      "m' = x\<lparr>cmd_interface_name := nm, cmd_interface_id := i\<rparr> # xs"
    using assms Cons by (auto simp: refer_cmd_msg_def fresh_cmd_def split: prod.splits)
  show ?thesis
    using allocated_add [OF dup_if_alloc [OF d(1)] dup_if_alloc [OF d(2)]] assms(2)
    by (intro exI [of _ "mset (str_blocks nm) + mset (str_blocks i)"])
       (simp add: d(3) Cons cmd_msg_ptr_blocks_def cmd_msg_blocks_def fresh_cmd_def)
qed

lemma refer_data_msg_alloc:
  assumes "refer_data_msg h name ident m = (m', h')" "fresh_data m"
  shows "\<exists>M. allocated h h' M \<and> mset (data_msg_ptr_blocks m') = mset (data_msg_ptr_blocks m) + M"
proof (cases m)
  case Nil
  with assms show ?thesis by (auto simp: refer_data_msg_def intro: allocated_none)
next
  case (Cons x xs)
  obtain nm h1 i where d: "dup_if h name None = (nm, h1)" "dup_if h1 ident None = (i, h')"
      "m' = x\<lparr>dm_interface_name := nm, dm_interface_id := i\<rparr> # xs"
    using assms Cons by (auto simp: refer_data_msg_def fresh_data_def split: prod.splits)
  show ?thesis
    using allocated_add [OF dup_if_alloc [OF d(1)] dup_if_alloc [OF d(2)]] assms(2)
    by (intro exI [of _ "mset (str_blocks nm) + mset (str_blocks i)"])
       (simp add: d(3) Cons data_msg_ptr_blocks_def data_msg_blocks_def fresh_data_def)
qed

lemma refer_fault_msg_alloc:
  assumes "refer_fault_msg h name ident m = Some (m', h')" "fresh_fault m"
  shows "\<exists>M. allocated h h' M \<and> mset (fault_msg_ptr_blocks m') = mset (fault_msg_ptr_blocks m) + M"
proof (cases m)
  case None
  with assms show ?thesis by (auto simp: refer_fault_msg_def intro: allocated_none)
next
  case (Some x)
  obtain nm h1 i where d: "strdup h name = Some (nm, h1)" "strdup h1 ident = Some (i, h')"
      "m' = Some (x\<lparr>fm_interface_name := nm, fm_interface_id := i\<rparr>)"
    using assms Some by (auto simp: refer_fault_msg_def split: option.splits)
  show ?thesis
    using allocated_add [OF strdup_alloc [OF d(1)] strdup_alloc [OF d(2)]] assms(2)
    by (intro exI [of _ "mset (str_blocks nm) + mset (str_blocks i)"])
       (simp add: d(3) Some fault_msg_ptr_blocks_def fault_msg_blocks_def fresh_fault_def)
qed

lemma refer_commands_alloc:
  assumes "refer_commands h name ident c = Some (c', h', out)" "list_all fresh_command c"
  shows "\<exists>M. allocated h h' M \<and> mset (command_ptr_blocks c') = mset (command_ptr_blocks c) + M"
  using assms
proof (induction c arbitrary: h c' h' out)
  case Nil
  then show ?case by (auto intro: allocated_none)
next
  case (Cons x c)
  have f: "c_interface_name x = None" "c_interface_id x = None" "fresh_cmd (c_command_message x)"
      "fresh_fault (c_fault_message x)" "list_all fresh_command c"
    using Cons.prems(2) fresh_command_def [of x] by simp_all
  obtain nm h1 i h2 cmd h3 fault h4 r o2 where d:
      "dup_if h name None = (nm, h1)" "dup_if h1 ident None = (i, h2)"
      "refer_cmd_msg h2 name ident (c_command_message x) = (cmd, h3)"
      "refer_fault_msg h3 name ident (c_fault_message x) = Some (fault, h4)"
      "refer_commands h4 name ident c = Some (r, h', o2)"
      "c' = x\<lparr>c_interface_name := nm, c_interface_id := i,
              c_command_message := cmd, c_fault_message := fault\<rparr> # r"
    using Cons.prems(1) f(1,2) by (auto split: prod.splits option.splits)
  obtain M1 where M1: "allocated h2 h3 M1"
      "mset (cmd_msg_ptr_blocks cmd) = mset (cmd_msg_ptr_blocks (c_command_message x)) + M1"
    using refer_cmd_msg_alloc [OF d(3) f(3)] by auto
  obtain M2 where M2: "allocated h3 h4 M2"
      "mset (fault_msg_ptr_blocks fault) = mset (fault_msg_ptr_blocks (c_fault_message x)) + M2"
    using refer_fault_msg_alloc [OF d(4) f(4)] by auto
  obtain M3 where M3: "allocated h4 h' M3" "mset (command_ptr_blocks r) = mset (command_ptr_blocks c) + M3"
    using Cons.IH [OF d(5) f(5)] by auto
  show ?case
    using allocated_add [OF allocated_add [OF allocated_add [OF allocated_add
        [OF dup_if_alloc [OF d(1)] dup_if_alloc [OF d(2)]] M1(1)] M2(1)] M3(1)] M1(2) M2(2) M3(2)
    by (intro exI [of _ "mset (str_blocks nm) + mset (str_blocks i) + M1 + M2 + M3"])
       (simp add: d(6) f command_ptr_blocks_def command_blocks_def ac_simps)
qed

lemma refer_notifications_alloc:
  assumes "refer_notifications h name ident c = Some (c', h', out)" "list_all fresh_notification c"
  shows "\<exists>M. allocated h h' M \<and> mset (notification_ptr_blocks c') = mset (notification_ptr_blocks c) + M"
  using assms
proof (induction c arbitrary: h c' h' out)
  case Nil
  then show ?case by (auto intro: allocated_none)
next
  case (Cons x c)
  have f: "n_interface_name x = None" "n_interface_id x = None" "fresh_data (n_data_message x)"
      "fresh_fault (n_fault_message x)" "list_all fresh_notification c"
    using Cons.prems(2) fresh_notification_def [of x] by simp_all
  obtain nm h1 i h2 cmd h3 fault h4 r o2 where d:
      "dup_if h name None = (nm, h1)" "dup_if h1 ident None = (i, h2)"
      "refer_data_msg h2 name ident (n_data_message x) = (cmd, h3)"
      "refer_fault_msg h3 name ident (n_fault_message x) = Some (fault, h4)"
      "refer_notifications h4 name ident c = Some (r, h', o2)"
      "c' = x\<lparr>n_interface_name := nm, n_interface_id := i,
              n_data_message := cmd, n_fault_message := fault\<rparr> # r"
    using Cons.prems(1) f(1,2) by (auto split: prod.splits option.splits)
  obtain M1 where M1: "allocated h2 h3 M1"
      "mset (data_msg_ptr_blocks cmd) = mset (data_msg_ptr_blocks (n_data_message x)) + M1"
    using refer_data_msg_alloc [OF d(3) f(3)] by auto
  obtain M2 where M2: "allocated h3 h4 M2"
      "mset (fault_msg_ptr_blocks fault) = mset (fault_msg_ptr_blocks (n_fault_message x)) + M2"
    using refer_fault_msg_alloc [OF d(4) f(4)] by auto
  obtain M3 where M3: "allocated h4 h' M3" "mset (notification_ptr_blocks r) = mset (notification_ptr_blocks c) + M3"
    using Cons.IH [OF d(5) f(5)] by auto
  show ?case
    using allocated_add [OF allocated_add [OF allocated_add [OF allocated_add
        [OF dup_if_alloc [OF d(1)] dup_if_alloc [OF d(2)]] M1(1)] M2(1)] M3(1)] M1(2) M2(2) M3(2)
    by (intro exI [of _ "mset (str_blocks nm) + mset (str_blocks i) + M1 + M2 + M3"])
       (simp add: d(6) f notification_ptr_blocks_def notification_blocks_def ac_simps)
qed

lemma refer_requests_alloc:
  assumes "refer_requests h name ident c = Some (c', h', out)" "list_all fresh_request c"
  shows "\<exists>M. allocated h h' M \<and> mset (request_ptr_blocks c') = mset (request_ptr_blocks c) + M"
  using assms
proof (induction c arbitrary: h c' h' out)
  case Nil
  then show ?case by (auto intro: allocated_none)
next
  case (Cons x c)
  have f: "r_interface_name x = None" "r_interface_id x = None" "fresh_cmd (r_command_message x)"
      "fresh_data (r_data_message x)" "fresh_fault (r_fault_message x)" "list_all fresh_request c"
    using Cons.prems(2) fresh_request_def [of x] by simp_all
  obtain nm h1 i h2 cmd h3 dat h4 fault h5 r o2 where d:
      "dup_if h name None = (nm, h1)" "dup_if h1 ident None = (i, h2)"
      "refer_cmd_msg h2 name ident (r_command_message x) = (cmd, h3)"
      "refer_data_msg h3 name ident (r_data_message x) = (dat, h4)"
      "refer_fault_msg h4 name ident (r_fault_message x) = Some (fault, h5)"
      "refer_requests h5 name ident c = Some (r, h', o2)"
      "c' = x\<lparr>r_interface_name := nm, r_interface_id := i, r_command_message := cmd,
              r_data_message := dat, r_fault_message := fault\<rparr> # r"
    using Cons.prems(1) f(1,2) by (auto split: prod.splits option.splits)
  obtain M1 where M1: "allocated h2 h3 M1"
      "mset (cmd_msg_ptr_blocks cmd) = mset (cmd_msg_ptr_blocks (r_command_message x)) + M1"
    using refer_cmd_msg_alloc [OF d(3) f(3)] by auto
  obtain M2 where M2: "allocated h3 h4 M2"
      "mset (data_msg_ptr_blocks dat) = mset (data_msg_ptr_blocks (r_data_message x)) + M2"
    using refer_data_msg_alloc [OF d(4) f(4)] by auto
  obtain M3 where M3: "allocated h4 h5 M3"
      "mset (fault_msg_ptr_blocks fault) = mset (fault_msg_ptr_blocks (r_fault_message x)) + M3"
    using refer_fault_msg_alloc [OF d(5) f(5)] by auto
  obtain M4 where M4: "allocated h5 h' M4" "mset (request_ptr_blocks r) = mset (request_ptr_blocks c) + M4"
    using Cons.IH [OF d(6) f(6)] by auto
  show ?case
    using allocated_add [OF allocated_add [OF allocated_add [OF allocated_add [OF allocated_add
        [OF dup_if_alloc [OF d(1)] dup_if_alloc [OF d(2)]] M1(1)] M2(1)] M3(1)] M4(1)]
      M1(2) M2(2) M3(2) M4(2)
    by (intro exI [of _ "mset (str_blocks nm) + mset (str_blocks i) + M1 + M2 + M3 + M4"])
       (simp add: d(7) f request_ptr_blocks_def request_blocks_def ac_simps)
qed


text \<open>An interface as its attribute list leaves it: no qualifiers, variables or messages yet.\<close>

definition bare_interface :: "interface \<Rightarrow> bool" where
  "bare_interface x = (i_qualifiers x = [] \<and> i_variables x = [] \<and> i_commands x = []
     \<and> i_notifications x = [] \<and> i_requests x = [])"

lemma default_id_alloc:
  "default_id h s = (s', h', out) \<Longrightarrow>
     \<exists>M. allocated h h' M \<and> mset (str_blocks s') = mset (str_blocks s) + M"
  by (cases s) (auto simp: default_id_def allocated_def intro: allocated_none)

lemma refer_all_alloc:
  assumes "refer_commands h name ident (m_commands msg) = Some (cs, h3, o2)"
    "refer_notifications h3 name ident (m_notifications msg) = Some (ns, h4, o3)"
    "refer_requests h4 name ident (m_requests msg) = Some (rs, h5, o4)"
    "fresh_message (Some msg)"
  shows "\<exists>M. allocated h h5 M \<and>
    mset (command_ptr_blocks cs) + mset (notification_ptr_blocks ns) + mset (request_ptr_blocks rs) + {#m_blk msg#}
    = mset (message_ptr_blocks (Some msg)) + M"
proof -
  have f: "list_all fresh_command (m_commands msg)" "list_all fresh_notification (m_notifications msg)"
      "list_all fresh_request (m_requests msg)"
    using assms(4) by (simp_all add: fresh_message_def)
  obtain M1 M2 M3 where M: "allocated h h3 M1" "allocated h3 h4 M2" "allocated h4 h5 M3"
      "mset (command_ptr_blocks cs) = mset (command_ptr_blocks (m_commands msg)) + M1"
      "mset (notification_ptr_blocks ns) = mset (notification_ptr_blocks (m_notifications msg)) + M2"
      "mset (request_ptr_blocks rs) = mset (request_ptr_blocks (m_requests msg)) + M3"
    using refer_commands_alloc [OF assms(1) f(1)] refer_notifications_alloc [OF assms(2) f(2)]
      refer_requests_alloc [OF assms(3) f(3)] by blast
  show ?thesis
    using allocated_add [OF allocated_add [OF M(1,2)] M(3)] M(4-6)
    by (intro exI [of _ "M1 + M2 + M3"]) (simp add: message_ptr_blocks_def message_blocks_def ac_simps)
qed

text \<open>No block is lost: what the interface and its parts owned before, and the copies made, is
  owned by the returned interface afterwards, but for the wrapper node, which is freed.\<close>

lemma interface_references_memory:
  assumes r: "interface_add_references h (x # xs) q v m = Some r"
    and fresh: "bare_interface x" "list_all fresh_variable v" "fresh_message m"
  shows "mset (interface_ptr_blocks (rr_interface r) @ rr_freed r)
     = mset (interface_ptr_blocks (x # xs) @ qualifier_type_ptr_blocks q @ variable_ptr_blocks v
         @ message_ptr_blocks m @ [h..<rr_heap r]) \<and> h \<le> rr_heap r"
proof -
  obtain ident h1 o1 vs h2 where d: "default_id h (i_id x) = (ident, h1, o1)"
      "refer_variables h1 (i_name x) ident v = (vs, h2)"
    by (metis surj_pair)
  obtain M1 M2 where M: "allocated h h1 M1" "mset (str_blocks ident) = mset (str_blocks (i_id x)) + M1"
      "allocated h1 h2 M2" "mset (variable_ptr_blocks vs) = mset (variable_ptr_blocks v) + M2"
    using default_id_alloc [OF d(1)] refer_variables_alloc [OF d(2) fresh(2)] by blast
  note M12 = allocated_add [OF M(1,3)]
  note defs = interface_ptr_blocks_def interface_blocks_def
  show ?thesis
  proof (cases m)
    case None
    then show ?thesis using r d M(2,4) M12 fresh(1)
      by (auto simp: interface_add_references_def defs bare_interface_def allocated_def)
  next
    case (Some msg)
    obtain cs h3 o2 ns h4 o3 rs h5 o4 where c:
        "refer_commands h2 (i_name x) ident (m_commands msg) = Some (cs, h3, o2)"
        "refer_notifications h3 (i_name x) ident (m_notifications msg) = Some (ns, h4, o3)"
        "refer_requests h4 (i_name x) ident (m_requests msg) = Some (rs, h5, o4)"
        "rr_interface r = x\<lparr>i_qualifiers := q, i_variables := vs, i_id := ident, i_commands := cs,
            i_notifications := ns, i_requests := rs\<rparr> # xs" "rr_heap r = h5" "rr_freed r = [m_blk msg]"
      using r d Some by (auto simp: interface_add_references_def Let_def split: option.splits prod.splits)
    obtain M3 where M3: "allocated h2 h5 M3"
        "mset (command_ptr_blocks cs) + mset (notification_ptr_blocks ns) + mset (request_ptr_blocks rs)
           + {#m_blk msg#} = mset (message_ptr_blocks (Some msg)) + M3"
      using refer_all_alloc [OF c(1-3)] fresh(3) Some by blast
    have "M1 + M2 + M3 = mset [h..<h5]" "h \<le> h5"
      using allocated_add [OF M12 M3(1)] by (simp_all add: allocated_def)
    moreover have "mset (interface_ptr_blocks (rr_interface r) @ rr_freed r)
       = mset (interface_ptr_blocks (x # xs) @ qualifier_type_ptr_blocks q @ variable_ptr_blocks v
         @ message_ptr_blocks m) + (M1 + M2 + M3)"
      using M(2,4) M3(2) fresh(1) by (simp add: c(4,6) Some defs bare_interface_def ac_simps)
    ultimately show ?thesis by (simp add: c(5) ac_simps)
  qed
qed


section \<open>What the parts carry\<close>

definition text_of :: "str \<Rightarrow> string option" where
  "text_of s = map_option snd s"

definition carries :: "string \<Rightarrow> string \<Rightarrow> str \<Rightarrow> str \<Rightarrow> bool" where
  "carries nm i n d = (text_of n = Some nm \<and> text_of d = Some i)"

definition referred_cmd :: "string \<Rightarrow> string \<Rightarrow> cmd_msg list \<Rightarrow> bool" where
  "referred_cmd nm i m = (case m of [] \<Rightarrow> True | x # _ \<Rightarrow> carries nm i (cmd_interface_name x) (cmd_interface_id x))"

definition referred_data :: "string \<Rightarrow> string \<Rightarrow> data_msg list \<Rightarrow> bool" where
  "referred_data nm i m = (case m of [] \<Rightarrow> True | x # _ \<Rightarrow> carries nm i (dm_interface_name x) (dm_interface_id x))"

definition referred_fault :: "string \<Rightarrow> string \<Rightarrow> fault_msg option \<Rightarrow> bool" where
  "referred_fault nm i m = (case m of None \<Rightarrow> True | Some x \<Rightarrow> carries nm i (fm_interface_name x) (fm_interface_id x))"

definition referred_variable :: "string \<Rightarrow> string \<Rightarrow> variable \<Rightarrow> bool" where
  "referred_variable nm i v = carries nm i (v_interface_name v) (v_interface_id v)"

definition referred_command :: "string \<Rightarrow> string \<Rightarrow> command \<Rightarrow> bool" where
  "referred_command nm i c = (carries nm i (c_interface_name c) (c_interface_id c)
     \<and> referred_cmd nm i (c_command_message c) \<and> referred_fault nm i (c_fault_message c))"

definition referred_notification :: "string \<Rightarrow> string \<Rightarrow> notification \<Rightarrow> bool" where
  "referred_notification nm i n = (carries nm i (n_interface_name n) (n_interface_id n)
     \<and> referred_data nm i (n_data_message n) \<and> referred_fault nm i (n_fault_message n))"

definition referred_request :: "string \<Rightarrow> string \<Rightarrow> request \<Rightarrow> bool" where
  "referred_request nm i r = (carries nm i (r_interface_name r) (r_interface_id r)
     \<and> referred_cmd nm i (r_command_message r) \<and> referred_data nm i (r_data_message r)
     \<and> referred_fault nm i (r_fault_message r))"

definition referred_interface :: "string \<Rightarrow> string \<Rightarrow> interface \<Rightarrow> bool" where
  "referred_interface nm i x = (list_all (referred_variable nm i) (i_variables x)
     \<and> list_all (referred_command nm i) (i_commands x)
     \<and> list_all (referred_notification nm i) (i_notifications x)
     \<and> list_all (referred_request nm i) (i_requests x))"

lemma dup_if_text: "dup_if h (Some (b, t)) s = (Some (h, t), h + 1)"
  by (simp add: dup_if_def strdup_def)

lemma refer_variables_carry:
  "list_all (referred_variable nm i) (fst (refer_variables h (Some (b, nm)) (Some (b', i)) v))"
  by (induction v arbitrary: h)
     (simp_all add: dup_if_text referred_variable_def carries_def text_of_def split: prod.split, metis fst_conv)

lemma refer_cmd_msg_carry: "referred_cmd nm i (fst (refer_cmd_msg h (Some (b, nm)) (Some (b', i)) m))"
  by (cases m) (simp_all add: refer_cmd_msg_def dup_if_text referred_cmd_def carries_def text_of_def)

lemma refer_data_msg_carry: "referred_data nm i (fst (refer_data_msg h (Some (b, nm)) (Some (b', i)) m))"
  by (cases m) (simp_all add: refer_data_msg_def dup_if_text referred_data_def carries_def text_of_def)

lemma refer_fault_msg_carry:
  "\<exists>m' h'. refer_fault_msg h (Some (b, nm)) (Some (b', i)) m = Some (m', h') \<and> referred_fault nm i m'"
  by (cases m) (simp_all add: refer_fault_msg_def strdup_def referred_fault_def carries_def text_of_def)

lemma refer_commands_carry:
  "\<exists>c' h' out. refer_commands h (Some (b, nm)) (Some (b', i)) c = Some (c', h', out)
     \<and> list_all (referred_command nm i) c'"
proof (induction c arbitrary: h)
  case (Cons x c)
  obtain cmd h3 where d: "refer_cmd_msg (h + 1 + 1) (Some (b, nm)) (Some (b', i)) (c_command_message x) = (cmd, h3)"
    by (metis surj_pair)
  obtain fault h4 where f: "refer_fault_msg h3 (Some (b, nm)) (Some (b', i)) (c_fault_message x) = Some (fault, h4)"
      "referred_fault nm i fault"
    using refer_fault_msg_carry by blast
  show ?case
    using Cons.IH [of h4] refer_cmd_msg_carry [of nm i "h + 1 + 1" b b' "c_command_message x"] f d
    by (auto simp: dup_if_text referred_command_def carries_def text_of_def)
qed simp

lemma refer_notifications_carry:
  "\<exists>c' h' out. refer_notifications h (Some (b, nm)) (Some (b', i)) c = Some (c', h', out)
     \<and> list_all (referred_notification nm i) c'"
proof (induction c arbitrary: h)
  case (Cons x c)
  obtain dat h3 where d: "refer_data_msg (h + 1 + 1) (Some (b, nm)) (Some (b', i)) (n_data_message x) = (dat, h3)"
    by (metis surj_pair)
  obtain fault h4 where f: "refer_fault_msg h3 (Some (b, nm)) (Some (b', i)) (n_fault_message x) = Some (fault, h4)"
      "referred_fault nm i fault"
    using refer_fault_msg_carry by blast
  show ?case
    using Cons.IH [of h4] refer_data_msg_carry [of nm i "h + 1 + 1" b b' "n_data_message x"] f d
    by (auto simp: dup_if_text referred_notification_def carries_def text_of_def)
qed simp

lemma refer_requests_carry:
  "\<exists>c' h' out. refer_requests h (Some (b, nm)) (Some (b', i)) c = Some (c', h', out)
     \<and> list_all (referred_request nm i) c'"
proof (induction c arbitrary: h)
  case (Cons x c)
  obtain cmd h3 dat h4 where d:
      "refer_cmd_msg (h + 1 + 1) (Some (b, nm)) (Some (b', i)) (r_command_message x) = (cmd, h3)"
      "refer_data_msg h3 (Some (b, nm)) (Some (b', i)) (r_data_message x) = (dat, h4)"
    by (metis surj_pair)
  obtain fault h5 where f: "refer_fault_msg h4 (Some (b, nm)) (Some (b', i)) (r_fault_message x) = Some (fault, h5)"
      "referred_fault nm i fault"
    using refer_fault_msg_carry by blast
  show ?case
    using Cons.IH [of h5] refer_cmd_msg_carry [of nm i "h + 1 + 1" b b' "r_command_message x"]
      refer_data_msg_carry [of nm i h3 b b' "r_data_message x"] f d
    by (auto simp: dup_if_text referred_request_def carries_def text_of_def)
qed simp

definition id_text :: "interface \<Rightarrow> string" where
  "id_text x = (case i_id x of None \<Rightarrow> ''0'' | Some (_, t) \<Rightarrow> t)"

lemma default_id_text: "\<exists>b h1 o1. default_id h (i_id x) = (Some (b, id_text x), h1, o1)"
  by (auto simp: default_id_def id_text_def split: option.split)

lemma interface_references_carry:
  assumes "i_name x = Some (b, nm)" "bare_interface x"
  shows "\<exists>r y. interface_add_references h (x # xs) q v m = Some r \<and> rr_interface r = y # xs
     \<and> referred_interface nm (id_text x) y \<and> text_of (i_name y) = Some nm
     \<and> text_of (i_id y) = Some (id_text x) \<and> i_qualifiers y = q"
proof -
  obtain b' h1 o1 where d: "default_id h (i_id x) = (Some (b', id_text x), h1, o1)"
    using default_id_text by blast
  obtain vs h2 where v: "refer_variables h1 (Some (b, nm)) (Some (b', id_text x)) v = (vs, h2)"
    by (metis surj_pair)
  have vs: "list_all (referred_variable nm (id_text x)) vs"
    using refer_variables_carry [of nm "id_text x" h1 b b' v] v by simp
  show ?thesis
  proof (cases m)
    case None
    then show ?thesis using d v vs assms
      by (simp add: interface_add_references_def referred_interface_def bare_interface_def text_of_def)
  next
    case (Some msg)
    obtain cs h3 o2 ns h4 o3 rs h5 o4 where
        "refer_commands h2 (Some (b, nm)) (Some (b', id_text x)) (m_commands msg) = Some (cs, h3, o2)"
        "list_all (referred_command nm (id_text x)) cs"
        "refer_notifications h3 (Some (b, nm)) (Some (b', id_text x)) (m_notifications msg) = Some (ns, h4, o3)"
        "list_all (referred_notification nm (id_text x)) ns"
        "refer_requests h4 (Some (b, nm)) (Some (b', id_text x)) (m_requests msg) = Some (rs, h5, o4)"
        "list_all (referred_request nm (id_text x)) rs"
      using refer_commands_carry refer_notifications_carry refer_requests_carry by meson
    with Some d v vs assms show ?thesis
      by (simp add: interface_add_references_def referred_interface_def text_of_def)
  qed
qed

section \<open>When the code passes NULL to \<^verbatim>\<open>strdup\<close>\<close>

lemma refer_fault_unnamed: "refer_fault_msg h None ident m = (if m = None then Some (None, h) else None)"
  by (cases m) (simp_all add: refer_fault_msg_def strdup_def)

lemma refer_commands_None:
  assumes "ident \<noteq> None"
  shows "refer_commands h name ident c = None \<longleftrightarrow> name = None \<and> list_ex (\<lambda>c. c_fault_message c \<noteq> None) c"
proof (cases name)
  case None
  show ?thesis unfolding None
    by (induction c arbitrary: h) (simp_all add: refer_fault_unnamed Let_def case_prod_beta option.case_eq_if)
next
  case (Some p)
  then obtain b nm b' i where "name = Some (b, nm)" "ident = Some (b', i)"
    using assms by fastforce
  then show ?thesis using refer_commands_carry [of h b nm b' i c] by auto
qed

lemma refer_notifications_None:
  assumes "ident \<noteq> None"
  shows "refer_notifications h name ident c = None \<longleftrightarrow> name = None \<and> list_ex (\<lambda>c. n_fault_message c \<noteq> None) c"
proof (cases name)
  case None
  show ?thesis unfolding None
    by (induction c arbitrary: h) (simp_all add: refer_fault_unnamed Let_def case_prod_beta option.case_eq_if)
next
  case (Some p)
  then obtain b nm b' i where "name = Some (b, nm)" "ident = Some (b', i)"
    using assms by fastforce
  then show ?thesis using refer_notifications_carry [of h b nm b' i c] by auto
qed

lemma refer_requests_None:
  assumes "ident \<noteq> None"
  shows "refer_requests h name ident c = None \<longleftrightarrow> name = None \<and> list_ex (\<lambda>c. r_fault_message c \<noteq> None) c"
proof (cases name)
  case None
  show ?thesis unfolding None
    by (induction c arbitrary: h) (simp_all add: refer_fault_unnamed Let_def case_prod_beta option.case_eq_if)
next
  case (Some p)
  then obtain b nm b' i where "name = Some (b, nm)" "ident = Some (b', i)"
    using assms by fastforce
  then show ?thesis using refer_requests_carry [of h b nm b' i c] by auto
qed

definition has_fault :: "message \<Rightarrow> bool" where
  "has_fault msg = (list_ex (\<lambda>c. c_fault_message c \<noteq> None) (m_commands msg)
     \<or> list_ex (\<lambda>n. n_fault_message n \<noteq> None) (m_notifications msg)
     \<or> list_ex (\<lambda>r. r_fault_message r \<noteq> None) (m_requests msg))"

lemma interface_references_None:
  "interface_add_references h (x # xs) q v m = None
     \<longleftrightarrow> i_name x = None \<and> (case m of None \<Rightarrow> False | Some msg \<Rightarrow> has_fault msg)"
proof -
  obtain b' h1 o1 where d: "default_id h (i_id x) = (Some (b', id_text x), h1, o1)"
    using default_id_text by blast
  show ?thesis
    by (cases m) (auto simp: interface_add_references_def d has_fault_def Let_def case_prod_beta
        option.case_eq_if refer_commands_None refer_notifications_None refer_requests_None)
qed

end
