(* ===== verification/XTEDS_Properties.thy ===== *)
theory XTEDS_Properties
  imports XTEDS_References
begin

text \<open>
  The properties of the xTEDS tree: the destructor gives back every allocation once, elements are
  built from their attribute lists without losing memory, the first value of an attribute wins, the
  merges that do lose memory and what exactly they lose, and what an interface's parts carry.
\<close>

section \<open>Notions the properties use\<close>

text \<open>Building an element from the nodes of its attributes and deleting it frees every block of the
  attribute nodes once.\<close>

definition releases_all ::
    "'p \<Rightarrow> ('p \<Rightarrow> 'p \<Rightarrow> 'p \<times> blk list) \<Rightarrow> ('p \<Rightarrow> int \<times> blk list) \<Rightarrow> ('p \<Rightarrow> blk list) \<Rightarrow> ('p \<Rightarrow> bool) \<Rightarrow> bool" where
  "releases_all null merge delete blocks attribute = (\<forall>bs. (\<forall>b\<in>set bs. attribute b) \<longrightarrow>
     mset (snd (merge_all merge null bs) @ snd (delete (fst (merge_all merge null bs))))
       = mset (concat (map blocks bs)))"

context attribute_merge begin

lemma element_releases: "blocks null = [] \<Longrightarrow> releases_all null merge delete blocks attribute"
  using build_delete_returns_all [of _ null] by (simp add: releases_all_def)

end

definition variable_attributes :: "(variable \<Rightarrow> str) list" where
  "variable_attributes =
     [v_length, v_kind, v_name, v_qualifier, v_id, v_range_min,
      v_range_max, v_default_value, v_precision, v_units, v_accuracy, v_scale_factor,
      v_scale_units, v_format, v_description, v_r_low, v_r_high, v_y_low,
      v_y_high, v_invalid_value]"

definition first_value :: "('a \<Rightarrow> str) \<Rightarrow> 'a list \<Rightarrow> str" where
  "first_value g xs = foldr (\<lambda>x. first_ptr (g x)) xs None"

lemma first_value_snoc: "first_value g (xs @ [x]) = first_ptr (first_value g xs) (g x)"
  by (induction xs) (simp_all add: first_value_def first_ptr_def split: option.splits)

definition variable_lost :: "variable \<Rightarrow> variable \<Rightarrow> blk list" where
  "variable_lost x y = str_blocks (v_interface_name y) @ str_blocks (v_interface_id y)
     @ (if v_qualifiers x = [] then [] else tl (qualifier_type_ptr_blocks (v_qualifiers y)))"

definition xteds_lost :: "xteds \<Rightarrow> xteds \<Rightarrow> blk list" where
  "xteds_lost x y = spare_str (x_name x) (x_name y) @ spare_str (x_version x) (x_version y)
     @ spare_str (x_description x) (x_description y) @ spare_str (x_xmlns x) (x_xmlns y)
     @ spare_str (x_xmlns_xsi x) (x_xmlns_xsi y) @ spare_str (x_schema_location x) (x_schema_location y)
     @ app_dev_attr_ptr_blocks (x_header y) @ interface_ptr_blocks (x_interfaces y)"

definition app_dev_attr_strings :: "(app_dev_attr \<Rightarrow> str) list" where
  "app_dev_attr_strings =
     [ad_name, ad_kind, ad_id, ad_qualifier, ad_description,
      ad_manufacturer_id, ad_componentKey, ad_model_id, ad_version_letter, ad_version,
      ad_serial_number, ad_calibration_date, ad_sensitivity_at_reference, ad_reference_frequency, ad_reference_temperature,
      ad_measurement_range, ad_electrical_output, ad_quality_factor, ad_temperature_coefficient, ad_direction_xyz,
      ad_cal_due_date, ad_power_requirements, ad_spa_u_hub, ad_spa_u_port, ad_memory_minimum,
      ad_operating_system, ad_path_for_assembly, ad_path_on_spacecraft]"

definition app_dev_attr_lost :: "app_dev_attr \<Rightarrow> app_dev_attr \<Rightarrow> blk list" where
  "app_dev_attr_lost x y = concat (map (\<lambda>g. spare_str (g x) (g y)) app_dev_attr_strings)"

text \<open>An interface named \<^verbatim>\<open>Nav\<close> without an id, and a message with one command and its fault message.\<close>

definition nav_interface :: interface where
  "nav_interface = (hd (fst (new_interface 0)))\<lparr>i_name := Some (1, ''Nav'')\<rparr>"

definition nav_message :: "message option" where
  "nav_message = message_link_command (fst (new_message_node 3))
     (command_add_cmd_msg (command_add_fault_msg (fst (new_command 4)) (fst (new_fault_msg 5))) (fst (new_cmd_msg 6)))"

section \<open>Helper lemmas\<close>

lemma merge_variables_value:
  "g \<in> set variable_attributes \<Longrightarrow>
     \<exists>z. fst (merge_variables_nodes [x] [y]) = [z] \<and> g z = first_ptr (g x) (g y)"
  by (auto simp: variable_attributes_def merge_variables_nodes_def)

lemma merge_all_variables_value:
  assumes "g \<in> set variable_attributes"
  shows "\<exists>z. fst (merge_all merge_variables_nodes [x] (map (\<lambda>y. [y]) ys)) = [z]
     \<and> g z = first_value g (x # ys)"
proof (induction ys rule: rev_induct)
  case Nil
  show ?case by (simp add: merge_all_def first_value_def)
next
  case (snoc y ys)
  then obtain w where w: "fst (merge_all merge_variables_nodes [x] (map (\<lambda>y. [y]) ys)) = [w]"
      "g w = first_value g (x # ys)" by blast
  then show ?case
    using merge_variables_value [OF assms, of w y] first_value_snoc [of g "x # ys" y]
    by (simp add: merge_all_snoc)
qed

lemma spare_strs_count:
  "count (mset (concat (map (\<lambda>g. str_blocks (first_ptr (g x) (g y))) gs))) z
     + count (mset (concat (map (\<lambda>g. spare_str (g x) (g y)) gs))) z
   = count (mset (concat (map (\<lambda>g. str_blocks (g x)) gs))) z
     + count (mset (concat (map (\<lambda>g. str_blocks (g y)) gs))) z"
proof (induction gs)
  case (Cons g gs)
  then show ?case using spare_str_count [of "g x" "g y" z] by simp
qed simp

lemma tl_qualifier_blocks:
  "count (mset (map q_blk (take 1 q))) z + count (mset (tl (qualifier_type_ptr_blocks q))) z
     = count (mset (qualifier_type_ptr_blocks q)) z"
  by (cases q) (simp_all add: qualifier_type_ptr_blocks_def qualifier_type_blocks_def)

lemma freed_qualifiers:
  "count (mset (qualifier_type_ptr_blocks (first_list a b))) z
     + count (mset (if a = [] then [] else map q_blk (take 1 b))) z
     + count (mset (if a = [] then [] else tl (qualifier_type_ptr_blocks b))) z
   = count (mset (qualifier_type_ptr_blocks a)) z + count (mset (qualifier_type_ptr_blocks b)) z"
  using tl_qualifier_blocks [of b z] by (simp add: first_list_def)

lemma variable_blocks_attributes:
  "count (mset (variable_blocks x)) z = count {#v_blk x#} z
     + count (mset (concat (map (\<lambda>g. str_blocks (g x)) variable_attributes))) z
     + count (mset (str_blocks (v_interface_name x))) z + count (mset (str_blocks (v_interface_id x))) z
     + count (mset (qualifier_type_ptr_blocks (v_qualifiers x))) z + count (mset (curve_ptr_blocks (v_curves x))) z
     + count (mset (drange_ptr_blocks (v_dranges x))) z + count (mset (location_ptr_blocks (v_location_data x))) z
     + count (mset (orientation_ptr_blocks (v_orientation_data x))) z"
  by (simp add: variable_blocks_def variable_attributes_def)

lemma merge_variables_node:
  "\<exists>r f. merge_variables_nodes (x # xs) (y # ys) = (r # xs, f) \<and> v_blk r = v_blk x
     \<and> v_interface_name r = v_interface_name x \<and> v_interface_id r = v_interface_id x
     \<and> v_qualifiers r = first_list (v_qualifiers x) (v_qualifiers y)
     \<and> v_curves r = first_ptr (v_curves x) (v_curves y) \<and> v_dranges r = first_ptr (v_dranges x) (v_dranges y)
     \<and> v_location_data r = first_ptr (v_location_data x) (v_location_data y)
     \<and> v_orientation_data r = v_orientation_data x @ v_orientation_data y
     \<and> map (\<lambda>g. g r) variable_attributes = map (\<lambda>g. first_ptr (g x) (g y)) variable_attributes
     \<and> (\<forall>z. count (mset f) z = count {#v_blk y#} z
          + count (mset (concat (map (\<lambda>g. spare_str (g x) (g y)) variable_attributes))) z
          + count (mset (if v_qualifiers x = [] then [] else map q_blk (take 1 (v_qualifiers y)))) z
          + count (mset (spare_ptr delete_curve (v_curves x) (v_curves y))) z
          + count (mset (spare_ptr delete_drange (v_dranges x) (v_dranges y))) z
          + count (mset (spare_ptr delete_location (v_location_data x) (v_location_data y))) z)"
  by (simp add: merge_variables_nodes_def variable_attributes_def link_appends del: mset_map)

lemma merge_variables_balance:
  "mset (variable_ptr_blocks (fst (merge_variables_nodes (x # xs) (y # ys))))
     + mset (snd (merge_variables_nodes (x # xs) (y # ys))) + mset (variable_lost x y)
   = mset (variable_ptr_blocks (x # xs)) + mset (variable_blocks y)"
proof (rule multiset_eqI)
  fix z
  obtain r f where r: "merge_variables_nodes (x # xs) (y # ys) = (r # xs, f)"
      "map (\<lambda>g. g r) variable_attributes = map (\<lambda>g. first_ptr (g x) (g y)) variable_attributes"
      and node: "v_blk r = v_blk x" "v_interface_name r = v_interface_name x"
      "v_interface_id r = v_interface_id x" "v_qualifiers r = first_list (v_qualifiers x) (v_qualifiers y)"
      "v_curves r = first_ptr (v_curves x) (v_curves y)" "v_dranges r = first_ptr (v_dranges x) (v_dranges y)"
      "v_location_data r = first_ptr (v_location_data x) (v_location_data y)"
      "v_orientation_data r = v_orientation_data x @ v_orientation_data y"
      and freed: "count (mset f) z = count {#v_blk y#} z
          + count (mset (concat (map (\<lambda>g. spare_str (g x) (g y)) variable_attributes))) z
          + count (mset (if v_qualifiers x = [] then [] else map q_blk (take 1 (v_qualifiers y)))) z
          + count (mset (spare_ptr delete_curve (v_curves x) (v_curves y))) z
          + count (mset (spare_ptr delete_drange (v_dranges x) (v_dranges y))) z
          + count (mset (spare_ptr delete_location (v_location_data x) (v_location_data y))) z"
    using merge_variables_node [of x xs y ys] by blast
  have strings: "map (\<lambda>g. str_blocks (g r)) variable_attributes
      = map (\<lambda>g. str_blocks (first_ptr (g x) (g y))) variable_attributes"
    using arg_cong [OF r(2), of "map str_blocks"] by (simp add: comp_def)
  have "count (mset (variable_blocks r)) z + count (mset f) z + count (mset (variable_lost x y)) z
      = count (mset (variable_blocks x)) z + count (mset (variable_blocks y)) z"
    unfolding variable_blocks_attributes freed strings node variable_lost_def mset_append count_union
    using spare_strs_count [of x y variable_attributes z]
      spare_ptr_count [of delete_curve curve_ptr_blocks "v_curves x" "v_curves y" z, OF delete_curve_frees curve_ptr_blocks_null]
      spare_ptr_count [of delete_drange drange_ptr_blocks "v_dranges x" "v_dranges y" z, OF delete_drange_frees drange_ptr_blocks_null]
      spare_ptr_count [of delete_location location_ptr_blocks "v_location_data x" "v_location_data y" z,
        OF delete_location_frees location_ptr_blocks_null]
      freed_qualifiers [of "v_qualifiers x" "v_qualifiers y" z]
    unfolding orientation_ptr_blocks_append mset_append count_union by linarith
  then show "count (mset (variable_ptr_blocks (fst (merge_variables_nodes (x # xs) (y # ys))))
     + mset (snd (merge_variables_nodes (x # xs) (y # ys))) + mset (variable_lost x y)) z
   = count (mset (variable_ptr_blocks (x # xs)) + mset (variable_blocks y)) z"
    by (simp add: r(1) variable_ptr_blocks_def)
qed

lemma merge_xteds_balance:
  "mset (xteds_ptr_blocks (fst (merge_xteds (Some x) (Some y)))) + mset (snd (merge_xteds (Some x) (Some y)))
     + mset (xteds_lost x y) = mset (xteds_blocks x) + mset (xteds_blocks y)"
proof (rule multiset_eqI)
  fix z
  show "count (mset (xteds_ptr_blocks (fst (merge_xteds (Some x) (Some y))))
     + mset (snd (merge_xteds (Some x) (Some y))) + mset (xteds_lost x y)) z
   = count (mset (xteds_blocks x) + mset (xteds_blocks y)) z"
    using spare_strs_count [of x y
      "[x_name, x_version, x_description, x_xmlns, x_xmlns_xsi,
        x_schema_location]" z]
    by (simp add: merge_xteds_def xteds_ptr_blocks_def xteds_blocks_def xteds_lost_def)
qed

lemma app_dev_attr_blocks_strings:
  "app_dev_attr_blocks x = ad_blk x # concat (map (\<lambda>g. str_blocks (g x)) app_dev_attr_strings)
     @ qualifier_type_ptr_blocks (ad_qualifiers x)"
  by (simp add: app_dev_attr_blocks_def app_dev_attr_strings_def)

lemma merge_app_dev_attr_node:
  "\<exists>r. merge_app_dev_attr (Some x) (Some y) = (Some r, [ad_blk y]) \<and> ad_blk r = ad_blk x
     \<and> ad_qualifiers r = ad_qualifiers x @ ad_qualifiers y
     \<and> map (\<lambda>g. g r) app_dev_attr_strings = map (\<lambda>g. first_ptr (g x) (g y)) app_dev_attr_strings"
  by (simp add: merge_app_dev_attr_def app_dev_attr_strings_def link_appends)

lemma merge_app_dev_attr_balance:
  "mset (app_dev_attr_ptr_blocks (fst (merge_app_dev_attr (Some x) (Some y))))
     + mset (snd (merge_app_dev_attr (Some x) (Some y))) + mset (app_dev_attr_lost x y)
   = mset (app_dev_attr_blocks x) + mset (app_dev_attr_blocks y)"
proof (rule multiset_eqI)
  fix z
  obtain r where r: "merge_app_dev_attr (Some x) (Some y) = (Some r, [ad_blk y])" "ad_blk r = ad_blk x"
      "ad_qualifiers r = ad_qualifiers x @ ad_qualifiers y"
      "map (\<lambda>g. g r) app_dev_attr_strings = map (\<lambda>g. first_ptr (g x) (g y)) app_dev_attr_strings"
    using merge_app_dev_attr_node by blast
  have strings: "map (\<lambda>g. str_blocks (g r)) app_dev_attr_strings
      = map (\<lambda>g. str_blocks (first_ptr (g x) (g y))) app_dev_attr_strings"
    using arg_cong [OF r(4), of "map str_blocks"] by (simp add: comp_def)
  show "count (mset (app_dev_attr_ptr_blocks (fst (merge_app_dev_attr (Some x) (Some y))))
     + mset (snd (merge_app_dev_attr (Some x) (Some y))) + mset (app_dev_attr_lost x y)) z
   = count (mset (app_dev_attr_blocks x) + mset (app_dev_attr_blocks y)) z"
    using spare_strs_count [of x y app_dev_attr_strings z] r(1-3)
    by (simp add: strings app_dev_attr_ptr_blocks_def app_dev_attr_blocks_strings app_dev_attr_lost_def)
qed

section \<open>The properties\<close>

text \<open>C23. \<^verbatim>\<open>delete_xteds\<close> on any tree returns 1 (0 for NULL) and frees exactly the blocks the tree owns,
  header, interfaces, variables, messages and strings included, each as often as the tree holds it: it
  frees no block twice iff the tree shares none.\<close>

theorem delete_xteds_releases:
  "fst (delete_xteds p) = (if p = None then 0 else 1)
   \<and> mset (snd (delete_xteds p)) = mset (xteds_ptr_blocks p)
   \<and> distinct (snd (delete_xteds p)) = distinct (xteds_ptr_blocks p)"
  using delete_xteds_code(1) xo.delete_frees mset_eq_imp_distinct_iff by blast

text \<open>For each of the thirteen kinds of node: merging the nodes of an attribute list and then
  deleting the element frees every block of those nodes, once each, whichever attributes repeat.\<close>

theorem attribute_lists_release:
  "releases_all [] merge_qualifiers delete_qualifier qualifier_type_ptr_blocks qualifier_type_attribute
   \<and> releases_all [] merge_coefs delete_coef coef_ptr_blocks coef_attribute
   \<and> releases_all None merge_curves delete_curve curve_ptr_blocks curve_attribute
   \<and> releases_all [] merge_options delete_option curveoption_ptr_blocks curveoption_attribute
   \<and> releases_all None merge_dranges delete_drange drange_ptr_blocks drange_attribute
   \<and> releases_all None merge_locations delete_location location_ptr_blocks location_attribute
   \<and> releases_all [] merge_orientations delete_orientation orientation_ptr_blocks orientation_attribute
   \<and> releases_all [] merge_variables_nodes delete_variable variable_ptr_blocks variable_attribute
   \<and> releases_all None merge_fault_msg delete_fault_msg fault_msg_ptr_blocks fault_msg_attribute
   \<and> releases_all [] merge_data_msg delete_data_msg data_msg_ptr_blocks data_msg_attribute
   \<and> releases_all [] merge_cmd_msg delete_cmd_msg cmd_msg_ptr_blocks cmd_msg_attribute
   \<and> releases_all None merge_message delete_message message_ptr_blocks message_attribute
   \<and> releases_all [] merge_interface delete_interface interface_ptr_blocks interface_attribute"
  by (intro conjI)
   (rule qm.element_releases, simp,
    rule com.element_releases, simp,
    rule cum.element_releases, simp,
    rule opm.element_releases, simp,
    rule drm.element_releases, simp,
    rule lom.element_releases, simp,
    rule orim.element_releases, simp,
    rule vm.element_releases, simp,
    rule fmm.element_releases, simp,
    rule dmm.element_releases, simp,
    rule cmdm.element_releases, simp,
    rule mm.element_releases, simp,
    rule im.element_releases, simp)

text \<open>A variable built from a list of attribute nodes has, for each of its attributes, the value
  of the first node in document order that has one; later values are dropped.\<close>

theorem variable_first_value_wins:
  "map (\<lambda>g. map g (fst (merge_all merge_variables_nodes [x] (map (\<lambda>y. [y]) ys)))) variable_attributes
   = map (\<lambda>g. [first_value g (x # ys)]) variable_attributes"
  using merge_all_variables_value [of _ x ys] by fastforce

text \<open>The memory the merges lose. \<^verbatim>\<open>merge_variables\<close> frees only the first node of the second
  variable's qualifiers when the first has qualifiers too: the strings of that node and all further
  nodes are neither owned nor freed afterwards. \<^verbatim>\<open>merge_xteds\<close> and \<^verbatim>\<open>merge_app_dev_attr\<close> lose every
  string that both operands have, contrary to the comment at the top of the file.\<close>

theorem merge_leaks:
  "mset (variable_ptr_blocks (fst (fst (merge_variables vr (x # xs) (y # ys)))))
     + mset (snd (fst (merge_variables vr (x # xs) (y # ys)))) + mset (variable_lost x y)
     = mset (variable_ptr_blocks (x # xs)) + mset (variable_blocks y)
   \<and> mset (xteds_ptr_blocks (fst (merge_xteds (Some t) (Some u)))) + mset (snd (merge_xteds (Some t) (Some u)))
     + mset (xteds_lost t u) = mset (xteds_blocks t) + mset (xteds_blocks u)
   \<and> mset (app_dev_attr_ptr_blocks (fst (merge_app_dev_attr (Some d) (Some e))))
     + mset (snd (merge_app_dev_attr (Some d) (Some e))) + mset (app_dev_attr_lost d e)
     = mset (app_dev_attr_blocks d) + mset (app_dev_attr_blocks e)"
  using merge_variables_balance merge_xteds_balance merge_app_dev_attr_balance
  by (simp add: merge_variables_def)

text \<open>\<^verbatim>\<open>interface_add_references\<close> passes NULL to \<^verbatim>\<open>strdup\<close> exactly when the interface has no name and
  one of its commands, notifications or requests has a fault message. With a name it returns the
  interface, and every variable, command, notification and request of it, with their messages, carries
  a copy of the interface's name and of its id, \<^verbatim>\<open>"0"\<close> when none was given.\<close>

theorem interface_references:
  "(interface_add_references h (x # xs) q v m = None
      \<longleftrightarrow> i_name x = None \<and> (case m of None \<Rightarrow> False | Some msg \<Rightarrow> has_fault msg))
   \<and> (i_name x = Some (b, nm) \<and> bare_interface x \<longrightarrow>
      (\<exists>r y. interface_add_references h (x # xs) q v m = Some r \<and> rr_interface r = y # xs
        \<and> referred_interface nm (id_text x) y \<and> text_of (i_name y) = Some nm
        \<and> text_of (i_id y) = Some (id_text x) \<and> i_qualifiers y = q))"
  using interface_references_None interface_references_carry by blast

theorem interface_references_witness:
  "\<exists>r y. interface_add_references 9 [nav_interface] [] (fst (new_variable 2)) nav_message = Some r
     \<and> rr_interface r = [y] \<and> referred_interface ''Nav'' ''0'' y"
  using conjunct2 [OF interface_references [of 9 nav_interface "[]" "[]" "fst (new_variable 2)" nav_message 1 "''Nav''"]]
  by (auto simp: nav_interface_def new_interface_def bare_interface_def id_text_def)

text \<open>Giving an interface its qualifiers, variables and messages loses no memory: deleting the
  returned interface frees, together with the wrapper node freed at once, every block of the parts
  and every copy made, each once.\<close>

theorem interface_references_release:
  assumes "interface_add_references h (x # xs) q v m = Some r"
    and "bare_interface x" "list_all fresh_variable v" "fresh_message m"
  shows "mset (rr_freed r @ snd (delete_interface (rr_interface r)))
     = mset (interface_ptr_blocks (x # xs) @ qualifier_type_ptr_blocks q @ variable_ptr_blocks v
         @ message_ptr_blocks m @ [h..<rr_heap r])"
  using interface_references_memory [OF assms] by (simp add: delete_interface_frees add.commute)

theorem interface_references_release_witness:
  "\<exists>r. interface_add_references 7 [nav_interface] [] (fst (new_variable 2)) nav_message = Some r
     \<and> mset (rr_freed r @ snd (delete_interface (rr_interface r))) = mset [0..<16]"
proof -
  have heap: "map_option rr_heap (interface_add_references 7 [nav_interface] [] (fst (new_variable 2)) nav_message)
      = Some 16"
    by code_simp
  then obtain r where r: "interface_add_references 7 [nav_interface] [] (fst (new_variable 2)) nav_message = Some r"
      "rr_heap r = 16"
    by auto
  have fresh: "bare_interface nav_interface" "list_all fresh_variable (fst (new_variable 2))"
      "fresh_message nav_message"
    by code_simp+
  have "mset (interface_ptr_blocks [nav_interface] @ qualifier_type_ptr_blocks []
      @ variable_ptr_blocks (fst (new_variable 2)) @ message_ptr_blocks nav_message @ [7..<16]) = mset [0..<16]"
    by code_simp
  then show ?thesis
    using interface_references_release [OF r(1) fresh] r by (simp del: mset_append)
qed

end
