(* ===== verification/Variable_Copy.thy ===== *)
theory Variable_Copy
  imports XTEDS_References
begin

text \<open>
  The deep copy of a parsed variable, \<^verbatim>\<open>common/VarInfoParser/Variable.c\<close>. \<^verbatim>\<open>parseVarInfo\<close> runs the
  generated parser (an argument), copies the variable it left and deletes the original.

  A copy allocates its node first, then the strings in the order of the assignments, then its parts.
  The lemmas show that the copy owns exactly the blocks allocated during the call and has the texts
  of the original in the members the code copies.
\<close>

section \<open>The copies\<close>

text \<open>\<^verbatim>\<open>if (p->f) Copy->f = strdup(p->f);\<close> for a sequence of members of a zeroed node.\<close>

primrec dup_strs :: "heap \<Rightarrow> str list \<Rightarrow> str list \<times> heap" where
  "dup_strs h [] = ([], h)"
| "dup_strs h (s # ss) = (let (t, h1) = dup_if h s None; (ts, h2) = dup_strs h1 ss in (t # ts, h2))"

primrec qualifierDeepCopy :: "heap \<Rightarrow> qualifier_type list \<Rightarrow> qualifier_type list \<times> heap" where
  "qualifierDeepCopy h [] = ([], h)"
| "qualifierDeepCopy h (p # next) =
     (let (s, h1) = dup_strs (h + 1)
            [q_name p, q_value p, q_units p];
          (rest, h2) = qualifierDeepCopy h1 next
      in (\<lparr>q_blk = h, q_name = s ! 0, q_value = s ! 1, q_units = s ! 2\<rparr> # rest, h2))"

primrec coefDeepCopy :: "heap \<Rightarrow> coef list \<Rightarrow> coef list \<times> heap" where
  "coefDeepCopy h [] = ([], h)"
| "coefDeepCopy h (p # next) =
     (let (s, h1) = dup_strs (h + 1)
            [co_exponent p, co_value p, co_description p];
          (rest, h2) = coefDeepCopy h1 next
      in (\<lparr>co_blk = h, co_exponent = s ! 0, co_value = s ! 1, co_description = s ! 2\<rparr> # rest, h2))"

definition curveDeepCopy :: "heap \<Rightarrow> curve option \<Rightarrow> curve option \<times> heap" where
  "curveDeepCopy h q = (case q of None \<Rightarrow> (None, h) | Some p \<Rightarrow>
     (let (s, h1) = dup_strs (h + 1)
            [cu_name p, cu_description p];
          (coefs, h2) = coefDeepCopy h1 (cu_coefs p)
      in (Some \<lparr>cu_blk = h, cu_name = s ! 0, cu_description = s ! 1, cu_coefs = coefs\<rparr>, h2)))"

primrec optionDeepCopy :: "heap \<Rightarrow> curveoption list \<Rightarrow> curveoption list \<times> heap" where
  "optionDeepCopy h [] = ([], h)"
| "optionDeepCopy h (p # next) =
     (let (s, h1) = dup_strs (h + 1)
            [op_name p, op_value p, op_description p, op_alarm p];
          (rest, h2) = optionDeepCopy h1 next
      in (\<lparr>op_blk = h, op_name = s ! 0, op_value = s ! 1, op_description = s ! 2,
           op_alarm = s ! 3\<rparr> # rest, h2))"

definition drangeDeepCopy :: "heap \<Rightarrow> drange option \<Rightarrow> drange option \<times> heap" where
  "drangeDeepCopy h q = (case q of None \<Rightarrow> (None, h) | Some p \<Rightarrow>
     (let (s, h1) = dup_strs (h + 1)
            [dr_name p, dr_description p];
          (options, h2) = optionDeepCopy h1 (dr_options p)
      in (Some \<lparr>dr_blk = h, dr_name = s ! 0, dr_description = s ! 1, dr_options = options\<rparr>, h2)))"

primrec variableDeepCopy :: "heap \<Rightarrow> variable list \<Rightarrow> variable list \<times> heap" where
  "variableDeepCopy h [] = ([], h)"
| "variableDeepCopy h (p # next) =
     (let (s, h1) = dup_strs (h + 1)
            [v_length p, v_kind p, v_name p, v_qualifier p, v_id p,
             v_range_min p, v_range_max p, v_default_value p, v_precision p, v_units p,
             v_accuracy p, v_scale_factor p, v_scale_units p, v_format p, v_description p,
             v_interface_name p, v_interface_id p];
          (qualifiers, h2) = qualifierDeepCopy h1 (v_qualifiers p);
          (curves, h3) = curveDeepCopy h2 (v_curves p);
          (dranges, h4) = drangeDeepCopy h3 (v_dranges p);
          (rest, h5) = variableDeepCopy h4 next
      in (\<lparr>v_blk = h, v_length = s ! 0, v_kind = s ! 1, v_name = s ! 2,
           v_qualifier = s ! 3, v_id = s ! 4, v_range_min = s ! 5, v_range_max = s ! 6,
           v_default_value = s ! 7, v_precision = s ! 8, v_units = s ! 9, v_accuracy = s ! 10,
           v_scale_factor = s ! 11, v_scale_units = s ! 12, v_format = s ! 13, v_description = s ! 14,
           v_interface_name = s ! 15, v_interface_id = s ! 16, v_r_low = None, v_r_high = None,
           v_y_low = None, v_y_high = None, v_invalid_value = None, v_qualifiers = qualifiers,
           v_curves = curves, v_dranges = dranges, v_location_data = None, v_orientation_data = []\<rparr> # rest, h5))"

text \<open>The parser leaves its variable in the global \<^verbatim>\<open>var_result\<close>, read by \<^verbatim>\<open>getParsedVariable\<close>.\<close>

definition parseVarInfo ::
    "(string \<Rightarrow> int \<times> variable list) \<Rightarrow> heap \<Rightarrow> string \<Rightarrow> variable list \<times> heap \<times> blk list" where
  "parseVarInfo VarInfoParserparse h var_info =
     (let (parseResult, parsed) = VarInfoParserparse var_info
      in if parseResult = 0
         then (let (Copy, h') = variableDeepCopy h parsed in (Copy, h', snd (delete_variable parsed)))
         else ([], h, []))"

section \<open>What a copy owns and holds\<close>

definition qualifier_type_content where
  "qualifier_type_content x = (map text_of [q_name x, q_value x, q_units x])"

definition coef_content where
  "coef_content x = (map text_of [co_exponent x, co_value x, co_description x])"

definition curve_content where
  "curve_content x = (map text_of [cu_name x, cu_description x],
     map coef_content (cu_coefs x))"

definition curveoption_content where
  "curveoption_content x = (map text_of [op_name x, op_value x, op_description x, op_alarm x])"

definition drange_content where
  "drange_content x = (map text_of [dr_name x, dr_description x],
     map curveoption_content (dr_options x))"

definition variable_content where
  "variable_content x = (map text_of [v_length x, v_kind x, v_name x, v_qualifier x, v_id x,
      v_range_min x, v_range_max x, v_default_value x, v_precision x, v_units x,
      v_accuracy x, v_scale_factor x, v_scale_units x, v_format x, v_description x,
      v_interface_name x, v_interface_id x],
     map qualifier_type_content (v_qualifiers x),
     map_option curve_content (v_curves x),
     map_option drange_content (v_dranges x))"

lemma dup_strs_alloc: "dup_strs h ss = (ts, h') \<Longrightarrow> allocated h h' (mset (concat (map str_blocks ts)))"
proof (induction ss arbitrary: h ts)
  case Nil
  then show ?case by (auto intro: allocated_none)
next
  case (Cons s ss)
  obtain t h1 us where e: "dup_if h s None = (t, h1)" "dup_strs h1 ss = (us, h')" "ts = t # us"
    using Cons.prems by (auto split: prod.splits)
  show ?case using allocated_add [OF dup_if_alloc [OF e(1)] Cons.IH [OF e(2)]] by (simp add: e(3))
qed

lemma dup_strs_length: "dup_strs h ss = (ts, h') \<Longrightarrow> length ts = length ss"
  by (induction ss arbitrary: h ts) (auto split: prod.splits)

lemma dup_if_text_of: "dup_if h s None = (t, h') \<Longrightarrow> text_of t = text_of s"
  by (auto simp: dup_if_def strdup_def text_of_def split: option.splits)

lemma dup_strs_text: "dup_strs h ss = (ts, h') \<Longrightarrow> map text_of ts = map text_of ss"
  by (induction ss arbitrary: h ts) (auto split: prod.splits dest: dup_if_text_of)

lemma allocated_one: "allocated h (Suc h) {#h#}"
  by (simp add: allocated_def)

declare dup_strs.simps [simp del]

lemma list_nth2: "length s = 2 \<Longrightarrow> s = [s ! 0, s ! 1]"
  by (rule nth_equalityI) (auto simp: less_Suc_eq numeral_eq_Suc)

lemma list_nth3: "length s = 3 \<Longrightarrow> s = [s ! 0, s ! 1, s ! 2]"
  by (rule nth_equalityI) (auto simp: less_Suc_eq numeral_eq_Suc)

lemma list_nth4: "length s = 4 \<Longrightarrow> s = [s ! 0, s ! 1, s ! 2, s ! 3]"
  by (rule nth_equalityI) (auto simp: less_Suc_eq numeral_eq_Suc)

lemma list_nth17: "length s = 17 \<Longrightarrow> s = [s ! 0, s ! 1, s ! 2, s ! 3, s ! 4, s ! 5, s ! 6, s ! 7, s ! 8, s ! 9, s ! 10, s ! 11, s ! 12, s ! 13, s ! 14, s ! 15, s ! 16]"
  by (rule nth_equalityI) (auto simp: less_Suc_eq numeral_eq_Suc)

lemma qualifierDeepCopy_ok:
  "qualifierDeepCopy h p = (q, h') \<Longrightarrow> allocated h h' (mset (qualifier_type_ptr_blocks q)) \<and> map qualifier_type_content q = map qualifier_type_content p"
proof (induction p arbitrary: h q h')
  case Nil
  then show ?case by (auto intro: allocated_none)
next
  case (Cons x xs)
  obtain s h1 rest h2 where e: "dup_strs (Suc h)
        [q_name x, q_value x, q_units x] = (s, h1)"
      "qualifierDeepCopy h1 xs = (rest, h2)"
    by (metis surj_pair)
  obtain a0 a1 a2 where s: "s = [a0, a1, a2]"
    using list_nth3 [of s] dup_strs_length [OF e(1)] by auto
  show ?case
    using allocated_add [OF allocated_add [OF allocated_one dup_strs_alloc [OF e(1)]]
      conjunct1 [OF Cons.IH [OF e(2)]]]
      dup_strs_text [OF e(1)] conjunct2 [OF Cons.IH [OF e(2)]] Cons.prems
    by (auto simp: e s qualifier_type_ptr_blocks_def qualifier_type_blocks_def qualifier_type_content_def ac_simps)
qed

lemma coefDeepCopy_ok:
  "coefDeepCopy h p = (q, h') \<Longrightarrow> allocated h h' (mset (coef_ptr_blocks q)) \<and> map coef_content q = map coef_content p"
proof (induction p arbitrary: h q h')
  case Nil
  then show ?case by (auto intro: allocated_none)
next
  case (Cons x xs)
  obtain s h1 rest h2 where e: "dup_strs (Suc h)
        [co_exponent x, co_value x, co_description x] = (s, h1)"
      "coefDeepCopy h1 xs = (rest, h2)"
    by (metis surj_pair)
  obtain a0 a1 a2 where s: "s = [a0, a1, a2]"
    using list_nth3 [of s] dup_strs_length [OF e(1)] by auto
  show ?case
    using allocated_add [OF allocated_add [OF allocated_one dup_strs_alloc [OF e(1)]]
      conjunct1 [OF Cons.IH [OF e(2)]]]
      dup_strs_text [OF e(1)] conjunct2 [OF Cons.IH [OF e(2)]] Cons.prems
    by (auto simp: e s coef_ptr_blocks_def coef_blocks_def coef_content_def ac_simps)
qed

lemma curveDeepCopy_ok:
  assumes "curveDeepCopy h p = (q, h')"
  shows "allocated h h' (mset (curve_ptr_blocks q)) \<and> map_option curve_content q = map_option curve_content p"
proof (cases p)
  case None
  with assms show ?thesis by (auto simp: curveDeepCopy_def intro: allocated_none)
next
  case (Some x)
  obtain s h1 coefs h2 where e: "dup_strs (Suc h)
        [cu_name x, cu_description x] = (s, h1)"
      "coefDeepCopy h1 (cu_coefs x) = (coefs, h2)"
    by (metis surj_pair)
  obtain a0 a1 where s: "s = [a0, a1]"
    using list_nth2 [of s] dup_strs_length [OF e(1)] by auto
  show ?thesis
    using allocated_add [OF allocated_add [OF allocated_one dup_strs_alloc [OF e(1)]]
      conjunct1 [OF coefDeepCopy_ok [OF e(2)]]]
      dup_strs_text [OF e(1)] conjunct2 [OF coefDeepCopy_ok [OF e(2)]] assms Some
    by (clarsimp simp: e s curve_ptr_blocks_def curve_blocks_def curve_content_def curveDeepCopy_def add.commute add.left_commute add.assoc)
qed

lemma optionDeepCopy_ok:
  "optionDeepCopy h p = (q, h') \<Longrightarrow> allocated h h' (mset (curveoption_ptr_blocks q)) \<and> map curveoption_content q = map curveoption_content p"
proof (induction p arbitrary: h q h')
  case Nil
  then show ?case by (auto intro: allocated_none)
next
  case (Cons x xs)
  obtain s h1 rest h2 where e: "dup_strs (Suc h)
        [op_name x, op_value x, op_description x, op_alarm x] = (s, h1)"
      "optionDeepCopy h1 xs = (rest, h2)"
    by (metis surj_pair)
  obtain a0 a1 a2 a3 where s: "s = [a0, a1, a2, a3]"
    using list_nth4 [of s] dup_strs_length [OF e(1)] by auto
  show ?case
    using allocated_add [OF allocated_add [OF allocated_one dup_strs_alloc [OF e(1)]]
      conjunct1 [OF Cons.IH [OF e(2)]]]
      dup_strs_text [OF e(1)] conjunct2 [OF Cons.IH [OF e(2)]] Cons.prems
    by (auto simp: e s curveoption_ptr_blocks_def curveoption_blocks_def curveoption_content_def ac_simps)
qed

lemma drangeDeepCopy_ok:
  assumes "drangeDeepCopy h p = (q, h')"
  shows "allocated h h' (mset (drange_ptr_blocks q)) \<and> map_option drange_content q = map_option drange_content p"
proof (cases p)
  case None
  with assms show ?thesis by (auto simp: drangeDeepCopy_def intro: allocated_none)
next
  case (Some x)
  obtain s h1 options h2 where e: "dup_strs (Suc h)
        [dr_name x, dr_description x] = (s, h1)"
      "optionDeepCopy h1 (dr_options x) = (options, h2)"
    by (metis surj_pair)
  obtain a0 a1 where s: "s = [a0, a1]"
    using list_nth2 [of s] dup_strs_length [OF e(1)] by auto
  show ?thesis
    using allocated_add [OF allocated_add [OF allocated_one dup_strs_alloc [OF e(1)]]
      conjunct1 [OF optionDeepCopy_ok [OF e(2)]]]
      dup_strs_text [OF e(1)] conjunct2 [OF optionDeepCopy_ok [OF e(2)]] assms Some
    by (clarsimp simp: e s drange_ptr_blocks_def drange_blocks_def drange_content_def drangeDeepCopy_def add.commute add.left_commute add.assoc)
qed

lemma variableDeepCopy_ok:
  "variableDeepCopy h p = (q, h') \<Longrightarrow> allocated h h' (mset (variable_ptr_blocks q)) \<and> map variable_content q = map variable_content p"
proof (induction p arbitrary: h q h')
  case Nil
  then show ?case by (auto intro: allocated_none)
next
  case (Cons x xs)
  obtain s h1 qualifiers h2 curves h3 dranges h4 rest h5 where e: "dup_strs (Suc h)
        [v_length x, v_kind x, v_name x, v_qualifier x, v_id x,
         v_range_min x, v_range_max x, v_default_value x, v_precision x, v_units x,
         v_accuracy x, v_scale_factor x, v_scale_units x, v_format x, v_description x,
         v_interface_name x, v_interface_id x] = (s, h1)"
      "qualifierDeepCopy h1 (v_qualifiers x) = (qualifiers, h2)"
      "curveDeepCopy h2 (v_curves x) = (curves, h3)"
      "drangeDeepCopy h3 (v_dranges x) = (dranges, h4)"
      "variableDeepCopy h4 xs = (rest, h5)"
    by (metis surj_pair)
  obtain a0 a1 a2 a3 a4 a5 a6 a7 a8 a9 a10 a11 a12 a13 a14 a15 a16 where s: "s = [a0, a1, a2, a3, a4, a5, a6, a7, a8, a9, a10, a11, a12, a13, a14, a15, a16]"
    using list_nth17 [of s] dup_strs_length [OF e(1)] by auto
  show ?case
    using allocated_add [OF allocated_add [OF allocated_add [OF allocated_add [OF allocated_add [OF allocated_one dup_strs_alloc [OF e(1)]]
      conjunct1 [OF qualifierDeepCopy_ok [OF e(2)]]]
      conjunct1 [OF curveDeepCopy_ok [OF e(3)]]]
      conjunct1 [OF drangeDeepCopy_ok [OF e(4)]]]
      conjunct1 [OF Cons.IH [OF e(5)]]]
      dup_strs_text [OF e(1)] conjunct2 [OF qualifierDeepCopy_ok [OF e(2)]] conjunct2 [OF curveDeepCopy_ok [OF e(3)]] conjunct2 [OF drangeDeepCopy_ok [OF e(4)]] conjunct2 [OF Cons.IH [OF e(5)]] Cons.prems
    by (auto simp: e s variable_ptr_blocks_def variable_blocks_def variable_content_def ac_simps)
qed

text \<open>The members the copy leaves at NULL although the parser fills them.\<close>

definition lacks_limits :: "variable \<Rightarrow> bool" where
  "lacks_limits v = (v_r_low v = None \<and> v_r_high v = None \<and> v_y_low v = None \<and> v_y_high v = None
     \<and> v_invalid_value v = None \<and> v_location_data v = None \<and> v_orientation_data v = [])"

lemma variableDeepCopy_lacks: "list_all lacks_limits (fst (variableDeepCopy h p))"
  by (induction p arbitrary: h) (simp_all add: lacks_limits_def case_prod_beta Let_def)

text \<open>C28. When the parser accepts the text, \<^verbatim>\<open>parseVarInfo\<close> returns a copy that owns exactly the blocks
  it allocated, so none of the parsed variable's, and has its texts in all members the code copies,
  qualifiers, curves and ranges included; every block of the parsed variable is freed. The red and
  yellow limits, the invalid value, the location and the orientation are missing from the copy.\<close>

theorem parseVarInfo_copies:
  assumes "VarInfoParserparse var_info = (0, parsed)"
  shows "\<exists>Copy h' freed. parseVarInfo VarInfoParserparse h var_info = (Copy, h', freed)
     \<and> mset (variable_ptr_blocks Copy) = mset [h..<h'] \<and> h \<le> h'
     \<and> map variable_content Copy = map variable_content parsed
     \<and> mset freed = mset (variable_ptr_blocks parsed) \<and> list_all lacks_limits Copy"
  using assms variableDeepCopy_ok [of h parsed "fst (variableDeepCopy h parsed)" "snd (variableDeepCopy h parsed)"]
    variableDeepCopy_lacks [of h parsed]
  by (simp add: parseVarInfo_def case_prod_beta allocated_def delete_variable_frees)

theorem parseVarInfo_copies_witness:
  "\<exists>Copy h' freed. parseVarInfo (\<lambda>_. (0, fst (new_variable 0))) 1 ''var'' = (Copy, h', freed)
     \<and> map variable_content Copy = map variable_content (fst (new_variable 0)) \<and> list_all lacks_limits Copy"
  using parseVarInfo_copies [of "\<lambda>_. (0, fst (new_variable 0))" "''var''" "fst (new_variable 0)" 1] by auto

end
