(* ===== verification/Var_Tree.thy ===== *)
theory Var_Tree
  imports XTEDS_References "HOL-Library.Word"
begin

text \<open>
  The parsed message definition of the message manipulator,
  \<^verbatim>\<open>common/MessageManipulator/message.c\<close> and \<^verbatim>\<open>message.h\<close>: a message of up to three nodes (command,
  data, fault), each with a binary search tree of its variables ordered by \<^verbatim>\<open>strcmp\<close> on the name.

  Strings and nodes are blocks as in the xTEDS tree; an operation returns \<^term>\<open>None\<close> where the code
  dereferences NULL or passes it to \<^verbatim>\<open>strcmp\<close>. A \<^verbatim>\<open>float\<close> or \<^verbatim>\<open>double\<close> is its IEEE 754 bit pattern and
  the conversions the compiler inserts are written out.

  The locale \<open>first_match_index\<close> is what the manipulator relies on: looking a name up finds the first
  variable added under it. It is interpreted on \<open>find\<close> and \<open>addVar\<close>.
\<close>

unbundle bit_operations_syntax

section \<open>Conversions between the number types\<close>

fun ilog :: "nat \<Rightarrow> nat" where
  "ilog n = (if n < 2 then 0 else Suc (ilog (n div 2)))"

declare ilog.simps [simp del]

definition round_half_even :: "nat \<Rightarrow> nat \<Rightarrow> nat" where
  "round_half_even a d = (let q = a div d; r = a mod d in if 2 * r > d \<or> 2 * r = d \<and> odd q then q + 1 else q)"

text \<open>An integer as a floating point number with \<open>mb\<close> mantissa bits and exponent bias \<open>bias\<close>, rounded to
  nearest, ties to even; a carry out of the mantissa moves into the exponent.\<close>

definition ieee_of_int :: "nat \<Rightarrow> nat \<Rightarrow> nat \<Rightarrow> int \<Rightarrow> nat" where
  "ieee_of_int width mb bias i = (if i = 0 then 0 else
     (let m = nat \<bar>i\<bar>; e = ilog m;
          s = (if e \<le> mb then m * 2 ^ (mb - e) else round_half_even m (2 ^ (e - mb)))
      in (if i < 0 then 2 ^ (width - 1) else 0) + (e + bias) * 2 ^ mb + (s - 2 ^ mb)))"

definition float_of_int :: "int \<Rightarrow> 32 word" where
  "float_of_int i = of_nat (ieee_of_int 32 23 127 i)"

definition double_of_int :: "int \<Rightarrow> 64 word" where
  "double_of_int i = of_nat (ieee_of_int 64 52 1023 i)"

definition double_of_float :: "32 word \<Rightarrow> 64 word" where
  "double_of_float w =
     (let n = unat w; s = n div 2 ^ 31; e = (n div 2 ^ 23) mod 2 ^ 8; f = n mod 2 ^ 23; k = ilog f
      in of_nat (s * 2 ^ 63 +
        (if e = 255 then 2047 * 2 ^ 52 + (if f = 0 then 0 else (f * 2 ^ 29) mod 2 ^ 51 + 2 ^ 51)
         else if e = 0 then (if f = 0 then 0 else (k + 874) * 2 ^ 52 + (f - 2 ^ k) * 2 ^ (52 - k))
         else (e + 896) * 2 ^ 52 + f * 2 ^ 29)))"

section \<open>Data\<close>

datatype value_type = EMPTY_T | UINT08 | INT08 | UINT16 | INT16 | UINT32 | INT32 | FLOAT32 | FLOAT64

text \<open>The union holds the member last written; \<open>V_zero\<close> is the zeroed union. \<^verbatim>\<open>uint32\<close> and \<^verbatim>\<open>int32\<close> are
  declared \<^verbatim>\<open>long\<close>; the values stored are 32 bit ones.\<close>

datatype val = V_zero | V_uint08 "8 word" | V_int08 "8 word" | V_uint16 "16 word" | V_int16 "16 word"
  | V_uint32 "32 word" | V_int32 "32 word" | V_float32 "32 word" | V_float64 "64 word"

record value_t =
  val_type :: value_type
  val_value :: val

record var =
  var_blk :: blk
  var_name :: str
  var_start :: int
  var_length :: int
  var_type :: value_type
  var_scale_factor :: "32 word"
  var_invalid_data :: value_t

datatype var_tree = NULL_var | Var var var_tree var_tree

datatype msg_type = COMMANDMSG | DATAMSG | FAULTMSG

record nodeData =
  nd_blk :: blk
  nd_name :: str
  nd_type :: msg_type
  nd_length :: int
  nd_countmax :: int
  nd_id :: int
  nd_ratemax :: "32 word"
  nd_list :: var_tree

datatype wrapper_type = EMPTY | COMMAND | NOTIFICATION | REQUEST

record msg =
  msg_type :: wrapper_type
  msg_command :: "nodeData option"
  msg_data :: "nodeData option"
  msg_fault :: "nodeData option"

section \<open>Operations\<close>

text \<open>\<^verbatim>\<open>strcmp\<close> on the characters before the terminator; only the sign of the result is fixed by the
  standard.\<close>

fun strcmp :: "string \<Rightarrow> string \<Rightarrow> int" where
  "strcmp [] [] = 0"
| "strcmp [] (_ # _) = -1"
| "strcmp (_ # _) [] = 1"
| "strcmp (x # xs) (y # ys) =
     (if (of_char x :: nat) < of_char y then -1 else if (of_char y :: nat) < of_char x then 1 else strcmp xs ys)"

definition setLength :: "nodeData \<Rightarrow> int \<Rightarrow> nodeData" where
  "setLength node l = node\<lparr>nd_length := l\<rparr>"

definition setName :: "nodeData \<Rightarrow> str \<Rightarrow> nodeData" where
  "setName node n = node\<lparr>nd_name := n\<rparr>"

fun find :: "string option \<Rightarrow> var_tree \<Rightarrow> var_tree option" where
  "find name NULL_var = Some NULL_var"
| "find None (Var v left right) = Some NULL_var"
| "find (Some name) (Var v left right) = (case var_name v of None \<Rightarrow> None | Some (_, k) \<Rightarrow>
     if strcmp name k = 0 then Some (Var v left right)
     else if strcmp name k < 0 then find (Some name) left
     else find (Some name) right)"

fun addVar :: "var_tree \<Rightarrow> var_tree \<Rightarrow> var_tree option" where
  "addVar root NULL_var = Some root"
| "addVar NULL_var new_var = Some new_var"
| "addVar (Var v left right) (Var n l r) =
     (case var_name n of None \<Rightarrow> None | Some (_, new_name) \<Rightarrow>
     (case var_name v of None \<Rightarrow> None | Some (_, root_name) \<Rightarrow>
       if strcmp new_name root_name < 0
       then map_option (\<lambda>t. Var v t right) (addVar left (Var n l r))
       else map_option (\<lambda>t. Var v left t) (addVar right (Var n l r))))"

definition type_of_name :: "string \<Rightarrow> value_type" where
  "type_of_name s =
     (if strcmp s ''UINT08'' = 0 then UINT08
      else if strcmp s ''INT08'' = 0 then INT08
      else if strcmp s ''UINT16'' = 0 then UINT16
      else if strcmp s ''INT16'' = 0 then INT16
      else if strcmp s ''UINT32'' = 0 then UINT32
      else if strcmp s ''INT32'' = 0 then INT32
      else if strcmp s ''FLOAT32'' = 0 then FLOAT32
      else if strcmp s ''FLOAT64'' = 0 then FLOAT64
      else EMPTY_T)"

text \<open>A new variable with the heap counter, the blocks freed and the blocks read after that. \<^verbatim>\<open>newVar\<close>
  frees the type string it is given.\<close>

record new_var =
  nv_var :: var
  nv_heap :: heap
  nv_freed :: "blk list"
  nv_reads :: "blk list"

definition newVar :: "heap \<Rightarrow> str \<Rightarrow> int \<Rightarrow> int \<Rightarrow> str \<Rightarrow> 32 word \<Rightarrow> new_var option" where
  "newVar h p_Name p_Start p_Length p_Type p_ScaleFactor =
     (case p_Type of None \<Rightarrow> None | Some (b, t) \<Rightarrow>
       Some \<lparr>nv_var = \<lparr>var_blk = h, var_name = p_Name, var_start = p_Start, var_length = p_Length,
                var_type = type_of_name t, var_scale_factor = p_ScaleFactor,
                var_invalid_data = \<lparr>val_type = EMPTY_T, val_value = V_zero\<rparr>\<rparr>,
             nv_heap = h + 1, nv_freed = [b], nv_reads = []\<rparr>)"

definition invalid_of_int :: "value_type \<Rightarrow> int \<Rightarrow> val \<Rightarrow> val" where
  "invalid_of_int ty i old = (case ty of
     UINT08 \<Rightarrow> V_uint08 (of_int i) | INT08 \<Rightarrow> V_int08 (of_int i)
   | UINT16 \<Rightarrow> V_uint16 (of_int i) | INT16 \<Rightarrow> V_int16 (of_int i)
   | UINT32 \<Rightarrow> V_uint32 (of_int i) | INT32 \<Rightarrow> V_int32 (of_int i)
   | FLOAT32 \<Rightarrow> V_float32 (float_of_int i) | FLOAT64 \<Rightarrow> V_float64 (double_of_int i)
   | EMPTY_T \<Rightarrow> old)"

definition newVarInvalidIsInt ::
    "heap \<Rightarrow> str \<Rightarrow> int \<Rightarrow> int \<Rightarrow> str \<Rightarrow> 32 word \<Rightarrow> int \<Rightarrow> new_var option" where
  "newVarInvalidIsInt h p_Name p_Start p_Length p_Type p_ScaleFactor p_InvalidValue =
     map_option (\<lambda>r. let v = nv_var r in r\<lparr>nv_var := v\<lparr>var_invalid_data :=
         \<lparr>val_type = var_type v,
          val_value = invalid_of_int (var_type v) p_InvalidValue (val_value (var_invalid_data v))\<rparr>\<rparr>\<rparr>)
       (newVar h p_Name p_Start p_Length p_Type p_ScaleFactor)"

text \<open>The warning of the default branch prints \<^verbatim>\<open>p_Name\<close> and \<^verbatim>\<open>p_Type\<close>.\<close>

definition newVarInvalidIsFloat ::
    "heap \<Rightarrow> str \<Rightarrow> int \<Rightarrow> int \<Rightarrow> str \<Rightarrow> 32 word \<Rightarrow> 32 word \<Rightarrow> new_var option" where
  "newVarInvalidIsFloat h p_Name p_Start p_Length p_Type p_ScaleFactor p_InvalidValue =
     map_option (\<lambda>r. let v = nv_var r; old = val_value (var_invalid_data v); ty = var_type v in
       (case ty of
          FLOAT32 \<Rightarrow> r\<lparr>nv_var := v\<lparr>var_invalid_data := \<lparr>val_type = ty, val_value = V_float32 p_InvalidValue\<rparr>\<rparr>\<rparr>
        | FLOAT64 \<Rightarrow> r\<lparr>nv_var := v\<lparr>var_invalid_data :=
              \<lparr>val_type = ty, val_value = V_float64 (double_of_float p_InvalidValue)\<rparr>\<rparr>\<rparr>
        | _ \<Rightarrow> r\<lparr>nv_var := v\<lparr>var_invalid_data := \<lparr>val_type = ty, val_value = old\<rparr>\<rparr>,
                nv_reads := str_blocks p_Name @ str_blocks p_Type\<rparr>))
       (newVar h p_Name p_Start p_Length p_Type p_ScaleFactor)"

definition newNode :: "heap \<Rightarrow> str \<Rightarrow> msg_type \<Rightarrow> int \<Rightarrow> int \<Rightarrow> var_tree \<Rightarrow> nodeData \<times> heap" where
  "newNode h name type len ident list =
     (let temp = \<lparr>nd_blk = h, nd_name = None, nd_type = COMMANDMSG, nd_length = 0, nd_countmax = 0,
                  nd_id = 0, nd_ratemax = 0, nd_list = NULL_var\<rparr>;
          temp = setName temp name;
          temp = temp\<lparr>nd_type := type\<rparr>;
          temp = setLength temp len
      in (temp\<lparr>nd_id := ident, nd_list := list\<rparr>, h + 1))"

text \<open>The name of a node is freed before its subtrees, the node last.\<close>

primrec deleteVarTree :: "var_tree \<Rightarrow> int \<times> blk list" where
  "deleteVarTree NULL_var = (0, [])"
| "deleteVarTree (Var v left right) =
     (1, str_blocks (var_name v) @ snd (deleteVarTree left) @ snd (deleteVarTree right) @ [var_blk v])"

definition deleteNode :: "nodeData option \<Rightarrow> blk list" where
  "deleteNode n = (case n of None \<Rightarrow> [] | Some x \<Rightarrow>
     str_blocks (nd_name x) @ snd (deleteVarTree (nd_list x)) @ [nd_blk x])"

definition deleteMessage :: "msg option \<Rightarrow> msg option \<times> blk list" where
  "deleteMessage Msg = (case Msg of None \<Rightarrow> (None, []) | Some m \<Rightarrow>
     (Some (m\<lparr>msg_command := None, msg_data := None, msg_fault := None\<rparr>),
      deleteNode (msg_command m) @ deleteNode (msg_data m) @ deleteNode (msg_fault m)))"

definition setMessage ::
    "msg option \<Rightarrow> nodeData option \<Rightarrow> nodeData option \<Rightarrow> nodeData option \<Rightarrow> (msg \<times> blk list) option" where
  "setMessage Message command data fault =
     (let (Msg, freed) = deleteMessage Message
      in map_option (\<lambda>m.
           let m = m\<lparr>msg_command := command, msg_data := data, msg_fault := fault\<rparr>
           in (m\<lparr>msg_type := (if msg_data m = None then COMMAND
                             else if msg_command m = None then NOTIFICATION else REQUEST)\<rparr>, freed)) Msg)"

text \<open>\<^verbatim>\<open>parse\<close> points the global \<^verbatim>\<open>Message\<close> to its argument and runs the generated parser on it.\<close>

definition parse :: "(string \<Rightarrow> msg option \<Rightarrow> int \<times> msg option) \<Rightarrow> string \<Rightarrow> msg option \<Rightarrow> msg option" where
  "parse MessageManipulatorparse msg_def msg_ptr =
     (let (parseResult, Message) = MessageManipulatorparse msg_def msg_ptr
      in if parseResult = 0 then Message else None)"

text \<open>\<^verbatim>\<open>printMsg\<close>: the lines it prints, a node line with the arguments of its format.\<close>

datatype line = Type_line string | Node_line string str int int

definition node_line :: "string \<Rightarrow> nodeData \<Rightarrow> line" where
  "node_line kind n = Node_line kind (nd_name n) (nd_id n) (nd_length n)"

definition printMsg :: "msg \<Rightarrow> line list option" where
  "printMsg m = (case msg_type m of
     EMPTY \<Rightarrow> Some [Type_line ''Message Def has not been parsed yet!'']
   | ty \<Rightarrow> (let first = Type_line (if ty = NOTIFICATION then ''NOTIFICATION'' else ''COMMAND'');
               c = (case msg_command m of None \<Rightarrow> [] | Some n \<Rightarrow> [node_line ''CommandMsg'' n]);
               d = (case msg_data m of None \<Rightarrow> [] | Some n \<Rightarrow> [node_line ''DataMsg'' n])
            in if msg_command m = None then Some (first # c @ d)
               else map_option (\<lambda>n. first # c @ d @ [node_line ''FaultMsg'' n]) (msg_fault m)))"

primrec PrintVar :: "var_tree \<Rightarrow> (str \<times> value_type \<times> int \<times> int) list" where
  "PrintVar NULL_var = []"
| "PrintVar (Var v left right) =
     (var_name v, var_type v, var_start v, var_length v) # PrintVar left @ PrintVar right"

section \<open>Order of names\<close>

lemma strcmp_eq_0 [simp]: "strcmp a b = 0 \<longleftrightarrow> a = b"
  by (induction a b rule: strcmp.induct) (auto simp: not_less_iff_gr_or_eq)

section \<open>The tree as an index\<close>

definition key :: "var \<Rightarrow> string" where
  "key v = (case var_name v of None \<Rightarrow> [] | Some (_, k) \<Rightarrow> k)"

definition named :: "var \<Rightarrow> bool" where
  "named v = (var_name v \<noteq> None)"

primrec tree_vars :: "var_tree \<Rightarrow> var list" where
  "tree_vars NULL_var = []"
| "tree_vars (Var v left right) = tree_vars left @ v # tree_vars right"

text \<open>The invariant: every variable has a name, smaller names are on the left, others on the right.\<close>

primrec ordered :: "var_tree \<Rightarrow> bool" where
  "ordered NULL_var = True"
| "ordered (Var v left right) = (named v \<and> ordered left \<and> ordered right
     \<and> (\<forall>u\<in>set (tree_vars left). strcmp (key u) (key v) < 0)
     \<and> (\<forall>u\<in>set (tree_vars right). \<not> strcmp (key u) (key v) < 0))"

primrec root_var :: "var_tree \<Rightarrow> var option" where
  "root_var NULL_var = None"
| "root_var (Var v left right) = Some v"

definition leaf :: "var \<Rightarrow> var_tree" where
  "leaf v = Var v NULL_var NULL_var"

definition add_leaf :: "var_tree \<Rightarrow> var \<Rightarrow> var_tree" where
  "add_leaf t v = (case addVar t (leaf v) of None \<Rightarrow> t | Some t' \<Rightarrow> t')"

definition lookup :: "string \<Rightarrow> var_tree \<Rightarrow> var option" where
  "lookup n t = (case find (Some n) t of None \<Rightarrow> None | Some s \<Rightarrow> root_var s)"

lemma named_name: "named v \<Longrightarrow> \<exists>b. var_name v = Some (b, key v)"
  by (auto simp: named_def key_def)

lemma lookup_simps:
  "lookup n NULL_var = None"
  "named u \<Longrightarrow> lookup n (Var u left right) =
     (if n = key u then Some u else if strcmp n (key u) < 0 then lookup n left else lookup n right)"
  by (auto simp: lookup_def dest: named_name)

lemma addVar_leaf_total: "ordered t \<Longrightarrow> named v \<Longrightarrow> \<exists>t'. addVar t (leaf v) = Some t'"
  by (induction t) (auto simp: leaf_def dest!: named_name)

lemma add_leaf_simps:
  "add_leaf NULL_var v = leaf v"
  "ordered (Var u left right) \<Longrightarrow> named v \<Longrightarrow> add_leaf (Var u left right) v =
     (if strcmp (key v) (key u) < 0 then Var u (add_leaf left v) right else Var u left (add_leaf right v))"
proof -
  show "add_leaf NULL_var v = leaf v" by (simp add: add_leaf_def leaf_def)
  assume o: "ordered (Var u left right)" "named v"
  obtain b c where k: "var_name v = Some (b, key v)" "var_name u = Some (c, key u)"
    using o named_name [of u] named_name [of v] by auto
  obtain l r where "addVar left (leaf v) = Some l" "addVar right (leaf v) = Some r"
    using addVar_leaf_total o by (metis ordered.simps(2))
  then show "add_leaf (Var u left right) v =
     (if strcmp (key v) (key u) < 0 then Var u (add_leaf left v) right else Var u left (add_leaf right v))"
    using k by (simp add: add_leaf_def leaf_def)
qed

lemma add_leaf_vars: "ordered t \<Longrightarrow> named v \<Longrightarrow> mset (tree_vars (add_leaf t v)) = add_mset v (mset (tree_vars t))"
  by (induction t) (simp_all add: add_leaf_simps leaf_def)

lemma add_leaf_set: "ordered t \<Longrightarrow> named v \<Longrightarrow> set (tree_vars (add_leaf t v)) = insert v (set (tree_vars t))"
  using arg_cong [OF add_leaf_vars, of t v set_mset] by simp

lemma add_leaf_ordered: "ordered t \<Longrightarrow> named v \<Longrightarrow> ordered (add_leaf t v)"
  by (induction t) (auto simp: add_leaf_simps leaf_def add_leaf_set simp del: not_less)

lemma lookup_add_leaf:
  "ordered t \<Longrightarrow> named v \<Longrightarrow>
   lookup n (add_leaf t v) = (case lookup n t of None \<Rightarrow> if key v = n then Some v else None | Some u \<Rightarrow> Some u)"
  by (induction t) (auto simp: add_leaf_simps lookup_simps leaf_def split: option.split)

lemma lookup_None: "ordered t \<Longrightarrow> lookup n t = None \<longleftrightarrow> n \<notin> key ` set (tree_vars t)"
proof (induction t)
  case (Var u left right)
  then have n: "named u" by simp
  consider "n = key u" | "strcmp n (key u) < 0" "n \<noteq> key u" | "\<not> strcmp n (key u) < 0" "n \<noteq> key u" by blast
  then show ?case using Var n by cases (auto simp: lookup_simps)
qed (simp add: lookup_simps)

locale first_match_index =
  fixes empty :: 't
    and add :: "'t \<Rightarrow> 'v \<Rightarrow> 't"
    and get :: "'k \<Rightarrow> 't \<Rightarrow> 'v option"
    and key_of :: "'v \<Rightarrow> 'k"
    and valid :: "'v \<Rightarrow> bool"
    and good :: "'t \<Rightarrow> bool"
  assumes good_empty: "good empty"
    and good_add: "good t \<Longrightarrow> valid v \<Longrightarrow> good (add t v)"
    and get_empty: "get k empty = None"
    and get_add: "good t \<Longrightarrow> valid v \<Longrightarrow>
      get k (add t v) = (case get k t of None \<Rightarrow> if key_of v = k then Some v else None | Some u \<Rightarrow> Some u)"
begin

lemma good_all: "list_all valid vs \<Longrightarrow> good (foldl add empty vs)"
  by (induction vs rule: rev_induct) (simp_all add: good_empty good_add)

lemma get_all: "list_all valid vs \<Longrightarrow> get k (foldl add empty vs) = List.find (\<lambda>v. key_of v = k) vs"
proof (induction vs rule: rev_induct)
  case Nil
  show ?case by (simp add: get_empty)
next
  case (snoc v vs)
  have "List.find (\<lambda>v. key_of v = k) (vs @ [v])
      = (case List.find (\<lambda>v. key_of v = k) vs of None \<Rightarrow> if key_of v = k then Some v else None | Some u \<Rightarrow> Some u)"
    by (induction vs) simp_all
  with snoc show ?case by (simp add: get_add good_all)
qed

end

interpretation vt: first_match_index NULL_var add_leaf lookup key named ordered
  by unfold_locales (simp_all add: add_leaf_ordered lookup_add_leaf lookup_simps)

section \<open>Memory\<close>

primrec var_tree_blocks :: "var_tree \<Rightarrow> blk list" where
  "var_tree_blocks NULL_var = []"
| "var_tree_blocks (Var v left right) =
     var_blk v # str_blocks (var_name v) @ var_tree_blocks left @ var_tree_blocks right"

definition node_blocks :: "nodeData option \<Rightarrow> blk list" where
  "node_blocks n = (case n of None \<Rightarrow> [] | Some x \<Rightarrow> nd_blk x # str_blocks (nd_name x) @ var_tree_blocks (nd_list x))"

definition msg_blocks :: "msg \<Rightarrow> blk list" where
  "msg_blocks m = node_blocks (msg_command m) @ node_blocks (msg_data m) @ node_blocks (msg_fault m)"

lemma deleteVarTree_frees: "mset (snd (deleteVarTree t)) = mset (var_tree_blocks t)"
  by (induction t) (simp_all add: ac_simps)

interpretation vto: owned NULL_var var_tree_blocks deleteVarTree
proof
  show "fst (deleteVarTree p) = 1" if "p \<noteq> NULL_var" for p
    using that by (cases p) simp_all
qed (simp_all add: deleteVarTree_frees)

lemma deleteNode_frees: "mset (deleteNode n) = mset (node_blocks n)"
  by (cases n) (simp_all add: deleteNode_def node_blocks_def deleteVarTree_frees ac_simps)

lemma deleteMessage_frees:
  "deleteMessage (Some m) = (Some m', freed) \<Longrightarrow> mset freed = mset (msg_blocks m) \<and> msg_blocks m' = []"
  by (auto simp: deleteMessage_def msg_blocks_def deleteNode_frees) (simp_all add: node_blocks_def)

section \<open>Properties\<close>

text \<open>Adding the variables of a definition one after the other, as the grammar does.\<close>

definition add_all :: "var list \<Rightarrow> var_tree option" where
  "add_all vs = foldl (\<lambda>t v. Option.bind t (\<lambda>t. addVar t (leaf v))) (Some NULL_var) vs"

lemma addVar_add_leaf: "ordered t \<Longrightarrow> named v \<Longrightarrow> addVar t (leaf v) = Some (add_leaf t v)"
  using addVar_leaf_total [of t v] by (auto simp: add_leaf_def)

lemma add_all_leaves: "list_all named vs \<Longrightarrow> add_all vs = Some (foldl add_leaf NULL_var vs)"
  by (induction vs rule: rev_induct) (simp_all add: add_all_def addVar_add_leaf vt.good_all)

lemma add_all_vars: "list_all named vs \<Longrightarrow> mset (tree_vars (foldl add_leaf NULL_var vs)) = mset vs"
  by (induction vs rule: rev_induct) (simp_all add: add_leaf_vars vt.good_all)

lemma find_lookup: "ordered t \<Longrightarrow> \<exists>s. find (Some n) t = Some s \<and> root_var s = lookup n t"
  by (induction t) (auto simp: lookup_simps dest: named_name)

text \<open>C22. The tree built from the named variables of a definition is ordered and holds exactly these
  variables, and \<^verbatim>\<open>find\<close> returns, for every name, the first variable that was added under it, NULL if
  there is none.\<close>

theorem variables_found:
  assumes "list_all named vs"
  shows "\<exists>t. add_all vs = Some t \<and> ordered t \<and> mset (tree_vars t) = mset vs
     \<and> (\<forall>n. \<exists>s. find (Some n) t = Some s \<and> root_var s = List.find (\<lambda>v. key v = n) vs)"
  using assms find_lookup [OF vt.good_all [OF assms]]
  by (simp add: add_all_leaves add_all_vars vt.good_all vt.get_all)

theorem variables_found_witness:
  "\<exists>t s. add_all [\<lparr>var_blk = 0, var_name = Some (1, ''b''), var_start = 5, var_length = 4, var_type = UINT32,
        var_scale_factor = 0, var_invalid_data = \<lparr>val_type = EMPTY_T, val_value = V_zero\<rparr>\<rparr>,
       \<lparr>var_blk = 2, var_name = Some (3, ''a''), var_start = 9, var_length = 1, var_type = UINT08,
        var_scale_factor = 0, var_invalid_data = \<lparr>val_type = EMPTY_T, val_value = V_zero\<rparr>\<rparr>] = Some t
     \<and> find (Some ''a'') t = Some s \<and> map_option var_start (root_var s) = Some 9"
proof -
  let ?b = "\<lparr>var_blk = 0, var_name = Some (1, ''b''), var_start = 5, var_length = 4, var_type = UINT32,
        var_scale_factor = 0, var_invalid_data = \<lparr>val_type = EMPTY_T, val_value = V_zero\<rparr>\<rparr>"
  let ?a = "\<lparr>var_blk = 2, var_name = Some (3, ''a''), var_start = 9, var_length = 1, var_type = UINT08,
        var_scale_factor = 0, var_invalid_data = \<lparr>val_type = EMPTY_T, val_value = V_zero\<rparr>\<rparr>"
  have "list_all named [?b, ?a]" by (simp add: named_def)
  from variables_found [OF this] obtain t s where "add_all [?b, ?a] = Some t" "find (Some ''a'') t = Some s"
      "root_var s = List.find (\<lambda>v. key v = ''a'') [?b, ?a]"
    by blast
  then show ?thesis by (auto simp: key_def)
qed

text \<open>\<^verbatim>\<open>setMessage\<close> frees every block of the nodes it replaces, stores the new ones and classifies the
  message by which of them are there. Printing it afterwards dereferences NULL exactly when there is a
  command but no fault node, and a request is printed as a command.\<close>

theorem setMessage_replaces:
  "\<exists>m' freed. setMessage (Some m) c d f = Some (m', freed) \<and> mset freed = mset (msg_blocks m)
     \<and> msg_command m' = c \<and> msg_data m' = d \<and> msg_fault m' = f
     \<and> msg_type m' = (if d = None then COMMAND else if c = None then NOTIFICATION else REQUEST)
     \<and> (printMsg m' = None \<longleftrightarrow> c \<noteq> None \<and> f = None)
     \<and> map_option hd (printMsg m') = (if c \<noteq> None \<and> f = None then None
         else Some (Type_line (if c = None \<and> d \<noteq> None then ''NOTIFICATION'' else ''COMMAND'')))"
  by (cases c; cases d; cases f)
     (simp_all add: setMessage_def deleteMessage_def msg_blocks_def deleteNode_frees printMsg_def)

text \<open>The integers a type can hold.\<close>

definition type_range :: "value_type \<Rightarrow> int \<Rightarrow> bool" where
  "type_range ty i = (case ty of
     UINT08 \<Rightarrow> 0 \<le> i \<and> i < 2 ^ 8 | INT08 \<Rightarrow> - (2 ^ 7) \<le> i \<and> i < 2 ^ 7
   | UINT16 \<Rightarrow> 0 \<le> i \<and> i < 2 ^ 16 | INT16 \<Rightarrow> - (2 ^ 15) \<le> i \<and> i < 2 ^ 15
   | UINT32 \<Rightarrow> 0 \<le> i \<and> i < 2 ^ 32 | INT32 \<Rightarrow> - (2 ^ 31) \<le> i \<and> i < 2 ^ 31
   | _ \<Rightarrow> False)"

definition int_of_val :: "val \<Rightarrow> int option" where
  "int_of_val x = (case x of V_uint08 w \<Rightarrow> Some (uint w) | V_int08 w \<Rightarrow> Some (sint w)
     | V_uint16 w \<Rightarrow> Some (uint w) | V_int16 w \<Rightarrow> Some (sint w)
     | V_uint32 w \<Rightarrow> Some (uint w) | V_int32 w \<Rightarrow> Some (sint w) | _ \<Rightarrow> None)"

lemma uint_of_int_range: "0 \<le> i \<Longrightarrow> i < 2 ^ LENGTH('a::len) \<Longrightarrow> uint (of_int i :: 'a word) = i"
  by (simp add: uint_word_of_int_eq take_bit_int_eq_self)

lemma sint_of_int_range:
  "- (2 ^ (LENGTH('a::len) - Suc 0)) \<le> i \<Longrightarrow> i < 2 ^ (LENGTH('a) - Suc 0) \<Longrightarrow> sint (of_int i :: 'a word) = i"
  by (simp add: sint_sbintrunc' signed_take_bit_int_eq_self)

lemma invalid_of_int_value: "type_range ty i \<Longrightarrow> int_of_val (invalid_of_int ty i old) = Some i"
  by (cases ty)
     (simp_all add: type_range_def int_of_val_def invalid_of_int_def uint_of_int_range sint_of_int_range)

text \<open>An integer invalid value is stored unchanged when the variable's integer type can hold it. A
  floating point one given for a variable of another type makes the warning read the type string, which
  \<^verbatim>\<open>newVar\<close> has already freed; for the two floating point types nothing freed is read.\<close>

theorem invalid_values:
  assumes "type_range (type_of_name t) i"
  shows "(\<exists>r. newVarInvalidIsInt h nm st ln (Some (b, t)) sf i = Some r
      \<and> var_type (nv_var r) = type_of_name t \<and> val_type (var_invalid_data (nv_var r)) = type_of_name t
      \<and> int_of_val (val_value (var_invalid_data (nv_var r))) = Some i)
   \<and> (\<exists>r. newVarInvalidIsFloat h nm st ln (Some (b, u)) sf x = Some r \<and> b \<in> set (nv_freed r)
      \<and> (b \<in> set (nv_reads r) \<longleftrightarrow> type_of_name u \<noteq> FLOAT32 \<and> type_of_name u \<noteq> FLOAT64))"
  using assms
  by (cases "type_of_name u")
     (simp_all add: newVarInvalidIsInt_def newVarInvalidIsFloat_def newVar_def Let_def invalid_of_int_value)

theorem invalid_values_witness:
  "(\<exists>r. newVarInvalidIsInt 7 (Some (1, ''x'')) 5 2 (Some (2, ''INT16'')) 0 (-3) = Some r
      \<and> int_of_val (val_value (var_invalid_data (nv_var r))) = Some (-3))
   \<and> (\<exists>r. newVarInvalidIsFloat 7 (Some (1, ''x'')) 5 2 (Some (2, ''UINT08'')) 0 0 = Some r
      \<and> 2 \<in> set (nv_freed r) \<and> 2 \<in> set (nv_reads r))"
proof -
  have "type_range (type_of_name ''INT16'') (-3)" "type_of_name ''UINT08'' = UINT08" by code_simp+
  then show ?thesis
    using invalid_values [of "''INT16''" "-3" 7 "Some (1, ''x'')" 5 2 2 0 "''UINT08''" 0] by auto
qed

end
