(* ===== verification/Subscriptions.thy ===== *)
theory Subscriptions
  imports Message_IDs
begin

text \<open>
  The Data Manager's list of subscriptions, \<^verbatim>\<open>dm/Subscription.cpp\<close> and \<^verbatim>\<open>dm/SubscriptionList.cpp\<close>:
  subscriptions to its own notifications and the standing SDMReqReg, SDMSearch and SDMVarReq queries.
  A cancelled entry stays in the list, marked unused, and is recycled by the next addition.

  A \<^verbatim>\<open>char*\<close> is \<^term>\<open>None\<close> (NULL) or its text. The linked list is a list, its \<^verbatim>\<open>tail\<close> the last element; a
  node is an index. An operation returns \<^term>\<open>None\<close> where the code passes NULL to \<^verbatim>\<open>strcmp\<close> or
  \<^verbatim>\<open>strdup\<close>. The debug output is left out.

  The abstract state of a list is the set of its active subscriptions; \<open>good_list\<close> is the invariant
  of the list, and the operations refine insertion into and removal from that set.
\<close>

type_synonym cstring = "string option"

section \<open>Subscription\<close>

record Subscription =
  m_SubMessageID :: SDMMessage_ID
  m_bInUse :: bool
  m_iID :: int
  m_strItemName :: cstring
  m_strQualList :: cstring
  m_idSubscriber :: SDMComponent_ID
  m_idSource :: SDMComponent_ID
  m_strDevice :: cstring
  m_strInterface :: cstring
  m_bHasItems :: bool

definition Subscription_new :: Subscription where
  "Subscription_new = \<lparr>m_SubMessageID = SDMMessage_ID_new 0 0, m_bInUse = False, m_iID = 0,
     m_strItemName = None, m_strQualList = None, m_idSubscriber = SDMComponent_ID_new,
     m_idSource = SDMComponent_ID_new, m_strDevice = None, m_strInterface = None, m_bHasItems = False\<rparr>"

definition SDM_strdup :: "cstring \<Rightarrow> cstring option" where
  "SDM_strdup s = (case s of None \<Rightarrow> None | Some t \<Rightarrow> Some (Some t))"

text \<open>The copy constructor starts from a default object; neither it nor the assignment copies the
  message id and the source.\<close>

definition Subscription_copy :: "Subscription \<Rightarrow> Subscription option" where
  "Subscription_copy b = do {
     itm \<leftarrow> SDM_strdup (m_strItemName b);
     qual \<leftarrow> SDM_strdup (m_strQualList b);
     dev \<leftarrow> SDM_strdup (m_strDevice b);
     itf \<leftarrow> SDM_strdup (m_strInterface b);
     Some (Subscription_new\<lparr>m_strItemName := itm, m_strQualList := qual, m_strDevice := dev,
       m_strInterface := itf, m_idSubscriber := m_idSubscriber b, m_bInUse := m_bInUse b,
       m_iID := m_iID b, m_bHasItems := m_bHasItems b\<rparr>) }"

definition Subscription_assign :: "Subscription \<Rightarrow> Subscription \<Rightarrow> Subscription option" where
  "Subscription_assign a b = do {
     itm \<leftarrow> SDM_strdup (m_strItemName b);
     qual \<leftarrow> SDM_strdup (m_strQualList b);
     dev \<leftarrow> SDM_strdup (m_strDevice b);
     itf \<leftarrow> SDM_strdup (m_strInterface b);
     Some (a\<lparr>m_strItemName := itm, m_strQualList := qual, m_bInUse := m_bInUse b, m_iID := m_iID b,
       m_bHasItems := m_bHasItems b, m_strDevice := dev, m_strInterface := itf,
       m_idSubscriber := m_idSubscriber b\<rparr>) }"

text \<open>\<^verbatim>\<open>inet_addr\<close> is an argument.\<close>

definition setAddress :: "(string \<Rightarrow> 32 word) \<Rightarrow> string \<Rightarrow> Subscription \<Rightarrow> Subscription" where
  "setAddress inet_addr new_IP s = s\<lparr>m_idSubscriber := (m_idSubscriber s)\<lparr>m_ulAddress := inet_addr new_IP\<rparr>\<rparr>"

definition setPort :: "16 word \<Rightarrow> Subscription \<Rightarrow> Subscription" where
  "setPort new_port s = s\<lparr>m_idSubscriber := (m_idSubscriber s)\<lparr>m_usPort := new_port\<rparr>\<rparr>"

definition setmID :: "int \<Rightarrow> Subscription \<Rightarrow> Subscription" where
  "setmID new_mID s = s\<lparr>m_SubMessageID := SDMMessage_ID_assign_int (m_SubMessageID s) (of_int new_mID)\<rparr>"

definition setInuse :: "bool \<Rightarrow> Subscription \<Rightarrow> Subscription" where
  "setInuse new_inuse s = s\<lparr>m_bInUse := new_inuse\<rparr>"

definition setID :: "int \<Rightarrow> Subscription \<Rightarrow> Subscription" where
  "setID new_ID s = s\<lparr>m_iID := new_ID\<rparr>"

definition setItemName :: "cstring \<Rightarrow> Subscription \<Rightarrow> Subscription option" where
  "setItemName new_itemname s = do { t \<leftarrow> SDM_strdup new_itemname; Some (s\<lparr>m_strItemName := t\<rparr>) }"

definition setQuallist :: "cstring \<Rightarrow> Subscription \<Rightarrow> Subscription option" where
  "setQuallist new_quallist s = do { t \<leftarrow> SDM_strdup new_quallist; Some (s\<lparr>m_strQualList := t\<rparr>) }"

definition setItems :: "bool \<Rightarrow> Subscription \<Rightarrow> Subscription" where
  "setItems new_items s = s\<lparr>m_bHasItems := new_items\<rparr>"

definition setDestination :: "SDMComponent_ID \<Rightarrow> Subscription \<Rightarrow> Subscription" where
  "setDestination new_destination s = s\<lparr>m_idSubscriber := SDMComponent_ID_assign (m_idSubscriber s) new_destination\<rparr>"

definition setSource :: "SDMComponent_ID \<Rightarrow> Subscription \<Rightarrow> Subscription" where
  "setSource new_source s = s\<lparr>m_idSource := SDMComponent_ID_assign (m_idSource s) new_source\<rparr>"

definition setDevice :: "cstring \<Rightarrow> Subscription \<Rightarrow> Subscription option" where
  "setDevice new_device s = do { t \<leftarrow> SDM_strdup new_device; Some (s\<lparr>m_strDevice := t\<rparr>) }"

definition setInterface :: "cstring \<Rightarrow> Subscription \<Rightarrow> Subscription option" where
  "setInterface new_interface s = do { t \<leftarrow> SDM_strdup new_interface; Some (s\<lparr>m_strInterface := t\<rparr>) }"

definition getmID :: "Subscription \<Rightarrow> int" where
  "getmID s = sint (SDMMessage_ID_getInterfaceMessagePair (m_SubMessageID s))"

section \<open>SubscriptionList\<close>

abbreviation REQ_REG_FUTURE :: int where "REQ_REG_FUTURE \<equiv> 0x401"
abbreviation REQ_REG_CANCELLATION :: int where "REQ_REG_CANCELLATION \<equiv> 0x402"
abbreviation VAR_REQ_REPLY :: int where "VAR_REQ_REPLY \<equiv> 0x403"
abbreviation SEARCH_REPLY :: int where "SEARCH_REPLY \<equiv> 0x404"
abbreviation SUB_CURRENT_AND_FUTURE :: int where "SUB_CURRENT_AND_FUTURE \<equiv> 5"
abbreviation SUB_CURRENT_FUTURE_AND_CANCELLATIONS :: int where "SUB_CURRENT_FUTURE_AND_CANCELLATIONS \<equiv> 7"
abbreviation SUB_CANCEL :: int where "SUB_CANCEL \<equiv> 11"

text \<open>\<^verbatim>\<open>strcmp(a, b) == 0\<close>.\<close>

definition str_same :: "cstring \<Rightarrow> cstring \<Rightarrow> bool option" where
  "str_same a b = do { x \<leftarrow> a; y \<leftarrow> b; Some (x = y) }"

text \<open>The loops that look for a duplicate return at the first node that satisfies all conditions.\<close>

primrec scan :: "(Subscription \<Rightarrow> bool option) \<Rightarrow> Subscription list \<Rightarrow> bool option" where
  "scan p [] = Some False"
| "scan p (s # ss) = do { b \<leftarrow> p s; if b then Some True else scan p ss }"

primrec first_unused :: "Subscription list \<Rightarrow> nat option" where
  "first_unused [] = None"
| "first_unused (s # ss) = (if m_bInUse s = False then Some 0 else map_option Suc (first_unused ss))"

definition addSubscription :: "Subscription list \<Rightarrow> Subscription \<Rightarrow> Subscription list" where
  "addSubscription l d = l @ [d]"

text \<open>The node an addition fills: the first unused one, or a new one at the tail.\<close>

definition free_node :: "Subscription list \<Rightarrow> Subscription list \<times> nat" where
  "free_node l = (case first_unused l of Some i \<Rightarrow> (l, i)
     | None \<Rightarrow> (let l = addSubscription l Subscription_new in (l, length l - 1)))"

definition fill :: "Subscription list \<Rightarrow> (Subscription \<Rightarrow> Subscription option) \<Rightarrow> Subscription list option" where
  "fill l f = (let (l, i) = free_node l in do { s \<leftarrow> f (l ! i); Some (l[i := s]) })"

definition notify_duplicate :: "SDMComponent_ID \<Rightarrow> int \<Rightarrow> Subscription \<Rightarrow> bool option" where
  "notify_duplicate sub mID s = Some (m_bInUse s = True \<and> SDMComponent_ID_eq (m_idSubscriber s) sub
     \<and> getmID s = mID \<and> m_bHasItems s = False)"

text \<open>The result is the node of the new subscription, \<^term>\<open>None\<close> (NULL) for a duplicate.\<close>

definition addSubscription_notify ::
    "Subscription list \<Rightarrow> SDMComponent_ID \<Rightarrow> int \<Rightarrow> (Subscription list \<times> nat option) option" where
  "addSubscription_notify l sub mID = do {
     dup \<leftarrow> scan (notify_duplicate sub mID) l;
     if dup then Some (l, None)
     else do {
       l' \<leftarrow> fill l (\<lambda>s. Some (setItems False (setInuse True (setmID mID (setDestination sub s)))));
       Some (l', Some (snd (free_node l))) } }"

definition reqreg_match ::
    "SDMComponent_ID \<Rightarrow> SDMComponent_ID \<Rightarrow> cstring \<Rightarrow> cstring \<Rightarrow> cstring \<Rightarrow> cstring \<Rightarrow> int \<Rightarrow> int
     \<Rightarrow> Subscription \<Rightarrow> bool option" where
  "reqreg_match sub source device interface itemname quallist val1 val2 s =
     (if m_bInUse s = True then
      if SDMComponent_ID_eq (m_idSubscriber s) sub then
      if getmID s = val1 \<or> getmID s = val2 then
      if SDMComponent_ID_eq (m_idSource s) source then
      if m_bHasItems s = True then do {
        e \<leftarrow> str_same (m_strItemName s) itemname;
        if e then do {
          e \<leftarrow> str_same (m_strQualList s) quallist;
          if e then do {
            e \<leftarrow> str_same (m_strDevice s) device;
            if e then str_same (m_strInterface s) interface else Some False }
          else Some False }
        else Some False }
      else Some False else Some False else Some False else Some False else Some False)"

text \<open>One pass of the duplicate check, \<open>j\<close> the number of the pass: whether the function returns, and
  \<^verbatim>\<open>nosub\<close>.\<close>

primrec reqreg_pass ::
    "nat \<Rightarrow> int \<Rightarrow> int \<Rightarrow> int \<Rightarrow> (Subscription \<Rightarrow> bool option) \<Rightarrow> bool \<Rightarrow> Subscription list \<Rightarrow> (bool \<times> bool) option" where
  "reqreg_pass j reply val1 val2 p nosub [] = Some (False, nosub)"
| "reqreg_pass j reply val1 val2 p nosub (s # ss) = do {
     m \<leftarrow> p s;
     if m then
       if j = 0 \<and> getmID s = val1 then
         if reply = SUB_CURRENT_AND_FUTURE then Some (True, True)
         else reqreg_pass j reply val1 val2 p True ss
       else if j = 1 \<and> getmID s = val2 then Some (True, nosub)
       else reqreg_pass j reply val1 val2 p nosub ss
     else reqreg_pass j reply val1 val2 p nosub ss }"

definition enter_reqreg ::
    "nat \<Rightarrow> int \<Rightarrow> SDMComponent_ID \<Rightarrow> SDMComponent_ID \<Rightarrow> cstring \<Rightarrow> cstring \<Rightarrow> cstring \<Rightarrow> cstring \<Rightarrow> int
     \<Rightarrow> Subscription \<Rightarrow> Subscription option" where
  "enter_reqreg j reply sub source device interface itemname quallist ID s = do {
     s \<leftarrow> setItemName itemname s;
     s \<leftarrow> setQuallist quallist s;
     let s = setDestination sub s;
     let s = setSource source s;
     s \<leftarrow> setDevice device s;
     s \<leftarrow> setInterface interface s;
     let tempreply = (if reply = SUB_CURRENT_FUTURE_AND_CANCELLATIONS \<and> j = 1 then REQ_REG_CANCELLATION
       else if reply = SUB_CURRENT_FUTURE_AND_CANCELLATIONS \<and> j = 0 then REQ_REG_FUTURE
       else if reply = SUB_CURRENT_AND_FUTURE then REQ_REG_FUTURE else 0);
     Some (setID ID (setItems True (setInuse True (setmID tempreply s)))) }"

definition addReqReg_pass ::
    "nat \<Rightarrow> int \<Rightarrow> int \<Rightarrow> int \<Rightarrow> SDMComponent_ID \<Rightarrow> SDMComponent_ID \<Rightarrow> cstring \<Rightarrow> cstring \<Rightarrow> cstring \<Rightarrow> cstring
     \<Rightarrow> int \<Rightarrow> Subscription list \<Rightarrow> (Subscription list \<times> bool) option" where
  "addReqReg_pass j reply val1 val2 sub source device interface itemname quallist ID l = do {
     (returns, nosub) \<leftarrow> reqreg_pass j reply val1 val2
        (reqreg_match sub source device interface itemname quallist val1 val2) False l;
     if returns then Some (l, True)
     else if nosub then Some (l, False)
     else do {
       l' \<leftarrow> fill l (enter_reqreg j reply sub source device interface itemname quallist ID);
       Some (l', False) } }"

text \<open>The results of the operations below: the list, the error count and the value returned.\<close>

definition addReqRegSubscription ::
    "int \<Rightarrow> SDMComponent_ID \<Rightarrow> SDMComponent_ID \<Rightarrow> cstring \<Rightarrow> cstring \<Rightarrow> cstring \<Rightarrow> cstring \<Rightarrow> int
     \<Rightarrow> int \<Rightarrow> Subscription list \<Rightarrow> (Subscription list \<times> int \<times> bool) option" where
  "addReqRegSubscription reply sub source device interface itemname quallist ID error l =
     (let val1 = REQ_REG_FUTURE; val2 = (if reply = SUB_CURRENT_AND_FUTURE then 0 else REQ_REG_CANCELLATION)
      in do {
        (l, returned) \<leftarrow> addReqReg_pass 0 reply val1 val2 sub source device interface itemname quallist ID l;
        if returned then Some (l, error + 1, True)
        else if reply = SUB_CURRENT_AND_FUTURE then Some (l, error, True)
        else do {
          (l, returned) \<leftarrow> addReqReg_pass 1 reply val1 val2 sub source device interface itemname quallist ID l;
          Some (l, if returned then error + 1 else error, True) } })"

definition cancel :: "Subscription \<Rightarrow> Subscription" where
  "cancel s = setID 0 (setItems False (setInuse False (setmID 0 (setPort 0 s))))"

definition same_address :: "SDMComponent_ID \<Rightarrow> SDMComponent_ID \<Rightarrow> bool" where
  "same_address a b = (m_ulAddress a = m_ulAddress b \<and> m_usPort a = m_usPort b)"

text \<open>A loop that cancels every node that satisfies the conditions.\<close>

definition cancel_all :: "(Subscription \<Rightarrow> bool) \<Rightarrow> Subscription list \<Rightarrow> Subscription list" where
  "cancel_all p l = map (\<lambda>s. if p s then cancel s else s) l"

definition removeReqRegSubscription_all ::
    "int \<Rightarrow> SDMComponent_ID \<Rightarrow> Subscription list \<Rightarrow> Subscription list \<times> bool" where
  "removeReqRegSubscription_all reply sub l =
     (if reply = SUB_CANCEL then
        (let pass = (\<lambda>tempreply. cancel_all (\<lambda>s. m_bInUse s = True \<and> same_address (m_idSubscriber s) sub
               \<and> getmID s = tempreply \<and> m_bHasItems s = True));
             l = pass REQ_REG_FUTURE l; l = pass REQ_REG_CANCELLATION l
         in (l, False))
      else (l, False))"

text \<open>The loops that cancel a particular query: every match, or only up to the first one.\<close>

primrec cancel_matches ::
    "bool \<Rightarrow> (Subscription \<Rightarrow> bool option) \<Rightarrow> Subscription list \<Rightarrow> Subscription list option" where
  "cancel_matches once p [] = Some []"
| "cancel_matches once p (s # ss) = do {
     b \<leftarrow> p s;
     if b \<and> once then Some (cancel s # ss)
     else do { ss' \<leftarrow> cancel_matches once p ss; Some ((if b then cancel s else s) # ss') } }"

definition reqreg_cancel_match ::
    "SDMComponent_ID \<Rightarrow> SDMComponent_ID \<Rightarrow> cstring \<Rightarrow> cstring \<Rightarrow> cstring \<Rightarrow> cstring \<Rightarrow> int
     \<Rightarrow> Subscription \<Rightarrow> bool option" where
  "reqreg_cancel_match sub source device interface itemname quallist tempreply s =
     (if m_bInUse s = True then
      if SDMComponent_ID_eq (m_idSubscriber s) sub then
      if getmID s = tempreply then
      if m_bHasItems s = True then
      if SDMComponent_ID_eq (m_idSource s) source then do {
        e \<leftarrow> str_same (m_strItemName s) itemname;
        if e then do {
          e \<leftarrow> str_same (m_strQualList s) quallist;
          if e then do {
            e \<leftarrow> str_same (m_strDevice s) device;
            if e then str_same (m_strInterface s) interface else Some False }
          else Some False }
        else Some False }
      else Some False else Some False else Some False else Some False else Some False)"

definition removeReqRegSubscription ::
    "int \<Rightarrow> SDMComponent_ID \<Rightarrow> SDMComponent_ID \<Rightarrow> cstring \<Rightarrow> cstring \<Rightarrow> cstring \<Rightarrow> cstring
     \<Rightarrow> Subscription list \<Rightarrow> (Subscription list \<times> bool) option" where
  "removeReqRegSubscription reply sub source device interface itemname quallist l =
     (if device = None \<or> interface = None \<or> itemname = None \<or> quallist = None then Some (l, False)
      else if reply = SUB_CANCEL then do {
        l \<leftarrow> cancel_matches False
          (reqreg_cancel_match sub source device interface itemname quallist REQ_REG_FUTURE) l;
        l \<leftarrow> cancel_matches True
          (reqreg_cancel_match sub source device interface itemname quallist REQ_REG_CANCELLATION) l;
        Some (l, False) }
      else Some (l, False))"

definition search_duplicate ::
    "SDMComponent_ID \<Rightarrow> SDMComponent_ID \<Rightarrow> cstring \<Rightarrow> Subscription \<Rightarrow> bool option" where
  "search_duplicate sub source itemname s =
     (if m_bInUse s = True then
      if SDMComponent_ID_eq (m_idSubscriber s) sub then
      if SDMComponent_ID_eq (m_idSource s) source then
      if m_bHasItems s = True then do {
        e \<leftarrow> str_same (m_strItemName s) itemname;
        Some (e \<and> getmID s = SEARCH_REPLY) }
      else Some False else Some False else Some False else Some False)"

definition addSearchSubscription ::
    "SDMComponent_ID \<Rightarrow> SDMComponent_ID \<Rightarrow> cstring \<Rightarrow> int \<Rightarrow> int \<Rightarrow> Subscription list
     \<Rightarrow> (Subscription list \<times> int \<times> bool) option" where
  "addSearchSubscription sub source itemname ID error l = do {
     dup \<leftarrow> scan (search_duplicate sub source itemname) l;
     if dup then Some (l, error + 1, True)
     else do {
       l \<leftarrow> fill l (\<lambda>s. do {
         s \<leftarrow> setItemName itemname s;
         Some (setID ID (setItems True (setInuse True (setmID SEARCH_REPLY
           (setSource source (setDestination sub s)))))) });
       Some (l, error, True) } }"

definition remove_kind :: "int \<Rightarrow> SDMComponent_ID \<Rightarrow> Subscription list \<Rightarrow> Subscription list" where
  "remove_kind kind sub = cancel_all (\<lambda>s. m_bInUse s = True \<and> SDMComponent_ID_eq (m_idSubscriber s) sub
     \<and> getmID s = kind \<and> m_bHasItems s = True)"

definition removeSearchSubscription_all ::
    "SDMComponent_ID \<Rightarrow> Subscription list \<Rightarrow> Subscription list \<times> bool" where
  "removeSearchSubscription_all sub l = (remove_kind SEARCH_REPLY sub l, False)"

definition kind_cancel_match ::
    "int \<Rightarrow> SDMComponent_ID \<Rightarrow> SDMComponent_ID \<Rightarrow> cstring \<Rightarrow> Subscription \<Rightarrow> bool option" where
  "kind_cancel_match kind sub source itemname s =
     (if m_bInUse s = True then
      if SDMComponent_ID_eq (m_idSubscriber s) sub then
      if getmID s = kind then
      if SDMComponent_ID_eq (m_idSource s) source then str_same (m_strItemName s) itemname
      else Some False else Some False else Some False else Some False)"

definition removeSearchSubscription ::
    "SDMComponent_ID \<Rightarrow> SDMComponent_ID \<Rightarrow> cstring \<Rightarrow> Subscription list \<Rightarrow> (Subscription list \<times> bool) option" where
  "removeSearchSubscription sub source itemname l =
     (if itemname = None then Some (l, False)
      else do { l \<leftarrow> cancel_matches True (kind_cancel_match SEARCH_REPLY sub source itemname) l; Some (l, False) })"

definition varreq_duplicate ::
    "SDMComponent_ID \<Rightarrow> SDMComponent_ID \<Rightarrow> cstring \<Rightarrow> cstring \<Rightarrow> Subscription \<Rightarrow> bool option" where
  "varreq_duplicate sub source interface itemname s =
     (if m_bInUse s = True then
      if SDMComponent_ID_eq (m_idSubscriber s) sub then
      if SDMComponent_ID_eq (m_idSource s) source then
      if m_bHasItems s = True then do {
        e \<leftarrow> str_same (m_strItemName s) itemname;
        if e then do {
          e \<leftarrow> str_same (m_strInterface s) interface;
          Some (e \<and> getmID s = VAR_REQ_REPLY) }
        else Some False }
      else Some False else Some False else Some False else Some False)"

definition addVarReqSubscription ::
    "SDMComponent_ID \<Rightarrow> SDMComponent_ID \<Rightarrow> cstring \<Rightarrow> cstring \<Rightarrow> int \<Rightarrow> int \<Rightarrow> Subscription list
     \<Rightarrow> (Subscription list \<times> int \<times> bool) option" where
  "addVarReqSubscription sub source interface itemname ID error l = do {
     dup \<leftarrow> scan (varreq_duplicate sub source interface itemname) l;
     if dup then Some (l, error + 1, True)
     else do {
       l \<leftarrow> fill l (\<lambda>s. do {
         s \<leftarrow> setItemName itemname s;
         let s = setID ID (setItems True (setInuse True (setmID VAR_REQ_REPLY
           (setSource source (setDestination sub s)))));
         setInterface interface s });
       Some (l, error, True) } }"

definition removeVarReqSubscription_all ::
    "SDMComponent_ID \<Rightarrow> Subscription list \<Rightarrow> Subscription list \<times> bool" where
  "removeVarReqSubscription_all sub l = (remove_kind VAR_REQ_REPLY sub l, False)"

text \<open>The interface is an argument but is not compared.\<close>

definition removeVarReqSubscription ::
    "SDMComponent_ID \<Rightarrow> SDMComponent_ID \<Rightarrow> cstring \<Rightarrow> cstring \<Rightarrow> Subscription list
     \<Rightarrow> (Subscription list \<times> bool) option" where
  "removeVarReqSubscription sub source interface itemname l =
     (if itemname = None then Some (l, False)
      else do { l \<leftarrow> cancel_matches True (kind_cancel_match VAR_REQ_REPLY sub source itemname) l; Some (l, False) })"

definition blank :: "cstring \<Rightarrow> bool" where
  "blank s = (case s of None \<Rightarrow> True | Some t \<Rightarrow> length t = 0)"

definition addOrRemoveSubscription ::
    "int \<Rightarrow> SDMComponent_ID \<Rightarrow> SDMComponent_ID \<Rightarrow> cstring \<Rightarrow> cstring \<Rightarrow> cstring \<Rightarrow> cstring \<Rightarrow> int \<Rightarrow> int
     \<Rightarrow> int \<Rightarrow> Subscription list \<Rightarrow> (Subscription list \<times> int \<times> bool) option" where
  "addOrRemoveSubscription reply sub source device interface itemname quallist ID mID error l =
     (if reply = SUB_CURRENT_AND_FUTURE \<or> reply = SUB_CURRENT_FUTURE_AND_CANCELLATIONS then
        if mID = SEARCH_REPLY then addSearchSubscription sub source itemname ID error l
        else if mID = VAR_REQ_REPLY then addVarReqSubscription sub source interface itemname ID error l
        else addReqRegSubscription reply sub source device interface itemname quallist ID error l
      else if reply = SUB_CANCEL then
        if SDMComponent_ID_isEmpty source \<and> blank itemname \<and> blank quallist \<and> blank device \<and> blank interface
        then
          (let (l, r) = (if mID = SEARCH_REPLY then removeSearchSubscription_all sub l
             else if mID = VAR_REQ_REPLY then removeVarReqSubscription_all sub l
             else removeReqRegSubscription_all reply sub l)
           in Some (l, error, r))
        else do {
          (l, r) \<leftarrow> (if mID = SEARCH_REPLY then removeSearchSubscription sub source itemname l
             else if mID = VAR_REQ_REPLY then removeVarReqSubscription sub source interface itemname l
             else removeReqRegSubscription reply sub source device interface itemname quallist l);
          Some (l, error, r) }
      else Some (l, error + 1, True))"

text \<open>The loop of the Data Manager's own \<^verbatim>\<open>CancelSubscription\<close> (\<^verbatim>\<open>DM.cpp\<close>), which changes the nodes of the list itself:
  the subscription to a notification that is cancelled keeps its id and address.\<close>

primrec CancelSubscription_loop :: "SDMComponent_ID \<Rightarrow> int \<Rightarrow> Subscription list \<Rightarrow> Subscription list" where
  "CancelSubscription_loop SubscriberId mID [] = []"
| "CancelSubscription_loop SubscriberId mID (d # l) =
     (if m_bInUse d \<and> SDMComponent_ID_eq (m_idSubscriber d) SubscriberId \<and> getmID d = mID \<and> m_bHasItems d = False
      then setInuse False (setmID 0 (setPort 0 d)) # l
      else d # CancelSubscription_loop SubscriberId mID l)"

section \<open>Copies of a list\<close>

text \<open>\<^verbatim>\<open>copyList\<close> copies the nodes but shares the subscriptions they point to, here numbers. For an empty
  list the node it allocates is returned uninitialised. \<^verbatim>\<open>deleteList\<close> deletes the subscriptions, the
  last one first.\<close>

definition copyList :: "nat list \<Rightarrow> nat list option" where
  "copyList l = (if l = [] then None else Some l)"

primrec deleteList :: "nat list \<Rightarrow> nat list" where
  "deleteList [] = []"
| "deleteList (p # next) = deleteList next @ [p]"

lemma deleteList_rev: "deleteList l = rev l"
  by (induction l) simp_all

lemma copyList_double_delete:
  "copyList l = Some l' \<Longrightarrow> \<not> distinct (deleteList l' @ deleteList l)"
  by (auto simp: copyList_def deleteList_rev split: if_splits)

section \<open>The abstract state\<close>

datatype sub_key =
    Notify SDMComponent_ID int
  | ReqReg int SDMComponent_ID SDMComponent_ID string string string string
  | Search SDMComponent_ID SDMComponent_ID string
  | VarReq SDMComponent_ID SDMComponent_ID string string

definition key_of :: "Subscription \<Rightarrow> sub_key" where
  "key_of s =
     (if \<not> m_bHasItems s then Notify (m_idSubscriber s) (getmID s)
      else if getmID s = SEARCH_REPLY then Search (m_idSubscriber s) (m_idSource s) (the (m_strItemName s))
      else if getmID s = VAR_REQ_REPLY
      then VarReq (m_idSubscriber s) (m_idSource s) (the (m_strInterface s)) (the (m_strItemName s))
      else ReqReg (getmID s) (m_idSubscriber s) (m_idSource s) (the (m_strDevice s)) (the (m_strInterface s))
             (the (m_strItemName s)) (the (m_strQualList s)))"

text \<open>The strings an active entry has, depending on what it is. The message ids of search and variable
  replies are reserved: no notification has them.\<close>

definition good :: "Subscription \<Rightarrow> bool" where
  "good s = (m_bInUse s \<longrightarrow>
     (if m_bHasItems s then m_strItemName s \<noteq> None \<and>
        (getmID s = SEARCH_REPLY
         \<or> getmID s = VAR_REQ_REPLY \<and> m_strInterface s \<noteq> None
         \<or> (getmID s = REQ_REG_FUTURE \<or> getmID s = REQ_REG_CANCELLATION)
           \<and> m_strQualList s \<noteq> None \<and> m_strDevice s \<noteq> None \<and> m_strInterface s \<noteq> None)
      else getmID s \<noteq> SEARCH_REPLY \<and> getmID s \<noteq> VAR_REQ_REPLY))"

definition active :: "Subscription list \<Rightarrow> sub_key list" where
  "active l = map key_of (filter m_bInUse l)"

definition subs :: "Subscription list \<Rightarrow> sub_key set" where
  "subs l = set (active l)"

definition good_list :: "Subscription list \<Rightarrow> bool" where
  "good_list l = (list_all good l \<and> distinct (active l))"

lemma active_simps [simp]:
  "active [] = []"
  "active (s # l) = (if m_bInUse s then [key_of s] else []) @ active l"
  "active (l @ l') = active l @ active l'"
  by (simp_all add: active_def)

declare SDMComponent_ID_eq_iff [simp]

text \<open>A message id survives being stored when it fits into 15 bits.\<close>

lemma low_byte_masks: "(0x000000ff :: 32 word) = mask 8" "(0x0000ff00 :: 32 word) = push_bit 8 (mask 8)"
  by (simp_all add: mask_eq_exp_minus_1)

lemma pair_of_int:
  "SDMMessage_ID_getInterfaceMessagePair (SDMMessage_ID_assign_int d v) = ucast v"
  by (rule bit_eqI) (auto simp: bit_message_pair SDMMessage_ID_assign_int_def bit_simps low_byte_masks)

lemma getmID_setmID: "0 \<le> v \<Longrightarrow> v < 2 ^ 15 \<Longrightarrow> getmID (setmID v s) = v"
  by (simp add: getmID_def setmID_def pair_of_int signed_ucast_eq uint_word_of_int_eq
      signed_take_bit_int_eq_self take_bit_int_eq_self)

lemmas setter_defs = setItemName_def setQuallist_def setDevice_def setInterface_def SDM_strdup_def
  setDestination_def setSource_def setInuse_def setItems_def setID_def setPort_def

lemma getmID_setters [simp]:
  "getmID (setInuse b s) = getmID s" "getmID (setItems b s) = getmID s" "getmID (setID i s) = getmID s"
  "getmID (s\<lparr>m_bInUse := b\<rparr>) = getmID s" "getmID (s\<lparr>m_bHasItems := b\<rparr>) = getmID s"
  "getmID (s\<lparr>m_iID := i\<rparr>) = getmID s" "getmID (s\<lparr>m_strInterface := c\<rparr>) = getmID s"
  by (simp_all add: getmID_def setter_defs)

lemma setmID_fields [simp]:
  "m_bInUse (setmID v s) = m_bInUse s" "m_bHasItems (setmID v s) = m_bHasItems s"
  "m_strItemName (setmID v s) = m_strItemName s" "m_strQualList (setmID v s) = m_strQualList s"
  "m_strDevice (setmID v s) = m_strDevice s" "m_strInterface (setmID v s) = m_strInterface s"
  "m_idSubscriber (setmID v s) = m_idSubscriber s" "m_idSource (setmID v s) = m_idSource s"
  by (simp_all add: setmID_def)

section \<open>The loops on good lists\<close>

lemma scan_eq:
  "(\<And>s. s \<in> set l \<Longrightarrow> p s = Some (P s)) \<Longrightarrow> scan p l = Some (\<exists>s\<in>set l. P s)"
  by (induction l) auto

lemma first_unused_Some:
  "first_unused l = Some i \<Longrightarrow> \<exists>xs s ys. l = xs @ s # ys \<and> i = length xs \<and> \<not> m_bInUse s"
proof (induction l arbitrary: i)
  case (Cons s l)
  show ?case
  proof (cases "m_bInUse s")
    case True
    then obtain j where "first_unused l = Some j" "i = Suc j" using Cons.prems by auto
    with Cons.IH obtain xs t ys where "l = xs @ t # ys" "j = length xs" "\<not> m_bInUse t" by blast
    with \<open>i = Suc j\<close> have "s # l = (s # xs) @ t # ys \<and> i = length (s # xs) \<and> \<not> m_bInUse t" by simp
    then show ?thesis by blast
  next
    case False
    then have "s # l = [] @ s # l \<and> i = length ([] :: Subscription list) \<and> \<not> m_bInUse s"
      using Cons.prems by simp
    then show ?thesis by blast
  qed
qed simp

text \<open>An entry that the additions may write: unused, with arbitrary old contents.\<close>

definition enters :: "(Subscription \<Rightarrow> Subscription option) \<Rightarrow> sub_key \<Rightarrow> bool" where
  "enters f k = (\<forall>s. \<exists>s'. f s = Some s' \<and> m_bInUse s' \<and> good s' \<and> key_of s' = k)"

lemma good_list_insert:
  "good_list (xs @ ys) \<Longrightarrow> m_bInUse s \<Longrightarrow> good s \<Longrightarrow> key_of s \<notin> subs (xs @ ys) \<Longrightarrow>
     good_list (xs @ s # ys) \<and> subs (xs @ s # ys) = insert (key_of s) (subs (xs @ ys))"
  by (auto simp: good_list_def subs_def)

lemma good_list_unused:
  "\<not> m_bInUse s \<Longrightarrow> good_list (xs @ s # ys) = good_list (xs @ ys) \<and> subs (xs @ s # ys) = subs (xs @ ys)"
  by (auto simp: good_list_def subs_def good_def)

lemma fill_inserts:
  assumes f: "enters f k" and l: "good_list l" "k \<notin> subs l"
  shows "\<exists>l'. fill l f = Some l' \<and> good_list l' \<and> subs l' = insert k (subs l)"
proof -
  obtain xs s ys where xs: "free_node l = (xs @ s # ys, length xs)" "good_list (xs @ ys)" "subs (xs @ ys) = subs l"
  proof (cases "first_unused l")
    case None
    have "free_node l = (l @ Subscription_new # [], length l)"
      using None by (simp add: free_node_def addSubscription_def Let_def)
    then show ?thesis using that [of l Subscription_new "[]"] l by simp
  next
    case (Some i)
    then obtain xs t ys where "l = xs @ t # ys" "i = length xs" "\<not> m_bInUse t"
      using first_unused_Some by blast
    then show ?thesis using that [of xs t ys] l Some good_list_unused [of t xs ys]
      by (simp add: free_node_def)
  qed
  obtain s' where s': "f s = Some s'" "m_bInUse s'" "good s'" "key_of s' = k"
    using f unfolding enters_def by blast
  have "fill l f = Some (xs @ s' # ys)"
    by (simp add: fill_def xs(1) s'(1))
  then show ?thesis
    using good_list_insert [of xs ys s'] xs(2,3) s' l(2) by simp
qed

text \<open>An operation of the form ``unless it is there, fill a node''.\<close>

lemma scan_fill_inserts:
  assumes "good_list l" "\<And>s. s \<in> set l \<Longrightarrow> p s = Some (m_bInUse s \<and> key_of s = k)" "enters f k"
  shows "(scan p l = Some (k \<in> subs l)) \<and> (k \<notin> subs l \<longrightarrow>
     (\<exists>l'. fill l f = Some l' \<and> good_list l' \<and> subs l' = insert k (subs l)))"
  using scan_eq [of l p "\<lambda>s. m_bInUse s \<and> key_of s = k"] fill_inserts [OF assms(3,1)] assms(2)
  by (auto simp: subs_def active_def)

lemma cancel_unused [simp]: "\<not> m_bInUse (cancel s)"
  by (simp add: cancel_def setter_defs setmID_def)

lemma cancel_all_removes:
  assumes "good_list l" "\<And>s. s \<in> set l \<Longrightarrow> P s = (m_bInUse s \<and> Q (key_of s))"
  shows "good_list (cancel_all P l) \<and> active (cancel_all P l) = filter (\<lambda>k. \<not> Q k) (active l)"
proof -
  have "active (cancel_all P l) = filter (\<lambda>k. \<not> Q k) (active l)"
    using assms(2) by (induction l) (auto simp: cancel_all_def)
  moreover have "list_all good (cancel_all P l)"
    using assms(1) by (auto simp: good_list_def cancel_all_def list_all_iff good_def)
  ultimately show ?thesis using assms(1) by (simp add: good_list_def)
qed

lemma cancel_matches_all:
  "(\<And>s. s \<in> set l \<Longrightarrow> p s = Some (P s)) \<Longrightarrow> cancel_matches False p l = Some (cancel_all P l)"
  by (induction l) (auto simp: cancel_all_def)

lemma cancel_matches_once:
  "(\<And>s. s \<in> set l \<Longrightarrow> p s = Some (P s)) \<Longrightarrow>
   cancel_matches True p l = Some (case List.extract P l of None \<Rightarrow> l | Some (xs, s, ys) \<Rightarrow> xs @ cancel s # ys)"
  by (induction l) (auto simp: extract_Cons_code extract_Nil_code split: option.splits)


lemma cancel_matches_once_removes:
  assumes l: "good_list l" and p: "\<And>s. s \<in> set l \<Longrightarrow> p s = Some (m_bInUse s \<and> Q (key_of s))"
  shows "\<exists>l'. cancel_matches True p l = Some l' \<and> good_list l' \<and>
     (if \<exists>k\<in>subs l. Q k then \<exists>k\<in>subs l. Q k \<and> subs l' = subs l - {k} else subs l' = subs l)"
proof (cases "List.extract (\<lambda>s. m_bInUse s \<and> Q (key_of s)) l")
  case None
  then have "\<not> (\<exists>k\<in>subs l. Q k)"
    by (auto simp: extract_None_iff subs_def active_def)
  with None l show ?thesis using cancel_matches_once [of l p, OF p] by simp
next
  case (Some r)
  obtain xs s ys where r: "r = (xs, s, ys)" by (cases r)
  then have e: "l = xs @ s # ys" "m_bInUse s" "Q (key_of s)"
    using Some by (simp_all add: extract_Some_iff)
  have "good_list (xs @ cancel s # ys)" "subs (xs @ cancel s # ys) = subs (xs @ ys)"
    using l e(1) by (auto simp: good_list_def subs_def good_def)
  moreover have "key_of s \<in> subs l" "subs (xs @ ys) = subs l - {key_of s}"
    using l e(1,2) by (auto simp: good_list_def subs_def)
  ultimately show ?thesis
    using e(3) Some r cancel_matches_once [of l p, OF p] by auto
qed

section \<open>The conditions of the loops on good entries\<close>

lemmas match_simps = str_same_def key_of_def good_def

lemma notify_duplicate_eq:
  "notify_duplicate sub mID s = Some (m_bInUse s \<and> key_of s = Notify sub mID)"
  by (auto simp: notify_duplicate_def key_of_def)

lemma search_duplicate_eq:
  "good s \<Longrightarrow> search_duplicate sub source (Some itemname) s = Some (m_bInUse s \<and> key_of s = Search sub source itemname)"
  by (auto simp: search_duplicate_def match_simps split: if_splits)

text \<open>The entries on which \<^verbatim>\<open>addVarReqSubscription\<close> passes NULL to \<^verbatim>\<open>strcmp\<close>.\<close>

definition null_interface :: "SDMComponent_ID \<Rightarrow> SDMComponent_ID \<Rightarrow> string \<Rightarrow> Subscription \<Rightarrow> bool" where
  "null_interface sub source itemname s = (m_bInUse s \<and> m_bHasItems s \<and> m_idSubscriber s = sub
     \<and> m_idSource s = source \<and> m_strItemName s = Some itemname \<and> m_strInterface s = None)"

lemma varreq_duplicate_eq:
  "good s \<Longrightarrow> varreq_duplicate sub source (Some itf) (Some itemname) s =
     (if null_interface sub source itemname s then None
      else Some (m_bInUse s \<and> key_of s = VarReq sub source itf itemname))"
  by (auto simp: varreq_duplicate_def match_simps null_interface_def split: if_splits)

lemma null_interface_key:
  "good s \<Longrightarrow> null_interface sub source itemname s \<Longrightarrow> m_bInUse s \<and> key_of s = Search sub source itemname"
  by (auto simp: null_interface_def match_simps)

lemma reqreg_match_eq:
  assumes "good s" "val2 = 0 \<or> val2 = REQ_REG_CANCELLATION"
  shows "reqreg_match sub source (Some dev) (Some itf) (Some itm) (Some qual) REQ_REG_FUTURE val2 s =
     Some (m_bInUse s \<and> (key_of s = ReqReg REQ_REG_FUTURE sub source dev itf itm qual
       \<or> key_of s = ReqReg val2 sub source dev itf itm qual))"
  using assms by (auto simp: reqreg_match_def match_simps split: if_splits)

lemma reqreg_cancel_match_eq:
  assumes "good s" "m = REQ_REG_FUTURE \<or> m = REQ_REG_CANCELLATION"
  shows "reqreg_cancel_match sub source (Some dev) (Some itf) (Some itm) (Some qual) m s =
     Some (m_bInUse s \<and> key_of s = ReqReg m sub source dev itf itm qual)"
  using assms by (auto simp: reqreg_cancel_match_def match_simps split: if_splits)

lemma search_cancel_match_eq:
  "good s \<Longrightarrow> kind_cancel_match SEARCH_REPLY sub source (Some itm) s
     = Some (m_bInUse s \<and> key_of s = Search sub source itm)"
  by (auto simp: kind_cancel_match_def match_simps split: if_splits)

lemma varreq_cancel_match_eq:
  "good s \<Longrightarrow> kind_cancel_match VAR_REQ_REPLY sub source (Some itm) s
     = Some (m_bInUse s \<and> (\<exists>itf. key_of s = VarReq sub source itf itm))"
  by (auto simp: kind_cancel_match_def match_simps split: if_splits)

text \<open>The passes of \<^verbatim>\<open>addReqRegSubscription\<close>.\<close>

lemma reqreg_pass_single:
  assumes "\<And>s. s \<in> set l \<Longrightarrow> p s = Some (P s)"
  shows "reqreg_pass 0 SUB_CURRENT_AND_FUTURE v1 v2 p False l
     = (let d = (\<exists>s\<in>set l. P s \<and> getmID s = v1) in Some (d, d))"
  using assms by (induction l) auto

lemma reqreg_pass_first:
  assumes "\<And>s. s \<in> set l \<Longrightarrow> p s = Some (P s)"
  shows "reqreg_pass 0 SUB_CURRENT_FUTURE_AND_CANCELLATIONS v1 v2 p nosub l
     = Some (False, nosub \<or> (\<exists>s\<in>set l. P s \<and> getmID s = v1))"
  using assms by (induction l arbitrary: nosub) auto

lemma reqreg_pass_second:
  assumes "\<And>s. s \<in> set l \<Longrightarrow> p s = Some (P s)"
  shows "reqreg_pass 1 reply v1 v2 p nosub l = Some (\<exists>s\<in>set l. P s \<and> getmID s = v2, nosub)"
  using assms by (induction l) auto

lemma good_key_mID:
  "good s \<Longrightarrow> m_bInUse s \<Longrightarrow> key_of s = ReqReg m a b c d e f \<Longrightarrow> getmID s = m"
  by (auto simp: match_simps split: if_splits)

lemma enters_reqreg:
  "(reply, j, m) \<in> {(SUB_CURRENT_AND_FUTURE, 0, REQ_REG_FUTURE),
      (SUB_CURRENT_FUTURE_AND_CANCELLATIONS, 0, REQ_REG_FUTURE),
      (SUB_CURRENT_FUTURE_AND_CANCELLATIONS, 1, REQ_REG_CANCELLATION)} \<Longrightarrow>
   enters (enter_reqreg j reply sub source (Some dev) (Some itf) (Some itm) (Some qual) ID)
     (ReqReg m sub source dev itf itm qual)"
  by (auto simp: enters_def enter_reqreg_def setter_defs match_simps getmID_setmID)

lemma enters_notify:
  assumes "0 \<le> mID" "mID < 2 ^ 15" "mID \<noteq> SEARCH_REPLY" "mID \<noteq> VAR_REQ_REPLY"
  shows "enters (\<lambda>s. Some (setItems False (setInuse True (setmID mID (setDestination sub s))))) (Notify sub mID)"
  using assms by (auto simp: enters_def setter_defs match_simps getmID_setmID)

lemma enters_search:
  "enters (\<lambda>s. do { s \<leftarrow> setItemName (Some itm) s;
         Some (setID ID (setItems True (setInuse True (setmID SEARCH_REPLY
           (setSource source (setDestination sub s)))))) }) (Search sub source itm)"
  by (auto simp: enters_def setter_defs match_simps getmID_setmID)

lemma enters_varreq:
  "enters (\<lambda>s. do { s \<leftarrow> setItemName (Some itm) s;
         let s = setID ID (setItems True (setInuse True (setmID VAR_REQ_REPLY
           (setSource source (setDestination sub s)))));
         setInterface (Some itf) s }) (VarReq sub source itf itm)"
  by (auto simp: enters_def setter_defs match_simps getmID_setmID)

section \<open>The operations refine set operations\<close>

lemma good_listD: "good_list l \<Longrightarrow> s \<in> set l \<Longrightarrow> good s"
  by (simp add: good_list_def list_all_iff)

text \<open>What an addition of one subscription promises.\<close>

definition adds :: "sub_key \<Rightarrow> int \<Rightarrow> Subscription list \<Rightarrow> (Subscription list \<times> int \<times> bool) option \<Rightarrow> bool" where
  "adds k error l r = (\<exists>l'. r = Some (l', if k \<in> subs l then error + 1 else error, True)
     \<and> good_list l' \<and> subs l' = insert k (subs l))"

lemma scan_fill_adds:
  assumes "good_list l" "\<And>s. s \<in> set l \<Longrightarrow> p s = Some (m_bInUse s \<and> key_of s = k)" "enters f k"
  shows "adds k error l (do {
     dup \<leftarrow> scan p l;
     if dup then Some (l, error + 1, True) else do { l \<leftarrow> fill l f; Some (l, error, True) } })"
  using scan_fill_inserts [OF assms] assms(1) by (auto simp: adds_def insert_absorb)

lemma addSubscription_notify_ok:
  assumes l: "good_list l" and m: "0 \<le> mID" "mID < 2 ^ 15" "mID \<noteq> SEARCH_REPLY" "mID \<noteq> VAR_REQ_REPLY"
  shows "\<exists>l' n. addSubscription_notify l sub mID = Some (l', n) \<and> good_list l'
     \<and> subs l' = insert (Notify sub mID) (subs l) \<and> (n = None \<longleftrightarrow> Notify sub mID \<in> subs l)"
  using scan_fill_inserts [OF l _ enters_notify [OF m], of "notify_duplicate sub mID" sub] l
  by (auto simp: addSubscription_notify_def notify_duplicate_eq insert_absorb)

lemma addSearchSubscription_ok:
  "good_list l \<Longrightarrow> adds (Search sub source itm) error l (addSearchSubscription sub source (Some itm) ID error l)"
  unfolding addSearchSubscription_def
  by (rule scan_fill_adds) (auto simp: search_duplicate_eq good_listD intro: enters_search)

lemma addVarReqSubscription_ok:
  assumes "good_list l" "\<not> list_ex (null_interface sub source itm) l"
  shows "adds (VarReq sub source itf itm) error l (addVarReqSubscription sub source (Some itf) (Some itm) ID error l)"
  unfolding addVarReqSubscription_def
  by (rule scan_fill_adds [OF assms(1) _ enters_varreq])
     (use assms in \<open>auto simp: varreq_duplicate_eq good_listD list_ex_iff\<close>)

lemma in_subs: "k \<in> subs l \<longleftrightarrow> (\<exists>s\<in>set l. m_bInUse s \<and> key_of s = k)"
  by (auto simp: subs_def active_def)

lemma reqreg_in_subs:
  assumes "good_list l" "m = m1 \<or> m = m2"
  shows "(\<exists>s\<in>set l. (m_bInUse s \<and> (key_of s = ReqReg m1 a b c d e f \<or> key_of s = ReqReg m2 a b c d e f)) \<and> getmID s = m)
     \<longleftrightarrow> ReqReg m a b c d e f \<in> subs l"
  using good_key_mID [OF good_listD [OF assms(1)]] assms(2) unfolding in_subs by metis

lemma reqreg_passes:
  fixes sub source dev itf itm qual l
  defines "p \<equiv> reqreg_match sub source (Some dev) (Some itf) (Some itm) (Some qual)"
    and "k \<equiv> \<lambda>m. ReqReg m sub source dev itf itm qual"
  assumes l: "good_list l"
  shows "reqreg_pass 0 SUB_CURRENT_AND_FUTURE REQ_REG_FUTURE 0 (p REQ_REG_FUTURE 0) False l
       = Some (k REQ_REG_FUTURE \<in> subs l, k REQ_REG_FUTURE \<in> subs l)"
    and "reqreg_pass 0 SUB_CURRENT_FUTURE_AND_CANCELLATIONS REQ_REG_FUTURE REQ_REG_CANCELLATION
         (p REQ_REG_FUTURE REQ_REG_CANCELLATION) False l = Some (False, k REQ_REG_FUTURE \<in> subs l)"
    and "reqreg_pass 1 SUB_CURRENT_FUTURE_AND_CANCELLATIONS REQ_REG_FUTURE REQ_REG_CANCELLATION
         (p REQ_REG_FUTURE REQ_REG_CANCELLATION) False l = Some (k REQ_REG_CANCELLATION \<in> subs l, False)"
proof -
  have p: "p REQ_REG_FUTURE v s = Some (m_bInUse s \<and> (key_of s = k REQ_REG_FUTURE \<or> key_of s = k v))"
    if "s \<in> set l" "v = 0 \<or> v = REQ_REG_CANCELLATION" for s v
    using reqreg_match_eq [OF good_listD [OF l that(1)] that(2)] by (simp add: p_def k_def)
  show "reqreg_pass 0 SUB_CURRENT_AND_FUTURE REQ_REG_FUTURE 0 (p REQ_REG_FUTURE 0) False l
       = Some (k REQ_REG_FUTURE \<in> subs l, k REQ_REG_FUTURE \<in> subs l)"
    using reqreg_pass_single [OF p] reqreg_in_subs [OF l] by (simp add: k_def Let_def)
  show "reqreg_pass 0 SUB_CURRENT_FUTURE_AND_CANCELLATIONS REQ_REG_FUTURE REQ_REG_CANCELLATION
         (p REQ_REG_FUTURE REQ_REG_CANCELLATION) False l = Some (False, k REQ_REG_FUTURE \<in> subs l)"
    using reqreg_pass_first [OF p] reqreg_in_subs [OF l] by (simp add: k_def)
  show "reqreg_pass 1 SUB_CURRENT_FUTURE_AND_CANCELLATIONS REQ_REG_FUTURE REQ_REG_CANCELLATION
         (p REQ_REG_FUTURE REQ_REG_CANCELLATION) False l = Some (k REQ_REG_CANCELLATION \<in> subs l, False)"
    using reqreg_pass_second [OF p] reqreg_in_subs [OF l] by (simp add: k_def)
qed

lemma addReqReg_single_ok:
  assumes l: "good_list l"
  shows "adds (ReqReg REQ_REG_FUTURE sub source dev itf itm qual) error l
     (addReqRegSubscription SUB_CURRENT_AND_FUTURE sub source (Some dev) (Some itf) (Some itm) (Some qual) ID error l)"
  using l fill_inserts [OF enters_reqreg l, of SUB_CURRENT_AND_FUTURE 0 REQ_REG_FUTURE sub source dev itf itm qual ID]
  by (auto simp: adds_def addReqRegSubscription_def addReqReg_pass_def Let_def reqreg_passes insert_absorb)

lemma addReqReg_pass_first_ok:
  assumes l: "good_list l"
  shows "\<exists>l'. addReqReg_pass 0 SUB_CURRENT_FUTURE_AND_CANCELLATIONS REQ_REG_FUTURE REQ_REG_CANCELLATION sub source
       (Some dev) (Some itf) (Some itm) (Some qual) ID l = Some (l', False) \<and> good_list l'
     \<and> subs l' = insert (ReqReg REQ_REG_FUTURE sub source dev itf itm qual) (subs l)"
  using l fill_inserts [OF enters_reqreg l,
      of SUB_CURRENT_FUTURE_AND_CANCELLATIONS 0 REQ_REG_FUTURE sub source dev itf itm qual ID]
  by (auto simp: addReqReg_pass_def reqreg_passes insert_absorb)

lemma addReqReg_pass_second_ok:
  assumes l: "good_list l"
  shows "\<exists>l'. addReqReg_pass 1 SUB_CURRENT_FUTURE_AND_CANCELLATIONS REQ_REG_FUTURE REQ_REG_CANCELLATION sub source
       (Some dev) (Some itf) (Some itm) (Some qual) ID l
       = Some (l', ReqReg REQ_REG_CANCELLATION sub source dev itf itm qual \<in> subs l) \<and> good_list l'
     \<and> subs l' = insert (ReqReg REQ_REG_CANCELLATION sub source dev itf itm qual) (subs l)"
  using l fill_inserts [OF enters_reqreg l,
      of SUB_CURRENT_FUTURE_AND_CANCELLATIONS 1 REQ_REG_CANCELLATION sub source dev itf itm qual ID]
  by (auto simp: addReqReg_pass_def reqreg_passes(3) [simplified] insert_absorb)

lemma addReqReg_both_ok:
  assumes l: "good_list l"
  shows "\<exists>l' e. addReqRegSubscription SUB_CURRENT_FUTURE_AND_CANCELLATIONS sub source (Some dev) (Some itf)
       (Some itm) (Some qual) ID error l = Some (l', e, True) \<and> good_list l'
     \<and> subs l' = subs l \<union> {ReqReg REQ_REG_FUTURE sub source dev itf itm qual,
         ReqReg REQ_REG_CANCELLATION sub source dev itf itm qual}"
proof -
  obtain l1 where l1: "addReqReg_pass 0 SUB_CURRENT_FUTURE_AND_CANCELLATIONS REQ_REG_FUTURE REQ_REG_CANCELLATION
       sub source (Some dev) (Some itf) (Some itm) (Some qual) ID l = Some (l1, False)" "good_list l1"
     "subs l1 = insert (ReqReg REQ_REG_FUTURE sub source dev itf itm qual) (subs l)"
    using addReqReg_pass_first_ok [OF l] by blast
  then show ?thesis
    using addReqReg_pass_second_ok [OF l1(2), of sub source dev itf itm qual ID]
    by (auto simp: addReqRegSubscription_def)
qed

lemma cancel_all_subs:
  assumes "good_list l" "\<And>s. good s \<Longrightarrow> P s = (m_bInUse s \<and> Q (key_of s))"
  shows "good_list (cancel_all P l) \<and> subs (cancel_all P l) = {k \<in> subs l. \<not> Q k}"
  using cancel_all_removes [of l P Q] assms good_listD by (auto simp: subs_def)

lemma cancel_once_subs:
  assumes "good_list l" "\<And>s. good s \<Longrightarrow> p s = Some (m_bInUse s \<and> key_of s = k)"
  shows "\<exists>l'. cancel_matches True p l = Some l' \<and> good_list l' \<and> subs l' = subs l - {k}"
  using cancel_matches_once_removes [of l p "\<lambda>x. x = k"] assms good_listD by (auto split: if_splits)

lemma cancel_many_subs:
  assumes "good_list l" "\<And>s. good s \<Longrightarrow> p s = Some (m_bInUse s \<and> key_of s = k)"
  shows "\<exists>l'. cancel_matches False p l = Some l' \<and> good_list l' \<and> subs l' = subs l - {k}"
  using cancel_matches_all [of l p "\<lambda>s. m_bInUse s \<and> key_of s = k"]
    cancel_all_subs [OF assms(1), of "\<lambda>s. m_bInUse s \<and> key_of s = k" "\<lambda>x. x = k"] assms good_listD
  by auto

text \<open>Which subscriptions a cancellation without details removes.\<close>

definition cancels :: "int \<Rightarrow> SDMComponent_ID \<Rightarrow> sub_key \<Rightarrow> bool" where
  "cancels mID sub k = (case k of
     Search s _ _ \<Rightarrow> mID = SEARCH_REPLY \<and> s = sub
   | VarReq s _ _ _ \<Rightarrow> mID = VAR_REQ_REPLY \<and> s = sub
   | ReqReg _ s _ _ _ _ _ \<Rightarrow> mID \<noteq> SEARCH_REPLY \<and> mID \<noteq> VAR_REQ_REPLY \<and> same_address s sub
   | Notify _ _ \<Rightarrow> False)"

lemma remove_kind_ok:
  assumes "good_list l" "kind = SEARCH_REPLY \<or> kind = VAR_REQ_REPLY"
  shows "good_list (remove_kind kind sub l) \<and> subs (remove_kind kind sub l) = {k \<in> subs l. \<not> cancels kind sub k}"
  unfolding remove_kind_def
  by (rule cancel_all_subs) (use assms in \<open>auto simp: cancels_def match_simps split: if_splits\<close>)

lemma removeReqReg_all_ok:
  assumes l: "good_list l" and m: "mID \<noteq> SEARCH_REPLY" "mID \<noteq> VAR_REQ_REPLY"
  shows "\<exists>l'. removeReqRegSubscription_all SUB_CANCEL sub l = (l', False) \<and> good_list l'
     \<and> subs l' = {k \<in> subs l. \<not> cancels mID sub k}"
proof -
  let ?P = "\<lambda>t s. m_bInUse s = True \<and> same_address (m_idSubscriber s) sub \<and> getmID s = t \<and> m_bHasItems s = True"
  let ?Q = "\<lambda>t k. case k of ReqReg t' s _ _ _ _ _ \<Rightarrow> t' = t \<and> same_address s sub | _ \<Rightarrow> False"
  have P: "?P t s = (m_bInUse s \<and> ?Q t (key_of s))"
    if "good s" "t = REQ_REG_FUTURE \<or> t = REQ_REG_CANCELLATION" for s t
    using that by (auto simp: match_simps split: if_splits)
  let ?l1 = "cancel_all (?P REQ_REG_FUTURE) l"
  have 1: "good_list ?l1 \<and> subs ?l1 = {k \<in> subs l. \<not> ?Q REQ_REG_FUTURE k}"
    by (rule cancel_all_subs [OF l]) (use P in blast)
  have 2: "good_list (cancel_all (?P REQ_REG_CANCELLATION) ?l1)
      \<and> subs (cancel_all (?P REQ_REG_CANCELLATION) ?l1) = {k \<in> subs ?l1. \<not> ?Q REQ_REG_CANCELLATION k}"
    by (rule cancel_all_subs) (use 1 P in blast)+
  have q: "cancels mID sub k \<longleftrightarrow> ?Q REQ_REG_FUTURE k \<or> ?Q REQ_REG_CANCELLATION k" if "k \<in> subs l" for k
    using that l m by (auto simp: in_subs cancels_def match_simps dest!: good_listD split: if_splits)
  show ?thesis using 1 2 q by (auto simp: removeReqRegSubscription_all_def Let_def)
qed

lemma removeReqReg_ok:
  fixes sub source dev itf itm qual
  defines "k \<equiv> \<lambda>m. ReqReg m sub source dev itf itm qual"
    and "p \<equiv> reqreg_cancel_match sub source (Some dev) (Some itf) (Some itm) (Some qual)"
  assumes l: "good_list l"
  shows "\<exists>l'. removeReqRegSubscription SUB_CANCEL sub source (Some dev) (Some itf) (Some itm) (Some qual) l = Some (l', False)
     \<and> good_list l' \<and> subs l' = subs l - {k REQ_REG_FUTURE, k REQ_REG_CANCELLATION}"
proof -
  have p: "p m s = Some (m_bInUse s \<and> key_of s = k m)"
    if "good s" "m = REQ_REG_FUTURE \<or> m = REQ_REG_CANCELLATION" for s m
    using reqreg_cancel_match_eq [OF that] by (simp add: p_def k_def)
  obtain l1 where l1: "cancel_matches False (p REQ_REG_FUTURE) l = Some l1" "good_list l1"
      "subs l1 = subs l - {k REQ_REG_FUTURE}"
    using cancel_many_subs [OF l, of "p REQ_REG_FUTURE" "k REQ_REG_FUTURE"] p by blast
  obtain l2 where l2: "cancel_matches True (p REQ_REG_CANCELLATION) l1 = Some l2" "good_list l2"
      "subs l2 = subs l1 - {k REQ_REG_CANCELLATION}"
    using cancel_once_subs [OF l1(2), of "p REQ_REG_CANCELLATION" "k REQ_REG_CANCELLATION"] p by blast
  have "subs l2 = subs l - {k REQ_REG_FUTURE, k REQ_REG_CANCELLATION}"
    using l1(3) l2(3) by blast
  then show ?thesis
    using l1(1) l2(1,2) unfolding removeReqRegSubscription_def p_def by simp
qed

lemma removeSearch_ok:
  assumes l: "good_list l"
  shows "\<exists>l'. removeSearchSubscription sub source (Some itm) l = Some (l', False) \<and> good_list l'
     \<and> subs l' = subs l - {Search sub source itm}"
proof -
  obtain l' where "cancel_matches True (kind_cancel_match SEARCH_REPLY sub source (Some itm)) l = Some l'"
      "good_list l'" "subs l' = subs l - {Search sub source itm}"
    using cancel_once_subs [OF l] search_cancel_match_eq by blast
  then show ?thesis by (simp add: removeSearchSubscription_def)
qed

text \<open>A cancelled variable request is any of those for the variable, whichever interface was given.\<close>

lemma removeVarReq_ok:
  assumes l: "good_list l"
  shows "\<exists>l'. removeVarReqSubscription sub source itf (Some itm) l = Some (l', False) \<and> good_list l' \<and>
     (if \<exists>i. VarReq sub source i itm \<in> subs l
      then \<exists>i. VarReq sub source i itm \<in> subs l \<and> subs l' = subs l - {VarReq sub source i itm} else subs l' = subs l)"
proof -
  obtain l' where "cancel_matches True (kind_cancel_match VAR_REQ_REPLY sub source (Some itm)) l = Some l'" "good_list l'"
      "if \<exists>k\<in>subs l. \<exists>i. k = VarReq sub source i itm
       then \<exists>k\<in>subs l. (\<exists>i. k = VarReq sub source i itm) \<and> subs l' = subs l - {k} else subs l' = subs l"
    using cancel_matches_once_removes [OF l, of "kind_cancel_match VAR_REQ_REPLY sub source (Some itm)"
      "\<lambda>k. \<exists>i. k = VarReq sub source i itm"] varreq_cancel_match_eq [OF good_listD [OF l]] by blast
  then show ?thesis
    by (intro exI [of _ l']) (auto simp: removeVarReqSubscription_def split: if_splits)
qed

section \<open>The specification of a request\<close>

text \<open>The strings a request to subscribe has to bring.\<close>

definition request_ok :: "int \<Rightarrow> cstring \<Rightarrow> cstring \<Rightarrow> cstring \<Rightarrow> cstring \<Rightarrow> int \<Rightarrow> bool" where
  "request_ok reply device interface itemname quallist mID =
     (reply = SUB_CURRENT_AND_FUTURE \<or> reply = SUB_CURRENT_FUTURE_AND_CANCELLATIONS \<longrightarrow>
       itemname \<noteq> None \<and> (mID = VAR_REQ_REPLY \<longrightarrow> interface \<noteq> None)
       \<and> (mID \<noteq> SEARCH_REPLY \<and> mID \<noteq> VAR_REQ_REPLY \<longrightarrow> device \<noteq> None \<and> interface \<noteq> None \<and> quallist \<noteq> None))"

definition request_keys ::
    "int \<Rightarrow> SDMComponent_ID \<Rightarrow> SDMComponent_ID \<Rightarrow> cstring \<Rightarrow> cstring \<Rightarrow> cstring \<Rightarrow> cstring \<Rightarrow> int \<Rightarrow> sub_key set" where
  "request_keys reply sub source device interface itemname quallist mID =
     (if mID = SEARCH_REPLY then {Search sub source (the itemname)}
      else if mID = VAR_REQ_REPLY then {VarReq sub source (the interface) (the itemname)}
      else (\<lambda>m. ReqReg m sub source (the device) (the interface) (the itemname) (the quallist)) `
        (if reply = SUB_CURRENT_AND_FUTURE then {REQ_REG_FUTURE} else {REQ_REG_FUTURE, REQ_REG_CANCELLATION}))"

definition given :: "cstring \<Rightarrow> cstring \<Rightarrow> cstring \<Rightarrow> cstring \<Rightarrow> int \<Rightarrow> bool" where
  "given device interface itemname quallist mID =
     (itemname \<noteq> None \<and> (mID = SEARCH_REPLY \<or> mID = VAR_REQ_REPLY \<or> device \<noteq> None \<and> interface \<noteq> None \<and> quallist \<noteq> None))"

definition request_spec ::
    "int \<Rightarrow> SDMComponent_ID \<Rightarrow> SDMComponent_ID \<Rightarrow> cstring \<Rightarrow> cstring \<Rightarrow> cstring \<Rightarrow> cstring \<Rightarrow> int
     \<Rightarrow> sub_key set \<Rightarrow> sub_key set \<Rightarrow> bool" where
  "request_spec reply sub source device interface itemname quallist mID S S' =
     (if reply = SUB_CURRENT_AND_FUTURE \<or> reply = SUB_CURRENT_FUTURE_AND_CANCELLATIONS
      then S' = S \<union> request_keys reply sub source device interface itemname quallist mID
      else if reply \<noteq> SUB_CANCEL then S' = S
      else if SDMComponent_ID_isEmpty source \<and> blank itemname \<and> blank quallist \<and> blank device \<and> blank interface
      then S' = {k \<in> S. \<not> cancels mID sub k}
      else if \<not> given device interface itemname quallist mID then S' = S
      else S' = S - request_keys reply sub source device interface itemname quallist mID)"

text \<open>The cancellation of a variable request is not ambiguous: the subscriber has no active request for the variable at
  that source with another interface. The code does not compare the interface.\<close>

definition unambiguous :: "SDMComponent_ID \<Rightarrow> SDMComponent_ID \<Rightarrow> cstring \<Rightarrow> cstring \<Rightarrow> int \<Rightarrow> sub_key set \<Rightarrow> bool" where
  "unambiguous sub source interface itemname mID S =
     (mID = VAR_REQ_REPLY \<longrightarrow> (\<forall>i. VarReq sub source i (the itemname) \<in> S \<longrightarrow> interface = Some i))"

lemma addition_refines:
  assumes l: "good_list l" and reply: "reply = SUB_CURRENT_AND_FUTURE \<or> reply = SUB_CURRENT_FUTURE_AND_CANCELLATIONS"
    and ok: "request_ok reply device interface itemname quallist mID"
    and null: "mID = VAR_REQ_REPLY \<Longrightarrow> \<not> list_ex (null_interface sub source (the itemname)) l"
  shows "\<exists>l' e. addOrRemoveSubscription reply sub source device interface itemname quallist ID mID error l
       = Some (l', e, True) \<and> good_list l'
     \<and> subs l' = subs l \<union> request_keys reply sub source device interface itemname quallist mID"
proof -
  obtain itm where itm: "itemname = Some itm" using ok reply by (auto simp: request_ok_def)
  consider "mID = SEARCH_REPLY" | "mID = VAR_REQ_REPLY" | "mID \<noteq> SEARCH_REPLY" "mID \<noteq> VAR_REQ_REPLY" by blast
  then show ?thesis
  proof cases
    case 1
    then show ?thesis using addSearchSubscription_ok [OF l, of sub source itm error ID] reply
      by (auto simp: addOrRemoveSubscription_def adds_def itm request_keys_def)
  next
    case 2
    then obtain itf where "interface = Some itf" using ok reply by (auto simp: request_ok_def)
    then show ?thesis using 2 addVarReqSubscription_ok [OF l, of sub source itm itf error ID] null reply
      by (auto simp: addOrRemoveSubscription_def adds_def itm request_keys_def)
  next
    case 3
    then obtain dev itf qual where "device = Some dev" "interface = Some itf" "quallist = Some qual"
      using ok reply by (auto simp: request_ok_def)
    then show ?thesis using 3 reply addReqReg_single_ok [OF l, of sub source dev itf itm qual error ID]
        addReqReg_both_ok [OF l, of sub source dev itf itm qual ID error]
      by (auto simp: addOrRemoveSubscription_def adds_def itm request_keys_def)
  qed
qed

lemma cancel_everything_refines:
  assumes l: "good_list l" and b: "SDMComponent_ID_isEmpty source" "blank itemname" "blank quallist" "blank device" "blank interface"
  shows "\<exists>l'. addOrRemoveSubscription SUB_CANCEL sub source device interface itemname quallist ID mID error l
       = Some (l', error, False) \<and> good_list l' \<and> subs l' = {k \<in> subs l. \<not> cancels mID sub k}"
  using remove_kind_ok [OF l, of mID sub] removeReqReg_all_ok [OF l, of mID sub] b
  by (auto simp: addOrRemoveSubscription_def removeSearchSubscription_all_def removeVarReqSubscription_all_def)

lemma cancel_one_refines:
  assumes l: "good_list l"
    and b: "\<not> (SDMComponent_ID_isEmpty source \<and> blank itemname \<and> blank quallist \<and> blank device \<and> blank interface)"
  shows "\<exists>l'. addOrRemoveSubscription SUB_CANCEL sub source device interface itemname quallist ID mID error l
       = Some (l', error, False) \<and> good_list l'
     \<and> (unambiguous sub source interface itemname mID (subs l) \<longrightarrow>
          request_spec SUB_CANCEL sub source device interface itemname quallist mID (subs l) (subs l'))"
proof -
  have e: "addOrRemoveSubscription SUB_CANCEL sub source device interface itemname quallist ID mID error l = do {
          (l, r) \<leftarrow> (if mID = SEARCH_REPLY then removeSearchSubscription sub source itemname l
             else if mID = VAR_REQ_REPLY then removeVarReqSubscription sub source interface itemname l
             else removeReqRegSubscription SUB_CANCEL sub source device interface itemname quallist l);
          Some (l, error, r) }"
    using b unfolding addOrRemoveSubscription_def by (simp only: if_False) simp
  have s: "request_spec SUB_CANCEL sub source device interface itemname quallist mID S S' \<longleftrightarrow>
      (if \<not> given device interface itemname quallist mID then S' = S else S' = S - request_keys SUB_CANCEL sub source device interface itemname quallist mID)" for S S'
    using b unfolding request_spec_def by (simp only: if_False) simp
  show ?thesis
  proof (cases "given device interface itemname quallist mID")
    case False
    then show ?thesis unfolding e s using l
      by (auto simp: given_def removeSearchSubscription_def removeVarReqSubscription_def removeReqRegSubscription_def)
  next
    case True
    then obtain itm where itm: "itemname = Some itm" by (auto simp: given_def)
    consider "mID = SEARCH_REPLY" | "mID = VAR_REQ_REPLY" | "mID \<noteq> SEARCH_REPLY" "mID \<noteq> VAR_REQ_REPLY" by blast
    then show ?thesis
    proof cases
      case 1
      then show ?thesis unfolding e s using removeSearch_ok [OF l, of sub source itm] True
        by (auto simp: itm request_keys_def)
    next
      case 2
      obtain l' where "removeVarReqSubscription sub source interface (Some itm) l = Some (l', False)" "good_list l'"
         "if \<exists>i. VarReq sub source i itm \<in> subs l
          then \<exists>i. VarReq sub source i itm \<in> subs l \<and> subs l' = subs l - {VarReq sub source i itm} else subs l' = subs l"
        using removeVarReq_ok [OF l] by blast
      then show ?thesis unfolding e s using 2 True
        by (intro exI [of _ l']) (auto simp: itm unambiguous_def request_keys_def split: if_splits)
    next
      case 3
      then obtain dev itf qual where "device = Some dev" "interface = Some itf" "quallist = Some qual"
        using True by (auto simp: given_def)
      then show ?thesis unfolding e s using 3 True removeReqReg_ok [OF l, of sub source dev itf itm qual]
        by (auto simp: itm request_keys_def)
    qed
  qed
qed

lemma cancellation_refines:
  assumes l: "good_list l"
  shows "\<exists>l'. addOrRemoveSubscription SUB_CANCEL sub source device interface itemname quallist ID mID error l
       = Some (l', error, False) \<and> good_list l'
     \<and> (unambiguous sub source interface itemname mID (subs l) \<longrightarrow>
          request_spec SUB_CANCEL sub source device interface itemname quallist mID (subs l) (subs l'))"
proof (cases "SDMComponent_ID_isEmpty source \<and> blank itemname \<and> blank quallist \<and> blank device \<and> blank interface")
  case True
  then obtain l' where "addOrRemoveSubscription SUB_CANCEL sub source device interface itemname quallist ID mID error l
       = Some (l', error, False)" "good_list l'" "subs l' = {k \<in> subs l. \<not> cancels mID sub k}"
    using cancel_everything_refines [OF l] by blast
  with True show ?thesis by (simp add: request_spec_def)
next
  case False
  then show ?thesis by (rule cancel_one_refines [OF l])
qed

lemma scan_Some_False: "scan p l = Some False \<Longrightarrow> s \<in> set l \<Longrightarrow> p s = Some False"
  by (induction l) (auto split: bind_splits if_splits)

lemma addVarReq_keeps_good:
  assumes "good_list l" "addVarReqSubscription sub source (Some itf) (Some itm) ID error l = Some (l', e, r)"
  shows "good_list l'"
proof (cases "list_ex (null_interface sub source itm) l")
  case True
  then obtain s where "s \<in> set l" "varreq_duplicate sub source (Some itf) (Some itm) s = None"
    using varreq_duplicate_eq [OF good_listD [OF assms(1)]] by (auto simp: list_ex_iff)
  then have "scan (varreq_duplicate sub source (Some itf) (Some itm)) l \<noteq> Some False"
    using scan_Some_False by force
  then show ?thesis using assms by (auto simp: addVarReqSubscription_def split: bind_splits if_splits)
next
  case False
  then show ?thesis using addVarReqSubscription_ok [OF assms(1) False, of itf error ID] assms(2)
    by (auto simp: adds_def)
qed

lemma request_keeps_good:
  assumes l: "good_list l" and ok: "request_ok reply device interface itemname quallist mID"
    and r: "addOrRemoveSubscription reply sub source device interface itemname quallist ID mID error l = Some (l', e, r)"
  shows "good_list l'"
proof -
  consider (add) "reply = SUB_CURRENT_AND_FUTURE \<or> reply = SUB_CURRENT_FUTURE_AND_CANCELLATIONS"
    | (cancel) "reply = SUB_CANCEL"
    | (other) "\<not> (reply = SUB_CURRENT_AND_FUTURE \<or> reply = SUB_CURRENT_FUTURE_AND_CANCELLATIONS)" "reply \<noteq> SUB_CANCEL"
    by blast
  then show ?thesis
  proof cases
    case add
    show ?thesis
    proof (cases "mID = VAR_REQ_REPLY")
      case True
      then obtain itf itm where "interface = Some itf" "itemname = Some itm"
        using ok add by (auto simp: request_ok_def)
      then show ?thesis using addVarReq_keeps_good [OF l] r add True by (auto simp: addOrRemoveSubscription_def)
    next
      case False
      then show ?thesis using addition_refines [OF l add ok, of sub source ID error] r by auto
    qed
  next
    case cancel
    then show ?thesis using cancellation_refines [OF l] r by (metis option.inject prod.inject)
  next
    case other
    then show ?thesis using l r by (auto simp: addOrRemoveSubscription_def)
  qed
qed

text \<open>The subscription to a notification that is cancelled is removed, and no other.\<close>

lemma CancelSubscription_finds:
  "CancelSubscription_loop sub m l = l \<and> Notify sub m \<notin> subs l \<or>
   (\<exists>xs s ys. l = xs @ s # ys \<and> m_bInUse s \<and> key_of s = Notify sub m
      \<and> CancelSubscription_loop sub m l = xs @ setInuse False (setmID 0 (setPort 0 s)) # ys)"
proof (induction l)
  case (Cons d l)
  let ?p = "m_bInUse d \<and> SDMComponent_ID_eq (m_idSubscriber d) sub \<and> getmID d = m \<and> m_bHasItems d = False"
  show ?case
  proof (cases ?p)
    case True
    then show ?thesis by (intro disjI2 exI [of _ "[]"] exI [of _ d] exI [of _ l]) (auto simp: key_of_def SDMComponent_ID_eq_iff)
  next
    case False
    then have "\<not> (m_bInUse d \<and> key_of d = Notify sub m)" by (auto simp: key_of_def SDMComponent_ID_eq_iff split: if_splits)
    then have n: "Notify sub m \<in> subs (d # l) \<longleftrightarrow> Notify sub m \<in> subs l" by (auto simp: subs_def)
    have c: "CancelSubscription_loop sub m (d # l) = d # CancelSubscription_loop sub m l" using False by auto
    show ?thesis unfolding c n using Cons by (metis append_Cons)
  qed
qed (simp add: subs_def)

lemma CancelSubscription_ok:
  assumes "good_list l"
  shows "good_list (CancelSubscription_loop sub m l) \<and> subs (CancelSubscription_loop sub m l) = subs l - {Notify sub m}"
proof -
  have "good_list (xs @ s' # ys) \<and> subs (xs @ s' # ys) = subs l - {key_of s}"
    if "l = xs @ s # ys" "m_bInUse s" "\<not> m_bInUse s'" for xs s s' ys
    using assms that by (auto simp: good_list_def subs_def good_def)
  note removed = this
  from CancelSubscription_finds [of sub m l] show ?thesis
  proof (elim disjE exE conjE)
    fix xs s ys
    assume h: "l = xs @ s # ys" "m_bInUse s" "key_of s = Notify sub m"
      "CancelSubscription_loop sub m l = xs @ setInuse False (setmID 0 (setPort 0 s)) # ys"
    have "\<not> m_bInUse (setInuse False (setmID 0 (setPort 0 s)))" by (simp add: setInuse_def)
    from removed [OF h(1,2) this] show ?thesis unfolding h(3,4) .
  qed (use assms in simp)
qed

lemma removeReqReg_keeps_good: "good_list l \<Longrightarrow> good_list (fst (removeReqRegSubscription_all reply sub l))"
  using removeReqReg_all_ok [of l REQ_REG_FUTURE sub] by (cases "reply = SUB_CANCEL") (auto simp: removeReqRegSubscription_all_def)

text \<open>The lists the Data Manager can have: it starts with the empty one, adds and cancels subscriptions to notifications,
  handles requests and cancels the requests of a component that failed. Of the messages it is assumed that the ids
  of notifications are below \<open>2^15\<close> and not the two that the Data Manager uses for replies.\<close>

inductive dm_list :: "Subscription list \<Rightarrow> bool" where
  empty: "dm_list []"
| notify: "dm_list l \<Longrightarrow> 0 \<le> mID \<Longrightarrow> mID < 2 ^ 15 \<Longrightarrow> mID \<noteq> SEARCH_REPLY \<Longrightarrow> mID \<noteq> VAR_REQ_REPLY \<Longrightarrow>
    addSubscription_notify l sub mID = Some (l', n) \<Longrightarrow> dm_list l'"
| cancel_notify: "dm_list l \<Longrightarrow> dm_list (CancelSubscription_loop sub mID l)"
| failed: "dm_list l \<Longrightarrow> dm_list (fst (removeReqRegSubscription_all reply sub l))"
| request: "dm_list l \<Longrightarrow> request_ok reply device interface itemname quallist mID \<Longrightarrow>
    addOrRemoveSubscription reply sub source device interface itemname quallist ID mID error l = Some (l', e, r) \<Longrightarrow>
    dm_list l'"

lemma dm_list_good: "dm_list l \<Longrightarrow> good_list l"
proof (induction rule: dm_list.induct)
  case empty
  show ?case by (simp add: good_list_def)
next
  case (notify l mID sub l' n)
  then show ?case using addSubscription_notify_ok [of l mID sub] by auto
next
  case cancel_notify
  then show ?case using CancelSubscription_ok by blast
next
  case failed
  then show ?case using removeReqReg_keeps_good by blast
next
  case request
  then show ?case using request_keeps_good by blast
qed

section \<open>Properties\<close>

text \<open>C10. In every list the Data Manager can reach, a request does to the set of active subscriptions
  what it asks for, with two exceptions, if it brings the strings that its kind needs: adding inserts the requested subscriptions, without duplicates and whether or
  not cancelled entries are recycled, and cancelling removes them; the list stays well formed and no NULL is compared or
  copied. The exceptions, both excluded by hypothesis, are a new variable request that meets an active entry of the
  subscriber without interface (a standing search), where \<^verbatim>\<open>strcmp\<close> gets NULL, and the cancellation of a variable
  request while the subscriber has another one for the same variable with a different interface, where the first of
  them goes, whichever was meant. The cancellation of a subscription to a notification removes that one.\<close>

theorem subscriptions_refine:
  assumes "dm_list l" "request_ok reply device interface itemname quallist mID"
    and "mID = VAR_REQ_REPLY \<Longrightarrow> reply \<noteq> SUB_CANCEL \<Longrightarrow> \<not> list_ex (null_interface sub source (the itemname)) l"
    and "reply = SUB_CANCEL \<Longrightarrow> unambiguous sub source interface itemname mID (subs l)"
  shows "(\<exists>l' e r. addOrRemoveSubscription reply sub source device interface itemname quallist ID mID error l
       = Some (l', e, r) \<and> dm_list l' \<and> distinct (active l') \<and> (r \<longleftrightarrow> reply \<noteq> SUB_CANCEL)
     \<and> request_spec reply sub source device interface itemname quallist mID (subs l) (subs l'))
     \<and> dm_list (CancelSubscription_loop sub nID l)
     \<and> subs (CancelSubscription_loop sub nID l) = subs l - {Notify sub nID}"
proof -
  have l: "good_list l" using assms(1) by (rule dm_list_good)
  have "\<exists>l' e r. addOrRemoveSubscription reply sub source device interface itemname quallist ID mID error l
       = Some (l', e, r) \<and> good_list l' \<and> (r \<longleftrightarrow> reply \<noteq> SUB_CANCEL)
     \<and> request_spec reply sub source device interface itemname quallist mID (subs l) (subs l')"
  proof (cases "reply = SUB_CURRENT_AND_FUTURE \<or> reply = SUB_CURRENT_FUTURE_AND_CANCELLATIONS")
    case True
    then have "reply \<noteq> SUB_CANCEL" by auto
    then show ?thesis using addition_refines [OF l True assms(2) assms(3), where ID = ID and error = error] True
      by (auto simp: request_spec_def)
  next
    case False
    show ?thesis
    proof (cases "reply = SUB_CANCEL")
      case True
      then show ?thesis using cancellation_refines [OF l] assms(4) by blast
    next
      case no_cancel: False
      then show ?thesis using False l by (auto simp: addOrRemoveSubscription_def request_spec_def)
    qed
  qed
  then show ?thesis using assms(1,2) dm_list.request dm_list.cancel_notify CancelSubscription_ok [OF l]
    by (fastforce simp: good_list_def)
qed

theorem subscriptions_refine_witness:
  "\<exists>l' e r. addOrRemoveSubscription SUB_CURRENT_FUTURE_AND_CANCELLATIONS SDMComponent_ID_new SDMComponent_ID_new
       (Some ''cam'') (Some ''i'') (Some ''x'') (Some []) 1 REQ_REG_FUTURE 0 [] = Some (l', e, r) \<and> r
     \<and> subs l' = {ReqReg REQ_REG_FUTURE SDMComponent_ID_new SDMComponent_ID_new ''cam'' ''i'' ''x'' [],
         ReqReg REQ_REG_CANCELLATION SDMComponent_ID_new SDMComponent_ID_new ''cam'' ''i'' ''x'' []}"
  using subscriptions_refine [OF dm_list.empty, of SUB_CURRENT_FUTURE_AND_CANCELLATIONS "Some ''cam''" "Some ''i''"
      "Some ''x''" "Some []" REQ_REG_FUTURE SDMComponent_ID_new SDMComponent_ID_new 1 0]
  by (auto simp: request_ok_def request_spec_def request_keys_def subs_def)

text \<open>The cancellation of a variable request at one interface cancels an older request for the same variable at another:
  \<^verbatim>\<open>removeVarReqSubscription\<close> gets the interface and does not look at it.\<close>

theorem varreq_cancel_wrong_interface:
  assumes "itf \<noteq> itf'"
  shows "\<exists>l1 l2 l3. addOrRemoveSubscription SUB_CURRENT_AND_FUTURE sub source None (Some itf) (Some itm) None ID VAR_REQ_REPLY error [] = Some (l1, error, True)
     \<and> addOrRemoveSubscription SUB_CURRENT_AND_FUTURE sub source None (Some itf') (Some itm) None ID' VAR_REQ_REPLY error l1 = Some (l2, error, True)
     \<and> removeVarReqSubscription sub source (Some itf') (Some itm) l2 = Some (l3, False)
     \<and> subs l2 = {VarReq sub source itf itm, VarReq sub source itf' itm} \<and> subs l3 = {VarReq sub source itf' itm}"
proof -
  let ?f = "\<lambda>itf ID s. do { s \<leftarrow> setItemName (Some itm) s;
         let s = setID ID (setItems True (setInuse True (setmID VAR_REQ_REPLY (setSource source (setDestination sub s)))));
         setInterface (Some itf) s }"
  obtain d where d: "?f itf ID Subscription_new = Some d" "m_bInUse d" "good d" "key_of d = VarReq sub source itf itm"
    using enters_varreq [of itm ID source sub itf] unfolding enters_def by blast
  obtain d' where d': "?f itf' ID' Subscription_new = Some d'" "m_bInUse d'" "good d'" "key_of d' = VarReq sub source itf' itm"
    using enters_varreq [of itm ID' source sub itf'] unfolding enters_def by blast
  have fill: "fill [] (?f itf ID) = Some [d]" "fill [d] (?f itf' ID') = Some [d, d']"
  proof -
    have entry: "fill [] g = Some [x]" "fill [d] g = Some [d, x]" if "g Subscription_new = Some x" for g x
      using that d(2) by (simp_all add: fill_def free_node_def addSubscription_def)
    show "fill [] (?f itf ID) = Some [d]" by (rule entry(1)) (rule d(1))
    show "fill [d] (?f itf' ID') = Some [d, d']" by (rule entry(2)) (rule d'(1))
  qed
  have "\<not> null_interface sub source itm d" using null_interface_key [OF d(3)] d(4) by force
  then have dup: "scan (varreq_duplicate sub source (Some itf') (Some itm)) [d] = Some False"
    using varreq_duplicate_eq [OF d(3)] d(4) assms by simp
  have first: "kind_cancel_match VAR_REQ_REPLY sub source (Some itm) d = Some True"
    using varreq_cancel_match_eq [OF d(3)] d(2,4) by simp
  let ?l = "[d, d']"
  have "addOrRemoveSubscription SUB_CURRENT_AND_FUTURE sub source None (Some itf) (Some itm) None ID VAR_REQ_REPLY error [] = Some ([d], error, True)"
    using fill(1) by (simp add: addOrRemoveSubscription_def addVarReqSubscription_def)
  moreover have "addOrRemoveSubscription SUB_CURRENT_AND_FUTURE sub source None (Some itf') (Some itm) None ID' VAR_REQ_REPLY error [d] = Some (?l, error, True)"
    using fill(2) dup by (simp add: addOrRemoveSubscription_def addVarReqSubscription_def)
  moreover have "removeVarReqSubscription sub source (Some itf') (Some itm) ?l = Some ([cancel d, d'], False)"
    using first by (simp add: removeVarReqSubscription_def)
  moreover have "subs ?l = {VarReq sub source itf itm, VarReq sub source itf' itm}" "subs [cancel d, d'] = {VarReq sub source itf' itm}"
    using d(2,4) d'(2,4) by (simp_all add: subs_def)
  ultimately show ?thesis by blast
qed

text \<open>A client that has a standing search for a text and then asks for a variable of that name, at
  the same source, makes the Data Manager pass NULL to \<^verbatim>\<open>strcmp\<close>: the interface of the search entry is
  compared before its kind.\<close>

theorem search_then_varreq_null:
  "\<exists>l. addOrRemoveSubscription SUB_CURRENT_AND_FUTURE sub source None None (Some itm) None ID SEARCH_REPLY error []
       = Some (l, error, True) \<and> dm_list l
     \<and> addOrRemoveSubscription SUB_CURRENT_AND_FUTURE sub source None (Some itf) (Some itm) None ID' VAR_REQ_REPLY error l
       = None"
proof -
  obtain l where l: "addOrRemoveSubscription SUB_CURRENT_AND_FUTURE sub source None None (Some itm) None ID SEARCH_REPLY
      error [] = Some (l, error, True)" "list_ex (null_interface sub source itm) l" "length l = 1"
    by (simp add: addOrRemoveSubscription_def addSearchSubscription_def fill_def free_node_def addSubscription_def
        null_interface_def setter_defs Subscription_new_def)
  have d: "dm_list l"
    by (rule dm_list.request [OF dm_list.empty _ l(1)]) (simp add: request_ok_def)
  have "scan (varreq_duplicate sub source (Some itf) (Some itm)) l = None"
    using l(2,3) varreq_duplicate_eq [OF good_listD [OF dm_list_good [OF d]]]
    by (cases l) (auto split: if_splits)
  then show ?thesis using l(1) d by (auto simp: addOrRemoveSubscription_def addVarReqSubscription_def)
qed

end
