(* ===== verification/Provider_Subscriptions.thy ===== *)
theory Provider_Subscriptions
  imports Messages_Fixed
begin

text \<open>
  The Data Manager's record of who subscribed to which notification of which provider,
  \<^verbatim>\<open>dm/ProviderSubscription.cpp\<close> and \<^verbatim>\<open>dm/ProviderSubscriptionList.cpp\<close>. When a subscriber fails, its
  subscriptions are cancelled at the providers with SDMDeletesub messages, so that they stop
  publishing to it.

  The linked list is a list. The loops that delete walk with a previous and a current node; \<open>kept\<close>
  is the part already passed, the last node first. Deleted nodes are returned.
\<close>

record ProviderSubscription =
  m_ProviderId :: SDMComponent_ID
  m_SubscriberId :: SDMComponent_ID
  m_MessageId :: SDMMessage_ID

definition ProviderSubscription_new :: ProviderSubscription where
  "ProviderSubscription_new = \<lparr>m_ProviderId = SDMComponent_ID_new, m_SubscriberId = SDMComponent_ID_new,
     m_MessageId = SDMMessage_ID_new 0 0\<rparr>"

definition ProviderSubscription_Set ::
    "ProviderSubscription \<Rightarrow> SDMComponent_ID \<Rightarrow> SDMComponent_ID \<Rightarrow> SDMMessage_ID \<Rightarrow> ProviderSubscription" where
  "ProviderSubscription_Set d idProvider idSubscriber idMessage =
     d\<lparr>m_ProviderId := SDMComponent_ID_assign (m_ProviderId d) idProvider,
       m_SubscriberId := SDMComponent_ID_assign (m_SubscriberId d) idSubscriber, m_MessageId := idMessage\<rparr>"

fun Add_node :: "ProviderSubscription list \<Rightarrow> ProviderSubscription \<Rightarrow> ProviderSubscription list" where
  "Add_node [] pNode = [pNode]"
| "Add_node [pCur] pNode = [pCur, pNode]"
| "Add_node (pCur # pNext # rest) pNode = pCur # Add_node (pNext # rest) pNode"

definition Add ::
    "ProviderSubscription list \<Rightarrow> SDMComponent_ID \<Rightarrow> SDMComponent_ID \<Rightarrow> SDMMessage_ID \<Rightarrow> ProviderSubscription list" where
  "Add l ProviderId SubscriberId MessageId =
     Add_node l (ProviderSubscription_Set ProviderSubscription_new ProviderId SubscriberId MessageId)"

fun DeleteList :: "ProviderSubscription list \<Rightarrow> ProviderSubscription list \<times> ProviderSubscription list" where
  "DeleteList [] = ([], [])"
| "DeleteList (pCur # pNext) = (let (l, deleted) = DeleteList pNext in (l, pCur # deleted))"

fun delete_loop ::
    "(ProviderSubscription \<Rightarrow> bool) \<Rightarrow> ProviderSubscription list \<Rightarrow> ProviderSubscription list
     \<Rightarrow> ProviderSubscription list \<times> ProviderSubscription list" where
  "delete_loop p kept [] = (rev kept, [])"
| "delete_loop p kept (pCur # pNext) =
     (if p pCur then (let (l, deleted) = delete_loop p kept pNext in (l, pCur # deleted))
      else delete_loop p (pCur # kept) pNext)"

definition Delete ::
    "ProviderSubscription list \<Rightarrow> SDMComponent_ID \<Rightarrow> SDMMessage_ID \<Rightarrow> ProviderSubscription list \<times> ProviderSubscription list" where
  "Delete l SubscriberId MessageId =
     delete_loop (\<lambda>d. SDMComponent_ID_eq (m_SubscriberId d) SubscriberId \<and> SDMMessage_ID_eq (m_MessageId d) MessageId) [] l"

definition at_address :: "SDMComponent_ID \<Rightarrow> ProviderSubscription \<Rightarrow> bool" where
  "at_address c d = (m_ulAddress c = m_ulAddress (m_SubscriberId d) \<and> m_usPort c = m_usPort (m_SubscriberId d))"

definition DeleteAll ::
    "ProviderSubscription list \<Rightarrow> SDMComponent_ID \<Rightarrow> bool \<Rightarrow> ProviderSubscription list \<times> ProviderSubscription list" where
  "DeleteAll l compId bUseProviderId =
     delete_loop (\<lambda>d. bUseProviderId \<and> SDMComponent_ID_eq (m_ProviderId d) compId
       \<or> \<not> bUseProviderId \<and> at_address compId d) [] l"

text \<open>The loop of \<^verbatim>\<open>SubscriberFinish\<close>: one message object is filled and sent for every entry of the
  subscriber. \<open>envs n\<close> is the environment of the \<open>n\<close>-th send; the result of \<^verbatim>\<open>Send\<close> is ignored.\<close>

primrec send_deletes ::
    "(nat \<Rightarrow> env) \<Rightarrow> SDMComponent_ID \<Rightarrow> nat \<Rightarrow> SDMDeletesub \<Rightarrow> ProviderSubscription list
     \<Rightarrow> (SDMDeletesub \<times> byte list list) option" where
  "send_deletes envs SubscriberId n msgDelete [] = Some (msgDelete, [])"
| "send_deletes envs SubscriberId n msgDelete (pCur # pNext) =
     (if at_address SubscriberId pCur then do {
        let msgDelete = msgDelete\<lparr>SDMDeletesub_source := m_ProviderId pCur,
          SDMDeletesub_destination := m_SubscriberId pCur, SDMDeletesub_msg_id := m_MessageId pCur\<rparr>;
        (msgDelete, sent, _) \<leftarrow> SDMDeletesub_Send (envs n) msgDelete;
        (msgDelete, rest) \<leftarrow> send_deletes envs SubscriberId (n + 1) msgDelete pNext;
        Some (msgDelete, sent @ rest) }
      else send_deletes envs SubscriberId n msgDelete pNext)"

definition SubscriberFinish ::
    "(nat \<Rightarrow> env) \<Rightarrow> ProviderSubscription list \<Rightarrow> SDMComponent_ID
     \<Rightarrow> (ProviderSubscription list \<times> ProviderSubscription list \<times> byte list list) option" where
  "SubscriberFinish envs l SubscriberId = do {
     (_, sent) \<leftarrow> send_deletes envs SubscriberId 0 SDMDeletesub_new l;
     let (l, deleted) = DeleteAll l SubscriberId False;
     Some (l, deleted, sent) }"

definition ProviderFinish ::
    "ProviderSubscription list \<Rightarrow> SDMComponent_ID \<Rightarrow> ProviderSubscription list \<times> ProviderSubscription list" where
  "ProviderFinish l ProviderId = DeleteAll l ProviderId True"

section \<open>The list as a sequence\<close>

lemma Add_node_append: "Add_node l d = l @ [d]"
  by (induction l d rule: Add_node.induct) simp_all

lemma delete_loop_filter: "delete_loop p kept l = (rev kept @ filter (\<lambda>d. \<not> p d) l, filter p l)"
  by (induction l arbitrary: kept) simp_all

lemma DeleteList_all: "DeleteList l = ([], l)"
  by (induction l) simp_all

definition deletesub_bytes :: "timeval \<Rightarrow> ProviderSubscription \<Rightarrow> byte list" where
  "deletesub_bytes now d = datagram_bytes SDM_Deletesub now
     (SDMDeletesub_enc (m_ProviderId d, m_SubscriberId d, m_MessageId d))"

text \<open>What a send of the message for an entry puts on the wire: the datagram goes to the provider of the entry, so
  nothing is sent exactly when no socket to that address and port can be had.\<close>

definition at_provider :: "env \<Rightarrow> ProviderSubscription \<Rightarrow> byte list list" where
  "at_provider e d =
     (if net_connect (env_net e) (m_ulAddress (m_ProviderId d)) (m_usPort (m_ProviderId d)) = IP_SOCK_INVALID then []
      else [deletesub_bytes (env_now e) d])"

lemma deletesub_sent:
  assumes "SDMDeletesub_wf m" "length (env_stk e) = BUFSIZE"
  shows "\<exists>m' r. SDMDeletesub_Send e (m\<lparr>SDMDeletesub_source := m_ProviderId d, SDMDeletesub_destination := m_SubscriberId d,
      SDMDeletesub_msg_id := m_MessageId d\<rparr>) = Some (m', at_provider e d, r) \<and> SDMDeletesub_wf m'"
proof -
  let ?m = "m\<lparr>SDMDeletesub_source := m_ProviderId d, SDMDeletesub_destination := m_SubscriberId d,
      SDMDeletesub_msg_id := m_MessageId d\<rparr>"
  have wf: "SDMDeletesub_wf ?m" using assms(1) by (simp add: SDMDeletesub_wf_def)
  show ?thesis
  proof (cases "net_connect (env_net e) (m_ulAddress (m_ProviderId d)) (m_usPort (m_ProviderId d)) = IP_SOCK_INVALID")
    case True
    from wf TrueI assms(2) obtain m' where "SDMDeletesub_Marshal (env_now e) ?m (env_stk e) =
        Some (m', deletesub.datagram (env_now e) ?m @ drop (length (deletesub.datagram (env_now e) ?m)) (env_stk e),
          int (length (deletesub.datagram (env_now e) ?m)))" "SDMDeletesub_wf m'"
      by (rule deletesub.Marshal_datagram)
    then show ?thesis using True by (simp add: SDMDeletesub_Send_def SendTo_checked_def SendTo_def at_provider_def)
  next
    case False
    then show ?thesis
      using deletesub.SendTo_once [OF wf TrueI assms(2), of "env_net e" "SDMDeletesub_source ?m" "env_ack e" "env_now e"]
      by (auto simp: SDMDeletesub_Send_def SendTo_checked_def deletesub.datagram_def SDMDeletesub_view_def
          deletesub_bytes_def at_provider_def)
  qed
qed

lemma send_deletes_sent:
  assumes "SDMDeletesub_wf m" "\<And>i. length (env_stk (envs i)) = BUFSIZE"
  shows "\<exists>m'. send_deletes envs s n m l = Some (m',
     concat (map (\<lambda>(i, d). at_provider (envs i) d) (enumerate n (filter (at_address s) l))))"
  using assms(1)
proof (induction l arbitrary: n m)
  case (Cons d l)
  show ?case
  proof (cases "at_address s d")
    case True
    obtain m1 r where m1: "SDMDeletesub_Send (envs n) (m\<lparr>SDMDeletesub_source := m_ProviderId d,
        SDMDeletesub_destination := m_SubscriberId d, SDMDeletesub_msg_id := m_MessageId d\<rparr>)
        = Some (m1, at_provider (envs n) d, r)" "SDMDeletesub_wf m1"
      using deletesub_sent [OF Cons.prems assms(2)] by blast
    show ?thesis using Cons.IH [OF m1(2), of "Suc n"] m1(1) True by auto
  next
    case False
    then show ?thesis using Cons.IH [OF Cons.prems] by simp
  qed
qed simp

section \<open>Property\<close>

text \<open>C29. When a subscriber fails, each of its subscriptions is cancelled at the provider of that subscription: for every
  entry, in the order of the list, one SDMDeletesub message with the provider, subscriber and message id of the entry
  is sent to the address and port of the provider. The network is arbitrary: a message is sent exactly when a socket
  to that provider can be had, whether or not the subscriber or anybody else can be reached. Afterwards the list has
  none of the subscriber's entries and all others, in their order.\<close>

theorem subscriber_finish:
  assumes "\<And>i. length (env_stk (envs i)) = BUFSIZE"
  shows "SubscriberFinish envs l s = Some (filter (\<lambda>d. \<not> at_address s d) l, filter (at_address s) l,
     concat (map (\<lambda>(i, d).
         if net_connect (env_net (envs i)) (m_ulAddress (m_ProviderId d)) (m_usPort (m_ProviderId d)) = IP_SOCK_INVALID then []
         else [datagram_bytes SDM_Deletesub (env_now (envs i)) (SDMDeletesub_enc (m_ProviderId d, m_SubscriberId d, m_MessageId d))])
       (enumerate 0 (filter (at_address s) l))))"
proof -
  have "SDMDeletesub_wf SDMDeletesub_new"
    by (simp add: SDMDeletesub_wf_def SDMDeletesub_new_def new_message_def SDMmessage.defs)
  with send_deletes_sent [of SDMDeletesub_new envs s 0 l, unfolded at_provider_def deletesub_bytes_def] assms show ?thesis
    by (auto simp: SubscriberFinish_def DeleteAll_def delete_loop_filter)
qed

definition quiet_env :: env where
  "quiet_env = \<lparr>TaskManager = SDMComponent_ID_new, DataManager = SDMComponent_ID_new, PID = 7,
     env_net = \<lparr>net_connect = (\<lambda>_ _. 3), net_send = (\<lambda>i d. int (length d)), net_recv = (\<lambda>_. None),
       net_passive = (\<lambda>_. 4)\<rparr>,
     env_stk = replicate 24288 0, env_ack = replicate 16 0, env_now = (1, 2)\<rparr>"

text \<open>Two subscriptions of the subscriber with port 5 at the providers with ports 8 and 9, of which only the second can be
  reached, and one of another subscriber.\<close>

definition port_env :: "16 word \<Rightarrow> env" where
  "port_env p = quiet_env\<lparr>env_net := (env_net quiet_env)\<lparr>net_connect := (\<lambda>_ q. if q = p then 3 else IP_SOCK_INVALID)\<rparr>\<rparr>"

theorem subscriber_finish_witness:
  "let c = (\<lambda>p. SDMComponent_ID_new\<lparr>m_usPort := p\<rparr>); d = SDMMessage_ID_new 1 2
   in SubscriberFinish (\<lambda>_. port_env 9) (Add (Add (Add [] (c 8) (c 5) d) (c 9) (c 5) d) (c 8) (c 9) d) (c 5)
     = Some ([\<lparr>m_ProviderId = c 8, m_SubscriberId = c 9, m_MessageId = d\<rparr>],
         [\<lparr>m_ProviderId = c 8, m_SubscriberId = c 5, m_MessageId = d\<rparr>, \<lparr>m_ProviderId = c 9, m_SubscriberId = c 5, m_MessageId = d\<rparr>],
         [datagram_bytes SDM_Deletesub (1, 2) (SDMDeletesub_enc (c 9, c 5, d))])"
proof -
  have "length (env_stk (port_env 9)) = BUFSIZE" by (simp add: port_env_def quiet_env_def)
  from subscriber_finish [of "\<lambda>_. port_env 9", OF this] show ?thesis
    by (simp add: Add_def Add_node_append ProviderSubscription_Set_def ProviderSubscription_new_def Let_def
        SDMComponent_ID_assign_def SDMComponent_ID_new_def at_address_def port_env_def quiet_env_def)
qed

end
