(* ===== verification/Reg_Queue.thy ===== *)
theory Reg_Queue
  imports Message_IDs
begin

text \<open>
  The queues of pending registrations and cancellations of the Data Manager,
  \<^verbatim>\<open>common/SDMRegQueue.cpp\<close> and \<^verbatim>\<open>common/SDMCancelQueue.cpp\<close>: an array of \<^verbatim>\<open>SIZE\<close> elements with a head
  and a tail index. The two classes have the same code and differ in the element type.

  The locale \<open>fifo\<close> is what a client of a bounded queue relies on; it is interpreted on the array
  queue with the conditions under which the code meets it: the last slot is never used, so a tail
  index behind it and a head index at its front denote the same position, which the tests for empty
  and full do not know.
\<close>

abbreviation SIZE :: nat where "SIZE \<equiv> 100"

section \<open>The array queue\<close>

record 'a ring =
  queue :: "'a list"
  headIndex :: nat
  tailIndex :: nat

definition ring_new :: "'a \<Rightarrow> 'a ring" where
  "ring_new d = \<lparr>queue = replicate SIZE d, headIndex = 0, tailIndex = 0\<rparr>"

definition ring_full :: "'a ring \<Rightarrow> bool" where
  "ring_full q = (tailIndex q + 1 = headIndex q \<or> tailIndex q + 1 = SIZE - 1 \<and> headIndex q = 0)"

definition ring_add :: "'a ring \<Rightarrow> 'a \<Rightarrow> 'a ring" where
  "ring_add q toAdd =
     (if ring_full q then q
      else let tail = (if tailIndex q = SIZE - 1 then 0 else tailIndex q)
           in q\<lparr>queue := (queue q)[tail := toAdd], tailIndex := tail + 1\<rparr>)"

definition ring_dequeue :: "'a \<Rightarrow> 'a ring \<Rightarrow> 'a \<times> 'a ring" where
  "ring_dequeue none q =
     (if headIndex q = tailIndex q then (none, q)
      else let toReturn = queue q ! headIndex q; head = headIndex q + 1
           in (toReturn, q\<lparr>headIndex := (if head = SIZE - 1 then 0 else head)\<rparr>))"

definition ring_size :: "'a ring \<Rightarrow> nat" where
  "ring_size q =
     (if headIndex q = tailIndex q then 0
      else if headIndex q < tailIndex q then tailIndex q - headIndex q
      else (SIZE - headIndex q) + tailIndex q)"

definition ring_find :: "('a \<Rightarrow> bool) \<Rightarrow> 'a ring \<Rightarrow> bool" where
  "ring_find p q =
     (if headIndex q < tailIndex q then list_ex (\<lambda>i. p (queue q ! i)) [headIndex q..<tailIndex q]
      else if tailIndex q < headIndex q
      then list_ex (\<lambda>i. p (queue q ! i)) [headIndex q..<SIZE] \<or> list_ex (\<lambda>i. p (queue q ! i)) [0..<tailIndex q]
      else False)"

type_synonym SDMRegQueue = "SDMComponent_ID ring"

definition SDMRegQueue_new :: SDMRegQueue where
  "SDMRegQueue_new = ring_new SDMComponent_ID_new"

definition SDMRegQueue_add :: "SDMRegQueue \<Rightarrow> SDMComponent_ID \<Rightarrow> SDMRegQueue" where
  "SDMRegQueue_add q toAdd = ring_add q toAdd"

definition SDMRegQueue_dequeue :: "SDMRegQueue \<Rightarrow> SDMComponent_ID \<times> SDMRegQueue" where
  "SDMRegQueue_dequeue q = ring_dequeue SDMComponent_ID_new q"

definition SDMRegQueue_size :: "SDMRegQueue \<Rightarrow> nat" where
  "SDMRegQueue_size q = ring_size q"

definition SDMRegQueue_find :: "SDMRegQueue \<Rightarrow> SDMComponent_ID \<Rightarrow> bool" where
  "SDMRegQueue_find q toFind = ring_find (\<lambda>c. SDMComponent_ID_eq c toFind) q"

text \<open>The cancellation queue holds pointers, NULL being \<^term>\<open>None\<close>. Its constructor leaves the array
  as it is.\<close>

type_synonym SDMCancelQueue = "nat option ring"

definition SDMCancelQueue_new :: "nat option list \<Rightarrow> SDMCancelQueue" where
  "SDMCancelQueue_new uninit = \<lparr>queue = uninit, headIndex = 0, tailIndex = 0\<rparr>"

definition SDMCancelQueue_add :: "SDMCancelQueue \<Rightarrow> nat option \<Rightarrow> SDMCancelQueue" where
  "SDMCancelQueue_add q toAdd = ring_add q toAdd"

definition SDMCancelQueue_dequeue :: "SDMCancelQueue \<Rightarrow> nat option \<times> SDMCancelQueue" where
  "SDMCancelQueue_dequeue q = ring_dequeue None q"

definition SDMCancelQueue_size :: "SDMCancelQueue \<Rightarrow> nat" where
  "SDMCancelQueue_size q = ring_size q"

section \<open>What a client relies on\<close>

datatype 'a op = Enq 'a | Deq

text \<open>A run of a queue: the elements it delivered, those it accepted and the queue it ends with. A
  delivery from an empty queue (\<open>items\<close>) is not asked for.\<close>

fun run_queue ::
    "('q \<Rightarrow> 'a \<Rightarrow> 'q) \<Rightarrow> ('q \<Rightarrow> bool) \<Rightarrow> ('q \<Rightarrow> 'a \<times> 'q) \<Rightarrow> 'q \<Rightarrow> 'a op list \<Rightarrow> 'a list \<times> 'a list \<times> 'q" where
  "run_queue add full deq q [] = ([], [], q)"
| "run_queue add full deq q (Enq x # ops) =
     (let (out, acc, q') = run_queue add full deq (add q x) ops in (out, (if full q then acc else x # acc), q'))"
| "run_queue add full deq q (Deq # ops) =
     (let (x, q1) = deq q; (out, acc, q') = run_queue add full deq q1 ops in (x # out, acc, q'))"

fun run_ok :: "('q \<Rightarrow> 'a \<Rightarrow> 'q) \<Rightarrow> ('q \<Rightarrow> 'a \<times> 'q) \<Rightarrow> ('q \<Rightarrow> 'a list) \<Rightarrow> ('q \<Rightarrow> bool) \<Rightarrow> 'q \<Rightarrow> 'a op list \<Rightarrow> bool" where
  "run_ok add deq items safe q [] = True"
| "run_ok add deq items safe q (Enq x # ops) = (safe q \<and> run_ok add deq items safe (add q x) ops)"
| "run_ok add deq items safe q (Deq # ops) = (items q \<noteq> [] \<and> run_ok add deq items safe (snd (deq q)) ops)"

locale fifo =
  fixes add :: "'q \<Rightarrow> 'a \<Rightarrow> 'q"
    and full :: "'q \<Rightarrow> bool"
    and deq :: "'q \<Rightarrow> 'a \<times> 'q"
    and items :: "'q \<Rightarrow> 'a list"
    and good :: "'q \<Rightarrow> bool"
    and safe :: "'q \<Rightarrow> bool"
  assumes good_add: "good q \<Longrightarrow> good (add q x)"
    and good_deq: "good q \<Longrightarrow> good (snd (deq q))"
    and items_add: "good q \<Longrightarrow> safe q \<Longrightarrow> items (add q x) = (if full q then items q else items q @ [x])"
    and items_deq: "good q \<Longrightarrow> items q \<noteq> [] \<Longrightarrow> fst (deq q) # items (snd (deq q)) = items q"
begin

lemma run_in_order:
  "good q \<Longrightarrow> run_ok add deq items safe q ops \<Longrightarrow> run_queue add full deq q ops = (out, acc, q') \<Longrightarrow>
     out @ items q' = items q @ acc \<and> good q'"
proof (induction ops arbitrary: q out acc q')
  case (Cons op ops)
  show ?case
  proof (cases op)
    case (Enq x)
    obtain acc' where r: "run_queue add full deq (add q x) ops = (out, acc', q')"
        "acc = (if full q then acc' else x # acc')"
      using Cons.prems(3) Enq by (auto split: prod.splits)
    show ?thesis
      using Cons.IH [OF good_add _ r(1)] Cons.prems items_add [of q x] r(2) Enq by (auto split: if_splits)
  next
    case Deq
    obtain x q1 out' where r: "deq q = (x, q1)" "run_queue add full deq q1 ops = (out', acc, q')" "out = x # out'"
      using Cons.prems(3) Deq by (auto split: prod.splits)
    show ?thesis
      using Cons.IH [OF _ _ r(2)] Cons.prems good_deq [of q] items_deq [of q] r(1,3) Deq by auto
  qed
qed simp

end

section \<open>The array queue as a queue\<close>

definition slots :: "'a ring \<Rightarrow> nat \<Rightarrow> nat \<Rightarrow> 'a list" where
  "slots q a b = map ((!) (queue q)) [a..<b]"

text \<open>The elements that wait. A head at the front with a tail behind the last used slot is the queue
  that was emptied, not one that holds all slots: the test for full prevents the latter.\<close>

definition ring_items :: "'a ring \<Rightarrow> 'a list" where
  "ring_items q =
     (if headIndex q = 0 \<and> tailIndex q = SIZE - 1 then []
      else if headIndex q \<le> tailIndex q then slots q (headIndex q) (tailIndex q)
      else slots q (headIndex q) (SIZE - 1) @ slots q 0 (tailIndex q))"

definition ring_good :: "'a ring \<Rightarrow> bool" where
  "ring_good q = (length (queue q) = SIZE \<and> headIndex q < SIZE - 1 \<and> tailIndex q < SIZE)"

text \<open>Adding is unsafe in one position: the tail is behind the last used slot and the head at the
  second one.\<close>

definition add_safe :: "'a ring \<Rightarrow> bool" where
  "add_safe q = (\<not> (headIndex q = 1 \<and> tailIndex q = SIZE - 1))"

lemma slots_update [simp]:
  "\<not> (a \<le> i \<and> i < b) \<Longrightarrow> slots (q\<lparr>queue := (queue q)[i := x], tailIndex := t\<rparr>) a b = slots q a b"
  by (auto simp: slots_def nth_list_update)

lemma slots_snoc:
  "a \<le> i \<Longrightarrow> i < length (queue q) \<Longrightarrow>
     slots (q\<lparr>queue := (queue q)[i := x], tailIndex := t\<rparr>) a (Suc i) = slots q a i @ [x]"
  by (auto simp: slots_def nth_list_update)

lemma slots_head [simp]: "slots (q\<lparr>headIndex := h\<rparr>) a b = slots q a b"
  by (simp add: slots_def)

lemma slots_Cons: "a < b \<Longrightarrow> slots q a b = queue q ! a # slots q (Suc a) b"
  by (simp add: slots_def upt_conv_Cons)

lemma slots_empty [simp]: "b \<le> a \<Longrightarrow> slots q a b = []"
  by (simp add: slots_def)

lemma ring_add_good: "ring_good q \<Longrightarrow> ring_good (ring_add q x)"
  by (auto simp: ring_good_def ring_add_def Let_def ring_full_def)

lemma ring_dequeue_good: "ring_good q \<Longrightarrow> ring_good (snd (ring_dequeue d q))"
  by (auto simp: ring_good_def ring_dequeue_def Let_def)

lemma ring_items_add:
  assumes "ring_good q" "add_safe q"
  shows "ring_items (ring_add q x) = (if ring_full q then ring_items q else ring_items q @ [x])"
proof (cases "ring_full q \<or> tailIndex q = SIZE - 1")
  case True
  with assms show ?thesis
    by (auto simp: ring_add_def ring_items_def ring_good_def add_safe_def slots_def)
next
  case False
  then have f: "ring_add q x = q\<lparr>queue := (queue q)[tailIndex q := x], tailIndex := Suc (tailIndex q)\<rparr>"
    by (simp add: ring_add_def Let_def)
  show ?thesis
    using assms False by (auto simp: f ring_items_def ring_good_def ring_full_def slots_snoc)
qed

lemma ring_items_dequeue:
  assumes "ring_good q" "ring_items q \<noteq> []"
  shows "fst (ring_dequeue d q) # ring_items (snd (ring_dequeue d q)) = ring_items q"
  using assms
  by (auto simp: ring_dequeue_def ring_items_def ring_good_def slots_Cons [of "headIndex q"] slots_Cons [of 98] Let_def)

interpretation rq: fifo SDMRegQueue_add ring_full SDMRegQueue_dequeue ring_items ring_good add_safe
  by unfold_locales
     (simp_all add: SDMRegQueue_add_def SDMRegQueue_dequeue_def ring_add_good ring_dequeue_good ring_items_add ring_items_dequeue)

interpretation cq: fifo SDMCancelQueue_add ring_full SDMCancelQueue_dequeue ring_items ring_good add_safe
  by unfold_locales
     (simp_all add: SDMCancelQueue_add_def SDMCancelQueue_dequeue_def ring_add_good ring_dequeue_good ring_items_add ring_items_dequeue)

lemma new_queues:
  "ring_good SDMRegQueue_new" "ring_items SDMRegQueue_new = []"
  "length junk = SIZE \<Longrightarrow> ring_good (SDMCancelQueue_new junk) \<and> ring_items (SDMCancelQueue_new junk) = []"
  by (simp_all add: ring_good_def ring_items_def SDMRegQueue_new_def SDMCancelQueue_new_def ring_new_def)

section \<open>Emptying the queue behind the last slot\<close>

text \<open>Registrations that are taken out one by one: after \<open>n\<close> of them both indices are \<open>n\<close>.\<close>

definition one_by_one :: "SDMRegQueue \<Rightarrow> SDMComponent_ID list \<Rightarrow> SDMRegQueue" where
  "one_by_one q xs = fold (\<lambda>x q. snd (SDMRegQueue_dequeue (SDMRegQueue_add q x))) xs q"

lemma one_by_one_snoc:
  "one_by_one q (xs @ [x]) = snd (SDMRegQueue_dequeue (SDMRegQueue_add (one_by_one q xs) x))"
  by (simp add: one_by_one_def)

lemmas queue_ops = SDMRegQueue_dequeue_def SDMRegQueue_add_def ring_add_def ring_full_def ring_dequeue_def Let_def

lemma one_by_one_state:
  "length xs < SIZE - 1 \<Longrightarrow>
     one_by_one SDMRegQueue_new xs = \<lparr>queue = xs @ replicate (SIZE - length xs) SDMComponent_ID_new,
       headIndex = length xs, tailIndex = length xs\<rparr>"
proof (induction xs rule: rev_induct)
  case Nil
  show ?case by (simp add: one_by_one_def SDMRegQueue_new_def ring_new_def)
next
  case (snoc x xs)
  have r: "replicate (SIZE - length xs) SDMComponent_ID_new
      = SDMComponent_ID_new # replicate (SIZE - length (xs @ [x])) SDMComponent_ID_new"
    using snoc.prems by (cases "SIZE - length xs") auto
  have s: "one_by_one SDMRegQueue_new xs = \<lparr>queue = xs @ replicate (SIZE - length xs) SDMComponent_ID_new,
      headIndex = length xs, tailIndex = length xs\<rparr>"
    using snoc by simp
  show ?case
    unfolding one_by_one_snoc s r using snoc.prems by (simp add: queue_ops list_update_append)
qed

lemma one_by_one_all:
  assumes "length xs = SIZE - 1"
  shows "one_by_one SDMRegQueue_new xs = \<lparr>queue = xs @ [SDMComponent_ID_new], headIndex = 0, tailIndex = SIZE - 1\<rparr>"
proof -
  obtain ys x where xs: "xs = ys @ [x]" using assms by (cases xs rule: rev_cases) auto
  then have l: "length ys = 98" using assms by simp
  then have s: "one_by_one SDMRegQueue_new ys = \<lparr>queue = ys @ [SDMComponent_ID_new, SDMComponent_ID_new],
      headIndex = 98, tailIndex = 98\<rparr>"
    using one_by_one_state [of ys] by (simp add: numeral_2_eq_2)
  show ?thesis
    unfolding xs one_by_one_snoc s using l by (simp add: queue_ops list_update_append)
qed

definition dequeue_n :: "nat \<Rightarrow> SDMRegQueue \<Rightarrow> SDMRegQueue" where
  "dequeue_n k q = ((\<lambda>q. snd (SDMRegQueue_dequeue q)) ^^ k) q"

lemma dequeue_n_head:
  "q = \<lparr>queue = xs, headIndex = 0, tailIndex = SIZE - 1\<rparr> \<Longrightarrow>
     dequeue_n k q = q\<lparr>headIndex := k mod (SIZE - 1)\<rparr>"
proof (induction k)
  case (Suc k)
  then have "dequeue_n (Suc k) q = snd (SDMRegQueue_dequeue (q\<lparr>headIndex := k mod (SIZE - 1)\<rparr>))"
    by (simp add: dequeue_n_def)
  moreover have "k mod (SIZE - 1) < SIZE - 1" by simp
  ultimately show ?case using Suc.prems
    by (auto simp: SDMRegQueue_dequeue_def ring_dequeue_def mod_Suc)
qed (simp add: dequeue_n_def)

section \<open>Properties\<close>

text \<open>The registration queue delivers in the order of arrival: in every sequence of additions and
  deliveries in which elements are taken only when some wait and none is added in the unsafe position,
  what was delivered followed by what waits is what waited at first followed by what was accepted.\<close>

theorem registrations_in_order:
  assumes "ring_good q" "run_ok SDMRegQueue_add SDMRegQueue_dequeue ring_items add_safe q ops"
    and "run_queue SDMRegQueue_add ring_full SDMRegQueue_dequeue q ops = (out, acc, q')"
  shows "out @ ring_items q' = ring_items q @ acc \<and> ring_good q'"
  using assms by (rule rq.run_in_order)

theorem registrations_in_order_witness:
  "\<exists>out acc q'. run_queue SDMRegQueue_add ring_full SDMRegQueue_dequeue SDMRegQueue_new
       [Enq (SDMComponent_ID_new\<lparr>m_usPort := 1\<rparr>), Enq (SDMComponent_ID_new\<lparr>m_usPort := 2\<rparr>), Deq] = (out, acc, q')
     \<and> out @ ring_items q' = [SDMComponent_ID_new\<lparr>m_usPort := 1\<rparr>, SDMComponent_ID_new\<lparr>m_usPort := 2\<rparr>]"
proof -
  let ?ops = "[Enq (SDMComponent_ID_new\<lparr>m_usPort := 1\<rparr>), Enq (SDMComponent_ID_new\<lparr>m_usPort := 2\<rparr>), Deq]"
  have s: "run_ok SDMRegQueue_add SDMRegQueue_dequeue ring_items add_safe SDMRegQueue_new ?ops"
    by (simp add: SDMRegQueue_new_def ring_new_def SDMRegQueue_add_def ring_add_def ring_full_def add_safe_def
        ring_items_def slots_def)
  obtain out acc q' where r: "run_queue SDMRegQueue_add ring_full SDMRegQueue_dequeue SDMRegQueue_new ?ops = (out, acc, q')"
    by (metis surj_pair)
  have "acc = [SDMComponent_ID_new\<lparr>m_usPort := 1\<rparr>, SDMComponent_ID_new\<lparr>m_usPort := 2\<rparr>]"
    using r by (simp add: SDMRegQueue_new_def ring_new_def SDMRegQueue_add_def ring_add_def ring_full_def split: prod.splits)
  then show ?thesis
    using registrations_in_order [OF new_queues(1) s r] r
    by (simp add: SDMRegQueue_new_def ring_new_def ring_items_def slots_def)
qed

text \<open>After any 99 registrations have been queued and taken out one by one the queue is not empty
  again: \<^verbatim>\<open>size\<close> is 99 and further deliveries return the old registrations once more, over and over
  without end.\<close>

theorem registrations_replayed:
  assumes "length xs = SIZE - 1"
  shows "SDMRegQueue_size (one_by_one SDMRegQueue_new xs) = SIZE - 1
     \<and> fst (SDMRegQueue_dequeue (dequeue_n k (one_by_one SDMRegQueue_new xs))) = xs ! (k mod (SIZE - 1))
     \<and> SDMRegQueue_size (dequeue_n k (one_by_one SDMRegQueue_new xs)) \<noteq> 0"
proof -
  have "k mod (SIZE - 1) < SIZE - 1" by simp
  then show ?thesis
    unfolding one_by_one_all [OF assms] dequeue_n_head [OF refl]
    using assms by (simp add: SDMRegQueue_size_def ring_size_def SDMRegQueue_dequeue_def ring_dequeue_def nth_append)
qed

theorem registrations_replayed_witness:
  "SDMRegQueue_size (one_by_one SDMRegQueue_new (replicate 99 (SDMComponent_ID_new\<lparr>m_usPort := 7\<rparr>))) = 99
   \<and> fst (SDMRegQueue_dequeue (dequeue_n 1000 (one_by_one SDMRegQueue_new
        (replicate 99 (SDMComponent_ID_new\<lparr>m_usPort := 7\<rparr>))))) = SDMComponent_ID_new\<lparr>m_usPort := 7\<rparr>"
  using registrations_replayed [of "replicate 99 (SDMComponent_ID_new\<lparr>m_usPort := 7\<rparr>)" 1000] by simp

end
