(* ===== verification/Segment_Builder.thy ===== *)
theory Segment_Builder
  imports Messages_Data
begin

text \<open>
  Reassembly of xTEDS that a provider registers in segments, \<^verbatim>\<open>dm/xTEDSSegmentBuilder.cpp\<close>, and its use in
  the registration handler of \<^verbatim>\<open>dm/DM.cpp\<close>. The builder has five nodes, each with a buffer for four
  segments. A transfer is the number of segments announced, the number received and the text so far;
  the builder refines a map from providers to transfers, as long as at most four are in progress. The fifth
  node can be taken but is never found again.
\<close>

section \<open>xTEDSSegmentBuilder\<close>

abbreviation (input) XTEDS_EMPTY :: byte where "XTEDS_EMPTY \<equiv> 0"
abbreviation (input) XTEDS_RECEIVED :: byte where "XTEDS_RECEIVED \<equiv> 1"
abbreviation (input) MAX_XTEDS_SEQUENCE_VALUE :: byte where "MAX_XTEDS_SEQUENCE_VALUE \<equiv> 15"
abbreviation (input) MAX_NUMBER_SEGMENTS :: nat where "MAX_NUMBER_SEGMENTS \<equiv> 4"
abbreviation (input) SEGMENT_MAX_XTEDS_SIZE :: nat where "SEGMENT_MAX_XTEDS_SIZE \<equiv> 8070"
abbreviation (input) MAX_SEGMENT_NODES :: nat where "MAX_SEGMENT_NODES \<equiv> 5"

record xTEDSSegmentNode =
  IsInUse :: bool
  xTEDSBuffer :: buffer
  NumSegments :: "16 word"
  SegmentsReceived :: "byte list"
  xTEDSID :: SDMComponent_ID
  NextIndex :: "32 word"

type_synonym xTEDSSegmentBuilder = "xTEDSSegmentNode list"



definition IsSegmentedxTEDS :: "SDMxTEDS \<Rightarrow> bool option" where
  "IsSegmentedxTEDS msg = do {
     SeqNum \<leftarrow> get_byte (SDMxTEDS_xTEDS msg) 0;
     NumSegs \<leftarrow> get_byte (SDMxTEDS_xTEDS msg) 1;
     Some (SeqNum \<le> MAX_XTEDS_SEQUENCE_VALUE \<and> NumSegs \<le> MAX_XTEDS_SEQUENCE_VALUE \<and> NumSegs > 0) }"

definition AddSegmentNode :: "xTEDSSegmentBuilder \<Rightarrow> xTEDSSegmentBuilder \<times> nat option" where
  "AddSegmentNode NodeList =
     (case first_index (\<lambda>n. \<not> IsInUse n) NodeList of
        None \<Rightarrow> (NodeList, None)
      | Some i \<Rightarrow>
          let n = NodeList ! i;
              n = n\<lparr>xTEDSBuffer := replicate (length (xTEDSBuffer n)) 0\<rparr>;
              n = n\<lparr>NumSegments := 0\<rparr>;
              n = n\<lparr>SegmentsReceived := map (\<lambda>_. XTEDS_EMPTY) (SegmentsReceived n)\<rparr>;
              n = n\<lparr>xTEDSID := (xTEDSID n)\<lparr>m_ulSensorId := 0\<rparr>\<rparr>;
              n = n\<lparr>xTEDSID := (xTEDSID n)\<lparr>m_ulAddress := 0\<rparr>\<rparr>;
              n = n\<lparr>xTEDSID := (xTEDSID n)\<lparr>m_usPort := 0\<rparr>\<rparr>;
              n = n\<lparr>IsInUse := True\<rparr>
          in (NodeList[i := n], Some i))"

text \<open>The loop of \<^verbatim>\<open>FindNodeEntry\<close> ends at \<^verbatim>\<open>MAX_NUMBER_SEGMENTS\<close>, not at \<^verbatim>\<open>MAX_SEGMENT_NODES\<close>.\<close>

definition FindNodeEntry :: "SDMComponent_ID \<Rightarrow> xTEDSSegmentBuilder \<Rightarrow> nat option" where
  "FindNodeEntry c NodeList =
     first_index (\<lambda>n. IsInUse n \<and> SDMComponent_ID_eq (xTEDSID n) c) (take MAX_NUMBER_SEGMENTS NodeList)"

definition DeleteNode :: "SDMComponent_ID \<Rightarrow> xTEDSSegmentBuilder \<Rightarrow> xTEDSSegmentBuilder \<times> bool" where
  "DeleteNode c NodeList =
     (case FindNodeEntry c NodeList of
        None \<Rightarrow> (NodeList, False)
      | Some i \<Rightarrow> (NodeList[i := (NodeList ! i)\<lparr>IsInUse := False\<rparr>], True))"

definition SentInOrder :: "byte \<Rightarrow> xTEDSSegmentNode \<Rightarrow> bool" where
  "SentInOrder SequenceNumber CurrNode =
     list_all (\<lambda>i. \<not> (i < unat SequenceNumber \<and> SegmentsReceived CurrNode ! i = XTEDS_EMPTY)
                 \<and> \<not> (i \<ge> unat SequenceNumber \<and> SegmentsReceived CurrNode ! i = XTEDS_RECEIVED))
       [0..<length (SegmentsReceived CurrNode)]"

definition AlreadyReceived :: "byte \<Rightarrow> xTEDSSegmentNode \<Rightarrow> bool" where
  "AlreadyReceived SequenceNumber CurrNode =
     (if unat SequenceNumber \<ge> length (SegmentsReceived CurrNode) then False
      else SegmentsReceived CurrNode ! unat SequenceNumber = XTEDS_RECEIVED)"

text \<open>The last part of \<^verbatim>\<open>ApplySegment\<close>: the text is appended to the node's buffer.\<close>

definition append_segment :: "SDMxTEDS \<Rightarrow> byte \<Rightarrow> nat \<Rightarrow> xTEDSSegmentBuilder \<Rightarrow> xTEDSSegmentBuilder option" where
  "append_segment msg SequenceNumber i NodeList = do {
     let n = NodeList ! i;
     e \<leftarrow> strlen (xTEDSBuffer n) 0;
     k \<leftarrow> strlen (SDMxTEDS_xTEDS msg) 2;
     b \<leftarrow> strncpy (xTEDSBuffer n) e (SDMxTEDS_xTEDS msg) 2 k;
     r \<leftarrow> put_byte (SegmentsReceived n) (unat SequenceNumber) XTEDS_RECEIVED;
     Some (NodeList[i := n\<lparr>xTEDSBuffer := b, SegmentsReceived := r\<rparr>]) }"

definition ApplySegment :: "SDMxTEDS \<Rightarrow> xTEDSSegmentBuilder \<Rightarrow> (xTEDSSegmentBuilder \<times> bool) option" where
  "ApplySegment msg NodeList = do {
     seg \<leftarrow> IsSegmentedxTEDS msg;
     if \<not> seg then Some (NodeList, False) else do {
     SequenceNumber \<leftarrow> get_byte (SDMxTEDS_xTEDS msg) 0;
     TotalSegments \<leftarrow> get_byte (SDMxTEDS_xTEDS msg) 1;
     if uint SequenceNumber + 1 > uint TotalSegments \<or> SequenceNumber > MAX_XTEDS_SEQUENCE_VALUE
        \<or> TotalSegments > MAX_XTEDS_SEQUENCE_VALUE then Some (NodeList, False)
     else case FindNodeEntry (SDMxTEDS_source msg) NodeList of
       None \<Rightarrow>
         if SequenceNumber \<noteq> 0 then Some (NodeList, False)
         else (case AddSegmentNode NodeList of
             (NodeList, None) \<Rightarrow> Some (NodeList, False)
           | (NodeList, Some i) \<Rightarrow> do {
               let n = NodeList ! i;
               let n = n\<lparr>NumSegments := ucast TotalSegments\<rparr>;
               let n = n\<lparr>xTEDSID := SDMComponent_ID_assign (xTEDSID n) (SDMxTEDS_source msg)\<rparr>;
               let NodeList = NodeList[i := n];
               if length (xTEDSBuffer n) < unat TotalSegments * SEGMENT_MAX_XTEDS_SIZE
               then Some (fst (DeleteNode (SDMxTEDS_source msg) NodeList), False)
               else do {
                 let n = n\<lparr>xTEDSBuffer := replicate (length (xTEDSBuffer n)) 0\<rparr>;
                 NodeList \<leftarrow> append_segment msg SequenceNumber i (NodeList[i := n]);
                 Some (NodeList, True) } })
     | Some i \<Rightarrow>
         if AlreadyReceived SequenceNumber (NodeList ! i) then Some (NodeList, True)
         else if \<not> SentInOrder SequenceNumber (NodeList ! i) then Some (NodeList, False)
         else do {
           NodeList \<leftarrow> append_segment msg SequenceNumber i NodeList;
           Some (NodeList, True) } } }"

text \<open>The loop of \<^verbatim>\<open>CheckIsFinished\<close>, with the rounds left as its first argument.\<close>

primrec all_received :: "nat \<Rightarrow> nat \<Rightarrow> byte list \<Rightarrow> bool option" where
  "all_received 0 i received = Some True"
| "all_received (Suc k) i received = do {
     r \<leftarrow> get_byte received i;
     if r = XTEDS_EMPTY then Some False else all_received k (i + 1) received }"

definition CheckIsFinished :: "SDMxTEDS \<Rightarrow> xTEDSSegmentBuilder \<Rightarrow> bool option" where
  "CheckIsFinished msg NodeList =
     (case FindNodeEntry (SDMxTEDS_source msg) NodeList of
        None \<Rightarrow> Some False
      | Some i \<Rightarrow> all_received (unat (NumSegments (NodeList ! i))) 0 (SegmentsReceived (NodeList ! i)))"

text \<open>\<open>xTEDSOut\<close> is never NULL where the method is called.\<close>

definition GetFullxTEDS ::
    "SDMxTEDS \<Rightarrow> buffer \<Rightarrow> nat \<Rightarrow> xTEDSSegmentBuilder \<Rightarrow> (xTEDSSegmentBuilder \<times> buffer \<times> bool) option" where
  "GetFullxTEDS msg xTEDSOut MaxSize NodeList = do {
     fin \<leftarrow> CheckIsFinished msg NodeList;
     if \<not> fin then Some (NodeList, xTEDSOut, False) else
     case FindNodeEntry (SDMxTEDS_source msg) NodeList of
       None \<Rightarrow> Some (NodeList, xTEDSOut, False)
     | Some i \<Rightarrow> do {
         k \<leftarrow> strlen (xTEDSBuffer (NodeList ! i)) 0;
         if k > MaxSize then Some (fst (DeleteNode (SDMxTEDS_source msg) NodeList), xTEDSOut, False)
         else do {
           xTEDSOut \<leftarrow> strcpy xTEDSOut 0 (xTEDSBuffer (NodeList ! i)) 0;
           Some (fst (DeleteNode (SDMxTEDS_source msg) NodeList), xTEDSOut, True) } } }"

text \<open>
  The part of the registration handler that deals with segments: the message, whether the segment is
  acknowledged, and whether the handler goes on to register the text of the message.
\<close>

definition receive_segment :: "SDMxTEDS \<Rightarrow> xTEDSSegmentBuilder \<Rightarrow> (xTEDSSegmentBuilder \<times> SDMxTEDS \<times> bool \<times> bool) option" where
  "receive_segment msg b = do {
     seg \<leftarrow> IsSegmentedxTEDS msg;
     if \<not> seg then Some (b, msg, False, True) else do {
     (b, applied) \<leftarrow> ApplySegment msg b;
     if \<not> applied then Some (b, msg, False, False) else do {
     fin \<leftarrow> CheckIsFinished msg b;
     if \<not> fin then Some (b, msg, True, False) else do {
     (b, out, ok) \<leftarrow> GetFullxTEDS msg (SDMxTEDS_xTEDS msg) (length (SDMxTEDS_xTEDS msg)) b;
     Some (b, msg\<lparr>SDMxTEDS_xTEDS := out\<rparr>, True, ok) } } } }"

section \<open>Transfers\<close>

text \<open>A transfer in progress: the segments announced, those received, and their text.\<close>

type_synonym transfer = "nat \<times> nat \<times> byte list"

definition holds :: "xTEDSSegmentNode \<Rightarrow> transfer \<Rightarrow> bool" where
  "holds n = (\<lambda>(N, k, t). unat (NumSegments n) = N \<and> N \<le> MAX_NUMBER_SEGMENTS \<and> k \<le> N \<and> 0 \<notin> set t
     \<and> length t \<le> k * SEGMENT_MAX_XTEDS_SIZE \<and> xTEDSBuffer n = t @ replicate (32280 - length t) 0
     \<and> SegmentsReceived n = replicate k XTEDS_RECEIVED @ replicate (16 - k) XTEDS_EMPTY)"

definition transfers :: "xTEDSSegmentBuilder \<Rightarrow> SDMComponent_ID \<Rightarrow> transfer option" where
  "transfers b c = map_option (\<lambda>i. (unat (NumSegments (b ! i)),
      length (takeWhile (\<lambda>r. r \<noteq> XTEDS_EMPTY) (SegmentsReceived (b ! i))), cstr (xTEDSBuffer (b ! i)))) (FindNodeEntry c b)"

definition builder_ok :: "xTEDSSegmentBuilder \<Rightarrow> bool" where
  "builder_ok b \<longleftrightarrow> length b = MAX_SEGMENT_NODES
     \<and> (\<forall>n\<in>set b. length (xTEDSBuffer n) = 32280 \<and> length (SegmentsReceived n) = 16)
     \<and> (\<forall>i<4. IsInUse (b ! i) \<longrightarrow> (\<exists>x. holds (b ! i) x))
     \<and> (\<forall>i<4. \<forall>j<4. IsInUse (b ! i) \<and> IsInUse (b ! j) \<and> xTEDSID (b ! i) = xTEDSID (b ! j) \<longrightarrow> i = j)"


lemma find_iff:
  assumes "builder_ok b"
  shows "FindNodeEntry c b = Some i \<longleftrightarrow> i < 4 \<and> IsInUse (b ! i) \<and> xTEDSID (b ! i) = c"
proof
  assume "FindNodeEntry c b = Some i"
  then show "i < 4 \<and> IsInUse (b ! i) \<and> xTEDSID (b ! i) = c"
    unfolding FindNodeEntry_def by (auto dest!: first_index_Some simp: SDMComponent_ID_eq_iff)
next
  assume i: "i < 4 \<and> IsInUse (b ! i) \<and> xTEDSID (b ! i) = c"
  show "FindNodeEntry c b = Some i"
    unfolding FindNodeEntry_def
  proof (rule first_index_eq)
    fix j assume "j < i"
    then have "\<not> (IsInUse (b ! j) \<and> xTEDSID (b ! j) = c)"
      using assms i unfolding builder_ok_def by (metis less_trans nat_neq_iff)
    then show "\<not> (IsInUse (take 4 b ! j) \<and> SDMComponent_ID_eq (xTEDSID (take 4 b ! j)) c)"
      using \<open>j < i\<close> i by (simp add: SDMComponent_ID_eq_iff)
  qed (use assms i in \<open>simp_all add: builder_ok_def SDMComponent_ID_eq_iff\<close>)
qed

lemma slots_updated:
  assumes "builder_ok b" "i < 4" "length (xTEDSBuffer n) = 32280" "length (SegmentsReceived n) = 16"
    and "IsInUse n \<Longrightarrow> (\<exists>x. holds n x) \<and> (\<forall>j<4. j \<noteq> i \<longrightarrow> \<not> (IsInUse (b ! j) \<and> xTEDSID (b ! j) = xTEDSID n))"
  shows "builder_ok (b[i := n])"
  unfolding builder_ok_def
proof (intro conjI allI impI ballI)
  show "length (b[i := n]) = 5" using assms(1) by (simp add: builder_ok_def)
next
  fix m assume "m \<in> set (b[i := n])"
  then have "m = n \<or> m \<in> set b" using set_update_subset_insert [of b i n] by auto
  then show "length (xTEDSBuffer m) = 32280" "length (SegmentsReceived m) = 16"
    using assms(1,3,4) by (auto simp: builder_ok_def)
next
  fix j assume "j < 4" "IsInUse (b[i := n] ! j)"
  then show "\<exists>x. holds (b[i := n] ! j) x" using assms(1,2,5) by (cases "j = i") (auto simp: builder_ok_def)
next
  fix j k assume "j < 4" "k < 4" "IsInUse (b[i := n] ! j) \<and> IsInUse (b[i := n] ! k) \<and> xTEDSID (b[i := n] ! j) = xTEDSID (b[i := n] ! k)"
  moreover have "length b = 5" using assms(1) by (simp add: builder_ok_def)
  moreover have "j = k" if "j < 4" "k < 4" "IsInUse (b ! j)" "IsInUse (b ! k)" "xTEDSID (b ! j) = xTEDSID (b ! k)"
    using assms(1) that unfolding builder_ok_def by blast
  ultimately show "j = k" using assms(2,5) by (cases "j = i"; cases "k = i") (simp_all, metis+)
qed

lemma find_None:
  assumes "builder_ok b"
  shows "FindNodeEntry c b = None \<longleftrightarrow> (\<forall>i<4. \<not> (IsInUse (b ! i) \<and> xTEDSID (b ! i) = c))"
  using find_iff [OF assms] by (metis option.exhaust option.distinct(1))

lemma transfers_holds:
  assumes "FindNodeEntry c b = Some i" "holds (b ! i) x"
  shows "transfers b c = Some x"
proof -
  obtain N k t where x: "x = (N, k, t)" by (cases x)
  with assms(2) have h: "unat (NumSegments (b ! i)) = N" "N \<le> 4" "k \<le> N" "0 \<notin> set t" "length t \<le> k * 8070"
      "xTEDSBuffer (b ! i) = t @ replicate (32280 - length t) 0" "SegmentsReceived (b ! i) = replicate k 1 @ replicate (16 - k) 0"
    by (simp_all add: holds_def)
  have "takeWhile (\<lambda>r. r \<noteq> XTEDS_EMPTY) (replicate k 1 @ replicate (16 - k) (0 :: byte)) = replicate k 1"
    by (simp add: takeWhile_append takeWhile_replicate)
  moreover have "cstr (xTEDSBuffer (b ! i)) = t"
    unfolding h(6) by (cases "32280 - length t") (use h(4) in \<open>simp_all add: takeWhile_eq_all_conv cstr_def, fastforce, metis cstr_append_null cstr_def\<close>)
  ultimately show ?thesis using assms(1) h(1,7) x by (simp add: transfers_def)
qed

lemma transfers_Some:
  assumes "builder_ok b" "transfers b c = Some x"
  obtains i where "FindNodeEntry c b = Some i" "holds (b ! i) x" "i < 4" "IsInUse (b ! i)" "xTEDSID (b ! i) = c"
proof -
  obtain i where i: "FindNodeEntry c b = Some i" using assms(2) by (auto simp: transfers_def)
  with find_iff [OF assms(1)] have j: "i < 4" "IsInUse (b ! i)" "xTEDSID (b ! i) = c" by auto
  with assms(1) obtain y where "holds (b ! i) y" by (auto simp: builder_ok_def)
  with transfers_holds [OF i] assms(2) have "holds (b ! i) x" by simp
  with that i j show thesis by blast
qed

lemma transfers_None: "transfers b c = None \<longleftrightarrow> FindNodeEntry c b = None"
  by (simp add: transfers_def)

text \<open>Writing a node: a transfer is stored or dropped.\<close>

lemma put_transfer:
  assumes b: "builder_ok b" and i: "i < 4" and n: "IsInUse n" "xTEDSID n = c" "holds n x"
    and free: "FindNodeEntry c b = Some i \<or> FindNodeEntry c b = None \<and> \<not> IsInUse (b ! i)"
  shows "builder_ok (b[i := n])" "transfers (b[i := n]) = (transfers b)(c \<mapsto> x)" "FindNodeEntry c (b[i := n]) = Some i"
proof -
  have len: "length b = 5" using b by (simp add: builder_ok_def)
  have l: "length (xTEDSBuffer n) = 32280 \<and> length (SegmentsReceived n) = 16" using n(3) by (cases x) (auto simp: holds_def)
  have other: "\<not> (IsInUse (b ! j) \<and> xTEDSID (b ! j) = c)" if "j < 4" "j \<noteq> i" for j
    using free that find_iff [OF b, of c j] by auto
  show ok: "builder_ok (b[i := n])"
    by (rule slots_updated [OF b i]) (use l n other in \<open>blast+\<close>)
  show f: "FindNodeEntry c (b[i := n]) = Some i" using find_iff [OF ok] i n len by simp
  show "transfers (b[i := n]) = (transfers b)(c \<mapsto> x)"
  proof
    fix d
    show "transfers (b[i := n]) d = ((transfers b)(c \<mapsto> x)) d"
    proof (cases "d = c")
      case True
      then show ?thesis using transfers_holds [OF f, of x] n i len by simp
    next
      case False
      have "FindNodeEntry d (b[i := n]) = Some j \<longleftrightarrow> FindNodeEntry d b = Some j" for j
        unfolding find_iff [OF ok] find_iff [OF b] using i len n(2) False free find_iff [OF b, of c i]
        by (cases "j = i") auto
      then have "FindNodeEntry d (b[i := n]) = FindNodeEntry d b" by (metis option.exhaust)
      moreover have "FindNodeEntry d b = Some j \<Longrightarrow> j \<noteq> i" for j
        using find_iff [OF b] free False by auto
      ultimately show ?thesis using False by (auto simp: transfers_def intro!: option.map_cong)
    qed
  qed
qed


section \<open>Refinement\<close>

text \<open>A segment as a provider sends it: its provider, its number, the number of segments and its text.\<close>

type_synonym segment = "SDMComponent_ID \<times> nat \<times> nat \<times> byte list"

definition is_segment :: "SDMxTEDS \<Rightarrow> segment \<Rightarrow> bool" where
  "is_segment msg = (\<lambda>(c, seq, tot, t). SDMxTEDS_source msg = c \<and> length (SDMxTEDS_xTEDS msg) = 24183
     \<and> take (length t + 3) (SDMxTEDS_xTEDS msg) = of_nat seq # of_nat tot # t @ [0] \<and> 0 \<notin> set t
     \<and> length t \<le> SEGMENT_MAX_XTEDS_SIZE \<and> seq < tot \<and> tot \<le> MAX_NUMBER_SEGMENTS)"


lemma is_segmentD:
  assumes "is_segment msg (c, seq, tot, t)"
  obtains r where "SDMxTEDS_xTEDS msg = of_nat seq # of_nat tot # t @ 0 # r" "SDMxTEDS_source msg = c"
    "0 \<notin> set t" "length t \<le> 8070" "seq < tot" "tot \<le> 4" "length (SDMxTEDS_xTEDS msg) = 24183"
proof -
  let ?x = "SDMxTEDS_xTEDS msg"
  have "?x = take (length t + 3) ?x @ drop (length t + 3) ?x" by simp
  also have "\<dots> = of_nat seq # of_nat tot # t @ 0 # drop (length t + 3) ?x"
    using assms by (simp add: is_segment_def)
  finally show thesis using that assms by (simp add: is_segment_def)
qed

lemma small_bytes: "n \<le> 15 \<Longrightarrow> unat (of_nat n :: byte) = n" "n \<le> 15 \<Longrightarrow> uint (of_nat n :: byte) = int n"
  "n \<le> 15 \<Longrightarrow> (of_nat n :: byte) \<le> 15"
  by (simp_all add: unat_of_nat uint_nat word_le_nat_alt)

lemma segment_header:
  assumes "is_segment msg (c, seq, tot, t)"
  shows "IsSegmentedxTEDS msg = Some True" "get_byte (SDMxTEDS_xTEDS msg) 0 = Some (of_nat seq)"
    "get_byte (SDMxTEDS_xTEDS msg) (Suc 0) = Some (of_nat tot)" "strlen (SDMxTEDS_xTEDS msg) 2 = Some (length t)"
    "strncpy b p (SDMxTEDS_xTEDS msg) 2 (length t) = put_bytes b p t"
proof -
  obtain r where r: "SDMxTEDS_xTEDS msg = of_nat seq # of_nat tot # t @ 0 # r" "0 \<notin> set t" "seq < tot" "tot \<le> 4"
    using is_segmentD [OF assms] by metis
  show g: "get_byte (SDMxTEDS_xTEDS msg) 0 = Some (of_nat seq)" "get_byte (SDMxTEDS_xTEDS msg) (Suc 0) = Some (of_nat tot)"
    using r(1) by (simp_all add: get_byte_def)
  have "(of_nat tot :: byte) \<noteq> 0" 
    using r(3,4) small_bytes(1) [of tot] by (intro notI) simp
  then show "IsSegmentedxTEDS msg = Some True"
    using g r(3,4) by (simp add: IsSegmentedxTEDS_def small_bytes word_neq_0_conv)
  show "strlen (SDMxTEDS_xTEDS msg) 2 = Some (length t)"
    by (rule strlen_at) (use r in simp_all)
  have w: "takeWhile (\<lambda>b. b \<noteq> 0) t = t" using r(2) unfolding takeWhile_eq_all_conv by fastforce
  have "take (length t) (drop 2 (SDMxTEDS_xTEDS msg)) = t" using r(1) by simp
  then show "strncpy b p (SDMxTEDS_xTEDS msg) 2 (length t) = put_bytes b p t"
    using r(1) unfolding strncpy_def Let_def by (simp add: w del: takeWhile_eq_all_conv)
qed

lemma append_segment_holds:
  assumes "is_segment msg (c, k, tot, t)" "holds (b ! i) (N, k, u)" "k < N" "i < length b"
  obtains n where "append_segment msg (of_nat k) i b = Some (b[i := n])" "holds n (N, k + 1, u @ t)"
    "IsInUse n = IsInUse (b ! i)" "xTEDSID n = xTEDSID (b ! i)"
proof -
  let ?n = "b ! i"
  have h: "unat (NumSegments ?n) = N" "N \<le> 4" "0 \<notin> set u" "length u \<le> k * 8070"
      "xTEDSBuffer ?n = u @ replicate (32280 - length u) 0" "SegmentsReceived ?n = replicate k 1 @ replicate (16 - k) 0"
    using assms(2) by (simp_all add: holds_def)
  have t: "0 \<notin> set t" "length t \<le> 8070" using is_segmentD [OF assms(1)] by metis+
  have room: "length u + length t \<le> (k + 1) * 8070" "length u \<le> 24210" using h(2,4) t(2) assms(3) by auto
  then have room': "length u + length t \<le> 32280" using t(2) by linarith
  have "xTEDSBuffer ?n = u @ 0 # replicate (32279 - length u) 0"
    unfolding h(5) using room(2) by (simp add: Suc_diff_le flip: replicate_Suc)
  then have e: "strlen (xTEDSBuffer ?n) 0 = Some (length u)" using h(3) by (intro strlen_at) simp_all
  have b: "put_bytes (xTEDSBuffer ?n) (length u) t = Some ((u @ t) @ replicate (32280 - length (u @ t)) 0)"
    unfolding h(5) using room' by (subst put_bytes_append) simp_all
  have "put_byte (SegmentsReceived ?n) (unat (of_nat k :: byte)) 1 = Some (replicate k 1 @ 1 # replicate (16 - Suc k) 0)"
    unfolding h(6) put_byte_def using assms(3) h(2) by (simp add: put_bytes_append small_bytes)
  moreover have "replicate k (1 :: byte) @ 1 # q = replicate (Suc k) 1 @ q" for q by (simp add: replicate_app_Cons_same)
  ultimately have r: "put_byte (SegmentsReceived ?n) (unat (of_nat k :: byte)) 1 = Some (replicate (Suc k) 1 @ replicate (16 - Suc k) 0)"
    by simp
  let ?m = "?n\<lparr>xTEDSBuffer := (u @ t) @ replicate (32280 - length (u @ t)) 0, SegmentsReceived := replicate (Suc k) 1 @ replicate (16 - Suc k) 0\<rparr>"
  show thesis
  proof (rule that [of ?m])
    show "append_segment msg (of_nat k) i b = Some (b[i := ?m])"
      using e b r by (simp add: append_segment_def segment_header [OF assms(1)] Let_def)
    show "holds ?m (N, k + 1, u @ t)" using h t room assms(3) by (simp add: holds_def)
  qed simp_all
qed

text \<open>The flags of a transfer: a prefix has been received.\<close>

lemma flags_of:
  assumes "holds n (N, k, u)" "seq \<le> 15"
  shows "AlreadyReceived (of_nat seq) n \<longleftrightarrow> seq < k" "SentInOrder (of_nat seq) n \<longleftrightarrow> seq = k"
    "all_received N 0 (SegmentsReceived n) = Some (k = N)"
proof -
  have h: "N \<le> 4" "k \<le> N" "SegmentsReceived n = replicate k 1 @ replicate (16 - k) 0"
    using assms(1) by (simp_all add: holds_def)
  have nth: "SegmentsReceived n ! i = (if i < k then 1 else 0)" if "i < 16" for i
    using h that by (simp add: nth_append)
  have len: "length (SegmentsReceived n) = 16" using h by simp
  show "AlreadyReceived (of_nat seq) n \<longleftrightarrow> seq < k" using assms(2) nth [of seq] len by (simp add: AlreadyReceived_def small_bytes)
  have q: "\<not> (i < seq \<and> SegmentsReceived n ! i = 0) \<and> \<not> (seq \<le> i \<and> SegmentsReceived n ! i = 1)
      \<longleftrightarrow> \<not> (i < seq \<and> k \<le> i) \<and> \<not> (seq \<le> i \<and> i < k)" if "i < 16" for i
    using nth [OF that] by auto
  have "SentInOrder (of_nat seq) n \<longleftrightarrow> (\<forall>i<16. \<not> (i < seq \<and> SegmentsReceived n ! i = 0) \<and> \<not> (seq \<le> i \<and> SegmentsReceived n ! i = 1))"
    using assms(2) by (auto simp: SentInOrder_def small_bytes list_all_iff len)
  also have "\<dots> \<longleftrightarrow> (\<forall>i<16. \<not> (i < seq \<and> k \<le> i) \<and> \<not> (seq \<le> i \<and> i < k))" using q by blast
  also have "\<dots> \<longleftrightarrow> seq = k"
  proof
    assume a: "\<forall>i<16. \<not> (i < seq \<and> k \<le> i) \<and> \<not> (seq \<le> i \<and> i < k)"
    show "seq = k" using a [rule_format, of seq] a [rule_format, of k] assms(2) h by (cases seq k rule: linorder_cases) simp_all
  qed auto
  finally show "SentInOrder (of_nat seq) n \<longleftrightarrow> seq = k" .
  have "all_received j i (SegmentsReceived n) = Some (j = 0 \<or> i + j \<le> k)" if "i + j \<le> 16" for i j
    using that by (induction j arbitrary: i) (auto simp: get_byte_def len nth)
  from this [of 0 N] h show "all_received N 0 (SegmentsReceived n) = Some (k = N)" by auto
qed

lemma apply_known:
  assumes b: "builder_ok b" "transfers b c = Some (N, k, u)" "k < N" and m: "is_segment msg (c, seq, tot, t)"
  shows "seq \<noteq> k \<Longrightarrow> ApplySegment msg b = Some (b, seq < k)"
    and "seq = k \<Longrightarrow> \<exists>b'. ApplySegment msg b = Some (b', True) \<and> builder_ok b' \<and> transfers b' = (transfers b)(c \<mapsto> (N, k + 1, u @ t))"
proof -
  obtain i where i: "FindNodeEntry c b = Some i" "holds (b ! i) (N, k, u)" "i < 4" "IsInUse (b ! i)" "xTEDSID (b ! i) = c"
    using transfers_Some [OF b(1,2)] by metis
  have s: "SDMxTEDS_source msg = c" "seq < tot" "tot \<le> 4" using is_segmentD [OF m] by metis+
  then have g: "\<not> (uint (of_nat seq :: byte) + 1 > uint (of_nat tot :: byte) \<or> (of_nat seq :: byte) > 15 \<or> (of_nat tot :: byte) > 15)"
    by (simp add: small_bytes not_less)
  note E = ApplySegment_def segment_header [OF m] g [simplified] s(1) i(1) flags_of [OF i(2)]
  show "seq \<noteq> k \<Longrightarrow> ApplySegment msg b = Some (b, seq < k)" using g s by (simp add: E)
  assume k: "seq = k"
  have "i < length b" using i(3) b(1) by (simp add: builder_ok_def)
  then obtain n where n: "append_segment msg (of_nat seq) i b = Some (b[i := n])" "holds n (N, k + 1, u @ t)" "IsInUse n" "xTEDSID n = c"
    using append_segment_holds [OF m [unfolded k] i(2) b(3)] i(4,5) k by metis
  have "ApplySegment msg b = Some (b[i := n], True)" using g s k n(1) by (simp add: E)
  moreover have "FindNodeEntry c b = Some i \<or> FindNodeEntry c b = None \<and> \<not> IsInUse (b ! i)" using i(1) by simp
  note put_transfer(1,2) [OF b(1) i(3) n(3,4,2) this]
  ultimately show "\<exists>b'. ApplySegment msg b = Some (b', True) \<and> builder_ok b' \<and> transfers b' = (transfers b)(c \<mapsto> (N, k + 1, u @ t))"
    by blast
qed

lemma apply_first:
  assumes b: "builder_ok b" "FindNodeEntry c b = None" and m: "is_segment msg (c, 0, tot, t)"
    and i: "first_index (\<lambda>n. \<not> IsInUse n) b = Some i"
  obtains n where "ApplySegment msg b = Some (b[i := n], True)" "holds n (tot, 1, t)" "IsInUse n" "xTEDSID n = c"
proof -
  have s: "SDMxTEDS_source msg = c" "0 < tot" "tot \<le> 4" using is_segmentD [OF m] by metis+
  have g: "\<not> (uint (of_nat 0 :: byte) + 1 > uint (of_nat tot :: byte) \<or> (of_nat 0 :: byte) > 15 \<or> (of_nat tot :: byte) > 15)"
    using s by (simp add: small_bytes not_less)
  have len: "length b = 5" "i < length b" using b(1) first_index_Some [OF i] by (auto simp: builder_ok_def)
  have "b ! i \<in> set b" using len(2) by simp
  then have l: "length (xTEDSBuffer (b ! i)) = 32280" "length (SegmentsReceived (b ! i)) = 16" using b(1) by (auto simp: builder_ok_def)
  define n where "n = (b ! i)\<lparr>xTEDSBuffer := replicate 32280 0, NumSegments := ucast (of_nat tot :: byte), SegmentsReceived := replicate 16 0,
    xTEDSID := c, IsInUse := True\<rparr>"
  have "holds (b[i := n] ! i) (tot, 0, [])"
    using s small_bytes(1) [of tot] len by (simp add: holds_def n_def unsigned_ucast_eq take_bit_eq_mod)
  from append_segment_holds [OF m this s(2)] len
  obtain n' where n'': "append_segment msg (of_nat 0) i (b[i := n]) = Some (b[i := n, i := n'])" "holds n' (tot, 0 + 1, [] @ t)"
    "IsInUse n' = IsInUse (b[i := n] ! i)" "xTEDSID n' = xTEDSID (b[i := n] ! i)"
    by (metis length_list_update)
  note n' = n''(1,2) n''(3,4) [unfolded nth_list_update_eq [OF len(2)], simplified n_def, simplified]
  have "d\<lparr>m_ulSensorId := 0, m_ulAddress := 0, m_usPort := 0\<rparr> = SDMComponent_ID_new" for d :: SDMComponent_ID
    by (cases d) (simp add: SDMComponent_ID_new_def)
  then have a: "AddSegmentNode b = (b[i := n\<lparr>NumSegments := 0, xTEDSID := SDMComponent_ID_new\<rparr>], Some i)"
    using i l by (cases "b ! i") (simp add: AddSegmentNode_def n_def Let_def map_replicate_const)
  have "length (xTEDSBuffer n) = 32280" by (simp add: n_def)
  moreover have "n\<lparr>NumSegments := ucast (of_nat tot :: byte), xTEDSID := c, xTEDSBuffer := replicate 32280 0\<rparr> = n"
    by (cases "b ! i") (simp add: n_def)
  ultimately have "ApplySegment msg b = Some (b[i := n'], True)"
    using g n'(1) len s small_bytes(1) [of tot] b(2) by (simp add: ApplySegment_def segment_header [OF m] a Let_def)
  then show thesis using n' by (intro that) simp_all
qed




lemma receive_refused:
  assumes "is_segment msg (c, seq, tot, t)" "ApplySegment msg b = Some (b', False)"
  shows "receive_segment msg b = Some (b', msg, False, False)"
  using assms segment_header(1) [OF assms(1)] by (simp add: receive_segment_def)



section \<open>Transmissions\<close>










text \<open>The fifth node: once in use it stays so, because it is never found.\<close>

lemma find_less: "FindNodeEntry c b = Some i \<Longrightarrow> i < 4"
  by (auto simp: FindNodeEntry_def dest!: first_index_Some)

lemma node_4_Delete [simp]: "fst (DeleteNode c b) ! 4 = b ! 4"
  by (auto simp: DeleteNode_def dest: find_less split: option.split)

lemma node_4_append: "append_segment msg q i b = Some b' \<Longrightarrow> i < length b \<Longrightarrow> IsInUse (b' ! 4) = IsInUse (b ! 4)"
  by (cases "i = 4") (auto simp: append_segment_def Let_def split: bind_splits)

lemma node_4_stays:
  assumes "receive_segment msg b = Some (b', r)" "length b = 5" "IsInUse (b ! 4)"
  shows "IsInUse (b' ! 4)"
proof -
  have add: "length b'' = 5 \<and> IsInUse (b'' ! 4) \<and> i < 5" if "AddSegmentNode b = (b'', Some i)" for b'' i
    using that assms(2,3) by (auto simp: AddSegmentNode_def Let_def nth_list_update dest!: first_index_Some split: option.splits)
  have full: "b'' = b" if "AddSegmentNode b = (b'', None)" for b''
    using that by (auto simp: AddSegmentNode_def Let_def split: option.splits)
  have a: "IsInUse (b'' ! 4)" if "ApplySegment msg b = Some (b'', ok)" for b'' ok
  proof (cases "FindNodeEntry (SDMxTEDS_source msg) b")
    case (Some i)
    then have "i < length b" using find_less [OF Some] assms(2) by simp
    with that Some assms(3) node_4_append [of msg _ i b] show ?thesis
      by (auto simp: ApplySegment_def split: bind_splits if_splits)
  next
    case None
    obtain b1 s where s: "AddSegmentNode b = (b1, s)" by (cases "AddSegmentNode b")
    show ?thesis
    proof (cases s)
      case (Some i)
      with s add have "length b1 = 5" "IsInUse (b1 ! 4)" "i < 5" by auto
      then show ?thesis using that None s Some assms(3)
        by (auto simp: ApplySegment_def Let_def nth_list_update split: bind_splits if_splits dest!: node_4_append)
    qed (use that None s full assms(3) in \<open>auto simp: ApplySegment_def split: bind_splits if_splits\<close>)
  qed
  show ?thesis using assms a by (auto simp: receive_segment_def GetFullxTEDS_def split: bind_splits if_splits option.splits prod.splits)
qed

section \<open>Properties\<close>


text \<open>Two providers, one of which repeats its first segment, and its last one when it is too late.\<close>

definition sample_provider :: "32 word \<Rightarrow> SDMComponent_ID" where
  "sample_provider n = \<lparr>m_ulSensorId = n, m_ulAddress = 0, m_usPort = 4001\<rparr>"

definition sample_segment :: "32 word \<Rightarrow> nat \<Rightarrow> nat \<Rightarrow> byte list \<Rightarrow> SDMxTEDS" where
  "sample_segment n i k t = SDMmessage.extend (new_message SDM_xTEDS 17)
     \<lparr>SDMxTEDS_source = sample_provider n, SDMxTEDS_active = 1,
      SDMxTEDS_xTEDS = of_nat i # of_nat k # t @ 0 # replicate (24180 - length t) 0,
      SDMxTEDS_SPA_node = replicate 80 0, SDMxTEDS_pid = 0\<rparr>"

lemma sample_segment_ok:
  "0 \<notin> set t \<Longrightarrow> length t \<le> 8070 \<Longrightarrow> i < k \<Longrightarrow> k \<le> 4 \<Longrightarrow> is_segment (sample_segment n i k t) (sample_provider n, i, k, t)"
  by (simp add: is_segment_def sample_segment_def SDMmessage.defs numeral_3_eq_3)



text \<open>A node with a transfer, and a builder with four of them.\<close>

definition sample_node :: "bool \<Rightarrow> 32 word \<Rightarrow> transfer \<Rightarrow> xTEDSSegmentNode" where
  "sample_node on n = (\<lambda>(N, k, u). \<lparr>IsInUse = on, xTEDSBuffer = u @ replicate (32280 - length u) 0, NumSegments = of_nat N,
     SegmentsReceived = replicate k 1 @ replicate (16 - k) 0, xTEDSID = sample_provider n, NextIndex = - 1\<rparr>)"

definition sample_builder :: "transfer \<Rightarrow> xTEDSSegmentBuilder" where
  "sample_builder x = [sample_node True 1 x, sample_node True 2 x, sample_node True 3 x, sample_node True 4 x, sample_node False 5 (0, 0, [])]"

lemma all_less_4: "(\<forall>i<4. P i) \<longleftrightarrow> P 0 \<and> P (Suc 0) \<and> P 2 \<and> P (3 :: nat)"
  by (simp add: All_less_Suc numeral_eq_Suc conj_ac)

lemma sample_builder_ok:
  assumes "N \<le> 4" "k \<le> N" "0 \<notin> set u" "length u \<le> k * 8070"
  shows "builder_ok (sample_builder (N, k, u))" "transfers (sample_builder (N, k, u)) (sample_provider 1) = Some (N, k, u)"
    "transfers (sample_builder (N, k, u)) (sample_provider 5) = None"
proof -
  let ?b = "sample_builder (N, k, u)"
  have h: "holds (sample_node True n (N, k, u)) (N, k, u)" for n
    using assms by (simp add: holds_def sample_node_def unat_of_nat)
  have l: "length u \<le> 32280" using assms by linarith
  show ok: "builder_ok ?b" unfolding builder_ok_def
  proof (intro conjI)
    show "\<forall>i<4. IsInUse (?b ! i) \<longrightarrow> (\<exists>x. holds (?b ! i) x)"
      using h unfolding all_less_4 by (auto simp: sample_builder_def)
    show "\<forall>i<4. \<forall>j<4. IsInUse (?b ! i) \<and> IsInUse (?b ! j) \<and> xTEDSID (?b ! i) = xTEDSID (?b ! j) \<longrightarrow> i = j"
      unfolding all_less_4 by (simp add: sample_builder_def sample_node_def sample_provider_def)
  qed (use l assms in \<open>auto simp: sample_builder_def sample_node_def\<close>)
  have "FindNodeEntry (sample_provider 1) ?b = Some 0" unfolding find_iff [OF ok] by (simp add: sample_builder_def sample_node_def)
  then show "transfers ?b (sample_provider 1) = Some (N, k, u)" by (rule transfers_holds) (simp add: sample_builder_def h)
  show "transfers ?b (sample_provider 5) = None"
    unfolding transfers_None find_None [OF ok] all_less_4 by (simp add: sample_builder_def sample_node_def sample_provider_def)
qed

text \<open>
  The fifth transfer is lost: while four are in progress, the first segment of another provider is
  acknowledged, but stored in a node that is never found again. Nothing is handed on, not even if
  this segment was the whole xTEDS, and every further segment of the provider is refused.
\<close>

theorem fifth_transfer_lost:
  assumes "builder_ok b" "\<forall>i<4. IsInUse (b ! i)" "\<not> IsInUse (b ! 4)" "transfers b c = None"
    and "is_segment msg (c, 0, tot, t)" "is_segment msg' (c, i, tot, t')"
  shows "\<exists>b'. receive_segment msg b = Some (b', msg, True, False) \<and> transfers b' = transfers b \<and> IsInUse (b' ! 4)
    \<and> xTEDSID (b' ! 4) = c \<and> receive_segment msg' b' = Some (b', msg', False, False)"
proof -
  have len: "length b = 5" using assms(1) by (simp add: builder_ok_def)
  have i: "first_index (\<lambda>n. \<not> IsInUse n) b = Some 4"
    by (rule first_index_eq) (use assms(2,3) len in auto)
  have f: "FindNodeEntry d (b[4 := x]) = FindNodeEntry d b" for d x by (simp add: FindNodeEntry_def)
  have none: "FindNodeEntry c b = None" using assms(4) by (simp add: transfers_None)
  obtain n where n: "ApplySegment msg b = Some (b[4 := n], True)" "holds n (tot, 1, t)" "IsInUse n" "xTEDSID n = c"
    using apply_first [OF assms(1) none assms(5) i] by metis
  let ?b = "b[4 := n]"
  have "SDMxTEDS_source msg = c" "SDMxTEDS_source msg' = c" using is_segmentD [OF assms(5)] is_segmentD [OF assms(6)] by metis+
  note src = this
  have "receive_segment msg b = Some (?b, msg, True, False)"
    using n(1) segment_header(1) [OF assms(5)] src none by (simp add: receive_segment_def CheckIsFinished_def f)
  moreover have "transfers ?b = transfers b"
  proof
    fix d show "transfers ?b d = transfers b d"
      using find_less [of d b] by (auto simp: transfers_def f intro!: option.map_cong)
  qed
  moreover have "receive_segment msg' ?b = Some (?b, msg', False, False)"
  proof (rule receive_refused [OF assms(6)])
    have "first_index (\<lambda>n. \<not> IsInUse n) ?b = None"
      unfolding first_index_None
    proof
      fix x assume "x \<in> set ?b"
      then obtain j where "j < 5" "x = ?b ! j" using len by (auto simp: in_set_conv_nth)
      then show "\<not> \<not> IsInUse x" using assms(2) n(3) len by (cases "j = 4") simp_all
    qed
    then have "AddSegmentNode ?b = (?b, None)" by (simp add: AddSegmentNode_def)
    then show "ApplySegment msg' ?b = Some (?b, False)"
      using none src by (simp add: ApplySegment_def segment_header [OF assms(6)] f)
  qed
  ultimately show ?thesis using n len by auto
qed

theorem fifth_transfer_lost_witness:
  "\<exists>b'. receive_segment (sample_segment 5 0 1 [0x3c, 0x3e]) (sample_builder (2, 1, [0x3c])) = Some (b', sample_segment 5 0 1 [0x3c, 0x3e], True, False)
    \<and> receive_segment (sample_segment 5 0 1 [0x3c, 0x3e]) b' = Some (b', sample_segment 5 0 1 [0x3c, 0x3e], False, False)"
proof -
  let ?b = "sample_builder (2, 1, [0x3c])"
  have b: "builder_ok ?b" "transfers ?b (sample_provider 5) = None" using sample_builder_ok [of 2 1 "[0x3c]"] by simp_all
  have u: "\<forall>i<4. IsInUse (?b ! i)" "\<not> IsInUse (?b ! 4)"
    unfolding all_less_4 by (simp_all add: sample_builder_def sample_node_def)
  have m: "is_segment (sample_segment 5 0 1 [0x3c, 0x3e]) (sample_provider 5, 0, 1, [0x3c, 0x3e])" by (rule sample_segment_ok) simp_all
  show ?thesis using fifth_transfer_lost [OF b(1) u b(2) m m] by blast
qed

text \<open>
  A text of exactly the size of the message's member overflows it: the size is compared without the terminator.
\<close>

theorem full_text_overflows:
  assumes "builder_ok b" "transfers b c = Some (N, k, u)" "k + 1 = N" "is_segment msg (c, k, tot, t)" "length (u @ t) = 24183"
  shows "receive_segment msg b = None"
proof -
  have "k < N" using assms(3) by simp
  from apply_known(2) [OF assms(1,2) this assms(4) refl] obtain b' where a: "ApplySegment msg b = Some (b', True)"
      "builder_ok b'" "transfers b' = (transfers b)(c \<mapsto> (N, k + 1, u @ t))" by blast
  have "transfers b' c = Some (N, k + 1, u @ t)" using a(3) by simp
  from transfers_Some [OF a(2) this] obtain i where i: "FindNodeEntry c b' = Some i" "holds (b' ! i) (N, N, u @ t)"
    using assms(3) by metis
  have s: "SDMxTEDS_source msg = c" "length (SDMxTEDS_xTEDS msg) = 24183" using is_segmentD [OF assms(4)] by metis+
  have n: "unat (NumSegments (b' ! i)) = N" using i(2) by (simp add: holds_def)
  have f: "CheckIsFinished msg b' = Some True"
    using i s(1) flags_of(3) [OF i(2), of 0] n by (simp add: CheckIsFinished_def)
  have x: "0 \<notin> set (u @ t)" "xTEDSBuffer (b' ! i) = (u @ t) @ 0 # replicate (32279 - length (u @ t)) 0"
    using i(2) assms(5) by (simp_all add: holds_def flip: replicate_Suc)
  then have l: "strlen (xTEDSBuffer (b' ! i)) 0 = Some (length (u @ t))" by (intro strlen_at) simp_all
  moreover have "get_bytes (xTEDSBuffer (b' ! i)) 0 (length (u @ t) + 1) = Some ((u @ t) @ [0])"
    by (rule get_bytes_drop [where rest = "replicate (32279 - length (u @ t)) 0"]) (use x in simp_all)
  ultimately have "strcpy (SDMxTEDS_xTEDS msg) 0 (xTEDSBuffer (b' ! i)) 0 = None"
    using s(2) assms(5) by (simp add: strcpy_def memcpy_def put_bytes_None)
  then show ?thesis using a(1) f segment_header(1) [OF assms(4)] s i(1) l assms(5)
    by (simp add: receive_segment_def GetFullxTEDS_def)
qed

theorem full_text_overflows_witness:
  "receive_segment (sample_segment 1 2 3 (replicate 8043 0x78)) (sample_builder (3, 2, replicate 16140 0x78)) = None"
proof -
  let ?b = "sample_builder (3, 2, replicate 16140 0x78)"
  have b: "builder_ok ?b" "transfers ?b (sample_provider 1) = Some (3, 2, replicate 16140 0x78)"
    using sample_builder_ok [of 3 2 "replicate 16140 0x78"] by simp_all
  have "is_segment (sample_segment 1 2 3 (replicate 8043 0x78)) (sample_provider 1, 2, 3, replicate 8043 0x78)"
    by (rule sample_segment_ok) simp_all
  then show ?thesis using full_text_overflows [OF b, of _ 3 "replicate 8043 0x78"] by simp
qed

end
