(* ===== verification/Task_List.thy ===== *)
theory Task_List
  imports Messages_String "HOL-Library.Sublist"
begin

text \<open>
  The Task Manager's list of tasks: \<^verbatim>\<open>common/task/SDMTaskResources\<close>, \<^verbatim>\<open>tm/task.cpp\<close> and
  \<^verbatim>\<open>tm/tasklist.cpp\<close>. The list is an array of \<^verbatim>\<open>NUMTASKS\<close> tasks; a slot whose state is \<^verbatim>\<open>INACTIVE\<close> is free.

  A \<^verbatim>\<open>char*\<close> is \<^term>\<open>None\<close> (NULL) or the bytes of its string. An operation returns \<^term>\<open>None\<close> where the
  code passes NULL to a string function, leaves an array or throws. Text output is left out.
\<close>

unbundle bit_operations_syntax

section \<open>SDMTaskResources\<close>

type_synonym SDMTaskResources = "16 word"

abbreviation (input) ARCHMASK :: "16 word" where "ARCHMASK \<equiv> 0x000F"
abbreviation (input) MEMMASK :: "16 word" where "MEMMASK \<equiv> 0x00F0"
abbreviation (input) OSMASK :: "16 word" where "OSMASK \<equiv> 0x0F00"
abbreviation (input) PMIDMASK :: "16 word" where "PMIDMASK \<equiv> 0xF000"

definition PM_ID :: "16 word \<Rightarrow> 16 word" where
  "PM_ID value = push_bit 12 value"

definition SetPreferredPmNodeId :: "16 word \<Rightarrow> SDMTaskResources \<Rightarrow> SDMTaskResources" where
  "SetPreferredPmNodeId newPmId r = (r AND (ARCHMASK OR MEMMASK OR OSMASK)) OR PM_ID newPmId"

definition IsPreferredPmIdSet :: "SDMTaskResources \<Rightarrow> bool" where
  "IsPreferredPmIdSet r = (r AND PMIDMASK \<noteq> 0)"

definition GetPreferredPmId :: "SDMTaskResources \<Rightarrow> 16 word" where
  "GetPreferredPmId r = r AND PMIDMASK"

definition GetPreferredPmIdNum :: "SDMTaskResources \<Rightarrow> byte" where
  "GetPreferredPmIdNum r = ucast (drop_bit 8 (r AND PMIDMASK))"

definition GetArch :: "SDMTaskResources \<Rightarrow> 16 word" where
  "GetArch r = r AND ARCHMASK"

definition GetMem :: "SDMTaskResources \<Rightarrow> 16 word" where
  "GetMem r = r AND MEMMASK"

definition GetOs :: "SDMTaskResources \<Rightarrow> 16 word" where
  "GetOs r = r AND OSMASK"

definition GetIgnorePmId :: "SDMTaskResources \<Rightarrow> 16 word" where
  "GetIgnorePmId r = r AND (ARCHMASK OR MEMMASK OR OSMASK)"

definition SetArch :: "16 word \<Rightarrow> SDMTaskResources \<Rightarrow> SDMTaskResources" where
  "SetArch usArch r = (r AND (PMIDMASK OR MEMMASK OR OSMASK)) OR (usArch AND ARCHMASK)"

definition SetMem :: "16 word \<Rightarrow> SDMTaskResources \<Rightarrow> SDMTaskResources" where
  "SetMem usMem r = (r AND (PMIDMASK OR ARCHMASK OR OSMASK)) OR (usMem AND MEMMASK)"

definition SetOs :: "16 word \<Rightarrow> SDMTaskResources \<Rightarrow> SDMTaskResources" where
  "SetOs usOs r = (r AND (PMIDMASK OR ARCHMASK OR MEMMASK)) OR (usOs AND OSMASK)"

definition MatchResources :: "SDMTaskResources \<Rightarrow> SDMTaskResources \<Rightarrow> bool" where
  "MatchResources pmResources taskResources =
     (if IsPreferredPmIdSet taskResources \<and> GetPreferredPmId pmResources \<noteq> GetPreferredPmId taskResources then False
      else GetArch pmResources = GetArch taskResources \<and> GetMem pmResources \<ge> GetMem taskResources
        \<and> GetOs pmResources = GetOs taskResources)"

section \<open>Task\<close>

abbreviation (input) NUMTASKS :: nat where "NUMTASKS \<equiv> 50"
abbreviation (input) PID_INVALID :: "32 word" where "PID_INVALID \<equiv> 0"
abbreviation (input) INACTIVE :: byte where "INACTIVE \<equiv> 0"
abbreviation (input) SCHEDULED :: byte where "SCHEDULED \<equiv> 3"
abbreviation (input) PENDING :: byte where "PENDING \<equiv> 4"
abbreviation (input) FINISHED :: byte where "FINISHED \<equiv> 5"
abbreviation (input) RUNNING :: byte where "RUNNING \<equiv> 6"
abbreviation (input) MODE_NORMAL :: "32 word" where "MODE_NORMAL \<equiv> 0"
abbreviation (input) MODE_ALWAYS_RUNNING :: "32 word" where "MODE_ALWAYS_RUNNING \<equiv> 1"

record Task =
  pmComponentID :: SDMComponent_ID
  task_state :: byte
  task_priority :: byte
  task_pid :: "32 word"
  task_resources :: SDMTaskResources
  task_filename :: "byte list option"
  task_timeout :: "32 word"
  taskMode :: "32 word"
  taskVersion :: "32 word"

definition InitTask :: "Task \<Rightarrow> Task" where
  "InitTask t = t\<lparr>task_resources := 0, task_pid := PID_INVALID, task_filename := None, task_state := INACTIVE,
     task_priority := 0, pmComponentID := \<lparr>m_ulSensorId = 0, m_ulAddress = 0, m_usPort = 0\<rparr>, task_timeout := 0,
     taskMode := MODE_NORMAL, taskVersion := 0\<rparr>"

definition Task_new :: Task where
  "Task_new = InitTask \<lparr>pmComponentID = SDMComponent_ID_new, task_state = 0, task_priority = 0, task_pid = PID_INVALID,
     task_resources = 0, task_filename = None, task_timeout = 0, taskMode = MODE_NORMAL, taskVersion = 0\<rparr>"

text \<open>The copy constructor duplicates the file name.\<close>

definition Task_copy :: "Task \<Rightarrow> Task option" where
  "Task_copy a = do { f \<leftarrow> task_filename a; Some (a\<lparr>task_filename := Some f\<rparr>) }"

definition Task_Delete :: "Task \<Rightarrow> Task" where
  "Task_Delete t = InitTask t"

definition SetTask ::
    "byte \<Rightarrow> byte \<Rightarrow> 32 word \<Rightarrow> SDMTaskResources \<Rightarrow> byte list option \<Rightarrow> 32 word \<Rightarrow> 32 word \<Rightarrow> 32 word \<Rightarrow> Task \<Rightarrow> Task option" where
  "SetTask s pr p r f atimeout aMode aVersion t = do {
     name \<leftarrow> f;
     Some (t\<lparr>task_resources := r, task_filename := Some name, task_state := s, task_pid := p, task_priority := pr,
       task_timeout := atimeout, taskMode := aMode, taskVersion := aVersion\<rparr>) }"

text \<open>The assignment does not take over the Process Manager of the task.\<close>

definition Task_assign :: "Task \<Rightarrow> Task \<Rightarrow> Task option" where
  "Task_assign this t = SetTask (task_state t) (task_priority t) (task_pid t) (task_resources t) (task_filename t)
     (task_timeout t) (taskMode t) (taskVersion t) (Task_Delete this)"

definition SetPM :: "SDMComponent_ID \<Rightarrow> Task \<Rightarrow> Task" where
  "SetPM PM t = t\<lparr>pmComponentID := SDMComponent_ID_assign (pmComponentID t) PM\<rparr>"

section \<open>TaskList\<close>

type_synonym TaskList = "Task list"

definition TaskList_new :: TaskList where
  "TaskList_new = map InitTask (replicate NUMTASKS Task_new)"

definition AnyInactive :: "TaskList \<Rightarrow> bool" where
  "AnyInactive tasks = list_ex (\<lambda>t. task_state t = INACTIVE) tasks"

definition AnyPending :: "TaskList \<Rightarrow> bool" where
  "AnyPending tasks = list_ex (\<lambda>t. task_state t = PENDING) tasks"

definition AddTo :: "TaskList \<Rightarrow> Task \<Rightarrow> (TaskList \<times> bool) option" where
  "AddTo tasks t =
     (if \<not> AnyInactive tasks then Some (tasks, False)
      else case first_index (\<lambda>t. task_state t = INACTIVE) tasks of
        None \<Rightarrow> Some (tasks, False)
      | Some n \<Rightarrow> do { t' \<leftarrow> Task_assign (tasks ! n) t; Some (tasks[n := t'], True) })"

definition RemoveFrom :: "TaskList \<Rightarrow> 32 word \<Rightarrow> TaskList \<times> bool" where
  "RemoveFrom tasks p =
     (case first_index (\<lambda>t. task_pid t = p) tasks of
        None \<Rightarrow> (tasks, False)
      | Some n \<Rightarrow> (tasks[n := Task_Delete (tasks ! n)], True))"

definition RemoveFrom_name :: "TaskList \<Rightarrow> byte list option \<Rightarrow> TaskList \<times> bool" where
  "RemoveFrom_name tasks filename =
     (if filename = None then (tasks, False)
      else case first_index (\<lambda>t. task_filename t \<noteq> None \<and> task_filename t = filename) tasks of
        None \<Rightarrow> (tasks, False)
      | Some n \<Rightarrow> (tasks[n := Task_Delete (tasks ! n)], True))"

definition TaskList_TaskFinished :: "TaskList \<Rightarrow> 32 word \<Rightarrow> TaskList \<times> bool" where
  "TaskList_TaskFinished tasks a_uiPid =
     (case first_index (\<lambda>t. task_pid t = a_uiPid) tasks of
        None \<Rightarrow> (tasks, False)
      | Some n \<Rightarrow>
          if taskMode (tasks ! n) = MODE_NORMAL then RemoveFrom tasks a_uiPid
          else if taskMode (tasks ! n) = MODE_ALWAYS_RUNNING
          then (tasks[n := (tasks ! n)\<lparr>task_state := PENDING, task_pid := 0\<rparr>], True)
          else (tasks, False))"

definition ClearList :: "TaskList \<Rightarrow> TaskList" where
  "ClearList tasks = map Task_Delete tasks"

definition IsFilePresent :: "TaskList \<Rightarrow> byte list \<Rightarrow> bool" where
  "IsFilePresent tasks f = list_ex (\<lambda>t. task_filename t \<noteq> None \<and> task_filename t = Some f) tasks"

definition SetState :: "TaskList \<Rightarrow> 32 word \<Rightarrow> byte \<Rightarrow> TaskList \<times> 32 word" where
  "SetState tasks p state =
     (case first_index (\<lambda>t. task_pid t = p) tasks of
        None \<Rightarrow> (tasks, 0)
      | Some n \<Rightarrow>
          let t = (tasks ! n)\<lparr>task_state := state\<rparr>;
              t = (if state = FINISHED then t\<lparr>task_pid := PID_INVALID\<rparr> else t)
          in (tasks[n := t], task_pid t))"

text \<open>The index of the task, or -1.\<close>

definition FindPendingTask :: "TaskList \<Rightarrow> Task \<Rightarrow> (Task \<times> int) option" where
  "FindPendingTask tasks taskOut =
     (case first_index (\<lambda>t. task_state t = PENDING) tasks of
        None \<Rightarrow> Some (taskOut, - 1)
      | Some n \<Rightarrow> do { taskOut \<leftarrow> Task_assign taskOut (tasks ! n); Some (taskOut, int n) })"

text \<open>The loop ends with the first task that satisfies all three conditions; until then \<^verbatim>\<open>taskOut\<close> is
  the initialised task.\<close>

definition FindPendingMatch :: "TaskList \<Rightarrow> SDMTaskResources \<Rightarrow> 32 word \<Rightarrow> Task \<Rightarrow> (TaskList \<times> Task \<times> bool) option" where
  "FindPendingMatch tasks resources newPID taskOut =
     (let taskOut = InitTask taskOut in
      case first_index (\<lambda>t. task_state t = PENDING \<and> MatchResources resources (task_resources t)
             \<and> sint (task_priority t) \<ge> sint (task_priority taskOut)) tasks of
        None \<Rightarrow> Some (tasks, taskOut, False)
      | Some n \<Rightarrow> do {
          let t = (tasks ! n)\<lparr>task_pid := newPID\<rparr>;
          taskOut \<leftarrow> Task_assign taskOut t;
          Some (tasks[n := t], taskOut, True) })"

definition TaskList_SetAddress :: "TaskList \<Rightarrow> 32 word \<Rightarrow> SDMComponent_ID \<Rightarrow> TaskList \<times> bool" where
  "TaskList_SetAddress tasks p PM =
     (case first_index (\<lambda>t. task_pid t = p) tasks of
        None \<Rightarrow> (tasks, False)
      | Some n \<Rightarrow> (tasks[n := SetPM PM (tasks ! n)], True))"

definition RemovePreferredPmId :: "SDMTaskResources \<Rightarrow> TaskList \<Rightarrow> TaskList" where
  "RemovePreferredPmId TaskResources tasks =
     map (\<lambda>t. if task_state t \<noteq> INACTIVE \<and> GetPreferredPmId (task_resources t) = GetPreferredPmId TaskResources
              then t\<lparr>task_resources := SetPreferredPmNodeId 0 (task_resources t)\<rparr> else t) tasks"

definition FindPID :: "TaskList \<Rightarrow> byte list option \<Rightarrow> 32 word" where
  "FindPID tasks filename =
     (if filename = None then PID_INVALID
      else case first_index (\<lambda>t. task_state t = SCHEDULED \<and> task_filename t \<noteq> None \<and> task_filename t = filename) tasks of
        None \<Rightarrow> PID_INVALID
      | Some n \<Rightarrow> task_pid (tasks ! n))"

definition GetPMAddress :: "TaskList \<Rightarrow> 32 word \<Rightarrow> SDMComponent_ID" where
  "GetPMAddress tasks pid =
     (case first_index (\<lambda>t. task_pid t = pid) tasks of
        None \<Rightarrow> SDMComponent_ID_new
      | Some n \<Rightarrow> pmComponentID (tasks ! n))"

text \<open>\<^verbatim>\<open>operator[]\<close> throws for an index out of range and for a free slot.\<close>

definition task_at :: "TaskList \<Rightarrow> int \<Rightarrow> Task option" where
  "task_at tasks index =
     (if index < 0 \<or> index \<ge> int NUMTASKS then None
      else if task_state (tasks ! nat index) = INACTIVE then None
      else Some (tasks ! nat index))"

text \<open>The loop of \<^verbatim>\<open>PMFailure\<close>: one error message object is reused; its send result is ignored. \<open>send\<close> is
  the \<open>n\<close>-th \<^verbatim>\<open>Send\<close>. The result has the tasks, the message and the datagrams.\<close>

primrec PMFailure_loop ::
    "(nat \<Rightarrow> env) \<Rightarrow> SDMComponent_ID \<Rightarrow> nat \<Rightarrow> SDMTaskError \<Rightarrow> TaskList \<Rightarrow> (TaskList \<times> nat \<times> byte list list) option" where
  "PMFailure_loop envs PMID n msgError [] = Some ([], n, [])"
| "PMFailure_loop envs PMID n msgError (t # ts) =
     (if SDMComponent_ID_eq (pmComponentID t) PMID then do {
        let msgError = msgError\<lparr>SDMTaskError_source := (SDMTaskError_source msgError)\<lparr>m_ulSensorId := task_pid t\<rparr>\<rparr>;
        let msgError = msgError\<lparr>SDMTaskError_pid := task_pid t\<rparr>;
        (msgError, sent, _) \<leftarrow> SDMTaskError_Send (envs n) msgError;
        (ts, n, rest) \<leftarrow> PMFailure_loop envs PMID (n + 1) msgError ts;
        Some (t\<lparr>task_state := PENDING\<rparr> # ts, n, sent @ rest) }
      else do {
        (ts, n, rest) \<leftarrow> PMFailure_loop envs PMID n msgError ts;
        Some (t # ts, n, rest) })"

definition PMFailure ::
    "(nat \<Rightarrow> env) \<Rightarrow> buffer \<Rightarrow> SDMComponent_ID \<Rightarrow> TaskList \<Rightarrow> (TaskList \<times> nat \<times> byte list list) option" where
  "PMFailure envs uninit PMID tasks =
     (let msgError = SDMTaskError_new uninit;
          msgError = msgError\<lparr>SDMTaskError_source := SDMComponent_ID_assign (SDMTaskError_source msgError) PMID\<rparr>
      in PMFailure_loop envs PMID 0 msgError tasks)"

section \<open>Replies about tasks\<close>

text \<open>\<^verbatim>\<open>"%-8u%s\n"\<close> into a buffer of 512 bytes.\<close>

fun decimal :: "nat \<Rightarrow> byte list" where
  "decimal n = (if n < 10 then [48 + of_nat n] else decimal (n div 10) @ [48 + of_nat (n mod 10)])"

declare decimal.simps [simp del]

definition task_line :: "Task \<Rightarrow> byte list option" where
  "task_line t = do {
     f \<leftarrow> task_filename t;
     let d = decimal (unat (task_pid t));
     Some (take 511 (d @ replicate (8 - length d) 32 @ f @ [10])) }"

datatype TaskSet = TASKS_ALL | TASKS_RUNNING

definition in_set :: "TaskSet \<Rightarrow> Task \<Rightarrow> bool" where
  "in_set eTaskSet t = (task_state t \<noteq> INACTIVE \<and> (eTaskSet = TASKS_RUNNING \<longrightarrow> task_state t = SCHEDULED))"

primrec blob_loop ::
    "TaskSet \<Rightarrow> TaskList \<Rightarrow> buffer \<Rightarrow> 32 word \<Rightarrow> 32 word \<Rightarrow> 16 word \<Rightarrow> (buffer \<times> 32 word \<times> 16 word) option" where
  "blob_loop eTaskSet [] pBuffer uiCurOffset uiBytesRemaining usNumTasks = Some (pBuffer, uiCurOffset, usNumTasks)"
| "blob_loop eTaskSet (t # ts) pBuffer uiCurOffset uiBytesRemaining usNumTasks =
     (if in_set eTaskSet t then do {
        s \<leftarrow> task_line t;
        let uiCurEntryLength = of_nat (length s);
        if uiCurOffset + uiCurEntryLength < uiBytesRemaining then do {
          pBuffer \<leftarrow> put_bytes pBuffer (unat uiCurOffset) (s @ [0]);
          blob_loop eTaskSet ts pBuffer (uiCurOffset + uiCurEntryLength) (uiBytesRemaining - uiCurEntryLength) (usNumTasks + 1) }
        else blob_loop eTaskSet ts pBuffer uiCurOffset uiBytesRemaining usNumTasks }
      else blob_loop eTaskSet ts pBuffer uiCurOffset uiBytesRemaining usNumTasks)"

definition FillTaskListBlob :: "TaskSet \<Rightarrow> TaskList \<Rightarrow> buffer \<Rightarrow> 32 word \<Rightarrow> (buffer \<times> 32 word) option" where
  "FillTaskListBlob eTaskSet tasks pBuffer uiBufferSize = do {
     (pBuffer, uiCurOffset, usNumTasks) \<leftarrow> blob_loop eTaskSet tasks pBuffer 2 (uiBufferSize - 2) 0;
     pBuffer \<leftarrow> PUT_USHORT pBuffer 0 usNumTasks;
     pBuffer \<leftarrow> put_byte pBuffer (unat uiCurOffset) 0;
     Some (pBuffer, uiCurOffset + 1) }"

abbreviation (input) SDM_INTEL :: "16 word" where "SDM_INTEL \<equiv> 0x0002"
abbreviation (input) SDM_MICROBLAZE :: "16 word" where "SDM_MICROBLAZE \<equiv> 0x0007"
abbreviation (input) SDM_SPARC :: "16 word" where "SDM_SPARC \<equiv> 0x0008"
abbreviation (input) SDM_MEM64 :: "16 word" where "SDM_MEM64 \<equiv> 0x0020"
abbreviation (input) SDM_MEM128 :: "16 word" where "SDM_MEM128 \<equiv> 0x0030"
abbreviation (input) SDM_MEM256 :: "16 word" where "SDM_MEM256 \<equiv> 0x0040"
abbreviation (input) SDM_MEM512 :: "16 word" where "SDM_MEM512 \<equiv> 0x0050"
abbreviation (input) SDM_LINUX26 :: "16 word" where "SDM_LINUX26 \<equiv> 0x0200"
abbreviation (input) SDM_WIN32 :: "16 word" where "SDM_WIN32 \<equiv> 0x0300"
abbreviation (input) SDM_VXWORKS :: "16 word" where "SDM_VXWORKS \<equiv> 0x0400"

definition arch_code :: "16 word \<Rightarrow> byte" where
  "arch_code a = (if a = SDM_INTEL then 1 else if a = SDM_MICROBLAZE then 2 else 0)"

definition os_code :: "16 word \<Rightarrow> byte" where
  "os_code a = (if a = SDM_LINUX26 then 1 else if a = SDM_WIN32 then 2 else 0)"

definition mem_code :: "16 word \<Rightarrow> byte" where
  "mem_code a = (if a = SDM_MEM64 then 1 else if a = SDM_MEM128 then 2 else if a = SDM_MEM256 then 3
     else if a = SDM_MEM512 then 4 else 0)"

definition state_code :: "byte \<Rightarrow> byte" where
  "state_code s = (if s = SCHEDULED then 2 else if s = PENDING then 1 else if s = FINISHED then 4
     else if s = RUNNING then 3 else 0)"

definition mode_code :: "32 word \<Rightarrow> byte" where
  "mode_code m = (if m = MODE_NORMAL then 1 else if m = MODE_ALWAYS_RUNNING then 2 else 0)"

definition FillTaskInfoRequest :: "TaskList \<Rightarrow> 32 word \<Rightarrow> buffer \<Rightarrow> (buffer \<times> 32 word) option" where
  "FillTaskInfoRequest tasks uiPid pBuffer =
     (case first_index (\<lambda>t. task_state t \<noteq> INACTIVE \<and> task_pid t = uiPid) tasks of
        None \<Rightarrow> Some (pBuffer, 0)
      | Some iTaskIndex \<Rightarrow> do {
          let t = tasks ! iTaskIndex;
          f \<leftarrow> task_filename t;
          let off = 0;
          pBuffer \<leftarrow> put_bytes pBuffer off (f @ [0]);
          let off = off + MAX_FILENAME_SIZE;
          pBuffer \<leftarrow> PUT_CHAR pBuffer off (arch_code (GetArch (task_resources t)));
          let off = off + 1;
          pBuffer \<leftarrow> PUT_CHAR pBuffer off (os_code (GetOs (task_resources t)));
          let off = off + 1;
          pBuffer \<leftarrow> PUT_CHAR pBuffer off (mem_code (GetMem (task_resources t)));
          let off = off + 1;
          pBuffer \<leftarrow> PUT_UCHAR pBuffer off (GetPreferredPmIdNum (task_resources t));
          let off = off + 1;
          pBuffer \<leftarrow> PUT_CHAR pBuffer off (state_code (task_state t));
          let off = off + 1;
          pBuffer \<leftarrow> PUT_CHAR pBuffer off (mode_code (taskMode t));
          let off = off + 1;
          Some (pBuffer, of_nat off) })"

section \<open>The invariant of the list\<close>

lemma Task_new_eq:
  "Task_new = \<lparr>pmComponentID = SDMComponent_ID_new, task_state = INACTIVE, task_priority = 0, task_pid = PID_INVALID,
     task_resources = 0, task_filename = None, task_timeout = 0, taskMode = MODE_NORMAL, taskVersion = 0\<rparr>"
  by (simp add: Task_new_def InitTask_def SDMComponent_ID_new_def)

lemma Task_new_simps [simp]:
  "task_state Task_new = INACTIVE" "task_pid Task_new = PID_INVALID" "task_filename Task_new = None"
  "pmComponentID Task_new = SDMComponent_ID_new" "taskMode Task_new = MODE_NORMAL" "task_timeout Task_new = 0"
  "task_resources Task_new = 0"
  by (simp_all add: Task_new_eq)

lemma InitTask_new [simp]: "InitTask t = Task_new"
  by (simp add: Task_new_def InitTask_def)

text \<open>A free slot is as \<^verbatim>\<open>InitTask\<close> leaves it; a task in use has a file name that fits a message.\<close>

definition task_good :: "Task \<Rightarrow> bool" where
  "task_good t = (if task_state t = INACTIVE then t = Task_new
     else case task_filename t of None \<Rightarrow> False | Some f \<Rightarrow> 0 \<notin> set f \<and> length f < MAX_FILENAME_SIZE)"

definition tasks_wf :: "TaskList \<Rightarrow> bool" where
  "tasks_wf tasks = (length tasks = NUMTASKS \<and> list_all task_good tasks)"

lemma task_good_new [simp]: "task_good Task_new"
  by (simp add: task_good_def)

lemma tasks_wf_update: "tasks_wf tasks \<Longrightarrow> task_good t \<Longrightarrow> tasks_wf (tasks[n := t])"
  by (cases "n < length tasks") (auto simp: tasks_wf_def list_all_length nth_list_update)

lemma tasks_wf_nth: "tasks_wf tasks \<Longrightarrow> n < NUMTASKS \<Longrightarrow> task_good (tasks ! n)"
  by (simp add: tasks_wf_def list_all_length)

lemma tasks_wf_new: "tasks_wf TaskList_new"
  by (simp add: tasks_wf_def TaskList_new_def list_all_length)

lemma Task_assign_good:
  "task_good t \<Longrightarrow> task_state t \<noteq> INACTIVE \<Longrightarrow> Task_assign this t = Some (t\<lparr>pmComponentID := SDMComponent_ID_new\<rparr>)"
  by (cases t) (auto simp: Task_assign_def SetTask_def Task_Delete_def task_good_def Task_new_eq split: option.splits)

lemma AddTo_wf:
  assumes "tasks_wf tasks" "task_good t" "task_state t \<noteq> INACTIVE"
  shows "\<exists>tasks' b. AddTo tasks t = Some (tasks', b) \<and> tasks_wf tasks'"
  using assms by (auto simp: AddTo_def Task_assign_good task_good_def split: option.splits intro!: tasks_wf_update)

lemma RemoveFrom_wf: "tasks_wf tasks \<Longrightarrow> tasks_wf (fst (RemoveFrom tasks p))"
  by (auto simp: RemoveFrom_def Task_Delete_def tasks_wf_update split: option.splits)

lemma RemoveFrom_name_wf: "tasks_wf tasks \<Longrightarrow> tasks_wf (fst (RemoveFrom_name tasks p))"
  by (auto simp: RemoveFrom_name_def Task_Delete_def tasks_wf_update split: option.splits)

lemma ClearList_new: "length tasks = NUMTASKS \<Longrightarrow> ClearList tasks = TaskList_new"
  by (simp add: list_eq_iff_nth_eq ClearList_def TaskList_new_def Task_Delete_def)

lemma RemovePreferredPmId_wf: "tasks_wf tasks \<Longrightarrow> tasks_wf (RemovePreferredPmId r tasks)"
  by (auto simp: RemovePreferredPmId_def tasks_wf_def list_all_length task_good_def split: option.splits)

section \<open>The list of tasks in a reply\<close>

lemma task_line_good:
  assumes "task_good t" "task_state t \<noteq> INACTIVE"
  obtains s where "task_line t = Some s" "0 < length s" "length s \<le> 511"
proof -
  obtain f where "task_filename t = Some f" using assms by (auto simp: task_good_def split: option.splits)
  then show thesis using that [of "the (task_line t)"] by (simp add: task_line_def Let_def)
qed

definition lines_of :: "TaskSet \<Rightarrow> TaskList \<Rightarrow> byte list list" where
  "lines_of eTaskSet tasks = map (\<lambda>t. the (task_line t)) (filter (in_set eTaskSet) tasks)"

lemma lines_of_simps [simp]:
  "lines_of e [] = []"
  "lines_of e (t # ts) = (if in_set e t then [the (task_line t)] else []) @ lines_of e ts"
  by (simp_all add: lines_of_def)

lemma of_nat_32_less: "a < 2 ^ 32 \<Longrightarrow> b < 2 ^ 32 \<Longrightarrow> (of_nat a :: 32 word) < of_nat b \<longleftrightarrow> a < b"
  by (simp add: word_less_nat_alt unat_of_nat)

lemma blob_loop_lines:
  assumes "list_all task_good ts" "length A + r \<le> length A + length B" "length A + length B < 2 ^ 31" "B \<noteq> []"
  shows "\<exists>ls B'. blob_loop e ts (A @ B) (of_nat (length A)) (of_nat r) k
      = Some (A @ concat ls @ B', of_nat (length A + length (concat ls)), k + of_nat (length ls))
    \<and> subseq ls (lines_of e ts) \<and> B' \<noteq> [] \<and> length (concat ls) + length B' = length B
    \<and> (length A + 2 * length (concat (lines_of e ts)) < r \<longrightarrow> ls = lines_of e ts)"
  using assms
proof (induction ts arbitrary: A B r k)
  case Nil
  then show ?case by (intro exI [of _ "[]"] exI [of _ B]) simp
next
  case (Cons t ts)
  show ?case
  proof (cases "in_set e t")
    case False
    then show ?thesis using Cons.IH [of A r B k] Cons.prems by simp
  next
    case True
    then obtain s where s: "task_line t = Some s" "0 < length s" "length s \<le> 511"
      using Cons.prems(1) task_line_good [of t] by (auto simp: in_set_def)
    have cmp: "(of_nat (length A) + of_nat (length s) :: 32 word) < of_nat r \<longleftrightarrow> length A + length s < r"
      using of_nat_32_less [of "length A + length s" r] Cons.prems(2,3) s(3) by simp
    show ?thesis
    proof (cases "length A + length s < r")
      case False
      obtain ls B' where IH: "blob_loop e ts (A @ B) (of_nat (length A)) (of_nat r) k
          = Some (A @ concat ls @ B', of_nat (length A + length (concat ls)), k + of_nat (length ls))"
          "subseq ls (lines_of e ts)" "B' \<noteq> []" "length (concat ls) + length B' = length B"
        using Cons.IH [of A r B k] Cons.prems by auto
      then show ?thesis using True s(1) False cmp
        by (intro exI [of _ ls] exI [of _ B']) (auto intro: list_emb_Cons)
    next
      case fits: True
      define B1 where "B1 = 0 # drop (length s + 1) B"
      have put: "put_bytes (A @ B) (length A) (s @ [0]) = Some ((A @ s) @ B1)"
        using fits Cons.prems(2) by (simp add: put_bytes_def B1_def)
      have u: "unat (of_nat (length A) :: 32 word) = length A" using Cons.prems(3) by (simp add: unat_of_nat)
      have ne: "B1 \<noteq> []" by (simp add: B1_def)
      have len: "length s + length B1 = length B" using fits Cons.prems(2) by (simp add: B1_def)
      obtain ls B' where IH: "blob_loop e ts ((A @ s) @ B1) (of_nat (length (A @ s))) (of_nat (r - length s)) (k + 1)
          = Some ((A @ s) @ concat ls @ B', of_nat (length (A @ s) + length (concat ls)), k + 1 + of_nat (length ls))"
          "subseq ls (lines_of e ts)" "B' \<noteq> []" "length (concat ls) + length B' = length B1"
          "length (A @ s) + 2 * length (concat (lines_of e ts)) < r - length s \<longrightarrow> ls = lines_of e ts"
        using Cons.IH [of "A @ s" "r - length s" B1 "k + 1", OF _ _ _ ne] Cons.prems len by fastforce
      have "(of_nat r - of_nat (length s) :: 32 word) = of_nat (r - length s)" using fits by (simp add: of_nat_diff)
      then show ?thesis using IH True s(1) fits cmp put u len
        by (intro exI [of _ "s # ls"] exI [of _ B']) (auto simp: add.assoc)
    qed
  qed
qed

lemma length_decimal: "0 < k \<Longrightarrow> n < 10 ^ k \<Longrightarrow> length (decimal n) \<le> k"
proof (induction n arbitrary: k rule: decimal.induct)
  case (1 n)
  show ?case
  proof (cases "n < 10")
    case True
    then show ?thesis using "1.prems" by (simp add: decimal.simps [of n])
  next
    case False
    then obtain j where j: "k = Suc j" "0 < j" using "1.prems" by (cases k; cases "k - 1") auto
    with "1.prems" False have "length (decimal (n div 10)) \<le> j" by (intro "1.IH") auto
    then show ?thesis using False j by (simp add: decimal.simps [of n])
  qed
qed

lemma length_task_line:
  assumes "task_good t" "task_line t = Some s" "task_state t \<noteq> INACTIVE"
  shows "length s \<le> 138"
proof -
  obtain f where f: "task_filename t = Some f" "length f < 128"
    using assms by (auto simp: task_good_def split: option.splits)
  have "unat (task_pid t) < 2 ^ LENGTH(32)" by (rule unsigned_less)
  then have "length (decimal (unat (task_pid t))) \<le> 10"
    by (intro length_decimal) simp_all
  then show ?thesis using assms(2) f by (auto simp: task_line_def Let_def)
qed

lemma length_lines_of: "list_all task_good ts \<Longrightarrow> length (concat (lines_of e ts)) \<le> 138 * length ts"
proof (induction ts)
  case (Cons t ts)
  have "length (the (task_line t)) \<le> 138" if "in_set e t"
  proof -
    have t: "task_good t" "task_state t \<noteq> INACTIVE" using Cons.prems that by (simp_all add: in_set_def)
    from t obtain s where "task_line t = Some s" by (rule task_line_good)
    with t show ?thesis by (simp add: length_task_line)
  qed
  with Cons show ?case by auto
qed simp

section \<open>Properties\<close>

text \<open>The reply to a request for the task list never leaves its buffer, of at least three bytes,
  and is the number of entries, the lines of some of the tasks of the wanted set in their order, and a
  terminator. In a buffer of 13900 bytes or more every task has its line, whatever the tasks are.\<close>

theorem task_list_reply:
  assumes "tasks_wf tasks" "3 \<le> N" "N \<le> length buf" "length buf < 2 ^ 31"
  shows "\<exists>ls rest. FillTaskListBlob e tasks buf (of_nat N)
       = Some (word_bytes 2 (of_nat (length ls) :: 16 word) @ concat ls @ 0 # rest, of_nat (3 + length (concat ls)))
     \<and> subseq ls (lines_of e tasks) \<and> 3 + length (concat ls) + length rest = length buf
     \<and> (13900 \<le> N \<longrightarrow> ls = lines_of e tasks)"
proof -
  have wf: "list_all task_good tasks" "length tasks = 50" using assms(1) by (simp_all add: tasks_wf_def)
  define A B where "A = take 2 buf" and "B = drop 2 buf"
  have AB: "buf = A @ B" "length A = 2" "B \<noteq> []" "N - 2 \<le> length B" "length B + 2 = length buf"
    using assms(2,3) by (auto simp: A_def B_def)
  obtain ls B' where l: "blob_loop e tasks (A @ B) (of_nat 2) (of_nat (N - 2)) 0
      = Some (A @ concat ls @ B', of_nat (2 + length (concat ls)), 0 + of_nat (length ls))"
      "subseq ls (lines_of e tasks)" "B' \<noteq> []" "length (concat ls) + length B' = length B"
      "2 + 2 * length (concat (lines_of e tasks)) < N - 2 \<longrightarrow> ls = lines_of e tasks"
    using blob_loop_lines [of tasks A "N - 2" B e 0] wf(1) AB assms(4) by auto
  obtain b rest where B': "B' = b # rest" using l(3) by (cases B') auto
  have n: "(of_nat N - 2 :: 32 word) = of_nat (N - 2)" using assms(2) by (simp add: of_nat_diff)
  have u: "unat (of_nat (2 + length (concat ls)) :: 32 word) = 2 + length (concat ls)"
    using AB(5) l(4) assms(4) by (subst unat_of_nat) simp
  have "FillTaskListBlob e tasks buf (of_nat N)
      = Some (word_bytes 2 (of_nat (length ls) :: 16 word) @ concat ls @ 0 # rest, of_nat (3 + length (concat ls)))"
    using l(1) AB(1,2) u B'
    by (simp add: FillTaskListBlob_def n put_simps put_bytes_def put_byte_def list_update_append add.commute)
  moreover have "13900 \<le> N \<longrightarrow> ls = lines_of e tasks"
    using l(5) length_lines_of [OF wf(1), of e] wf(2) by auto
  ultimately show ?thesis using l(2,4) AB(5) B' by auto
qed

lemma replicate_7: "replicate 7 x = [x, x, x, x, x, x, x]"
  by (simp add: numeral_eq_Suc)

definition sample_tasks :: TaskList where
  "sample_tasks = TaskList_new[0 := Task_new\<lparr>task_state := PENDING, task_filename := Some [112, 109]\<rparr>]"

theorem task_list_reply_witness:
  "\<exists>ls rest. FillTaskListBlob TASKS_ALL sample_tasks (replicate 14000 0) 14000
       = Some (word_bytes 2 (of_nat (length ls) :: 16 word) @ concat ls @ 0 # rest, of_nat (3 + length (concat ls)))
     \<and> ls = [[48, 32, 32, 32, 32, 32, 32, 32, 112, 109, 10]]"
proof -
  have wf: "tasks_wf sample_tasks"
    unfolding sample_tasks_def by (rule tasks_wf_update [OF tasks_wf_new]) (simp add: task_good_def)
  have n: "TaskList_new = Task_new # replicate 49 Task_new"
    by (simp add: TaskList_new_def flip: replicate_Suc)
  have "lines_of TASKS_ALL sample_tasks = [[48, 32, 32, 32, 32, 32, 32, 32, 112, 109, 10]]"
    by (simp add: lines_of_def sample_tasks_def n filter_replicate in_set_def task_line_def decimal.simps [of 0]
        replicate_7)
  then show ?thesis
    using task_list_reply [OF wf, of 14000 "replicate 14000 0" TASKS_ALL] by auto
qed

end
