(* ===== verification/PM_Records.thy ===== *)
theory PM_Records
  imports Task_List Messages_Fixed
begin

text \<open>
  The Task Manager's records of Process Managers, \<^verbatim>\<open>tm/pm_record.cpp\<close> and \<^verbatim>\<open>tm/pm_record_list.cpp\<close>: an
  array of \<^verbatim>\<open>MAX_PM\<close> records with the number of tasks each manager runs, the position at which the
  next search for a manager starts, and a count of unanswered heartbeats per slot. Every method holds
  the mutex of the list, so each is one step.
\<close>

abbreviation (input) MAX_PM :: nat where "MAX_PM \<equiv> 8"
abbreviation (input) MAX_JOBS :: nat where "MAX_JOBS \<equiv> 50"
abbreviation (input) HEARTBEAT_INACTIVE :: int where "HEARTBEAT_INACTIVE \<equiv> - 1"

record pm_record =
  pm_component_id :: SDMComponent_ID
  pm_resources :: SDMTaskResources
  pm_tasks :: "16 word"
  pm_in_use :: bool

definition pm_record_new :: pm_record where
  "pm_record_new = \<lparr>pm_component_id = SDMComponent_ID_new, pm_resources = 0, pm_tasks = 0, pm_in_use = False\<rparr>"

definition pm_record_assign :: "pm_record \<Rightarrow> pm_record \<Rightarrow> pm_record" where
  "pm_record_assign this b = this\<lparr>pm_resources := pm_resources b, pm_tasks := pm_tasks b, pm_in_use := pm_in_use b,
     pm_component_id := SDMComponent_ID_assign (pm_component_id this) (pm_component_id b)\<rparr>"

record PMRecordList =
  pmList :: "pm_record list"
  schedulerInfoIndex :: nat
  HeartbeatStatus :: "int list"

definition PMRecordList_new :: PMRecordList where
  "PMRecordList_new = \<lparr>pmList = replicate MAX_PM pm_record_new, schedulerInfoIndex = 0, HeartbeatStatus = replicate MAX_PM 0\<rparr>"

definition at_host :: "SDMComponent_ID \<Rightarrow> pm_record \<Rightarrow> bool" where
  "at_host PMAddress r = (pm_in_use r \<and> m_ulAddress (pm_component_id r) = m_ulAddress PMAddress)"

text \<open>The resources only decide about a warning.\<close>

definition AlreadyRegistered :: "PMRecordList \<Rightarrow> SDMComponent_ID \<Rightarrow> bool" where
  "AlreadyRegistered l PMAddress = (first_index (at_host PMAddress) (pmList l) \<noteq> None)"

definition RegisterPM :: "SDMComponent_ID \<Rightarrow> SDMTaskResources \<Rightarrow> PMRecordList \<Rightarrow> PMRecordList \<times> bool" where
  "RegisterPM PMAddress Resources l =
     (case first_index (\<lambda>r. \<not> pm_in_use r) (pmList l) of
        None \<Rightarrow> (l, False)
      | Some i \<Rightarrow>
          let r = (pmList l ! i)\<lparr>pm_in_use := True, pm_tasks := 0, pm_resources := Resources\<rparr>;
              r = r\<lparr>pm_component_id := SDMComponent_ID_assign (pm_component_id r) PMAddress\<rparr>;
              r = r\<lparr>pm_component_id := (pm_component_id r)\<lparr>m_usPort := PORT_PM\<rparr>\<rparr>
          in (l\<lparr>pmList := (pmList l)[i := r]\<rparr>, True))"

definition ClearAllRunningTasks :: "PMRecordList \<Rightarrow> PMRecordList" where
  "ClearAllRunningTasks l = l\<lparr>pmList := map (\<lambda>r. r\<lparr>pm_tasks := 0\<rparr>) (pmList l)\<rparr>"

definition count_task :: "16 word \<Rightarrow> SDMComponent_ID \<Rightarrow> PMRecordList \<Rightarrow> PMRecordList \<times> bool" where
  "count_task d PMAddress l =
     (case first_index (at_host PMAddress) (pmList l) of
        None \<Rightarrow> (l, False)
      | Some i \<Rightarrow> (l\<lparr>pmList := (pmList l)[i := (pmList l ! i)\<lparr>pm_tasks := pm_tasks (pmList l ! i) + d\<rparr>]\<rparr>, True))"

definition PMRecordList_TaskFinished :: "SDMComponent_ID \<Rightarrow> PMRecordList \<Rightarrow> PMRecordList \<times> bool" where
  "PMRecordList_TaskFinished PMAddress l = count_task (- 1) PMAddress l"

definition TaskHasStarted :: "SDMComponent_ID \<Rightarrow> PMRecordList \<Rightarrow> PMRecordList \<times> bool" where
  "TaskHasStarted PMAddress l = count_task 1 PMAddress l"

text \<open>Slots that are not in use are searched, too.\<close>

definition FindPMID :: "PMRecordList \<Rightarrow> SDMTaskResources \<Rightarrow> pm_record \<Rightarrow> pm_record \<times> bool" where
  "FindPMID l TaskResources PmDataOut =
     (if \<not> IsPreferredPmIdSet TaskResources then (PmDataOut, False)
      else case first_index (\<lambda>r. GetPreferredPmId TaskResources = GetPreferredPmId (pm_resources r)) (pmList l) of
        None \<Rightarrow> (PmDataOut, False)
      | Some i \<Rightarrow> (pm_record_assign PmDataOut (pmList l ! i), True))"

definition eligible :: "int \<Rightarrow> SDMTaskResources \<Rightarrow> pm_record \<Rightarrow> bool" where
  "eligible NumTasks TaskResources r =
     (let taskResources = GetIgnorePmId TaskResources;
          taskArchOs = taskResources AND (ARCHMASK OR OSMASK);
          pmResources = GetIgnorePmId (pm_resources r)
      in pm_in_use r \<and> sint (pm_tasks r) \<le> NumTasks \<and> pmResources AND (ARCHMASK OR OSMASK) = taskArchOs
        \<and> pmResources AND MEMMASK \<ge> taskResources AND MEMMASK)"

definition FindEligiblePM ::
    "int \<Rightarrow> SDMTaskResources \<Rightarrow> PMRecordList \<Rightarrow> pm_record \<Rightarrow> PMRecordList \<times> pm_record \<times> bool" where
  "FindEligiblePM NumTasks TaskResources l PmDataOut =
     (case first_index (eligible NumTasks TaskResources) (drop (schedulerInfoIndex l) (pmList l)) of
        Some k \<Rightarrow>
          let i = schedulerInfoIndex l + k
          in (l\<lparr>schedulerInfoIndex := i + 1\<rparr>, pm_record_assign PmDataOut (pmList l ! i), True)
      | None \<Rightarrow> (l\<lparr>schedulerInfoIndex := 0\<rparr>, PmDataOut, False))"

text \<open>The loop of the scheduler over the number of tasks, \<^verbatim>\<open>for (j = 0; j < MAX_JOBS; j++)\<close>, with \<open>n\<close>
  rounds left.\<close>

primrec FindPM_loop ::
    "nat \<Rightarrow> int \<Rightarrow> SDMTaskResources \<Rightarrow> PMRecordList \<Rightarrow> pm_record \<Rightarrow> PMRecordList \<times> pm_record \<times> bool" where
  "FindPM_loop 0 j TaskResources l PMData = (l, PMData, False)"
| "FindPM_loop (Suc n) j TaskResources l PMData =
     (let (l, PMData, bPmFound) = FindEligiblePM j TaskResources l PMData
      in if bPmFound then (l, PMData, True) else FindPM_loop n (j + 1) TaskResources l PMData)"

text \<open>The sends of a loop over the slots; \<open>envs n\<close> is the environment of the \<open>n\<close>-th send.\<close>

primrec send_all ::
    "('m SDMmessage_scheme) marshal \<Rightarrow> (nat \<Rightarrow> env) \<Rightarrow> nat \<Rightarrow> 'm SDMmessage_scheme \<Rightarrow> pm_record list
     \<Rightarrow> ('m SDMmessage_scheme \<times> nat \<times> byte list list) option" where
  "send_all Marshal envs n message [] = Some (message, n, [])"
| "send_all Marshal envs n message (r # rs) =
     (if pm_in_use r then do {
        (message, sent, _) \<leftarrow> SendTo Marshal (env_net (envs n)) (env_stk (envs n)) (env_ack (envs n)) (env_now (envs n))
           message (pm_component_id r);
        (message, n, rest) \<leftarrow> send_all Marshal envs (n + 1) message rs;
        Some (message, n, sent @ rest) }
      else send_all Marshal envs n message rs)"

definition SendToAll ::
    "('m SDMmessage_scheme) marshal \<Rightarrow> (nat \<Rightarrow> env) \<Rightarrow> PMRecordList \<Rightarrow> 'm SDMmessage_scheme
     \<Rightarrow> ('m SDMmessage_scheme \<times> nat \<times> byte list list) option" where
  "SendToAll Marshal envs l message = send_all Marshal envs 0 message (pmList l)"

definition heartbeat_due :: "pm_record \<Rightarrow> int \<Rightarrow> int" where
  "heartbeat_due r h = (if pm_in_use r then h + 1 else HEARTBEAT_INACTIVE)"

text \<open>The result is the list, the message, the number of heartbeats sent and the datagrams.\<close>

definition SendHeartbeatToAll ::
    "(nat \<Rightarrow> env) \<Rightarrow> PMRecordList \<Rightarrow> SDMHeartbeat \<Rightarrow> (PMRecordList \<times> SDMHeartbeat \<times> nat \<times> byte list list) option" where
  "SendHeartbeatToAll envs l HeartbeatMessage = do {
     (HeartbeatMessage, numSent, sent) \<leftarrow> send_all SDMHeartbeat_Marshal envs 0 HeartbeatMessage (pmList l);
     Some (l\<lparr>HeartbeatStatus := map2 heartbeat_due (pmList l) (HeartbeatStatus l)\<rparr>, HeartbeatMessage, numSent, sent) }"

definition HeartbeatReceived :: "SDMComponent_ID \<Rightarrow> PMRecordList \<Rightarrow> PMRecordList" where
  "HeartbeatReceived PMAddress l =
     l\<lparr>HeartbeatStatus := map2 (\<lambda>r h. if at_host PMAddress r then 0 else h) (pmList l) (HeartbeatStatus l)\<rparr>"

definition RemoveAnyFailed :: "PMRecordList \<Rightarrow> pm_record \<Rightarrow> PMRecordList \<times> pm_record \<times> bool" where
  "RemoveAnyFailed l PMNodeOut =
     (case first_index (\<lambda>(r, h). pm_in_use r \<and> h \<ge> 2) (zip (pmList l) (HeartbeatStatus l)) of
        None \<Rightarrow> (l, PMNodeOut, False)
      | Some i \<Rightarrow>
          (l\<lparr>pmList := (pmList l)[i := (pmList l ! i)\<lparr>pm_in_use := False, pm_tasks := 0, pm_resources := 0\<rparr>]\<rparr>,
           pm_record_assign PMNodeOut (pmList l ! i), True))"

definition GetTasks :: "PMRecordList \<Rightarrow> SDMComponent_ID \<Rightarrow> int" where
  "GetTasks l PMAddress =
     (case first_index (at_host PMAddress) (pmList l) of None \<Rightarrow> 0 | Some i \<Rightarrow> sint (pm_tasks (pmList l ! i)))"

definition PMRecordList_IsEmpty :: "PMRecordList \<Rightarrow> bool" where
  "PMRecordList_IsEmpty l = (\<not> list_ex pm_in_use (pmList l))"

definition SetTasks :: "SDMComponent_ID \<Rightarrow> int \<Rightarrow> PMRecordList \<Rightarrow> PMRecordList" where
  "SetTasks PMAddress NumTasks l =
     l\<lparr>pmList := map (\<lambda>r. if at_host PMAddress r then r\<lparr>pm_tasks := of_int NumTasks\<rparr> else r) (pmList l)\<rparr>"

section \<open>The invariant\<close>

text \<open>One record per host: registration is refused for an address that is in use.\<close>

definition pms_wf :: "PMRecordList \<Rightarrow> bool" where
  "pms_wf l = (length (pmList l) = MAX_PM \<and> length (HeartbeatStatus l) = MAX_PM \<and> schedulerInfoIndex l \<le> MAX_PM
     \<and> inj_on (\<lambda>i. m_ulAddress (pm_component_id (pmList l ! i))) {i. i < MAX_PM \<and> pm_in_use (pmList l ! i)})"

lemma pm_record_assign_eq [simp]: "pm_record_assign a b = b"
  by (cases a; cases b) (simp add: pm_record_assign_def)

lemma pms_wf_new: "pms_wf PMRecordList_new"
  by (auto simp: pms_wf_def PMRecordList_new_def pm_record_new_def inj_on_def)

lemma pms_wf_unique:
  "pms_wf l \<Longrightarrow> i < MAX_PM \<Longrightarrow> j < MAX_PM \<Longrightarrow> at_host c (pmList l ! i) \<Longrightarrow> at_host c (pmList l ! j) \<Longrightarrow> i = j"
  by (auto simp: pms_wf_def at_host_def inj_on_def)

lemma at_host_index:
  assumes "pms_wf l" "i < MAX_PM" "at_host c (pmList l ! i)"
  shows "first_index (at_host c) (pmList l) = Some i"
proof (rule first_index_eq)
  fix j assume "j < i"
  then show "\<not> at_host c (pmList l ! j)"
    using pms_wf_unique [OF assms(1), of j i c] assms(2,3) by auto
qed (use assms in \<open>simp_all add: pms_wf_def\<close>)

lemma pms_wf_update:
  assumes "pms_wf l" "\<And>j. pm_in_use r \<Longrightarrow> j < MAX_PM \<Longrightarrow> at_host (pm_component_id r) (pmList l ! j) \<Longrightarrow> j = i"
  shows "pms_wf (l\<lparr>pmList := (pmList l)[i := r]\<rparr>)"
proof -
  have "inj_on (\<lambda>j. m_ulAddress (pm_component_id ((pmList l)[i := r] ! j))) {j. j < MAX_PM \<and> pm_in_use ((pmList l)[i := r] ! j)}"
  proof (rule inj_onI, clarsimp)
    fix j k assume jk: "j < 8" "k < 8" "pm_in_use ((pmList l)[i := r] ! j)" "pm_in_use ((pmList l)[i := r] ! k)"
      "m_ulAddress (pm_component_id ((pmList l)[i := r] ! j)) = m_ulAddress (pm_component_id ((pmList l)[i := r] ! k))"
    have len: "length (pmList l) = 8" using assms(1) by (simp add: pms_wf_def)
    have u: "(pmList l)[i := r] ! m = (if i = m then r else pmList l ! m)" if "m < 8" for m
      using that len by (cases "i < 8") (auto simp: nth_list_update)
    show "j = k"
      using jk assms(2) [of j] assms(2) [of k] pms_wf_unique [OF assms(1), of j k "pm_component_id (pmList l ! k)"]
      by (auto simp: u at_host_def split: if_splits)
  qed
  then show ?thesis using assms(1) by (simp add: pms_wf_def)
qed

lemma pms_wf_same:
  assumes "pms_wf l" "i < MAX_PM" "pm_in_use r \<Longrightarrow> pm_in_use (pmList l ! i) \<and> pm_component_id r = pm_component_id (pmList l ! i)"
  shows "pms_wf (l\<lparr>pmList := (pmList l)[i := r]\<rparr>)"
  using assms pms_wf_unique [OF assms(1), of _ i "pm_component_id (pmList l ! i)"]
  by (intro pms_wf_update) (auto simp: at_host_def)

lemma count_task_wf: "pms_wf l \<Longrightarrow> pms_wf (fst (count_task d c l))"
  using first_index_Some [of "at_host c" "pmList l"]
  by (auto simp: count_task_def pms_wf_def [of l] split: option.splits intro!: pms_wf_same)

text \<open>Operations that change neither the hosts nor which slots are in use.\<close>

lemma pms_wf_cong:
  assumes "pms_wf l" "length (pmList l') = MAX_PM" "length (HeartbeatStatus l') = MAX_PM" "schedulerInfoIndex l' \<le> MAX_PM"
    and "\<And>i. i < MAX_PM \<Longrightarrow> pm_component_id (pmList l' ! i) = pm_component_id (pmList l ! i)
           \<and> pm_in_use (pmList l' ! i) = pm_in_use (pmList l ! i)"
  shows "pms_wf l'"
  using assms by (auto simp: pms_wf_def inj_on_def)

lemma RegisterPM_wf:
  assumes "pms_wf l" "\<not> AlreadyRegistered l c"
  shows "pms_wf (fst (RegisterPM c r l))"
proof (cases "first_index (\<lambda>r. \<not> pm_in_use r) (pmList l)")
  case None
  then show ?thesis using assms by (simp add: RegisterPM_def)
next
  case (Some i)
  have "\<not> at_host c (pmList l ! j)" if "j < MAX_PM" for j
    using assms that by (auto simp: AlreadyRegistered_def first_index_None pms_wf_def)
  then show ?thesis using assms(1) Some
    by (auto simp: RegisterPM_def Let_def at_host_def intro!: pms_wf_update)
qed

lemma SetTasks_wf: "pms_wf l \<Longrightarrow> pms_wf (SetTasks c n l)"
  by (rule pms_wf_cong [of l], assumption) (auto simp: pms_wf_def SetTasks_def)

lemma ClearAllRunningTasks_wf: "pms_wf l \<Longrightarrow> pms_wf (ClearAllRunningTasks l)"
  by (rule pms_wf_cong [of l], assumption) (auto simp: pms_wf_def ClearAllRunningTasks_def)

lemma HeartbeatReceived_wf: "pms_wf l \<Longrightarrow> pms_wf (HeartbeatReceived c l)"
  by (rule pms_wf_cong [of l], assumption) (auto simp: pms_wf_def HeartbeatReceived_def)

lemma SendHeartbeatToAll_wf: "pms_wf l \<Longrightarrow> SendHeartbeatToAll envs l m = Some (l', m', k, sent) \<Longrightarrow> pms_wf l'"
  by (rule pms_wf_cong [of l], assumption) (auto simp: pms_wf_def SendHeartbeatToAll_def split: bind_splits)

lemma RemoveAnyFailed_wf: "pms_wf l \<Longrightarrow> pms_wf (fst (RemoveAnyFailed l r))"
  by (auto simp: RemoveAnyFailed_def split: option.splits intro!: pms_wf_update)

lemma FindEligiblePM_wf: "pms_wf l \<Longrightarrow> pms_wf (fst (FindEligiblePM n r l p))"
  using first_index_Some [of "eligible n r" "drop (schedulerInfoIndex l) (pmList l)"]
  by (auto simp: FindEligiblePM_def pms_wf_def Let_def split: option.splits)

section \<open>The choice of a manager\<close>

abbreviation load :: "pm_record \<Rightarrow> int" where
  "load r \<equiv> sint (pm_tasks r)"

text \<open>The managers that can run a task, whatever their load.\<close>

definition suits :: "SDMTaskResources \<Rightarrow> pm_record \<Rightarrow> bool" where
  "suits R r = (pm_in_use r \<and> GetArch (pm_resources r) = GetArch R \<and> GetOs (pm_resources r) = GetOs R
     \<and> GetMem R \<le> GetMem (pm_resources r))"

lemma resource_masks:
  "GetArch (GetIgnorePmId r) = GetArch r" "GetOs (GetIgnorePmId r) = GetOs r" "GetIgnorePmId r AND MEMMASK = GetMem r"
  by (simp_all add: GetIgnorePmId_def GetArch_def GetOs_def GetMem_def and.assoc)

lemma arch_os_eq:
  "r AND (ARCHMASK OR OSMASK) = q AND (ARCHMASK OR OSMASK) \<longleftrightarrow> GetArch r = GetArch q \<and> GetOs r = GetOs q"
proof
  assume e: "r AND (ARCHMASK OR OSMASK) = q AND (ARCHMASK OR OSMASK)"
  have "x AND ARCHMASK = (x AND (ARCHMASK OR OSMASK)) AND ARCHMASK" "x AND OSMASK = (x AND (ARCHMASK OR OSMASK)) AND OSMASK"
    for x :: "16 word" by (simp_all add: and.assoc)
  with e show "GetArch r = GetArch q \<and> GetOs r = GetOs q" unfolding GetArch_def GetOs_def by metis
next
  assume "GetArch r = GetArch q \<and> GetOs r = GetOs q"
  then show "r AND (ARCHMASK OR OSMASK) = q AND (ARCHMASK OR OSMASK)"
    unfolding GetArch_def GetOs_def bit.conj_disj_distrib by (simp only:)
qed

lemma eligible_iff: "eligible n R r \<longleftrightarrow> suits R r \<and> load r \<le> n"
  unfolding eligible_def suits_def Let_def arch_os_eq resource_masks by auto

lemma FindEligiblePM_found:
  "FindEligiblePM j R l out = (l', p, True) \<Longrightarrow> p \<in> set (pmList l) \<and> suits R p \<and> load p \<le> j \<and> pmList l' = pmList l"
  using first_index_Some [of "eligible j R" "drop (schedulerInfoIndex l) (pmList l)"]
  by (auto simp: FindEligiblePM_def Let_def eligible_iff split: option.splits)

lemma FindEligiblePM_none:
  "FindEligiblePM j R l out = (l', p, False) \<Longrightarrow> pmList l' = pmList l \<and> schedulerInfoIndex l' = 0 \<and> p = out
     \<and> (schedulerInfoIndex l = 0 \<longrightarrow> (\<forall>q\<in>set (pmList l). suits R q \<longrightarrow> j < load q))"
  by (auto simp: FindEligiblePM_def Let_def eligible_iff first_index_None split: option.splits)

lemma FindPM_loop_least:
  assumes "schedulerInfoIndex l = 0" "FindPM_loop n j R l out = (l', p, found)"
  shows "pmList l' = pmList l \<and>
    (if found then p \<in> set (pmList l) \<and> suits R p \<and> load p < j + int n
       \<and> (\<forall>q\<in>set (pmList l). suits R q \<longrightarrow> load p \<le> max j (load q))
     else 0 < n \<longrightarrow> (\<forall>q\<in>set (pmList l). suits R q \<longrightarrow> j + int n \<le> load q))"
  using assms
proof (induction n arbitrary: j l out)
  case (Suc n)
  obtain l1 p1 b where e: "FindEligiblePM j R l out = (l1, p1, b)" by (cases "FindEligiblePM j R l out")
  show ?case
  proof (cases b)
    case True
    then show ?thesis using FindEligiblePM_found [of j R l out l1 p1] e Suc.prems(2) by auto
  next
    case False
    then have f: "pmList l1 = pmList l" "schedulerInfoIndex l1 = 0" "\<forall>q\<in>set (pmList l). suits R q \<longrightarrow> j < load q"
      using FindEligiblePM_none [of j R l out l1 p1] e Suc.prems(1) by auto
    have "FindPM_loop n (j + 1) R l1 p1 = (l', p, found)" using Suc.prems(2) e False by simp
    note IH = Suc.IH [OF f(2) this, unfolded f(1)]
    have m: "max (j + 1) (load q) = load q" "max j (load q) = load q" if "q \<in> set (pmList l)" "suits R q" for q
      using f(3) that by auto
    show ?thesis
    proof (cases found)
      case True
      then show ?thesis using IH m by auto
    next
      case False
      then show ?thesis using IH f(3) by (cases n) auto
    qed
  qed
qed simp

text \<open>The search from any position of the index.\<close>

lemma FindPM_loop_spec:
  assumes "FindPM_loop MAX_JOBS 0 R l out = (l', p, found)"
  shows "pmList l' = pmList l \<and> (if found
     then p \<in> set (pmList l) \<and> suits R p \<and> load p < int MAX_JOBS \<and> (\<forall>q\<in>set (pmList l). suits R q \<longrightarrow> load p \<le> max 1 (load q))
     else \<forall>q\<in>set (pmList l). suits R q \<longrightarrow> int MAX_JOBS \<le> load q)"
proof -
  obtain l1 p1 b where e: "FindEligiblePM 0 R l out = (l1, p1, b)" by (cases "FindEligiblePM 0 R l out")
  have s: "FindPM_loop 50 0 R l out = (if b then (l1, p1, True) else FindPM_loop 49 1 R l1 p1)"
    using e by (simp add: numeral_eq_Suc)
  show ?thesis
  proof (cases b)
    case True
    then show ?thesis using FindEligiblePM_found [of 0 R l out l1 p1] e s assms by auto
  next
    case False
    then have f: "pmList l1 = pmList l" "schedulerInfoIndex l1 = 0"
      using FindEligiblePM_none [of 0 R l out l1 p1] e by auto
    have "FindPM_loop 49 1 R l1 p1 = (l', p, found)" using s False assms by simp
    then show ?thesis using FindPM_loop_least [OF f(2), of 49 1 R p1 l' p found] unfolding f(1) by (cases found) simp_all
  qed
qed

section \<open>Failed managers\<close>

text \<open>The loop \<^verbatim>\<open>while (pmList.RemoveAnyFailed(PMNode)) ...\<close> of the heartbeat thread; \<open>handle\<close> is its body. It
  ends because every round takes a record out of use.\<close>

lemma RemoveAnyFailed_decreases:
  assumes "RemoveAnyFailed l out = (l', r, True)"
  shows "length (filter pm_in_use (pmList l')) < length (filter pm_in_use (pmList l))"
proof -
  let ?p = "\<lambda>(r, h). pm_in_use r \<and> h \<ge> 2"
  obtain i where i: "first_index ?p (zip (pmList l) (HeartbeatStatus l)) = Some i"
      "pmList l' = (pmList l)[i := (pmList l ! i)\<lparr>pm_in_use := False, pm_tasks := 0, pm_resources := 0\<rparr>]"
    using assms by (auto simp: RemoveAnyFailed_def split: option.splits)
  then have u: "i < length (pmList l)" "pm_in_use (pmList l ! i)"
    using first_index_Some [OF i(1)] by auto
  have xs: "pmList l = take i (pmList l) @ pmList l ! i # drop (Suc i) (pmList l)"
    using u(1) by (rule id_take_nth_drop)
  have "filter pm_in_use (pmList l) = filter pm_in_use (take i (pmList l)) @ pmList l ! i # filter pm_in_use (drop (Suc i) (pmList l))"
    using u(2) by (subst xs) simp
  then show ?thesis
    using u(1) by (simp add: i(2) upd_conv_take_nth_drop)
qed

function failed_loop :: "(pm_record \<Rightarrow> 's \<Rightarrow> 's option) \<Rightarrow> PMRecordList \<Rightarrow> 's \<Rightarrow> (PMRecordList \<times> 's) option" where
  "failed_loop handle l s =
     (let (l', PMNode, failed) = RemoveAnyFailed l pm_record_new
      in if failed then do { s \<leftarrow> handle PMNode s; failed_loop handle l' s } else Some (l', s))"
  by pat_completeness auto
termination
  by (relation "measure (\<lambda>(handle, l, s). length (filter pm_in_use (pmList l)))")
     (auto dest!: sym [THEN RemoveAnyFailed_decreases])

declare failed_loop.simps [simp del]

text \<open>What the loop does: the failed managers are handled in the order of their slots.\<close>

primrec handle_all :: "('a \<Rightarrow> 's \<Rightarrow> 's option) \<Rightarrow> 'a list \<Rightarrow> 's \<Rightarrow> 's option" where
  "handle_all handle [] s = Some s"
| "handle_all handle (x # xs) s = do { s \<leftarrow> handle x s; handle_all handle xs s }"

definition failing :: "pm_record \<times> int \<Rightarrow> bool" where
  "failing = (\<lambda>(r, h). pm_in_use r \<and> h \<ge> 2)"

definition retired :: "pm_record \<times> int \<Rightarrow> pm_record" where
  "retired = (\<lambda>(r, h). if failing (r, h) then r\<lparr>pm_in_use := False, pm_tasks := 0, pm_resources := 0\<rparr> else r)"

definition slots_of :: "PMRecordList \<Rightarrow> (pm_record \<times> int) list" where
  "slots_of l = zip (pmList l) (HeartbeatStatus l)"

lemma first_index_filter:
  "first_index p xs = Some i \<Longrightarrow> \<not> p y \<Longrightarrow> filter p xs = xs ! i # filter p (xs[i := y])"
  by (induction xs arbitrary: i) (auto split: if_splits)

lemma failed_loop_eq:
  "pms_wf l \<Longrightarrow> failed_loop handle l s = do {
     s \<leftarrow> handle_all handle (map fst (filter failing (slots_of l))) s;
     Some (l\<lparr>pmList := map retired (slots_of l)\<rparr>, s) }"
proof (induction handle l s rule: failed_loop.induct)
  case (1 handle l s)
  have len: "length (pmList l) = 8" "length (HeartbeatStatus l) = 8" using "1.prems" by (simp_all add: pms_wf_def)
  show ?case
  proof (cases "first_index failing (slots_of l)")
    case None
    then have "filter failing (slots_of l) = []" "map retired (slots_of l) = map fst (slots_of l)"
      by (auto simp: first_index_None retired_def filter_empty_conv)
    moreover have "map fst (slots_of l) = pmList l" using len by (simp add: slots_of_def)
    ultimately have m: "filter failing (slots_of l) = []" "map retired (slots_of l) = pmList l" by simp_all
    have "RemoveAnyFailed l pm_record_new = (l, pm_record_new, False)"
      using None by (simp add: RemoveAnyFailed_def failing_def slots_of_def)
    then show ?thesis unfolding m by (simp add: failed_loop.simps [of handle l s])
  next
    case (Some i)
    let ?z = "slots_of l ! i" and ?l = "l\<lparr>pmList := (pmList l)[i := retired (slots_of l ! i)]\<rparr>"
    have i: "i < 8" "failing ?z" "fst ?z = pmList l ! i"
      using first_index_Some [OF Some] len by (auto simp: slots_of_def)
    have r: "RemoveAnyFailed l pm_record_new = (?l, pmList l ! i, True)"
      using Some i by (auto simp: RemoveAnyFailed_def failing_def slots_of_def retired_def split: prod.splits)
    have z: "slots_of ?l = (slots_of l)[i := (retired ?z, snd ?z)]"
      using len i(1) zip_update [of "pmList l" i "retired ?z" "HeartbeatStatus l" "HeartbeatStatus l ! i"]
      by (simp add: slots_of_def)
    have nf: "\<not> failing (retired ?z, snd ?z)" using i(2) by (auto simp: failing_def retired_def split: prod.splits)
    have f: "filter failing (slots_of l) = ?z # filter failing (slots_of ?l)"
      unfolding z using Some nf by (rule first_index_filter)
    have rr: "retired (retired ?z, snd ?z) = retired ?z" using nf unfolding retired_def by auto
    have "i < length (slots_of l)" using i(1) len by (simp add: slots_of_def)
    then have m: "map retired (slots_of ?l) = map retired (slots_of l)"
      unfolding z map_update rr by (metis list_update_id nth_map)
    have w: "pms_wf ?l" using RemoveAnyFailed_wf [OF "1.prems", of pm_record_new] r by simp
    show ?thesis
      using "1.IH" [OF r [symmetric] refl refl] w f m i(3)
      by (cases "handle (pmList l ! i) s") (simp_all add: failed_loop.simps [of handle l s] r)
  qed
qed

text \<open>What a round of the heartbeat thread comes to, slot by slot: \<open>SendHeartbeatToAll\<close> and \<open>HeartbeatReceived\<close> for the
  answers (\<open>beat\<close>), then \<open>failed_loop\<close>, by \<open>failed_loop_eq\<close>.\<close>

definition beat :: "SDMComponent_ID list \<Rightarrow> PMRecordList \<Rightarrow> PMRecordList" where
  "beat answers l = fold HeartbeatReceived answers (l\<lparr>HeartbeatStatus := map2 heartbeat_due (pmList l) (HeartbeatStatus l)\<rparr>)"

definition heartbeat_round :: "SDMComponent_ID list \<Rightarrow> PMRecordList \<Rightarrow> PMRecordList" where
  "heartbeat_round answers l = (let l = beat answers l in l\<lparr>pmList := map retired (slots_of l)\<rparr>)"

definition answers_from :: "pm_record \<Rightarrow> SDMComponent_ID list \<Rightarrow> bool" where
  "answers_from r answers = (\<exists>c\<in>set answers. at_host c r)"

lemma beat_slots:
  assumes "length (pmList l) = MAX_PM" "length (HeartbeatStatus l) = MAX_PM" "i < MAX_PM"
  shows "pmList (beat answers l) = pmList l \<and> length (HeartbeatStatus (beat answers l)) = MAX_PM
    \<and> HeartbeatStatus (beat answers l) ! i
        = (if answers_from (pmList l ! i) answers then 0 else heartbeat_due (pmList l ! i) (HeartbeatStatus l ! i))"
  using assms(3)
proof (induction answers rule: rev_induct)
  case Nil
  then show ?case using assms by (simp add: beat_def answers_from_def)
next
  case (snoc c answers)
  have "beat (answers @ [c]) l = HeartbeatReceived c (beat answers l)" by (simp add: beat_def)
  then show ?case using snoc assms by (auto simp: HeartbeatReceived_def answers_from_def)
qed

lemma heartbeat_round_slot:
  assumes "length (pmList l) = MAX_PM" "length (HeartbeatStatus l) = MAX_PM" "i < MAX_PM" "pm_in_use (pmList l ! i)"
  shows "let h = (if answers_from (pmList l ! i) answers then 0 else HeartbeatStatus l ! i + 1);
             l' = heartbeat_round answers l
         in HeartbeatStatus l' ! i = h \<and> pm_in_use (pmList l' ! i) = (h < 2) \<and> (h < 2 \<longrightarrow> pmList l' ! i = pmList l ! i)
            \<and> length (pmList l') = MAX_PM \<and> length (HeartbeatStatus l') = MAX_PM"
  using beat_slots [OF assms(1-3), of answers] assms
  by (auto simp: heartbeat_round_def Let_def slots_of_def retired_def failing_def heartbeat_due_def)

lemma heartbeat_round_unused:
  assumes "length (pmList l) = MAX_PM" "length (HeartbeatStatus l) = MAX_PM" "i < MAX_PM" "\<not> pm_in_use (pmList l ! i)"
  shows "\<not> pm_in_use (pmList (heartbeat_round answers l) ! i)"
  using beat_slots [OF assms(1-3), of answers] assms
  by (auto simp: heartbeat_round_def Let_def slots_of_def retired_def failing_def)

section \<open>Properties\<close>

text \<open>C30. The scheduler balances the load: for a task without a preferred manager it finds a manager exactly
  when one suits the task and runs fewer than 50 tasks; the one it takes suits the task, and no suitable
  manager has fewer tasks than it, unless it has at most one.\<close>

theorem scheduler_balances:
  assumes "FindPM_loop MAX_JOBS 0 R l out = (l', p, found)"
  shows "pmList l' = pmList l
     \<and> (found \<longleftrightarrow> (\<exists>q\<in>set (pmList l). suits R q \<and> load q < int MAX_JOBS))
     \<and> (found \<longrightarrow> p \<in> set (pmList l) \<and> suits R p \<and> load p < int MAX_JOBS
          \<and> (\<forall>q\<in>set (pmList l). suits R q \<longrightarrow> load p \<le> max 1 (load q)))"
  using FindPM_loop_spec [OF assms] by (cases found) force+

definition sample_pm :: "32 word \<Rightarrow> 16 word \<Rightarrow> pm_record" where
  "sample_pm addr n = \<lparr>pm_component_id = \<lparr>m_ulSensorId = 0, m_ulAddress = addr, m_usPort = PORT_PM\<rparr>, pm_resources = 0,
     pm_tasks = n, pm_in_use = True\<rparr>"

definition sample_pms :: PMRecordList where
  "sample_pms = PMRecordList_new\<lparr>pmList := [sample_pm 1 3, sample_pm 2 1] @ replicate 6 pm_record_new\<rparr>"

theorem scheduler_balances_witness:
  "\<exists>l' p. FindPM_loop MAX_JOBS 0 0 sample_pms pm_record_new = (l', p, True) \<and> load p \<le> 1"
proof -
  obtain l' p found where e: "FindPM_loop MAX_JOBS 0 0 sample_pms pm_record_new = (l', p, found)"
    by (metis surj_pair)
  have q: "sample_pm 2 1 \<in> set (pmList sample_pms)" "suits 0 (sample_pm 2 1)" "load (sample_pm 2 1) = 1"
    by (simp_all add: sample_pms_def sample_pm_def suits_def GetMem_def)
  have found using scheduler_balances [OF e] q by (auto intro!: bexI [OF _ q(1)])
  then show ?thesis using scheduler_balances [OF e] q e by fastforce
qed

lemma sample_pms_wf: "pms_wf sample_pms"
proof -
  have "pms_wf (PMRecordList_new\<lparr>pmList := (pmList PMRecordList_new)[0 := sample_pm 1 3]\<rparr>)"
    by (rule pms_wf_update [OF pms_wf_new]) (auto simp: PMRecordList_new_def at_host_def pm_record_new_def)
  then have "pms_wf (PMRecordList_new\<lparr>pmList := (pmList PMRecordList_new)[0 := sample_pm 1 3]\<rparr>
      \<lparr>pmList := (pmList (PMRecordList_new\<lparr>pmList := (pmList PMRecordList_new)[0 := sample_pm 1 3]\<rparr>))[1 := sample_pm 2 1]\<rparr>)"
    by (rule pms_wf_update) (auto simp: PMRecordList_new_def at_host_def pm_record_new_def sample_pm_def nth_list_update split: if_splits)
  then show ?thesis by (simp add: sample_pms_def PMRecordList_new_def numeral_eq_Suc)
qed

end
