(* ===== verification/Subscription_Manager.thy ===== *)
theory Subscription_Manager
  imports Messages_Data Messages_Fixed
begin

text \<open>
  The subscription manager that providers use to publish data,
  \<^verbatim>\<open>common/SubscriptionManager/SubscriptionManager.cpp\<close>: a linked list of subscriptions, the newest first,
  and the message object that is sent to the subscribers.

  \<open>envs n\<close> is the environment of the \<open>n\<close>-th send of an operation. The datagrams an operation sends are
  returned with their destinations. \<^verbatim>\<open>Publish\<close> yields \<^term>\<open>None\<close> when it copies out of bounds, when it tests the
  uninitialised result of a send that could not connect, and when it reads the node of a service request
  after deleting it.
\<close>

record subscription =
  sub_component_id :: SDMComponent_ID
  sub_msg_id :: SDMMessage_ID
  sub_fault_id :: SDMMessage_ID
  isSerreqst :: bool

definition subscription_new :: subscription where
  "subscription_new = \<lparr>sub_component_id = SDMComponent_ID_new, sub_msg_id = SDMMessage_ID_new 0 0,
     sub_fault_id = SDMMessage_ID_new 0 0, isSerreqst = False\<rparr>"

record SubscriptionManager =
  my_component_id :: SDMComponent_ID
  sub_list :: "subscription list"
  dat :: SDMData

definition SubscriptionManager_new :: "globals \<Rightarrow> buffer \<Rightarrow> SubscriptionManager" where
  "SubscriptionManager_new g uninit = \<lparr>my_component_id = SDMComponent_ID_new, sub_list = [], dat = SDMData_new g uninit\<rparr>"

definition same_subscriber :: "SDMMessage_ID \<Rightarrow> SDMComponent_ID \<Rightarrow> subscription \<Rightarrow> bool" where
  "same_subscriber msg_id destination cur =
     (if SDMMessage_ID_eq (sub_msg_id cur) msg_id then
        if m_ulAddress (sub_component_id cur) = m_ulAddress destination then
          m_usPort (sub_component_id cur) = m_usPort destination
        else False
      else False)"

definition AddSubscription :: "SDMSubreqst \<Rightarrow> SubscriptionManager \<Rightarrow> SubscriptionManager \<times> bool" where
  "AddSubscription subreqst sm =
     (if list_ex (same_subscriber (SDMSubreqst_msg_id subreqst) (SDMSubreqst_destination subreqst)) (sub_list sm)
      then (sm, False)
      else let new_sub = subscription_new\<lparr>sub_msg_id := SDMSubreqst_msg_id subreqst,
             sub_fault_id := SDMSubreqst_fault_id subreqst,
             sub_component_id := SDMComponent_ID_assign (sub_component_id subscription_new) (SDMSubreqst_destination subreqst),
             isSerreqst := False\<rparr>
           in (sm\<lparr>sub_list := new_sub # sub_list sm,
                my_component_id := SDMComponent_ID_assign (my_component_id sm) (SDMSubreqst_source subreqst)\<rparr>, True))"

definition AddSubscription_service :: "SDMSerreqst \<Rightarrow> SubscriptionManager \<Rightarrow> SubscriptionManager \<times> bool" where
  "AddSubscription_service serreqst sm =
     (if list_ex (same_subscriber (SDMSerreqst_reply_id serreqst) (SDMSerreqst_destination serreqst)) (sub_list sm)
      then (sm, False)
      else let new_sub = subscription_new\<lparr>sub_msg_id := SDMSerreqst_reply_id serreqst,
             sub_fault_id := SDMSerreqst_fault_id serreqst,
             sub_component_id := SDMComponent_ID_assign (sub_component_id subscription_new) (SDMSerreqst_destination serreqst),
             isSerreqst := True\<rparr>
           in (sm\<lparr>sub_list := new_sub # sub_list sm,
                my_component_id := SDMComponent_ID_assign (my_component_id sm) (SDMSerreqst_source serreqst)\<rparr>, True))"

text \<open>The loop of \<^verbatim>\<open>RemoveSubscription\<close>; the nodes before the current one stay.\<close>

primrec remove_first :: "(subscription \<Rightarrow> bool) \<Rightarrow> subscription list \<Rightarrow> subscription list \<times> bool" where
  "remove_first p [] = ([], False)"
| "remove_first p (cur # next) =
     (if p cur then (next, True) else let (l, b) = remove_first p next in (cur # l, b))"

definition RemoveSubscription :: "SDMDeletesub \<Rightarrow> SubscriptionManager \<Rightarrow> SubscriptionManager \<times> bool" where
  "RemoveSubscription deletesub sm =
     (let (l, b) = remove_first (same_subscriber (SDMDeletesub_msg_id deletesub) (SDMDeletesub_destination deletesub)) (sub_list sm)
      in (sm\<lparr>sub_list := l\<rparr>, b))"

definition SubscriptionCount :: "SubscriptionManager \<Rightarrow> nat" where
  "SubscriptionCount sm = fold (\<lambda>_ count. count + 1) (sub_list sm) 0"

definition wants :: "SDMMessage_ID \<Rightarrow> subscription \<Rightarrow> bool" where
  "wants msg cur = (SDMMessage_ID_eq (sub_msg_id cur) msg \<or> SDMMessage_ID_eq (sub_fault_id cur) msg)"

primrec publish_loop ::
    "(nat \<Rightarrow> env) \<Rightarrow> SDMMessage_ID \<Rightarrow> int \<Rightarrow> nat \<Rightarrow> SDMData \<Rightarrow> bool \<Rightarrow> subscription list
     \<Rightarrow> (SDMData \<times> nat \<times> bool \<times> (SDMComponent_ID \<times> byte list) list) option" where
  "publish_loop envs msg len n d published [] = Some (d, n, published, [])"
| "publish_loop envs msg len n d published (cur # next) =
     (if wants msg cur then do {
        (d, sent, r) \<leftarrow> SDMData_Send_length (envs n) d (sub_component_id cur) len;
        result \<leftarrow> r;
        (if result \<noteq> - 1 \<and> isSerreqst cur then None
         else do {
           (d, n, published, rest) \<leftarrow> publish_loop envs msg len (n + 1) d (if result \<noteq> - 1 then True else published) next;
           Some (d, n, published, map (Pair (sub_component_id cur)) sent @ rest) }) }
      else publish_loop envs msg len n d published next)"

text \<open>The result has the manager, the number of sends, the value returned and the datagrams.\<close>

definition Publish ::
    "(nat \<Rightarrow> env) \<Rightarrow> SDMMessage_ID \<Rightarrow> buffer \<Rightarrow> int \<Rightarrow> SubscriptionManager
     \<Rightarrow> (SubscriptionManager \<times> nat \<times> bool \<times> (SDMComponent_ID \<times> byte list) list) option" where
  "Publish envs msg data len sm = do {
     let d = (dat sm)\<lparr>SDMData_source := SDMComponent_ID_assign (SDMData_source (dat sm)) (my_component_id sm),
       SDMData_msg_id := msg\<rparr>;
     m \<leftarrow> memcpy_int (SDMData_msg d) 0 data 0 len;
     let d = d\<lparr>SDMData_msg := m\<rparr>;
     (d, n, published, sent) \<leftarrow> publish_loop envs msg len 0 d False (sub_list sm);
     Some (sm\<lparr>dat := d\<rparr>, n, published, sent) }"

definition Publish_ids ::
    "(nat \<Rightarrow> env) \<Rightarrow> byte \<Rightarrow> byte \<Rightarrow> buffer \<Rightarrow> int \<Rightarrow> SubscriptionManager
     \<Rightarrow> (SubscriptionManager \<times> nat \<times> bool \<times> (SDMComponent_ID \<times> byte list) list) option" where
  "Publish_ids envs interface_id message_id data len sm = Publish envs (SDMMessage_ID_new interface_id message_id) data len sm"

text \<open>Copies of a list: the fault id of the copy is assigned to itself and stays the default.\<close>

primrec deep_subcopy :: "subscription list \<Rightarrow> subscription list" where
  "deep_subcopy [] = []"
| "deep_subcopy (p # next) =
     (let q = subscription_new;
          q = q\<lparr>sub_msg_id := sub_msg_id p\<rparr>;
          q = q\<lparr>sub_fault_id := sub_fault_id q\<rparr>;
          q = q\<lparr>isSerreqst := isSerreqst p\<rparr>;
          q = q\<lparr>sub_component_id := SDMComponent_ID_assign (sub_component_id q) (sub_component_id p)\<rparr>
      in q # deep_subcopy next)"

primrec delete_subptr :: "subscription list \<Rightarrow> subscription list" where
  "delete_subptr [] = []"
| "delete_subptr (p # next) = delete_subptr next @ [p]"

definition SubscriptionManager_copy :: "globals \<Rightarrow> buffer \<Rightarrow> SubscriptionManager \<Rightarrow> SubscriptionManager" where
  "SubscriptionManager_copy g uninit a = \<lparr>my_component_id = my_component_id a, sub_list = deep_subcopy (sub_list a),
     dat = SDMData_new g uninit\<rparr>"

definition SubscriptionManager_assign :: "SubscriptionManager \<Rightarrow> SubscriptionManager \<Rightarrow> SubscriptionManager" where
  "SubscriptionManager_assign this a =
     this\<lparr>my_component_id := SDMComponent_ID_assign (my_component_id this) (my_component_id a),
       sub_list := deep_subcopy (sub_list a)\<rparr>"

definition ClearAllSubscriptions :: "SubscriptionManager \<Rightarrow> SubscriptionManager \<times> bool" where
  "ClearAllSubscriptions sm = (if sub_list sm = [] then (sm, False) else (sm\<lparr>sub_list := []\<rparr>, True))"

definition GetLastPublished :: "SubscriptionManager \<Rightarrow> SDMData" where
  "GetLastPublished sm = dat sm"

section \<open>The subscribers as a set\<close>

text \<open>What a provider relies on: a set of keys that grows and shrinks with the requests, and whether a
  request changed it.\<close>

locale subscriber_set =
  fixes keys :: "'s \<Rightarrow> 'k set"
    and add :: "'k \<Rightarrow> 's \<Rightarrow> 's \<times> bool \<Rightarrow> bool"
    and remove :: "'k \<Rightarrow> 's \<Rightarrow> 's \<times> bool \<Rightarrow> bool"
    and inv :: "'s \<Rightarrow> bool"
  assumes add_keys: "inv s \<Longrightarrow> add k s (s', b) \<Longrightarrow> inv s' \<and> keys s' = insert k (keys s) \<and> (b \<longleftrightarrow> k \<notin> keys s)"
    and remove_keys: "inv s \<Longrightarrow> remove k s (s', b) \<Longrightarrow> inv s' \<and> keys s' = keys s - {k} \<and> (b \<longleftrightarrow> k \<in> keys s)"
begin

text \<open>A history of requests: \<^term>\<open>True\<close> for a subscription.\<close>

inductive history :: "(bool \<times> 'k) list \<Rightarrow> 's \<Rightarrow> 's \<Rightarrow> bool" where
  Nil: "history [] s s"
| Add: "add k s (s', b) \<Longrightarrow> history rs s' t \<Longrightarrow> history ((True, k) # rs) s t"
| Remove: "remove k s (s', b) \<Longrightarrow> history rs s' t \<Longrightarrow> history ((False, k) # rs) s t"

lemma history_keys:
  "history rs s t \<Longrightarrow> inv s \<Longrightarrow> inv t \<and> keys t = fold (\<lambda>(b, k) K. if b then insert k K else K - {k}) rs (keys s)"
proof (induction rule: history.induct)
  case (Add k s s' b rs t)
  then show ?case using add_keys [of s k s' b] by simp
next
  case (Remove k s s' b rs t)
  then show ?case using remove_keys [of s k s' b] by simp
qed simp

end

type_synonym subscriber = "SDMMessage_ID \<times> 32 word \<times> 16 word"

definition subscriber_of :: "subscription \<Rightarrow> subscriber" where
  "subscriber_of c = (sub_msg_id c, m_ulAddress (sub_component_id c), m_usPort (sub_component_id c))"

definition subscribers :: "SubscriptionManager \<Rightarrow> subscriber set" where
  "subscribers sm = set (map subscriber_of (sub_list sm))"

text \<open>Every subscriber is in the list once.\<close>

definition sm_inv :: "SubscriptionManager \<Rightarrow> bool" where
  "sm_inv sm = (distinct (map subscriber_of (sub_list sm)) \<and> list_all (\<lambda>c. \<not> isSerreqst c) (sub_list sm))"

definition adds_subscriber :: "subscriber \<Rightarrow> SubscriptionManager \<Rightarrow> SubscriptionManager \<times> bool \<Rightarrow> bool" where
  "adds_subscriber k sm r = (\<exists>q. AddSubscription q sm = r
     \<and> k = (SDMSubreqst_msg_id q, m_ulAddress (SDMSubreqst_destination q), m_usPort (SDMSubreqst_destination q)))"

definition removes_subscriber :: "subscriber \<Rightarrow> SubscriptionManager \<Rightarrow> SubscriptionManager \<times> bool \<Rightarrow> bool" where
  "removes_subscriber k sm r = (\<exists>q. RemoveSubscription q sm = r
     \<and> k = (SDMDeletesub_msg_id q, m_ulAddress (SDMDeletesub_destination q), m_usPort (SDMDeletesub_destination q)))"

lemma same_subscriber_iff: "same_subscriber m c s \<longleftrightarrow> subscriber_of s = (m, m_ulAddress c, m_usPort c)"
  by (simp add: same_subscriber_def subscriber_of_def SDMMessage_ID_eq_iff)

lemma remove_first_eq:
  "remove_first p l = (case List.extract p l of None \<Rightarrow> (l, False) | Some (xs, _, ys) \<Rightarrow> (xs @ ys, True))"
  by (induction l) (auto simp: extract_Nil_code extract_Cons_code split: option.splits)

lemma AddSubscription_keys:
  assumes "sm_inv sm" "adds_subscriber k sm (sm', b)"
  shows "sm_inv sm' \<and> subscribers sm' = insert k (subscribers sm) \<and> (b \<longleftrightarrow> k \<notin> subscribers sm)"
proof -
  obtain q where q: "AddSubscription q sm = (sm', b)"
    "k = (SDMSubreqst_msg_id q, m_ulAddress (SDMSubreqst_destination q), m_usPort (SDMSubreqst_destination q))"
    using assms(2) by (auto simp: adds_subscriber_def)
  have "list_ex (same_subscriber (SDMSubreqst_msg_id q) (SDMSubreqst_destination q)) (sub_list sm) \<longleftrightarrow> k \<in> subscribers sm"
    unfolding list_ex_iff same_subscriber_iff subscribers_def q(2) [symmetric] set_map image_iff by metis
  then show ?thesis using q assms(1)
    by (auto simp: AddSubscription_def Let_def subscribers_def sm_inv_def subscriber_of_def split: if_splits)
qed

lemma RemoveSubscription_keys:
  assumes "sm_inv sm" "removes_subscriber k sm (sm', b)"
  shows "sm_inv sm' \<and> subscribers sm' = subscribers sm - {k} \<and> (b \<longleftrightarrow> k \<in> subscribers sm)"
proof -
  obtain q where q: "RemoveSubscription q sm = (sm', b)"
    "k = (SDMDeletesub_msg_id q, m_ulAddress (SDMDeletesub_destination q), m_usPort (SDMDeletesub_destination q))"
    using assms(2) by (auto simp: removes_subscriber_def)
  have p: "same_subscriber (SDMDeletesub_msg_id q) (SDMDeletesub_destination q) = (\<lambda>c. subscriber_of c = k)"
    by (rule ext) (simp add: same_subscriber_iff q(2))
  show ?thesis
  proof (cases "List.extract (\<lambda>c. subscriber_of c = k) (sub_list sm)")
    case None
    then have "sm' = sm" "\<not> b" using q(1) by (simp_all add: RemoveSubscription_def p remove_first_eq)
    moreover have "k \<notin> subscribers sm" using None by (auto simp: extract_None_iff subscribers_def)
    ultimately show ?thesis using assms(1) by simp
  next
    case (Some r)
    obtain xs c ys where r: "r = (xs, c, ys)" by (cases r)
    then have l: "sub_list sm = xs @ c # ys" "subscriber_of c = k" using Some by (simp_all add: extract_Some_iff)
    have s: "sm' = sm\<lparr>sub_list := xs @ ys\<rparr>" "b" using q(1) Some r by (simp_all add: RemoveSubscription_def p remove_first_eq)
    have "k \<notin> subscriber_of ` set xs" "k \<notin> subscriber_of ` set ys" using assms(1) l by (auto simp: sm_inv_def)
    then show ?thesis using assms(1) l s by (auto simp: subscribers_def sm_inv_def)
  qed
qed

interpretation subs: subscriber_set subscribers adds_subscriber removes_subscriber sm_inv
  by unfold_locales (blast dest: AddSubscription_keys RemoveSubscription_keys)+

section \<open>Publishing\<close>

definition data_obj :: "SDMData \<Rightarrow> bool" where
  "data_obj d = (MsgName d = SDM_Data \<and> total_length d = 18 \<and> length (SDMData_msg d) = 24259)"

definition content :: "nat \<Rightarrow> SDMData \<Rightarrow> SDMComponent_ID \<times> SDMMessage_ID \<times> 32 word \<times> 16 word \<times> byte list" where
  "content k d = (SDMData_source d, SDMData_msg_id d, SDMData_pid d, SDMData_seq_num d, take k (SDMData_msg d))"

definition data_bytes :: "timeval \<Rightarrow> nat \<Rightarrow> SDMData \<Rightarrow> byte list" where
  "data_bytes now k d = datagram_bytes SDM_Data now (SDMData_enc (content k d))"

lemma data_sent:
  assumes d: "data_obj d" and k: "k \<le> 24259" and e: "reachable_env e"
  shows "\<exists>d'. SDMData_Send_length e d c (int k) = Some (d', [data_bytes (env_now e) k d],
      Some (if net_send (env_net e) 0 (data_bytes (env_now e) k d) \<le> 0 then - 1
            else net_send (env_net e) 0 (data_bytes (env_now e) k d)))
    \<and> data_obj d' \<and> content k d' = content k d"
proof -
  let ?m = "d\<lparr>SDMData_length := of_nat k\<rparr>"
  have s: "sint (of_nat k :: 16 word) = int k" using k by (simp add: sint_of_nat_16)
  have wf: "SDMData_wf ?m" using d k s by (simp add: SDMData_wf_def data_obj_def payload_def)
  have v: "SDMData_view ?m = content k d" using s by (simp add: SDMData_view_def content_def)
  obtain m' where m': "SendTo SDMData_Marshal (env_net e) (env_stk e) (env_ack e) (env_now e) ?m c
      = Some (m', [data_bytes (env_now e) k d], Some (net_send (env_net e) 0 (data_bytes (env_now e) k d)))"
      "SDMData_wf m'" "SDMData_view m' = content k d"
    using data_msg.SendTo_once [OF wf TrueI, of "env_stk e" "env_net e" c "env_ack e" "env_now e"] e v
    by (auto simp: reachable_env_def data_msg.datagram_def data_bytes_def)
  have l: "0 \<le> sint (SDMData_length m')" "sint (SDMData_length m') \<le> 24259" "length (SDMData_msg m') = 24259"
    using m'(2) by (simp_all add: SDMData_wf_def payload_def)
  have "length (take (nat (sint (SDMData_length m'))) (SDMData_msg m')) = length (take k (SDMData_msg d))"
    using m'(3) by (simp add: SDMData_view_def content_def)
  then have "nat (sint (SDMData_length m')) = k" using l d k by (simp add: data_obj_def)
  then have "content k m' = content k d" "data_obj m'"
    using m'(2,3) by (simp_all add: SDMData_view_def content_def data_obj_def SDMData_wf_def payload_def)
  then show ?thesis using m'(1) by (auto simp: SDMData_Send_length_def SendTo_checked_def)
qed

definition publications :: "(nat \<Rightarrow> env) \<Rightarrow> nat \<Rightarrow> nat \<Rightarrow> SDMData \<Rightarrow> subscription list \<Rightarrow> (SDMComponent_ID \<times> byte list) list" where
  "publications envs n k d l = map (\<lambda>(i, c). (sub_component_id c, data_bytes (env_now (envs i)) k d)) (enumerate n l)"

lemma publish_loop_sends:
  assumes "data_obj d" "k \<le> 24259" "\<And>i. reachable_env (envs i)" "list_all (\<lambda>c. \<not> isSerreqst c) l"
  shows "\<exists>d' b. publish_loop envs msg (int k) n d p l
      = Some (d', n + length (filter (wants msg) l), b, publications envs n k d (filter (wants msg) l))
    \<and> data_obj d' \<and> content k d' = content k d \<and> (b \<longrightarrow> p \<or> list_ex (wants msg) l)
    \<and> ((\<forall>i x. \<not> net_send (env_net (envs i)) 0 x \<le> 0) \<longrightarrow> (b \<longleftrightarrow> p \<or> list_ex (wants msg) l))"
  using assms(1,4)
proof (induction l arbitrary: n d p)
  case Nil
  then show ?case by (simp add: publications_def)
next
  case (Cons c l)
  show ?case
  proof (cases "wants msg c")
    case False
    then show ?thesis using Cons by simp
  next
    case True
    obtain d1 where d1: "SDMData_Send_length (envs n) d (sub_component_id c) (int k) = Some (d1, [data_bytes (env_now (envs n)) k d],
        Some (if net_send (env_net (envs n)) 0 (data_bytes (env_now (envs n)) k d) \<le> 0 then - 1
            else net_send (env_net (envs n)) 0 (data_bytes (env_now (envs n)) k d)))"
        "data_obj d1" "content k d1 = content k d"
      using data_sent [OF Cons.prems(1) assms(2,3)] by blast
    have "data_bytes now k d1 = data_bytes now k d" for now by (simp add: data_bytes_def d1(3))
    then have pub: "publications envs (Suc n) k d1 l' = publications envs (Suc n) k d l'" for l' by (simp add: publications_def)
    let ?p = "if net_send (env_net (envs n)) 0 (data_bytes (env_now (envs n)) k d) \<le> 0 then p else True"
    obtain d2 b where "publish_loop envs msg (int k) (Suc n) d1 ?p l
      = Some (d2, Suc n + length (filter (wants msg) l), b, publications envs (Suc n) k d1 (filter (wants msg) l))"
      "data_obj d2" "content k d2 = content k d1" "b \<longrightarrow> ?p \<or> list_ex (wants msg) l"
      "(\<forall>i x. \<not> net_send (env_net (envs i)) 0 x \<le> 0) \<longrightarrow> (b \<longleftrightarrow> ?p \<or> list_ex (wants msg) l)"
      using Cons.IH [OF d1(2), of "Suc n" ?p] Cons.prems(2) by auto
    moreover have "\<not> isSerreqst c" using Cons.prems(2) by simp
    ultimately show ?thesis using True d1 pub
      by (auto simp: publications_def split: if_splits)
  qed
qed

section \<open>Properties\<close>

datatype sub_request = Subscribe SDMSubreqst | Unsubscribe SDMDeletesub

primrec serve :: "sub_request \<Rightarrow> SubscriptionManager \<Rightarrow> SubscriptionManager" where
  "serve (Subscribe q) sm = fst (AddSubscription q sm)"
| "serve (Unsubscribe q) sm = fst (RemoveSubscription q sm)"

primrec track :: "sub_request \<Rightarrow> subscriber set \<Rightarrow> subscriber set" where
  "track (Subscribe q) K =
     insert (SDMSubreqst_msg_id q, m_ulAddress (SDMSubreqst_destination q), m_usPort (SDMSubreqst_destination q)) K"
| "track (Unsubscribe q) K =
     K - {(SDMDeletesub_msg_id q, m_ulAddress (SDMDeletesub_destination q), m_usPort (SDMDeletesub_destination q))}"

primrec request_key :: "sub_request \<Rightarrow> bool \<times> subscriber" where
  "request_key (Subscribe q) =
     (True, SDMSubreqst_msg_id q, m_ulAddress (SDMSubreqst_destination q), m_usPort (SDMSubreqst_destination q))"
| "request_key (Unsubscribe q) =
     (False, SDMDeletesub_msg_id q, m_ulAddress (SDMDeletesub_destination q), m_usPort (SDMDeletesub_destination q))"

lemma serve_history: "subs.history (map request_key rs) sm (fold serve rs sm)"
proof (induction rs arbitrary: sm)
  case Nil
  show ?case by (simp add: subs.history.Nil)
next
  case (Cons r rs)
  show ?case
  proof (cases r)
    case (Subscribe q)
    then have "adds_subscriber (snd (request_key r)) sm (serve r sm, snd (AddSubscription q sm))"
      by (auto simp: adds_subscriber_def intro: exI [of _ q])
    from subs.history.Add [OF this Cons.IH] show ?thesis using Subscribe by simp
  next
    case (Unsubscribe q)
    then have "removes_subscriber (snd (request_key r)) sm (serve r sm, snd (RemoveSubscription q sm))"
      by (auto simp: removes_subscriber_def intro: exI [of _ q])
    from subs.history.Remove [OF this Cons.IH] show ?thesis using Unsubscribe by simp
  qed
qed

lemma track_fold: "fold (\<lambda>(b, k) K. if b then insert k K else K - {k}) (map request_key rs) K = fold track rs K"
proof (induction rs arbitrary: K)
  case (Cons r rs)
  then show ?case by (cases r) simp_all
qed simp

lemma serve_dat: "dat (fold serve rs sm) = dat sm"
proof (induction rs arbitrary: sm)
  case (Cons r rs)
  have "dat (serve r sm) = dat sm"
    by (cases r) (auto simp: AddSubscription_def RemoveSubscription_def Let_def split: prod.splits)
  then show ?case using Cons by simp
qed simp

text \<open>C15. Data are published to exactly those who asked for them: after any sequence of subscriptions and
  cancellations (without service requests, for which C33 shows what can happen), the subscriptions that are held are
  those asked for and not cancelled, one for each message id, address and port, and \<^verbatim>\<open>Publish\<close> sends one datagram with the
  given data for each of them whose message, or whose fault message, is the given one; it reports whether there was
  one. The data fit a message, and the network takes every datagram. A component that has two subscriptions with the same fault message therefore gets that message twice. The fault
  ids of the subscriptions that are held are not followed through the requests.\<close>

theorem published_to_subscribers:
  assumes "k \<le> 24259" "k \<le> length data" "length uninit = 24259" "\<And>i. reachable_env (envs i)"
    and "\<And>i x. \<not> net_send (env_net (envs i)) 0 x \<le> 0"
  shows "\<exists>sm d. let start = SubscriptionManager_new g uninit; served = fold serve rs start;
            to = filter (wants msg) (sub_list served)
     in Publish envs msg data (int k) served = Some (sm, length to, to \<noteq> [], publications envs 0 k d to)
        \<and> content k d = (my_component_id served, msg, PID g, 0, take k data)
        \<and> subscribers served = fold track rs {} \<and> distinct (map subscriber_of (sub_list served))"
proof -
  define s where "s = fold serve rs (SubscriptionManager_new g uninit)"
  have inv0: "sm_inv (SubscriptionManager_new g uninit)" by (simp add: sm_inv_def SubscriptionManager_new_def)
  have h: "sm_inv s" "subscribers s = fold track rs {}"
    using subs.history_keys [OF serve_history [of rs] inv0] unfolding s_def track_fold
    by (simp_all add: subscribers_def SubscriptionManager_new_def)
  have d: "dat s = SDMData_new g uninit" by (simp add: s_def serve_dat SubscriptionManager_new_def)
  define d0 where "d0 = (dat s)\<lparr>SDMData_source := my_component_id s, SDMData_msg_id := msg,
      SDMData_msg := take k data @ drop k (SDMData_msg (dat s))\<rparr>"
  have len: "length (SDMData_msg (dat s)) = 24259" using assms(3) by (simp add: d SDMData_new_def SDMmessage.defs)
  have obj: "data_obj d0" using len assms(1,2)
    by (simp add: data_obj_def d0_def d SDMData_new_def SDMmessage.defs new_message_def)
  have c: "content k d0 = (my_component_id s, msg, PID g, 0, take k data)" using assms(2)
    by (simp add: content_def d0_def d SDMData_new_def SDMmessage.defs)
  have m: "memcpy_int (SDMData_msg (dat s)) 0 data 0 (int k) = Some (take k data @ drop k (SDMData_msg (dat s)))"
    using assms(1,2) len by (simp add: memcpy_int_nat memcpy_def get_bytes_def put_bytes_def)
  obtain d' b where p: "publish_loop envs msg (int k) 0 d0 False (sub_list s)
      = Some (d', length (filter (wants msg) (sub_list s)), b, publications envs 0 k d0 (filter (wants msg) (sub_list s)))"
      "b \<longleftrightarrow> list_ex (wants msg) (sub_list s)"
    using publish_loop_sends [where envs = envs and l = "sub_list s" and msg = msg and n = 0 and p = False, OF obj assms(1,4)] h(1) assms(5) by (auto simp: sm_inv_def)
  have "list_ex (wants msg) (sub_list s) \<longleftrightarrow> filter (wants msg) (sub_list s) \<noteq> []"
    by (auto simp: list_ex_iff filter_empty_conv)
  then have "Publish envs msg data (int k) s = Some (s\<lparr>dat := d'\<rparr>, length (filter (wants msg) (sub_list s)),
      filter (wants msg) (sub_list s) \<noteq> [], publications envs 0 k d0 (filter (wants msg) (sub_list s)))"
    using p m by (simp add: Publish_def d0_def)
  then show ?thesis using c h unfolding s_def [symmetric] Let_def by (auto simp: sm_inv_def)
qed

definition working_env :: env where
  "working_env = \<lparr>TaskManager = SDMComponent_ID_new, DataManager = SDMComponent_ID_new, PID = 7,
     env_net = \<lparr>net_connect = (\<lambda>_ _. 3), net_send = (\<lambda>_ _. 1), net_recv = (\<lambda>_. None), net_passive = (\<lambda>_. 4)\<rparr>,
     env_stk = replicate 24288 0, env_ack = replicate 16 0, env_now = (1, 2)\<rparr>"

lemma working_env_ok: "reachable_env working_env" "\<not> net_send (env_net working_env) 0 x \<le> 0"
  by (simp_all add: reachable_env_def working_env_def)

definition sample_sub :: "16 word \<Rightarrow> SDMSubreqst" where
  "sample_sub p = SDMSubreqst_new\<lparr>SDMSubreqst_msg_id := SDMMessage_ID_new 1 2, SDMSubreqst_fault_id := SDMMessage_ID_new 1 3,
     SDMSubreqst_destination := SDMComponent_ID_new\<lparr>m_usPort := p\<rparr>\<rparr>"

theorem published_to_subscribers_witness:
  "\<exists>sm d. Publish (\<lambda>_. working_env) (SDMMessage_ID_new 1 2) [1, 2, 3] 3
       (fold serve [Subscribe (sample_sub 5), Subscribe (sample_sub 5), Subscribe (sample_sub 6)]
         (SubscriptionManager_new (globals.truncate working_env) (replicate 24259 0)))
     = Some (sm, 2, True, [(SDMComponent_ID_new\<lparr>m_usPort := 6\<rparr>, d), (SDMComponent_ID_new\<lparr>m_usPort := 5\<rparr>, d)])"
proof -
  let ?rs = "[Subscribe (sample_sub 5), Subscribe (sample_sub 5), Subscribe (sample_sub 6)]"
  let ?l = "filter (wants (SDMMessage_ID_new 1 2)) (sub_list (fold serve ?rs (SubscriptionManager_new (globals.truncate working_env) (replicate 24259 0))))"
  have l: "map sub_component_id ?l = [SDMComponent_ID_new\<lparr>m_usPort := 6\<rparr>, SDMComponent_ID_new\<lparr>m_usPort := 5\<rparr>]"
    by (simp add: SubscriptionManager_new_def AddSubscription_def sample_sub_def same_subscriber_iff subscriber_of_def
        subscription_new_def wants_def SDMMessage_ID_eq_iff SDMMessage_ID_new_def
        SDMComponent_ID_new_def SDMSubreqst_new_def SDMmessage.defs)
  obtain a b where ab: "?l = [a, b]" "sub_component_id a = SDMComponent_ID_new\<lparr>m_usPort := 6\<rparr>"
      "sub_component_id b = SDMComponent_ID_new\<lparr>m_usPort := 5\<rparr>"
    using l by (auto simp: map_eq_Cons_conv)
  show ?thesis
    using published_to_subscribers [of 3 "[1, 2, 3]" "replicate 24259 0" "\<lambda>_. working_env" "globals.truncate working_env" ?rs "SDMMessage_ID_new 1 2"]
    unfolding Let_def ab(1) by (auto simp: working_env_ok publications_def ab(2,3))
qed

text \<open>C33. Answering a service request through \<^verbatim>\<open>Publish\<close> reads freed memory: the node of the request is deleted
  when the answer was sent and the loop then takes its successor from it.\<close>

theorem service_answer_use_after_free:
  assumes "SDMSerreqst_reply_id q = msg" "sub_list sm = []" "data_obj (dat sm)" "k \<le> 24259" "k \<le> length data"
    and "reachable_env (envs 0)" "\<And>x. \<not> net_send (env_net (envs 0)) 0 x \<le> 0"
  shows "Publish envs msg data (int k) (fst (AddSubscription_service q sm)) = None"
proof -
  let ?s = "fst (AddSubscription_service q sm)"
  have s: "sub_list ?s = [subscription_new\<lparr>sub_msg_id := msg, sub_fault_id := SDMSerreqst_fault_id q,
      sub_component_id := SDMSerreqst_destination q, isSerreqst := True\<rparr>]" "dat ?s = dat sm"
    using assms(1,2) by (simp_all add: AddSubscription_service_def)
  let ?d = "(dat sm)\<lparr>SDMData_source := my_component_id ?s, SDMData_msg_id := msg,
      SDMData_msg := take k data @ drop k (SDMData_msg (dat sm))\<rparr>"
  have "data_obj ?d" using assms(3-5) by (simp add: data_obj_def)
  then obtain d' where "SDMData_Send_length (envs 0) ?d (SDMSerreqst_destination q) (int k) = Some (d', [data_bytes (env_now (envs 0)) k ?d],
      Some (net_send (env_net (envs 0)) 0 (data_bytes (env_now (envs 0)) k ?d)))"
    using data_sent [OF _ assms(4,6), of ?d "SDMSerreqst_destination q"] assms(7) by auto
  moreover have "net_send (env_net (envs 0)) 0 (data_bytes (env_now (envs 0)) k ?d) \<noteq> - 1"
    using assms(7) [of "data_bytes (env_now (envs 0)) k ?d"] by linarith
  ultimately have "publish_loop envs msg (int k) 0 ?d False (sub_list ?s) = None"
    by (simp add: s(1) wants_def SDMMessage_ID_eq_iff)
  moreover have "memcpy_int (SDMData_msg (dat sm)) 0 data 0 (int k) = Some (take k data @ drop k (SDMData_msg (dat sm)))"
    using assms(3-5) by (simp add: memcpy_int_nat memcpy_def get_bytes_def put_bytes_def data_obj_def)
  ultimately show ?thesis by (simp add: Publish_def s(2))
qed

theorem service_answer_use_after_free_witness:
  "Publish (\<lambda>_. working_env) (SDMMessage_ID_new 1 4) [1, 2, 3] (int 3)
     (fst (AddSubscription_service ((SDMSerreqst_new (replicate 24259 0))\<lparr>SDMSerreqst_reply_id := SDMMessage_ID_new 1 4\<rparr>)
        (SubscriptionManager_new (globals.truncate working_env) (replicate 24259 0)))) = None"
  by (rule service_answer_use_after_free)
     (simp_all add: working_env_ok SubscriptionManager_new_def data_obj_def SDMData_new_def SDMmessage.defs new_message_def)

end
