(* ===== verification/Task_Manager.thy ===== *)
theory Task_Manager
  imports PM_Records Subscription_Manager
begin

text \<open>
  The Task Manager, \<^verbatim>\<open>tm/tm.cpp\<close>: its state, the messages it publishes, the handlers for tasks and Process
  Managers, the scheduler and the heartbeat thread. The model is the build without backup managers, for
  Linux.

  The globals of the program are the record \<open>tm\<close>. Threads share it under mutexes: a handler, an
  iteration of the scheduler up to its sleep, the part after the sleep, and a round of the heartbeat
  thread are the steps that interleave.

  \<open>envs n\<close> is the environment of the \<open>n\<close>-th send of the program: \<open>tm_sends\<close> counts them. The datagrams
  sent so far and their destinations are in \<open>tm_wire\<close>. Uninitialised arrays have the contents of the stack
  of the environment. Logging and debug output are left out.
\<close>

section \<open>State\<close>

record tm =
  taskList :: TaskList
  registered :: PMRecordList
  pending_pms :: PMRecordList
  subscriptions :: SubscriptionManager
  NextPID :: "32 word"
  g_ucMode :: byte
  dm_found :: bool
  g_bSchedulerReset :: bool
  perf_timer :: bool
  total_sent :: "32 word"
  prevsec_sent :: "32 word"
  total_recd :: "32 word"
  prevsec_recd :: "32 word"
  tm_TaskManager :: SDMComponent_ID
  tm_DataManager :: SDMComponent_ID
  tm_sends :: nat
  tm_wire :: "(SDMComponent_ID \<times> byte list) list"

definition env_at :: "(nat \<Rightarrow> env) \<Rightarrow> tm \<Rightarrow> nat \<Rightarrow> env" where
  "env_at envs s i = (envs (tm_sends s + i))\<lparr>TaskManager := tm_TaskManager s, DataManager := tm_DataManager s\<rparr>"

definition junk :: "(nat \<Rightarrow> env) \<Rightarrow> tm \<Rightarrow> nat \<Rightarrow> buffer" where
  "junk envs s n = take n (env_stk (env_at envs s 0))"

definition log_sent :: "nat \<Rightarrow> (SDMComponent_ID \<times> byte list) list \<Rightarrow> tm \<Rightarrow> tm" where
  "log_sent n out s = s\<lparr>tm_sends := tm_sends s + n, tm_wire := tm_wire s @ out\<rparr>"

text \<open>One send of a message object to a component; all results of sends are ignored.\<close>

definition send_to :: "(nat \<Rightarrow> env) \<Rightarrow> 'm sender_to \<Rightarrow> 'm \<Rightarrow> SDMComponent_ID \<Rightarrow> tm \<Rightarrow> tm option" where
  "send_to envs Send m destination s = do {
     (m, sent, _) \<leftarrow> Send (env_at envs s 0) m destination;
     Some (log_sent 1 (map (Pair destination) sent) s) }"

definition MessageSent :: "tm \<Rightarrow> tm" where
  "MessageSent s = s\<lparr>total_sent := total_sent s + 1, prevsec_sent := prevsec_sent s + 1\<rparr>"

section \<open>Publishing\<close>

abbreviation (input) XTEDS_MAX_TASK_NAME_SIZE :: nat where "XTEDS_MAX_TASK_NAME_SIZE \<equiv> 128"
abbreviation (input) NOTI_TM_STATUS :: SDMMessage_ID where "NOTI_TM_STATUS \<equiv> SDMMessage_ID_new 1 1"
abbreviation (input) NOTI_TASK_QUEUED :: SDMMessage_ID where "NOTI_TASK_QUEUED \<equiv> SDMMessage_ID_new 1 2"
abbreviation (input) NOTI_TASK_STARTED :: SDMMessage_ID where "NOTI_TASK_STARTED \<equiv> SDMMessage_ID_new 1 3"
abbreviation (input) NOTI_TASK_FINISHED :: SDMMessage_ID where "NOTI_TASK_FINISHED \<equiv> SDMMessage_ID_new 1 4"
abbreviation (input) NOTI_PERF_COUNTERS :: SDMMessage_ID where "NOTI_PERF_COUNTERS \<equiv> SDMMessage_ID_new 2 13"

definition publish :: "(nat \<Rightarrow> env) \<Rightarrow> SDMMessage_ID \<Rightarrow> buffer \<Rightarrow> tm \<Rightarrow> tm option" where
  "publish envs msg data s = do {
     (sm, n, published, sent) \<leftarrow> Publish (env_at envs s) msg data (int (length data)) (subscriptions s);
     let s = log_sent n sent (s\<lparr>subscriptions := sm\<rparr>);
     Some (if published then MessageSent s else s) }"

definition PublishStatusMessage :: "(nat \<Rightarrow> env) \<Rightarrow> buffer option \<Rightarrow> tm \<Rightarrow> tm option" where
  "PublishStatusMessage envs sender_buf s = do {
     let buf = junk envs s 11;
     buf \<leftarrow> put_byte buf 0 (g_ucMode s);
     buf \<leftarrow> (case sender_buf of None \<Rightarrow> put_bytes buf 1 (replicate 10 0) | Some b \<Rightarrow> memcpy buf 1 b 0 10);
     publish envs NOTI_TM_STATUS buf s }"

text \<open>The name of a task in an array of \<^verbatim>\<open>MAX_FILENAME_SIZE\<close> bytes, followed by \<open>n\<close> bytes.\<close>

definition name_buffer :: "byte list option \<Rightarrow> nat \<Rightarrow> buffer option" where
  "name_buffer taskname n = do {
     f \<leftarrow> taskname;
     let buf = replicate (MAX_FILENAME_SIZE + n) 0;
     buf \<leftarrow> strncpy buf 0 (f @ [0]) 0 MAX_FILENAME_SIZE;
     put_byte buf (MAX_FILENAME_SIZE - 1) 0 }"

definition PublishTaskQueuedMessage :: "(nat \<Rightarrow> env) \<Rightarrow> byte list option \<Rightarrow> tm \<Rightarrow> tm option" where
  "PublishTaskQueuedMessage envs taskname s = do {
     filename \<leftarrow> name_buffer taskname 0;
     publish envs NOTI_TASK_QUEUED filename s }"

definition PublishTaskStartedMessage :: "(nat \<Rightarrow> env) \<Rightarrow> byte list option \<Rightarrow> 32 word \<Rightarrow> tm \<Rightarrow> tm option" where
  "PublishTaskStartedMessage envs taskname uiPid s = do {
     PublishBuffer \<leftarrow> name_buffer taskname 4;
     PublishBuffer \<leftarrow> PUT_UINT PublishBuffer XTEDS_MAX_TASK_NAME_SIZE uiPid;
     publish envs NOTI_TASK_STARTED PublishBuffer s }"

definition PublishTaskFinishedMessage :: "(nat \<Rightarrow> env) \<Rightarrow> byte list option \<Rightarrow> 32 word \<Rightarrow> 32 word \<Rightarrow> tm \<Rightarrow> tm option" where
  "PublishTaskFinishedMessage envs taskname exitcode uiPid s = do {
     PublishBuffer \<leftarrow> name_buffer taskname 8;
     PublishBuffer \<leftarrow> PUT_UINT PublishBuffer XTEDS_MAX_TASK_NAME_SIZE uiPid;
     PublishBuffer \<leftarrow> PUT_INT PublishBuffer (XTEDS_MAX_TASK_NAME_SIZE + 4) exitcode;
     publish envs NOTI_TASK_FINISHED PublishBuffer s }"

definition PublishPerformanceCounterMessage :: "(nat \<Rightarrow> env) \<Rightarrow> tm \<Rightarrow> tm option" where
  "PublishPerformanceCounterMessage envs s = do {
     let msg = junk envs s 16;
     msg \<leftarrow> PUT_UINT msg 0 (total_recd s);
     msg \<leftarrow> PUT_UINT msg 4 (prevsec_recd s);
     msg \<leftarrow> PUT_UINT msg 8 (total_sent s);
     msg \<leftarrow> PUT_UINT msg 12 (prevsec_sent s);
     publish envs NOTI_PERF_COUNTERS msg s }"

section \<open>Handlers\<close>

definition RegPMHandler :: "buffer \<Rightarrow> tm \<Rightarrow> tm option" where
  "RegPMHandler buf s = do {
     (msgReg, r) \<leftarrow> SDMRegPM_Unmarshal SDMRegPM_new buf;
     if r < 0 then Some s
     else if AlreadyRegistered (registered s) (SDMRegPM_source msgReg) then Some s
     else do {
       let (l, _) = RegisterPM (SDMRegPM_source msgReg) (SDMRegPM_resources msgReg) (registered s);
       let l = (if AlreadyRegistered (pending_pms s) (SDMRegPM_source msgReg)
                then SetTasks (SDMRegPM_source msgReg) (GetTasks (pending_pms s) (SDMRegPM_source msgReg)) l else l);
       Some (s\<lparr>registered := l\<rparr>) } }"

definition PostTask :: "(nat \<Rightarrow> env) \<Rightarrow> buffer \<Rightarrow> tm \<Rightarrow> tm option" where
  "PostTask envs buf s = do {
     (msgPostTask, r) \<leftarrow> SDMPostTask_Unmarshal (SDMPostTask_new (junk envs s MAX_FILENAME_SIZE)) buf;
     if r < 0 then Some s
     else do {
       task \<leftarrow> SetTask PENDING (SDMPostTask_priority msgPostTask) 0 (SDMPostTask_resources msgPostTask)
         (Some (cstr (SDMPostTask_filename msgPostTask))) (SDMPostTask_sched_interval msgPostTask)
         (SDMPostTask_mode msgPostTask) (SDMPostTask_version msgPostTask) Task_new;
       (tasks, _) \<leftarrow> AddTo (taskList s) task;
       PublishTaskQueuedMessage envs (task_filename task) (s\<lparr>taskList := tasks\<rparr>) } }"

definition PostTaskHandler :: "(nat \<Rightarrow> env) \<Rightarrow> buffer \<Rightarrow> tm \<Rightarrow> tm option" where
  "PostTaskHandler envs buf s = PostTask envs buf s"

definition SubreqstHandler :: "(nat \<Rightarrow> env) \<Rightarrow> buffer \<Rightarrow> tm \<Rightarrow> tm option" where
  "SubreqstHandler envs buf s = do {
     (msgRequest, r) \<leftarrow> SDMSubreqst_Unmarshal SDMSubreqst_new buf;
     if r < 0 then Some s
     else do {
       let s = s\<lparr>subscriptions := fst (AddSubscription msgRequest (subscriptions s))\<rparr>;
       if SDMMessage_ID_eq (SDMSubreqst_msg_id msgRequest) NOTI_TM_STATUS then PublishStatusMessage envs None s
       else if SDMMessage_ID_eq (SDMSubreqst_msg_id msgRequest) NOTI_PERF_COUNTERS
       then Some (if \<not> perf_timer s then s\<lparr>perf_timer := True\<rparr> else s)
       else Some s } }"

definition DeletesubHandler :: "buffer \<Rightarrow> tm \<Rightarrow> tm option" where
  "DeletesubHandler buf s = do {
     (msgDeleteSub, r) \<leftarrow> SDMDeletesub_Unmarshal SDMDeletesub_new buf;
     if r < 0 then Some s
     else Some (s\<lparr>subscriptions := fst (RemoveSubscription msgDeleteSub (subscriptions s))\<rparr>) }"

definition PerformKill :: "(nat \<Rightarrow> env) \<Rightarrow> SDMKill \<Rightarrow> tm \<Rightarrow> tm option" where
  "PerformKill envs msgKill s = send_to envs SDMKill_Send_to msgKill (GetPMAddress (taskList s) (SDMKill_PID msgKill)) s"

definition KillHandler :: "(nat \<Rightarrow> env) \<Rightarrow> buffer \<Rightarrow> tm \<Rightarrow> tm option" where
  "KillHandler envs buf s = do {
     (kill, r) \<leftarrow> SDMKill_Unmarshal SDMKill_new buf;
     if r < 0 then Some s else PerformKill envs kill s }"

abbreviation (input) PORT_TM_MONITOR :: "16 word" where "PORT_TM_MONITOR \<equiv> 3511"
abbreviation (input) ADDR_LOCAL_HOST :: "32 word" where "ADDR_LOCAL_HOST \<equiv> 0x0100007f"

text \<open>\<open>addr\<close> is the address of the sender, \<open>Address_TM\<close> that of the Task Manager.\<close>

definition ReadyHandler :: "(nat \<Rightarrow> env) \<Rightarrow> 32 word \<Rightarrow> 32 word \<Rightarrow> buffer \<Rightarrow> tm \<Rightarrow> tm option" where
  "ReadyHandler envs addr Address_TM buf s = do {
     (msgReadyRequest, r) \<leftarrow> SDMReady_Unmarshal SDMReady_new buf;
     if r < 0 then Some s
     else if m_usPort (SDMReady_destination msgReadyRequest) = PORT_DM then Some s
     else if m_usPort (SDMReady_source msgReadyRequest) = PORT_TM_MONITOR then do {
       s \<leftarrow> send_to envs SDMReady_Send_to SDMReady_new (SDMReady_source msgReadyRequest) s;
       Some (MessageSent s) }
     else do {
       let destination = (SDMReady_destination SDMReady_new)\<lparr>m_usPort := PORT_PM\<rparr>;
       let destination = (if addr = ADDR_LOCAL_HOST \<and> Address_TM \<noteq> ADDR_LOCAL_HOST
                          then destination\<lparr>m_ulAddress := Address_TM\<rparr> else destination\<lparr>m_ulAddress := addr\<rparr>);
       let msgReady = SDMReady_new\<lparr>SDMReady_destination := destination, SDMReady_source := tm_DataManager s\<rparr>;
       s \<leftarrow> send_to envs SDMReady_Send_to msgReady destination s;
       Some (MessageSent s) } }"

definition TaskFinishedHandler :: "(nat \<Rightarrow> env) \<Rightarrow> buffer \<Rightarrow> tm \<Rightarrow> tm option" where
  "TaskFinishedHandler envs buf s = do {
     (msgFinished, r) \<leftarrow> SDMTaskFinished_Unmarshal (SDMTaskFinished_new (junk envs s MAX_FILENAME_SIZE)) buf;
     if r < 0 then Some s
     else do {
       let s = s\<lparr>registered := fst (PMRecordList_TaskFinished (SDMTaskFinished_source msgFinished) (registered s))\<rparr>;
       let s = s\<lparr>taskList := fst (TaskList_TaskFinished (taskList s) (SDMTaskFinished_pid msgFinished))\<rparr>;
       taskname \<leftarrow> strncpy (junk envs s MAX_FILENAME_SIZE) 0 (SDMTaskFinished_filename msgFinished) 0 MAX_FILENAME_SIZE;
       taskname \<leftarrow> put_byte taskname (MAX_FILENAME_SIZE - 1) 0;
       exitcode \<leftarrow> GET_INT (native_bytes Little 4 (SDMTaskFinished_result msgFinished)) 0;
       PublishTaskFinishedMessage envs (Some (cstr taskname)) exitcode
         (SDMTaskFinished_pid msgFinished) s } }"

text \<open>Running tasks that Process Managers report after a restart of the Task Manager.\<close>

definition PMRunningTaskHandler :: "(nat \<Rightarrow> env) \<Rightarrow> buffer \<Rightarrow> tm \<Rightarrow> tm option" where
  "PMRunningTaskHandler envs buf s = do {
     (msgTask, r) \<leftarrow> SDMTask_Unmarshal (SDMTask_new (junk envs s MAX_FILENAME_SIZE)) buf;
     if r < 0 then Some s
     else do {
       let s = (if sint (SDMTask_pid msgTask) \<ge> sint (NextPID s) then s\<lparr>NextPID := SDMTask_pid msgTask + 1\<rparr> else s);
       task \<leftarrow> SetTask SCHEDULED (SDMTask_priority msgTask) (SDMTask_pid msgTask) 0 (Some (cstr (SDMTask_filename msgTask)))
         0 MODE_NORMAL 0 Task_new;
       (tasks, _) \<leftarrow> AddTo (taskList s) task;
       let s = s\<lparr>taskList := tasks\<rparr>;
       let (l, started) = TaskHasStarted (SDMTask_source msgTask) (registered s);
       let s = s\<lparr>registered := l\<rparr>;
       if started then Some s
       else do {
         let p = pending_pms s;
         let p = (if AlreadyRegistered p (SDMTask_source msgTask) then p else fst (RegisterPM (SDMTask_source msgTask) 0 p));
         Some (s\<lparr>pending_pms := fst (TaskHasStarted (SDMTask_source msgTask) p)\<rparr>) } } }"

text \<open>The tables after a hard or a soft reset, before the configured tasks are posted again.\<close>

definition reset_tasks :: "tm \<Rightarrow> tm" where
  "reset_tasks s = s\<lparr>g_bSchedulerReset := True, taskList := ClearList (taskList s),
     registered := ClearAllRunningTasks (registered s)\<rparr>"

section \<open>Scheduler\<close>

abbreviation (input) PREFERRED_SCHEDULE_TIMEOUT :: "32 word" where "PREFERRED_SCHEDULE_TIMEOUT \<equiv> 60"

text \<open>What an iteration does after it released the locks: it starts over, or it has a task (with its
  index) and a manager for it.\<close>

datatype choice = Again | Chosen Task pm_record int

definition Scheduler_select :: "32 word \<Rightarrow> 32 word \<Rightarrow> tm \<Rightarrow> (tm \<times> 32 word \<times> choice) option" where
  "Scheduler_select uiCurSeconds uiLastSeconds s =
     (if AnyPending (taskList s) then do {
        (TaskData, TaskIndex) \<leftarrow> FindPendingTask (taskList s) Task_new;
        if TaskIndex = - 1 then Some (s, uiLastSeconds, Again)
        else if PMRecordList_IsEmpty (registered s) then Some (s, uiLastSeconds, Again)
        else if IsPreferredPmIdSet (task_resources TaskData) then do {
          let (PMData, bPmFound) = FindPMID (registered s) (task_resources TaskData) pm_record_new;
          if \<not> bPmFound then
            (if uiLastSeconds = 0 then Some (s, uiCurSeconds, Again)
             else if uiCurSeconds - uiLastSeconds > PREFERRED_SCHEDULE_TIMEOUT
             then Some (s\<lparr>taskList := RemovePreferredPmId (task_resources TaskData) (taskList s)\<rparr>, uiLastSeconds, Again)
             else Some (s, uiLastSeconds, Again))
          else Some (s, uiLastSeconds, Chosen TaskData PMData TaskIndex) }
        else do {
          let (l, PMData, bPmFound) = FindPM_loop MAX_JOBS 0 (task_resources TaskData) (registered s) pm_record_new;
          let s = s\<lparr>registered := l\<rparr>;
          Some (s, uiLastSeconds, if bPmFound then Chosen TaskData PMData TaskIndex else Again) } }
      else Some (s, 0, Again))"

definition SendTask :: "(nat \<Rightarrow> env) \<Rightarrow> pm_record \<Rightarrow> Task \<Rightarrow> tm \<Rightarrow> tm option" where
  "SendTask envs PMData task s = do {
     let msgTask = SDMTask_new (junk envs s MAX_FILENAME_SIZE);
     f \<leftarrow> task_filename task;
     let name = replicate MAX_FILENAME_SIZE 0;
     name \<leftarrow> strncpy name 0 (f @ [0]) 0 MAX_FILENAME_SIZE;
     let msgTask = msgTask\<lparr>SDMTask_priority := task_priority task, SDMTask_filename := name, SDMTask_pid := task_pid task,
       SDMTask_version := taskVersion task\<rparr>;
     s \<leftarrow> send_to envs SDMTask_Send_to msgTask (pm_component_id PMData) s;
     PublishTaskStartedMessage envs (task_filename task) (task_pid task) (MessageSent s) }"

definition Scheduler_assign :: "(nat \<Rightarrow> env) \<Rightarrow> Task \<Rightarrow> pm_record \<Rightarrow> int \<Rightarrow> tm \<Rightarrow> tm option" where
  "Scheduler_assign envs TaskData PMData TaskIndex s = do {
     t \<leftarrow> task_at (taskList s) TaskIndex;
     let pid = NextPID s;
     let s = s\<lparr>taskList := (taskList s)[nat TaskIndex := t\<lparr>task_pid := pid\<rparr>], NextPID := pid + 1\<rparr>;
     let TaskData = TaskData\<lparr>task_pid := pid\<rparr>;
     s \<leftarrow> SendTask envs PMData TaskData s;
     let s = s\<lparr>registered := fst (TaskHasStarted (pm_component_id PMData) (registered s))\<rparr>;
     t \<leftarrow> task_at (taskList s) TaskIndex;
     Some (s\<lparr>taskList := (taskList s)[nat TaskIndex :=
       t\<lparr>task_state := SCHEDULED, task_timeout := 0,
         pmComponentID := SDMComponent_ID_assign (pmComponentID t) (pm_component_id PMData)\<rparr>]\<rparr>) }"

section \<open>Heartbeats of the Process Managers\<close>

text \<open>What the heartbeat thread sees when it polls its pipe: an error, a timeout, or a length and the result
  of reading that many bytes.\<close>

datatype poll = Poll_error | Poll_timeout | Poll_ready int "byte list option"

primrec wait_answers ::
    "poll list \<Rightarrow> nat \<Rightarrow> nat \<Rightarrow> buffer \<Rightarrow> SDMHeartbeat \<Rightarrow> PMRecordList \<Rightarrow> PMRecordList option" where
  "wait_answers [] num_sent num_received buf m l = Some l"
| "wait_answers (e # es) num_sent num_received buf m l =
     (if num_sent > num_received then
        case e of
          Poll_error \<Rightarrow> Some l
        | Poll_timeout \<Rightarrow> Some l
        | Poll_ready len r \<Rightarrow>
            if 0 < len \<and> len < int BUFSIZE \<and> r = None then wait_answers es num_sent num_received buf m l
            else do {
              let buf = (if 0 < len \<and> len < int BUFSIZE then recv_into (nat len) r buf else buf);
              (m, res) \<leftarrow> SDMHeartbeat_Unmarshal m buf;
              let l = (if res < 0 then l else HeartbeatReceived (SDMHeartbeat_source m) l);
              wait_answers es num_sent (num_received + 1) buf m l }
      else Some l)"

definition handle_failed :: "(nat \<Rightarrow> env) \<Rightarrow> pm_record \<Rightarrow> tm \<Rightarrow> tm option" where
  "handle_failed envs PMNode s = do {
     (tasks, n, sent) \<leftarrow> PMFailure (env_at envs s) (junk envs s MAX_FILENAME_SIZE) (pm_component_id PMNode) (taskList s);
     Some (log_sent n (map (Pair (tm_DataManager s)) sent) (s\<lparr>taskList := tasks\<rparr>)) }"

definition heartbeat_dests :: "PMRecordList \<Rightarrow> SDMComponent_ID list" where
  "heartbeat_dests l = map pm_component_id (filter pm_in_use (pmList l))"

text \<open>One iteration of the thread; \<open>buf\<close> and \<open>m\<close> are the receive buffer and message object as the iteration
  before left them.\<close>

definition PMHeartbeat_round :: "(nat \<Rightarrow> env) \<Rightarrow> poll list \<Rightarrow> buffer \<Rightarrow> SDMHeartbeat \<Rightarrow> tm \<Rightarrow> tm option" where
  "PMHeartbeat_round envs events buf m s = do {
     let msgHeartbeat = SDMHeartbeat_new\<lparr>SDMHeartbeat_source := tm_TaskManager s\<rparr>;
     (l, _, num_sent, sent) \<leftarrow> SendHeartbeatToAll (env_at envs s) (registered s) msgHeartbeat;
     let s = log_sent num_sent (zip (heartbeat_dests (registered s)) sent) s;
     l \<leftarrow> wait_answers events num_sent 0 buf m l;
     (l, s) \<leftarrow> failed_loop (handle_failed envs) l s;
     Some (s\<lparr>registered := l\<rparr>) }"

section \<open>Sends leave the tables alone\<close>

text \<open>The part of the state that scheduling is about.\<close>

definition tables ::
    "tm \<Rightarrow> TaskList \<times> PMRecordList \<times> PMRecordList \<times> 32 word \<times> byte \<times> bool \<times> bool \<times> SDMComponent_ID \<times> SDMComponent_ID" where
  "tables s = (taskList s, registered s, pending_pms s, NextPID s, g_ucMode s, dm_found s, g_bSchedulerReset s,
     tm_TaskManager s, tm_DataManager s)"

named_theorems frame \<open>operations that do not change the tables\<close>

lemma tables_log_sent [frame]: "tables (log_sent n out s) = tables s"
  by (simp add: tables_def log_sent_def)

lemma tables_MessageSent [frame]: "tables (MessageSent s) = tables s"
  by (simp add: tables_def MessageSent_def)

lemma tables_send_to [frame]: "send_to envs Send m d s = Some s' \<Longrightarrow> tables s' = tables s"
  by (auto simp: send_to_def tables_log_sent split: bind_splits)

lemma tables_publish [frame]: "publish envs msg data s = Some s' \<Longrightarrow> tables s' = tables s"
  by (auto simp: publish_def Let_def tables_def log_sent_def MessageSent_def split: bind_splits if_splits)

lemma tables_published [frame]:
  "PublishStatusMessage envs b s = Some s' \<Longrightarrow> tables s' = tables s"
  "PublishTaskQueuedMessage envs f s = Some s' \<Longrightarrow> tables s' = tables s"
  "PublishTaskStartedMessage envs f p s = Some s' \<Longrightarrow> tables s' = tables s"
  "PublishTaskFinishedMessage envs f e p s = Some s' \<Longrightarrow> tables s' = tables s"
  "PublishPerformanceCounterMessage envs s = Some s' \<Longrightarrow> tables s' = tables s"
  by (auto simp: PublishStatusMessage_def PublishTaskQueuedMessage_def PublishTaskStartedMessage_def
      PublishTaskFinishedMessage_def PublishPerformanceCounterMessage_def tables_publish split: bind_splits)

lemma tables_SendTask [frame]: "SendTask envs p t s = Some s' \<Longrightarrow> tables s' = tables s"
  by (auto simp: SendTask_def split: bind_splits dest!: tables_send_to tables_published(3))
     (simp add: tables_MessageSent)

section \<open>Sends succeed\<close>

text \<open>A network that can be reached, and a publisher whose message object has its declared size and that has
  no service requests.\<close>

definition publisher_ok :: "tm \<Rightarrow> bool" where
  "publisher_ok s = (data_obj (dat (subscriptions s)) \<and> list_all (\<lambda>c. \<not> isSerreqst c) (sub_list (subscriptions s)))"

lemma reachable_env_at: "(\<And>i. reachable_env (envs i)) \<Longrightarrow> reachable_env (env_at envs s i)"
  by (simp add: env_at_def reachable_env_def)

lemma length_junk: "(\<And>i. reachable_env (envs i)) \<Longrightarrow> n \<le> BUFSIZE \<Longrightarrow> length (junk envs s n) = n"
  using reachable_env_at [of envs s 0] by (simp add: junk_def reachable_env_def)

lemma publish_succeeds:
  assumes "publisher_ok s" "length data \<le> 24259" "\<And>i. reachable_env (envs i)"
  obtains s' where "publish envs msg data s = Some s'" "publisher_ok s'"
proof -
  let ?k = "length data" and ?sm = "subscriptions s"
  let ?d = "(dat ?sm)\<lparr>SDMData_source := my_component_id ?sm, SDMData_msg_id := msg,
      SDMData_msg := data @ drop ?k (SDMData_msg (dat ?sm))\<rparr>"
  have o: "data_obj (dat ?sm)" "list_all (\<lambda>c. \<not> isSerreqst c) (sub_list ?sm)" using assms(1) by (simp_all add: publisher_ok_def)
  have d: "data_obj ?d" using o assms(2) by (simp add: data_obj_def)
  have "memcpy_int (SDMData_msg (dat ?sm)) 0 data 0 (int ?k) = Some (data @ drop ?k (SDMData_msg (dat ?sm)))"
    using o(1) assms(2) by (simp add: memcpy_int_nat memcpy_def get_bytes_def put_bytes_def data_obj_def)
  moreover obtain d' b where "publish_loop (env_at envs s) msg (int ?k) 0 ?d False (sub_list ?sm)
      = Some (d', length (filter (wants msg) (sub_list ?sm)), b, publications (env_at envs s) 0 ?k ?d (filter (wants msg) (sub_list ?sm)))"
      "data_obj d'"
    using publish_loop_sends [where envs = "env_at envs s" and msg = msg and n = 0 and p = False, OF d assms(2) reachable_env_at o(2)]
      assms(3) by auto
  ultimately have "publish envs msg data s = Some (
      let s' = log_sent (length (filter (wants msg) (sub_list ?sm))) (publications (env_at envs s) 0 ?k ?d (filter (wants msg) (sub_list ?sm)))
        (s\<lparr>subscriptions := ?sm\<lparr>dat := d'\<rparr>\<rparr>) in if b then MessageSent s' else s')"
    by (simp add: publish_def Publish_def Let_def)
  then show thesis using that o(2) \<open>data_obj d'\<close> by (auto simp: publisher_ok_def log_sent_def MessageSent_def Let_def)
qed

lemma put_byte_update: "n < length xs \<Longrightarrow> put_byte xs n b = Some (xs[n := b])"
  by (simp add: put_byte_def put_bytes_def upd_conv_take_nth_drop)

lemma name_buffer_ok:
  assumes "0 \<notin> set f" "length f < MAX_FILENAME_SIZE"
  shows "name_buffer (Some f) n = Some (f @ replicate (MAX_FILENAME_SIZE + n - length f) 0)"
proof -
  have t: "takeWhile (\<lambda>b. b \<noteq> 0) (take 128 (f @ [0])) = f" using assms by (simp add: takeWhile_append)
  have z: "0 \<in> set (take 128 (f @ [0]))" using assms(2) by simp
  have "strncpy (replicate (128 + n) 0) 0 (f @ [0]) 0 128 = Some (f @ replicate (128 + n - length f) 0)"
    using assms(2) unfolding strncpy_def Let_def drop_0 t using z
    by (simp add: put_bytes_def replicate_add [symmetric])
  moreover have "(f @ replicate (128 + n - length f) 0)[127 := 0] = f @ replicate (128 + n - length f) 0"
    using assms(2) by (simp add: list_update_append list_update_same_conv)
  ultimately show ?thesis using assms(2) by (simp add: name_buffer_def put_byte_update)
qed

text \<open>A Task Manager that has just started.\<close>

definition sample_tm :: tm where
  "sample_tm = \<lparr>taskList = TaskList_new, registered = PMRecordList_new, pending_pms = PMRecordList_new,
     subscriptions = SubscriptionManager_new (globals.truncate working_env) (replicate 24259 0), NextPID = 1, g_ucMode = 0,
     dm_found = True, g_bSchedulerReset = False, perf_timer = False, total_sent = 0, prevsec_sent = 0, total_recd = 0,
     prevsec_recd = 0, tm_TaskManager = SDMComponent_ID_new, tm_DataManager = SDMComponent_ID_new, tm_sends = 0, tm_wire = []\<rparr>"

lemma sample_tm_ok: "publisher_ok sample_tm" "taskList sample_tm = TaskList_new"
  by (simp_all add: publisher_ok_def sample_tm_def SubscriptionManager_new_def data_obj_def SDMData_new_def new_message_def SDMmessage.defs)

end
