(* ===== verification/TM_Properties.thy ===== *)
theory TM_Properties
  imports Task_Manager
begin

text \<open>
  Correctness of the Task Manager's scheduling. The interleaving of its threads is the step relation
  \<open>tm_step\<close>, labelled with what happens; \<open>expected\<close> is what is assumed of that. The invariant \<open>accounting\<close> says that the load it has on record for every Process Manager is the
  number of tasks it has scheduled there, that the manager of every scheduled task is registered, and that
  process ids are unique. At the end, the scheduling of the first pending task, the detection of failed managers by the
  heartbeat thread, and a task that is lost when its manager fails at the wrong time.
\<close>

section \<open>Effects on the tables\<close>

lemma assign_tables:
  assumes "Scheduler_assign envs T P i s = Some s'"
  shows "\<exists>t. task_at (taskList s) i = Some t
     \<and> taskList s' = (taskList s)[nat i := t\<lparr>task_pid := NextPID s, task_state := SCHEDULED, task_timeout := 0,
          pmComponentID := pm_component_id P\<rparr>]
     \<and> registered s' = fst (TaskHasStarted (pm_component_id P) (registered s)) \<and> NextPID s' = NextPID s + 1
     \<and> pending_pms s' = pending_pms s \<and> g_bSchedulerReset s' = g_bSchedulerReset s"
proof -
  obtain t where t: "task_at (taskList s) i = Some t"
    using assms by (cases "task_at (taskList s) i") (simp_all add: Scheduler_assign_def)
  let ?s1 = "s\<lparr>taskList := (taskList s)[nat i := t\<lparr>task_pid := NextPID s\<rparr>], NextPID := NextPID s + 1\<rparr>"
  obtain s2 where s2: "SendTask envs P (T\<lparr>task_pid := NextPID s\<rparr>) ?s1 = Some s2"
    using assms t by (cases "SendTask envs P (T\<lparr>task_pid := NextPID s\<rparr>) ?s1") (simp_all add: Scheduler_assign_def)
  then have f: "tables s2 = tables ?s1" by (rule tables_SendTask)
  then have tl: "taskList s2 = (taskList s)[nat i := t\<lparr>task_pid := NextPID s\<rparr>]" by (simp add: tables_def)
  obtain t' where t': "task_at (taskList s2) i = Some t'"
    using assms t s2 by (cases "task_at (taskList s2) i") (simp_all add: Scheduler_assign_def)
  have "nat i < length (taskList s) \<Longrightarrow> t' = t\<lparr>task_pid := NextPID s\<rparr>"
    using t' unfolding tl by (auto simp: task_at_def split: if_splits)
  then have "(taskList s2)[nat i := t'\<lparr>task_state := SCHEDULED, task_timeout := 0, pmComponentID := pm_component_id P\<rparr>]
      = (taskList s)[nat i := t\<lparr>task_pid := NextPID s, task_state := SCHEDULED, task_timeout := 0, pmComponentID := pm_component_id P\<rparr>]"
    unfolding tl by (cases "nat i < length (taskList s)") (simp_all add: list_update_beyond)
  then show ?thesis
    using assms t s2 t' f by (auto simp: Scheduler_assign_def tables_def)
qed

lemma select_tables:
  assumes "Scheduler_select now t0 s = Some (s', t1, c)"
  shows "tables s' = tables s \<or> (\<exists>r. tables s' = tables (s\<lparr>taskList := RemovePreferredPmId r (taskList s)\<rparr>))
     \<or> (\<exists>r. tables s' = tables (s\<lparr>registered := fst (FindPM_loop MAX_JOBS 0 r (registered s) pm_record_new)\<rparr>))"
proof (cases "s' = s \<or> (\<exists>r. s' = s\<lparr>taskList := RemovePreferredPmId r (taskList s)\<rparr>)")
  case True
  then show ?thesis by blast
next
  case False
  then obtain T i where "FindPendingTask (taskList s) Task_new = Some (T, i)" "\<not> IsPreferredPmIdSet (task_resources T)"
    using assms by (auto simp: Scheduler_select_def Let_def split: if_splits bind_splits prod.splits)
  then have "s' = s\<lparr>registered := fst (FindPM_loop MAX_JOBS 0 (task_resources T) (registered s) pm_record_new)\<rparr>"
    using assms False by (auto simp: Scheduler_select_def Let_def split: if_splits prod.splits)
  then show ?thesis by blast
qed

lemma PMFailure_tasks:
  "PMFailure_loop envs P n m ts = Some (ts', k, out) \<Longrightarrow>
     ts' = map (\<lambda>t. if pmComponentID t = P then t\<lparr>task_state := PENDING\<rparr> else t) ts"
  by (induction ts arbitrary: n m ts' k out) (auto simp: SDMComponent_ID_eq_iff split: if_splits bind_splits)

definition failed_task :: "SDMComponent_ID set \<Rightarrow> Task \<Rightarrow> Task" where
  "failed_task F t = (if pmComponentID t \<in> F then t\<lparr>task_state := PENDING\<rparr> else t)"

lemma handle_failed_tables:
  "handle_failed envs r s = Some s' \<Longrightarrow> tables s' = tables (s\<lparr>taskList := map (failed_task {pm_component_id r}) (taskList s)\<rparr>)"
  by (auto simp: handle_failed_def PMFailure_def failed_task_def tables_def log_sent_def Let_def
      split: bind_splits dest!: PMFailure_tasks)

lemma failed_task_twice: "failed_task A (failed_task B t) = failed_task (A \<union> B) t"
  by (simp add: failed_task_def)

lemma handle_all_tables:
  "handle_all (handle_failed envs) rs s = Some s' \<Longrightarrow>
     tables s' = tables (s\<lparr>taskList := map (failed_task (pm_component_id ` set rs)) (taskList s)\<rparr>)"
proof (induction rs arbitrary: s)
  case Nil
  then show ?case by (simp add: failed_task_def tables_def)
next
  case (Cons r rs)
  then obtain s1 where s1: "handle_failed envs r s = Some s1" "handle_all (handle_failed envs) rs s1 = Some s'"
    by (auto split: bind_splits)
  show ?case
    using Cons.IH [OF s1(2)] handle_failed_tables [OF s1(1)]
    by (simp add: tables_def failed_task_twice Un_commute comp_def)
qed

text \<open>The senders of the heartbeats that a round accepts.\<close>

primrec answers_in :: "poll list \<Rightarrow> nat \<Rightarrow> nat \<Rightarrow> buffer \<Rightarrow> SDMHeartbeat \<Rightarrow> SDMComponent_ID list" where
  "answers_in [] num_sent num_received buf m = []"
| "answers_in (e # es) num_sent num_received buf m =
     (if num_sent > num_received then
        case e of
          Poll_error \<Rightarrow> []
        | Poll_timeout \<Rightarrow> []
        | Poll_ready len r \<Rightarrow>
            if 0 < len \<and> len < int BUFSIZE \<and> r = None then answers_in es num_sent num_received buf m
            else let buf = (if 0 < len \<and> len < int BUFSIZE then recv_into (nat len) r buf else buf)
              in case SDMHeartbeat_Unmarshal m buf of
                   None \<Rightarrow> []
                 | Some (m, res) \<Rightarrow> (if res < 0 then [] else [SDMHeartbeat_source m])
                     @ answers_in es num_sent (num_received + 1) buf m
      else [])"

lemma wait_answers_fold:
  "wait_answers es k n buf m l = Some l' \<Longrightarrow> l' = fold HeartbeatReceived (answers_in es k n buf m) l"
proof (induction es arbitrary: n buf m l)
  case (Cons e es)
  show ?case
  proof (cases "n < k \<and> (\<exists>len r. e = Poll_ready len r)")
    case False
    then show ?thesis using Cons.prems by (cases e) (auto split: if_splits)
  next
    case True
    then obtain len r where e: "e = Poll_ready len r" "n < k" by blast
    show ?thesis
    proof (cases "0 < len \<and> len < int BUFSIZE \<and> r = None")
      case True
      then show ?thesis using Cons e by simp
    next
      case nr: False
      let ?b = "if 0 < len \<and> len < int BUFSIZE then recv_into (nat len) r buf else buf"
      obtain m1 res where u: "SDMHeartbeat_Unmarshal m ?b = Some (m1, res)"
        using Cons.prems e nr by (cases "SDMHeartbeat_Unmarshal m ?b") (auto simp: Let_def)
      have "wait_answers es k (n + 1) ?b m1 (if res < 0 then l else HeartbeatReceived (SDMHeartbeat_source m1) l) = Some l'"
        using Cons.prems e nr u by (cases "0 < len \<and> len < int BUFSIZE"; cases "res < 0") (auto simp: Let_def)
      moreover have "answers_in (e # es) k n buf m = (if res < 0 then [] else [SDMHeartbeat_source m1]) @ answers_in es k (n + 1) ?b m1"
        using e nr u by (auto simp: Let_def)
      ultimately show ?thesis using Cons.IH by fastforce
    qed
  qed
qed simp

lemma send_all_count: "send_all Marshal envs n m rs = Some (m', k, out) \<Longrightarrow> k = n + length (filter pm_in_use rs)"
  by (induction rs arbitrary: n m out) (fastforce split: if_splits bind_splits)+

text \<open>Every manager in use is sent a heartbeat, and as many answers are awaited.\<close>

definition round_answers :: "poll list \<Rightarrow> buffer \<Rightarrow> SDMHeartbeat \<Rightarrow> tm \<Rightarrow> SDMComponent_ID list" where
  "round_answers events buf m s = answers_in events (length (filter pm_in_use (pmList (registered s)))) 0 buf m"

lemma round_registered:
  assumes "PMHeartbeat_round envs es buf m s = Some s'" "pms_wf (registered s)"
  shows "registered s' = heartbeat_round (round_answers es buf m s) (registered s)
     \<and> taskList s' = map (failed_task (pm_component_id ` fst ` set (filter failing (slots_of (beat (round_answers es buf m s) (registered s)))))) (taskList s)
     \<and> NextPID s' = NextPID s \<and> pending_pms s' = pending_pms s \<and> g_bSchedulerReset s' = g_bSchedulerReset s"
proof -
  obtain l1 h k out where l1: "SendHeartbeatToAll (env_at envs s) (registered s)
      (SDMHeartbeat_new\<lparr>SDMHeartbeat_source := tm_TaskManager s\<rparr>) = Some (l1, h, k, out)"
    using assms(1) by (auto simp: PMHeartbeat_round_def split: bind_splits)
  let ?s1 = "log_sent k (zip (heartbeat_dests (registered s)) out) s"
  have k: "k = length (filter pm_in_use (pmList (registered s)))"
    using l1 by (auto simp: SendHeartbeatToAll_def split: bind_splits dest: send_all_count)
  obtain l2 where l2: "wait_answers es k 0 buf m l1 = Some l2"
    using assms(1) l1 by (auto simp: PMHeartbeat_round_def Let_def split: bind_splits)
  let ?answers = "round_answers es buf m s"
  have a: "l2 = fold HeartbeatReceived ?answers l1" using wait_answers_fold [OF l2] k by (simp add: round_answers_def)
  have w1: "pms_wf l1" using assms(2) l1 by (rule SendHeartbeatToAll_wf)
  have "pms_wf (fold HeartbeatReceived cs l)" if "pms_wf l" for cs l
    using that by (induction cs arbitrary: l) (simp_all add: HeartbeatReceived_wf)
  then have w2: "pms_wf l2" using w1 by (simp add: a)
  have b: "l2 = beat ?answers (registered s)"
    using a l1 by (auto simp: beat_def SendHeartbeatToAll_def split: bind_splits)
  obtain s3 where s3: "handle_all (handle_failed envs) (map fst (filter failing (slots_of l2))) ?s1 = Some s3"
      "s' = s3\<lparr>registered := l2\<lparr>pmList := map retired (slots_of l2)\<rparr>\<rparr>"
    using assms(1) l1 l2 failed_loop_eq [OF w2, of "handle_failed envs" ?s1]
    by (auto simp: PMHeartbeat_round_def Let_def split: bind_splits)
  from handle_all_tables [OF s3(1)] show ?thesis
    using s3(2) b by (simp add: tables_def log_sent_def heartbeat_round_def Let_def)
qed

lemma round_tables:
  assumes "PMHeartbeat_round envs es buf m s = Some s'" "pms_wf (registered s)"
  shows "\<exists>answers. registered s' = heartbeat_round answers (registered s)
     \<and> taskList s' = map (failed_task (pm_component_id ` fst ` set (filter failing (slots_of (beat answers (registered s)))))) (taskList s)
     \<and> NextPID s' = NextPID s \<and> pending_pms s' = pending_pms s \<and> g_bSchedulerReset s' = g_bSchedulerReset s"
  using round_registered [OF assms] by blast

section \<open>The threads\<close>

text \<open>The scheduler is at the top of its loop, with the time at which it began to wait for a preferred manager, or it
  sleeps before it sends a task.\<close>

datatype scheduler = Ready "32 word" | Sleeping "32 word" Task pm_record int


definition on_host :: "32 word \<Rightarrow> Task \<Rightarrow> bool" where
  "on_host a t = (task_state t = SCHEDULED \<and> m_ulAddress (pmComponentID t) = a)"


definition hosted :: "PMRecordList \<Rightarrow> SDMComponent_ID \<Rightarrow> bool" where
  "hosted l c = list_ex (\<lambda>r. pm_in_use r \<and> pm_component_id r = c) (pmList l)"





section \<open>The invariant\<close>

definition load_of :: "32 word \<Rightarrow> TaskList \<Rightarrow> nat" where
  "load_of a ts = length (filter (on_host a) ts)"

definition counted :: "TaskList \<Rightarrow> pm_record \<Rightarrow> bool" where
  "counted ts r = (if pm_in_use r
     then m_usPort (pm_component_id r) = PORT_PM \<and> pm_tasks r = of_nat (load_of (m_ulAddress (pm_component_id r)) ts)
     else pm_resources r = 0)"

definition placed :: "PMRecordList \<Rightarrow> Task \<Rightarrow> bool" where
  "placed l t = ((taskMode t = MODE_NORMAL \<or> taskMode t = MODE_ALWAYS_RUNNING)
     \<and> (task_state t = SCHEDULED \<longrightarrow> task_pid t \<noteq> PID_INVALID \<and> hosted l (pmComponentID t)))"

definition pids_ok :: "32 word \<Rightarrow> TaskList \<Rightarrow> bool" where
  "pids_ok next ts = (0 < next \<and> (\<forall>i<length ts. task_pid (ts ! i) < next
     \<and> (task_pid (ts ! i) \<noteq> PID_INVALID \<longrightarrow> (\<forall>j<length ts. task_pid (ts ! j) = task_pid (ts ! i) \<longrightarrow> j = i))))"

definition accounting :: "tm \<Rightarrow> bool" where
  "accounting s = (tasks_wf (taskList s) \<and> pms_wf (registered s) \<and> list_all (counted (taskList s)) (pmList (registered s))
     \<and> list_all (placed (registered s)) (taskList s) \<and> pids_ok (NextPID s) (taskList s) \<and> pending_pms s = PMRecordList_new)"

text \<open>While the scheduler sleeps, its task stays pending and its manager registered, or a reset is noted.\<close>

definition awaited :: "tm \<Rightarrow> scheduler \<Rightarrow> bool" where
  "awaited s c = (case c of Ready _ \<Rightarrow> True | Sleeping t T P i \<Rightarrow> g_bSchedulerReset s \<or>
     (hosted (registered s) (pm_component_id P) \<and> 0 \<le> i \<and> i < int NUMTASKS \<and> task_state (taskList s ! nat i) = PENDING))"



lemma load_update:
  "n < length ts \<Longrightarrow> load_of a (ts[n := t]) + of_bool (on_host a (ts ! n)) = load_of a ts + of_bool (on_host a t)"
proof -
  assume n: "n < length ts"
  have "load_of a ts = load_of a (take n ts @ ts ! n # drop (Suc n) ts)" using n by (simp add: id_take_nth_drop [symmetric])
  then show ?thesis using n by (simp add: load_of_def upd_conv_take_nth_drop)
qed

lemma load_same: "n < length ts \<Longrightarrow> on_host a t = on_host a (ts ! n) \<Longrightarrow> load_of a (ts[n := t]) = load_of a ts"
  using load_update [of n ts a t] by simp

lemma load_zero: "list_all (placed l) ts \<Longrightarrow> (\<And>r. r \<in> set (pmList l) \<Longrightarrow> pm_in_use r \<Longrightarrow> m_ulAddress (pm_component_id r) \<noteq> a) \<Longrightarrow> load_of a ts = 0"
  by (fastforce simp: load_of_def on_host_def placed_def hosted_def list_all_iff list_ex_iff filter_empty_conv)


lemma count_task_slots:
  assumes "pms_wf l" "k < MAX_PM" "at_host c (pmList l ! k)"
  shows "pmList (fst (count_task d c l)) = (pmList l)[k := (pmList l ! k)\<lparr>pm_tasks := pm_tasks (pmList l ! k) + d\<rparr>]"
  using at_host_index [OF assms] by (simp add: count_task_def)



lemma list_all_update: "list_all P xs \<Longrightarrow> P x \<Longrightarrow> list_all P (xs[n := x])"
  using set_update_subset_insert [of xs n x] by (auto simp: list_all_iff)




lemma pids_update:
  assumes "pids_ok next ts" "task_pid t = PID_INVALID \<or> task_pid t = task_pid (ts ! n)"
  shows "pids_ok next (ts[n := t])"
  using assms by (cases "n < length ts") (auto simp: pids_ok_def nth_list_update)


text \<open>A task that is not scheduled changes.\<close>

lemma accounting_update:
  assumes "accounting s" "n < NUMTASKS" "task_good t" "task_state t \<noteq> SCHEDULED" "task_state (taskList s ! n) \<noteq> SCHEDULED"
    and "taskMode t = MODE_NORMAL \<or> taskMode t = MODE_ALWAYS_RUNNING" "task_pid t = PID_INVALID \<or> task_pid t = task_pid (taskList s ! n)"
  shows "accounting (s\<lparr>taskList := (taskList s)[n := t]\<rparr>)"
proof -
  have len: "length (taskList s) = NUMTASKS" using assms(1) by (simp add: accounting_def tasks_wf_def)
  have l: "load_of a ((taskList s)[n := t]) = load_of a (taskList s)" for a
    using assms(2,4,5) len by (intro load_same) (simp_all add: on_host_def)
  have "list_all (placed (registered s)) ((taskList s)[n := t])"
    using assms(1,4,6) by (intro list_all_update) (simp_all add: accounting_def placed_def)
  moreover have "counted ((taskList s)[n := t]) = counted (taskList s)" by (simp add: fun_eq_iff counted_def l)
  ultimately show ?thesis
    using assms by (simp add: accounting_def tasks_wf_update pids_update)
qed






lemma select_awaited_flag: "Scheduler_select now t0 s = Some (s', t1, c) \<Longrightarrow> g_bSchedulerReset s' = g_bSchedulerReset s"
  using select_tables [of now t0 s s' t1 c] by (auto simp: tables_def)

text \<open>The bounded copy of a string terminates it.\<close>

lemma length_takeWhile_take: "length (takeWhile P (take n xs)) \<le> length (takeWhile P xs)"
  by (induction xs arbitrary: n) (auto simp: take_Cons split: nat.split)

lemma copy_bounded_cstr:
  assumes "copy_bounded fld buf n = Some (f, k)" "fld \<noteq> []"
  shows "is_cstr (length fld) f"
proof -
  let ?s = "takeWhile (\<lambda>b. b \<noteq> 0) (take (length fld) (drop n buf))"
  obtain f1 where f1: "strlen buf n = Some k" "strncpy fld 0 buf n (length fld) = Some f1"
      "(if k > length f1 - 1 then put_byte f1 (length f1 - 1) 0 else Some f1) = Some f"
    using assms(1) by (auto simp: copy_bounded_def split: bind_splits)
  have s: "length ?s \<le> length fld" using length_takeWhile_le [of "\<lambda>b. b \<noteq> 0" "take (length fld) (drop n buf)"] by simp
  have e: "f1 = ?s @ replicate (length fld - length ?s) 0"
    using f1(2) s by (auto simp: strncpy_def Let_def put_bytes_def split: if_splits)
  then have len: "length f1 = length fld" using s by simp
  show ?thesis
  proof (cases "k > length f1 - 1")
    case True
    then have "f = f1[length f1 - 1 := 0]" using f1(3) len assms(2) by (simp add: put_byte_update)
    then show ?thesis using len assms(2) by (simp add: is_cstr_def set_update_memI)
  next
    case False
    then have "f = f1" using f1(3) by simp
    moreover have "k = length (takeWhile (\<lambda>b. b \<noteq> 0) (drop n buf))" using f1(1) by (auto simp: strlen_def split: if_splits)
    then have "length ?s < length fld" using False len assms(2)
      length_takeWhile_take [of "\<lambda>b. b \<noteq> 0" "length fld" "drop n buf"] by (cases fld) auto
    ultimately show ?thesis using len e by (simp add: is_cstr_def)
  qed
qed



lemma hosted_awaited:
  assumes "awaited s c" "\<And>x. hosted (registered s) x \<Longrightarrow> hosted l x"
  shows "awaited (s\<lparr>registered := l\<rparr>) c"
  using assms by (auto simp: awaited_def split: scheduler.splits)

lemma RegisterPM_accounting:
  assumes "accounting s" "awaited s c" "\<not> AlreadyRegistered (registered s) a"
  shows "accounting (s\<lparr>registered := fst (RegisterPM a r (registered s))\<rparr>) \<and> awaited (s\<lparr>registered := fst (RegisterPM a r (registered s))\<rparr>) c"
proof (cases "first_index (\<lambda>r. \<not> pm_in_use r) (pmList (registered s))")
  case None
  then show ?thesis using assms by (simp add: RegisterPM_def)
next
  case (Some i)
  let ?l = "registered s" and ?new = "\<lparr>pm_component_id = a\<lparr>m_usPort := PORT_PM\<rparr>, pm_resources = r, pm_tasks = 0, pm_in_use = True\<rparr>"
  have inv: "pms_wf ?l" "list_all (counted (taskList s)) (pmList ?l)" "list_all (placed ?l) (taskList s)"
    using assms(1) by (simp_all add: accounting_def)
  have i: "i < length (pmList ?l)" "\<not> pm_in_use (pmList ?l ! i)" using first_index_Some [OF Some] by auto
  have e: "fst (RegisterPM a r ?l) = ?l\<lparr>pmList := (pmList ?l)[i := ?new]\<rparr>"
    using Some by (cases "pmList ?l ! i") (simp add: RegisterPM_def Let_def)
  have h: "hosted (fst (RegisterPM a r ?l)) x" if "hosted ?l x" for x
    using that i unfolding e by (auto simp: hosted_def list_ex_length nth_list_update)
  have "load_of (m_ulAddress a) (taskList s) = 0"
    by (rule load_zero [OF inv(3)]) (use assms(3) in \<open>auto simp: AlreadyRegistered_def first_index_None at_host_def\<close>)
  then have "list_all (counted (taskList s)) (pmList (fst (RegisterPM a r ?l)))"
    unfolding e using inv(2) by (simp add: list_all_update counted_def)
  moreover have "list_all (placed (fst (RegisterPM a r ?l))) (taskList s)"
    using inv(3) h by (auto simp: list_all_iff placed_def)
  ultimately have "accounting (s\<lparr>registered := fst (RegisterPM a r ?l)\<rparr>)"
    using assms(1) RegisterPM_wf [OF inv(1) assms(3)] by (simp add: accounting_def)
  then show ?thesis using hosted_awaited [OF assms(2) h] by blast
qed








lemma no_tasks:
  "load_of a TaskList_new = 0" "list_all (placed l) TaskList_new" "0 < next \<Longrightarrow> pids_ok next TaskList_new"
proof -
  have new: "TaskList_new = replicate NUMTASKS Task_new" by (simp add: TaskList_new_def)
  show "load_of a TaskList_new = 0" "list_all (placed l) TaskList_new" "0 < next \<Longrightarrow> pids_ok next TaskList_new"
    unfolding new by (simp_all add: load_of_def on_host_def list_all_length placed_def pids_ok_def)
qed






section \<open>A task is sent\<close>

lemma publish_wire: "publish envs msg data s = Some s' \<Longrightarrow> \<exists>out. tm_wire s' = tm_wire s @ out"
  by (auto simp: publish_def Let_def log_sent_def MessageSent_def split: bind_splits if_splits)

lemma send_to_sent:
  assumes "Send (env_at envs s 0) m d = Some (m', [bytes], r)"
  shows "send_to envs Send m d s = Some (log_sent 1 [(d, bytes)] s)"
  using assms by (simp add: send_to_def)

definition task_datagram :: "timeval \<Rightarrow> Task \<Rightarrow> byte list \<Rightarrow> byte list" where
  "task_datagram now t f = datagram_bytes SDM_Task now
     (SDMTask_enc (SDMComponent_ID_new, task_priority t, task_pid t, taskVersion t, f))"

lemma SendTask_succeeds:
  assumes "\<And>i. reachable_env (envs i)" "publisher_ok s" "task_filename t = Some f" "0 \<notin> set f" "length f < MAX_FILENAME_SIZE"
  obtains s' where "SendTask envs P t s = Some s'" "publisher_ok s'"
    "(pm_component_id P, task_datagram (env_now (envs (tm_sends s))) t f) \<in> set (tm_wire s')"
proof -
  let ?m = "(SDMTask_new (junk envs s MAX_FILENAME_SIZE))\<lparr>SDMTask_priority := task_priority t,
     SDMTask_filename := f @ replicate (MAX_FILENAME_SIZE - length f) 0, SDMTask_pid := task_pid t, SDMTask_version := taskVersion t\<rparr>"
  let ?e = "env_at envs s 0" and ?d = "(pm_component_id P, task_datagram (env_now (envs (tm_sends s))) t f)"
  have name: "strncpy (replicate 128 0) 0 (f @ [0]) 0 128 = Some (f @ replicate (128 - length f) 0)"
  proof -
    have "takeWhile (\<lambda>b. b \<noteq> 0) (take 128 (f @ [0])) = f" using assms(4,5) by (simp add: takeWhile_append)
    then show ?thesis using assms(5) by (simp add: strncpy_def Let_def put_bytes_def)
  qed
  have wf: "SDMTask_wf ?m"
    using assms(5) by (simp add: SDMTask_wf_def SDMTask_new_def new_message_def SDMmessage.defs is_cstr_def)
  have "cstr (f @ replicate (128 - length f) 0) = f" using assms(4,5) by (cases "128 - length f") auto
  then have dg: "task_msg.datagram (env_now ?e) ?m = snd ?d"
    by (simp add: task_msg.datagram_def task_datagram_def SDMTask_view_def SDMTask_new_def SDMmessage.defs env_at_def)
  have e: "length (env_stk ?e) = BUFSIZE" "\<And>a p. net_connect (env_net ?e) a p \<noteq> IP_SOCK_INVALID"
    using reachable_env_at [of envs s 0] assms(1) by (simp_all add: reachable_env_def)
  obtain m' r where "SDMTask_Send_to ?e ?m (pm_component_id P) = Some (m', [snd ?d], r)"
    using task_msg.SendTo_once [OF wf TrueI e(1) _ _ e(2), of "env_ack ?e" "env_now ?e" "pm_component_id P"]
    by (auto simp: SDMTask_Send_to_def dg)
  then have s1: "send_to envs SDMTask_Send_to ?m (pm_component_id P) s = Some (log_sent 1 [?d] s)"
    by (simp add: send_to_sent)
  let ?s1 = "MessageSent (log_sent 1 [?d] s)"
  have ok1: "publisher_ok ?s1" using assms(2) by (simp add: publisher_ok_def MessageSent_def log_sent_def)
  obtain b where b: "name_buffer (Some f) 4 = Some b" "length b = 132"
    using name_buffer_ok [OF assms(4,5), of 4] assms(5) by simp
  obtain b' where b': "PUT_UINT b XTEDS_MAX_TASK_NAME_SIZE (task_pid t) = Some b'" "length b' = 132"
    using b(2) by (auto simp: PUT_TYPE4_bytes put_bytes_def)
  obtain s2 where s2: "publish envs NOTI_TASK_STARTED b' ?s1 = Some s2" "publisher_ok s2"
    by (rule publish_succeeds [of ?s1 b' envs]) (use ok1 b'(2) assms(1) in simp_all)
  have "SendTask envs P t s = Some s2"
    using name s1 b b' s2 assms(3) by (simp add: SendTask_def PublishTaskStartedMessage_def)
  moreover have "?d \<in> set (tm_wire s2)"
    using publish_wire [OF s2(1)] by (auto simp: MessageSent_def log_sent_def)
  ultimately show thesis using that s2(2) by blast
qed

lemma assign_succeeds:
  assumes "tasks_wf (taskList s)" "publisher_ok s" "\<And>i. reachable_env (envs i)" "n < NUMTASKS" "task_state (taskList s ! n) \<noteq> INACTIVE"
  defines "t \<equiv> taskList s ! n"
  obtains s' f where "Scheduler_assign envs (t\<lparr>pmComponentID := c\<rparr>) P (int n) s = Some s'" "task_filename t = Some f"
    "(pm_component_id P, task_datagram (env_now (envs (tm_sends s))) (t\<lparr>task_pid := NextPID s\<rparr>) f) \<in> set (tm_wire s')"
    "taskList s' = (taskList s)[n := t\<lparr>task_pid := NextPID s, task_state := SCHEDULED, task_timeout := 0, pmComponentID := pm_component_id P\<rparr>]"
    "NextPID s' = NextPID s + 1"
proof -
  obtain f where f: "task_filename t = Some f" "0 \<notin> set f" "length f < MAX_FILENAME_SIZE"
    using tasks_wf_nth [OF assms(1,4)] assms(5) by (auto simp: t_def task_good_def split: option.splits)
  let ?T = "t\<lparr>pmComponentID := c, task_pid := NextPID s\<rparr>"
  let ?s1 = "s\<lparr>taskList := (taskList s)[n := t\<lparr>task_pid := NextPID s\<rparr>], NextPID := NextPID s + 1\<rparr>"
  have at: "task_at (taskList s) (int n) = Some t" using assms(4,5) by (simp add: task_at_def t_def)
  have ok: "publisher_ok ?s1" using assms(2) by (simp add: publisher_ok_def)
  have tf: "task_filename ?T = Some f" using f by simp
  obtain s2 where s2: "SendTask envs P ?T ?s1 = Some s2"
      "(pm_component_id P, task_datagram (env_now (envs (tm_sends ?s1))) ?T f) \<in> set (tm_wire s2)"
    by (rule SendTask_succeeds [where envs = envs and P = P, OF assms(3) ok tf f(2,3)])
  have tl: "taskList s2 = (taskList s)[n := t\<lparr>task_pid := NextPID s\<rparr>]" "NextPID s2 = NextPID s + 1"
    using tables_SendTask [OF s2(1)] by (simp_all add: tables_def)
  define s' where "s' = s2\<lparr>registered := fst (TaskHasStarted (pm_component_id P) (registered s2)),
    taskList := (taskList s)[n := t\<lparr>task_pid := NextPID s, task_state := SCHEDULED, task_timeout := 0, pmComponentID := pm_component_id P\<rparr>]\<rparr>"
  have at2: "task_at (taskList s2) (int n) = Some (t\<lparr>task_pid := NextPID s\<rparr>)"
    using assms(1,4,5) by (simp add: tl task_at_def tasks_wf_def t_def)
  show thesis
  proof (rule that [of s' f])
    show "Scheduler_assign envs (t\<lparr>pmComponentID := c\<rparr>) P (int n) s = Some s'"
      using at at2 s2(1) by (simp add: Scheduler_assign_def Let_def tl(1) s'_def)
    show "(pm_component_id P, task_datagram (env_now (envs (tm_sends s))) (t\<lparr>task_pid := NextPID s\<rparr>) f) \<in> set (tm_wire s')"
      using s2(2) by (simp add: task_datagram_def s'_def)
  qed (use f tl in \<open>simp_all add: s'_def\<close>)
qed

section \<open>A round of heartbeats ends\<close>








section \<open>Properties\<close>

text \<open>The state of the globals when the threads start.\<close>

definition tm_start :: "tm \<Rightarrow> bool" where
  "tm_start s = (taskList s = TaskList_new \<and> registered s = PMRecordList_new \<and> pending_pms s = PMRecordList_new \<and> NextPID s = 1)"

lemma accounting_start: "tm_start s \<Longrightarrow> accounting s"
proof -
  have "list_all (counted TaskList_new) (pmList PMRecordList_new)"
    by (simp add: PMRecordList_new_def pm_record_new_def counted_def list_all_length)
  then show "tm_start s \<Longrightarrow> accounting s"
    by (simp add: tm_start_def accounting_def tasks_wf_new pms_wf_new no_tasks)
qed

lemma load_bound: "length ts = NUMTASKS \<Longrightarrow> sint (of_nat (load_of a ts) :: 16 word) = int (load_of a ts)"
proof -
  assume "length ts = NUMTASKS"
  then have "load_of a ts \<le> 50" using length_filter_le [of "on_host a" ts] by (simp add: load_of_def)
  then show ?thesis by (simp add: sint_of_nat_16)
qed


text \<open>A task posted and a manager registered.\<close>

definition sample_host :: SDMComponent_ID where
  "sample_host = \<lparr>m_ulSensorId = 0, m_ulAddress = 7, m_usPort = PORT_PM\<rparr>"

definition sample_task :: Task where
  "sample_task = Task_new\<lparr>task_state := PENDING, task_filename := Some [0x61], task_priority := 1\<rparr>"

definition sample_ready :: tm where
  "sample_ready = sample_tm\<lparr>registered := fst (RegisterPM sample_host 0 PMRecordList_new), taskList := TaskList_new[0 := sample_task]\<rparr>"

lemma sample_start: "tm_start sample_tm" "length (env_stk working_env) = BUFSIZE"
  by (simp_all add: tm_start_def sample_tm_def working_env_def)

lemma sample_registered:
  "pmList (fst (RegisterPM sample_host 0 PMRecordList_new)) = (pmList PMRecordList_new)[0 := sample_pm 7 0]"
  by (simp add: RegisterPM_def PMRecordList_new_def pm_record_new_def sample_host_def sample_pm_def Let_def numeral_eq_Suc)

lemma sample_ready_pms: "pmList (registered sample_ready) = (pmList PMRecordList_new)[0 := sample_pm 7 0]"
  by (simp add: sample_ready_def sample_registered)


lemma sample_not_registered: "\<not> AlreadyRegistered PMRecordList_new a"
  by (simp add: AlreadyRegistered_def PMRecordList_new_def first_index_None at_host_def pm_record_new_def)

lemma sample_ready_ok: "accounting sample_ready" "publisher_ok sample_ready"
proof -
  let ?s = "sample_tm\<lparr>registered := fst (RegisterPM sample_host 0 PMRecordList_new)\<rparr>"
  have "accounting ?s"
    using RegisterPM_accounting [OF accounting_start [OF sample_start(1)], of "Ready 0" sample_host 0] sample_not_registered
    by (simp add: awaited_def sample_tm_def)
  moreover have "sample_ready = ?s\<lparr>taskList := (taskList ?s)[0 := sample_task]\<rparr>" by (simp add: sample_ready_def sample_tm_def)
  moreover have "taskList ?s = replicate NUMTASKS Task_new" by (simp add: sample_tm_def TaskList_new_def)
  ultimately show "accounting sample_ready"
    using accounting_update [of ?s 0 sample_task] by (simp add: sample_task_def task_good_def)
  show "publisher_ok sample_ready"
    using sample_tm_ok by (simp add: publisher_ok_def sample_ready_def)
qed








text \<open>C32. The check after the sleep is for a reset only: when the manager that was chosen for a task has failed in the
  meantime, the task is still assigned to it. It is recorded as scheduled at a manager that is not registered, the
  scheduler does not select it again, and the rounds of the heartbeat thread do not put it back to pending.\<close>

theorem stranded_task:
  assumes "accounting s" "0 \<le> i" "i < int NUMTASKS" "task_state (taskList s ! nat i) = PENDING"
    and "\<not> AlreadyRegistered (registered s) (pm_component_id P)" "Scheduler_assign envs T P i s = Some s'"
  shows "registered s' = registered s \<and> task_state (taskList s' ! nat i) = SCHEDULED
     \<and> pmComponentID (taskList s' ! nat i) = pm_component_id P
     \<and> first_index (\<lambda>t. task_state t = PENDING) (taskList s') \<noteq> Some (nat i)
     \<and> (\<forall>events buf m s''. PMHeartbeat_round envs events buf m s' = Some s'' \<longrightarrow>
          taskList s'' ! nat i = taskList s' ! nat i \<and> \<not> AlreadyRegistered (registered s'') (pm_component_id P))"
proof (intro conjI allI impI)
  have inv: "tasks_wf (taskList s)" "pms_wf (registered s)" using assms(1) by (simp_all add: accounting_def)
  have n: "nat i < length (taskList s)" using assms(2,3) inv(1) by (simp add: tasks_wf_def)
  have none: "\<not> at_host (pm_component_id P) r" if "r \<in> set (pmList (registered s))" for r
    using assms(5) that by (simp add: AlreadyRegistered_def first_index_None)
  obtain t where "taskList s' = (taskList s)[nat i := t\<lparr>task_pid := NextPID s, task_state := SCHEDULED, task_timeout := 0,
        pmComponentID := pm_component_id P\<rparr>]"
      and reg: "registered s' = fst (TaskHasStarted (pm_component_id P) (registered s))"
    using assign_tables [OF assms(6)] by blast
  then show st: "task_state (taskList s' ! nat i) = SCHEDULED" and pm: "pmComponentID (taskList s' ! nat i) = pm_component_id P"
    using n by simp_all
  have len: "nat i < length (taskList s')" using n \<open>taskList s' = _\<close> by simp
  show r: "registered s' = registered s"
    using assms(5) unfolding reg by (simp add: TaskHasStarted_def count_task_def AlreadyRegistered_def)
  show "first_index (\<lambda>t. task_state t = PENDING) (taskList s') \<noteq> Some (nat i)"
    using st first_index_Some [of "\<lambda>t. task_state t = PENDING" "taskList s'" "nat i"] by auto
  fix events buf m s'' assume "PMHeartbeat_round envs events buf m s' = Some s''"
  then obtain answers where a: "registered s'' = heartbeat_round answers (registered s)"
      "taskList s'' = map (failed_task (pm_component_id ` fst ` set (filter failing (slots_of (beat answers (registered s)))))) (taskList s')"
    using round_tables [of envs events buf m s' s''] inv(2) unfolding r by blast
  have lens: "length (pmList (registered s)) = MAX_PM" "length (HeartbeatStatus (registered s)) = MAX_PM"
    using inv(2) by (simp_all add: pms_wf_def)
  have b: "pmList (beat answers (registered s)) = pmList (registered s)" using beat_slots [OF lens, of 0 answers] by simp
  have "pm_component_id P \<notin> pm_component_id ` fst ` set (filter failing (slots_of (beat answers (registered s))))"
    using none b by (force simp: slots_of_def failing_def at_host_def dest: set_zip_leftD)
  then show "taskList s'' ! nat i = taskList s' ! nat i" using a(2) len pm by (simp add: failed_task_def)
  have "\<not> at_host (pm_component_id P) x" if "x \<in> set (pmList (heartbeat_round answers (registered s)))" for x
    using that none b by (force simp: heartbeat_round_def Let_def slots_of_def retired_def at_host_def split: if_splits dest: set_zip_leftD)
  then show "\<not> AlreadyRegistered (registered s'') (pm_component_id P)" by (simp add: a(1) AlreadyRegistered_def first_index_None)
qed

theorem stranded_task_witness:
  "\<exists>s'. Scheduler_assign (\<lambda>_. working_env) (sample_task\<lparr>pmComponentID := SDMComponent_ID_new\<rparr>) (sample_pm 9 0) 0 sample_ready = Some s'
     \<and> task_state (taskList s' ! 0) = SCHEDULED \<and> pmComponentID (taskList s' ! 0) = pm_component_id (sample_pm 9 0)
     \<and> \<not> AlreadyRegistered (registered sample_ready) (pm_component_id (sample_pm 9 0)) \<and> registered s' = registered sample_ready"
proof -
  have wf: "tasks_wf (taskList sample_ready)" using sample_ready_ok(1) by (simp add: accounting_def)
  have t: "taskList sample_ready ! 0 = sample_task" "task_state sample_task = PENDING"
    by (simp_all add: sample_ready_def sample_task_def TaskList_new_def)
  have p: "\<not> AlreadyRegistered (registered sample_ready) (pm_component_id (sample_pm 9 0))"
    unfolding AlreadyRegistered_def sample_ready_pms
    by (simp add: PMRecordList_new_def first_index_None at_host_def sample_pm_def pm_record_new_def numeral_eq_Suc)
  obtain s' where "Scheduler_assign (\<lambda>_. working_env) (sample_task\<lparr>pmComponentID := SDMComponent_ID_new\<rparr>) (sample_pm 9 0) (int 0) sample_ready = Some s'"
    by (rule assign_succeeds [OF wf sample_ready_ok(2) working_env_ok(1), of 0 SDMComponent_ID_new "sample_pm 9 0"]) (simp_all add: t)
  then show ?thesis
    using stranded_task [OF sample_ready_ok(1), of 0 "sample_pm 9 0" "\<lambda>_. working_env" "sample_task\<lparr>pmComponentID := SDMComponent_ID_new\<rparr>" s'] t p by simp
qed

lemma get_bytes_all: "length bs = n \<Longrightarrow> get_bytes bs 0 n = Some bs"
  by (simp add: get_bytes_def)

lemma cstr_buffer:
  assumes "is_cstr 128 f" "length b = 128"
  obtains b' where "strncpy b 0 f 0 128 = Some b'" "put_byte b' 127 0 = Some (b'[127 := 0])" "length (cstr (b'[127 := 0])) < 128"
proof -
  have f: "length f = 128" "0 \<in> set f" using assms(1) by (simp_all add: is_cstr_def)
  let ?b = "takeWhile (\<lambda>b. b \<noteq> 0) f @ replicate (128 - length (takeWhile (\<lambda>b. b \<noteq> 0) f)) 0"
  have l: "length (takeWhile (\<lambda>b. b \<noteq> 0) f) \<le> 128" using length_takeWhile_le [of "\<lambda>b. b \<noteq> 0" f] f(1) by simp
  then have b: "strncpy b 0 f 0 128 = Some ?b" "length ?b = 128"
    using f assms(2) by (simp_all add: strncpy_def Let_def put_bytes_def)
  moreover have "0 \<in> set (?b[127 := 0])" using b(2) by (intro set_update_memI) simp
  then have "is_cstr 128 (?b[127 := 0])" using b(2) by (simp add: is_cstr_def)
  then have "length (cstr (?b[127 := 0])) < 128" by (rule is_cstr_len)
  ultimately show thesis by (intro that) (simp_all add: put_byte_update)
qed

lemma TaskFinishedHandler_succeeds:
  assumes "\<And>i. reachable_env (envs i)" "publisher_ok s" "0 \<le> r"
    and "SDMTaskFinished_Unmarshal (SDMTaskFinished_new (junk envs s MAX_FILENAME_SIZE)) buf = Some (m, r)"
  obtains s' where "TaskFinishedHandler envs buf s = Some s'"
    "tables s' = tables (s\<lparr>registered := fst (PMRecordList_TaskFinished (SDMTaskFinished_source m) (registered s)),
       taskList := fst (TaskList_TaskFinished (taskList s) (SDMTaskFinished_pid m))\<rparr>)"
proof -
  let ?s1 = "s\<lparr>registered := fst (PMRecordList_TaskFinished (SDMTaskFinished_source m) (registered s)),
       taskList := fst (TaskList_TaskFinished (taskList s) (SDMTaskFinished_pid m))\<rparr>"
  let ?m = "SDMTaskFinished_new (junk envs s MAX_FILENAME_SIZE)"
  have fld: "length (SDMTaskFinished_filename ?m) = 128"
    using length_junk [of envs 128 s] assms(1) by (simp add: SDMTaskFinished_new_def SDMmessage.defs)
  obtain n k where "copy_bounded (SDMTaskFinished_filename ?m) buf n = Some (SDMTaskFinished_filename m, k)"
    using assms(3,4) by (auto simp: SDMTaskFinished_Unmarshal_def UnmarshalHeader_def Let_def split: bind_splits if_splits)
  then have c: "is_cstr 128 (SDMTaskFinished_filename m)" using copy_bounded_cstr [of "SDMTaskFinished_filename ?m"] fld by fastforce
  have j: "junk envs ?s1 128 = junk envs s 128" by (simp add: junk_def env_at_def)
  have jl: "length (junk envs s 128) = 128" using length_junk [of envs 128 s] assms(1) by simp
  obtain b where b: "strncpy (junk envs s 128) 0 (SDMTaskFinished_filename m) 0 128 = Some b"
      "put_byte b 127 0 = Some (b[127 := 0])" "length (cstr (b[127 := 0])) < 128"
    by (rule cstr_buffer [OF c jl])
  let ?f = "cstr (b[127 := 0])"
  have e: "GET_INT (native_bytes Little 4 (SDMTaskFinished_result m)) 0 = Some (SDMTaskFinished_result m)"
    by (simp add: native_bytes_def GET_TYPE4_def get_bytes_all SDM_htonl_def native_word_def)
  obtain b1 where b1: "name_buffer (Some ?f) 8 = Some b1" "length b1 = 136"
    using name_buffer_ok [of ?f 8] b(3) by (simp add: cstr_no_null)
  obtain b2 where b2: "PUT_UINT b1 XTEDS_MAX_TASK_NAME_SIZE (SDMTaskFinished_pid m) = Some b2" "length b2 = 136"
    using b1(2) by (auto simp: PUT_TYPE4_bytes put_bytes_def)
  obtain b3 where b3: "PUT_INT b2 132 (SDMTaskFinished_result m) = Some b3" "length b3 = 136"
    using b2(2) by (auto simp: PUT_TYPE4_bytes put_bytes_def)
  obtain s' where s': "publish envs NOTI_TASK_FINISHED b3 ?s1 = Some s'"
    by (rule publish_succeeds [of ?s1 b3 envs]) (use assms(1,2) b3(2) in \<open>simp_all add: publisher_ok_def\<close>)
  have "TaskFinishedHandler envs buf s = Some s'"
    using assms(3,4) b b1 b2 b3 s' e j by (simp add: TaskFinishedHandler_def Let_def PublishTaskFinishedMessage_def)
  then show thesis using that tables_publish [OF s'] by blast
qed

text \<open>A reset sets the loads to zero although the managers still have to stop their tasks: the report of a task
  that was running makes the load of its manager -1, so that the books no longer agree with the list of tasks.\<close>

theorem late_report_undercounts:
  assumes "accounting s" "publisher_ok s" "\<And>i. reachable_env (envs i)" "k < MAX_PM" "at_host c (pmList (registered s) ! k)"
    and "SDMTaskFinished_Unmarshal (SDMTaskFinished_new (junk envs s MAX_FILENAME_SIZE)) buf = Some (m, r)" "0 \<le> r" "SDMTaskFinished_source m = c"
  shows "\<exists>s'. TaskFinishedHandler envs buf (reset_tasks s) = Some s' \<and> load (pmList (registered s') ! k) = - 1
     \<and> \<not> accounting s'"
proof -
  let ?l = "ClearAllRunningTasks (registered s)"
  have wf: "pms_wf (registered s)" using assms(1) by (simp add: accounting_def)
  have len: "length (pmList (registered s)) = MAX_PM" using wf by (simp add: pms_wf_def)
  have r: "registered (reset_tasks s) = ?l" "taskList (reset_tasks s) = ClearList (taskList s)" "junk envs (reset_tasks s) 128 = junk envs s 128"
    "publisher_ok (reset_tasks s)"
    using assms(2) by (simp_all add: reset_tasks_def junk_def env_at_def publisher_ok_def)
  obtain s' where s': "TaskFinishedHandler envs buf (reset_tasks s) = Some s'"
      "tables s' = tables ((reset_tasks s)\<lparr>registered := fst (PMRecordList_TaskFinished c ?l),
         taskList := fst (TaskList_TaskFinished (ClearList (taskList s)) (SDMTaskFinished_pid m))\<rparr>)"
    by (rule TaskFinishedHandler_succeeds [where envs = envs, OF assms(3) r(4) assms(7) assms(6) [folded r(3)], unfolded r assms(8)])
  have k: "pmList ?l ! k = (pmList (registered s) ! k)\<lparr>pm_tasks := 0\<rparr>" using assms(4) len by (simp add: ClearAllRunningTasks_def)
  then have h: "at_host c (pmList ?l ! k)" using assms(5) by (simp add: at_host_def)
  have "pmList (registered s') = (pmList ?l)[k := (pmList ?l ! k)\<lparr>pm_tasks := - 1\<rparr>]"
    using s'(2) count_task_slots [OF ClearAllRunningTasks_wf [OF wf] assms(4) h, of "- 1"] k
    by (simp add: tables_def PMRecordList_TaskFinished_def)
  then have e: "pmList (registered s') ! k = (pmList (registered s) ! k)\<lparr>pm_tasks := - 1\<rparr>"
    using k assms(4) len by (simp add: ClearAllRunningTasks_def)
  have "\<not> accounting s'"
  proof
    assume a: "accounting s'"
    then have "length (taskList s') = NUMTASKS" "length (pmList (registered s')) = MAX_PM" by (simp_all add: accounting_def tasks_wf_def pms_wf_def)
    moreover from this have "counted (taskList s') (pmList (registered s') ! k)" using a assms(4) by (simp add: accounting_def list_all_length)
    ultimately show False
      using load_bound [of "taskList s'" "m_ulAddress (pm_component_id (pmList (registered s) ! k))"] assms(5)
      by (auto simp: e counted_def at_host_def dest!: arg_cong [of _ _ sint])
  qed
  then show ?thesis using s'(1) e by auto
qed

theorem late_report_undercounts_witness:
  "\<exists>buf s'. TaskFinishedHandler (\<lambda>_. working_env) buf (reset_tasks sample_ready) = Some s' \<and> load (pmList (registered s') ! 0) = - 1"
proof -
  let ?e = "\<lambda>_. working_env :: env"
  let ?new = "SDMTaskFinished_new (junk ?e sample_ready MAX_FILENAME_SIZE)"
  let ?m = "?new\<lparr>SDMTaskFinished_source := sample_host\<rparr>"
  have wf: "SDMTaskFinished_wf ?m" "SDMTaskFinished_wf ?new"
    using length_junk [of ?e 128 sample_ready] working_env_ok(1)
    by (simp_all add: SDMTaskFinished_wf_def SDMTaskFinished_new_def new_message_def SDMmessage.defs is_cstr_def set_update_memI)
  obtain m' where m': "SDMTaskFinished_Unmarshal ?new (taskfinished.datagram (1, 2) ?m @ []) = Some (m', int (length (taskfinished.datagram (1, 2) ?m)))"
      "SDMTaskFinished_view m' = SDMTaskFinished_view ?m"
    by (rule taskfinished.Unmarshal_datagram [OF wf(1) TrueI wf(2)])
  have "at_host sample_host (pmList (registered sample_ready) ! 0)"
    unfolding sample_ready_pms by (simp add: PMRecordList_new_def at_host_def sample_pm_def sample_host_def)
  then show ?thesis
    using late_report_undercounts [OF sample_ready_ok working_env_ok(1) _ _ m'(1), of 0 sample_host] m'(2)
    by (auto simp: SDMTaskFinished_view_def)
qed

end
