(* ===== verification/Startup_Config.thy ===== *)
theory Startup_Config
  imports Task_Manager
begin

text \<open>
  The tasks to start with: \<^verbatim>\<open>InitialStartUp\<close> of \<^verbatim>\<open>tm/tm.cpp\<close> reads \<^verbatim>\<open>SdmTaskList.config\<close> into an array of 65536 bytes,
  scans it for the attributes of its \<^verbatim>\<open>Application\<close> elements and posts a task for each element that has a path, an
  architecture, a memory size and an operating system.

  A position \<^verbatim>\<open>&file[i]\<close> is the suffix of the array that starts there. The bytes behind the terminator of the text
  are whatever the stack held. An operation returns \<^term>\<open>None\<close> where the code reads behind the end of an array or writes
  over one.
\<close>

section \<open>The scanner\<close>

abbreviation (input) QUOTE :: byte where "QUOTE \<equiv> 34"

text \<open>\<^verbatim>\<open>strncmp(p, w, strlen(w)) == 0\<close> for a constant \<open>w\<close>.\<close>

fun strncmp_eq :: "byte list \<Rightarrow> byte list \<Rightarrow> bool option" where
  "strncmp_eq p [] = Some True"
| "strncmp_eq [] (c # w) = None"
| "strncmp_eq (b # p) (c # w) = (if b = c then strncmp_eq p w else Some False)"

definition starts :: "byte list \<Rightarrow> string \<Rightarrow> bool option" where
  "starts p w = strncmp_eq p (chars w)"

text \<open>How a part of the loop's body is left: by \<^verbatim>\<open>return\<close>, by \<^verbatim>\<open>continue\<close>, or at its end.\<close>

datatype 'a flow = Return | Continue 'a | Next 'a

definition andthen :: "'a flow option \<Rightarrow> ('a \<Rightarrow> 'a flow option) \<Rightarrow> 'a flow option" where
  "andthen r f = (case r of Some (Next x) \<Rightarrow> f x | _ \<Rightarrow> r)"

text \<open>The loops to the next quote: the first one returns at the end of the text, the second one does not look for it.\<close>

fun to_quote :: "byte list \<Rightarrow> byte list flow option" where
  "to_quote [] = None"
| "to_quote (b # p) = (if b = QUOTE then Some (Next (b # p)) else if b = 0 then Some Return else to_quote p)"

fun quoted :: "byte list \<Rightarrow> (byte list \<times> byte list) option" where
  "quoted [] = None"
| "quoted (b # p) = (if b = QUOTE then Some ([], b # p) else do { (v, r) \<leftarrow> quoted p; Some (b # v, r) })"

text \<open>The loop that copies an attribute of at most \<open>n\<close> characters.\<close>

fun upto_quote :: "nat \<Rightarrow> byte list \<Rightarrow> byte list option" where
  "upto_quote 0 p = Some []"
| "upto_quote (Suc n) [] = None"
| "upto_quote (Suc n) (b # p) = (if b = QUOTE then Some [] else do { v \<leftarrow> upto_quote n p; Some (b # v) })"

text \<open>\<^verbatim>\<open>strstr(p, "-->")\<close>: None outside the array, \<^term>\<open>Some None\<close> for NULL.\<close>

fun strstr_comment_end :: "byte list \<Rightarrow> byte list option option" where
  "strstr_comment_end [] = None"
| "strstr_comment_end (b # p) = (if b = 0 then Some None else do {
     found \<leftarrow> starts (b # p) ''-->'';
     if found then Some (Some (b # p)) else strstr_comment_end p })"

definition isspace :: "byte \<Rightarrow> bool" where
  "isspace b = (b = 32 \<or> 9 \<le> b \<and> b \<le> 13)"

definition isdigit :: "byte \<Rightarrow> bool" where
  "isdigit b = (48 \<le> b \<and> b \<le> 57)"

fun atoi_digits :: "int \<Rightarrow> byte list \<Rightarrow> int option" where
  "atoi_digits n [] = None"
| "atoi_digits n (b # p) = (if isdigit b then atoi_digits (10 * n + uint (b - 48)) p else Some n)"

definition atoi :: "byte list \<Rightarrow> int option" where
  "atoi p = (case dropWhile isspace p of
     [] \<Rightarrow> None
   | b # q \<Rightarrow> if b = 45 then map_option uminus (atoi_digits 0 q) else if b = 43 then atoi_digits 0 q else atoi_digits 0 (b # q))"

section \<open>The body of the loop\<close>

record startup =
  su_pos :: "byte list"
  su_cont :: "32 word"
  su_name :: bool
  su_resource :: "32 word"
  su_filename :: buffer
  su_timeout :: "32 word"
  su_mode :: "32 word"
  su_TagClosed :: bool

text \<open>Behind the name of an attribute: \<^verbatim>\<open>i += n + 1\<close>, the loop to the opening quote, and \<^verbatim>\<open>i++\<close>.\<close>

definition at_value :: "nat \<Rightarrow> startup \<Rightarrow> startup flow option" where
  "at_value n x = (case to_quote (drop (n + 1) (su_pos x)) of
     None \<Rightarrow> None | Some Return \<Rightarrow> Some Return | Some (Continue p) \<Rightarrow> None | Some (Next p) \<Rightarrow> Some (Next (x\<lparr>su_pos := tl p\<rparr>)))"

definition on_word :: "string \<Rightarrow> (startup \<Rightarrow> startup flow option) \<Rightarrow> startup \<Rightarrow> startup flow option" where
  "on_word w body x = do { found \<leftarrow> starts (su_pos x) w; if found then body x else Some (Next x) }"

definition skip_comment :: "startup \<Rightarrow> startup flow option" where
  "skip_comment x = do {
     cp \<leftarrow> strstr_comment_end (drop 4 (su_pos x));
     case cp of None \<Rightarrow> Some Return | Some p \<Rightarrow> Some (Next (x\<lparr>su_pos := drop 3 p\<rparr>)) }"

definition start_application :: "startup \<Rightarrow> startup flow option" where
  "start_application x = Some (Next (x\<lparr>su_cont := 1, su_name := False, su_resource := 0, su_timeout := 0, su_mode := 0,
     su_filename := replicate MAX_FILENAME_SIZE 0, su_pos := drop 11 (su_pos x)\<rparr>))"

definition pathOnSpacecraft :: "startup \<Rightarrow> startup flow option" where
  "pathOnSpacecraft x = andthen (at_value 16 (x\<lparr>su_name := True\<rparr>)) (\<lambda>x. do {
     (v, p) \<leftarrow> quoted (su_pos x);
     f \<leftarrow> put_bytes (su_filename x) 0 (take MAX_FILENAME_SIZE v);
     Some (Next (x\<lparr>su_filename := f, su_pos := p\<rparr>)) })"

text \<open>The chain of comparisons of an attribute's value: the bits of the first word that matches.\<close>

primrec first_word :: "(string \<times> 32 word) list \<Rightarrow> byte list \<Rightarrow> 32 word option" where
  "first_word [] p = Some 0"
| "first_word (e # es) p = do { found \<leftarrow> starts p (fst e); if found then Some (snd e) else first_word es p }"

definition set_bits :: "32 word \<Rightarrow> 32 word \<Rightarrow> startup \<Rightarrow> startup" where
  "set_bits bits c x = x\<lparr>su_resource := su_resource x OR bits, su_cont := su_cont x OR c\<rparr>"

definition architecture :: "startup \<Rightarrow> startup flow option" where
  "architecture x = andthen (at_value 12 x) (\<lambda>x. do {
     bits \<leftarrow> first_word [(''SPAU'', 0x0001), (''Intel'', 0x0002), (''PPC7404'', 0x0004), (''PPC755'', 0x0005), (''PPC405'', 0x0006),
       (''Microblaze'', 0x0007), (''Sparc'', 0x0008)] (su_pos x);
     Some (Next (set_bits bits 0x02 x)) })"

definition mem_bits :: "int \<Rightarrow> 32 word" where
  "mem_bits mem = (if mem \<le> 32 then 0x0010 else if mem \<le> 64 then 0x0020 else if mem \<le> 128 then 0x0030 else if mem \<le> 256 then 0x0040
     else if mem \<le> 512 then 0x0050 else if mem \<le> 1024 then 0x0060 else 0)"

definition memoryMinimum :: "startup \<Rightarrow> startup flow option" where
  "memoryMinimum x = andthen (at_value 13 x) (\<lambda>x. case to_quote (su_pos x) of
     None \<Rightarrow> None | Some Return \<Rightarrow> Some Return | Some (Continue p) \<Rightarrow> None
   | Some (Next p) \<Rightarrow> do {
       memstring \<leftarrow> put_bytes (replicate 8 0) 0 (take (length (su_pos x) - length p) (su_pos x));
       mem \<leftarrow> atoi memstring;
       Some (Next (set_bits (mem_bits mem) 0x04 (x\<lparr>su_pos := p\<rparr>))) })"

definition operatingSystem :: "startup \<Rightarrow> startup flow option" where
  "operatingSystem x = andthen (at_value 15 x) (\<lambda>x. do {
     bits \<leftarrow> first_word [(''Win32'', 0x0300), (''Linux24'', 0x0100), (''Linux26'', 0x0200), (''VxWorks'', 0x0400)] (su_pos x);
     Some (Next (set_bits bits 0x08 x)) })"

definition tag_end :: "startup \<Rightarrow> startup flow option" where
  "tag_end x =
     (if su_cont x = 15 \<and> su_name x then do {
        b \<leftarrow> get_byte (su_pos x) 0;
        Some (Next (if b = 62 then x\<lparr>su_TagClosed := True\<rparr> else x)) }
      else Some (Next x))"

definition preferredPMNodeID :: "startup \<Rightarrow> startup flow option" where
  "preferredPMNodeID x = andthen (at_value 17 x) (\<lambda>x. do {
     strNodeId \<leftarrow> upto_quote 7 (su_pos x);
     ID \<leftarrow> atoi (strNodeId @ [0]);
     if ID < 1 \<or> ID > 255 then Some (Continue x)
     else Some (Next (x\<lparr>su_resource := su_resource x OR push_bit 12 (of_int ID)\<rparr>)) })"

definition scheduleTimeout :: "startup \<Rightarrow> startup flow option" where
  "scheduleTimeout x = andthen (at_value 15 x) (\<lambda>x. do {
     strTimeout \<leftarrow> upto_quote 7 (su_pos x);
     t \<leftarrow> atoi (strTimeout @ [0]);
     Some (Next (x\<lparr>su_timeout := of_int t\<rparr>)) })"

definition executionMode :: "startup \<Rightarrow> startup flow option" where
  "executionMode x = andthen (at_value 13 x) (\<lambda>x. do {
     found \<leftarrow> starts (su_pos x) ''alwaysRunning'';
     Some (Next (if found then x\<lparr>su_mode := MODE_ALWAYS_RUNNING\<rparr> else x)) })"

definition startup_body :: "startup \<Rightarrow> startup flow option" where
  "startup_body x = andthen (on_word ''<!--'' skip_comment x) (\<lambda>x. andthen (on_word ''Application'' start_application x) (\<lambda>x.
     andthen (on_word ''pathOnSpacecraft'' pathOnSpacecraft x) (\<lambda>x. andthen (on_word ''architecture'' architecture x) (\<lambda>x.
     andthen (on_word ''memoryMinimum'' memoryMinimum x) (\<lambda>x. andthen (on_word ''operatingSystem'' operatingSystem x) (\<lambda>x.
     andthen (tag_end x) (\<lambda>x. andthen (on_word ''preferredPMNodeID'' preferredPMNodeID x) (\<lambda>x.
     andthen (on_word ''scheduleTimeout'' scheduleTimeout x) (on_word ''executionMode'' executionMode)))))))))"

text \<open>The end of the body; \<open>msgTask\<close> is one object for all tasks, \<open>buf\<close> has 256 bytes.\<close>

definition startup_post :: "(nat \<Rightarrow> env) \<Rightarrow> startup \<Rightarrow> SDMPostTask \<Rightarrow> buffer \<Rightarrow> tm \<Rightarrow> (startup \<times> SDMPostTask \<times> buffer \<times> tm) option" where
  "startup_post envs x msgTask buf s =
     (if su_cont x = 15 \<and> su_name x \<and> su_TagClosed x then do {
        let msgTask = msgTask\<lparr>SDMPostTask_resources := ucast (su_resource x), SDMPostTask_sched_interval := su_timeout x,
          SDMPostTask_mode := su_mode x\<rparr>;
        f \<leftarrow> strncpy (SDMPostTask_filename msgTask) 0 (su_filename x) 0 MAX_FILENAME_SIZE;
        (msgTask, buf, _) \<leftarrow> SDMPostTask_Marshal (env_now (env_at envs s 0)) (msgTask\<lparr>SDMPostTask_filename := f\<rparr>) buf;
        s \<leftarrow> PostTask envs buf s;
        Some (x\<lparr>su_cont := 0, su_name := False, su_TagClosed := False\<rparr>, msgTask, buf, s) }
      else Some (x, msgTask, buf, s))"

section \<open>The loop\<close>

text \<open>The scanner only moves forward, so that the loop ends.\<close>

definition advances :: "(startup \<Rightarrow> startup flow option) \<Rightarrow> bool" where
  "advances f = (\<forall>x x'. f x = Some (Next x') \<or> f x = Some (Continue x') \<longrightarrow> length (su_pos x') \<le> length (su_pos x))"

named_theorems forward \<open>parts of the loop's body that only move forward\<close>

lemma advances_andthen [forward]: "advances f \<Longrightarrow> advances g \<Longrightarrow> advances (\<lambda>x. andthen (f x) g)"
  by (fastforce simp: advances_def andthen_def split: option.splits flow.splits intro: order.trans)

lemma to_quote_length: "to_quote p = Some (Next q) \<Longrightarrow> length q \<le> length p \<and> q \<noteq> []"
  by (induction p) (auto split: if_splits)

lemma quoted_length: "quoted p = Some (v, q) \<Longrightarrow> length q \<le> length p"
  by (induction p arbitrary: v) (fastforce split: if_splits bind_splits)+

lemma strstr_length: "strstr_comment_end p = Some (Some q) \<Longrightarrow> length q \<le> length p"
  by (induction p) (auto split: if_splits bind_splits)

lemma advances_at_value [forward]: "advances (at_value n)"
  by (auto simp: advances_def at_value_def split: option.splits flow.splits dest!: to_quote_length)

lemma advances_on_word [forward]: "advances f \<Longrightarrow> advances (on_word w f)"
  by (auto simp: advances_def on_word_def split: bind_splits)

lemma advances_parts [forward]:
  "advances skip_comment" "advances start_application" "advances tag_end"
  by (auto simp: advances_def skip_comment_def start_application_def tag_end_def split: bind_splits option.splits if_splits dest!: strstr_length)

lemma at_value_then:
  assumes "andthen (at_value n x) g = Some r" "r = Next x' \<or> r = Continue x'" "advances g"
  shows "length (su_pos x') \<le> length (su_pos x)"
  using assms advances_andthen [OF advances_at_value [of n] assms(3)] by (auto simp: advances_def)

lemma advances_attributes [forward]:
  "advances pathOnSpacecraft" "advances architecture" "advances memoryMinimum" "advances operatingSystem" "advances preferredPMNodeID"
  "advances scheduleTimeout" "advances executionMode"
proof -
  have v: "advances f" if "\<And>x. f x = andthen (at_value n (h x)) g" "\<And>x. su_pos (h x) = su_pos x" "advances g" for f n h g
    unfolding advances_def using at_value_then [OF _ _ that(3)] that(1,2) by metis
  show "advances pathOnSpacecraft"
    by (rule v, rule pathOnSpacecraft_def) (auto simp: advances_def split: bind_splits dest!: quoted_length)
  show "advances memoryMinimum"
    by (rule v [where h = "\<lambda>x. x"], rule memoryMinimum_def)
      (auto simp: advances_def set_bits_def split: bind_splits option.splits flow.splits dest!: to_quote_length)
  show "advances architecture" "advances operatingSystem"
    by (rule v [where h = "\<lambda>x. x"], rule architecture_def operatingSystem_def, simp, simp add: advances_def set_bits_def split: bind_splits)+
  show "advances preferredPMNodeID" "advances scheduleTimeout" "advances executionMode"
    by (rule v [where h = "\<lambda>x. x"], rule preferredPMNodeID_def scheduleTimeout_def executionMode_def, simp, simp add: advances_def split: bind_splits)+
qed

lemma body_advances: "advances startup_body"
  unfolding startup_body_def by (intro forward)

function startup_loop :: "(nat \<Rightarrow> env) \<Rightarrow> nat \<Rightarrow> startup \<Rightarrow> SDMPostTask \<Rightarrow> buffer \<Rightarrow> tm \<Rightarrow> tm option" where
  "startup_loop envs n x msgTask buf s =
     (if n < length (su_pos x) then
        case startup_body x of
          None \<Rightarrow> None
        | Some Return \<Rightarrow> Some s
        | Some (Continue x) \<Rightarrow> startup_loop envs n (x\<lparr>su_pos := tl (su_pos x)\<rparr>) msgTask buf s
        | Some (Next x) \<Rightarrow> do {
            (x, msgTask, buf, s) \<leftarrow> startup_post envs x msgTask buf s;
            startup_loop envs n (x\<lparr>su_pos := tl (su_pos x)\<rparr>) msgTask buf s }
      else Some s)"
  by pat_completeness auto

termination
proof (relation "measure (\<lambda>(envs, n, x, m, b, s). length (su_pos x))", goal_cases)
  case (2 envs n x m b s r x')
  then have "length (su_pos x') \<le> length (su_pos x)" using body_advances by (auto simp: advances_def)
  then show ?case using 2 by (cases "su_pos x'") auto
next
  case (3 envs n x m b s r x' q x1 m1 b1 s1)
  then have "length (su_pos x') \<le> length (su_pos x)" "su_pos x1 = su_pos x'"
    using body_advances by (auto simp: advances_def startup_post_def Let_def split: if_splits bind_splits)
  then show ?case using 3 by (cases "su_pos x'") auto
qed simp

declare startup_loop.simps [simp del]

text \<open>\<open>contents\<close> is what reading the file returns: the open may fail, the read may fail, or its bytes arrive.\<close>

definition InitialStartUp :: "(nat \<Rightarrow> env) \<Rightarrow> byte list option \<Rightarrow> buffer \<Rightarrow> buffer \<Rightarrow> tm \<Rightarrow> tm option" where
  "InitialStartUp envs contents uninit_file uninit_buf s =
     (case contents of
        None \<Rightarrow> Some s
      | Some bytes \<Rightarrow> do {
          file \<leftarrow> put_bytes uninit_file 0 (take 65535 bytes);
          file \<leftarrow> put_byte file (length (take 65535 bytes)) 0;
          FILE_LENGTH \<leftarrow> strlen file 0;
          startup_loop envs (length file - FILE_LENGTH)
            \<lparr>su_pos = file, su_cont = 0, su_name = False, su_resource = 0, su_filename = junk envs s MAX_FILENAME_SIZE, su_timeout = 0,
             su_mode = 0, su_TagClosed = False\<rparr>
            (SDMPostTask_new (junk envs s MAX_FILENAME_SIZE)) uninit_buf s })"

section \<open>Scanning a well-formed file\<close>

text \<open>An element as the file may have it.\<close>

record app =
  app_path :: "byte list"
  app_arch :: string
  app_mem :: nat
  app_os :: string
  app_timeout :: nat
  app_always :: bool

definition attribute :: "string \<Rightarrow> byte list \<Rightarrow> byte list" where
  "attribute w v = chars w @ [61, QUOTE] @ v @ [QUOTE, 32]"

definition app_text :: "app \<Rightarrow> byte list" where
  "app_text a = chars ''<Application '' @ attribute ''pathOnSpacecraft'' (app_path a) @ attribute ''architecture'' (chars (app_arch a))
     @ attribute ''memoryMinimum'' (decimal (app_mem a)) @ attribute ''operatingSystem'' (chars (app_os a))
     @ attribute ''scheduleTimeout'' (decimal (app_timeout a))
     @ (if app_always a then attribute ''executionMode'' (chars ''alwaysRunning'') else []) @ chars ''/>'' @ [10]"

lemma chars_simps [simp]: "chars [] = []" "chars (c # w) = of_char c # chars w"
  by (simp_all add: chars_def)

lemma andthen_simps [simp]:
  "andthen None f = None" "andthen (Some Return) f = Some Return" "andthen (Some (Continue x)) f = Some (Continue x)"
  "andthen (Some (Next x)) f = f x"
  by (simp_all add: andthen_def)

lemma on_word_simps:
  "starts (su_pos x) w = Some True \<Longrightarrow> on_word w f x = f x"
  "starts (su_pos x) w = Some False \<Longrightarrow> on_word w f x = Some (Next x)"
  by (simp_all add: on_word_def)

text \<open>A character at which no part of the body does anything.\<close>

definition dull :: "byte list \<Rightarrow> bool" where
  "dull p = (p \<noteq> [] \<and> hd p \<noteq> 62 \<and> (\<forall>w\<in>{''<!--'', ''Application'', ''pathOnSpacecraft'', ''architecture'', ''memoryMinimum'', ''operatingSystem'',
     ''preferredPMNodeID'', ''scheduleTimeout'', ''executionMode''}. starts p w = Some False))"

text \<open>The words as bytes.\<close>

lemma words:
  "starts p ''<!--'' = strncmp_eq p [60, 33, 45, 45]"
  "starts p ''Application'' = strncmp_eq p [65, 112, 112, 108, 105, 99, 97, 116, 105, 111, 110]"
  "starts p ''pathOnSpacecraft'' = strncmp_eq p [112, 97, 116, 104, 79, 110, 83, 112, 97, 99, 101, 99, 114, 97, 102, 116]"
  "starts p ''architecture'' = strncmp_eq p [97, 114, 99, 104, 105, 116, 101, 99, 116, 117, 114, 101]"
  "starts p ''memoryMinimum'' = strncmp_eq p [109, 101, 109, 111, 114, 121, 77, 105, 110, 105, 109, 117, 109]"
  "starts p ''operatingSystem'' = strncmp_eq p [111, 112, 101, 114, 97, 116, 105, 110, 103, 83, 121, 115, 116, 101, 109]"
  "starts p ''preferredPMNodeID'' = strncmp_eq p [112, 114, 101, 102, 101, 114, 114, 101, 100, 80, 77, 78, 111, 100, 101, 73, 68]"
  "starts p ''scheduleTimeout'' = strncmp_eq p [115, 99, 104, 101, 100, 117, 108, 101, 84, 105, 109, 101, 111, 117, 116]"
  "starts p ''executionMode'' = strncmp_eq p [101, 120, 101, 99, 117, 116, 105, 111, 110, 77, 111, 100, 101]"
  "starts p ''alwaysRunning'' = strncmp_eq p [97, 108, 119, 97, 121, 115, 82, 117, 110, 110, 105, 110, 103]"
  "starts p ''SPAU'' = strncmp_eq p [83, 80, 65, 85]"
  "starts p ''Intel'' = strncmp_eq p [73, 110, 116, 101, 108]"
  "starts p ''PPC7404'' = strncmp_eq p [80, 80, 67, 55, 52, 48, 52]"
  "starts p ''PPC755'' = strncmp_eq p [80, 80, 67, 55, 53, 53]"
  "starts p ''PPC405'' = strncmp_eq p [80, 80, 67, 52, 48, 53]"
  "starts p ''Microblaze'' = strncmp_eq p [77, 105, 99, 114, 111, 98, 108, 97, 122, 101]"
  "starts p ''Sparc'' = strncmp_eq p [83, 112, 97, 114, 99]"
  "starts p ''Win32'' = strncmp_eq p [87, 105, 110, 51, 50]"
  "starts p ''Linux24'' = strncmp_eq p [76, 105, 110, 117, 120, 50, 52]"
  "starts p ''Linux26'' = strncmp_eq p [76, 105, 110, 117, 120, 50, 54]"
  "starts p ''VxWorks'' = strncmp_eq p [86, 120, 87, 111, 114, 107, 115]"
  by (simp_all add: starts_def)

lemma dull_code:
  "dull p = (p \<noteq> [] \<and> hd p \<noteq> 62 \<and> strncmp_eq p [60, 33, 45, 45] = Some False \<and> strncmp_eq p [65, 112, 112, 108, 105, 99, 97, 116, 105, 111, 110] = Some False \<and> strncmp_eq p [112, 97, 116, 104, 79, 110, 83, 112, 97, 99, 101, 99, 114, 97, 102, 116] = Some False \<and> strncmp_eq p [97, 114, 99, 104, 105, 116, 101, 99, 116, 117, 114, 101] = Some False \<and> strncmp_eq p [109, 101, 109, 111, 114, 121, 77, 105, 110, 105, 109, 117, 109] = Some False \<and> strncmp_eq p [111, 112, 101, 114, 97, 116, 105, 110, 103, 83, 121, 115, 116, 101, 109] = Some False \<and> strncmp_eq p [112, 114, 101, 102, 101, 114, 114, 101, 100, 80, 77, 78, 111, 100, 101, 73, 68] = Some False \<and> strncmp_eq p [115, 99, 104, 101, 100, 117, 108, 101, 84, 105, 109, 101, 111, 117, 116] = Some False \<and> strncmp_eq p [101, 120, 101, 99, 117, 116, 105, 111, 110, 77, 111, 100, 101] = Some False)"
  by (simp add: dull_def words)

lemma body_dull: "dull (su_pos x) \<Longrightarrow> startup_body x = Some (Next x)"
  by (auto simp: startup_body_def dull_def on_word_simps tag_end_def get_byte_def hd_conv_nth)

abbreviation open_tag :: "startup \<Rightarrow> bool" where
  "open_tag x \<equiv> su_TagClosed x = False"

lemma loop_next:
  assumes "startup_body x = Some (Next x')" "n < length (su_pos x)" "\<not> su_TagClosed x'"
  shows "startup_loop envs n x m b s = startup_loop envs n (x'\<lparr>su_pos := tl (su_pos x')\<rparr>) m b s"
  using assms by (simp add: startup_loop.simps [of envs n x] startup_post_def)

lemma loop_dull:
  assumes "dull (c # p)" "n \<le> length p" "\<not> su_TagClosed x"
  shows "startup_loop envs n (x\<lparr>su_pos := c # p\<rparr>) m b s = startup_loop envs n (x\<lparr>su_pos := p\<rparr>) m b s"
  using loop_next [OF body_dull, of "x\<lparr>su_pos := c # p\<rparr>"] assms by simp

lemma loop_to:
  assumes "startup_body (x\<lparr>su_pos := q\<rparr>) = Some (Next (x'\<lparr>su_pos := c # p\<rparr>))" "n < length q" "\<not> su_TagClosed x'"
  shows "startup_loop envs n (x\<lparr>su_pos := q\<rparr>) m b s = startup_loop envs n (x'\<lparr>su_pos := p\<rparr>) m b s"
  using loop_next [OF assms(1)] assms(2,3) by simp

lemma dull_first:
  assumes "c \<notin> {60, 65, 112, 97, 109, 111, 115, 101, 62}"
  shows "dull (c # p)"
  using assms by (simp add: dull_code)

lemma at_value_eq:
  assumes "length w = n"
  shows "at_value n (x\<lparr>su_pos := w @ 61 # QUOTE # p\<rparr>) = Some (Next (x\<lparr>su_pos := p\<rparr>))"
  using assms by (simp add: at_value_def)

lemma to_quote_skip: "0 \<notin> set v \<Longrightarrow> QUOTE \<notin> set v \<Longrightarrow> to_quote (v @ QUOTE # p) = Some (Next (QUOTE # p))"
  by (induction v) auto

lemma quoted_eq: "QUOTE \<notin> set v \<Longrightarrow> quoted (v @ QUOTE # p) = Some (v, QUOTE # p)"
  by (induction v) auto

lemma upto_quote_eq: "QUOTE \<notin> set v \<Longrightarrow> length v < n \<Longrightarrow> upto_quote n (v @ QUOTE # p) = Some v"
proof (induction v arbitrary: n)
  case Nil
  then show ?case by (cases n) simp_all
next
  case (Cons b v)
  then show ?case by (cases n) simp_all
qed

lemma loop_dulls:
  assumes "list_all (\<lambda>c. c \<notin> {60, 65, 112, 97, 109, 111, 115, 101, 62}) v" "n \<le> length p" "\<not> su_TagClosed x"
  shows "startup_loop envs n (x\<lparr>su_pos := v @ p\<rparr>) m b s = startup_loop envs n (x\<lparr>su_pos := p\<rparr>) m b s"
  using assms
proof (induction v)
  case (Cons c v)
  then show ?case using loop_dull [OF dull_first, of c n "v @ p" x] by simp
qed simp

lemma loop_application:
  assumes "n \<le> length p" "\<not> su_TagClosed x"
  shows "startup_loop envs n (x\<lparr>su_pos := chars ''<Application '' @ p\<rparr>) m b s =
    startup_loop envs n (x\<lparr>su_cont := 1, su_name := False, su_resource := 0, su_timeout := 0, su_mode := 0,
      su_filename := replicate MAX_FILENAME_SIZE 0, su_pos := p\<rparr>) m b s"
proof -
  let ?x = "x\<lparr>su_cont := 1, su_name := False, su_resource := 0, su_timeout := 0, su_mode := 0, su_filename := replicate MAX_FILENAME_SIZE 0\<rparr>"
  have "startup_loop envs n (x\<lparr>su_pos := chars ''<Application '' @ p\<rparr>) m b s = startup_loop envs n (x\<lparr>su_pos := chars ''Application '' @ p\<rparr>) m b s"
    using loop_dull [of 60 "chars ''Application '' @ p" n x] assms by (simp add: dull_code)
  also have "\<dots> = startup_loop envs n (?x\<lparr>su_pos := p\<rparr>) m b s"
    by (subst loop_next [where x' = "?x\<lparr>su_pos := 32 # p\<rparr>"])
      (use assms in \<open>simp_all add: startup_body_def on_word_def words start_application_def tag_end_def\<close>)
  finally show ?thesis by simp
qed

lemma loop_path:
  assumes "n \<le> length p" "\<not> su_TagClosed x" "QUOTE \<notin> set v" "0 \<notin> set v" "length v \<le> MAX_FILENAME_SIZE" "su_cont x \<noteq> 15"
    "su_filename x = replicate MAX_FILENAME_SIZE 0"
  shows "startup_loop envs n (x\<lparr>su_pos := attribute ''pathOnSpacecraft'' v @ p\<rparr>) m b s =
    startup_loop envs n (x\<lparr>su_name := True, su_filename := v @ replicate (MAX_FILENAME_SIZE - length v) 0, su_pos := p\<rparr>) m b s"
proof -
  let ?x = "x\<lparr>su_name := True, su_filename := v @ replicate (MAX_FILENAME_SIZE - length v) 0\<rparr>"
  have f: "put_bytes (replicate 128 0) 0 v = Some (v @ replicate (128 - length v) 0)" using assms(5) by (simp add: put_bytes_def)
  have "startup_loop envs n (x\<lparr>su_pos := attribute ''pathOnSpacecraft'' v @ p\<rparr>) m b s = startup_loop envs n (?x\<lparr>su_pos := 32 # p\<rparr>) m b s"
    by (subst loop_next [where x' = "?x\<lparr>su_pos := QUOTE # 32 # p\<rparr>"])
      (use assms f in \<open>simp_all add: attribute_def startup_body_def on_word_def words pathOnSpacecraft_def at_value_def quoted_eq tag_end_def\<close>)
  also have "\<dots> = startup_loop envs n (?x\<lparr>su_pos := p\<rparr>) m b s"
    using assms by (intro loop_dull dull_first) simp_all
  finally show ?thesis by simp
qed

lemma set_bits_pos [simp]: "set_bits bits c (x\<lparr>su_pos := p\<rparr>) = (set_bits bits c x)\<lparr>su_pos := p\<rparr>"
  "su_TagClosed (set_bits bits c x) = su_TagClosed x" "su_pos (set_bits bits c x) = su_pos x" "su_name (set_bits bits c x) = su_name x"
  by (simp_all add: set_bits_def)

definition archs :: "(string \<times> 32 word) list" where
  "archs = [(''SPAU'', 0x0001), (''Intel'', 0x0002), (''PPC7404'', 0x0004), (''PPC755'', 0x0005), (''PPC405'', 0x0006),
     (''Microblaze'', 0x0007), (''Sparc'', 0x0008)]"

definition systems :: "(string \<times> 32 word) list" where
  "systems = [(''Win32'', 0x0300), (''Linux24'', 0x0100), (''Linux26'', 0x0200), (''VxWorks'', 0x0400)]"

lemma tag_end_dull: "su_pos x = c # p \<Longrightarrow> c \<noteq> 62 \<Longrightarrow> tag_end x = Some (Next x)"
  by (simp add: tag_end_def get_byte_def)

lemma loop_architecture:
  assumes "n \<le> length p" "\<not> su_TagClosed x" "(w, bits) \<in> set archs"
  shows "startup_loop envs n (x\<lparr>su_pos := attribute ''architecture'' (chars w) @ p\<rparr>) m b s = startup_loop envs n ((set_bits bits 0x02 x)\<lparr>su_pos := p\<rparr>) m b s"
proof -
  obtain c v where w: "chars w = c # v" using assms(3) by (auto simp: archs_def)
  have sc: "startup_body (x\<lparr>su_pos := attribute ''architecture'' (chars w) @ p\<rparr>) = Some (Next ((set_bits bits 0x02 x)\<lparr>su_pos := c # v @ QUOTE # 32 # p\<rparr>))"
    using assms(3) w unfolding archs_def
    by (auto simp: attribute_def startup_body_def on_word_def words architecture_def at_value_def tag_end_dull)
  have "startup_loop envs n (x\<lparr>su_pos := attribute ''architecture'' (chars w) @ p\<rparr>) m b s
      = startup_loop envs n ((set_bits bits 0x02 x)\<lparr>su_pos := v @ QUOTE # 32 # p\<rparr>) m b s"
    by (rule loop_to [OF sc]) (use assms in \<open>simp_all add: attribute_def\<close>)
  also have "\<dots> = startup_loop envs n ((set_bits bits 0x02 x)\<lparr>su_pos := p\<rparr>) m b s"
    using assms w by (auto simp: archs_def loop_dull dull_code)
  finally show ?thesis .
qed

lemma loop_operatingSystem:
  assumes "n \<le> length p" "\<not> su_TagClosed x" "(w, bits) \<in> set systems"
  shows "startup_loop envs n (x\<lparr>su_pos := attribute ''operatingSystem'' (chars w) @ p\<rparr>) m b s = startup_loop envs n ((set_bits bits 0x08 x)\<lparr>su_pos := p\<rparr>) m b s"
proof -
  obtain c v where w: "chars w = c # v" using assms(3) by (auto simp: systems_def)
  have sc: "startup_body (x\<lparr>su_pos := attribute ''operatingSystem'' (chars w) @ p\<rparr>) = Some (Next ((set_bits bits 0x08 x)\<lparr>su_pos := c # v @ QUOTE # 32 # p\<rparr>))"
    using assms(3) w unfolding systems_def
    by (auto simp: attribute_def startup_body_def on_word_def words operatingSystem_def at_value_def tag_end_dull)
  have "startup_loop envs n (x\<lparr>su_pos := attribute ''operatingSystem'' (chars w) @ p\<rparr>) m b s
      = startup_loop envs n ((set_bits bits 0x08 x)\<lparr>su_pos := v @ QUOTE # 32 # p\<rparr>) m b s"
    by (rule loop_to [OF sc]) (use assms in \<open>simp_all add: attribute_def\<close>)
  also have "\<dots> = startup_loop envs n ((set_bits bits 0x08 x)\<lparr>su_pos := p\<rparr>) m b s"
    using assms w by (auto simp: systems_def loop_dull dull_code)
  finally show ?thesis .
qed

text \<open>Numbers.\<close>

lemma digit_value: "k < 10 \<Longrightarrow> isdigit (48 + of_nat k) \<and> uint (48 + of_nat k - 48 :: byte) = int k"
proof -
  assume "k < 10"
  then have "k = 0 \<or> k = 1 \<or> k = 2 \<or> k = 3 \<or> k = 4 \<or> k = 5 \<or> k = 6 \<or> k = 7 \<or> k = 8 \<or> k = 9" by presburger
  then show ?thesis by (elim disjE) (simp_all add: isdigit_def)
qed

lemma decimal_digits: "list_all isdigit (decimal n)"
proof (induction n rule: decimal.induct)
  case (1 n)
  then show ?case using digit_value [of n] digit_value [of "n mod 10"] by (cases "n < 10") (simp_all add: decimal.simps [of n])
qed

lemma decimal_plain: "b \<in> set (decimal n) \<Longrightarrow> isdigit b"
  using decimal_digits [of n] by (simp add: list_all_iff)

lemma decimal_nonempty: "decimal n \<noteq> []"
  by (simp add: decimal.simps [of n])

lemma atoi_digits_decimal: "atoi_digits a (decimal n @ r) = atoi_digits (a * 10 ^ length (decimal n) + int n) r"
proof (induction n arbitrary: a r rule: decimal.induct)
  case (1 n)
  show ?case
  proof (cases "n < 10")
    case True
    then show ?thesis using digit_value [of n] by (simp add: decimal.simps [of n] mult.commute)
  next
    case False
    have "int n = 10 * int (n div 10) + int (n mod 10)"
      by (metis mult_div_mod_eq of_nat_add of_nat_mult of_nat_numeral)
    then show ?thesis using False 1 [of a "(48 + of_nat (n mod 10)) # r"] digit_value [of "n mod 10"]
      by (simp add: decimal.simps [of n] algebra_simps)
  qed
qed

lemma atoi_decimal: "atoi (decimal n @ 0 # r) = Some (int n)"
proof -
  obtain c v where d: "decimal n = c # v" using decimal_nonempty by (cases "decimal n") blast
  then have "isdigit c" using decimal_digits [of n] by simp
  then have "\<not> isspace c" "c \<noteq> 45" "c \<noteq> 43" by (auto simp: isdigit_def isspace_def word_le_nat_alt)
  then show ?thesis using atoi_digits_decimal [of 0 n "0 # r"] by (simp add: atoi_def d isdigit_def)
qed

lemma loop_memoryMinimum:
  assumes "n \<le> length p" "\<not> su_TagClosed x" "k < 10 ^ 7"
  shows "startup_loop envs n (x\<lparr>su_pos := attribute ''memoryMinimum'' (decimal k) @ p\<rparr>) m b s
    = startup_loop envs n ((set_bits (mem_bits (int k)) 0x04 x)\<lparr>su_pos := p\<rparr>) m b s"
proof -
  let ?x = "set_bits (mem_bits (int k)) 0x04 x"
  have v: "to_quote (decimal k @ QUOTE # 32 # p) = Some (Next (QUOTE # 32 # p))"
    using decimal_plain [of 0 k] decimal_plain [of QUOTE k] by (intro to_quote_skip) (auto simp: isdigit_def)
  have f: "put_bytes (replicate 8 0) 0 (decimal k) = Some (decimal k @ replicate (8 - length (decimal k)) 0)"
    using length_decimal [OF _ assms(3)] by (simp add: put_bytes_def)
  have "replicate (8 - length (decimal k)) (0 :: byte) = 0 # replicate (7 - length (decimal k)) 0"
    using length_decimal [OF _ assms(3)] by (simp add: Suc_diff_le flip: replicate_Suc)
  then have a: "atoi (decimal k @ replicate (8 - length (decimal k)) 0) = Some (int k)" by (simp add: atoi_decimal)
  have sc: "startup_body (x\<lparr>su_pos := attribute ''memoryMinimum'' (decimal k) @ p\<rparr>) = Some (Next (?x\<lparr>su_pos := QUOTE # 32 # p\<rparr>))"
    using v f a by (simp add: attribute_def startup_body_def on_word_def words memoryMinimum_def at_value_def tag_end_dull)
  have "startup_loop envs n (x\<lparr>su_pos := attribute ''memoryMinimum'' (decimal k) @ p\<rparr>) m b s = startup_loop envs n (?x\<lparr>su_pos := 32 # p\<rparr>) m b s"
    by (rule loop_to [OF sc]) (use assms in \<open>simp_all add: attribute_def\<close>)
  also have "\<dots> = startup_loop envs n (?x\<lparr>su_pos := p\<rparr>) m b s" using assms by (intro loop_dull dull_first) simp_all
  finally show ?thesis .
qed

lemma loop_scheduleTimeout:
  assumes "n \<le> length p" "\<not> su_TagClosed x" "k < 10 ^ 6"
  shows "startup_loop envs n (x\<lparr>su_pos := attribute ''scheduleTimeout'' (decimal k) @ p\<rparr>) m b s
    = startup_loop envs n (x\<lparr>su_timeout := of_nat k, su_pos := p\<rparr>) m b s"
proof -
  let ?x = "x\<lparr>su_timeout := of_nat k\<rparr>"
  obtain c v where d: "decimal k = c # v" "isdigit c" "list_all isdigit v"
    using decimal_digits [of k] decimal_nonempty [of k] by (cases "decimal k") (auto simp: list_all_iff)
  have u: "upto_quote 7 (decimal k @ QUOTE # 32 # p) = Some (decimal k)"
    using decimal_plain [of QUOTE k] length_decimal [of 6 k] assms(3) by (intro upto_quote_eq) (auto simp: isdigit_def)
  have c: "c \<noteq> 60" "c \<noteq> 62" "c \<noteq> 101" using d(2) by (auto simp: isdigit_def)
  have sc: "startup_body (x\<lparr>su_pos := attribute ''scheduleTimeout'' (decimal k) @ p\<rparr>) = Some (Next (?x\<lparr>su_pos := c # v @ QUOTE # 32 # p\<rparr>))"
    using u c atoi_decimal [of k "[]"]
    by (simp add: attribute_def startup_body_def on_word_def words scheduleTimeout_def at_value_def tag_end_dull d(1))
  have "startup_loop envs n (x\<lparr>su_pos := attribute ''scheduleTimeout'' (decimal k) @ p\<rparr>) m b s
      = startup_loop envs n (?x\<lparr>su_pos := (v @ [QUOTE, 32]) @ p\<rparr>) m b s"
    by (subst loop_to [OF sc]) (use assms in \<open>simp_all add: attribute_def\<close>)
  also have "\<dots> = startup_loop envs n (?x\<lparr>su_pos := p\<rparr>) m b s"
    using assms d(3) by (intro loop_dulls) (auto simp: list_all_iff isdigit_def)
  finally show ?thesis by simp
qed

lemma loop_executionMode:
  assumes "n \<le> length p" "\<not> su_TagClosed x"
  shows "startup_loop envs n (x\<lparr>su_pos := attribute ''executionMode'' (chars ''alwaysRunning'') @ p\<rparr>) m b s
    = startup_loop envs n (x\<lparr>su_mode := MODE_ALWAYS_RUNNING, su_pos := p\<rparr>) m b s"
proof -
  let ?x = "x\<lparr>su_mode := MODE_ALWAYS_RUNNING\<rparr>"
  have sc: "startup_body (x\<lparr>su_pos := attribute ''executionMode'' (chars ''alwaysRunning'') @ p\<rparr>)
      = Some (Next (?x\<lparr>su_pos := 97 # chars ''lwaysRunning'' @ QUOTE # 32 # p\<rparr>))"
    by (simp add: attribute_def startup_body_def on_word_def words executionMode_def at_value_def tag_end_dull)
  have "startup_loop envs n (x\<lparr>su_pos := attribute ''executionMode'' (chars ''alwaysRunning'') @ p\<rparr>) m b s
      = startup_loop envs n (?x\<lparr>su_pos := chars ''lwaysRunning'' @ QUOTE # 32 # p\<rparr>) m b s"
    by (rule loop_to [OF sc]) (use assms in \<open>simp_all add: attribute_def\<close>)
  also have "\<dots> = startup_loop envs n (?x\<lparr>su_pos := p\<rparr>) m b s"
    using assms by (simp add: loop_dull dull_code)
  finally show ?thesis by simp
qed

section \<open>Posting\<close>

lemma post_app:
  fixes f x s
  defines "t \<equiv> Task_new\<lparr>task_resources := ucast (su_resource x), task_filename := Some f, task_state := PENDING, task_timeout := su_timeout x,
    taskMode := su_mode x\<rparr>"
  assumes "su_cont x = 15" "su_name x" "su_TagClosed x" "su_filename x = f @ replicate (MAX_FILENAME_SIZE - length f) 0"
    and "0 \<notin> set f" "length f < MAX_FILENAME_SIZE" "SDMPostTask_wf m" "SDMPostTask_priority m = 0" "SDMPostTask_version m = 0" "length b = 256"
    and "publisher_ok s" "\<And>i. reachable_env (envs i)" "first_index (\<lambda>t. task_state t = INACTIVE) (taskList s) = Some k"
  obtains m' b' s' where "startup_post envs x m b s = Some (x\<lparr>su_cont := 0, su_name := False, su_TagClosed := False\<rparr>, m', b', s')"
    "SDMPostTask_wf m'" "SDMPostTask_priority m' = 0" "SDMPostTask_version m' = 0" "length b' = 256" "publisher_ok s'"
    "tables s' = tables (s\<lparr>taskList := (taskList s)[k := t]\<rparr>)"
proof -
  let ?m = "m\<lparr>SDMPostTask_resources := ucast (su_resource x), SDMPostTask_sched_interval := su_timeout x, SDMPostTask_mode := su_mode x,
    SDMPostTask_filename := f @ replicate (128 - length f) 0\<rparr>"
  let ?now = "env_now (env_at envs s 0)" and ?new = "SDMPostTask_new (junk envs s 128)"
  have len: "length (SDMPostTask_filename m) = 128" using assms(8) by (simp add: SDMPostTask_wf_def is_cstr_def)
  have tw: "takeWhile (\<lambda>b. b \<noteq> 0) (f @ replicate (128 - length f) 0) = f"
    using assms(6,7) by (simp add: takeWhile_append)
  have nm: "strncpy (SDMPostTask_filename m) 0 (su_filename x) 0 128 = Some (f @ replicate (128 - length f) 0)"
    using assms(5,7) len tw by (simp add: strncpy_def Let_def put_bytes_def)
  have wf: "SDMPostTask_wf ?m" "SDMPostTask_wf ?new"
    using assms(7,8) length_junk [of envs 128 s] assms(13)
    by (simp_all add: SDMPostTask_wf_def SDMPostTask_new_def new_message_def SDMmessage.defs is_cstr_def set_update_memI)
  have view: "SDMPostTask_view ?m = (ucast (su_resource x), 0, su_timeout x, su_mode x, 0, f)"
    using assms(9,10) tw by (simp add: SDMPostTask_view_def cstr_def)
  then have fits: "11 + length (SDMPostTask_enc (SDMPostTask_view ?m)) \<le> length b" using assms(7,11) by (simp add: SDMPostTask_enc_def)
  obtain m' where m': "SDMPostTask_Marshal ?now ?m b = Some (m', header_bytes m' @ SDMPostTask_enc (SDMPostTask_view ?m)
        @ drop (11 + length (SDMPostTask_enc (SDMPostTask_view ?m))) b, int (11 + length (SDMPostTask_enc (SDMPostTask_view ?m))))"
      "SDMPostTask_wf m'" "SDMPostTask_view m' = SDMPostTask_view ?m" "sec m' = fst ?now" "subsec m' = snd ?now"
      "msg_length m' = of_nat (length (SDMPostTask_enc (SDMPostTask_view ?m)))"
    using posttask.Marshal_ok [OF wf(1) TrueI fits, of ?now] by blast
  define b' where "b' = header_bytes m' @ SDMPostTask_enc (SDMPostTask_view ?m) @ drop (11 + length (SDMPostTask_enc (SDMPostTask_view ?m))) b"
  have "header_bytes m' @ SDMPostTask_enc (SDMPostTask_view ?m) = posttask.datagram ?now ?m"
    unfolding posttask.datagram_def datagram_bytes_def using m' posttask.wf_name [OF m'(2)] by (simp add: header_bytes_def)
  then have b': "b' = posttask.datagram ?now ?m @ drop (11 + length (SDMPostTask_enc (SDMPostTask_view ?m))) b" "length b' = 256"
    using posttask.length_datagram [of ?now ?m] fits assms(11) unfolding b'_def by (metis append_assoc, simp)
  obtain m2 r where m2: "SDMPostTask_Unmarshal ?new b' = Some (m2, int r)" "SDMPostTask_view m2 = SDMPostTask_view ?m"
    unfolding b'(1) by (rule posttask.Unmarshal_datagram [OF wf(1) TrueI wf(2)])
  have g: "task_good t" using assms(6,7) by (simp add: t_def task_good_def)
  have k: "AnyInactive (taskList s)" using first_index_Some [OF assms(14)] by (auto simp: AnyInactive_def list_ex_length)
  have add: "AddTo (taskList s) t = Some ((taskList s)[k := t], True)"
    using assms(14) k Task_assign_good [OF g] by (simp add: AddTo_def t_def Task_new_eq)
  have set: "SetTask PENDING (SDMPostTask_priority m2) 0 (SDMPostTask_resources m2) (Some (cstr (SDMPostTask_filename m2)))
      (SDMPostTask_sched_interval m2) (SDMPostTask_mode m2) (SDMPostTask_version m2) Task_new = Some t"
    using m2(2) unfolding view by (simp add: SetTask_def t_def SDMPostTask_view_def Task_new_eq)
  obtain s' where s': "publish envs NOTI_TASK_QUEUED (f @ replicate (128 - length f) 0) (s\<lparr>taskList := (taskList s)[k := t]\<rparr>) = Some s'" "publisher_ok s'"
    by (rule publish_succeeds [of "s\<lparr>taskList := (taskList s)[k := t]\<rparr>" "f @ replicate (128 - length f) 0" envs])
      (use assms(7,12,13) in \<open>simp_all add: publisher_ok_def\<close>)
  have pq: "PublishTaskQueuedMessage envs (Some f) (s\<lparr>taskList := (taskList s)[k := t]\<rparr>) = Some s'"
    using s'(1) name_buffer_ok [OF assms(6,7), of 0] by (simp add: PublishTaskQueuedMessage_def)
  have "PostTask envs b' s = Some s'"
    using m2(1) set add pq by (simp add: PostTask_def t_def)
  then have "startup_post envs x m b s = Some (x\<lparr>su_cont := 0, su_name := False, su_TagClosed := False\<rparr>, m', b', s')"
    using assms(2-4) nm m'(1) by (simp add: startup_post_def Let_def b'_def)
  moreover have "SDMPostTask_priority m' = 0" "SDMPostTask_version m' = 0" using m'(3) unfolding view by (simp_all add: SDMPostTask_view_def)
  ultimately show thesis using that m'(2) b'(2) s'(2) tables_publish [OF s'(1)] by blast
qed

definition app_ok :: "app \<Rightarrow> bool" where
  "app_ok a = (QUOTE \<notin> set (app_path a) \<and> 0 \<notin> set (app_path a) \<and> length (app_path a) < MAX_FILENAME_SIZE
     \<and> app_arch a \<in> fst ` set archs \<and> app_mem a < 10 ^ 7 \<and> app_os a \<in> fst ` set systems \<and> app_timeout a < 10 ^ 6)"

definition app_resources :: "app \<Rightarrow> 32 word" where
  "app_resources a = the (map_of archs (app_arch a)) OR mem_bits (int (app_mem a)) OR the (map_of systems (app_os a))"

definition app_task :: "app \<Rightarrow> Task" where
  "app_task a = Task_new\<lparr>task_resources := ucast (app_resources a), task_filename := Some (app_path a), task_state := PENDING,
     task_timeout := of_nat (app_timeout a), taskMode := (if app_always a then MODE_ALWAYS_RUNNING else MODE_NORMAL)\<rparr>"

text \<open>The scanner's variables when it has reached the end of an element's tag.\<close>

definition app_scanned :: "app \<Rightarrow> startup \<Rightarrow> startup" where
  "app_scanned a x = x\<lparr>su_cont := 15, su_name := True, su_resource := app_resources a,
     su_filename := app_path a @ replicate (MAX_FILENAME_SIZE - length (app_path a)) 0, su_timeout := of_nat (app_timeout a),
     su_mode := (if app_always a then MODE_ALWAYS_RUNNING else MODE_NORMAL)\<rparr>"

lemma listed_word: "w \<in> fst ` set es \<Longrightarrow> \<exists>v. (w, v) \<in> set es \<and> the (map_of es w) = v"
  by (metis map_of_SomeD map_of_eq_None_iff not_None_eq option.sel)

lemma loop_attributes:
  assumes "app_ok a" "n \<le> length p" "\<not> su_TagClosed x"
  shows "startup_loop envs n (x\<lparr>su_pos := app_text a @ p\<rparr>) m b s
    = startup_loop envs n ((app_scanned a x)\<lparr>su_pos := chars ''/>'' @ [10] @ p\<rparr>) m b s"
proof -
  obtain A where A: "(app_arch a, A) \<in> set archs" "the (map_of archs (app_arch a)) = A"
    using assms(1) listed_word [of "app_arch a" archs] by (auto simp: app_ok_def)
  obtain S where S: "(app_os a, S) \<in> set systems" "the (map_of systems (app_os a)) = S"
    using assms(1) listed_word [of "app_os a" systems] by (auto simp: app_ok_def)
  define r7 where "r7 = chars ''/>'' @ [10] @ p"
  define r6 where "r6 = (if app_always a then attribute ''executionMode'' (chars ''alwaysRunning'') else []) @ r7"
  define r5 where "r5 = attribute ''scheduleTimeout'' (decimal (app_timeout a)) @ r6"
  define r4 where "r4 = attribute ''operatingSystem'' (chars (app_os a)) @ r5"
  define r3 where "r3 = attribute ''memoryMinimum'' (decimal (app_mem a)) @ r4"
  define r2 where "r2 = attribute ''architecture'' (chars (app_arch a)) @ r3"
  define r1 where "r1 = attribute ''pathOnSpacecraft'' (app_path a) @ r2"
  have whole: "app_text a @ p = chars ''<Application '' @ r1"
    unfolding app_text_def r1_def r2_def r3_def r4_def r5_def r6_def r7_def by (simp only: append_assoc)
  have n7: "n \<le> length r7" using assms(2) by (simp add: r7_def)
  then have n6: "n \<le> length r6" by (simp add: r6_def)
  then have n5: "n \<le> length r5" by (simp add: r5_def)
  then have n4: "n \<le> length r4" by (simp add: r4_def)
  then have n3: "n \<le> length r3" by (simp add: r3_def)
  then have n2: "n \<le> length r2" by (simp add: r2_def)
  then have n1: "n \<le> length r1" by (simp add: r1_def)
  have ok: "QUOTE \<notin> set (app_path a)" "0 \<notin> set (app_path a)" "length (app_path a) \<le> MAX_FILENAME_SIZE" "app_mem a < 10 ^ 7" "app_timeout a < 10 ^ 6"
    using assms(1) by (simp_all add: app_ok_def)
  define x1 where "x1 = x\<lparr>su_cont := 1, su_name := False, su_resource := 0, su_timeout := 0, su_mode := 0, su_filename := replicate MAX_FILENAME_SIZE 0\<rparr>"
  define x2 where "x2 = x1\<lparr>su_name := True, su_filename := app_path a @ replicate (MAX_FILENAME_SIZE - length (app_path a)) 0\<rparr>"
  define x3 where "x3 = set_bits A 0x02 x2"
  define x4 where "x4 = set_bits (mem_bits (int (app_mem a))) 0x04 x3"
  define x5 where "x5 = set_bits S 0x08 x4"
  define x6 where "x6 = x5\<lparr>su_timeout := of_nat (app_timeout a)\<rparr>"
  have x1: "\<not> su_TagClosed x1" "su_cont x1 \<noteq> 15" "su_filename x1 = replicate MAX_FILENAME_SIZE 0" using assms(3) by (simp_all add: x1_def)
  then have x2: "\<not> su_TagClosed x2" by (simp add: x2_def)
  then have x3: "\<not> su_TagClosed x3" by (simp add: x3_def)
  then have x4: "\<not> su_TagClosed x4" by (simp add: x4_def)
  then have x5: "\<not> su_TagClosed x5" by (simp add: x5_def)
  then have x6: "\<not> su_TagClosed x6" by (simp add: x6_def)
  note steps = loop_application [OF n1 assms(3), folded x1_def] loop_path [OF n2 x1(1) ok(1-3) x1(2,3), folded x2_def r1_def]
    loop_architecture [OF n3 x2 A(1), folded x3_def r2_def] loop_memoryMinimum [OF n4 x3 ok(4), folded x4_def r3_def]
    loop_operatingSystem [OF n5 x4 S(1), folded x5_def r4_def] loop_scheduleTimeout [OF n6 x5 ok(5), folded x6_def r5_def]
  have scanned: "app_scanned a x = (if app_always a then x6\<lparr>su_mode := MODE_ALWAYS_RUNNING\<rparr> else x6)"
    unfolding x6_def x5_def x4_def x3_def x2_def x1_def using A(2) S(2)
    by (cases x) (simp add: app_scanned_def app_resources_def set_bits_def or.assoc)
  have "startup_loop envs n (x6\<lparr>su_pos := r6\<rparr>) m b s = startup_loop envs n ((app_scanned a x)\<lparr>su_pos := r7\<rparr>) m b s"
    using loop_executionMode [OF n7 x6] unfolding scanned r6_def by simp
  then show ?thesis unfolding whole steps r7_def by simp
qed

lemma loop_close:
  assumes "su_cont x = 15" "su_name x" "n \<le> length p" "startup_post envs (x\<lparr>su_TagClosed := True, su_pos := 62 # 10 # p\<rparr>) m b s = Some (x', m', b', s')"
    "\<not> su_TagClosed x" "\<not> su_TagClosed x'" "su_pos x' = 62 # 10 # p"
  shows "startup_loop envs n (x\<lparr>su_pos := chars ''/>'' @ [10] @ p\<rparr>) m b s = startup_loop envs n (x'\<lparr>su_pos := p\<rparr>) m' b' s'"
proof -
  have "startup_loop envs n (x\<lparr>su_pos := chars ''/>'' @ [10] @ p\<rparr>) m b s = startup_loop envs n (x\<lparr>su_pos := 62 # 10 # p\<rparr>) m b s"
    using loop_dull [OF dull_first, of 47 n "62 # 10 # p" x] assms(3,5) by simp
  moreover have "startup_body (x\<lparr>su_pos := 62 # 10 # p\<rparr>) = Some (Next (x\<lparr>su_TagClosed := True, su_pos := 62 # 10 # p\<rparr>))"
    using assms(1,2) by (cases x) (simp add: startup_body_def on_word_def words tag_end_def get_byte_def)
  then have "startup_loop envs n (x\<lparr>su_pos := 62 # 10 # p\<rparr>) m b s = startup_loop envs n (x'\<lparr>su_pos := 10 # p\<rparr>) m' b' s'"
    using assms(3,4,7) by (simp add: startup_loop.simps [of envs n "x\<lparr>su_pos := 62 # 10 # p\<rparr>"])
  moreover have "startup_loop envs n (x'\<lparr>su_pos := 10 # p\<rparr>) m' b' s' = startup_loop envs n (x'\<lparr>su_pos := p\<rparr>) m' b' s'"
    using assms(3,6) by (intro loop_dull dull_first) simp_all
  ultimately show ?thesis by simp
qed

lemma app_task_good: "app_ok a \<Longrightarrow> task_good (app_task a)"
  by (simp add: app_ok_def app_task_def task_good_def)

text \<open>The tasks are added one behind the other.\<close>

lemma add_next:
  assumes "list_all (\<lambda>t. task_state t \<noteq> INACTIVE) ts"
  shows "first_index (\<lambda>t. task_state t = INACTIVE) (ts @ replicate (Suc k) Task_new) = Some (length ts)"
    "(ts @ replicate (Suc k) Task_new)[length ts := t] = (ts @ [t]) @ replicate k Task_new"
  using assms by (induction ts) simp_all

lemma loop_apps:
  assumes "list_all app_ok as" "\<not> su_TagClosed x" "n \<le> length p" "SDMPostTask_wf m" "SDMPostTask_priority m = 0" "SDMPostTask_version m = 0"
    "length b = 256" "publisher_ok s" "\<And>i. reachable_env (envs i)"
    and "taskList s = ts @ replicate (length as + k) Task_new" "list_all (\<lambda>t. task_state t \<noteq> INACTIVE) ts"
  shows "\<exists>x' m' b' s'. startup_loop envs n (x\<lparr>su_pos := concat (map app_text as) @ p\<rparr>) m b s = startup_loop envs n (x'\<lparr>su_pos := p\<rparr>) m' b' s'
     \<and> tables s' = tables (s\<lparr>taskList := ts @ map app_task as @ replicate k Task_new\<rparr>)"
  using assms
proof (induction as arbitrary: x m b s ts)
  case Nil
  then show ?case by (intro exI [of _ x] exI [of _ m] exI [of _ b] exI [of _ s]) (simp add: tables_def)
next
  case (Cons a as)
  let ?p = "concat (map app_text as) @ p" and ?x = "app_scanned a x"
  have a: "app_ok a" "n \<le> length ?p" using Cons.prems by simp_all
  have f: "first_index (\<lambda>t. task_state t = INACTIVE) (taskList s) = Some (length ts)"
    using add_next(1) [OF Cons.prems(11), of "length as + k"] Cons.prems(10) by simp
  let ?y = "?x\<lparr>su_TagClosed := True, su_pos := 62 # 10 # ?p\<rparr>"
  have y: "su_cont ?y = 15" "su_name ?y" "su_TagClosed ?y" "su_filename ?y = app_path a @ replicate (MAX_FILENAME_SIZE - length (app_path a)) 0"
    "su_resource ?y = app_resources a" "su_timeout ?y = of_nat (app_timeout a)" "su_mode ?y = (if app_always a then MODE_ALWAYS_RUNNING else MODE_NORMAL)"
    by (simp_all add: app_scanned_def)
  have path: "0 \<notin> set (app_path a)" "length (app_path a) < MAX_FILENAME_SIZE" using a(1) by (simp_all add: app_ok_def)
  obtain m1 b1 s1 where s1: "startup_post envs ?y m b s = Some (?y\<lparr>su_cont := 0, su_name := False, su_TagClosed := False\<rparr>, m1, b1, s1)"
    "SDMPostTask_wf m1" "SDMPostTask_priority m1 = 0" "SDMPostTask_version m1 = 0" "length b1 = 256" "publisher_ok s1"
    "tables s1 = tables (s\<lparr>taskList := (taskList s)[length ts := app_task a]\<rparr>)"
    by (rule post_app [where envs = envs, OF y(1-4) path Cons.prems(4-9) f, unfolded y(5-7), folded app_task_def])
  let ?x1 = "?y\<lparr>su_cont := 0, su_name := False, su_TagClosed := False\<rparr>"
  have "startup_loop envs n (x\<lparr>su_pos := concat (map app_text (a # as)) @ p\<rparr>) m b s
      = startup_loop envs n (?x\<lparr>su_pos := chars ''/>'' @ [10] @ ?p\<rparr>) m b s"
    using loop_attributes [OF a Cons.prems(2)] by simp
  also have "\<dots> = startup_loop envs n (?x1\<lparr>su_pos := ?p\<rparr>) m1 b1 s1"
    by (rule loop_close [OF _ _ a(2) s1(1)]) (use Cons.prems(2) in \<open>simp_all add: app_scanned_def\<close>)
  finally have e: "startup_loop envs n (x\<lparr>su_pos := concat (map app_text (a # as)) @ p\<rparr>) m b s = startup_loop envs n (?x1\<lparr>su_pos := ?p\<rparr>) m1 b1 s1" .
  have ts: "taskList s1 = (ts @ [app_task a]) @ replicate (length as + k) Task_new"
    using s1(7) add_next(2) [OF Cons.prems(11), of "length as + k" "app_task a"] Cons.prems(10) by (simp add: tables_def)
  have "list_all (\<lambda>t. task_state t \<noteq> INACTIVE) (ts @ [app_task a])" using Cons.prems(11) by (simp add: app_task_def)
  from Cons.IH [OF _ _ Cons.prems(3) s1(2-6) Cons.prems(9) ts this, of ?x1]
  obtain x' m' b' s' where "startup_loop envs n (?x1\<lparr>su_pos := ?p\<rparr>) m1 b1 s1 = startup_loop envs n (x'\<lparr>su_pos := p\<rparr>) m' b' s'"
      "tables s' = tables (s1\<lparr>taskList := (ts @ [app_task a]) @ map app_task as @ replicate k Task_new\<rparr>)"
    using Cons.prems(1) by auto
  moreover have "tables (s1\<lparr>taskList := u\<rparr>) = tables (s\<lparr>taskList := u\<rparr>)" for u using s1(7) by (simp add: tables_def)
  ultimately show ?case using e by (metis append_Cons append_Nil append_assoc list.map(2))
qed

lemma attribute_no_null: "0 \<notin> set (chars w) \<Longrightarrow> 0 \<notin> set v \<Longrightarrow> 0 \<notin> set (attribute w v)"
  by (simp add: attribute_def)

lemma app_text_no_null: "app_ok a \<Longrightarrow> 0 \<notin> set (app_text a)"
proof -
  assume a: "app_ok a"
  have d: "0 \<notin> set (decimal k)" for k using decimal_plain [of 0 k] by (auto simp: isdigit_def)
  have "0 \<notin> set (chars (app_arch a))" "0 \<notin> set (chars (app_os a))" using a by (auto simp: app_ok_def archs_def systems_def)
  then show ?thesis using a d by (simp add: app_text_def attribute_def app_ok_def)
qed

section \<open>Properties\<close>

text \<open>C11. The configured tasks are started: for a file of up to 50 elements in the layout \<open>app_text\<close>, each with a path of up to 127 characters, a known
  architecture and operating system, a memory size, a start delay and possibly the mode "always running", the scan
  ends and every element is in the list of tasks, pending, in the order of the file, with its path, the resources
  the attributes name, its delay and its mode; nothing else changes in the tables of the Task Manager.
  Other layouts, an XML header or an element without start delay, are not covered.\<close>

theorem startup_posts_tasks:
  assumes "list_all app_ok as" "length as \<le> NUMTASKS" "taskList s = TaskList_new" "publisher_ok s" "\<And>i. reachable_env (envs i)"
    and "length (concat (map app_text as)) < 65536" "length uninit_file = 65536" "length uninit_buf = 256"
  shows "\<exists>s'. InitialStartUp envs (Some (concat (map app_text as))) uninit_file uninit_buf s = Some s'
     \<and> taskList s' = map app_task as @ replicate (NUMTASKS - length as) Task_new
     \<and> registered s' = registered s \<and> NextPID s' = NextPID s \<and> pending_pms s' = pending_pms s"
proof -
  let ?t = "concat (map app_text as)"
  define p where "p = 0 # drop (Suc (length ?t)) uninit_file"
  have read: "put_bytes uninit_file 0 (take 65535 ?t) = Some (?t @ drop (length ?t) uninit_file)"
    using assms(6,7) by (simp add: put_bytes_def)
  have fl: "put_byte (?t @ drop (length ?t) uninit_file) (length (take 65535 ?t)) 0 = Some (?t @ p)"
    using assms(6,7) by (simp add: put_byte_def put_bytes_def p_def)
  have "0 \<notin> set ?t" using assms(1) app_text_no_null by (auto simp: list_all_iff)
  then have len: "strlen (?t @ p) 0 = Some (length ?t)" by (simp add: strlen_def p_def takeWhile_append)
  let ?x = "\<lparr>su_pos = [], su_cont = 0, su_name = False, su_resource = 0, su_filename = junk envs s MAX_FILENAME_SIZE, su_timeout = 0,
             su_mode = 0, su_TagClosed = False\<rparr>" and ?m = "SDMPostTask_new (junk envs s MAX_FILENAME_SIZE)"
  have m: "SDMPostTask_wf ?m" "SDMPostTask_priority ?m = 0" "SDMPostTask_version ?m = 0"
    using length_junk [of envs 128 s] assms(5)
    by (simp_all add: SDMPostTask_wf_def SDMPostTask_new_def new_message_def SDMmessage.defs is_cstr_def set_update_memI)
  have ts: "taskList s = [] @ replicate (length as + (50 - length as)) Task_new"
    using assms(2,3) by (simp add: TaskList_new_def)
  obtain x' m' b' s' where l: "startup_loop envs (length p) (?x\<lparr>su_pos := ?t @ p\<rparr>) ?m uninit_buf s = startup_loop envs (length p) (x'\<lparr>su_pos := p\<rparr>) m' b' s'"
      "tables s' = tables (s\<lparr>taskList := [] @ map app_task as @ replicate (50 - length as) Task_new\<rparr>)"
    using loop_apps [where envs = envs and x = ?x and p = p, OF assms(1) _ order.refl m assms(8,4,5) ts] by auto
  have "startup_loop envs (length p) (x'\<lparr>su_pos := p\<rparr>) m' b' s' = Some s'" by (simp add: startup_loop.simps)
  then have "InitialStartUp envs (Some ?t) uninit_file uninit_buf s = Some s'"
    using read fl len l(1) by (simp add: InitialStartUp_def)
  then show ?thesis using l(2) by (simp add: tables_def)
qed

definition sample_app :: app where
  "sample_app = \<lparr>app_path = [0x61, 0x62], app_arch = ''Intel'', app_mem = 64, app_os = ''Linux26'', app_timeout = 5, app_always = True\<rparr>"

lemma sample_app_ok: "app_ok sample_app"
  by (simp add: app_ok_def sample_app_def archs_def systems_def)

lemma sample_text_short: "length (concat (map app_text [sample_app, sample_app])) < 65536"
proof -
  have "length (decimal 64) \<le> 2" "length (decimal 5) \<le> 1" using length_decimal [of 2 64] length_decimal [of 1 5] by simp_all
  then show ?thesis by (simp add: app_text_def sample_app_def attribute_def)
qed

theorem startup_posts_tasks_witness:
  "\<exists>s'. InitialStartUp (\<lambda>_. working_env) (Some (concat (map app_text [sample_app, sample_app]))) (replicate 65536 0) (replicate 256 0) sample_tm = Some s'
     \<and> taskList s' = [app_task sample_app, app_task sample_app] @ replicate 48 Task_new"
  using startup_posts_tasks [of "[sample_app, sample_app]" sample_tm "\<lambda>_. working_env" "replicate 65536 0" "replicate 256 0"]
    sample_app_ok sample_text_short working_env_ok(1) by (auto simp: sample_tm_ok)

end
