(* ===== verification/PM_Processes.thy ===== *)
theory PM_Processes
  imports Message_Base
begin

text \<open>
  The processes of a Process Manager: \<^verbatim>\<open>pm/PMProcess.cpp\<close>, \<^verbatim>\<open>pm/PMProcessList.cpp\<close> and \<^verbatim>\<open>pm/PendingTask.cpp\<close>. A
  process is unresponsive if it has sent heartbeats and then none for a minute; the properties say when
  exactly that is found out, and where it goes wrong after a restart.
\<close>

section \<open>PMProcess\<close>

abbreviation (input) TASK_HEARTBEAT_TIMEOUT :: "32 word" where "TASK_HEARTBEAT_TIMEOUT \<equiv> 10"
abbreviation (input) TASK_TIMEOUT_ATTEMPTS :: "32 word" where "TASK_TIMEOUT_ATTEMPTS \<equiv> 6"

record PMProcess =
  m_strFilename :: buffer
  m_ulLastHeartbeat :: "32 word"
  m_ulHeartbeatMissCount :: "32 word"
  m_uiSdmPid :: "32 word"
  m_OsPid :: int
  m_uiTotalFailCount :: "32 word"
  m_bFailedState :: bool

definition PMProcess_new :: PMProcess where
  "PMProcess_new = \<lparr>m_strFilename = replicate 128 0, m_ulLastHeartbeat = 0, m_ulHeartbeatMissCount = 0, m_uiSdmPid = 0,
     m_OsPid = 0, m_uiTotalFailCount = 0, m_bFailedState = False\<rparr>"

definition PMProcess_create :: "buffer \<Rightarrow> 32 word \<Rightarrow> int \<Rightarrow> PMProcess option" where
  "PMProcess_create Name SdmPid OsPid = do {
     let p = PMProcess_new\<lparr>m_uiSdmPid := SdmPid, m_OsPid := OsPid\<rparr>;
     f \<leftarrow> strncpy (m_strFilename p) 0 Name 0 (length (m_strFilename p));
     Some (p\<lparr>m_strFilename := f\<rparr>) }"

text \<open>\<open>now\<close> is the time in seconds. \<^verbatim>\<open>Kill\<close> sends \<^verbatim>\<open>SIGKILL\<close> to \<open>m_OsPid\<close>; the Process Manager records the target.\<close>

definition PMProcess_HeartbeatReceived :: "32 word \<Rightarrow> PMProcess \<Rightarrow> PMProcess" where
  "PMProcess_HeartbeatReceived now p = p\<lparr>m_ulLastHeartbeat := now, m_ulHeartbeatMissCount := 0\<rparr>"

definition IsUnresponsive :: "32 word \<Rightarrow> PMProcess \<Rightarrow> PMProcess \<times> bool" where
  "IsUnresponsive uiCurSeconds p =
     (if m_ulLastHeartbeat p = 0 \<and> \<not> m_bFailedState p then (p, False)
      else if uiCurSeconds < m_ulLastHeartbeat p then (p, False)
      else if uiCurSeconds - m_ulLastHeartbeat p < TASK_HEARTBEAT_TIMEOUT then (p, False)
      else
        let p = p\<lparr>m_ulLastHeartbeat := m_ulLastHeartbeat p + TASK_HEARTBEAT_TIMEOUT\<rparr>;
            p = p\<lparr>m_ulHeartbeatMissCount := m_ulHeartbeatMissCount p + 1\<rparr>
        in if m_ulHeartbeatMissCount p \<ge> TASK_TIMEOUT_ATTEMPTS then (p, True) else (p, False))"

definition IsNormalFinish :: "PMProcess \<Rightarrow> bool" where
  "IsNormalFinish p = (\<not> m_bFailedState p)"

definition Failure :: "PMProcess \<Rightarrow> PMProcess" where
  "Failure p = p\<lparr>m_bFailedState := True, m_uiTotalFailCount := m_uiTotalFailCount p + 1,
     m_ulLastHeartbeat := 0, m_ulHeartbeatMissCount := 0\<rparr>"

definition PMProcess_Reset :: "PMProcess \<Rightarrow> PMProcess" where
  "PMProcess_Reset p = p\<lparr>m_OsPid := 0, m_bFailedState := False\<rparr>"

section \<open>PMProcessList\<close>

type_synonym PMProcessList = "PMProcess list"

text \<open>The index of an element, or -1.\<close>

definition index_of :: "('a \<Rightarrow> bool) \<Rightarrow> 'a list \<Rightarrow> int" where
  "index_of p xs = (case first_index p xs of None \<Rightarrow> - 1 | Some i \<Rightarrow> int i)"

definition GetIndexOfOsPid :: "int \<Rightarrow> PMProcessList \<Rightarrow> int" where
  "GetIndexOfOsPid OsPid l = index_of (\<lambda>p. m_OsPid p = OsPid) l"

definition GetIndexOfSdmPid :: "32 word \<Rightarrow> PMProcessList \<Rightarrow> int" where
  "GetIndexOfSdmPid SdmPid l = index_of (\<lambda>p. m_uiSdmPid p = SdmPid) l"

definition PMProcessList_Add :: "buffer \<Rightarrow> 32 word \<Rightarrow> int \<Rightarrow> PMProcessList \<Rightarrow> (PMProcessList \<times> int) option" where
  "PMProcessList_Add TaskName SdmPid OsPid l =
     (let iIndex = GetIndexOfSdmPid SdmPid l in
      if iIndex = - 1 then do {
        NewProc \<leftarrow> PMProcess_create TaskName SdmPid OsPid;
        let l = l @ [NewProc];
        Some (l, int (length l) - 1) }
      else if m_uiSdmPid (l ! nat iIndex) = SdmPid
      then Some (l[nat iIndex := (l ! nat iIndex)\<lparr>m_OsPid := OsPid\<rparr>], iIndex)
      else Some (l, iIndex))"

text \<open>The test lets an index equal to the size through; \<^verbatim>\<open>erase\<close> is undefined there. The index is unsigned, so
  that -1 is larger than any size.\<close>

definition PMProcessList_Remove :: "int \<Rightarrow> PMProcessList \<Rightarrow> (PMProcessList \<times> bool) option" where
  "PMProcessList_Remove Index l =
     (if Index < 0 \<or> Index > int (length l) then Some (l, False)
      else if Index = int (length l) then None
      else Some (take (nat Index) l @ drop (nat Index + 1) l, True))"

definition UpdateOsPid :: "32 word \<Rightarrow> int \<Rightarrow> PMProcessList \<Rightarrow> PMProcessList" where
  "UpdateOsPid SdmPid OsPid l =
     (let iIndex = GetIndexOfSdmPid SdmPid l in
      if iIndex = - 1 then l else l[nat iIndex := (l ! nat iIndex)\<lparr>m_OsPid := OsPid\<rparr>])"

definition PMProcessList_HeartbeatReceived :: "32 word \<Rightarrow> 32 word \<Rightarrow> PMProcessList \<Rightarrow> PMProcessList" where
  "PMProcessList_HeartbeatReceived now SdmPid l =
     (let Index = GetIndexOfSdmPid SdmPid l in
      if Index = - 1 then l else l[nat Index := PMProcess_HeartbeatReceived now (l ! nat Index)])"

section \<open>PendingTask\<close>

record PendingTask =
  m_strName :: buffer
  m_ulSdmPid :: "32 word"

definition PendingTask_create :: "buffer \<Rightarrow> 32 word \<Rightarrow> PendingTask option" where
  "PendingTask_create strTaskName ulSdmPid = do {
     n \<leftarrow> strncpy (replicate 128 0) 0 strTaskName 0 128;
     n \<leftarrow> put_byte n 127 0;
     Some \<lparr>m_strName = n, m_ulSdmPid = ulSdmPid\<rparr> }"

text \<open>The copy constructor; the assignment does the same.\<close>

definition PendingTask_copy :: "PendingTask \<Rightarrow> PendingTask option" where
  "PendingTask_copy right = PendingTask_create (m_strName right) (m_ulSdmPid right)"

section \<open>Lemmas on the list\<close>

lemma index_of_iff: "index_of p xs = int i \<longleftrightarrow> first_index p xs = Some i"
  by (simp add: index_of_def split: option.split)

lemma index_of_none: "index_of p xs = - 1 \<longleftrightarrow> (\<forall>x\<in>set xs. \<not> p x)"
  by (simp add: index_of_def first_index_None [symmetric] split: option.split)

lemma index_of_cases [case_names none some]:
  obtains "index_of p xs = - 1" "\<forall>x\<in>set xs. \<not> p x"
  | i where "index_of p xs = int i" "i < length xs" "p (xs ! i)" "\<forall>j<i. \<not> p (xs ! j)"
  using first_index_Some [of p xs] first_index_None [of p xs]
  by (cases "first_index p xs") (auto simp: index_of_def)

lemma index_of_unique:
  assumes "i < length xs" "p (xs ! i)" "\<And>j. j < length xs \<Longrightarrow> p (xs ! j) \<Longrightarrow> j = i"
  shows "index_of p xs = int i"
  unfolding index_of_iff
proof (rule first_index_eq)
  fix j assume "j < i"
  then show "\<not> p (xs ! j)" using assms(1) assms(3) [of j] by auto
qed (use assms(1,2) in simp_all)

lemma Remove_nth: "i < length l \<Longrightarrow> PMProcessList_Remove (int i) l = Some (take i l @ drop (Suc i) l, True)"
  by (simp add: PMProcessList_Remove_def)

section \<open>Properties\<close>

text \<open>A process that is polled at the times \<open>ts\<close>, and whether it was found unresponsive each time.\<close>

primrec polls :: "32 word list \<Rightarrow> PMProcess \<Rightarrow> PMProcess \<times> bool list" where
  "polls [] p = (p, [])"
| "polls (t # ts) p = (let (p, b) = IsUnresponsive t p; (p, bs) = polls ts p in (p, b # bs))"

text \<open>Consecutive polls are at most ten seconds apart, from \<open>a\<close> on.\<close>

primrec steady :: "nat \<Rightarrow> nat list \<Rightarrow> bool" where
  "steady a [] = True"
| "steady a (t # ts) = (a \<le> t \<and> t \<le> a + 10 \<and> steady t ts)"

definition missed :: "nat \<Rightarrow> nat \<Rightarrow> PMProcess \<Rightarrow> bool" where
  "missed h c p \<longleftrightarrow> m_ulLastHeartbeat p = of_nat (h + 10 * c) \<and> m_ulHeartbeatMissCount p = of_nat c"

lemma unat_small: "n < 2 ^ 32 \<Longrightarrow> unat (of_nat n :: 32 word) = n"
  by (simp add: unat_of_nat)

lemma poll_missed:
  assumes "missed h c p" "0 < h" "h + 10 * c \<le> t" "t < h + 10 * c + 20" "c < 6" "h + 80 < 2 ^ 32"
  shows "missed h ((t - h) div 10) (fst (IsUnresponsive (of_nat t) p))"
    "snd (IsUnresponsive (of_nat t) p) \<longleftrightarrow> 6 \<le> (t - h) div 10"
proof -
  let ?l = "of_nat (h + 10 * c) :: 32 word"
  have u: "unat ?l = h + 10 * c" "unat (of_nat t :: 32 word) = t" "unat (of_nat c :: 32 word) = c" "unat (of_nat (Suc c) :: 32 word) = Suc c"
    using assms by (intro unat_small; simp)+
  have nz: "?l \<noteq> 0" using u(1) assms(2) by (metis add_is_0 less_not_refl unat_0)
  have ge: "\<not> of_nat t < ?l" using assms(3) unfolding word_less_nat_alt u by simp
  have d: "of_nat t - ?l = (of_nat (t - (h + 10 * c)) :: 32 word)" using assms(3) by (simp add: of_nat_diff)
  have "unat (of_nat (t - (h + 10 * c)) :: 32 word) = t - (h + 10 * c)" using assms by (intro unat_small) simp
  then have lt: "of_nat t - ?l < 10 \<longleftrightarrow> t - (h + 10 * c) < 10" unfolding d word_less_nat_alt by simp
  have six: "6 \<le> (of_nat (Suc c) :: 32 word) \<longleftrightarrow> 6 \<le> Suc c" unfolding word_le_nat_alt u(4) by simp
  have m: "m_ulLastHeartbeat p = ?l" "m_ulHeartbeatMissCount p = of_nat c" using assms(1) by (simp_all add: missed_def)
  show "missed h ((t - h) div 10) (fst (IsUnresponsive (of_nat t) p))"
    "snd (IsUnresponsive (of_nat t) p) \<longleftrightarrow> 6 \<le> (t - h) div 10"
  proof (atomize (full), cases "t - (h + 10 * c) < 10")
    case True
    then have "(t - h) div 10 = c" using assms(3) by linarith
    with True show "missed h ((t - h) div 10) (fst (IsUnresponsive (of_nat t) p)) \<and> (snd (IsUnresponsive (of_nat t) p) \<longleftrightarrow> 6 \<le> (t - h) div 10)"
      using assms(1,5) lt ge nz m by (simp add: IsUnresponsive_def)
  next
    case False
    then have k: "(t - h) div 10 = Suc c" using assms(3,4) by linarith
    have "snd (IsUnresponsive (of_nat t) p) \<longleftrightarrow> 6 \<le> (of_nat (Suc c) :: 32 word)"
      using False lt ge nz m by (simp add: IsUnresponsive_def Let_def add.commute)
    moreover have "missed h (Suc c) (fst (IsUnresponsive (of_nat t) p))"
      using False lt ge nz m by (simp add: IsUnresponsive_def Let_def missed_def add.commute add.left_commute)
    ultimately show "missed h ((t - h) div 10) (fst (IsUnresponsive (of_nat t) p)) \<and> (snd (IsUnresponsive (of_nat t) p) \<longleftrightarrow> 6 \<le> (t - h) div 10)"
      unfolding k six by blast
  qed
qed

lemma polls_append: "polls (ts @ us) p = (let (p, bs) = polls ts p; (p, cs) = polls us p in (p, bs @ cs))"
  by (induction ts arbitrary: p) (simp_all add: split_def Let_def)

lemma polls_missed:
  assumes "missed h ((a - h) div 10) p" "0 < h" "h \<le> a" "a < h + 60" "steady a ts" "\<forall>u\<in>set ts. u < h + 60" "h + 80 < 2 ^ 32"
  shows "snd (polls (map of_nat ts) p) = replicate (length ts) False \<and>
    missed h ((last (a # ts) - h) div 10) (fst (polls (map of_nat ts) p))"
  using assms
proof (induction ts arbitrary: a p)
  case (Cons t ts)
  let ?p = "fst (IsUnresponsive (of_nat t) p)"
  have *: "h + 10 * ((a - h) div 10) \<le> t" "t < h + 10 * ((a - h) div 10) + 20" "(a - h) div 10 < 6" "h \<le> t" "t < h + 60"
    using Cons.prems(3-6) by auto
  note poll = poll_missed [OF Cons.prems(1,2) *(1-3) Cons.prems(7)]
  have "snd (IsUnresponsive (of_nat t) p) = False" using poll(2) *(4,5) by auto
  moreover have "snd (polls (map of_nat ts) ?p) = replicate (length ts) False \<and>
    missed h ((last (t # ts) - h) div 10) (fst (polls (map of_nat ts) ?p))"
    using Cons.IH [OF poll(1) Cons.prems(2) *(4,5)] Cons.prems(5-7) by simp
  ultimately show ?case by (simp add: split_def Let_def)
qed simp

text \<open>
  C35. A process that has sent a heartbeat at time \<open>h\<close> and none since is found unresponsive at the first
  poll that is a minute or more after it, and at none before, as long as the polls are at most ten
  seconds apart.
\<close>

theorem unresponsive_after_a_minute:
  assumes "m_ulLastHeartbeat p = of_nat h" "m_ulHeartbeatMissCount p = 0" "0 < h" "h + 80 < 2 ^ 32"
    and "steady h (ts @ [t])" "\<forall>u\<in>set ts. u < h + 60"
  shows "snd (polls (map of_nat (ts @ [t])) p) = replicate (length ts) False @ [h + 60 \<le> t]"
proof -
  have m: "missed h ((h - h) div 10) p" using assms(1,2) by (simp add: missed_def)
  have app: "steady a (us @ [t]) \<longleftrightarrow> steady a us \<and> last (a # us) \<le> t \<and> t \<le> last (a # us) + 10" for a us
    by (induction us arbitrary: a) auto
  have s: "steady h ts" "last (h # ts) \<le> t" "t \<le> last (h # ts) + 10" using assms(5) app by auto
  have ge: "steady a us \<Longrightarrow> a \<le> last (a # us)" for a us by (induction us arbitrary: a) (auto, fastforce)
  have l: "h \<le> last (h # ts)" "last (h # ts) < h + 60"
    using ge [OF s(1)] assms(6) last_in_set [of "h # ts"] by auto
  have r: "snd (polls (map of_nat ts) p) = replicate (length ts) False"
    "missed h ((last (h # ts) - h) div 10) (fst (polls (map of_nat ts) p))"
    using polls_missed [OF m assms(3) le_refl _ s(1) assms(6,4)] by auto
  have "snd (IsUnresponsive (of_nat t) (fst (polls (map of_nat ts) p))) \<longleftrightarrow> 6 \<le> (t - h) div 10"
    by (rule poll_missed(2) [OF r(2) assms(3) _ _ _ assms(4)]) (use s l in auto)
  moreover have "6 \<le> (t - h) div 10 \<longleftrightarrow> h + 60 \<le> t" using s(2) l(1) by auto
  ultimately show ?thesis using r(1) by (simp add: polls_append split_def Let_def)
qed

theorem unresponsive_after_a_minute_witness:
  "snd (polls (map of_nat ([110, 120, 125, 131, 140, 150, 158] @ [160])) (PMProcess_HeartbeatReceived (of_nat 100) PMProcess_new))
    = [False, False, False, False, False, False, False, True]"
  using unresponsive_after_a_minute [of "PMProcess_HeartbeatReceived (of_nat 100) PMProcess_new" 100 "[110, 120, 125, 131, 140, 150, 158]" 160]
  by (simp add: PMProcess_HeartbeatReceived_def)

text \<open>A process whose last heartbeat is far in the past.\<close>

lemma poll_behind:
  assumes "missed 0 c p" "0 < c \<or> m_bFailedState p" "c \<le> 5" "60 \<le> t"
  shows "missed 0 (Suc c) (fst (IsUnresponsive t p))" "snd (IsUnresponsive t p) \<longleftrightarrow> c = 5"
    "m_bFailedState (fst (IsUnresponsive t p)) = m_bFailedState p"
proof -
  have u: "unat (of_nat (10 * c) :: 32 word) = 10 * c" "unat (of_nat (Suc c) :: 32 word) = Suc c"
    using assms(3) by (intro unat_small; simp)+
  have t: "60 \<le> unat t" using assms(4) by (simp add: word_le_nat_alt)
  have le: "of_nat (10 * c) \<le> t" unfolding word_le_nat_alt u using t assms(3) by simp
  then have "unat (t - of_nat (10 * c)) = unat t - 10 * c" by (simp only: unat_sub u)
  then have "\<not> t - of_nat (10 * c) < 10" using t assms(3) by (simp add: word_less_nat_alt)
  moreover have "\<not> t < of_nat (10 * c)" using le by simp
  moreover have "(of_nat (10 * c) :: 32 word) = 0 \<longleftrightarrow> c = 0" using u(1) by (auto simp flip: unat_eq_zero)
  moreover have "6 \<le> (of_nat (Suc c) :: 32 word) \<longleftrightarrow> c = 5" unfolding word_le_nat_alt u(2) using assms(3) by auto
  ultimately show "missed 0 (Suc c) (fst (IsUnresponsive t p))" "snd (IsUnresponsive t p) \<longleftrightarrow> c = 5"
    "m_bFailedState (fst (IsUnresponsive t p)) = m_bFailedState p"
    using assms(1,2) by (simp_all add: IsUnresponsive_def Let_def missed_def add.commute)
qed

lemma polls_behind:
  "missed 0 c p \<Longrightarrow> 0 < c \<Longrightarrow> c + length ts = 6 \<Longrightarrow> ts \<noteq> [] \<Longrightarrow> \<forall>u\<in>set ts. 60 \<le> u \<Longrightarrow>
   snd (polls ts p) = replicate (5 - c) False @ [True]"
proof (induction ts arbitrary: c p)
  case (Cons t ts)
  have c: "0 < c \<or> m_bFailedState p" "c \<le> 5" "60 \<le> t" using Cons.prems by auto
  note b = poll_behind [OF Cons.prems(1) c]
  show ?case
  proof (cases "ts = []")
    case True
    then show ?thesis using Cons.prems b(2) by (simp add: split_def)
  next
    case False
    then have "snd (polls ts (fst (IsUnresponsive t p))) = replicate (5 - Suc c) False @ [True]"
      using Cons.IH [OF b(1)] Cons.prems by simp
    moreover have "c < 5" using Cons.prems(3) False by (cases ts) simp_all
    moreover from this have "False # replicate (5 - Suc c) False = replicate (5 - c) False"
      by (simp flip: replicate_Suc add: Suc_diff_Suc)
    ultimately show ?thesis using b(2) by (simp add: split_def Let_def)
  qed
qed simp

lemma polls_silent: "m_ulLastHeartbeat p = 0 \<Longrightarrow> \<not> m_bFailedState p \<Longrightarrow> polls ts p = (p, replicate (length ts) False)"
  by (induction ts) (simp_all add: IsUnresponsive_def)

text \<open>
  A restarted process that sends no heartbeats is left alone, if the process that failed was
  reaped before the next poll. If it was polled once in between, the count of missed heartbeats
  starts then: the restarted process is found unresponsive at the fifth poll, however young it is.
\<close>

theorem restarted_process_killed:
  assumes "60 \<le> t" "\<forall>u\<in>set ts. 60 \<le> u" "length ts = 5"
  shows "snd (polls ts (PMProcess_Reset (Failure p))) = [False, False, False, False, False]
    \<and> snd (polls ts (PMProcess_Reset (fst (IsUnresponsive t (Failure p))))) = [False, False, False, False, True]"
proof
  obtain a b c d e where ts: "ts = [a, b, c, d, e]" using assms(3) by (auto simp: numeral_eq_Suc length_Suc_conv)
  show "snd (polls ts (PMProcess_Reset (Failure p))) = [False, False, False, False, False]"
    using polls_silent [of "PMProcess_Reset (Failure p)" ts] by (simp add: PMProcess_Reset_def Failure_def ts)
  let ?q = "PMProcess_Reset (fst (IsUnresponsive t (Failure p)))"
  have "missed 0 1 ?q"
    using poll_behind(1) [of 0 "Failure p" t] assms(1) by (simp add: missed_def Failure_def PMProcess_Reset_def)
  then have "snd (polls ts ?q) = replicate (5 - 1) False @ [True]"
    by (rule polls_behind) (use assms(2) ts in simp_all)
  then show "snd (polls ts ?q) = [False, False, False, False, True]" by (simp add: numeral_eq_Suc)
qed

theorem restarted_process_killed_witness:
  "snd (polls [1002, 1004, 1006, 1008, 1010] (PMProcess_Reset (fst (IsUnresponsive 1000 (Failure PMProcess_new))))) = [False, False, False, False, True]"
  using restarted_process_killed [of 1000 "[1002, 1004, 1006, 1008, 1010]" PMProcess_new] by simp

end
