(* ===== verification/Process_Manager.thy ===== *)
theory Process_Manager
  imports PM_Processes Subscription_Manager Task_List
begin

text \<open>
  The Process Manager, \<^verbatim>\<open>pm/pm_main.cpp\<close> and \<^verbatim>\<open>pm/pm.cpp\<close>: its state, the start and the end of tasks, the monitor of
  their heartbeats, resets and the dispatch of messages. The model is the build for Linux. The transfer of
  code is in the theory on code transfers.

  The globals of the program are the record \<open>pm\<close>; \<open>pm_files\<close> are the files of its working directory and
  \<open>pm_killed\<close> the operating system's ids to which \<^verbatim>\<open>SIGKILL\<close> was sent. \<open>envs n\<close> is the environment of the \<open>n\<close>-th send of
  the program; results of sends are ignored. Uninitialised arrays have the contents of the stack of the
  environment. Logging and debug output are left out.
\<close>

section \<open>State\<close>

record code_recv =
  fd_code :: int
  recv_filename :: buffer

record pm =
  taskQueue :: "PendingTask list"
  codeReceivers :: "code_recv list"
  runningTaskList :: PMProcessList
  pm_subscriptions :: SubscriptionManager
  tm_mode :: byte
  tm_mode_msg_id :: SDMMessage_ID
  tm_mode_source :: SDMComponent_ID
  Address_PM :: "32 word"
  bgTMDetected :: bool
  g_TaskResources :: "16 word"
  ackReceived :: bool
  registerReceived :: bool
  idReceived :: bool
  pm_perf_timer :: bool
  CurPort :: int
  pm_total_sent :: "32 word"
  pm_prevsec_sent :: "32 word"
  pm_total_recd :: "32 word"
  pm_prevsec_recd :: "32 word"
  pm_TaskManager :: SDMComponent_ID
  pm_DataManager :: SDMComponent_ID
  pm_files :: "byte list \<Rightarrow> byte list option"
  pm_killed :: "int list"
  pm_sends :: nat
  pm_wire :: "(SDMComponent_ID \<times> byte list) list"

definition pm_env_at :: "(nat \<Rightarrow> env) \<Rightarrow> pm \<Rightarrow> nat \<Rightarrow> env" where
  "pm_env_at envs s i = (envs (pm_sends s + i))\<lparr>TaskManager := pm_TaskManager s, DataManager := pm_DataManager s\<rparr>"

definition pm_junk :: "(nat \<Rightarrow> env) \<Rightarrow> pm \<Rightarrow> nat \<Rightarrow> buffer" where
  "pm_junk envs s n = take n (env_stk (pm_env_at envs s 0))"

definition pm_log_sent :: "nat \<Rightarrow> (SDMComponent_ID \<times> byte list) list \<Rightarrow> pm \<Rightarrow> pm" where
  "pm_log_sent n out s = s\<lparr>pm_sends := pm_sends s + n, pm_wire := pm_wire s @ out\<rparr>"

text \<open>The counters of \<^verbatim>\<open>MessageSent\<close>.\<close>

definition PM_MessageSent :: "pm \<Rightarrow> pm" where
  "PM_MessageSent s = s\<lparr>pm_total_sent := pm_total_sent s + 1, pm_prevsec_sent := pm_prevsec_sent s + 1\<rparr>"

text \<open>The send of a message object, which is returned: to a component, to the Data Manager, to the Task Manager.\<close>

definition pm_send_to :: "(nat \<Rightarrow> env) \<Rightarrow> 'm sender_to \<Rightarrow> 'm \<Rightarrow> SDMComponent_ID \<Rightarrow> pm \<Rightarrow> (pm \<times> 'm) option" where
  "pm_send_to envs Send m destination s = do {
     (m, sent, _) \<leftarrow> Send (pm_env_at envs s 0) m destination;
     Some (pm_log_sent 1 (map (Pair destination) sent) s, m) }"

definition pm_send_DM :: "(nat \<Rightarrow> env) \<Rightarrow> 'm sender \<Rightarrow> 'm \<Rightarrow> pm \<Rightarrow> (pm \<times> 'm) option" where
  "pm_send_DM envs Send m s = pm_send_to envs (\<lambda>e m _. Send e m) m (pm_DataManager s) s"

definition pm_send_TM :: "(nat \<Rightarrow> env) \<Rightarrow> 'm sender \<Rightarrow> 'm \<Rightarrow> pm \<Rightarrow> (pm \<times> 'm) option" where
  "pm_send_TM envs Send m s = pm_send_to envs (\<lambda>e m _. Send e m) m (pm_TaskManager s) s"

section \<open>Tasks\<close>

definition kill_process :: "PMProcess \<Rightarrow> pm \<Rightarrow> pm" where
  "kill_process p s = s\<lparr>pm_killed := pm_killed s @ [m_OsPid p]\<rparr>"

text \<open>\<^verbatim>\<open>stat\<close> fails only for a file that does not exist.\<close>

definition IsFileAvailable :: "byte list \<Rightarrow> pm \<Rightarrow> bool" where
  "IsFileAvailable Filename s = (case pm_files s Filename of None \<Rightarrow> False | Some c \<Rightarrow> length c > 0)"

text \<open>\<^verbatim>\<open>sprintf(strPid, "%ld", lSdmPid)\<close>\<close>

definition ltoa :: "32 word \<Rightarrow> byte list" where
  "ltoa n = (if sint n < 0 then 45 # decimal (nat (- sint n)) else decimal (nat (sint n)))"

text \<open>
  \<^verbatim>\<open>LaunchTask\<close> before and after the fork: the list of tasks is unlocked in between. \<open>fork\<close> is what \<^verbatim>\<open>fork\<close> returned
  to the parent.
\<close>

definition LaunchTask_add :: "(nat \<Rightarrow> env) \<Rightarrow> buffer \<Rightarrow> 32 word \<Rightarrow> pm \<Rightarrow> (pm \<times> int option) option" where
  "LaunchTask_add envs strTaskFilename lSdmPid s = do {
     _ \<leftarrow> put_bytes (pm_junk envs s 8) 0 (ltoa lSdmPid @ [0]);
     if \<not> IsFileAvailable (cstr strTaskFilename) s then Some (s, None)
     else do {
       (l, iTaskIndex) \<leftarrow> PMProcessList_Add strTaskFilename lSdmPid 0 (runningTaskList s);
       Some (s\<lparr>runningTaskList := l\<rparr>, Some iTaskIndex) } }"

definition LaunchTask_started :: "int \<Rightarrow> 32 word \<Rightarrow> int \<Rightarrow> pm \<Rightarrow> (pm \<times> int) option" where
  "LaunchTask_started fork lSdmPid iTaskIndex s =
     (if fork < 0 then do {
        (l, _) \<leftarrow> PMProcessList_Remove iTaskIndex (runningTaskList s);
        Some (s\<lparr>runningTaskList := l\<rparr>, - 1) }
      else Some (s\<lparr>runningTaskList := UpdateOsPid lSdmPid fork (runningTaskList s)\<rparr>, fork))"

definition LaunchTask :: "(nat \<Rightarrow> env) \<Rightarrow> int \<Rightarrow> buffer \<Rightarrow> 32 word \<Rightarrow> pm \<Rightarrow> (pm \<times> int) option" where
  "LaunchTask envs fork strTaskFilename lSdmPid s = do {
     (s, i) \<leftarrow> LaunchTask_add envs strTaskFilename lSdmPid s;
     case i of None \<Rightarrow> Some (s, 0) | Some iTaskIndex \<Rightarrow> LaunchTask_started fork lSdmPid iTaskIndex s }"

text \<open>The first part of \<^verbatim>\<open>SigChldHandler\<close>: the next task of the queue is launched.\<close>

definition launch_queued :: "(nat \<Rightarrow> env) \<Rightarrow> int \<Rightarrow> pm \<Rightarrow> pm option" where
  "launch_queued envs fork s =
     (case taskQueue s of
        [] \<Rightarrow> Some s
      | t # q \<Rightarrow> do {
          launchTask \<leftarrow> PendingTask_copy t;
          (s, _) \<leftarrow> LaunchTask envs fork (m_strName launchTask) (m_ulSdmPid launchTask) (s\<lparr>taskQueue := q\<rparr>);
          Some s })"

text \<open>The messages about a task that has ended, to the Task Manager and to the Data Manager.\<close>

definition finished_message :: "(nat \<Rightarrow> env) \<Rightarrow> 32 word \<Rightarrow> PMProcess \<Rightarrow> pm \<Rightarrow> SDMTaskFinished option" where
  "finished_message envs result p s = do {
     let msgFinished = SDMTaskFinished_new (pm_junk envs s MAX_FILENAME_SIZE);
     f \<leftarrow> strncpy (SDMTaskFinished_filename msgFinished) 0 (m_strFilename p) 0 MAX_FILENAME_SIZE;
     Some (msgFinished\<lparr>SDMTaskFinished_filename := f, SDMTaskFinished_result := result, SDMTaskFinished_pid := m_uiSdmPid p,
       SDMTaskFinished_source := (SDMTaskFinished_source msgFinished)\<lparr>m_ulAddress := Address_PM s, m_usPort := PORT_PM\<rparr>\<rparr>) }"

definition cancel_message :: "32 word \<Rightarrow> pm \<Rightarrow> SDMCancelxTEDS" where
  "cancel_message pid s = SDMCancelxTEDS_new\<lparr>SDMCancelxTEDS_source :=
     (SDMCancelxTEDS_source SDMCancelxTEDS_new)\<lparr>m_usPort := PORT_PM, m_ulAddress := Address_PM s, m_ulSensorId := pid\<rparr>\<rparr>"

abbreviation (input) MODE_SOFT_RESET :: byte where "MODE_SOFT_RESET \<equiv> 1"
abbreviation (input) MODE_HARD_RESET :: byte where "MODE_HARD_RESET \<equiv> 2"

text \<open>The second part: \<open>iPid\<close> and \<open>iStatus\<close> are what \<^verbatim>\<open>waitpid\<close> gave.\<close>

definition reap :: "(nat \<Rightarrow> env) \<Rightarrow> int \<Rightarrow> 32 word \<Rightarrow> pm \<Rightarrow> pm option" where
  "reap envs iPid iStatus s =
     (if iPid = 0 \<or> iPid = - 1 then Some s
      else
        let TaskIndex = GetIndexOfOsPid iPid (runningTaskList s) in
        if TaskIndex = - 1 then Some s
        else
          let p = runningTaskList s ! nat TaskIndex in
          if \<not> IsNormalFinish p then do {
            let p = PMProcess_Reset p;
            let s = s\<lparr>runningTaskList := (runningTaskList s)[nat TaskIndex := p]\<rparr>;
            let msgTask = (SDMTask_new (pm_junk envs s MAX_FILENAME_SIZE))\<lparr>SDMTask_pid := m_uiSdmPid p\<rparr>;
            f \<leftarrow> strncpy (SDMTask_filename msgTask) 0 (m_strFilename p) 0 (length (SDMTask_filename msgTask));
            let msgTask = msgTask\<lparr>SDMTask_filename := f\<rparr>;
            (s, _) \<leftarrow> pm_send_to envs SDMTask_Send_to msgTask (SDMComponent_ID_new\<lparr>m_ulAddress := Address_PM s, m_usPort := PORT_PM\<rparr>) s;
            Some s }
          else do {
            s \<leftarrow> (if tm_mode s \<noteq> MODE_HARD_RESET \<or> tm_mode s \<noteq> MODE_SOFT_RESET then do {
                msgFinished \<leftarrow> finished_message envs iStatus p s;
                (s, _) \<leftarrow> pm_send_TM envs SDMTaskFinished_Send msgFinished s;
                let s = PM_MessageSent s;
                (s, _) \<leftarrow> pm_send_DM envs SDMCancelxTEDS_Send (cancel_message (m_uiSdmPid p) s) s;
                Some (PM_MessageSent s) }
              else Some s);
            (l, _) \<leftarrow> PMProcessList_Remove TaskIndex (runningTaskList s);
            Some (s\<lparr>runningTaskList := l\<rparr>) })"

definition SigChldHandler :: "(nat \<Rightarrow> env) \<Rightarrow> int \<Rightarrow> int \<Rightarrow> 32 word \<Rightarrow> pm \<Rightarrow> pm option" where
  "SigChldHandler envs fork iPid iStatus s = do {
     s \<leftarrow> launch_queued envs fork s;
     reap envs iPid iStatus s }"

section \<open>Heartbeats of tasks\<close>

abbreviation (input) MAX_TASK_FAILURES :: "32 word" where "MAX_TASK_FAILURES \<equiv> 5"

text \<open>
  One task of the list in a round of the monitor, and whether it was removed. The loop goes on with the
  next index in either case, so the task behind a removed one is not looked at in this round. \<open>now n\<close> is the
  time of the \<open>n\<close>-th poll of the round.
\<close>

definition monitor_task :: "(nat \<Rightarrow> env) \<Rightarrow> 32 word \<Rightarrow> nat \<Rightarrow> pm \<Rightarrow> pm option" where
  "monitor_task envs now i s = do {
     let (p, unresponsive) = IsUnresponsive now (runningTaskList s ! i);
     let s = s\<lparr>runningTaskList := (runningTaskList s)[i := p]\<rparr>;
     if unresponsive \<and> \<not> m_bFailedState p then do {
       let s = kill_process p s;
       if m_uiTotalFailCount p \<ge> MAX_TASK_FAILURES then do {
         (l, _) \<leftarrow> PMProcessList_Remove (int i) (runningTaskList s);
         Some (s\<lparr>runningTaskList := l\<rparr>) }
       else do {
         let msgError = SDMTaskError_new (pm_junk envs s MAX_FILENAME_SIZE);
         let msgError = msgError\<lparr>SDMTaskError_source := (SDMTaskError_source msgError)\<lparr>m_ulAddress := Address_PM s,
           m_usPort := PORT_PM, m_ulSensorId := m_uiSdmPid p\<rparr>, SDMTaskError_pid := m_uiSdmPid p\<rparr>;
         (s, _) \<leftarrow> pm_send_DM envs SDMTaskError_Send msgError s;
         Some (s\<lparr>runningTaskList := (runningTaskList s)[i := Failure p]\<rparr>) } }
     else Some s }"

lemma pm_send_to_list: "pm_send_to envs Send m d s = Some (s', m') \<Longrightarrow> runningTaskList s' = runningTaskList s"
  by (auto simp: pm_send_to_def pm_log_sent_def split: bind_splits)

lemma monitor_task_shrinks:
  "monitor_task envs t i s = Some s' \<Longrightarrow> length (runningTaskList s') \<le> length (runningTaskList s)"
  by (auto simp: monitor_task_def kill_process_def PMProcessList_Remove_def pm_send_DM_def Let_def split_def
      split: if_splits bind_splits dest!: pm_send_to_list)

function monitor_loop :: "(nat \<Rightarrow> env) \<Rightarrow> (nat \<Rightarrow> 32 word) \<Rightarrow> nat \<Rightarrow> pm \<Rightarrow> pm option" where
  "monitor_loop envs now i s =
     (if i < length (runningTaskList s) then
        case monitor_task envs (now i) i s of
          None \<Rightarrow> None
        | Some s' \<Rightarrow> monitor_loop envs now (i + 1) s'
      else Some s)"
  by pat_completeness auto
termination by (relation "measure (\<lambda>(envs, now, i, s). length (runningTaskList s) - i)") (auto dest!: monitor_task_shrinks)

declare monitor_loop.simps [simp del]

text \<open>One round of the thread.\<close>

definition TaskHeartbeatMonitor :: "(nat \<Rightarrow> env) \<Rightarrow> (nat \<Rightarrow> 32 word) \<Rightarrow> pm \<Rightarrow> pm option" where
  "TaskHeartbeatMonitor envs now s = monitor_loop envs now 0 s"

section \<open>Counters\<close>

abbreviation (input) PM_NOTI_PERF_COUNTERS :: SDMMessage_ID where "PM_NOTI_PERF_COUNTERS \<equiv> SDMMessage_ID_new 2 13"

definition PM_PublishPerformanceCounterMessage :: "(nat \<Rightarrow> env) \<Rightarrow> pm \<Rightarrow> pm option" where
  "PM_PublishPerformanceCounterMessage envs s = do {
     let msg = pm_junk envs s 16;
     msg \<leftarrow> PUT_UINT msg 0 (pm_total_recd s);
     msg \<leftarrow> PUT_UINT msg 4 (pm_prevsec_recd s);
     msg \<leftarrow> PUT_UINT msg 8 (pm_total_sent s);
     msg \<leftarrow> PUT_UINT msg 12 (pm_prevsec_sent s);
     (sm, n, published, sent) \<leftarrow> Publish (pm_env_at envs s) PM_NOTI_PERF_COUNTERS msg 16 (pm_subscriptions s);
     let s = pm_log_sent n sent (s\<lparr>pm_subscriptions := sm\<rparr>);
     Some (if published then PM_MessageSent s else s) }"

definition SigAlrmHandler :: "(nat \<Rightarrow> env) \<Rightarrow> pm \<Rightarrow> pm option" where
  "SigAlrmHandler envs s = do {
     s \<leftarrow> PM_PublishPerformanceCounterMessage envs s;
     Some (s\<lparr>pm_prevsec_recd := 0, pm_prevsec_sent := 0\<rparr>) }"

section \<open>Registration\<close>

definition PM_RegisterPM :: "(nat \<Rightarrow> env) \<Rightarrow> pm \<Rightarrow> pm option" where
  "PM_RegisterPM envs s = do {
     let msgReg = SDMRegPM_new\<lparr>SDMRegPM_resources := g_TaskResources s,
       SDMRegPM_source := (SDMRegPM_source SDMRegPM_new)\<lparr>m_ulAddress := Address_PM s, m_usPort := PORT_PM\<rparr>\<rparr>;
     (s, _) \<leftarrow> pm_send_TM envs SDMRegPM_Send msgReg s;
     Some (PM_MessageSent s) }"

text \<open>\<open>xTEDS\<close> is the document of \<^verbatim>\<open>pm/pmxTEDS.h\<close>.\<close>

definition RegisterXteds :: "(nat \<Rightarrow> env) \<Rightarrow> byte list \<Rightarrow> pm \<Rightarrow> pm option" where
  "RegisterXteds envs xTEDS s = do {
     let g = globals.truncate (pm_env_at envs s 0);
     let msgxTEDS = SDMxTEDS_new g (pm_junk envs s 24183) (pm_junk envs s 80);
     let msgxTEDS = msgxTEDS\<lparr>SDMxTEDS_source := (SDMxTEDS_source msgxTEDS)\<lparr>m_ulSensorId := 1, m_ulAddress := Address_PM s, m_usPort := PORT_PM\<rparr>\<rparr>;
     x \<leftarrow> strcpy (SDMxTEDS_xTEDS msgxTEDS) 0 (xTEDS @ [0]) 0;
     (s, _) \<leftarrow> pm_send_DM envs SDMxTEDS_Send (msgxTEDS\<lparr>SDMxTEDS_xTEDS := x\<rparr>) s;
     Some (PM_MessageSent s) }"

definition CancelReqRegSubs :: "(nat \<Rightarrow> env) \<Rightarrow> pm \<Rightarrow> pm option" where
  "CancelReqRegSubs envs s = do {
     let msgCancel = SDMCancel_new\<lparr>SDMCancel_msg_id := tm_mode_msg_id s,
       SDMCancel_source := SDMComponent_ID_assign (SDMCancel_source SDMCancel_new) (tm_mode_source s),
       SDMCancel_destination := (SDMCancel_destination SDMCancel_new)\<lparr>m_usPort := PORT_PM, m_ulAddress := Address_PM s\<rparr>\<rparr>;
     (s, _) \<leftarrow> pm_send_DM envs SDMCancel_Send msgCancel s;
     Some (PM_MessageSent s) }"

abbreviation (input) TM_Mode_ID :: "16 word" where "TM_Mode_ID \<equiv> 1"
abbreviation (input) SDM_REQREG_CURRENT_AND_FUTURE :: byte where "SDM_REQREG_CURRENT_AND_FUTURE \<equiv> 5"

definition ReqRegSubs :: "(nat \<Rightarrow> env) \<Rightarrow> SDMReqReg \<Rightarrow> pm \<Rightarrow> pm option" where
  "ReqRegSubs envs msgReqReg s = do {
     let msgReqReg = msgReqReg\<lparr>SDMReqReg_reply := SDM_REQREG_CURRENT_AND_FUTURE, SDMReqReg_id := TM_Mode_ID\<rparr>;
     d \<leftarrow> strcpy (SDMReqReg_device msgReqReg) 0 (chars ''TaskManager'' @ [0]) 0;
     i \<leftarrow> strcpy (SDMReqReg_interface msgReqReg) 0 (chars ''TM_Interface'' @ [0]) 0;
     n \<leftarrow> strcpy (SDMReqReg_item_name msgReqReg) 0 (chars ''Status'' @ [0]) 0;
     let msgReqReg = msgReqReg\<lparr>SDMReqReg_device := d, SDMReqReg_interface := i, SDMReqReg_item_name := n,
       SDMReqReg_destination := (SDMReqReg_destination msgReqReg)\<lparr>m_ulAddress := Address_PM s, m_usPort := PORT_PM\<rparr>\<rparr>;
     (s, _) \<leftarrow> pm_send_DM envs SDMReqReg_Send msgReqReg s;
     Some (PM_MessageSent s) }"

text \<open>The loop of \<^verbatim>\<open>SendRunningTasks\<close>: one message object is filled and sent for every task.\<close>

primrec send_running :: "(nat \<Rightarrow> env) \<Rightarrow> SDMTask \<Rightarrow> PMProcessList \<Rightarrow> pm \<Rightarrow> pm option" where
  "send_running envs msgTask [] s = Some s"
| "send_running envs msgTask (p # ps) s = do {
     f \<leftarrow> strncpy (SDMTask_filename msgTask) 0 (m_strFilename p) 0 MAX_FILENAME_SIZE;
     f \<leftarrow> put_byte f (MAX_FILENAME_SIZE - 1) 0;
     let msgTask = msgTask\<lparr>SDMTask_filename := f, SDMTask_pid := m_uiSdmPid p\<rparr>;
     (s, msgTask) \<leftarrow> pm_send_to envs SDMTask_Send_to msgTask (pm_TaskManager s) s;
     send_running envs msgTask ps (PM_MessageSent s) }"

definition SendRunningTasks :: "(nat \<Rightarrow> env) \<Rightarrow> pm \<Rightarrow> pm option" where
  "SendRunningTasks envs s = do {
     let msgTask = SDMTask_new (pm_junk envs s MAX_FILENAME_SIZE);
     let msgTask = msgTask\<lparr>SDMTask_source := (SDMTask_source msgTask)\<lparr>m_ulAddress := Address_PM s, m_usPort := PORT_PM\<rparr>\<rparr>;
     send_running envs msgTask (runningTaskList s) s }"

section \<open>Resets\<close>

text \<open>The loop of \<^verbatim>\<open>DoReset\<close> over the tasks; one message object is reused.\<close>

primrec kill_all :: "(nat \<Rightarrow> env) \<Rightarrow> SDMTaskError \<Rightarrow> PMProcessList \<Rightarrow> pm \<Rightarrow> pm option" where
  "kill_all envs msgTaskError [] s = Some s"
| "kill_all envs msgTaskError (p # ps) s = do {
     let s = kill_process p s;
     let msgTaskError = msgTaskError\<lparr>SDMTaskError_source := (SDMTaskError_source msgTaskError)\<lparr>m_usPort := PORT_PM,
       m_ulAddress := Address_PM s, m_ulSensorId := m_uiSdmPid p\<rparr>, SDMTaskError_pid := m_uiSdmPid p\<rparr>;
     (s, msgTaskError) \<leftarrow> pm_send_DM envs SDMTaskError_Send msgTaskError s;
     kill_all envs msgTaskError ps s }"

definition DoReset :: "(nat \<Rightarrow> env) \<Rightarrow> pm \<Rightarrow> pm option" where
  "DoReset envs s = do {
     s \<leftarrow> kill_all envs (SDMTaskError_new (pm_junk envs s MAX_FILENAME_SIZE)) (runningTaskList s) s;
     let s = s\<lparr>runningTaskList := []\<rparr>;
     Some (s\<lparr>pm_subscriptions := fst (ClearAllSubscriptions (pm_subscriptions s))\<rparr>) }"

text \<open>The loop of \<^verbatim>\<open>SigIntHandler\<close> over the tasks, and the handler for \<^verbatim>\<open>SIGINT\<close>, which ends the program.\<close>

primrec cancel_tasks :: "(nat \<Rightarrow> env) \<Rightarrow> SDMCancelxTEDS \<Rightarrow> PMProcessList \<Rightarrow> pm \<Rightarrow> pm option" where
  "cancel_tasks envs cancel [] s = Some s"
| "cancel_tasks envs cancel (p # ps) s = do {
     let s = kill_process p s;
     let cancel = cancel\<lparr>SDMCancelxTEDS_source := (SDMCancelxTEDS_source cancel)\<lparr>m_ulSensorId := m_uiSdmPid p\<rparr>\<rparr>;
     (s, cancel) \<leftarrow> pm_send_DM envs SDMCancelxTEDS_Send cancel s;
     cancel_tasks envs cancel ps (PM_MessageSent s) }"

definition SigIntHandler :: "(nat \<Rightarrow> env) \<Rightarrow> pm \<Rightarrow> pm option" where
  "SigIntHandler envs s = do {
     (s, cancel) \<leftarrow> pm_send_DM envs SDMCancelxTEDS_Send (cancel_message 0 s) s;
     s \<leftarrow> cancel_tasks envs cancel (runningTaskList s) (PM_MessageSent s);
     CancelReqRegSubs envs s }"

section \<open>Handlers\<close>

definition PM_KillHandler :: "(nat \<Rightarrow> env) \<Rightarrow> buffer \<Rightarrow> pm \<Rightarrow> pm option" where
  "PM_KillHandler envs buf s = do {
     (msgKill, r) \<leftarrow> SDMKill_Unmarshal SDMKill_new buf;
     if r = SDM_INVALID_MESSAGE then Some s
     else do {
       let TaskIndex = GetIndexOfSdmPid (SDMKill_PID msgKill) (runningTaskList s);
       if TaskIndex = - 1 then Some s
       else do {
         let p = runningTaskList s ! nat TaskIndex;
         let s = kill_process p s;
         if SDMKill_killLevel msgKill = 1 then do {
           msgFinished \<leftarrow> finished_message envs 0 p s;
           (s, _) \<leftarrow> pm_send_TM envs SDMTaskFinished_Send msgFinished s;
           let s = PM_MessageSent s;
           (s, _) \<leftarrow> pm_send_DM envs SDMCancelxTEDS_Send ((cancel_message (m_uiSdmPid p) s)\<lparr>SDMCancelxTEDS_fullCancel := 1\<rparr>) s;
           (l, _) \<leftarrow> PMProcessList_Remove TaskIndex (runningTaskList s);
           Some (s\<lparr>runningTaskList := l\<rparr>) }
         else Some s } } }"

definition PM_SubreqstHandler :: "buffer \<Rightarrow> pm \<Rightarrow> pm option" where
  "PM_SubreqstHandler buf s = do {
     (msgRequest, r) \<leftarrow> SDMSubreqst_Unmarshal SDMSubreqst_new buf;
     if r < 0 then Some s
     else do {
       let s = s\<lparr>pm_subscriptions := fst (AddSubscription msgRequest (pm_subscriptions s))\<rparr>;
       Some (if SDMMessage_ID_eq (SDMSubreqst_msg_id msgRequest) PM_NOTI_PERF_COUNTERS \<and> \<not> pm_perf_timer s
             then s\<lparr>pm_perf_timer := True\<rparr> else s) } }"

definition PM_DeletesubHandler :: "buffer \<Rightarrow> pm \<Rightarrow> pm option" where
  "PM_DeletesubHandler buf s = do {
     (msgDelete, r) \<leftarrow> SDMDeletesub_Unmarshal SDMDeletesub_new buf;
     if r < 0 then Some s
     else Some (s\<lparr>pm_subscriptions := fst (RemoveSubscription msgDelete (pm_subscriptions s))\<rparr>) }"

abbreviation (input) PORT_PM_MONITOR :: "16 word" where "PORT_PM_MONITOR \<equiv> 3512"

definition PM_HeartbeatHandler :: "(nat \<Rightarrow> env) \<Rightarrow> 32 word \<Rightarrow> buffer \<Rightarrow> pm \<Rightarrow> pm option" where
  "PM_HeartbeatHandler envs now buf s = do {
     (msgHeartBeat, r) \<leftarrow> SDMHeartbeat_Unmarshal SDMHeartbeat_new buf;
     if r < 0 then Some s
     else do {
       let source = SDMHeartbeat_source msgHeartBeat;
       let reply = msgHeartBeat\<lparr>SDMHeartbeat_source := source\<lparr>m_ulAddress := Address_PM s, m_usPort := PORT_PM\<rparr>\<rparr>;
       if m_usPort source = PORT_TM then do {
         (s, _) \<leftarrow> pm_send_to envs (\<lambda>e. SendTo SDMHeartbeat_Marshal (env_net e) (env_stk e) (env_ack e) (env_now e)) reply (pm_TaskManager s) s;
         Some (PM_MessageSent s) }
       else if m_usPort source = PORT_PM_MONITOR then do {
         (s, _) \<leftarrow> pm_send_to envs (\<lambda>e. SendTo SDMHeartbeat_Marshal (env_net e) (env_stk e) (env_ack e) (env_now e)) reply source s;
         Some (PM_MessageSent s) }
       else Some (s\<lparr>runningTaskList := PMProcessList_HeartbeatReceived now (m_ulSensorId source) (runningTaskList s)\<rparr>) } }"

text \<open>The result of \<^verbatim>\<open>Unmarshal\<close> is ignored.\<close>

definition DMLeaderHandler :: "buffer \<Rightarrow> pm \<Rightarrow> pm option" where
  "DMLeaderHandler buf s = do {
     (temp, _) \<leftarrow> SDMDMLeader_Unmarshal SDMDMLeader_new buf;
     Some (if SDMDMLeader_running_flag temp = 0x74 then s\<lparr>pm_TaskManager := SDMDMLeader_source temp\<rparr> else s) }"

definition PM_RegInfoHandler :: "(nat \<Rightarrow> env) \<Rightarrow> SDMRegInfo \<Rightarrow> buffer \<Rightarrow> pm \<Rightarrow> pm option" where
  "PM_RegInfoHandler envs msgRegInfo buf s = do {
     (msgRegInfo, lResult) \<leftarrow> SDMRegInfo_Unmarshal msgRegInfo buf;
     if lResult = SDM_INVALID_MESSAGE then Some s
     else if lResult = SDM_NO_FURTHER_DATA_PROVIDER then Some s
     else if SDMRegInfo_id msgRegInfo = TM_Mode_ID then do {
       let msgConsume = SDMConsume_new\<lparr>SDMConsume_source := SDMComponent_ID_assign (SDMConsume_source SDMConsume_new) (SDMRegInfo_source msgRegInfo),
         SDMConsume_msg_id := SDMRegInfo_msg_id msgRegInfo\<rparr>;
       let s = s\<lparr>tm_mode_msg_id := SDMMessage_ID_assign_int (tm_mode_msg_id s)
         (scast (SDMMessage_ID_getInterfaceMessagePair (SDMRegInfo_msg_id msgRegInfo)))\<rparr>;
       let s = s\<lparr>tm_mode_source := SDMComponent_ID_assign (tm_mode_source s) (SDMRegInfo_source msgRegInfo)\<rparr>;
       let msgConsume = msgConsume\<lparr>SDMConsume_destination := (SDMConsume_destination msgConsume)\<lparr>m_usPort := PORT_PM\<rparr>\<rparr>;
       (s, _) \<leftarrow> pm_send_DM envs SDMConsume_Send msgConsume s;
       let s = PM_MessageSent s;
       if bgTMDetected s then do {
         s \<leftarrow> SendRunningTasks envs s;
         PM_RegisterPM envs s }
       else Some (s\<lparr>bgTMDetected := True\<rparr>) }
     else Some s }"

text \<open>The mode is set only while the handler runs.\<close>

definition PM_DataHandler :: "(nat \<Rightarrow> env) \<Rightarrow> byte list \<Rightarrow> buffer \<Rightarrow> pm \<Rightarrow> pm option" where
  "PM_DataHandler envs xTEDS buf s = do {
     (msgData, r) \<leftarrow> SDMData_Unmarshal (SDMData_new (globals.truncate (pm_env_at envs s 0)) (pm_junk envs s 24259)) buf;
     if r < 0 then Some s
     else if SDMMessage_ID_eq (SDMData_msg_id msgData) (tm_mode_msg_id s) then do {
       let ucOldMode = tm_mode s;
       m0 \<leftarrow> get_byte (SDMData_msg msgData) 0;
       let s = s\<lparr>tm_mode := m0\<rparr>;
       s \<leftarrow> (if tm_mode s = MODE_HARD_RESET then do {
           (newDmId, _) \<leftarrow> id_Unmarshal SDMComponent_ID_new (SDMData_msg msgData) 1;
           let s = s\<lparr>pm_DataManager := SDMComponent_ID_assign (pm_DataManager s) newDmId\<rparr>;
           s \<leftarrow> DoReset envs s;
           RegisterXteds envs xTEDS s }
         else if tm_mode s = MODE_SOFT_RESET then DoReset envs s
         else Some s);
       Some (s\<lparr>tm_mode := ucOldMode\<rparr>) }
     else Some s }"

section \<open>Ports for applications\<close>

abbreviation (input) PORT_APP_START :: int where "PORT_APP_START \<equiv> 4000"

text \<open>\<open>free\<close> tells whether a port can be bound; the search goes on until one can. The result has the port and the next value
  of \<^verbatim>\<open>CurPort\<close>.\<close>

partial_function (option) FindAvailablePort :: "(int \<Rightarrow> bool) \<Rightarrow> int \<Rightarrow> (int \<times> int) option" where
  "FindAvailablePort free port =
     (if free port then Some (port, port + 1)
      else let port = port + 1
           in FindAvailablePort free (if port \<ge> 65534 then PORT_APP_START else port))"

definition ReqPortHandler :: "(int \<Rightarrow> bool) \<Rightarrow> pm \<Rightarrow> (pm \<times> byte list) option" where
  "ReqPortHandler free s = do {
     (cur_port, next) \<leftarrow> FindAvailablePort free (CurPort s);
     port_msg \<leftarrow> PUT_LONG (SDM_ReqPort # replicate 4 0) 1 (of_int cur_port);
     Some (s\<lparr>CurPort := next\<rparr>, port_msg) }"

lemma FindAvailablePort_terminates:
  assumes "free p" "4000 \<le> p" "p \<le> 65533" "4000 \<le> c"
  shows "\<exists>q. FindAvailablePort free c = Some (q, q + 1) \<and> free q \<and> 4000 \<le> q \<and> (c \<le> 65533 \<longrightarrow> q \<le> 65533)"
proof -
  have up: "\<exists>q. FindAvailablePort free c = Some (q, q + 1) \<and> free q \<and> c \<le> q \<and> q \<le> p" if "c \<le> p" for c
    using that
  proof (induction "nat (p - c)" arbitrary: c rule: less_induct)
    case less
    show ?case
    proof (cases "free c")
      case False
      with assms(1) less.prems have "c < p" by (metis order_le_less)
      then have "\<exists>q. FindAvailablePort free (c + 1) = Some (q, q + 1) \<and> free q \<and> c + 1 \<le> q \<and> q \<le> p" by (intro less.hyps) auto
      moreover have "c + 1 < 65534" using \<open>c < p\<close> assms(3) by simp
      ultimately show ?thesis using False by (subst FindAvailablePort.simps) auto
    qed (use less.prems in \<open>simp add: FindAvailablePort.simps\<close>)
  qed
  have wrap: "\<exists>q. FindAvailablePort free c = Some (q, q + 1) \<and> free q \<and> 4000 \<le> q \<and> (c \<le> 65533 \<longrightarrow> q \<le> 65533)" if "4000 \<le> c" "p < c" for c
    using that
  proof (induction "nat (65534 - c)" arbitrary: c rule: less_induct)
    case less
    show ?case
    proof (cases "free c")
      case False
      show ?thesis
      proof (cases "65534 \<le> c + 1")
        case True
        then show ?thesis using up [of 4000] False assms(2,3) by (subst FindAvailablePort.simps) auto
      next
        case nl: False
        then have "\<exists>q. FindAvailablePort free (c + 1) = Some (q, q + 1) \<and> free q \<and> 4000 \<le> q \<and> (c + 1 \<le> 65533 \<longrightarrow> q \<le> 65533)"
          using less.prems by (intro less.hyps) auto
        with nl show ?thesis using False by (subst FindAvailablePort.simps) auto
      qed
    qed (use less.prems in \<open>simp add: FindAvailablePort.simps\<close>)
  qed
  show ?thesis
  proof (cases "c \<le> p")
    case True
    with up [of c] assms show ?thesis by fastforce
  next
    case False
    with wrap [of c] assms(4) show ?thesis by simp
  qed
qed

section \<open>The listener\<close>

text \<open>
  One message of the listener: \<open>result\<close> is its length. A task message starts a thread with a copy of the message, which is
  the second component of the result; a code message and an error message go to the code receivers (the third
  one); an answer to a request for a port is the fourth.
\<close>

definition PM_Listener :: "(nat \<Rightarrow> env) \<Rightarrow> byte list \<Rightarrow> 32 word \<Rightarrow> (int \<Rightarrow> bool) \<Rightarrow> SDMRegInfo \<Rightarrow> int \<Rightarrow> buffer \<Rightarrow> pm
    \<Rightarrow> (pm \<times> byte list option \<times> buffer option \<times> byte list option) option" where
  "PM_Listener envs xTEDS now free msgRegInfo result buf s = do {
     let s = s\<lparr>pm_total_recd := pm_total_recd s + 1, pm_prevsec_recd := pm_prevsec_recd s + 1\<rparr>;
     if result > 0 then do {
       b \<leftarrow> get_byte buf 0;
       let only = map_option (\<lambda>s. (s, None, None, None));
       if b = SDM_ACK then only (Some (s\<lparr>ackReceived := True\<rparr>))
       else if b = SDM_Register then only (Some (s\<lparr>registerReceived := True\<rparr>))
       else if b = SDM_ID then only (Some (s\<lparr>idReceived := True\<rparr>))
       else if b = SDM_Task then do { m \<leftarrow> get_bytes buf 0 (nat result); Some (s, Some m, None, None) }
       else if b = SDM_Kill then only (PM_KillHandler envs buf s)
       else if b = SDM_ReqPort then do { (s, r) \<leftarrow> ReqPortHandler free s; Some (s, None, None, Some r) }
       else if b = SDM_Code \<or> b = SDM_Error then Some (s, None, Some buf, None)
       else if b = SDM_Subreqst then only (PM_SubreqstHandler buf s)
       else if b = SDM_Deletesub then only (PM_DeletesubHandler buf s)
       else if b = SDM_RegInfo then only (PM_RegInfoHandler envs msgRegInfo buf s)
       else if b = SDM_Data then only (PM_DataHandler envs xTEDS buf s)
       else if b = SDM_Heartbeat then only (PM_HeartbeatHandler envs now buf s)
       else if b = SDM_DMLeader then only (DMLeaderHandler buf s)
       else only (Some s) }
     else Some (s, None, None, None) }"

text \<open>\<^verbatim>\<open>VerifyTM\<close> after its loop of requests has got an answer; the result of \<^verbatim>\<open>Unmarshal\<close> is ignored.\<close>

definition VerifyTM :: "buffer \<Rightarrow> pm \<Rightarrow> pm option" where
  "VerifyTM buf s = do {
     let s = s\<lparr>pm_total_recd := pm_total_recd s + 1, pm_prevsec_recd := pm_prevsec_recd s + 1\<rparr>;
     (msgReady, _) \<leftarrow> SDMReady_Unmarshal (SDMReady_new\<lparr>SDMReady_destination :=
       (SDMReady_destination SDMReady_new)\<lparr>m_usPort := PORT_PM, m_ulAddress := m_ulAddress (pm_TaskManager s)\<rparr>\<rparr>) buf;
     let s = s\<lparr>Address_PM := m_ulAddress (SDMReady_destination msgReady)\<rparr>;
     Some (s\<lparr>pm_DataManager := SDMComponent_ID_assign (pm_DataManager s) (SDMReady_source msgReady)\<rparr>) }"

end
