(* ===== verification/PM_Properties.thy ===== *)
theory PM_Properties
  imports Process_Manager
begin

text \<open>
  Correctness of the Process Manager's handling of tasks. The interleaving of its threads is the step relation
  \<open>pm_step\<close>: the thread that waits for signals launches a task in two steps, between which others run. The invariant says
  that no task is listed twice. The properties say what the end of a task leads to, and what goes wrong
  for a task that waits to be restarted.
\<close>

section \<open>Steps\<close>

text \<open>What the signal thread is doing: nothing, or it has entered the task with this id at this index and forks.\<close>

datatype launcher = Idle | Forking "32 word" int

inductive pm_step :: "(nat \<Rightarrow> env) \<Rightarrow> pm \<times> launcher \<Rightarrow> pm \<times> launcher \<Rightarrow> bool" for envs where
  enqueue: "PendingTask_create name pid = Some t \<Longrightarrow> pm_step envs (s, c) (s\<lparr>taskQueue := taskQueue s @ [t]\<rparr>, c)"
| launch: "taskQueue s = t # q \<Longrightarrow> PendingTask_copy t = Some t' \<Longrightarrow>
    LaunchTask_add envs (m_strName t') (m_ulSdmPid t') (s\<lparr>taskQueue := q\<rparr>) = Some (s', r) \<Longrightarrow>
    pm_step envs (s, Idle) (s', case r of None \<Rightarrow> Idle | Some i \<Rightarrow> Forking (m_ulSdmPid t') i)"
| started: "LaunchTask_started fork pid i s = Some (s', r) \<Longrightarrow> pm_step envs (s, Forking pid i) (s', Idle)"
| reaped: "reap envs iPid iStatus s = Some s' \<Longrightarrow> pm_step envs (s, Idle) (s', Idle)"
| monitored: "TaskHeartbeatMonitor envs now s = Some s' \<Longrightarrow> pm_step envs (s, c) (s', c)"
| received: "PM_Listener envs x t free m n buf s = Some (s', r) \<Longrightarrow> pm_step envs (s, c) (s', c)"
| timer: "SigAlrmHandler envs s = Some s' \<Longrightarrow> pm_step envs (s, c) (s', c)"
| interrupted: "SigIntHandler envs s = Some s' \<Longrightarrow> pm_step envs (s, c) (s', c)"

text \<open>No two listed tasks have the same id, and all names are terminated.\<close>

definition procs_ok :: "PMProcessList \<Rightarrow> bool" where
  "procs_ok l \<longleftrightarrow> distinct (map m_uiSdmPid l) \<and> (\<forall>p\<in>set l. is_cstr 128 (m_strFilename p))"

definition tasks_ok :: "pm \<Rightarrow> bool" where
  "tasks_ok s \<longleftrightarrow> procs_ok (runningTaskList s) \<and> (\<forall>t\<in>set (taskQueue s). is_cstr 128 (m_strName t))"

section \<open>Parts of the state that sends keep\<close>

definition task_tables :: "pm \<Rightarrow> PMProcessList \<times> PendingTask list" where
  "task_tables s = (runningTaskList s, taskQueue s)"

named_theorems pm_frame \<open>operations that do not change the tables of tasks\<close>

lemma tasks_ok_tables: "task_tables s' = task_tables s \<Longrightarrow> tasks_ok s' = tasks_ok s"
  by (simp add: tasks_ok_def task_tables_def)

lemma tables_basic [pm_frame]:
  "task_tables (PM_MessageSent s) = task_tables s" "task_tables (pm_log_sent n out s) = task_tables s"
  "task_tables (kill_process p s) = task_tables s"
  by (simp_all add: task_tables_def PM_MessageSent_def pm_log_sent_def kill_process_def)

lemma tables_pm_send_to: "pm_send_to envs Send m d s = Some (s', m') \<Longrightarrow> task_tables s' = task_tables s"
  by (auto simp: pm_send_to_def pm_frame split: bind_splits)

lemma tables_send [dest]:
  "pm_send_DM envs Send m s = Some (s', m') \<Longrightarrow> task_tables s' = task_tables s"
  "pm_send_TM envs Send m s = Some (s', m') \<Longrightarrow> task_tables s' = task_tables s"
  by (auto simp: pm_send_DM_def pm_send_TM_def dest: tables_pm_send_to)

lemma tables_send_running: "send_running envs m ps s = Some s' \<Longrightarrow> task_tables s' = task_tables s"
  by (induction ps arbitrary: m s) (auto simp: Let_def pm_frame split: bind_splits dest!: tables_pm_send_to)

lemma tables_registration:
  "PM_RegisterPM envs s = Some s' \<Longrightarrow> task_tables s' = task_tables s"
  "RegisterXteds envs x s = Some s' \<Longrightarrow> task_tables s' = task_tables s"
  "CancelReqRegSubs envs s = Some s' \<Longrightarrow> task_tables s' = task_tables s"
  "SendRunningTasks envs s = Some s' \<Longrightarrow> task_tables s' = task_tables s"
  by (auto simp: PM_RegisterPM_def RegisterXteds_def CancelReqRegSubs_def SendRunningTasks_def pm_frame Let_def
      split: bind_splits dest!: tables_send tables_send_running)

lemma tables_counters: "PM_PublishPerformanceCounterMessage envs s = Some s' \<Longrightarrow> task_tables s' = task_tables s"
  by (auto simp: PM_PublishPerformanceCounterMessage_def Let_def pm_frame split: bind_splits)
    (auto simp: task_tables_def)

lemma tables_kill_all: "kill_all envs m ps s = Some s' \<Longrightarrow> task_tables s' = task_tables s"
  by (induction ps arbitrary: m s) (auto simp: Let_def pm_frame split: bind_splits dest!: tables_send)

lemma tables_cancel_tasks: "cancel_tasks envs m ps s = Some s' \<Longrightarrow> task_tables s' = task_tables s"
  by (induction ps arbitrary: m s) (auto simp: Let_def pm_frame split: bind_splits dest!: tables_send)

section \<open>The tables of tasks keep their invariant\<close>

lemma strncpy_cstr:
  assumes "is_cstr n src" "length dst = n"
  shows "strncpy dst 0 src 0 n = Some (cstr src @ replicate (n - length (cstr src)) 0)"
proof -
  have "takeWhile (\<lambda>b. b \<noteq> 0) (take n src) = cstr src" using assms(1) by (simp add: is_cstr_def cstr_def)
  then show ?thesis using assms is_cstr_len [OF assms(1)] is_cstr_length [OF assms(1)] by (simp add: strncpy_def Let_def put_bytes_def)
qed

lemma PendingTask_create_cstr: "PendingTask_create n p = Some t \<Longrightarrow> is_cstr 128 (m_strName t) \<and> m_ulSdmPid t = p"
  by (auto simp: PendingTask_create_def strncpy_def put_byte_def put_bytes_def is_cstr_def Let_def
      split: bind_splits if_splits intro!: set_update_memI)

lemma put_last:
  assumes "is_cstr 128 n"
  shows "put_byte (cstr n @ replicate (128 - length (cstr n)) 0) 127 0 = Some (cstr n @ replicate (128 - length (cstr n)) 0)"
proof -
  obtain k where k: "128 - length (cstr n) = Suc k" "length (cstr n) + k = 127"
    using is_cstr_len [OF assms] by (cases "128 - length (cstr n)") auto
  have "put_bytes (c @ replicate (Suc k) 0) (length c + k) [0] = Some (c @ replicate (Suc k) 0)" for c :: buffer
    by (simp add: put_bytes_def del: replicate_Suc) (simp add: replicate_append_same)
  from this [of "cstr n"] show ?thesis unfolding put_byte_def k .
qed

lemma PendingTask_create_eq:
  assumes "is_cstr 128 n"
  shows "PendingTask_create n p = Some \<lparr>m_strName = cstr n @ replicate (128 - length (cstr n)) 0, m_ulSdmPid = p\<rparr>"
  using strncpy_cstr [OF assms, of "replicate 128 0"] put_last [OF assms] by (simp add: PendingTask_create_def)

lemma procs_ok_remove:
  assumes "procs_ok l" "PMProcessList_Remove i l = Some (l', r)"
  shows "procs_ok l'"
proof (cases "0 \<le> i \<and> i < int (length l)")
  case True
  then have l: "l = take (nat i) l @ l ! nat i # drop (Suc (nat i)) l" "l' = take (nat i) l @ drop (Suc (nat i)) l"
    using assms(2) by (auto simp: PMProcessList_Remove_def id_take_nth_drop)
  have "procs_ok (xs @ x # ys) \<Longrightarrow> procs_ok (xs @ ys)" for xs x ys by (auto simp: procs_ok_def)
  then show ?thesis using assms(1) l by metis
qed (use assms in \<open>auto simp: PMProcessList_Remove_def split: if_splits\<close>)

lemma procs_ok_update:
  assumes "procs_ok l" "m_uiSdmPid p = m_uiSdmPid (l ! i)" "m_strFilename p = m_strFilename (l ! i)"
  shows "procs_ok (l[i := p])"
proof (cases "i < length l")
  case True
  have "map m_uiSdmPid (l[i := p]) = map m_uiSdmPid l" using True assms(2) by (simp add: map_update list_update_same_conv)
  moreover have "is_cstr 128 (m_strFilename q)" if "q \<in> set (l[i := p])" for q
    using that True assms(1,3) set_update_subset_insert [of l i p] by (auto simp: procs_ok_def)
  ultimately show ?thesis using assms(1) by (simp add: procs_ok_def)
qed (use assms(1) in \<open>simp add: list_update_beyond\<close>)

lemma procs_ok_add:
  assumes "procs_ok l" "is_cstr 128 n" "PMProcessList_Add n pid os l = Some (l', i)"
  shows "procs_ok l'"
proof (cases "GetIndexOfSdmPid pid l = - 1")
  case True
  then have "pid \<notin> m_uiSdmPid ` set l" by (auto simp: GetIndexOfSdmPid_def index_of_none)
  then show ?thesis
    using True assms strncpy_cstr [OF assms(2), of "replicate 128 0"] is_cstr_len [OF assms(2)]
    by (auto simp: PMProcessList_Add_def Let_def PMProcess_create_def PMProcess_new_def procs_ok_def is_cstr_padded split: bind_splits)
next
  case False
  with assms show ?thesis by (auto simp: PMProcessList_Add_def Let_def split: if_splits intro!: procs_ok_update)
qed

lemma IsUnresponsive_keeps:
  "m_uiSdmPid (fst (IsUnresponsive t p)) = m_uiSdmPid p" "m_strFilename (fst (IsUnresponsive t p)) = m_strFilename p"
  "m_OsPid (fst (IsUnresponsive t p)) = m_OsPid p"
  by (simp_all add: IsUnresponsive_def Let_def)

lemma procs_ok_pid: "procs_ok l \<Longrightarrow> procs_ok (UpdateOsPid pid os l)" "procs_ok l \<Longrightarrow> procs_ok (PMProcessList_HeartbeatReceived t pid l)"
  by (auto simp: UpdateOsPid_def PMProcessList_HeartbeatReceived_def PMProcess_HeartbeatReceived_def Let_def intro!: procs_ok_update)

text \<open>An operation that keeps the queue and makes a well-formed list of a well-formed one.\<close>

definition keeps_tasks :: "pm \<Rightarrow> pm \<Rightarrow> bool" where
  "keeps_tasks s s' \<longleftrightarrow> taskQueue s' = taskQueue s \<and> (procs_ok (runningTaskList s) \<longrightarrow> procs_ok (runningTaskList s'))"

lemma keeps_tasks_ok: "keeps_tasks s s' \<Longrightarrow> tasks_ok s \<Longrightarrow> tasks_ok s'"
  by (simp add: keeps_tasks_def tasks_ok_def)

lemma keeps_tasks_tables: "task_tables s' = task_tables s \<Longrightarrow> keeps_tasks s s'"
  by (simp add: keeps_tasks_def task_tables_def)

lemma keeps_tasks_trans: "keeps_tasks s s' \<Longrightarrow> keeps_tasks s' s'' \<Longrightarrow> keeps_tasks s s''"
  by (simp add: keeps_tasks_def)

lemma keeps_tasks_list:
  assumes "task_tables s' = task_tables s" "procs_ok (runningTaskList s) \<Longrightarrow> procs_ok l"
  shows "keeps_tasks s (s'\<lparr>runningTaskList := l\<rparr>)"
  using assms by (simp add: keeps_tasks_def task_tables_def)

lemma task_tables_list: "task_tables s' = task_tables s \<Longrightarrow> runningTaskList s' = runningTaskList s"
  by (simp add: task_tables_def)

lemma keeps_removed:
  assumes "task_tables s' = task_tables s" "PMProcessList_Remove i (runningTaskList s') = Some (l, r)"
  shows "keeps_tasks s (s'\<lparr>runningTaskList := l\<rparr>)"
  using assms by (intro keeps_tasks_list) (auto simp: task_tables_def dest: procs_ok_remove)

lemma keeps_LaunchTask_add:
  assumes "LaunchTask_add envs n pid s = Some (s', r)" "is_cstr 128 n"
  shows "keeps_tasks s s'"
  using assms by (auto simp: LaunchTask_add_def keeps_tasks_def split: bind_splits if_splits dest: procs_ok_add)

lemma keeps_LaunchTask_started: "LaunchTask_started fork pid i s = Some (s', r) \<Longrightarrow> keeps_tasks s s'"
  by (auto simp: LaunchTask_started_def keeps_tasks_def procs_ok_pid split: bind_splits if_splits dest: procs_ok_remove)

lemma keeps_monitor_task:
  assumes "monitor_task envs t i s = Some s'"
  shows "keeps_tasks s s'"
proof -
  obtain p u where pu: "IsUnresponsive t (runningTaskList s ! i) = (p, u)" by force
  let ?s1 = "s\<lparr>runningTaskList := (runningTaskList s)[i := p]\<rparr>"
  note keep = IsUnresponsive_keeps [of t "runningTaskList s ! i", unfolded pu fst_conv]
  have k1: "keeps_tasks s ?s1" by (auto simp: keeps_tasks_def keep intro!: procs_ok_update)
  have "keeps_tasks ?s1 s'"
  proof (cases "u \<and> \<not> m_bFailedState p")
    case False
    then have "s' = ?s1" using assms pu by (auto simp: monitor_task_def)
    then show ?thesis by (simp add: keeps_tasks_def)
  next
    case True
    note run = assms [unfolded monitor_task_def Let_def pu prod.case] True
    show ?thesis
    proof (cases "MAX_TASK_FAILURES \<le> m_uiTotalFailCount p")
      case True
      with run obtain l r where "PMProcessList_Remove (int i) (runningTaskList ?s1) = Some (l, r)"
        "s' = (kill_process p ?s1)\<lparr>runningTaskList := l\<rparr>"
        by (auto simp: kill_process_def split: bind_splits)
      then show ?thesis by (auto simp: pm_frame intro!: keeps_tasks_list dest: procs_ok_remove)
    next
      case False
      with run obtain m s2 m' where s2: "pm_send_DM envs SDMTaskError_Send m (kill_process p ?s1) = Some (s2, m')"
        "s' = s2\<lparr>runningTaskList := (runningTaskList s2)[i := Failure p]\<rparr>"
        by (auto split: bind_splits)
      then have tt: "task_tables s2 = task_tables ?s1" by (simp add: tables_send pm_frame)
      show ?thesis unfolding s2(2)
      proof (rule keeps_tasks_list [OF tt])
        assume "procs_ok (runningTaskList ?s1)"
        then show "procs_ok ((runningTaskList s2)[i := Failure p])"
          using procs_ok_update [of "runningTaskList ?s1" "Failure p" i]
          by (cases "i < length (runningTaskList s)") (simp_all add: Failure_def list_update_beyond task_tables_list [OF tt])
      qed
    qed
  qed
  with k1 show ?thesis by (rule keeps_tasks_trans)
qed

lemma keeps_monitor_loop: "monitor_loop envs now i s = Some s' \<Longrightarrow> keeps_tasks s s'"
proof (induction envs now i s rule: monitor_loop.induct)
  case (1 envs now i s)
  then show ?case
    by (subst (asm) (2) monitor_loop.simps)
      (auto simp: keeps_tasks_tables split: if_splits option.splits intro: keeps_tasks_trans [OF keeps_monitor_task])
qed

lemma keeps_kill: 
  assumes "PM_KillHandler envs buf s = Some s'"
  shows "keeps_tasks s s'"
proof -
  obtain m r where u: "SDMKill_Unmarshal SDMKill_new buf = Some (m, r)"
    using assms by (auto simp: PM_KillHandler_def split: bind_splits)
  let ?i = "GetIndexOfSdmPid (SDMKill_PID m) (runningTaskList s)"
  show ?thesis
  proof (cases "r = SDM_INVALID_MESSAGE \<or> ?i = - 1")
    case True
    with assms u have "s' = s" by (auto simp: PM_KillHandler_def Let_def split: if_splits)
    then show ?thesis by (simp add: keeps_tasks_def)
  next
    case False
    let ?s1 = "kill_process (runningTaskList s ! nat ?i) s"
    note run = assms [unfolded PM_KillHandler_def Let_def u] False
    show ?thesis
    proof (cases "SDMKill_killLevel m = 1")
      case False
      then have "s' = ?s1" using run by simp
      then show ?thesis by (simp add: keeps_tasks_tables pm_frame)
    next
      case True
      then obtain f s2 m2 c s3 m3 l r where w: "pm_send_TM envs SDMTaskFinished_Send f ?s1 = Some (s2, m2)"
        "pm_send_DM envs SDMCancelxTEDS_Send c (PM_MessageSent s2) = Some (s3, m3)"
        "PMProcessList_Remove ?i (runningTaskList s3) = Some (l, r)" "s' = s3\<lparr>runningTaskList := l\<rparr>"
        using run by (auto split: bind_splits)
      then have "task_tables s3 = task_tables s" by (simp add: tables_send pm_frame)
      then show ?thesis
        unfolding w(4) using w(3) by (rule keeps_removed)
    qed
  qed
qed

lemma keeps_reap:
  assumes "reap envs iPid st s = Some s'"
  shows "keeps_tasks s s'"
proof -
  let ?i = "GetIndexOfOsPid iPid (runningTaskList s)"
  let ?p = "runningTaskList s ! nat ?i"
  consider "s' = s" | "iPid \<noteq> 0" "iPid \<noteq> - 1" "?i \<noteq> - 1" "\<not> IsNormalFinish ?p" | "iPid \<noteq> 0" "iPid \<noteq> - 1" "?i \<noteq> - 1" "IsNormalFinish ?p"
    using assms by (fastforce simp: reap_def Let_def split: if_splits)
  then show ?thesis
  proof cases
    case 2
    let ?s1 = "s\<lparr>runningTaskList := (runningTaskList s)[nat ?i := PMProcess_Reset ?p]\<rparr>"
    obtain m d m' where "pm_send_to envs SDMTask_Send_to m d ?s1 = Some (s', m')"
      using assms 2 by (auto simp: reap_def Let_def split: bind_splits)
    then have "keeps_tasks ?s1 s'" by (intro keeps_tasks_tables) (rule tables_pm_send_to)
    moreover have "keeps_tasks s ?s1" by (auto simp: keeps_tasks_def PMProcess_Reset_def intro!: procs_ok_update)
    ultimately show ?thesis by (metis keeps_tasks_trans)
  next
    case 3
    have mode: "tm_mode s \<noteq> MODE_HARD_RESET \<or> tm_mode s \<noteq> MODE_SOFT_RESET" by auto
    obtain f s2 m2 c s3 m3 l r where w: "pm_send_TM envs SDMTaskFinished_Send f s = Some (s2, m2)"
        "pm_send_DM envs SDMCancelxTEDS_Send c (PM_MessageSent s2) = Some (s3, m3)"
        "PMProcessList_Remove ?i (runningTaskList (PM_MessageSent s3)) = Some (l, r)" "s' = (PM_MessageSent s3)\<lparr>runningTaskList := l\<rparr>"
      using assms [unfolded reap_def Let_def] 3 mode by (auto split: bind_splits)
    then have "task_tables (PM_MessageSent s3) = task_tables s" by (simp add: tables_send pm_frame)
    then show ?thesis
      unfolding w(4) using w(3) by (rule keeps_removed)
  qed (simp add: keeps_tasks_def)
qed

lemma keeps_DoReset: "DoReset envs s = Some s' \<Longrightarrow> keeps_tasks s s'"
  by (auto simp: DoReset_def Let_def keeps_tasks_def procs_ok_def task_tables_def split: bind_splits dest!: tables_kill_all)

lemma keeps_tasks_mode: "keeps_tasks (s\<lparr>tm_mode := m\<rparr>) s' = keeps_tasks s s'" "keeps_tasks s (s'\<lparr>tm_mode := m\<rparr>) = keeps_tasks s s'"
  "keeps_tasks (s\<lparr>pm_DataManager := d\<rparr>) s' = keeps_tasks s s'"
  by (simp_all add: keeps_tasks_def)

lemma keeps_DataHandler:
  assumes "PM_DataHandler envs x buf s = Some s'"
  shows "keeps_tasks s s'"
proof -
  show ?thesis using assms unfolding PM_DataHandler_def
    by (auto simp: Let_def keeps_tasks_mode keeps_tasks_tables split: bind_splits if_splits dest!: keeps_DoReset)
      (metis keeps_tasks_tables keeps_tasks_trans tables_registration(2))
qed

lemma tables_handlers:
  "PM_SubreqstHandler buf s = Some s' \<Longrightarrow> task_tables s' = task_tables s"
  "PM_DeletesubHandler buf s = Some s' \<Longrightarrow> task_tables s' = task_tables s"
  "DMLeaderHandler buf s = Some s' \<Longrightarrow> task_tables s' = task_tables s"
  "ReqPortHandler free s = Some (s', a) \<Longrightarrow> task_tables s' = task_tables s"
  by (auto simp: PM_SubreqstHandler_def PM_DeletesubHandler_def DMLeaderHandler_def ReqPortHandler_def task_tables_def Let_def
      split: bind_splits if_splits)

lemma tables_RegInfo: "PM_RegInfoHandler envs m buf s = Some s' \<Longrightarrow> task_tables s' = task_tables s"
  unfolding PM_RegInfoHandler_def
  by (auto simp: Let_def pm_frame split: bind_splits if_splits dest!: tables_send tables_registration)
    (auto simp: task_tables_def PM_MessageSent_def)

lemma keeps_Heartbeat:
  assumes "PM_HeartbeatHandler envs t buf s = Some s'"
  shows "keeps_tasks s s'"
proof -
  obtain m r where u: "SDMHeartbeat_Unmarshal SDMHeartbeat_new buf = Some (m, r)"
    using assms by (auto simp: PM_HeartbeatHandler_def split: bind_splits)
  let ?p = "m_usPort (SDMHeartbeat_source m)"
  have sent: "keeps_tasks s (PM_MessageSent a)" if "pm_send_to envs Send n d s = Some (a, n')"
    for Send :: "SDMHeartbeat sender_to" and n n' d a
    using that by (intro keeps_tasks_tables) (auto simp: pm_frame dest: tables_pm_send_to)
  consider "s' = s" | "?p = PORT_TM \<or> ?p = PORT_PM_MONITOR" "\<not> r < 0" | "?p \<noteq> PORT_TM" "?p \<noteq> PORT_PM_MONITOR" "\<not> r < 0"
    using assms u by (cases "r < 0") (auto simp: PM_HeartbeatHandler_def)
  then show ?thesis
  proof cases
    case 2
    then show ?thesis using assms u sent by (auto simp: PM_HeartbeatHandler_def Let_def split: bind_splits if_splits)
  next
    case 3
    then have "s' = s\<lparr>runningTaskList := PMProcessList_HeartbeatReceived t (m_ulSensorId (SDMHeartbeat_source m)) (runningTaskList s)\<rparr>"
      using assms u by (simp add: PM_HeartbeatHandler_def Let_def)
    then show ?thesis by (simp add: keeps_tasks_def procs_ok_pid)
  qed (simp add: keeps_tasks_def)
qed

text \<open>Taking a chain of conditions apart, one handler at a time.\<close>

lemma if_SomeE:
  assumes "(if c then a else b) = Some x"
  obtains "c" "a = Some x" | "\<not> c" "b = Some x"
  using assms by (auto split: if_splits)

lemma map_only_SomeE:
  assumes "map_option (\<lambda>s. (s, a, b, c)) m = Some (s', r)"
  obtains "m = Some s'"
  using assms by auto

lemma keeps_Listener:
  assumes "PM_Listener envs x t free m n buf s = Some (s', r)"
  shows "keeps_tasks s s'"
proof -
  let ?s = "s\<lparr>pm_total_recd := pm_total_recd s + 1, pm_prevsec_recd := pm_prevsec_recd s + 1\<rparr>"
  have port: "keeps_tasks ?s s'" if "ReqPortHandler free ?s \<bind> (\<lambda>(s, r). Some (s, None, None, Some r)) = Some (s', r)"
    using that by (auto split: bind_splits intro!: keeps_tasks_tables dest!: tables_handlers(4))
  have task: "keeps_tasks ?s s'" if "get_bytes buf 0 (nat n) \<bind> (\<lambda>m. Some (?s, Some m, None, None)) = Some (s', r)"
    using that by (auto simp: keeps_tasks_def split: bind_splits)
  note tables = tables_handlers(1-3) tables_RegInfo
  have "keeps_tasks ?s s'"
  proof (cases "n > 0")
    case True
    then obtain b where b: "get_byte buf 0 = Some b" using assms by (cases "get_byte buf 0") (simp_all add: PM_Listener_def Let_def)
    show ?thesis
      using assms [unfolded PM_Listener_def Let_def b] True
      by (simp only: if_True bind.simps)
        (elim if_SomeE map_only_SomeE;
          (erule keeps_kill keeps_DataHandler keeps_Heartbeat port task tables [THEN keeps_tasks_tables] | force simp: keeps_tasks_def))
  qed (use assms in \<open>simp add: PM_Listener_def keeps_tasks_def\<close>)
  then show ?thesis by (simp add: keeps_tasks_def)
qed

lemma pm_step_keeps: "pm_step envs a b \<Longrightarrow> tasks_ok (fst a) \<Longrightarrow> tasks_ok (fst b)"
proof (induction rule: pm_step.induct)
  case (enqueue name pid t s c)
  then show ?case using PendingTask_create_cstr [OF enqueue(1)] by (auto simp: tasks_ok_def)
next
  case (launch s t q t' s' r)
  have "is_cstr 128 (m_strName t')" using PendingTask_create_cstr launch(2) by (auto simp: PendingTask_copy_def)
  then have "keeps_tasks (s\<lparr>taskQueue := q\<rparr>) s'" by (rule keeps_LaunchTask_add [OF launch(3)])
  moreover have "tasks_ok (s\<lparr>taskQueue := q\<rparr>)" using launch(1,4) by (simp add: tasks_ok_def)
  ultimately show ?case by (simp add: keeps_tasks_ok)
next
  case (interrupted s s' c)
  then have "task_tables s' = task_tables s"
    by (auto simp: SigIntHandler_def pm_frame split: bind_splits dest!: tables_send tables_cancel_tasks tables_registration(3))
  from tasks_ok_tables [OF this] interrupted(2) show ?case by simp
next
  case (timer s s' c)
  then have "task_tables s' = task_tables s"
    by (auto simp: SigAlrmHandler_def split: bind_splits dest!: tables_counters) (auto simp: task_tables_def)
  from tasks_ok_tables [OF this] timer(2) show ?case by simp
qed (simp_all only: fst_conv TaskHeartbeatMonitor_def keeps_LaunchTask_started [THEN keeps_tasks_ok] keeps_reap [THEN keeps_tasks_ok]
    keeps_Listener [THEN keeps_tasks_ok] keeps_monitor_loop [THEN keeps_tasks_ok])

text \<open>
  C4. However the threads of the Process Manager interleave, also between the two halves of a launch, no two
  tasks in its list have the same id, and all names in the list and in the queue are terminated.
\<close>

theorem tasks_listed_once:
  assumes "runningTaskList s = []" "taskQueue s = []" "(pm_step envs)\<^sup>*\<^sup>* (s, Idle) (s', c)"
  shows "distinct (map m_uiSdmPid (runningTaskList s')) \<and> (\<forall>p\<in>set (runningTaskList s'). is_cstr 128 (m_strFilename p))
    \<and> (\<forall>t\<in>set (taskQueue s'). is_cstr 128 (m_strName t))"
proof -
  have start: "tasks_ok s" by (simp add: tasks_ok_def procs_ok_def assms(1,2))
  have "tasks_ok (fst b)" if "(pm_step envs)\<^sup>*\<^sup>* (s, Idle) b" for b
    using that by (induction rule: rtranclp_induct) (simp_all add: start pm_step_keeps)
  from this [OF assms(3)] show ?thesis by (simp add: tasks_ok_def procs_ok_def)
qed

text \<open>A Process Manager on its own, in whose directory are some files.\<close>

definition sample_manager :: "(byte list \<Rightarrow> byte list option) \<Rightarrow> pm" where
  "sample_manager files = \<lparr>taskQueue = [], codeReceivers = [], runningTaskList = [],
     pm_subscriptions = SubscriptionManager_new (globals.truncate working_env) (replicate 24259 0), tm_mode = 0,
     tm_mode_msg_id = SDMMessage_ID_new 1 1, tm_mode_source = SDMComponent_ID_new, Address_PM = 0x100007F, bgTMDetected = True,
     g_TaskResources = 4, ackReceived = False, registerReceived = False, idReceived = False, pm_perf_timer = False, CurPort = 4000,
     pm_total_sent = 0, pm_prevsec_sent = 0, pm_total_recd = 0, pm_prevsec_recd = 0, pm_TaskManager = SDMComponent_ID_new,
     pm_DataManager = SDMComponent_ID_new, pm_files = files, pm_killed = [], pm_sends = 0, pm_wire = []\<rparr>"

definition sample_name :: buffer where
  "sample_name = 97 # replicate 127 0"

lemma sample_name_cstr: "is_cstr 128 sample_name" "cstr sample_name = [97]"
  by (simp_all add: sample_name_def is_cstr_def cstr_def)

lemma sample_name_padded: "[97] @ replicate 127 0 = sample_name"
  by (simp add: sample_name_def)

lemma sample_pending: "PendingTask_create sample_name pid = Some \<lparr>m_strName = sample_name, m_ulSdmPid = pid\<rparr>"
  using PendingTask_create_eq [OF sample_name_cstr(1), of pid] 
  unfolding sample_name_cstr(2) using sample_name_padded by simp

lemma sample_junk: "pm_junk (\<lambda>_. working_env) s 8 = replicate 8 0"
  by (simp add: pm_junk_def pm_env_at_def working_env_def)

lemma sample_add: "PMProcessList_Add sample_name pid os [] = Some ([PMProcess_new\<lparr>m_strFilename := sample_name, m_uiSdmPid := pid, m_OsPid := os\<rparr>], 0)"
  using strncpy_cstr [OF sample_name_cstr(1), of "replicate 128 0"]
  by (simp add: PMProcessList_Add_def GetIndexOfSdmPid_def index_of_def PMProcess_create_def PMProcess_new_def sample_name_cstr(2) sample_name_padded [simplified])

theorem tasks_listed_once_witness:
  "\<exists>s'. (pm_step (\<lambda>_. working_env))\<^sup>*\<^sup>* (sample_manager (\<lambda>_. Some [1]), Idle) (s', Idle) \<and> map m_uiSdmPid (runningTaskList s') = [7]
    \<and> map m_OsPid (runningTaskList s') = [100] \<and> (\<forall>p\<in>set (runningTaskList s'). is_cstr 128 (m_strFilename p))"
proof -
  let ?s0 = "sample_manager (\<lambda>_. Some [1])" and ?e = "\<lambda>_ :: nat. working_env"
  let ?t = "\<lparr>m_strName = sample_name, m_ulSdmPid = 7\<rparr>" and ?p = "PMProcess_new\<lparr>m_strFilename := sample_name, m_uiSdmPid := 7, m_OsPid := 0\<rparr>"
  let ?s1 = "?s0\<lparr>taskQueue := taskQueue ?s0 @ [?t]\<rparr>"
  let ?s2 = "?s0\<lparr>runningTaskList := [?p]\<rparr>"
  let ?s3 = "?s0\<lparr>runningTaskList := [?p\<lparr>m_OsPid := 100\<rparr>]\<rparr>"
  have e: "pm_step ?e (?s0, Idle) (?s1, Idle)" by (rule pm_step.enqueue [OF sample_pending])
  have "LaunchTask_add ?e sample_name 7 (?s1\<lparr>taskQueue := []\<rparr>) = Some (?s2, Some 0)"
    by (simp add: LaunchTask_add_def sample_junk ltoa_def decimal.simps put_bytes_def IsFileAvailable_def sample_manager_def sample_add)
  then have l: "pm_step ?e (?s1, Idle) (?s2, Forking 7 0)"
    using pm_step.launch [of ?s1 ?t "[]" ?t ?e ?s2 "Some 0"] by (simp add: PendingTask_copy_def sample_pending sample_manager_def)
  have "LaunchTask_started 100 7 0 ?s2 = Some (?s3, 100)"
    by (simp add: LaunchTask_started_def UpdateOsPid_def GetIndexOfSdmPid_def index_of_def)
  then have st: "pm_step ?e (?s2, Forking 7 0) (?s3, Idle)" by (rule pm_step.started)
  from e l st have r: "(pm_step ?e)\<^sup>*\<^sup>* (?s0, Idle) (?s3, Idle)" by (meson rtranclp.rtrancl_into_rtrancl rtranclp.rtrancl_refl)
  from tasks_listed_once [OF _ _ r] have "\<forall>p\<in>set (runningTaskList ?s3). is_cstr 128 (m_strFilename p)" by (simp add: sample_manager_def)
  with r show ?thesis by (intro exI [of _ ?s3]) simp
qed

section \<open>The end of a task\<close>

lemma reachable_pm_env: "(\<And>i. reachable_env (envs i)) \<Longrightarrow> reachable_env (pm_env_at envs s i)"
  by (simp add: pm_env_at_def reachable_env_def)

lemma length_pm_junk: "(\<And>i. reachable_env (envs i)) \<Longrightarrow> n \<le> BUFSIZE \<Longrightarrow> length (pm_junk envs s n) = n"
  using reachable_pm_env [of envs s 0] by (simp add: pm_junk_def reachable_env_def)

text \<open>The source that the Process Manager puts into its messages about a task.\<close>

definition pm_source :: "32 word \<Rightarrow> pm \<Rightarrow> SDMComponent_ID" where
  "pm_source pid s = SDMComponent_ID_new\<lparr>m_usPort := PORT_PM, m_ulAddress := Address_PM s, m_ulSensorId := pid\<rparr>"

definition finished_datagram :: "timeval \<Rightarrow> 32 word \<Rightarrow> PMProcess \<Rightarrow> pm \<Rightarrow> byte list" where
  "finished_datagram now st p s = datagram_bytes SDM_TaskFinished now
     (SDMTaskFinished_enc (pm_source 0 s, st, m_uiSdmPid p, cstr (m_strFilename p)))"

definition cancel_datagram :: "timeval \<Rightarrow> byte \<Rightarrow> PMProcess \<Rightarrow> pm \<Rightarrow> byte list" where
  "cancel_datagram now full p s = datagram_bytes SDM_CancelxTEDS now (SDMCancelxTEDS_enc (pm_source (m_uiSdmPid p) s, full))"

lemma send_finished:
  assumes "\<And>i. reachable_env (envs i)" "is_cstr 128 (m_strFilename p)"
  obtains m m' where "finished_message envs st p s = Some m"
    "pm_send_TM envs SDMTaskFinished_Send m s =
       Some (pm_log_sent 1 [(pm_TaskManager s, finished_datagram (env_now (envs (pm_sends s))) st p s)] s, m')"
proof -
  let ?f = "cstr (m_strFilename p) @ replicate (128 - length (cstr (m_strFilename p))) 0" and ?e = "pm_env_at envs s 0"
  let ?m = "(SDMTaskFinished_new (pm_junk envs s 128))\<lparr>SDMTaskFinished_filename := ?f, SDMTaskFinished_result := st,
    SDMTaskFinished_pid := m_uiSdmPid p, SDMTaskFinished_source := pm_source 0 s\<rparr>"
  have jl: "length (SDMTaskFinished_filename (SDMTaskFinished_new (pm_junk envs s 128))) = 128"
    using length_pm_junk [where envs = envs and s = s and n = 128, OF assms(1)] by (simp add: SDMTaskFinished_new_def SDMmessage.defs)
  have m: "finished_message envs st p s = Some ?m"
    using strncpy_cstr [OF assms(2) jl]
    by (simp add: finished_message_def Let_def SDMTaskFinished_new_def SDMmessage.defs pm_source_def SDMComponent_ID_new_def)
  have wf: "SDMTaskFinished_wf ?m"
    using is_cstr_len [OF assms(2)] by (simp add: SDMTaskFinished_wf_def SDMTaskFinished_new_def new_message_def SDMmessage.defs is_cstr_padded)
  have "cstr ?f = cstr (m_strFilename p)" using is_cstr_len [OF assms(2)] by (simp add: cstr_padded)
  then have d: "taskfinished.datagram (env_now ?e) ?m = finished_datagram (env_now (envs (pm_sends s))) st p s"
    by (simp add: taskfinished.datagram_def finished_datagram_def SDMTaskFinished_view_def SDMTaskFinished_new_def SDMmessage.defs pm_env_at_def)
  have e: "length (env_stk ?e) = BUFSIZE" "\<And>a p. net_connect (env_net ?e) a p \<noteq> IP_SOCK_INVALID"
    using reachable_pm_env [where envs = envs and s = s and i = 0, OF assms(1)] by (simp_all add: reachable_env_def)
  have "TaskManager ?e = pm_TaskManager s" by (simp add: pm_env_at_def)
  then obtain m' where "pm_send_TM envs SDMTaskFinished_Send ?m s =
      Some (pm_log_sent 1 [(pm_TaskManager s, finished_datagram (env_now (envs (pm_sends s))) st p s)] s, m')"
    using taskfinished.SendTo_once [OF wf TrueI e(1) _ _ e(2), of "env_ack ?e" "env_now ?e" "pm_TaskManager s"]
    by (auto simp: pm_send_TM_def pm_send_to_def SDMTaskFinished_Send_def SendTM_def d)
  with m show thesis by (rule that)
qed

lemma send_cancel:
  assumes "\<And>i. reachable_env (envs i)" "\<And>i. length (env_ack (envs i)) = 16"
  obtains k m' where "k \<le> NUMRETRIES" "pm_send_DM envs SDMCancelxTEDS_Send ((cancel_message (m_uiSdmPid p) s)\<lparr>SDMCancelxTEDS_fullCancel := full\<rparr>) s =
    Some (pm_log_sent 1 (replicate (Suc k) (pm_DataManager s, cancel_datagram (env_now (envs (pm_sends s))) full p s)) s, m')"
proof -
  let ?e = "pm_env_at envs s 0"
  let ?m = "(cancel_message (m_uiSdmPid p) s)\<lparr>SDMCancelxTEDS_fullCancel := full, msg_length := 11\<rparr>"
  have wf: "SDMCancelxTEDS_wf ?m" "SDMCancelxTEDS_ready ?m"
    by (simp_all add: SDMCancelxTEDS_wf_def SDMCancelxTEDS_ready_def cancel_message_def SDMCancelxTEDS_new_def new_message_def SDMmessage.defs)
  have d: "cancelxteds.datagram (env_now ?e) ?m = cancel_datagram (env_now (envs (pm_sends s))) full p s"
    by (simp add: cancelxteds.datagram_def cancel_datagram_def SDMCancelxTEDS_view_def cancel_message_def SDMCancelxTEDS_new_def
        SDMmessage.defs pm_env_at_def pm_source_def)
  have e: "length (env_stk ?e) = BUFSIZE" "\<And>a p. net_connect (env_net ?e) a p \<noteq> IP_SOCK_INVALID" "length (env_ack ?e) = 16"
    using reachable_pm_env [where envs = envs and s = s and i = 0, OF assms(1)] assms(2) by (simp_all add: reachable_env_def pm_env_at_def)
  have dm: "DataManager ?e = pm_DataManager s" by (simp add: pm_env_at_def)
  obtain m' k r where k: "k \<le> NUMRETRIES" "SendTo SDMCancelxTEDS_Marshal (env_net ?e) (env_stk ?e) (env_ack ?e) (env_now ?e) ?m (pm_DataManager s) =
      Some (m', replicate (Suc k) (cancel_datagram (env_now (envs (pm_sends s))) full p s), Some r)"
    using cancelxteds.SendTo_registration [OF wf e(1) disjI2 [OF refl] e(3) e(2), of "env_now ?e" "pm_DataManager s"] unfolding d by blast
  from k(2) dm have "pm_send_DM envs SDMCancelxTEDS_Send ((cancel_message (m_uiSdmPid p) s)\<lparr>SDMCancelxTEDS_fullCancel := full\<rparr>) s =
    Some (pm_log_sent 1 (replicate (Suc k) (pm_DataManager s, cancel_datagram (env_now (envs (pm_sends s))) full p s)) s, m')"
    by (simp add: pm_send_DM_def pm_send_to_def SDMCancelxTEDS_Send_def SendDM_def)
  with k(1) show thesis by (rule that)
qed

lemma find_os_pid:
  assumes "i < length l" "m_OsPid (l ! i) = pid" "\<forall>j<i. m_OsPid (l ! j) \<noteq> pid"
  shows "GetIndexOfOsPid pid l = int i"
  using assms by (simp add: GetIndexOfOsPid_def index_of_iff first_index_eq)

lemma find_no_os_pid: "q \<notin> m_OsPid ` set l \<Longrightarrow> GetIndexOfOsPid q l = - 1"
proof -
  assume "q \<notin> m_OsPid ` set l"
  then have "first_index (\<lambda>p. m_OsPid p = q) l = None" by (auto simp: first_index_None)
  then show ?thesis by (simp add: GetIndexOfOsPid_def index_of_def)
qed

text \<open>
  C20. The end of a task that is in the list and that the monitor had not marked as failed is reported: the Task Manager
  gets one message with the task's id, its exit status and its name, then the Data Manager is told, until it
  acknowledges and at most six times, that the task's xTEDS is gone; and the task is taken out of the list. This is so in
  every mode of the Task Manager, although the comment above \<^verbatim>\<open>SigChldHandler\<close> says that the message is not sent during a
  reset: the test of the mode is always true. The end of a process that is not in the list, such as one that the
  monitor has removed after too many failures, is not reported and changes nothing.
\<close>

theorem task_end_reported:
  assumes "\<And>i. reachable_env (envs i)" "\<And>i. length (env_ack (envs i)) = 16" "tasks_ok s" "pid \<noteq> 0" "pid \<noteq> - 1"
    and "i < length (runningTaskList s)" "m_OsPid (runningTaskList s ! i) = pid" "\<forall>j<i. m_OsPid (runningTaskList s ! j) \<noteq> pid"
    and "\<not> m_bFailedState (runningTaskList s ! i)"
  shows "(\<exists>s' k. reap envs pid st s = Some s' \<and> k \<le> NUMRETRIES
    \<and> runningTaskList s' = take i (runningTaskList s) @ drop (Suc i) (runningTaskList s)
    \<and> pm_wire s' = pm_wire s @ (pm_TaskManager s, finished_datagram (env_now (envs (pm_sends s))) st (runningTaskList s ! i) s)
        # replicate (Suc k) (pm_DataManager s, cancel_datagram (env_now (envs (pm_sends s + 1))) 0 (runningTaskList s ! i) s))
    \<and> (\<forall>q. q \<notin> m_OsPid ` set (runningTaskList s) \<longrightarrow> reap envs q st s = Some s)"
proof -
  have gone: "reap envs q st s = Some s" if "q \<notin> m_OsPid ` set (runningTaskList s)" for q
    using that by (auto simp: reap_def find_no_os_pid)
  let ?p = "runningTaskList s ! i"
  let ?d = "finished_datagram (env_now (envs (pm_sends s))) st ?p s"
  let ?s1 = "PM_MessageSent (pm_log_sent 1 [(pm_TaskManager s, ?d)] s)"
  have idx: "GetIndexOfOsPid pid (runningTaskList s) = int i" by (rule find_os_pid) (use assms in auto)
  have "is_cstr 128 (m_strFilename ?p)" using assms(3,6) by (simp add: tasks_ok_def procs_ok_def)
  then obtain m m' where m: "finished_message envs st ?p s = Some m"
    "pm_send_TM envs SDMTaskFinished_Send m s = Some (pm_log_sent 1 [(pm_TaskManager s, ?d)] s, m')"
    using send_finished [where envs = envs, OF assms(1)] by blast
  have eq: "(cancel_message (m_uiSdmPid ?p) ?s1)\<lparr>SDMCancelxTEDS_fullCancel := 0\<rparr> = cancel_message (m_uiSdmPid ?p) ?s1"
    by (simp add: cancel_message_def SDMCancelxTEDS_new_def SDMmessage.defs)
  obtain k c where k: "k \<le> NUMRETRIES" "pm_send_DM envs SDMCancelxTEDS_Send (cancel_message (m_uiSdmPid ?p) ?s1) ?s1 =
      Some (pm_log_sent 1 (replicate (Suc k) (pm_DataManager ?s1, cancel_datagram (env_now (envs (pm_sends ?s1))) 0 ?p ?s1)) ?s1, c)"
    using send_cancel [where envs = envs and s = ?s1 and p = ?p and full = 0, OF assms(1,2)] unfolding eq by blast
  have f: "pm_DataManager ?s1 = pm_DataManager s" "pm_sends ?s1 = pm_sends s + 1" "pm_source q ?s1 = pm_source q s"
    "runningTaskList ?s1 = runningTaskList s" "pm_wire ?s1 = pm_wire s @ [(pm_TaskManager s, ?d)]" for q
    by (simp_all add: PM_MessageSent_def pm_log_sent_def pm_source_def)
  have sent: "runningTaskList (PM_MessageSent (pm_log_sent 1 w ?s1)) = runningTaskList s" "pm_wire (PM_MessageSent (pm_log_sent 1 w ?s1)) = pm_wire ?s1 @ w" for w
    by (simp_all add: PM_MessageSent_def pm_log_sent_def)
  have "tm_mode s \<noteq> 2 \<or> tm_mode s \<noteq> 1" by auto
  then show ?thesis
    using m k idx assms(4-6,9) sent f gone
    by (auto simp: reap_def Let_def IsNormalFinish_def Remove_nth cancel_datagram_def)
qed

theorem task_end_reported_witness:
  "\<exists>s' k. reap (\<lambda>_. working_env) 100 0 ((sample_manager (\<lambda>_. None))\<lparr>runningTaskList :=
      [PMProcess_new\<lparr>m_strFilename := sample_name, m_uiSdmPid := 7, m_OsPid := 100\<rparr>]\<rparr>) = Some s'
    \<and> runningTaskList s' = [] \<and> k \<le> NUMRETRIES \<and> length (pm_wire s') = k + 2"
proof -
  let ?p = "PMProcess_new\<lparr>m_strFilename := sample_name, m_uiSdmPid := 7, m_OsPid := 100\<rparr>"
  let ?s = "(sample_manager (\<lambda>_. None))\<lparr>runningTaskList := [?p]\<rparr>"
  have ok: "tasks_ok ?s" by (simp add: tasks_ok_def procs_ok_def sample_name_cstr sample_manager_def)
  have a: "length (env_ack working_env) = 16" by (simp add: working_env_def)
  have w: "pm_wire ?s = []" by (simp add: sample_manager_def)
  have "\<not> m_bFailedState ?p" by (simp add: PMProcess_new_def)
  with task_end_reported [where envs = "\<lambda>_. working_env" and st = 0 and i = 0, OF working_env_ok(1) a ok, of 100] w show ?thesis by fastforce
qed

text \<open>The message with which the Process Manager tells itself to start a task again.\<close>

definition restart_datagram :: "timeval \<Rightarrow> PMProcess \<Rightarrow> byte list" where
  "restart_datagram now p = datagram_bytes SDM_Task now (SDMTask_enc (SDMComponent_ID_new, 0, m_uiSdmPid p, 0, cstr (m_strFilename p)))"

definition self_id :: "pm \<Rightarrow> SDMComponent_ID" where
  "self_id s = SDMComponent_ID_new\<lparr>m_ulAddress := Address_PM s, m_usPort := PORT_PM\<rparr>"

lemma reap_failed:
  assumes "\<And>i. reachable_env (envs i)" "tasks_ok s" "pid \<noteq> 0" "pid \<noteq> - 1"
    and "i < length (runningTaskList s)" "m_OsPid (runningTaskList s ! i) = pid" "\<forall>j<i. m_OsPid (runningTaskList s ! j) \<noteq> pid"
    and "m_bFailedState (runningTaskList s ! i)"
  obtains m where "reap envs pid st s = Some (pm_log_sent 1 [(self_id s, restart_datagram (env_now (envs (pm_sends s))) (runningTaskList s ! i))]
      (s\<lparr>runningTaskList := (runningTaskList s)[i := PMProcess_Reset (runningTaskList s ! i)]\<rparr>))"
    "SDMTask_wf m" "task_msg.datagram (env_now (envs (pm_sends s))) m = restart_datagram (env_now (envs (pm_sends s))) (runningTaskList s ! i)"
    "SDMTask_pid m = m_uiSdmPid (runningTaskList s ! i)" "cstr (SDMTask_filename m) = cstr (m_strFilename (runningTaskList s ! i))"
proof -
  let ?p = "runningTaskList s ! i"
  let ?s1 = "s\<lparr>runningTaskList := (runningTaskList s)[i := PMProcess_Reset ?p]\<rparr>" and ?now = "env_now (envs (pm_sends s))"
  let ?e = "pm_env_at envs ?s1 0" and ?f = "cstr (m_strFilename ?p) @ replicate (128 - length (cstr (m_strFilename ?p))) 0"
  let ?m = "(SDMTask_new (pm_junk envs ?s1 128))\<lparr>SDMTask_pid := m_uiSdmPid ?p, SDMTask_filename := ?f\<rparr>"
  have idx: "GetIndexOfOsPid pid (runningTaskList s) = int i" by (rule find_os_pid) (use assms in auto)
  have c: "is_cstr 128 (m_strFilename ?p)" using assms(2,5) by (simp add: tasks_ok_def procs_ok_def)
  have jl: "length (SDMTask_filename (SDMTask_new (pm_junk envs ?s1 128))) = 128"
    using length_pm_junk [where envs = envs and s = ?s1 and n = 128, OF assms(1)] by (simp add: SDMTask_new_def SDMmessage.defs)
  have wf: "SDMTask_wf ?m"
    using is_cstr_len [OF c] by (simp add: SDMTask_wf_def SDMTask_new_def new_message_def SDMmessage.defs is_cstr_padded)
  have cf: "cstr ?f = cstr (m_strFilename ?p)" using is_cstr_len [OF c] by (simp add: cstr_padded)
  then have d: "task_msg.datagram ?now ?m = restart_datagram ?now ?p"
    by (simp add: task_msg.datagram_def restart_datagram_def SDMTask_view_def SDMTask_new_def SDMmessage.defs)
  have e: "length (env_stk ?e) = BUFSIZE" "\<And>a p. net_connect (env_net ?e) a p \<noteq> IP_SOCK_INVALID" "env_now ?e = ?now"
    using reachable_pm_env [where envs = envs and s = ?s1 and i = 0, OF assms(1)] by (simp_all add: reachable_env_def pm_env_at_def)
  obtain m' x where "SDMTask_Send_to ?e ?m (self_id s) = Some (m', [restart_datagram ?now ?p], x)"
    using task_msg.SendTo_once [OF wf TrueI e(1) _ _ e(2), of "env_ack ?e" "env_now ?e" "self_id s"] d unfolding e(3) SDMTask_Send_to_def by auto
  then have "reap envs pid st s = Some (pm_log_sent 1 [(self_id s, restart_datagram ?now ?p)] ?s1)"
    using idx assms(3,4,8) strncpy_cstr [OF c jl] jl
    by (simp add: reap_def Let_def IsNormalFinish_def PMProcess_Reset_def pm_send_to_def self_id_def)
  then show thesis using wf d by (rule that) (simp_all add: cf)
qed

text \<open>
  A kill message for a task that waits to be started again, after the monitor had given it up and it has
  ended, sends \<^verbatim>\<open>SIGKILL\<close> to process id 0, which is the process group of the Process Manager itself.
\<close>

theorem kill_while_restarting:
  assumes "\<And>i. reachable_env (envs i)" "tasks_ok s" "pid \<noteq> 0" "pid \<noteq> - 1"
    and "i < length (runningTaskList s)" "m_OsPid (runningTaskList s ! i) = pid" "\<forall>j<i. m_OsPid (runningTaskList s ! j) \<noteq> pid"
    and "m_bFailedState (runningTaskList s ! i)" "SDMKill_wf m" "SDMKill_PID m = m_uiSdmPid (runningTaskList s ! i)" "SDMKill_killLevel m \<noteq> 1"
  shows "\<exists>s1 s2. reap envs pid st s = Some s1 \<and> PM_KillHandler envs (kill.datagram now m @ rest) s1 = Some s2 \<and> pm_killed s2 = pm_killed s @ [0]"
proof -
  let ?p = "runningTaskList s ! i"
  let ?l = "(runningTaskList s)[i := PMProcess_Reset ?p]"
  let ?s1 = "pm_log_sent 1 [(self_id s, restart_datagram (env_now (envs (pm_sends s))) ?p)] (s\<lparr>runningTaskList := ?l\<rparr>)"
  have r: "reap envs pid st s = Some ?s1" using reap_failed [where envs = envs, OF assms(1-8)] by blast
  have "SDMKill_wf SDMKill_new" by (simp add: SDMKill_wf_def SDMKill_new_def new_message_def SDMmessage.defs)
  then obtain m' where m': "SDMKill_Unmarshal SDMKill_new (kill.datagram now m @ rest) = Some (m', int (length (kill.datagram now m)))" "SDMKill_view m' = SDMKill_view m"
    using kill.Unmarshal_datagram [OF assms(9) TrueI, of SDMKill_new now rest] by blast
  then have v: "SDMKill_PID m' = m_uiSdmPid ?p" "SDMKill_killLevel m' \<noteq> 1" using assms(10,11) by (simp_all add: SDMKill_view_def)
  have d: "distinct (map m_uiSdmPid (runningTaskList s))" using assms(2) by (simp add: tasks_ok_def procs_ok_def)
  have "GetIndexOfSdmPid (m_uiSdmPid ?p) ?l = int i" unfolding GetIndexOfSdmPid_def
  proof (rule index_of_unique)
    fix j assume j: "j < length ?l" "m_uiSdmPid (?l ! j) = m_uiSdmPid ?p"
    then have "m_uiSdmPid (runningTaskList s ! j) = m_uiSdmPid ?p" by (cases "j = i") (simp_all add: PMProcess_Reset_def)
    then show "j = i" using d j(1) assms(5) nth_eq_iff_index_eq [OF d, of j i] by simp
  qed (use assms(5) in \<open>simp_all add: PMProcess_Reset_def\<close>)
  then have "PM_KillHandler envs (kill.datagram now m @ rest) ?s1 = Some (kill_process (?l ! i) ?s1)"
    using m'(1) v assms(5) by (simp add: PM_KillHandler_def Let_def pm_log_sent_def)
  moreover have "pm_killed (kill_process (?l ! i) ?s1) = pm_killed s @ [0]"
    using assms(5) by (simp add: kill_process_def pm_log_sent_def PMProcess_Reset_def)
  ultimately show ?thesis using r by blast
qed

theorem kill_while_restarting_witness:
  "\<exists>s1 s2. reap (\<lambda>_. working_env) 100 0 ((sample_manager (\<lambda>_. None))\<lparr>runningTaskList :=
      [Failure (PMProcess_new\<lparr>m_strFilename := sample_name, m_uiSdmPid := 7, m_OsPid := 100\<rparr>)]\<rparr>) = Some s1
    \<and> PM_KillHandler (\<lambda>_. working_env) (kill.datagram (1, 2) (SDMKill_new\<lparr>SDMKill_PID := 7\<rparr>)) s1 = Some s2 \<and> pm_killed s2 = [0]"
proof -
  let ?p = "Failure (PMProcess_new\<lparr>m_strFilename := sample_name, m_uiSdmPid := 7, m_OsPid := 100\<rparr>)"
  let ?s = "(sample_manager (\<lambda>_. None))\<lparr>runningTaskList := [?p]\<rparr>" and ?m = "SDMKill_new\<lparr>SDMKill_PID := 7\<rparr>"
  have ok: "tasks_ok ?s" by (simp add: tasks_ok_def procs_ok_def sample_name_cstr sample_manager_def Failure_def)
  have wf: "SDMKill_wf ?m" "SDMKill_killLevel ?m \<noteq> 1" by (simp_all add: SDMKill_wf_def SDMKill_new_def new_message_def SDMmessage.defs)
  have k: "pm_killed ?s = []" by (simp add: sample_manager_def)
  show ?thesis
    using kill_while_restarting [where envs = "\<lambda>_. working_env" and st = 0 and i = 0 and m = ?m and now = "(1, 2)" and rest = "[]", OF working_env_ok(1) ok, of 100] wf k
    by (simp add: Failure_def)
qed

section \<open>Ports\<close>

text \<open>
  C36. A request for a port is always answered, as long as one of the ports from 4000 to 65533 is free: the search ends, the answer
  has a free port, and the next search starts behind it.
\<close>

theorem port_request_answered:
  assumes "free p" "4000 \<le> p" "p \<le> 65533" "4000 \<le> CurPort s"
  shows "\<exists>q. ReqPortHandler free s = Some (s\<lparr>CurPort := q + 1\<rparr>, SDM_ReqPort # word_bytes 4 (of_int q :: 32 word))
    \<and> free q \<and> 4000 \<le> q \<and> (CurPort s \<le> 65533 \<longrightarrow> q \<le> 65533)"
proof -
  obtain q where q: "FindAvailablePort free (CurPort s) = Some (q, q + 1)" "free q" "4000 \<le> q" "CurPort s \<le> 65533 \<longrightarrow> q \<le> 65533"
    using FindAvailablePort_terminates [of free p "CurPort s", OF assms] by blast
  have "PUT_LONG (SDM_ReqPort # replicate 4 0) 1 (of_int q) = Some (SDM_ReqPort # word_bytes 4 (of_int q :: 32 word))"
    by (simp add: PUT_TYPE4_bytes put_bytes_def)
  with q show ?thesis by (intro exI [of _ q]) (simp add: ReqPortHandler_def)
qed

theorem port_request_answered_witness:
  "\<exists>q. ReqPortHandler (\<lambda>p. p = 4005) ((sample_manager (\<lambda>_. None))\<lparr>CurPort := 65000\<rparr>) =
    Some ((sample_manager (\<lambda>_. None))\<lparr>CurPort := q + 1\<rparr>, SDM_ReqPort # word_bytes 4 (of_int q :: 32 word)) \<and> q = 4005"
  using port_request_answered [of "\<lambda>p. p = 4005" 4005 "(sample_manager (\<lambda>_. None))\<lparr>CurPort := 65000\<rparr>"] by simp

end
