(* ===== verification/Code_Transfer.thy ===== *)
theory Code_Transfer
  imports PM_Properties Task_Manager "HOL-Library.Sublist"
begin

text \<open>
  The transfer of executables from the Task Manager to a Process Manager: \<^verbatim>\<open>SendCode\<close> of \<^verbatim>\<open>tm/tm.cpp\<close>, \<^verbatim>\<open>HandleCodeMessage\<close> and
  \<^verbatim>\<open>GetCode\<close> of \<^verbatim>\<open>pm/pm.cpp\<close>, \<^verbatim>\<open>TaskHandler\<close>, \<^verbatim>\<open>ErrorHandler\<close> and \<^verbatim>\<open>RemoveCodeReceiver\<close> of \<^verbatim>\<open>pm/pm_main.cpp\<close>.

  A Process Manager asks for one segment of the file at a time. Its listener passes the answers on to the
  thread of the task through a pipe, from which the thread reads one message at a time. The properties say that
  the file arrives as it was, whatever order and however often the segments arrive in, what happens when there is no such
  file, and what goes wrong with an empty one.

  Files can be created, and their contents are seen by others at once. The state of the Process Manager is changed by
  no other thread while \<^verbatim>\<open>TaskHandler\<close> runs.
\<close>

section \<open>The Task Manager\<close>

abbreviation (input) CODE_SIZE :: nat where "CODE_SIZE \<equiv> 24139"

text \<open>The path of a file. The three places are all the working directory; \<^verbatim>\<open>snprintf\<close> writes at most 255 characters.\<close>

definition task_path :: "32 word \<Rightarrow> byte list \<Rightarrow> byte list" where
  "task_path version filename =
     (if version = 1 \<or> version = 2 \<or> version = 3 then take 255 (chars ''./'' @ filename) else filename)"

definition num_messages :: "nat \<Rightarrow> 16 word" where
  "num_messages st_size =
     (let n_messages = of_nat (st_size div CODE_SIZE) in
      if unat n_messages * CODE_SIZE < st_size then n_messages + 1 else n_messages)"

text \<open>The message for the bytes that \<^verbatim>\<open>read\<close> put into its code member.\<close>

definition code_message :: "byte list \<Rightarrow> 16 word \<Rightarrow> 16 word \<Rightarrow> buffer \<Rightarrow> SDMCode \<Rightarrow> SDMCode option" where
  "code_message bs seq n file_name msgCode = do {
     code \<leftarrow> put_bytes (SDMCode_code msgCode) 0 bs;
     let msgCode = msgCode\<lparr>SDMCode_code := code\<rparr>;
     let msgCode = (if length bs > 0 then msgCode\<lparr>SDMCode_code_length := of_nat (length bs)\<rparr> else msgCode);
     f \<leftarrow> strcpy (SDMCode_filename msgCode) 0 file_name 0;
     Some (msgCode\<lparr>SDMCode_seq_num := seq, SDMCode_num_segments := n, SDMCode_filename := f\<rparr>) }"

text \<open>One send that returns the message object.\<close>

definition send_code :: "(nat \<Rightarrow> env) \<Rightarrow> SDMCode \<Rightarrow> SDMComponent_ID \<Rightarrow> tm \<Rightarrow> (tm \<times> SDMCode) option" where
  "send_code envs m destination s = do {
     let e = env_at envs s 0;
     (m, sent, _) \<leftarrow> SendTo SDMCode_Marshal (env_net e) (env_stk e) (env_ack e) (env_now e) m destination;
     Some (MessageSent (log_sent 1 (map (Pair destination) sent) s), m) }"

text \<open>The loop for a whole file, over the bytes that are still to be read.\<close>

function send_file :: "(nat \<Rightarrow> env) \<Rightarrow> 16 word \<Rightarrow> buffer \<Rightarrow> SDMComponent_ID \<Rightarrow> byte list \<Rightarrow> 16 word \<Rightarrow> SDMCode \<Rightarrow> tm \<Rightarrow> tm option" where
  "send_file envs n_messages file_name source bytes sequence msgCode s =
     (if bytes = [] then Some s
      else case code_message (take CODE_SIZE bytes) (sequence + 1) n_messages file_name msgCode of
        None \<Rightarrow> None
      | Some msgCode \<Rightarrow> (case send_code envs msgCode source s of
          None \<Rightarrow> None
        | Some (s, msgCode) \<Rightarrow> send_file envs n_messages file_name source (drop CODE_SIZE bytes) (sequence + 1) msgCode s))"
  by pat_completeness auto
termination by (relation "measure (\<lambda>(envs, n, f, src, bytes, sq, m, s). length bytes)") auto

declare send_file.simps [simp del]

abbreviation (input) SDM_ERROR_CODE_NOT_FOUND :: byte where "SDM_ERROR_CODE_NOT_FOUND \<equiv> 1"

definition SendCode :: "(nat \<Rightarrow> env) \<Rightarrow> (byte list \<Rightarrow> byte list option) \<Rightarrow> buffer \<Rightarrow> tm \<Rightarrow> tm option" where
  "SendCode envs files buf s = do {
     let msgCode = SDMCode_new (junk envs s MAX_FILENAME_SIZE) (junk envs s CODE_SIZE);
     (msgRequest, r) \<leftarrow> SDMReqCode_Unmarshal (SDMReqCode_new (junk envs s MAX_FILENAME_SIZE)) buf;
     if r < 0 then Some s
     else do {
       n \<leftarrow> strlen (SDMReqCode_filename msgRequest) 0;
       file_name \<leftarrow> memcpy (replicate MAX_FILENAME_SIZE 0) 0 (SDMReqCode_filename msgRequest) 0 (n + 1);
       case files (task_path (SDMReqCode_version msgRequest) (cstr (SDMReqCode_filename msgRequest))) of
         None \<Rightarrow> do {
           e \<leftarrow> strncpy (SDMError_error_msg SDMError_new) 0 (SDMReqCode_filename msgRequest) 0 256;
           s \<leftarrow> send_to envs SDMError_Send_to (SDMError_new\<lparr>SDMError_error := SDM_ERROR_CODE_NOT_FOUND, SDMError_error_msg := e\<rparr>)
             (SDMReqCode_source msgRequest) s;
           Some (MessageSent s) }
       | Some bytes \<Rightarrow> do {
           let n_messages = num_messages (length bytes);
           if SDMReqCode_seq_num msgRequest > 0 then do {
             let seq_to_send = SDMReqCode_seq_num msgRequest;
             msgCode \<leftarrow> code_message (take CODE_SIZE (drop ((unat seq_to_send - 1) * CODE_SIZE) bytes)) seq_to_send n_messages file_name msgCode;
             (s, _) \<leftarrow> send_code envs msgCode (SDMReqCode_source msgRequest) s;
             Some s }
           else send_file envs n_messages file_name (SDMReqCode_source msgRequest) bytes 0 msgCode s } } }"

section \<open>The pipes of a Process Manager\<close>

text \<open>The result is what is written: the descriptor of a pipe and the bytes.\<close>

definition HandleCodeMessage :: "(nat \<Rightarrow> env) \<Rightarrow> buffer \<Rightarrow> pm \<Rightarrow> (int \<times> byte list) option option" where
  "HandleCodeMessage envs buf s = do {
     (msgCode, r) \<leftarrow> SDMCode_Unmarshal (SDMCode_new (pm_junk envs s MAX_FILENAME_SIZE) (pm_junk envs s CODE_SIZE)) buf;
     if r < 0 then Some None
     else (case first_index (\<lambda>c. cstr (recv_filename c) = cstr (SDMCode_filename msgCode)) (codeReceivers s) of
         None \<Rightarrow> Some None
       | Some receiver_index \<Rightarrow> do {
           d \<leftarrow> get_bytes buf 0 BUFSIZE;
           Some (Some (fd_code (codeReceivers s ! receiver_index), d)) }) }"

text \<open>\<open>ok\<close> tells whether a descriptor can be written to; after a failure the search goes on.\<close>

definition ErrorHandler :: "(int \<Rightarrow> bool) \<Rightarrow> buffer \<Rightarrow> pm \<Rightarrow> (int \<times> byte list) option option" where
  "ErrorHandler ok buf s = do {
     (msgError, lMsgSize) \<leftarrow> SDMError_Unmarshal SDMError_new buf;
     if lMsgSize < 0 then Some None
     else (case first_index (\<lambda>c. cstr (recv_filename c) = cstr (SDMError_error_msg msgError) \<and> ok (fd_code c)) (codeReceivers s) of
         None \<Rightarrow> Some None
       | Some i \<Rightarrow> do {
           d \<leftarrow> get_bytes buf 0 (nat lMsgSize);
           Some (Some (fd_code (codeReceivers s ! i), d)) }) }"

text \<open>The first entry for the file is taken out, and its descriptor closed.\<close>

definition RemoveCodeReceiver :: "byte list \<Rightarrow> pm \<Rightarrow> pm" where
  "RemoveCodeReceiver strFilename s =
     (case first_index (\<lambda>c. cstr (recv_filename c) = strFilename) (codeReceivers s) of
        None \<Rightarrow> s
      | Some uiIndex \<Rightarrow> s\<lparr>codeReceivers := take uiIndex (codeReceivers s) @ drop (uiIndex + 1) (codeReceivers s)\<rparr>)"

section \<open>GetCode\<close>

text \<open>
  The local variables of \<^verbatim>\<open>GetCode\<close>. A round of its loop sends a request, polls the pipe and reads a message:
  the poll may time out, but \<^verbatim>\<open>read\<close> then waits for as long as it takes. \<open>None\<close> is a read that fails. The loop ends
  with a break, by the last segment, or by a return for a segment beyond the last one.
\<close>

record code_transfer =
  msgBuffer :: buffer
  rmsgCode :: SDMCode
  msgRequestCode :: SDMReqCode
  usCurSequenceNumber :: "16 word"
  usPollMiss :: "16 word"

datatype outcome = Waiting | Invalid | Fatal | Received

type_synonym pipe_read = "bool \<times> byte list option"

text \<open>\<^verbatim>\<open>fseek\<close> and \<^verbatim>\<open>fwrite\<close>: a gap is filled with zeros.\<close>

definition file_write :: "nat \<Rightarrow> byte list \<Rightarrow> byte list \<Rightarrow> byte list" where
  "file_write pos bs c = (if bs = [] then c else take pos (c @ replicate (pos - length c) 0) @ bs @ drop (pos + length bs) c)"

definition GetCode_start :: "(nat \<Rightarrow> env) \<Rightarrow> buffer \<Rightarrow> 32 word \<Rightarrow> pm \<Rightarrow> (pm \<times> code_transfer) option" where
  "GetCode_start envs strFilename iVersion s = do {
     let req = SDMReqCode_new (pm_junk envs s MAX_FILENAME_SIZE);
     f \<leftarrow> strncpy (SDMReqCode_filename req) 0 strFilename 0 (length (SDMReqCode_filename req));
     let req = req\<lparr>SDMReqCode_filename := f, SDMReqCode_version := iVersion,
       SDMReqCode_source := (SDMReqCode_source req)\<lparr>m_ulAddress := Address_PM s, m_usPort := PORT_PM\<rparr>\<rparr>;
     let t = \<lparr>msgBuffer = pm_junk envs s BUFSIZE, rmsgCode = SDMCode_new (pm_junk envs s MAX_FILENAME_SIZE) (pm_junk envs s CODE_SIZE),
       msgRequestCode = req, usCurSequenceNumber = 1, usPollMiss = 0\<rparr>;
     Some (s\<lparr>pm_files := (pm_files s)(cstr strFilename \<mapsto> [])\<rparr>, t) }"

definition GetCode_request :: "(nat \<Rightarrow> env) \<Rightarrow> code_transfer \<Rightarrow> pm \<Rightarrow> (pm \<times> code_transfer) option" where
  "GetCode_request envs t s = do {
     (s, req) \<leftarrow> pm_send_TM envs SDMReqCode_Send ((msgRequestCode t)\<lparr>SDMReqCode_seq_num := usCurSequenceNumber t\<rparr>) s;
     Some (PM_MessageSent s, t\<lparr>msgRequestCode := req\<rparr>) }"

definition GetCode_read :: "byte list \<Rightarrow> pipe_read \<Rightarrow> code_transfer \<Rightarrow> pm \<Rightarrow> (pm \<times> code_transfer \<times> outcome) option" where
  "GetCode_read name r t s =
     (let (timeout, data) = r; miss = usPollMiss t; t = (if timeout then t\<lparr>usPollMiss := miss + 1\<rparr> else t) in
      if timeout \<and> miss = 10 then Some (s, t, Invalid)
      else case data of
        None \<Rightarrow> Some (s, t, Invalid)
      | Some d \<Rightarrow> do {
          b \<leftarrow> put_bytes (msgBuffer t) 0 d;
          let t = t\<lparr>msgBuffer := b\<rparr>;
          b0 \<leftarrow> get_byte b 0;
          if b0 \<noteq> SDM_Code then Some (s, t, Invalid)
          else do {
            (m, _) \<leftarrow> SDMCode_Unmarshal (rmsgCode t) b;
            let t = t\<lparr>rmsgCode := m\<rparr>;
            let cur = usCurSequenceNumber t;
            if SDMCode_seq_num m \<noteq> cur then Some (s, t, Waiting)
            else if SDMCode_seq_num m > SDMCode_num_segments m then Some (s, t, Fatal)
            else do {
              code \<leftarrow> get_bytes (SDMCode_code m) 0 (unat (SDMCode_code_length m));
              old \<leftarrow> pm_files s name;
              let s = s\<lparr>pm_files := (pm_files s)(name \<mapsto> file_write ((unat (SDMCode_seq_num m) - 1) * CODE_SIZE) code old)\<rparr>;
              Some (s, t\<lparr>usCurSequenceNumber := cur + 1\<rparr>, if cur \<ge> SDMCode_num_segments m then Received else Waiting) } } })"

text \<open>The loop over what the reads give; it is left waiting at the end of the list.\<close>

primrec GetCode_loop :: "(nat \<Rightarrow> env) \<Rightarrow> byte list \<Rightarrow> pipe_read list \<Rightarrow> code_transfer \<Rightarrow> pm \<Rightarrow> (pm \<times> code_transfer \<times> outcome) option" where
  "GetCode_loop envs name [] t s = do {
     (s, t) \<leftarrow> GetCode_request envs t s;
     Some (s, t, Waiting) }"
| "GetCode_loop envs name (r # rs) t s = do {
     (s, t) \<leftarrow> GetCode_request envs t s;
     (s, t, out) \<leftarrow> GetCode_read name r t s;
     if out = Waiting then GetCode_loop envs name rs t s else Some (s, t, out) }"

text \<open>The result is \<open>None\<close> as long as the loop waits.\<close>

definition GetCode :: "(nat \<Rightarrow> env) \<Rightarrow> buffer \<Rightarrow> 32 word \<Rightarrow> pipe_read list \<Rightarrow> pm \<Rightarrow> (pm \<times> bool option) option" where
  "GetCode envs strFilename iVersion reads s = do {
     (s, t) \<leftarrow> GetCode_start envs strFilename iVersion s;
     (s, t, out) \<leftarrow> GetCode_loop envs (cstr strFilename) reads t s;
     Some (case out of
       Waiting \<Rightarrow> (s, None)
     | Fatal \<Rightarrow> (s, Some False)
     | Invalid \<Rightarrow> let s = RemoveCodeReceiver (cstr strFilename) s in (s\<lparr>pm_files := (pm_files s)(cstr strFilename := None)\<rparr>, Some False)
     | Received \<Rightarrow> (RemoveCodeReceiver (cstr strFilename) s, Some True)) }"

section \<open>TaskHandler\<close>

text \<open>\<open>pipe\<close> is the descriptor of the end of the pipe that is written to, if one can be created. The message about a
  failed transfer has the same fields as the one about a process that has ended.\<close>

definition queue_task :: "SDMTask \<Rightarrow> pm \<Rightarrow> pm option" where
  "queue_task msgTask s = do {
     newTask \<leftarrow> PendingTask_create (SDMTask_filename msgTask) (SDMTask_pid msgTask);
     Some (s\<lparr>taskQueue := taskQueue s @ [newTask]\<rparr>) }"

definition TaskHandler :: "(nat \<Rightarrow> env) \<Rightarrow> int option \<Rightarrow> pipe_read list \<Rightarrow> buffer \<Rightarrow> pm \<Rightarrow> pm option" where
  "TaskHandler envs pipe reads msgBuf s = do {
     (msgTask, r) \<leftarrow> SDMTask_Unmarshal (SDMTask_new (pm_junk envs s MAX_FILENAME_SIZE)) msgBuf;
     if r < 0 then Some s
     else if IsFileAvailable (cstr (SDMTask_filename msgTask)) s then queue_task msgTask s
     else (case pipe of
         None \<Rightarrow> Some s
       | Some fd \<Rightarrow> do {
           f \<leftarrow> strncpy (pm_junk envs s MAX_FILENAME_SIZE) 0 (SDMTask_filename msgTask) 0 MAX_FILENAME_SIZE;
           f \<leftarrow> put_byte f (MAX_FILENAME_SIZE - 1) 0;
           let s = s\<lparr>codeReceivers := codeReceivers s @ [\<lparr>fd_code = fd, recv_filename = f\<rparr>]\<rparr>;
           (s, bSuccess) \<leftarrow> GetCode envs (SDMTask_filename msgTask) (SDMTask_version msgTask) reads s;
           case bSuccess of
             None \<Rightarrow> Some s
           | Some True \<Rightarrow> queue_task msgTask s
           | Some False \<Rightarrow> do {
               msgFinished \<leftarrow> finished_message envs (- 1)
                 (PMProcess_new\<lparr>m_strFilename := SDMTask_filename msgTask, m_uiSdmPid := SDMTask_pid msgTask\<rparr>) s;
               (s, _) \<leftarrow> pm_send_TM envs SDMTaskFinished_Send msgFinished s;
               Some (PM_MessageSent s) } }) }"

section \<open>What the Task Manager answers\<close>

text \<open>The \<open>k\<close>-th segment of a file, and the message with it.\<close>

definition code_segment :: "byte list \<Rightarrow> nat \<Rightarrow> byte list" where
  "code_segment bytes k = take CODE_SIZE (drop ((k - 1) * CODE_SIZE) bytes)"

definition segment_datagram :: "timeval \<Rightarrow> byte list \<Rightarrow> byte list \<Rightarrow> 16 word \<Rightarrow> byte list" where
  "segment_datagram now name bytes seq = datagram_bytes SDM_Code now
     (SDMCode_enc (seq, num_messages (length bytes), name, code_segment bytes (unat seq)))"

lemma strcpy_over:
  assumes "is_cstr n src" "length dst = n"
  obtains f where "strcpy dst 0 src 0 = Some f" "is_cstr n f" "cstr f = cstr src"
proof -
  have "Suc (length (cstr src)) \<le> length dst" using assms is_cstr_len by fastforce
  then have "strcpy dst 0 src 0 = Some (cstr src @ 0 # drop (Suc (length (cstr src))) dst)"
    using assms by (simp add: strcpy_def strlen_0 memcpy_def get_bytes_cstr put_bytes_def)
  moreover have "is_cstr n (cstr src @ 0 # drop (Suc (length (cstr src))) dst)"
    using assms is_cstr_len [OF assms(1)] by (simp add: is_cstr_def)
  ultimately show thesis by (rule that) simp
qed

lemma code_message_ok:
  assumes "SDMCode_wf m" "SDMCode_code_length m = 0" "length bs \<le> CODE_SIZE" "is_cstr 128 f"
  obtains m' where "code_message bs sq n f m = Some m'" "SDMCode_wf m'" "SDMCode_view m' = (sq, n, cstr f, bs)"
proof -
  let ?c = "bs @ drop (length bs) (SDMCode_code m)"
  have w: "length (SDMCode_code m) = 24139" "length (SDMCode_filename m) = 128" using SDMCode_bounds [OF assms(1)] by simp_all
  have c: "put_bytes (SDMCode_code m) 0 bs = Some ?c" using assms(3) w(1) by (simp add: put_bytes_0)
  obtain g where g: "strcpy (SDMCode_filename m) 0 f 0 = Some g" "is_cstr 128 g" "cstr g = cstr f"
    using strcpy_over [OF assms(4) w(2)] by blast
  have u: "unat (of_nat (length bs) :: 16 word) = length bs" using assms(3) by (simp add: unat_of_nat)
  let ?m = "(m\<lparr>SDMCode_code := ?c, SDMCode_code_length := of_nat (length bs)\<rparr>)\<lparr>SDMCode_seq_num := sq, SDMCode_num_segments := n, SDMCode_filename := g\<rparr>"
  have "code_message bs sq n f m = Some ?m"
    using c g(1) assms(2) by (cases bs) (simp_all add: code_message_def Let_def)
  moreover have "SDMCode_wf ?m" using assms(1,3) w g(2) u by (simp add: SDMCode_wf_def)
  moreover have "SDMCode_view ?m = (sq, n, cstr f, bs)" using g(3) u by (simp add: SDMCode_view_def)
  ultimately show thesis by (rule that)
qed

lemma SDMCode_new_wf: "length f = 128 \<Longrightarrow> length c = 24139 \<Longrightarrow> SDMCode_wf (SDMCode_new f c) \<and> SDMCode_code_length (SDMCode_new f c) = 0"
  by (cases f) (simp_all add: SDMCode_wf_def SDMCode_new_def new_message_def SDMmessage.defs is_cstr_def)

lemma SDMReqCode_new_wf: "length f = 128 \<Longrightarrow> SDMReqCode_wf (SDMReqCode_new f)"
  by (cases f) (simp_all add: SDMReqCode_wf_def SDMReqCode_new_def new_message_def SDMmessage.defs is_cstr_def)

text \<open>A request with a sequence number is answered with that segment.\<close>

lemma SendCode_answers:
  assumes "\<And>i. reachable_env (envs i)" "SDMReqCode_wf m" "SDMReqCode_seq_num m \<noteq> 0"
    and "files (task_path (SDMReqCode_version m) (cstr (SDMReqCode_filename m))) = Some bytes"
  shows "SendCode envs files (reqcode.datagram now m @ rest) s =
    Some (MessageSent (log_sent 1 [(SDMReqCode_source m,
      segment_datagram (env_now (envs (tm_sends s))) (cstr (SDMReqCode_filename m)) bytes (SDMReqCode_seq_num m))] s))"
proof -
  let ?e = "env_at envs s 0" and ?k = "SDMReqCode_seq_num m" and ?name = "cstr (SDMReqCode_filename m)"
  have e: "length (env_stk ?e) = BUFSIZE" "\<And>a p. net_connect (env_net ?e) a p \<noteq> IP_SOCK_INVALID"
    using reachable_env_at [where envs = envs and s = s and i = 0, OF assms(1)] by (simp_all add: reachable_env_def)
  have j: "length (junk envs s n) = n" if "n \<le> BUFSIZE" for n using that by (rule length_junk [OF assms(1)])
  obtain r where r: "SDMReqCode_Unmarshal (SDMReqCode_new (junk envs s 128)) (reqcode.datagram now m @ rest)
      = Some (r, int (length (reqcode.datagram now m)))" "SDMReqCode_wf r" "SDMReqCode_view r = SDMReqCode_view m"
    using reqcode.Unmarshal_datagram [OF assms(2) TrueI SDMReqCode_new_wf [OF j [of 128, simplified]], of now rest] by blast
  from r(3) have v: "SDMReqCode_source r = SDMReqCode_source m" "SDMReqCode_seq_num r = ?k" "SDMReqCode_version r = SDMReqCode_version m"
    "cstr (SDMReqCode_filename r) = ?name" by (simp_all add: SDMReqCode_view_def)
  have f: "is_cstr 128 (SDMReqCode_filename r)" using SDMReqCode_bounds(1) [OF r(2)] .
  have l: "length ?name < 128" using is_cstr_len [OF f] v(4) by simp
  have "memcpy (replicate 128 0) 0 (SDMReqCode_filename r) 0 (length ?name + 1) = Some (?name @ 0 # drop (Suc (length ?name)) (replicate 128 0))"
    using get_bytes_cstr(2) [OF f] l by (simp add: memcpy_def v(4) put_bytes_def)
  moreover have "is_cstr 128 (?name @ 0 # drop (Suc (length ?name)) (replicate 128 0))" using l by (simp add: is_cstr_def)
  ultimately obtain file_name where mc: "memcpy (replicate 128 0) 0 (SDMReqCode_filename r) 0 (length ?name + 1) = Some file_name"
    and fc: "is_cstr 128 file_name" "cstr file_name = ?name" by simp
  obtain c where c: "code_message (code_segment bytes (unat ?k)) ?k (num_messages (length bytes)) file_name (SDMCode_new (junk envs s 128) (junk envs s 24139)) = Some c"
    "SDMCode_wf c" "SDMCode_view c = (?k, num_messages (length bytes), ?name, code_segment bytes (unat ?k))"
    using code_message_ok [OF _ _ _ fc(1), of "SDMCode_new (junk envs s 128) (junk envs s 24139)" "code_segment bytes (unat ?k)" ?k "num_messages (length bytes)"]
      SDMCode_new_wf [of "junk envs s 128" "junk envs s 24139"] j [of 128] j [of 24139] fc(2) by (auto simp: code_segment_def)
  have d: "code.datagram (env_now ?e) c = segment_datagram (env_now (envs (tm_sends s))) ?name bytes ?k"
    by (simp add: code.datagram_def segment_datagram_def c(3) env_at_def)
  obtain c' x where "SendTo SDMCode_Marshal (env_net ?e) (env_stk ?e) (env_ack ?e) (env_now ?e) c (SDMReqCode_source m)
      = Some (c', [segment_datagram (env_now (envs (tm_sends s))) ?name bytes ?k], x)"
    using code.SendTo_once [OF c(2) TrueI e(1) _ _ e(2), of "env_ack ?e" "env_now ?e" "SDMReqCode_source m"] unfolding d by auto
  then have "send_code envs c (SDMReqCode_source m) s =
      Some (MessageSent (log_sent 1 [(SDMReqCode_source m, segment_datagram (env_now (envs (tm_sends s))) ?name bytes ?k)] s), c')"
    by (simp add: send_code_def)
  moreover have "0 < ?k" using assms(3) by (simp add: word_gt_0)
  moreover have "strlen (SDMReqCode_filename r) 0 = Some (length ?name)" using strlen_0 [OF f] v(4) by simp
  ultimately show ?thesis
    unfolding SendCode_def Let_def r(1)
    using mc c(1) [unfolded code_segment_def] by (simp add: v assms(4))
qed

section \<open>What a Process Manager makes of the answers\<close>

text \<open>The number of segments of a file.\<close>

definition segments :: "byte list \<Rightarrow> nat" where
  "segments bytes = (length bytes + (CODE_SIZE - 1)) div CODE_SIZE"

lemma unat_of_nat_16': "n < 65536 \<Longrightarrow> unat (of_nat n :: 16 word) = n"
  by (simp add: unat_of_nat)

lemma num_messages_segments:
  assumes "segments bytes \<le> 65535"
  shows "num_messages (length bytes) = of_nat (segments bytes)"
proof -
  let ?q = "length bytes div CODE_SIZE"
  have q: "?q \<le> segments bytes" unfolding segments_def by (rule div_le_mono) simp
  then have u: "unat (of_nat ?q :: 16 word) = ?q" using assms by (intro unat_of_nat_16') simp
  show ?thesis
  proof (cases "?q * CODE_SIZE < length bytes")
    case True
    then have "segments bytes = Suc ?q" unfolding segments_def by linarith
    with True u show ?thesis by (simp add: num_messages_def Let_def)
  next
    case False
    then have "segments bytes = ?q" unfolding segments_def by linarith
    with False u show ?thesis by (simp add: num_messages_def Let_def)
  qed
qed

lemma segment_dgram:
  assumes "0 \<notin> set name" "length name < 128"
  obtains m where "SDMCode_wf m" "SDMCode_view m = (seq, num_messages (length bytes), name, code_segment bytes (unat seq))"
    "\<And>now. code.datagram now m = segment_datagram now name bytes seq"
proof -
  have f: "is_cstr 128 (name @ replicate (128 - length name) 0)" "cstr (name @ replicate (128 - length name) 0) = name"
    using assms by (simp_all add: is_cstr_padded cstr_padded)
  have new: "SDMCode_wf (SDMCode_new (replicate 128 0) (replicate 24139 0))" "SDMCode_code_length (SDMCode_new (replicate 128 0) (replicate 24139 0)) = 0"
    using SDMCode_new_wf [of "replicate 128 0" "replicate 24139 0"] by simp_all
  have "length (code_segment bytes (unat seq)) \<le> CODE_SIZE" by (simp add: code_segment_def)
  from code_message_ok [OF new this f(1), of seq "num_messages (length bytes)"] obtain m where
    m: "SDMCode_wf m" "SDMCode_view m = (seq, num_messages (length bytes), name, code_segment bytes (unat seq))" unfolding f(2) by blast
  show thesis by (rule that [OF m]) (simp add: code.datagram_def segment_datagram_def m(2))
qed

lemma read_segment:
  assumes "0 \<notin> set name" "length name < 128" "SDMCode_wf m0"
  obtains m n where "SDMCode_Unmarshal m0 (segment_datagram now name bytes seq @ rest) = Some (m, int n)" "SDMCode_wf m"
    "SDMCode_seq_num m = seq" "SDMCode_num_segments m = num_messages (length bytes)" "cstr (SDMCode_filename m) = name"
    "get_bytes (SDMCode_code m) 0 (unat (SDMCode_code_length m)) = Some (code_segment bytes (unat seq))"
proof -
  note finish = that
  obtain c where c: "SDMCode_wf c" "SDMCode_view c = (seq, num_messages (length bytes), name, code_segment bytes (unat seq))"
    "\<And>now. code.datagram now c = segment_datagram now name bytes seq"
    using segment_dgram [OF assms(1,2)] by metis
  from code.Unmarshal_datagram [OF c(1) TrueI assms(3), of now rest] obtain m where
    m: "SDMCode_Unmarshal m0 (segment_datagram now name bytes seq @ rest) = Some (m, int (length (code.datagram now c)))"
    "SDMCode_wf m" "SDMCode_view m = SDMCode_view c" unfolding c(3) by blast
  show thesis
    by (rule finish [OF m(1,2)])
      (use m(3) c(2) m(2) in \<open>simp_all add: SDMCode_view_def SDMCode_wf_def get_bytes_def\<close>)
qed

lemma segment_datagram_first: "segment_datagram now name bytes seq = SDM_Code # tl (segment_datagram now name bytes seq)"
  by (simp add: segment_datagram_def datagram_bytes_def header_bytes_def)

text \<open>The listener passes a segment on to the thread that waits for the file.\<close>

lemma HandleCodeMessage_passes:
  assumes "\<And>i. reachable_env (envs i)" "0 \<notin> set name" "length name < 128" "length (segment_datagram now name bytes seq @ pad) = BUFSIZE"
    and "first_index (\<lambda>c. cstr (recv_filename c) = name) (codeReceivers s) = Some i"
  shows "HandleCodeMessage envs (segment_datagram now name bytes seq @ pad) s =
    Some (Some (fd_code (codeReceivers s ! i), segment_datagram now name bytes seq @ pad))"
proof -
  have j: "length (pm_junk envs s n) = n" if "n \<le> BUFSIZE" for n using that by (rule length_pm_junk [OF assms(1)])
  have new: "SDMCode_wf (SDMCode_new (pm_junk envs s 128) (pm_junk envs s 24139))"
    using SDMCode_new_wf [of "pm_junk envs s 128" "pm_junk envs s 24139"] j [of 128] j [of 24139] by simp
  obtain m n where "SDMCode_Unmarshal (SDMCode_new (pm_junk envs s 128) (pm_junk envs s 24139)) (segment_datagram now name bytes seq @ pad)
      = Some (m, int n)" "cstr (SDMCode_filename m) = name"
    using read_segment [OF assms(2,3) new, of now bytes seq pad] by metis
  with assms(4,5) show ?thesis by (simp add: HandleCodeMessage_def get_bytes_def)
qed

text \<open>The state of a transfer before segment \<open>k\<close> has arrived.\<close>

definition transfer_ok :: "byte list \<Rightarrow> byte list \<Rightarrow> nat \<Rightarrow> code_transfer \<Rightarrow> pm \<Rightarrow> bool" where
  "transfer_ok name bytes k t s \<longleftrightarrow> SDMCode_wf (rmsgCode t) \<and> SDMReqCode_wf (msgRequestCode t) \<and> length (msgBuffer t) = BUFSIZE
     \<and> usCurSequenceNumber t = of_nat k \<and> pm_files s name = Some (take ((k - 1) * CODE_SIZE) bytes)"

lemma file_write_next:
  assumes "1 \<le> k" "(k - 1) * CODE_SIZE \<le> length bytes"
  shows "file_write ((k - 1) * CODE_SIZE) (code_segment bytes k) (take ((k - 1) * CODE_SIZE) bytes) = take (k * CODE_SIZE) bytes"
proof -
  have "k * CODE_SIZE = (k - 1) * CODE_SIZE + CODE_SIZE" using assms(1) by (simp add: diff_mult_distrib)
  then have "take (k * CODE_SIZE) bytes = take ((k - 1) * CODE_SIZE) bytes @ code_segment bytes k"
    unfolding code_segment_def by (simp only: take_add)
  then show ?thesis using assms(2) by (simp add: file_write_def min_def)
qed

lemma segments_bounds:
  assumes "1 \<le> k" "k \<le> segments bytes"
  shows "(k - 1) * CODE_SIZE \<le> length bytes" "k = segments bytes \<Longrightarrow> take (k * CODE_SIZE) bytes = bytes"
  using assms by (auto simp: segments_def)

text \<open>The parts of the state that a transfer does not touch.\<close>

definition transfer_frame :: "pm \<Rightarrow> code_recv list \<times> PendingTask list \<times> PMProcessList \<times> 32 word \<times> SDMComponent_ID" where
  "transfer_frame s = (codeReceivers s, taskQueue s, runningTaskList s, Address_PM s, pm_TaskManager s)"

lemma GetCode_request_ok:
  assumes "\<And>i. reachable_env (envs i)" "transfer_ok name bytes k t s"
  obtains s' t' where "GetCode_request envs t s = Some (s', t')" "transfer_ok name bytes k t' s'" "usPollMiss t' = usPollMiss t"
    "transfer_frame s' = transfer_frame s" "pm_files s' = pm_files s" "pm_sends s' = pm_sends s + 1"
    "pm_wire s' = pm_wire s @ [(pm_TaskManager s, reqcode.datagram (env_now (envs (pm_sends s))) ((msgRequestCode t)\<lparr>SDMReqCode_seq_num := usCurSequenceNumber t\<rparr>))]"
proof -
  let ?e = "pm_env_at envs s 0" and ?m = "(msgRequestCode t)\<lparr>SDMReqCode_seq_num := usCurSequenceNumber t\<rparr>"
  have e: "length (env_stk ?e) = BUFSIZE" "\<And>a p. net_connect (env_net ?e) a p \<noteq> IP_SOCK_INVALID"
    using reachable_pm_env [where envs = envs and s = s and i = 0, OF assms(1)] by (simp_all add: reachable_env_def)
  have wf: "SDMReqCode_wf ?m" using assms(2) by (simp add: transfer_ok_def SDMReqCode_wf_def)
  have now: "env_now ?e = env_now (envs (pm_sends s))" by (simp add: pm_env_at_def)
  let ?d = "reqcode.datagram (env_now (envs (pm_sends s))) ?m"
  obtain m' x where "SendTo SDMReqCode_Marshal (env_net ?e) (env_stk ?e) (env_ack ?e) (env_now ?e) ?m (TaskManager ?e) = Some (m', [?d], x)"
    "SDMReqCode_wf m'"
    using reqcode.SendTo_once [OF wf TrueI e(1) _ _ e(2), of "env_ack ?e" "env_now ?e" "TaskManager ?e"] now by auto
  then show thesis
    using assms(2)
    by (intro that [of "PM_MessageSent (pm_log_sent 1 [(pm_TaskManager s, ?d)] s)" "t\<lparr>msgRequestCode := m'\<rparr>"])
      (simp_all add: GetCode_request_def pm_send_TM_def pm_send_to_def SDMReqCode_Send_def SendTM_def transfer_ok_def transfer_frame_def
        PM_MessageSent_def pm_log_sent_def)
qed

lemma GetCode_read_ok:
  assumes "0 \<notin> set name" "length name < 128" "segments bytes \<le> 65535" "transfer_ok name bytes k t s" "1 \<le> k" "k \<le> segments bytes"
    and "1 \<le> j" "j \<le> segments bytes" "length (segment_datagram now name bytes (of_nat j) @ pad) \<le> BUFSIZE" "late \<Longrightarrow> usPollMiss t \<noteq> 10"
  shows "\<exists>s' t'. GetCode_read name (late, Some (segment_datagram now name bytes (of_nat j) @ pad)) t s =
      Some (s', t', if j = k \<and> k = segments bytes then Received else Waiting)
    \<and> transfer_ok name bytes (if j = k then k + 1 else k) t' s' \<and> usPollMiss t' = usPollMiss t + (if late then 1 else 0)
    \<and> transfer_frame s' = transfer_frame s"
proof -
  let ?d = "segment_datagram now name bytes (of_nat j) @ pad"
  let ?t1 = "if late then t\<lparr>usPollMiss := usPollMiss t + 1\<rparr> else t"
  note ok = assms(4) [unfolded transfer_ok_def]
  have u: "unat (of_nat i :: 16 word) = i" if "i \<le> segments bytes" for i using that assms(3) by (intro unat_of_nat_16') simp
  have eq: "(of_nat j :: 16 word) = of_nat k \<longleftrightarrow> j = k" using u assms(6,8) by metis
  let ?b = "?d @ drop (length ?d) (msgBuffer t)"
  have b: "put_bytes (msgBuffer t) 0 ?d = Some ?b" using ok assms(9) by (simp add: put_bytes_0)
  have b0: "get_byte ?b 0 = Some SDM_Code" by (subst segment_datagram_first) (simp add: get_byte_def)
  obtain m n where m: "SDMCode_Unmarshal (rmsgCode t) ?b = Some (m, int n)" "SDMCode_wf m"
    "SDMCode_seq_num m = of_nat j" "SDMCode_num_segments m = num_messages (length bytes)"
    "get_bytes (SDMCode_code m) 0 (unat (SDMCode_code_length m)) = Some (code_segment bytes (unat (of_nat j :: 16 word)))"
    using read_segment [OF assms(1,2) conjunct1 [OF ok], of now bytes "of_nat j" "pad @ drop (length ?d) (msgBuffer t)"]
    unfolding append_assoc by blast
  let ?t2 = "?t1\<lparr>msgBuffer := ?b, rmsgCode := m\<rparr>"
  note run = GetCode_read_def Let_def split_beta
  have t1: "msgBuffer ?t1 = msgBuffer t" "rmsgCode ?t1 = rmsgCode t" "usCurSequenceNumber ?t1 = of_nat k" using ok by simp_all
  show ?thesis
  proof (cases "j = k")
    case False
    then have "GetCode_read name (late, Some ?d) t s = Some (s, ?t2, Waiting)"
      using assms(10) b b0 m(1,3) t1 eq by (simp add: run)
    with False ok m(2) assms(9) show ?thesis by (simp add: transfer_ok_def)
  next
    case True
    let ?s = "s\<lparr>pm_files := (pm_files s)(name \<mapsto> take (k * CODE_SIZE) bytes)\<rparr>" and ?t3 = "?t2\<lparr>usCurSequenceNumber := of_nat k + 1\<rparr>"
    have n: "num_messages (length bytes) = of_nat (segments bytes)" using assms(3) by (rule num_messages_segments)
    have le: "\<not> of_nat (segments bytes) < (of_nat k :: 16 word)" "of_nat (segments bytes) \<le> (of_nat k :: 16 word) \<longleftrightarrow> k = segments bytes"
      using u [OF assms(6)] u [of "segments bytes"] assms(6) by (auto simp: word_less_nat_alt word_le_nat_alt)
    have w: "file_write ((k - 1) * CODE_SIZE) (code_segment bytes k) (take ((k - 1) * CODE_SIZE) bytes) = take (k * CODE_SIZE) bytes"
      using file_write_next [OF assms(5)] segments_bounds(1) [OF assms(5,6)] by simp
    have "GetCode_read name (late, Some ?d) t s = Some (?s, ?t3, if k = segments bytes then Received else Waiting)"
      using assms(10) b b0 m(1,3-5) t1 True ok u [OF assms(6)] le w by (cases late) (simp_all add: run n)
    moreover have "transfer_ok name bytes (k + 1) ?t3 ?s" using ok m(2) assms(9) by (simp add: transfer_ok_def add.commute)
    ultimately show ?thesis using True by (auto simp: transfer_frame_def)
  qed
qed

text \<open>A read of a segment that has arrived: whether the poll before it timed out, when and as which segment it was sent,
  and what follows it in the receive buffer.\<close>

type_synonym arrival = "bool \<times> timeval \<times> nat \<times> byte list"

definition read_of :: "byte list \<Rightarrow> byte list \<Rightarrow> arrival \<Rightarrow> pipe_read" where
  "read_of name bytes = (\<lambda>(late, now, j, pad). (late, Some (segment_datagram now name bytes (of_nat j) @ pad)))"

definition arrival_ok :: "byte list \<Rightarrow> byte list \<Rightarrow> arrival \<Rightarrow> bool" where
  "arrival_ok name bytes = (\<lambda>(late, now, j, pad). 1 \<le> j \<and> j \<le> segments bytes \<and>
     length (segment_datagram now name bytes (of_nat j) @ pad) \<le> BUFSIZE)"

definition arrived_seq :: "arrival \<Rightarrow> nat" where
  "arrived_seq = (\<lambda>(late, now, j, pad). j)"

lemma GetCode_loop_ok:
  assumes "\<And>i. reachable_env (envs i)" "0 \<notin> set name" "length name < 128" "segments bytes \<le> 65535"
    and "transfer_ok name bytes k t s" "1 \<le> k" "k \<le> segments bytes" "list_all (arrival_ok name bytes) xs"
    and "unat (usPollMiss t) + length (filter fst xs) \<le> 10" "subseq [k..<Suc (segments bytes)] (map arrived_seq xs)"
  shows "\<exists>s' t'. GetCode_loop envs name (map (read_of name bytes) xs) t s = Some (s', t', Received)
    \<and> pm_files s' name = Some bytes \<and> transfer_frame s' = transfer_frame s"
  using assms(5-)
proof (induction xs arbitrary: k t s)
  case Nil
  then show ?case by simp
next
  case (Cons x xs)
  obtain late now j pad where x: "x = (late, now, j, pad)" by (cases x)
  obtain s1 t1 where r: "GetCode_request envs t s = Some (s1, t1)" "transfer_ok name bytes k t1 s1" "usPollMiss t1 = usPollMiss t"
    "transfer_frame s1 = transfer_frame s"
    using GetCode_request_ok [where envs = envs, OF assms(1) Cons.prems(1)] by blast
  have a: "1 \<le> j" "j \<le> segments bytes" "length (segment_datagram now name bytes (of_nat j) @ pad) \<le> BUFSIZE"
    using Cons.prems(4) by (simp_all add: x arrival_ok_def)
  have nine: "late \<Longrightarrow> unat (usPollMiss t) < 10" using Cons.prems(5) by (simp add: x)
  then have m: "late \<Longrightarrow> usPollMiss t1 \<noteq> 10" using r(3) by auto
  from GetCode_read_ok [where late = late, OF assms(2-4) r(2) Cons.prems(2,3) a m] obtain s2 t2 where
    d: "GetCode_read name (read_of name bytes x) t1 s1 = Some (s2, t2, if j = k \<and> k = segments bytes then Received else Waiting)"
    "transfer_ok name bytes (if j = k then k + 1 else k) t2 s2" "usPollMiss t2 = usPollMiss t1 + (if late then 1 else 0)"
    "transfer_frame s2 = transfer_frame s1"
    unfolding read_of_def x by auto
  have um: "unat (usPollMiss t2) + length (filter fst xs) \<le> 10"
  proof (cases late)
    case True
    then have "unat (usPollMiss t1 + 1) = unat (usPollMiss t) + 1" using nine r(3) by (simp add: unat_word_ariths)
    with True d(3) Cons.prems(5) show ?thesis by (simp add: x)
  qed (use d(3) r(3) Cons.prems(5) in \<open>simp add: x\<close>)
  show ?case
  proof (cases "j = k \<and> k = segments bytes")
    case True
    then have "pm_files s2 name = Some (take (k * CODE_SIZE) bytes)" using d(2) by (simp add: transfer_ok_def)
    then have "pm_files s2 name = Some bytes" using segments_bounds(2) [OF Cons.prems(2,3)] True by simp
    with True r d(1,4) show ?thesis by simp
  next
    case False
    let ?k = "if j = k then k + 1 else k"
    have k: "1 \<le> ?k" "?k \<le> segments bytes" using Cons.prems(2,3) False by auto
    have "[k..<Suc (segments bytes)] = k # [Suc k..<Suc (segments bytes)]" using Cons.prems(3) by (simp add: upt_rec)
    then have "subseq [?k..<Suc (segments bytes)] (map arrived_seq xs)"
      using Cons.prems(6) by (cases "j = k") (simp_all add: x arrived_seq_def)
    from Cons.IH [OF d(2) k _ um this] Cons.prems(4) False r(1,4) d(1,4) show ?thesis by auto
  qed
qed

section \<open>Transfers\<close>

text \<open>
  A request that the Task Manager has answered, at any time and in any state of its own: the time of the request, the segment
  asked for, what follows the request in the Task Manager's buffer, the contents of the Process Manager's buffer before the answer
  came in, and whether the poll for it timed out.
\<close>

record answered =
  ans_late :: bool
  ans_seq :: nat
  ans_time :: timeval
  ans_rest :: "byte list"
  ans_old :: buffer
  ans_envs :: "nat \<Rightarrow> env"
  ans_tm :: tm

text \<open>What is read from the pipe then, once the listener has passed the answer on.\<close>

definition answer_read :: "(nat \<Rightarrow> env) \<Rightarrow> (byte list \<Rightarrow> byte list option) \<Rightarrow> SDMReqCode \<Rightarrow> pm \<Rightarrow> answered \<Rightarrow> pipe_read option" where
  "answer_read envs files req s a = do {
     tm' \<leftarrow> SendCode (ans_envs a) files
       (reqcode.datagram (ans_time a) (req\<lparr>SDMReqCode_seq_num := of_nat (ans_seq a)\<rparr>) @ ans_rest a) (ans_tm a);
     buf \<leftarrow> put_bytes (ans_old a) 0 (snd (last (tm_wire tm')));
     w \<leftarrow> HandleCodeMessage envs buf s;
     Some (ans_late a, map_option snd w) }"

lemma GetCode_start_ok:
  assumes "\<And>i. reachable_env (envs i)" "is_cstr 128 f"
  obtains s' t where "GetCode_start envs f v s = Some (s', t)" "transfer_ok (cstr f) bytes 1 t s'" "usPollMiss t = 0"
    "transfer_frame s' = transfer_frame s" "SDMReqCode_version (msgRequestCode t) = v" "cstr (SDMReqCode_filename (msgRequestCode t)) = cstr f"
    "SDMReqCode_source (msgRequestCode t) = pm_source 0 s" "usCurSequenceNumber t = 1" "s' = s\<lparr>pm_files := (pm_files s)(cstr f \<mapsto> [])\<rparr>"
proof -
  have j: "length (pm_junk envs s n) = n" if "n \<le> BUFSIZE" for n using that by (rule length_pm_junk [OF assms(1)])
  let ?f = "cstr f @ replicate (128 - length (cstr f)) 0"
  have l: "length (cstr f) < 128" using is_cstr_len [OF assms(2)] .
  have n: "length (SDMReqCode_filename (SDMReqCode_new (pm_junk envs s 128))) = 128"
    using j [of 128] by (simp add: SDMReqCode_new_def SDMmessage.defs)
  let ?req = "(SDMReqCode_new (pm_junk envs s 128))\<lparr>SDMReqCode_filename := ?f, SDMReqCode_version := v,
       SDMReqCode_source := (SDMReqCode_source (SDMReqCode_new (pm_junk envs s 128)))\<lparr>m_ulAddress := Address_PM s, m_usPort := PORT_PM\<rparr>\<rparr>"
  have wf: "SDMReqCode_wf ?req" using l by (simp add: SDMReqCode_wf_def SDMReqCode_new_def new_message_def SDMmessage.defs is_cstr_padded)
  have c: "SDMCode_wf (SDMCode_new (pm_junk envs s 128) (pm_junk envs s 24139))"
    using SDMCode_new_wf [of "pm_junk envs s 128" "pm_junk envs s 24139"] j [of 128] j [of 24139] by simp
  have st: "strncpy (SDMReqCode_filename (SDMReqCode_new (pm_junk envs s 128))) 0 f 0 128 = Some ?f"
    by (rule strncpy_cstr [OF assms(2) n])
  show thesis
  proof (rule that)
    show "GetCode_start envs f v s = Some (s\<lparr>pm_files := (pm_files s)(cstr f \<mapsto> [])\<rparr>, \<lparr>msgBuffer = pm_junk envs s BUFSIZE,
       rmsgCode = SDMCode_new (pm_junk envs s 128) (pm_junk envs s 24139), msgRequestCode = ?req, usCurSequenceNumber = 1, usPollMiss = 0\<rparr>)"
      using st n by (simp add: GetCode_start_def Let_def)
  qed (use wf c j l in \<open>simp_all add: transfer_ok_def transfer_frame_def cstr_padded pm_source_def SDMReqCode_new_def SDMmessage.defs SDMComponent_ID_new_def\<close>)
qed

lemma length_segment_datagram: "length name < 128 \<Longrightarrow> length (segment_datagram now name bytes seq) \<le> BUFSIZE"
  by (simp add: segment_datagram_def datagram_bytes_def SDMCode_enc_def code_segment_def)

lemma answer_read_ok:
  assumes "\<And>i. reachable_env (envs i)" "\<And>i. reachable_env (ans_envs a i)" "SDMReqCode_wf req" "cstr (SDMReqCode_filename req) = name"
    and "files (task_path (SDMReqCode_version req) name) = Some bytes" "segments bytes \<le> 65535" "1 \<le> ans_seq a" "ans_seq a \<le> segments bytes"
    and "length (ans_old a) = BUFSIZE" "c \<in> set (codeReceivers s)" "cstr (recv_filename c) = name"
  shows "\<exists>now pad. answer_read envs files req s a = Some (read_of name bytes (ans_late a, now, ans_seq a, pad))
    \<and> arrival_ok name bytes (ans_late a, now, ans_seq a, pad)"
proof -
  have name: "0 \<notin> set name" "length name < 128" using assms(3,4) SDMReqCode_bounds(3) by auto
  let ?m = "req\<lparr>SDMReqCode_seq_num := of_nat (ans_seq a)\<rparr>" and ?now = "env_now (ans_envs a (tm_sends (ans_tm a)))"
  let ?d = "segment_datagram ?now name bytes (of_nat (ans_seq a))"
  let ?pad = "drop (length ?d) (ans_old a)"
  have u: "unat (of_nat (ans_seq a) :: 16 word) = ans_seq a" using assms(6,8) by (intro unat_of_nat_16') simp
  then have nz: "SDMReqCode_seq_num ?m \<noteq> 0" using assms(7) by (metis SDMReqCode.select_convs(3) SDMReqCode.surjective SDMReqCode.update_convs(3) not_one_le_zero unat_0)
  have wf: "SDMReqCode_wf ?m" using assms(3) by (simp add: SDMReqCode_wf_def)
  have fl: "files (task_path (SDMReqCode_version ?m) (cstr (SDMReqCode_filename ?m))) = Some bytes" using assms(4,5) by simp
  have sc: "\<exists>tm'. SendCode (ans_envs a) files (reqcode.datagram (ans_time a) ?m @ ans_rest a) (ans_tm a) = Some tm' \<and> snd (last (tm_wire tm')) = ?d"
    using SendCode_answers [where envs = "ans_envs a" and files = files and m = ?m, OF assms(2) wf nz fl, of "ans_time a" "ans_rest a" "ans_tm a"] assms(4)
    by (simp add: MessageSent_def log_sent_def)
  have l: "length ?d \<le> BUFSIZE" by (rule length_segment_datagram [OF name(2)])
  obtain i where i: "first_index (\<lambda>c. cstr (recv_filename c) = name) (codeReceivers s) = Some i"
    using assms(10,11) first_index_None [of "\<lambda>c. cstr (recv_filename c) = name" "codeReceivers s"] by (cases "first_index (\<lambda>c. cstr (recv_filename c) = name) (codeReceivers s)") auto
  have h: "HandleCodeMessage envs (?d @ ?pad) s = Some (Some (fd_code (codeReceivers s ! i), ?d @ ?pad))"
    using l assms(9) by (intro HandleCodeMessage_passes [OF assms(1) name _ i]) simp_all
  have "answer_read envs files req s a = Some (read_of name bytes (ans_late a, ?now, ans_seq a, ?pad))"
    using sc h l assms(9) by (auto simp: answer_read_def put_bytes_0 read_of_def)
  moreover have "arrival_ok name bytes (ans_late a, ?now, ans_seq a, ?pad)" using l assms(7-9) by (simp add: arrival_ok_def)
  ultimately show ?thesis by blast
qed

text \<open>
  C2. A file arrives at a Process Manager as the Task Manager has it: if what the Process Manager reads are answers to requests
  for segments of the file, of whatever Task Manager states, in any order and with any repetitions, with at most ten late ones,
  and the segments occur in ascending order among them, then \<^verbatim>\<open>GetCode\<close> succeeds and leaves exactly the bytes of the file, and its
  receiver is taken off the list. The answers in between do no harm.
\<close>

theorem code_transferred:
  assumes "\<And>i. reachable_env (envs i)" "\<And>a i. a \<in> set as \<Longrightarrow> reachable_env (ans_envs a i)" "\<And>a. a \<in> set as \<Longrightarrow> length (ans_old a) = BUFSIZE"
    and "is_cstr 128 f" "files (task_path v (cstr f)) = Some bytes" "bytes \<noteq> []" "segments bytes \<le> 65535"
    and "c \<in> set (codeReceivers s)" "cstr (recv_filename c) = cstr f"
    and "\<And>a. a \<in> set as \<Longrightarrow> 1 \<le> ans_seq a \<and> ans_seq a \<le> segments bytes" "length (filter ans_late as) \<le> 10"
    and "subseq [1..<Suc (segments bytes)] (map ans_seq as)"
  shows "\<exists>s0 t reads s'. GetCode_start envs f v s = Some (s0, t) \<and> map (answer_read envs files (msgRequestCode t) s) as = map Some reads
    \<and> GetCode envs f v reads s = Some (s', Some True) \<and> pm_files s' (cstr f) = Some bytes
    \<and> codeReceivers s' = codeReceivers (RemoveCodeReceiver (cstr f) s) \<and> taskQueue s' = taskQueue s \<and> runningTaskList s' = runningTaskList s"
proof -
  have name: "0 \<notin> set (cstr f)" "length (cstr f) < 128" using is_cstr_len [OF assms(4)] by simp_all
  obtain s0 t where st: "GetCode_start envs f v s = Some (s0, t)" "transfer_ok (cstr f) bytes 1 t s0" "usPollMiss t = 0"
    "transfer_frame s0 = transfer_frame s" "SDMReqCode_version (msgRequestCode t) = v" "cstr (SDMReqCode_filename (msgRequestCode t)) = cstr f"
    using GetCode_start_ok [where envs = envs, OF assms(1,4)] by metis
  let ?req = "msgRequestCode t"
  have req: "SDMReqCode_wf ?req" using st(2) by (simp add: transfer_ok_def)
  have "\<exists>x. answer_read envs files ?req s a = Some (read_of (cstr f) bytes x) \<and> arrival_ok (cstr f) bytes x \<and> fst x = ans_late a \<and> arrived_seq x = ans_seq a"
    if "a \<in> set as" for a
    using answer_read_ok [of envs a ?req "cstr f" files bytes c s, OF assms(1,2) req st(6)] that st(5) assms(3,5,7-10)
    by (fastforce simp: arrived_seq_def)
  then obtain g where g: "\<And>a. a \<in> set as \<Longrightarrow> answer_read envs files ?req s a = Some (read_of (cstr f) bytes (g a))
      \<and> arrival_ok (cstr f) bytes (g a) \<and> fst (g a) = ans_late a \<and> arrived_seq (g a) = ans_seq a" by metis
  let ?xs = "map g as"
  have filt: "length (filter fst (map g bs)) = length (filter ans_late bs)" if "set bs \<subseteq> set as" for bs
    using that g by (induction bs) auto
  have seq: "subseq [1..<Suc (segments bytes)] (map arrived_seq ?xs)" using assms(12) g by (simp add: comp_def cong: map_cong)
  have late: "unat (usPollMiss t) + length (filter fst ?xs) \<le> 10" using filt [of as] assms(11) st(3) by simp
  have all: "list_all (arrival_ok (cstr f) bytes) ?xs" using g by (simp add: list_all_iff)
  have n: "1 \<le> segments bytes" using assms(6) by (cases bytes) (simp_all add: segments_def)
  obtain s1 t1 where lp: "GetCode_loop envs (cstr f) (map (read_of (cstr f) bytes) ?xs) t s0 = Some (s1, t1, Received)"
    "pm_files s1 (cstr f) = Some bytes" "transfer_frame s1 = transfer_frame s0"
    using GetCode_loop_ok [where envs = envs and xs = ?xs, OF assms(1) name assms(7) st(2) order.refl n all late seq] by blast
  have "GetCode envs f v (map (read_of (cstr f) bytes) ?xs) s = Some (RemoveCodeReceiver (cstr f) s1, Some True)"
    using st(1) lp(1) by (simp add: GetCode_def)
  moreover have fr: "codeReceivers s1 = codeReceivers s" "taskQueue s1 = taskQueue s" "runningTaskList s1 = runningTaskList s"
    using lp(3) st(4) by (simp_all add: transfer_frame_def)
  moreover have "map (answer_read envs files ?req s) as = map Some (map (read_of (cstr f) bytes) ?xs)" using g by simp
  moreover have "codeReceivers (RemoveCodeReceiver (cstr f) s1) = codeReceivers (RemoveCodeReceiver (cstr f) s)"
    "pm_files (RemoveCodeReceiver (cstr f) s1) = pm_files s1" "taskQueue (RemoveCodeReceiver (cstr f) s1) = taskQueue s1"
    "runningTaskList (RemoveCodeReceiver (cstr f) s1) = runningTaskList s1"
    using fr(1) by (simp_all add: RemoveCodeReceiver_def split: option.split)
  ultimately show ?thesis using st(1) lp(2) by metis
qed

definition sample_answer :: answered where
  "sample_answer = \<lparr>ans_late = False, ans_seq = 1, ans_time = (1, 2), ans_rest = [], ans_old = replicate 24288 0,
     ans_envs = (\<lambda>_. working_env), ans_tm = sample_tm\<rparr>"

definition sample_receiver :: pm where
  "sample_receiver = sample_manager (\<lambda>_. None)\<lparr>codeReceivers := [\<lparr>fd_code = 5, recv_filename = sample_name\<rparr>]\<rparr>"

theorem code_transferred_witness:
  "\<exists>s0 t reads s'. GetCode_start (\<lambda>_. working_env) sample_name 0 sample_receiver = Some (s0, t)
    \<and> map (answer_read (\<lambda>_. working_env) (\<lambda>_. Some [7, 8]) (msgRequestCode t) sample_receiver) [sample_answer, sample_answer] = map Some reads
    \<and> GetCode (\<lambda>_. working_env) sample_name 0 reads sample_receiver = Some (s', Some True) \<and> pm_files s' [97] = Some [7, 8]"
proof -
  have sg: "segments [7, 8 :: byte] = 1" by (simp add: segments_def)
  let ?c = "\<lparr>fd_code = 5, recv_filename = sample_name\<rparr>"
  have c: "?c \<in> set (codeReceivers sample_receiver)" by (simp add: sample_receiver_def)
  have "\<exists>s0 t reads s'. GetCode_start (\<lambda>_. working_env) sample_name 0 sample_receiver = Some (s0, t)
    \<and> map (answer_read (\<lambda>_. working_env) (\<lambda>_. Some [7, 8]) (msgRequestCode t) sample_receiver) [sample_answer, sample_answer] = map Some reads
    \<and> GetCode (\<lambda>_. working_env) sample_name 0 reads sample_receiver = Some (s', Some True) \<and> pm_files s' (cstr sample_name) = Some [7, 8]
    \<and> codeReceivers s' = codeReceivers (RemoveCodeReceiver (cstr sample_name) sample_receiver) \<and> taskQueue s' = taskQueue sample_receiver
    \<and> runningTaskList s' = runningTaskList sample_receiver"
    by (rule code_transferred [OF _ _ _ _ _ _ _ c]) (auto simp: working_env_ok sample_answer_def sample_name_cstr sg)
  then show ?thesis unfolding sample_name_cstr(2) by blast
qed

section \<open>A task that is started again\<close>

lemma SDMTask_new_wf: "length f = 128 \<Longrightarrow> SDMTask_wf (SDMTask_new f)"
  by (cases f) (simp_all add: SDMTask_wf_def SDMTask_new_def new_message_def SDMmessage.defs is_cstr_def)

lemma TaskHandler_available:
  assumes "\<And>i. reachable_env (envs i)" "SDMTask_wf m" "IsFileAvailable (cstr (SDMTask_filename m)) s"
  shows "TaskHandler envs pipe reads (task_msg.datagram now m @ rest) s = Some (s\<lparr>taskQueue := taskQueue s @
    [\<lparr>m_strName = cstr (SDMTask_filename m) @ replicate (128 - length (cstr (SDMTask_filename m))) 0, m_ulSdmPid = SDMTask_pid m\<rparr>]\<rparr>)"
proof -
  have "length (pm_junk envs s 128) = 128" by (rule length_pm_junk [OF assms(1)]) simp
  then obtain r where r: "SDMTask_Unmarshal (SDMTask_new (pm_junk envs s 128)) (task_msg.datagram now m @ rest) = Some (r, int (length (task_msg.datagram now m)))"
    "SDMTask_wf r" "SDMTask_view r = SDMTask_view m"
    using task_msg.Unmarshal_datagram [OF assms(2) TrueI SDMTask_new_wf, of "pm_junk envs s 128" now rest] by blast
  then have v: "cstr (SDMTask_filename r) = cstr (SDMTask_filename m)" "SDMTask_pid r = SDMTask_pid m" by (simp_all add: SDMTask_view_def)
  show ?thesis
    using r(1) v assms(3) PendingTask_create_eq [OF SDMTask_bounds(1) [OF r(2)], of "SDMTask_pid r"]
    by (simp add: TaskHandler_def queue_task_def)
qed

lemma Listener_task:
  assumes "0 < n" "d = SDM_Task # d'" "n = int (length d)"
  shows "PM_Listener envs x t free m n (d @ pad) s =
    Some (s\<lparr>pm_total_recd := pm_total_recd s + 1, pm_prevsec_recd := pm_prevsec_recd s + 1\<rparr>, Some d, None, None)"
  using assms by (simp add: PM_Listener_def Let_def get_byte_def get_bytes_def nat_add_distrib)

lemma launch_known:
  assumes "is_cstr 128 f" "length (ltoa pid) \<le> 7" "\<And>i. reachable_env (envs i)" "IsFileAvailable (cstr f) s" "0 < fork"
    and "taskQueue s = [\<lparr>m_strName = cstr f @ replicate (128 - length (cstr f)) 0, m_ulSdmPid = pid\<rparr>]"
    and "distinct (map m_uiSdmPid (runningTaskList s))" "i < length (runningTaskList s)" "m_uiSdmPid (runningTaskList s ! i) = pid"
  shows "launch_queued envs fork s = Some (s\<lparr>taskQueue := [], runningTaskList := (runningTaskList s)[i := (runningTaskList s ! i)\<lparr>m_OsPid := fork\<rparr>]\<rparr>)"
proof -
  let ?f = "cstr f @ replicate (128 - length (cstr f)) 0" and ?l = "runningTaskList s"
  have f: "is_cstr 128 ?f" "cstr ?f = cstr f" using is_cstr_len [OF assms(1)] by (simp_all add: is_cstr_padded cstr_padded)
  have idx: "GetIndexOfSdmPid pid l = int i" if "map m_uiSdmPid l = map m_uiSdmPid ?l" for l
    unfolding GetIndexOfSdmPid_def
  proof (rule index_of_unique)
    have len: "length l = length ?l" using that by (metis length_map)
    then show "i < length l" using assms(8) by simp
    have n: "m_uiSdmPid (l ! j) = m_uiSdmPid (?l ! j)" if "j < length l" for j using that len \<open>map m_uiSdmPid l = map m_uiSdmPid ?l\<close> by (metis nth_map)
    then show "m_uiSdmPid (l ! i) = pid" using len assms(8,9) by simp
    show "j = i" if "j < length l" "m_uiSdmPid (l ! j) = pid" for j
      using that n [OF that(1)] len assms(8,9) nth_eq_iff_index_eq [OF assms(7), of j i] by simp
  qed
  let ?l1 = "?l[i := (?l ! i)\<lparr>m_OsPid := 0\<rparr>]"
  have m: "map m_uiSdmPid ?l1 = map m_uiSdmPid ?l" using assms(8) by (simp add: map_update list_update_same_conv)
  have add: "PMProcessList_Add ?f pid 0 ?l = Some (?l1, int i)" using idx [OF refl] assms(9) by (simp add: PMProcessList_Add_def Let_def)
  have up: "UpdateOsPid pid fork ?l1 = ?l[i := (?l ! i)\<lparr>m_OsPid := fork\<rparr>]" using idx [OF m] assms(8) by (simp add: UpdateOsPid_def Let_def)
  have "length (pm_junk envs s' 8) = 8" for s' by (rule length_pm_junk [OF assms(3)]) simp
  then have "put_bytes (pm_junk envs (s\<lparr>taskQueue := []\<rparr>) 8) 0 (ltoa pid @ [0]) \<noteq> None" using assms(2) by (simp add: put_bytes_def)
  then show ?thesis
    using assms(4-6) add up PendingTask_create_eq [OF f(1), of pid] f(2)
    by (auto simp: launch_queued_def PendingTask_copy_def LaunchTask_def LaunchTask_add_def LaunchTask_started_def IsFileAvailable_def)
qed

text \<open>
  C21. A task that the monitor has given up is started again. When its process has ended, the Process Manager sends
  itself a task message; the listener starts a thread for it, which puts the task into the queue; and the next round of the
  signal thread starts it. The same entry of the list then has the new process and is not failed.
\<close>

theorem failed_task_restarted:
  assumes "\<And>i. reachable_env (envs i)" "tasks_ok s" "pid \<noteq> 0" "pid \<noteq> - 1" "0 < fork" "taskQueue s = []"
    and "i < length (runningTaskList s)" "m_OsPid (runningTaskList s ! i) = pid" "\<forall>j<i. m_OsPid (runningTaskList s ! j) \<noteq> pid"
    and "m_bFailedState (runningTaskList s ! i)" "IsFileAvailable (cstr (m_strFilename (runningTaskList s ! i))) s"
    and "length (ltoa (m_uiSdmPid (runningTaskList s ! i))) \<le> 7"
  shows "\<exists>d s1 s2 s3 s4. reap envs pid st s = Some s1 \<and> pm_wire s1 = pm_wire s @ [(self_id s, d)]
    \<and> PM_Listener envs x now free m (int (length d)) (d @ pad) s1 = Some (s2, Some d, None, None)
    \<and> TaskHandler envs pipe reads d s2 = Some s3 \<and> launch_queued envs fork s3 = Some s4 \<and> taskQueue s4 = []
    \<and> runningTaskList s4 = (runningTaskList s)[i := (runningTaskList s ! i)\<lparr>m_OsPid := fork, m_bFailedState := False\<rparr>]"
proof -
  let ?p = "runningTaskList s ! i"
  let ?d = "restart_datagram (env_now (envs (pm_sends s))) ?p" and ?l = "(runningTaskList s)[i := PMProcess_Reset ?p]"
  obtain k where r: "reap envs pid st s = Some (pm_log_sent 1 [(self_id s, ?d)] (s\<lparr>runningTaskList := ?l\<rparr>))"
    "SDMTask_wf k" "task_msg.datagram (env_now (envs (pm_sends s))) k = ?d" "SDMTask_pid k = m_uiSdmPid ?p" "cstr (SDMTask_filename k) = cstr (m_strFilename ?p)"
    using reap_failed [where envs = envs, OF assms(1-4,7-10)] by metis
  let ?s1 = "pm_log_sent 1 [(self_id s, ?d)] (s\<lparr>runningTaskList := ?l\<rparr>)"
  let ?s2 = "?s1\<lparr>pm_total_recd := pm_total_recd ?s1 + 1, pm_prevsec_recd := pm_prevsec_recd ?s1 + 1\<rparr>"
  have "?d = SDM_Task # tl ?d" by (simp add: restart_datagram_def datagram_bytes_def header_bytes_def)
  then have li: "PM_Listener envs x now free m (int (length ?d)) (?d @ pad) ?s1 = Some (?s2, Some ?d, None, None)"
    by (intro Listener_task) (simp_all add: restart_datagram_def datagram_bytes_def header_bytes_def)
  let ?t = "\<lparr>m_strName = cstr (m_strFilename ?p) @ replicate (128 - length (cstr (m_strFilename ?p))) 0, m_ulSdmPid = m_uiSdmPid ?p\<rparr>"
  let ?s3 = "?s2\<lparr>taskQueue := [?t]\<rparr>"
  have "IsFileAvailable (cstr (SDMTask_filename k)) ?s2" using assms(11) r(5) by (simp add: IsFileAvailable_def pm_log_sent_def)
  then have th: "TaskHandler envs pipe reads ?d ?s2 = Some ?s3"
    using TaskHandler_available [where envs = envs and m = k and rest = "[]", OF assms(1) r(2), of ?s2 pipe reads "env_now (envs (pm_sends s))"] r(3-5) assms(6)
    by (simp add: pm_log_sent_def)
  have ok: "is_cstr 128 (m_strFilename ?p)" "distinct (map m_uiSdmPid (runningTaskList s))" using assms(2,7) by (simp_all add: tasks_ok_def procs_ok_def)
  have "map m_uiSdmPid ?l = map m_uiSdmPid (runningTaskList s)" using assms(7) by (simp add: map_update list_update_same_conv PMProcess_Reset_def)
  then have la: "launch_queued envs fork ?s3 = Some (?s3\<lparr>taskQueue := [], runningTaskList := ?l[i := (?l ! i)\<lparr>m_OsPid := fork\<rparr>]\<rparr>)"
    using launch_known [where envs = envs and s = ?s3, OF ok(1) assms(12,1) _ assms(5), of i] ok(2) assms(7,11)
    by (simp add: pm_log_sent_def IsFileAvailable_def PMProcess_Reset_def)
  have eq: "?l[i := (?l ! i)\<lparr>m_OsPid := fork\<rparr>] = (runningTaskList s)[i := ?p\<lparr>m_OsPid := fork, m_bFailedState := False\<rparr>]"
    using assms(7) by (cases ?p) (simp add: PMProcess_Reset_def)
  show ?thesis by (intro exI conjI, rule r(1), simp add: pm_log_sent_def, rule li, rule th, rule la) (use eq in simp_all)
qed

theorem failed_task_restarted_witness:
  "\<exists>s s1 d s2 s3 s4. reap (\<lambda>_. working_env) 100 9 s = Some s1 \<and> map m_bFailedState (runningTaskList s) = [True]
    \<and> PM_Listener (\<lambda>_. working_env) [] 5 (\<lambda>_. False) (SDMRegInfo_new [] []) (int (length d)) d s1 = Some (s2, Some d, None, None)
    \<and> TaskHandler (\<lambda>_. working_env) None [] d s2 = Some s3 \<and> launch_queued (\<lambda>_. working_env) 101 s3 = Some s4
    \<and> map (\<lambda>p. (m_uiSdmPid p, m_OsPid p, m_bFailedState p)) (runningTaskList s4) = [(7, 101, False)]"
proof -
  let ?p = "Failure (PMProcess_new\<lparr>m_strFilename := sample_name, m_uiSdmPid := 7, m_OsPid := 100\<rparr>)"
  let ?s = "(sample_manager (\<lambda>_. Some [1]))\<lparr>runningTaskList := [?p]\<rparr>"
  have ok: "tasks_ok ?s" by (simp add: tasks_ok_def procs_ok_def sample_name_cstr sample_manager_def Failure_def)
  have l: "length (ltoa 7) \<le> 7" by (simp add: ltoa_def decimal.simps)
  have restarted: "\<exists>d s1 s2 s3 s4. reap (\<lambda>_. working_env) 100 9 ?s = Some s1 \<and> pm_wire s1 = pm_wire ?s @ [(self_id ?s, d)]
    \<and> PM_Listener (\<lambda>_. working_env) [] 5 (\<lambda>_. False) (SDMRegInfo_new [] []) (int (length d)) (d @ []) s1 = Some (s2, Some d, None, None)
    \<and> TaskHandler (\<lambda>_. working_env) None [] d s2 = Some s3 \<and> launch_queued (\<lambda>_. working_env) 101 s3 = Some s4 \<and> taskQueue s4 = []
    \<and> runningTaskList s4 = (runningTaskList ?s)[0 := (runningTaskList ?s ! 0)\<lparr>m_OsPid := 101, m_bFailedState := False\<rparr>]"
    by (rule failed_task_restarted [OF working_env_ok(1) ok]) (simp_all add: l Failure_def IsFileAvailable_def sample_manager_def)
  then obtain d s1 s2 s3 s4 where "reap (\<lambda>_. working_env) 100 9 ?s = Some s1"
    "PM_Listener (\<lambda>_. working_env) [] 5 (\<lambda>_. False) (SDMRegInfo_new [] []) (int (length d)) d s1 = Some (s2, Some d, None, None)"
    "TaskHandler (\<lambda>_. working_env) None [] d s2 = Some s3" "launch_queued (\<lambda>_. working_env) 101 s3 = Some s4"
    "runningTaskList s4 = [?p\<lparr>m_OsPid := 101, m_bFailedState := False\<rparr>]"
    by auto
  then show ?thesis by (intro exI [of _ ?s] exI [of _ s1] exI [of _ d] exI [of _ s2] exI [of _ s3] exI [of _ s4]) (simp add: Failure_def)
qed

section \<open>Files that do not exist\<close>

definition error_datagram :: "timeval \<Rightarrow> byte list \<Rightarrow> byte list" where
  "error_datagram now name = datagram_bytes SDM_Error now (SDMError_enc (SDMComponent_ID_new, SDMMessage_ID_new 0 0, SDM_ERROR_CODE_NOT_FOUND, name))"

lemma error_dgram:
  assumes "0 \<notin> set name" "length name < 128"
  obtains m where "SDMError_wf m" "\<And>now. error_msg.datagram now m = error_datagram now name" "cstr (SDMError_error_msg m) = name"
    "m = SDMError_new\<lparr>SDMError_error := SDM_ERROR_CODE_NOT_FOUND, SDMError_error_msg := name @ replicate (256 - length name) 0\<rparr>"
  by (rule that [OF _ _ _ refl])
    (use assms in \<open>simp_all add: SDMError_wf_def SDMError_new_def new_message_def SDMmessage.defs is_cstr_padded error_msg.datagram_def
      error_datagram_def SDMError_view_def cstr_padded\<close>)

lemma SendCode_missing:
  assumes "\<And>i. reachable_env (envs i)" "SDMReqCode_wf m" "files (task_path (SDMReqCode_version m) (cstr (SDMReqCode_filename m))) = None"
  shows "SendCode envs files (reqcode.datagram now m @ rest) s =
    Some (MessageSent (log_sent 1 [(SDMReqCode_source m, error_datagram (env_now (envs (tm_sends s))) (cstr (SDMReqCode_filename m)))] s))"
proof -
  let ?e = "env_at envs s 0" and ?name = "cstr (SDMReqCode_filename m)"
  have e: "length (env_stk ?e) = BUFSIZE" "\<And>a p. net_connect (env_net ?e) a p \<noteq> IP_SOCK_INVALID" "env_now ?e = env_now (envs (tm_sends s))"
    using reachable_env_at [where envs = envs and s = s and i = 0, OF assms(1)] by (simp_all add: reachable_env_def env_at_def)
  have j: "length (junk envs s n) = n" if "n \<le> BUFSIZE" for n using that by (rule length_junk [OF assms(1)])
  obtain r where r: "SDMReqCode_Unmarshal (SDMReqCode_new (junk envs s 128)) (reqcode.datagram now m @ rest)
      = Some (r, int (length (reqcode.datagram now m)))" "SDMReqCode_wf r" "SDMReqCode_view r = SDMReqCode_view m"
    using reqcode.Unmarshal_datagram [OF assms(2) TrueI SDMReqCode_new_wf [OF j [of 128, simplified]], of now rest] by blast
  from r(3) have v: "SDMReqCode_source r = SDMReqCode_source m" "SDMReqCode_version r = SDMReqCode_version m"
    "cstr (SDMReqCode_filename r) = ?name" by (simp_all add: SDMReqCode_view_def)
  have f: "is_cstr 128 (SDMReqCode_filename r)" using SDMReqCode_bounds(1) [OF r(2)] .
  have l: "0 \<notin> set ?name" "length ?name < 128" using is_cstr_len [OF f] v(3) by simp_all
  have mc: "\<exists>x. memcpy (replicate 128 0) 0 (SDMReqCode_filename r) 0 (length ?name + 1) = Some x"
    using get_bytes_cstr(2) [OF f] l by (simp add: memcpy_def v(3) put_bytes_def)
  obtain x where x: "SDMError_wf x" "error_msg.datagram (env_now ?e) x = error_datagram (env_now (envs (tm_sends s))) ?name"
    "x = SDMError_new\<lparr>SDMError_error := SDM_ERROR_CODE_NOT_FOUND, SDMError_error_msg := ?name @ replicate (256 - length ?name) 0\<rparr>"
    using error_dgram [OF l] e(3) by metis
  have "takeWhile (\<lambda>b. b \<noteq> 0) (take 256 (SDMReqCode_filename r)) = ?name" using is_cstr_length [OF f] v(3) by (simp add: cstr_def)
  then have st: "strncpy (SDMError_error_msg SDMError_new) 0 (SDMReqCode_filename r) 0 256 = Some (?name @ replicate (256 - length ?name) 0)"
    using l(2) f by (simp add: strncpy_def Let_def put_bytes_def SDMError_new_def SDMmessage.defs is_cstr_def)
  obtain m' y where "SDMError_Send_to ?e x (SDMReqCode_source m) = Some (m', [error_datagram (env_now (envs (tm_sends s))) ?name], y)"
    using error_msg.SendTo_once [OF x(1) TrueI e(1) _ _ e(2), of "env_ack ?e" "env_now ?e" "SDMReqCode_source m"] x(2)
    by (auto simp: SDMError_Send_to_def)
  then have "send_to envs SDMError_Send_to x (SDMReqCode_source m) s =
    Some (log_sent 1 [(SDMReqCode_source m, error_datagram (env_now (envs (tm_sends s))) ?name)] s)" by (simp add: send_to_def)
  moreover have "strlen (SDMReqCode_filename r) 0 = Some (length ?name)" using strlen_0 [OF f] v(3) by simp
  ultimately show ?thesis
    unfolding SendCode_def Let_def r(1) using mc st by (auto simp: v assms(3) x(3))
qed

lemma ErrorHandler_passes:
  assumes "0 \<notin> set name" "length name < 128" "first_index (\<lambda>c. cstr (recv_filename c) = name \<and> ok (fd_code c)) (codeReceivers s) = Some i"
  shows "ErrorHandler ok (error_datagram now name @ pad) s = Some (Some (fd_code (codeReceivers s ! i), error_datagram now name))"
proof -
  obtain m where m: "SDMError_wf m" "error_msg.datagram now m = error_datagram now name" "cstr (SDMError_error_msg m) = name"
    using error_dgram [OF assms(1,2)] by metis
  have "(0 :: byte) \<in> set ((replicate 256 0)[0 := 0])" by (rule set_update_memI) simp
  then have new: "SDMError_wf SDMError_new" by (simp add: SDMError_wf_def SDMError_new_def new_message_def SDMmessage.defs is_cstr_def)
  from error_msg.Unmarshal_datagram [OF m(1) TrueI new, of now pad] obtain r where
    "SDMError_Unmarshal SDMError_new (error_datagram now name @ pad) = Some (r, int (length (error_datagram now name)))"
    "SDMError_view r = SDMError_view m" unfolding m(2) by blast
  moreover from this(2) have "cstr (SDMError_error_msg r) = name" using m(3) by (simp add: SDMError_view_def)
  ultimately show ?thesis using assms(3) by (simp add: ErrorHandler_def get_bytes_def)
qed

lemma error_datagram_first: "error_datagram now name = SDM_Error # tl (error_datagram now name)"
  by (simp add: error_datagram_def datagram_bytes_def header_bytes_def)

lemma length_error_datagram: "length name < 128 \<Longrightarrow> length (error_datagram now name) \<le> BUFSIZE"
  by (simp add: error_datagram_def datagram_bytes_def SDMError_enc_def)

lemma first_index_append: "(\<And>x. x \<in> set xs \<Longrightarrow> \<not> p x) \<Longrightarrow> p y \<Longrightarrow> first_index p (xs @ [y]) = Some (length xs)"
  by (rule first_index_eq) (simp_all add: nth_append)

lemma Remove_appended:
  assumes "\<And>x. x \<in> set xs \<Longrightarrow> cstr (recv_filename x) \<noteq> name" "cstr (recv_filename c) = name" "codeReceivers s = xs @ [c]"
  shows "RemoveCodeReceiver name s = s\<lparr>codeReceivers := xs\<rparr>"
  using first_index_append [of xs "\<lambda>c. cstr (recv_filename c) = name" c] assms by (simp add: RemoveCodeReceiver_def)

text \<open>A message other than code ends the transfer at once: the file and the receiver are removed.\<close>

lemma GetCode_refused:
  assumes "\<And>i. reachable_env (envs i)" "is_cstr 128 f" "length d \<le> BUFSIZE" "d = SDM_Error # d'"
  obtains s0 t s1 where "GetCode_start envs f v s = Some (s0, t)" "transfer_ok (cstr f) [] 1 t s0" "cstr (SDMReqCode_filename (msgRequestCode t)) = cstr f"
    "SDMReqCode_version (msgRequestCode t) = v" "SDMReqCode_source (msgRequestCode t) = pm_source 0 s"
    "GetCode envs f v [(late, Some d)] s = Some ((RemoveCodeReceiver (cstr f) s1)\<lparr>pm_files := (pm_files s)(cstr f := None)\<rparr>, Some False)"
    "pm_wire s1 = pm_wire s @ [(pm_TaskManager s, reqcode.datagram (env_now (envs (pm_sends s))) ((msgRequestCode t)\<lparr>SDMReqCode_seq_num := 1\<rparr>))]"
    "transfer_frame s1 = transfer_frame s" "pm_sends s1 = pm_sends s + 1"
proof -
  note finish = that
  obtain s0 t where st: "GetCode_start envs f v s = Some (s0, t)" "transfer_ok (cstr f) [] 1 t s0" "usPollMiss t = 0"
    "transfer_frame s0 = transfer_frame s" "SDMReqCode_version (msgRequestCode t) = v" "cstr (SDMReqCode_filename (msgRequestCode t)) = cstr f"
    "SDMReqCode_source (msgRequestCode t) = pm_source 0 s" "usCurSequenceNumber t = 1" "s0 = s\<lparr>pm_files := (pm_files s)(cstr f \<mapsto> [])\<rparr>"
    using GetCode_start_ok [where envs = envs, OF assms(1,2)] by metis
  obtain s1 t1 where r: "GetCode_request envs t s0 = Some (s1, t1)" "transfer_ok (cstr f) [] 1 t1 s1" "usPollMiss t1 = usPollMiss t"
    "transfer_frame s1 = transfer_frame s0" "pm_files s1 = pm_files s0" "pm_sends s1 = pm_sends s0 + 1"
    "pm_wire s1 = pm_wire s0 @ [(pm_TaskManager s0, reqcode.datagram (env_now (envs (pm_sends s0))) ((msgRequestCode t)\<lparr>SDMReqCode_seq_num := usCurSequenceNumber t\<rparr>))]"
    using GetCode_request_ok [where envs = envs, OF assms(1) st(2)] by blast
  have b: "put_bytes (msgBuffer t1) 0 d = Some (SDM_Error # d' @ drop (length d) (msgBuffer t1))"
    using r(2) assms(3,4) by (simp add: put_bytes_0 transfer_ok_def)
  have "\<exists>t2. GetCode_read (cstr f) (late, Some d) t1 s1 = Some (s1, t2, Invalid)"
    using b r(3) st(3) by (cases late) (simp_all add: GetCode_read_def Let_def get_byte_def)
  then have "\<exists>t2. GetCode_loop envs (cstr f) [(late, Some d)] t s0 = Some (s1, t2, Invalid)" using r(1) by auto
  moreover have "(RemoveCodeReceiver (cstr f) s1)\<lparr>pm_files := (pm_files (RemoveCodeReceiver (cstr f) s1))(cstr f := None)\<rparr>
      = (RemoveCodeReceiver (cstr f) s1)\<lparr>pm_files := (pm_files s)(cstr f := None)\<rparr>"
    using r(5) st(9) by (auto simp: RemoveCodeReceiver_def split: option.split)
  ultimately have "GetCode envs f v [(late, Some d)] s = Some ((RemoveCodeReceiver (cstr f) s1)\<lparr>pm_files := (pm_files s)(cstr f := None)\<rparr>, Some False)"
    using st(1) by (auto simp: GetCode_def Let_def simp del: GetCode_loop.simps)
  then show thesis using finish [OF st(1,2,6,5,7)] r(4,6,7) st(4,8,9) by simp
qed

text \<open>
  C34. A task whose executable the Task Manager does not have is given up in an orderly way. The request that the Process
  Manager sends is answered with an error message; this reaches the thread of the task, which then has
  removed the file and its receiver, has not queued the task, and has told the Task Manager that the task has
  ended with status -1.
\<close>

theorem missing_code_reported:
  assumes "\<And>i. reachable_env (envs i)" "\<And>i. reachable_env (tenvs i)" "SDMTask_wf m" "cstr (SDMTask_filename m) = name"
    and "\<not> IsFileAvailable name s" "files (task_path (SDMTask_version m) name) = None" "\<And>c. c \<in> set (codeReceivers s) \<Longrightarrow> cstr (recv_filename c) \<noteq> name"
    and "s1 = s\<lparr>codeReceivers := codeReceivers s @ [\<lparr>fd_code = fd, recv_filename = name @ replicate (128 - length name) 0\<rparr>]\<rparr>"
  shows "\<exists>request tm' answer w s'.
      SendCode tenvs files (request @ rest) tm = Some tm' \<and> tm_wire tm' = tm_wire tm @ [(pm_source 0 s, answer)]
    \<and> ErrorHandler (\<lambda>_. True) (answer @ pad) s1 = Some (Some (fd, w))
    \<and> TaskHandler envs (Some fd) [(late, Some w)] (task_msg.datagram now m @ rest') s = Some s'
    \<and> pm_wire s' = pm_wire s @ [(pm_TaskManager s, request), (pm_TaskManager s, finished_datagram (env_now (envs (pm_sends s + 1))) (- 1)
         (PMProcess_new\<lparr>m_strFilename := SDMTask_filename m, m_uiSdmPid := SDMTask_pid m\<rparr>) s)]
    \<and> pm_files s' = (pm_files s)(name := None) \<and> codeReceivers s' = codeReceivers s \<and> taskQueue s' = taskQueue s"
proof -
  let ?c = "\<lparr>fd_code = fd, recv_filename = name @ replicate (128 - length name) 0\<rparr>"
  have name: "0 \<notin> set name" "length name < 128" using assms(3,4) SDMTask_bounds(3) by auto
  have j: "length (pm_junk envs s n) = n" if "n \<le> BUFSIZE" for n using that by (rule length_pm_junk [OF assms(1)])
  have new: "SDMTask_wf (SDMTask_new (pm_junk envs s 128))"
    using j [of 128] by (cases "pm_junk envs s 128") (simp_all add: SDMTask_wf_def SDMTask_new_def new_message_def SDMmessage.defs is_cstr_def)
  obtain r where r: "SDMTask_Unmarshal (SDMTask_new (pm_junk envs s 128)) (task_msg.datagram now m @ rest') = Some (r, int (length (task_msg.datagram now m)))"
    "SDMTask_wf r" "SDMTask_view r = SDMTask_view m"
    using task_msg.Unmarshal_datagram [OF assms(3) TrueI new, of now rest'] by blast
  then have v: "cstr (SDMTask_filename r) = name" "SDMTask_pid r = SDMTask_pid m" "SDMTask_version r = SDMTask_version m"
    and f: "is_cstr 128 (SDMTask_filename r)" using assms(4) SDMTask_bounds(1) [OF r(2)] by (simp_all add: SDMTask_view_def)
  let ?d = "error_datagram (env_now (tenvs (tm_sends tm))) name"
  have rec: "strncpy (pm_junk envs s 128) 0 (SDMTask_filename r) 0 128 = Some (recv_filename ?c)" "put_byte (recv_filename ?c) 127 0 = Some (recv_filename ?c)"
    using strncpy_cstr [OF f j [of 128]] put_last [OF f] unfolding v(1) by simp_all
  obtain s0 t s2 where g: "transfer_ok name [] 1 t s0" "cstr (SDMReqCode_filename (msgRequestCode t)) = name"
    "SDMReqCode_version (msgRequestCode t) = SDMTask_version m" "SDMReqCode_source (msgRequestCode t) = pm_source 0 s1"
    "GetCode envs (SDMTask_filename r) (SDMTask_version m) [(late, Some ?d)] s1 = Some ((RemoveCodeReceiver name s2)\<lparr>pm_files := (pm_files s1)(name := None)\<rparr>, Some False)"
    "pm_wire s2 = pm_wire s1 @ [(pm_TaskManager s1, reqcode.datagram (env_now (envs (pm_sends s1))) ((msgRequestCode t)\<lparr>SDMReqCode_seq_num := 1\<rparr>))]"
    "transfer_frame s2 = transfer_frame s1" "pm_sends s2 = pm_sends s1 + 1"
    using GetCode_refused [where envs = envs and late = late and v = "SDMTask_version m" and s = s1, OF assms(1) f length_error_datagram [OF name(2)] error_datagram_first]
    unfolding v(1) by blast
  have nm: "cstr (recv_filename ?c) = name" using name by (simp add: cstr_padded)
  have rem: "RemoveCodeReceiver name s2 = s2\<lparr>codeReceivers := codeReceivers s\<rparr>"
    using g(7) assms(8) by (intro Remove_appended [OF assms(7) nm]) (simp_all add: transfer_frame_def)
  let ?s3 = "s2\<lparr>codeReceivers := codeReceivers s, pm_files := (pm_files s1)(name := None)\<rparr>"
  let ?p = "PMProcess_new\<lparr>m_strFilename := SDMTask_filename r, m_uiSdmPid := SDMTask_pid m\<rparr>"
  let ?req = "(msgRequestCode t)\<lparr>SDMReqCode_seq_num := 1\<rparr>"
  obtain x x' where x: "finished_message envs (- 1) ?p ?s3 = Some x"
    "pm_send_TM envs SDMTaskFinished_Send x ?s3 = Some (pm_log_sent 1 [(pm_TaskManager ?s3, finished_datagram (env_now (envs (pm_sends ?s3))) (- 1) ?p ?s3)] ?s3, x')"
    using send_finished [where envs = envs and p = ?p and st = "- 1" and s = ?s3, OF assms(1)] f by auto
  have wf: "SDMReqCode_wf ?req" using g(1) by (simp add: transfer_ok_def SDMReqCode_wf_def)
  have tm: "SendCode tenvs files (reqcode.datagram (env_now (envs (pm_sends s1))) ?req @ rest) tm = Some (MessageSent (log_sent 1 [(pm_source 0 s, ?d)] tm))"
    using SendCode_missing [where envs = tenvs and files = files and m = ?req, OF assms(2) wf] assms(6,8) g(2-4) by (simp add: pm_source_def)
  have fi: "first_index (\<lambda>c. cstr (recv_filename c) = name \<and> True) (codeReceivers s1) = Some (length (codeReceivers s))"
    using first_index_append [of "codeReceivers s" "\<lambda>c. cstr (recv_filename c) = name" ?c] assms(7,8) nm by simp
  have er: "ErrorHandler (\<lambda>_. True) (?d @ pad) s1 = Some (Some (fd, ?d))"
    using ErrorHandler_passes [where ok = "\<lambda>_. True", OF name fi] assms(8) by simp
  have th: "TaskHandler envs (Some fd) [(late, Some ?d)] (task_msg.datagram now m @ rest') s =
      Some (PM_MessageSent (pm_log_sent 1 [(pm_TaskManager ?s3, finished_datagram (env_now (envs (pm_sends ?s3))) (- 1) ?p ?s3)] ?s3))"
    using r(1) v assms(5,8) rec g(5) rem x by (simp add: TaskHandler_def)
  show ?thesis
    by (intro exI [of _ "reqcode.datagram (env_now (envs (pm_sends s1))) ?req"] exI conjI, rule tm, simp add: MessageSent_def log_sent_def, rule er, rule th)
      (use g(6-8) assms(8) v f in \<open>auto simp: PM_MessageSent_def pm_log_sent_def transfer_frame_def finished_datagram_def pm_source_def assms(4)\<close>)
qed

definition sample_task_msg :: SDMTask where
  "sample_task_msg = (SDMTask_new (replicate 128 0))\<lparr>SDMTask_filename := sample_name, SDMTask_pid := 9\<rparr>"

theorem missing_code_reported_witness:
  "\<exists>request tm' answer w s'.
      SendCode (\<lambda>_. working_env) (\<lambda>_. None) request sample_tm = Some tm'
    \<and> tm_wire tm' = [(pm_source 0 (sample_manager (\<lambda>_. None)), answer)]
    \<and> TaskHandler (\<lambda>_. working_env) (Some 5) [(False, Some w)] (task_msg.datagram (1, 2) sample_task_msg) (sample_manager (\<lambda>_. None)) = Some s'
    \<and> length (pm_wire s') = 2 \<and> taskQueue s' = []"
proof -
  let ?s = "sample_manager (\<lambda>_. None)"
  have wf: "SDMTask_wf sample_task_msg" "cstr (SDMTask_filename sample_task_msg) = [97]"
    by (simp_all add: sample_task_msg_def SDMTask_wf_def SDMTask_new_def new_message_def SDMmessage.defs sample_name_cstr)
  have s: "\<not> IsFileAvailable [97] ?s" "codeReceivers ?s = []" "pm_wire ?s = []" "taskQueue ?s = []"
    by (simp_all add: IsFileAvailable_def sample_manager_def)
  have t: "tm_wire sample_tm = []" by (simp add: sample_tm_def)
  have "\<exists>request tm' answer w s'.
      SendCode (\<lambda>_. working_env) (\<lambda>_. None) (request @ []) sample_tm = Some tm' \<and> tm_wire tm' = tm_wire sample_tm @ [(pm_source 0 ?s, answer)]
    \<and> ErrorHandler (\<lambda>_. True) (answer @ []) (?s\<lparr>codeReceivers := codeReceivers ?s @ [\<lparr>fd_code = 5, recv_filename = [97] @ replicate (128 - length [97 :: byte]) 0\<rparr>]\<rparr>)
       = Some (Some (5, w))
    \<and> TaskHandler (\<lambda>_. working_env) (Some 5) [(False, Some w)] (task_msg.datagram (1, 2) sample_task_msg @ []) ?s = Some s'
    \<and> pm_wire s' = pm_wire ?s @ [(pm_TaskManager ?s, request), (pm_TaskManager ?s, finished_datagram (env_now working_env) (- 1)
         (PMProcess_new\<lparr>m_strFilename := SDMTask_filename sample_task_msg, m_uiSdmPid := SDMTask_pid sample_task_msg\<rparr>) ?s)]
    \<and> pm_files s' = (pm_files ?s)([97] := None) \<and> codeReceivers s' = codeReceivers ?s \<and> taskQueue s' = taskQueue ?s"
    by (rule missing_code_reported [OF working_env_ok(1) working_env_ok(1) wf s(1) refl _ refl]) (simp add: s(2))
  then show ?thesis unfolding append_Nil2 s t append_Nil by force
qed

section \<open>Empty files\<close>

lemma first_index_app: "first_index p xs = Some i \<Longrightarrow> first_index p (xs @ ys) = Some i"
  by (induction xs arbitrary: i) (auto split: if_splits)

text \<open>
  For an empty file the Task Manager announces a segment 1 of 0. The Process Manager takes this for a fatal error and
  leaves the receiver of the failed transfer in its list: a segment for the same file is from then on written to the pipe of that
  transfer, whose end is closed, and not to that of a new receiver.
\<close>

theorem empty_file_receiver_stays:
  assumes "\<And>i. reachable_env (envs i)" "\<And>i. reachable_env (tenvs i)" "is_cstr 128 f" "files (task_path v (cstr f)) = Some []"
    and "first_index (\<lambda>c. cstr (recv_filename c) = cstr f) (codeReceivers s) = Some i" "length old = BUFSIZE"
  shows "\<exists>s0 t tm' src answer w s'. GetCode_start envs f v s = Some (s0, t)
    \<and> SendCode tenvs files (reqcode.datagram now ((msgRequestCode t)\<lparr>SDMReqCode_seq_num := 1\<rparr>) @ rest) tm = Some tm' \<and> tm_wire tm' = tm_wire tm @ [(src, answer)]
    \<and> HandleCodeMessage envs (answer @ drop (length answer) old) s = Some (Some (fd_code (codeReceivers s ! i), w))
    \<and> GetCode envs f v [(False, Some w)] s = Some (s', Some False) \<and> codeReceivers s' = codeReceivers s
    \<and> (\<forall>c later bytes seq pad. length (segment_datagram later (cstr f) bytes seq @ pad) = BUFSIZE \<longrightarrow>
         HandleCodeMessage envs (segment_datagram later (cstr f) bytes seq @ pad) (s'\<lparr>codeReceivers := codeReceivers s' @ [c]\<rparr>) =
           Some (Some (fd_code (codeReceivers s ! i), segment_datagram later (cstr f) bytes seq @ pad)))"
proof -
  have name: "0 \<notin> set (cstr f)" "length (cstr f) < 128" using is_cstr_len [OF assms(3)] by simp_all
  obtain s0 t where st: "GetCode_start envs f v s = Some (s0, t)" "transfer_ok (cstr f) [] 1 t s0" "usPollMiss t = 0"
    "transfer_frame s0 = transfer_frame s" "SDMReqCode_version (msgRequestCode t) = v" "cstr (SDMReqCode_filename (msgRequestCode t)) = cstr f"
    "usCurSequenceNumber t = 1"
    using GetCode_start_ok [where envs = envs, OF assms(1,3)] by metis
  obtain s1 t1 where r: "GetCode_request envs t s0 = Some (s1, t1)" "transfer_ok (cstr f) [] 1 t1 s1" "transfer_frame s1 = transfer_frame s0"
    using GetCode_request_ok [where envs = envs, OF assms(1) st(2)] by blast
  let ?req = "(msgRequestCode t)\<lparr>SDMReqCode_seq_num := 1\<rparr>" and ?d = "segment_datagram (env_now (tenvs (tm_sends tm))) (cstr f) [] 1"
  let ?w = "?d @ drop (length ?d) old"
  have wf: "SDMReqCode_wf ?req" using st(2) by (simp add: transfer_ok_def SDMReqCode_wf_def)
  have tm: "SendCode tenvs files (reqcode.datagram now ?req @ rest) tm = Some (MessageSent (log_sent 1 [(SDMReqCode_source ?req, ?d)] tm))"
    using SendCode_answers [where envs = tenvs and files = files and m = ?req, OF assms(2) wf] assms(4) st(5,6) by simp
  have lw: "length ?w = BUFSIZE" using length_segment_datagram [OF name(2)] assms(6) by simp
  have h: "HandleCodeMessage envs ?w s = Some (Some (fd_code (codeReceivers s ! i), ?w))"
    by (rule HandleCodeMessage_passes [OF assms(1) name lw assms(5)])
  have b: "put_bytes (msgBuffer t1) 0 ?w = Some ?w" using r(2) lw put_bytes_0 [of ?w "msgBuffer t1"] by (simp add: transfer_ok_def)
  have b0: "get_byte ?w 0 = Some SDM_Code" by (subst segment_datagram_first) (simp add: get_byte_def)
  obtain m n where m: "SDMCode_Unmarshal (rmsgCode t1) ?w = Some (m, int n)" "SDMCode_seq_num m = 1" "SDMCode_num_segments m = num_messages (length ([] :: byte list))"
    using read_segment [OF name conjunct1 [OF r(2) [unfolded transfer_ok_def]], of "env_now (tenvs (tm_sends tm))" "[]" 1 "drop (length ?d) old"] by blast
  have "usCurSequenceNumber t1 = 1" using r(2) by (simp add: transfer_ok_def)
  then have "\<exists>t2. GetCode_read (cstr f) (False, Some ?w) t1 s1 = Some (s1, t2, Fatal)"
    using b b0 m by (simp add: GetCode_read_def Let_def num_messages_def)
  then have "GetCode envs f v [(False, Some ?w)] s = Some (s1, Some False)" using st(1) r(1) by (auto simp: GetCode_def)
  moreover have cr: "codeReceivers s1 = codeReceivers s" using r(3) st(4) by (simp add: transfer_frame_def)
  moreover have "HandleCodeMessage envs (segment_datagram later (cstr f) bytes seq @ pad) (s1\<lparr>codeReceivers := codeReceivers s1 @ [c]\<rparr>) =
      Some (Some (fd_code (codeReceivers s ! i), segment_datagram later (cstr f) bytes seq @ pad))"
    if "length (segment_datagram later (cstr f) bytes seq @ pad) = BUFSIZE" for c later bytes seq pad
    using HandleCodeMessage_passes [where envs = envs and s = "s1\<lparr>codeReceivers := codeReceivers s1 @ [c]\<rparr>", OF assms(1) name that, of i]
      first_index_app [OF assms(5), of "[c]"] first_index_Some [OF assms(5)] by (simp add: cr nth_append)
  moreover have "tm_wire (MessageSent (log_sent 1 [(SDMReqCode_source ?req, ?d)] tm)) = tm_wire tm @ [(SDMReqCode_source ?req, ?d)]"
    by (simp add: MessageSent_def log_sent_def)
  ultimately show ?thesis using st(1) tm h by blast
qed

theorem empty_file_receiver_stays_witness:
  "\<exists>w s'. GetCode (\<lambda>_. working_env) sample_name 0 [(False, Some w)] sample_receiver = Some (s', Some False)
    \<and> map fd_code (codeReceivers s') = [5]"
proof -
  have c: "codeReceivers sample_receiver = [\<lparr>fd_code = 5, recv_filename = sample_name\<rparr>]" by (simp add: sample_receiver_def)
  then have "first_index (\<lambda>c. cstr (recv_filename c) = cstr sample_name) (codeReceivers sample_receiver) = Some 0" by simp
  from empty_file_receiver_stays [where envs = "\<lambda>_. working_env" and tenvs = "\<lambda>_. working_env" and files = "\<lambda>_. Some []" and v = 0 and now = "(1, 2)" and rest = "[]"
      and tm = sample_tm, OF working_env_ok(1) working_env_ok(1) sample_name_cstr(1) refl this, of "replicate 24288 0"]
  obtain w s' where "GetCode (\<lambda>_. working_env) sample_name 0 [(False, Some w)] sample_receiver = Some (s', Some False)"
    "codeReceivers s' = codeReceivers sample_receiver" by auto
  with c show ?thesis by (intro exI [of _ w] exI [of _ s']) simp
qed

end
