(* ===== verification/DM_Parse.thy ===== *)
theory DM_Parse
  imports Task_List
begin

text \<open>
  What the Data Manager reads from the text of an xTEDS before it is parsed, \<^verbatim>\<open>dm/Parse.cpp\<close>, and the copies
  of xTEDS documents it keeps for ASIMs, \<^verbatim>\<open>dm/DMUtils.cpp\<close>.

  A text is the list of its characters without the terminator; \<^verbatim>\<open>strncmp(&t[i], w, strlen(w)) == 0\<close> is
  \<open>occurs_at t i w\<close> for a \<open>w\<close> without null characters. An array a function fills is a buffer; a store outside
  it, or a read outside the text, is \<^term>\<open>None\<close>. Debug output is left out.
\<close>

section \<open>Attributes\<close>

abbreviation (input) QUOTATION :: byte where "QUOTATION \<equiv> 34"
abbreviation (input) TAG_OPEN :: byte where "TAG_OPEN \<equiv> 60"
abbreviation (input) TAG_CLOSE :: byte where "TAG_CLOSE \<equiv> 62"
abbreviation (input) SPACE_CHAR :: byte where "SPACE_CHAR \<equiv> 32"

definition occurs_at :: "byte list \<Rightarrow> nat \<Rightarrow> byte list \<Rightarrow> bool" where
  "occurs_at t i w = (take (length w) (drop i t) = w)"

text \<open>The loop of \<^verbatim>\<open>GetAttribute\<close>; \<open>strReturnValue\<close> is the array that receives the value.\<close>

function GetAttribute_loop ::
    "byte list \<Rightarrow> byte list \<Rightarrow> buffer \<Rightarrow> nat \<Rightarrow> nat \<Rightarrow> nat \<Rightarrow> nat \<Rightarrow> nat \<Rightarrow> (buffer \<times> int) option" where
  "GetAttribute_loop strSource strAttribute strReturnValue uiAttributeSize i flag attrstart numQuotes =
     (if i < length strSource then
        let c = strSource ! i;
            numQuotes = (if c = QUOTATION then numQuotes + 1 else numQuotes);
            go = (\<lambda>flag attrstart. if c = TAG_CLOSE then Some (strReturnValue, - 1)
              else GetAttribute_loop strSource strAttribute strReturnValue uiAttributeSize (i + 1) flag attrstart numQuotes)
        in if occurs_at strSource i strAttribute \<and> numQuotes mod 2 = 0 then go 1 (i + length strAttribute)
           else if c = QUOTATION \<and> flag = 1 then go 2 (i + 1)
           else if c = QUOTATION \<and> i > attrstart \<and> flag = 2 then
             (let attrend = i
              in if attrend < attrstart then Some (strReturnValue, - 1)
                 else if attrend - attrstart > uiAttributeSize then Some (strReturnValue, - 1)
                 else do {
                   strReturnValue \<leftarrow> strncpy strReturnValue 0 strSource attrstart (attrend - attrstart);
                   strReturnValue \<leftarrow> put_byte strReturnValue (attrend - attrstart) 0;
                   Some (strReturnValue, 0) })
           else go flag attrstart
      else Some (strReturnValue, - 1))"
  by pat_completeness auto
termination by (relation "measure (\<lambda>(s, _, _, _, i, _). length s - i)") auto

declare GetAttribute_loop.simps [simp del]

definition GetAttribute :: "byte list \<Rightarrow> byte list \<Rightarrow> buffer \<Rightarrow> nat \<Rightarrow> (buffer \<times> int) option" where
  "GetAttribute strSource strAttribute strReturnValue uiAttributeSize =
     (if uiAttributeSize = 0 then Some (strReturnValue, - 1)
      else GetAttribute_loop strSource strAttribute strReturnValue uiAttributeSize 0 0 0 0)"

section \<open>The device's name\<close>

text \<open>\<^verbatim>\<open>strstr(t + from, w)\<close>: the position in \<open>t\<close>.\<close>

definition strstr_from :: "byte list \<Rightarrow> nat \<Rightarrow> byte list \<Rightarrow> nat option" where
  "strstr_from t from w = map_option (\<lambda>i. from + i) (first_index (\<lambda>i. occurs_at t (from + i) w) [0..<length t - from])"

text \<open>The loop back to the opening of the tag, and the one forward to its end. Where a loop runs out, \<open>bCorrectTag\<close>
  keeps the value it had.\<close>

primrec back_to_tag :: "byte list \<Rightarrow> nat \<Rightarrow> bool \<Rightarrow> nat \<times> bool" where
  "back_to_tag t 0 bCorrectTag = (0, bCorrectTag)"
| "back_to_tag t (Suc i) bCorrectTag =
     (if t ! Suc i = TAG_OPEN then (Suc i, True) else if t ! Suc i \<noteq> SPACE_CHAR then (Suc i, False)
      else back_to_tag t i bCorrectTag)"

primrec forward_to_end :: "byte list \<Rightarrow> bool \<Rightarrow> bool" where
  "forward_to_end [] bCorrectTag = bCorrectTag"
| "forward_to_end (c # t) bCorrectTag = (if c = TAG_CLOSE then True else if c = TAG_OPEN then False else forward_to_end t bCorrectTag)"

abbreviation (input) APPLICATION :: int where "APPLICATION \<equiv> 0"
abbreviation (input) DEVICE :: int where "DEVICE \<equiv> 1"
abbreviation (input) ROBOHUB :: int where "ROBOHUB \<equiv> 2"

lemma first_index_range: "first_index p [0..<n] = Some i \<Longrightarrow> i < n"
  using first_index_Some [of p "[0..<n]" i] by simp

lemma strstr_from_bounds: "strstr_from t from w = Some cur \<Longrightarrow> from \<le> cur \<and> cur < length t"
  unfolding strstr_from_def using first_index_range by fastforce

text \<open>The loop of \<^verbatim>\<open>ParseDeviceName\<close>. A match at the first character makes the first loop start in front of the text.\<close>

function device_name_loop ::
    "byte list \<Rightarrow> nat \<Rightarrow> bool \<Rightarrow> bool \<Rightarrow> nat \<Rightarrow> buffer \<Rightarrow> (buffer \<times> int) option" where
  "device_name_loop strSource uiReturnNameSize bTryDevice bCorrectTag prevPos strReturnName =
     (case strstr_from strSource prevPos (if bTryDevice then chars ''Device'' else chars ''Application'') of
        None \<Rightarrow> (if bTryDevice then device_name_loop strSource uiReturnNameSize False bCorrectTag 0 strReturnName
                 else Some (strReturnName, - 1))
      | Some curPos \<Rightarrow>
          if curPos = 0 then None
          else
            let (iTagStart, bCorrectTag) = back_to_tag strSource (curPos - 1) bCorrectTag
            in if \<not> bCorrectTag
               then device_name_loop strSource uiReturnNameSize bTryDevice bCorrectTag (curPos + 1) strReturnName
               else
                 let bCorrectTag = forward_to_end (drop (iTagStart + 1) strSource) bCorrectTag
                 in if \<not> bCorrectTag
                    then device_name_loop strSource uiReturnNameSize bTryDevice bCorrectTag (curPos + 1) strReturnName
                    else
                      (case GetAttribute (drop iTagStart strSource) (chars ''name'') strReturnName uiReturnNameSize of
                         None \<Rightarrow> None
                       | Some (strReturnName, r) \<Rightarrow>
                           if r \<noteq> 0
                           then device_name_loop strSource uiReturnNameSize bTryDevice bCorrectTag (curPos + 1) strReturnName
                           else Some (strReturnName, if bTryDevice then DEVICE else APPLICATION)))"
  by pat_completeness auto
termination
  by (relation "measure (\<lambda>(s, _, try, _, pos, _). (if try then length s + 1 else 0) + (length s - pos))")
    (auto dest!: strstr_from_bounds)

declare device_name_loop.simps [simp del]

definition ParseDeviceName :: "byte list \<Rightarrow> buffer \<Rightarrow> nat \<Rightarrow> (buffer \<times> int) option" where
  "ParseDeviceName strSource strReturnName uiReturnNameSize =
     device_name_loop strSource uiReturnNameSize True False 0 strReturnName"

section \<open>Item names\<close>

abbreviation (input) REQTYPE_USEITEM :: int where "REQTYPE_USEITEM \<equiv> 0"
abbreviation (input) REQTYPE_EMPTYITEM :: int where "REQTYPE_EMPTYITEM \<equiv> 1"
abbreviation (input) REQTYPE_REGEX :: int where "REQTYPE_REGEX \<equiv> 2"

definition ParseItemName :: "byte list \<Rightarrow> int" where
  "ParseItemName itm = (if \<exists>c\<in>set itm. c \<in> set (chars ''*.[]{}()'') \<or> c = 92 \<or> c \<in> set (chars ''+?|^$'')
     then REQTYPE_REGEX else 0)"

section \<open>The SPA hub\<close>

text \<open>The inner loop of \<^verbatim>\<open>GetSPAHub\<close>: the piece of the text from the attribute to the end of its tag, or the
  return when there is none. \<open>devstart\<close> is an \<^verbatim>\<open>int\<close>.\<close>

function hub_chunk :: "byte list \<Rightarrow> nat \<Rightarrow> int \<Rightarrow> byte list option" where
  "hub_chunk buf i devstart =
     (if i < length buf then
        let devstart = (if occurs_at buf i (chars ''SPA_U_hub'') \<or> occurs_at buf i (chars ''spaUHub'') then int i - 1 else devstart)
        in if devstart > 0 \<and> buf ! i = TAG_CLOSE then Some (take (i + 1 - nat devstart) (drop (nat devstart) buf))
           else if i + 1 = length buf then None
           else hub_chunk buf (i + 1) devstart
      else None)"
  by pat_completeness auto
termination by (relation "measure (\<lambda>(b, i, _). length b - i)") auto

declare hub_chunk.simps [simp del]

definition GetSPAHub :: "byte list \<Rightarrow> buffer \<Rightarrow> buffer \<Rightarrow> (buffer \<times> int) option" where
  "GetSPAHub buf hub name =
     (case hub_chunk buf 0 0 of None \<Rightarrow> Some (hub, - 1)
      | Some device \<Rightarrow> do {
          (name, num) \<leftarrow> GetAttribute device (chars ''SPA_U_hub'') name 128;
          if num < 1 then Some (hub, - 1)
          else do {
            hub \<leftarrow> strcpy hub 0 name 0;
            Some (hub, 0) } })"

section \<open>Stored documents\<close>

definition IsPIDFromASIM :: "32 word \<Rightarrow> bool" where
  "IsPIDFromASIM processID = (sint processID < 0)"

text \<open>\<^verbatim>\<open>"./xTEDS/%ld.xml"\<close>; the negation wraps.\<close>

definition PIDToFileName :: "32 word \<Rightarrow> byte list option" where
  "PIDToFileName processID =
     (if IsPIDFromASIM processID then
        (let n = sint (- processID) in
         Some (chars ''./xTEDS/'' @ (if n < 0 then 45 # decimal (nat (- n)) else decimal (nat n)) @ chars ''.xml''))
      else None)"

text \<open>The files of the working directory, and whether \<^verbatim>\<open>./xTEDS\<close> can be written. The file is not truncated when it is
  opened; the write overwrites its beginning.\<close>

definition Store_xTEDS :: "bool \<Rightarrow> 32 word \<Rightarrow> byte list \<Rightarrow> (byte list \<Rightarrow> byte list option) \<Rightarrow> (byte list \<Rightarrow> byte list option) \<times> int" where
  "Store_xTEDS writable processID xTEDSIn files =
     (case PIDToFileName processID of None \<Rightarrow> (files, - 1)
      | Some fileName \<Rightarrow>
          if \<not> writable then (files, - 2)
          else (let data = xTEDSIn @ [10]; old = (case files fileName of None \<Rightarrow> [] | Some d \<Rightarrow> d)
                in (files(fileName \<mapsto> data @ drop (length data) old), 0)))"

definition Retrieve_xTEDS :: "32 word \<Rightarrow> buffer \<Rightarrow> (byte list \<Rightarrow> byte list option) \<Rightarrow> (buffer \<times> int) option" where
  "Retrieve_xTEDS processID xTEDSOut files =
     (case PIDToFileName processID of None \<Rightarrow> Some (xTEDSOut, - 1)
      | Some fileName \<Rightarrow>
          (case files fileName of None \<Rightarrow> Some (xTEDSOut, - 2)
           | Some d \<Rightarrow> do {
               let r = take 24183 d;
               xTEDSOut \<leftarrow> put_bytes xTEDSOut 0 r;
               xTEDSOut \<leftarrow> put_byte xTEDSOut (length r) 0;
               Some (xTEDSOut, 0) }))"

section \<open>What the functions do\<close>

lemma GetAttribute_loop_result:
  "GetAttribute_loop s a ret n i flag st q = Some (ret', r) \<Longrightarrow> r = 0 \<or> r = - 1"
proof (induction s a ret n i flag st q rule: GetAttribute_loop.induct)
  case (1 s a ret n i flag st q)
  from "1.prems" show ?case
    by (subst (asm) GetAttribute_loop.simps)
      (auto simp: Let_def split: if_splits bind_splits dest: "1.IH" [OF _ refl refl])
qed

lemma GetAttribute_result: "GetAttribute s a ret n = Some (ret', r) \<Longrightarrow> r = 0 \<or> r = - 1"
  using GetAttribute_loop_result by (auto simp: GetAttribute_def split: if_splits)

lemma GetSPAHub_fails: "GetSPAHub buf hub name = Some (hub', r) \<Longrightarrow> hub' = hub \<and> r = - 1"
  by (auto simp: GetSPAHub_def split: option.splits bind_splits if_splits dest: GetAttribute_result)

end
