(* ===== verification/DM_Registry.thy ===== *)
theory DM_Registry
  imports DM_Parse Messages_Data
begin

text \<open>
  The Data Manager's registry of xTEDS documents: \<^verbatim>\<open>dm/xTEDSLibrary.cpp\<close>, \<^verbatim>\<open>dm/xTEDSLibraryList.cpp\<close> and the
  functions of \<^verbatim>\<open>dm/DM.cpp\<close> that look for an entry, reactivate one or fill one.

  The linked list is a list, a node its index. Entries are never removed: an entry whose document was cancelled
  is marked available and may be filled again. The semaphores of the entries are left out: the model runs one
  handler at a time. A \<^verbatim>\<open>char*\<close> is \<^term>\<open>None\<close> (NULL) or its text, and an operation is \<^term>\<open>None\<close> where the code
  passes NULL to a string function.

  The tree of a document is the record \<open>xTEDS\<close> of the answers its queries give; \<^term>\<open>None\<close> is an answer that reads through
  NULL or behind a buffer. The parser is an argument of the operations that parse, \<^term>\<open>None\<close> for a document it rejects;
  \<open>XTEDS_Document\<close> has the one of the program.
\<close>

unbundle bit_operations_syntax

section \<open>Entries\<close>

type_synonym text_ptr = "byte list option"

record MessageDefinition =
  GetInterfaceMessageID :: SDMMessage_ID
  GetDefinitions :: "byte list"
  GetxTEDSPortion :: "byte list"

record VariableDefinition =
  VariableDef_GetDefinitions :: "byte list"
  GetInterfaceName :: "byte list"
  GetVariableName :: "byte list"

record xTEDS =
  getDeviceName :: text_ptr
  getSPAUHub :: text_ptr
  getSPAUPort :: text_ptr
  tree_ComponentKey :: text_ptr
  isCommandIdValid :: "SDMMessage_ID \<Rightarrow> bool"
  getCommandFaultMsgID :: "SDMMessage_ID \<Rightarrow> SDMMessage_ID"
  isServiceIdValid :: "SDMMessage_ID \<Rightarrow> bool"
  getServiceDataMsgID :: "SDMMessage_ID \<Rightarrow> SDMMessage_ID"
  getServiceFaultMsgID :: "SDMMessage_ID \<Rightarrow> SDMMessage_ID"
  getNotificationFaultMsgID :: "SDMMessage_ID \<Rightarrow> SDMMessage_ID"
  RegInfo :: "byte list \<Rightarrow> byte list \<Rightarrow> text_ptr \<Rightarrow> text_ptr \<Rightarrow> MessageDefinition list option"
  AllRegInfo :: "byte list \<Rightarrow> text_ptr \<Rightarrow> text_ptr \<Rightarrow> MessageDefinition list option"
  RegexRegInfo :: "byte list \<Rightarrow> byte list \<Rightarrow> text_ptr \<Rightarrow> text_ptr \<Rightarrow> MessageDefinition list option option"
  getVarInfo :: "byte list \<Rightarrow> SDMMessage_ID \<Rightarrow> VariableDefinition list option"

record xTEDSLibrary =
  xtedsTree :: "xTEDS option"
  available :: bool
  connections :: int
  lib_active :: bool
  lib_pid :: "32 word"
  hub :: int
  posted :: bool
  m_strSPANode :: text_ptr
  fullxTED :: text_ptr
  tempSPAHub :: text_ptr
  lib_id :: SDMComponent_ID
  merged :: bool

definition xTEDSLibrary_new :: xTEDSLibrary where
  "xTEDSLibrary_new = \<lparr>xtedsTree = None, available = True, connections = 0, lib_active = False, lib_pid = 0, hub = 0,
     posted = False, m_strSPANode = None, fullxTED = None, tempSPAHub = None,
     lib_id = SDMComponent_ID_new\<lparr>m_ulSensorId := 0, m_usPort := 0, m_ulAddress := 0\<rparr>, merged = False\<rparr>"

definition setxTEDS :: "(byte list \<Rightarrow> xTEDS option) \<Rightarrow> byte list \<Rightarrow> xTEDSLibrary \<Rightarrow> xTEDSLibrary \<times> bool" where
  "setxTEDS Parse new_xTEDS d =
     (let d = d\<lparr>fullxTED := Some new_xTEDS\<rparr>;
          d = d\<lparr>xtedsTree := Parse new_xTEDS\<rparr>
      in (d, xtedsTree d \<noteq> None))"

definition lib_setAddress :: "SDMComponent_ID \<Rightarrow> xTEDSLibrary \<Rightarrow> xTEDSLibrary" where
  "lib_setAddress new_idAddr d = d\<lparr>lib_id := (lib_id d)\<lparr>m_ulAddress := m_ulAddress new_idAddr\<rparr>\<rparr>"

definition lib_setSensorID :: "32 word \<Rightarrow> xTEDSLibrary \<Rightarrow> xTEDSLibrary" where
  "lib_setSensorID new_sensorID d = d\<lparr>lib_id := (lib_id d)\<lparr>m_ulSensorId := new_sensorID\<rparr>\<rparr>"

definition setTargetPort :: "16 word \<Rightarrow> xTEDSLibrary \<Rightarrow> xTEDSLibrary" where
  "setTargetPort new_targetport d = d\<lparr>lib_id := (lib_id d)\<lparr>m_usPort := new_targetport\<rparr>\<rparr>"

definition setSPANode :: "byte list \<Rightarrow> xTEDSLibrary \<Rightarrow> xTEDSLibrary" where
  "setSPANode new_locationAddress d = d\<lparr>m_strSPANode := Some new_locationAddress\<rparr>"

definition setSPAHub :: "byte list \<Rightarrow> xTEDSLibrary \<Rightarrow> xTEDSLibrary" where
  "setSPAHub new_spahub d = d\<lparr>tempSPAHub := Some new_spahub\<rparr>"

definition setComponentID :: "SDMComponent_ID \<Rightarrow> xTEDSLibrary \<Rightarrow> xTEDSLibrary" where
  "setComponentID new_id d = d\<lparr>lib_id := (lib_id d)\<lparr>m_ulAddress := m_ulAddress new_id, m_ulSensorId := m_ulSensorId new_id, m_usPort := m_usPort new_id\<rparr>\<rparr>"

definition getName :: "xTEDSLibrary \<Rightarrow> text_ptr" where
  "getName d = (case xtedsTree d of Some t \<Rightarrow> getDeviceName t | None \<Rightarrow> None)"

definition getSensorID :: "xTEDSLibrary \<Rightarrow> 32 word" where
  "getSensorID d = m_ulSensorId (lib_id d)"

definition getTargetPort :: "xTEDSLibrary \<Rightarrow> 16 word" where
  "getTargetPort d = m_usPort (lib_id d)"

definition getSPAHub :: "xTEDSLibrary \<Rightarrow> text_ptr" where
  "getSPAHub d = (case xtedsTree d of Some t \<Rightarrow> getSPAUHub t | None \<Rightarrow> tempSPAHub d)"

definition getSPAPort :: "xTEDSLibrary \<Rightarrow> text_ptr" where
  "getSPAPort d = (case xtedsTree d of Some t \<Rightarrow> getSPAUPort t | None \<Rightarrow> None)"

definition getComponentID :: "xTEDSLibrary \<Rightarrow> SDMComponent_ID" where
  "getComponentID d = SDMComponent_ID_new\<lparr>m_ulAddress := m_ulAddress (lib_id d), m_ulSensorId := m_ulSensorId (lib_id d), m_usPort := m_usPort (lib_id d)\<rparr>"

definition getComponentKey :: "xTEDSLibrary \<Rightarrow> text_ptr" where
  "getComponentKey d = (case xtedsTree d of Some t \<Rightarrow> tree_ComponentKey t | None \<Rightarrow> None)"

section \<open>The list\<close>

type_synonym xTEDSLibraryList = "xTEDSLibrary list"

definition xTEDSLibraryList_size :: "xTEDSLibraryList \<Rightarrow> nat" where
  "xTEDSLibraryList_size l = length l"

definition addLibrary :: "xTEDSLibrary \<Rightarrow> xTEDSLibraryList \<Rightarrow> xTEDSLibraryList" where
  "addLibrary data l = l @ [data]"

text \<open>\<open>snprintf\<close> of the name into a buffer of \<open>uiBufferSize\<close> bytes: the text that ends up there.\<close>

definition snprintf_text :: "nat \<Rightarrow> byte list \<Rightarrow> byte list" where
  "snprintf_text uiBufferSize t = take (uiBufferSize - 1) t"

definition GetDeviceName :: "SDMComponent_ID \<Rightarrow> nat \<Rightarrow> xTEDSLibraryList \<Rightarrow> (byte list \<times> bool) option" where
  "GetDeviceName sdmCompId uiBufferSize l =
     (let ulSensorId = m_ulSensorId sdmCompId in
      if ulSensorId = 0 \<or> ulSensorId = 1 then Some (snprintf_text uiBufferSize (chars ''unknown''), False)
      else case first_index (\<lambda>d. \<not> available d \<and> getSensorID d = ulSensorId) l of
        None \<Rightarrow> Some (snprintf_text uiBufferSize (chars ''unknown''), False)
      | Some i \<Rightarrow> do { name \<leftarrow> getName (l ! i); Some (snprintf_text uiBufferSize name, True) })"

section \<open>Finding and filling an entry\<close>

definition slot_id :: "32 word \<Rightarrow> nat \<Rightarrow> 32 word" where
  "slot_id ID count = ID OR push_bit 16 (of_nat count)"

definition is_hub_name :: "byte list \<Rightarrow> bool" where
  "is_hub_name name = (occurs_at name 0 (chars ''RoboHub'') \<or> occurs_at name 0 (chars ''RobustHub''))"

text \<open>The entry of a component that registers again.\<close>

definition reactivate :: "SDMxTEDS \<Rightarrow> SDMComponent_ID \<Rightarrow> int \<Rightarrow> nat \<Rightarrow> byte list \<Rightarrow> xTEDSLibrary \<Rightarrow> xTEDSLibrary" where
  "reactivate ted idAddr type count name d =
     (let d = lib_setAddress idAddr (d\<lparr>lib_active := True\<rparr>);
          ID = m_ulSensorId (SDMxTEDS_source ted);
          d = (setTargetPort (m_usPort (SDMxTEDS_source ted)) d)\<lparr>lib_pid := SDMxTEDS_pid ted, hub := type\<rparr>;
          d = (if is_hub_name name then d\<lparr>hub := ROBOHUB\<rparr> else d)
      in lib_setSensorID (slot_id (ID AND 0x0000FFFF) count) d)"

text \<open>The result is the list, the node (\<^term>\<open>None\<close> for NULL) and \<open>spot\<close>, which is \<open>0\<close> when nothing is found.\<close>

primrec AlreadyRegistered_loop ::
    "byte list \<Rightarrow> SDMxTEDS \<Rightarrow> 16 word \<Rightarrow> SDMComponent_ID \<Rightarrow> int \<Rightarrow> nat \<Rightarrow> xTEDSLibraryList
     \<Rightarrow> (xTEDSLibraryList \<times> nat option \<times> int) option" where
  "AlreadyRegistered_loop sensor ted port idAddr type count [] = Some ([], None, 0)"
| "AlreadyRegistered_loop sensor ted port idAddr type count (d # l) = (
     let go = do { (l', r) \<leftarrow> AlreadyRegistered_loop sensor ted port idAddr type (count + 1) l; Some (d # l', r) }
     in if \<not> available d then do {
          name \<leftarrow> getName d;
          if occurs_at name 0 sensor then
            if \<not> lib_active d then Some (reactivate ted idAddr type count name d # l, Some count, int count)
            else if port = getTargetPort d then
              if m_ulAddress idAddr = m_ulAddress (lib_id d) then
                if m_ulSensorId (SDMxTEDS_source ted) AND 0x0000FFFF = getSensorID d AND 0x0000FFFF \<and> port \<noteq> PORT_TM
                then Some (d # l, Some count, - 1)
                else if port = PORT_TM then Some (d # l, Some count, int count)
                else go
              else go
            else go
          else go }
        else go)"

definition DM_AlreadyRegistered ::
    "byte list \<Rightarrow> SDMxTEDS \<Rightarrow> 16 word \<Rightarrow> SDMComponent_ID \<Rightarrow> int \<Rightarrow> xTEDSLibraryList
     \<Rightarrow> (xTEDSLibraryList \<times> nat option \<times> int) option" where
  "DM_AlreadyRegistered sensor ted port idAddr type l = AlreadyRegistered_loop sensor ted port idAddr type 0 l"

text \<open>The loop of \<^verbatim>\<open>StoreInfo\<close> to a free entry; the first entry is stepped over.\<close>

primrec free_entry :: "int \<Rightarrow> xTEDSLibraryList \<Rightarrow> nat \<Rightarrow> nat" where
  "free_entry spot [] count = count"
| "free_entry spot (iterator # l) count =
     (if int count \<noteq> spot \<and> \<not> available iterator then free_entry spot l (count + 1) else count)"

definition fill_entry :: "SDMxTEDS \<Rightarrow> SDMComponent_ID \<Rightarrow> int \<Rightarrow> nat \<Rightarrow> xTEDSLibrary \<Rightarrow> xTEDSLibrary option" where
  "fill_entry ted idAddr type count d = do {
     let d = (lib_setAddress idAddr d)\<lparr>available := False\<rparr>;
     let ID = m_ulSensorId (SDMxTEDS_source ted);
     let d = (setTargetPort (m_usPort (SDMxTEDS_source ted)) d)\<lparr>lib_pid := SDMxTEDS_pid ted\<rparr>;
     let d = setSPANode (cstr (SDMxTEDS_SPA_node ted)) d;
     let d = d\<lparr>hub := type\<rparr>;
     d \<leftarrow> (if hub d = ROBOHUB then do {
         (SPAHub, r) \<leftarrow> GetSPAHub (cstr (SDMxTEDS_xTEDS ted)) (replicate 128 0) (replicate 128 0);
         Some (if r = 0 then setSPAHub (cstr SPAHub) d else d) }
       else Some d);
     let d = d\<lparr>lib_active := SDMxTEDS_active ted \<noteq> 0\<rparr>;
     Some (lib_setSensorID (slot_id (ID AND 0x000000FF) count) d) }"

definition StoreInfo :: "SDMxTEDS \<Rightarrow> int \<Rightarrow> SDMComponent_ID \<Rightarrow> int \<Rightarrow> xTEDSLibraryList \<Rightarrow> (xTEDSLibraryList \<times> nat) option" where
  "StoreInfo ted spot idAddr type l =
     (if l = [] \<and> spot > 0 then None
      else do {
        let count = (if l = [] then 0 else free_entry spot (tl l) 1);
        let l = (if count < length l then l else addLibrary xTEDSLibrary_new l);
        d \<leftarrow> fill_entry ted idAddr type count (l ! count);
        Some (l[count := d], count) })"

definition MatchSID :: "32 word \<Rightarrow> xTEDSLibraryList \<Rightarrow> nat option" where
  "MatchSID sID l = first_index (\<lambda>d. lib_active d \<and> sID = getSensorID d) l"

end
