(* ===== verification/Data_Manager.thy ===== *)
theory Data_Manager
  imports DM_Registry Subscriptions Provider_Subscriptions Segment_Builder
begin

text \<open>
  The Data Manager, \<^verbatim>\<open>dm/DM.cpp\<close>: its state, its own notifications and services, and the handlers that forward
  subscriptions, commands and service requests to their providers. The model is the build without backup
  managers (\<^verbatim>\<open>PNP_BACKUP\<close>) and without merging of documents (\<^verbatim>\<open>BUILD_FOR_XTEDS_MERGING\<close>), for Linux, so that
  \<^verbatim>\<open>IAmElected\<close> is always true.

  The globals of the program are the record \<open>dm\<close>. \<open>envs n\<close> is the environment of the \<open>n\<close>-th send of the program:
  \<open>dm_sends\<close> counts them, and the datagrams sent so far are in \<open>dm_wire\<close>, each with the component or the open
  socket it went to. Results of sends are ignored. Uninitialised arrays have the contents of the stack of the
  environment. The message log and debug output are left out.
\<close>

section \<open>State\<close>

text \<open>Where a datagram went: to a component, back over a socket, or, for the messages of \<^verbatim>\<open>SubscriberFinish\<close>, to the
  provider it names as its source.\<close>

datatype dm_destination = Component SDMComponent_ID | Handle SDMComHandle | Provider

record dm =
  xTEDSList :: xTEDSLibraryList
  dm_subscribers :: "Subscription list"
  g_SensorSubscriptions :: "ProviderSubscription list"
  xTEDSBuilder :: xTEDSSegmentBuilder
  registerNext :: bool
  cancelNext :: bool
  Address_DM :: "32 word"
  dm_TaskManager :: SDMComponent_ID
  dm_DataManager :: SDMComponent_ID
  dm_total_sent :: "32 word"
  dm_prevsec_sent :: "32 word"
  dm_total_recd :: "32 word"
  dm_prevsec_recd :: "32 word"
  droppedxTEDS :: "32 word"
  droppedCancelxTEDS :: "32 word"
  dm_timer :: bool
  dm_files :: "byte list \<Rightarrow> byte list option"
  dm_xTEDS_writable :: bool
  dm_sends :: nat
  dm_wire :: "(dm_destination \<times> byte list) list"

definition dm_env_at :: "(nat \<Rightarrow> env) \<Rightarrow> dm \<Rightarrow> nat \<Rightarrow> env" where
  "dm_env_at envs s i = (envs (dm_sends s + i))\<lparr>TaskManager := dm_TaskManager s, DataManager := dm_DataManager s\<rparr>"

definition dm_junk :: "(nat \<Rightarrow> env) \<Rightarrow> dm \<Rightarrow> nat \<Rightarrow> buffer" where
  "dm_junk envs s n = take n (env_stk (dm_env_at envs s 0))"

definition dm_log_sent :: "nat \<Rightarrow> (dm_destination \<times> byte list) list \<Rightarrow> dm \<Rightarrow> dm" where
  "dm_log_sent n out s = s\<lparr>dm_sends := dm_sends s + n, dm_wire := dm_wire s @ out\<rparr>"

definition DM_MessageSent :: "dm \<Rightarrow> dm" where
  "DM_MessageSent s = s\<lparr>dm_total_sent := dm_total_sent s + 1, dm_prevsec_sent := dm_prevsec_sent s + 1\<rparr>"

text \<open>The send of a message object, which is returned.\<close>

definition dm_send_to :: "(nat \<Rightarrow> env) \<Rightarrow> 'm sender_to \<Rightarrow> 'm \<Rightarrow> SDMComponent_ID \<Rightarrow> dm \<Rightarrow> (dm \<times> 'm) option" where
  "dm_send_to envs Send m destination s = do {
     (m, sent, _) \<leftarrow> Send (dm_env_at envs s 0) m destination;
     Some (dm_log_sent 1 (map (Pair (Component destination)) sent) s, m) }"

abbreviation (input) DM_SENSOR_ID :: "32 word" where "DM_SENSOR_ID \<equiv> 1"
abbreviation (input) L_LOCAL_HOST :: "32 word" where "L_LOCAL_HOST \<equiv> 0x0100007f"
abbreviation (input) PORT_SM :: "16 word" where "PORT_SM \<equiv> 3506"
abbreviation (input) PORT_SPA1_MANAGER :: "16 word" where "PORT_SPA1_MANAGER \<equiv> 3514"
abbreviation (input) SDM_OK :: "16 word" where "SDM_OK \<equiv> 0"
abbreviation (input) SDM_INVALID_XTEDS :: "16 word" where "SDM_INVALID_XTEDS \<equiv> - 10"
abbreviation (input) SDM_UNKNOWN_XTEDS :: "16 word" where "SDM_UNKNOWN_XTEDS \<equiv> - 11"
abbreviation (input) SDM_INVALID_CANCEL :: "16 word" where "SDM_INVALID_CANCEL \<equiv> - 14"

abbreviation (input) INVALID_MESSAGE_ID :: SDMMessage_ID where "INVALID_MESSAGE_ID \<equiv> SDMMessage_ID_new 0 0"
abbreviation (input) NOTI_REGISTRATION :: SDMMessage_ID where "NOTI_REGISTRATION \<equiv> SDMMessage_ID_new 1 1"
abbreviation (input) NOTI_DEREGISTRATION :: SDMMessage_ID where "NOTI_DEREGISTRATION \<equiv> SDMMessage_ID_new 1 2"
abbreviation (input) NOTI_XTEDS_MODIFICATION :: SDMMessage_ID where "NOTI_XTEDS_MODIFICATION \<equiv> SDMMessage_ID_new 1 3"
abbreviation (input) NOTI_REGISTRATION_CHANGE :: SDMMessage_ID where "NOTI_REGISTRATION_CHANGE \<equiv> SDMMessage_ID_new 1 4"
abbreviation (input) NOTI_PERFORMANCE_COUNTERS :: SDMMessage_ID where "NOTI_PERFORMANCE_COUNTERS \<equiv> SDMMessage_ID_new 2 13"
abbreviation (input) RPLY_CONVERTED_DEVICE_NAME :: SDMMessage_ID where "RPLY_CONVERTED_DEVICE_NAME \<equiv> SDMMessage_ID_new 1 5"
abbreviation (input) RPLY_CONVERTED_SPANODE :: SDMMessage_ID where "RPLY_CONVERTED_SPANODE \<equiv> SDMMessage_ID_new 1 7"
abbreviation (input) RPLY_CONVERTED_IP :: SDMMessage_ID where "RPLY_CONVERTED_IP \<equiv> SDMMessage_ID_new 1 10"
abbreviation (input) RPLY_RETURN_COMP_KEY :: SDMMessage_ID where "RPLY_RETURN_COMP_KEY \<equiv> SDMMessage_ID_new 1 15"
abbreviation (input) RPLY_ERRORS :: SDMMessage_ID where "RPLY_ERRORS \<equiv> SDMMessage_ID_new 2 19"
abbreviation (input) SER_SEND_SENSOR_ID :: SDMMessage_ID where "SER_SEND_SENSOR_ID \<equiv> SDMMessage_ID_new 1 6"
abbreviation (input) SER_SEND_PID :: SDMMessage_ID where "SER_SEND_PID \<equiv> SDMMessage_ID_new 1 8"
abbreviation (input) SER_SID_TO_SPANODE :: SDMMessage_ID where "SER_SID_TO_SPANODE \<equiv> SDMMessage_ID_new 1 11"
abbreviation (input) SER_SID_TO_IP :: SDMMessage_ID where "SER_SID_TO_IP \<equiv> SDMMessage_ID_new 1 12"
abbreviation (input) SER_COMPID_TO_COMPKEY :: SDMMessage_ID where "SER_COMPID_TO_COMPKEY \<equiv> SDMMessage_ID_new 1 14"
abbreviation (input) SER_GET_ERRORS :: SDMMessage_ID where "SER_GET_ERRORS \<equiv> SDMMessage_ID_new 2 18"

abbreviation (input) MOD_NOT_APPLICABLE :: int where "MOD_NOT_APPLICABLE \<equiv> 0"
abbreviation (input) REGISTRATION_MODIFICATION :: int where "REGISTRATION_MODIFICATION \<equiv> 1"
abbreviation (input) DEREGISTRATION_MODIFICATION :: int where "DEREGISTRATION_MODIFICATION \<equiv> 2"

text \<open>The acknowledgement goes to a component, or back over the socket of the request.\<close>

definition SendAckMessage :: "(nat \<Rightarrow> env) \<Rightarrow> 16 word \<Rightarrow> bool \<Rightarrow> SDMComponent_ID \<Rightarrow> SDMComHandle \<Rightarrow> dm \<Rightarrow> dm option" where
  "SendAckMessage envs sAckStatus bUseComponentId idDest AppHandle s = do {
     let msgAck = SDMAck_new\<lparr>SDMAck_error := sAckStatus\<rparr>;
     s \<leftarrow> (if bUseComponentId then do {
         (s, _) \<leftarrow> dm_send_to envs (\<lambda>e. SendTo SDMAck_Marshal (env_net e) (env_stk e) (env_ack e) (env_now e)) msgAck idDest s;
         Some s }
       else do {
         let e = dm_env_at envs s 0;
         (_, sent, _) \<leftarrow> SDMAck_Send_handle (net_send (env_net e) 0) (net_send (env_net e) 0) (env_stk e) (env_now e) msgAck AppHandle;
         Some (dm_log_sent 1 (map (Pair (Handle AppHandle)) sent) s) });
     Some (DM_MessageSent s) }"

section \<open>Notifications\<close>

text \<open>One \<open>SDMData\<close> object is filled and sent for every subscription to the notification.\<close>

definition notify_one :: "(nat \<Rightarrow> env) \<Rightarrow> 32 word \<Rightarrow> SDMMessage_ID \<Rightarrow> int \<Rightarrow> Subscription \<Rightarrow> SDMData \<Rightarrow> dm \<Rightarrow> (dm \<times> SDMData) option" where
  "notify_one envs SensorID MessageID ModificationAction CurSub msgData s =
     (let put = (\<lambda>f. do { msg \<leftarrow> f (SDMData_msg msgData); Some (msgData\<lparr>SDMData_msg := msg\<rparr>) });
          send = (\<lambda>msgData n. do {
            (s, msgData) \<leftarrow> dm_send_to envs (\<lambda>e m d. SDMData_Send_length e m d n) msgData (m_idSubscriber CurSub) s;
            Some (DM_MessageSent s, msgData) })
      in if SDMMessage_ID_eq MessageID NOTI_REGISTRATION \<or> SDMMessage_ID_eq MessageID NOTI_DEREGISTRATION
            \<or> SDMMessage_ID_eq MessageID NOTI_XTEDS_MODIFICATION
         then do { msgData \<leftarrow> put (\<lambda>msg. PUT_ULONG msg 0 SensorID); send msgData 4 }
         else if SDMMessage_ID_eq MessageID NOTI_REGISTRATION_CHANGE then do {
           msgData \<leftarrow> put (\<lambda>msg. do { msg \<leftarrow> PUT_UCHAR msg 0 (of_int ModificationAction); PUT_ULONG msg 1 SensorID });
           send msgData 5 }
         else if SDMMessage_ID_eq MessageID NOTI_PERFORMANCE_COUNTERS then do {
           msgData \<leftarrow> put (\<lambda>msg. do { msg \<leftarrow> PUT_UINT msg 0 (dm_total_recd s); msg \<leftarrow> PUT_UINT msg 4 (dm_prevsec_recd s);
             msg \<leftarrow> PUT_UINT msg 8 (dm_total_sent s); PUT_UINT msg 12 (dm_prevsec_sent s) });
           send msgData 16 }
         else Some (s, msgData))"

primrec notify_loop :: "(nat \<Rightarrow> env) \<Rightarrow> 32 word \<Rightarrow> SDMMessage_ID \<Rightarrow> int \<Rightarrow> Subscription list \<Rightarrow> SDMData \<Rightarrow> dm \<Rightarrow> dm option" where
  "notify_loop envs SensorID MessageID ModificationAction [] msgData s = Some s"
| "notify_loop envs SensorID MessageID ModificationAction (CurSub # l) msgData s =
     (if m_bInUse CurSub \<and> getmID CurSub = sint (SDMMessage_ID_getInterfaceMessagePair MessageID) then do {
        (s, msgData) \<leftarrow> notify_one envs SensorID MessageID ModificationAction CurSub msgData s;
        notify_loop envs SensorID MessageID ModificationAction l msgData s }
      else notify_loop envs SensorID MessageID ModificationAction l msgData s)"

definition dm_data :: "(nat \<Rightarrow> env) \<Rightarrow> dm \<Rightarrow> SDMData" where
  "dm_data envs s = (SDMData_new (globals.truncate (dm_env_at envs s 0)) (dm_junk envs s 24259))\<lparr>SDMData_source := dm_DataManager s\<rparr>"

definition PublishNotification :: "(nat \<Rightarrow> env) \<Rightarrow> 32 word \<Rightarrow> SDMMessage_ID \<Rightarrow> int \<Rightarrow> dm \<Rightarrow> dm option" where
  "PublishNotification envs SensorID MessageID ModificationAction s =
     notify_loop envs SensorID MessageID ModificationAction (dm_subscribers s)
       ((dm_data envs s)\<lparr>SDMData_msg_id := MessageID\<rparr>) s"

text \<open>A new subscriber to registrations is sent all documents in use.\<close>

primrec announce_loop :: "(nat \<Rightarrow> env) \<Rightarrow> SDMComponent_ID \<Rightarrow> SDMMessage_ID \<Rightarrow> xTEDSLibraryList \<Rightarrow> SDMData \<Rightarrow> dm \<Rightarrow> dm option" where
  "announce_loop envs SubscriberId mID [] msgData s = Some s"
| "announce_loop envs SubscriberId mID (d # l) msgData s =
     (if \<not> available d then do {
        let msgData = msgData\<lparr>SDMData_source := dm_DataManager s, SDMData_msg_id := mID\<rparr>;
        let ulSID = getSensorID d;
        (msg, n) \<leftarrow> (if SDMMessage_ID_eq mID NOTI_REGISTRATION
          then do { msg \<leftarrow> PUT_ULONG (SDMData_msg msgData) 0 ulSID; Some (msg, 4) }
          else do { msg \<leftarrow> PUT_UCHAR (SDMData_msg msgData) 0 (of_int REGISTRATION_MODIFICATION);
                    msg \<leftarrow> PUT_ULONG msg 1 ulSID; Some (msg, 5) });
        (s, msgData) \<leftarrow> dm_send_to envs (\<lambda>e m d. SDMData_Send_length e m d n) (msgData\<lparr>SDMData_msg := msg\<rparr>) SubscriberId s;
        announce_loop envs SubscriberId mID l msgData (DM_MessageSent s) }
      else announce_loop envs SubscriberId mID l msgData s)"

definition DM_Subscribe :: "(nat \<Rightarrow> env) \<Rightarrow> SDMComponent_ID \<Rightarrow> SDMMessage_ID \<Rightarrow> dm \<Rightarrow> dm option" where
  "DM_Subscribe envs SubscriberId mID s = do {
     (l, result) \<leftarrow> addSubscription_notify (dm_subscribers s) SubscriberId (sint (SDMMessage_ID_getInterfaceMessagePair mID));
     let s = s\<lparr>dm_subscribers := l\<rparr>;
     if result = None then Some s
     else if SDMMessage_ID_eq mID NOTI_REGISTRATION \<or> SDMMessage_ID_eq mID NOTI_REGISTRATION_CHANGE then
       announce_loop envs SubscriberId mID (xTEDSList s)
         (SDMData_new (globals.truncate (dm_env_at envs s 0)) (dm_junk envs s 24259)) s
     else if SDMMessage_ID_eq mID NOTI_PERFORMANCE_COUNTERS then Some (s\<lparr>dm_timer := True\<rparr>)
     else Some s }"

definition CancelSubscription :: "SDMComponent_ID \<Rightarrow> int \<Rightarrow> dm \<Rightarrow> dm" where
  "CancelSubscription SubscriberId mID s = s\<lparr>dm_subscribers := CancelSubscription_loop SubscriberId mID (dm_subscribers s)\<rparr>"

section \<open>Subscriptions to providers\<close>

definition set_entry :: "nat \<Rightarrow> xTEDSLibrary \<Rightarrow> dm \<Rightarrow> dm" where
  "set_entry i d s = s\<lparr>xTEDSList := (xTEDSList s)[i := d]\<rparr>"

text \<open>The id of a component that is given by its address and port only.\<close>

definition reply_id :: "SDMComponent_ID \<Rightarrow> 16 word \<Rightarrow> SDMComponent_ID" where
  "reply_id SenderId port = SDMComponent_ID_new\<lparr>m_ulAddress := m_ulAddress SenderId, m_usPort := port\<rparr>"

definition DM_Consume :: "(nat \<Rightarrow> env) \<Rightarrow> buffer \<Rightarrow> SDMComponent_ID \<Rightarrow> dm \<Rightarrow> dm option" where
  "DM_Consume envs buf SenderId s = do {
     (msgConsumeRequest, r) \<leftarrow> SDMConsume_Unmarshal SDMConsume_new buf;
     if r < 0 then Some s
     else case MatchSID (m_ulSensorId (SDMConsume_source msgConsumeRequest)) (xTEDSList s) of
       None \<Rightarrow> Some s
     | Some node \<Rightarrow> do {
         let d = xTEDSList s ! node;
         let msgSubRequest = SDMSubreqst_new\<lparr>
           SDMSubreqst_destination := (SDMComponent_ID_assign (SDMSubreqst_destination SDMSubreqst_new)
             (SDMConsume_destination msgConsumeRequest))\<lparr>m_ulAddress := m_ulAddress SenderId\<rparr>,
           SDMSubreqst_source := SDMComponent_ID_assign (SDMSubreqst_source SDMSubreqst_new) (SDMConsume_source msgConsumeRequest),
           SDMSubreqst_msg_id := SDMConsume_msg_id msgConsumeRequest\<rparr>;
         if getSensorID d = DM_SENSOR_ID
         then DM_Subscribe envs (reply_id SenderId (m_usPort (SDMSubreqst_destination msgSubRequest))) (SDMSubreqst_msg_id msgSubRequest) s
         else do {
           tree \<leftarrow> xtedsTree d;
           let msgSubRequest = msgSubRequest\<lparr>SDMSubreqst_fault_id := getNotificationFaultMsgID tree (SDMConsume_msg_id msgConsumeRequest)\<rparr>;
           let s = set_entry node (d\<lparr>connections := connections d + 1\<rparr>) s;
           let subscriber = SDMSubreqst_destination msgSubRequest;
           let s = (if m_ulSensorId subscriber \<noteq> 0 \<and> m_ulSensorId subscriber \<noteq> 1
             then s\<lparr>g_SensorSubscriptions := Add (g_SensorSubscriptions s) (SDMSubreqst_source msgSubRequest) subscriber
               (SDMSubreqst_msg_id msgSubRequest)\<rparr>
             else s);
           (s, _) \<leftarrow> dm_send_to envs (\<lambda>e m _. SDMSubreqst_Send e m) msgSubRequest (SDMSubreqst_source msgSubRequest) s;
           Some (DM_MessageSent s) } } }"

definition DM_Cancel :: "(nat \<Rightarrow> env) \<Rightarrow> buffer \<Rightarrow> SDMComponent_ID \<Rightarrow> dm \<Rightarrow> dm option" where
  "DM_Cancel envs buf SenderId s = do {
     (msgCancelRequest, r) \<leftarrow> SDMCancel_Unmarshal SDMCancel_new buf;
     if r < 0 then Some s
     else case MatchSID (m_ulSensorId (SDMCancel_source msgCancelRequest)) (xTEDSList s) of
       None \<Rightarrow> Some s
     | Some node \<Rightarrow> do {
         let d = xTEDSList s ! node;
         let msgDeleteSub = SDMDeletesub_new\<lparr>
           SDMDeletesub_destination := (SDMComponent_ID_assign (SDMDeletesub_destination SDMDeletesub_new)
             (SDMCancel_destination msgCancelRequest))\<lparr>m_ulAddress := m_ulAddress SenderId\<rparr>,
           SDMDeletesub_source := SDMComponent_ID_assign (SDMDeletesub_source SDMDeletesub_new) (SDMCancel_source msgCancelRequest),
           SDMDeletesub_msg_id := SDMCancel_msg_id msgCancelRequest\<rparr>;
         if getSensorID d = DM_SENSOR_ID
         then Some (CancelSubscription (reply_id SenderId (m_usPort (SDMDeletesub_destination msgDeleteSub)))
           (sint (SDMMessage_ID_getInterfaceMessagePair (SDMDeletesub_msg_id msgDeleteSub))) s)
         else do {
           let n = connections d - 1;
           let n = (if n < 0 then 0 else n);
           let s = set_entry node (d\<lparr>connections := n\<rparr>) s;
           let subscriber = SDMDeletesub_destination msgDeleteSub;
           let s = (if m_ulSensorId subscriber \<noteq> 0 \<and> m_ulSensorId subscriber \<noteq> 1
             then s\<lparr>g_SensorSubscriptions := fst (Delete (g_SensorSubscriptions s) subscriber (SDMDeletesub_msg_id msgDeleteSub))\<rparr>
             else s);
           (s, _) \<leftarrow> dm_send_to envs (\<lambda>e m _. SDMDeletesub_Send e m) msgDeleteSub (SDMDeletesub_source msgDeleteSub) s;
           Some (DM_MessageSent s) } } }"

section \<open>Commands\<close>

text \<open>The commands to the Data Manager itself only change its message log.\<close>

definition DM_Command :: "(nat \<Rightarrow> env) \<Rightarrow> buffer \<Rightarrow> SDMComponent_ID \<Rightarrow> dm \<Rightarrow> dm option" where
  "DM_Command envs buf SenderId s = do {
     (msgCommand, r) \<leftarrow> SDMCommand_Unmarshal (SDMCommand_new (dm_junk envs s 24253)) buf;
     if r < 0 then Some s
     else case MatchSID (m_ulSensorId (SDMService_source msgCommand)) (xTEDSList s) of
       None \<Rightarrow> Some s
     | Some node \<Rightarrow> do {
         let d = xTEDSList s ! node;
         let RequestedCommandId = SDMService_command_id msgCommand;
         tree \<leftarrow> xtedsTree d;
         if \<not> isCommandIdValid tree RequestedCommandId then Some s
         else do {
           let msgCommand = msgCommand\<lparr>SDMCommand_fault_id := getCommandFaultMsgID tree RequestedCommandId\<rparr>;
           if getSensorID d = DM_SENSOR_ID then Some s
           else do {
             (s, _) \<leftarrow> dm_send_to envs SDMCommand_Send_to msgCommand
               (SDMComponent_ID_new\<lparr>m_ulAddress := m_ulAddress (lib_id d), m_usPort := getTargetPort d\<rparr>) s;
             Some (DM_MessageSent s) } } } }"

section \<open>Services\<close>

definition send_reply :: "(nat \<Rightarrow> env) \<Rightarrow> SDMComponent_ID \<Rightarrow> SDMData \<Rightarrow> (buffer \<Rightarrow> buffer option) \<Rightarrow> int \<Rightarrow> dm \<Rightarrow> dm option" where
  "send_reply envs RequesterId msgData f n s = do {
     msg \<leftarrow> f (SDMData_msg msgData);
     (s, _) \<leftarrow> dm_send_to envs (\<lambda>e m d. SDMData_Send_length e m d n) (msgData\<lparr>SDMData_msg := msg\<rparr>) RequesterId s;
     Some (DM_MessageSent s) }"

definition ServicePublish :: "(nat \<Rightarrow> env) \<Rightarrow> SDMComponent_ID \<Rightarrow> 32 word \<Rightarrow> SDMMessage_ID \<Rightarrow> 16 word \<Rightarrow> dm \<Rightarrow> dm option" where
  "ServicePublish envs RequesterId sID DataReplyId seq_num s = (
     let msgData = (dm_data envs s)\<lparr>SDMData_msg_id := DataReplyId, SDMData_seq_num := seq_num\<rparr>;
         l = xTEDSList s
     in if SDMMessage_ID_eq DataReplyId RPLY_CONVERTED_DEVICE_NAME then
          (case MatchSID sID l of None \<Rightarrow> Some s
           | Some node \<Rightarrow> do {
               name \<leftarrow> getName (l ! node);
               send_reply envs RequesterId msgData (\<lambda>msg. do {
                 msg \<leftarrow> PUT_ULONG msg 0 sID;
                 strncpy msg 4 (name @ [0]) 0 (length name + 1) }) 85 s })
        else if SDMMessage_ID_eq DataReplyId RPLY_CONVERTED_SPANODE then
          (case MatchSID sID l of None \<Rightarrow> Some s
           | Some node \<Rightarrow> do {
               path \<leftarrow> m_strSPANode (l ! node);
               send_reply envs RequesterId msgData (\<lambda>msg. do {
                 msg \<leftarrow> PUT_UINT msg 0 sID;
                 msg \<leftarrow> strncpy msg 4 (path @ [0]) 0 79;
                 put_byte msg (4 + 79) 0 }) 84 s })
        else if SDMMessage_ID_eq DataReplyId RPLY_CONVERTED_IP then
          (case MatchSID sID l of None \<Rightarrow> Some s
           | Some node \<Rightarrow>
               send_reply envs RequesterId msgData (\<lambda>msg. do {
                 msg \<leftarrow> PUT_ULONG msg 0 (getSensorID (l ! node));
                 msg \<leftarrow> PUT_ULONG msg 4 (m_ulAddress (lib_id (l ! node)));
                 PUT_USHORT msg 8 (getTargetPort (l ! node)) }) 10 s)
        else if SDMMessage_ID_eq DataReplyId RPLY_RETURN_COMP_KEY then
          (case MatchSID sID l of None \<Rightarrow> Some s
           | Some node \<Rightarrow>
               send_reply envs RequesterId msgData (\<lambda>msg. do {
                 (msg, _) \<leftarrow> id_Marshal SDMComponent_ID_new msg 0;
                 strcpy msg 0 ((case getComponentKey (l ! node) of Some key \<Rightarrow> key | None \<Rightarrow> chars ''NOKEY'') @ [0]) 0 }) 129 s)
        else if SDMMessage_ID_eq DataReplyId RPLY_ERRORS then
          send_reply envs RequesterId msgData (\<lambda>msg. do {
            msg \<leftarrow> PUT_ULONG msg 0 (droppedxTEDS s);
            PUT_ULONG msg 4 (droppedCancelxTEDS s) }) 8 s
        else
          (case first_index (\<lambda>d. \<not> available d \<and> m_ulAddress (lib_id d) = m_ulAddress RequesterId \<and> sID = lib_pid d) l of
             None \<Rightarrow> Some s
           | Some node \<Rightarrow>
               send_reply envs RequesterId msgData (\<lambda>msg. do {
                 msg \<leftarrow> PUT_ULONG msg 0 sID;
                 PUT_LONG msg 4 (getSensorID (l ! node)) }) 8 s))"

definition is_DM_service :: "SDMMessage_ID \<Rightarrow> bool" where
  "is_DM_service c = (SDMMessage_ID_eq c SER_SEND_SENSOR_ID \<or> SDMMessage_ID_eq c SER_SEND_PID
     \<or> SDMMessage_ID_eq c SER_SID_TO_SPANODE \<or> SDMMessage_ID_eq c SER_SID_TO_IP \<or> SDMMessage_ID_eq c SER_COMPID_TO_COMPKEY)"

definition DM_Serreqst :: "(nat \<Rightarrow> env) \<Rightarrow> buffer \<Rightarrow> SDMComponent_ID \<Rightarrow> dm \<Rightarrow> dm option" where
  "DM_Serreqst envs buf SenderId s = do {
     (msgServiceRequest, r) \<leftarrow> SDMSerreqst_Unmarshal (SDMSerreqst_new (dm_junk envs s 24249)) buf;
     if r < 0 then Some s
     else if m_ulSensorId (SDMSerreqst_source msgServiceRequest) \<noteq> DM_SENSOR_ID then Some s
     else case MatchSID DM_SENSOR_ID (xTEDSList s) of
       None \<Rightarrow> Some s
     | Some pDmLibraryNode \<Rightarrow> do {
         tree \<leftarrow> xtedsTree (xTEDSList s ! pDmLibraryNode);
         let idRequestedCommand = SDMSerreqst_command_id msgServiceRequest;
         let idDataReply = getServiceDataMsgID tree idRequestedCommand;
         let RequesterId = reply_id SenderId (m_usPort (SDMSerreqst_destination msgServiceRequest));
         if is_DM_service idRequestedCommand then do {
           ulRequestedSensorId \<leftarrow> GET_ULONG (SDMSerreqst_data msgServiceRequest) 0;
           ServicePublish envs RequesterId ulRequestedSensorId idDataReply (SDMSerreqst_seq_num msgServiceRequest) s }
         else if SDMMessage_ID_eq idRequestedCommand SER_GET_ERRORS
         then ServicePublish envs RequesterId 0 idDataReply (SDMSerreqst_seq_num msgServiceRequest) s
         else Some s } }"

text \<open>The request that goes to the provider. After the answer to \<^verbatim>\<open>SER_GET_ERRORS\<close> the handler does not return.\<close>

definition forward_service :: "(nat \<Rightarrow> env) \<Rightarrow> SDMService \<Rightarrow> SDMComponent_ID \<Rightarrow> xTEDS \<Rightarrow> xTEDSLibrary \<Rightarrow> dm \<Rightarrow> dm option" where
  "forward_service envs msgService SenderId tree d s =
     (let RequestedCommandID = SDMService_command_id msgService in
      if \<not> isServiceIdValid tree RequestedCommandID then Some s
      else do {
        let msgRequest = SDMSerreqst_new (dm_junk envs s 24249);
        let msgRequest = msgRequest\<lparr>
          SDMSerreqst_destination := (SDMSerreqst_destination msgRequest)\<lparr>m_ulAddress := m_ulAddress SenderId,
            m_usPort := m_usPort (SDMService_destination msgService), m_ulSensorId := m_ulSensorId (SDMService_destination msgService)\<rparr>,
          SDMSerreqst_source := SDMComponent_ID_assign (SDMSerreqst_source msgRequest) (SDMService_source msgService),
          SDMSerreqst_command_id := RequestedCommandID,
          SDMSerreqst_reply_id := getServiceDataMsgID tree RequestedCommandID,
          SDMSerreqst_fault_id := getServiceFaultMsgID tree RequestedCommandID,
          SDMSerreqst_seq_num := SDMService_seq_num msgService\<rparr>;
        dat \<leftarrow> memcpy_int (SDMSerreqst_data msgRequest) 0 (SDMService_data msgService) 0 (sint (SDMService_length msgService));
        let msgRequest = msgRequest\<lparr>SDMSerreqst_data := dat, SDMSerreqst_length := SDMService_length msgService\<rparr>;
        (s, _) \<leftarrow> dm_send_to envs SDMSerreqst_Send msgRequest
          (SDMComponent_ID_new\<lparr>m_ulAddress := m_ulAddress (lib_id d), m_usPort := getTargetPort d\<rparr>) s;
        Some (DM_MessageSent s) })"

definition DM_Service :: "(nat \<Rightarrow> env) \<Rightarrow> buffer \<Rightarrow> SDMComponent_ID \<Rightarrow> dm \<Rightarrow> dm option" where
  "DM_Service envs buf SenderId s = do {
     (msgService, r) \<leftarrow> SDMService_Unmarshal (SDMService_new (dm_junk envs s 24253)) buf;
     if r < 0 then Some s
     else case MatchSID (m_ulSensorId (SDMService_source msgService)) (xTEDSList s) of
       None \<Rightarrow> Some s
     | Some node \<Rightarrow> do {
         let d = xTEDSList s ! node;
         tree \<leftarrow> xtedsTree d;
         let RequestedCommandID = SDMService_command_id msgService;
         let SerReplyID = getServiceDataMsgID tree RequestedCommandID;
         if SDMMessage_ID_eq SerReplyID INVALID_MESSAGE_ID then Some s
         else if getSensorID d = DM_SENSOR_ID then do {
           let RequesterId = reply_id SenderId (m_usPort (SDMService_destination msgService));
           if is_DM_service RequestedCommandID then do {
             RequestedSensorId \<leftarrow> GET_LONG (SDMService_data msgService) 0;
             ServicePublish envs RequesterId RequestedSensorId SerReplyID (SDMService_seq_num msgService) s }
           else if SDMMessage_ID_eq RequestedCommandID SER_GET_ERRORS then do {
             s \<leftarrow> ServicePublish envs RequesterId 0 SerReplyID (SDMService_seq_num msgService) s;
             forward_service envs msgService SenderId tree d s }
           else Some s }
         else forward_service envs msgService SenderId tree d s } }"

section \<open>Readiness and time\<close>

definition DM_Ready :: "(nat \<Rightarrow> env) \<Rightarrow> buffer \<Rightarrow> SDMComponent_ID \<Rightarrow> dm \<Rightarrow> dm option" where
  "DM_Ready envs buf SenderId s = do {
     (msgReady, r) \<leftarrow> SDMReady_Unmarshal SDMReady_new buf;
     if r < 0 then Some s
     else do {
       let usPort = m_usPort (SDMReady_destination msgReady);
       let s = (if usPort = PORT_TM
         then s\<lparr>dm_TaskManager := SDMComponent_ID_assign (dm_TaskManager s) (SDMReady_destination msgReady)\<rparr> else s);
       let rid = SDMComponent_ID_new\<lparr>m_ulAddress := m_ulAddress (SDMReady_destination msgReady), m_usPort := usPort\<rparr>;
       let msgReady = msgReady\<lparr>SDMReady_destination := (SDMReady_destination msgReady)\<lparr>m_ulAddress := m_ulAddress (dm_DataManager s), m_usPort := PORT_DM\<rparr>\<rparr>;
       if usPort = PORT_DM_ELECTION then Some (DM_MessageSent s)
       else do {
         (s, _) \<leftarrow> dm_send_to envs SDMReady_Send_to msgReady rid s;
         Some (DM_MessageSent s) } } }"

text \<open>The addresses of the Sensor Managers the message went to are kept in an array of \<^verbatim>\<open>xsize\<close> elements.\<close>

primrec tat_loop :: "(nat \<Rightarrow> env) \<Rightarrow> xTEDSLibraryList \<Rightarrow> 32 word list \<Rightarrow> SDMTat \<Rightarrow> dm \<Rightarrow> dm option" where
  "tat_loop envs [] sentips tat s = Some s"
| "tat_loop envs (d # l) sentips tat s =
     (if hub d = DEVICE \<and> m_ulAddress (lib_id d) \<notin> set sentips then
        if length sentips < 25 then do {
          (s, tat) \<leftarrow> dm_send_to envs SDMTat_Send_to tat (SDMComponent_ID_new\<lparr>m_ulAddress := m_ulAddress (lib_id d), m_usPort := PORT_SM\<rparr>) s;
          tat_loop envs l (sentips @ [m_ulAddress (lib_id d)]) tat (DM_MessageSent s) }
        else None
      else tat_loop envs l sentips tat s)"

definition DM_TAT :: "(nat \<Rightarrow> env) \<Rightarrow> buffer \<Rightarrow> SDMComponent_ID \<Rightarrow> dm \<Rightarrow> dm option" where
  "DM_TAT envs buf SenderId s = do {
     (tat, r) \<leftarrow> SDMTat_Unmarshal SDMTat_new buf;
     if r < 0 then Some s
     else if m_ulSensorId (SDMTat_destination tat) = 0 then tat_loop envs (xTEDSList s) [] tat s
     else case first_index (\<lambda>d. \<not> available d \<and> m_ulSensorId (SDMTat_destination tat) = getSensorID d \<and> lib_active d) (xTEDSList s) of
       None \<Rightarrow> Some s
     | Some node \<Rightarrow>
         if hub (xTEDSList s ! node) = DEVICE then do {
           (s, _) \<leftarrow> dm_send_to envs SDMTat_Send_to tat (getComponentID (xTEDSList s ! node)) s;
           Some (DM_MessageSent s) }
         else Some s }"

section \<open>Requests for documents\<close>

definition fill_info :: "xTEDSLibrary \<Rightarrow> SDMxTEDSInfo \<Rightarrow> SDMxTEDSInfo option" where
  "fill_info d msgInfo = do {
     x \<leftarrow> fullxTED d;
     x \<leftarrow> memcpy (SDMxTEDSInfo_xTEDS msgInfo) 0 (x @ [0]) 0 (length x + 1);
     Some (msgInfo\<lparr>SDMxTEDSInfo_source := (SDMxTEDSInfo_source msgInfo)\<lparr>m_ulSensorId := getSensorID d,
       m_usPort := getTargetPort d, m_ulAddress := m_ulAddress (lib_id d)\<rparr>, SDMxTEDSInfo_xTEDS := x\<rparr>) }"

primrec named_loop :: "(nat \<Rightarrow> env) \<Rightarrow> byte list \<Rightarrow> SDMComponent_ID \<Rightarrow> xTEDSLibraryList \<Rightarrow> SDMxTEDSInfo \<Rightarrow> dm \<Rightarrow> (dm \<times> SDMxTEDSInfo) option" where
  "named_loop envs device_name rid [] msgInfo s = Some (s, msgInfo)"
| "named_loop envs device_name rid (d # l) msgInfo s = do {
     found \<leftarrow> (if \<not> available d then do { name \<leftarrow> getName d; Some (occurs_at device_name 0 name) } else Some False);
     if found then do {
       msgInfo \<leftarrow> fill_info d msgInfo;
       (s, msgInfo) \<leftarrow> dm_send_to envs SDMxTEDSInfo_Send_to msgInfo rid s;
       named_loop envs device_name rid l msgInfo (DM_MessageSent s) }
     else named_loop envs device_name rid l msgInfo s }"

definition DM_ReqxTEDS :: "(nat \<Rightarrow> env) \<Rightarrow> buffer \<Rightarrow> SDMComponent_ID \<Rightarrow> dm \<Rightarrow> dm option" where
  "DM_ReqxTEDS envs buf SenderId s = do {
     (msgRequest, r) \<leftarrow> SDMReqxTEDS_Unmarshal (SDMReqxTEDS_new (dm_junk envs s 33)) buf;
     if r < 0 then Some s
     else do {
       let iSelect = SDMReqxTEDS_select msgRequest AND 0x01;
       let reply = SDMReqxTEDS_select msgRequest AND 0x02;
       let usPort = (if reply = 0 then m_usPort SenderId else m_usPort (SDMReqxTEDS_destination msgRequest));
       let address = (if m_ulAddress (SDMReqxTEDS_destination msgRequest) = 0 then m_ulAddress SenderId
         else m_ulAddress (SDMReqxTEDS_destination msgRequest));
       let rid = SDMComponent_ID_new\<lparr>m_ulAddress := address, m_usPort := usPort\<rparr>;
       if sint (SDMReqxTEDS_select msgRequest) > 3 then Some s
       else do {
         let msgInfo = SDMxTEDSInfo_new (dm_junk envs s 24267);
         (s, msgInfo) \<leftarrow> (if iSelect = 0 then
             (case MatchSID (m_ulSensorId (SDMReqxTEDS_source msgRequest)) (xTEDSList s) of
                None \<Rightarrow> Some (s, msgInfo)
              | Some node \<Rightarrow> do {
                  msgInfo \<leftarrow> fill_info (xTEDSList s ! node) msgInfo;
                  (s, msgInfo) \<leftarrow> dm_send_to envs SDMxTEDSInfo_Send_to msgInfo rid s;
                  Some (DM_MessageSent s, msgInfo) })
           else named_loop envs (cstr (SDMReqxTEDS_device_name msgRequest)) rid (xTEDSList s) msgInfo s);
         (s, _) \<leftarrow> dm_send_to envs SDMxTEDSInfo_SendEmpty msgInfo rid s;
         Some (DM_MessageSent s) } } }"

end
