(* ===== verification/DM_Registration.thy ===== *)
theory DM_Registration
  imports Data_Manager Startup_Config
begin

text \<open>
  The queries the Data Manager answers (\<^verbatim>\<open>SDMReqReg\<close>, \<^verbatim>\<open>SDMSearch\<close>, \<^verbatim>\<open>SDMVarReq\<close>), the standing queries it repeats
  when a document is registered or cancelled, and the handlers that register, cancel and deactivate a document,
  \<^verbatim>\<open>dm/DM.cpp\<close>.

  A query of a component has \<open>xTEDref\<close> \<open>- 1\<close> and looks at all documents; a standing query has the index of the
  entry that changed. Texts of subscriptions are strings, those of messages bytes. The search for a regular
  expression is an argument, \<open>Regex\<close>: \<^term>\<open>None\<close> for an expression that does not compile, otherwise the captured
  texts of every match, as \<^verbatim>\<open>FillMatchText\<close> lays them out.
\<close>

definition str_of :: "buffer \<Rightarrow> cstring" where
  "str_of a = Some (map (\<lambda>b. char_of (unat b)) (cstr a))"

section \<open>SDMReqReg\<close>

abbreviation (input) SDM_REQREG_CURRENT :: byte where "SDM_REQREG_CURRENT \<equiv> 0"
abbreviation (input) SDM_REGINFO_REGISTRATION :: byte where "SDM_REGINFO_REGISTRATION \<equiv> 0"
abbreviation (input) SDM_REGINFO_CANCELLATION :: byte where "SDM_REGINFO_CANCELLATION \<equiv> 1"

definition DM_PostTask :: "(nat \<Rightarrow> env) \<Rightarrow> xTEDSLibrary \<Rightarrow> dm \<Rightarrow> dm option" where
  "DM_PostTask envs d s =
     (if m_ulAddress (dm_TaskManager s) = 0 then Some s
      else do {
        let task = (SDMPostTask_new (dm_junk envs s 128))\<lparr>SDMPostTask_resources := 0x0002 OR 0x0030 OR 0x0200, SDMPostTask_priority := 1\<rparr>;
        name \<leftarrow> getName d;
        f \<leftarrow> memcpy (SDMPostTask_filename task) 0 (name @ [0]) 0 (length name + 1);
        (s, _) \<leftarrow> dm_send_to envs (\<lambda>e m _. SDMPostTask_Send e m) (task\<lparr>SDMPostTask_filename := f\<rparr>) (dm_TaskManager s) s;
        Some (DM_MessageSent s) })"

text \<open>The query of one document: \<^term>\<open>None\<close> where it reads through NULL or behind a buffer, \<^term>\<open>Some None\<close> for the exception of a regular expression. An
  empty device or interface is passed as NULL.\<close>

definition query_tree :: "int \<Rightarrow> SDMReqReg \<Rightarrow> xTEDSLibrary \<Rightarrow> MessageDefinition list option option" where
  "query_tree iRequestType msgRequest d = do {
     tree \<leftarrow> xtedsTree d;
     let ptr = (\<lambda>t. if length t > 0 then Some t else None);
     let device = ptr (cstr (SDMReqReg_device msgRequest));
     let interface = ptr (cstr (SDMReqReg_interface msgRequest));
     let itm = cstr (SDMReqReg_item_name msgRequest);
     let qual = cstr (SDMReqReg_quallist msgRequest);
     if iRequestType = REQTYPE_USEITEM then map_option Some (RegInfo tree itm qual device interface)
     else if iRequestType = REQTYPE_EMPTYITEM then map_option Some (AllRegInfo tree qual device interface)
     else if iRequestType = REQTYPE_REGEX then RegexRegInfo tree itm qual device interface
     else Some (Some []) }"

record reqreg_search =
  rr_dm :: dm
  rr_msgInfo :: SDMRegInfo
  rr_id :: SDMComponent_ID
  SensorMatches :: "nat list"
  numxTEDS :: nat
  RegInfoCountSent :: nat

text \<open>The message for one definition that matched, and its send.\<close>

definition fill_reginfo :: "16 word \<Rightarrow> int \<Rightarrow> int \<Rightarrow> xTEDSLibrary \<Rightarrow> MessageDefinition \<Rightarrow> SDMRegInfo \<Rightarrow> SDMRegInfo option" where
  "fill_reginfo rid xTEDref xTEDSAction d cur_msgdef msgInfo = do {
     let msgInfo = msgInfo\<lparr>SDMRegInfo_id := rid,
       SDMRegInfo_type := (if xTEDSAction \<noteq> DEREGISTRATION_MODIFICATION \<or> xTEDref = - 1 then SDM_REGINFO_REGISTRATION else SDM_REGINFO_CANCELLATION),
       SDMRegInfo_source := (SDMRegInfo_source msgInfo)\<lparr>m_ulSensorId := getSensorID d, m_usPort := getTargetPort d, m_ulAddress := m_ulAddress (lib_id d)\<rparr>,
       SDMRegInfo_msg_id := GetInterfaceMessageID cur_msgdef\<rparr>;
     a \<leftarrow> memcpy (SDMRegInfo_msg_def msgInfo) 0 (GetDefinitions cur_msgdef @ [0]) 0 (length (GetDefinitions cur_msgdef) + 1);
     b \<leftarrow> memcpy (SDMRegInfo_xTEDS_section msgInfo) 0 (GetxTEDSPortion cur_msgdef @ [0]) 0 (length (GetxTEDSPortion cur_msgdef) + 1);
     Some (msgInfo\<lparr>SDMRegInfo_msg_def := a, SDMRegInfo_xTEDS_section := b\<rparr>) }"

definition send_reginfo :: "(nat \<Rightarrow> env) \<Rightarrow> SDMComponent_ID \<Rightarrow> reqreg_search \<Rightarrow> reqreg_search option" where
  "send_reginfo envs destination st = do {
     (s, m) \<leftarrow> dm_send_to envs SDMRegInfo_Send_to (rr_msgInfo st) destination (rr_dm st);
     Some (st\<lparr>rr_dm := DM_MessageSent s, rr_msgInfo := m, RegInfoCountSent := RegInfoCountSent st + 1\<rparr>) }"

definition answer_match :: "(nat \<Rightarrow> env) \<Rightarrow> SDMReqReg \<Rightarrow> int \<Rightarrow> int \<Rightarrow> SDMComponent_ID \<Rightarrow> xTEDSLibrary \<Rightarrow> MessageDefinition \<Rightarrow> reqreg_search \<Rightarrow> reqreg_search option" where
  "answer_match envs msgRequest xTEDref xTEDSAction SenderId d cur_msgdef st = do {
     let st = (if numxTEDS st < length (SensorMatches st)
       then st\<lparr>SensorMatches := (SensorMatches st)[numxTEDS st := SensorMatches st ! numxTEDS st + 1]\<rparr> else st);
     if lib_active d \<or> xTEDSAction = DEREGISTRATION_MODIFICATION then do {
       m \<leftarrow> fill_reginfo (SDMReqReg_id msgRequest) xTEDref xTEDSAction d cur_msgdef (rr_msgInfo st);
       let st = st\<lparr>rr_msgInfo := m\<rparr>;
       if xTEDref = - 1 \<and> length (GetDefinitions cur_msgdef) > 15 then send_reginfo envs (rr_id st) st
       else if int (numxTEDS st) = xTEDref \<and> length (GetDefinitions cur_msgdef) > 15
       then send_reginfo envs SenderId (st\<lparr>rr_id := SDMComponent_ID_assign (rr_id st) SenderId\<rparr>)
       else Some st }
     else Some st }"

primrec answer_matches :: "(nat \<Rightarrow> env) \<Rightarrow> SDMReqReg \<Rightarrow> int \<Rightarrow> int \<Rightarrow> SDMComponent_ID \<Rightarrow> xTEDSLibrary \<Rightarrow> MessageDefinition list \<Rightarrow> reqreg_search \<Rightarrow> reqreg_search option" where
  "answer_matches envs msgRequest xTEDref xTEDSAction SenderId d [] st = Some st"
| "answer_matches envs msgRequest xTEDref xTEDSAction SenderId d (cur_msgdef # next) st = do {
     st \<leftarrow> answer_match envs msgRequest xTEDref xTEDSAction SenderId d cur_msgdef st;
     answer_matches envs msgRequest xTEDref xTEDSAction SenderId d next st }"

text \<open>The loop over the documents; the flag is whether the function returned from within. An available entry is
  skipped without counting it. Documents of other components than the one asked for are counted only.\<close>

primrec reqreg_loop :: "(nat \<Rightarrow> env) \<Rightarrow> SDMReqReg \<Rightarrow> int \<Rightarrow> int \<Rightarrow> int \<Rightarrow> SDMComponent_ID \<Rightarrow> xTEDSLibraryList \<Rightarrow> reqreg_search \<Rightarrow> (reqreg_search \<times> bool) option" where
  "reqreg_loop envs msgRequest iRequestType xTEDref xTEDSAction SenderId [] st = Some (st, False)"
| "reqreg_loop envs msgRequest iRequestType xTEDref xTEDSAction SenderId (d # l) st = (
     let counted = (\<lambda>st.
       if xTEDref \<noteq> - 1 \<and> xTEDref = int (numxTEDS st) \<and> numxTEDS st < length (SensorMatches st) \<and> SensorMatches st ! numxTEDS st = 0
       then Some (st, True)
       else reqreg_loop envs msgRequest iRequestType xTEDref xTEDSAction SenderId l (st\<lparr>numxTEDS := numxTEDS st + 1\<rparr>))
     in if SDMComponent_ID_eq (getComponentID d) (SDMReqReg_source msgRequest) \<or> m_ulSensorId (SDMReqReg_source msgRequest) = 0 then
          if available d then reqreg_loop envs msgRequest iRequestType xTEDref xTEDSAction SenderId l st
          else do {
            found \<leftarrow> query_tree iRequestType msgRequest d;
            case found of None \<Rightarrow> Some (st, False)
            | Some msgdefs \<Rightarrow> do {
                st \<leftarrow> answer_matches envs msgRequest xTEDref xTEDSAction SenderId d msgdefs st;
                counted st } }
        else counted st)"

text \<open>The loop that posts the tasks of inactive documents that matched.\<close>

primrec post_loop :: "(nat \<Rightarrow> env) \<Rightarrow> nat list \<Rightarrow> nat \<Rightarrow> xTEDSLibraryList \<Rightarrow> dm \<Rightarrow> dm option" where
  "post_loop envs matches z [] s = Some s"
| "post_loop envs matches z (d # l) s =
     (if z \<ge> length matches then Some s
      else if matches ! z > 0 \<and> \<not> lib_active d \<and> \<not> posted d then do {
        s \<leftarrow> DM_PostTask envs d (set_entry z (d\<lparr>posted := True\<rparr>) s);
        post_loop envs matches (z + 1) l s }
      else post_loop envs matches (z + 1) l s)"

definition DM_ReqReg :: "(nat \<Rightarrow> env) \<Rightarrow> buffer \<Rightarrow> int \<Rightarrow> SDMComponent_ID \<Rightarrow> int \<Rightarrow> dm \<Rightarrow> dm option" where
  "DM_ReqReg envs MsgBuf xTEDref SenderId xTEDSAction s = do {
     (msgRequest, r) \<leftarrow> SDMReqReg_Unmarshal (SDMReqReg_new (dm_junk envs s 33) (dm_junk envs s 33) (dm_junk envs s 33) (dm_junk envs s 1024)) MsgBuf;
     if r < 0 then Some s
     else do {
       let usPort = m_usPort (SDMReqReg_destination msgRequest);
       let usPort = (if SDMReqReg_reply msgRequest = SDM_REQREG_CURRENT \<and> usPort = 0 then m_usPort SenderId else usPort);
       let rid = SDMComponent_ID_new\<lparr>m_ulAddress := (if m_ulAddress (SDMReqReg_destination msgRequest) = 0 then m_ulAddress SenderId
         else m_ulAddress (SDMReqReg_destination msgRequest)), m_usPort := usPort\<rparr>;
       (s, go) \<leftarrow> (if SDMReqReg_reply msgRequest \<noteq> SDM_REQREG_CURRENT \<and> xTEDref = - 1 then do {
           (l, _, result) \<leftarrow> addOrRemoveSubscription (uint (SDMReqReg_reply msgRequest)) (reply_id SenderId usPort) (SDMReqReg_source msgRequest)
             (str_of (SDMReqReg_device msgRequest)) (str_of (SDMReqReg_interface msgRequest)) (str_of (SDMReqReg_item_name msgRequest))
             (str_of (SDMReqReg_quallist msgRequest)) (uint (SDMReqReg_id msgRequest)) REQ_REG_FUTURE 0 (dm_subscribers s);
           Some (s\<lparr>dm_subscribers := l\<rparr>, result) }
         else Some (s, True));
       if \<not> go then Some s
       else do {
         let iRequestType = (if cstr (SDMReqReg_item_name msgRequest) = [] then REQTYPE_EMPTYITEM else ParseItemName (cstr (SDMReqReg_item_name msgRequest)));
         (st, returned) \<leftarrow> reqreg_loop envs msgRequest iRequestType xTEDref xTEDSAction SenderId (xTEDSList s)
           \<lparr>rr_dm = s, rr_msgInfo = SDMRegInfo_new (dm_junk envs s 12130) (dm_junk envs s 12130), rr_id = rid,
            SensorMatches = replicate (length (xTEDSList s)) 0, numxTEDS = 0, RegInfoCountSent = 0\<rparr>;
         if returned then Some (rr_dm st)
         else do {
           s \<leftarrow> (if RegInfoCountSent st = 0 then post_loop envs (SensorMatches st) 0 (xTEDSList (rr_dm st)) (rr_dm st) else Some (rr_dm st));
           let rid = (if xTEDref \<noteq> - 1 then SDMComponent_ID_assign (rr_id st) SenderId else rr_id st);
           (s, _) \<leftarrow> dm_send_to envs SDMRegInfo_SendEmpty (rr_msgInfo st) rid s;
           Some (DM_MessageSent s) } } } }"

section \<open>SDMSearch\<close>

type_synonym regex = "byte list \<Rightarrow> (byte list \<Rightarrow> byte list list) option"

primrec send_captures :: "(nat \<Rightarrow> env) \<Rightarrow> SDMComponent_ID \<Rightarrow> byte list list \<Rightarrow> SDMSearchReply \<Rightarrow> dm \<Rightarrow> (dm \<times> SDMSearchReply) option" where
  "send_captures envs RecipientId [] msgReply s = Some (s, msgReply)"
| "send_captures envs RecipientId (t # ts) msgReply s = do {
     c \<leftarrow> put_bytes (SDMSearchReply_captured_matches msgReply) 0 t;
     (s, msgReply) \<leftarrow> dm_send_to envs SDMSearchReply_Send_to (msgReply\<lparr>SDMSearchReply_captured_matches := c\<rparr>) RecipientId s;
     send_captures envs RecipientId ts msgReply s }"

primrec search_loop :: "(nat \<Rightarrow> env) \<Rightarrow> (byte list \<Rightarrow> byte list list) \<Rightarrow> SDMSearch \<Rightarrow> int \<Rightarrow> SDMComponent_ID \<Rightarrow> xTEDSLibraryList \<Rightarrow> SDMSearchReply \<Rightarrow> dm \<Rightarrow> (dm \<times> SDMSearchReply) option" where
  "search_loop envs search msgSearch xTEDref RecipientId [] msgReply s = Some (s, msgReply)"
| "search_loop envs search msgSearch xTEDref RecipientId (d # l) msgReply s = do {
     (s, msgReply) \<leftarrow> (if (SDMComponent_ID_eq (getComponentID d) (SDMSearch_source msgSearch) \<or> m_ulSensorId (SDMSearch_source msgSearch) = 0) \<and> lib_active d
       then do {
         x \<leftarrow> fullxTED d;
         let SearchResults = search x;
         if SearchResults \<noteq> []
         then send_captures envs RecipientId SearchResults
           (msgReply\<lparr>SDMSearchReply_source := SDMComponent_ID_assign (SDMSearchReply_source msgReply) (getComponentID d), SDMSearchReply_id := SDMSearch_id msgSearch\<rparr>) s
         else Some (s, msgReply) }
       else Some (s, msgReply));
     if xTEDref \<noteq> - 1 then Some (s, msgReply)
     else search_loop envs search msgSearch xTEDref RecipientId l msgReply s }"

definition DM_Search :: "regex \<Rightarrow> (nat \<Rightarrow> env) \<Rightarrow> buffer \<Rightarrow> SDMComponent_ID \<Rightarrow> int \<Rightarrow> dm \<Rightarrow> dm option" where
  "DM_Search Regex envs MsgBuf SenderId xTEDref s = do {
     (msgSearch, r) \<leftarrow> SDMSearch_Unmarshal (SDMSearch_new (dm_junk envs s 24255)) MsgBuf;
     if r < 0 then Some s
     else if m_usPort (SDMSearch_destination msgSearch) = 0 then Some s
     else do {
       let RecipientId = SDMComponent_ID_new\<lparr>m_usPort := m_usPort (SDMSearch_destination msgSearch),
         m_ulAddress := (if m_ulAddress (SDMSearch_destination msgSearch) = 0 then m_ulAddress SenderId else m_ulAddress (SDMSearch_destination msgSearch))\<rparr>;
       (s, go) \<leftarrow> (if SDMSearch_reply msgSearch \<noteq> 0 then do {
           (l, _, AddResult) \<leftarrow> addOrRemoveSubscription (uint (SDMSearch_reply msgSearch)) (reply_id SenderId (m_usPort RecipientId)) (SDMSearch_source msgSearch)
             None None (str_of (SDMSearch_reg_expr msgSearch)) None (uint (SDMSearch_id msgSearch)) SEARCH_REPLY 0 (dm_subscribers s);
           Some (s\<lparr>dm_subscribers := l\<rparr>, AddResult) }
         else Some (s, True));
       if \<not> go then Some s
       else do {
         let node = (if xTEDref \<noteq> - 1 then if xTEDref < 0 then [] else drop (nat xTEDref) (xTEDSList s) else xTEDSList s);
         if xTEDref \<noteq> - 1 \<and> node = [] then Some s
         else case Regex (cstr (SDMSearch_reg_expr msgSearch)) of
           None \<Rightarrow> Some s
         | Some search \<Rightarrow> do {
             (s, msgReply) \<leftarrow> search_loop envs search msgSearch xTEDref RecipientId node (SDMSearchReply_new (dm_junk envs s 24265)) s;
             (s, _) \<leftarrow> dm_send_to envs SDMSearchReply_SendEmpty msgReply RecipientId s;
             Some (DM_MessageSent s) } } } }"

section \<open>SDMVarReq\<close>

abbreviation (input) SDM_VARREQ_CANCEL :: byte where "SDM_VARREQ_CANCEL \<equiv> 11"

primrec send_varinfos :: "(nat \<Rightarrow> env) \<Rightarrow> SDMVarReq \<Rightarrow> SDMComponent_ID \<Rightarrow> xTEDSLibrary \<Rightarrow> VariableDefinition list \<Rightarrow> SDMVarInfo \<Rightarrow> dm \<Rightarrow> (dm \<times> SDMVarInfo) option" where
  "send_varinfos envs msgVarRequest ReplyId d [] msgVarInfo s = Some (s, msgVarInfo)"
| "send_varinfos envs msgVarRequest ReplyId d (cur_msg # next) msgVarInfo s = do {
     x \<leftarrow> strcpy (SDMVarInfo_var_xTEDS msgVarInfo) 0 (VariableDef_GetDefinitions cur_msg @ [0]) 0;
     i \<leftarrow> strcpy (SDMVarInfo_interface msgVarInfo) 0 (GetInterfaceName cur_msg @ [0]) 0;
     (s, msgVarInfo) \<leftarrow> dm_send_to envs SDMVarInfo_Send_to
       (msgVarInfo\<lparr>SDMVarInfo_source := SDMComponent_ID_assign (SDMVarInfo_source msgVarInfo) (getComponentID d),
         SDMVarInfo_id := SDMVarReq_id msgVarRequest, SDMVarInfo_var_xTEDS := x, SDMVarInfo_interface := i\<rparr>) ReplyId s;
     send_varinfos envs msgVarRequest ReplyId d next msgVarInfo (DM_MessageSent s) }"

text \<open>The loop goes on to the end of the list unless a component was named, also for a standing query.\<close>

primrec varreq_loop :: "(nat \<Rightarrow> env) \<Rightarrow> SDMVarReq \<Rightarrow> SDMComponent_ID \<Rightarrow> bool \<Rightarrow> xTEDSLibraryList \<Rightarrow> SDMVarInfo \<Rightarrow> dm \<Rightarrow> (dm \<times> SDMVarInfo) option" where
  "varreq_loop envs msgVarRequest ReplyId ref [] msgVarInfo s = Some (s, msgVarInfo)"
| "varreq_loop envs msgVarRequest ReplyId ref (d # l) msgVarInfo s = do {
     (s, msgVarInfo) \<leftarrow> (if lib_active d then do {
         tree \<leftarrow> xtedsTree d;
         defs \<leftarrow> getVarInfo tree (cstr (SDMVarReq_variable msgVarRequest)) (SDMVarReq_msg_id msgVarRequest);
         send_varinfos envs msgVarRequest ReplyId d defs msgVarInfo s }
       else Some (s, msgVarInfo));
     if ref then Some (s, msgVarInfo) else varreq_loop envs msgVarRequest ReplyId ref l msgVarInfo s }"

definition itoa :: "int \<Rightarrow> byte list" where
  "itoa n = (if n < 0 then 45 # decimal (nat (- n)) else decimal (nat n))"

definition DM_VarReq :: "(nat \<Rightarrow> env) \<Rightarrow> buffer \<Rightarrow> SDMComponent_ID \<Rightarrow> int \<Rightarrow> dm \<Rightarrow> dm option" where
  "DM_VarReq envs buf SenderId xTEDref s = do {
     (msgVarRequest, r) \<leftarrow> SDMVarReq_Unmarshal (SDMVarReq_new (dm_junk envs s 33)) buf;
     if r < 0 then Some s
     else if m_usPort (SDMVarReq_destination msgVarRequest) = 0 then Some s
     else do {
       let ReplyId = SDMComponent_ID_assign SDMComponent_ID_new (SDMVarReq_destination msgVarRequest);
       let ReplyId = (if m_ulAddress ReplyId = 0 then ReplyId\<lparr>m_ulAddress := m_ulAddress SenderId\<rparr> else ReplyId);
       let source = SDMVarReq_source msgVarRequest;
       let source = (if m_ulAddress source = L_LOCAL_HOST \<and> Address_DM s \<noteq> L_LOCAL_HOST then source\<lparr>m_ulAddress := Address_DM s\<rparr> else source);
       let pair = sint (SDMMessage_ID_getInterfaceMessagePair (SDMVarReq_msg_id msgVarRequest));
       (s, go) \<leftarrow> (if SDMVarReq_reply msgVarRequest \<noteq> 0 then do {
           let interface_id = (if pair \<noteq> 0 \<or> SDMVarReq_reply msgVarRequest \<noteq> SDM_VARREQ_CANCEL then itoa pair else []);
           (l, _, result) \<leftarrow> addOrRemoveSubscription (uint (SDMVarReq_reply msgVarRequest)) ReplyId source None (str_of interface_id)
             (str_of (SDMVarReq_variable msgVarRequest)) None (uint (SDMVarReq_id msgVarRequest)) VAR_REQ_REPLY 0 (dm_subscribers s);
           Some (s\<lparr>dm_subscribers := l\<rparr>, result) }
         else Some (s, True));
       if \<not> go then Some s
       else do {
         let named = (xTEDref = - 1 \<and> m_ulAddress source \<noteq> 0 \<and> m_usPort source \<noteq> 0 \<and> m_ulSensorId source \<noteq> 0);
         let node = (if xTEDref \<noteq> - 1 then if xTEDref < 0 then [] else drop (nat xTEDref) (xTEDSList s)
           else if named then dropWhile (\<lambda>d. \<not> SDMComponent_ID_eq (getComponentID d) source) (xTEDSList s)
           else xTEDSList s);
         if xTEDref \<noteq> - 1 \<and> node = [] then Some s
         else do {
           (s, msgVarInfo) \<leftarrow> varreq_loop envs (msgVarRequest\<lparr>SDMVarReq_source := source\<rparr>) ReplyId named node (SDMVarInfo_new (dm_junk envs s 33) (dm_junk envs s 24210)) s;
           (s, _) \<leftarrow> dm_send_to envs SDMVarInfo_SendEmpty msgVarInfo ReplyId s;
           Some (DM_MessageSent s) } } } }"

section \<open>Standing queries\<close>

definition copy_text :: "buffer \<Rightarrow> cstring \<Rightarrow> buffer option" where
  "copy_text a t = do { t \<leftarrow> t; memcpy a 0 (chars t @ [0]) 0 (length t + 1) }"

text \<open>The query of one subscription is marshalled into a message and run as if it had been received.\<close>

definition repeat_query :: "regex \<Rightarrow> (nat \<Rightarrow> env) \<Rightarrow> int \<Rightarrow> int \<Rightarrow> int \<Rightarrow> Subscription \<Rightarrow> dm \<Rightarrow> dm option" where
  "repeat_query Regex envs MessageID ModificationAction xTEDSRef CurSub s = (
     let SubscriberID = m_idSubscriber CurSub; now = env_now (dm_env_at envs s 0); MessageBuffer = dm_junk envs s BUFSIZE
     in if MessageID = REQ_REG_FUTURE \<or> MessageID = REQ_REG_CANCELLATION then
          if m_bHasItems CurSub then do {
            let req = (SDMReqReg_new (dm_junk envs s 33) (dm_junk envs s 33) (dm_junk envs s 33) (dm_junk envs s 1024))\<lparr>
              SDMReqReg_reply := SDM_REQREG_CURRENT, SDMReqReg_destination := SubscriberID, SDMReqReg_id := of_int (m_iID CurSub),
              SDMReqReg_source := m_idSource CurSub\<rparr>;
            a \<leftarrow> copy_text (SDMReqReg_item_name req) (m_strItemName CurSub);
            b \<leftarrow> copy_text (SDMReqReg_quallist req) (m_strQualList CurSub);
            c \<leftarrow> copy_text (SDMReqReg_device req) (m_strDevice CurSub);
            d \<leftarrow> copy_text (SDMReqReg_interface req) (m_strInterface CurSub);
            (_, MessageBuffer, _) \<leftarrow> SDMReqReg_Marshal now
              (req\<lparr>SDMReqReg_item_name := a, SDMReqReg_quallist := b, SDMReqReg_device := c, SDMReqReg_interface := d\<rparr>) MessageBuffer;
            DM_ReqReg envs MessageBuffer xTEDSRef SubscriberID ModificationAction s }
          else Some s
        else if MessageID = SEARCH_REPLY then do {
          let sear = (SDMSearch_new (dm_junk envs s 24255))\<lparr>SDMSearch_reply := 0, SDMSearch_id := of_int (m_iID CurSub), SDMSearch_source := m_idSource CurSub\<rparr>;
          let sear = sear\<lparr>SDMSearch_destination := (SDMSearch_destination sear)\<lparr>m_usPort := m_usPort SubscriberID\<rparr>\<rparr>;
          a \<leftarrow> copy_text (SDMSearch_reg_expr sear) (m_strItemName CurSub);
          (_, MessageBuffer, _) \<leftarrow> SDMSearch_Marshal now (sear\<lparr>SDMSearch_reg_expr := a\<rparr>) MessageBuffer;
          DM_Search Regex envs MessageBuffer SubscriberID xTEDSRef s }
        else if MessageID = VAR_REQ_REPLY then do {
          let var = (SDMVarReq_new (dm_junk envs s 33))\<lparr>SDMVarReq_reply := 0, SDMVarReq_id := of_int (m_iID CurSub), SDMVarReq_source := m_idSource CurSub\<rparr>;
          let var = var\<lparr>SDMVarReq_destination := (SDMVarReq_destination var)\<lparr>m_usPort := m_usPort SubscriberID\<rparr>\<rparr>;
          i \<leftarrow> m_strInterface CurSub;
          v \<leftarrow> atoi (chars i @ [0]);
          let var = var\<lparr>SDMVarReq_msg_id := SDMMessage_ID_assign_int (SDMVarReq_msg_id var) (of_int v)\<rparr>;
          a \<leftarrow> copy_text (SDMVarReq_variable var) (m_strItemName CurSub);
          (_, MessageBuffer, _) \<leftarrow> SDMVarReq_Marshal now (var\<lparr>SDMVarReq_variable := a\<rparr>) MessageBuffer;
          DM_VarReq envs MessageBuffer SubscriberID xTEDSRef s }
        else Some s)"

primrec repeat_loop :: "regex \<Rightarrow> (nat \<Rightarrow> env) \<Rightarrow> int \<Rightarrow> int \<Rightarrow> int \<Rightarrow> Subscription list \<Rightarrow> dm \<Rightarrow> dm option" where
  "repeat_loop Regex envs MessageID ModificationAction xTEDSRef [] s = Some s"
| "repeat_loop Regex envs MessageID ModificationAction xTEDSRef (CurSub # l) s =
     (if m_bInUse CurSub \<and> getmID CurSub = MessageID then do {
        s \<leftarrow> repeat_query Regex envs MessageID ModificationAction xTEDSRef CurSub s;
        repeat_loop Regex envs MessageID ModificationAction xTEDSRef l s }
      else repeat_loop Regex envs MessageID ModificationAction xTEDSRef l s)"

text \<open>The queries of this function have the reply style of a single query, so they leave the list of subscriptions alone.\<close>

definition PublishxTEDSModificationSubscription :: "regex \<Rightarrow> (nat \<Rightarrow> env) \<Rightarrow> int \<Rightarrow> int \<Rightarrow> int \<Rightarrow> dm \<Rightarrow> dm option" where
  "PublishxTEDSModificationSubscription Regex envs MessageID ModificationAction xTEDSRef s =
     repeat_loop Regex envs MessageID ModificationAction xTEDSRef (dm_subscribers s) s"

section \<open>Registration\<close>

text \<open>The sender's address: that of the message if it has one, otherwise where it came from.\<close>

definition requester :: "dm \<Rightarrow> SDMComponent_ID \<Rightarrow> SDMxTEDS \<Rightarrow> SDMComponent_ID \<times> SDMxTEDS \<times> bool" where
  "requester s RequesterId msgXteds = (
     let source = SDMxTEDS_source msgXteds in
     if m_ulAddress source \<noteq> 0 then (SDMComponent_ID_assign RequesterId source, msgXteds, True)
     else if m_ulAddress RequesterId = L_LOCAL_HOST \<and> Address_DM s \<noteq> L_LOCAL_HOST
     then (RequesterId\<lparr>m_ulAddress := Address_DM s\<rparr>, msgXteds\<lparr>SDMxTEDS_source := source\<lparr>m_ulAddress := Address_DM s\<rparr>\<rparr>, False)
     else (RequesterId, msgXteds\<lparr>SDMxTEDS_source := source\<lparr>m_ulAddress := m_ulAddress RequesterId\<rparr>\<rparr>, False))"

definition send_SDMID :: "(nat \<Rightarrow> env) \<Rightarrow> SDMComponent_ID \<Rightarrow> 16 word \<Rightarrow> 32 word \<Rightarrow> dm \<Rightarrow> dm option" where
  "send_SDMID envs RequesterId usPort ulSID s = do {
     let destination = (SDMComponent_ID_assign (SDMID_destination SDMID_new) RequesterId)\<lparr>m_usPort := usPort, m_ulSensorId := ulSID\<rparr>;
     (s, _) \<leftarrow> dm_send_to envs (\<lambda>e. SendTo SDMID_Marshal (env_net e) (env_stk e) (env_ack e) (env_now e))
       (SDMID_new\<lparr>SDMID_destination := destination\<rparr>) destination s;
     Some s }"

text \<open>The document of a new entry. \<^verbatim>\<open>Retrieve_xTEDS\<close> and \<^verbatim>\<open>Store_xTEDS\<close> return \<open>0\<close> for success, which the conditions
  take for failure. The flag of the result is whether the entry has a document.\<close>

definition set_document :: "(byte list \<Rightarrow> xTEDS option) \<Rightarrow> SDMxTEDS \<Rightarrow> nat \<Rightarrow> dm \<Rightarrow> (dm \<times> bool) option" where
  "set_document Parse msgXteds flag s = do {
     let (d, parsed) = setxTEDS Parse (cstr (SDMxTEDS_xTEDS msgXteds)) (xTEDSList s ! flag);
     if \<not> parsed then do {
       (d, IsxTEDSValid) \<leftarrow> (if IsPIDFromASIM (SDMxTEDS_pid msgXteds) then do {
           (xTEDS, r) \<leftarrow> Retrieve_xTEDS (SDMxTEDS_pid msgXteds) (SDMxTEDS_xTEDS msgXteds) (dm_files s);
           Some (if r \<noteq> 0 then setxTEDS Parse (cstr xTEDS) d else (d, False)) }
         else Some (d, False));
       if \<not> IsxTEDSValid then Some (set_entry flag (d\<lparr>available := True, lib_active := False, merged := False\<rparr>) s, False)
       else Some (set_entry flag d s, True) }
     else do {
       let s = set_entry flag d s;
       let s = (if IsPIDFromASIM (SDMxTEDS_pid msgXteds)
         then s\<lparr>dm_files := fst (Store_xTEDS (dm_xTEDS_writable s) (SDMxTEDS_pid msgXteds) (cstr (SDMxTEDS_xTEDS msgXteds)) (dm_files s))\<rparr> else s);
       Some (s, True) } }"

text \<open>What follows when the entry has its document.\<close>

definition announce_registration :: "regex \<Rightarrow> (nat \<Rightarrow> env) \<Rightarrow> bool \<Rightarrow> SDMComponent_ID \<Rightarrow> SDMComHandle \<Rightarrow> 16 word \<Rightarrow> nat \<Rightarrow> dm \<Rightarrow> dm option" where
  "announce_registration Regex envs bAckUseDeviceAddress RequesterId AppComHandle usPort flag s = do {
     let IsActive = lib_active (xTEDSList s ! flag);
     let ulSID = getSensorID (xTEDSList s ! flag);
     let iXtedsRefIndex = uint (drop_bit 16 ulSID AND 0xFF);
     s \<leftarrow> (if usPort \<noteq> PORT_DM then send_SDMID envs RequesterId usPort ulSID s else Some s);
     s \<leftarrow> SendAckMessage envs SDM_OK bAckUseDeviceAddress RequesterId AppComHandle s;
     if IsActive then do {
       s \<leftarrow> PublishNotification envs ulSID NOTI_REGISTRATION MOD_NOT_APPLICABLE s;
       s \<leftarrow> PublishNotification envs ulSID NOTI_REGISTRATION_CHANGE REGISTRATION_MODIFICATION s;
       s \<leftarrow> PublishxTEDSModificationSubscription Regex envs SEARCH_REPLY MOD_NOT_APPLICABLE iXtedsRefIndex s;
       s \<leftarrow> PublishxTEDSModificationSubscription Regex envs REQ_REG_FUTURE MOD_NOT_APPLICABLE iXtedsRefIndex s;
       PublishxTEDSModificationSubscription Regex envs VAR_REQ_REPLY MOD_NOT_APPLICABLE iXtedsRefIndex s }
     else Some s }"

text \<open>The part under the \<^verbatim>\<open>addLibrary\<close> semaphore. \<open>ted\<close> is the message as it was received.\<close>

definition register_document ::
    "(byte list \<Rightarrow> xTEDS option) \<Rightarrow> regex \<Rightarrow> (nat \<Rightarrow> env) \<Rightarrow> bool \<Rightarrow> SDMComponent_ID \<Rightarrow> SDMComHandle \<Rightarrow> byte list \<Rightarrow> int
     \<Rightarrow> SDMxTEDS \<Rightarrow> SDMxTEDS \<Rightarrow> dm \<Rightarrow> dm option" where
  "register_document Parse Regex envs bAckUseDeviceAddress RequesterId AppComHandle strDeviceName iDeviceType ted msgXteds s = do {
     let usPort = m_usPort (SDMxTEDS_source msgXteds);
     (l, flag, iSpot) \<leftarrow> DM_AlreadyRegistered strDeviceName ted usPort RequesterId iDeviceType (xTEDSList s);
     let s = s\<lparr>xTEDSList := l\<rparr>;
     case flag of
       Some flag \<Rightarrow>
         if iSpot = - 1 then do {
           s \<leftarrow> send_SDMID envs RequesterId usPort (getSensorID (xTEDSList s ! flag)) s;
           SendAckMessage envs SDM_OK bAckUseDeviceAddress RequesterId AppComHandle s }
         else announce_registration Regex envs bAckUseDeviceAddress RequesterId AppComHandle usPort flag s
     | None \<Rightarrow> do {
         let iDeviceType = (if is_hub_name strDeviceName then ROBOHUB else iDeviceType);
         (l, flag) \<leftarrow> StoreInfo ted iSpot RequesterId iDeviceType (xTEDSList s);
         (s, ok) \<leftarrow> set_document Parse msgXteds flag (s\<lparr>xTEDSList := l\<rparr>);
         if \<not> ok then SendAckMessage envs SDM_INVALID_XTEDS bAckUseDeviceAddress RequesterId AppComHandle s
         else announce_registration Regex envs bAckUseDeviceAddress RequesterId AppComHandle usPort flag s } }"

definition DM_xTEDS ::
    "(byte list \<Rightarrow> xTEDS option) \<Rightarrow> regex \<Rightarrow> (nat \<Rightarrow> env) \<Rightarrow> buffer \<Rightarrow> SDMComponent_ID \<Rightarrow> SDMComHandle \<Rightarrow> dm \<Rightarrow> dm option" where
  "DM_xTEDS Parse Regex envs buf RequesterId AppComHandle s = do {
     (ted, r) \<leftarrow> SDMxTEDS_Unmarshal (SDMxTEDS_new (globals.truncate (dm_env_at envs s 0)) (dm_junk envs s 24183) (dm_junk envs s 80)) buf;
     if r < 0 then do {
       s \<leftarrow> SendAckMessage envs SDM_INVALID_XTEDS False RequesterId AppComHandle s;
       Some (s\<lparr>registerNext := True\<rparr>) }
     else do {
       let (RequesterId, msgXteds, bAckUseDeviceAddress) = requester s RequesterId ted;
       (b, msgXteds, acknowledge, go) \<leftarrow> receive_segment msgXteds (xTEDSBuilder s);
       let s = s\<lparr>xTEDSBuilder := b\<rparr>;
       s \<leftarrow> (if acknowledge then SendAckMessage envs SDM_OK bAckUseDeviceAddress RequesterId AppComHandle s else Some s);
       if \<not> go then Some (s\<lparr>registerNext := True\<rparr>)
       else do {
         let xTEDS = cstr (SDMxTEDS_xTEDS msgXteds);
         (strDeviceName, iDeviceType) \<leftarrow> ParseDeviceName xTEDS (dm_junk envs s XTEDS_MAX_ITEM_NAME_SIZE) XTEDS_MAX_ITEM_NAME_SIZE;
         s \<leftarrow> (if iDeviceType < 0 \<or> \<not> occurs_at xTEDS 0 [TAG_OPEN] \<or> strstr_from xTEDS 0 (chars ''</xTEDS>'') = None
           then SendAckMessage envs SDM_INVALID_XTEDS bAckUseDeviceAddress RequesterId AppComHandle s
           else register_document Parse Regex envs bAckUseDeviceAddress RequesterId AppComHandle (cstr strDeviceName) iDeviceType ted msgXteds s);
         Some (s\<lparr>registerNext := True\<rparr>) } } }"

section \<open>Cancellation\<close>

text \<open>The conditions under which an entry is the one to cancel. A Process Manager names it by the id of its process.\<close>

definition cancels_entry :: "16 word \<Rightarrow> 32 word \<Rightarrow> SDMComponent_ID \<Rightarrow> xTEDSLibrary \<Rightarrow> bool" where
  "cancels_entry usPort ulSID RequesterId d \<longleftrightarrow>
     \<not> available d
     \<and> (usPort = getTargetPort d \<or> usPort = PORT_PM \<and> ulSID \<noteq> 0 \<or> usPort = 0 \<and> ulSID = 0)
     \<and> m_ulAddress RequesterId = m_ulAddress (lib_id d)
     \<and> lib_active d
     \<and> (ulSID AND 0x000000FF = getSensorID d AND 0x000000FF
        \<or> usPort = PORT_PM \<and> getTargetPort d \<noteq> PORT_DM \<and> getTargetPort d \<noteq> PORT_SM \<and> getTargetPort d \<noteq> PORT_TM
          \<and> getTargetPort d \<noteq> PORT_SPA1_MANAGER)
     \<and> (usPort = PORT_PM \<longrightarrow> ulSID = lib_pid d)"

text \<open>The subscriptions of and to a component that is gone; the Data Manager deletes them at their providers.\<close>

definition finish_component :: "(nat \<Rightarrow> env) \<Rightarrow> SDMComponent_ID \<Rightarrow> dm \<Rightarrow> dm option" where
  "finish_component envs c s = do {
     (l, deleted, sent) \<leftarrow> SubscriberFinish (dm_env_at envs s) (g_SensorSubscriptions s) c;
     let s = dm_log_sent (length deleted) (map (Pair Provider) sent) (s\<lparr>g_SensorSubscriptions := l\<rparr>);
     Some (s\<lparr>g_SensorSubscriptions := fst (ProviderFinish (g_SensorSubscriptions s) c)\<rparr>) }"

definition is_core_port :: "16 word \<Rightarrow> bool" where
  "is_core_port p = (p = PORT_SM \<or> p = PORT_SPA1_MANAGER \<or> p = PORT_TM \<or> p = PORT_PM)"

definition mark_cancelled :: "byte \<Rightarrow> xTEDSLibrary \<Rightarrow> xTEDSLibrary" where
  "mark_cancelled fullCancel d = (
     let d = (if \<not> is_core_port (getTargetPort d) then d\<lparr>lib_active := False, posted := False\<rparr> else d)
     in if fullCancel = 1 then d\<lparr>lib_active := True\<rparr> else d)"

definition release_entry :: "xTEDSLibrary \<Rightarrow> xTEDSLibrary" where
  "release_entry d = (if lib_active d
     then (setTargetPort 0 (d\<lparr>available := True\<rparr>))\<lparr>connections := 0, lib_pid := 0, hub := 0, merged := False, lib_active := False\<rparr>
     else d)"

definition publish_deregistration :: "regex \<Rightarrow> (nat \<Rightarrow> env) \<Rightarrow> 32 word \<Rightarrow> nat \<Rightarrow> dm \<Rightarrow> dm option" where
  "publish_deregistration Regex envs CancelSensorID iRemoveRef s = do {
     s \<leftarrow> PublishxTEDSModificationSubscription Regex envs REQ_REG_CANCELLATION DEREGISTRATION_MODIFICATION (int iRemoveRef) s;
     s \<leftarrow> PublishNotification envs CancelSensorID NOTI_DEREGISTRATION MOD_NOT_APPLICABLE s;
     PublishNotification envs CancelSensorID NOTI_REGISTRATION_CHANGE DEREGISTRATION_MODIFICATION s }"

text \<open>The part of the handler under the \<^verbatim>\<open>addLibrary\<close> semaphore, when the entry was found.\<close>

definition cancel_entry :: "regex \<Rightarrow> (nat \<Rightarrow> env) \<Rightarrow> byte \<Rightarrow> SDMComponent_ID \<Rightarrow> SDMComHandle \<Rightarrow> nat \<Rightarrow> dm \<Rightarrow> dm option" where
  "cancel_entry Regex envs fullCancel RequesterId AppComHandle node s = do {
     let CancelSensorID = getSensorID (xTEDSList s ! node);
     let CancelComponentId = getComponentID (xTEDSList s ! node);
     let s = set_entry node (mark_cancelled fullCancel (xTEDSList s ! node)) s;
     s \<leftarrow> publish_deregistration Regex envs CancelSensorID node s;
     s \<leftarrow> finish_component envs CancelComponentId s;
     if getTargetPort (xTEDSList s ! node) = PORT_DM
     then SendAckMessage envs SDM_INVALID_CANCEL False RequesterId AppComHandle s
     else SendAckMessage envs SDM_OK False RequesterId AppComHandle (set_entry node (release_entry (xTEDSList s ! node)) s) }"

definition DM_CancelxTEDS :: "regex \<Rightarrow> (nat \<Rightarrow> env) \<Rightarrow> buffer \<Rightarrow> SDMComponent_ID \<Rightarrow> SDMComHandle \<Rightarrow> dm \<Rightarrow> dm option" where
  "DM_CancelxTEDS Regex envs buf RequesterId AppComHandle s = do {
     (msgCancel, r) \<leftarrow> SDMCancelxTEDS_Unmarshal SDMCancelxTEDS_new buf;
     s \<leftarrow> (if r < 0 then SendAckMessage envs SDM_INVALID_CANCEL False RequesterId AppComHandle s
       else do {
         let ulSID = m_ulSensorId (SDMCancelxTEDS_source msgCancel);
         let usPort = m_usPort (SDMCancelxTEDS_source msgCancel);
         let RequesterId = (if m_ulAddress (SDMCancelxTEDS_source msgCancel) \<noteq> 0
           then RequesterId\<lparr>m_ulAddress := m_ulAddress (SDMCancelxTEDS_source msgCancel)\<rparr>
           else if m_ulAddress RequesterId = L_LOCAL_HOST \<and> Address_DM s \<noteq> L_LOCAL_HOST
           then RequesterId\<lparr>m_ulAddress := Address_DM s\<rparr> else RequesterId);
         case first_index (cancels_entry usPort ulSID RequesterId) (xTEDSList s) of
           None \<Rightarrow> SendAckMessage envs SDM_UNKNOWN_XTEDS False RequesterId AppComHandle s
         | Some node \<Rightarrow> cancel_entry Regex envs (SDMCancelxTEDS_fullCancel msgCancel) RequesterId AppComHandle node s });
     Some (s\<lparr>cancelNext := True\<rparr>) }"

definition DM_TaskError :: "regex \<Rightarrow> (nat \<Rightarrow> env) \<Rightarrow> buffer \<Rightarrow> SDMComponent_ID \<Rightarrow> dm \<Rightarrow> dm option" where
  "DM_TaskError Regex envs buf RequesterId s = do {
     (msgError, r) \<leftarrow> SDMTaskError_Unmarshal (SDMTaskError_new (dm_junk envs s 128)) buf;
     if r < 0 then Some s
     else case first_index (\<lambda>d. \<not> available d \<and> m_ulAddress RequesterId = m_ulAddress (lib_id d) \<and> lib_active d
         \<and> lib_pid d = SDMTaskError_pid msgError) (xTEDSList s) of
       None \<Rightarrow> Some s
     | Some node \<Rightarrow> do {
         let s = set_entry node ((xTEDSList s ! node)\<lparr>lib_active := False, posted := True\<rparr>) s;
         let CancelSensorID = getSensorID (xTEDSList s ! node);
         let CancelComponentId = getComponentID (xTEDSList s ! node);
         s \<leftarrow> finish_component envs CancelComponentId s;
         let s = s\<lparr>dm_subscribers := fst (removeReqRegSubscription_all SUB_CANCEL CancelComponentId (dm_subscribers s))\<rparr>;
         publish_deregistration Regex envs CancelSensorID node s } }"

end
