(* ===== verification/DM_Properties.thy ===== *)
theory DM_Properties
  imports DM_Registration
begin

text \<open>
  Properties of the Data Manager's registry and of the handlers that change it.
\<close>

section \<open>What leaves the registry alone\<close>

lemma dm_log_sent_list [simp]: "xTEDSList (dm_log_sent n out s) = xTEDSList s" "dm_subscribers (dm_log_sent n out s) = dm_subscribers s"
  by (simp_all add: dm_log_sent_def)

lemma DM_MessageSent_list [simp]: "xTEDSList (DM_MessageSent s) = xTEDSList s" "dm_subscribers (DM_MessageSent s) = dm_subscribers s"
  by (simp_all add: DM_MessageSent_def)

named_theorems keeps

lemma dm_send_to_list [keeps]: "dm_send_to envs Send m d s = Some (s', m') \<Longrightarrow> xTEDSList s' = xTEDSList s"
  by (auto simp: dm_send_to_def split: bind_splits)

lemma SendAckMessage_list [keeps]: "SendAckMessage envs st u d h s = Some s' \<Longrightarrow> xTEDSList s' = xTEDSList s"
  by (auto simp: SendAckMessage_def Let_def split: bind_splits if_splits dest: keeps)

lemma send_SDMID_list [keeps]: "send_SDMID envs r p sid s = Some s' \<Longrightarrow> xTEDSList s' = xTEDSList s"
  by (auto simp: send_SDMID_def Let_def split: bind_splits dest: keeps)

lemma notify_one_list [keeps]: "notify_one envs sid mid act c m s = Some (s', m') \<Longrightarrow> xTEDSList s' = xTEDSList s"
  by (auto simp: notify_one_def Let_def split: bind_splits if_splits dest: keeps)

lemma notify_loop_list [keeps]: "notify_loop envs sid mid act l m s = Some s' \<Longrightarrow> xTEDSList s' = xTEDSList s"
  by (induction l arbitrary: m s) (auto split: bind_splits if_splits dest: keeps)

lemma PublishNotification_list [keeps]: "PublishNotification envs sid mid act s = Some s' \<Longrightarrow> xTEDSList s' = xTEDSList s"
  by (auto simp: PublishNotification_def dest: keeps)

lemma announce_loop_list [keeps]: "announce_loop envs sub mid l m s = Some s' \<Longrightarrow> xTEDSList s' = xTEDSList s"
  by (induction l arbitrary: m s) (auto simp: Let_def split: bind_splits if_splits dest!: keeps)

lemma DM_Subscribe_list [keeps]: "DM_Subscribe envs sub mid s = Some s' \<Longrightarrow> xTEDSList s' = xTEDSList s"
  by (auto simp: DM_Subscribe_def Let_def split: bind_splits if_splits dest!: keeps)

lemma send_reginfo_list [keeps]: "send_reginfo envs d st = Some st' \<Longrightarrow> xTEDSList (rr_dm st') = xTEDSList (rr_dm st)"
  by (auto simp: send_reginfo_def split: bind_splits dest!: keeps)

lemma answer_match_list [keeps]: "answer_match envs m x a c d md st = Some st' \<Longrightarrow> xTEDSList (rr_dm st') = xTEDSList (rr_dm st)"
  by (auto simp: answer_match_def Let_def split: bind_splits if_splits dest!: keeps)

lemma answer_matches_list [keeps]: "answer_matches envs m x a c d mds st = Some st' \<Longrightarrow> xTEDSList (rr_dm st') = xTEDSList (rr_dm st)"
  by (induction mds arbitrary: st) (auto split: bind_splits dest!: keeps)

lemma reqreg_loop_list [keeps]:
  "reqreg_loop envs m t x a c l st = Some (st', b) \<Longrightarrow> xTEDSList (rr_dm st') = xTEDSList (rr_dm st)"
proof (induction l arbitrary: st)
  case (Cons d l)
  then show ?case by (auto simp: Let_def split: bind_splits if_splits option.splits dest!: keeps)
qed simp

lemma DM_PostTask_list [keeps]: "DM_PostTask envs d s = Some s' \<Longrightarrow> xTEDSList s' = xTEDSList s"
  by (auto simp: DM_PostTask_def Let_def split: bind_splits if_splits dest!: keeps)

lemma send_captures_list [keeps]: "send_captures envs r ts m s = Some (s', m') \<Longrightarrow> xTEDSList s' = xTEDSList s"
  by (induction ts arbitrary: m s) (auto split: bind_splits dest!: keeps)

lemma search_loop_list [keeps]: "search_loop envs f m x r l rep s = Some (s', rep') \<Longrightarrow> xTEDSList s' = xTEDSList s"
proof (induction l arbitrary: rep s)
  case (Cons d l)
  then show ?case by (auto simp: Let_def split: bind_splits if_splits dest!: keeps)
qed simp

lemma DM_Search_list [keeps]: "DM_Search Regex envs buf c x s = Some s' \<Longrightarrow> xTEDSList s' = xTEDSList s"
  by (auto simp: DM_Search_def Let_def split: bind_splits if_splits option.splits dest!: keeps)

lemma send_varinfos_list [keeps]: "send_varinfos envs m r d l v s = Some (s', v') \<Longrightarrow> xTEDSList s' = xTEDSList s"
  by (induction l arbitrary: v s) (auto split: bind_splits dest!: keeps)

lemma varreq_loop_list [keeps]: "varreq_loop envs m r ref l v s = Some (s', v') \<Longrightarrow> xTEDSList s' = xTEDSList s"
proof (induction l arbitrary: v s)
  case (Cons d l)
  then show ?case by (auto split: bind_splits if_splits dest!: keeps)
qed simp

lemma DM_VarReq_list [keeps]: "DM_VarReq envs buf c x s = Some s' \<Longrightarrow> xTEDSList s' = xTEDSList s"
  by (auto simp: DM_VarReq_def Let_def split: bind_splits if_splits dest!: keeps)

lemma finish_component_list [keeps]: "finish_component envs c s = Some s' \<Longrightarrow> xTEDSList s' = xTEDSList s"
  by (auto simp: finish_component_def Let_def split: bind_splits)

section \<open>The invariant of the registry\<close>

text \<open>Entries that differ at most in the counters and marks that no lookup reads.\<close>

definition same_entry :: "xTEDSLibrary \<Rightarrow> xTEDSLibrary \<Rightarrow> bool" where
  "same_entry d d' \<longleftrightarrow> xtedsTree d' = xtedsTree d \<and> available d' = available d \<and> lib_active d' = lib_active d \<and> lib_id d' = lib_id d"

definition same_entries :: "xTEDSLibraryList \<Rightarrow> xTEDSLibraryList \<Rightarrow> bool" where
  "same_entries l l' \<longleftrightarrow> list_all2 same_entry l l'"

lemma same_entries_refl [simp]: "same_entries l l"
  by (simp add: same_entries_def same_entry_def list_all2_refl)

lemma same_entries_trans: "same_entries l l' \<Longrightarrow> same_entries l' l'' \<Longrightarrow> same_entries l l''"
  unfolding same_entries_def by (rule list_all2_trans [of same_entry same_entry same_entry]) (auto simp: same_entry_def)

lemma same_entries_length: "same_entries l l' \<Longrightarrow> length l' = length l"
  by (simp add: same_entries_def list_all2_lengthD)

lemma same_entries_update: "same_entry (l ! i) d \<Longrightarrow> same_entries l (l[i := d])"
proof (unfold same_entries_def list_all2_conv_all_nth, intro conjI allI impI)
  fix k assume "same_entry (l ! i) d" "k < length l"
  then show "same_entry (l ! k) (l[i := d] ! k)" by (cases "k = i") (auto simp: same_entry_def)
qed simp

text \<open>An entry in use has a document, and the upper half of its sensor id is its index; only entries in use are active.\<close>

definition entry_ok :: "nat \<Rightarrow> xTEDSLibrary \<Rightarrow> bool" where
  "entry_ok i d \<longleftrightarrow> (\<not> available d \<longrightarrow> xtedsTree d \<noteq> None \<and> drop_bit 16 (getSensorID d) = of_nat (i mod 65536))
     \<and> (lib_active d \<longrightarrow> \<not> available d)"

definition registry_ok :: "xTEDSLibraryList \<Rightarrow> bool" where
  "registry_ok l \<longleftrightarrow> (\<forall>i<length l. entry_ok i (l ! i))"

lemma entry_ok_same: "same_entry d d' \<Longrightarrow> entry_ok i d' = entry_ok i d"
  by (auto simp: entry_ok_def same_entry_def getSensorID_def)

lemma registry_ok_same: "same_entries l l' \<Longrightarrow> registry_ok l' = registry_ok l"
  unfolding registry_ok_def same_entries_def list_all2_conv_all_nth using entry_ok_same by metis

lemma registry_ok_update: "registry_ok l \<Longrightarrow> entry_ok i d \<Longrightarrow> registry_ok (l[i := d])"
  unfolding registry_ok_def by (metis length_list_update nth_list_update_eq nth_list_update_neq)

lemma slot_id_upper:
  assumes "drop_bit 16 ID = 0"
  shows "drop_bit 16 (slot_id ID count) = of_nat (count mod 65536)"
proof (rule bit_word_eqI)
  fix n assume n: "n < LENGTH(32)"
  have c: "drop_bit 16 (push_bit 16 (of_nat count :: 32 word)) = of_nat (count mod 65536)"
  proof (rule bit_word_eqI)
    fix k assume "k < LENGTH(32)"
    have "(count mod 65536) = take_bit 16 count" by (simp add: take_bit_eq_mod)
    then show "bit (drop_bit 16 (push_bit 16 (of_nat count :: 32 word))) k = bit (of_nat (count mod 65536) :: 32 word) k"
      using \<open>k < LENGTH(32)\<close> by (auto simp: bit_simps)
  qed
  show "bit (drop_bit 16 (slot_id ID count)) n = bit (of_nat (count mod 65536) :: 32 word) n"
    unfolding slot_id_def drop_bit_or using assms c by simp
qed

lemma upper_masked [simp]: "drop_bit 16 (w AND 0x0000FFFF :: 32 word) = 0" "drop_bit 16 (w AND 0x000000FF :: 32 word) = 0"
  by (simp_all add: drop_bit_and)

lemma registry_ok_Nil [simp]: "registry_ok []"
  by (simp add: registry_ok_def)

lemma registry_ok_snoc: "registry_ok l \<Longrightarrow> entry_ok (length l) d \<Longrightarrow> registry_ok (l @ [d])"
  by (auto simp: registry_ok_def nth_append less_Suc_eq)

lemma entry_ok_reactivate: "entry_ok count d \<Longrightarrow> \<not> available d \<Longrightarrow> entry_ok count (reactivate ted a t count nm d)"
  by (auto simp: entry_ok_def reactivate_def Let_def lib_setAddress_def setTargetPort_def lib_setSensorID_def getSensorID_def slot_id_upper)

definition registered_ok :: "nat \<Rightarrow> xTEDSLibraryList \<Rightarrow> bool" where
  "registered_ok k l \<longleftrightarrow> (\<forall>i<length l. entry_ok (k + i) (l ! i))"

lemma registered_ok_Cons: "registered_ok k (d # l) \<longleftrightarrow> entry_ok k d \<and> registered_ok (Suc k) l"
  by (auto simp: registered_ok_def less_Suc_eq_0_disj)

lemma DM_AlreadyRegistered_loop_ok:
  "AlreadyRegistered_loop sensor ted port a t count l = Some (l', r) \<Longrightarrow> registered_ok count l \<Longrightarrow> registered_ok count l'"
proof (induction l arbitrary: count l' r port)
  case (Cons d l)
  have step: "registered_ok (Suc count) l''"
    if "AlreadyRegistered_loop sensor ted p a t (Suc count) l = Some (l'', r')" for l'' r' p
    using Cons.IH [OF that] Cons.prems(2) by (simp add: registered_ok_Cons)
  from Cons.prems show ?case
    by (auto simp: Let_def registered_ok_Cons entry_ok_reactivate split: bind_splits if_splits dest: step)
qed simp

lemma DM_AlreadyRegistered_ok: "DM_AlreadyRegistered sensor ted port a t l = Some (l', r) \<Longrightarrow> registry_ok l \<Longrightarrow> registry_ok l'"
  using DM_AlreadyRegistered_loop_ok [of sensor ted port a t 0 l l' r]
  by (simp add: DM_AlreadyRegistered_def registry_ok_def registered_ok_def)

lemma fill_entry_facts:
  assumes "fill_entry ted a t c d = Some d'"
  shows "drop_bit 16 (getSensorID d') = of_nat (c mod 65536)" "\<not> available d'"
    "m_ulAddress (lib_id d') = m_ulAddress a" "getTargetPort d' = m_usPort (SDMxTEDS_source ted)"
    "getSensorID d' = slot_id (m_ulSensorId (SDMxTEDS_source ted) AND 0xFF) c" "lib_active d' \<longleftrightarrow> SDMxTEDS_active ted \<noteq> 0"
    "lib_pid d' = SDMxTEDS_pid ted"
  using assms
  by (auto simp: fill_entry_def Let_def lib_setAddress_def setTargetPort_def setSPANode_def setSPAHub_def lib_setSensorID_def
      getSensorID_def getTargetPort_def slot_id_upper split: bind_splits if_splits)

text \<open>The registry between the two steps of a registration: the entry just filled has no document yet.\<close>

definition awaiting_document :: "xTEDSLibraryList \<Rightarrow> nat \<Rightarrow> bool" where
  "awaiting_document l i \<longleftrightarrow> i < length l \<and> (\<forall>k<length l. k \<noteq> i \<longrightarrow> entry_ok k (l ! k))
     \<and> \<not> available (l ! i) \<and> drop_bit 16 (getSensorID (l ! i)) = of_nat (i mod 65536)"

lemma free_entry_bound: "free_entry spot l k \<le> k + length l"
proof (induction l arbitrary: k)
  case (Cons d l)
  show ?case using Cons.IH [of "k + 1"] by simp
qed simp

lemma entry_ok_new: "entry_ok k xTEDSLibrary_new"
  by (simp add: entry_ok_def xTEDSLibrary_new_def)

text \<open>The list in which an entry is filled: an entry was added to it if none was free.\<close>

definition with_entry :: "nat \<Rightarrow> xTEDSLibraryList \<Rightarrow> xTEDSLibraryList" where
  "with_entry i l = (if i < length l then l else addLibrary xTEDSLibrary_new l)"

lemma StoreInfo_cases:
  assumes "StoreInfo ted spot a t l = Some (l', i)"
  obtains d where "fill_entry ted a t i (with_entry i l ! i) = Some d" "l' = (with_entry i l)[i := d]" "i < length (with_entry i l)"
    "i \<le> length l"
proof -
  define c where "c = (if l = [] then 0 else free_entry spot (tl l) 1)"
  have eq: "StoreInfo ted spot a t l = (if l = [] \<and> spot > 0 then None else do {
      d \<leftarrow> fill_entry ted a t c (with_entry c l ! c); Some ((with_entry c l)[c := d], c) })"
    by (simp only: StoreInfo_def with_entry_def Let_def c_def)
  have le: "c \<le> length l" using free_entry_bound [of spot "tl l" 1] by (cases l) (auto simp: c_def)
  then have lt: "c < length (with_entry c l)" by (auto simp: with_entry_def addLibrary_def)
  note r = assms [unfolded eq]
  show thesis
  proof (cases "fill_entry ted a t c (with_entry c l ! c)")
    case None
    with r show thesis by (simp split: if_splits)
  next
    case (Some d)
    with r have "(with_entry c l)[c := d] = l' \<and> c = i" by (auto split: if_splits)
    with Some le lt show thesis using that [of d] by auto
  qed
qed

lemma StoreInfo_awaiting:
  assumes "StoreInfo ted spot a t l = Some (l', i)" "registry_ok l"
  shows "awaiting_document l' i"
proof -
  from assms(1) obtain d where d: "fill_entry ted a t i (with_entry i l ! i) = Some d" "l' = (with_entry i l)[i := d]" "i < length (with_entry i l)"
    by (rule StoreInfo_cases)
  have "registry_ok (with_entry i l)" using assms(2) by (simp add: with_entry_def addLibrary_def registry_ok_snoc entry_ok_new)
  then show ?thesis using d fill_entry_facts(1,2) [OF d(1)] by (auto simp: awaiting_document_def registry_ok_def)
qed

lemma awaiting_filled:
  assumes "awaiting_document l i" "entry_ok i d"
  shows "registry_ok (l[i := d])"
  using assms unfolding awaiting_document_def registry_ok_def by (metis length_list_update nth_list_update_eq nth_list_update_neq)

lemma setxTEDS_facts:
  assumes "setxTEDS Parse x d = (d', b)"
  shows "available d' = available d" "lib_id d' = lib_id d" "xtedsTree d' = Parse x" "b \<longleftrightarrow> Parse x \<noteq> None" "lib_active d' = lib_active d"
  using assms by (auto simp: setxTEDS_def Let_def)

lemma set_document_ok:
  assumes "set_document Parse m i s = Some (s', b)" "awaiting_document (xTEDSList s) i"
  shows "registry_ok (xTEDSList s')"
proof -
  obtain d p where d: "setxTEDS Parse (cstr (SDMxTEDS_xTEDS m)) (xTEDSList s ! i) = (d, p)" by fastforce
  have e: "entry_ok i d'" if "\<not> available d'" "lib_id d' = lib_id (xTEDSList s ! i)" "xtedsTree d' \<noteq> None" for d'
    using that assms(2) by (simp add: awaiting_document_def entry_ok_def getSensorID_def)
  have f: "entry_ok i (d'\<lparr>available := True, lib_active := False, merged := False\<rparr>)" for d'
    by (simp add: entry_ok_def)
  have na: "\<not> available (xTEDSList s ! i)" using assms(2) by (simp add: awaiting_document_def)
  have g: "entry_ok i d'" if "setxTEDS Parse x d = (d', True)" for x d'
    using setxTEDS_facts [OF that] setxTEDS_facts [OF d] na by (auto intro: e)
  have h: "entry_ok i d" if p using setxTEDS_facts [OF d] na that by (auto intro: e)
  show ?thesis
    using assms(1) d
    by (auto simp: set_document_def set_entry_def Let_def f split: bind_splits if_splits prod.splits
        intro!: awaiting_filled [OF assms(2)] intro: g h)
qed

section \<open>The handlers keep the invariant\<close>

lemma post_loop_same:
  assumes "post_loop envs ms z l s = Some s'" "z + length l = length (xTEDSList s)" "drop z (xTEDSList s) = l"
  shows "same_entries (xTEDSList s) (xTEDSList s')"
  using assms
proof (induction l arbitrary: z s)
  case (Cons d l)
  have d: "d = xTEDSList s ! z" and l: "drop (z + 1) (xTEDSList s) = l" and z: "z < length (xTEDSList s)"
    using Cons.prems(2,3) by (metis nth_via_drop, metis Suc_eq_plus1 drop_Suc list.sel(3) tl_drop, simp)
  show ?case
  proof (cases "ms ! z > 0 \<and> \<not> lib_active d \<and> \<not> posted d \<and> z < length ms")
    case True
    then obtain s1 where s1: "DM_PostTask envs d (set_entry z (d\<lparr>posted := True\<rparr>) s) = Some s1" "post_loop envs ms (z + 1) l s1 = Some s'"
      using Cons.prems(1) by (auto split: bind_splits)
    have x: "xTEDSList s1 = (xTEDSList s)[z := d\<lparr>posted := True\<rparr>]" using DM_PostTask_list [OF s1(1)] by (simp add: set_entry_def)
    have "same_entries (xTEDSList s1) (xTEDSList s')"
      by (rule Cons.IH [OF s1(2)]) (use Cons.prems(2) l x in \<open>simp_all add: drop_update_swap\<close>)
    moreover have "same_entries (xTEDSList s) (xTEDSList s1)" unfolding x d by (rule same_entries_update) (simp add: same_entry_def)
    ultimately show ?thesis using same_entries_trans by blast
  next
    case False
    then have "s' = s \<or> post_loop envs ms (z + 1) l s = Some s'" using Cons.prems(1) by (auto split: if_splits)
    then show ?thesis using Cons.IH [of "z + 1" s] Cons.prems(2) l by auto
  qed
qed simp

lemma DM_ReqReg_same: "DM_ReqReg envs buf x c a s = Some s' \<Longrightarrow> same_entries (xTEDSList s) (xTEDSList s')"
  unfolding DM_ReqReg_def Let_def
  by (auto split: bind_splits if_splits dest!: post_loop_same keeps)

lemma repeat_query_same: "repeat_query Regex envs i a x c s = Some s' \<Longrightarrow> same_entries (xTEDSList s) (xTEDSList s')"
  unfolding repeat_query_def Let_def
  by (auto split: bind_splits if_splits dest: DM_ReqReg_same DM_Search_list DM_VarReq_list)

lemma repeat_loop_same: "repeat_loop Regex envs i a x l s = Some s' \<Longrightarrow> same_entries (xTEDSList s) (xTEDSList s')"
proof (induction l arbitrary: s)
  case (Cons c l)
  show ?case
  proof (cases "m_bInUse c \<and> getmID c = i")
    case True
    then obtain s1 where "repeat_query Regex envs i a x c s = Some s1" "repeat_loop Regex envs i a x l s1 = Some s'"
      using Cons.prems by (auto split: bind_splits)
    then show ?thesis using Cons.IH repeat_query_same same_entries_trans by blast
  qed (use Cons in auto)
qed simp

lemma PublishxTEDSModificationSubscription_same:
  "PublishxTEDSModificationSubscription Regex envs i a x s = Some s' \<Longrightarrow> same_entries (xTEDSList s) (xTEDSList s')"
  by (auto simp: PublishxTEDSModificationSubscription_def dest: repeat_loop_same)

lemma publish_deregistration_same:
  "publish_deregistration Regex envs sid i s = Some s' \<Longrightarrow> same_entries (xTEDSList s) (xTEDSList s')"
  by (auto simp: publish_deregistration_def split: bind_splits dest!: PublishxTEDSModificationSubscription_same PublishNotification_list)

lemma announce_registration_same:
  "announce_registration Regex envs b r h p i s = Some s' \<Longrightarrow> same_entries (xTEDSList s) (xTEDSList s')"
  unfolding announce_registration_def Let_def
  by (auto split: bind_splits if_splits dest!: PublishxTEDSModificationSubscription_same keeps intro: same_entries_trans)

lemmas same_ok = registry_ok_same [THEN iffD2]

lemma register_document_ok:
  assumes "register_document Parse Regex envs b r h nm t ted m s = Some s'" "registry_ok (xTEDSList s)"
  shows "registry_ok (xTEDSList s')"
proof -
  from assms(1) obtain l flag iSpot where a: "DM_AlreadyRegistered nm ted (m_usPort (SDMxTEDS_source m)) r t (xTEDSList s) = Some (l, flag, iSpot)"
    by (auto simp: register_document_def Let_def split: bind_splits)
  have l: "registry_ok l" by (rule DM_AlreadyRegistered_ok [OF a assms(2)])
  show ?thesis
  proof (cases flag)
    case None
    with assms(1) a obtain t' l1 i s1 ok where "StoreInfo ted iSpot r t' l = Some (l1, i)"
        "set_document Parse m i (s\<lparr>xTEDSList := l1\<rparr>) = Some (s1, ok)"
        and c: "SendAckMessage envs SDM_INVALID_XTEDS b r h s1 = Some s' \<or> announce_registration Regex envs b r h (m_usPort (SDMxTEDS_source m)) i s1 = Some s'"
      by (auto simp: register_document_def Let_def split: bind_splits if_splits)
    then have "registry_ok (xTEDSList s1)" using StoreInfo_awaiting [OF _ l] set_document_ok by fastforce
    then show ?thesis using c by (auto dest!: SendAckMessage_list announce_registration_same intro: same_ok)
  next
    case (Some i)
    with assms(1) a l show ?thesis
      by (auto simp: register_document_def Let_def split: bind_splits if_splits
          dest!: SendAckMessage_list send_SDMID_list announce_registration_same intro: same_ok)
  qed
qed

lemma DM_xTEDS_ok:
  "DM_xTEDS Parse Regex envs buf r h s = Some s' \<Longrightarrow> registry_ok (xTEDSList s) \<Longrightarrow> registry_ok (xTEDSList s')"
  unfolding DM_xTEDS_def Let_def
  by (auto split: bind_splits if_splits prod.splits dest!: SendAckMessage_list dest: register_document_ok)

lemma entry_ok_cancelled: "entry_ok i d \<Longrightarrow> \<not> available d \<Longrightarrow> entry_ok i (mark_cancelled f d)"
  by (simp add: entry_ok_def mark_cancelled_def Let_def getSensorID_def)

lemma entry_ok_released: "entry_ok i d \<Longrightarrow> entry_ok i (release_entry d)"
  by (simp add: entry_ok_def release_entry_def setTargetPort_def getSensorID_def)

lemma registry_entry: "registry_ok l \<Longrightarrow> i < length l \<Longrightarrow> entry_ok i (l ! i)"
  by (simp add: registry_ok_def)

lemma registry_ok_set_entry:
  assumes "registry_ok (xTEDSList s)" "entry_ok k (xTEDSList s ! k) \<Longrightarrow> entry_ok k d"
  shows "registry_ok (xTEDSList (set_entry k d s))"
proof (cases "k < length (xTEDSList s)")
  case True
  then show ?thesis using assms by (simp add: set_entry_def registry_ok_update registry_entry)
next
  case False
  then show ?thesis using assms by (simp add: set_entry_def list_update_beyond)
qed

lemma cancel_entry_ok:
  assumes "cancel_entry Regex envs f r h k s = Some s'" "registry_ok (xTEDSList s)" "\<not> available (xTEDSList s ! k)"
  shows "registry_ok (xTEDSList s')"
proof -
  have "registry_ok (xTEDSList (set_entry k (mark_cancelled f (xTEDSList s ! k)) s))"
    by (rule registry_ok_set_entry [OF assms(2)]) (rule entry_ok_cancelled [OF _ assms(3)])
  then have c: "registry_ok (xTEDSList s2)"
    if "publish_deregistration Regex envs sid i (set_entry k (mark_cancelled f (xTEDSList s ! k)) s) = Some s1"
      "finish_component envs c s1 = Some s2" for sid i s1 c s2
    using that by (auto dest!: publish_deregistration_same finish_component_list intro: same_ok)
  have "registry_ok (xTEDSList (set_entry k (release_entry (xTEDSList s2 ! k)) s2))" if "registry_ok (xTEDSList s2)" for s2
    by (rule registry_ok_set_entry [OF that]) (rule entry_ok_released)
  then show ?thesis using assms(1) c
    by (auto simp: cancel_entry_def Let_def split: bind_splits if_splits dest!: SendAckMessage_list)
qed

lemma DM_CancelxTEDS_ok:
  assumes "DM_CancelxTEDS Regex envs buf r h s = Some s'" "registry_ok (xTEDSList s)"
  shows "registry_ok (xTEDSList s')"
proof -
  have f: "registry_ok (xTEDSList s1)"
    if "cancel_entry Regex envs f c' h k s = Some s1" "first_index (cancels_entry p i c) (xTEDSList s) = Some k" for p i c k f c' s1
    using cancel_entry_ok [OF that(1) assms(2)] first_index_Some [OF that(2)] by (auto simp: cancels_entry_def)
  show ?thesis using assms
    by (auto simp: DM_CancelxTEDS_def Let_def split: bind_splits if_splits option.splits dest!: SendAckMessage_list)
      (erule f, assumption)+
qed

lemma DM_TaskError_ok:
  assumes "DM_TaskError Regex envs buf r s = Some s'" "registry_ok (xTEDSList s)"
  shows "registry_ok (xTEDSList s')"
proof -
  have e: "registry_ok (xTEDSList (set_entry k ((xTEDSList s ! k)\<lparr>lib_active := False, posted := True\<rparr>) s))" for k
    by (rule registry_ok_set_entry [OF assms(2)]) (simp add: entry_ok_def getSensorID_def)
  show ?thesis using assms
    by (auto simp: DM_TaskError_def Let_def split: bind_splits if_splits option.splits
        dest!: finish_component_list publish_deregistration_same) (rule same_ok [OF _ e])
qed

lemma same_connections: "same_entries l (l[i := (l ! i)\<lparr>connections := n\<rparr>])"
  by (rule same_entries_update) (simp add: same_entry_def)

lemma DM_Consume_same: "DM_Consume envs buf c s = Some s' \<Longrightarrow> same_entries (xTEDSList s) (xTEDSList s')"
  by (auto simp: DM_Consume_def Let_def set_entry_def same_connections split: bind_splits if_splits option.splits
      dest!: DM_Subscribe_list dm_send_to_list)

lemma DM_Cancel_same: "DM_Cancel envs buf c s = Some s' \<Longrightarrow> same_entries (xTEDSList s) (xTEDSList s')"
  by (auto simp: DM_Cancel_def CancelSubscription_def Let_def set_entry_def same_connections split: bind_splits if_splits option.splits
      dest!: dm_send_to_list)

lemma send_reply_list [keeps]: "send_reply envs c m f n s = Some s' \<Longrightarrow> xTEDSList s' = xTEDSList s"
  by (auto simp: send_reply_def split: bind_splits dest!: dm_send_to_list)

lemma ServicePublish_list [keeps]: "ServicePublish envs c sid i n s = Some s' \<Longrightarrow> xTEDSList s' = xTEDSList s"
  by (auto simp: ServicePublish_def Let_def split: bind_splits if_splits option.splits dest!: send_reply_list)

lemma forward_service_list [keeps]: "forward_service envs m c t d s = Some s' \<Longrightarrow> xTEDSList s' = xTEDSList s"
  by (auto simp: forward_service_def Let_def split: bind_splits if_splits dest!: dm_send_to_list)

lemma DM_Service_list: "DM_Service envs buf c s = Some s' \<Longrightarrow> xTEDSList s' = xTEDSList s"
  by (auto simp: DM_Service_def Let_def split: bind_splits if_splits option.splits dest!: ServicePublish_list forward_service_list)

lemma DM_Serreqst_list: "DM_Serreqst envs buf c s = Some s' \<Longrightarrow> xTEDSList s' = xTEDSList s"
  by (auto simp: DM_Serreqst_def Let_def split: bind_splits if_splits option.splits dest!: ServicePublish_list)

lemma DM_Command_list: "DM_Command envs buf c s = Some s' \<Longrightarrow> xTEDSList s' = xTEDSList s"
  by (auto simp: DM_Command_def Let_def split: bind_splits if_splits option.splits dest!: dm_send_to_list)

lemma DM_Ready_list: "DM_Ready envs buf c s = Some s' \<Longrightarrow> xTEDSList s' = xTEDSList s"
  by (auto simp: DM_Ready_def Let_def split: bind_splits if_splits dest!: dm_send_to_list)

lemma tat_loop_list [keeps]: "tat_loop envs l ips tat s = Some s' \<Longrightarrow> xTEDSList s' = xTEDSList s"
  by (induction l arbitrary: ips tat s) (auto split: bind_splits if_splits dest!: dm_send_to_list)

lemma DM_TAT_list: "DM_TAT envs buf c s = Some s' \<Longrightarrow> xTEDSList s' = xTEDSList s"
  by (auto simp: DM_TAT_def split: bind_splits if_splits option.splits dest!: tat_loop_list dm_send_to_list)

lemma named_loop_list [keeps]: "named_loop envs nm r l m s = Some (s', m') \<Longrightarrow> xTEDSList s' = xTEDSList s"
  by (induction l arbitrary: m s) (auto split: bind_splits if_splits dest!: dm_send_to_list)

lemma DM_ReqxTEDS_list: "DM_ReqxTEDS envs buf c s = Some s' \<Longrightarrow> xTEDSList s' = xTEDSList s"
  by (auto simp: DM_ReqxTEDS_def Let_def split: bind_splits if_splits option.splits dest!: named_loop_list dm_send_to_list)

lemmas handlers_keep = DM_Search_list DM_VarReq_list DM_Service_list DM_Serreqst_list DM_Command_list DM_Ready_list DM_TAT_list DM_ReqxTEDS_list

section \<open>Runs\<close>

text \<open>A message, where it came from, and the socket it can be answered on.\<close>

inductive dm_step :: "(byte list \<Rightarrow> xTEDS option) \<Rightarrow> regex \<Rightarrow> (nat \<Rightarrow> env) \<Rightarrow> dm \<Rightarrow> dm \<Rightarrow> bool" for Parse Regex envs where
  step_xTEDS: "DM_xTEDS Parse Regex envs buf c h s = Some s' \<Longrightarrow> dm_step Parse Regex envs s s'"
| step_CancelxTEDS: "DM_CancelxTEDS Regex envs buf c h s = Some s' \<Longrightarrow> dm_step Parse Regex envs s s'"
| step_TaskError: "DM_TaskError Regex envs buf c s = Some s' \<Longrightarrow> dm_step Parse Regex envs s s'"
| step_Consume: "DM_Consume envs buf c s = Some s' \<Longrightarrow> dm_step Parse Regex envs s s'"
| step_Cancel: "DM_Cancel envs buf c s = Some s' \<Longrightarrow> dm_step Parse Regex envs s s'"
| step_Command: "DM_Command envs buf c s = Some s' \<Longrightarrow> dm_step Parse Regex envs s s'"
| step_Service: "DM_Service envs buf c s = Some s' \<Longrightarrow> dm_step Parse Regex envs s s'"
| step_Serreqst: "DM_Serreqst envs buf c s = Some s' \<Longrightarrow> dm_step Parse Regex envs s s'"
| step_ReqReg: "DM_ReqReg envs buf (- 1) c MOD_NOT_APPLICABLE s = Some s' \<Longrightarrow> dm_step Parse Regex envs s s'"
| step_Search: "DM_Search Regex envs buf c (- 1) s = Some s' \<Longrightarrow> dm_step Parse Regex envs s s'"
| step_VarReq: "DM_VarReq envs buf c (- 1) s = Some s' \<Longrightarrow> dm_step Parse Regex envs s s'"
| step_ReqxTEDS: "DM_ReqxTEDS envs buf c s = Some s' \<Longrightarrow> dm_step Parse Regex envs s s'"
| step_Ready: "DM_Ready envs buf c s = Some s' \<Longrightarrow> dm_step Parse Regex envs s s'"
| step_TAT: "DM_TAT envs buf c s = Some s' \<Longrightarrow> dm_step Parse Regex envs s s'"

inductive dm_run :: "(byte list \<Rightarrow> xTEDS option) \<Rightarrow> regex \<Rightarrow> (nat \<Rightarrow> env) \<Rightarrow> dm \<Rightarrow> bool" for Parse Regex envs where
  run_start: "xTEDSList s = [] \<Longrightarrow> dm_run Parse Regex envs s"
| run_step: "dm_run Parse Regex envs s \<Longrightarrow> dm_step Parse Regex envs s s' \<Longrightarrow> dm_run Parse Regex envs s'"

lemma dm_step_ok:
  assumes "dm_step Parse Regex envs s s'" "registry_ok (xTEDSList s)"
  shows "registry_ok (xTEDSList s')"
  using assms
  by cases (auto dest: DM_xTEDS_ok DM_CancelxTEDS_ok DM_TaskError_ok handlers_keep DM_Consume_same DM_Cancel_same DM_ReqReg_same intro: same_ok)

lemma dm_run_ok: "dm_run Parse Regex envs s \<Longrightarrow> registry_ok (xTEDSList s)"
  by (induction rule: dm_run.induct) (auto dest: dm_step_ok)

lemma MatchSID_unique:
  assumes "registry_ok l" "length l \<le> 65536" "i < length l" "lib_active (l ! i)"
  shows "MatchSID (getSensorID (l ! i)) l = Some i"
proof -
  have u: "drop_bit 16 (getSensorID (l ! k)) = of_nat k" if "k < length l" "lib_active (l ! k)" for k
    using registry_entry [OF assms(1) that(1)] that assms(2) by (simp add: entry_ok_def)
  have "k = i" if "k < i" "lib_active (l ! k)" "getSensorID (l ! i) = getSensorID (l ! k)" for k
  proof -
    have "(of_nat k :: 32 word) = of_nat i" using u [of k] u [of i] that assms(3,4) by simp
    then have "unat (of_nat k :: 32 word) = unat (of_nat i :: 32 word)" by simp
    then show ?thesis using that(1) assms(2,3) by (simp add: unat_of_nat take_bit_nat_eq_self)
  qed
  then show ?thesis unfolding MatchSID_def using assms by (intro first_index_eq) auto
qed

section \<open>Registering again\<close>

text \<open>The entries the search for a component steps over.\<close>

definition other_component :: "byte list \<Rightarrow> SDMxTEDS \<Rightarrow> 16 word \<Rightarrow> SDMComponent_ID \<Rightarrow> xTEDSLibrary \<Rightarrow> bool" where
  "other_component sensor ted port a d \<longleftrightarrow> available d \<or> (\<exists>nm. getName d = Some nm \<and> (occurs_at nm 0 sensor \<longrightarrow>
     lib_active d \<and> \<not> (port = getTargetPort d \<and> m_ulAddress a = m_ulAddress (lib_id d)
       \<and> (m_ulSensorId (SDMxTEDS_source ted) AND 0x0000FFFF = getSensorID d AND 0x0000FFFF \<or> port = PORT_TM))))"

lemma AlreadyRegistered_loop_other:
  assumes "other_component sensor ted port a d"
  shows "AlreadyRegistered_loop sensor ted port a t k (d # l) =
    do { (l', r) \<leftarrow> AlreadyRegistered_loop sensor ted port a t (k + 1) l; Some (d # l', r) }"
  using assms by (auto simp: other_component_def Let_def)

lemma AlreadyRegistered_loop_not_other:
  "AlreadyRegistered_loop sensor ted port a t k (d # l) = Some (l', None, n) \<Longrightarrow> other_component sensor ted port a d"
  by (auto simp: other_component_def Let_def split: bind_splits if_splits)

lemma AlreadyRegistered_loop_None:
  "AlreadyRegistered_loop sensor ted port a t k l = Some (l', None, n) \<longleftrightarrow>
    (\<forall>d\<in>set l. other_component sensor ted port a d) \<and> l' = l \<and> n = 0"
proof (induction l arbitrary: k l')
  case (Cons d l)
  show ?case
  proof (cases "other_component sensor ted port a d")
    case True
    have "AlreadyRegistered_loop sensor ted port a t k (d # l) = Some (l', None, n) \<longleftrightarrow>
        (\<exists>l1. AlreadyRegistered_loop sensor ted port a t (k + 1) l = Some (l1, None, n) \<and> l' = d # l1)"
      unfolding AlreadyRegistered_loop_other [OF True]
      by (cases "AlreadyRegistered_loop sensor ted port a t (k + 1) l") auto
    then show ?thesis using Cons.IH [of "k + 1"] True by auto
  next
    case False
    then show ?thesis using AlreadyRegistered_loop_not_other by (metis list.set_intros(1))
  qed
qed auto

lemma AlreadyRegistered_loop_append:
  assumes "\<forall>d\<in>set l. other_component sensor ted port a d"
  shows "AlreadyRegistered_loop sensor ted port a t k (l @ m) =
    do { (m', r) \<leftarrow> AlreadyRegistered_loop sensor ted port a t (k + length l) m; Some (l @ m', r) }"
  using assms
proof (induction l arbitrary: k)
  case (Cons d l)
  then show ?case
    using AlreadyRegistered_loop_other [of sensor ted port a d t k "l @ m"]
    by (cases "AlreadyRegistered_loop sensor ted port a t (Suc (k + length l)) m") auto
qed (cases "AlreadyRegistered_loop sensor ted port a t k m"; auto)

lemma and_slot_id: "(slot_id ID c) AND 0x0000FFFF = (ID AND 0x0000FFFF :: 32 word)"
proof (rule bit_word_eqI)
  fix n assume "n < LENGTH(32)"
  have "\<not> bit (push_bit 16 (of_nat c :: 32 word)) n" if "n < 16" using that by (simp add: bit_simps)
  moreover have "bit (0xFFFF :: 32 word) n \<longleftrightarrow> n < 16"
  proof -
    have "(0xFFFF :: 32 word) = mask 16" by (simp add: mask_eq_exp_minus_1)
    then show ?thesis using \<open>n < LENGTH(32)\<close> by (simp only: bit_mask_iff) auto
  qed
  ultimately show "bit (slot_id ID c AND 0xFFFF) n = bit (ID AND 0xFFFF) n"
    by (auto simp: slot_id_def bit_and_iff bit_or_iff)
qed

lemma and_byte_short: "(w AND 0x000000FF) AND 0x0000FFFF = (w AND 0x000000FF :: 32 word)"
  by (simp add: and.assoc)

end
