(* ===== verification/DM_Handlers.thy ===== *)
theory DM_Handlers
  imports DM_Properties
begin

text \<open>
  Properties of the Data Manager's handlers: registration, cancellation, subscriptions to providers and the queries
  repeated for subscribers.
\<close>

section \<open>Sends\<close>

lemma reachable_dm: "reachable_env (envs (dm_sends s + i)) \<Longrightarrow> reachable_env (dm_env_at envs s i)"
  by (simp add: reachable_env_def dm_env_at_def)

lemma dm_env_now [simp]: "env_now (dm_env_at envs s i) = env_now (envs (dm_sends s + i))"
  by (simp add: dm_env_at_def)

lemma dm_log_sent_sends [simp]: "dm_sends (dm_log_sent n out s) = dm_sends s + n" "dm_wire (dm_log_sent n out s) = dm_wire s @ out"
  "dm_sends (DM_MessageSent s) = dm_sends s" "dm_wire (DM_MessageSent s) = dm_wire s"
  by (simp_all add: dm_log_sent_def DM_MessageSent_def)

definition id_datagram :: "env \<Rightarrow> SDMComponent_ID \<Rightarrow> byte list" where
  "id_datagram e c = datagram_bytes SDM_ID (env_now e) (id_bytes c)"

definition ack_datagram :: "env \<Rightarrow> 16 word \<Rightarrow> byte list" where
  "ack_datagram e n = datagram_bytes SDM_ACK (env_now e) (word_bytes 2 n)"

lemma send_SDMID_sent:
  assumes "\<And>i. reachable_env (envs i)"
  shows "send_SDMID envs c p sid s = (let d = c\<lparr>m_usPort := p, m_ulSensorId := sid\<rparr>
    in Some (dm_log_sent 1 [(Component d, id_datagram (envs (dm_sends s)) d)] s))"
proof -
  define d where "d = c\<lparr>m_usPort := p, m_ulSensorId := sid\<rparr>"
  have eq: "(SDMComponent_ID_assign (SDMID_destination SDMID_new) c)\<lparr>m_usPort := p, m_ulSensorId := sid\<rparr> = d"
    by (cases c) (simp add: d_def SDMComponent_ID_assign_def)
  have wf: "SDMID_wf (SDMID_new\<lparr>SDMID_destination := d\<rparr>)"
    by (simp add: SDMID_wf_def SDMID_new_def new_message_def SDMmessage.defs)
  let ?e = "dm_env_at envs s 0"
  have "reachable_env ?e" using assms by (rule reachable_dm)
  then obtain m' where "SendTo SDMID_Marshal (env_net ?e) (env_stk ?e) (env_ack ?e) (env_now ?e) (SDMID_new\<lparr>SDMID_destination := d\<rparr>) d
      = Some (m', [id_datagram (envs (dm_sends s)) d], Some (net_send (env_net ?e) 0 (id_datagram (envs (dm_sends s)) d)))"
    using sdmid.SendTo_once [OF wf TrueI, of "env_stk ?e" "env_net ?e" d "env_ack ?e" "env_now ?e"]
    unfolding sdmid.datagram_def by (auto simp: reachable_env_def id_datagram_def SDMID_view_def SDMID_enc_def)
  then show ?thesis unfolding send_SDMID_def Let_def eq by (simp add: dm_send_to_def d_def)
qed

lemma SendAckMessage_sent:
  assumes "\<And>i. reachable_env (envs i)"
  shows "SendAckMessage envs n True c h s =
    Some (DM_MessageSent (dm_log_sent 1 [(Component c, ack_datagram (envs (dm_sends s)) n)] s))"
proof -
  let ?e = "dm_env_at envs s 0"
  have wf: "SDMAck_wf (SDMAck_new\<lparr>SDMAck_error := n\<rparr>)"
    by (simp add: SDMAck_wf_def SDMAck_new_def new_message_def SDMmessage.defs)
  have "reachable_env ?e" using assms by (rule reachable_dm)
  then obtain m' where "SendTo SDMAck_Marshal (env_net ?e) (env_stk ?e) (env_ack ?e) (env_now ?e) (SDMAck_new\<lparr>SDMAck_error := n\<rparr>) c
      = Some (m', [ack_datagram (envs (dm_sends s)) n], Some (net_send (env_net ?e) 0 (ack_datagram (envs (dm_sends s)) n)))"
    using ack.SendTo_once [OF wf TrueI, of "env_stk ?e" "env_net ?e" c "env_ack ?e" "env_now ?e"]
    unfolding ack.datagram_def by (auto simp: reachable_env_def ack_datagram_def SDMAck_view_def SDMAck_enc_def)
  then show ?thesis unfolding SendAckMessage_def Let_def by (simp add: dm_send_to_def)
qed

section \<open>Without subscribers\<close>

definition nobody_subscribed :: "dm \<Rightarrow> bool" where
  "nobody_subscribed s \<longleftrightarrow> (\<forall>c\<in>set (dm_subscribers s). \<not> m_bInUse c)"

lemma nobody_notified: "nobody_subscribed s \<Longrightarrow> PublishNotification envs sid i a s = Some s"
proof -
  have "\<forall>c\<in>set l. \<not> m_bInUse c \<Longrightarrow> notify_loop envs sid i a l m s = Some s" for l m by (induction l) auto
  then show "nobody_subscribed s \<Longrightarrow> PublishNotification envs sid i a s = Some s"
    by (simp add: nobody_subscribed_def PublishNotification_def)
qed

lemma nobody_queried: "nobody_subscribed s \<Longrightarrow> PublishxTEDSModificationSubscription Regex envs i a x s = Some s"
proof -
  have "\<forall>c\<in>set l. \<not> m_bInUse c \<Longrightarrow> repeat_loop Regex envs i a x l s = Some s" for l by (induction l) auto
  then show "nobody_subscribed s \<Longrightarrow> PublishxTEDSModificationSubscription Regex envs i a x s = Some s"
    by (simp add: nobody_subscribed_def PublishxTEDSModificationSubscription_def)
qed

lemma nobody_subscribed_log [simp]: "nobody_subscribed (dm_log_sent n out s) = nobody_subscribed s"
  "nobody_subscribed (DM_MessageSent s) = nobody_subscribed s" "nobody_subscribed (set_entry i d s) = nobody_subscribed s"
  by (simp_all add: nobody_subscribed_def set_entry_def)

lemma announce_registration_quiet:
  assumes "\<And>i. reachable_env (envs i)" "nobody_subscribed s" "p \<noteq> PORT_DM"
  shows "announce_registration Regex envs True c h p i s = (let d = c\<lparr>m_usPort := p, m_ulSensorId := getSensorID (xTEDSList s ! i)\<rparr>
    in Some (DM_MessageSent (dm_log_sent 1 [(Component c, ack_datagram (envs (Suc (dm_sends s))) SDM_OK)]
      (dm_log_sent 1 [(Component d, id_datagram (envs (dm_sends s)) d)] s))))"
  using assms(2,3) unfolding announce_registration_def Let_def send_SDMID_sent [OF assms(1)] SendAckMessage_sent [OF assms(1)]
  by (simp add: nobody_notified nobody_queried)

section \<open>Registration of a new component\<close>

text \<open>The text of a document the checks before the parser let pass.\<close>

definition document_text :: "byte list \<Rightarrow> bool" where
  "document_text x \<longleftrightarrow> 2 \<le> length x \<and> length x < 24182 \<and> 0 \<notin> set x \<and> occurs_at x 0 [TAG_OPEN]
     \<and> strstr_from x 0 (chars ''</xTEDS>'') \<noteq> None"

lemma document_text_xteds: "document_text x \<Longrightarrow> xteds_text x"
  by (cases x; cases "tl x") (auto simp: document_text_def xteds_text_def dest: in_set_dropD)

lemma fresh_xteds_wf: "reachable_env (dm_env_at envs s 0) \<Longrightarrow> SDMxTEDS_wf (SDMxTEDS_new g (dm_junk envs s 24183) (dm_junk envs s 80))"
  by (auto simp: SDMxTEDS_wf_def SDMxTEDS_new_def new_message_def SDMmessage.defs dm_junk_def reachable_env_def)

text \<open>The message as it is received.\<close>

definition xteds_datagram :: "timeval \<Rightarrow> SDMComponent_ID \<Rightarrow> byte \<Rightarrow> 32 word \<Rightarrow> byte list \<Rightarrow> byte list \<Rightarrow> byte list" where
  "xteds_datagram now c act pid x node = datagram_bytes SDM_xTEDS now (SDMxTEDS_enc (c, act, pid, x, node))"

lemma xteds_received:
  assumes "reachable_env (dm_env_at envs s 0)" "document_text x" "0 \<notin> set node" "length node < 79"
  shows "\<exists>ted n. SDMxTEDS_Unmarshal (SDMxTEDS_new g (dm_junk envs s 24183) (dm_junk envs s 80)) (xteds_datagram now c act pid x node @ rest)
      = Some (ted, int n) \<and> SDMxTEDS_source ted = c \<and> SDMxTEDS_active ted = act \<and> SDMxTEDS_pid ted = pid
      \<and> cstr (SDMxTEDS_xTEDS ted) = x \<and> cstr (SDMxTEDS_SPA_node ted) = node \<and> IsSegmentedxTEDS ted = Some False"
proof -
  let ?h = "\<lparr>MsgName = SDM_xTEDS, sec = fst now, subsec = snd now, msg_length = of_nat (length (SDMxTEDS_enc (c, act, pid, x, node))),
      total_length = 0, bound = 0\<rparr> :: SDMmessage"
  have x: "length x < 24182" "0 \<notin> set x" "2 \<le> length x" and t: "take 1 x = [60]"
    using assms(2) by (auto simp: document_text_def occurs_at_def)
  have "x ! 0 = 60" using arg_cong [OF t, of "\<lambda>l. l ! 0"] by simp
  note x = x this
  have "length (SDMxTEDS_enc (c, act, pid, x, node)) < 32768" using x(1) assms(4) by (simp add: SDMxTEDS_enc_def)
  then have l: "sint (msg_length ?h) = int (length (SDMxTEDS_enc (c, act, pid, x, node)))" by (simp add: sint_of_nat_16)
  have seg: "IsSegmentedxTEDS m = Some False" if "SDMxTEDS_xTEDS m = x @ 0 # r" for m r
    using x(3,4) that by (cases x) (auto simp: IsSegmentedxTEDS_def get_byte_def nth_append)
  show ?thesis
    using SDMxTEDS_Unmarshal_eq [OF fresh_xteds_wf [OF assms(1)] _ l document_text_xteds [OF assms(2)] x(1) assms(3,4), of g rest] x(2) assms(3)
    by (auto simp: xteds_datagram_def datagram_bytes_def seg intro!: exI [of _ "11 + length (SDMxTEDS_enc (c, act, pid, x, node))"])
qed

lemma StoreInfo_new:
  assumes "t \<noteq> ROBOHUB"
  shows "\<exists>l1 i. StoreInfo ted 0 a t l = Some (l1, i)"
proof -
  have "\<forall>k d. \<exists>e. fill_entry ted a t k d = Some e" using assms by (simp add: fill_entry_def Let_def)
  then obtain g where "\<And>k d. fill_entry ted a t k d = Some (g k d)" by metis
  then show ?thesis by (auto simp: StoreInfo_def Let_def)
qed

text \<open>A component that no entry of the registry belongs to, and its document.\<close>

definition unknown_component :: "(nat \<Rightarrow> env) \<Rightarrow> SDMComponent_ID \<Rightarrow> byte list \<Rightarrow> dm \<Rightarrow> bool" where
  "unknown_component envs c x s \<longleftrightarrow> m_ulAddress c \<noteq> 0 \<and> m_usPort c \<noteq> PORT_DM \<and> m_usPort c \<noteq> PORT_TM
     \<and> (\<exists>nb t. ParseDeviceName x (dm_junk envs s 33) 33 = Some (nb, t) \<and> (t = DEVICE \<or> t = APPLICATION) \<and> \<not> is_hub_name (cstr nb)
       \<and> (\<forall>ted. SDMxTEDS_source ted = c \<longrightarrow> (\<forall>d\<in>set (xTEDSList s). other_component (cstr nb) ted (m_usPort c) c d)))"

text \<open>The entry of the component, where it is entered at \<open>i\<close>.\<close>

definition has_entry :: "SDMComponent_ID \<Rightarrow> byte \<Rightarrow> 32 word \<Rightarrow> byte list \<Rightarrow> xTEDS \<Rightarrow> nat \<Rightarrow> xTEDSLibrary \<Rightarrow> bool" where
  "has_entry c act pid x tree i d \<longleftrightarrow> \<not> available d \<and> xtedsTree d = Some tree \<and> fullxTED d = Some x
     \<and> lib_id d = c\<lparr>m_ulSensorId := slot_id (m_ulSensorId c AND 0xFF) i\<rparr> \<and> lib_pid d = pid \<and> (lib_active d \<longleftrightarrow> act \<noteq> 0)"

lemma stored_entry:
  assumes "StoreInfo ted 0 (SDMxTEDS_source ted) t l = Some (l1, i)"
    and "d = (l1 ! i)\<lparr>fullxTED := Some x, xtedsTree := Some tree\<rparr>"
  shows "has_entry (SDMxTEDS_source ted) (SDMxTEDS_active ted) (SDMxTEDS_pid ted) x tree i d"
    "i < length l1" "l1[i := d] = (with_entry i l)[i := d]" "i < length (with_entry i l)"
proof -
  from assms(1) obtain e where e: "fill_entry ted (SDMxTEDS_source ted) t i (with_entry i l ! i) = Some e" "l1 = (with_entry i l)[i := e]"
      "i < length (with_entry i l)" "i \<le> length l" by (rule StoreInfo_cases)
  show "i < length l1" "l1[i := d] = (with_entry i l)[i := d]" "i < length (with_entry i l)" using e by simp_all
  show "has_entry (SDMxTEDS_source ted) (SDMxTEDS_active ted) (SDMxTEDS_pid ted) x tree i d"
    using fill_entry_facts [OF e(1)] e(2,3) assms(2)
    by (cases "lib_id e"; cases "SDMxTEDS_source ted") (simp add: has_entry_def getSensorID_def getTargetPort_def)
qed

lemma register_new:
  assumes "\<And>i. reachable_env (envs i)" "nobody_subscribed s" "document_text x" "0 \<notin> set node" "length node < 79"
    and "unknown_component envs c x s" "Parse x = Some tree"
  obtains s' i d where "DM_xTEDS Parse Regex envs (xteds_datagram now c act pid x node @ rest) r h s = Some s'"
    "xTEDSList s' = (with_entry i (xTEDSList s))[i := d]" "i < length (with_entry i (xTEDSList s))" "has_entry c act pid x tree i d"
    "dm_wire s' = dm_wire s @ [(Component (lib_id d), id_datagram (envs (dm_sends s)) (lib_id d)),
        (Component c, ack_datagram (envs (dm_sends s + 1)) SDM_OK)]"
proof -
  have re: "reachable_env (dm_env_at envs s 0)" using assms(1) by (rule reachable_dm)
  obtain nb t where c: "m_ulAddress c \<noteq> 0" "m_usPort c \<noteq> PORT_DM" "ParseDeviceName x (dm_junk envs s 33) 33 = Some (nb, t)"
      "t = DEVICE \<or> t = APPLICATION" "\<not> is_hub_name (cstr nb)"
      "\<And>ted. SDMxTEDS_source ted = c \<Longrightarrow> \<forall>d\<in>set (xTEDSList s). other_component (cstr nb) ted (m_usPort c) c d"
    using assms(6) unfolding unknown_component_def by blast
  obtain ted n where ted: "SDMxTEDS_Unmarshal (SDMxTEDS_new (globals.truncate (dm_env_at envs s 0)) (dm_junk envs s 24183) (dm_junk envs s 80))
        (xteds_datagram now c act pid x node @ rest) = Some (ted, int n)"
      and f: "SDMxTEDS_source ted = c" "SDMxTEDS_active ted = act" "SDMxTEDS_pid ted = pid" "cstr (SDMxTEDS_xTEDS ted) = x" "IsSegmentedxTEDS ted = Some False"
    using xteds_received [OF re assms(3-5)] by blast
  have req: "requester s r ted = (c, ted, True)" using c(1) f(1) by (cases r; cases c) (simp add: requester_def SDMComponent_ID_assign_def)
  have seg: "receive_segment ted b = Some (b, ted, False, True)" for b using f(5) by (simp add: receive_segment_def)
  have ar: "DM_AlreadyRegistered (cstr nb) ted (m_usPort c) c t (xTEDSList s) = Some (xTEDSList s, None, 0)"
    using c(6) [OF f(1)] by (simp add: DM_AlreadyRegistered_def AlreadyRegistered_loop_None)
  obtain l1 i where si: "StoreInfo ted 0 c t (xTEDSList s) = Some (l1, i)" using StoreInfo_new [of t ted c] c(4) by fastforce
  define d where "d = (l1 ! i)\<lparr>fullxTED := Some x, xtedsTree := Some tree\<rparr>"
  note e = stored_entry [OF si [folded f(1)] d_def, unfolded f]
  obtain s1 where s1: "set_document Parse ted i (s\<lparr>xTEDSList := l1\<rparr>) = Some (s1, True)" "xTEDSList s1 = l1[i := d]"
      "nobody_subscribed s1" "dm_sends s1 = dm_sends s" "dm_wire s1 = dm_wire s"
    using f(3,4) assms(2,7) e(2) by (auto simp: set_document_def setxTEDS_def Let_def set_entry_def d_def nobody_subscribed_def)
  obtain s2 where s2: "announce_registration Regex envs True c h (m_usPort c) i s1 = Some s2" "xTEDSList s2 = l1[i := d]"
      "dm_wire s2 = dm_wire s @ [(Component (lib_id d), id_datagram (envs (dm_sends s)) (lib_id d)), (Component c, ack_datagram (envs (dm_sends s + 1)) SDM_OK)]"
    using announce_registration_quiet [OF assms(1) s1(3) c(2), where Regex = Regex and c = c and h = h and i = i] s1 e(1,2)
    by (cases c) (auto simp: Let_def getSensorID_def has_entry_def)
  have "DM_xTEDS Parse Regex envs (xteds_datagram now c act pid x node @ rest) r h s = Some (s2\<lparr>registerNext := True\<rparr>)"
    using ted req seg c(3-5) assms(3) ar si s1(1) s2(1) f(1,4)
    by (auto simp: DM_xTEDS_def Let_def register_document_def document_text_def dm_junk_def dm_env_at_def)
  then show thesis by (rule that) (use s2 e in auto)
qed

text \<open>C6. While nobody has a subscription to the Data Manager's notifications or a standing query (\<open>nobody_subscribed\<close>), a
  component that no entry of the registry belongs to sends its document. It is entered in the registry with the
  document, its address, its port and its process id; it is told its sensor id, which finds the entry if the component is
  active, and the registration is acknowledged; nothing else is sent, and the other entries stay as they are. (With
  subscribers, the registration is announced to them too and the standing queries are answered, which may post the tasks
  of other entries.)\<close>

theorem new_component_registered:
  assumes "\<And>i. reachable_env (envs i)" "dm_run Parse Regex envs s" "length (xTEDSList s) < 65536" "nobody_subscribed s"
    and "document_text x" "0 \<notin> set node" "length node < 79" "unknown_component envs c x s" "Parse x = Some tree"
  shows "\<exists>s' i d. DM_xTEDS Parse Regex envs (xteds_datagram now c act pid x node @ rest) r h s = Some s'
    \<and> i < length (xTEDSList s') \<and> xTEDSList s' ! i = d \<and> has_entry c act pid x tree i d
    \<and> (\<forall>k<length (xTEDSList s). k \<noteq> i \<longrightarrow> xTEDSList s' ! k = xTEDSList s ! k)
    \<and> (act \<noteq> 0 \<longrightarrow> MatchSID (getSensorID d) (xTEDSList s') = Some i)
    \<and> dm_wire s' = dm_wire s @ [(Component (lib_id d), id_datagram (envs (dm_sends s)) (lib_id d)),
        (Component c, ack_datagram (envs (dm_sends s + 1)) SDM_OK)]"
proof -
  obtain s' i d where r: "DM_xTEDS Parse Regex envs (xteds_datagram now c act pid x node @ rest) r h s = Some s'"
    "xTEDSList s' = (with_entry i (xTEDSList s))[i := d]" "i < length (with_entry i (xTEDSList s))" "has_entry c act pid x tree i d"
    "dm_wire s' = dm_wire s @ [(Component (lib_id d), id_datagram (envs (dm_sends s)) (lib_id d)),
        (Component c, ack_datagram (envs (dm_sends s + 1)) SDM_OK)]"
    by (rule register_new [where envs = envs and Parse = Parse and Regex = Regex and now = now and act = act and pid = pid and rest = rest and r = r and h = h, OF assms(1,4-9)])
  have ok: "registry_ok (xTEDSList s')" using DM_xTEDS_ok [OF r(1) dm_run_ok [OF assms(2)]] .
  have len: "length (xTEDSList s') \<le> 65536" using r(2) assms(3) by (auto simp: with_entry_def addLibrary_def)
  have m: "MatchSID (getSensorID d) (xTEDSList s') = Some i" if "act \<noteq> 0"
    using MatchSID_unique [OF ok len, of i] r(2-4) that by (simp add: has_entry_def)
  have "xTEDSList s' ! k = xTEDSList s ! k" if "k < length (xTEDSList s)" "k \<noteq> i" for k
    using that r(2) by (auto simp: with_entry_def addLibrary_def nth_append)
  then show ?thesis using r m by (intro exI [of _ s'] exI [of _ i] exI [of _ d]) auto
qed

text \<open>A Data Manager that has just started, and a document.\<close>

definition dm_start :: dm where
  "dm_start = \<lparr>xTEDSList = [], dm_subscribers = [], g_SensorSubscriptions = [], xTEDSBuilder = [], registerNext = True,
     cancelNext = True, Address_DM = 0x0200A8C0, dm_TaskManager = SDMComponent_ID_new, dm_DataManager = SDMComponent_ID_new,
     dm_total_sent = 0, dm_prevsec_sent = 0, dm_total_recd = 0, dm_prevsec_recd = 0, droppedxTEDS = 0, droppedCancelxTEDS = 0,
     dm_timer = False, dm_files = (\<lambda>_. None), dm_xTEDS_writable = False, dm_sends = 0, dm_wire = []\<rparr>"

definition camera_document :: "byte list" where
  "camera_document = chars ''<xTEDS><Device name='' @ [34] @ chars ''Camera'' @ [34] @ chars ''/></xTEDS>''"

definition camera_tree :: xTEDS where
  "camera_tree = \<lparr>getDeviceName = Some (chars ''Camera''), getSPAUHub = None, getSPAUPort = None, tree_ComponentKey = None,
     isCommandIdValid = (\<lambda>_. False), getCommandFaultMsgID = (\<lambda>i. i), isServiceIdValid = (\<lambda>_. False), getServiceDataMsgID = (\<lambda>i. i),
     getServiceFaultMsgID = (\<lambda>i. i), getNotificationFaultMsgID = (\<lambda>i. i), RegInfo = (\<lambda>_ _ _ _. Some []), AllRegInfo = (\<lambda>_ _ _. Some []),
     RegexRegInfo = (\<lambda>_ _ _ _. Some None), getVarInfo = (\<lambda>_ _. Some [])\<rparr>"

definition camera_id :: SDMComponent_ID where
  "camera_id = SDMComponent_ID_new\<lparr>m_ulSensorId := 5, m_ulAddress := 0x0300A8C0, m_usPort := 4001\<rparr>"

lemma camera_parsed: "ParseDeviceName camera_document (replicate 33 0) 33 = Some (chars ''Camera'' @ replicate 27 0, DEVICE)"
  by code_simp

lemma camera_text: "document_text camera_document" by code_simp

lemma quiet_reachable: "reachable_env quiet_env"
  by (simp add: reachable_env_def quiet_env_def)

lemma dm_start_quiet: "nobody_subscribed dm_start"
  by (simp add: nobody_subscribed_def dm_start_def)

lemma camera_unknown: "unknown_component (\<lambda>_. quiet_env) camera_id camera_document dm_start"
proof -
  have "dm_junk (\<lambda>_. quiet_env) dm_start 33 = replicate 33 0" by (simp add: dm_junk_def dm_env_at_def quiet_env_def)
  moreover have "\<not> is_hub_name (cstr (chars ''Camera'' @ replicate 27 0))" by code_simp
  ultimately show ?thesis using camera_parsed by (simp add: unknown_component_def camera_id_def dm_start_def)
qed

theorem new_component_registered_witness:
  "\<exists>s' i d. DM_xTEDS (\<lambda>_. Some camera_tree) (\<lambda>_. None) (\<lambda>_. quiet_env) (xteds_datagram (1, 2) camera_id 1 77 camera_document [] @ []) SDMComponent_ID_new
      SDMComHandle_new dm_start = Some s'
    \<and> i < length (xTEDSList s') \<and> xTEDSList s' ! i = d \<and> has_entry camera_id 1 77 camera_document camera_tree i d
    \<and> (\<forall>k<length (xTEDSList dm_start). k \<noteq> i \<longrightarrow> xTEDSList s' ! k = xTEDSList dm_start ! k)
    \<and> ((1::byte) \<noteq> 0 \<longrightarrow> MatchSID (getSensorID d) (xTEDSList s') = Some i)
    \<and> dm_wire s' = dm_wire dm_start @ [(Component (lib_id d), id_datagram quiet_env (lib_id d)), (Component camera_id, ack_datagram quiet_env SDM_OK)]"
  by (rule new_component_registered [where envs = "\<lambda>_. quiet_env", OF quiet_reachable _ _ _ camera_text _ _ camera_unknown])
    (simp_all add: dm_start_quiet run_start, simp_all add: dm_start_def run_start)

section \<open>The registry in a run\<close>

text \<open>C5. In every run of the Data Manager's handlers from an empty registry, an active entry is in use, has a parsed document,
  and is the entry its sensor id finds, as long as the registry has at most 65536 entries; no two active entries
  have the same sensor id.\<close>

theorem registry_lookup:
  assumes "dm_run Parse Regex envs s" "length (xTEDSList s) \<le> 65536" "i < length (xTEDSList s)" "lib_active (xTEDSList s ! i)"
  shows "\<not> available (xTEDSList s ! i) \<and> xtedsTree (xTEDSList s ! i) \<noteq> None \<and> MatchSID (getSensorID (xTEDSList s ! i)) (xTEDSList s) = Some i
    \<and> (\<forall>j<length (xTEDSList s). lib_active (xTEDSList s ! j) \<and> getSensorID (xTEDSList s ! j) = getSensorID (xTEDSList s ! i) \<longrightarrow> j = i)"
proof -
  note ok = dm_run_ok [OF assms(1)]
  have m: "MatchSID (getSensorID (xTEDSList s ! j)) (xTEDSList s) = Some j" if "j < length (xTEDSList s)" "lib_active (xTEDSList s ! j)" for j
    using MatchSID_unique [OF ok assms(2) that] .
  have "j = i" if "j < length (xTEDSList s)" "lib_active (xTEDSList s ! j)" "getSensorID (xTEDSList s ! j) = getSensorID (xTEDSList s ! i)" for j
    using m [OF that(1,2), unfolded that(3)] m [OF assms(3,4)] by (metis option.inject)
  moreover have "\<not> available (xTEDSList s ! i) \<and> xtedsTree (xTEDSList s ! i) \<noteq> None"
    using registry_entry [OF ok assms(3)] assms(4) by (simp add: entry_ok_def)
  ultimately show ?thesis using m [OF assms(3,4)] by blast
qed

theorem registry_lookup_witness:
  "\<exists>s. dm_run (\<lambda>_. Some camera_tree) (\<lambda>_. None) (\<lambda>_. quiet_env) s \<and> MatchSID (getSensorID (xTEDSList s ! 0)) (xTEDSList s) = Some 0
    \<and> xTEDSList s \<noteq> []"
proof -
  obtain s i d where s: "DM_xTEDS (\<lambda>_. Some camera_tree) (\<lambda>_. None) (\<lambda>_. quiet_env) (xteds_datagram (1, 2) camera_id 1 77 camera_document [] @ []) SDMComponent_ID_new
      SDMComHandle_new dm_start = Some s" "xTEDSList s = (with_entry i (xTEDSList dm_start))[i := d]" "i < length (with_entry i (xTEDSList dm_start))"
      "has_entry camera_id 1 77 camera_document camera_tree i d"
    by (rule register_new [where envs = "\<lambda>_. quiet_env" and s = dm_start and x = camera_document and node = "[]" and c = camera_id
          and Parse = "\<lambda>_. Some camera_tree" and Regex = "\<lambda>_. None" and tree = camera_tree and now = "(1, 2)" and act = 1 and pid = 77 and rest = "[]"
          and r = SDMComponent_ID_new and h = SDMComHandle_new])
      (simp_all add: quiet_reachable camera_text camera_unknown dm_start_quiet)
  have run: "dm_run (\<lambda>_. Some camera_tree) (\<lambda>_. None) (\<lambda>_. quiet_env) s"
    by (rule run_step [OF run_start step_xTEDS [OF s(1)]]) (simp add: dm_start_def)
  have l: "xTEDSList s = [d]" "lib_active d" using s(2-4) by (auto simp: with_entry_def addLibrary_def dm_start_def has_entry_def)
  then show ?thesis using registry_lookup [OF run, of 0] run by auto
qed

end
