(* ===== verification/DM_Clients.thy ===== *)
theory DM_Clients
  imports DM_Handlers
begin

text \<open>
  What the components see of the Data Manager: registering again, stored documents, the cancellation of the Data
  Manager's own document, standing queries, and subscriptions to providers.
\<close>

section \<open>Registering again\<close>

text \<open>C37. A component that is not in the registry is entered in it. When it registers again with the same
  message, it is recognised, at the same entry and without any change, if its own id fits into eight bits; a
  component with a larger id is not recognised and will be given a second entry, because the entry keeps eight
  bits of the id and the search compares sixteen.\<close>

theorem registered_again:
  assumes "DM_AlreadyRegistered sensor ted port a t l = Some (l, None, 0)"
    and "StoreInfo ted 0 a t' l = Some (l1, i)" "port = m_usPort (SDMxTEDS_source ted)" "port \<noteq> PORT_TM" "SDMxTEDS_active ted \<noteq> 0"
    and "getDeviceName tree = Some nm" "occurs_at nm 0 sensor"
    and "l2 = l1[i := (l1 ! i)\<lparr>fullxTED := Some doc, xtedsTree := Some tree\<rparr>]"
  shows "DM_AlreadyRegistered sensor ted port a t l2 = Some (l2,
    if m_ulSensorId (SDMxTEDS_source ted) AND 0xFFFF = m_ulSensorId (SDMxTEDS_source ted) AND 0xFF then (Some i, - 1) else (None, 0))"
proof -
  from assms(2) obtain d where d: "fill_entry ted a t' i (with_entry i l ! i) = Some d" "l1 = (with_entry i l)[i := d]"
      "i < length (with_entry i l)" "i \<le> length l" by (rule StoreInfo_cases)
  define e where "e = d\<lparr>fullxTED := Some doc, xtedsTree := Some tree\<rparr>"
  have "l2 = (with_entry i l)[i := e]" using d(2,3) assms(8) by (simp add: e_def)
  then have l2: "l2 = take i l @ e # drop (Suc i) l"
    using d(4) by (auto simp: with_entry_def addLibrary_def upd_conv_take_nth_drop list_update_append)
  have o: "\<forall>x\<in>set l. other_component sensor ted port a x"
    using assms(1) by (simp add: DM_AlreadyRegistered_def AlreadyRegistered_loop_None)
  then have o1: "\<forall>x\<in>set (take i l). other_component sensor ted port a x" and o2: "\<forall>x\<in>set (drop (Suc i) l). other_component sensor ted port a x"
    by (auto dest: in_set_takeD in_set_dropD)
  have e: "\<not> available e" "getName e = Some nm" "lib_active e" "getTargetPort e = port" "m_ulAddress (lib_id e) = m_ulAddress a"
      "getSensorID e AND 0xFFFF = m_ulSensorId (SDMxTEDS_source ted) AND 0xFF"
    using fill_entry_facts [OF d(1)] assms(3,5,6) and_slot_id and_byte_short
    by (simp_all add: e_def getName_def getTargetPort_def getSensorID_def)
  show ?thesis
  proof (cases "m_ulSensorId (SDMxTEDS_source ted) AND 0xFFFF = m_ulSensorId (SDMxTEDS_source ted) AND 0xFF")
    case True
    then have "AlreadyRegistered_loop sensor ted port a t (length (take i l)) (e # drop (Suc i) l) = Some (e # drop (Suc i) l, Some i, - 1)"
      using e assms(4,7) d(4) by (simp add: Let_def)
    then show ?thesis using True AlreadyRegistered_loop_append [OF o1, of t 0 "e # drop (Suc i) l"]
      by (simp add: DM_AlreadyRegistered_def l2)
  next
    case False
    then have "other_component sensor ted port a e" using e assms(4) by (simp add: other_component_def)
    then have "\<forall>x\<in>set l2. other_component sensor ted port a x" using o1 o2 l2 by auto
    then show ?thesis using False by (simp add: DM_AlreadyRegistered_def AlreadyRegistered_loop_None)
  qed
qed

definition camera_message :: "32 word \<Rightarrow> SDMxTEDS" where
  "camera_message i = (SDMxTEDS_new (globals.truncate quiet_env) [] [])\<lparr>SDMxTEDS_source := camera_id\<lparr>m_ulSensorId := i\<rparr>, SDMxTEDS_active := 1\<rparr>"

definition camera_entry :: "32 word \<Rightarrow> xTEDSLibrary" where
  "camera_entry i = xTEDSLibrary_new\<lparr>available := False, lib_active := True, hub := DEVICE, m_strSPANode := Some [],
     lib_pid := SDMxTEDS_pid (camera_message i), lib_id := camera_id\<lparr>m_ulSensorId := slot_id (i AND 0xFF) 0\<rparr>\<rparr>"

lemma camera_stored: "StoreInfo (camera_message i) 0 camera_id DEVICE [] = Some ([camera_entry i], 0)"
  by (simp add: StoreInfo_def fill_entry_def Let_def addLibrary_def camera_message_def camera_entry_def camera_id_def SDMxTEDS_new_def
      SDMmessage.defs new_message_def lib_setAddress_def setTargetPort_def setSPANode_def lib_setSensorID_def xTEDSLibrary_new_def
      SDMComponent_ID_new_def cstr_def)

theorem registered_again_witness:
  "(let l = [(camera_entry 5)\<lparr>fullxTED := Some camera_document, xtedsTree := Some camera_tree\<rparr>]
     in DM_AlreadyRegistered (chars ''Camera'') (camera_message 5) 4001 camera_id DEVICE l = Some (l, Some 0, - 1))
   \<and> (let l = [(camera_entry 0x105)\<lparr>fullxTED := Some camera_document, xtedsTree := Some camera_tree\<rparr>]
     in DM_AlreadyRegistered (chars ''Camera'') (camera_message 0x105) 4001 camera_id DEVICE l = Some (l, None, 0))"
proof -
  have a: "DM_AlreadyRegistered sensor ted port a t [] = Some ([], None, 0)" for sensor ted port a t by (simp add: DM_AlreadyRegistered_def)
  have b: "(4001 :: 16 word) = m_usPort (SDMxTEDS_source (camera_message i))" "SDMxTEDS_active (camera_message i) \<noteq> 0"
      "m_ulSensorId (SDMxTEDS_source (camera_message i)) = i" for i
    by (simp_all add: camera_message_def camera_id_def)
  have c: "getDeviceName camera_tree = Some (chars ''Camera'')" "occurs_at (chars ''Camera'') 0 (chars ''Camera'')"
    by (simp_all add: camera_tree_def occurs_at_def)
  show ?thesis
    using registered_again [where ted = "camera_message 5" and t = DEVICE and doc = camera_document, OF a camera_stored b(1) _ b(2) c refl]
      registered_again [where ted = "camera_message 0x105" and t = DEVICE and doc = camera_document, OF a camera_stored b(1) _ b(2) c refl]
    by (simp add: b(3) Let_def)
qed

section \<open>Stored documents\<close>

text \<open>The document of an ASIM that the parser rejects should be replaced by the copy that was stored when it
  registered before. It never is: whatever is stored, the registration ends without a document and the
  entry is free again.\<close>

theorem stored_document_never_used:
  assumes "Parse (cstr (SDMxTEDS_xTEDS m)) = None" "length (SDMxTEDS_xTEDS m) = 24183" "\<forall>f d. dm_files s f = Some d \<longrightarrow> length d < 24183"
  shows "set_document Parse m i s = Some (set_entry i ((xTEDSList s ! i)\<lparr>fullxTED := Some (cstr (SDMxTEDS_xTEDS m)), xtedsTree := None,
    available := True, lib_active := False, merged := False\<rparr>) s, False)"
proof (cases "IsPIDFromASIM (SDMxTEDS_pid m)")
  case True
  then obtain f where f: "PIDToFileName (SDMxTEDS_pid m) = Some f" by (auto simp: PIDToFileName_def Let_def)
  show ?thesis
  proof (cases "dm_files s f")
    case None
    then show ?thesis using True f assms(1) by (simp add: set_document_def setxTEDS_def Retrieve_xTEDS_def Let_def)
  next
    case (Some d)
    then have "length d < 24183" using assms(3) by blast
    then have "\<exists>x. Retrieve_xTEDS (SDMxTEDS_pid m) (SDMxTEDS_xTEDS m) (dm_files s) = Some (x, 0)"
      using f Some assms(2) by (simp add: Retrieve_xTEDS_def Let_def put_bytes_def put_byte_def)
    then show ?thesis using True assms(1) by (auto simp: set_document_def setxTEDS_def Let_def)
  qed
qed (use assms(1) in \<open>simp add: set_document_def setxTEDS_def Let_def\<close>)

text \<open>The witness has a stored document that the parser accepts.\<close>

theorem stored_document_never_used_witness:
  "\<exists>Parse m s. Parse camera_document = Some camera_tree \<and> PIDToFileName (SDMxTEDS_pid m) = Some (chars ''./xTEDS/7.xml'')
    \<and> dm_files s (chars ''./xTEDS/7.xml'') = Some camera_document \<and> (\<exists>s'. set_document Parse m 0 s = Some (s', False))"
proof -
  define m where "m = (camera_message 5)\<lparr>SDMxTEDS_xTEDS := replicate 24183 0, SDMxTEDS_pid := - 7\<rparr>"
  define s where "s = dm_start\<lparr>dm_files := [chars ''./xTEDS/7.xml'' \<mapsto> camera_document]\<rparr>"
  have e: "cstr (replicate 24183 0) = []" by (simp add: cstr_def)
  have d: "length camera_document < 24183" "camera_document \<noteq> []" by (simp_all add: camera_document_def)
  have p: "PIDToFileName (- 7) = Some (chars ''./xTEDS/7.xml'')" by code_simp
  have "set_document (\<lambda>x. if x = camera_document then Some camera_tree else None) m 0 s = Some (set_entry 0 ((xTEDSList s ! 0)\<lparr>fullxTED := Some (cstr (SDMxTEDS_xTEDS m)), xtedsTree := None,
    available := True, lib_active := False, merged := False\<rparr>) s, False)"
    by (rule stored_document_never_used) (use e d in \<open>auto simp: m_def s_def dm_start_def split: if_splits\<close>)
  then show ?thesis using p by (intro exI [of _ "\<lambda>x. if x = camera_document then Some camera_tree else None"] exI [of _ m] exI [of _ s]) (simp add: m_def s_def)
qed

section \<open>Standing queries\<close>








section \<open>The Data Manager's own document\<close>

lemma SendAckMessage_handle:
  assumes "\<And>i. reachable_env (envs i)" "SDMComHandle_IsValidHandle h"
  shows "SendAckMessage envs n False c h s =
    Some (DM_MessageSent (dm_log_sent 1 [(Handle h, ack_datagram (envs (dm_sends s)) n)] s))"
proof -
  let ?e = "dm_env_at envs s 0" and ?m = "SDMAck_new\<lparr>SDMAck_error := n\<rparr>"
  have wf: "SDMAck_wf ?m" by (simp add: SDMAck_wf_def SDMAck_new_def new_message_def SDMmessage.defs)
  have "reachable_env ?e" using assms(1) by (rule reachable_dm)
  then have stk: "length (env_stk ?e) = BUFSIZE" by (simp add: reachable_env_def)
  obtain m' where "SDMAck_Marshal (env_now ?e) ?m (env_stk ?e) = Some (m', ack.datagram (env_now ?e) ?m @
      drop (length (ack.datagram (env_now ?e) ?m)) (env_stk ?e), int (length (ack.datagram (env_now ?e) ?m)))"
    by (rule ack.Marshal_datagram [OF wf TrueI stk])
  moreover have "ack.datagram (env_now ?e) ?m = ack_datagram (envs (dm_sends s)) n"
    unfolding ack.datagram_def by (simp add: ack_datagram_def SDMAck_view_def SDMAck_enc_def)
  ultimately show ?thesis using assms(2) ack.get_datagram [of "env_now ?e" ?m]
    by (simp add: SendAckMessage_def Let_def SDMAck_Send_handle_def SendReplyTo_def SDMComHandle_IsValidHandle_def)
qed

definition cancelxteds_datagram :: "timeval \<Rightarrow> SDMComponent_ID \<Rightarrow> byte \<Rightarrow> byte list" where
  "cancelxteds_datagram now c full = datagram_bytes SDM_CancelxTEDS now (SDMCancelxTEDS_enc (c, full))"

lemma cancelxteds_received:
  "\<exists>m n. SDMCancelxTEDS_Unmarshal SDMCancelxTEDS_new (cancelxteds_datagram now c full @ rest) = Some (m, int n)
    \<and> SDMCancelxTEDS_source m = c \<and> SDMCancelxTEDS_fullCancel m = full"
proof -
  let ?m = "SDMCancelxTEDS_new\<lparr>msg_length := 11, SDMCancelxTEDS_source := c, SDMCancelxTEDS_fullCancel := full\<rparr>"
  have "SDMCancelxTEDS_wf ?m" "SDMCancelxTEDS_ready ?m" "SDMCancelxTEDS_wf SDMCancelxTEDS_new"
    by (simp_all add: SDMCancelxTEDS_wf_def SDMCancelxTEDS_ready_def SDMCancelxTEDS_new_def new_message_def SDMmessage.defs)
  then obtain m where "SDMCancelxTEDS_Unmarshal SDMCancelxTEDS_new (cancelxteds.datagram now ?m @ rest) = Some (m, int (length (cancelxteds.datagram now ?m)))"
      "SDMCancelxTEDS_view m = SDMCancelxTEDS_view ?m"
    by (rule cancelxteds.Unmarshal_datagram [of ?m SDMCancelxTEDS_new now rest])
  then show ?thesis unfolding cancelxteds.datagram_def by (auto simp: cancelxteds_datagram_def SDMCancelxTEDS_view_def)
qed

lemma nobody_deregistered:
  "nobody_subscribed s \<Longrightarrow> publish_deregistration Regex envs sid i s = Some s"
  by (simp add: publish_deregistration_def nobody_queried nobody_notified)

lemma nothing_finished: "g_SensorSubscriptions s = [] \<Longrightarrow> finish_component envs c s = Some s"
  by (cases s) (simp add: finish_component_def SubscriberFinish_def ProviderFinish_def DeleteAll_def dm_log_sent_def Let_def)

text \<open>The cancellation of the document at the Data Manager's own port is refused, but the refusal comes after the entry was
  marked inactive: the Data Manager answers that the cancellation is invalid, and from then on no sensor id finds
  its own entry.\<close>

theorem refused_cancel_deactivates:
  assumes "\<And>i. reachable_env (envs i)" "SDMComHandle_IsValidHandle h" "nobody_subscribed s" "g_SensorSubscriptions s = []"
    and "m_ulAddress c \<noteq> 0" "full \<noteq> 1" "first_index (cancels_entry (m_usPort c) (m_ulSensorId c) c) (xTEDSList s) = Some i"
    and "getTargetPort (xTEDSList s ! i) = PORT_DM"
  shows "\<exists>s'. DM_CancelxTEDS Regex envs (cancelxteds_datagram now c full @ rest) r h s = Some s'
    \<and> dm_wire s' = dm_wire s @ [(Handle h, ack_datagram (envs (dm_sends s)) SDM_INVALID_CANCEL)]
    \<and> xTEDSList s' = (xTEDSList s)[i := (xTEDSList s ! i)\<lparr>lib_active := False, posted := False\<rparr>]
    \<and> (\<forall>sid. MatchSID sid (xTEDSList s') \<noteq> Some i)"
proof -
  obtain m n where m: "SDMCancelxTEDS_Unmarshal SDMCancelxTEDS_new (cancelxteds_datagram now c full @ rest) = Some (m, int n)"
      "SDMCancelxTEDS_source m = c" "SDMCancelxTEDS_fullCancel m = full" using cancelxteds_received by blast
  have f: "first_index (cancels_entry (m_usPort c) (m_ulSensorId c) (r\<lparr>m_ulAddress := m_ulAddress c\<rparr>)) (xTEDSList s) = Some i"
    using assms(7) by (simp add: cancels_entry_def [abs_def])
  have i: "i < length (xTEDSList s)" using first_index_Some [OF assms(7)] by blast
  let ?d = "(xTEDSList s ! i)\<lparr>lib_active := False, posted := False\<rparr>"
  have d: "mark_cancelled full (xTEDSList s ! i) = ?d"
    using assms(6,8) by (simp add: mark_cancelled_def is_core_port_def Let_def)
  have g: "getTargetPort ?d = PORT_DM" using assms(8) by (simp add: getTargetPort_def)
  have s1: "nobody_subscribed (set_entry i ?d s)" "g_SensorSubscriptions (set_entry i ?d s) = []" "xTEDSList (set_entry i ?d s) = (xTEDSList s)[i := ?d]"
      "dm_wire (set_entry i ?d s) = dm_wire s" "dm_sends (set_entry i ?d s) = dm_sends s"
    using assms(3,4) by (simp_all add: set_entry_def nobody_subscribed_def)
  define s2 where "s2 = (DM_MessageSent (dm_log_sent 1 [(Handle h, ack_datagram (envs (dm_sends s)) SDM_INVALID_CANCEL)] (set_entry i ?d s)))\<lparr>cancelNext := True\<rparr>"
  have "DM_CancelxTEDS Regex envs (cancelxteds_datagram now c full @ rest) r h s = Some s2"
    using m f assms(5) i g s1 by (simp add: DM_CancelxTEDS_def cancel_entry_def Let_def d nobody_deregistered nothing_finished
        SendAckMessage_handle [OF assms(1,2)] s2_def)
  moreover have "MatchSID sid ((xTEDSList s)[i := ?d]) \<noteq> Some i" for sid
    using i first_index_Some [of _ "(xTEDSList s)[i := ?d]" i] by (fastforce simp: MatchSID_def)
  ultimately show ?thesis using s1 by (simp add: s2_def)
qed

definition own_entry :: xTEDSLibrary where
  "own_entry = (camera_entry 1)\<lparr>xtedsTree := Some camera_tree, lib_id := camera_id\<lparr>m_ulSensorId := 1, m_usPort := PORT_DM\<rparr>\<rparr>"

theorem refused_cancel_deactivates_witness:
  "\<exists>s'. DM_CancelxTEDS (\<lambda>_. None) (\<lambda>_. quiet_env) (cancelxteds_datagram (1, 2) (lib_id own_entry) 0 @ []) SDMComponent_ID_new
      (SDMComHandle_new\<lparr>m_iSock := 3\<rparr>) (dm_start\<lparr>xTEDSList := [own_entry]\<rparr>) = Some s'
    \<and> dm_wire s' = [(Handle (SDMComHandle_new\<lparr>m_iSock := 3\<rparr>), ack_datagram quiet_env SDM_INVALID_CANCEL)]
    \<and> MatchSID 1 (xTEDSList s') = None \<and> MatchSID 1 [own_entry] = Some 0"
proof -
  let ?s = "dm_start\<lparr>xTEDSList := [own_entry]\<rparr>"
  have e: "lib_active own_entry" "\<not> available own_entry" "getSensorID own_entry = 1" "getTargetPort own_entry = PORT_DM" "m_ulAddress (lib_id own_entry) \<noteq> 0"
      "m_usPort (lib_id own_entry) = PORT_DM" "m_ulSensorId (lib_id own_entry) = 1"
    by (simp_all add: own_entry_def camera_entry_def getSensorID_def getTargetPort_def camera_id_def)
  have f: "first_index (cancels_entry (m_usPort (lib_id own_entry)) (m_ulSensorId (lib_id own_entry)) (lib_id own_entry)) (xTEDSList ?s) = Some 0"
    using e by (simp add: cancels_entry_def)
  have h: "SDMComHandle_IsValidHandle (SDMComHandle_new\<lparr>m_iSock := 3\<rparr>)" by (simp add: SDMComHandle_IsValidHandle_def)
  have q: "nobody_subscribed ?s" "g_SensorSubscriptions ?s = []" by (simp_all add: nobody_subscribed_def dm_start_def)
  from refused_cancel_deactivates [where envs = "\<lambda>_. quiet_env" and full = 0 and Regex = "\<lambda>_. None" and now = "(1, 2)" and rest = "[]"
      and r = SDMComponent_ID_new, OF quiet_reachable h q e(5) _ f]
  show ?thesis using e by (auto simp: MatchSID_def dm_start_def)
qed

section \<open>Subscriptions to providers\<close>

definition consume_datagram :: "timeval \<Rightarrow> SDMComponent_ID \<Rightarrow> SDMComponent_ID \<Rightarrow> SDMMessage_ID \<Rightarrow> byte list" where
  "consume_datagram now src dst mid = datagram_bytes SDM_Consume now (SDMConsume_enc (src, dst, mid))"

definition cancel_datagram :: "timeval \<Rightarrow> SDMComponent_ID \<Rightarrow> SDMComponent_ID \<Rightarrow> SDMMessage_ID \<Rightarrow> byte list" where
  "cancel_datagram now src dst mid = datagram_bytes SDM_Cancel now (SDMCancel_enc (src, dst, mid))"

lemma consume_received:
  "\<exists>m n. SDMConsume_Unmarshal SDMConsume_new (consume_datagram now src dst mid @ rest) = Some (m, int n)
    \<and> SDMConsume_source m = src \<and> SDMConsume_destination m = dst \<and> SDMConsume_msg_id m = mid"
proof -
  let ?m = "SDMConsume_new\<lparr>SDMConsume_source := src, SDMConsume_destination := dst, SDMConsume_msg_id := mid\<rparr>"
  have "SDMConsume_wf ?m" "SDMConsume_wf SDMConsume_new" by (simp_all add: SDMConsume_wf_def SDMConsume_new_def new_message_def SDMmessage.defs)
  then obtain m where "SDMConsume_Unmarshal SDMConsume_new (consume.datagram now ?m @ rest) = Some (m, int (length (consume.datagram now ?m)))"
      "SDMConsume_view m = SDMConsume_view ?m"
    using consume.Unmarshal_datagram [of ?m SDMConsume_new now rest] by blast
  then show ?thesis unfolding consume.datagram_def by (auto simp: consume_datagram_def SDMConsume_view_def)
qed

lemma cancel_received:
  "\<exists>m n. SDMCancel_Unmarshal SDMCancel_new (cancel_datagram now src dst mid @ rest) = Some (m, int n)
    \<and> SDMCancel_source m = src \<and> SDMCancel_destination m = dst \<and> SDMCancel_msg_id m = mid"
proof -
  let ?m = "SDMCancel_new\<lparr>SDMCancel_source := src, SDMCancel_destination := dst, SDMCancel_msg_id := mid\<rparr>"
  have "SDMCancel_wf ?m" "SDMCancel_wf SDMCancel_new" by (simp_all add: SDMCancel_wf_def SDMCancel_new_def new_message_def SDMmessage.defs)
  then obtain m where "SDMCancel_Unmarshal SDMCancel_new (cancel.datagram now ?m @ rest) = Some (m, int (length (cancel.datagram now ?m)))"
      "SDMCancel_view m = SDMCancel_view ?m"
    using cancel.Unmarshal_datagram [of ?m SDMCancel_new now rest] by blast
  then show ?thesis unfolding cancel.datagram_def by (auto simp: cancel_datagram_def SDMCancel_view_def)
qed

definition subreqst_bytes :: "timeval \<Rightarrow> SDMComponent_ID \<Rightarrow> SDMComponent_ID \<Rightarrow> SDMMessage_ID \<Rightarrow> SDMMessage_ID \<Rightarrow> byte list" where
  "subreqst_bytes now src dst mid fault = datagram_bytes SDM_Subreqst now (SDMSubreqst_enc (src, dst, mid, fault))"

lemma subreqst_sent:
  assumes "\<And>i. reachable_env (envs i)" "SDMSubreqst_wf m"
  shows "do { (s, _) \<leftarrow> dm_send_to envs (\<lambda>e m _. SDMSubreqst_Send e m) m c s; Some (DM_MessageSent s) } = Some (DM_MessageSent (dm_log_sent 1 [(Component c,
    subreqst_bytes (env_now (envs (dm_sends s))) (SDMSubreqst_source m) (SDMSubreqst_destination m) (SDMSubreqst_msg_id m) (SDMSubreqst_fault_id m))] s))"
proof -
  let ?e = "dm_env_at envs s 0"
  have "reachable_env ?e" using assms(1) by (rule reachable_dm)
  then show ?thesis
    using subreqst.SendTo_once [OF assms(2) TrueI, of "env_stk ?e" "env_net ?e" "SDMSubreqst_source m" "env_ack ?e" "env_now ?e"]
    unfolding subreqst.datagram_def
    by (auto simp: reachable_env_def dm_send_to_def SDMSubreqst_Send_def SendTo_checked_def subreqst_bytes_def SDMSubreqst_view_def)
qed

lemma deletesub_sent_to:
  assumes "\<And>i. reachable_env (envs i)" "SDMDeletesub_wf m"
  shows "do { (s, _) \<leftarrow> dm_send_to envs (\<lambda>e m _. SDMDeletesub_Send e m) m c s; Some (DM_MessageSent s) } = Some (DM_MessageSent (dm_log_sent 1 [(Component c,
    deletesub_bytes (env_now (envs (dm_sends s))) \<lparr>m_ProviderId = SDMDeletesub_source m, m_SubscriberId = SDMDeletesub_destination m, m_MessageId = SDMDeletesub_msg_id m\<rparr>)] s))"
proof -
  let ?e = "dm_env_at envs s 0"
  have "reachable_env ?e" using assms(1) by (rule reachable_dm)
  then show ?thesis
    using deletesub.SendTo_once [OF assms(2) TrueI, of "env_stk ?e" "env_net ?e" "SDMDeletesub_source m" "env_ack ?e" "env_now ?e"]
    unfolding deletesub.datagram_def
    by (auto simp: reachable_env_def dm_send_to_def SDMDeletesub_Send_def SendTo_checked_def deletesub_bytes_def SDMDeletesub_view_def)
qed

lemma MatchSID_Some: "MatchSID sid l = Some i \<Longrightarrow> i < length l \<and> lib_active (l ! i) \<and> getSensorID (l ! i) = sid"
  unfolding MatchSID_def by (drule first_index_Some) auto

lemma MatchSID_connections: "i < length l \<Longrightarrow> MatchSID sid (l[i := (l ! i)\<lparr>connections := n\<rparr>]) = MatchSID sid l"
proof (unfold MatchSID_def, induction l arbitrary: i)
  case (Cons d l)
  then show ?case by (cases i) (auto simp: getSensorID_def)
qed simp

lemma Delete_Add:
  assumes "\<forall>p\<in>set l. \<not> (SDMComponent_ID_eq (m_SubscriberId p) sub \<and> SDMMessage_ID_eq (m_MessageId p) mid)"
  shows "fst (Delete (Add l src sub mid) sub mid) = l"
proof -
  have "SDMComponent_ID_eq (SDMComponent_ID_assign c sub) sub" for c by (simp add: SDMComponent_ID_eq_def SDMComponent_ID_assign_def)
  moreover have "SDMMessage_ID_eq mid mid" by (simp add: SDMMessage_ID_eq_def)
  ultimately show ?thesis using assms
    by (simp add: Delete_def delete_loop_filter Add_def Add_node_append ProviderSubscription_Set_def filter_id_conv)
qed

definition subscribes :: "(nat \<Rightarrow> env) \<Rightarrow> SDMComponent_ID \<Rightarrow> SDMComponent_ID \<Rightarrow> SDMMessage_ID \<Rightarrow> nat \<Rightarrow> xTEDS \<Rightarrow> dm \<Rightarrow> dm" where
  "subscribes envs src sub mid i tree s = (let d = xTEDSList s ! i;
     s1 = set_entry i (d\<lparr>connections := connections d + 1\<rparr>) s;
     s2 = (if m_ulSensorId sub \<noteq> 0 \<and> m_ulSensorId sub \<noteq> 1 then s1\<lparr>g_SensorSubscriptions := Add (g_SensorSubscriptions s) src sub mid\<rparr> else s1)
     in DM_MessageSent (dm_log_sent 1 [(Component src, subreqst_bytes (env_now (envs (dm_sends s))) src sub mid (getNotificationFaultMsgID tree mid))] s2))"

lemma assign_source: "SDMComponent_ID_assign c src = (src :: SDMComponent_ID)"
  by (cases c; cases src) (simp add: SDMComponent_ID_assign_def)

lemma DM_Consume_provider:
  assumes "\<And>i. reachable_env (envs i)" "MatchSID (m_ulSensorId src) (xTEDSList s) = Some i" "m_ulSensorId src \<noteq> 1" "xtedsTree (xTEDSList s ! i) = Some tree"
  shows "DM_Consume envs (consume_datagram now src dst mid @ rest) sender s =
    Some (subscribes envs src (dst\<lparr>m_ulAddress := m_ulAddress sender\<rparr>) mid i tree s)"
proof -
  obtain m n where m: "SDMConsume_Unmarshal SDMConsume_new (consume_datagram now src dst mid @ rest) = Some (m, int n)"
      "SDMConsume_source m = src" "SDMConsume_destination m = dst" "SDMConsume_msg_id m = mid" using consume_received by blast
  let ?m = "SDMSubreqst_new\<lparr>SDMSubreqst_destination := dst\<lparr>m_ulAddress := m_ulAddress sender\<rparr>, SDMSubreqst_source := src,
    SDMSubreqst_msg_id := mid, SDMSubreqst_fault_id := getNotificationFaultMsgID tree mid\<rparr>"
  have wf: "SDMSubreqst_wf ?m" by (simp add: SDMSubreqst_wf_def SDMSubreqst_new_def new_message_def SDMmessage.defs)
  have "getSensorID (xTEDSList s ! i) \<noteq> 1" using MatchSID_Some [OF assms(2)] assms(3) by simp
  then show ?thesis using m assms(2,4) subreqst_sent [where envs = envs and c = src, OF assms(1) wf]
    by (auto simp: DM_Consume_def Let_def assign_source subscribes_def set_entry_def)
qed

lemma DM_Cancel_provider:
  assumes "\<And>i. reachable_env (envs i)" "MatchSID (m_ulSensorId src) (xTEDSList s) = Some i" "m_ulSensorId src \<noteq> 1" "0 < connections (xTEDSList s ! i)"
    and "sub = dst\<lparr>m_ulAddress := m_ulAddress sender\<rparr>"
  shows "DM_Cancel envs (cancel_datagram now src dst mid @ rest) sender s = Some (let
      s1 = set_entry i ((xTEDSList s ! i)\<lparr>connections := connections (xTEDSList s ! i) - 1\<rparr>) s;
      s2 = (if m_ulSensorId sub \<noteq> 0 \<and> m_ulSensorId sub \<noteq> 1 then s1\<lparr>g_SensorSubscriptions := fst (Delete (g_SensorSubscriptions s) sub mid)\<rparr> else s1)
      in DM_MessageSent (dm_log_sent 1 [(Component src, deletesub_bytes (env_now (envs (dm_sends s)))
        \<lparr>m_ProviderId = src, m_SubscriberId = sub, m_MessageId = mid\<rparr>)] s2))"
proof -
  obtain m n where m: "SDMCancel_Unmarshal SDMCancel_new (cancel_datagram now src dst mid @ rest) = Some (m, int n)"
      "SDMCancel_source m = src" "SDMCancel_destination m = dst" "SDMCancel_msg_id m = mid" using cancel_received by blast
  let ?m = "SDMDeletesub_new\<lparr>SDMDeletesub_destination := sub, SDMDeletesub_source := src, SDMDeletesub_msg_id := mid\<rparr>"
  have wf: "SDMDeletesub_wf ?m" by (simp add: SDMDeletesub_wf_def SDMDeletesub_new_def new_message_def SDMmessage.defs)
  have "getSensorID (xTEDSList s ! i) \<noteq> 1" using MatchSID_Some [OF assms(2)] assms(3) by simp
  then show ?thesis using m assms(2,4,5) deletesub_sent_to [where envs = envs and c = src, OF assms(1) wf]
    by (auto simp: DM_Cancel_def Let_def assign_source set_entry_def)
qed

text \<open>C16. A component subscribes to a message of a registered provider other than the Data Manager and cancels the
  subscription again, having had no subscription to a message of that id at any provider before. The provider is sent
  the request, with the fault message of its document, and the deletion; its counter of connections goes up by one and
  back; the registry and the list of subscriptions are as they were before. Without the proviso they need not be:
  \<^verbatim>\<open>Delete\<close> removes all the subscriber's subscriptions to messages of that id, whichever the provider.\<close>

theorem subscription_cancelled:
  assumes "\<And>i. reachable_env (envs i)" "MatchSID (m_ulSensorId src) (xTEDSList s) = Some i" "m_ulSensorId src \<noteq> 1"
    and "xtedsTree (xTEDSList s ! i) = Some tree" "0 \<le> connections (xTEDSList s ! i)" "sub = dst\<lparr>m_ulAddress := m_ulAddress sender\<rparr>"
    and "\<forall>p\<in>set (g_SensorSubscriptions s). \<not> (SDMComponent_ID_eq (m_SubscriberId p) sub \<and> SDMMessage_ID_eq (m_MessageId p) mid)"
  shows "\<exists>s1 s2. DM_Consume envs (consume_datagram now src dst mid @ rest) sender s = Some s1
    \<and> DM_Cancel envs (cancel_datagram now' src dst mid @ rest') sender s1 = Some s2
    \<and> connections (xTEDSList s1 ! i) = connections (xTEDSList s ! i) + 1
    \<and> xTEDSList s2 = xTEDSList s \<and> g_SensorSubscriptions s2 = g_SensorSubscriptions s
    \<and> dm_wire s2 = dm_wire s @ [(Component src, subreqst_bytes (env_now (envs (dm_sends s))) src sub mid (getNotificationFaultMsgID tree mid)),
        (Component src, deletesub_bytes (env_now (envs (dm_sends s + 1))) \<lparr>m_ProviderId = src, m_SubscriberId = sub, m_MessageId = mid\<rparr>)]"
proof -
  define s1 where "s1 = subscribes envs src sub mid i tree s"
  have i: "i < length (xTEDSList s)" using MatchSID_Some [OF assms(2)] by blast
  let ?d = "xTEDSList s ! i"
  have l: "xTEDSList s1 = (xTEDSList s)[i := ?d\<lparr>connections := connections ?d + 1\<rparr>]" "dm_sends s1 = dm_sends s + 1"
      "dm_wire s1 = dm_wire s @ [(Component src, subreqst_bytes (env_now (envs (dm_sends s))) src sub mid (getNotificationFaultMsgID tree mid))]"
      "g_SensorSubscriptions s1 = (if m_ulSensorId sub \<noteq> 0 \<and> m_ulSensorId sub \<noteq> 1 then Add (g_SensorSubscriptions s) src sub mid else g_SensorSubscriptions s)"
    by (simp_all add: s1_def subscribes_def Let_def set_entry_def DM_MessageSent_def dm_log_sent_def)
  have c: "DM_Consume envs (consume_datagram now src dst mid @ rest) sender s = Some s1"
    unfolding s1_def assms(6) by (rule DM_Consume_provider [OF assms(1-4)])
  have m: "MatchSID (m_ulSensorId src) (xTEDSList s1) = Some i" using assms(2) i l(1) by (simp add: MatchSID_connections)
  have p: "0 < connections (xTEDSList s1 ! i)" using i l(1) assms(5) by simp
  from DM_Cancel_provider [where envs = envs and now = now' and mid = mid and rest = rest', OF assms(1) m assms(3) p assms(6)]
  show ?thesis using c i l Delete_Add [OF assms(7)]
    by (auto simp: Let_def set_entry_def DM_MessageSent_def dm_log_sent_def)
qed

theorem subscription_cancelled_witness:
  "let s = dm_start\<lparr>xTEDSList := [(camera_entry 5)\<lparr>xtedsTree := Some camera_tree\<rparr>]\<rparr>; src = camera_id;
       dst = SDMComponent_ID_new\<lparr>m_ulSensorId := 0x10007, m_usPort := 4002\<rparr>; mid = SDMMessage_ID_new 1 3
   in \<exists>s1 s2. DM_Consume (\<lambda>_. quiet_env) (consume_datagram (1, 2) src dst mid @ []) camera_id s = Some s1
    \<and> DM_Cancel (\<lambda>_. quiet_env) (cancel_datagram (3, 4) src dst mid @ []) camera_id s1 = Some s2
    \<and> connections (xTEDSList s1 ! 0) = 1 \<and> xTEDSList s2 = xTEDSList s \<and> g_SensorSubscriptions s2 = [] \<and> length (dm_wire s2) = 2"
proof -
  define s where "s = dm_start\<lparr>xTEDSList := [(camera_entry 5)\<lparr>xtedsTree := Some camera_tree\<rparr>]\<rparr>"
  have c: "camera_id\<lparr>m_ulSensorId := slot_id 5 0\<rparr> = camera_id" "m_ulSensorId camera_id = 5" by (simp_all add: camera_id_def slot_id_def)
  have m: "MatchSID (m_ulSensorId camera_id) (xTEDSList s) = Some 0"
    using c by (simp add: s_def MatchSID_def camera_entry_def getSensorID_def slot_id_def)
  have e: "m_ulSensorId camera_id \<noteq> 1" "xtedsTree (xTEDSList s ! 0) = Some camera_tree" "0 \<le> connections (xTEDSList s ! 0)"
      "connections (xTEDSList s ! 0) = 0" "g_SensorSubscriptions s = []" "dm_wire s = []"
    using c by (simp_all add: s_def camera_entry_def xTEDSLibrary_new_def dm_start_def)
  show ?thesis
    using subscription_cancelled [where envs = "\<lambda>_. quiet_env" and now = "(1, 2)" and now' = "(3, 4)" and rest = "[]" and rest' = "[]" and sender = camera_id
        and dst = "SDMComponent_ID_new\<lparr>m_ulSensorId := 0x10007, m_usPort := 4002\<rparr>" and mid = "SDMMessage_ID_new 1 3",
        OF quiet_reachable m e(1-3) refl] e(4-6)
    unfolding Let_def s_def [symmetric] by auto
qed

end
