(* ===== verification/XTEDS_Objects.thy ===== *)
theory XTEDS_Objects
  imports DM_Registration XTEDS_References Startup_Config
begin

text \<open>
  The objects a registered document is kept in, \<^verbatim>\<open>common/xTEDS/xTEDS*.cpp\<close>: qualifiers, variables with their
  ranges, curves, locations and orientations, and the three kinds of messages, with the texts they render and
  the queries they match.

  A \<^verbatim>\<open>char*\<close> member is \<^term>\<open>None\<close> (NULL) or its text. A text in a buffer is the list of its characters:
  \<^verbatim>\<open>snprintf\<close> cuts it, \<^verbatim>\<open>strncat\<close> appends at most its last argument and then the terminator, which may
  be behind the buffer. Undefined behaviour, an access behind a buffer or through NULL, is \<^term>\<open>None\<close>. A function that
  appends to the buffer of its caller is the text it appends. Lists of nodes are lists; a setter that ignores NULL
  on a fresh object keeps the NULL. A number that does not fit an \<^verbatim>\<open>int\<close> is cut to its low 32 bits.

  The number in the attribute \<^verbatim>\<open>msgRate\<close> is only converted and printed: the argument \<open>rate\<close> gives for a text whether
  \<^verbatim>\<open>atof\<close> of it is not 0 and how \<^verbatim>\<open>printf("%f")\<close> prints it. \<open>Regex t p\<close> is \<^verbatim>\<open>DoesRegexMatch\<close>, \<^term>\<open>None\<close> for its exception.
\<close>

section \<open>Texts\<close>

definition strncat_to :: "nat \<Rightarrow> nat \<Rightarrow> byte list \<Rightarrow> byte list \<Rightarrow> byte list option" where
  "strncat_to cap n dst src = (let r = dst @ take n src in if length r < cap then Some r else None)"

text \<open>\<^verbatim>\<open>strncat(Buf, t, sizeof(Buf) - strlen(Buf))\<close>, and the append of a function that was given the rest of the buffer.\<close>

definition append_rest :: "nat \<Rightarrow> byte list \<Rightarrow> byte list \<Rightarrow> byte list option" where
  "append_rest cap dst src = strncat_to cap (cap - length dst) dst src"

definition append_sub :: "nat \<Rightarrow> byte list \<Rightarrow> byte list \<Rightarrow> byte list option" where
  "append_sub cap dst src = strncat_to cap (cap - length dst - 1) dst src"

definition ptr_text :: "str \<Rightarrow> text_ptr" where
  "ptr_text s = map_option chars (text_of s)"

definition quoted_text :: "byte list \<Rightarrow> byte list" where
  "quoted_text t = QUOTATION # t @ [QUOTATION]"

text \<open>An attribute, with the blank in front of it: \<^verbatim>\<open> name="value"\<close>.\<close>

definition attr_text :: "string \<Rightarrow> byte list \<Rightarrow> byte list" where
  "attr_text name t = SPACE_CHAR # chars name @ 61 # quoted_text t"

definition tab_line :: "nat \<Rightarrow> byte list" where
  "tab_line n = 10 # replicate n 9"

text \<open>The optional attributes: each is printed into a buffer of \<open>tmp\<close> bytes and appended.\<close>

primrec append_attrs :: "nat \<Rightarrow> nat \<Rightarrow> (string \<times> text_ptr) list \<Rightarrow> byte list \<Rightarrow> byte list option" where
  "append_attrs cap tmp [] buf = Some buf"
| "append_attrs cap tmp (a # l) buf = (case snd a of
     None \<Rightarrow> append_attrs cap tmp l buf
   | Some t \<Rightarrow> do { buf \<leftarrow> append_rest cap buf (snprintf_text tmp (attr_text (fst a) t)); append_attrs cap tmp l buf })"

text \<open>An \<^verbatim>\<open>int\<close>; and a number that is read from a text when there is one.\<close>

definition int32 :: "int \<Rightarrow> int" where
  "int32 n = signed_take_bit 31 n"

definition atoi_text :: "text_ptr \<Rightarrow> int \<Rightarrow> int option" where
  "atoi_text t d = (case t of None \<Rightarrow> Some d | Some t \<Rightarrow> map_option int32 (atoi (t @ [0])))"

text \<open>\<^verbatim>\<open>strcmp(a, b) == 0\<close>\<close>

definition strcmp_eq :: "text_ptr \<Rightarrow> text_ptr \<Rightarrow> bool option" where
  "strcmp_eq a b = do { a \<leftarrow> a; b \<leftarrow> b; Some (a = b) }"

section \<open>Qualifiers\<close>

record xTEDSQualifier =
  qual_name :: text_ptr
  qual_description :: text_ptr
  qual_units :: text_ptr

definition xTEDSQualifier_MatchesName :: "byte list \<Rightarrow> xTEDSQualifier \<Rightarrow> bool option" where
  "xTEDSQualifier_MatchesName MatchString q = strcmp_eq (Some MatchString) (qual_name q)"

definition xTEDSQualifier_MatchesDescription :: "text_ptr \<Rightarrow> xTEDSQualifier \<Rightarrow> bool option" where
  "xTEDSQualifier_MatchesDescription MatchString q = (if MatchString = None then Some False else strcmp_eq MatchString (qual_description q))"

text \<open>The search back for the closing quotation mark.\<close>

fun back_to_quote :: "byte list \<Rightarrow> nat \<Rightarrow> nat \<Rightarrow> nat" where
  "back_to_quote quals start end =
     (if (if end < length quals then quals ! end else 0) \<noteq> QUOTATION \<and> end > start then back_to_quote quals start (end - 1) else end)"

declare back_to_quote.simps [simp del]

definition xTEDSQualifier_Parse :: "byte list \<Rightarrow> (xTEDSQualifier \<times> bool) option" where
  "xTEDSQualifier_Parse quals = do {
     let q = \<lparr>qual_name = None, qual_description = None, qual_units = None\<rparr>;
     let count = length quals;
     let i = length (takeWhile (\<lambda>c. c \<noteq> SPACE_CHAR \<and> c \<noteq> 61) quals);
     let parseValid = (i < count);
     q \<leftarrow> (if parseValid then if i < 128 then Some (q\<lparr>qual_name := Some (take i quals)\<rparr>) else None else Some q);
     let start = i + length (takeWhile (\<lambda>c. c \<noteq> QUOTATION) (drop i quals));
     let (parseValid, start) = (if start = count then (False, start) else (parseValid, start + 1));
     let end = back_to_quote quals start count;
     let parseValid = (parseValid \<and> end \<noteq> start);
     q \<leftarrow> (if parseValid then if end - start < 128 then Some (q\<lparr>qual_description := Some (take (end - start) (drop start quals))\<rparr>) else None else Some q);
     Some (q, parseValid) }"

text \<open>The list a component sends with a query. The first character of a name is only found behind a \<^verbatim>\<open><\<close> or a blank.\<close>

definition skip_spaces :: "byte list \<Rightarrow> nat \<Rightarrow> nat" where
  "skip_spaces t i = i + length (takeWhile (\<lambda>c. c = SPACE_CHAR) (drop i t))"

definition next_pos :: "byte list \<Rightarrow> nat \<Rightarrow> bool \<Rightarrow> nat" where
  "next_pos t i found = (if found then skip_spaces t (i + 1) else i)"

lemma next_pos_less [simp]: "i < Suc (next_pos t i found)"
  by (simp add: next_pos_def skip_spaces_def)

function QualifierList_loop :: "byte list \<Rightarrow> nat \<Rightarrow> nat \<Rightarrow> nat \<Rightarrow> bool \<Rightarrow> xTEDSQualifier list \<Rightarrow> xTEDSQualifier list option" where
  "QualifierList_loop quallist i start end equalfound l =
     (if i < length quallist then
        let start = (if quallist ! i \<noteq> TAG_OPEN \<and> quallist ! i \<noteq> SPACE_CHAR \<and> end \<ge> start then i else start);
            found = (start > end \<and> \<not> equalfound \<and> quallist ! i = 61);
            i' = next_pos quallist i found;
            equalfound = (equalfound \<or> found);
            c = (if i' < length quallist then quallist ! i' else 0);
            end = (if equalfound \<and> (c = SPACE_CHAR \<or> c = 47) then i' else end)
        in if end > start then
             if end - start < 256 then
               (case xTEDSQualifier_Parse (take (end - start) (drop start quallist)) of
                  None \<Rightarrow> None
                | Some (q, parseValid) \<Rightarrow> QualifierList_loop quallist (i' + 1) end end False (if parseValid then l @ [q] else l))
             else None
           else QualifierList_loop quallist (i' + 1) start end equalfound l
      else Some l)"
  by pat_completeness auto
termination
  apply (relation "measure (\<lambda>(q, i, _). length q - i)")
  apply (rule wf_measure)
  apply (simp only: in_measure split_conv, rule diff_less_mono2, simp only: Suc_eq_plus1 [symmetric] next_pos_less, assumption)
  apply (simp only: in_measure split_conv, rule diff_less_mono2, simp only: Suc_eq_plus1 [symmetric] next_pos_less, assumption)
  done

declare QualifierList_loop.simps [simp del]

definition xTEDSQualifierList_Parse :: "byte list \<Rightarrow> xTEDSQualifier list option" where
  "xTEDSQualifierList_Parse quallist = QualifierList_loop quallist 0 0 0 False []"

text \<open>\<^verbatim>\<open>operator[]\<close>: the counter of the loop is never incremented, so for an index above 0 it ends at NULL, and the test behind
  it reads through that.\<close>

primrec operator_loop :: "xTEDSQualifier list \<Rightarrow> nat \<Rightarrow> nat \<Rightarrow> xTEDSQualifier list" where
  "operator_loop [] Count index = []"
| "operator_loop (q # l) Count index = (if Count < index then operator_loop l Count index else q # l)"

definition xTEDSQualifierList_at :: "xTEDSQualifier list \<Rightarrow> nat \<Rightarrow> xTEDSQualifier option" where
  "xTEDSQualifierList_at l index = (case operator_loop l 0 index of [] \<Rightarrow> None | q # _ \<Rightarrow> Some q)"

definition xTEDSQualifier_QualifierInfoRequest :: "xTEDSQualifier \<Rightarrow> byte list option" where
  "xTEDSQualifier_QualifierInfoRequest q = (case (qual_name q, qual_description q) of
     (Some n, Some d) \<Rightarrow> do {
       let t = chars ''<Qualifier'' @ attr_text ''name'' n @ attr_text ''value'' d;
       let Buf = snprintf_text MSG_DEF_SIZE t;
       let BufLength = length t;
       (Buf, BufLength) \<leftarrow> (case qual_units q of None \<Rightarrow> Some (Buf, BufLength)
         | Some u \<Rightarrow> do {
             Buf \<leftarrow> strncat_to MSG_DEF_SIZE (if BufLength \<le> MSG_DEF_SIZE then MSG_DEF_SIZE - BufLength else 2 ^ 32) Buf (snprintf_text 512 (attr_text ''units'' u));
             Some (Buf, length Buf) });
       strncat_to MSG_DEF_SIZE (if BufLength \<le> MSG_DEF_SIZE then MSG_DEF_SIZE - BufLength else 2 ^ 32) Buf (chars '' />'') }
   | _ \<Rightarrow> Some [])"

primrec QualifierInfo_rest :: "xTEDSQualifier list \<Rightarrow> byte list \<Rightarrow> byte list option" where
  "QualifierInfo_rest [] Buf = Some Buf"
| "QualifierInfo_rest (q # l) Buf = do {
     Buf \<leftarrow> append_rest MSG_DEF_SIZE Buf (tab_line 2);
     t \<leftarrow> xTEDSQualifier_QualifierInfoRequest q;
     Buf \<leftarrow> append_sub MSG_DEF_SIZE Buf t;
     QualifierInfo_rest l Buf }"

definition xTEDSQualifierList_QualifierInfoRequest :: "xTEDSQualifier list \<Rightarrow> byte list option" where
  "xTEDSQualifierList_QualifierInfoRequest l = (case l of [] \<Rightarrow> Some []
   | q # l \<Rightarrow> do { t \<leftarrow> xTEDSQualifier_QualifierInfoRequest q; Buf \<leftarrow> append_sub MSG_DEF_SIZE [] t; QualifierInfo_rest l Buf })"

text \<open>The comparisons of a qualifier of a query with the attributes of an item: the first attribute of that name decides.\<close>

primrec check_attribute :: "(string \<times> text_ptr) list \<Rightarrow> xTEDSQualifier \<Rightarrow> bool option" where
  "check_attribute [] CurQual = Some False"
| "check_attribute (a # l) CurQual = do {
     b \<leftarrow> xTEDSQualifier_MatchesName (chars (fst a)) CurQual;
     if b then xTEDSQualifier_MatchesDescription (snd a) CurQual else check_attribute l CurQual }"

function MatchesQualifier_loop :: "(string \<times> text_ptr) list \<Rightarrow> xTEDSQualifier list \<Rightarrow> nat \<Rightarrow> bool option" where
  "MatchesQualifier_loop attrs QualList i =
     (if i < length QualList then do {
        CurQual \<leftarrow> xTEDSQualifierList_at QualList i;
        ok \<leftarrow> check_attribute attrs CurQual;
        if ok then MatchesQualifier_loop attrs QualList (i + 1) else Some False }
      else Some True)"
  by pat_completeness auto
termination by (relation "measure (\<lambda>(_, q, i). length q - i)") auto

declare MatchesQualifier_loop.simps [simp del]

definition MatchesQualifier :: "(string \<times> text_ptr) list \<Rightarrow> xTEDSQualifier list \<Rightarrow> bool option" where
  "MatchesQualifier attrs QualList = MatchesQualifier_loop attrs QualList 0"

section \<open>Curves, ranges, locations and orientations\<close>

record xTEDSCoef =
  coef_exponent :: text_ptr
  coef_value :: text_ptr
  coef_description :: text_ptr

definition xTEDSCoef_setCoef :: "coef \<Rightarrow> xTEDSCoef" where
  "xTEDSCoef_setCoef c = \<lparr>coef_exponent = ptr_text (co_exponent c), coef_value = ptr_text (co_value c),
     coef_description = ptr_text (co_description c)\<rparr>"

definition xTEDSCoef_VarInfoRequest :: "xTEDSCoef \<Rightarrow> byte list option" where
  "xTEDSCoef_VarInfoRequest c = (case (coef_exponent c, coef_value c) of
     (Some e, Some v) \<Rightarrow>
       let Buf = snprintf_text 512 (chars ''<Coef'' @ attr_text ''exponent'' e @ attr_text ''value'' v)
       in append_rest 512 Buf (case coef_description c of None \<Rightarrow> chars ''/>''
            | Some d \<Rightarrow> snprintf_text 512 (attr_text ''description'' d @ chars ''/>''))
   | _ \<Rightarrow> Some [])"

text \<open>The lists of coefficients and of options print into a buffer of 1024 bytes, a line break and the text of each node.\<close>

primrec node_texts :: "nat \<Rightarrow> nat \<Rightarrow> ('a \<Rightarrow> byte list option) \<Rightarrow> 'a list \<Rightarrow> byte list \<Rightarrow> byte list option" where
  "node_texts cap tabs f [] Buf = Some Buf"
| "node_texts cap tabs f (c # l) Buf = do {
     Buf \<leftarrow> append_rest cap Buf (tab_line tabs);
     t \<leftarrow> f c;
     Buf \<leftarrow> append_sub cap Buf t;
     node_texts cap tabs f l Buf }"

definition xTEDSCoefList_VarInfoRequest :: "xTEDSCoef list \<Rightarrow> byte list option" where
  "xTEDSCoefList_VarInfoRequest l = node_texts 1024 2 xTEDSCoef_VarInfoRequest l []"

record xTEDSCurve =
  curve_name :: text_ptr
  curve_description :: text_ptr
  curve_coefs :: "xTEDSCoef list"

definition xTEDSCurve_setCurve :: "curve \<Rightarrow> xTEDSCurve" where
  "xTEDSCurve_setCurve c = \<lparr>curve_name = ptr_text (cu_name c), curve_description = ptr_text (cu_description c),
     curve_coefs = map xTEDSCoef_setCoef (cu_coefs c)\<rparr>"

definition xTEDSCurve_VarInfoRequest :: "xTEDSCurve \<Rightarrow> byte list option" where
  "xTEDSCurve_VarInfoRequest c = (case curve_name c of None \<Rightarrow> Some []
   | Some n \<Rightarrow> do {
       let Buf = snprintf_text MSG_DEF_SIZE (chars ''<Curve'' @ attr_text ''name'' n
         @ (case curve_description c of None \<Rightarrow> [] | Some d \<Rightarrow> attr_text ''description'' d));
       if curve_coefs c = [] then append_rest MSG_DEF_SIZE Buf (chars ''/>'')
       else do {
         Buf \<leftarrow> append_rest MSG_DEF_SIZE Buf (chars ''>'');
         t \<leftarrow> xTEDSCoefList_VarInfoRequest (curve_coefs c);
         Buf \<leftarrow> append_sub MSG_DEF_SIZE Buf t;
         append_rest MSG_DEF_SIZE Buf (tab_line 1 @ chars ''</Curve>'') } })"

record xTEDSOption =
  option_name :: text_ptr
  option_value :: text_ptr
  option_description :: text_ptr
  option_alarm :: text_ptr

definition xTEDSOption_setOption :: "curveoption \<Rightarrow> xTEDSOption" where
  "xTEDSOption_setOption c = \<lparr>option_name = ptr_text (op_name c), option_value = ptr_text (op_value c),
     option_description = ptr_text (op_description c), option_alarm = ptr_text (op_alarm c)\<rparr>"

definition xTEDSOption_VarInfoRequest :: "xTEDSOption \<Rightarrow> byte list option" where
  "xTEDSOption_VarInfoRequest c = (case (option_name c, option_value c) of
     (Some n, Some v) \<Rightarrow> do {
       let Buf = snprintf_text 512 (chars ''<Option'' @ attr_text ''name'' n @ attr_text ''value'' v);
       Buf \<leftarrow> append_attrs 512 512 [(''description'', option_description c), (''alarm'', option_alarm c)] Buf;
       append_rest 512 Buf (chars ''/>'') }
   | _ \<Rightarrow> Some [])"

definition xTEDSOptionList_VarInfoRequest :: "xTEDSOption list \<Rightarrow> byte list option" where
  "xTEDSOptionList_VarInfoRequest l = node_texts 1024 2 xTEDSOption_VarInfoRequest l []"

record xTEDSDrange =
  drange_name :: text_ptr
  drange_description :: text_ptr
  drange_options :: "xTEDSOption list"

text \<open>\<^verbatim>\<open>setOptionsList\<close> reads the first option without a test.\<close>

definition xTEDSDrange_setDRange :: "drange \<Rightarrow> xTEDSDrange option" where
  "xTEDSDrange_setDRange r = (if dr_options r = [] then None
     else Some \<lparr>drange_name = ptr_text (dr_name r), drange_description = ptr_text (dr_description r),
       drange_options = map xTEDSOption_setOption (dr_options r)\<rparr>)"

definition xTEDSDrange_VarInfoRequest :: "xTEDSDrange \<Rightarrow> byte list option" where
  "xTEDSDrange_VarInfoRequest r = (case drange_name r of None \<Rightarrow> Some []
   | Some n \<Rightarrow> do {
       let Buf = snprintf_text MSG_DEF_SIZE (chars ''<Drange'' @ attr_text ''name'' n);
       Buf \<leftarrow> append_attrs MSG_DEF_SIZE 512 [(''description'', drange_description r)] Buf;
       Buf \<leftarrow> append_rest MSG_DEF_SIZE Buf (chars ''>'');
       t \<leftarrow> xTEDSOptionList_VarInfoRequest (drange_options r);
       Buf \<leftarrow> append_sub MSG_DEF_SIZE Buf t;
       append_rest MSG_DEF_SIZE Buf (tab_line 1 @ chars ''</Drange>'') })"

record xTEDSLocation =
  loc_x :: text_ptr
  loc_y :: text_ptr
  loc_z :: text_ptr
  loc_units :: text_ptr

definition xTEDSLocation_setLocation :: "location \<Rightarrow> xTEDSLocation" where
  "xTEDSLocation_setLocation l = \<lparr>loc_x = ptr_text (lo_x_value l), loc_y = ptr_text (lo_y_value l), loc_z = ptr_text (lo_z_value l),
     loc_units = ptr_text (lo_units l)\<rparr>"

definition xTEDSLocation_VarInfoRequest :: "xTEDSLocation \<Rightarrow> byte list option" where
  "xTEDSLocation_VarInfoRequest l = do {
     x \<leftarrow> loc_x l; y \<leftarrow> loc_y l; z \<leftarrow> loc_z l; u \<leftarrow> loc_units l;
     Some (snprintf_text MSG_DEF_SIZE (chars ''<Location'' @ attr_text ''x'' x @ attr_text ''y'' y @ attr_text ''z'' z @ attr_text ''units'' u
       @ chars '' />'')) }"

record xTEDSOrientationItem =
  orient_axis :: text_ptr
  orient_angle :: text_ptr
  orient_units :: text_ptr

definition xTEDSOrientationItem_SetOrientation :: "orientation \<Rightarrow> xTEDSOrientationItem" where
  "xTEDSOrientationItem_SetOrientation c = \<lparr>orient_axis = ptr_text (ori_axis_value c), orient_angle = ptr_text (ori_angle_value c),
     orient_units = ptr_text (ori_units_value c)\<rparr>"

definition xTEDSOrientationItem_VarInfoRequest :: "xTEDSOrientationItem \<Rightarrow> byte list option" where
  "xTEDSOrientationItem_VarInfoRequest c = (case (orient_axis c, orient_angle c, orient_units c) of
     (Some a, Some g, Some u) \<Rightarrow>
       Some (snprintf_text 512 (chars ''<Orientation'' @ attr_text ''axis'' a @ attr_text ''angle'' g @ attr_text ''units'' u @ chars '' />''))
   | _ \<Rightarrow> Some [])"

definition xTEDSOrientationList_VarInfoRequest :: "xTEDSOrientationItem list \<Rightarrow> byte list option" where
  "xTEDSOrientationList_VarInfoRequest l = node_texts 1024 1 xTEDSOrientationItem_VarInfoRequest l []"

section \<open>Items\<close>

text \<open>What variables and messages share. The list of qualifiers is NULL until one is added, so it is NULL or not empty.\<close>

record xTEDSItem =
  item_name :: text_ptr
  item_description :: text_ptr
  item_qualifiers :: "xTEDSQualifier list"
  item_interface_name :: text_ptr
  item_id :: SDMMessage_ID

definition item_qualifiers_of :: "qualifier_type list \<Rightarrow> xTEDSQualifier list" where
  "item_qualifiers_of l = map (\<lambda>q. \<lparr>qual_name = ptr_text (q_name q), qual_description = ptr_text (q_value q), qual_units = ptr_text (q_units q)\<rparr>) l"

definition xTEDSItem_setInterfaceID :: "text_ptr \<Rightarrow> SDMMessage_ID \<Rightarrow> SDMMessage_ID option" where
  "xTEDSItem_setInterfaceID t m = do {
     i \<leftarrow> atoi_text t 0;
     Some (if i > 0 \<and> i < 255 then m\<lparr>mid_interface := of_int i\<rparr> else m) }"

definition xTEDSMessage_setMessageID :: "text_ptr \<Rightarrow> SDMMessage_ID \<Rightarrow> SDMMessage_ID option" where
  "xTEDSMessage_setMessageID t m = do {
     i \<leftarrow> atoi_text t 0;
     Some (if i > 0 \<and> i < 256 then m\<lparr>mid_message := of_int i\<rparr> else m) }"

definition xTEDSItem_NameEquals :: "byte list \<Rightarrow> 'a xTEDSItem_scheme \<Rightarrow> bool option" where
  "xTEDSItem_NameEquals CompareName x = strcmp_eq (item_name x) (Some CompareName)"

text \<open>\<^term>\<open>Some None\<close> is the exception.\<close>

definition xTEDSItem_RegexMatch :: "(byte list \<Rightarrow> byte list \<Rightarrow> bool option) \<Rightarrow> byte list \<Rightarrow> 'a xTEDSItem_scheme \<Rightarrow> bool option option" where
  "xTEDSItem_RegexMatch Regex Pattern x = do { n \<leftarrow> item_name x; Some (Regex n Pattern) }"

text \<open>The test of the name and of the interface: a NULL matches everything.\<close>

definition ptr_match :: "text_ptr \<Rightarrow> text_ptr \<Rightarrow> bool option" where
  "ptr_match p t = (case p of None \<Rightarrow> Some True | Some _ \<Rightarrow> strcmp_eq t p)"

text \<open>The \<^verbatim>\<open>||\<close> of C.\<close>

definition or_else :: "bool option \<Rightarrow> bool option \<Rightarrow> bool option" where
  "or_else a b = do { x \<leftarrow> a; if x then Some True else b }"

definition and_then :: "bool option \<Rightarrow> bool option \<Rightarrow> bool option" where
  "and_then a b = do { x \<leftarrow> a; if x then b else Some False }"

definition regex_or :: "bool option option \<Rightarrow> bool option option \<Rightarrow> bool option option" where
  "regex_or a b = (case a of Some (Some False) \<Rightarrow> b | _ \<Rightarrow> a)"

section \<open>Variables\<close>

datatype SDMDataTypes = SDM_UINT08 | SDM_INT08 | SDM_UINT16 | SDM_INT16 | SDM_UINT32 | SDM_INT32 | SDM_FLOAT32 | SDM_FLOAT64

record xTEDSVariable = xTEDSItem +
  m_dataFormat :: SDMDataTypes
  m_iLength :: int
  m_strKind :: text_ptr
  m_strQualifier :: text_ptr
  variable_iID :: int
  m_strRangeMin :: text_ptr
  m_strRangeMax :: text_ptr
  m_strDefaultValue :: text_ptr
  m_iPrecision :: "32 word"
  m_strUnits :: text_ptr
  m_strAccuracy :: text_ptr
  m_strScaleFactor :: text_ptr
  m_strScaleUnits :: text_ptr
  m_varLocation :: "xTEDSLocation option"
  m_varOrientation :: "xTEDSOrientationItem list"
  m_varDrange :: "xTEDSDrange option"
  m_varCurve :: "xTEDSCurve option"
  m_strRLow :: text_ptr
  m_strRHigh :: text_ptr
  m_strYLow :: text_ptr
  m_strYHigh :: text_ptr
  m_strInvalidValue :: text_ptr

abbreviation (input) ATTR_INIT_VALUE :: "32 word" where "ATTR_INIT_VALUE \<equiv> 0xFFFFFFFF"

definition getFormat :: "SDMDataTypes \<Rightarrow> string" where
  "getFormat f = (case f of SDM_INT08 \<Rightarrow> ''INT08'' | SDM_UINT08 \<Rightarrow> ''UINT08'' | SDM_INT16 \<Rightarrow> ''INT16'' | SDM_UINT16 \<Rightarrow> ''UINT16''
     | SDM_INT32 \<Rightarrow> ''INT32'' | SDM_UINT32 \<Rightarrow> ''UINT32'' | SDM_FLOAT32 \<Rightarrow> ''FLOAT32'' | SDM_FLOAT64 \<Rightarrow> ''FLOAT64'')"

definition format_size :: "SDMDataTypes \<Rightarrow> int" where
  "format_size f = (case f of SDM_INT08 \<Rightarrow> 1 | SDM_UINT08 \<Rightarrow> 1 | SDM_INT16 \<Rightarrow> 2 | SDM_UINT16 \<Rightarrow> 2
     | SDM_INT32 \<Rightarrow> 4 | SDM_UINT32 \<Rightarrow> 4 | SDM_FLOAT32 \<Rightarrow> 4 | SDM_FLOAT64 \<Rightarrow> 8)"

text \<open>An unknown format keeps the one of the constructor.\<close>

definition format_of :: "text_ptr \<Rightarrow> SDMDataTypes" where
  "format_of t = (
     if t = Some (chars ''INT08'') then SDM_INT08
     else if t = Some (chars ''UINT08'') then SDM_UINT08
     else if t = Some (chars ''INT16'') then SDM_INT16
     else if t = Some (chars ''UINT16'') then SDM_UINT16
     else if t = Some (chars ''INT32'') then SDM_INT32
     else if t = Some (chars ''UINT32'') then SDM_UINT32
     else if t = Some (chars ''FLOAT32'') then SDM_FLOAT32
     else if t = Some (chars ''FLOAT64'') then SDM_FLOAT64
     else SDM_UINT16)"

definition set_optional :: "('a \<Rightarrow> 'b option) \<Rightarrow> 'a option \<Rightarrow> 'b option option" where
  "set_optional f x = (case x of None \<Rightarrow> Some None | Some y \<Rightarrow> map_option Some (f y))"

definition xTEDSVariable_SetVariable :: "variable \<Rightarrow> xTEDSVariable option" where
  "xTEDSVariable_SetVariable v = do {
     ident \<leftarrow> xTEDSItem_setInterfaceID (ptr_text (v_interface_id v)) (SDMMessage_ID_new 0 0);
     len \<leftarrow> atoi_text (ptr_text (v_length v)) 1;
     i \<leftarrow> atoi_text (ptr_text (v_id v)) (- 1);
     precision \<leftarrow> (case ptr_text (v_precision v) of None \<Rightarrow> Some ATTR_INIT_VALUE | Some t \<Rightarrow> map_option of_int (atoi_text (Some t) 0));
     range \<leftarrow> set_optional xTEDSDrange_setDRange (v_dranges v);
     Some \<lparr>item_name = ptr_text (v_name v), item_description = ptr_text (v_description v), item_qualifiers = item_qualifiers_of (v_qualifiers v),
       item_interface_name = ptr_text (v_interface_name v), item_id = ident,
       m_dataFormat = format_of (ptr_text (v_format v)), m_iLength = len, m_strKind = ptr_text (v_kind v), m_strQualifier = ptr_text (v_qualifier v),
       variable_iID = i, m_strRangeMin = ptr_text (v_range_min v), m_strRangeMax = ptr_text (v_range_max v),
       m_strDefaultValue = ptr_text (v_default_value v), m_iPrecision = precision, m_strUnits = ptr_text (v_units v),
       m_strAccuracy = ptr_text (v_accuracy v), m_strScaleFactor = ptr_text (v_scale_factor v), m_strScaleUnits = ptr_text (v_scale_units v),
       m_varLocation = map_option xTEDSLocation_setLocation (v_location_data v),
       m_varOrientation = map xTEDSOrientationItem_SetOrientation (v_orientation_data v), m_varDrange = range,
       m_varCurve = map_option xTEDSCurve_setCurve (v_curves v),
       m_strRLow = ptr_text (v_r_low v), m_strRHigh = ptr_text (v_r_high v), m_strYLow = ptr_text (v_y_low v), m_strYHigh = ptr_text (v_y_high v),
       m_strInvalidValue = (case ptr_text (v_invalid_value v) of None \<Rightarrow> Some (chars ''NS'') | t \<Rightarrow> t)\<rparr> }"

text \<open>The description of a variable in a definition: what is appended, and where the next variable starts.\<close>

definition xTEDSVariable_VarRegInfo :: "int \<Rightarrow> xTEDSVariable \<Rightarrow> (byte list \<times> int) option" where
  "xTEDSVariable_VarRegInfo start_byte v = do {
     let strScale = snprintf_text 32 (case m_strScaleFactor v of None \<Rightarrow> chars ''1.0'' | Some t \<Rightarrow> t);
     invalid \<leftarrow> m_strInvalidValue v;
     n \<leftarrow> item_name v;
     Some (snprintf_text MSG_DEF_SIZE (chars ''Variable:'' @ itoa start_byte @ 58 # itoa (m_iLength v) @ 58 # strScale @ 58 # invalid @ 58 #
             chars (getFormat (m_dataFormat v)) @ 61 # quoted_text n),
           int32 (start_byte + int32 (format_size (m_dataFormat v) * m_iLength v))) }"

definition xTEDSVariable_VarRef :: "xTEDSVariable \<Rightarrow> byte list option" where
  "xTEDSVariable_VarRef v = do {
     n \<leftarrow> item_name v;
     Some (snprintf_text MSG_DEF_SIZE (chars ''<VariableRef'' @ attr_text ''name'' n @ chars ''/>'')) }"

definition xTEDSVariable_VarInfoRequest :: "xTEDSVariable \<Rightarrow> byte list option" where
  "xTEDSVariable_VarInfoRequest v = do {
     n \<leftarrow> item_name v;
     k \<leftarrow> m_strKind v;
     let Buf = snprintf_text MSG_DEF_SIZE (chars ''<Variable'' @ attr_text ''name'' n @ attr_text ''kind'' k
       @ attr_text ''format'' (chars (getFormat (m_dataFormat v))));
     append_attrs MSG_DEF_SIZE 512 [(''qualifier'', m_strQualifier v),
       (''id'', if variable_iID v \<noteq> - 1 then Some (itoa (variable_iID v)) else None),
       (''rangeMin'', m_strRangeMin v), (''rangeMax'', m_strRangeMax v), (''defaultValue'', m_strDefaultValue v),
       (''m_iPrecision'', if m_iPrecision v \<noteq> ATTR_INIT_VALUE then Some (decimal (unat (m_iPrecision v))) else None),
       (''units'', m_strUnits v), (''accuracy'', m_strAccuracy v), (''scaleFactor'', m_strScaleFactor v), (''scaleUnits'', m_strScaleUnits v),
       (''length'', if m_iLength v > 1 then Some (itoa (m_iLength v)) else None),
       (''description'', item_description v), (''rLow'', m_strRLow v), (''rHigh'', m_strRHigh v), (''yLow'', m_strYLow v),
       (''yHigh'', m_strYHigh v),
       (''invalidValue'', if m_strInvalidValue v = Some (chars ''NS'') then None else m_strInvalidValue v)] Buf }"

text \<open>A part of a variable behind a line break; \<^verbatim>\<open>strcat\<close> appends without a test.\<close>

definition append_part :: "(byte list \<Rightarrow> byte list \<Rightarrow> byte list option) \<Rightarrow> byte list option \<Rightarrow> byte list \<Rightarrow> byte list option" where
  "append_part app t buf = do { buf \<leftarrow> append_rest MSG_DEF_SIZE buf (tab_line 1); t \<leftarrow> t; app buf t }"

definition strcat_to :: "nat \<Rightarrow> byte list \<Rightarrow> byte list \<Rightarrow> byte list option" where
  "strcat_to cap dst src = strncat_to cap (length src) dst src"

definition xTEDSVariable_VarInfo :: "xTEDSVariable \<Rightarrow> VariableDefinition option" where
  "xTEDSVariable_VarInfo v = do {
     temp \<leftarrow> xTEDSVariable_VarInfoRequest v;
     let str_length = length temp;
     buf \<leftarrow> (if m_varDrange v = None \<and> m_varCurve v = None \<and> item_qualifiers v = [] \<and> m_varLocation v = None then
         if str_length + 2 \<le> MSG_DEF_SIZE then strcat_to MSG_DEF_SIZE temp (chars ''/>'') else Some []
       else do {
         (buf, str_length) \<leftarrow> (if str_length + 1 \<le> MSG_DEF_SIZE then do { buf \<leftarrow> strcat_to MSG_DEF_SIZE temp (chars ''>''); Some (buf, str_length + 1) }
           else Some ([], str_length));
         buf \<leftarrow> (case (m_varDrange v, m_varCurve v) of
             (Some r, _) \<Rightarrow> append_part (append_sub MSG_DEF_SIZE) (xTEDSDrange_VarInfoRequest r) buf
           | (None, Some c) \<Rightarrow> append_part (append_sub MSG_DEF_SIZE) (xTEDSCurve_VarInfoRequest c) buf
           | (None, None) \<Rightarrow> Some buf);
         buf \<leftarrow> (if item_qualifiers v = [] then Some buf
           else append_part (append_rest MSG_DEF_SIZE) (xTEDSQualifierList_QualifierInfoRequest (item_qualifiers v)) buf);
         buf \<leftarrow> (case m_varLocation v of None \<Rightarrow> Some buf
           | Some l \<Rightarrow> append_part (append_sub MSG_DEF_SIZE) (xTEDSLocation_VarInfoRequest l) buf);
         buf \<leftarrow> (if m_varOrientation v = [] then Some buf
           else do { t \<leftarrow> xTEDSOrientationList_VarInfoRequest (m_varOrientation v); append_sub MSG_DEF_SIZE buf t });
         if str_length + 12 \<le> MSG_DEF_SIZE then strcat_to MSG_DEF_SIZE buf (tab_line 0 @ chars ''</Variable>'') else Some buf });
     n \<leftarrow> item_name v;
     i \<leftarrow> item_interface_name v;
     Some \<lparr>VariableDef_GetDefinitions = buf, GetInterfaceName = take 32 i, GetVariableName = take 32 n\<rparr> }"

definition xTEDSVariable_MatchesQualifier :: "xTEDSVariable \<Rightarrow> xTEDSQualifier list \<Rightarrow> bool option" where
  "xTEDSVariable_MatchesQualifier v QualList = MatchesQualifier [(''name'', item_name v), (''description'', item_description v),
     (''id'', Some (snprintf_text 8 (itoa (variable_iID v)))), (''length'', Some (snprintf_text 8 (itoa (m_iLength v)))),
     (''format'', Some (chars (getFormat (m_dataFormat v)))), (''kind'', m_strKind v), (''rangeMin'', m_strRangeMin v), (''rangeMax'', m_strRangeMax v),
     (''defaultValue'', m_strDefaultValue v), (''m_iPrecision'', Some (snprintf_text 8 (decimal (unat (m_iPrecision v))))), (''units'', m_strUnits v),
     (''accuracy'', m_strAccuracy v), (''scaleFactor'', m_strScaleFactor v), (''scaleUnits'', m_strScaleUnits v), (''rLow'', m_strRLow v),
     (''rHigh'', m_strRHigh v), (''yLow'', m_strYLow v), (''yHigh'', m_strYHigh v), (''invalidValue'', m_strInvalidValue v)] QualList"

definition xTEDSVariable_RegInfoMatch :: "text_ptr \<Rightarrow> xTEDSQualifier list \<Rightarrow> text_ptr \<Rightarrow> xTEDSVariable \<Rightarrow> bool option" where
  "xTEDSVariable_RegInfoMatch pname qualifiers interface v =
     and_then (ptr_match pname (item_name v)) (and_then (ptr_match interface (item_interface_name v)) (xTEDSVariable_MatchesQualifier v qualifiers))"

section \<open>Lists of variables\<close>

primrec VarReqReg_loop :: "xTEDSVariable list \<Rightarrow> byte list \<Rightarrow> int \<Rightarrow> (byte list \<times> int) option" where
  "VarReqReg_loop [] Buf StartByte = Some (Buf, StartByte)"
| "VarReqReg_loop (v # l) Buf StartByte = do {
     Buf \<leftarrow> append_rest MSG_DEF_SIZE Buf [SPACE_CHAR];
     (t, StartByte) \<leftarrow> xTEDSVariable_VarRegInfo StartByte v;
     Buf \<leftarrow> append_sub MSG_DEF_SIZE Buf t;
     VarReqReg_loop l Buf StartByte }"

definition xTEDSVariableList_VarReqReg :: "xTEDSVariable list \<Rightarrow> byte list option" where
  "xTEDSVariableList_VarReqReg l = do {
     (Buf, StartByte) \<leftarrow> VarReqReg_loop l [] 0;
     append_rest MSG_DEF_SIZE Buf (attr_text ''length'' (itoa StartByte)) }"

definition xTEDSVariableList_VarRef :: "xTEDSVariable list \<Rightarrow> byte list option" where
  "xTEDSVariableList_VarRef l = (case l of [] \<Rightarrow> Some []
   | v # l \<Rightarrow> do { t \<leftarrow> xTEDSVariable_VarRef v; Buf \<leftarrow> append_sub MSG_DEF_SIZE [] t; node_texts MSG_DEF_SIZE 2 xTEDSVariable_VarRef l Buf })"

text \<open>The outer \<^term>\<open>None\<close> is undefined behaviour, \<^term>\<open>Some None\<close> the NULL for a variable that is not there.\<close>

primrec Find_loop :: "byte list \<Rightarrow> text_ptr \<Rightarrow> xTEDSVariable list \<Rightarrow> xTEDSVariable option option" where
  "Find_loop name interface [] = Some None"
| "Find_loop name interface (v # l) = do {
     b \<leftarrow> and_then (strcmp_eq (item_name v) (Some name)) (ptr_match interface (item_interface_name v));
     if b then Some (Some v) else Find_loop name interface l }"

definition xTEDSVariableList_Find :: "text_ptr \<Rightarrow> text_ptr \<Rightarrow> xTEDSVariable list \<Rightarrow> xTEDSVariable option option" where
  "xTEDSVariableList_Find name interface l = (case name of None \<Rightarrow> Some None | Some n \<Rightarrow> Find_loop n interface l)"

primrec xTEDSVariableList_RegInfoMatch :: "text_ptr \<Rightarrow> xTEDSQualifier list \<Rightarrow> text_ptr \<Rightarrow> xTEDSVariable list \<Rightarrow> bool option" where
  "xTEDSVariableList_RegInfoMatch pname qualifiers interface [] = Some False"
| "xTEDSVariableList_RegInfoMatch pname qualifiers interface (v # l) =
     or_else (xTEDSVariable_RegInfoMatch pname qualifiers interface v) (xTEDSVariableList_RegInfoMatch pname qualifiers interface l)"

primrec xTEDSVariableList_RegexMatch :: "(byte list \<Rightarrow> byte list \<Rightarrow> bool option) \<Rightarrow> byte list \<Rightarrow> xTEDSVariable list \<Rightarrow> bool option option" where
  "xTEDSVariableList_RegexMatch Regex Pattern [] = Some (Some False)"
| "xTEDSVariableList_RegexMatch Regex Pattern (v # l) =
     regex_or (xTEDSItem_RegexMatch Regex Pattern v) (xTEDSVariableList_RegexMatch Regex Pattern l)"

text \<open>The definitions of the variables of a name (\<^term>\<open>None\<close>: all of them, \<^verbatim>\<open>MATCH_ALL\<close>), joined.\<close>

primrec xTEDSVariableList_VarInfoRequest :: "text_ptr \<Rightarrow> SDMMessage_ID \<Rightarrow> xTEDSVariable list \<Rightarrow> VariableDefinition list option" where
  "xTEDSVariableList_VarInfoRequest VarName Interface [] = Some []"
| "xTEDSVariableList_VarInfoRequest VarName Interface (v # l) = do {
     b \<leftarrow> ptr_match VarName (item_name v);
     d \<leftarrow> (if b \<and> (mid_interface Interface = 0 \<or> mid_interface Interface = mid_interface (item_id v)) then map_option (\<lambda>d. [d]) (xTEDSVariable_VarInfo v)
       else Some []);
     r \<leftarrow> xTEDSVariableList_VarInfoRequest VarName Interface l;
     Some (d @ r) }"

text \<open>\<^verbatim>\<open>ToStringConcatVariableDefs\<close>: it returns at the first definition that does not fit; with the flag a variable of the
  second list is left out when the first has its name.\<close>

fun concat_defs :: "nat \<Rightarrow> VariableDefinition list \<Rightarrow> byte list \<Rightarrow> byte list \<times> bool" where
  "concat_defs uiBufferSize [] buf = (buf, True)"
| "concat_defs uiBufferSize (d # l) buf =
     (if length buf + length (VariableDef_GetDefinitions d) < uiBufferSize then concat_defs uiBufferSize l (buf @ VariableDef_GetDefinitions d)
      else (buf, False))"

definition VariableDef_ListContains :: "byte list \<Rightarrow> VariableDefinition list \<Rightarrow> bool" where
  "VariableDef_ListContains n l = (n \<in> set (map GetVariableName l))"

definition ToStringConcatVariableDefs :: "bool \<Rightarrow> nat \<Rightarrow> VariableDefinition list \<Rightarrow> VariableDefinition list \<Rightarrow> byte list" where
  "ToStringConcatVariableDefs bIgnoreDuplicates uiBufferSize pDefs1 pDefs2 =
     (let (buf, more) = concat_defs uiBufferSize pDefs1 []
      in if more then fst (concat_defs uiBufferSize
             (if bIgnoreDuplicates then filter (\<lambda>d. \<not> VariableDef_ListContains (GetVariableName d) pDefs1) pDefs2 else pDefs2) buf)
         else buf)"

end
