(* ===== verification/XTEDS_Messages.thy ===== *)
theory XTEDS_Messages
  imports XTEDS_Objects
begin

text \<open>
  The messages of a document and the commands, notifications and requests that hold them:
  \<^verbatim>\<open>common/xTEDS/xTEDSMessage.cpp\<close>, \<^verbatim>\<open>xTEDSCommandMsg.cpp\<close>, \<^verbatim>\<open>xTEDSDataMsg.cpp\<close>, \<^verbatim>\<open>xTEDSFaultMsg.cpp\<close>,
  \<^verbatim>\<open>xTEDSCommand.cpp\<close>, \<^verbatim>\<open>xTEDSNotification.cpp\<close>, \<^verbatim>\<open>xTEDSRequest.cpp\<close>, \<^verbatim>\<open>xTEDSWrapperList.cpp\<close>.

  A message points to variables of the tree; nothing changes them once they are built, so the model copies them. The interface
  name and id of a wrapper are only printed for debugging and left out. The class of a wrapper is a constructor of the
  datatype, so a virtual call is a case distinction. \<^verbatim>\<open>new\<close> does not fail, and a list of definitions that \<^verbatim>\<open>Join\<close> builds
  is a list, its NULL the empty one.
\<close>

section \<open>Messages\<close>

record xTEDSMessage = xTEDSItem +
  m_Variables :: "xTEDSVariable list"

record xTEDSDataMsg = xTEDSMessage +
  msg_periodic :: bool
  msg_rate :: "bool \<times> byte list"

text \<open>The variables a message refers to: \<^term>\<open>Some None\<close> when one of them is not there.\<close>

primrec find_variables :: "xTEDSVariable list \<Rightarrow> text_ptr \<Rightarrow> var_ref list \<Rightarrow> xTEDSVariable list option option" where
  "find_variables VariablesList interface [] = Some (Some [])"
| "find_variables VariablesList interface (r # l) = do {
     CurVar \<leftarrow> xTEDSVariableList_Find (ptr_text (vr_name r)) interface VariablesList;
     case CurVar of None \<Rightarrow> Some None
     | Some v \<Rightarrow> do { rest \<leftarrow> find_variables VariablesList interface l; Some (map_option ((#) v) rest) } }"

definition set_message ::
    "str \<Rightarrow> str \<Rightarrow> str \<Rightarrow> str \<Rightarrow> str \<Rightarrow> qualifier_type list \<Rightarrow> var_ref list \<Rightarrow> xTEDSVariable list \<Rightarrow> xTEDSMessage option option" where
  "set_message name ident description interface_name interface_id qualifiers variables VariablesList = do {
     m \<leftarrow> xTEDSMessage_setMessageID (ptr_text ident) (SDMMessage_ID_new 0 0);
     m \<leftarrow> xTEDSItem_setInterfaceID (ptr_text interface_id) m;
     vars \<leftarrow> find_variables VariablesList (ptr_text interface_name) variables;
     Some (map_option (\<lambda>vars. \<lparr>item_name = ptr_text name, item_description = ptr_text description, item_qualifiers = item_qualifiers_of qualifiers,
       item_interface_name = ptr_text interface_name, item_id = m, m_Variables = vars\<rparr>) vars) }"

definition SetCommandMsg :: "cmd_msg \<Rightarrow> xTEDSVariable list \<Rightarrow> xTEDSMessage option option" where
  "SetCommandMsg c VariablesList = set_message (cmd_name c) (cmd_id c) (cmd_description c) (cmd_interface_name c) (cmd_interface_id c)
     (cmd_qualifiers c) (cmd_variables c) VariablesList"

definition SetFaultMsg :: "fault_msg \<Rightarrow> xTEDSVariable list \<Rightarrow> xTEDSMessage option option" where
  "SetFaultMsg f VariablesList = set_message (fm_name f) (fm_id f) (fm_description f) (fm_interface_name f) (fm_interface_id f)
     (fm_qualifiers f) (fm_variables f) VariablesList"

definition SetDataMsg :: "(byte list \<Rightarrow> bool \<times> byte list) \<Rightarrow> data_msg \<Rightarrow> xTEDSVariable list \<Rightarrow> xTEDSDataMsg option option" where
  "SetDataMsg rate d VariablesList = do {
     m \<leftarrow> set_message (dm_name d) (dm_id d) (dm_description d) (dm_interface_name d) (dm_interface_id d) (dm_qualifiers d) (dm_variables d) VariablesList;
     Some (map_option (\<lambda>m. xTEDSMessage.extend m (xTEDSDataMsg.fields (ptr_text (dm_msg_arrival d) = Some (chars ''PERIODIC''))
       (case ptr_text (dm_msg_rate d) of None \<Rightarrow> (False, chars ''0.000000'') | Some t \<Rightarrow> rate t))) m) }"

section \<open>Their texts\<close>

definition message_head :: "string \<Rightarrow> 'a xTEDSMessage_scheme \<Rightarrow> byte list option" where
  "message_head tag m = do {
     n \<leftarrow> item_name m;
     Some (chars (''<'' @ tag) @ attr_text ''name'' n @ attr_text ''id'' (itoa (sint (SDMMessage_ID_getInterfaceMessagePair (item_id m))))) }"

definition message_definitions :: "string \<Rightarrow> 'a xTEDSMessage_scheme \<Rightarrow> byte list option" where
  "message_definitions tag m = do {
     h \<leftarrow> message_head tag m;
     let InfoBuf = snprintf_text MSG_DEF_SIZE (h @ [SPACE_CHAR]);
     InfoBuf \<leftarrow> (if m_Variables m = [] then Some InfoBuf
       else do { t \<leftarrow> xTEDSVariableList_VarReqReg (m_Variables m); append_sub MSG_DEF_SIZE InfoBuf t });
     append_rest MSG_DEF_SIZE InfoBuf (chars ''/>'') }"

text \<open>\<^verbatim>\<open>xTEDSInfo\<close>: the calls of \<^verbatim>\<open>strncat\<close> are given the size of the whole buffer, not what is left of it.\<close>

definition strncat_size :: "byte list \<Rightarrow> byte list \<Rightarrow> byte list option" where
  "strncat_size dst src = strncat_to MSG_DEF_SIZE MSG_DEF_SIZE dst src"

definition message_xTEDSInfo :: "string \<Rightarrow> byte list \<Rightarrow> 'a xTEDSMessage_scheme \<Rightarrow> byte list option" where
  "message_xTEDSInfo tag h m = do {
     let xTEDSBuf = snprintf_text MSG_DEF_SIZE h;
     xTEDSBuf \<leftarrow> (case item_description m of None \<Rightarrow> Some xTEDSBuf
       | Some d \<Rightarrow> do {
           xTEDSBuf \<leftarrow> strncat_size xTEDSBuf (chars '' description='' @ [QUOTATION]);
           xTEDSBuf \<leftarrow> strncat_size xTEDSBuf d;
           strncat_size xTEDSBuf [QUOTATION] });
     xTEDSBuf \<leftarrow> strncat_size xTEDSBuf (chars ''>'');
     xTEDSBuf \<leftarrow> (if item_qualifiers m = [] then Some xTEDSBuf
       else do {
         xTEDSBuf \<leftarrow> append_rest MSG_DEF_SIZE xTEDSBuf (tab_line 2);
         t \<leftarrow> xTEDSQualifierList_QualifierInfoRequest (item_qualifiers m);
         append_rest MSG_DEF_SIZE xTEDSBuf t });
     xTEDSBuf \<leftarrow> (if m_Variables m = [] then Some xTEDSBuf
       else do {
         xTEDSBuf \<leftarrow> append_rest MSG_DEF_SIZE xTEDSBuf (tab_line 2);
         t \<leftarrow> xTEDSVariableList_VarRef (m_Variables m);
         append_sub MSG_DEF_SIZE xTEDSBuf t });
     strncat_size xTEDSBuf (tab_line 1 @ chars (''</'' @ tag @ ''>'')) }"

definition message_RegInfo :: "string \<Rightarrow> byte list \<Rightarrow> 'a xTEDSMessage_scheme \<Rightarrow> MessageDefinition option" where
  "message_RegInfo tag h m = do {
     defs \<leftarrow> message_definitions tag m;
     xTEDSPortion \<leftarrow> message_xTEDSInfo tag h m;
     Some \<lparr>GetInterfaceMessageID = item_id m, GetDefinitions = defs, GetxTEDSPortion = xTEDSPortion\<rparr> }"

definition xTEDSCommandMsg_RegInfo :: "xTEDSMessage \<Rightarrow> MessageDefinition option" where
  "xTEDSCommandMsg_RegInfo m = do { h \<leftarrow> message_head ''CommandMsg'' m; message_RegInfo ''CommandMsg'' h m }"

definition xTEDSFaultMsg_RegInfo :: "xTEDSMessage \<Rightarrow> MessageDefinition option" where
  "xTEDSFaultMsg_RegInfo m = do { h \<leftarrow> message_head ''FaultMsg'' m; message_RegInfo ''FaultMsg'' h m }"

definition xTEDSDataMsg_RegInfo :: "xTEDSDataMsg \<Rightarrow> MessageDefinition option" where
  "xTEDSDataMsg_RegInfo m = do {
     h \<leftarrow> message_head ''DataMsg'' m;
     message_RegInfo ''DataMsg'' (h @ attr_text ''msgArrival'' (chars (if msg_periodic m then ''PERIODIC'' else ''EVENT''))
       @ (if msg_periodic m \<and> fst (msg_rate m) then attr_text ''msgRate'' (snd (msg_rate m)) else [])) m }"

definition GetVariableXtedsDefinitions :: "'a xTEDSMessage_scheme \<Rightarrow> VariableDefinition list option" where
  "GetVariableXtedsDefinitions m = xTEDSVariableList_VarInfoRequest None (SDMMessage_ID_new 0 0) (m_Variables m)"

section \<open>Queries on a message\<close>

definition message_attributes :: "'a xTEDSMessage_scheme \<Rightarrow> (string \<times> text_ptr) list" where
  "message_attributes m = [(''name'', item_name m), (''description'', item_description m), (''id'', Some (decimal (unat (mid_message (item_id m)))))]"

definition xTEDSMessage_MatchesQualifier :: "xTEDSMessage \<Rightarrow> xTEDSQualifier list \<Rightarrow> bool option" where
  "xTEDSMessage_MatchesQualifier m QualList = MatchesQualifier (message_attributes m) QualList"

definition xTEDSDataMsg_MatchesQualifier :: "xTEDSDataMsg \<Rightarrow> xTEDSQualifier list \<Rightarrow> bool option" where
  "xTEDSDataMsg_MatchesQualifier m QualList = MatchesQualifier (message_attributes m @
     [(''msgArrival'', Some (chars (if msg_periodic m then ''PERIODIC'' else ''EVENT''))), (''msgRate'', Some (snprintf_text 16 (snd (msg_rate m))))]) QualList"

definition xTEDSCommandMsg_RegInfoMatch :: "text_ptr \<Rightarrow> xTEDSQualifier list \<Rightarrow> text_ptr \<Rightarrow> xTEDSMessage \<Rightarrow> bool option" where
  "xTEDSCommandMsg_RegInfoMatch pname qualifiers interface m =
     and_then (ptr_match interface (item_interface_name m))
       (or_else (and_then (ptr_match pname (item_name m)) (xTEDSMessage_MatchesQualifier m qualifiers))
         (xTEDSVariableList_RegInfoMatch pname qualifiers interface (m_Variables m)))"

definition xTEDSDataMsg_RegInfoMatch :: "text_ptr \<Rightarrow> xTEDSQualifier list \<Rightarrow> text_ptr \<Rightarrow> xTEDSDataMsg \<Rightarrow> bool option" where
  "xTEDSDataMsg_RegInfoMatch pname qualifiers interface m =
     and_then (ptr_match interface (item_interface_name m))
       (or_else (and_then (ptr_match pname (item_name m)) (xTEDSDataMsg_MatchesQualifier m qualifiers))
         (xTEDSVariableList_RegInfoMatch pname qualifiers interface (m_Variables m)))"

definition xTEDSFaultMsg_RegInfoMatch :: "text_ptr \<Rightarrow> xTEDSQualifier list \<Rightarrow> text_ptr \<Rightarrow> xTEDSMessage \<Rightarrow> bool option" where
  "xTEDSFaultMsg_RegInfoMatch pname qualifiers interface m =
     or_else (and_then (ptr_match pname (item_name m)) (and_then (ptr_match interface (item_interface_name m)) (xTEDSMessage_MatchesQualifier m qualifiers)))
       (xTEDSVariableList_RegInfoMatch pname qualifiers interface (m_Variables m))"

definition message_RegexMatch :: "(byte list \<Rightarrow> byte list \<Rightarrow> bool option) \<Rightarrow> byte list \<Rightarrow> 'a xTEDSMessage_scheme \<Rightarrow> bool option option" where
  "message_RegexMatch Regex Pattern m = regex_or (xTEDSVariableList_RegexMatch Regex Pattern (m_Variables m)) (xTEDSItem_RegexMatch Regex Pattern m)"

section \<open>Commands, notifications and requests\<close>

datatype xTEDSWrapper =
    xTEDSCommand xTEDSMessage "xTEDSMessage option"
  | xTEDSNotification xTEDSDataMsg "xTEDSMessage option"
  | xTEDSRequest xTEDSMessage xTEDSDataMsg "xTEDSMessage option"

text \<open>\<^term>\<open>Some None\<close> is the result false.\<close>

definition set_fault :: "fault_msg option \<Rightarrow> xTEDSVariable list \<Rightarrow> (xTEDSMessage option \<Rightarrow> xTEDSWrapper) \<Rightarrow> xTEDSWrapper option option" where
  "set_fault f VariablesList w = (case f of None \<Rightarrow> Some (Some (w None))
   | Some f \<Rightarrow> do { r \<leftarrow> SetFaultMsg f VariablesList; Some (map_option (\<lambda>m. w (Some m)) r) })"

definition SetCommand :: "command \<Rightarrow> xTEDSVariable list \<Rightarrow> xTEDSWrapper option option" where
  "SetCommand c VariablesList = (case c_command_message c of [] \<Rightarrow> Some None
   | cm # _ \<Rightarrow> do {
       r \<leftarrow> SetCommandMsg cm VariablesList;
       case r of None \<Rightarrow> Some None | Some m \<Rightarrow> set_fault (c_fault_message c) VariablesList (xTEDSCommand m) })"

definition SetNotification :: "(byte list \<Rightarrow> bool \<times> byte list) \<Rightarrow> notification \<Rightarrow> xTEDSVariable list \<Rightarrow> xTEDSWrapper option option" where
  "SetNotification rate n VariablesList = (case n_data_message n of [] \<Rightarrow> Some None
   | d # _ \<Rightarrow> do {
       r \<leftarrow> SetDataMsg rate d VariablesList;
       case r of None \<Rightarrow> Some None | Some m \<Rightarrow> set_fault (n_fault_message n) VariablesList (xTEDSNotification m) })"

definition SetRequest :: "(byte list \<Rightarrow> bool \<times> byte list) \<Rightarrow> request \<Rightarrow> xTEDSVariable list \<Rightarrow> xTEDSWrapper option option" where
  "SetRequest rate q VariablesList = (case (r_command_message q, r_data_message q) of
     (cm # _, d # _) \<Rightarrow> do {
       r \<leftarrow> SetCommandMsg cm VariablesList;
       case r of None \<Rightarrow> Some None | Some m \<Rightarrow> do {
         r \<leftarrow> SetDataMsg rate d VariablesList;
         case r of None \<Rightarrow> Some None | Some reply \<Rightarrow> set_fault (r_fault_message q) VariablesList (xTEDSRequest m reply) } }
   | _ \<Rightarrow> Some None)"

text \<open>The texts of the parts between the tags of the wrapper, each on a line of its own.\<close>

definition wrapped :: "string \<Rightarrow> byte list list \<Rightarrow> byte list" where
  "wrapped tag parts = chars (''<'' @ tag @ ''>'') @ concat (map (\<lambda>t. tab_line 1 @ t) parts) @ tab_line 0 @ chars (''</'' @ tag @ ''>'')"

definition wrapped_definition :: "string \<Rightarrow> SDMMessage_ID \<Rightarrow> byte list \<Rightarrow> MessageDefinition list \<Rightarrow> MessageDefinition" where
  "wrapped_definition tag ident VarPortion parts =
     \<lparr>GetInterfaceMessageID = ident,
      GetDefinitions = snprintf_text MSG_DEF_SIZE (wrapped tag (map GetDefinitions parts)),
      GetxTEDSPortion = snprintf_text MSG_DEF_SIZE (VarPortion @ tab_line 0 @ wrapped tag (map GetxTEDSPortion parts))\<rparr>"

text \<open>The id of the fault message when its name was asked for.\<close>

definition asked_id :: "text_ptr \<Rightarrow> 'a xTEDSItem_scheme option \<Rightarrow> SDMMessage_ID \<Rightarrow> SDMMessage_ID option" where
  "asked_id ItemName x ident = (case (ItemName, x) of
     (Some n, Some x) \<Rightarrow> do { b \<leftarrow> xTEDSItem_NameEquals n x; Some (if b then item_id x else ident) }
   | _ \<Rightarrow> Some ident)"

definition with_fault :: "string \<Rightarrow> MessageDefinition \<Rightarrow> VariableDefinition list \<Rightarrow> xTEDSMessage option \<Rightarrow> text_ptr \<Rightarrow> MessageDefinition option" where
  "with_fault tag pMsgDef pVarDef fault ItemName = do {
     ident \<leftarrow> asked_id ItemName fault (GetInterfaceMessageID pMsgDef);
     case fault of
       None \<Rightarrow> Some (wrapped_definition tag ident (ToStringConcatVariableDefs False MSG_DEF_SIZE pVarDef []) [pMsgDef])
     | Some f \<Rightarrow> do {
         pFltMsgDef \<leftarrow> xTEDSFaultMsg_RegInfo f;
         pFltVarDef \<leftarrow> GetVariableXtedsDefinitions f;
         Some (wrapped_definition tag ident (ToStringConcatVariableDefs True MSG_DEF_SIZE pVarDef pFltVarDef) [pMsgDef, pFltMsgDef]) } }"

definition xTEDSCommand_RegInfo :: "xTEDSMessage \<Rightarrow> xTEDSMessage option \<Rightarrow> text_ptr \<Rightarrow> MessageDefinition option" where
  "xTEDSCommand_RegInfo cmd fault ItemName = do {
     pCmdMsgDef \<leftarrow> xTEDSCommandMsg_RegInfo cmd;
     pCmdVarDef \<leftarrow> GetVariableXtedsDefinitions cmd;
     with_fault ''Command'' pCmdMsgDef pCmdVarDef fault ItemName }"

definition xTEDSNotification_RegInfo :: "xTEDSDataMsg \<Rightarrow> xTEDSMessage option \<Rightarrow> text_ptr \<Rightarrow> MessageDefinition option" where
  "xTEDSNotification_RegInfo msg fault ItemName = do {
     pDataMsgDef \<leftarrow> xTEDSDataMsg_RegInfo msg;
     pDataVarDef \<leftarrow> GetVariableXtedsDefinitions msg;
     with_fault ''Notification'' pDataMsgDef pDataVarDef fault ItemName }"

text \<open>The objects of the class \<^verbatim>\<open>MessageDef\<close> as far as their links and their life goes: the \<^verbatim>\<open>next\<close> of each by its address, and
  those that were deleted. \<^verbatim>\<open>Join\<close> hangs a list behind the last object of another, and the destructor deletes what
  hangs behind the object. To delete an object twice is undefined; a list is no longer than there are objects, which
  bounds the walks.\<close>

record def_heap =
  def_next :: "nat option list"
  def_deleted :: "nat list"

definition MessageDef_new :: "def_heap \<Rightarrow> nat \<times> def_heap" where
  "MessageDef_new h = (length (def_next h), h\<lparr>def_next := def_next h @ [None]\<rparr>)"

primrec last_def :: "nat \<Rightarrow> nat option list \<Rightarrow> nat \<Rightarrow> nat" where
  "last_def 0 nexts cur = cur"
| "last_def (Suc n) nexts cur = (case nexts ! cur of None \<Rightarrow> cur | Some nxt \<Rightarrow> last_def n nexts nxt)"

definition MessageDef_Join :: "nat \<Rightarrow> nat \<Rightarrow> def_heap \<Rightarrow> def_heap" where
  "MessageDef_Join this b h = h\<lparr>def_next := (def_next h)[last_def (length (def_next h)) (def_next h) this := Some b]\<rparr>"

primrec delete_defs :: "nat \<Rightarrow> nat option \<Rightarrow> def_heap \<Rightarrow> def_heap option" where
  "delete_defs 0 p h = None"
| "delete_defs (Suc n) p h = (case p of None \<Rightarrow> Some h
   | Some this \<Rightarrow> if this \<in> set (def_deleted h) then None
       else delete_defs n (def_next h ! this) (h\<lparr>def_deleted := this # def_deleted h\<rparr>))"

definition MessageDef_delete :: "nat \<Rightarrow> def_heap \<Rightarrow> def_heap option" where
  "MessageDef_delete this h = delete_defs (length (def_next h) + 1) (Some this) h"

text \<open>The definitions a request makes of its messages, joins and deletes again.\<close>

definition request_definitions :: "bool \<Rightarrow> def_heap \<Rightarrow> def_heap option" where
  "request_definitions fault h = do {
     let (pReplyMsgDef, h) = MessageDef_new h;
     let (pCmdMsgDef, h) = MessageDef_new h;
     h \<leftarrow> (if fault then do {
         let (pFaultMsgDef, h) = MessageDef_new h;
         let h = MessageDef_Join pCmdMsgDef pFaultMsgDef h;
         MessageDef_delete pFaultMsgDef h }
       else Some h);
     h \<leftarrow> MessageDef_delete pCmdMsgDef h;
     MessageDef_delete pReplyMsgDef h }"

definition xTEDSRequest_RegInfo :: "xTEDSMessage \<Rightarrow> xTEDSDataMsg \<Rightarrow> xTEDSMessage option \<Rightarrow> text_ptr \<Rightarrow> MessageDefinition option" where
  "xTEDSRequest_RegInfo cmd reply fault ItemName = do {
     pReplyMsgDef \<leftarrow> xTEDSDataMsg_RegInfo reply;
     pReplyVarDef \<leftarrow> GetVariableXtedsDefinitions reply;
     pCmdMsgDef \<leftarrow> xTEDSCommandMsg_RegInfo cmd;
     pCmdVarDef \<leftarrow> GetVariableXtedsDefinitions cmd;
     let VarPortion = ToStringConcatVariableDefs True MSG_DEF_SIZE pCmdVarDef pReplyVarDef;
     faults \<leftarrow> (case fault of None \<Rightarrow> Some []
       | Some f \<Rightarrow> do { pFaultMsgDef \<leftarrow> xTEDSFaultMsg_RegInfo f; _ \<leftarrow> GetVariableXtedsDefinitions f; Some [pFaultMsgDef] });
     ident \<leftarrow> asked_id ItemName (Some reply) (GetInterfaceMessageID pCmdMsgDef);
     ident \<leftarrow> asked_id ItemName fault ident;
     _ \<leftarrow> request_definitions (fault \<noteq> None) \<lparr>def_next = [], def_deleted = []\<rparr>;
     Some (wrapped_definition ''Request'' ident VarPortion ([pCmdMsgDef, pReplyMsgDef] @ faults)) }"

definition xTEDSWrapper_RegInfo :: "text_ptr \<Rightarrow> xTEDSWrapper \<Rightarrow> MessageDefinition option" where
  "xTEDSWrapper_RegInfo ItemName w = (case w of
     xTEDSCommand c f \<Rightarrow> xTEDSCommand_RegInfo c f ItemName
   | xTEDSNotification d f \<Rightarrow> xTEDSNotification_RegInfo d f ItemName
   | xTEDSRequest c d f \<Rightarrow> xTEDSRequest_RegInfo c d f ItemName)"

definition fault_RegInfoMatch :: "text_ptr \<Rightarrow> xTEDSQualifier list \<Rightarrow> text_ptr \<Rightarrow> xTEDSMessage option \<Rightarrow> bool option" where
  "fault_RegInfoMatch Name Qualifiers Interface f = (case f of None \<Rightarrow> Some False | Some m \<Rightarrow> xTEDSFaultMsg_RegInfoMatch Name Qualifiers Interface m)"

definition xTEDSWrapper_RegInfoMatch :: "text_ptr \<Rightarrow> xTEDSQualifier list \<Rightarrow> text_ptr \<Rightarrow> xTEDSWrapper \<Rightarrow> bool option" where
  "xTEDSWrapper_RegInfoMatch Name Qualifiers Interface w = (case w of
     xTEDSCommand c f \<Rightarrow> or_else (xTEDSCommandMsg_RegInfoMatch Name Qualifiers Interface c) (fault_RegInfoMatch Name Qualifiers Interface f)
   | xTEDSNotification d f \<Rightarrow> or_else (xTEDSDataMsg_RegInfoMatch Name Qualifiers Interface d) (fault_RegInfoMatch Name Qualifiers Interface f)
   | xTEDSRequest c d f \<Rightarrow> or_else (xTEDSDataMsg_RegInfoMatch Name Qualifiers Interface d)
       (or_else (xTEDSCommandMsg_RegInfoMatch Name Qualifiers Interface c) (fault_RegInfoMatch Name Qualifiers Interface f)))"

definition fault_RegexMatch :: "(byte list \<Rightarrow> byte list \<Rightarrow> bool option) \<Rightarrow> byte list \<Rightarrow> xTEDSMessage option \<Rightarrow> bool option option" where
  "fault_RegexMatch Regex Pattern f = (case f of None \<Rightarrow> Some (Some False) | Some m \<Rightarrow> message_RegexMatch Regex Pattern m)"

definition xTEDSWrapper_RegexMatch :: "(byte list \<Rightarrow> byte list \<Rightarrow> bool option) \<Rightarrow> byte list \<Rightarrow> xTEDSWrapper \<Rightarrow> bool option option" where
  "xTEDSWrapper_RegexMatch Regex Pattern w = (case w of
     xTEDSCommand c f \<Rightarrow> regex_or (message_RegexMatch Regex Pattern c) (fault_RegexMatch Regex Pattern f)
   | xTEDSNotification d f \<Rightarrow> regex_or (message_RegexMatch Regex Pattern d) (fault_RegexMatch Regex Pattern f)
   | xTEDSRequest c d f \<Rightarrow> regex_or (message_RegexMatch Regex Pattern d)
       (regex_or (message_RegexMatch Regex Pattern c) (fault_RegexMatch Regex Pattern f)))"

text \<open>The ids of the messages of a wrapper.\<close>

definition fault_ids :: "xTEDSMessage option \<Rightarrow> SDMMessage_ID list" where
  "fault_ids f = (case f of None \<Rightarrow> [] | Some m \<Rightarrow> [item_id m])"

definition wrapper_ids :: "xTEDSWrapper \<Rightarrow> SDMMessage_ID list" where
  "wrapper_ids w = (case w of xTEDSCommand c f \<Rightarrow> item_id c # fault_ids f | xTEDSNotification d f \<Rightarrow> item_id d # fault_ids f
     | xTEDSRequest c d f \<Rightarrow> item_id d # item_id c # fault_ids f)"

definition xTEDSWrapper_ContainsMessage :: "SDMMessage_ID \<Rightarrow> xTEDSWrapper \<Rightarrow> bool" where
  "xTEDSWrapper_ContainsMessage MessageID w = list_ex (\<lambda>i. SDMMessage_ID_eq i MessageID) (wrapper_ids w)"

definition GetFaultMessageID :: "xTEDSWrapper \<Rightarrow> SDMMessage_ID" where
  "GetFaultMessageID w = (case (case w of xTEDSCommand c f \<Rightarrow> f | xTEDSNotification d f \<Rightarrow> f | xTEDSRequest c d f \<Rightarrow> f) of
     None \<Rightarrow> SDMMessage_ID_new 0 0 | Some m \<Rightarrow> item_id m)"

section \<open>Lists of wrappers\<close>

primrec xTEDSWrapperList_RegInfo :: "text_ptr \<Rightarrow> xTEDSQualifier list \<Rightarrow> text_ptr \<Rightarrow> xTEDSWrapper list \<Rightarrow> MessageDefinition list option" where
  "xTEDSWrapperList_RegInfo Name Qualifiers Interface [] = Some []"
| "xTEDSWrapperList_RegInfo Name Qualifiers Interface (w # l) = do {
     b \<leftarrow> xTEDSWrapper_RegInfoMatch Name Qualifiers Interface w;
     d \<leftarrow> (if b then map_option (\<lambda>d. [d]) (xTEDSWrapper_RegInfo Name w) else Some []);
     r \<leftarrow> xTEDSWrapperList_RegInfo Name Qualifiers Interface l;
     Some (d @ r) }"

primrec xTEDSWrapperList_RegexRegInfo ::
    "(byte list \<Rightarrow> byte list \<Rightarrow> bool option) \<Rightarrow> byte list \<Rightarrow> xTEDSWrapper list \<Rightarrow> MessageDefinition list option option" where
  "xTEDSWrapperList_RegexRegInfo Regex Pattern [] = Some (Some [])"
| "xTEDSWrapperList_RegexRegInfo Regex Pattern (w # l) = do {
     b \<leftarrow> xTEDSWrapper_RegexMatch Regex Pattern w;
     case b of None \<Rightarrow> Some None
     | Some b \<Rightarrow> do {
         d \<leftarrow> (if b then map_option (\<lambda>d. [d]) (xTEDSWrapper_RegInfo None w) else Some []);
         r \<leftarrow> xTEDSWrapperList_RegexRegInfo Regex Pattern l;
         Some (map_option ((@) d) r) } }"

primrec xTEDSWrapperList_GetFaultID :: "SDMMessage_ID \<Rightarrow> xTEDSWrapper list \<Rightarrow> SDMMessage_ID" where
  "xTEDSWrapperList_GetFaultID MessageID [] = SDMMessage_ID_new 0 0"
| "xTEDSWrapperList_GetFaultID MessageID (w # l) =
     (if xTEDSWrapper_ContainsMessage MessageID w then GetFaultMessageID w else xTEDSWrapperList_GetFaultID MessageID l)"

primrec xTEDSWrapperList_GetDataID :: "SDMMessage_ID \<Rightarrow> xTEDSWrapper list \<Rightarrow> SDMMessage_ID" where
  "xTEDSWrapperList_GetDataID MessageID [] = SDMMessage_ID_new 0 0"
| "xTEDSWrapperList_GetDataID MessageID (w # l) = (case w of
     xTEDSRequest c d f \<Rightarrow> if xTEDSWrapper_ContainsMessage MessageID w then item_id d else xTEDSWrapperList_GetDataID MessageID l
   | _ \<Rightarrow> xTEDSWrapperList_GetDataID MessageID l)"

definition xTEDSWrapperList_ContainsMessage :: "SDMMessage_ID \<Rightarrow> xTEDSWrapper list \<Rightarrow> bool" where
  "xTEDSWrapperList_ContainsMessage RequestedId l = list_ex (xTEDSWrapper_ContainsMessage RequestedId) l"

end
