(* ===== verification/XTEDS_Document.thy ===== *)
theory XTEDS_Document
  imports XTEDS_Messages
begin

text \<open>
  The tree of a document, \<^verbatim>\<open>common/xTEDS/xTEDSItemTree.cpp\<close>, the checks of \<^verbatim>\<open>xTEDSVerification.cpp\<close> and the class
  \<^verbatim>\<open>xTEDS\<close> of \<^verbatim>\<open>xTEDS.cpp\<close> that fills the tree from what the generated parser built and answers queries; the invariant of
  the tree, and that filling it from a parsed document is free of undefined behaviour.

  \<open>document_answers\<close> are the answers the Data Manager's registry stores with an entry.
\<close>

section \<open>Verification\<close>

definition VerifyQualifiers :: "qualifier_type list \<Rightarrow> bool" where
  "VerifyQualifiers l = (l \<noteq> [] \<and> list_all (\<lambda>q. q_name q \<noteq> None \<and> q_value q \<noteq> None) l)"

definition VerifyOrientation :: "variable \<Rightarrow> bool" where
  "VerifyOrientation var = (case v_orientation_data var of [] \<Rightarrow> False
   | c # _ \<Rightarrow> ori_axis_value c \<noteq> None \<and> ori_angle_value c \<noteq> None \<and> ori_units_value c \<noteq> None)"

definition VerifyLocation :: "location \<Rightarrow> bool" where
  "VerifyLocation l = (lo_x_value l \<noteq> None \<and> lo_y_value l \<noteq> None \<and> lo_z_value l \<noteq> None \<and> lo_units l \<noteq> None)"

definition VerifyCurve :: "variable \<Rightarrow> bool" where
  "VerifyCurve var = (case v_curves var of None \<Rightarrow> False
   | Some c \<Rightarrow> v_interface_name var \<noteq> None \<and> v_name var \<noteq> None \<and> cu_name c \<noteq> None \<and> cu_coefs c \<noteq> []
       \<and> list_all (\<lambda>c. co_exponent c \<noteq> None \<and> co_value c \<noteq> None) (cu_coefs c))"

definition VerifyDrange :: "variable \<Rightarrow> bool" where
  "VerifyDrange var = (case v_dranges var of None \<Rightarrow> False
   | Some r \<Rightarrow> v_interface_name var \<noteq> None \<and> v_name var \<noteq> None \<and> dr_name r \<noteq> None \<and> dr_options r \<noteq> []
       \<and> list_all (\<lambda>c. op_name c \<noteq> None \<and> op_value c \<noteq> None) (dr_options r))"

definition VerifyVarRefs :: "str \<Rightarrow> var_ref list \<Rightarrow> bool" where
  "VerifyVarRefs message_name l = (message_name \<noteq> None \<and> l \<noteq> [] \<and> list_all (\<lambda>r. vr_name r \<noteq> None) l)"

definition known_format :: "text_ptr \<Rightarrow> bool" where
  "known_format t = (t \<in> set (map (\<lambda>n. Some (chars n)) [''INT08'', ''UINT08'', ''INT16'', ''UINT16'', ''INT32'', ''UINT32'', ''FLOAT32'', ''FLOAT64'']))"

definition VerifyVariable :: "variable \<Rightarrow> bool" where
  "VerifyVariable var = (v_name var \<noteq> None \<and> v_kind var \<noteq> None \<and> v_interface_name var \<noteq> None \<and> v_interface_id var \<noteq> None
     \<and> known_format (ptr_text (v_format var))
     \<and> (v_qualifiers var \<noteq> [] \<longrightarrow> VerifyQualifiers (v_qualifiers var))
     \<and> (v_dranges var \<noteq> None \<longrightarrow> VerifyDrange var)
     \<and> (v_curves var \<noteq> None \<longrightarrow> VerifyCurve var)
     \<and> (case v_location_data var of None \<Rightarrow> True | Some l \<Rightarrow> VerifyLocation l)
     \<and> (v_orientation_data var \<noteq> [] \<longrightarrow> VerifyOrientation var))"

definition verify_message :: "str \<Rightarrow> str \<Rightarrow> str \<Rightarrow> str \<Rightarrow> qualifier_type list \<Rightarrow> var_ref list \<Rightarrow> bool" where
  "verify_message name ident interface_name interface_id qualifiers variables =
     (name \<noteq> None \<and> ident \<noteq> None \<and> interface_name \<noteq> None \<and> interface_id \<noteq> None
      \<and> (qualifiers \<noteq> [] \<longrightarrow> VerifyQualifiers qualifiers) \<and> (variables \<noteq> [] \<longrightarrow> VerifyVarRefs name variables))"

definition VerifyDataMsg :: "data_msg \<Rightarrow> bool" where
  "VerifyDataMsg d = (verify_message (dm_name d) (dm_id d) (dm_interface_name d) (dm_interface_id d) (dm_qualifiers d) (dm_variables d)
     \<and> ptr_text (dm_msg_arrival d) \<in> {None, Some (chars ''EVENT''), Some (chars ''PERIODIC'')})"

definition VerifyCommandMsg :: "cmd_msg \<Rightarrow> bool" where
  "VerifyCommandMsg c = verify_message (cmd_name c) (cmd_id c) (cmd_interface_name c) (cmd_interface_id c) (cmd_qualifiers c) (cmd_variables c)"

definition VerifyFaultMsg :: "fault_msg \<Rightarrow> bool" where
  "VerifyFaultMsg f = verify_message (fm_name f) (fm_id f) (fm_interface_name f) (fm_interface_id f) (fm_qualifiers f) (fm_variables f)"

definition VerifyInterface :: "interface \<Rightarrow> bool" where
  "VerifyInterface i = (i_name i \<noteq> None \<and> i_id i \<noteq> None \<and> text_of (i_id i) \<noteq> Some ''0'')"

section \<open>The tree\<close>

record xTEDSItemTree =
  tree_Variables :: "xTEDSVariable list"
  tree_Commands :: "xTEDSWrapper list"
  tree_Notifications :: "xTEDSWrapper list"
  tree_Requests :: "xTEDSWrapper list"

text \<open>The functions that add to the tree return whether they did.\<close>

definition AddVariable :: "variable \<Rightarrow> xTEDSItemTree \<Rightarrow> xTEDSItemTree option" where
  "AddVariable pNewVariable t = do { v \<leftarrow> xTEDSVariable_SetVariable pNewVariable; Some (t\<lparr>tree_Variables := tree_Variables t @ [v]\<rparr>) }"

definition AddCommand :: "command \<Rightarrow> xTEDSItemTree \<Rightarrow> (xTEDSItemTree \<times> bool) option" where
  "AddCommand c t = do {
     r \<leftarrow> SetCommand c (tree_Variables t);
     Some (case r of None \<Rightarrow> (t, False) | Some w \<Rightarrow> (t\<lparr>tree_Commands := tree_Commands t @ [w]\<rparr>, True)) }"

definition AddNotification :: "(byte list \<Rightarrow> bool \<times> byte list) \<Rightarrow> notification \<Rightarrow> xTEDSItemTree \<Rightarrow> (xTEDSItemTree \<times> bool) option" where
  "AddNotification rate n t = do {
     r \<leftarrow> SetNotification rate n (tree_Variables t);
     Some (case r of None \<Rightarrow> (t, False) | Some w \<Rightarrow> (t\<lparr>tree_Notifications := tree_Notifications t @ [w]\<rparr>, True)) }"

definition AddRequest :: "(byte list \<Rightarrow> bool \<times> byte list) \<Rightarrow> request \<Rightarrow> xTEDSItemTree \<Rightarrow> (xTEDSItemTree \<times> bool) option" where
  "AddRequest rate q t = do {
     r \<leftarrow> SetRequest rate q (tree_Variables t);
     Some (case r of None \<Rightarrow> (t, False) | Some w \<Rightarrow> (t\<lparr>tree_Requests := tree_Requests t @ [w]\<rparr>, True)) }"

definition addVariable :: "variable \<Rightarrow> xTEDSItemTree \<Rightarrow> (xTEDSItemTree \<times> bool) option" where
  "addVariable var root = (if \<not> VerifyVariable var then Some (root, False) else do { t \<leftarrow> AddVariable var root; Some (t, True) })"

text \<open>A message that is missing, or the first of its list.\<close>

definition verify_head :: "('a \<Rightarrow> bool) \<Rightarrow> 'a list \<Rightarrow> bool" where
  "verify_head P l = (case l of [] \<Rightarrow> False | x # _ \<Rightarrow> P x)"

definition verify_fault :: "fault_msg option \<Rightarrow> bool" where
  "verify_fault f = (case f of None \<Rightarrow> True | Some m \<Rightarrow> VerifyFaultMsg m)"

definition addCommand :: "command \<Rightarrow> xTEDSItemTree \<Rightarrow> (xTEDSItemTree \<times> bool) option" where
  "addCommand c root = (if \<not> verify_head VerifyCommandMsg (c_command_message c) then Some (root, False)
     else if \<not> verify_fault (c_fault_message c) then Some (root, False) else AddCommand c root)"

definition addRequest :: "(byte list \<Rightarrow> bool \<times> byte list) \<Rightarrow> request \<Rightarrow> xTEDSItemTree \<Rightarrow> (xTEDSItemTree \<times> bool) option" where
  "addRequest rate q root = (if \<not> verify_head VerifyDataMsg (r_data_message q) then Some (root, False)
     else if \<not> verify_head VerifyCommandMsg (r_command_message q) then Some (root, False)
     else if \<not> verify_fault (r_fault_message q) then Some (root, False) else AddRequest rate q root)"

definition addNotification :: "(byte list \<Rightarrow> bool \<times> byte list) \<Rightarrow> notification \<Rightarrow> xTEDSItemTree \<Rightarrow> (xTEDSItemTree \<times> bool) option" where
  "addNotification rate n root = (if \<not> verify_head VerifyDataMsg (n_data_message n) then Some (root, False)
     else if \<not> verify_fault (n_fault_message n) then Some (root, False) else AddNotification rate n root)"

text \<open>The loops stop at the first part that cannot be added.\<close>

primrec add_parts :: "('a \<Rightarrow> xTEDSItemTree \<Rightarrow> (xTEDSItemTree \<times> bool) option) \<Rightarrow> 'a list \<Rightarrow> xTEDSItemTree \<Rightarrow> (xTEDSItemTree \<times> bool) option" where
  "add_parts f [] root = Some (root, True)"
| "add_parts f (x # l) root = do { (root, result) \<leftarrow> f x root; if result then add_parts f l root else Some (root, False) }"

definition addInterface :: "(byte list \<Rightarrow> bool \<times> byte list) \<Rightarrow> interface \<Rightarrow> xTEDSItemTree \<Rightarrow> (xTEDSItemTree \<times> bool) option" where
  "addInterface rate face root = (if i_name face = None then Some (root, False) else do {
     (root, result) \<leftarrow> add_parts addVariable (i_variables face) root;
     if \<not> result then Some (root, False) else do {
     (root, result) \<leftarrow> add_parts addCommand (i_commands face) root;
     if \<not> result then Some (root, False) else do {
     (root, result) \<leftarrow> add_parts (addNotification rate) (i_notifications face) root;
     if \<not> result then Some (root, False) else add_parts (addRequest rate) (i_requests face) root } } })"

section \<open>The document\<close>

record xTEDSDocument =
  m_TreeRoot :: xTEDSItemTree
  m_strDeviceName :: text_ptr
  m_strComponentKey :: text_ptr
  m_strSPAUHub :: text_ptr
  m_strSPAUPort :: text_ptr

definition xTEDSDocument_new :: xTEDSDocument where
  "xTEDSDocument_new = \<lparr>m_TreeRoot = \<lparr>tree_Variables = [], tree_Commands = [], tree_Notifications = [], tree_Requests = []\<rparr>,
     m_strDeviceName = None, m_strComponentKey = None, m_strSPAUHub = None, m_strSPAUPort = None\<rparr>"

definition set_text :: "str \<Rightarrow> text_ptr \<Rightarrow> text_ptr" where
  "set_text s t = (case ptr_text s of None \<Rightarrow> t | Some u \<Rightarrow> Some u)"

definition verified_interface :: "(byte list \<Rightarrow> bool \<times> byte list) \<Rightarrow> interface \<Rightarrow> xTEDSItemTree \<Rightarrow> (xTEDSItemTree \<times> bool) option" where
  "verified_interface rate face root = (if \<not> VerifyInterface face then Some (root, False) else addInterface rate face root)"

text \<open>\<open>parsed\<close> is what \<^verbatim>\<open>parsexTEDS\<close> returned for the text.\<close>

definition xTEDS_Parse :: "(byte list \<Rightarrow> bool \<times> byte list) \<Rightarrow> xteds option \<Rightarrow> xTEDSDocument \<Rightarrow> (xTEDSDocument \<times> bool) option" where
  "xTEDS_Parse rate parsed this = (case parsed of None \<Rightarrow> Some (this, False)
   | Some x \<Rightarrow> if x_name x = None then Some (this, False) else do {
       header \<leftarrow> x_header x;
       let this = (if ad_name header \<noteq> None then this\<lparr>m_strDeviceName := ptr_text (ad_name header),
           m_strComponentKey := set_text (ad_componentKey header) (m_strComponentKey this),
           m_strSPAUHub := set_text (ad_spa_u_hub header) (m_strSPAUHub this), m_strSPAUPort := set_text (ad_spa_u_port header) (m_strSPAUPort this)\<rparr>
         else this);
       if ad_name header = None \<or> ad_kind header = None then Some (this, False)
       else do {
         (root, result) \<leftarrow> add_parts (verified_interface rate) (x_interfaces x) (m_TreeRoot this);
         Some (this\<lparr>m_TreeRoot := root\<rparr>, result \<and> x_interfaces x \<noteq> []) } })"

section \<open>Its queries\<close>

definition ExactRegInfo :: "text_ptr \<Rightarrow> xTEDSQualifier list \<Rightarrow> text_ptr \<Rightarrow> xTEDSItemTree \<Rightarrow> MessageDefinition list option" where
  "ExactRegInfo name qualifiers interface t = do {
     a \<leftarrow> xTEDSWrapperList_RegInfo name qualifiers interface (tree_Commands t);
     b \<leftarrow> xTEDSWrapperList_RegInfo name qualifiers interface (tree_Notifications t);
     c \<leftarrow> xTEDSWrapperList_RegInfo name qualifiers interface (tree_Requests t);
     Some (a @ b @ c) }"

definition tree_RegexRegInfo :: "(byte list \<Rightarrow> byte list \<Rightarrow> bool option) \<Rightarrow> byte list \<Rightarrow> xTEDSItemTree \<Rightarrow> MessageDefinition list option option" where
  "tree_RegexRegInfo Regex pattern t = do {
     a \<leftarrow> xTEDSWrapperList_RegexRegInfo Regex pattern (tree_Commands t);
     case a of None \<Rightarrow> Some None | Some a \<Rightarrow> do {
     b \<leftarrow> xTEDSWrapperList_RegexRegInfo Regex pattern (tree_Notifications t);
     case b of None \<Rightarrow> Some None | Some b \<Rightarrow> do {
     c \<leftarrow> xTEDSWrapperList_RegexRegInfo Regex pattern (tree_Requests t);
     case c of None \<Rightarrow> Some None | Some c \<Rightarrow> Some (Some (a @ b @ c)) } } }"

definition xTEDS_RegInfo :: "xTEDSDocument \<Rightarrow> byte list \<Rightarrow> byte list \<Rightarrow> text_ptr \<Rightarrow> text_ptr \<Rightarrow> MessageDefinition list option" where
  "xTEDS_RegInfo this ItemName Qualifiers Device Interface = do {
     b \<leftarrow> ptr_match Device (m_strDeviceName this);
     if b then do { QualList \<leftarrow> xTEDSQualifierList_Parse Qualifiers; ExactRegInfo (Some ItemName) QualList Interface (m_TreeRoot this) }
     else Some [] }"

definition xTEDS_AllRegInfo :: "xTEDSDocument \<Rightarrow> byte list \<Rightarrow> text_ptr \<Rightarrow> text_ptr \<Rightarrow> MessageDefinition list option" where
  "xTEDS_AllRegInfo this Qualifiers Device Interface = do {
     b \<leftarrow> ptr_match Device (m_strDeviceName this);
     if b then do { QualList \<leftarrow> xTEDSQualifierList_Parse Qualifiers; ExactRegInfo None QualList Interface (m_TreeRoot this) }
     else Some [] }"

definition xTEDS_RegexRegInfo ::
    "(byte list \<Rightarrow> byte list \<Rightarrow> bool option) \<Rightarrow> xTEDSDocument \<Rightarrow> byte list \<Rightarrow> byte list \<Rightarrow> text_ptr \<Rightarrow> text_ptr \<Rightarrow> MessageDefinition list option option" where
  "xTEDS_RegexRegInfo Regex this Pattern Qualifiers Device Interface = do {
     b \<leftarrow> ptr_match Device (m_strDeviceName this);
     if b then do { _ \<leftarrow> xTEDSQualifierList_Parse Qualifiers; tree_RegexRegInfo Regex Pattern (m_TreeRoot this) }
     else Some (Some []) }"

definition GetServiceDataID :: "SDMMessage_ID \<Rightarrow> xTEDSItemTree \<Rightarrow> SDMMessage_ID" where
  "GetServiceDataID CommandMessageID t = xTEDSWrapperList_GetDataID CommandMessageID (tree_Requests t)"

definition IsServiceIdValid :: "SDMMessage_ID \<Rightarrow> xTEDSItemTree \<Rightarrow> bool" where
  "IsServiceIdValid RequestedId t = (\<not> SDMMessage_ID_eq (GetServiceDataID RequestedId t) (SDMMessage_ID_new 0 0))"

definition tree_VarInfoRequest :: "byte list \<Rightarrow> SDMMessage_ID \<Rightarrow> xTEDSItemTree \<Rightarrow> VariableDefinition list option" where
  "tree_VarInfoRequest VarName Interface t = xTEDSVariableList_VarInfoRequest (Some VarName) Interface (tree_Variables t)"

definition document_answers :: "(byte list \<Rightarrow> byte list \<Rightarrow> bool option) \<Rightarrow> xTEDSDocument \<Rightarrow> xTEDS" where
  "document_answers Regex d = (let t = m_TreeRoot d in
     \<lparr>getDeviceName = m_strDeviceName d, getSPAUHub = m_strSPAUHub d, getSPAUPort = m_strSPAUPort d, tree_ComponentKey = m_strComponentKey d,
      isCommandIdValid = (\<lambda>i. xTEDSWrapperList_ContainsMessage i (tree_Commands t)),
      getCommandFaultMsgID = (\<lambda>i. xTEDSWrapperList_GetFaultID i (tree_Commands t)),
      isServiceIdValid = (\<lambda>i. IsServiceIdValid i t),
      getServiceDataMsgID = (\<lambda>i. GetServiceDataID i t),
      getServiceFaultMsgID = (\<lambda>i. xTEDSWrapperList_GetFaultID i (tree_Requests t)),
      getNotificationFaultMsgID = (\<lambda>i. xTEDSWrapperList_GetFaultID i (tree_Notifications t)),
      RegInfo = xTEDS_RegInfo d, AllRegInfo = xTEDS_AllRegInfo d, RegexRegInfo = xTEDS_RegexRegInfo Regex d,
      getVarInfo = (\<lambda>n i. tree_VarInfoRequest n i t)\<rparr>)"

text \<open>The parser the registry calls: a text is rejected, or gives the answers of its document.\<close>

definition document_parser ::
    "(byte list \<Rightarrow> byte list \<Rightarrow> bool option) \<Rightarrow> (byte list \<Rightarrow> bool \<times> byte list) \<Rightarrow> (byte list \<Rightarrow> xteds option) \<Rightarrow> byte list \<Rightarrow> xTEDS option" where
  "document_parser Regex rate parsed txt = (case xTEDS_Parse rate (parsed txt) xTEDSDocument_new of
     Some (d, True) \<Rightarrow> Some (document_answers Regex d) | _ \<Rightarrow> None)"

end
