(* ===== verification/XTEDS_Queries.thy ===== *)
theory XTEDS_Queries
  imports XTEDS_Document
begin

text \<open>
  Properties of the objects of a document: the tree stays well-formed and is filled without undefined behaviour, a query by name
  answers with exactly the commands, notifications and requests that have the name, a text never leaves the buffers of the
  Data Manager's replies, the replies of a service are found by the id of its command; and what the defects of the
  code do to queries.
\<close>

section \<open>The invariant of the tree\<close>

definition location_ok :: "xTEDSLocation \<Rightarrow> bool" where
  "location_ok l = (loc_x l \<noteq> None \<and> loc_y l \<noteq> None \<and> loc_z l \<noteq> None \<and> loc_units l \<noteq> None)"

definition variable_ok :: "xTEDSVariable \<Rightarrow> bool" where
  "variable_ok v = (item_name v \<noteq> None \<and> item_interface_name v \<noteq> None \<and> m_strKind v \<noteq> None \<and> m_strInvalidValue v \<noteq> None
     \<and> pred_option location_ok (m_varLocation v))"

definition message_ok :: "xTEDSVariable list \<Rightarrow> 'a xTEDSMessage_scheme \<Rightarrow> bool" where
  "message_ok vs m = (item_name m \<noteq> None \<and> item_interface_name m \<noteq> None
     \<and> list_all (\<lambda>v. v \<in> set vs \<and> item_interface_name v = item_interface_name m) (m_Variables m))"

definition command_ok :: "xTEDSVariable list \<Rightarrow> xTEDSWrapper \<Rightarrow> bool" where
  "command_ok vs w = (case w of xTEDSCommand c f \<Rightarrow> message_ok vs c \<and> pred_option (message_ok vs) f | _ \<Rightarrow> False)"

definition notification_ok :: "xTEDSVariable list \<Rightarrow> xTEDSWrapper \<Rightarrow> bool" where
  "notification_ok vs w = (case w of xTEDSNotification d f \<Rightarrow> message_ok vs d \<and> pred_option (message_ok vs) f | _ \<Rightarrow> False)"

definition service_ok :: "xTEDSVariable list \<Rightarrow> xTEDSWrapper \<Rightarrow> bool" where
  "service_ok vs w = (case w of xTEDSRequest c d f \<Rightarrow> message_ok vs c \<and> message_ok vs d \<and> pred_option (message_ok vs) f | _ \<Rightarrow> False)"

definition tree_ok :: "xTEDSItemTree \<Rightarrow> bool" where
  "tree_ok t = (list_all variable_ok (tree_Variables t) \<and> list_all (command_ok (tree_Variables t)) (tree_Commands t)
     \<and> list_all (notification_ok (tree_Variables t)) (tree_Notifications t) \<and> list_all (service_ok (tree_Variables t)) (tree_Requests t))"

text \<open>A computation that ends, in a value with a property.\<close>

definition yields :: "'a option \<Rightarrow> ('a \<Rightarrow> bool) \<Rightarrow> bool" where
  "yields r P = (\<exists>x. r = Some x \<and> P x)"

lemma yields_Some [simp]: "yields (Some x) P = P x"
  by (simp add: yields_def)

lemma yields_bind: "yields r P \<Longrightarrow> (\<And>x. P x \<Longrightarrow> yields (f x) Q) \<Longrightarrow> yields (Option.bind r f) Q"
  by (auto simp: yields_def)

lemma yields_mono: "yields r P \<Longrightarrow> (\<And>x. P x \<Longrightarrow> Q x) \<Longrightarrow> yields r Q"
  by (auto simp: yields_def)

lemma yields_map [simp]: "yields (map_option f r) P = yields r (\<lambda>x. P (f x))"
  by (auto simp: yields_def)

section \<open>Filling the tree\<close>

lemma zero_after_space: "0 \<in> set p \<Longrightarrow> 0 \<in> set (dropWhile isspace p)"
  by (induction p) (auto simp: isspace_def)

lemma atoi_digits_ends: "0 \<in> set p \<Longrightarrow> atoi_digits n p \<noteq> None"
  by (induction n p rule: atoi_digits.induct) (auto simp: isdigit_def)

lemma atoi_ends: "yields (atoi (t @ [0])) (\<lambda>_. True)"
proof -
  have z: "0 \<in> set (dropWhile isspace (t @ [0]))" by (rule zero_after_space) simp
  then obtain b q where d: "dropWhile isspace (t @ [0]) = b # q" by (cases "dropWhile isspace (t @ [0])") auto
  with z have "b \<noteq> 0 \<Longrightarrow> 0 \<in> set q" by auto
  then show ?thesis using z d atoi_digits_ends [of q 0] atoi_digits_ends [of "b # q" 0]
    by (auto simp: atoi_def yields_def)
qed

lemma atoi_text_ends: "yields (atoi_text t d) (\<lambda>_. True)"
  using atoi_ends by (auto simp: atoi_text_def split: option.split)

lemma ptr_text_None [simp]: "ptr_text s = None \<longleftrightarrow> s = None"
  by (simp add: ptr_text_def text_of_def)

lemma ptr_text_simps [simp]: "ptr_text (Some (b, t)) = Some (chars t)" "ptr_text None = None"
  by (simp_all add: ptr_text_def text_of_def)

lemma setInterfaceID_ends: "yields (xTEDSItem_setInterfaceID t m) (\<lambda>_. True)"
  unfolding xTEDSItem_setInterfaceID_def by (rule yields_bind [OF atoi_text_ends]) simp

lemma setMessageID_ends: "yields (xTEDSMessage_setMessageID t m) (\<lambda>_. True)"
  unfolding xTEDSMessage_setMessageID_def by (rule yields_bind [OF atoi_text_ends]) simp

lemma precision_ends: "yields (case t of None \<Rightarrow> Some d | Some u \<Rightarrow> map_option of_int (atoi_text (Some u) 0)) (\<lambda>_. True)"
  using atoi_text_ends by (simp split: option.split)

lemma drange_ends: "VerifyVariable var \<Longrightarrow> yields (set_optional xTEDSDrange_setDRange (v_dranges var)) (\<lambda>_. True)"
  by (auto simp: VerifyVariable_def VerifyDrange_def set_optional_def xTEDSDrange_setDRange_def split: option.split)

lemma SetVariable_ok: "VerifyVariable var \<Longrightarrow> yields (xTEDSVariable_SetVariable var) variable_ok"
  unfolding xTEDSVariable_SetVariable_def
  apply (rule yields_bind [OF setInterfaceID_ends])
  apply (rule yields_bind [OF atoi_text_ends])
  apply (rule yields_bind [OF atoi_text_ends])
  apply (rule yields_bind [OF precision_ends])
  apply (rule yields_bind [OF drange_ends], assumption)
  apply (auto simp: VerifyVariable_def VerifyLocation_def variable_ok_def location_ok_def xTEDSLocation_setLocation_def option.pred_map pred_option_def split: option.splits)
  done

definition found_in :: "xTEDSVariable list \<Rightarrow> text_ptr \<Rightarrow> xTEDSVariable option \<Rightarrow> bool" where
  "found_in vs i r = pred_option (\<lambda>v. v \<in> set vs \<and> (i = None \<or> item_interface_name v = i)) r"

lemma Find_ok: "list_all variable_ok vs \<Longrightarrow> yields (Find_loop n i vs) (found_in vs i)"
  by (induction vs) (auto simp: found_in_def variable_ok_def and_then_def strcmp_eq_def ptr_match_def yields_def pred_option_def split: option.splits)

lemma find_variables_ok:
  "list_all variable_ok vs \<Longrightarrow>
   yields (find_variables vs i l) (pred_option (list_all (\<lambda>v. v \<in> set vs \<and> (i = None \<or> item_interface_name v = i))))"
proof (induction l)
  case (Cons r l)
  have "yields (xTEDSVariableList_Find (ptr_text (vr_name r)) i vs) (found_in vs i)"
    using Find_ok [OF Cons.prems] by (simp add: xTEDSVariableList_Find_def found_in_def split: option.split)
  then show ?case
    unfolding find_variables.simps
  proof (rule yields_bind)
    fix x assume x: "found_in vs i x"
    show "yields (case x of None \<Rightarrow> Some None | Some v \<Rightarrow> do { rest \<leftarrow> find_variables vs i l; Some (map_option ((#) v) rest) })
      (pred_option (list_all (\<lambda>v. v \<in> set vs \<and> (i = None \<or> item_interface_name v = i))))"
    proof (cases x)
      case (Some v)
      with x have v: "v \<in> set vs \<and> (i = None \<or> item_interface_name v = i)" by (simp add: found_in_def)
      show ?thesis unfolding Some option.case
        by (rule yields_bind [OF Cons.IH [OF Cons.prems]]) (use v in \<open>simp add: option.pred_map comp_def\<close>)
    qed simp
  qed
qed simp

lemma set_message_ok:
  assumes "list_all variable_ok vs" "name \<noteq> None" "iname \<noteq> None"
  shows "yields (set_message name ident descr iname iid quals vars vs) (pred_option (message_ok vs))"
  unfolding set_message_def
  apply (rule yields_bind [OF setMessageID_ends])
  apply (rule yields_bind [OF setInterfaceID_ends])
  apply (rule yields_bind [OF find_variables_ok [OF assms(1)]])
  using assms(2,3) apply (auto simp: message_ok_def option.pred_map pred_option_def)
  done


lemma SetDataMsg_ok:
  assumes "list_all variable_ok vs" "VerifyDataMsg d"
  shows "yields (SetDataMsg rate d vs) (pred_option (message_ok vs))"
  unfolding SetDataMsg_def
  by (rule yields_bind [OF set_message_ok [OF assms(1)]])
    (use assms(2) in \<open>auto simp: VerifyDataMsg_def verify_message_def option.pred_map pred_option_def message_ok_def xTEDSMessage.defs xTEDSDataMsg.defs\<close>)

lemma SetCommandMsg_ok: "list_all variable_ok vs \<Longrightarrow> VerifyCommandMsg c \<Longrightarrow> yields (SetCommandMsg c vs) (pred_option (message_ok vs))"
  by (auto simp: SetCommandMsg_def VerifyCommandMsg_def verify_message_def intro!: set_message_ok)

lemma SetFaultMsg_ok: "list_all variable_ok vs \<Longrightarrow> VerifyFaultMsg f \<Longrightarrow> yields (SetFaultMsg f vs) (pred_option (message_ok vs))"
  by (auto simp: SetFaultMsg_def VerifyFaultMsg_def verify_message_def intro!: set_message_ok)

lemma set_fault_ok:
  assumes "list_all variable_ok vs" "verify_fault f" "\<And>m. pred_option (message_ok vs) m \<Longrightarrow> P (w m)"
  shows "yields (set_fault f vs w) (pred_option P)"
proof (cases f)
  case (Some m)
  then have "VerifyFaultMsg m" using assms(2) by (simp add: verify_fault_def)
  show ?thesis unfolding set_fault_def Some option.case
    by (rule yields_bind [OF SetFaultMsg_ok [OF assms(1) \<open>VerifyFaultMsg m\<close>]]) (use assms(3) in \<open>auto simp: option.pred_map pred_option_def\<close>)
qed (simp add: set_fault_def assms(3))

text \<open>What a part does with the result of the part before: it goes on with a message that is well-formed.\<close>

lemma yields_or_fails:
  "yields r (pred_option P) \<Longrightarrow> (\<And>m. P m \<Longrightarrow> yields (f m) (pred_option Q)) \<Longrightarrow>
   yields (do { x \<leftarrow> r; case x of None \<Rightarrow> Some None | Some m \<Rightarrow> f m }) (pred_option Q)"
  by (auto simp: yields_def split: option.splits)

lemma SetCommand_ok:
  assumes "list_all variable_ok vs" "verify_head VerifyCommandMsg (c_command_message c)" "verify_fault (c_fault_message c)"
  shows "yields (SetCommand c vs) (pred_option (command_ok vs))"
proof -
  obtain cm l where c: "c_command_message c = cm # l" and v: "VerifyCommandMsg cm"
    using assms(2) by (cases "c_command_message c") (auto simp: verify_head_def)
  show ?thesis unfolding SetCommand_def c list.case
    by (rule yields_or_fails [OF SetCommandMsg_ok [OF assms(1) v]], rule set_fault_ok [OF assms(1,3)]) (simp add: command_ok_def)
qed

lemma SetNotification_ok:
  assumes "list_all variable_ok vs" "verify_head VerifyDataMsg (n_data_message n)" "verify_fault (n_fault_message n)"
  shows "yields (SetNotification rate n vs) (pred_option (notification_ok vs))"
proof -
  obtain d l where n: "n_data_message n = d # l" and v: "VerifyDataMsg d"
    using assms(2) by (cases "n_data_message n") (auto simp: verify_head_def)
  show ?thesis unfolding SetNotification_def n list.case
    by (rule yields_or_fails [OF SetDataMsg_ok [OF assms(1) v]], rule set_fault_ok [OF assms(1,3)]) (simp add: notification_ok_def)
qed

lemma SetRequest_ok:
  assumes "list_all variable_ok vs" "verify_head VerifyDataMsg (r_data_message q)" "verify_head VerifyCommandMsg (r_command_message q)"
    "verify_fault (r_fault_message q)"
  shows "yields (SetRequest rate q vs) (pred_option (service_ok vs))"
proof -
  obtain d l where d: "r_data_message q = d # l" and vd: "VerifyDataMsg d"
    using assms(2) by (cases "r_data_message q") (auto simp: verify_head_def)
  obtain c l' where c: "r_command_message q = c # l'" and vc: "VerifyCommandMsg c"
    using assms(3) by (cases "r_command_message q") (auto simp: verify_head_def)
  show ?thesis unfolding SetRequest_def c d prod.case list.case
    by (rule yields_or_fails [OF SetCommandMsg_ok [OF assms(1) vc]], rule yields_or_fails [OF SetDataMsg_ok [OF assms(1) vd]],
        rule set_fault_ok [OF assms(1,4)]) (simp add: service_ok_def)
qed

text \<open>A variable that is added keeps the references of the messages.\<close>

lemma message_ok_append: "message_ok vs m \<Longrightarrow> message_ok (vs @ ws) m"
  by (auto simp: message_ok_def list_all_iff)

lemma wrapper_ok_append:
  "command_ok vs w \<Longrightarrow> command_ok (vs @ ws) w" "notification_ok vs w \<Longrightarrow> notification_ok (vs @ ws) w" "service_ok vs w \<Longrightarrow> service_ok (vs @ ws) w"
  by (auto simp: command_ok_def notification_ok_def service_ok_def pred_option_def message_ok_append split: xTEDSWrapper.splits)

text \<open>An operation that adds to a tree.\<close>

locale tree_part =
  fixes add :: "'a \<Rightarrow> xTEDSItemTree \<Rightarrow> (xTEDSItemTree \<times> bool) option"
  assumes add_ok: "tree_ok root \<Longrightarrow> yields (add x root) (\<lambda>(root', _). tree_ok root')"
begin

lemma add_parts_ok: "tree_ok root \<Longrightarrow> yields (add_parts add l root) (\<lambda>(root', _). tree_ok root')"
proof (induction l arbitrary: root)
  case (Cons x l)
  show ?case unfolding add_parts.simps by (rule yields_bind [OF add_ok [OF Cons.prems]]) (use Cons.IH in \<open>auto\<close>)
qed simp

end

lemma add_step:
  "yields r (pred_option Q) \<Longrightarrow> tree_ok t \<Longrightarrow> (\<And>w. Q w \<Longrightarrow> tree_ok (g w)) \<Longrightarrow>
   yields (do { x \<leftarrow> r; Some (case x of None \<Rightarrow> (t, False) | Some w \<Rightarrow> (g w, True)) }) (\<lambda>(root', _). tree_ok root')"
  by (auto simp: yields_def split: option.splits)

lemma tree_ok_add:
  assumes "tree_ok t"
  shows "variable_ok v \<Longrightarrow> tree_ok (t\<lparr>tree_Variables := tree_Variables t @ [v]\<rparr>)"
    and "command_ok (tree_Variables t) w \<Longrightarrow> tree_ok (t\<lparr>tree_Commands := tree_Commands t @ [w]\<rparr>)"
    and "notification_ok (tree_Variables t) w \<Longrightarrow> tree_ok (t\<lparr>tree_Notifications := tree_Notifications t @ [w]\<rparr>)"
    and "service_ok (tree_Variables t) w \<Longrightarrow> tree_ok (t\<lparr>tree_Requests := tree_Requests t @ [w]\<rparr>)"
  using assms by (auto simp: tree_ok_def list_all_iff wrapper_ok_append)

lemma tree_ok_variables: "tree_ok t \<Longrightarrow> list_all variable_ok (tree_Variables t)"
  by (simp add: tree_ok_def)

interpretation variable_part: tree_part addVariable
proof
  fix var root assume t: "tree_ok root"
  show "yields (addVariable var root) (\<lambda>(root', _). tree_ok root')"
  proof (cases "VerifyVariable var")
    case True
    from SetVariable_ok [OF True] obtain v where "xTEDSVariable_SetVariable var = Some v" "variable_ok v" by (auto simp: yields_def)
    then show ?thesis using tree_ok_add(1) [OF t, of v] True by (simp add: addVariable_def AddVariable_def)
  qed (use t in \<open>simp add: addVariable_def\<close>)
qed

interpretation command_part: tree_part addCommand
  by unfold_locales (simp add: addCommand_def AddCommand_def add_step [OF SetCommand_ok [OF tree_ok_variables]] tree_ok_add(2))

interpretation notification_part: tree_part "addNotification rate" for rate
  by unfold_locales (simp add: addNotification_def AddNotification_def add_step [OF SetNotification_ok [OF tree_ok_variables]] tree_ok_add(3))

interpretation request_part: tree_part "addRequest rate" for rate
  by unfold_locales (simp add: addRequest_def AddRequest_def add_step [OF SetRequest_ok [OF tree_ok_variables]] tree_ok_add(4))

interpretation interface_part: tree_part "verified_interface rate" for rate
proof
  fix face root assume t: "tree_ok root"
  have "yields (addInterface rate face root) (\<lambda>(root', _). tree_ok root')"
    unfolding addInterface_def using t
    by (auto intro!: yields_bind [OF variable_part.add_parts_ok] yields_bind [OF command_part.add_parts_ok]
      yields_bind [OF notification_part.add_parts_ok] request_part.add_parts_ok)
  then show "yields (verified_interface rate face root) (\<lambda>(root', _). tree_ok root')"
    using t by (simp add: verified_interface_def)
qed

lemma Parse_keeps:
  assumes "x_header x \<noteq> None" "tree_ok (m_TreeRoot d)"
  shows "yields (xTEDS_Parse rate (Some x) d) (\<lambda>(d', b). tree_ok (m_TreeRoot d'))"
proof -
  obtain h where h: "x_header x = Some h" using assms(1) by blast
  have "yields (add_parts (verified_interface rate) (x_interfaces x) (m_TreeRoot d)) (\<lambda>(root', _). tree_ok root')"
    by (rule interface_part.add_parts_ok [OF assms(2)])
  then show ?thesis using assms(2) by (auto simp: xTEDS_Parse_def h Let_def yields_def)
qed

section \<open>Queries without qualifiers\<close>

definition message_answers :: "text_ptr \<Rightarrow> text_ptr \<Rightarrow> 'a xTEDSMessage_scheme \<Rightarrow> bool" where
  "message_answers n i m = ((i = None \<or> i = item_interface_name m) \<and> (n = None \<or> n = item_name m \<or> n \<in> item_name ` set (m_Variables m)))"

definition wrapper_answers :: "text_ptr \<Rightarrow> text_ptr \<Rightarrow> xTEDSWrapper \<Rightarrow> bool" where
  "wrapper_answers n i w = (case w of
     xTEDSCommand c f \<Rightarrow> message_answers n i c \<or> \<not> pred_option (\<lambda>m. \<not> message_answers n i m) f
   | xTEDSNotification d f \<Rightarrow> message_answers n i d \<or> \<not> pred_option (\<lambda>m. \<not> message_answers n i m) f
   | xTEDSRequest c d f \<Rightarrow> message_answers n i c \<or> message_answers n i d \<or> \<not> pred_option (\<lambda>m. \<not> message_answers n i m) f)"

definition tree_wrappers :: "xTEDSItemTree \<Rightarrow> xTEDSWrapper list" where
  "tree_wrappers t = tree_Commands t @ tree_Notifications t @ tree_Requests t"

lemma MatchesQualifier_Nil [simp]: "MatchesQualifier attrs [] = Some True"
  by (simp add: MatchesQualifier_def MatchesQualifier_loop.simps)

lemma or_else_Some [simp]: "or_else (Some a) (Some b) = Some (a \<or> b)" "or_else (Some True) x = Some True"
  by (simp_all add: or_else_def)

lemma and_then_Some [simp]: "and_then (Some a) (Some b) = Some (a \<and> b)" "and_then (Some True) x = x"
  by (simp_all add: and_then_def)

lemma ptr_match_Some: "t \<noteq> None \<Longrightarrow> ptr_match p t = Some (p = None \<or> p = t)"
  by (auto simp: ptr_match_def strcmp_eq_def split: option.splits)

lemma ptr_match_same: "p = None \<or> p = t \<Longrightarrow> ptr_match p t = Some True"
  by (cases p) (auto simp: ptr_match_def strcmp_eq_def)

lemma Parse_empty [simp]: "xTEDSQualifierList_Parse [] = Some []"
  by (simp add: xTEDSQualifierList_Parse_def QualifierList_loop.simps)

lemma variable_match: "variable_ok v \<Longrightarrow>
    xTEDSVariable_RegInfoMatch n [] i v = Some ((n = None \<or> n = item_name v) \<and> (i = None \<or> i = item_interface_name v))"
  by (simp add: xTEDSVariable_RegInfoMatch_def variable_ok_def ptr_match_Some xTEDSVariable_MatchesQualifier_def del: not_None_eq)

lemma variables_match: "list_all variable_ok l \<Longrightarrow>
    xTEDSVariableList_RegInfoMatch n [] i l = Some (\<exists>v\<in>set l. (n = None \<or> n = item_name v) \<and> (i = None \<or> i = item_interface_name v))"
  by (induction l) (simp_all add: variable_match)

lemma message_variables: "message_ok vs m \<Longrightarrow> list_all variable_ok vs \<Longrightarrow>
    xTEDSVariableList_RegInfoMatch n [] i (m_Variables m) = Some (\<exists>v\<in>set (m_Variables m). (n = None \<or> n = item_name v) \<and> (i = None \<or> i = item_interface_name m))"
  by (subst variables_match) (auto simp: message_ok_def list_all_iff)

lemma message_match:
  assumes "list_all variable_ok vs"
  shows "message_ok vs m \<Longrightarrow> xTEDSCommandMsg_RegInfoMatch n [] i m = Some (message_answers n i m)"
    and "message_ok vs m \<Longrightarrow> xTEDSFaultMsg_RegInfoMatch n [] i m = Some (message_answers n i m)"
    and "message_ok vs d \<Longrightarrow> xTEDSDataMsg_RegInfoMatch n [] i d = Some (message_answers n i d)"
  using assms message_variables [of vs m n i] message_variables [of vs d n i]
  by (auto simp: xTEDSCommandMsg_RegInfoMatch_def xTEDSFaultMsg_RegInfoMatch_def xTEDSDataMsg_RegInfoMatch_def message_ok_def ptr_match_Some
      xTEDSMessage_MatchesQualifier_def xTEDSDataMsg_MatchesQualifier_def message_answers_def image_iff)

lemma fault_match: "list_all variable_ok vs \<Longrightarrow> pred_option (message_ok vs) f \<Longrightarrow>
    fault_RegInfoMatch n [] i f = Some (\<not> pred_option (\<lambda>m. \<not> message_answers n i m) f)"
  by (cases f) (simp_all add: fault_RegInfoMatch_def message_match)

lemma tree_wrapper_ok: "tree_ok t \<Longrightarrow> w \<in> set (tree_wrappers t) \<Longrightarrow>
    command_ok (tree_Variables t) w \<or> notification_ok (tree_Variables t) w \<or> service_ok (tree_Variables t) w"
  by (auto simp: tree_ok_def tree_wrappers_def list_all_iff)

lemma wrapper_match:
  assumes "tree_ok t" "w \<in> set (tree_wrappers t)"
  shows "xTEDSWrapper_RegInfoMatch n [] i w = Some (wrapper_answers n i w)"
  using tree_wrapper_ok [OF assms] message_match [OF tree_ok_variables [OF assms(1)], of _ n i] fault_match [OF tree_ok_variables [OF assms(1)], of _ n i]
  by (cases w) (auto simp: command_ok_def notification_ok_def service_ok_def xTEDSWrapper_RegInfoMatch_def wrapper_answers_def)

lemma those_append: "those (a @ b) = do { x \<leftarrow> those a; y \<leftarrow> those b; Some (x @ y) }"
proof (induction a)
  case (Cons x a)
  then show ?case by (cases x; cases "those a"; cases "those b") simp_all
qed (simp split: bind_split)

lemma those_None: "None \<in> set l \<Longrightarrow> those l = None"
  by (induction l) (auto split: option.split)

lemma list_RegInfo: "(\<And>w. w \<in> set l \<Longrightarrow> xTEDSWrapper_RegInfoMatch n [] i w = Some (wrapper_answers n i w)) \<Longrightarrow>
    xTEDSWrapperList_RegInfo n [] i l = those (map (xTEDSWrapper_RegInfo n) (filter (wrapper_answers n i) l))"
  by (induction l) (auto split: option.splits bind_splits)

lemma ExactRegInfo_those:
  assumes "tree_ok t"
  shows "ExactRegInfo n [] i t = those (map (xTEDSWrapper_RegInfo n) (filter (wrapper_answers n i) (tree_wrappers t)))"
proof -
  have "xTEDSWrapperList_RegInfo n [] i l = those (map (xTEDSWrapper_RegInfo n) (filter (wrapper_answers n i) l))" if "set l \<subseteq> set (tree_wrappers t)" for l
    by (rule list_RegInfo) (use that wrapper_match [OF assms] in blast)
  from this [of "tree_Commands t"] this [of "tree_Notifications t"] this [of "tree_Requests t"] show ?thesis
    by (simp add: ExactRegInfo_def tree_wrappers_def those_append subset_iff)
qed


section \<open>Deleting definitions\<close>

text \<open>A definition that was joined to another is deleted with it; deleting it before makes the second deletion one too many. A
  request without a fault message deletes what it made.\<close>

lemma deleted_after_join:
  assumes "length (def_next h) = n" "def_deleted h = []"
  shows "(let (a, h) = MessageDef_new h; (b, h) = MessageDef_new h in
      Option.bind (MessageDef_delete b (MessageDef_Join a b h)) (MessageDef_delete a)) = None"
  using assms by (simp add: MessageDef_new_def MessageDef_Join_def MessageDef_delete_def nth_append)

lemma fault_deleted_twice [simp]: "request_definitions True \<lparr>def_next = [], def_deleted = []\<rparr> = None"
  using deleted_after_join [of "\<lparr>def_next = [None], def_deleted = []\<rparr>" 1]
  by (simp add: request_definitions_def MessageDef_new_def Let_def split: bind_splits)

lemma no_fault_deleted_once: "request_definitions False \<lparr>def_next = [], def_deleted = []\<rparr> = Some \<lparr>def_next = [None, None], def_deleted = [0, 1]\<rparr>"
  by (simp add: request_definitions_def MessageDef_new_def MessageDef_delete_def Let_def)

section \<open>Queries with more than one qualifier\<close>

lemma operator_loop_end: "index > 0 \<Longrightarrow> operator_loop l 0 index = []"
  by (induction l) simp_all

lemma never_matches: "length QualList \<ge> 2 \<Longrightarrow> MatchesQualifier attrs QualList \<noteq> Some True"
  by (auto simp: MatchesQualifier_def MatchesQualifier_loop.simps [of _ _ 0] MatchesQualifier_loop.simps [of _ _ "Suc 0"] xTEDSQualifierList_at_def operator_loop_end
      split: bind_splits)

lemma and_then_True: "and_then a b = Some True \<longleftrightarrow> a = Some True \<and> b = Some True"
  by (auto simp: and_then_def split: bind_splits)

lemma or_else_True: "or_else a b = Some True \<Longrightarrow> a = Some True \<or> b = Some True"
  by (auto simp: or_else_def split: bind_splits if_splits)

lemma variables_never_match: "length q \<ge> 2 \<Longrightarrow> xTEDSVariableList_RegInfoMatch n q i l \<noteq> Some True"
  by (induction l) (auto dest!: or_else_True simp: xTEDSVariable_RegInfoMatch_def xTEDSVariable_MatchesQualifier_def and_then_True never_matches)

lemma messages_never_match:
  assumes "length q \<ge> 2"
  shows "xTEDSCommandMsg_RegInfoMatch n q i m \<noteq> Some True" "xTEDSDataMsg_RegInfoMatch n q i d \<noteq> Some True"
    "xTEDSFaultMsg_RegInfoMatch n q i m \<noteq> Some True"
  using variables_never_match [OF assms] never_matches [OF assms]
  by (auto dest!: or_else_True simp: and_then_True xTEDSCommandMsg_RegInfoMatch_def xTEDSDataMsg_RegInfoMatch_def xTEDSFaultMsg_RegInfoMatch_def
      xTEDSMessage_MatchesQualifier_def xTEDSDataMsg_MatchesQualifier_def)

lemma fault_never_matches: "length q \<ge> 2 \<Longrightarrow> fault_RegInfoMatch n q i f \<noteq> Some True"
  by (simp add: fault_RegInfoMatch_def messages_never_match split: option.split)

lemma wrapper_never_matches: "length q \<ge> 2 \<Longrightarrow> xTEDSWrapper_RegInfoMatch n q i w \<noteq> Some True"
  using messages_never_match [of q n i] fault_never_matches [of q n i]
  by (cases w) (auto dest!: or_else_True simp: xTEDSWrapper_RegInfoMatch_def)

lemma list_never_matches: "length q \<ge> 2 \<Longrightarrow> xTEDSWrapperList_RegInfo n q i l \<in> {None, Some []}"
  by (induction l) (use wrapper_never_matches [of q n i] in \<open>auto split: bind_splits if_splits\<close>)

lemma exact_never_matches: "length q \<ge> 2 \<Longrightarrow> ExactRegInfo n q i t \<in> {None, Some []}"
  using list_never_matches [of q n i "tree_Commands t"] list_never_matches [of q n i "tree_Notifications t"] list_never_matches [of q n i "tree_Requests t"]
  by (auto simp: ExactRegInfo_def)

section \<open>Sizes\<close>

definition definition_fits :: "MessageDefinition \<Rightarrow> bool" where
  "definition_fits d = (length (GetDefinitions d) < MSG_DEF_SIZE \<and> length (GetxTEDSPortion d) < MSG_DEF_SIZE)"

lemma snprintf_fits: "n > 0 \<Longrightarrow> length (snprintf_text n t) < n"
  by (simp add: snprintf_text_def)

lemma wrapped_definition_fits: "definition_fits (wrapped_definition tag ident v parts)"
  using snprintf_fits [of MSG_DEF_SIZE] by (simp add: definition_fits_def wrapped_definition_def)

lemma wrapper_RegInfo_fits: "xTEDSWrapper_RegInfo n w = Some d \<Longrightarrow> definition_fits d"
  by (auto simp: xTEDSWrapper_RegInfo_def xTEDSCommand_RegInfo_def xTEDSNotification_RegInfo_def xTEDSRequest_RegInfo_def with_fault_def Let_def
      wrapped_definition_fits split: xTEDSWrapper.splits bind_splits option.splits if_splits)

lemma list_RegInfo_fits: "xTEDSWrapperList_RegInfo n q i l = Some ds \<Longrightarrow> list_all definition_fits ds"
  by (induction l arbitrary: ds) (auto simp: wrapper_RegInfo_fits split: bind_splits if_splits)

lemma list_Regex_fits: "xTEDSWrapperList_RegexRegInfo Regex p l = Some (Some ds) \<Longrightarrow> list_all definition_fits ds"
  by (induction l arbitrary: ds) (auto simp: wrapper_RegInfo_fits split: bind_splits if_splits option.splits)

lemma exact_fits: "ExactRegInfo n q i t = Some ds \<Longrightarrow> list_all definition_fits ds"
  by (auto simp: ExactRegInfo_def dest!: list_RegInfo_fits split: bind_splits)

lemma regex_fits: "tree_RegexRegInfo Regex p t = Some (Some ds) \<Longrightarrow> list_all definition_fits ds"
  by (auto simp: tree_RegexRegInfo_def dest!: list_Regex_fits split: bind_splits option.splits)

lemma query_fits:
  "xTEDS_RegInfo d n q dev i = Some ds \<Longrightarrow> list_all definition_fits ds"
  "xTEDS_AllRegInfo d q dev i = Some ds \<Longrightarrow> list_all definition_fits ds"
  "xTEDS_RegexRegInfo Regex d n q dev i = Some (Some ds) \<Longrightarrow> list_all definition_fits ds"
  by (auto simp: xTEDS_RegInfo_def xTEDS_AllRegInfo_def xTEDS_RegexRegInfo_def dest!: exact_fits regex_fits split: bind_splits if_splits)

lemma document_query_fits: "xtedsTree lib = Some (document_answers Regex d) \<Longrightarrow> query_tree k m lib = Some (Some ds) \<Longrightarrow> list_all definition_fits ds"
  by (auto simp: query_tree_def Let_def document_answers_def query_fits split: if_splits)

lemma memcpy_text: "length t < length dst \<Longrightarrow> memcpy dst 0 (t @ [0]) 0 (length t + 1) \<noteq> None"
  by (simp add: memcpy_def get_bytes_def put_bytes_def)

section \<open>Ids\<close>

lemma contains_iff: "xTEDSWrapper_ContainsMessage i w \<longleftrightarrow> i \<in> set (wrapper_ids w)"
  by (auto simp: xTEDSWrapper_ContainsMessage_def list_ex_iff SDMMessage_ID_eq_iff)

lemma data_id_of_request:
  "xTEDSRequest c d f \<in> set l \<Longrightarrow> distinct (concat (map wrapper_ids l)) \<Longrightarrow> i \<in> set (wrapper_ids (xTEDSRequest c d f)) \<Longrightarrow>
   xTEDSWrapperList_GetDataID i l = item_id d"
  by (induction l) (auto simp: contains_iff split: xTEDSWrapper.splits)

lemma fault_id_of_wrapper:
  "w \<in> set l \<Longrightarrow> distinct (concat (map wrapper_ids l)) \<Longrightarrow> i \<in> set (wrapper_ids w) \<Longrightarrow> xTEDSWrapperList_GetFaultID i l = GetFaultMessageID w"
  by (induction l) (auto simp: contains_iff)


section \<open>The layout of a message\<close>

definition variable_bytes :: "xTEDSVariable \<Rightarrow> int" where
  "variable_bytes v = format_size (m_dataFormat v) * m_iLength v"

text \<open>The variables of a message with the offsets of their values in the data.\<close>

primrec layout :: "int \<Rightarrow> xTEDSVariable list \<Rightarrow> (int \<times> xTEDSVariable) list" where
  "layout s [] = []"
| "layout s (v # l) = (s, v) # layout (s + variable_bytes v) l"

definition variable_text :: "int \<times> xTEDSVariable \<Rightarrow> byte list" where
  "variable_text p = (let (s, v) = p in
     chars ''Variable:'' @ itoa s @ 58 # itoa (m_iLength v) @ 58 # take 31 (case m_strScaleFactor v of None \<Rightarrow> chars ''1.0'' | Some t \<Rightarrow> t) @ 58 #
     the (m_strInvalidValue v) @ 58 # chars (getFormat (m_dataFormat v)) @ 61 # quoted_text (the (item_name v)))"

definition layout_text :: "int \<Rightarrow> xTEDSVariable list \<Rightarrow> byte list" where
  "layout_text s l = concat (map (\<lambda>p. SPACE_CHAR # variable_text p) (layout s l))"

lemma int32_id: "- (2 ^ 31) \<le> n \<Longrightarrow> n < 2 ^ 31 \<Longrightarrow> int32 n = n"
  by (simp add: int32_def signed_take_bit_int_eq_self)

lemma VarRegInfo_text:
  assumes "variable_ok v" "length (variable_text (s, v)) < MSG_DEF_SIZE" "0 \<le> s" "0 \<le> variable_bytes v" "s + variable_bytes v < 2 ^ 31"
  shows "xTEDSVariable_VarRegInfo s v = Some (variable_text (s, v), s + variable_bytes v)"
proof -
  obtain i n where i: "m_strInvalidValue v = Some i" and n: "item_name v = Some n" using assms(1) by (auto simp: variable_ok_def)
  have "int32 (s + int32 (format_size (m_dataFormat v) * m_iLength v)) = s + variable_bytes v"
    using assms(3-5) by (simp add: variable_bytes_def int32_id)
  then show ?thesis using assms(2) by (simp add: xTEDSVariable_VarRegInfo_def variable_text_def i n snprintf_text_def Let_def)
qed

lemma append_rest_fits: "length dst + length src < cap \<Longrightarrow> append_rest cap dst src = Some (dst @ src)"
  by (simp add: append_rest_def strncat_to_def)

lemma append_sub_fits: "length dst + length src < cap \<Longrightarrow> append_sub cap dst src = Some (dst @ src)"
  by (simp add: append_sub_def strncat_to_def)

lemma VarReqReg_text:
  assumes "list_all variable_ok l" "list_all (\<lambda>v. 0 \<le> variable_bytes v) l" "0 \<le> s" "s + sum_list (map variable_bytes l) < 2 ^ 31"
    "length (buf @ layout_text s l) < MSG_DEF_SIZE"
  shows "VarReqReg_loop l buf s = Some (buf @ layout_text s l, s + sum_list (map variable_bytes l))"
  using assms
proof (induction l arbitrary: buf s)
  case (Cons v l)
  have pos: "0 \<le> sum_list (map variable_bytes l)" using Cons.prems(2) by (auto intro!: sum_list_nonneg simp: list_all_iff)
  have "xTEDSVariable_VarRegInfo s v = Some (variable_text (s, v), s + variable_bytes v)"
    by (rule VarRegInfo_text) (use Cons.prems pos in \<open>auto simp: layout_text_def\<close>)
  moreover have "VarReqReg_loop l (buf @ SPACE_CHAR # variable_text (s, v)) (s + variable_bytes v)
      = Some ((buf @ SPACE_CHAR # variable_text (s, v)) @ layout_text (s + variable_bytes v) l, s + variable_bytes v + sum_list (map variable_bytes l))"
    by (rule Cons.IH) (use Cons.prems in \<open>auto simp: layout_text_def\<close>)
  ultimately show ?case using Cons.prems(5) by (simp add: append_rest_fits append_sub_fits layout_text_def)
qed (simp add: layout_text_def)

section \<open>A small document\<close>

text \<open>A pump with a command, a request and a variable, as the parser builds it and as a tree.\<close>

definition quoted_str :: "string \<Rightarrow> str" where
  "quoted_str t = Some (0, t)"

definition pump_interface :: interface where
  "pump_interface = (hd (fst (new_interface 0)))\<lparr>i_name := quoted_str ''Pump'', i_id := quoted_str ''1'',
     i_variables := map (\<lambda>v. v\<lparr>v_name := quoted_str ''level'', v_kind := quoted_str ''length'', v_format := quoted_str ''UINT08'',
       v_interface_name := quoted_str ''Pump'', v_interface_id := quoted_str ''1''\<rparr>) (fst (new_variable 0)),
     i_commands := map (\<lambda>c. c\<lparr>c_command_message := map (\<lambda>m. m\<lparr>cmd_name := quoted_str ''fill'', cmd_id := quoted_str ''2'',
       cmd_interface_name := quoted_str ''Pump'', cmd_interface_id := quoted_str ''1'',
       cmd_variables := fst (new_variable_ref 0 (quoted_str ''level''))\<rparr>) (fst (new_cmd_msg 0))\<rparr>) (fst (new_command 0))\<rparr>"

definition pump_document :: xteds where
  "pump_document = the (fst (new_xteds 0 (map_option (\<lambda>h. h\<lparr>ad_name := quoted_str ''Pump1'', ad_kind := quoted_str ''pump''\<rparr>) (fst (new_app_dev_attr 0)))))
     \<lparr>x_name := quoted_str ''Pumps'', x_interfaces := [pump_interface]\<rparr>"

definition pump_level :: xTEDSVariable where
  "pump_level = the (xTEDSVariable_SetVariable (hd (i_variables pump_interface)))"

definition pump_message :: "string \<Rightarrow> byte \<Rightarrow> xTEDSVariable list \<Rightarrow> xTEDSMessage" where
  "pump_message n k vs = \<lparr>item_name = Some (chars n), item_description = None, item_qualifiers = [], item_interface_name = Some (chars ''Pump''),
     item_id = SDMMessage_ID_new 1 k, m_Variables = vs\<rparr>"

definition pump_answer :: xTEDSDataMsg where
  "pump_answer = xTEDSMessage.extend (pump_message ''answer'' 4 [pump_level]) (xTEDSDataMsg.fields False (False, chars ''0.000000''))"

definition pump_tree :: "xTEDSMessage option \<Rightarrow> xTEDSDocument" where
  "pump_tree f = xTEDSDocument_new\<lparr>m_strDeviceName := Some (chars ''Pump1''), m_TreeRoot := \<lparr>tree_Variables = [pump_level],
     tree_Commands = [xTEDSCommand (pump_message ''fill'' 2 [pump_level]) None], tree_Notifications = [],
     tree_Requests = [xTEDSRequest (pump_message ''ask'' 3 []) pump_answer f]\<rparr>\<rparr>"

lemmas pump_document_simps = pump_document_def pump_interface_def new_xteds_def new_app_dev_attr_def new_interface_def new_variable_def
  new_command_def new_cmd_msg_def new_variable_ref_def quoted_str_def

lemma pump_level_values: "item_name pump_level = Some (chars ''level'') \<and> item_interface_name pump_level = Some (chars ''Pump'') \<and> variable_ok pump_level
    \<and> m_dataFormat pump_level = SDM_UINT08 \<and> m_iLength pump_level = 1 \<and> m_strInvalidValue pump_level = Some (chars ''NS'') \<and> m_strScaleFactor pump_level = None"
proof -
  have f: "format_of (Some [85, 73, 78, 84, 48, 56]) = SDM_UINT08" by (simp add: format_of_def)
  have a: "atoi [49, 0] = Some 1" by (simp add: atoi_def isspace_def isdigit_def)
  show ?thesis by (simp add: pump_level_def xTEDSVariable_SetVariable_def pump_document_simps xTEDSItem_setInterfaceID_def a f
    atoi_text_def set_optional_def variable_ok_def)
qed

lemma pump_tree_ok: "f = None \<or> f = Some (pump_message ''fault'' 5 []) \<Longrightarrow> tree_ok (m_TreeRoot (pump_tree f))"
  using pump_level_values
  by (auto simp: tree_ok_def pump_tree_def command_ok_def service_ok_def message_ok_def pump_message_def pump_answer_def xTEDSMessage.defs xTEDSDataMsg.defs)

lemma pump_parsed: "xTEDS_Parse rate (Some pump_document) xTEDSDocument_new
    = Some (xTEDSDocument_new\<lparr>m_strDeviceName := Some (chars ''Pump1''), m_TreeRoot := \<lparr>tree_Variables = [pump_level],
        tree_Commands = [xTEDSCommand (pump_message ''fill'' 2 [pump_level]) None], tree_Notifications = [], tree_Requests = []\<rparr>\<rparr>, True)"
proof -
  have a: "atoi [49, 0] = Some 1" "atoi [50, 0] = Some 2" by (simp_all add: atoi_def isspace_def isdigit_def)
  have v: "VerifyVariable (hd (i_variables pump_interface))"
    by (simp add: pump_document_simps VerifyVariable_def known_format_def)
  then have "xTEDSVariable_SetVariable (hd (i_variables pump_interface)) = Some pump_level"
    using SetVariable_ok by (fastforce simp: pump_level_def yields_def)
  with v have 1: "add_parts addVariable (i_variables pump_interface) (m_TreeRoot xTEDSDocument_new) = Some ((m_TreeRoot xTEDSDocument_new)\<lparr>tree_Variables := [pump_level]\<rparr>, True)"
    by (simp add: pump_document_simps addVariable_def AddVariable_def xTEDSDocument_new_def)
  have 2: "SetCommand (hd (i_commands pump_interface)) [pump_level] = Some (Some (xTEDSCommand (pump_message ''fill'' 2 [pump_level]) None))"
    using pump_level_values
    by (simp add: pump_document_simps SetCommand_def SetCommandMsg_def set_message_def xTEDSMessage_setMessageID_def xTEDSItem_setInterfaceID_def
      atoi_text_def a int32_def xTEDSVariableList_Find_def and_then_def strcmp_eq_def ptr_match_def set_fault_def pump_message_def
      item_qualifiers_of_def SDMMessage_ID_new_def)
  show ?thesis using 1 2
    by (simp add: xTEDS_Parse_def verified_interface_def addInterface_def pump_document_simps VerifyInterface_def text_of_def addCommand_def AddCommand_def
      verify_head_def verify_fault_def VerifyCommandMsg_def verify_message_def VerifyVarRefs_def xTEDSDocument_new_def set_text_def Let_def)
qed

definition pump_qualifiers :: "byte list" where
  "pump_qualifiers = chars ''< name='' @ [34, 97, 34] @ chars '' kind='' @ [34, 98, 34] @ chars '' />''"

lemma pump_qualifiers_two: "map_option length (xTEDSQualifierList_Parse pump_qualifiers) = Some 2"
  by code_simp

text \<open>A document of one command without data.\<close>

definition stop_document :: xTEDSDocument where
  "stop_document = xTEDSDocument_new\<lparr>m_TreeRoot := (m_TreeRoot xTEDSDocument_new)\<lparr>tree_Commands := [xTEDSCommand (pump_message ''stop'' 6 []) None]\<rparr>\<rparr>"

definition stop_definition :: MessageDefinition where
  "stop_definition = \<lparr>GetInterfaceMessageID = SDMMessage_ID_new 1 6,
     GetDefinitions = chars ''<CommandMsg'' @ attr_text ''name'' (chars ''stop'') @ attr_text ''id'' (chars ''262'') @ chars '' />'',
     GetxTEDSPortion = chars ''<CommandMsg'' @ attr_text ''name'' (chars ''stop'') @ attr_text ''id'' (chars ''262'') @ chars ''>''
       @ tab_line 1 @ chars ''</CommandMsg>''\<rparr>"

lemma stop_message: "xTEDSCommandMsg_RegInfo (pump_message ''stop'' 6 []) = Some stop_definition"
proof -
  have "sint (SDMMessage_ID_getInterfaceMessagePair (SDMMessage_ID_new 1 6)) = 262"
    by (simp add: SDMMessage_ID_getInterfaceMessagePair_def SDMMessage_ID_new_def)
  moreover have "itoa 262 = chars ''262''" by (simp add: itoa_def decimal.simps)
  ultimately have h: "message_head ''CommandMsg'' (pump_message ''stop'' 6 []) = Some (chars ''<CommandMsg'' @ attr_text ''name'' (chars ''stop'') @ attr_text ''id'' (chars ''262''))"
    by (simp add: message_head_def pump_message_def)
  have d: "message_definitions ''CommandMsg'' (pump_message ''stop'' 6 []) = Some (GetDefinitions stop_definition)"
    unfolding message_definitions_def h
    by (simp add: stop_definition_def pump_message_def attr_text_def quoted_text_def snprintf_text_def append_rest_def strncat_to_def)
  have x: "message_xTEDSInfo ''CommandMsg'' (chars ''<CommandMsg'' @ attr_text ''name'' (chars ''stop'') @ attr_text ''id'' (chars ''262'')) (pump_message ''stop'' 6 [])
    = Some (GetxTEDSPortion stop_definition)"
    by (simp add: message_xTEDSInfo_def stop_definition_def pump_message_def attr_text_def quoted_text_def snprintf_text_def strncat_size_def strncat_to_def tab_line_def)
  show ?thesis unfolding xTEDSCommandMsg_RegInfo_def h bind.bind_lunit message_RegInfo_def d x
    by (simp add: stop_definition_def pump_message_def)
qed

definition stop_entry :: xTEDSLibrary where
  "stop_entry = xTEDSLibrary_new\<lparr>xtedsTree := Some (document_answers (\<lambda>_ _. Some True) stop_document)\<rparr>"

definition stop_answer :: MessageDefinition where
  "stop_answer = wrapped_definition ''Command'' (SDMMessage_ID_new 1 6) [] [stop_definition]"

lemma stop_wrapper: "xTEDSWrapper_RegInfo None (xTEDSCommand (pump_message ''stop'' 6 []) None) = Some stop_answer"
proof -
  have "GetVariableXtedsDefinitions (pump_message ''stop'' 6 []) = Some []" by (simp add: GetVariableXtedsDefinitions_def pump_message_def)
  moreover have "GetInterfaceMessageID stop_definition = SDMMessage_ID_new 1 6" by (simp add: stop_definition_def)
  ultimately show ?thesis
    by (simp add: xTEDSWrapper_RegInfo_def xTEDSCommand_RegInfo_def stop_message with_fault_def asked_id_def ToStringConcatVariableDefs_def stop_answer_def)
qed

lemma stop_query: "query_tree REQTYPE_EMPTYITEM (SDMReqReg_new [0] [0] [0] [0]) stop_entry = Some (Some [stop_answer])"
proof -
  have "tree_ok (m_TreeRoot stop_document)"
    by (simp add: tree_ok_def stop_document_def xTEDSDocument_new_def command_ok_def message_ok_def pump_message_def)
  then have "xTEDS_AllRegInfo stop_document [] None None = Some [stop_answer]"
    by (simp add: xTEDS_AllRegInfo_def ptr_match_same ExactRegInfo_those stop_document_def xTEDSDocument_new_def tree_wrappers_def wrapper_answers_def
      message_answers_def stop_wrapper)
  then show ?thesis
    by (simp add: query_tree_def stop_entry_def document_answers_def Let_def SDMReqReg_new_def SDMmessage.defs cstr_def)
qed

section \<open>Properties\<close>

text \<open>C7. Filling the tree from a document the parser accepted, if it has a header, never reads through NULL, whatever is missing in
  it: the document is refused or added, and afterwards every variable has what its texts need, and every message refers to
  variables of the tree and of its own interface.\<close>

theorem document_filled:
  assumes "x_header x \<noteq> None" "tree_ok (m_TreeRoot d)"
  shows "\<exists>d' b. xTEDS_Parse rate (Some x) d = Some (d', b) \<and> tree_ok (m_TreeRoot d')"
  using Parse_keeps [OF assms, of rate] by (auto simp: yields_def)

theorem document_filled_witness:
  "\<exists>d b. xTEDS_Parse (\<lambda>_. (False, [])) (Some pump_document) xTEDSDocument_new = Some (d, b) \<and> tree_ok (m_TreeRoot d)
     \<and> b \<and> tree_Variables (m_TreeRoot d) = [pump_level]"
proof -
  have "x_header pump_document \<noteq> None" by (simp add: pump_document_simps)
  moreover have "tree_ok (m_TreeRoot xTEDSDocument_new)" by (simp add: tree_ok_def xTEDSDocument_new_def)
  ultimately have "\<exists>d b. xTEDS_Parse (\<lambda>_. (False, [])) (Some pump_document) xTEDSDocument_new = Some (d, b) \<and> tree_ok (m_TreeRoot d)"
    by (rule document_filled)
  then show ?thesis by (simp add: pump_parsed)
qed

text \<open>C8. A query for a name without qualifiers answers with the definitions of the commands, notifications and requests, in this
  order, one of whose messages of the interface asked for has the name or refers to a variable of that name.\<close>

theorem query_by_name:
  assumes "tree_ok (m_TreeRoot d)" "dev = None \<or> dev = m_strDeviceName d"
  shows "xTEDS_RegInfo d n [] dev i
    = those (map (xTEDSWrapper_RegInfo (Some n)) (filter (wrapper_answers (Some n) i) (tree_wrappers (m_TreeRoot d))))"
  by (simp add: xTEDS_RegInfo_def ptr_match_same [OF assms(2)] ExactRegInfo_those [OF assms(1)])

theorem query_by_name_witness:
  "tree_ok (m_TreeRoot (pump_tree None)) \<and>
   xTEDS_RegInfo (pump_tree None) (chars ''fill'') [] (Some (chars ''Pump1'')) (Some (chars ''Pump''))
     = those [xTEDSWrapper_RegInfo (Some (chars ''fill'')) (xTEDSCommand (pump_message ''fill'' 2 [pump_level]) None)]"
  using query_by_name [of "pump_tree None" "Some (chars ''Pump1'')" "chars ''fill''" "Some (chars ''Pump'')"] pump_tree_ok [of None] pump_level_values
  by (simp add: pump_tree_def tree_wrappers_def wrapper_answers_def message_answers_def pump_message_def pump_answer_def xTEDSMessage.defs xTEDSDataMsg.defs)

text \<open>C39. A query by name, or for everything, with two or more qualifiers is never answered: \<^verbatim>\<open>operator[]\<close> does not count, so the
  query ends without a match or reads through NULL. A query by regular expression does answer, but it looks neither at
  the qualifiers nor at the interface: it answers as without them.\<close>

theorem two_qualifiers_unanswered:
  assumes "xTEDSQualifierList_Parse q = Some l" "length l \<ge> 2"
  shows "xTEDS_RegInfo d n q dev i \<in> {None, Some []} \<and> xTEDS_AllRegInfo d q dev i \<in> {None, Some []}
    \<and> xTEDS_RegexRegInfo Regex d n q dev i = xTEDS_RegexRegInfo Regex d n [] dev None"
  using exact_never_matches [OF assms(2)]
  by (auto simp: xTEDS_RegInfo_def xTEDS_AllRegInfo_def xTEDS_RegexRegInfo_def assms(1) ptr_match_def split: bind_splits option.splits)

theorem two_qualifiers_unanswered_witness:
  "\<exists>l. xTEDSQualifierList_Parse pump_qualifiers = Some l \<and> length l \<ge> 2
     \<and> xTEDS_RegInfo (pump_tree None) (chars ''level'') pump_qualifiers None None \<in> {None, Some []}
     \<and> xTEDS_AllRegInfo (pump_tree None) pump_qualifiers None None \<in> {None, Some []}"
proof -
  obtain l where l: "xTEDSQualifierList_Parse pump_qualifiers = Some l" "length l = 2" using pump_qualifiers_two by auto
  then show ?thesis using two_qualifiers_unanswered [OF l(1), of "pump_tree None" "chars ''level''" None None] by auto
qed

text \<open>C40. A query that a request with a fault message answers is undefined: the definition of the fault message is deleted twice.\<close>

theorem request_fault_deleted_twice:
  assumes "tree_ok (m_TreeRoot d)" "xTEDSRequest c r (Some f) \<in> set (tree_Requests (m_TreeRoot d))"
    "wrapper_answers (Some n) i (xTEDSRequest c r (Some f))"
  shows "xTEDS_RegInfo d n [] None i = None"
proof -
  have "None \<in> set (map (xTEDSWrapper_RegInfo (Some n)) (filter (wrapper_answers (Some n) i) (tree_wrappers (m_TreeRoot d))))"
    using assms(2,3) by (auto simp: tree_wrappers_def image_iff xTEDSWrapper_RegInfo_def xTEDSRequest_RegInfo_def fault_deleted_twice Let_def
        intro!: bexI [of _ "xTEDSRequest c r (Some f)"] split: bind_splits)
  then have "those (map (xTEDSWrapper_RegInfo (Some n)) (filter (wrapper_answers (Some n) i) (tree_wrappers (m_TreeRoot d)))) = None"
    by (rule those_None)
  then show ?thesis
    by (simp add: xTEDS_RegInfo_def ptr_match_same ExactRegInfo_those [OF assms(1)])
qed

theorem request_fault_deleted_twice_witness:
  "tree_ok (m_TreeRoot (pump_tree (Some (pump_message ''fault'' 5 []))))
   \<and> xTEDS_RegInfo (pump_tree (Some (pump_message ''fault'' 5 []))) (chars ''ask'') [] None None = None"
  using request_fault_deleted_twice [of "pump_tree (Some (pump_message ''fault'' 5 []))" "pump_message ''ask'' 3 []" pump_answer "pump_message ''fault'' 5 []"
      "chars ''ask''" None] pump_tree_ok
  by (simp add: pump_tree_def wrapper_answers_def message_answers_def pump_message_def)

text \<open>C17. Whatever definition the tree of a document gives for a query of the Data Manager, the reply has room for it.\<close>

theorem answers_fit_reply:
  assumes "xtedsTree lib = Some (document_answers Regex d)" "query_tree k m lib = Some (Some ds)" "md \<in> set ds"
    "length (SDMRegInfo_msg_def info) = MSG_DEF_SIZE" "length (SDMRegInfo_xTEDS_section info) = MSG_DEF_SIZE"
  shows "\<exists>info'. fill_reginfo rid a ref lib md info = Some info'"
proof -
  have "definition_fits md" using document_query_fits [OF assms(1,2)] assms(3) by (simp add: list_all_iff)
  then show ?thesis using assms(4,5) memcpy_text [of "GetDefinitions md" "SDMRegInfo_msg_def info"]
      memcpy_text [of "GetxTEDSPortion md" "SDMRegInfo_xTEDS_section info"]
    by (auto simp: fill_reginfo_def Let_def definition_fits_def)
qed

theorem answers_fit_reply_witness:
  "query_tree REQTYPE_EMPTYITEM (SDMReqReg_new [0] [0] [0] [0]) stop_entry = Some (Some [stop_answer])
   \<and> (\<exists>info. fill_reginfo 1 (- 1) 0 stop_entry stop_answer (SDMRegInfo_new (replicate 12130 0) (replicate 12130 0)) = Some info)"
proof -
  have q: "query_tree REQTYPE_EMPTYITEM (SDMReqReg_new [0] [0] [0] [0]) stop_entry = Some (Some [stop_answer])" by (rule stop_query)
  have t: "xtedsTree stop_entry = Some (document_answers (\<lambda>_ _. Some True) stop_document)" by (simp add: stop_entry_def)
  show ?thesis using q answers_fit_reply [OF t q, of stop_answer "SDMRegInfo_new (replicate 12130 0) (replicate 12130 0)" 1 "- 1" 0]
    by (simp add: SDMRegInfo_new_def SDMmessage.defs)
qed

text \<open>C19. When the ids of a document's requests are distinct, the id of the command of a request gives the id of its reply and of its
  fault message, and the service is valid unless the reply has the id 0.\<close>

theorem service_ids:
  assumes "xTEDSRequest c r f \<in> set (tree_Requests (m_TreeRoot d))" "distinct (concat (map wrapper_ids (tree_Requests (m_TreeRoot d))))"
  shows "getServiceDataMsgID (document_answers Regex d) (item_id c) = item_id r
    \<and> getServiceFaultMsgID (document_answers Regex d) (item_id c) = (case f of None \<Rightarrow> SDMMessage_ID_new 0 0 | Some m \<Rightarrow> item_id m)
    \<and> (isServiceIdValid (document_answers Regex d) (item_id c) \<longleftrightarrow> item_id r \<noteq> SDMMessage_ID_new 0 0)"
  using data_id_of_request [OF assms, of "item_id c"] fault_id_of_wrapper [OF assms, of "item_id c"]
  by (simp add: document_answers_def Let_def GetServiceDataID_def IsServiceIdValid_def SDMMessage_ID_eq_iff wrapper_ids_def GetFaultMessageID_def)

theorem service_ids_witness:
  "getServiceDataMsgID (document_answers (\<lambda>_ _. Some True) (pump_tree None)) (SDMMessage_ID_new 1 3) = SDMMessage_ID_new 1 4
   \<and> isServiceIdValid (document_answers (\<lambda>_ _. Some True) (pump_tree None)) (SDMMessage_ID_new 1 3)"
  using service_ids [of "pump_message ''ask'' 3 []" pump_answer None "pump_tree None" "\<lambda>_ _. Some True"]
  by (simp add: pump_tree_def wrapper_ids_def fault_ids_def pump_message_def pump_answer_def xTEDSMessage.defs xTEDSDataMsg.defs SDMMessage_ID_new_def)

text \<open>C18. The definition of a message lists its variables with the offsets at which their values follow each other in the data, and the
  length of the data, when the text fits its buffer and the length an \<^verbatim>\<open>int\<close>.\<close>

theorem definition_layout:
  assumes "list_all variable_ok l" "list_all (\<lambda>v. 0 \<le> variable_bytes v) l" "sum_list (map variable_bytes l) < 2 ^ 31"
    "length (layout_text 0 l @ attr_text ''length'' (itoa (sum_list (map variable_bytes l)))) < MSG_DEF_SIZE"
  shows "xTEDSVariableList_VarReqReg l = Some (layout_text 0 l @ attr_text ''length'' (itoa (sum_list (map variable_bytes l))))"
  using VarReqReg_text [OF assms(1,2), of 0 "[]"] assms(3,4)
  by (simp add: xTEDSVariableList_VarReqReg_def append_rest_fits)

theorem definition_layout_witness:
  "xTEDSVariableList_VarReqReg [pump_level, pump_level]
     = Some (chars '' Variable:0:1:1.0:NS:UINT08='' @ quoted_text (chars ''level'') @ chars '' Variable:1:1:1.0:NS:UINT08='' @ quoted_text (chars ''level'')
         @ chars '' length='' @ quoted_text (chars ''2''))"
  using definition_layout [of "[pump_level, pump_level]"] pump_level_values
  by (simp add: layout_text_def variable_text_def variable_bytes_def format_size_def getFormat_def quoted_text_def attr_text_def itoa_def decimal.simps)

end
