(* ===== verification/Spec2Isabelle.thy ===== *)
theory Spec2Isabelle
  imports Message_Properties XTEDS_Properties Variable_Copy Var_Tree
    Subscriptions Provider_Subscriptions Reg_Queue Segment_Builder TM_Properties Startup_Config
    Code_Transfer DM_Clients XTEDS_Queries
begin

text \<open>
  A verification development of the Satellite Data Model (SDM), the middleware of a plug-and-play
  satellite, \<^verbatim>\<open>src/sdm/\<close>. Applications and devices describe themselves with an XML data sheet (xTEDS) and
  register it with the Data Manager (\<^verbatim>\<open>dm/\<close>); the Data Manager answers queries for data by introducing
  consumers to providers, which then talk to each other directly. The Task Manager (\<^verbatim>\<open>tm/\<close>) schedules tasks
  on the Process Managers (\<^verbatim>\<open>pm/\<close>) of the processors. All of them exchange the messages of
  \<^verbatim>\<open>common/message/\<close> over UDP and TCP.

  \<^bold>\<open>Conventions.\<close> A C buffer or \<^verbatim>\<open>char\<close> array is a list of bytes (\<^verbatim>\<open>8 word\<close>); an access outside it is
  \<^term>\<open>None\<close>, so a definition that returns a value has made no access out of bounds. Machine integers keep
  their width. A NULL pointer is \<^term>\<open>None\<close>. Allocation in the xTEDS tree is counted: every block has an
  address of its own, so that leaks and double frees can be stated. What the operating system contributes
  (the clock, the host's byte order, what \<^verbatim>\<open>send\<close> and \<^verbatim>\<open>recv\<close> return) is an argument: the record \<open>env\<close>.
  Uninitialised memory is an argument as well.

  \<^bold>\<open>Messages.\<close>
  \<^item> \<open>SDM_Prelude\<close>: buffers, C strings, byte encodings of words.
  \<^item> \<open>Marshall\<close>: the macros of \<^verbatim>\<open>common/marshall.h\<close> and the routines of \<^verbatim>\<open>common/marshall.c\<close>, for hosts of both
    byte orders; the macros agree with each other and with \<^verbatim>\<open>marshall.c\<close> on big-endian hosts, and are inverse to
    each other.
  \<^item> \<open>Checksum\<close>: \<^verbatim>\<open>common/checksum/\<close>; the table-driven step equals the bitwise one, an appended checksum
    verifies, and a damaged run of up to 32 bits is detected.
  \<^item> \<open>Message_IDs\<close>: \<^verbatim>\<open>SDMComponent_ID\<close> and \<^verbatim>\<open>SDMMessage_ID\<close>.
  \<^item> \<open>Message_Base\<close>: \<^verbatim>\<open>SDMmessage\<close>, the header and the send and receive methods, with the retry loop over
    the acknowledgement. The locale \<open>sdm_class\<close> is the contract of a message class; its lemmas (round
    trip, other types rejected, what is sent and received) are proved once.
  \<^item> \<open>Messages_Fixed\<close>, \<open>Messages_String\<close>, \<open>Messages_Data\<close>: the 36 message classes; each interprets \<open>sdm_class\<close>.
  \<^item> \<open>Message_Properties\<close>: what the classes and the transport give together.

  \<^bold>\<open>xTEDS.\<close>
  \<^item> \<open>XTEDS_Tree\<close>, \<open>XTEDS_Merge\<close>, \<open>XTEDS_References\<close>: the parse tree of \<^verbatim>\<open>common/xTEDS/xTEDSParser.c\<close>, the
    operations the grammar's actions call and the propagation of interface names and ids. The locales
    \<open>owned\<close> and \<open>attribute_merge\<close> state that a node owns its blocks and that a merge keeps or frees each.
  \<^item> \<open>XTEDS_Properties\<close>: deleting a tree frees each of its blocks exactly once.
  \<^item> \<open>XTEDS_Objects\<close>, \<open>XTEDS_Messages\<close>, \<open>XTEDS_Document\<close>: the classes of \<^verbatim>\<open>common/xTEDS/xTEDS*.cpp\<close> a registered document is kept in,
    their construction from the parse tree, the texts they render and the queries they answer; \<open>document_answers\<close> is what the
    registry of the Data Manager stores of them.
  \<^item> \<open>XTEDS_Queries\<close>: building the tree has no undefined behaviour and keeps it well-formed (the locale \<open>tree_part\<close> is an operation that
    adds to a tree), a name finds what has it, answers fit the replies, the layout of a message's data, the ids of services; what the
    defects in the handling of qualifiers and fault messages do.
  \<^item> \<open>Variable_Copy\<close>: \<^verbatim>\<open>common/VarInfoParser/Variable.c\<close>.
  \<^item> \<open>Var_Tree\<close>: \<^verbatim>\<open>common/MessageManipulator/message.c\<close>; its search tree refines a first-match index.

  \<^bold>\<open>Data Manager.\<close>
  \<^item> \<open>Subscriptions\<close>: \<^verbatim>\<open>dm/Subscription.cpp\<close> and \<^verbatim>\<open>dm/SubscriptionList.cpp\<close>; requests and cancellations refine
    operations on a finite set of subscriptions, with two exceptions for variable requests.
  \<^item> \<open>Provider_Subscriptions\<close>: \<^verbatim>\<open>dm/ProviderSubscriptionList.cpp\<close>; the subscriptions of a failed subscriber are cancelled at
    their providers.
  \<^item> \<open>Reg_Queue\<close>: \<^verbatim>\<open>common/SDMRegQueue.cpp\<close> and \<^verbatim>\<open>common/SDMCancelQueue.cpp\<close>; the locale \<open>fifo\<close> is a bounded queue.
  \<^item> \<open>Segment_Builder\<close>: \<^verbatim>\<open>dm/xTEDSSegmentBuilder.cpp\<close> and its use in \<^verbatim>\<open>dm/DM.cpp\<close>; a data sheet that arrives in
    segments, in order and no more than four at a time, is handed on complete and unchanged.
  \<^item> \<open>DM_Parse\<close>: \<^verbatim>\<open>dm/Parse.cpp\<close> and \<^verbatim>\<open>dm/DMUtils.cpp\<close>, what is read from a document before it is parsed, and the stored
    documents.
  \<^item> \<open>DM_Registry\<close>: \<^verbatim>\<open>dm/xTEDSLibrary.cpp\<close>, \<^verbatim>\<open>dm/xTEDSLibraryList.cpp\<close>, and the lookup and filling of entries in \<^verbatim>\<open>dm/DM.cpp\<close>.
  \<^item> \<open>Data_Manager\<close>, \<open>DM_Registration\<close>: the state of \<^verbatim>\<open>dm/DM.cpp\<close> and its handlers: subscriptions, commands, services, single
    and standing queries, registration, cancellation and failure of components.
  \<^item> \<open>DM_Properties\<close>: the invariant of the registry over every sequence of handlers (\<open>dm_step\<close>, \<open>dm_run\<close>).
  \<^item> \<open>DM_Handlers\<close>: a sensor id finds one entry; a new component is entered, told its id and acknowledged.
  \<^item> \<open>DM_Clients\<close>: subscribing and cancelling restores the state; where registering again, stored documents, standing queries
    and the cancellation of the own document do not do what they are meant to.

  \<^bold>\<open>Task Manager.\<close>
  \<^item> \<open>Task_List\<close>: \<^verbatim>\<open>common/task/SDMTaskResources.cpp\<close>, \<^verbatim>\<open>tm/task.cpp\<close>, \<^verbatim>\<open>tm/tasklist.cpp\<close>.
  \<^item> \<open>PM_Records\<close>: \<^verbatim>\<open>tm/pm_record.cpp\<close>, \<^verbatim>\<open>tm/pm_record_list.cpp\<close>; the choice of a manager and the counts of heartbeats.
  \<^item> \<open>Subscription_Manager\<close>: \<^verbatim>\<open>common/SubscriptionManager/SubscriptionManager.cpp\<close>; it refines a set of subscribers.
  \<^item> \<open>Task_Manager\<close>: the state and the handlers of \<^verbatim>\<open>tm/tm.cpp\<close>.
  \<^item> \<open>TM_Properties\<close>: the interleaving of the threads as the step relation \<open>tm_step\<close>, labelled with the events
    (\<open>tm_event\<close>) and without guards; what is assumed of the events is \<open>expected\<close>, and \<open>orderly_step\<close> is a step with an
    expected event. Over these, the load on record is the number of tasks on each manager. The first pending task
    reaches a manager, and the heartbeat thread removes managers that do not answer.
  \<^item> \<open>Startup_Config\<close>: the scanner of the startup file; a file written from a list of applications, in the one layout
    \<open>app_text\<close>, posts exactly these tasks.

  \<^bold>\<open>Process Manager.\<close>
  \<^item> \<open>PM_Processes\<close>: \<^verbatim>\<open>pm/PMProcess.cpp\<close>, \<^verbatim>\<open>pm/PMProcessList.cpp\<close>, \<^verbatim>\<open>pm/PendingTask.cpp\<close>; when a silent process is found
    unresponsive.
  \<^item> \<open>Process_Manager\<close>: the state and the handlers of \<^verbatim>\<open>pm/pm_main.cpp\<close> and \<^verbatim>\<open>pm/pm.cpp\<close>.
  \<^item> \<open>PM_Properties\<close>: the interleaving of its threads as \<open>pm_step\<close>, the invariant that no task is listed twice, the
    reports about a task that has ended, the search for a port.
  \<^item> \<open>Code_Transfer\<close>: the transfer of an executable, from \<^verbatim>\<open>SendCode\<close> of the Task Manager to \<^verbatim>\<open>GetCode\<close> of a Process
    Manager: the file arrives unchanged, a missing one is reported, a failed task is started again.

  \<^bold>\<open>Bounds.\<close> They are the source's own: messages of \<^verbatim>\<open>BUFSIZE\<close> bytes, queues of \<^verbatim>\<open>SIZE\<close> elements, 50 tasks and
  jobs, 8 Process Managers, a configuration file of 65536 bytes, the retry count of the transport. Loops
  are structural recursions, have a termination proof, or are partial functions whose termination is a property
  (\<^verbatim>\<open>FindAvailablePort\<close>). The walks over a list of message definitions (\<open>last_def\<close>, \<open>delete_defs\<close>) are bounded by the number
  of definitions that were made, which no list without a cycle exceeds.

  \<^bold>\<open>Not modelled.\<close> Text for logs (\<^verbatim>\<open>MsgToString\<close>, \<^verbatim>\<open>MessageLogger\<close>, debug output), sockets (system calls), generated
  scanners and parsers, and the PCRE library for VxWorks, which is third-party code. Device drivers
  (\<^verbatim>\<open>common/asim/\<close>, \<^verbatim>\<open>sm/\<close>) are input and output. Of the Data Manager: the code for backup managers and for merging
  documents, which other builds have; its listeners, and the C++ objects a document is queried through, which are the
  record \<open>xTEDS\<close> of the answers they give.
\<close>

end
